(* ===== verification/Py_Prelude.thy ===== *)
theory Py_Prelude
  imports Complex_Main
begin

text \<open>
  Shared vocabulary of the development: the Python values the test framework under
  \<^verbatim>\<open>src/qa\<close> manipulates, its exceptions, and the way its effectful functions are modelled.

  \<^item> \<open>pyval\<close> is the universe of dynamically typed values (the JSON values exchanged with the
    nodes, plus \<open>bytes\<close>, tuples and the two fractional number types). Dictionaries keep their
    insertion order; strings are lists of code points up to 255.
  \<^item> A function that may raise has a result of type \<open>'a res\<close>: \<open>Inl\<close> is the raised exception with
    its class, its message template and the values formatted into the template.
  \<^item> A function with effects is a \<open>prog\<close>: it takes the world and returns a result and the next
    world, or \<open>None\<close> when it never returns (a polling loop without a timeout). The \<open>world\<close>
    holds the module-level variables of the framework, the state of everything outside of it
    (\<open>ext\<close>: nodes, processes, files, clock) and the list of the external actions performed so
    far. The external actions themselves are the fields of \<open>env\<close>, a parameter of every
    definition that uses them.
\<close>

section \<open>Values and exceptions\<close>

datatype pyval =
    PNone
  | PBool bool
  | PInt int
  | PFloat rat
  | PDec rat
  | PStr string
  | PBytes "nat list"
  | PList "pyval list"
  | PTuple "pyval list"
  | PDict "(string \<times> pyval) list"

datatype exn_kind =
    AssertionError | RuntimeError | KeyError | IndexError | TypeError | ValueError
  | AttributeError | UnboundLocalError | TimeoutException | SCAPIException
  | JSONRPCException | EvmExecutionError | CalledProcessError | ConnectionError
  | ZeroDivisionError | PlainException | SystemExit

datatype pyerr = PyErr (err_kind: exn_kind) (err_msg: string) (err_args: "pyval list")

type_synonym 'a res = "pyerr + 'a"

definition rbind :: "'a res \<Rightarrow> ('a \<Rightarrow> 'b res) \<Rightarrow> 'b res" where
  "rbind r f = (case r of Inl e \<Rightarrow> Inl e | Inr x \<Rightarrow> f x)"

definition rerr :: "exn_kind \<Rightarrow> string \<Rightarrow> pyval list \<Rightarrow> 'a res" where
  "rerr k m a = Inl (PyErr k m a)"

fun rmap :: "('a \<Rightarrow> 'b res) \<Rightarrow> 'a list \<Rightarrow> 'b list res" where
  "rmap f [] = Inr []"
| "rmap f (x # xs) = rbind (f x) (\<lambda>y. rbind (rmap f xs) (\<lambda>ys. Inr (y # ys)))"

lemma rbind_simps [simp]:
  "rbind (Inl e) f = Inl e"
  "rbind (Inr x) f = f x"
  by (simp_all add: rbind_def)

lemma rbind_Inr_iff: "rbind r f = Inr y \<longleftrightarrow> (\<exists>x. r = Inr x \<and> f x = Inr y)"
  by (cases r) simp_all

lemma rmap_cong [fundef_cong]:
  assumes "xs = ys" and "\<And>x. x \<in> set ys \<Longrightarrow> f x = g x"
  shows "rmap f xs = rmap g ys"
  unfolding assms(1) using assms(2) by (induction ys) simp_all

lemma rmap_length: "rmap f xs = Inr ys \<Longrightarrow> length ys = length xs"
  by (induction xs arbitrary: ys) (auto simp: rbind_Inr_iff)

lemma rmap_Inr_iff: "rmap f xs = Inr ys \<longleftrightarrow> list_all2 (\<lambda>x y. f x = Inr y) xs ys"
  by (induction xs arbitrary: ys) (auto simp: rbind_Inr_iff list_all2_Cons1)

lemma rmap_pure [simp]: "rmap (\<lambda>x. Inr (f x)) xs = Inr (map f xs)"
  by (induction xs) simp_all

text \<open>\<open>any\<close> over a generator stops at the first true element.\<close>

fun rany :: "('a \<Rightarrow> bool res) \<Rightarrow> 'a list \<Rightarrow> bool res" where
  "rany f [] = Inr False"
| "rany f (x # xs) = rbind (f x) (\<lambda>b. if b then Inr True else rany f xs)"

lemma rany_True_iff: "rany f xs = Inr True \<Longrightarrow> \<exists>x \<in> set xs. f x = Inr True"
  by (induction xs) (auto simp: rbind_Inr_iff split: if_splits)

lemma rany_False_iff: "rany f xs = Inr False \<longleftrightarrow> (\<forall>x \<in> set xs. f x = Inr False)"
  by (induction xs) (auto simp: rbind_Inr_iff)

section \<open>Dictionaries, indexing, comparison\<close>

text \<open>
  Subscription \<open>d[k]\<close> raises \<open>KeyError\<close> on a missing key and \<open>TypeError\<close> on a value that has no
  string subscripts; \<open>dict_put\<close> is \<open>d[k] = v\<close>, which keeps the place of an existing key.
\<close>

fun dict_put :: "string \<Rightarrow> 'v \<Rightarrow> (string \<times> 'v) list \<Rightarrow> (string \<times> 'v) list" where
  "dict_put k v [] = [(k, v)]"
| "dict_put k v ((k', v') # d) = (if k = k' then (k, v) # d else (k', v') # dict_put k v d)"

lemma set_dict_put: "set (dict_put k v d) \<subseteq> insert (k, v) (set d)"
  by (induction k v d rule: dict_put.induct) auto

lemma keys_dict_put: "fst ` set (dict_put k v d) = insert k (fst ` set d)"
  by (induction k v d rule: dict_put.induct) auto

lemma distinct_dict_put: "distinct (map fst d) \<Longrightarrow> distinct (map fst (dict_put k v d))"
proof (induction k v d rule: dict_put.induct)
  case (2 k v k' v' d)
  then show ?case using keys_dict_put [of k v d] by auto
qed simp

lemma map_of_dict_put [simp]: "map_of (dict_put k v d) = (map_of d)(k \<mapsto> v)"
  by (induction k v d rule: dict_put.induct) (auto simp: fun_eq_iff)

lemma map_of_filter_key: "map_of (filter (\<lambda>kv. fst kv \<noteq> k) d) = (map_of d)(k := None)"
  by (induction d) (auto simp: fun_eq_iff)

fun py_get :: "pyval \<Rightarrow> string \<Rightarrow> pyval res" where
  "py_get (PDict d) k = (case map_of d k of None \<Rightarrow> rerr KeyError k [] | Some v \<Rightarrow> Inr v)"
| "py_get v k = rerr TypeError ''not subscriptable by a string'' [v]"

fun py_path :: "pyval \<Rightarrow> string list \<Rightarrow> pyval res" where
  "py_path v [] = Inr v"
| "py_path v (k # ks) = rbind (py_get v k) (\<lambda>w. py_path w ks)"

text \<open>\<open>k in v\<close> for a dictionary, a string (substring test) and a list of strings.\<close>

fun is_prefix :: "'a list \<Rightarrow> 'a list \<Rightarrow> bool" where
  "is_prefix (p # ps) s = (case s of [] \<Rightarrow> False | c # cs \<Rightarrow> p = c \<and> is_prefix ps cs)"
| "is_prefix [] s = True"

fun is_substr :: "string \<Rightarrow> string \<Rightarrow> bool" where
  "is_substr p [] = (p = [])"
| "is_substr p (c # cs) = (is_prefix p (c # cs) \<or> is_substr p cs)"

fun py_in :: "string \<Rightarrow> pyval \<Rightarrow> bool res" where
  "py_in k (PDict d) = Inr (k \<in> set (map fst d))"
| "py_in k (PStr s) = Inr (is_substr k s)"
| "py_in k (PList vs) = Inr (PStr k \<in> set vs)"
| "py_in k (PTuple vs) = Inr (PStr k \<in> set vs)"
| "py_in k v = rerr TypeError ''argument is not iterable'' [v]"

text \<open>Python's list indexing: a negative index counts from the end.\<close>

definition list_get :: "'a list \<Rightarrow> int \<Rightarrow> 'a res" where
  "list_get vs i =
     (let pos = (if 0 \<le> i then i else i + int (length vs))
      in if pos < 0 \<or> int (length vs) \<le> pos then rerr IndexError ''list index out of range'' [] else Inr (vs ! nat pos))"

fun py_items :: "pyval \<Rightarrow> pyval list res" where
  "py_items (PList vs) = Inr vs"
| "py_items (PTuple vs) = Inr vs"
| "py_items (PDict d) = Inr (map (\<lambda>kv. PStr (fst kv)) d)"
| "py_items (PStr s) = Inr (map (\<lambda>c. PStr [c]) s)"
| "py_items v = rerr TypeError ''object is not iterable'' [v]"

fun py_len :: "pyval \<Rightarrow> int res" where
  "py_len (PBytes b) = Inr (int (length b))"
| "py_len (PDict d) = Inr (int (length d))"
| "py_len (PList vs) = Inr (int (length vs))"
| "py_len (PTuple vs) = Inr (int (length vs))"
| "py_len (PStr s) = Inr (int (length s))"
| "py_len v = rerr TypeError ''object has no len()'' [v]"

definition py_nth :: "pyval \<Rightarrow> int \<Rightarrow> pyval res" where
  "py_nth v i = (case v of PDict d \<Rightarrow> rerr KeyError ''integer key'' [v]
                 | _ \<Rightarrow> rbind (py_items v) (\<lambda>vs. list_get vs i))"

text \<open>The numeric value of the number types (\<open>bool\<close> is an integer type in Python).\<close>

fun py_num :: "pyval \<Rightarrow> rat option" where
  "py_num (PBool b) = Some (if b then 1 else 0)"
| "py_num (PInt i) = Some (of_int i)"
| "py_num (PFloat q) = Some q"
| "py_num (PDec q) = Some q"
| "py_num _ = None"

text \<open>The operands of integer and of decimal arithmetic; \<open>Decimal\<close> and \<open>float\<close> do not mix. Floor
  division raises on zero.\<close>

fun as_int :: "pyval \<Rightarrow> int res" where
  "as_int (PInt i) = Inr i"
| "as_int (PBool b) = Inr (if b then 1 else 0)"
| "as_int v = rerr TypeError ''unsupported operand'' [v]"

fun as_str :: "pyval \<Rightarrow> string res" where
  "as_str (PStr s) = Inr s"
| "as_str v = rerr TypeError ''a string is expected'' [v]"

fun as_dec :: "pyval \<Rightarrow> rat res" where
  "as_dec (PDec q) = Inr q"
| "as_dec (PInt i) = Inr (of_int i)"
| "as_dec v = rerr TypeError ''unsupported operand'' [v]"

definition as_num :: "pyval \<Rightarrow> rat res" where
  "as_num v = (case py_num v of None \<Rightarrow> rerr TypeError ''not comparable'' [v] | Some q \<Rightarrow> Inr q)"

definition py_floordiv :: "int \<Rightarrow> int \<Rightarrow> int res" where
  "py_floordiv a b = (if b = 0 then rerr ZeroDivisionError ''integer division or modulo by zero'' [] else Inr (a div b))"

fun py_concat :: "pyval \<Rightarrow> pyval \<Rightarrow> pyval res" where
  "py_concat (PStr a) (PStr b) = Inr (PStr (a @ b))"
| "py_concat a b = rerr TypeError ''can only concatenate str'' [a, b]"

text \<open>Dictionaries with integer keys (the process tables).\<close>

fun tab_put :: "int \<Rightarrow> 'v \<Rightarrow> (int \<times> 'v) list \<Rightarrow> (int \<times> 'v) list" where
  "tab_put k v [] = [(k, v)]"
| "tab_put k v ((k', v') # d) = (if k = k' then (k, v) # d else (k', v') # tab_put k v d)"

definition tab_del :: "int \<Rightarrow> (int \<times> 'v) list \<Rightarrow> (int \<times> 'v) list" where
  "tab_del k d = filter (\<lambda>e. fst e \<noteq> k) d"

lemma map_of_tab_put [simp]: "map_of (tab_put k v d) = (map_of d)(k \<mapsto> v)"
  by (induction k v d rule: tab_put.induct) (auto simp: fun_eq_iff)

lemma map_of_tab_del [simp]: "map_of (tab_del k d) = (map_of d)(k := None)"
  by (induction d) (auto simp: tab_del_def fun_eq_iff)

lemma keys_tab_put: "fst ` set (tab_put k v d) = insert k (fst ` set d)"
  by (induction k v d rule: tab_put.induct) auto

lemma distinct_tab_put: "distinct (map fst d) \<Longrightarrow> distinct (map fst (tab_put k v d))"
proof (induction k v d rule: tab_put.induct)
  case (2 k v k' v' d)
  then show ?case using keys_tab_put [of k v d] by auto
qed simp

lemma distinct_tab_del: "distinct (map fst d) \<Longrightarrow> distinct (map fst (tab_del k d))"
  by (simp add: tab_del_def distinct_map_filter)

lemma tab_del_id: "k \<notin> fst ` set d \<Longrightarrow> tab_del k d = d"
  by (auto simp: tab_del_def filter_id_conv)

text \<open>
  \<open>==\<close>: numbers compare by value across the number types, dictionaries ignore the order of
  their keys, everything else is structural.
\<close>

lemma list_all2_fun_cong [fundef_cong]:
  assumes "xs = xs'" and "ys = ys'"
    and "\<And>x y. x \<in> set xs' \<Longrightarrow> y \<in> set ys' \<Longrightarrow> f x y = g x y"
  shows "list_all2 f xs ys = list_all2 g xs' ys'"
  using assms by (auto simp: list_all2_conv_all_nth)

fun py_eq :: "pyval \<Rightarrow> pyval \<Rightarrow> bool" where
  "py_eq (PList xs) v = (case v of PList ys \<Rightarrow> list_all2 py_eq xs ys | _ \<Rightarrow> False)"
| "py_eq (PTuple xs) v = (case v of PTuple ys \<Rightarrow> list_all2 py_eq xs ys | _ \<Rightarrow> False)"
| "py_eq (PDict d) v = (case v of PDict e \<Rightarrow>
      length d = length e \<and>
      list_all (\<lambda>kv. case map_of e (fst kv) of None \<Rightarrow> False | Some w \<Rightarrow> py_eq (snd kv) w) d
    | _ \<Rightarrow> False)"
| "py_eq u v = (case (py_num u, py_num v) of
      (Some a, Some b) \<Rightarrow> a = b
    | (None, None) \<Rightarrow> u = v
    | _ \<Rightarrow> False)"

text \<open>\<open>v in c\<close> for a container of values.\<close>

fun py_member :: "pyval \<Rightarrow> pyval \<Rightarrow> bool res" where
  "py_member v (PList vs) = Inr (list_ex (\<lambda>x. py_eq v x) vs)"
| "py_member v (PTuple vs) = Inr (list_ex (\<lambda>x. py_eq v x) vs)"
| "py_member v (PDict d) = Inr (list_ex (\<lambda>kv. py_eq v (PStr (fst kv))) d)"
| "py_member v c = rerr TypeError ''argument is not iterable'' [c]"

end
