(* ===== verification/Py_Effects.thy ===== *)
theory Py_Effects
  imports Py_Prelude
begin

text \<open>
  Effects: the world of the framework, the external services it uses, and the combinators its
  functions are written with. \<open>pbind\<close> is statement sequencing (an exception or a loop that does
  not return skips the rest), \<open>ptry\<close> is \<^verbatim>\<open>try ... except\<close>, \<open>pmap\<close> a list comprehension,
  \<open>pfold\<close> and \<open>piter\<close> a \<^verbatim>\<open>for\<close> loop with and without an accumulator.
\<close>

section \<open>Handles, events, the world\<close>

text \<open>
  What a client keeps of a node is its proxy object: the URL it talks to and, for a sidechain
  node, the data directory and the API key stored on it.
\<close>

record sc_node =
  sc_url :: string
  sc_dataDir :: string
  sc_auth_api_key :: "string option"

record mc_node =
  mc_url :: string
  mc_hostname :: string

datatype event =
    ScCall sc_node string "pyval list" "(string \<times> pyval) list"
  | McCall mc_node string "pyval list"
  | Spawned "string list" int
  | Waited int
  | RanCmd "string list"
  | MadeDirs string
  | WroteFile string string
  | RemovedFile string
  | RemovedTree string
  | CopiedTree string string
  | Slept rat

text \<open>
  The module-level variables of \<^verbatim>\<open>scutil.py\<close>, \<^verbatim>\<open>util.py\<close> and the account modules, the state of
  everything outside of the framework, and the actions performed on it so far. The two process
  tables are dictionaries from node index to process id. \<open>t_nodes\<close>, \<open>t_sc_nodes\<close> and \<open>t_split\<close> are the
  attributes \<^verbatim>\<open>nodes\<close>, \<^verbatim>\<open>sc_nodes\<close> and \<^verbatim>\<open>is_network_split\<close> of the test that is running; \<open>None\<close> is an
  attribute that has not been set, and \<^verbatim>\<open>sc_nodes\<close> may also be set to Python's \<^verbatim>\<open>None\<close>.
\<close>

record 'w world =
  sc_parallel_test :: int
  mc_parallel_test :: int
  is_jacoco_included :: bool
  sidechainclient_processes :: "(int \<times> int) list"
  bitcoind_processes :: "(int \<times> int) list"
  t_nodes :: "mc_node list option"
  t_sc_nodes :: "sc_node list option option"
  t_split :: "bool option"
  nodeModulesInstalled :: bool
  sigHashesGenerated :: bool
  w_calls :: "event list"
  w_ext :: 'w

text \<open>
  The external services, one field per operation of the standard library or of a node that the
  framework calls. Each maps the external state to a result and the next external state.
\<close>

record 'w env =
  e_sc_api :: "sc_node \<Rightarrow> string \<Rightarrow> pyval list \<Rightarrow> (string \<times> pyval) list \<Rightarrow> 'w \<Rightarrow> pyval res \<times> 'w"
  e_mc_api :: "mc_node \<Rightarrow> string \<Rightarrow> pyval list \<Rightarrow> 'w \<Rightarrow> pyval res \<times> 'w"
  e_time :: "'w \<Rightarrow> rat \<times> 'w"
  e_sleep :: "rat \<Rightarrow> 'w \<Rightarrow> 'w"
  e_pid :: int
  e_getenv :: "string \<Rightarrow> string option"
  e_repo_dir :: string
  e_home :: string
  e_windows :: bool
  e_isdir :: "string \<Rightarrow> 'w \<Rightarrow> bool"
  e_isfile :: "string \<Rightarrow> 'w \<Rightarrow> bool"
  e_makedirs :: "string \<Rightarrow> 'w \<Rightarrow> unit res \<times> 'w"
  e_read :: "string \<Rightarrow> 'w \<Rightarrow> string res \<times> 'w"
  e_write :: "string \<Rightarrow> string \<Rightarrow> 'w \<Rightarrow> unit res \<times> 'w"
  e_remove :: "string \<Rightarrow> 'w \<Rightarrow> unit res \<times> 'w"
  e_rmtree :: "string \<Rightarrow> 'w \<Rightarrow> unit res \<times> 'w"
  e_copytree :: "string \<Rightarrow> string \<Rightarrow> 'w \<Rightarrow> unit res \<times> 'w"
  e_popen :: "string list \<Rightarrow> 'w \<Rightarrow> int res \<times> 'w"
  e_wait :: "int \<Rightarrow> 'w \<Rightarrow> 'w"
  e_poll :: "int \<Rightarrow> 'w \<Rightarrow> int option \<times> 'w"
  e_run :: "string list \<Rightarrow> 'w \<Rightarrow> (int \<times> string \<times> string) res \<times> 'w"
  e_connect_ex :: "string \<Rightarrow> int \<Rightarrow> 'w \<Rightarrow> int \<times> 'w"
  e_shuffle :: "pyval list \<Rightarrow> 'w \<Rightarrow> pyval list \<times> 'w"
  e_randint :: "int \<Rightarrow> int \<Rightarrow> 'w \<Rightarrow> int \<times> 'w"
  e_urandom :: "nat \<Rightarrow> 'w \<Rightarrow> nat list \<times> 'w"

type_synonym ('w, 'a) prog = "'w world \<Rightarrow> ('a res \<times> 'w world) option"

section \<open>Combinators\<close>

definition pret :: "'a \<Rightarrow> ('w, 'a) prog" where
  "pret x = (\<lambda>s. Some (Inr x, s))"

definition praise :: "exn_kind \<Rightarrow> string \<Rightarrow> pyval list \<Rightarrow> ('w, 'a) prog" where
  "praise k m a = (\<lambda>s. Some (Inl (PyErr k m a), s))"

definition pthrow :: "pyerr \<Rightarrow> ('w, 'a) prog" where
  "pthrow e = (\<lambda>s. Some (Inl e, s))"

definition pbind :: "('w, 'a) prog \<Rightarrow> ('a \<Rightarrow> ('w, 'b) prog) \<Rightarrow> ('w, 'b) prog" where
  "pbind m f = (\<lambda>s. case m s of None \<Rightarrow> None
     | Some (r, s') \<Rightarrow> (case r of Inl e \<Rightarrow> Some (Inl e, s') | Inr x \<Rightarrow> f x s'))"

abbreviation pseq :: "('w, 'a) prog \<Rightarrow> ('w, 'b) prog \<Rightarrow> ('w, 'b) prog" where
  "pseq m n \<equiv> pbind m (\<lambda>_. n)"

definition plift :: "'a res \<Rightarrow> ('w, 'a) prog" where
  "plift r = (\<lambda>s. Some (r, s))"

definition ptry :: "('w, 'a) prog \<Rightarrow> (pyerr \<Rightarrow> ('w, 'a) prog) \<Rightarrow> ('w, 'a) prog" where
  "ptry m h = (\<lambda>s. case m s of None \<Rightarrow> None
     | Some (r, s') \<Rightarrow> (case r of Inl e \<Rightarrow> h e s' | Inr x \<Rightarrow> Some (Inr x, s')))"

definition pget :: "('w world \<Rightarrow> 'a) \<Rightarrow> ('w, 'a) prog" where
  "pget f = (\<lambda>s. Some (Inr (f s), s))"

definition pmodify :: "('w world \<Rightarrow> 'w world) \<Rightarrow> ('w, unit) prog" where
  "pmodify f = (\<lambda>s. Some (Inr (), f s))"

primrec pmap :: "('a \<Rightarrow> ('w, 'b) prog) \<Rightarrow> 'a list \<Rightarrow> ('w, 'b list) prog" where
  "pmap f [] = pret []"
| "pmap f (x # xs) = pbind (f x) (\<lambda>y. pbind (pmap f xs) (\<lambda>ys. pret (y # ys)))"

primrec pfold :: "('a \<Rightarrow> 'b \<Rightarrow> ('w, 'b) prog) \<Rightarrow> 'a list \<Rightarrow> 'b \<Rightarrow> ('w, 'b) prog" where
  "pfold f [] acc = pret acc"
| "pfold f (x # xs) acc = pbind (f x acc) (pfold f xs)"

primrec piter :: "('a \<Rightarrow> ('w, unit) prog) \<Rightarrow> 'a list \<Rightarrow> ('w, unit) prog" where
  "piter f [] = pret ()"
| "piter f (x # xs) = pseq (f x) (piter f xs)"

text \<open>The values of \<open>range(n)\<close> and \<open>range(a, b)\<close>.\<close>

definition py_range :: "int \<Rightarrow> int list" where
  "py_range n = [0..n - 1]"

text \<open>Performing an external operation, with and without a trace entry.\<close>

definition pext :: "('w \<Rightarrow> 'a res \<times> 'w) \<Rightarrow> ('w, 'a) prog" where
  "pext f = (\<lambda>s. case f (w_ext s) of (r, w) \<Rightarrow> Some (r, s\<lparr>w_ext := w\<rparr>))"

definition plog :: "event \<Rightarrow> ('w, unit) prog" where
  "plog ev = pmodify (\<lambda>s. s\<lparr>w_calls := w_calls s @ [ev]\<rparr>)"

definition pact :: "event \<Rightarrow> ('w \<Rightarrow> 'a res \<times> 'w) \<Rightarrow> ('w, 'a) prog" where
  "pact ev f = pseq (plog ev) (pext f)"

definition sc_call :: "'w env \<Rightarrow> sc_node \<Rightarrow> string \<Rightarrow> pyval list \<Rightarrow> ('w, pyval) prog" where
  "sc_call E n m args = pact (ScCall n m args []) (e_sc_api E n m args [])"

definition sc_call_kw :: "'w env \<Rightarrow> sc_node \<Rightarrow> string \<Rightarrow> (string \<times> pyval) list \<Rightarrow> ('w, pyval) prog" where
  "sc_call_kw E n m kw = pact (ScCall n m [] kw) (e_sc_api E n m [] kw)"

definition mc_call :: "'w env \<Rightarrow> mc_node \<Rightarrow> string \<Rightarrow> pyval list \<Rightarrow> ('w, pyval) prog" where
  "mc_call E n m args = pact (McCall n m args) (e_mc_api E n m args)"

definition py_time :: "'w env \<Rightarrow> ('w, rat) prog" where
  "py_time E = pext (\<lambda>w. case e_time E w of (t, w') \<Rightarrow> (Inr t, w'))"

definition py_sleep :: "'w env \<Rightarrow> rat \<Rightarrow> ('w, unit) prog" where
  "py_sleep E d = pact (Slept d) (\<lambda>w. (Inr (), e_sleep E d w))"

definition py_isdir :: "'w env \<Rightarrow> string \<Rightarrow> ('w, bool) prog" where
  "py_isdir E p = pext (\<lambda>w. (Inr (e_isdir E p w), w))"

definition py_isfile :: "'w env \<Rightarrow> string \<Rightarrow> ('w, bool) prog" where
  "py_isfile E p = pext (\<lambda>w. (Inr (e_isfile E p w), w))"

definition py_makedirs :: "'w env \<Rightarrow> string \<Rightarrow> ('w, unit) prog" where
  "py_makedirs E p = pact (MadeDirs p) (e_makedirs E p)"

definition py_write :: "'w env \<Rightarrow> string \<Rightarrow> string \<Rightarrow> ('w, unit) prog" where
  "py_write E p c = pact (WroteFile p c) (e_write E p c)"

definition py_wait :: "'w env \<Rightarrow> int \<Rightarrow> ('w, unit) prog" where
  "py_wait E p = pact (Waited p) (\<lambda>w. (Inr (), e_wait E p w))"

definition py_popen :: "'w env \<Rightarrow> string list \<Rightarrow> ('w, int) prog" where
  "py_popen E cmd = pbind (pext (e_popen E cmd)) (\<lambda>p. pseq (plog (Spawned cmd p)) (pret p))"

definition py_run :: "'w env \<Rightarrow> string list \<Rightarrow> ('w, int \<times> string \<times> string) prog" where
  "py_run E cmd = pact (RanCmd cmd) (e_run E cmd)"

text \<open>\<open>subprocess.check_call\<close>: a non-zero exit status raises \<open>CalledProcessError\<close>.\<close>

definition py_check_call :: "'w env \<Rightarrow> string list \<Rightarrow> ('w, unit) prog" where
  "py_check_call E cmd = pbind (py_run E cmd) (\<lambda>r.
     if fst r = 0 then pret () else praise CalledProcessError ''non-zero exit status'' [PInt (fst r)])"

section \<open>Evaluation rules\<close>

named_theorems prog_simps \<open>evaluation of programs applied to a world\<close>

lemma pret_run [prog_simps, simp]: "pret x s = Some (Inr x, s)"
  by (simp add: pret_def)

lemma praise_run [prog_simps, simp]: "praise k m a s = Some (Inl (PyErr k m a), s)"
  by (simp add: praise_def)

lemma pthrow_run [prog_simps, simp]: "pthrow e s = Some (Inl e, s)"
  by (simp add: pthrow_def)

lemma plift_run [prog_simps, simp]: "plift r s = Some (r, s)"
  by (simp add: plift_def)

lemma pget_run [prog_simps, simp]: "pget f s = Some (Inr (f s), s)"
  by (simp add: pget_def)

lemma pmodify_run [prog_simps, simp]: "pmodify f s = Some (Inr (), f s)"
  by (simp add: pmodify_def)

lemma plog_run [prog_simps, simp]: "plog ev s = Some (Inr (), s\<lparr>w_calls := w_calls s @ [ev]\<rparr>)"
  by (simp add: plog_def)

lemma pbind_run [prog_simps]:
  "pbind m f s = (case m s of None \<Rightarrow> None
     | Some (r, s') \<Rightarrow> (case r of Inl e \<Rightarrow> Some (Inl e, s') | Inr x \<Rightarrow> f x s'))"
  by (simp add: pbind_def)

lemma ptry_run [prog_simps]:
  "ptry m h s = (case m s of None \<Rightarrow> None
     | Some (r, s') \<Rightarrow> (case r of Inl e \<Rightarrow> h e s' | Inr x \<Rightarrow> Some (Inr x, s')))"
  by (simp add: ptry_def)

lemma pext_run [prog_simps]: "pext f s = Some (fst (f (w_ext s)), s\<lparr>w_ext := snd (f (w_ext s))\<rparr>)"
  by (simp add: pext_def split: prod.split)

lemma pact_run [prog_simps]:
  "pact ev f s = Some (fst (f (w_ext s)), s\<lparr>w_calls := w_calls s @ [ev], w_ext := snd (f (w_ext s))\<rparr>)"
  by (simp add: pact_def pbind_run pext_run)

lemma if_run [prog_simps]: "(if b then m else n) s = (if b then m s else n s)"
  by simp

lemmas ext_defs = sc_call_def sc_call_kw_def mc_call_def py_time_def py_sleep_def py_isdir_def
  py_isfile_def py_makedirs_def py_write_def py_wait_def py_popen_def py_run_def py_check_call_def

lemma sc_call_run:
  "sc_call E n m args s = Some (fst (e_sc_api E n m args [] (w_ext s)),
     s\<lparr>w_calls := w_calls s @ [ScCall n m args []], w_ext := snd (e_sc_api E n m args [] (w_ext s))\<rparr>)"
  by (simp add: sc_call_def pact_run)

lemma mc_call_run:
  "mc_call E n m args s = Some (fst (e_mc_api E n m args (w_ext s)),
     s\<lparr>w_calls := w_calls s @ [McCall n m args], w_ext := snd (e_mc_api E n m args (w_ext s))\<rparr>)"
  by (simp add: mc_call_def pact_run)

text \<open>How a sequence can end: normally, in its first part, or in its second.\<close>

lemma pbind_Inr_iff:
  "pbind m f s = Some (Inr y, t) \<longleftrightarrow> (\<exists>x u. m s = Some (Inr x, u) \<and> f x u = Some (Inr y, t))"
  by (auto simp: pbind_run split: option.splits sum.splits)

lemma pbind_InrE:
  assumes "pbind m f s = Some (Inr y, t)"
  obtains x u where "m s = Some (Inr x, u)" and "f x u = Some (Inr y, t)"
  using assms by (auto simp: pbind_Inr_iff)

lemma pbind_Inl_iff:
  "pbind m f s = Some (Inl e, t) \<longleftrightarrow>
     m s = Some (Inl e, t) \<or> (\<exists>x u. m s = Some (Inr x, u) \<and> f x u = Some (Inl e, t))"
  by (auto simp: pbind_run split: option.splits sum.splits)

lemma pbind_None_iff:
  "pbind m f s = None \<longleftrightarrow> m s = None \<or> (\<exists>x u. m s = Some (Inr x, u) \<and> f x u = None)"
  by (auto simp: pbind_run split: option.splits sum.splits)

lemma ptry_Inr_iff:
  "ptry m h s = Some (Inr y, t) \<longleftrightarrow>
     m s = Some (Inr y, t) \<or> (\<exists>e u. m s = Some (Inl e, u) \<and> h e u = Some (Inr y, t))"
  by (auto simp: ptry_run split: option.splits sum.splits)

lemma pbind_assoc: "pbind (pbind m f) g = pbind m (\<lambda>x. pbind (f x) g)"
  by (rule ext) (simp add: pbind_run split: option.split prod.split sum.split)

lemma pbind_pret [simp]: "pbind (pret x) f = f x" "pbind m pret = m"
  by (rule ext, simp add: pbind_run split: option.split prod.split sum.split)+

lemma pbind_praise [simp]: "pbind (praise k msg a) f = praise k msg a"
  by (rule ext) (simp add: pbind_run)

lemma pmap_Inr_length: "pmap f xs s = Some (Inr ys, t) \<Longrightarrow> length ys = length xs"
  by (induction xs arbitrary: s ys) (auto simp: pbind_Inr_iff)

text \<open>
  The sequencing combinators are monotone, so that loops written with them may be defined by
  \<^theory_text>\<open>partial_function (option)\<close>.
\<close>

lemma pbind_mono [partial_function_mono]:
  fixes m :: "('x \<Rightarrow> 'y option) \<Rightarrow> ('w, 'a) prog" and k :: "('x \<Rightarrow> 'y option) \<Rightarrow> 'a \<Rightarrow> ('w, 'b) prog"
  assumes "\<And>s. mono_option (\<lambda>f. m f s)" and "\<And>x s. mono_option (\<lambda>f. k f x s)"
  shows "mono_option (\<lambda>f. pbind (m f) (k f) s)"
proof (rule monotoneI)
  fix f g :: "'x \<Rightarrow> 'y option"
  assume fg: "option.le_fun f g"
  have m: "option_ord (m f s) (m g s)"
    using assms(1) [of s] fg by (auto simp: monotone_def)
  have k: "option_ord (k f x u) (k g x u)" for x u
    using assms(2) [of x u] fg by (auto simp: monotone_def)
  show "option_ord (pbind (m f) (k f) s) (pbind (m g) (k g) s)"
  proof (cases "m f s")
    case None
    then show ?thesis by (simp add: pbind_run flat_ord_def)
  next
    case (Some p)
    with m have "m g s = Some p" by (auto simp: flat_ord_def)
    with Some k show ?thesis
      by (simp add: pbind_run flat_ord_def split: sum.split prod.split)
  qed
qed

lemma ptry_mono [partial_function_mono]:
  fixes m :: "('x \<Rightarrow> 'y option) \<Rightarrow> ('w, 'a) prog" and h :: "('x \<Rightarrow> 'y option) \<Rightarrow> pyerr \<Rightarrow> ('w, 'a) prog"
  assumes "\<And>s. mono_option (\<lambda>f. m f s)" and "\<And>e s. mono_option (\<lambda>f. h f e s)"
  shows "mono_option (\<lambda>f. ptry (m f) (h f) s)"
proof (rule monotoneI)
  fix f g :: "'x \<Rightarrow> 'y option"
  assume fg: "option.le_fun f g"
  have m: "option_ord (m f s) (m g s)"
    using assms(1) [of s] fg by (auto simp: monotone_def)
  have h: "option_ord (h f e u) (h g e u)" for e u
    using assms(2) [of e u] fg by (auto simp: monotone_def)
  show "option_ord (ptry (m f) (h f) s) (ptry (m g) (h g) s)"
  proof (cases "m f s")
    case None
    then show ?thesis by (simp add: ptry_run flat_ord_def)
  next
    case (Some p)
    with m have "m g s = Some p" by (auto simp: flat_ord_def)
    with Some h show ?thesis
      by (simp add: ptry_run flat_ord_def split: sum.split prod.split)
  qed
qed

lemma if_prog_mono [partial_function_mono]:
  assumes "\<And>s. mono_option (\<lambda>f. m f s)" and "\<And>s. mono_option (\<lambda>f. n f s)"
  shows "mono_option (\<lambda>f. (if b then m f else n f) s)"
  by (cases b) (simp_all add: assms)

section \<open>Frame properties of external actions\<close>

text \<open>An external operation leaves the variables of the framework alone.\<close>

definition globals_of :: "'w world \<Rightarrow> int \<times> int \<times> bool \<times> (int \<times> int) list \<times> (int \<times> int) list" where
  "globals_of s = (sc_parallel_test s, mc_parallel_test s, is_jacoco_included s,
     sidechainclient_processes s, bitcoind_processes s)"

lemma pact_globals: "pact ev f s = Some (r, t) \<Longrightarrow> globals_of t = globals_of s"
  by (auto simp: pact_run globals_of_def)

lemma pext_globals: "pext f s = Some (r, t) \<Longrightarrow> globals_of t = globals_of s"
  by (auto simp: pext_run globals_of_def)

section \<open>Programs that leave a part of the world alone\<close>

text \<open>\<open>keeps f m\<close>: whenever \<open>m\<close> returns, normally or with an exception, the part \<open>f\<close> of the world is
  what it was. The rules follow the structure of a program.\<close>

definition keeps :: "('w world \<Rightarrow> 'b) \<Rightarrow> ('w, 'a) prog \<Rightarrow> bool" where
  "keeps f m \<longleftrightarrow> (\<forall>s r t. m s = Some (r, t) \<longrightarrow> f t = f s)"

named_theorems keep_intros \<open>rules for programs that leave a part of the world alone\<close>

lemma keepsD: "keeps f m \<Longrightarrow> m s = Some (r, t) \<Longrightarrow> f t = f s"
  by (simp add: keeps_def)

lemma keeps_basic [keep_intros]:
  "keeps f (pret x)" "keeps f (plift q)" "keeps f (praise k msg a)" "keeps f (pthrow e)" "keeps f (pget g)"
  by (simp_all add: keeps_def)

lemma keeps_pbind [keep_intros]:
  assumes "keeps f m" and "\<And>x. keeps f (k x)"
  shows "keeps f (pbind m k)"
  unfolding keeps_def
proof (intro allI impI)
  fix s r t
  assume run: "pbind m k s = Some (r, t)"
  show "f t = f s"
  proof (cases r)
    case (Inl e)
    with run show ?thesis using assms by (auto simp: pbind_Inl_iff dest: keepsD) (metis keepsD)
  next
    case (Inr y)
    with run show ?thesis using assms by (auto simp: pbind_Inr_iff) (metis keepsD)
  qed
qed

lemma keeps_ptry [keep_intros]:
  assumes "keeps f m" and "\<And>e. keeps f (h e)"
  shows "keeps f (ptry m h)"
  using assms by (fastforce simp: keeps_def ptry_run split: option.splits sum.splits)

lemma keeps_if [keep_intros]: "(b \<Longrightarrow> keeps f m) \<Longrightarrow> (\<not> b \<Longrightarrow> keeps f n) \<Longrightarrow> keeps f (if b then m else n)"
  by simp

lemma keeps_let [keep_intros]: "(\<And>x. keeps f (m x)) \<Longrightarrow> keeps f (let x = v in m x)"
  by simp

lemma keeps_case_option [keep_intros]:
  "keeps f m \<Longrightarrow> (\<And>x. keeps f (n x)) \<Longrightarrow> keeps f (case v of None \<Rightarrow> m | Some x \<Rightarrow> n x)"
  by (cases v) simp_all

lemma keeps_case_prod [keep_intros]: "(\<And>a b. keeps f (n a b)) \<Longrightarrow> keeps f (case p of (a, b) \<Rightarrow> n a b)"
  by (cases p) simp

lemma keeps_pmap [keep_intros]: "(\<And>x. keeps f (m x)) \<Longrightarrow> keeps f (pmap m xs)"
  by (induction xs) (auto intro!: keep_intros)

lemma keeps_piter [keep_intros]: "(\<And>x. keeps f (m x)) \<Longrightarrow> keeps f (piter m xs)"
  by (induction xs) (auto intro!: keep_intros)

lemma keeps_pfold [keep_intros]: "(\<And>x acc. keeps f (m x acc)) \<Longrightarrow> keeps f (pfold m xs acc)"
  by (induction xs arbitrary: acc) (auto intro!: keep_intros)

lemma keeps_pact: "(\<And>s w. f (s\<lparr>w_calls := w_calls s @ [ev], w_ext := w\<rparr>) = f s) \<Longrightarrow> keeps f (pact ev g)"
  by (auto simp: keeps_def pact_run)

lemma keeps_pext: "(\<And>s w. f (s\<lparr>w_ext := w\<rparr>) = f s) \<Longrightarrow> keeps f (pext g)"
  by (auto simp: keeps_def pext_run)

text \<open>The files written in a sequence of actions, with their contents.\<close>

fun written_by :: "event \<Rightarrow> (string \<times> string) list" where
  "written_by (WroteFile p c) = [(p, c)]"
| "written_by _ = []"

definition written :: "event list \<Rightarrow> (string \<times> string) list" where
  "written evs = concat (map written_by evs)"

lemma written_simps [simp]: "written [] = []" "written (evs @ evs') = written evs @ written evs'"
    "written (ev # evs) = written_by ev @ written evs"
  by (simp_all add: written_def)

abbreviation files_and_group :: "'w world \<Rightarrow> (string \<times> string) list \<times> int" where
  "files_and_group s \<equiv> (written (w_calls s), sc_parallel_test s)"

lemma files_and_group_calls [keep_intros]:
  "keeps files_and_group (sc_call E n m args)" "keeps files_and_group (mc_call E mn m args)"
  "keeps files_and_group (py_isdir E p)" "keeps files_and_group (py_isfile E p)" "keeps files_and_group (py_makedirs E p)"
  "keeps files_and_group (py_run E cmd)" "keeps files_and_group (pext g)"
  by (simp_all add: sc_call_def mc_call_def py_isdir_def py_isfile_def py_makedirs_def py_run_def keeps_pact keeps_pext)

lemma piter_each:
  assumes "piter f xs s = Some (Inr (), t)" and "x \<in> set xs"
  shows "\<exists>u v. f x u = Some (Inr (), v)"
  using assms by (induction xs arbitrary: s) (auto simp: pbind_Inr_iff)

end
