(* ===== verification/Sample_Env.thy ===== *)
theory Sample_Env
  imports Py_Effects
begin

text \<open>
  A concrete external world for evaluating the model on examples: a clock that only sleeping
  advances and a queue of node responses, consumed one per call. Files exist, directories do not,
  processes start with id 77, nothing else has an effect.
\<close>

type_synonym sample = "rat \<times> pyval res list"

fun next_response :: "sample \<Rightarrow> pyval res \<times> sample" where
  "next_response (t, []) = (rerr ConnectionError ''no response'' [], (t, []))"
| "next_response (t, r # rs) = (r, (t, rs))"

definition sample_env :: "sample env" where
  "sample_env = \<lparr>
     e_sc_api = \<lambda>n m a k. next_response,
     e_mc_api = \<lambda>n m a. next_response,
     e_time = \<lambda>w. (fst w, w),
     e_sleep = \<lambda>d w. (fst w + d, snd w),
     e_pid = 4242,
     e_getenv = \<lambda>v. None,
     e_repo_dir = ''/sdk'',
     e_home = ''/home/user'',
     e_windows = False,
     e_isdir = \<lambda>p w. False,
     e_isfile = \<lambda>p w. True,
     e_makedirs = \<lambda>p w. (Inr (), w),
     e_read = \<lambda>p w. (Inr [], w),
     e_write = \<lambda>p c w. (Inr (), w),
     e_remove = \<lambda>p w. (Inr (), w),
     e_rmtree = \<lambda>p w. (Inr (), w),
     e_copytree = \<lambda>p q w. (Inr (), w),
     e_popen = \<lambda>c w. (Inr 77, w),
     e_wait = \<lambda>p w. w,
     e_poll = \<lambda>p w. (None, w),
     e_run = \<lambda>c w. (Inr (0, [], []), w),
     e_connect_ex = \<lambda>h p w. (0, w),
     e_shuffle = \<lambda>xs w. (xs, w),
     e_randint = \<lambda>a b w. (a, w),
     e_urandom = \<lambda>n w. (replicate n 0, w)\<rparr>"

definition sample_world :: "int \<Rightarrow> rat \<Rightarrow> pyval res list \<Rightarrow> sample world" where
  "sample_world g t rs = \<lparr>sc_parallel_test = g, mc_parallel_test = g, is_jacoco_included = False,
     sidechainclient_processes = [], bitcoind_processes = [], t_nodes = None, t_sc_nodes = None, t_split = None,
     nodeModulesInstalled = False, sigHashesGenerated = False, w_calls = [], w_ext = (t, rs)\<rparr>"

definition sample_node :: "string \<Rightarrow> sc_node" where
  "sample_node u = \<lparr>sc_url = u, sc_dataDir = [], sc_auth_api_key = None\<rparr>"

definition sample_mc :: mc_node where
  "sample_mc = \<lparr>mc_url = ''mc'', mc_hostname = ''127.0.0.1''\<rparr>"

lemma sample_env_simps [simp]:
  "e_sc_api sample_env n m a k = next_response"
  "e_mc_api sample_env mn m a = next_response"
  "e_time sample_env w = (fst w, w)"
  "e_sleep sample_env d w = (fst w + d, snd w)"
  "e_pid sample_env = 4242"
  "e_getenv sample_env v = None"
  "e_repo_dir sample_env = ''/sdk''"
  "e_home sample_env = ''/home/user''"
  "e_windows sample_env = False"
  "e_isdir sample_env p w = False"
  "e_isfile sample_env p w = True"
  "e_makedirs sample_env p w = (Inr (), w)"
  "e_read sample_env p w = (Inr [], w)"
  "e_write sample_env p c w = (Inr (), w)"
  "e_remove sample_env p w = (Inr (), w)"
  "e_rmtree sample_env p w = (Inr (), w)"
  "e_copytree sample_env p q w = (Inr (), w)"
  "e_popen sample_env cmd w = (Inr 77, w)"
  "e_wait sample_env i w = w"
  "e_poll sample_env i w = (None, w)"
  "e_run sample_env cmd w = (Inr (0, [], []), w)"
  "e_connect_ex sample_env h i w = (0, w)"
  "e_shuffle sample_env xs w = (xs, w)"
  "e_randint sample_env i j w = (i, w)"
  "e_urandom sample_env l w = (replicate l 0, w)"
  by (simp_all add: sample_env_def)

text \<open>An environment of any state in which every operation succeeds and changes nothing.\<close>

definition idle_env :: "'w env" where
  "idle_env = \<lparr>
     e_sc_api = \<lambda>n m a k w. (Inr PNone, w),
     e_mc_api = \<lambda>n m a w. (Inr PNone, w),
     e_time = \<lambda>w. (0, w),
     e_sleep = \<lambda>d w. w,
     e_pid = 1,
     e_getenv = \<lambda>v. None,
     e_repo_dir = ''/sdk'',
     e_home = ''/home/user'',
     e_windows = False,
     e_isdir = \<lambda>p w. True,
     e_isfile = \<lambda>p w. True,
     e_makedirs = \<lambda>p w. (Inr (), w),
     e_read = \<lambda>p w. (Inr [], w),
     e_write = \<lambda>p c w. (Inr (), w),
     e_remove = \<lambda>p w. (Inr (), w),
     e_rmtree = \<lambda>p w. (Inr (), w),
     e_copytree = \<lambda>p q w. (Inr (), w),
     e_popen = \<lambda>c w. (Inr 77, w),
     e_wait = \<lambda>p w. w,
     e_poll = \<lambda>p w. (None, w),
     e_run = \<lambda>c w. (Inr (0, [], []), w),
     e_connect_ex = \<lambda>h p w. (0, w),
     e_shuffle = \<lambda>xs w. (xs, w),
     e_randint = \<lambda>a b w. (a, w),
     e_urandom = \<lambda>n w. (replicate n 0, w)\<rparr>"

end
