(* ===== verification/Polling.thy ===== *)
theory Polling
  imports Sample_Env
begin

text \<open>
  The shape of the framework's polling loops and what can be said of every loop of that shape. A
  timed loop gives up with an exception once \<open>wait_for\<close> seconds have passed since its start; an
  untimed loop polls until the check holds and may never return. Each loop of the framework is an
  interpretation of one of the two locales.
\<close>

section \<open>Programs that return\<close>

text \<open>
  \<open>runs clk m\<close>: the program \<open>m\<close> returns from every world and the clock does not go back while it
  runs. \<open>steady_clock\<close> is the documented behaviour of the clock the loops rely on: \<^verbatim>\<open>time.time()\<close>
  reports the current time, \<^verbatim>\<open>time.sleep(d)\<close> takes at least \<open>d\<close> seconds, and no request to a node
  turns the clock back.
\<close>

definition runs :: "('w \<Rightarrow> rat) \<Rightarrow> ('w, 'a) prog \<Rightarrow> bool" where
  "runs clk m \<longleftrightarrow> (\<forall>s. \<exists>r t. m s = Some (r, t) \<and> clk (w_ext s) \<le> clk (w_ext t))"

definition steady_clock :: "'w env \<Rightarrow> ('w \<Rightarrow> rat) \<Rightarrow> bool" where
  "steady_clock E clk \<longleftrightarrow>
     (\<forall>w. clk w \<le> fst (e_time E w) \<and> fst (e_time E w) \<le> clk (snd (e_time E w))) \<and>
     (\<forall>d w. clk w + d \<le> clk (e_sleep E d w)) \<and>
     (\<forall>n m a k w. clk w \<le> clk (snd (e_sc_api E n m a k w))) \<and>
     (\<forall>n m a w. clk w \<le> clk (snd (e_mc_api E n m a w)))"

definition rets :: "('w, 'a) prog \<Rightarrow> bool" where
  "rets m \<longleftrightarrow> (\<forall>s. \<exists>r t. m s = Some (r, t))"

lemma runs_rets: "runs clk m \<Longrightarrow> rets m"
  unfolding runs_def rets_def by blast

lemma rets_pbind:
  assumes m: "rets m" and f: "\<And>x. rets (f x)"
  shows "rets (pbind m f)"
  unfolding rets_def
proof
  fix s
  from m obtain r t where mt: "m s = Some (r, t)" unfolding rets_def by blast
  show "\<exists>r u. pbind m f s = Some (r, u)"
    using mt f unfolding rets_def by (cases r) (auto simp: pbind_run)
qed

lemma rets_basic: "rets (pret x)" "rets (praise k msg a)" "rets (plift r)" "rets (pget g)" "rets (pext f)"
  "rets (pact ev f)" "rets (sc_call E n m args)" "rets (mc_call E mn m args)" "rets (py_time E)" "rets (py_sleep E d)"
  by (simp_all add: rets_def ext_defs pext_run pact_run)

named_theorems runs_intros \<open>programs that return\<close>

lemma runs_pret [runs_intros]: "runs clk (pret x)"
  by (simp add: runs_def)

lemma runs_praise [runs_intros]: "runs clk (praise k m a)"
  by (simp add: runs_def)

lemma runs_plift [runs_intros]: "runs clk (plift r)"
  by (simp add: runs_def)

lemma runs_pget [runs_intros]: "runs clk (pget f)"
  by (simp add: runs_def)

lemma runs_pbind [runs_intros]:
  assumes m: "runs clk m" and f: "\<And>x. runs clk (f x)"
  shows "runs clk (pbind m f)"
  unfolding runs_def
proof
  fix s
  from m obtain r t where mt: "m s = Some (r, t)" and le: "clk (w_ext s) \<le> clk (w_ext t)"
    unfolding runs_def by blast
  show "\<exists>r u. pbind m f s = Some (r, u) \<and> clk (w_ext s) \<le> clk (w_ext u)"
  proof (cases r)
    case (Inl e)
    with mt le show ?thesis by (simp add: pbind_run)
  next
    case (Inr x)
    from f [of x] obtain r' u where "f x t = Some (r', u)" and "clk (w_ext t) \<le> clk (w_ext u)"
      unfolding runs_def by blast
    with mt le Inr show ?thesis by (auto simp: pbind_run)
  qed
qed

lemma runs_if [runs_intros]: "runs clk m \<Longrightarrow> runs clk n \<Longrightarrow> runs clk (if b then m else n)"
  by simp

lemma runs_case_option [runs_intros]:
  "runs clk n \<Longrightarrow> (\<And>x. runs clk (m x)) \<Longrightarrow> runs clk (case v of None \<Rightarrow> n | Some x \<Rightarrow> m x)"
  by (cases v) simp_all

lemma runs_pmap [runs_intros]: "(\<And>x. runs clk (f x)) \<Longrightarrow> runs clk (pmap f xs)"
  by (induction xs) (auto intro!: runs_intros)

lemma runs_pfold [runs_intros]: "(\<And>x a. runs clk (f x a)) \<Longrightarrow> runs clk (pfold f xs acc)"
  by (induction xs arbitrary: acc) (auto intro!: runs_intros)

lemma runs_piter [runs_intros]: "(\<And>x. runs clk (f x)) \<Longrightarrow> runs clk (piter f xs)"
  by (induction xs) (auto intro!: runs_intros)

lemma runs_sc_call [runs_intros]: "steady_clock E clk \<Longrightarrow> runs clk (sc_call E n m a)"
  by (simp add: runs_def sc_call_def pact_run steady_clock_def)

lemma runs_mc_call [runs_intros]: "steady_clock E clk \<Longrightarrow> runs clk (mc_call E mn m a)"
  by (simp add: runs_def mc_call_def pact_run steady_clock_def)

lemma sample_steady_clock: "steady_clock sample_env fst"
proof -
  have "fst w \<le> fst (snd (next_response w))" for w
    by (cases w rule: next_response.cases) simp_all
  then show ?thesis by (simp add: steady_clock_def)
qed

section \<open>The while statement\<close>

text \<open>\<open>py_loop body\<close> is \<^verbatim>\<open>while True\<close>: the body tells whether it ended in \<^verbatim>\<open>break\<close>.\<close>

partial_function (option) py_loop :: "('w, bool) prog \<Rightarrow> ('w, unit) prog" where
  "py_loop body s = pbind body (\<lambda>brk. if brk then pret () else py_loop body) s"

lemma py_loop_induct:
  assumes run: "py_loop body s = Some (r, t)"
    and err: "\<And>s e t. body s = Some (Inl e, t) \<Longrightarrow> P s (Inl e) t"
    and brk: "\<And>s t. body s = Some (Inr True, t) \<Longrightarrow> P s (Inr ()) t"
    and again: "\<And>s u r t. body s = Some (Inr False, u) \<Longrightarrow> P u r t \<Longrightarrow> P s r t"
  shows "P s r t"
proof -
  let ?Q = "\<lambda>body' s y. body' = body \<longrightarrow> P s (fst y) (snd y)"
  have "?Q body s (r, t)"
  proof (rule py_loop.raw_induct [of ?Q], goal_cases)
    case (1 f body' s' y)
    note IH = 1(1) and step = 1(2)
    show ?case
    proof
      assume b: "body' = body"
      show "P s' (fst y) (snd y)"
      proof (cases "body s'")
        case None
        with step b show ?thesis by (simp add: pbind_run)
      next
        case (Some p)
        obtain r' u where p: "p = (r', u)" by (cases p)
        consider e where "r' = Inl e" | "r' = Inr True" | "r' = Inr False" by (cases r') auto
        then show ?thesis
        proof cases
          case 1
          with step b Some p err show ?thesis by (auto simp: pbind_run)
        next
          case 2
          with step b Some p brk show ?thesis by (auto simp: pbind_run)
        next
          case 3
          with step b Some p have "f body u = Some y" by (simp add: pbind_run)
          with IH have "P u (fst y) (snd y)" by blast
          with 3 Some p again show ?thesis by blast
        qed
      qed
    qed
  qed (fact run)
  then show ?thesis by simp
qed

lemma keeps_py_loop [keep_intros]: assumes "keeps f body" shows "keeps f (py_loop body)"
  unfolding keeps_def
proof (intro allI impI)
  fix s r t assume "py_loop body s = Some (r, t)"
  then show "f t = f s" by (rule py_loop_induct) (use assms in \<open>auto dest: keepsD\<close>)
qed

lemma py_loop_break: "body s = Some (Inr True, t) \<Longrightarrow> py_loop body s = Some (Inr (), t)"
  by (subst py_loop.simps) (simp add: pbind_run)

lemma py_loop_raise: "body s = Some (Inl e, t) \<Longrightarrow> py_loop body s = Some (Inl e, t)"
  by (subst py_loop.simps) (simp add: pbind_run)

lemma py_loop_again: "body s = Some (Inr False, t) \<Longrightarrow> py_loop body s = py_loop body t"
  by (subst py_loop.simps) (simp add: pbind_run)

lemma py_loop_success:
  assumes "py_loop body s = Some (Inr (), t)"
  shows "\<exists>u. body u = Some (Inr True, t)"
proof -
  have "r = Inr () \<longrightarrow> (\<exists>u. body u = Some (Inr True, t))" if "py_loop body s = Some (r, t)" for r
    using that by (rule py_loop_induct) auto
  with assms show ?thesis by blast
qed

lemma py_loop_failure:
  assumes "py_loop body s = Some (Inl e, t)"
  shows "\<exists>u. body u = Some (Inl e, t)"
proof -
  have "\<forall>e. r = Inl e \<longrightarrow> (\<exists>u. body u = Some (Inl e, t))" if "py_loop body s = Some (r, t)" for r
    using that by (rule py_loop_induct) auto
  with assms show ?thesis by blast
qed

lemma py_loop_diverges:
  assumes step: "\<And>s. I s \<Longrightarrow> \<exists>t. body s = Some (Inr False, t) \<and> I t" and "I s"
  shows "py_loop body s = None"
proof -
  have "\<not> I s" if "py_loop body s = Some (r, t)" for s r t
    using that by (rule py_loop_induct) (use step in fastforce)+
  with \<open>I s\<close> show ?thesis by (cases "py_loop body s") auto
qed

text \<open>\<open>py_loop_with body x\<close> is the same statement with the local variables \<open>x\<close>, which a round may assign and
  which the code after the loop reads.\<close>

partial_function (option) py_loop_with :: "('a \<Rightarrow> ('w, bool \<times> 'a) prog) \<Rightarrow> 'a \<Rightarrow> ('w, 'a) prog" where
  "py_loop_with body x s = pbind (body x) (\<lambda>p. if fst p then pret (snd p) else py_loop_with body (snd p)) s"

lemma py_loop_with_induct:
  assumes run: "py_loop_with body x s = Some (r, t)"
    and err: "\<And>x s e t. body x s = Some (Inl e, t) \<Longrightarrow> P x s (Inl e) t"
    and brk: "\<And>x s y t. body x s = Some (Inr (True, y), t) \<Longrightarrow> P x s (Inr y) t"
    and again: "\<And>x s y u r t. body x s = Some (Inr (False, y), u) \<Longrightarrow> P y u r t \<Longrightarrow> P x s r t"
  shows "P x s r t"
proof -
  let ?Q = "\<lambda>body' x s y. body' = body \<longrightarrow> P x s (fst y) (snd y)"
  have "?Q body x s (r, t)"
  proof (rule py_loop_with.raw_induct [of ?Q "((body, x), s)" "(r, t)", unfolded prod.case], goal_cases)
    case (1 f body' x' s' y)
    note IH = 1(1) and step = 1(2)
    show ?case
    proof
      assume b: "body' = body"
      show "P x' s' (fst y) (snd y)"
      proof (cases "body x' s'")
        case None
        with step b show ?thesis by (simp add: pbind_run)
      next
        case (Some p)
        obtain r' u where p: "p = (r', u)" by (cases p)
        consider e where "r' = Inl e" | z where "r' = Inr (True, z)" | z where "r' = Inr (False, z)" by (cases r') auto
        then show ?thesis
        proof cases
          case 1
          with step b Some p err show ?thesis by (auto simp: pbind_run)
        next
          case 2
          with step b Some p brk show ?thesis by (auto simp: pbind_run)
        next
          case (3 z)
          with step b Some p have "f body z u = Some y" by (simp add: pbind_run)
          with IH have "P z u (fst y) (snd y)" by blast
          with 3 Some p again show ?thesis by blast
        qed
      qed
    qed
  qed (fact run)
  then show ?thesis by simp
qed

lemma py_loop_with_success:
  assumes "py_loop_with body x s = Some (Inr y, t)"
  shows "\<exists>z u. body z u = Some (Inr (True, y), t)"
proof -
  have "\<forall>y. r = Inr y \<longrightarrow> (\<exists>z u. body z u = Some (Inr (True, y), t))" if "py_loop_with body x s = Some (r, t)" for r
    using that by (rule py_loop_with_induct) auto
  with assms show ?thesis by blast
qed

text \<open>A round that does not leave the loop, as a step from one state of the loop to the next.\<close>

definition loop_step :: "('a \<Rightarrow> ('w, bool \<times> 'a) prog) \<Rightarrow> 'a \<times> 'w world \<Rightarrow> 'a \<times> 'w world \<Rightarrow> bool" where
  "loop_step body p q \<longleftrightarrow> body (fst p) (snd p) = Some (Inr (False, fst q), snd q)"

lemma py_loop_with_break: "body x s = Some (Inr (True, y), t) \<Longrightarrow> py_loop_with body x s = Some (Inr y, t)"
  by (subst py_loop_with.simps) (simp add: pbind_run)

lemma py_loop_with_raise: "body x s = Some (Inl e, t) \<Longrightarrow> py_loop_with body x s = Some (Inl e, t)"
  by (subst py_loop_with.simps) (simp add: pbind_run)

lemma py_loop_with_again: "body x s = Some (Inr (False, y), t) \<Longrightarrow> py_loop_with body x s = py_loop_with body y t"
  by (subst py_loop_with.simps) (simp add: pbind_run)

lemma py_loop_with_steps:
  assumes "(loop_step body)\<^sup>*\<^sup>* p q"
  shows "py_loop_with body (fst p) (snd p) = py_loop_with body (fst q) (snd q)"
  using assms by (induction rule: rtranclp_induct) (auto simp: loop_step_def py_loop_with_again)

lemma py_loop_with_rets:
  fixes m :: "'w world \<Rightarrow> nat"
  assumes "\<And>x s. \<exists>r t. body x s = Some (r, t) \<and> (\<forall>y. r = Inr (False, y) \<longrightarrow> m t < m s)"
  shows "rets (py_loop_with body x)"
proof -
  have "\<exists>r t. py_loop_with body x s = Some (r, t)" for x s
  proof (induction "m s" arbitrary: x s rule: less_induct)
    case less
    obtain r t where run: "body x s = Some (r, t)" and dec: "\<forall>y. r = Inr (False, y) \<longrightarrow> m t < m s" using assms by blast
    consider e where "r = Inl e" | y where "r = Inr (True, y)" | y where "r = Inr (False, y)" by (cases r) auto
    then show ?case
    proof cases
      case (3 y)
      with dec less have "\<exists>r u. py_loop_with body y t = Some (r, u)" by blast
      with 3 run show ?thesis by (simp add: py_loop_with_again)
    qed (use run in \<open>blast intro: py_loop_with_break py_loop_with_raise\<close>)+
  qed
  then show ?thesis by (simp add: rets_def)
qed

lemma keeps_py_loop_with [keep_intros]: assumes "\<And>x. keeps f (body x)" shows "keeps f (py_loop_with body x)"
  unfolding keeps_def
proof (intro allI impI)
  fix s r t assume "py_loop_with body x s = Some (r, t)"
  then show "f t = f s" by (rule py_loop_with_induct) (use assms in \<open>auto dest: keepsD\<close>)
qed

section \<open>Timed loops\<close>

definition poll_body :: "'w env \<Rightarrow> ('w, 'p) prog \<Rightarrow> ('p \<Rightarrow> ('w, bool) prog) \<Rightarrow> pyerr \<Rightarrow> rat \<Rightarrow> rat \<Rightarrow> ('w, bool) prog" where
  "poll_body E pre chk err start wait_for =
     pbind pre (\<lambda>p. pbind (py_time E) (\<lambda>now.
       if now - start \<ge> wait_for then pthrow err
       else pbind (chk p) (\<lambda>ok. if ok then pret True else pseq (py_sleep E 1) (pret False))))"

lemma py_time_Some: "\<exists>now t. py_time E s = Some (Inr now, t)"
  by (cases "e_time E (w_ext s)") (simp add: py_time_def pext_run)

lemma py_sleep_Some: "\<exists>t. py_sleep E d s = Some (Inr (), t)"
  by (simp add: py_sleep_def pact_run)

text \<open>
  Every loop of this kind is \<^verbatim>\<open>while True\<close> with a body of this form: \<open>pre\<close> is what is requested before
  the clock is read, \<open>chk\<close> the condition polled after it.
\<close>

locale timed_poll =
  fixes loop :: "'w env \<Rightarrow> 'x \<Rightarrow> rat \<Rightarrow> rat \<Rightarrow> ('w, unit) prog"
    and pre :: "'w env \<Rightarrow> 'x \<Rightarrow> ('w, 'p) prog"
    and chk :: "'w env \<Rightarrow> 'x \<Rightarrow> 'p \<Rightarrow> ('w, bool) prog"
    and err :: "'x \<Rightarrow> pyerr"
  assumes is_loop: "loop E x start wait_for = py_loop (poll_body E (pre E x) (chk E x) (err x) start wait_for)"
    and pre_runs: "steady_clock E clk \<Longrightarrow> runs clk (pre E x)"
    and chk_runs: "steady_clock E clk \<Longrightarrow> runs clk (chk E x p)"
begin

text \<open>A normal return comes straight from a check that held, in a round begun in time.\<close>

lemma success:
  assumes "loop E x start wait_for s = Some (Inr (), t)"
  shows "\<exists>u p v now w. pre E x u = Some (Inr p, v) \<and> py_time E v = Some (Inr now, w) \<and>
    now - start < wait_for \<and> chk E x p w = Some (Inr True, t)"
proof -
  from assms obtain u where "poll_body E (pre E x) (chk E x) (err x) start wait_for u = Some (Inr True, t)"
    unfolding is_loop by (blast dest: py_loop_success)
  then obtain p v now w ok z where *: "pre E x u = Some (Inr p, v)" "py_time E v = Some (Inr now, w)"
      "now - start < wait_for" "chk E x p w = Some (Inr ok, z)"
    and "(if ok then pret True else pseq (py_sleep E 1) (pret False)) z = Some (Inr True, t)"
    by (auto simp: poll_body_def pbind_Inr_iff not_le split: if_splits)
  then have "ok = True" and "z = t" by (auto simp: pbind_Inr_iff split: if_splits)
  with * show ?thesis by blast
qed

text \<open>An exception is the loop's own timeout, raised only when the time is up, or comes from a
  request.\<close>

lemma failure:
  assumes "loop E x start wait_for s = Some (Inl e, t)"
  shows "(e = err x \<and> (\<exists>u now. py_time E u = Some (Inr now, t) \<and> now - start \<ge> wait_for)) \<or>
    (\<exists>u. pre E x u = Some (Inl e, t)) \<or> (\<exists>p u. chk E x p u = Some (Inl e, t))"
proof -
  from assms obtain u where "poll_body E (pre E x) (chk E x) (err x) start wait_for u = Some (Inl e, t)"
    unfolding is_loop by (blast dest: py_loop_failure)
  moreover have "py_sleep E 1 v \<noteq> Some (Inl e, w)" "py_time E v \<noteq> Some (Inl e, w)" for v w
    using py_sleep_Some [of E 1 v] py_time_Some [of E v] by auto
  ultimately show ?thesis by (auto simp: poll_body_def pbind_Inl_iff split: if_splits)
qed

text \<open>With a clock that advances the loop always returns, after at most one round per second of
  \<open>wait_for\<close> and one more.\<close>

lemma returns:
  assumes "steady_clock E clk"
  shows "\<exists>r t. loop E x start wait_for s = Some (r, t)"
proof (induction "nat \<lceil>start + wait_for - clk (w_ext s)\<rceil>" arbitrary: s rule: less_induct)
  case less
  let ?body = "poll_body E (pre E x) (chk E x) (err x) start wait_for"
  obtain r1 s1 where 1: "pre E x s = Some (r1, s1)" "clk (w_ext s) \<le> clk (w_ext s1)"
    using pre_runs [OF assms, of x] unfolding runs_def by blast
  define now s2 where "now = fst (e_time E (w_ext s1))" and "s2 = s1\<lparr>w_ext := snd (e_time E (w_ext s1))\<rparr>"
  have 2: "py_time E s1 = Some (Inr now, s2)" "clk (w_ext s1) \<le> now" "now \<le> clk (w_ext s2)"
    using assms by (simp_all add: py_time_def pext_run now_def s2_def steady_clock_def split: prod.split)
  show ?case
  proof (cases r1)
    case (Inl e)
    with 1 have "?body s = Some (Inl e, s1)" by (simp add: poll_body_def pbind_run)
    then show ?thesis unfolding is_loop by (blast intro: py_loop_raise)
  next
    case (Inr p)
    obtain r3 s3 where 3: "chk E x p s2 = Some (r3, s3)" "clk (w_ext s2) \<le> clk (w_ext s3)"
      using chk_runs [OF assms, of x p] unfolding runs_def by blast
    show ?thesis
    proof (cases "now - start < wait_for \<and> r3 = Inr False")
      case False
      with 1 2 3 Inr have "(\<exists>e t. ?body s = Some (Inl e, t)) \<or> (\<exists>t. ?body s = Some (Inr True, t))"
        by (auto simp: poll_body_def pbind_run split: sum.split)
      then show ?thesis unfolding is_loop by (blast intro: py_loop_raise py_loop_break)
    next
      case True
      define s4 where "s4 = s3\<lparr>w_calls := w_calls s3 @ [Slept 1], w_ext := e_sleep E 1 (w_ext s3)\<rparr>"
      have 4: "py_sleep E 1 s3 = Some (Inr (), s4)" "clk (w_ext s3) + 1 \<le> clk (w_ext s4)"
        using assms by (simp_all add: py_sleep_def pact_run s4_def steady_clock_def)
      have "0 < start + wait_for - clk (w_ext s)" "start + wait_for - clk (w_ext s4) \<le> start + wait_for - clk (w_ext s) - 1"
        using True 1(2) 2(2,3) 3(2) 4(2) by linarith+
      then have "nat \<lceil>start + wait_for - clk (w_ext s4)\<rceil> < nat \<lceil>start + wait_for - clk (w_ext s)\<rceil>"
        by linarith
      with less obtain r t where "loop E x start wait_for s4 = Some (r, t)" by blast
      moreover have "?body s = Some (Inr False, s4)"
        using 1 2 3 4 Inr True by (simp add: poll_body_def pbind_run)
      ultimately show ?thesis unfolding is_loop by (auto simp: py_loop_again)
    qed
  qed
qed

lemma loop_rets: "steady_clock E clk \<Longrightarrow> rets (loop E x start wait_for)"
  unfolding rets_def using returns by blast

end

section \<open>Untimed loops\<close>

definition wait_body :: "'w env \<Rightarrow> ('w, bool) prog \<Rightarrow> rat \<Rightarrow> ('w, bool) prog" where
  "wait_body E chk wait = pbind chk (\<lambda>ok. if ok then pret True else pseq (py_sleep E wait) (pret False))"

locale untimed_poll =
  fixes loop :: "'w env \<Rightarrow> 'x \<Rightarrow> rat \<Rightarrow> ('w, unit) prog"
    and chk :: "'w env \<Rightarrow> 'x \<Rightarrow> ('w, bool) prog"
  assumes is_loop: "loop E x wait = py_loop (wait_body E (chk E x) wait)"
begin

lemma success:
  assumes "loop E x wait s = Some (Inr (), t)"
  shows "\<exists>u. chk E x u = Some (Inr True, t)"
proof -
  from assms obtain u where "wait_body E (chk E x) wait u = Some (Inr True, t)"
    unfolding is_loop by (blast dest: py_loop_success)
  then show ?thesis by (auto simp: wait_body_def pbind_Inr_iff split: if_splits)
qed

text \<open>As long as every check fails and sleeping keeps it so, the loop does not return.\<close>

lemma diverges:
  assumes step: "\<And>s. I s \<Longrightarrow> \<exists>t. chk E x s = Some (Inr False, t) \<and> (\<forall>u. py_sleep E wait t = Some (Inr (), u) \<longrightarrow> I u)"
    and "I s"
  shows "loop E x wait s = None"
  unfolding is_loop using _ \<open>I s\<close>
proof (rule py_loop_diverges)
  fix s
  assume "I s"
  from step [OF this] obtain t where "chk E x s = Some (Inr False, t)"
    and I: "\<And>u. py_sleep E wait t = Some (Inr (), u) \<Longrightarrow> I u" by blast
  moreover obtain u where "py_sleep E wait t = Some (Inr (), u)" using py_sleep_Some by blast
  ultimately show "\<exists>u. wait_body E (chk E x) wait s = Some (Inr False, u) \<and> I u"
    by (auto simp: wait_body_def pbind_run)
qed

text \<open>It returns as soon as a check holds.\<close>

lemma stops: "chk E x s = Some (Inr True, t) \<Longrightarrow> loop E x wait s = Some (Inr (), t)"
  unfolding is_loop by (rule py_loop_break) (simp add: wait_body_def pbind_run)

end

end
