(* ===== verification/Processes.thy ===== *)
theory Processes
  imports Polling
begin

text \<open>
  The contract of a process table, shared by the mainchain (\<^verbatim>\<open>bitcoind_processes\<close> in
  \<^verbatim>\<open>util.py\<close>) and the sidechain side (\<^verbatim>\<open>sidechainclient_processes\<close> in \<^verbatim>\<open>scutil.py\<close>): a dictionary
  from node index to process. Starting a node registers its process, stopping it waits for the
  process and forgets it, the final wait goes through all that are left.
\<close>

definition waits :: "event list \<Rightarrow> int list" where
  "waits evs = concat (map (\<lambda>ev. case ev of Waited p \<Rightarrow> [p] | _ \<Rightarrow> []) evs)"

lemma waits_simps [simp]:
  "waits [] = []" "waits (xs @ ys) = waits xs @ waits ys"
  "waits (ev # xs) = (case ev of Waited p \<Rightarrow> p # waits xs | _ \<Rightarrow> waits xs)"
  by (simp_all add: waits_def split: event.split)

lemma waits_map_Waited [simp]: "waits (map (\<lambda>e. Waited (f e)) d) = map f d"
  by (induction d) simp_all

text \<open>Waiting for a list of processes, in order.\<close>

lemma wait_each:
  "\<exists>t. piter (\<lambda>e. py_wait E (snd e)) d s = Some (Inr (), t) \<and> globals_of t = globals_of s \<and>
     w_calls t = w_calls s @ map (\<lambda>e. Waited (snd e)) d"
proof (induction d arbitrary: s)
  case (Cons e d)
  obtain u where u: "py_wait E (snd e) s = Some (Inr (), u)" "globals_of u = globals_of s"
    "w_calls u = w_calls s @ [Waited (snd e)]"
    by (simp add: py_wait_def pact_run globals_of_def)
  with Cons.IH [of u] show ?case by (auto simp: pbind_run)
qed simp

locale process_table =
  fixes tbl :: "'w world \<Rightarrow> (int \<times> int) list"
    and reap :: "'w env \<Rightarrow> int \<Rightarrow> ('w, unit) prog"
    and wait_all :: "'w env \<Rightarrow> ('w, unit) prog"
  assumes reap: "map_of (tbl s) i = Some p \<Longrightarrow> \<exists>t. reap E i s = Some (Inr (), t) \<and>
      tbl t = tab_del i (tbl s) \<and> w_calls t = w_calls s @ [Waited p]"
    and wait_all: "\<exists>t. wait_all E s = Some (Inr (), t) \<and> tbl t = [] \<and>
      w_calls t = w_calls s @ map (\<lambda>e. Waited (snd e)) (tbl s)"
begin

text \<open>Reaping all registered nodes, in any order, empties the table and waits for each process once.\<close>

lemma reap_all:
  assumes "distinct (map fst (tbl s))" and "distinct is" and "set is = fst ` set (tbl s)"
  shows "\<exists>t. piter (reap E) is s = Some (Inr (), t) \<and> tbl t = [] \<and>
    waits (w_calls t) = waits (w_calls s) @ map (\<lambda>i. the (map_of (tbl s) i)) is"
  using assms
proof (induction "is" arbitrary: s)
  case Nil
  then show ?case by simp
next
  case (Cons i "is")
  from Cons.prems(3) have "i \<in> fst ` set (tbl s)" by auto
  then obtain p where p: "map_of (tbl s) i = Some p"
    by (metis map_of_eq_None_iff option.exhaust)
  from reap [OF p, of E] obtain u where u: "reap E i s = Some (Inr (), u)" "tbl u = tab_del i (tbl s)"
    "w_calls u = w_calls s @ [Waited p]" by blast
  have "set is = fst ` set (tbl u)" using Cons.prems u(2) by (auto simp: tab_del_def)
  moreover have "distinct (map fst (tbl u))" using Cons.prems(1) u(2) by (simp add: distinct_tab_del)
  ultimately obtain t where t: "piter (reap E) is u = Some (Inr (), t)" "tbl t = []"
    "waits (w_calls t) = waits (w_calls u) @ map (\<lambda>i. the (map_of (tbl u) i)) is"
    using Cons.IH Cons.prems(2) by force
  moreover have "map (\<lambda>i. the (map_of (tbl u) i)) is = map (\<lambda>i. the (map_of (tbl s) i)) is"
    using Cons.prems(2) u(2) by auto
  ultimately show ?case using u p by (auto simp: pbind_run)
qed

text \<open>After the final wait every registered process has been waited for.\<close>

lemma wait_all_waits:
  assumes "wait_all E s = Some (r, t)"
  shows "r = Inr () \<and> tbl t = [] \<and> waits (w_calls t) = waits (w_calls s) @ map snd (tbl s)"
  using wait_all [of E s] assms by auto

end

end
