(* ===== verification/Ports.thy ===== *)
theory Ports
  imports Sample_Env
begin

text \<open>
  The TCP ports of the nodes (\<^verbatim>\<open>qa/SidechainTestFramework/scutil.py\<close>,
  \<^verbatim>\<open>qa/test_framework/util.py\<close>). Tests run in one of two modes: alone, where the ports are shifted
  by the process id, or as member \<open>g > 0\<close> of a set of parallel test groups, where each group has
  its own block of ports. The locale \<open>port_block\<close> states the contract of such a function once;
  the five port functions of the framework are its interpretations.
\<close>

section \<open>The port functions\<close>

definition set_sc_parallel_test :: "int \<Rightarrow> ('w, unit) prog" where
  "set_sc_parallel_test n = pmodify (\<lambda>s. s\<lparr>sc_parallel_test := n\<rparr>)"

definition set_jacoco :: "bool \<Rightarrow> ('w, unit) prog" where
  "set_jacoco value = pmodify (\<lambda>s. s\<lparr>is_jacoco_included := value\<rparr>)"

definition set_mc_parallel_test :: "int \<Rightarrow> ('w, unit) prog" where
  "set_mc_parallel_test n = pmodify (\<lambda>s. s\<lparr>mc_parallel_test := n\<rparr>)"

text \<open>Both modifiers return \<open>None\<close> outside of the parallel mode.\<close>

definition sc_start_port_modifier :: "'w world \<Rightarrow> int option" where
  "sc_start_port_modifier s =
     (if sc_parallel_test s > 0 then Some ((sc_parallel_test s - 1) * 20) else None)"

definition sc_p2p_port :: "'w env \<Rightarrow> 'w world \<Rightarrow> int \<Rightarrow> int" where
  "sc_p2p_port E s n =
     (if sc_parallel_test s > 0 then 8500 + the (sc_start_port_modifier s) + n
      else 8300 + n + e_pid E mod 999)"

definition sc_rpc_port :: "'w env \<Rightarrow> 'w world \<Rightarrow> int \<Rightarrow> int" where
  "sc_rpc_port E s n =
     (if sc_parallel_test s > 0 then 8200 + the (sc_start_port_modifier s) + n
      else 8200 + n + e_pid E mod 999)"

definition mc_start_port_modifier :: "'w world \<Rightarrow> int option" where
  "mc_start_port_modifier s =
     (if mc_parallel_test s > 0 then Some ((mc_parallel_test s - 1) * 100) else None)"

definition p2p_port :: "'w env \<Rightarrow> 'w world \<Rightarrow> int \<Rightarrow> int" where
  "p2p_port E s n =
     (if mc_parallel_test s > 0 then 11000 + the (mc_start_port_modifier s) + n
      else 11000 + n + e_pid E mod 999)"

definition rpc_port :: "'w env \<Rightarrow> 'w world \<Rightarrow> int \<Rightarrow> int" where
  "rpc_port E s n =
     (if mc_parallel_test s > 0 then 12000 + the (mc_start_port_modifier s) + n
      else 12000 + n + e_pid E mod 999)"

definition websocket_port_by_mc_node_index :: "'w env \<Rightarrow> 'w world \<Rightarrow> int \<Rightarrow> int" where
  "websocket_port_by_mc_node_index E s n =
     (if mc_parallel_test s > 0 then 13000 + the (mc_start_port_modifier s) + n
      else 13000 + n + e_pid E mod 999)"

section \<open>The contract of a port function\<close>

text \<open>
  \<open>group\<close> reads the parallel group, \<open>par_base\<close> and \<open>stride\<close> describe the blocks of the groups and
  \<open>seq_base\<close> the ports of a test that runs alone.
\<close>

locale port_block =
  fixes port :: "'w env \<Rightarrow> 'w world \<Rightarrow> int \<Rightarrow> int"
    and group :: "'w world \<Rightarrow> int"
    and par_base stride seq_base :: int
  assumes parallel: "group s > 0 \<Longrightarrow> port E s n = par_base + (group s - 1) * stride + n"
    and alone: "group s \<le> 0 \<Longrightarrow> port E s n = seq_base + n + e_pid E mod 999"
    and stride_pos: "stride > 0"
begin

lemma inj: "port E s m = port E s n \<longleftrightarrow> m = n"
  by (cases "group s > 0") (auto simp: parallel alone)

lemma par_bounds:
  assumes "group s > 0" and "0 \<le> n" and "n < stride"
  shows "par_base + (group s - 1) * stride \<le> port E s n"
    and "port E s n < par_base + group s * stride"
  using assms by (auto simp: parallel algebra_simps)

lemma par_range:
  assumes "1 \<le> group s" and "group s \<le> k" and "0 \<le> n" and "n < stride"
  shows "par_base \<le> port E s n \<and> port E s n < par_base + k * stride"
proof -
  have "0 \<le> (group s - 1) * stride" using assms stride_pos by simp
  moreover have "group s * stride \<le> k * stride" using assms stride_pos by simp
  ultimately show ?thesis using par_bounds [of s n E] assms by linarith
qed

lemma groups_apart:
  assumes "0 < group s" and "group s < group t" and "0 \<le> m" "m < stride" and "0 \<le> n" "n < stride"
  shows "port E s m < port F t n"
proof -
  have "group s * stride \<le> (group t - 1) * stride"
    using assms stride_pos by (simp add: mult_right_mono)
  with par_bounds(2) [of s m E] par_bounds(1) [of t n F] assms show ?thesis by linarith
qed

lemma par_inject:
  assumes "0 < group s" and "0 < group t" and "0 \<le> m" "m < stride" and "0 \<le> n" "n < stride"
  shows "port E s m = port F t n \<longleftrightarrow> group s = group t \<and> m = n"
proof (cases "group s" "group t" rule: linorder_cases)
  case less
  with groups_apart [of s t m n E F] assms show ?thesis by simp
next
  case equal
  with assms show ?thesis by (auto simp: parallel)
next
  case greater
  with groups_apart [of t s n m F E] assms show ?thesis by simp
qed

lemma alone_range:
  assumes "group s \<le> 0"
  shows "seq_base + n \<le> port E s n \<and> port E s n < seq_base + n + 999"
  using assms pos_mod_bound [of 999 "e_pid E"] by (simp add: alone)

end

interpretation sc_p2p: port_block sc_p2p_port sc_parallel_test 8500 20 8300
  by unfold_locales (simp_all add: sc_p2p_port_def sc_start_port_modifier_def)

interpretation sc_rpc: port_block sc_rpc_port sc_parallel_test 8200 20 8200
  by unfold_locales (simp_all add: sc_rpc_port_def sc_start_port_modifier_def)

interpretation mc_p2p: port_block p2p_port mc_parallel_test 11000 100 11000
  by unfold_locales (simp_all add: p2p_port_def mc_start_port_modifier_def)

interpretation mc_rpc: port_block rpc_port mc_parallel_test 12000 100 12000
  by unfold_locales (simp_all add: rpc_port_def mc_start_port_modifier_def)

interpretation mc_ws: port_block websocket_port_by_mc_node_index mc_parallel_test 13000 100 13000
  by unfold_locales (simp_all add: websocket_port_by_mc_node_index_def mc_start_port_modifier_def)

text \<open>The five kinds of ports a test run opens.\<close>

datatype port_kind = ScP2p | ScRpc | McP2p | McRpc | McWs

fun port_of :: "port_kind \<Rightarrow> 'w env \<Rightarrow> 'w world \<Rightarrow> int \<Rightarrow> int" where
  "port_of ScP2p = sc_p2p_port"
| "port_of ScRpc = sc_rpc_port"
| "port_of McP2p = p2p_port"
| "port_of McRpc = rpc_port"
| "port_of McWs = websocket_port_by_mc_node_index"

fun max_nodes :: "port_kind \<Rightarrow> int" where
  "max_nodes ScP2p = 20" | "max_nodes ScRpc = 20"
| "max_nodes McP2p = 100" | "max_nodes McRpc = 100" | "max_nodes McWs = 100"

definition in_group :: "int \<Rightarrow> 'w world \<Rightarrow> bool" where
  "in_group g s \<longleftrightarrow> sc_parallel_test s = g \<and> mc_parallel_test s = g"

text \<open>Where the ports of groups 1 to 10 lie, by kind.\<close>

fun kind_low :: "port_kind \<Rightarrow> int" where
  "kind_low ScP2p = 8500" | "kind_low ScRpc = 8200"
| "kind_low McP2p = 11000" | "kind_low McRpc = 12000" | "kind_low McWs = 13000"

fun kind_high :: "port_kind \<Rightarrow> int" where
  "kind_high ScP2p = 8700" | "kind_high ScRpc = 8400"
| "kind_high McP2p = 12000" | "kind_high McRpc = 13000" | "kind_high McWs = 14000"

lemma port_of_range:
  assumes "in_group g s" and "1 \<le> g" and "g \<le> 10" and "0 \<le> n" and "n < max_nodes k"
  shows "kind_low k \<le> port_of k E s n \<and> port_of k E s n < kind_high k"
  using assms sc_p2p.par_range [of s 10 n E] sc_rpc.par_range [of s 10 n E]
    mc_p2p.par_range [of s 10 n E] mc_rpc.par_range [of s 10 n E] mc_ws.par_range [of s 10 n E]
  by (cases k) (simp_all add: in_group_def)

lemma kinds_apart: "k \<noteq> l \<Longrightarrow> kind_high k \<le> kind_low l \<or> kind_high l \<le> kind_low k"
  by (cases k; cases l) simp_all

lemma port_of_same_kind:
  fixes s t :: "'w world"
  assumes "in_group g s" "in_group h t" and "1 \<le> g" "1 \<le> h"
    and "0 \<le> m" "m < max_nodes k" and "0 \<le> n" "n < max_nodes k"
  shows "port_of k E s m = port_of k F t n \<longleftrightarrow> g = h \<and> m = n"
  using assms sc_p2p.par_inject [of s t m n E F] sc_rpc.par_inject [of s t m n E F]
    mc_p2p.par_inject [of s t m n E F] mc_rpc.par_inject [of s t m n E F] mc_ws.par_inject [of s t m n E F]
  by (cases k) (simp_all add: in_group_def)

lemma port_of_alone:
  assumes "sc_parallel_test s \<le> 0" and "mc_parallel_test s \<le> 0"
  shows "port_of k E s n = (case k of ScP2p \<Rightarrow> 8300 | ScRpc \<Rightarrow> 8200 | McP2p \<Rightarrow> 11000 | McRpc \<Rightarrow> 12000
    | McWs \<Rightarrow> 13000) + n + e_pid E mod 999"
  using assms by (cases k) (simp_all add: sc_p2p.alone sc_rpc.alone mc_p2p.alone mc_rpc.alone mc_ws.alone)

section \<open>Properties\<close>

text \<open>C8. Tests of up to ten parallel groups never share a port: two ports are equal only if they
  belong to the same group, are of the same kind and have the same node index (up to 20
  sidechain and 100 mainchain nodes per group).\<close>
theorem ports_distinct:
  fixes s t :: "'w world"
  assumes "in_group g s" "in_group h t" and "1 \<le> g" "g \<le> 10" and "1 \<le> h" "h \<le> 10"
    and "0 \<le> m" "m < max_nodes k" and "0 \<le> n" "n < max_nodes l"
  shows "port_of k E s m = port_of l F t n \<longleftrightarrow> g = h \<and> k = l \<and> m = n"
proof (cases "k = l")
  case True
  with assms port_of_same_kind [of g s h t m k n E F] show ?thesis by auto
next
  case False
  with kinds_apart [of k l] port_of_range [of g s m k E] port_of_range [of h t n l F] assms
  show ?thesis by auto
qed

theorem ports_distinct_witness:
  "port_of McRpc sample_env (sample_world 10 0 []) 99 \<noteq> port_of McWs sample_env (sample_world 1 0 []) 0"
  using ports_distinct [of 10 "sample_world 10 0 []" 1 "sample_world 1 0 []" 99 McRpc 0 McWs sample_env sample_env]
  by (simp add: in_group_def sample_world_def)

text \<open>A test that runs alone, with less than 100 nodes of either kind, gives every node its own
  ports, all of them valid unprivileged TCP ports.\<close>
theorem ports_distinct_alone:
  assumes "sc_parallel_test s \<le> 0" and "mc_parallel_test s \<le> 0"
    and "0 \<le> m" "m < 100" and "0 \<le> n" "n < 100"
  shows "(port_of k E s m = port_of l E s n \<longleftrightarrow> k = l \<and> m = n) \<and>
    1024 \<le> port_of k E s m \<and> port_of k E s m < 2 ^ 16"
  unfolding port_of_alone [OF assms(1,2)]
  using assms(3-6) pos_mod_bound [of 999 "e_pid E"] pos_mod_sign [of 999 "e_pid E"]
  by (cases k; cases l) auto

theorem ports_distinct_alone_witness:
  "port_of ScRpc sample_env (sample_world 0 0 []) 99 \<noteq> port_of ScP2p sample_env (sample_world 0 0 []) 0"
  using ports_distinct_alone [of "sample_world 0 0 []" 99 0 ScRpc sample_env ScP2p]
  by (simp add: sample_world_def)

text \<open>The blocks of the sidechain ports overlap from the sixteenth group on: its first REST port
  is the first peer-to-peer port of group 1.\<close>
theorem sc_port_groups_clash:
  "sc_rpc_port E (s\<lparr>sc_parallel_test := 16\<rparr>) n = sc_p2p_port F (t\<lparr>sc_parallel_test := 1\<rparr>) n"
  by (simp add: sc_rpc.parallel sc_p2p.parallel)

text \<open>Those of the mainchain ports overlap from the eleventh group on.\<close>
theorem mc_port_groups_clash:
  "p2p_port E (s\<lparr>mc_parallel_test := 11\<rparr>) n = rpc_port F (t\<lparr>mc_parallel_test := 1\<rparr>) n"
  by (simp add: mc_p2p.parallel mc_rpc.parallel)

end
