(* ===== verification/Py_Strings.thy ===== *)
theory Py_Strings
  imports Py_Prelude
begin

text \<open>
  The string operations of Python that the framework uses: decimal and hexadecimal numbers,
  padding, replacing, splitting, joining, \<open>binascii\<close> and \<open>base64\<close>, \<open>json.dumps\<close>, \<open>str\<close>/\<open>repr\<close>
  and \<^verbatim>\<open>%\<close>-formatting with a dictionary. Lemmas: number texts are read back to the number,
  hexadecimal texts and byte strings convert into each other without loss.
\<close>

section \<open>Numbers as text\<close>

definition digit_char :: "nat \<Rightarrow> char" where
  "digit_char d = ''0123456789abcdef'' ! d"

definition digit_val :: "char \<Rightarrow> nat option" where
  "digit_val c = map_of (zip ''0123456789abcdefABCDEF''
     [0, 1, 2, 3, 4, 5, 6, 7, 8, 9, 10, 11, 12, 13, 14, 15, 10, 11, 12, 13, 14, 15]) c"

fun nat_str :: "nat \<Rightarrow> nat \<Rightarrow> string" where
  "nat_str b n = (if n < b \<or> b < 2 then [digit_char n] else nat_str b (n div b) @ [digit_char (n mod b)])"

declare nat_str.simps [simp del]

fun read_digits :: "nat \<Rightarrow> nat \<Rightarrow> string \<Rightarrow> nat option" where
  "read_digits b acc [] = Some acc"
| "read_digits b acc (c # cs) = (case digit_val c of None \<Rightarrow> None
     | Some d \<Rightarrow> if d < b then read_digits b (acc * b + d) cs else None)"

definition read_nat :: "nat \<Rightarrow> string \<Rightarrow> nat option" where
  "read_nat b s = (if s = [] then None else read_digits b 0 s)"

definition str_int :: "int \<Rightarrow> string" where
  "str_int i = (if i < 0 then CHR ''-'' # nat_str 10 (nat (- i)) else nat_str 10 (nat i))"

text \<open>\<open>hex(i)\<close> and \<open>int(s, 16)\<close>. The model has no digit-group underscores and no
  surrounding blanks, which Python would also accept; the nodes never send them.\<close>

definition py_hex :: "int \<Rightarrow> string" where
  "py_hex i = (if i < 0 then ''-0x'' @ nat_str 16 (nat (- i)) else ''0x'' @ nat_str 16 (nat i))"

fun strip_0x :: "string \<Rightarrow> string" where
  "strip_0x (c # d # cs) = (if c = CHR ''0'' \<and> (d = CHR ''x'' \<or> d = CHR ''X'') then cs else c # d # cs)"
| "strip_0x cs = cs"

definition read_hex :: "string \<Rightarrow> int option" where
  "read_hex s = (case s of
      c # cs \<Rightarrow> (if c = CHR ''-'' then map_option (\<lambda>n. - int n) (read_nat 16 (strip_0x cs))
                 else if c = CHR ''+'' then map_option int (read_nat 16 (strip_0x cs))
                 else map_option int (read_nat 16 (strip_0x s)))
    | [] \<Rightarrow> None)"

fun py_int16 :: "pyval \<Rightarrow> int res" where
  "py_int16 (PStr s) = (case read_hex s of None \<Rightarrow> rerr ValueError ''invalid literal for int() with base 16'' [PStr s]
     | Some i \<Rightarrow> Inr i)"
| "py_int16 v = rerr TypeError ''int() can't convert non-string with explicit base'' [v]"

definition read_dec :: "string \<Rightarrow> int option" where
  "read_dec s = (case s of
      c # cs \<Rightarrow> (if c = CHR ''-'' then map_option (\<lambda>n. - int n) (read_nat 10 cs)
                 else if c = CHR ''+'' then map_option int (read_nat 10 cs)
                 else map_option int (read_nat 10 s))
    | [] \<Rightarrow> None)"

text \<open>\<open>int(v)\<close> with one argument: truncation of a number, or a decimal text.\<close>

definition rat_trunc :: "rat \<Rightarrow> int" where
  "rat_trunc q = (if q < 0 then - \<lfloor>- q\<rfloor> else \<lfloor>q\<rfloor>)"

text \<open>\<open>round(q)\<close>: to the nearest integer, a tie to the even one.\<close>

definition py_round :: "rat \<Rightarrow> int" where
  "py_round q = (let n = \<lfloor>q\<rfloor>; d = q - of_int n
     in if d < 1 / 2 \<or> (d = 1 / 2 \<and> even n) then n else n + 1)"

lemma py_round_int [simp]: "py_round (of_int i) = i"
  by (simp add: py_round_def)

lemma py_round_near: "\<bar>of_int (py_round q) - q\<bar> \<le> 1 / 2"
proof -
  have "of_int \<lfloor>q\<rfloor> \<le> q" "q < of_int \<lfloor>q\<rfloor> + 1" by linarith+
  then show ?thesis by (auto simp: py_round_def Let_def)
qed

text \<open>\<open>v * k\<close> for a number \<open>v\<close> and an integer \<open>k\<close>.\<close>

fun py_times :: "pyval \<Rightarrow> int \<Rightarrow> pyval res" where
  "py_times (PInt i) k = Inr (PInt (i * k))"
| "py_times (PBool b) k = Inr (PInt (if b then k else 0))"
| "py_times (PFloat q) k = Inr (PFloat (q * of_int k))"
| "py_times (PDec q) k = Inr (PDec (q * of_int k))"
| "py_times v k = rerr TypeError ''not a number'' [v]"

fun py_int :: "pyval \<Rightarrow> int res" where
  "py_int (PInt i) = Inr i"
| "py_int (PBool b) = Inr (if b then 1 else 0)"
| "py_int (PFloat q) = Inr (rat_trunc q)"
| "py_int (PDec q) = Inr (rat_trunc q)"
| "py_int (PStr s) = (case read_dec s of None \<Rightarrow> rerr ValueError ''invalid literal for int() with base 10'' [PStr s]
     | Some i \<Rightarrow> Inr i)"
| "py_int v = rerr TypeError ''int() argument must be a string or a number'' [v]"

section \<open>Padding, replacing, splitting\<close>

definition py_rjust :: "string \<Rightarrow> nat \<Rightarrow> char \<Rightarrow> string" where
  "py_rjust s n c = replicate (n - length s) c @ s"

definition py_ljust :: "string \<Rightarrow> nat \<Rightarrow> char \<Rightarrow> string" where
  "py_ljust s n c = s @ replicate (n - length s) c"

text \<open>\<open>s.replace(old, new)\<close> for a non-empty \<open>old\<close>.\<close>

fun py_replace :: "string \<Rightarrow> string \<Rightarrow> string \<Rightarrow> string" where
  "py_replace old new [] = []"
| "py_replace old new (c # cs) =
     (if old \<noteq> [] \<and> is_prefix old (c # cs) then new @ py_replace old new (drop (length old - 1) cs)
      else c # py_replace old new cs)"

fun py_split :: "char \<Rightarrow> string \<Rightarrow> string list" where
  "py_split d [] = [[]]"
| "py_split d (c # cs) = (if c = d then [] # py_split d cs
     else (case py_split d cs of [] \<Rightarrow> [[c]] | w # ws \<Rightarrow> (c # w) # ws))"

definition is_blank :: "char \<Rightarrow> bool" where
  "is_blank c = (c \<in> set [CHR '' '', CHR ''\<newline>'', CHR 0x09, CHR 0x0D, CHR 0x0B, CHR 0x0C])"

text \<open>\<open>s.split()\<close>: the maximal runs of non-blank characters.\<close>

lemma dropWhile_shorter [termination_simp]: "length (dropWhile P cs) < Suc (length cs)"
  by (simp add: le_imp_less_Suc length_dropWhile_le)

fun split_ws :: "string \<Rightarrow> string list" where
  "split_ws [] = []"
| "split_ws (c # cs) = (if is_blank c then split_ws cs
     else (c # takeWhile (\<lambda>x. \<not> is_blank x) cs) # split_ws (dropWhile (\<lambda>x. \<not> is_blank x) cs))"

fun py_join :: "string \<Rightarrow> string list \<Rightarrow> string" where
  "py_join sep [] = []"
| "py_join sep [w] = w"
| "py_join sep (w # ws) = w @ sep @ py_join sep ws"

definition py_lower :: "string \<Rightarrow> string" where
  "py_lower s = map (\<lambda>c. case map_of (zip ''ABCDEFGHIJKLMNOPQRSTUVWXYZ'' ''abcdefghijklmnopqrstuvwxyz'') c of
     None \<Rightarrow> c | Some d \<Rightarrow> d) s"

text \<open>\<open>int(s, 0)\<close>: the base is given by the prefix, and a decimal number has no leading zeros.\<close>

definition read_literal :: "string \<Rightarrow> nat option" where
  "read_literal s =
     (let base = py_lower (take 2 s)
      in if base = ''0x'' then read_nat 16 (drop 2 s)
         else if base = ''0o'' then read_nat 8 (drop 2 s)
         else if base = ''0b'' then read_nat 2 (drop 2 s)
         else (case read_nat 10 s of None \<Rightarrow> None
           | Some n \<Rightarrow> if n \<noteq> 0 \<and> take 1 s = ''0'' then None else Some n))"

fun py_int0 :: "pyval \<Rightarrow> int res" where
  "py_int0 (PStr s) =
     (let negative = (take 1 s = ''-''); digits = (if negative \<or> take 1 s = ''+'' then drop 1 s else s)
      in case read_literal digits of
           None \<Rightarrow> rerr ValueError ''invalid literal for int() with base 0'' [PStr s]
         | Some n \<Rightarrow> Inr (if negative then - int n else int n))"
| "py_int0 v = rerr TypeError ''int() can't convert non-string with explicit base'' [v]"

text \<open>\<^verbatim>\<open>s.endswith(p)\<close> and \<^verbatim>\<open>s.removesuffix(p)\<close>\<close>

definition ends_with :: "string \<Rightarrow> string \<Rightarrow> bool" where
  "ends_with s p = is_prefix (rev p) (rev s)"

definition remove_suffix :: "string \<Rightarrow> string \<Rightarrow> string" where
  "remove_suffix s p = (if ends_with s p then take (length s - length p) s else s)"

text \<open>\<open>os.path.join\<close> of two components: an absolute second component replaces the first.\<close>

definition path_join :: "string \<Rightarrow> string \<Rightarrow> string" where
  "path_join a b = (if is_prefix ''/'' b then b
     else if a = [] \<or> last a = CHR ''/'' then a @ b else a @ ''/'' @ b)"

section \<open>Bytes\<close>

definition hex2 :: "nat \<Rightarrow> string" where
  "hex2 b = [digit_char (b div 16), digit_char (b mod 16)]"

definition hexlify :: "nat list \<Rightarrow> string" where
  "hexlify bs = concat (map hex2 bs)"

fun unhexlify :: "string \<Rightarrow> nat list option" where
  "unhexlify [] = Some []"
| "unhexlify [c] = None"
| "unhexlify (c # d # cs) = (case (digit_val c, digit_val d) of
     (Some h, Some l) \<Rightarrow> map_option (\<lambda>bs. (16 * h + l) # bs) (unhexlify cs)
   | _ \<Rightarrow> None)"

text \<open>UTF-8 of code points below 256 and base 64.\<close>

definition utf8 :: "string \<Rightarrow> nat list" where
  "utf8 s = concat (map (\<lambda>c. let n = of_char c in if n < 128 then [n] else [192 + n div 64, 128 + n mod 64]) s)"

definition b64_char :: "nat \<Rightarrow> char" where
  "b64_char n = ''ABCDEFGHIJKLMNOPQRSTUVWXYZabcdefghijklmnopqrstuvwxyz0123456789+/'' ! n"

fun b64encode :: "nat list \<Rightarrow> string" where
  "b64encode [] = []"
| "b64encode [a] = [b64_char (a div 4), b64_char (16 * (a mod 4)), CHR ''='', CHR ''='']"
| "b64encode [a, b] = [b64_char (a div 4), b64_char (16 * (a mod 4) + b div 16),
     b64_char (4 * (b mod 16)), CHR ''='']"
| "b64encode (a # b # c # cs) = b64_char (a div 4) # b64_char (16 * (a mod 4) + b div 16)
     # b64_char (4 * (b mod 16) + c div 64) # b64_char (c mod 64) # b64encode cs"

section \<open>repr, str and json.dumps\<close>

text \<open>
  A float is modelled by its exact decimal value and printed with up to 17 fraction digits;
  the scientific notation of very large and very small floats does not occur in the framework.
\<close>

fun frac_digits :: "nat \<Rightarrow> rat \<Rightarrow> string" where
  "frac_digits 0 q = []"
| "frac_digits (Suc n) q = (if q = 0 then [] else
     digit_char (nat \<lfloor>q * 10\<rfloor>) # frac_digits n (q * 10 - of_int \<lfloor>q * 10\<rfloor>))"

definition float_repr :: "rat \<Rightarrow> string" where
  "float_repr q = (let a = \<bar>q\<bar>; fs = frac_digits 17 (a - of_int \<lfloor>a\<rfloor>)
     in (if q < 0 then ''-'' else []) @ str_int \<lfloor>a\<rfloor> @ ''.'' @ (if fs = [] then ''0'' else fs))"

definition repr_str :: "string \<Rightarrow> string" where
  "repr_str s = (let q = (if CHR 0x27 \<in> set s \<and> CHR 0x22 \<notin> set s then CHR 0x22 else CHR 0x27)
     in [q] @ concat (map (\<lambda>c. if c = q \<or> c = CHR 0x5C then [CHR 0x5C, c]
          else if c = CHR ''\<newline>'' then [CHR 0x5C, CHR ''n''] else [c]) s) @ [q])"

fun py_repr :: "pyval \<Rightarrow> string" where
  "py_repr PNone = ''None''"
| "py_repr (PBool b) = (if b then ''True'' else ''False'')"
| "py_repr (PInt i) = str_int i"
| "py_repr (PFloat q) = float_repr q"
| "py_repr (PDec q) = ''Decimal('' @ repr_str (float_repr q) @ '')''"
| "py_repr (PStr s) = repr_str s"
| "py_repr (PBytes bs) = CHR ''b'' # repr_str (map char_of bs)"
| "py_repr (PList vs) = ''['' @ py_join '', '' (map py_repr vs) @ '']''"
| "py_repr (PTuple vs) = ''('' @ py_join '', '' (map py_repr vs) @ (if length vs = 1 then '',)'' else '')'')"
| "py_repr (PDict d) = ''{'' @ py_join '', '' (map (\<lambda>kv. repr_str (fst kv) @ '': '' @ py_repr (snd kv)) d) @ ''}''"

definition py_str :: "pyval \<Rightarrow> string" where
  "py_str v = (case v of PStr s \<Rightarrow> s | PDec q \<Rightarrow> float_repr q | _ \<Rightarrow> py_repr v)"

definition json_char :: "char \<Rightarrow> string" where
  "json_char c = (if c = CHR 0x22 \<or> c = CHR 0x5C then [CHR 0x5C, c]
     else if c = CHR 0x08 then [CHR 0x5C, CHR ''b'']
     else if c = CHR 0x09 then [CHR 0x5C, CHR ''t'']
     else if c = CHR 0x0A then [CHR 0x5C, CHR ''n'']
     else if c = CHR 0x0C then [CHR 0x5C, CHR ''f'']
     else if c = CHR 0x0D then [CHR 0x5C, CHR ''r'']
     else let n = of_char c :: nat in
       if 32 \<le> n \<and> n < 127 then [c] else [CHR 0x5C] @ ''u00'' @ hex2 n)"

definition json_str :: "string \<Rightarrow> string" where
  "json_str s = [CHR 0x22] @ concat (map json_char s) @ [CHR 0x22]"

fun json_dumps :: "pyval \<Rightarrow> string res" where
  "json_dumps PNone = Inr ''null''"
| "json_dumps (PBool b) = Inr (if b then ''true'' else ''false'')"
| "json_dumps (PInt i) = Inr (str_int i)"
| "json_dumps (PFloat q) = Inr (float_repr q)"
| "json_dumps (PStr s) = Inr (json_str s)"
| "json_dumps (PList vs) = rbind (rmap json_dumps vs) (\<lambda>ws. Inr (''['' @ py_join '', '' ws @ '']''))"
| "json_dumps (PTuple vs) = rbind (rmap json_dumps vs) (\<lambda>ws. Inr (''['' @ py_join '', '' ws @ '']''))"
| "json_dumps (PDict d) = rbind (rmap (\<lambda>kv. rbind (json_dumps (snd kv)) (\<lambda>w. Inr (json_str (fst kv) @ '': '' @ w))) d)
     (\<lambda>ws. Inr (''{'' @ py_join '', '' ws @ ''}''))"
| "json_dumps v = rerr TypeError ''Object is not JSON serializable'' [v]"

section \<open>Formatting a template with a dictionary\<close>

fun break_at :: "char \<Rightarrow> string \<Rightarrow> (string \<times> string) option" where
  "break_at d [] = None"
| "break_at d (c # cs) = (if c = d then Some ([], cs)
     else map_option (\<lambda>p. (c # fst p, snd p)) (break_at d cs))"

lemma break_at_length: "break_at d cs = Some (k, r) \<Longrightarrow> length r < length cs"
  by (induction cs arbitrary: k) (auto split: if_splits)

text \<open>\<open>template % d\<close> where the conversions are \<^verbatim>\<open>%(KEY)s\<close>, \<^verbatim>\<open>%(KEY)d\<close> and \<^verbatim>\<open>%%\<close>; the second
  takes numbers only and drops their fraction.\<close>

definition pct_conv :: "char \<Rightarrow> pyval \<Rightarrow> string res" where
  "pct_conv t v = (if t = CHR ''s'' then Inr (py_str v)
     else if t = CHR ''d'' then (case py_num v of
         None \<Rightarrow> rerr TypeError ''%d format: a number is required'' [v]
       | Some q \<Rightarrow> Inr (str_int (rat_trunc q)))
     else rerr ValueError ''unsupported format character'' [])"

function pct_format :: "(string \<times> pyval) list \<Rightarrow> string \<Rightarrow> string res" where
  "pct_format d [] = Inr []"
| "pct_format d (c # cs) = (if c \<noteq> CHR ''%'' then rbind (pct_format d cs) (\<lambda>r. Inr (c # r))
     else (case cs of
        [] \<Rightarrow> rerr ValueError ''incomplete format'' []
      | c' # cs' \<Rightarrow>
          if c' = CHR ''%'' then rbind (pct_format d cs') (\<lambda>r. Inr (CHR ''%'' # r))
          else if c' = CHR ''('' then
            (case break_at (CHR '')'') cs' of
               None \<Rightarrow> rerr ValueError ''incomplete format key'' []
             | Some (k, r0) \<Rightarrow> (case map_of d k of
                 None \<Rightarrow> rerr KeyError k []
               | Some v \<Rightarrow> (case r0 of
                   [] \<Rightarrow> rerr ValueError ''incomplete format'' []
                 | t # r1 \<Rightarrow> rbind (pct_conv t v) (\<lambda>w. rbind (pct_format d r1) (\<lambda>r. Inr (w @ r))))))
          else rerr TypeError ''format requires a mapping key'' []))"
  by pat_completeness auto
termination
  by (relation "measure (\<lambda>(d, cs). length cs)") (auto dest: break_at_length)

declare pct_format.simps [simp del]

section \<open>Number texts are read back\<close>

lemma less_16_cases: "(d::nat) < 16 \<Longrightarrow> d \<in> {0, 1, 2, 3, 4, 5, 6, 7, 8, 9, 10, 11, 12, 13, 14, 15}"
  by simp presburger

lemma digit_val_char: "d < 16 \<Longrightarrow> digit_val (digit_char d) = Some d"
proof -
  have "list_all (\<lambda>d. digit_val (digit_char d) = Some d) [0..<16]" by code_simp
  then show "d < 16 \<Longrightarrow> digit_val (digit_char d) = Some d" by (simp add: list_all_iff)
qed

lemma digit_val_less: "digit_val c = Some d \<Longrightarrow> d < 16"
  by (auto simp: digit_val_def split: if_splits)

lemma read_digits_append:
  "read_digits b acc (xs @ ys) = Option.bind (read_digits b acc xs) (\<lambda>a. read_digits b a ys)"
  by (induction xs arbitrary: acc) (auto split: option.split)

lemma nat_str_not_Nil [simp]: "nat_str b n \<noteq> []"
  by (subst nat_str.simps) simp

lemma read_digits_nat_str:
  assumes "2 \<le> b" and "b \<le> 16"
  shows "read_digits b 0 (nat_str b n) = Some n"
  using assms
proof (induction b n rule: nat_str.induct)
  case (1 b n)
  show ?case
  proof (cases "n < b")
    case True
    with "1.prems" show ?thesis
      by (subst nat_str.simps) (simp add: digit_val_char)
  next
    case False
    have "n mod b < b" and "n mod b < 16"
      using "1.prems" mod_less_divisor [of b n] by linarith+
    moreover have "read_digits b 0 (nat_str b (n div b)) = Some (n div b)"
      using False "1" by simp
    ultimately show ?thesis
      using False "1.prems"
      by (simp add: nat_str.simps [of b n] read_digits_append digit_val_char)
  qed
qed

lemma read_nat_nat_str: "2 \<le> b \<Longrightarrow> b \<le> 16 \<Longrightarrow> read_nat b (nat_str b n) = Some n"
  by (simp add: read_nat_def read_digits_nat_str)

lemma nat_str_inject: "2 \<le> b \<Longrightarrow> b \<le> 16 \<Longrightarrow> nat_str b m = nat_str b n \<longleftrightarrow> m = n"
  by (metis option.inject read_nat_nat_str)

lemma digit_char_plain: "d < 16 \<Longrightarrow> digit_char d \<noteq> CHR ''-'' \<and> digit_char d \<noteq> CHR ''+'' \<and>
    digit_char d \<noteq> CHR ''x'' \<and> digit_char d \<noteq> CHR ''X'' \<and> digit_char d \<noteq> CHR ''_''"
  by (drule less_16_cases) (auto simp: digit_char_def)

lemma nat_str_plain:
  assumes "2 \<le> b" and "b \<le> 16"
  shows "CHR ''-'' \<notin> set (nat_str b n) \<and> CHR ''+'' \<notin> set (nat_str b n) \<and> CHR ''x'' \<notin> set (nat_str b n)
    \<and> CHR ''X'' \<notin> set (nat_str b n) \<and> CHR ''_'' \<notin> set (nat_str b n)"
  using assms
proof (induction b n rule: nat_str.induct)
  case (1 b n)
  have d: "n mod b < 16" using "1.prems" mod_less_divisor [of b n] by linarith
  show ?case
  proof (cases "n < b")
    case True
    with "1.prems" digit_char_plain [of n] show ?thesis by (subst (1 2 3 4 5) nat_str.simps) auto
  next
    case False
    with "1" digit_char_plain [OF d] show ?thesis by (simp add: nat_str.simps [of b n]) auto
  qed
qed

lemma nat_str_not_minus: "CHR ''-'' # xs \<noteq> nat_str 10 n" "nat_str 10 n \<noteq> CHR ''-'' # xs"
proof -
  have "CHR ''-'' \<notin> set (nat_str 10 n)" by (simp add: nat_str_plain)
  then show "CHR ''-'' # xs \<noteq> nat_str 10 n" and "nat_str 10 n \<noteq> CHR ''-'' # xs"
    by (metis list.set_intros(1))+
qed

lemma str_int_inject [simp]: "str_int i = str_int j \<longleftrightarrow> i = j"
  by (auto simp: str_int_def nat_str_not_minus nat_str_inject split: if_splits)

lemma read_dec_str_int: "read_dec (str_int i) = Some i"
proof (cases "i < 0")
  case True
  then show ?thesis by (simp add: str_int_def read_dec_def read_nat_nat_str)
next
  case False
  obtain c cs where c: "nat_str 10 (nat i) = c # cs"
    by (cases "nat_str 10 (nat i)") auto
  with nat_str_plain [of 10 "nat i"] have "c \<noteq> CHR ''-''" and "c \<noteq> CHR ''+''"
    by auto
  with False c read_nat_nat_str [of 10 "nat i"] show ?thesis
    by (simp add: str_int_def read_dec_def)
qed

lemma strip_0x_nat_str: "strip_0x (nat_str 16 n) = nat_str 16 n"
proof (cases "nat_str 16 n" rule: strip_0x.cases)
  case (1 c d cs)
  with nat_str_plain [of 16 n] show ?thesis by auto
qed simp_all

lemma read_hex_py_hex: "read_hex (py_hex i) = Some i"
  by (simp add: read_hex_def py_hex_def read_nat_nat_str)

section \<open>Hexadecimal texts and bytes\<close>

lemma unhexlify_hexlify: "list_all (\<lambda>b. b < 256) bs \<Longrightarrow> unhexlify (hexlify bs) = Some bs"
proof (induction bs)
  case Nil
  then show ?case by (simp add: hexlify_def)
next
  case (Cons b bs)
  then have "b div 16 < 16" and "unhexlify (hexlify bs) = Some bs" by auto
  then show ?case by (simp add: hexlify_def hex2_def digit_val_char)
qed

lemma unhexlify_bytes: "unhexlify s = Some bs \<Longrightarrow> list_all (\<lambda>b. b < 256) bs \<and> length s = 2 * length bs"
proof (induction s arbitrary: bs rule: unhexlify.induct)
  case (3 c d cs)
  from "3.prems" obtain h l bs' where v: "digit_val c = Some h" "digit_val d = Some l"
    and r: "unhexlify cs = Some bs'" and bs: "bs = (16 * h + l) # bs'"
    by (auto split: option.splits)
  have "list_all (\<lambda>b. b < 256) bs' \<and> length cs = 2 * length bs'"
    using "3.IH" v r by simp
  with v bs digit_val_less [of c h] digit_val_less [of d l] show ?case by simp
qed simp_all

lemma digit_char_val: "digit_val c = Some d \<Longrightarrow> digit_char d = hd (py_lower [c])"
proof -
  have "list_all (\<lambda>c. case digit_val c of None \<Rightarrow> True | Some d \<Rightarrow> digit_char d = hd (py_lower [c]))
    ''0123456789abcdefABCDEF''" by code_simp
  moreover have "digit_val c = Some d \<Longrightarrow> c \<in> set ''0123456789abcdefABCDEF''"
    unfolding digit_val_def by (drule map_of_SomeD) (auto dest: set_zip_leftD)
  ultimately show "digit_val c = Some d \<Longrightarrow> digit_char d = hd (py_lower [c])"
    by (fastforce simp: list_all_iff simp del: list.set)
qed

lemma hexlify_unhexlify: "unhexlify s = Some bs \<Longrightarrow> hexlify bs = py_lower s"
proof (induction s arbitrary: bs rule: unhexlify.induct)
  case (3 c d cs)
  from "3.prems" obtain h l bs' where v: "digit_val c = Some h" "digit_val d = Some l"
    and r: "unhexlify cs = Some bs'" and bs: "bs = (16 * h + l) # bs'"
    by (auto split: option.splits)
  have IH: "hexlify bs' = py_lower cs" using "3.IH" v r by simp
  have "l < 16" using v by (simp add: digit_val_less)
  with v bs IH digit_char_val [OF v(1)] digit_char_val [OF v(2)] show ?case
    by (simp add: hexlify_def hex2_def py_lower_def)
qed (simp_all add: hexlify_def py_lower_def)

lemma unhexlify_append:
  "even (length xs) \<Longrightarrow> unhexlify (xs @ ys) =
     Option.bind (unhexlify xs) (\<lambda>a. map_option (\<lambda>b. a @ b) (unhexlify ys))"
proof (induction xs rule: unhexlify.induct)
  case 1
  then show ?case by (cases "unhexlify ys") simp_all
next
  case (3 c d cs)
  then show ?case
    by (cases "unhexlify ys"; cases "unhexlify cs") (auto split: option.split)
qed simp

lemma length_hexlify [simp]: "length (hexlify bs) = 2 * length bs"
  by (induction bs) (simp_all add: hexlify_def hex2_def)

section \<open>Padding\<close>

lemma length_py_just [simp]:
  "length (py_rjust s n c) = max n (length s)" "length (py_ljust s n c) = max n (length s)"
  by (simp_all add: py_rjust_def py_ljust_def)

end
