(* ===== verification/Sc_Sync.thy ===== *)
theory Sc_Sync
  imports Polling Ports Py_Strings
begin

text \<open>
  Waiting for sidechain nodes (\<^verbatim>\<open>qa/SidechainTestFramework/scutil.py\<close>): until a height is
  reached, until the REST sockets are open, until all nodes report the same height or the same
  memory pool, until a peer connection shows up. The four timed loops are interpretations of
  \<open>timed_poll\<close>, the loop on the sockets one of \<open>untimed_poll\<close>.
\<close>

section \<open>Waiting for a height\<close>

definition best_height :: "'w env \<Rightarrow> sc_node \<Rightarrow> ('w, int) prog" where
  "best_height E node = pbind (sc_call E node ''block_best'' []) (\<lambda>r.
     plift (rbind (py_path r [''result'', ''height'']) py_int))"

definition wait_for_next_sc_blocks_loop :: "'w env \<Rightarrow> sc_node \<times> int \<Rightarrow> rat \<Rightarrow> rat \<Rightarrow> ('w, unit) prog" where
  "wait_for_next_sc_blocks_loop E x start wait_for = py_loop
     (pbind (py_time E) (\<lambda>now.
       if now - start \<ge> wait_for then praise TimeoutException ''Waiting blocks'' []
       else pbind (best_height E (fst x)) (\<lambda>height.
         if height \<ge> snd x then pret True
         else pseq (py_sleep E 1) (pret False))))"

definition wait_for_next_sc_blocks :: "'w env \<Rightarrow> sc_node \<Rightarrow> int \<Rightarrow> rat \<Rightarrow> ('w, unit) prog" where
  "wait_for_next_sc_blocks E node expected_height wait_for =
     pbind (py_time E) (\<lambda>start. wait_for_next_sc_blocks_loop E (node, expected_height) start wait_for)"

lemma pthrow_PyErr: "pthrow (PyErr k m a) = praise k m a"
  by (rule ext) simp

interpretation wait_blocks: timed_poll wait_for_next_sc_blocks_loop "\<lambda>E x. pret ()"
  "\<lambda>E x _. pbind (best_height E (fst x)) (\<lambda>h. pret (h \<ge> snd x))"
  "\<lambda>x. PyErr TimeoutException ''Waiting blocks'' []"
proof
  show "wait_for_next_sc_blocks_loop E x start wait_for = py_loop (poll_body E (pret ())
      (\<lambda>_. pbind (best_height E (fst x)) (\<lambda>h. pret (snd x \<le> h)))
      (PyErr TimeoutException ''Waiting blocks'' []) start wait_for)" for E :: "'a env" and x start wait_for
    by (simp add: wait_for_next_sc_blocks_loop_def poll_body_def pbind_assoc pthrow_PyErr cong: if_cong)
qed (auto simp: best_height_def intro!: runs_intros)

section \<open>Waiting for the sockets\<close>

definition socket_open :: "'w env \<Rightarrow> int \<Rightarrow> ('w, bool) prog" where
  "socket_open E port = pext (\<lambda>w. case e_connect_ex E ''127.0.0.1'' port w of (c, w') \<Rightarrow> (Inr (c = 0), w'))"

text \<open>\<^verbatim>\<open>while not sock.connect_ex(...) == 0: time.sleep(WAIT_CONST)\<close>\<close>

definition wait_for_socket :: "'w env \<Rightarrow> int \<Rightarrow> rat \<Rightarrow> ('w, unit) prog" where
  "wait_for_socket E port wait = py_loop (pbind (socket_open E port) (\<lambda>opened.
     if opened then pret True else pseq (py_sleep E wait) (pret False)))"

definition wait_for_sc_node_initialization :: "'w env \<Rightarrow> sc_node list \<Rightarrow> ('w, unit) prog" where
  "wait_for_sc_node_initialization E nodes =
     piter (\<lambda>i. pbind (pget (\<lambda>s. sc_rpc_port E s i)) (\<lambda>rpc_port. wait_for_socket E rpc_port 1))
       (py_range (int (length nodes)))"

interpretation sockets: untimed_poll wait_for_socket socket_open
  by unfold_locales (simp add: wait_for_socket_def wait_body_def)

section \<open>Agreement of the nodes\<close>

definition current_height :: "'w env \<Rightarrow> sc_node \<Rightarrow> ('w, int) prog" where
  "current_height E x = pbind (sc_call E x ''block_currentHeight'' []) (\<lambda>r.
     plift (rbind (py_path r [''result'', ''height'']) py_int))"

text \<open>\<^verbatim>\<open>counts == [counts[0]] * len(counts)\<close>, which raises \<open>IndexError\<close> on an empty list.\<close>

definition all_equal_first :: "'a list \<Rightarrow> bool res" where
  "all_equal_first counts = rbind (list_get counts 0) (\<lambda>c. Inr (counts = replicate (length counts) c))"

definition sc_heights_agree :: "'w env \<Rightarrow> sc_node list \<Rightarrow> ('w, bool) prog" where
  "sc_heights_agree E api_connections =
     pbind (pmap (current_height E) api_connections) (\<lambda>counts. plift (all_equal_first counts))"

definition sync_sc_blocks_loop :: "'w env \<Rightarrow> sc_node list \<Rightarrow> rat \<Rightarrow> rat \<Rightarrow> ('w, unit) prog" where
  "sync_sc_blocks_loop E api_connections start wait_for = py_loop
     (pbind (py_time E) (\<lambda>now.
       if now - start \<ge> wait_for then praise TimeoutException ''Syncing blocks'' []
       else pbind (sc_heights_agree E api_connections) (\<lambda>agree.
         if agree then pret True
         else pseq (py_sleep E 1) (pret False))))"

definition sync_sc_blocks :: "'w env \<Rightarrow> sc_node list \<Rightarrow> rat \<Rightarrow> ('w, unit) prog" where
  "sync_sc_blocks E api_connections wait_for =
     pbind (py_time E) (\<lambda>start. sync_sc_blocks_loop E api_connections start wait_for)"

interpretation sync_blocks_sc: timed_poll sync_sc_blocks_loop "\<lambda>E x. pret ()" "\<lambda>E x _. sc_heights_agree E x"
  "\<lambda>x. PyErr TimeoutException ''Syncing blocks'' []"
proof
  show "sync_sc_blocks_loop E x start wait_for = py_loop (poll_body E (pret ()) (\<lambda>_. sc_heights_agree E x)
      (PyErr TimeoutException ''Syncing blocks'' []) start wait_for)" for E :: "'a env" and x start wait_for
    by (simp add: sync_sc_blocks_loop_def poll_body_def pthrow_PyErr cong: if_cong)
qed (auto simp: sc_heights_agree_def current_height_def intro!: runs_intros)

definition mempool_of :: "'w env \<Rightarrow> string \<Rightarrow> string \<Rightarrow> sc_node \<Rightarrow> ('w, pyval) prog" where
  "mempool_of E request tag node = pbind (sc_call E node ''transaction_allTransactions'' [PStr request])
     (\<lambda>r. plift (py_path r [''result'', tag]))"

text \<open>The reference pool is read first, then the clock, then the pools of the other nodes; the loop
  ends when all of them match.\<close>

definition mempools_match :: "'w env \<Rightarrow> string \<times> string \<times> sc_node list \<Rightarrow> pyval \<Rightarrow> ('w, bool) prog" where
  "mempools_match E x refpool = (case x of (request, tag, api_connections) \<Rightarrow>
     pbind (pfold (\<lambda>i num_match. pbind (plift (list_get api_connections i)) (\<lambda>node.
              pbind (mempool_of E request tag node) (\<lambda>nodepool.
                pret (if py_eq nodepool refpool then num_match + 1 else num_match))))
            [1..int (length api_connections) - 1] 1)
       (\<lambda>num_match. pret (num_match = int (length api_connections))))"

definition reference_pool :: "'w env \<Rightarrow> string \<times> string \<times> sc_node list \<Rightarrow> ('w, pyval) prog" where
  "reference_pool E x = (case x of (request, tag, api_connections) \<Rightarrow>
     pbind (plift (list_get api_connections 0)) (mempool_of E request tag))"

definition sync_sc_mempools_loop :: "'w env \<Rightarrow> string \<times> string \<times> sc_node list \<Rightarrow> rat \<Rightarrow> rat \<Rightarrow> ('w, unit) prog" where
  "sync_sc_mempools_loop E x start wait_for = py_loop
     (pbind (reference_pool E x) (\<lambda>refpool.
       pbind (py_time E) (\<lambda>now.
         if now - start \<ge> wait_for then praise TimeoutException ''Syncing mempools'' []
         else pbind (mempools_match E x refpool) (\<lambda>match.
           if match then pret True
           else pseq (py_sleep E 1) (pret False)))))"

definition sync_sc_mempools :: "'w env \<Rightarrow> sc_node list \<Rightarrow> rat \<Rightarrow> bool \<Rightarrow> ('w, unit) prog" where
  "sync_sc_mempools E api_connections wait_for mempool_cardinality_only =
     (let format = \<not> mempool_cardinality_only;
          tag = (if mempool_cardinality_only then ''transactionIds'' else ''transactions'')
      in pbind (plift (json_dumps (PDict [(''format'', PBool format)]))) (\<lambda>request.
           pbind (py_time E) (\<lambda>start.
             sync_sc_mempools_loop E (request, tag, api_connections) start wait_for)))"

interpretation sync_pools_sc: timed_poll sync_sc_mempools_loop reference_pool mempools_match
  "\<lambda>x. PyErr TimeoutException ''Syncing mempools'' []"
proof
  show "sync_sc_mempools_loop E x start wait_for = py_loop (poll_body E (reference_pool E x) (mempools_match E x)
      (PyErr TimeoutException ''Syncing mempools'' []) start wait_for)" for E :: "'a env" and x start wait_for
    by (simp add: sync_sc_mempools_loop_def poll_body_def pthrow_PyErr cong: if_cong)
qed (auto simp: reference_pool_def mempools_match_def mempool_of_def split: prod.split intro!: runs_intros)

section \<open>Peer connections\<close>

text \<open>\<^verbatim>\<open>i.get("remoteAddress") == "/" + ip_port\<close> of one peer; a matching peer is a non-empty
  dictionary, hence true.\<close>

definition peer_has_address :: "string \<Rightarrow> pyval \<Rightarrow> bool res" where
  "peer_has_address ip_port i = (case i of
      PDict d \<Rightarrow> Inr (case map_of d ''remoteAddress'' of None \<Rightarrow> False | Some a \<Rightarrow> py_eq a (PStr (''/'' @ ip_port)))
    | _ \<Rightarrow> rerr AttributeError ''get'' [i])"

definition sc_connected_peers :: "'w env \<Rightarrow> sc_node \<Rightarrow> ('w, pyval) prog" where
  "sc_connected_peers E node = pbind (sc_call E node ''node_connectedPeers'' [])
     (\<lambda>r. plift (py_path r [''result'', ''peers'']))"

definition is_connected :: "'w env \<Rightarrow> sc_node \<Rightarrow> string \<Rightarrow> ('w, bool) prog" where
  "is_connected E from_connection ip_port = pbind (sc_connected_peers E from_connection) (\<lambda>peers.
     plift (rbind (py_items peers) (rany (peer_has_address ip_port))))"

definition connect_sc_nodes_loop :: "'w env \<Rightarrow> sc_node \<times> string \<times> int \<Rightarrow> rat \<Rightarrow> rat \<Rightarrow> ('w, unit) prog" where
  "connect_sc_nodes_loop E x start wait_for = py_loop
     (pbind (py_time E) (\<lambda>now.
       if now - start \<ge> wait_for then
         praise TimeoutException (''Trying to connect to node'' @ str_int (snd (snd x))) []
       else pbind (is_connected E (fst x) (fst (snd x))) (\<lambda>connected.
         if connected then pret True
         else pseq (py_sleep E 1) (pret False))))"

definition connect_sc_nodes :: "'w env \<Rightarrow> sc_node \<Rightarrow> int \<Rightarrow> rat \<Rightarrow> ('w, unit) prog" where
  "connect_sc_nodes E from_connection node_num wait_for =
     pbind (pget (\<lambda>s. sc_p2p_port E s node_num)) (\<lambda>port.
       let j = PDict [(''host'', PStr ''127.0.0.1''), (''port'', PStr (str_int port))];
           ip_port = ''127.0.0.1:'' @ str_int port
       in pbind (plift (json_dumps j)) (\<lambda>body.
            pseq (sc_call E from_connection ''node_connect'' [PStr body])
              (pbind (py_time E) (\<lambda>start.
                connect_sc_nodes_loop E (from_connection, ip_port, node_num) start wait_for))))"

interpretation connect_sc: timed_poll connect_sc_nodes_loop "\<lambda>E x. pret ()"
  "\<lambda>E x _. is_connected E (fst x) (fst (snd x))"
  "\<lambda>x. PyErr TimeoutException (''Trying to connect to node'' @ str_int (snd (snd x))) []"
proof
  show "connect_sc_nodes_loop E x start wait_for = py_loop (poll_body E (pret ())
      (\<lambda>_. is_connected E (fst x) (fst (snd x)))
      (PyErr TimeoutException (''Trying to connect to node'' @ str_int (snd (snd x))) []) start wait_for)"
    for E :: "'a env" and x start wait_for
    by (simp add: connect_sc_nodes_loop_def poll_body_def pthrow_PyErr cong: if_cong)
qed (auto simp: is_connected_def sc_connected_peers_def intro!: runs_intros)

definition disconnect_sc_nodes :: "'w env \<Rightarrow> sc_node \<Rightarrow> int \<Rightarrow> ('w, unit) prog" where
  "disconnect_sc_nodes E from_connection node_num =
     pbind (pget (\<lambda>s. sc_p2p_port E s node_num)) (\<lambda>port.
       pbind (plift (json_dumps (PDict [(''host'', PStr ''127.0.0.1''), (''port'', PStr (str_int port))]))) (\<lambda>body.
         pseq (sc_call E from_connection ''node_disconnect'' [PStr body]) (pret ())))"

definition connect_sc_nodes_bi :: "'w env \<Rightarrow> sc_node list \<Rightarrow> int \<Rightarrow> int \<Rightarrow> ('w, unit) prog" where
  "connect_sc_nodes_bi E nodes a b =
     pbind (plift (list_get nodes a)) (\<lambda>na. pseq (connect_sc_nodes E na b 25)
       (pbind (plift (list_get nodes b)) (\<lambda>nb. connect_sc_nodes E nb a 25)))"

definition disconnect_sc_nodes_bi :: "'w env \<Rightarrow> sc_node list \<Rightarrow> int \<Rightarrow> int \<Rightarrow> ('w, unit) prog" where
  "disconnect_sc_nodes_bi E nodes a b =
     pbind (plift (list_get nodes a)) (\<lambda>na. pseq (disconnect_sc_nodes E na b)
       (pbind (plift (list_get nodes b)) (\<lambda>nb. pseq (disconnect_sc_nodes E nb a) (py_sleep E 1))))"

section \<open>Properties\<close>

lemma all_equal_first_True:
  "all_equal_first cs = Inr True \<longleftrightarrow> (\<exists>c. cs \<noteq> [] \<and> cs = replicate (length cs) c)"
proof (cases cs)
  case Nil
  then show ?thesis by (simp add: all_equal_first_def list_get_def rerr_def)
next
  case (Cons c cs')
  then show ?thesis by (auto simp: all_equal_first_def list_get_def)
qed

text \<open>C5. When \<open>sync_sc_blocks\<close> returns normally, the heights all nodes reported in its last round of
  requests were one and the same, and there was at least one node.\<close>
theorem sync_sc_blocks_agree:
  assumes "sync_sc_blocks E api_connections wait_for s = Some (Inr (), t)"
  shows "api_connections \<noteq> [] \<and> (\<exists>u h. pmap (current_height E) api_connections u
    = Some (Inr (replicate (length api_connections) h), t))"
proof -
  from assms obtain start u0 where "sync_sc_blocks_loop E api_connections start wait_for u0 = Some (Inr (), t)"
    by (auto simp: sync_sc_blocks_def pbind_Inr_iff)
  then obtain u where "sc_heights_agree E api_connections u = Some (Inr True, t)"
    using sync_blocks_sc.success by blast
  then obtain counts where c: "pmap (current_height E) api_connections u = Some (Inr counts, t)"
    and "all_equal_first counts = Inr True"
    by (auto simp: sc_heights_agree_def pbind_Inr_iff)
  then obtain h where "counts \<noteq> []" and "counts = replicate (length counts) h"
    by (auto simp: all_equal_first_True)
  moreover have "length counts = length api_connections" using c by (rule pmap_Inr_length)
  ultimately show ?thesis using c by force
qed

definition height_reply :: "int \<Rightarrow> pyval res" where
  "height_reply h = Inr (PDict [(''result'', PDict [(''height'', PInt h)])])"

lemmas sample_run = prog_simps ext_defs sample_world_def pbind_run

lemma sync_two_nodes:
  "sync_sc_blocks sample_env [sample_node ''a'', sample_node ''b''] 25
     (sample_world 0 0 [height_reply 4, height_reply 5, height_reply 6, height_reply 6])
   = Some (Inr (), (sample_world 0 1 [])\<lparr>w_calls :=
      [ScCall (sample_node ''a'') ''block_currentHeight'' [] [], ScCall (sample_node ''b'') ''block_currentHeight'' [] [],
       Slept 1,
       ScCall (sample_node ''a'') ''block_currentHeight'' [] [], ScCall (sample_node ''b'') ''block_currentHeight'' [] []]\<rparr>)"
  unfolding sync_sc_blocks_def sync_sc_blocks_loop_def
  by (simp add: py_loop.simps sample_run sc_heights_agree_def current_height_def height_reply_def all_equal_first_def list_get_def)

theorem sync_sc_blocks_agree_witness:
  "\<exists>u h. pmap (current_height sample_env) [sample_node ''a'', sample_node ''b''] u = Some (Inr [h, h],
     (sample_world 0 1 [])\<lparr>w_calls :=
      [ScCall (sample_node ''a'') ''block_currentHeight'' [] [], ScCall (sample_node ''b'') ''block_currentHeight'' [] [],
       Slept 1,
       ScCall (sample_node ''a'') ''block_currentHeight'' [] [], ScCall (sample_node ''b'') ''block_currentHeight'' [] []]\<rparr>)"
  using sync_sc_blocks_agree [OF sync_two_nodes] by (simp add: numeral_2_eq_2)

text \<open>C2. Every bounded wait of the framework ends: whatever the nodes answer, waiting for a height,
  for equal heights, for equal memory pools and for a peer connection return or raise, provided
  that the clock advances while the framework sleeps.\<close>
theorem sc_waits_return:
  assumes "steady_clock E clk"
  shows "rets (wait_for_next_sc_blocks E node h wait_for) \<and> rets (sync_sc_blocks E nodes wait_for) \<and>
    rets (sync_sc_mempools E nodes wait_for cardinality_only) \<and> rets (connect_sc_nodes E node i wait_for)"
  unfolding wait_for_next_sc_blocks_def sync_sc_blocks_def sync_sc_mempools_def connect_sc_nodes_def Let_def
  by (intro conjI rets_pbind rets_basic) (rule wait_blocks.loop_rets sync_blocks_sc.loop_rets
    sync_pools_sc.loop_rets connect_sc.loop_rets, rule assms)+

theorem sc_waits_return_witness:
  "rets (sync_sc_blocks sample_env [sample_node ''a'', sample_node ''b''] 25)"
  using sc_waits_return [OF sample_steady_clock] by blast

text \<open>The loop over the other nodes counts the pools equal to the reference pool.\<close>

lemma count_matching_pools:
  assumes "0 \<le> k"
  shows "pfold (\<lambda>i num_match. pbind (plift (list_get conns i)) (\<lambda>node.
       pbind (mempool_of E request tag node) (\<lambda>nodepool.
         pret (if py_eq nodepool refpool then num_match + 1 else num_match)))) [k..int (length conns) - 1] acc
    = pbind (pmap (mempool_of E request tag) (drop (nat k) conns))
       (\<lambda>pools. pret (acc + int (length (filter (\<lambda>p. py_eq p refpool) pools))))"
  using assms
proof (induction "length conns - nat k" arbitrary: k acc)
  case 0
  then have "[k..int (length conns) - 1] = []" and "drop (nat k) conns = []" by simp_all
  then show ?case by (intro ext) (simp add: pbind_run)
next
  case (Suc n)
  then have k: "k \<le> int (length conns) - 1" and n: "n = length conns - nat (k + 1)" and "nat k < length conns"
    by linarith+
  then have d: "drop (nat k) conns = conns ! nat k # drop (nat (k + 1)) conns"
    using \<open>0 \<le> k\<close> by (metis Cons_nth_drop_Suc Suc_nat_eq_nat_zadd1 add.commute)
  have g: "list_get conns k = Inr (conns ! nat k)"
    using k \<open>0 \<le> k\<close> by (simp add: list_get_def)
  have l: "pbind (plift (Inr x)) f = f x" for x and f :: "'z \<Rightarrow> ('a, int) prog"
    by (rule ext) (simp add: pbind_run)
  show ?case
    unfolding upto_rec1 [OF k] pfold.simps d pmap.simps g l pbind_assoc pbind_pret
    by (subst Suc.hyps(1) [OF n])
      (use \<open>0 \<le> k\<close> in simp, intro ext, simp add: pbind_run split: option.split sum.split prod.split)
qed

lemma mempools_match_iff:
  "mempools_match E (request, tag, n0 # ns) refpool u = Some (Inr True, t) \<longleftrightarrow>
     (\<exists>pools. pmap (mempool_of E request tag) ns u = Some (Inr pools, t) \<and> (\<forall>p \<in> set pools. py_eq p refpool))"
proof -
  have all: "length (filter (\<lambda>p. py_eq p refpool) ps) = length ns \<longleftrightarrow> (\<forall>p \<in> set ps. py_eq p refpool)"
    if "pmap (mempool_of E request tag) ns u = Some (Inr ps, t)" for ps
    using pmap_Inr_length [OF that] by (metis filter_True length_filter_less less_irrefl)
  show ?thesis
    using count_matching_pools [of 1 "n0 # ns" E request tag refpool 1]
    by (simp add: mempools_match_def pbind_Inr_iff) (use all in blast)
qed

text \<open>When \<open>sync_sc_mempools\<close> returns normally, every other node reported, in the last round, a
  memory pool equal to the one the first node had reported before it.\<close>
theorem sync_sc_mempools_agree:
  assumes "sync_sc_mempools E (n0 # ns) wait_for cardinality_only s = Some (Inr (), t)"
  shows "\<exists>request tag refpool u v w now pools.
    json_dumps (PDict [(''format'', PBool (\<not> cardinality_only))]) = Inr request \<and>
    tag = (if cardinality_only then ''transactionIds'' else ''transactions'') \<and>
    mempool_of E request tag n0 u = Some (Inr refpool, v) \<and> py_time E v = Some (Inr now, w) \<and>
    pmap (mempool_of E request tag) ns w = Some (Inr pools, t) \<and> (\<forall>p \<in> set pools. py_eq p refpool)"
proof -
  define tag where "tag = (if cardinality_only then ''transactionIds'' else ''transactions'')"
  from assms obtain request start u0 where r: "json_dumps (PDict [(''format'', PBool (\<not> cardinality_only))]) = Inr request"
    and "sync_sc_mempools_loop E (request, tag, n0 # ns) start wait_for u0 = Some (Inr (), t)"
    by (auto simp: sync_sc_mempools_def Let_def pbind_Inr_iff tag_def split: if_splits)
  then obtain u refpool v now w where "reference_pool E (request, tag, n0 # ns) u = Some (Inr refpool, v)"
    and "py_time E v = Some (Inr now, w)"
    and "mempools_match E (request, tag, n0 # ns) refpool w = Some (Inr True, t)"
    using sync_pools_sc.success by blast
  then have "mempool_of E request tag n0 u = Some (Inr refpool, v)" and "py_time E v = Some (Inr now, w)"
    and "\<exists>pools. pmap (mempool_of E request tag) ns w = Some (Inr pools, t) \<and> (\<forall>p \<in> set pools. py_eq p refpool)"
    by (simp_all add: reference_pool_def pbind_Inr_iff list_get_def mempools_match_iff)
  with r show ?thesis unfolding tag_def by blast
qed

definition pool_reply :: "string list \<Rightarrow> pyval res" where
  "pool_reply ids = Inr (PDict [(''result'', PDict [(''transactionIds'', PList (map PStr ids))])])"

theorem sync_sc_mempools_agree_witness:
  "\<exists>t. sync_sc_mempools sample_env [sample_node ''a'', sample_node ''b''] 25 True
      (sample_world 0 0 [pool_reply [''t1''], pool_reply [''t1'']]) = Some (Inr (), t) \<and>
    (\<exists>request refpool w pools. pmap (mempool_of sample_env request ''transactionIds'') [sample_node ''b''] w = Some (Inr pools, t)
      \<and> list_all (\<lambda>p. py_eq p refpool) pools)"
proof -
  have "json_dumps (PDict [(''format'', PBool False)]) = Inr (''{'' @ json_str ''format'' @ '': false}'')"
    by simp
  then have "\<exists>t. sync_sc_mempools sample_env [sample_node ''a'', sample_node ''b''] 25 True
      (sample_world 0 0 [pool_reply [''t1''], pool_reply [''t1'']]) = Some (Inr (), t)"
    unfolding sync_sc_mempools_def sync_sc_mempools_loop_def
    by (simp add: py_loop.simps sample_run reference_pool_def mempools_match_def mempool_of_def pool_reply_def
        list_get_def Let_def del: json_dumps.simps)
  then obtain t where run: "sync_sc_mempools sample_env [sample_node ''a'', sample_node ''b''] 25 True
      (sample_world 0 0 [pool_reply [''t1''], pool_reply [''t1'']]) = Some (Inr (), t)" by blast
  then show ?thesis using sync_sc_mempools_agree [OF run] by (auto simp: list_all_iff)
qed

text \<open>When \<open>connect_sc_nodes\<close> returns normally, the node has been asked to connect and lists a
  peer with the peer-to-peer address of the other node.\<close>
theorem connect_sc_nodes_connects:
  assumes "connect_sc_nodes E from_connection node_num wait_for s = Some (Inr (), t)"
  shows "\<exists>u peers ps p. sc_connected_peers E from_connection u = Some (Inr peers, t) \<and> py_items peers = Inr ps \<and>
    p \<in> set ps \<and> peer_has_address (''127.0.0.1:'' @ str_int (sc_p2p_port E s node_num)) p = Inr True"
proof -
  let ?x = "(from_connection, ''127.0.0.1:'' @ str_int (sc_p2p_port E s node_num), node_num)"
  from assms obtain start u0 where "connect_sc_nodes_loop E ?x start wait_for u0 = Some (Inr (), t)"
    by (auto simp: connect_sc_nodes_def Let_def pbind_Inr_iff)
  then obtain u where "is_connected E from_connection (fst (snd ?x)) u = Some (Inr True, t)"
    using connect_sc.success by fastforce
  then show ?thesis
    by (auto simp: is_connected_def pbind_Inr_iff rbind_Inr_iff dest!: rany_True_iff)
qed

definition peers_reply :: "string \<Rightarrow> pyval res" where
  "peers_reply a = Inr (PDict [(''result'', PDict [(''peers'', PList [PDict [(''remoteAddress'', PStr a)]])])])"

theorem connect_sc_nodes_connects_witness:
  "\<exists>u peers ps p t. sc_connected_peers sample_env (sample_node ''a'') u = Some (Inr peers, t) \<and> py_items peers = Inr ps \<and>
    p \<in> set ps \<and> peer_has_address ''127.0.0.1:8501'' p = Inr True"
proof -
  have port: "str_int 8501 = ''8501''" by (simp add: str_int_def nat_str.simps digit_char_def)
  have "\<exists>t. connect_sc_nodes sample_env (sample_node ''a'') 1 25
      (sample_world 1 0 [Inr PNone, peers_reply ''/127.0.0.1:8501'']) = Some (Inr (), t)"
    unfolding connect_sc_nodes_def connect_sc_nodes_loop_def
    by (simp add: py_loop.simps sample_run is_connected_def sc_connected_peers_def peers_reply_def Let_def port
        sc_p2p_port_def sc_start_port_modifier_def peer_has_address_def)
  then obtain t where run: "connect_sc_nodes sample_env (sample_node ''a'') 1 25
      (sample_world 1 0 [Inr PNone, peers_reply ''/127.0.0.1:8501'']) = Some (Inr (), t)" by blast
  show ?thesis
    using connect_sc_nodes_connects [OF run]
    by (auto simp: sc_p2p_port_def sc_start_port_modifier_def sample_world_def port)
qed

end
