(* ===== verification/Bootstrap_Info.thy ===== *)
theory Bootstrap_Info
  imports Py_Effects Py_Strings
begin

text \<open>
  The configuration and result objects of bootstrapping a sidechain network
  (\<^verbatim>\<open>qa/SidechainTestFramework/sc_boostrap_info.py\<close>), one record per class and one constructor
  function per \<^verbatim>\<open>__init__\<close>. Values that come out of the bootstrapping tools stay dynamically
  typed.
\<close>

section \<open>Constants\<close>

definition LARGE_WITHDRAWAL_EPOCH_LENGTH :: int where
  "LARGE_WITHDRAWAL_EPOCH_LENGTH = 900"

definition SC_CREATION_VERSION_2 :: int where
  "SC_CREATION_VERSION_2 = 2"

definition NO_KEY_ROTATION_CIRCUIT :: string where
  "NO_KEY_ROTATION_CIRCUIT = ''NaiveThresholdSignatureCircuit''"

definition KEY_ROTATION_CIRCUIT :: string where
  "KEY_ROTATION_CIRCUIT = ''NaiveThresholdSignatureCircuitWithKeyRotation''"

definition DEFAULT_API_KEY :: string where
  "DEFAULT_API_KEY = ''TopSecret''"

section \<open>Creation of a sidechain\<close>

record sc_creation_info =
  ci_mc_node :: mc_node
  ci_forward_amount :: pyval
  ci_withdrawal_epoch_length :: int
  ci_btr_data_length :: int
  ci_sc_creation_version :: int
  ci_cert_max_keys :: int
  ci_cert_sig_threshold :: int
  ci_csw_enabled :: bool
  ci_non_ceasing :: bool
  ci_circuit_type :: string

text \<open>The message of the second refusal adds an integer to a string, which itself raises.\<close>

definition SCCreationInfo :: "mc_node \<Rightarrow> pyval \<Rightarrow> int \<Rightarrow> int \<Rightarrow> int \<Rightarrow> int \<Rightarrow> int \<Rightarrow> bool \<Rightarrow> bool \<Rightarrow> string \<Rightarrow> sc_creation_info res" where
  "SCCreationInfo mc_node forward_amount withdrawal_epoch_length btr_data_length sc_creation_version
      cert_max_keys cert_sig_threshold csw_enabled is_non_ceasing circuit_type =
     (if csw_enabled \<and> is_non_ceasing then
        rerr RuntimeError ''Cannot enable CSW and Non-ceasing options simultaneously.'' []
      else if sc_creation_version \<noteq> SC_CREATION_VERSION_2 \<and> is_non_ceasing then
        rbind (py_concat (PStr ''Cannot initialize non-ceasing sidechain with version different from '') (PInt SC_CREATION_VERSION_2)) (\<lambda>m.
          rbind (py_concat m (PStr ''. Found '')) (\<lambda>m.
            rbind (py_concat m (PInt sc_creation_version)) (\<lambda>m. rerr RuntimeError (py_str m) [])))
      else Inr \<lparr>ci_mc_node = mc_node, ci_forward_amount = forward_amount,
        ci_withdrawal_epoch_length = withdrawal_epoch_length, ci_btr_data_length = btr_data_length,
        ci_sc_creation_version = sc_creation_version, ci_cert_max_keys = cert_max_keys,
        ci_cert_sig_threshold = cert_sig_threshold, ci_csw_enabled = csw_enabled,
        ci_non_ceasing = is_non_ceasing, ci_circuit_type = circuit_type\<rparr>)"

section \<open>Configuration of a node\<close>

record mc_connection_info =
  conn_address :: string
  conn_timeout :: int
  conn_reconnectionDelay :: int
  conn_reconnectionMaxAttempts :: int

definition default_MCConnectionInfo :: mc_connection_info where
  "default_MCConnectionInfo = \<lparr>conn_address = ''ws://localhost:8888'', conn_timeout = 100,
     conn_reconnectionDelay = 1, conn_reconnectionMaxAttempts = 1\<rparr>"

record sc_forger_configuration =
  fo_restrict_forgers :: bool
  fo_allowed_forgers :: "string list"
  fo_forger_reward_address :: string

definition forger_entry :: "string \<Rightarrow> string \<Rightarrow> string" where
  "forger_entry blockSignProposition vrfPublicKey =
     ''{ blockSignProposition = '' @ [CHR 0x22] @ blockSignProposition @ [CHR 0x22]
     @ '' NEW_LINE vrfPublicKey = '' @ [CHR 0x22] @ vrfPublicKey @ [CHR 0x22] @ '' }''"

definition SCForgerConfiguration :: "bool \<Rightarrow> (string \<times> string) list \<Rightarrow> string \<Rightarrow> sc_forger_configuration" where
  "SCForgerConfiguration restrict_forgers allowed_forgers forger_reward_address =
     \<lparr>fo_restrict_forgers = restrict_forgers,
      fo_allowed_forgers = map (\<lambda>forger. forger_entry (fst forger) (snd forger)) allowed_forgers,
      fo_forger_reward_address = forger_reward_address\<rparr>"

text \<open>\<open>nc_remote_keys_server_address\<close> and \<open>nc_declared_address\<close> are attributes that may be missing.\<close>

record sc_node_configuration =
  nc_mc_connection_info :: mc_connection_info
  nc_cert_submitter_enabled :: bool
  nc_cert_signing_enabled :: bool
  nc_submitter_private_keys_indexes :: "int list"
  nc_max_incoming_connections :: int
  nc_max_outgoing_connections :: int
  nc_get_peers_interval :: string
  nc_automatic_fee_computation :: bool
  nc_certificate_fee :: pyval
  nc_forger_options :: sc_forger_configuration
  nc_api_key :: string
  nc_max_fee :: int
  nc_mempool_max_size :: int
  nc_mempool_min_fee_rate :: int
  nc_initial_private_keys :: "pyval list"
  nc_initial_signing_private_keys :: "pyval list"
  nc_remote_keys_manager_enabled :: bool
  nc_remote_keys_server_address :: "pyval option"
  nc_known_peers :: "pyval list"
  nc_declared_address :: "string option"
  nc_storage_backup_interval :: string
  nc_storage_backup_delay :: string
  nc_websocket_server_enabled :: bool
  nc_websocket_server_port :: int
  nc_allow_unprotected_txs :: bool
  nc_max_nonce_gap :: int
  nc_max_account_slots :: int
  nc_max_mempool_slots :: int
  nc_max_nonexec_pool_slots :: int
  nc_tx_lifetime :: int
  nc_handling_txs_enabled :: bool
  nc_evm_state_dump_enabled :: bool

text \<open>
  The constructor: \<open>submitter_private_keys_indexes\<close> defaults to the seven signers, the remote server
  address is stored only when the remote key manager is enabled, the declared address only when
  given; every other argument is stored as it is. The arguments are given as a record of the same
  shape.
\<close>

definition SCNodeConfiguration :: "int list option \<Rightarrow> pyval \<Rightarrow> sc_node_configuration \<Rightarrow> sc_node_configuration" where
  "SCNodeConfiguration submitter_private_keys_indexes remote_keys_server_address args =
     args\<lparr>nc_submitter_private_keys_indexes :=
            (case submitter_private_keys_indexes of None \<Rightarrow> [0..6] | Some l \<Rightarrow> l),
          nc_remote_keys_server_address :=
            (if nc_remote_keys_manager_enabled args then Some remote_keys_server_address else None)\<rparr>"

definition default_node_args :: sc_node_configuration where
  "default_node_args = \<lparr>
     nc_mc_connection_info = default_MCConnectionInfo,
     nc_cert_submitter_enabled = True,
     nc_cert_signing_enabled = True,
     nc_submitter_private_keys_indexes = [],
     nc_max_incoming_connections = 100,
     nc_max_outgoing_connections = 100,
     nc_get_peers_interval = ''2m'',
     nc_automatic_fee_computation = True,
     nc_certificate_fee = PFloat (1 / 10000),
     nc_forger_options = SCForgerConfiguration False [] [],
     nc_api_key = DEFAULT_API_KEY,
     nc_max_fee = 10000000,
     nc_mempool_max_size = 300,
     nc_mempool_min_fee_rate = 0,
     nc_initial_private_keys = [],
     nc_initial_signing_private_keys = [],
     nc_remote_keys_manager_enabled = False,
     nc_remote_keys_server_address = None,
     nc_known_peers = [],
     nc_declared_address = None,
     nc_storage_backup_interval = ''15m'',
     nc_storage_backup_delay = ''5m'',
     nc_websocket_server_enabled = False,
     nc_websocket_server_port = 0,
     nc_allow_unprotected_txs = True,
     nc_max_nonce_gap = 16,
     nc_max_account_slots = 16,
     nc_max_mempool_slots = 6144,
     nc_max_nonexec_pool_slots = 1024,
     nc_tx_lifetime = 10800,
     nc_handling_txs_enabled = True,
     nc_evm_state_dump_enabled = True\<rparr>"

definition update_websocket_config :: "sc_node_configuration \<Rightarrow> bool \<Rightarrow> int \<Rightarrow> sc_node_configuration" where
  "update_websocket_config self websocket_server_enabled websocket_server_port =
     self\<lparr>nc_websocket_server_enabled := websocket_server_enabled, nc_websocket_server_port := websocket_server_port\<rparr>"

record sc_network_configuration =
  net_sc_creation_info :: sc_creation_info
  net_sc_nodes_configuration :: "sc_node_configuration list"

section \<open>Keys and proofs\<close>

text \<open>\<open>Account\<close>, \<open>VrfAccount\<close> and \<open>SchnorrAccount\<close> have the same two attributes.\<close>

record key_pair =
  kp_secret :: pyval
  kp_publicKey :: pyval

record account_key =
  ak_secret :: pyval
  ak_proposition :: pyval

record proof_keys_paths =
  pk_proving_key_path :: string
  pk_verification_key_path :: string

record certificate_proof_info =
  cp_threshold :: pyval
  cp_genSysConstant :: pyval
  cp_verificationKey :: pyval
  cp_schnorr_signers_secrets :: "pyval list"
  cp_public_signing_keys :: "pyval list"
  cp_schnorr_masters_secrets :: "pyval list"
  cp_public_master_keys :: "pyval list"

record sc_bootstrap_info =
  bi_sidechain_id :: pyval
  bi_genesis_account :: "key_pair option"
  bi_genesis_account_balance :: pyval
  bi_mainchain_block_height :: pyval
  bi_sidechain_genesis_block_hex :: pyval
  bi_pow_data :: pyval
  bi_network :: pyval
  bi_withdrawal_epoch_length :: int
  bi_genesis_vrf_account :: "key_pair option"
  bi_certificate_proof_info :: certificate_proof_info
  bi_initial_cumulative_comm_tree_hash :: pyval
  bi_is_non_ceasing :: bool
  bi_cert_keys_paths :: proof_keys_paths
  bi_csw_keys_paths :: "proof_keys_paths option"
  bi_genesis_evm_account :: "account_key option"
  bi_circuit_type :: string

section \<open>Properties\<close>

text \<open>A creation request is accepted exactly when it does not combine ceased withdrawals with a
  non-ceasing sidechain and a non-ceasing sidechain has version 2; accepted requests keep their
  values. Of the two refusals only the first raises the \<open>RuntimeError\<close> the code announces; the
  second fails with a \<open>TypeError\<close> while building its message.\<close>
theorem SCCreationInfo_validates:
  "SCCreationInfo node amount len btr version max_keys threshold csw non_ceasing circuit =
     (if csw \<and> non_ceasing then rerr RuntimeError ''Cannot enable CSW and Non-ceasing options simultaneously.'' []
      else if non_ceasing \<and> version \<noteq> 2 then rerr TypeError ''can only concatenate str''
        [PStr ''Cannot initialize non-ceasing sidechain with version different from '', PInt 2]
      else Inr \<lparr>ci_mc_node = node, ci_forward_amount = amount, ci_withdrawal_epoch_length = len,
        ci_btr_data_length = btr, ci_sc_creation_version = version, ci_cert_max_keys = max_keys,
        ci_cert_sig_threshold = threshold, ci_csw_enabled = csw, ci_non_ceasing = non_ceasing,
        ci_circuit_type = circuit\<rparr>)"
  by (simp add: SCCreationInfo_def SC_CREATION_VERSION_2_def rerr_def)

end
