(* ===== verification/Sc_Node.thy ===== *)
theory Sc_Node
  imports Processes Sc_Sync Bootstrap_Info
begin

text \<open>
  Sidechain nodes as processes (\<^verbatim>\<open>qa/SidechainTestFramework/scutil.py\<close>): the command line of a
  node, starting and stopping nodes, and the table of their processes.
\<close>

section \<open>Paths and the command line\<close>

definition SNAPSHOT_VERSION_TAG :: string where
  "SNAPSHOT_VERSION_TAG = ''0.13.0''"

definition get_lib_separator :: "'w env \<Rightarrow> string" where
  "get_lib_separator E = (if e_windows E then '';'' else '':'')"

definition get_examples_dir :: "'w env \<Rightarrow> string" where
  "get_examples_dir E = path_join (e_repo_dir E) ''examples''"

definition get_resources_dir :: "'w env \<Rightarrow> string" where
  "get_resources_dir E = path_join (path_join (e_repo_dir E) ''qa'') ''resources''"

definition SIMPLE_APP_BINARY :: "'w env \<Rightarrow> string" where
  "SIMPLE_APP_BINARY E = get_examples_dir E @ ''/utxo/simpleapp/target/sidechains-sdk-simpleapp-'' @ SNAPSHOT_VERSION_TAG
     @ ''.jar'' @ get_lib_separator E @ get_examples_dir E @ ''/utxo/simpleapp/target/lib/* io.horizen.examples.SimpleApp''"

definition EVM_APP_BINARY :: "'w env \<Rightarrow> string" where
  "EVM_APP_BINARY E = get_examples_dir E @ ''/account/evmapp/target/sidechains-sdk-evmapp-'' @ SNAPSHOT_VERSION_TAG
     @ ''.jar'' @ get_lib_separator E @ get_examples_dir E @ ''/account/evmapp/target/lib/* io.horizen.examples.EvmApp''"

definition UTXO_BOOTSTRAPPING_TOOL :: "'w env \<Rightarrow> string" where
  "UTXO_BOOTSTRAPPING_TOOL E = get_examples_dir E @ ''/utxo/utxoapp_sctool/target/sidechains-sdk-utxoapp_sctool-''
     @ SNAPSHOT_VERSION_TAG @ ''.jar''"

definition EVM_BOOTSTRAPPING_TOOL :: "'w env \<Rightarrow> string" where
  "EVM_BOOTSTRAPPING_TOOL E = get_examples_dir E @ ''/account/evmapp_sctool/target/sidechains-sdk-evmapp_sctool-''
     @ SNAPSHOT_VERSION_TAG @ ''.jar''"

text \<open>\<^verbatim>\<open>extra_args[extra_args.index(flag) + 1]\<close> when the flag is given, the default otherwise.\<close>

fun arg_after :: "string \<Rightarrow> string list \<Rightarrow> string \<Rightarrow> string res" where
  "arg_after flag [] dflt = Inr dflt"
| "arg_after flag (a # as) dflt = (if a = flag then list_get as 0 else arg_after flag as dflt)"

definition additional_params :: "string list option \<Rightarrow> string res" where
  "additional_params extra_args = (case extra_args of
      None \<Rightarrow> Inr []
    | Some as \<Rightarrow> rbind (arg_after ''-mc_block_delay_ref'' as ''0'') (\<lambda>val_mc_block_delay_ref.
        rbind (arg_after ''-all_forks'' as ''0'') (\<lambda>val_all_forks.
          rbind (arg_after ''-max_hist_rew_len'' as ''100'') (\<lambda>val_max_hist_rew_len.
            Inr (val_mc_block_delay_ref @ '' '' @ val_all_forks @ '' '' @ val_max_hist_rew_len)))))"

definition dbg_agent_opt :: "string list option \<Rightarrow> string" where
  "dbg_agent_opt extra_args = (case extra_args of
      None \<Rightarrow> []
    | Some as \<Rightarrow> if ''-agentlib'' \<in> set as
        then '' -agentlib:jdwp=transport=dt_socket,server=y,suspend=y,address=*:5005'' else [])"

definition jacoco_cmd :: "'w env \<Rightarrow> string" where
  "jacoco_cmd E = ''-javaagent:'' @ foldl path_join (e_home E) [''.m2'', ''repository'', ''org'', ''jacoco'',
       ''org.jacoco.agent'', ''0.8.9'', ''org.jacoco.agent-0.8.9-runtime.jar'']
     @ ''=destfile=../coverage-reports/sidechains-sdk-'' @ SNAPSHOT_VERSION_TAG @ ''/sidechains-sdk-''
     @ SNAPSHOT_VERSION_TAG @ ''-jacoco-report.exec,append=true''"

definition sc_bashcmd :: "'w env \<Rightarrow> bool \<Rightarrow> string list option \<Rightarrow> string \<Rightarrow> string \<Rightarrow> string res" where
  "sc_bashcmd E jacoco extra_args binary cfgFileName = rbind (additional_params extra_args) (\<lambda>params.
     Inr (''java --add-opens java.base/java.lang=ALL-UNNAMED '' @ (if jacoco then jacoco_cmd E else [])
       @ dbg_agent_opt extra_args @ '' -cp '' @ binary @ '' '' @ cfgFileName @ '' '' @ params))"

section \<open>Starting and stopping\<close>

definition register_sc :: "int \<Rightarrow> int \<Rightarrow> ('w, unit) prog" where
  "register_sc i p = pmodify (\<lambda>s. s\<lparr>sidechainclient_processes := tab_put i p (sidechainclient_processes s)\<rparr>)"

definition start_sc_node :: "'w env \<Rightarrow> int \<Rightarrow> string \<Rightarrow> string list option \<Rightarrow> string option \<Rightarrow> string option \<Rightarrow> bool \<Rightarrow> string option
    \<Rightarrow> ('w, sc_node) prog" where
  "start_sc_node E i dirname extra_args rpchost binary print_output_to_file auth_api_key =
     (let datadir = path_join dirname (''sc_node'' @ str_int i);
          binary = (case binary of None \<Rightarrow> SIMPLE_APP_BINARY E | Some b \<Rightarrow> b);
          cfgFileName = datadir @ ''/node'' @ str_int i @ ''.conf''
      in pbind (pget is_jacoco_included) (\<lambda>jacoco.
           pbind (plift (sc_bashcmd E jacoco extra_args binary cfgFileName)) (\<lambda>bashcmd.
             pseq (if print_output_to_file then pseq (py_write E (datadir @ ''/log_out.txt'') []) (py_write E (datadir @ ''/log_err.txt'') [])
                   else pret ())
               (pbind (py_popen E (split_ws bashcmd)) (\<lambda>p.
                 pseq (register_sc i p)
                   (pbind (pget (\<lambda>s. sc_rpc_port E s i)) (\<lambda>port.
                     pret \<lparr>sc_url = ''http://127.0.0.1:'' @ str_int port, sc_dataDir = datadir,
                           sc_auth_api_key = auth_api_key\<rparr>)))))))"

definition start_sc_ith :: "'w env \<Rightarrow> string \<Rightarrow> string list option list \<Rightarrow> string option \<Rightarrow> string option list \<Rightarrow> bool \<Rightarrow> string option
    \<Rightarrow> int \<Rightarrow> ('w, sc_node) prog" where
  "start_sc_ith E dirname extra_args rpchost binary print_output_to_file auth_api_key i =
     pbind (plift (list_get extra_args i)) (\<lambda>a. pbind (plift (list_get binary i)) (\<lambda>b.
       start_sc_node E i dirname a rpchost b print_output_to_file auth_api_key))"

definition start_sc_nodes :: "'w env \<Rightarrow> int \<Rightarrow> string \<Rightarrow> string list option list option \<Rightarrow> string option
    \<Rightarrow> string option list option \<Rightarrow> bool \<Rightarrow> string option \<Rightarrow> ('w, sc_node list) prog" where
  "start_sc_nodes E num_nodes dirname extra_args rpchost binary print_output_to_file auth_api_key =
     (let extra_args = (case extra_args of None \<Rightarrow> replicate (nat num_nodes) None | Some a \<Rightarrow> a);
          binary = (case binary of None \<Rightarrow> replicate (nat num_nodes) None | Some b \<Rightarrow> b)
      in pbind (pmap (start_sc_ith E dirname extra_args rpchost binary print_output_to_file auth_api_key)
                  (py_range num_nodes)) (\<lambda>nodes.
           pseq (wait_for_sc_node_initialization E nodes) (pret nodes)))"

definition check_sc_node :: "'w env \<Rightarrow> int \<Rightarrow> ('w, int option) prog" where
  "check_sc_node E i = pbind (pget sidechainclient_processes) (\<lambda>d.
     case map_of d i of None \<Rightarrow> praise KeyError (str_int i) []
     | Some p \<Rightarrow> pext (\<lambda>w. case e_poll E p w of (rc, w') \<Rightarrow> (Inr rc, w')))"

text \<open>\<^verbatim>\<open>if i in sidechainclient_processes: wait for the process and forget it\<close>\<close>

definition reap_sc_node :: "'w env \<Rightarrow> int \<Rightarrow> ('w, unit) prog" where
  "reap_sc_node E i = pbind (pget sidechainclient_processes) (\<lambda>d.
     case map_of d i of None \<Rightarrow> pret ()
     | Some p \<Rightarrow> pseq (py_wait E p) (pmodify (\<lambda>s. s\<lparr>sidechainclient_processes := tab_del i (sidechainclient_processes s)\<rparr>)))"

definition stop_sc_node :: "'w env \<Rightarrow> sc_node \<Rightarrow> int \<Rightarrow> ('w, unit) prog" where
  "stop_sc_node E node i = pseq (sc_call E node ''node_stop'' []) (reap_sc_node E i)"

definition stop_if_running :: "'w env \<Rightarrow> sc_node list \<Rightarrow> int \<Rightarrow> ('w, unit) prog" where
  "stop_if_running E nodes idx = pbind (pget sidechainclient_processes) (\<lambda>d.
     if idx \<in> fst ` set d then pbind (plift (list_get nodes idx)) (\<lambda>n. stop_sc_node E n idx) else pret ())"

text \<open>The result is what is left in the caller's list of nodes.\<close>

definition stop_sc_nodes :: "'w env \<Rightarrow> sc_node list \<Rightarrow> ('w, sc_node list) prog" where
  "stop_sc_nodes E nodes = pseq (piter (stop_if_running E nodes) (py_range (int (length nodes)))) (pret [])"

definition wait_sidechainclients :: "'w env \<Rightarrow> ('w, unit) prog" where
  "wait_sidechainclients E = pbind (pget sidechainclient_processes) (\<lambda>d.
     pseq (piter (\<lambda>e. py_wait E (snd e)) d) (pmodify (\<lambda>s. s\<lparr>sidechainclient_processes := []\<rparr>)))"

definition get_sc_node_pids :: "('w, int list) prog" where
  "get_sc_node_pids = pget (\<lambda>s. map snd (sidechainclient_processes s))"

interpretation sc_procs: process_table sidechainclient_processes reap_sc_node wait_sidechainclients
proof
  fix s :: "'a world" and i p E
  assume "map_of (sidechainclient_processes s) i = Some p"
  then show "\<exists>t. reap_sc_node E i s = Some (Inr (), t) \<and>
      sidechainclient_processes t = tab_del i (sidechainclient_processes s) \<and> w_calls t = w_calls s @ [Waited p]"
    by (simp add: reap_sc_node_def pbind_run py_wait_def pact_run)
next
  fix s :: "'a world" and E
  show "\<exists>t. wait_sidechainclients E s = Some (Inr (), t) \<and> sidechainclient_processes t = [] \<and>
      w_calls t = w_calls s @ map (\<lambda>e. Waited (snd e)) (sidechainclient_processes s)"
    using wait_each [of E "sidechainclient_processes s" s] by (auto simp: wait_sidechainclients_def pbind_run)
qed

section \<open>Lemmas\<close>

lemma split_ws_blank:
  assumes "is_blank c"
  shows "split_ws (a @ c # b) = split_ws a @ split_ws b"
proof (induction a rule: split_ws.induct)
  case (2 x xs)
  show ?case
  proof (cases "is_blank x \<or> list_all (\<lambda>y. \<not> is_blank y) xs")
    case True
    show ?thesis
    proof (cases "is_blank x")
      case True
      with 2 show ?thesis by simp
    next
      case False
      with True have all: "\<And>y. y \<in> set xs \<Longrightarrow> \<not> is_blank y" by (auto simp: list_all_iff)
      have d: "dropWhile (\<lambda>x. \<not> is_blank x) xs = []" and t: "takeWhile (\<lambda>x. \<not> is_blank x) xs = xs"
        using all by simp_all
      have "takeWhile (\<lambda>x. \<not> is_blank x) (xs @ c # b) = xs" "dropWhile (\<lambda>x. \<not> is_blank x) (xs @ c # b) = c # b"
        using all assms by (simp_all add: takeWhile_append2 dropWhile_append2)
      then show ?thesis using False assms by (simp add: d t del: takeWhile_eq_all_conv dropWhile_eq_Nil_conv)
    qed
  next
    case False
    then obtain y where "y \<in> set xs" "is_blank y" by (auto simp: list_all_iff)
    then have "takeWhile (\<lambda>x. \<not> is_blank x) (xs @ c # b) = takeWhile (\<lambda>x. \<not> is_blank x) xs"
      and "dropWhile (\<lambda>x. \<not> is_blank x) (xs @ c # b) = dropWhile (\<lambda>x. \<not> is_blank x) xs @ c # b"
      by (auto simp: takeWhile_append1 dropWhile_append1)
    with False 2 show ?thesis by simp
  qed
qed (use assms in simp)

lemma split_ws_word:
  assumes "w \<noteq> []" and "list_all (\<lambda>y. \<not> is_blank y) w"
  shows "split_ws w = [w]"
proof -
  obtain c cs where w: "w = c # cs" using assms(1) by (cases w) auto
  have t: "takeWhile (\<lambda>x. \<not> is_blank x) cs = cs" and d: "dropWhile (\<lambda>x. \<not> is_blank x) cs = []"
    using assms(2) w by (auto simp: list_all_iff)
  show ?thesis using assms(2) w by (simp add: t d)
qed

lemma start_sc_ith_run:
  assumes "start_sc_ith E dirname as h bs out key i s = Some (Inr n, t)"
  shows "\<exists>p. sidechainclient_processes t = tab_put i p (sidechainclient_processes s) \<and>
    waits (w_calls t) = waits (w_calls s) \<and> sc_rpc_port E t = sc_rpc_port E s \<and>
    n = \<lparr>sc_url = ''http://127.0.0.1:'' @ str_int (sc_rpc_port E s i),
         sc_dataDir = path_join dirname (''sc_node'' @ str_int i), sc_auth_api_key = key\<rparr>"
proof -
  from assms obtain a b where "start_sc_node E i dirname a h b out key s = Some (Inr n, t)"
    by (auto simp: start_sc_ith_def pbind_Inr_iff)
  then show ?thesis
    by (auto simp: start_sc_node_def Let_def pbind_Inr_iff py_write_def py_popen_def pext_run pact_run register_sc_def
        sc_rpc_port_def sc_start_port_modifier_def split: if_splits)
qed

lemma start_sc_nodes_run:
  assumes "pmap (start_sc_ith E dirname as h bs out key) is s = Some (Inr ns, t)"
    and "distinct (map fst (sidechainclient_processes s))"
  shows "fst ` set (sidechainclient_processes t) = fst ` set (sidechainclient_processes s) \<union> set is \<and>
    distinct (map fst (sidechainclient_processes t)) \<and> waits (w_calls t) = waits (w_calls s) \<and>
    ns = map (\<lambda>i. \<lparr>sc_url = ''http://127.0.0.1:'' @ str_int (sc_rpc_port E s i),
       sc_dataDir = path_join dirname (''sc_node'' @ str_int i), sc_auth_api_key = key\<rparr>) is"
  using assms
proof (induction "is" arbitrary: s ns)
  case (Cons i "is")
  from Cons.prems(1) obtain n u ns' where ith: "start_sc_ith E dirname as h bs out key i s = Some (Inr n, u)" and ns: "ns = n # ns'"
    and rest: "pmap (start_sc_ith E dirname as h bs out key) is u = Some (Inr ns', t)"
    by (auto simp: pbind_Inr_iff)
  obtain p where p: "sidechainclient_processes u = tab_put i p (sidechainclient_processes s)"
    using start_sc_ith_run [OF ith] by blast
  have "distinct (map fst (sidechainclient_processes u))" using Cons.prems(2) p by (simp add: distinct_tab_put)
  from Cons.IH [OF rest this] start_sc_ith_run [OF ith] ns p show ?case
    by (auto simp: keys_tab_put)
qed simp

lemma socket_keeps_table:
  assumes "wait_for_socket E port 1 s = Some (r, t)"
  shows "sidechainclient_processes t = sidechainclient_processes s"
  using assms unfolding wait_for_socket_def
  by (rule py_loop_induct)
    (auto simp: pbind_Inl_iff pbind_Inr_iff socket_open_def py_sleep_def pext_run pact_run split: if_splits prod.splits)

lemma init_keeps_table:
  assumes "wait_for_sc_node_initialization E nodes s = Some (Inr (), t)"
  shows "sidechainclient_processes t = sidechainclient_processes s"
proof -
  have "sidechainclient_processes y = sidechainclient_processes x"
    if "piter (\<lambda>i. pbind (pget (\<lambda>s. sc_rpc_port E s i)) (\<lambda>rpc_port. wait_for_socket E rpc_port 1)) is x = Some (Inr (), y)" for "is" x y
    using that by (induction "is" arbitrary: x) (auto simp: pbind_Inr_iff dest!: socket_keeps_table)
  then show ?thesis using assms by (simp add: wait_for_sc_node_initialization_def)
qed

definition pid_list :: "(int \<times> int) list \<Rightarrow> int \<Rightarrow> int list" where
  "pid_list d i = (case map_of d i of None \<Rightarrow> [] | Some p \<Rightarrow> [p])"

lemma pid_list_tab_del: "j \<noteq> i \<Longrightarrow> pid_list (tab_del i d) j = pid_list d j"
  by (simp add: pid_list_def)

text \<open>What the stopping of one node leaves in the trace: the request to stop, then the wait for its process.\<close>

definition stop_events :: "sc_node list \<Rightarrow> (int \<times> int) list \<Rightarrow> int \<Rightarrow> event list" where
  "stop_events nodes d i = (case (map_of d i, list_get nodes i) of
      (Some p, Inr n) \<Rightarrow> [ScCall n ''node_stop'' [] [], Waited p] | _ \<Rightarrow> [])"

lemma stop_events_tab_del: "j \<noteq> i \<Longrightarrow> stop_events nodes (tab_del i d) j = stop_events nodes d j"
  by (simp add: stop_events_def)

lemma waits_stop_events [simp]:
  "waits (concat (map (stop_events nodes d) [0..int (length nodes) - 1])) = concat (map (pid_list d) [0..int (length nodes) - 1])"
proof -
  have "waits (concat (map (stop_events nodes d) is)) = concat (map (pid_list d) is)" if "set is \<subseteq> {0..<int (length nodes)}" for "is"
    using that
  proof (induction "is")
    case (Cons i "is")
    then have "list_get nodes i = Inr (nodes ! nat i)" by (auto simp: list_get_def)
    with Cons show ?case by (auto simp: stop_events_def pid_list_def split: option.splits)
  qed simp
  note this [of "[0..int (length nodes) - 1]"]
  moreover have "set [0..int (length nodes) - 1] \<subseteq> {0..<int (length nodes)}" by auto
  ultimately show ?thesis by blast
qed

lemma stop_if_running_run:
  assumes "stop_if_running E nodes i s = Some (Inr (), t)"
  shows "sidechainclient_processes t = tab_del i (sidechainclient_processes s) \<and>
    w_calls t = w_calls s @ stop_events nodes (sidechainclient_processes s) i \<and>
    waits (w_calls t) = waits (w_calls s) @ pid_list (sidechainclient_processes s) i"
proof (cases "map_of (sidechainclient_processes s) i")
  case None
  then have "i \<notin> fst ` set (sidechainclient_processes s)" by (simp add: map_of_eq_None_iff)
  with None assms show ?thesis by (simp add: stop_if_running_def pbind_run tab_del_id pid_list_def stop_events_def)
next
  case (Some p)
  then have "i \<in> fst ` set (sidechainclient_processes s)" by (metis map_of_eq_None_iff option.distinct(1))
  with assms obtain n where n: "list_get nodes i = Inr n" and "stop_sc_node E n i s = Some (Inr (), t)"
    by (auto simp: stop_if_running_def pbind_Inr_iff)
  then obtain r u where u: "sc_call E n ''node_stop'' [] s = Some (Inr r, u)" and reap: "reap_sc_node E i u = Some (Inr (), t)"
    by (auto simp: stop_sc_node_def pbind_Inr_iff)
  then have "sidechainclient_processes u = sidechainclient_processes s" "w_calls u = w_calls s @ [ScCall n ''node_stop'' [] []]"
    by (auto simp: sc_call_run)
  with sc_procs.reap [of u i p E] Some reap n show ?thesis by (auto simp: pid_list_def stop_events_def)
qed

lemma stop_range_run:
  assumes "piter (stop_if_running E nodes) is s = Some (Inr (), t)" and "distinct is"
  shows "sidechainclient_processes t = filter (\<lambda>e. fst e \<notin> set is) (sidechainclient_processes s) \<and>
    w_calls t = w_calls s @ concat (map (stop_events nodes (sidechainclient_processes s)) is) \<and>
    waits (w_calls t) = waits (w_calls s) @ concat (map (pid_list (sidechainclient_processes s)) is)"
  using assms
proof (induction "is" arbitrary: s)
  case (Cons i "is")
  from Cons.prems obtain u where one: "stop_if_running E nodes i s = Some (Inr (), u)"
    and rest: "piter (stop_if_running E nodes) is u = Some (Inr (), t)" by (auto simp: pbind_Inr_iff)
  note u = stop_if_running_run [OF one]
  have same: "map (pid_list (sidechainclient_processes u)) is = map (pid_list (sidechainclient_processes s)) is"
    "map (stop_events nodes (sidechainclient_processes u)) is = map (stop_events nodes (sidechainclient_processes s)) is"
    using u Cons.prems(2) by (auto intro!: pid_list_tab_del stop_events_tab_del)
  have ih: "sidechainclient_processes t = filter (\<lambda>e. fst e \<notin> set is) (sidechainclient_processes u)"
    "w_calls t = w_calls u @ concat (map (stop_events nodes (sidechainclient_processes u)) is)"
    "waits (w_calls t) = waits (w_calls u) @ concat (map (pid_list (sidechainclient_processes u)) is)"
    using Cons.IH [OF rest] Cons.prems(2) by auto
  show ?case
  proof (intro conjI)
    show "sidechainclient_processes t = filter (\<lambda>e. fst e \<notin> set (i # is)) (sidechainclient_processes s)"
      using ih(1) u by (simp add: tab_del_def filter_filter conj_commute)
    show "w_calls t = w_calls s @ concat (map (stop_events nodes (sidechainclient_processes s)) (i # is))"
      unfolding ih(2) same(2) using u by simp
    show "waits (w_calls t) = waits (w_calls s) @ concat (map (pid_list (sidechainclient_processes s)) (i # is))"
      unfolding ih(3) same(1) by (simp only: u [THEN conjunct2, THEN conjunct2] append_assoc list.map concat.simps)
  qed
qed simp

section \<open>Properties\<close>

text \<open>The values given for the positional parameters of the node reach it in the fixed order
  behind the configuration file: they are the last words of the command that is run.\<close>
theorem sc_command_positional:
  assumes "sc_bashcmd E jacoco (Some extra_args) binary cfgFileName = Inr cmd"
    and "arg_after ''-mc_block_delay_ref'' extra_args ''0'' = Inr delay"
    and "arg_after ''-all_forks'' extra_args ''0'' = Inr forks"
    and "arg_after ''-max_hist_rew_len'' extra_args ''100'' = Inr hist"
    and "list_all (\<lambda>w. w \<noteq> [] \<and> list_all (\<lambda>c. \<not> is_blank c) w) [cfgFileName, delay, forks, hist]"
  shows "\<exists>before. split_ws cmd = before @ [cfgFileName, delay, forks, hist]"
proof -
  obtain front where "cmd = front @ CHR '' '' # cfgFileName @ CHR '' '' # delay @ CHR '' '' # forks @ CHR '' '' # hist"
    using assms(1-4) by (auto simp: sc_bashcmd_def additional_params_def)
  moreover have "is_blank (CHR '' '')" by (simp add: is_blank_def)
  ultimately have "split_ws cmd = split_ws front @ split_ws cfgFileName @ split_ws delay @ split_ws forks @ split_ws hist"
    by (simp add: split_ws_blank)
  then show ?thesis using assms(5) by (simp add: split_ws_word)
qed

theorem sc_command_positional_witness:
  "\<exists>cmd before. sc_bashcmd sample_env False (Some [''-all_forks'', ''5'']) ''app.jar Main'' ''/t/node0.conf'' = Inr cmd \<and>
     split_ws cmd = before @ [''/t/node0.conf'', ''0'', ''5'', ''100'']"
proof -
  obtain cmd where cmd: "sc_bashcmd sample_env False (Some [''-all_forks'', ''5'']) ''app.jar Main'' ''/t/node0.conf'' = Inr cmd"
    by (simp add: sc_bashcmd_def additional_params_def list_get_def)
  have "\<exists>before. split_ws cmd = before @ [''/t/node0.conf'', ''0'', ''5'', ''100'']"
    by (rule sc_command_positional [OF cmd]) (simp_all add: list_get_def is_blank_def)
  with cmd show ?thesis by blast
qed

text \<open>C3. \<open>start_sc_nodes\<close> registers a process for each of the node indexes and connects to each node's
  own REST port, with its own data directory; a later \<open>stop_sc_nodes\<close> empties the node list and the table of processes,
  and its actions are exactly these: for every node in turn, the request \<^verbatim>\<open>node_stop\<close> to that node, then the wait for its process.\<close>
theorem sc_nodes_lifecycle:
  assumes start: "start_sc_nodes E num_nodes dirname extra_args rpchost binary out api_key s = Some (Inr nodes, t)"
    and empty: "sidechainclient_processes s = []"
    and stop: "stop_sc_nodes E nodes t = Some (Inr rest, u)"
  shows "nodes = map (\<lambda>i. \<lparr>sc_url = ''http://127.0.0.1:'' @ str_int (sc_rpc_port E s i),
       sc_dataDir = path_join dirname (''sc_node'' @ str_int i), sc_auth_api_key = api_key\<rparr>) (py_range num_nodes) \<and>
    fst ` set (sidechainclient_processes t) = {0..<num_nodes} \<and>
    rest = [] \<and> sidechainclient_processes u = [] \<and>
    w_calls u = w_calls t @ concat (map (\<lambda>i. [ScCall (nodes ! nat i) ''node_stop'' [] [],
      Waited (the (map_of (sidechainclient_processes t) i))]) (py_range num_nodes)) \<and>
    waits (w_calls u) = waits (w_calls t) @ map (\<lambda>i. the (map_of (sidechainclient_processes t) i)) (py_range num_nodes)"
proof -
  from start obtain as bs v where run: "pmap (start_sc_ith E dirname as rpchost bs out api_key) (py_range num_nodes) s = Some (Inr nodes, v)"
    and init: "wait_for_sc_node_initialization E nodes v = Some (Inr (), t)"
    by (auto simp: start_sc_nodes_def Let_def pbind_Inr_iff)
  have tv: "sidechainclient_processes t = sidechainclient_processes v"
    using init by (rule init_keeps_table)
  note st = start_sc_nodes_run [OF run, unfolded empty, simplified]
  have len: "int (length nodes) = max 0 num_nodes" and rng: "set (py_range num_nodes) = {0..<num_nodes}"
    "py_range (int (length nodes)) = py_range num_nodes" "distinct (py_range num_nodes)"
    using st by (auto simp: py_range_def)
  from stop have "rest = []" and stop': "piter (stop_if_running E nodes) (py_range num_nodes) t = Some (Inr (), u)"
    using rng(2) by (auto simp: stop_sc_nodes_def pbind_Inr_iff)
  note sp = stop_range_run [OF stop' rng(3)]
  have "map_of (sidechainclient_processes t) i \<noteq> None" if "i \<in> set (py_range num_nodes)" for i
    using st that tv by (metis map_of_eq_None_iff)
  note registered = this
  have "map (stop_events nodes (sidechainclient_processes t)) (py_range num_nodes) =
      map (\<lambda>i. [ScCall (nodes ! nat i) ''node_stop'' [] [], Waited (the (map_of (sidechainclient_processes t) i))]) (py_range num_nodes)"
  proof (intro map_cong refl)
    fix i assume i: "i \<in> set (py_range num_nodes)"
    then have "list_get nodes i = Inr (nodes ! nat i)" using rng(1) len by (auto simp: list_get_def)
    with registered [OF i] show "stop_events nodes (sidechainclient_processes t) i =
        [ScCall (nodes ! nat i) ''node_stop'' [] [], Waited (the (map_of (sidechainclient_processes t) i))]"
      by (auto simp: stop_events_def)
  qed
  with sp have events: "w_calls u = w_calls t @ concat (map (\<lambda>i. [ScCall (nodes ! nat i) ''node_stop'' [] [],
      Waited (the (map_of (sidechainclient_processes t) i))]) (py_range num_nodes))" by (simp only:)
  from registered have "map (pid_list (sidechainclient_processes t)) (py_range num_nodes)
      = map (\<lambda>i. [the (map_of (sidechainclient_processes t) i)]) (py_range num_nodes)"
    by (intro map_cong refl) (force simp: pid_list_def)
  then have pids: "concat (map (pid_list (sidechainclient_processes t)) (py_range num_nodes))
      = map (\<lambda>i. the (map_of (sidechainclient_processes t) i)) (py_range num_nodes)"
    by (simp only: concat_map_singleton)
  have "waits (w_calls u) = waits (w_calls t) @ map (\<lambda>i. the (map_of (sidechainclient_processes t) i)) (py_range num_nodes)"
    using sp unfolding pids by blast
  moreover have "sidechainclient_processes u = []"
    using sp st tv by (force simp: filter_empty_conv)
  moreover have "fst ` set (sidechainclient_processes t) = {0..<num_nodes}" using st tv rng(1) by simp
  moreover have "nodes = map (\<lambda>i. \<lparr>sc_url = ''http://127.0.0.1:'' @ str_int (sc_rpc_port E s i),
       sc_dataDir = path_join dirname (''sc_node'' @ str_int i), sc_auth_api_key = api_key\<rparr>) (py_range num_nodes)" using st by simp
  ultimately show ?thesis using \<open>rest = []\<close> events by blast
qed

theorem sc_nodes_lifecycle_witness:
  "\<exists>nodes t (u :: sample world). start_sc_nodes sample_env 1 ''/tmp'' None None (Some [Some ''app'']) False (Some ''key'') (sample_world 1 0 [Inr PNone])
      = Some (Inr nodes, t) \<and> stop_sc_nodes sample_env nodes t = Some (Inr [], u) \<and>
    sidechainclient_processes u = [] \<and> length nodes = 1"
proof -
  let ?s = "sample_world 1 0 [Inr PNone]"
  have r: "[0..0::int] = [0]" by (simp add: upto.simps)
  obtain nodes t where t: "start_sc_nodes sample_env 1 ''/tmp'' None None (Some [Some ''app'']) False (Some ''key'') ?s = Some (Inr nodes, t)"
    and u: "\<exists>u. stop_sc_nodes sample_env nodes t = Some (Inr [], u)"
    by (simp add: start_sc_nodes_def Let_def py_range_def r start_sc_ith_def start_sc_node_def sc_bashcmd_def additional_params_def
        list_get_def register_sc_def wait_for_sc_node_initialization_def wait_for_socket_def py_loop.simps socket_open_def
        stop_sc_nodes_def stop_if_running_def stop_sc_node_def reap_sc_node_def sample_world_def ext_defs prog_simps
        del: split_ws.simps)
  from u obtain u where u': "stop_sc_nodes sample_env nodes t = Some (Inr [], u)" by blast
  from sc_nodes_lifecycle [OF t _ u'] t u' show ?thesis by (auto simp: sample_world_def py_range_def)
qed

end
