(* ===== verification/Util_Codec.thy ===== *)
theory Util_Codec
  imports Py_Strings Sample_Env
begin

text \<open>
  The pure helpers of \<^verbatim>\<open>qa/test_framework/util.py\<close>: conversion of request parameters to
  hexadecimal, byte strings and their hexadecimal texts, byte order, padding of field elements, the
  mainchain RPC host specification, and the assertions the tests are written with. The locale
  \<open>text_codec\<close> is the contract of an encoder with its decoder.
\<close>

section \<open>Request parameters\<close>

fun obj_to_hex :: "pyval \<Rightarrow> pyval" where
  "obj_to_hex (PBool b) = PBool b"
| "obj_to_hex (PInt i) = PStr (py_hex i)"
| "obj_to_hex (PDict d) = PDict (map (\<lambda>kv. (fst kv, obj_to_hex (snd kv))) d)"
| "obj_to_hex (PList vs) = PList (map obj_to_hex vs)"
| "obj_to_hex (PTuple vs) = PList (map obj_to_hex vs)"
| "obj_to_hex v = v"

definition create_json2_rpc_request :: "string \<Rightarrow> pyval \<Rightarrow> string res" where
  "create_json2_rpc_request method args = json_dumps (PDict
     [(''jsonrpc'', PStr ''2.0''), (''method'', PStr method), (''params'', obj_to_hex args), (''id'', PStr ''1'')])"

text \<open>No integer, at any depth; and the reading of a converted value: every integer has become a
  text that denotes it, everything else is where it was.\<close>

fun no_ints :: "pyval \<Rightarrow> bool" where
  "no_ints (PInt i) = False"
| "no_ints (PDict d) = list_all (\<lambda>kv. no_ints (snd kv)) d"
| "no_ints (PList vs) = list_all no_ints vs"
| "no_ints (PTuple vs) = False"
| "no_ints v = True"

fun hex_view :: "pyval \<Rightarrow> pyval \<Rightarrow> bool" where
  "hex_view (PInt i) w = (case w of PStr s \<Rightarrow> read_hex s = Some i | _ \<Rightarrow> False)"
| "hex_view (PDict d) w = (case w of PDict e \<Rightarrow>
     list_all2 (\<lambda>kv kw. fst kv = fst kw \<and> hex_view (snd kv) (snd kw)) d e | _ \<Rightarrow> False)"
| "hex_view (PList vs) w = (case w of PList ws \<Rightarrow> list_all2 hex_view vs ws | _ \<Rightarrow> False)"
| "hex_view (PTuple vs) w = (case w of PList ws \<Rightarrow> list_all2 hex_view vs ws | _ \<Rightarrow> False)"
| "hex_view v w = (v = w)"

lemma obj_to_hex_no_ints: "no_ints (obj_to_hex v)"
  by (induction v rule: obj_to_hex.induct) (auto simp: list_all_iff)

lemma obj_to_hex_view: "hex_view v (obj_to_hex v)"
  by (induction v rule: obj_to_hex.induct)
    (auto simp: list_all2_conv_all_nth read_hex_py_hex dest: nth_mem)

lemma obj_to_hex_id: "no_ints v \<Longrightarrow> obj_to_hex v = v"
  by (induction v rule: obj_to_hex.induct) (auto simp: list_all_iff intro!: map_idI)

section \<open>Byte strings\<close>

definition bytes_to_hex_str :: "nat list \<Rightarrow> string" where
  "bytes_to_hex_str byte_str = hexlify byte_str"

definition hex_str_to_bytes :: "string \<Rightarrow> nat list res" where
  "hex_str_to_bytes hex_str = (case unhexlify hex_str of
     None \<Rightarrow> rerr ValueError ''Non-hexadecimal digit found'' [PStr hex_str] | Some bs \<Rightarrow> Inr bs)"

definition str_to_b64str :: "string \<Rightarrow> string" where
  "str_to_b64str s = b64encode (utf8 s)"

definition swap_bytes :: "string \<Rightarrow> string res" where
  "swap_bytes input_buf = rbind (hex_str_to_bytes input_buf) (\<lambda>bs. Inr (hexlify (rev bs)))"

definition get_field_element_with_padding :: "string \<Rightarrow> int \<Rightarrow> string res" where
  "get_field_element_with_padding field_element sidechain_version =
     (if sidechain_version = 0 then Inr (py_rjust field_element 64 (CHR ''0''))
      else if sidechain_version = 1 \<or> sidechain_version = 2 then Inr (py_ljust field_element 64 (CHR ''0''))
      else rerr AssertionError [] [])"

text \<open>An encoder with a decoder that undoes it on the valid inputs.\<close>

locale text_codec =
  fixes valid :: "'a \<Rightarrow> bool" and encode :: "'a \<Rightarrow> string" and decode :: "string \<Rightarrow> 'a res"
  assumes decode_encode: "valid x \<Longrightarrow> decode (encode x) = Inr x"
    and decode_valid: "decode s = Inr x \<Longrightarrow> valid x"
begin

lemma encode_inject: "valid x \<Longrightarrow> valid y \<Longrightarrow> encode x = encode y \<longleftrightarrow> x = y"
  using decode_encode by (metis sum.inject(2))

lemma recode: "decode s = Inr x \<Longrightarrow> decode (encode x) = decode s"
  by (simp add: decode_encode decode_valid)

text \<open>A permutation of the decoded values that is its own inverse gives such a map on texts.\<close>

lemma twice:
  assumes "\<And>x. valid x \<Longrightarrow> valid (f x)" and "\<And>x. f (f x) = x"
    and "rbind (decode s) (\<lambda>x. Inr (encode (f x))) = Inr t"
  shows "rbind (decode t) (\<lambda>x. Inr (encode (f x))) = rbind (decode s) (\<lambda>x. Inr (encode x))"
  using assms decode_valid [of s] by (auto simp: rbind_Inr_iff decode_encode)

end

interpretation hex_codec: text_codec "list_all (\<lambda>b. b < 256)" bytes_to_hex_str hex_str_to_bytes
proof unfold_locales
  show "hex_str_to_bytes (bytes_to_hex_str x) = Inr x" if "list_all (\<lambda>b. b < 256) x" for x
    using that by (simp add: hex_str_to_bytes_def bytes_to_hex_str_def unhexlify_hexlify)
  show "list_all (\<lambda>b. b < 256) x" if "hex_str_to_bytes s = Inr x" for s x
    using that by (auto simp: hex_str_to_bytes_def rerr_def dest: unhexlify_bytes split: option.splits)
qed

lemma swap_bytes_alt:
  "swap_bytes s = rbind (hex_str_to_bytes s) (\<lambda>bs. Inr (bytes_to_hex_str (rev bs)))"
  by (simp add: swap_bytes_def bytes_to_hex_str_def)

lemma hex_str_lower: "hex_str_to_bytes s = Inr bs \<Longrightarrow> bytes_to_hex_str bs = py_lower s"
  by (auto simp: hex_str_to_bytes_def bytes_to_hex_str_def rerr_def hexlify_unhexlify split: option.splits)

section \<open>The RPC host specification\<close>

text \<open>
  \<open>_rpchost_to_args\<close> matches the pattern of a host (an address in brackets, or anything without a
  colon) with an optional port. Python's matcher tries the longest host first. The range
  \<^verbatim>\<open>A-f\<close> of the pattern also holds the brackets, the backslash, the caret, the underscore and the
  backquote.
\<close>

definition re_end :: "string \<Rightarrow> bool" where
  "re_end s \<longleftrightarrow> s = [] \<or> s = ''\<newline>''"

definition is_digit :: "char \<Rightarrow> bool" where
  "is_digit c \<longleftrightarrow> c \<in> set ''0123456789''"

definition re_port :: "string \<Rightarrow> string option option" where
  "re_port s = (let ds = takeWhile is_digit (tl s) in
     if is_prefix '':'' s \<and> ds \<noteq> [] \<and> re_end (dropWhile is_digit (tl s)) then Some (Some ds)
     else if re_end s then Some None else None)"

definition is_bracket_char :: "char \<Rightarrow> bool" where
  "is_bracket_char c \<longleftrightarrow> is_digit c \<or> (97 \<le> (of_char c :: nat) \<and> (of_char c :: nat) \<le> 102) \<or>
     (65 \<le> (of_char c :: nat) \<and> (of_char c :: nat) \<le> 102) \<or> c = CHR '':''"

definition bracketed :: "string \<Rightarrow> bool" where
  "bracketed s \<longleftrightarrow> 3 \<le> length s \<and> hd s = CHR ''['' \<and> last s = CHR '']'' \<and>
     list_all is_bracket_char (butlast (tl s))"

definition no_colon :: "string \<Rightarrow> bool" where
  "no_colon s \<longleftrightarrow> s \<noteq> [] \<and> list_all (\<lambda>c. c \<noteq> CHR '':'') s"

definition host_match :: "(string \<Rightarrow> bool) \<Rightarrow> string \<Rightarrow> (string \<times> string option) option" where
  "host_match p s = map_option (\<lambda>n. (take n s, the (re_port (drop n s))))
     (List.find (\<lambda>n. p (take n s) \<and> re_port (drop n s) \<noteq> None) (rev [1..<Suc (length s)]))"

definition rpchost_to_args :: "string option \<Rightarrow> string list res" where
  "rpchost_to_args rpchost = (case rpchost of
      None \<Rightarrow> Inr []
    | Some h \<Rightarrow>
        (case (case host_match bracketed h of None \<Rightarrow> host_match no_colon h | m \<Rightarrow> m) of
           None \<Rightarrow> rerr ValueError (''Invalid RPC host spec '' @ h) []
         | Some (rpcconnect, rpcport) \<Rightarrow>
             let rpcconnect = (if is_prefix ''['' rpcconnect then butlast (tl rpcconnect) else rpcconnect)
             in Inr ((''-rpcconnect='' @ rpcconnect)
                  # (case rpcport of None \<Rightarrow> [] | Some p \<Rightarrow> [''-rpcport='' @ p]))))"

definition log_filename :: "string \<Rightarrow> int \<Rightarrow> string \<Rightarrow> string" where
  "log_filename dirname n_node logname =
     path_join (path_join (path_join dirname (''node'' @ str_int n_node)) ''regtest'') logname"

section \<open>Assertions\<close>

definition fail :: "string \<Rightarrow> 'a res" where
  "fail message = rerr AssertionError message []"

definition assert_equal :: "pyval \<Rightarrow> pyval \<Rightarrow> string \<Rightarrow> unit res" where
  "assert_equal expected actual message =
     (if \<not> py_eq expected actual then
        let message = (if message \<noteq> [] then ''; '' @ message else message)
        in rerr AssertionError (''(left == right)'' @ message @ ''\<newline>  left: <'' @ py_str expected
             @ ''>\<newline> right: <'' @ py_str actual @ ''>'') []
      else Inr ())"

definition assert_not_equal :: "pyval \<Rightarrow> pyval \<Rightarrow> string \<Rightarrow> unit res" where
  "assert_not_equal expected actual message =
     (if py_eq expected actual then
        let message = (if message \<noteq> [] then ''; '' @ message else message)
        in rerr AssertionError (''(left != right)'' @ message @ ''\<newline>  left: <'' @ py_str expected
             @ ''>\<newline> right: <'' @ py_str actual @ ''>'') []
      else Inr ())"

definition assert_true :: "bool \<Rightarrow> string \<Rightarrow> unit res" where
  "assert_true condition message = (if \<not> condition then rerr AssertionError message [] else Inr ())"

definition assert_false :: "bool \<Rightarrow> string \<Rightarrow> unit res" where
  "assert_false condition message = assert_true (\<not> condition) message"

text \<open>\<open>thing1 <= thing2\<close> of two numbers; comparing anything else raises.\<close>

definition py_le :: "pyval \<Rightarrow> pyval \<Rightarrow> bool res" where
  "py_le a b = (case (py_num a, py_num b) of (Some x, Some y) \<Rightarrow> Inr (x \<le> y)
     | _ \<Rightarrow> rerr TypeError ''not comparable'' [a, b])"

definition assert_greater_than :: "pyval \<Rightarrow> pyval \<Rightarrow> unit res" where
  "assert_greater_than thing1 thing2 = rbind (py_le thing1 thing2) (\<lambda>le.
     if le then rerr AssertionError (py_str thing1 @ '' <= '' @ py_str thing2) [] else Inr ())"

text \<open>Every class of the model but \<open>SystemExit\<close> derives from \<open>Exception\<close> (\<open>PlainException\<close>).\<close>

definition exn_isinstance :: "exn_kind \<Rightarrow> exn_kind \<Rightarrow> bool" where
  "exn_isinstance k c \<longleftrightarrow> k = c \<or> (c = PlainException \<and> k \<noteq> SystemExit)"

fun exn_name :: "exn_kind \<Rightarrow> string" where
  "exn_name AssertionError = ''AssertionError''"
| "exn_name RuntimeError = ''RuntimeError''"
| "exn_name KeyError = ''KeyError''"
| "exn_name IndexError = ''IndexError''"
| "exn_name TypeError = ''TypeError''"
| "exn_name ValueError = ''ValueError''"
| "exn_name AttributeError = ''AttributeError''"
| "exn_name UnboundLocalError = ''UnboundLocalError''"
| "exn_name TimeoutException = ''TimeoutException''"
| "exn_name SCAPIException = ''SCAPIException''"
| "exn_name JSONRPCException = ''JSONRPCException''"
| "exn_name EvmExecutionError = ''EvmExecutionError''"
| "exn_name CalledProcessError = ''CalledProcessError''"
| "exn_name ConnectionError = ''ConnectionError''"
| "exn_name ZeroDivisionError = ''ZeroDivisionError''"
| "exn_name PlainException = ''Exception''"
| "exn_name SystemExit = ''SystemExit''"

definition assert_raises :: "exn_kind \<Rightarrow> ('w, 'a) prog \<Rightarrow> ('w, unit) prog" where
  "assert_raises exc f = (\<lambda>s. case f s of
      None \<Rightarrow> None
    | Some (Inl e, s') \<Rightarrow>
        if exn_isinstance (err_kind e) exc then pret () s'
        else if exn_isinstance (err_kind e) PlainException
        then praise AssertionError (''Unexpected exception raised: '' @ exn_name (err_kind e)) [] s'
        else pthrow e s'
    | Some (Inr _, s') \<Rightarrow> praise AssertionError ''No exception raised'' [] s')"

lemma assert_res_iff [simp]:
  "assert_equal a b m = Inr u \<longleftrightarrow> py_eq a b"
  "assert_not_equal a b m = Inr u \<longleftrightarrow> \<not> py_eq a b"
  "assert_true c m = Inr u \<longleftrightarrow> c"
  "assert_false c m = Inr u \<longleftrightarrow> \<not> c"
  by (simp_all add: assert_equal_def assert_not_equal_def assert_true_def assert_false_def rerr_def Let_def)

section \<open>Properties\<close>

lemma find_last:
  assumes "P n" and "1 \<le> n" and "n \<le> L" and "\<And>m. n < m \<Longrightarrow> m \<le> L \<Longrightarrow> \<not> P m"
  shows "List.find P (rev [1..<Suc L]) = Some n"
  using assms(3,4)
proof (induction L)
  case 0
  then show ?case using assms(2) by simp
next
  case (Suc L)
  show ?case
  proof (cases "n = Suc L")
    case True
    then show ?thesis using assms(1) by simp
  next
    case False
    then have "\<not> P (Suc L)" and "List.find P (rev [1..<Suc L]) = Some n" using Suc by auto
    then show ?thesis by simp
  qed
qed

lemma host_match_no_colon:
  assumes "no_colon h" and "re_port r = Some q" and "r = [] \<or> hd r = CHR '':''"
  shows "host_match no_colon (h @ r) = Some (h, q)"
proof -
  have "\<not> no_colon (take m (h @ r))" if "length h < m" and "m \<le> length (h @ r)" for m
  proof -
    have "r \<noteq> []" using that by auto
    moreover from this assms(3) obtain r' where "r = CHR '':'' # r'" by (cases r) auto
    moreover have "take m (h @ r) = h @ take (m - length h) r" using that by simp
    moreover have "take (m - length h) r \<noteq> []" using that \<open>r \<noteq> []\<close> by simp
    ultimately show ?thesis by (cases "m - length h") (auto simp: no_colon_def)
  qed
  moreover have "1 \<le> length h" using assms(1) by (cases h) (auto simp: no_colon_def)
  ultimately have "List.find (\<lambda>n. no_colon (take n (h @ r)) \<and> re_port (drop n (h @ r)) \<noteq> None)
      (rev [1..<Suc (length (h @ r))]) = Some (length h)"
    by (intro find_last) (use assms in auto)
  then show ?thesis using assms(2) by (simp add: host_match_def)
qed

lemma host_match_not_bracketed:
  assumes "\<not> is_prefix ''['' h"
  shows "host_match bracketed h = None"
proof -
  have "\<not> bracketed (take n h)" for n
    using assms by (cases h; cases n) (auto simp: bracketed_def)
  then show ?thesis by (simp add: host_match_def find_None_iff)
qed

text \<open>Converting JSON-RPC parameters leaves no integer anywhere in them, and the converted
  value reads back as the original: every integer, however deep, has become a hexadecimal text
  that denotes it. Parameters without integers and tuples are not changed.\<close>
theorem obj_to_hex_faithful:
  "no_ints (obj_to_hex v) \<and> hex_view v (obj_to_hex v) \<and> (no_ints v \<longrightarrow> obj_to_hex v = v)"
  by (simp add: obj_to_hex_no_ints obj_to_hex_view obj_to_hex_id)

theorem obj_to_hex_faithful_witness:
  "hex_view (PList [PInt 255, PDict [(''gas'', PInt (- 3))]])
     (obj_to_hex (PList [PInt 255, PDict [(''gas'', PInt (- 3))]]))
   \<and> obj_to_hex (PDict [(''to'', PStr ''0x01''), (''ok'', PBool True)]) = PDict [(''to'', PStr ''0x01''), (''ok'', PBool True)]"
  using obj_to_hex_faithful [of "PList [PInt 255, PDict [(''gas'', PInt (- 3))]]"]
    obj_to_hex_faithful [of "PDict [(''to'', PStr ''0x01''), (''ok'', PBool True)]"] by simp

text \<open>When \<open>swap_bytes\<close> succeeds it keeps the length of the text, and applied again to its result
  it succeeds and gives the text back in lower case.\<close>
theorem swap_bytes_involution:
  assumes "swap_bytes s = Inr t"
  shows "swap_bytes t = Inr (py_lower s) \<and> length t = length s"
proof -
  from assms obtain bs where bs: "hex_str_to_bytes s = Inr bs" and t: "t = bytes_to_hex_str (rev bs)"
    by (auto simp: swap_bytes_alt rbind_Inr_iff)
  have "swap_bytes t = rbind (hex_str_to_bytes s) (\<lambda>x. Inr (bytes_to_hex_str x))"
    using hex_codec.twice [of rev s t] assms by (simp add: swap_bytes_alt list_all_iff)
  moreover have "length s = 2 * length bs"
    using bs by (auto simp: hex_str_to_bytes_def rerr_def dest: unhexlify_bytes split: option.splits)
  ultimately show ?thesis using bs hex_str_lower [OF bs] t by (simp add: bytes_to_hex_str_def)
qed

theorem swap_bytes_involution_witness:
  "swap_bytes ''01aBff'' = Inr ''ffab01'' \<and> swap_bytes ''ffab01'' = Inr ''01abff''"
proof -
  have "swap_bytes ''01aBff'' = Inr ''ffab01''" by code_simp
  moreover have "py_lower ''01aBff'' = ''01abff''" by code_simp
  ultimately show ?thesis using swap_bytes_involution [of "''01aBff''" "''ffab01''"] by simp
qed

lemma unhexlify_zeros: "unhexlify (replicate (2 * n) (CHR ''0'')) = Some (replicate n 0)"
  by (induction n) (simp_all add: digit_val_def)

lemma hexlify_zeros: "hexlify (replicate n 0) = replicate (2 * n) (CHR ''0'')"
  by (induction n) (simp_all add: hexlify_def hex2_def digit_char_def)

text \<open>A field element of at most 32 bytes is padded to 32 bytes; the paddings of sidechain
  version 0 and of versions 1 and 2 are each other's byte swap; any other version is refused.\<close>
theorem field_element_padding:
  assumes "swap_bytes fe = Inr fe'" and "length fe \<le> 64"
  shows "((\<exists>r. get_field_element_with_padding fe v = Inr r \<and> length r = 64) \<longleftrightarrow> v \<in> {0, 1, 2}) \<and>
    rbind (get_field_element_with_padding fe 1) swap_bytes = get_field_element_with_padding fe' 0 \<and>
    get_field_element_with_padding fe 2 = get_field_element_with_padding fe 1"
proof (intro conjI)
  from assms(1) obtain bs where bs: "unhexlify fe = Some bs" and fe': "fe' = hexlify (rev bs)"
    by (auto simp: swap_bytes_def hex_str_to_bytes_def rbind_Inr_iff rerr_def split: option.splits)
  have len: "length fe = 2 * length bs" using unhexlify_bytes [OF bs] by simp
  have ljust: "py_ljust fe 64 (CHR ''0'') = fe @ replicate (2 * (32 - length bs)) (CHR ''0'')"
    using len by (simp add: py_ljust_def algebra_simps)
  have "unhexlify (py_ljust fe 64 (CHR ''0'')) = Some (bs @ replicate (32 - length bs) 0)"
    unfolding ljust using len bs by (simp add: unhexlify_append unhexlify_zeros)
  then have "swap_bytes (py_ljust fe 64 (CHR ''0'')) = Inr (hexlify (replicate (32 - length bs) 0) @ hexlify (rev bs))"
    by (simp add: swap_bytes_def hex_str_to_bytes_def hexlify_def)
  also have "\<dots> = get_field_element_with_padding fe' 0"
    using fe' len by (simp add: get_field_element_with_padding_def py_rjust_def hexlify_zeros algebra_simps)
  finally show "rbind (get_field_element_with_padding fe 1) swap_bytes = get_field_element_with_padding fe' 0"
    by (simp add: get_field_element_with_padding_def)
  show "(\<exists>r. get_field_element_with_padding fe v = Inr r \<and> length r = 64) \<longleftrightarrow> v \<in> {0, 1, 2}"
    using assms(2) by (auto simp: get_field_element_with_padding_def rerr_def)
  show "get_field_element_with_padding fe 2 = get_field_element_with_padding fe 1"
    by (simp add: get_field_element_with_padding_def)
qed

theorem field_element_padding_witness:
  "rbind (get_field_element_with_padding ''0102'' 1) swap_bytes = get_field_element_with_padding ''0201'' 0"
proof -
  have "swap_bytes ''0102'' = Inr ''0201''" by code_simp
  then show ?thesis using field_element_padding [of "''0102''" "''0201''"] by simp
qed

lemma re_port_digits:
  assumes "list_all is_digit p" and "p \<noteq> []"
  shows "re_port (CHR '':'' # p) = Some (Some p)"
proof -
  have t: "takeWhile is_digit p = p" and d: "dropWhile is_digit p = []"
    using assms(1) by (simp_all add: list_all_iff)
  show ?thesis using assms(2) by (simp add: re_port_def re_end_def Let_def t d)
qed

text \<open>A host name or IPv4 address with a decimal port becomes the two command line arguments of
  the RPC client; without a port only the host is passed, and no specification passes nothing.\<close>
theorem rpchost_to_args_spec:
  assumes "no_colon h" and "\<not> is_prefix ''['' h" and "list_all is_digit p" and "p \<noteq> []"
  shows "rpchost_to_args (Some (h @ '':'' @ p)) = Inr [''-rpcconnect='' @ h, ''-rpcport='' @ p] \<and>
    rpchost_to_args (Some h) = Inr [''-rpcconnect='' @ h] \<and> rpchost_to_args None = Inr []"
proof (intro conjI)
  have "\<not> is_prefix ''['' (h @ '':'' @ p)"
    using assms(1,2) by (cases h) (auto simp: no_colon_def)
  then have "host_match bracketed (h @ '':'' @ p) = None" and "host_match bracketed h = None"
    using assms(2) by (blast intro: host_match_not_bracketed)+
  moreover have "host_match no_colon (h @ '':'' @ p) = Some (h, Some p)"
    using assms by (intro host_match_no_colon) (simp_all add: re_port_digits)
  moreover have "host_match no_colon h = Some (h, None)"
    using assms(1) host_match_no_colon [of h "[]" None] by (simp add: re_port_def re_end_def)
  ultimately show "rpchost_to_args (Some (h @ '':'' @ p)) = Inr [''-rpcconnect='' @ h, ''-rpcport='' @ p]"
    and "rpchost_to_args (Some h) = Inr [''-rpcconnect='' @ h]"
    using assms(2) by (simp_all add: rpchost_to_args_def)
  show "rpchost_to_args None = Inr []" by (simp add: rpchost_to_args_def)
qed

theorem rpchost_to_args_spec_witness:
  "rpchost_to_args (Some ''10.0.0.7:8232'') = Inr [''-rpcconnect=10.0.0.7'', ''-rpcport=8232'']"
  using rpchost_to_args_spec [of "''10.0.0.7''" "''8232''"] by (simp add: no_colon_def is_digit_def)

end
