(* ===== verification/Mc_Node.thy ===== *)
theory Mc_Node
  imports Processes Ports Util_Codec
begin

text \<open>
  Mainchain nodes (\<^verbatim>\<open>qa/test_framework/util.py\<close>): their data directories and configuration files,
  starting and stopping the daemons and keeping the table of their processes, connecting them and
  waiting until they agree. None of the waits here has a timeout.
\<close>

section \<open>Agreement of the nodes\<close>

definition mc_counts_agree :: "'w env \<Rightarrow> mc_node list \<Rightarrow> ('w, bool) prog" where
  "mc_counts_agree E rpc_connections =
     pbind (pmap (\<lambda>x. mc_call E x ''getblockcount'' []) rpc_connections) (\<lambda>counts.
       plift (rbind (list_get counts 0) (\<lambda>c. Inr (list_all2 py_eq counts (replicate (length counts) c)))))"

definition sync_blocks :: "'w env \<Rightarrow> mc_node list \<Rightarrow> rat \<Rightarrow> ('w, unit) prog" where
  "sync_blocks E rpc_connections wait = py_loop
     (pbind (mc_counts_agree E rpc_connections) (\<lambda>agree.
        if agree then pret True else pseq (py_sleep E wait) (pret False)))"

text \<open>The memory pools are compared as sets.\<close>

definition raw_mempool :: "'w env \<Rightarrow> mc_node \<Rightarrow> ('w, pyval set) prog" where
  "raw_mempool E x = pbind (mc_call E x ''getrawmempool'' []) (\<lambda>r. plift (rbind (py_items r) (\<lambda>vs. Inr (set vs))))"

definition mc_mempools_agree :: "'w env \<Rightarrow> mc_node list \<Rightarrow> ('w, bool) prog" where
  "mc_mempools_agree E rpc_connections =
     pbind (plift (list_get rpc_connections 0)) (\<lambda>first.
       pbind (raw_mempool E first) (\<lambda>pool.
         pbind (pfold (\<lambda>i num_match. pbind (plift (list_get rpc_connections i)) (\<lambda>x.
                  pbind (raw_mempool E x) (\<lambda>p. pret (if p = pool then num_match + 1 else num_match))))
                [1..int (length rpc_connections) - 1] 1)
           (\<lambda>num_match. pret (num_match = int (length rpc_connections)))))"

definition sync_mempools :: "'w env \<Rightarrow> mc_node list \<Rightarrow> rat \<Rightarrow> ('w, unit) prog" where
  "sync_mempools E rpc_connections wait = py_loop
     (pbind (mc_mempools_agree E rpc_connections) (\<lambda>agree.
        if agree then pret True else pseq (py_sleep E wait) (pret False)))"

interpretation mc_blocks: untimed_poll sync_blocks mc_counts_agree
  by unfold_locales (simp add: sync_blocks_def wait_body_def)

interpretation mc_pools: untimed_poll sync_mempools mc_mempools_agree
  by unfold_locales (simp add: sync_mempools_def wait_body_def)

section \<open>Data directories\<close>

definition initialize_datadir :: "'w env \<Rightarrow> string \<Rightarrow> int \<Rightarrow> pyval \<Rightarrow> ('w, string) prog" where
  "initialize_datadir E dirname n websocket_port =
     (let datadir = path_join dirname (''node'' @ str_int n)
      in pbind (py_isdir E datadir) (\<lambda>exists.
           pseq (if exists then pret () else py_makedirs E datadir)
             (pbind (pget (\<lambda>s. (p2p_port E s n, rpc_port E s n))) (\<lambda>(p2p, rpc).
               pseq (py_write E (path_join datadir ''zen.conf'')
                 (''regtest=1\<newline>showmetrics=0\<newline>rpcuser=rt\<newline>rpcpassword=rt\<newline>''
                  @ ''port='' @ str_int p2p @ ''\<newline>'' @ ''rpcport='' @ str_int rpc @ ''\<newline>''
                  @ ''listenonion=0\<newline>debug=ws\<newline>''
                  @ (if websocket_port \<noteq> PNone then ''wsport='' @ py_str websocket_port @ ''\<newline>'' else [])))
               (pret datadir)))))"

definition initialize_chain_clean :: "'w env \<Rightarrow> string \<Rightarrow> int \<Rightarrow> ('w, unit) prog" where
  "initialize_chain_clean E test_dir num_nodes =
     piter (\<lambda>i. pbind (pget (\<lambda>s. websocket_port_by_mc_node_index E s i)) (\<lambda>p.
       pseq (initialize_datadir E test_dir i (PInt p)) (pret ()))) (py_range num_nodes)"

section \<open>Starting and stopping\<close>

definition getenv_or :: "'w env \<Rightarrow> string \<Rightarrow> string \<Rightarrow> string" where
  "getenv_or E name dflt = (case e_getenv E name of None \<Rightarrow> dflt | Some v \<Rightarrow> v)"

definition register_bitcoind :: "int \<Rightarrow> int \<Rightarrow> ('w, unit) prog" where
  "register_bitcoind i p = pmodify (\<lambda>s. s\<lparr>bitcoind_processes := tab_put i p (bitcoind_processes s)\<rparr>)"

definition start_node :: "'w env \<Rightarrow> int \<Rightarrow> string \<Rightarrow> string list option \<Rightarrow> string option \<Rightarrow> string option
    \<Rightarrow> ('w, mc_node) prog" where
  "start_node E i dirname extra_args rpchost binary =
     (let datadir = path_join dirname (''node'' @ str_int i);
          binary = (case binary of None \<Rightarrow> getenv_or E ''BITCOIND'' ''zend'' | Some b \<Rightarrow> b);
          args = [binary, ''-datadir='' @ datadir, ''-keypool=1'', ''-discover=0'', ''-rest'', ''-websocket'', ''-logtimemicros'']
                 @ (case extra_args of None \<Rightarrow> [] | Some a \<Rightarrow> a);
          host = (case rpchost of None \<Rightarrow> ''127.0.0.1'' | Some h \<Rightarrow> if h = [] then ''127.0.0.1'' else h)
      in pbind (py_isfile E binary) (\<lambda>found.
           if \<not> found then praise PlainException (''no such file: '' @ binary) []
           else pbind (py_popen E args) (\<lambda>p.
             pseq (register_bitcoind i p)
               (pbind (plift (rpchost_to_args rpchost)) (\<lambda>rpc_args.
                 pseq (py_check_call E ([getenv_or E ''BITCOINCLI'' ''bitcoin-cli'', ''-datadir='' @ datadir] @ rpc_args
                                        @ [''-rpcwait'', ''getblockcount'']))
                   (pbind (pget (\<lambda>s. rpc_port E s i)) (\<lambda>port.
                     pret \<lparr>mc_url = ''http://rt:rt@'' @ host @ '':'' @ str_int port, mc_hostname = host\<rparr>)))))))"

text \<open>The lists of arguments and binaries are indexed by node, so a short list raises.\<close>

definition start_ith :: "'w env \<Rightarrow> string \<Rightarrow> string list option list \<Rightarrow> string option \<Rightarrow> string option list \<Rightarrow> int
    \<Rightarrow> ('w, mc_node) prog" where
  "start_ith E dirname extra_args rpchost binary i =
     pbind (plift (list_get extra_args i)) (\<lambda>a. pbind (plift (list_get binary i)) (\<lambda>b.
       start_node E i dirname a rpchost b))"

definition start_nodes :: "'w env \<Rightarrow> int \<Rightarrow> string \<Rightarrow> string list option list option \<Rightarrow> string option
    \<Rightarrow> string option list option \<Rightarrow> ('w, mc_node list) prog" where
  "start_nodes E num_nodes dirname extra_args rpchost binary =
     (let extra_args = (case extra_args of None \<Rightarrow> replicate (nat num_nodes) None | Some a \<Rightarrow> a);
          binary = (case binary of None \<Rightarrow> replicate (nat num_nodes) None | Some b \<Rightarrow> b)
      in pmap (start_ith E dirname extra_args rpchost binary) (py_range num_nodes))"

definition bitcoind_process :: "int \<Rightarrow> ('w, int) prog" where
  "bitcoind_process i = pbind (pget bitcoind_processes) (\<lambda>d.
     plift (case map_of d i of None \<Rightarrow> rerr KeyError (str_int i) [] | Some p \<Rightarrow> Inr p))"

definition check_node :: "'w env \<Rightarrow> int \<Rightarrow> ('w, int option) prog" where
  "check_node E i = pbind (bitcoind_process i) (\<lambda>p. pext (\<lambda>w. case e_poll E p w of (rc, w') \<Rightarrow> (Inr rc, w')))"

definition reap_node :: "'w env \<Rightarrow> int \<Rightarrow> ('w, unit) prog" where
  "reap_node E i = pbind (bitcoind_process i) (\<lambda>p. pseq (py_wait E p)
     (pmodify (\<lambda>s. s\<lparr>bitcoind_processes := tab_del i (bitcoind_processes s)\<rparr>)))"

definition stop_node :: "'w env \<Rightarrow> mc_node \<Rightarrow> int \<Rightarrow> ('w, unit) prog" where
  "stop_node E node i = pseq (mc_call E node ''stop'' []) (reap_node E i)"

text \<open>The result is what is left in the caller's list of nodes.\<close>

definition stop_nodes :: "'w env \<Rightarrow> mc_node list \<Rightarrow> ('w, mc_node list) prog" where
  "stop_nodes E nodes = pseq (piter (\<lambda>node. pseq (mc_call E node ''stop'' []) (pret ())) nodes) (pret [])"

definition set_node_times :: "'w env \<Rightarrow> mc_node list \<Rightarrow> int \<Rightarrow> ('w, unit) prog" where
  "set_node_times E nodes t = piter (\<lambda>node. pseq (mc_call E node ''setmocktime'' [PInt t]) (pret ())) nodes"

definition wait_bitcoinds :: "'w env \<Rightarrow> ('w, unit) prog" where
  "wait_bitcoinds E = pbind (pget bitcoind_processes) (\<lambda>d.
     pseq (piter (\<lambda>e. py_wait E (snd e)) d) (pmodify (\<lambda>s. s\<lparr>bitcoind_processes := []\<rparr>)))"

interpretation mc_procs: process_table bitcoind_processes reap_node wait_bitcoinds
proof
  fix s :: "'a world" and i p E
  assume "map_of (bitcoind_processes s) i = Some p"
  then show "\<exists>t. reap_node E i s = Some (Inr (), t) \<and> bitcoind_processes t = tab_del i (bitcoind_processes s) \<and>
      w_calls t = w_calls s @ [Waited p]"
    by (simp add: reap_node_def bitcoind_process_def pbind_run py_wait_def pact_run)
next
  fix s :: "'a world" and E
  show "\<exists>t. wait_bitcoinds E s = Some (Inr (), t) \<and> bitcoind_processes t = [] \<and>
      w_calls t = w_calls s @ map (\<lambda>e. Waited (snd e)) (bitcoind_processes s)"
    using wait_each [of E "bitcoind_processes s" s] by (auto simp: wait_bitcoinds_def pbind_run)
qed

section \<open>Connections\<close>

text \<open>\<^verbatim>\<open>any(peer['version'] == 0 for peer in from_connection.getpeerinfo())\<close>\<close>

definition handshake_done :: "'w env \<Rightarrow> mc_node \<Rightarrow> ('w, bool) prog" where
  "handshake_done E from_connection = pbind (mc_call E from_connection ''getpeerinfo'' []) (\<lambda>r.
     plift (rbind (py_items r) (\<lambda>peers.
       rbind (rany (\<lambda>peer. rbind (py_get peer ''version'') (\<lambda>v. Inr (py_eq v (PInt 0)))) peers) (\<lambda>b. Inr (\<not> b)))))"

definition wait_handshake :: "'w env \<Rightarrow> mc_node \<Rightarrow> rat \<Rightarrow> ('w, unit) prog" where
  "wait_handshake E from_connection wait = py_loop
     (pbind (handshake_done E from_connection) (\<lambda>ok. if ok then pret True else pseq (py_sleep E wait) (pret False)))"

interpretation handshake: untimed_poll wait_handshake handshake_done
  by unfold_locales (simp add: wait_handshake_def wait_body_def)

definition connect_nodes :: "'w env \<Rightarrow> mc_node \<Rightarrow> int \<Rightarrow> ('w, unit) prog" where
  "connect_nodes E from_connection node_num = pbind (pget (\<lambda>s. p2p_port E s node_num)) (\<lambda>port.
     pseq (mc_call E from_connection ''addnode'' [PStr (''127.0.0.1:'' @ str_int port), PStr ''onetry''])
       (wait_handshake E from_connection (1 / 10)))"

definition disconnect_nodes :: "'w env \<Rightarrow> mc_node \<Rightarrow> int \<Rightarrow> ('w, unit) prog" where
  "disconnect_nodes E from_connection node_num = pbind (pget (\<lambda>s. p2p_port E s node_num)) (\<lambda>port.
     pseq (mc_call E from_connection ''disconnectnode'' [PStr (''127.0.0.1:'' @ str_int port)])
       (wait_handshake E from_connection (1 / 10)))"

definition connect_nodes_bi :: "'w env \<Rightarrow> mc_node list \<Rightarrow> int \<Rightarrow> int \<Rightarrow> ('w, unit) prog" where
  "connect_nodes_bi E nodes a b =
     pbind (plift (list_get nodes a)) (\<lambda>na. pseq (connect_nodes E na b)
       (pbind (plift (list_get nodes b)) (\<lambda>nb. connect_nodes E nb a)))"

definition disconnect_nodes_bi :: "'w env \<Rightarrow> mc_node list \<Rightarrow> int \<Rightarrow> int \<Rightarrow> ('w, unit) prog" where
  "disconnect_nodes_bi E nodes a b =
     pbind (plift (list_get nodes a)) (\<lambda>na. pseq (disconnect_nodes E na b)
       (pbind (plift (list_get nodes b)) (\<lambda>nb. disconnect_nodes E nb a)))"

section \<open>The cached chain\<close>

definition rpc_connections_of :: "'w env \<Rightarrow> 'w world \<Rightarrow> mc_node list" where
  "rpc_connections_of E s = map (\<lambda>i. \<lparr>mc_url = ''http://rt:rt@127.0.0.1:'' @ str_int (rpc_port E s i),
     mc_hostname = ''127.0.0.1''\<rparr>) [0..3]"

definition start_cache_node :: "'w env \<Rightarrow> int \<Rightarrow> ('w, unit) prog" where
  "start_cache_node E i = pbind (initialize_datadir E ''cache'' i (PList [])) (\<lambda>datadir.
     pbind (pget (\<lambda>s. p2p_port E s 0)) (\<lambda>port0.
       pbind (py_popen E ([getenv_or E ''BITCOIND'' ''bitcoind'', ''-keypool=1'', ''-datadir='' @ datadir, ''-discover=0'']
                          @ (if i > 0 then [''-connect=127.0.0.1:'' @ str_int port0] else []))) (\<lambda>p.
         pseq (register_bitcoind i p)
           (py_check_call E [getenv_or E ''BITCOINCLI'' ''bitcoin-cli'', ''-datadir='' @ datadir, ''-rpcwait'', ''getblockcount'']))))"

text \<open>25 blocks by each of the four nodes, twice, ten minutes apart.\<close>

definition mine_cached_blocks :: "'w env \<Rightarrow> mc_node list \<Rightarrow> ('w, int) prog" where
  "mine_cached_blocks E rpcs =
     pfold (\<lambda>i t. pfold (\<lambda>peer t. pbind (pfold (\<lambda>j block_time.
         pseq (set_node_times E rpcs block_time)
           (pbind (plift (list_get rpcs peer)) (\<lambda>n. pseq (mc_call E n ''generate'' [PInt 1]) (pret (block_time + 10 * 60)))))
         [0..24] t) (\<lambda>t. pseq (sync_blocks E rpcs 1) (pret t))) [0..3] t) [0..1] 1388534400"

definition py_remove :: "'w env \<Rightarrow> string \<Rightarrow> ('w, unit) prog" where
  "py_remove E p = pact (RemovedFile p) (e_remove E p)"

definition py_copytree :: "'w env \<Rightarrow> string \<Rightarrow> string \<Rightarrow> ('w, unit) prog" where
  "py_copytree E a b = pact (CopiedTree a b) (e_copytree E a b)"

definition initialize_chain :: "'w env \<Rightarrow> string \<Rightarrow> ('w, unit) prog" where
  "initialize_chain E test_dir =
     pseq (pbind (py_isdir E (path_join ''cache'' ''node0'')) (\<lambda>cached.
       if cached then pret ()
       else pseq (piter (start_cache_node E) [0..3])
         (pbind (pget (rpc_connections_of E)) (\<lambda>rpcs.
           pseq (mine_cached_blocks E rpcs)
             (pseq (stop_nodes E rpcs)
               (pseq (wait_bitcoinds E)
                 (piter (\<lambda>i. piter (\<lambda>f. py_remove E (log_filename ''cache'' i f))
                   [''debug.log'', ''db.log'', ''peers.dat'', ''fee_estimates.dat'']) [0..3])))))))
     (piter (\<lambda>i. pseq (py_copytree E (path_join ''cache'' (''node'' @ str_int i)) (path_join test_dir (''node'' @ str_int i)))
        (pseq (initialize_datadir E test_dir i PNone) (pret ()))) [0..3])"

section \<open>Lemmas\<close>

lemma start_node_run:
  assumes "start_node E i dirname extra_args rpchost binary s = Some (Inr n, t)"
  shows "\<exists>p. globals_of t = globals_of (s\<lparr>bitcoind_processes := tab_put i p (bitcoind_processes s)\<rparr>) \<and>
    waits (w_calls t) = waits (w_calls s) \<and>
    mc_url n = ''http://rt:rt@'' @ mc_hostname n @ '':'' @ str_int (rpc_port E s i)"
  using assms
  by (auto simp: start_node_def Let_def pbind_Inr_iff py_isfile_def py_popen_def py_check_call_def py_run_def
      pext_run pact_run register_bitcoind_def globals_of_def rpc_port_def mc_start_port_modifier_def split: if_splits)

lemma start_node_table:
  assumes "start_node E i dirname a h b s = Some (Inr n, t)"
  shows "\<exists>p. bitcoind_processes t = tab_put i p (bitcoind_processes s)"
  using start_node_run [OF assms] by (auto simp: globals_of_def)

lemma start_node_port:
  assumes "start_node E i dirname a h b s = Some (Inr n, t)"
  shows "rpc_port E t = rpc_port E s \<and> waits (w_calls t) = waits (w_calls s) \<and>
    mc_url n = ''http://rt:rt@'' @ mc_hostname n @ '':'' @ str_int (rpc_port E s i)"
  using start_node_run [OF assms] by (auto simp: globals_of_def rpc_port_def mc_start_port_modifier_def)

lemma start_ith_run:
  assumes "start_ith E dirname as h bs i s = Some (Inr n, t)"
  shows "\<exists>a b. start_node E i dirname a h b s = Some (Inr n, t)"
  using assms by (auto simp: start_ith_def pbind_Inr_iff)

lemma start_nodes_run:
  assumes "pmap (start_ith E dirname as h bs) is s = Some (Inr ns, t)"
    and "distinct (map fst (bitcoind_processes s))"
  shows "fst ` set (bitcoind_processes t) = fst ` set (bitcoind_processes s) \<union> set is \<and>
    distinct (map fst (bitcoind_processes t)) \<and> waits (w_calls t) = waits (w_calls s) \<and>
    list_all2 (\<lambda>i n. mc_url n = ''http://rt:rt@'' @ mc_hostname n @ '':'' @ str_int (rpc_port E s i)) is ns"
  using assms
proof (induction "is" arbitrary: s ns)
  case (Cons i "is")
  from Cons.prems(1) obtain n u ns' where ith: "start_ith E dirname as h bs i s = Some (Inr n, u)" and ns: "ns = n # ns'"
    and rest: "pmap (start_ith E dirname as h bs) is u = Some (Inr ns', t)"
    by (auto simp: pbind_Inr_iff)
  from start_ith_run [OF ith] obtain a b where one: "start_node E i dirname a h b s = Some (Inr n, u)" by blast
  obtain p where p: "bitcoind_processes u = tab_put i p (bitcoind_processes s)"
    using start_node_table [OF one] by blast
  have "distinct (map fst (bitcoind_processes u))" using Cons.prems(2) p by (simp add: distinct_tab_put)
  from Cons.IH [OF rest this] start_node_port [OF one] ns p show ?case
    by (auto simp: keys_tab_put)
qed simp

section \<open>Properties\<close>

text \<open>Waiting for the mainchain nodes to agree on the block count returns only after a round in
  which all of them reported the same count.\<close>
theorem sync_blocks_agree:
  assumes "sync_blocks E rpc_connections wait s = Some (Inr (), t)"
  shows "\<exists>u counts c. pmap (\<lambda>x. mc_call E x ''getblockcount'' []) rpc_connections u = Some (Inr counts, t) \<and>
    counts \<noteq> [] \<and> (\<forall>v \<in> set counts. py_eq v c)"
proof -
  from mc_blocks.success [OF assms] obtain u where "mc_counts_agree E rpc_connections u = Some (Inr True, t)" by blast
  then obtain counts c where "pmap (\<lambda>x. mc_call E x ''getblockcount'' []) rpc_connections u = Some (Inr counts, t)"
    and "list_get counts 0 = Inr c" and eq: "list_all2 py_eq counts (replicate (length counts) c)"
    by (auto simp: mc_counts_agree_def pbind_Inr_iff rbind_Inr_iff)
  moreover have "counts \<noteq> []" using \<open>list_get counts 0 = Inr c\<close> by (auto simp: list_get_def rerr_def split: if_splits)
  moreover have "\<forall>v \<in> set counts. py_eq v c" using eq by (auto simp: list_all2_conv_all_nth in_set_conv_nth)
  ultimately show ?thesis by blast
qed

theorem sync_blocks_agree_witness:
  "\<exists>t u counts c. sync_blocks sample_env [sample_mc, sample_mc] 1 (sample_world 0 0 [Inr (PInt 7), Inr (PInt 7)]) = Some (Inr (), t)
    \<and> pmap (\<lambda>x. mc_call sample_env x ''getblockcount'' []) [sample_mc, sample_mc] u = Some (Inr counts, t) \<and> py_eq (hd counts) c"
proof -
  obtain t where t: "sync_blocks sample_env [sample_mc, sample_mc] 1 (sample_world 0 0 [Inr (PInt 7), Inr (PInt 7)]) = Some (Inr (), t)"
    by (simp add: sync_blocks_def py_loop.simps mc_counts_agree_def list_get_def sample_world_def ext_defs prog_simps)
  from sync_blocks_agree [OF t] t show ?thesis using hd_in_set by blast
qed

text \<open>The wait for equal block counts of mainchain nodes has no timeout: as long as some node keeps reporting another count than the first
  one, \<open>sync_blocks\<close> never returns.\<close>
theorem sync_blocks_waits_forever:
  assumes "\<And>n w. fst (e_mc_api E n ''getblockcount'' [] w) = Inr (PInt (height n))"
    and "rpc_connections \<noteq> []" and "n \<in> set rpc_connections" and "height n \<noteq> height (hd rpc_connections)"
  shows "sync_blocks E rpc_connections wait s = None"
proof (rule mc_blocks.diverges [where I = "\<lambda>_. True"])
  fix s :: "'a world"
  have "\<exists>t. pmap (\<lambda>x. mc_call E x ''getblockcount'' []) ns u = Some (Inr (map (\<lambda>n. PInt (height n)) ns), t)" for ns u
  proof (induction ns arbitrary: u)
    case (Cons n ns)
    let ?u = "u\<lparr>w_calls := w_calls u @ [McCall n ''getblockcount'' []], w_ext := snd (e_mc_api E n ''getblockcount'' [] (w_ext u))\<rparr>"
    from Cons.IH [of ?u] show ?case by (auto simp: pbind_run mc_call_run assms(1))
  qed simp
  then obtain t where "pmap (\<lambda>x. mc_call E x ''getblockcount'' []) rpc_connections s
      = Some (Inr (map (\<lambda>n. PInt (height n)) rpc_connections), t)" by blast
  moreover have "list_get (map (\<lambda>n. PInt (height n)) rpc_connections) 0 = Inr (PInt (height (hd rpc_connections)))"
    using assms(2) by (cases rpc_connections) (auto simp: list_get_def)
  moreover have "\<not> list_all2 py_eq (map (\<lambda>n. PInt (height n)) rpc_connections)
      (replicate (length rpc_connections) (PInt (height (hd rpc_connections))))"
    using assms(3,4) by (auto simp: list_all2_conv_all_nth in_set_conv_nth)
  ultimately show "\<exists>t. mc_counts_agree E rpc_connections s = Some (Inr False, t) \<and>
      (\<forall>u. py_sleep E wait t = Some (Inr (), u) \<longrightarrow> True)"
    by (auto simp: mc_counts_agree_def pbind_run)
qed simp

definition stuck_env :: "sample env" where
  "stuck_env = sample_env\<lparr>e_mc_api := \<lambda>n m a w. (Inr (PInt (int (length (mc_url n)))), w)\<rparr>"

theorem sync_blocks_waits_forever_witness:
  "sync_blocks stuck_env [sample_mc, sample_mc\<lparr>mc_url := ''mc2''\<rparr>] 1 (sample_world 0 0 []) = None"
  by (rule sync_blocks_waits_forever [where height = "\<lambda>n. int (length (mc_url n))" and n = "sample_mc\<lparr>mc_url := ''mc2''\<rparr>"])
    (simp_all add: stuck_env_def sample_mc_def)

text \<open>C4. \<open>start_nodes\<close> registers a process for every node index and returns one connection per node,
  to the node's own RPC port; stopping the nodes and waiting for the daemons then leaves no
  process behind and waits for every process that was registered.\<close>
theorem mc_nodes_lifecycle:
  assumes start: "start_nodes E num_nodes dirname extra_args rpchost binary s = Some (Inr nodes, t)"
    and "bitcoind_processes s = []"
    and stop: "pseq (stop_nodes E nodes) (wait_bitcoinds E) t = Some (Inr (), u)"
  shows "fst ` set (bitcoind_processes t) = {0..<num_nodes} \<and> length nodes = nat num_nodes \<and>
    (\<forall>i < nat num_nodes. mc_url (nodes ! i) = ''http://rt:rt@'' @ mc_hostname (nodes ! i) @ '':'' @ str_int (rpc_port E s (int i))) \<and>
    bitcoind_processes u = [] \<and> waits (w_calls u) = waits (w_calls s) @ map snd (bitcoind_processes t)"
proof -
  from start obtain as bs where run: "pmap (start_ith E dirname as rpchost bs) (py_range num_nodes) s = Some (Inr nodes, t)"
    by (auto simp: start_nodes_def Let_def)
  note st = start_nodes_run [OF run]
  have keep: "bitcoind_processes v = bitcoind_processes x \<and> waits (w_calls v) = waits (w_calls x)"
    if "piter (\<lambda>node. pseq (mc_call E node ''stop'' []) (pret ())) ns x = Some (Inr (), v)" for ns x v
    using that by (induction ns arbitrary: x) (fastforce simp: pbind_Inr_iff mc_call_run)+
  from stop obtain v where v: "piter (\<lambda>node. pseq (mc_call E node ''stop'' []) (pret ())) nodes t = Some (Inr (), v)"
    and w: "wait_bitcoinds E v = Some (Inr (), u)"
    by (auto simp: stop_nodes_def pbind_Inr_iff)
  have "bitcoind_processes u = [] \<and> waits (w_calls u) = waits (w_calls t) @ map snd (bitcoind_processes t)"
    using keep [OF v] mc_procs.wait_all_waits [OF w] by simp
  moreover have "set (py_range num_nodes) = {0..<num_nodes}" "length (py_range num_nodes) = nat num_nodes"
    by (auto simp: py_range_def)
  moreover have "py_range num_nodes ! i = int i" if "i < nat num_nodes" for i
    using that by (simp add: py_range_def)
  ultimately show ?thesis
    using st assms(2) by (auto simp: list_all2_conv_all_nth)
qed

theorem mc_nodes_lifecycle_witness:
  "\<exists>t (u :: sample world) nodes. start_nodes sample_env 2 ''/tmp'' None None None (sample_world 1 0 [Inr PNone, Inr PNone]) = Some (Inr nodes, t)
    \<and> fst ` set (bitcoind_processes t) = {0..<2} \<and> bitcoind_processes u = [] \<and> waits (w_calls u) = [77, 77]"
proof -
  have r: "[0..1::int] = [0, 1]" and n: "replicate 2 x = [x, x]" for x :: "'z option"
    by (simp_all add: upto.simps numeral_2_eq_2)
  let ?s = "sample_world 1 0 [Inr PNone, Inr PNone]"
  obtain nodes t u where t: "start_nodes sample_env 2 ''/tmp'' None None None ?s = Some (Inr nodes, t)"
    and tab: "map snd (bitcoind_processes t) = [77, 77]"
    and u: "pseq (stop_nodes sample_env nodes) (wait_bitcoinds sample_env) t = Some (Inr (), u)"
    by (simp add: start_nodes_def Let_def py_range_def r n start_ith_def start_node_def list_get_def rpchost_to_args_def
        register_bitcoind_def stop_nodes_def wait_bitcoinds_def sample_world_def ext_defs prog_simps)
  show ?thesis using mc_nodes_lifecycle [OF t _ u] t tab by (auto simp: sample_world_def)
qed

end
