(* ===== verification/Mc_Wallet.thy ===== *)
theory Mc_Wallet
  imports Mc_Node
begin

text \<open>
  What the tests do with a mainchain wallet (\<^verbatim>\<open>qa/test_framework/util.py\<close>): choosing inputs and
  making change for raw transactions, waiting for asynchronous operations, creating a sidechain and
  sending coins to it, and the epoch arithmetic of sidechain certificates. Amounts are \<open>Decimal\<close>s,
  modelled by rational numbers.
\<close>

section \<open>Inputs and change\<close>

fun find_value :: "pyval \<Rightarrow> pyval list \<Rightarrow> int \<Rightarrow> int option res" where
  "find_value amount [] i = Inr None"
| "find_value amount (vout # vouts) i = rbind (py_get vout ''value'') (\<lambda>v.
     if py_eq v amount then Inr (Some i) else find_value amount vouts (i + 1))"

definition find_output :: "'w env \<Rightarrow> mc_node \<Rightarrow> pyval \<Rightarrow> pyval \<Rightarrow> ('w, int) prog" where
  "find_output E node txid amount = pbind (mc_call E node ''getrawtransaction'' [txid, PInt 1]) (\<lambda>txdata.
     pbind (plift (rbind (rbind (py_get txdata ''vout'') py_items) (\<lambda>vouts. find_value amount vouts 0))) (\<lambda>found.
       case found of Some i \<Rightarrow> pret i
       | None \<Rightarrow> praise RuntimeError (''find_output txid '' @ py_str txid @ '' : '' @ py_str amount @ '' not found'') []))"

definition input_of :: "pyval \<Rightarrow> pyval res" where
  "input_of t = rbind (py_get t ''txid'') (\<lambda>txid. rbind (py_get t ''vout'') (\<lambda>vout. rbind (py_get t ''address'') (\<lambda>address.
     Inr (PDict [(''txid'', txid), (''vout'', vout), (''address'', address)]))))"

text \<open>The outputs are popped from the end of the list; the argument here is in popping order.\<close>

fun gather_loop :: "rat \<Rightarrow> pyval list \<Rightarrow> rat \<Rightarrow> pyval list \<Rightarrow> (rat \<times> pyval list) res" where
  "gather_loop amount_needed [] total_in inputs = Inr (total_in, inputs)"
| "gather_loop amount_needed (t # utxo) total_in inputs =
     (if total_in < amount_needed then
        rbind (rbind (py_get t ''amount'') as_dec) (\<lambda>a. rbind (input_of t) (\<lambda>i.
          gather_loop amount_needed utxo (total_in + a) (inputs @ [i])))
      else Inr (total_in, inputs))"

definition gather_inputs :: "'w env \<Rightarrow> mc_node \<Rightarrow> rat \<Rightarrow> int \<Rightarrow> ('w, rat \<times> pyval list) prog" where
  "gather_inputs E from_node amount_needed confirmations_required =
     (if \<not> confirmations_required \<ge> 0 then praise AssertionError [] []
      else pbind (mc_call E from_node ''listunspent'' [PInt confirmations_required]) (\<lambda>r.
        pbind (plift (py_items r)) (\<lambda>utxo.
          pbind (pext (\<lambda>w. case e_shuffle E utxo w of (u, w') \<Rightarrow> (Inr u, w'))) (\<lambda>utxo.
            pbind (plift (gather_loop amount_needed (rev utxo) 0 [])) (\<lambda>(total_in, inputs).
              if total_in < amount_needed then
                praise RuntimeError (''Insufficient funds: need '' @ str_int (rat_trunc amount_needed)
                  @ '', have '' @ str_int (rat_trunc total_in)) []
              else pret (total_in, inputs))))))"

text \<open>\<^verbatim>\<open>Decimal(q).quantize(Decimal('0.00000001'), rounding=ROUND_DOWN)\<close>; the 28 digits of the context, more than any amount
  of coins has, are left out.\<close>

definition quantize8 :: "rat \<Rightarrow> rat" where
  "quantize8 q = of_int (rat_trunc (q * 10 ^ 8)) / 10 ^ 8"

definition getnewaddress :: "'w env \<Rightarrow> mc_node \<Rightarrow> ('w, string) prog" where
  "getnewaddress E node = pbind (mc_call E node ''getnewaddress'' []) (\<lambda>r.
     case r of PStr a \<Rightarrow> pret a | _ \<Rightarrow> praise TypeError ''unhashable type'' [r])"

definition make_change :: "'w env \<Rightarrow> mc_node \<Rightarrow> rat \<Rightarrow> rat \<Rightarrow> rat \<Rightarrow> ('w, (string \<times> rat) list) prog" where
  "make_change E from_node amount_in amount_out fee =
     (let amount = amount_out + fee; change = amount_in - amount
      in pbind (if change > amount * 2 then pbind (getnewaddress E from_node) (\<lambda>change_address.
                  let half = quantize8 (change / 2)
                  in pret (dict_put change_address half [], amount_in - amount - half))
                else pret ([], change)) (\<lambda>(outputs, change).
           if change > 0 then pbind (getnewaddress E from_node) (\<lambda>a. pret (dict_put a change outputs))
           else pret outputs))"

definition raw_outputs :: "(string \<times> rat) list \<Rightarrow> (string \<times> pyval) list" where
  "raw_outputs outputs = map (\<lambda>kv. (fst kv, PDec (snd kv))) outputs"

text \<open>\<open>createrawtransaction\<close>, \<open>signrawtransaction\<close>, \<open>sendrawtransaction\<close>; the result is the id and the
  signed transaction.\<close>

definition sign_and_send :: "'w env \<Rightarrow> mc_node \<Rightarrow> pyval list \<Rightarrow> (string \<times> pyval) list \<Rightarrow> ('w, pyval \<times> pyval) prog" where
  "sign_and_send E from_node inputs outputs =
     pbind (mc_call E from_node ''createrawtransaction'' [PList inputs, PDict outputs]) (\<lambda>rawtx.
       pbind (mc_call E from_node ''signrawtransaction'' [rawtx]) (\<lambda>signresult.
         pbind (plift (py_get signresult ''hex'')) (\<lambda>hex.
           pbind (mc_call E from_node ''sendrawtransaction'' [hex, PBool True]) (\<lambda>txid. pret (txid, hex)))))"

definition send_zeropri_transaction :: "'w env \<Rightarrow> mc_node \<Rightarrow> mc_node \<Rightarrow> rat \<Rightarrow> rat \<Rightarrow> ('w, pyval \<times> pyval) prog" where
  "send_zeropri_transaction E from_node to_node amount fee =
     pbind (getnewaddress E from_node) (\<lambda>self_address.
       pbind (gather_inputs E from_node (amount + fee * 2) 1) (\<lambda>(total_in, inputs).
         pbind (make_change E from_node total_in (amount + fee) fee) (\<lambda>outputs.
           pbind (sign_and_send E from_node inputs (dict_put self_address (PFloat (amount + fee)) (raw_outputs outputs)))
             (\<lambda>(self_txid, _).
               pbind (find_output E from_node self_txid (PDec (amount + fee))) (\<lambda>vout.
                 pbind (getnewaddress E to_node) (\<lambda>to_address.
                   sign_and_send E from_node [PDict [(''txid'', self_txid), (''vout'', PInt vout)]]
                     [(to_address, PFloat amount)]))))))"

text \<open>\<open>random.choice\<close> of a list.\<close>

definition py_choice :: "'w env \<Rightarrow> 'a list \<Rightarrow> ('w, 'a) prog" where
  "py_choice E xs = (if xs = [] then praise IndexError ''Cannot choose from an empty sequence'' []
     else pbind (pext (\<lambda>w. case e_randint E 0 (int (length xs) - 1) w of (i, w') \<Rightarrow> (Inr i, w'))) (\<lambda>i. plift (list_get xs i)))"

definition random_fee :: "'w env \<Rightarrow> rat \<Rightarrow> rat \<Rightarrow> int \<Rightarrow> ('w, rat) prog" where
  "random_fee E min_fee fee_increment fee_variants =
     pext (\<lambda>w. case e_randint E 0 fee_variants w of (i, w') \<Rightarrow> (Inr (min_fee + fee_increment * of_int i), w'))"

definition random_zeropri_transaction :: "'w env \<Rightarrow> mc_node list \<Rightarrow> rat \<Rightarrow> rat \<Rightarrow> rat \<Rightarrow> int \<Rightarrow> ('w, pyval \<times> pyval \<times> rat) prog" where
  "random_zeropri_transaction E nodes amount min_fee fee_increment fee_variants =
     pbind (py_choice E nodes) (\<lambda>from_node. pbind (py_choice E nodes) (\<lambda>to_node.
       pbind (random_fee E min_fee fee_increment fee_variants) (\<lambda>fee.
         pbind (send_zeropri_transaction E from_node to_node amount fee) (\<lambda>(txid, txhex). pret (txid, txhex, fee)))))"

definition random_transaction :: "'w env \<Rightarrow> mc_node list \<Rightarrow> rat \<Rightarrow> rat \<Rightarrow> rat \<Rightarrow> int \<Rightarrow> ('w, pyval \<times> pyval \<times> rat) prog" where
  "random_transaction E nodes amount min_fee fee_increment fee_variants =
     pbind (py_choice E nodes) (\<lambda>from_node. pbind (py_choice E nodes) (\<lambda>to_node.
       pbind (random_fee E min_fee fee_increment fee_variants) (\<lambda>fee.
         pbind (gather_inputs E from_node (amount + fee) 1) (\<lambda>(total_in, inputs).
           pbind (make_change E from_node total_in amount fee) (\<lambda>outputs.
             pbind (getnewaddress E to_node) (\<lambda>to_address.
               pbind (sign_and_send E from_node inputs (dict_put to_address (PFloat amount) (raw_outputs outputs)))
                 (\<lambda>(txid, hex). pret (txid, hex, fee))))))))"

text \<open>The first unspent output worth more than \<open>min_amount\<close>, and what is left of it.\<close>

fun first_spendable :: "rat \<Rightarrow> pyval list \<Rightarrow> (pyval \<times> rat) option res" where
  "first_spendable min_amount [] = Inr None"
| "first_spendable min_amount (aUtx # us) = rbind (py_get aUtx ''amount'') (\<lambda>v. rbind (as_num v) (\<lambda>a.
     if a > min_amount then rbind (as_dec v) (\<lambda>a. Inr (Some (aUtx, a - min_amount)))
     else first_spendable min_amount us))"

definition get_spendable :: "'w env \<Rightarrow> mc_node \<Rightarrow> rat \<Rightarrow> ('w, pyval \<times> rat) prog" where
  "get_spendable E mc_node min_amount = pbind (mc_call E mc_node ''listunspent'' []) (\<lambda>r.
     pbind (plift (rbind (py_items r) (first_spendable min_amount))) (\<lambda>utx.
       pseq (plift (assert_equal (PBool (utx \<noteq> None)) (PBool True) []))
         (case utx of None \<Rightarrow> praise AssertionError [] [] | Some u \<Rightarrow> pret u)))"

section \<open>Asynchronous operations\<close>

text \<open>The loop \<^verbatim>\<open>for _ in range(1, timeout)\<close> polls \<open>timeout - 1\<close> times.\<close>

fun poll_operation :: "'w env \<Rightarrow> mc_node \<Rightarrow> pyval \<Rightarrow> nat \<Rightarrow> ('w, pyval option) prog" where
  "poll_operation E node myopid 0 = pret None"
| "poll_operation E node myopid (Suc k) =
     pbind (mc_call E node ''z_getoperationresult'' [PList [myopid]]) (\<lambda>results.
       pbind (plift (py_len results)) (\<lambda>n.
         if n > 0 then pbind (plift (py_nth results 0)) (\<lambda>r. pret (Some r))
         else pseq (py_sleep E 1) (poll_operation E node myopid k)))"

definition wait_and_assert_operationid_status_result ::
  "'w env \<Rightarrow> mc_node \<Rightarrow> pyval \<Rightarrow> string \<Rightarrow> pyval \<Rightarrow> int \<Rightarrow> ('w, pyval) prog" where
  "wait_and_assert_operationid_status_result E node myopid in_status in_errormsg timeout =
     pbind (poll_operation E node myopid (nat (timeout - 1))) (\<lambda>res.
       pseq (plift (assert_true (res \<noteq> None) ''timeout occured''))
         (case res of None \<Rightarrow> praise TypeError ''NoneType'' []
          | Some result \<Rightarrow> pbind (plift (py_get result ''status'')) (\<lambda>status.
              pbind (if py_eq status (PStr ''failed'') then
                       pbind (plift (py_path result [''error'', ''message''])) (\<lambda>errormsg.
                         pseq (plift (assert_equal in_errormsg errormsg [])) (pret errormsg))
                     else pret PNone) (\<lambda>errormsg.
                pseq (plift (assert_equal (PStr in_status) status
                        (''Operation returned mismatched status. Error Message: '' @ py_str errormsg)))
                  (pret result)))))"

definition wait_and_assert_operationid_status ::
  "'w env \<Rightarrow> mc_node \<Rightarrow> pyval \<Rightarrow> string \<Rightarrow> pyval \<Rightarrow> int \<Rightarrow> ('w, pyval) prog" where
  "wait_and_assert_operationid_status E node myopid in_status in_errormsg timeout =
     pbind (wait_and_assert_operationid_status_result E node myopid in_status in_errormsg timeout) (\<lambda>result.
       pbind (plift (py_get result ''status'')) (\<lambda>status.
         if py_eq status (PStr ''success'') then plift (py_path result [''result'', ''txid'']) else pret PNone))"

section \<open>Lemmas\<close>

lemma gather_loop_spec:
  assumes "gather_loop needed xs tot ins = Inr (sum_in, inputs)"
  shows "\<exists>k amounts sel. k \<le> length xs \<and>
    rmap (\<lambda>t. rbind (py_get t ''amount'') as_dec) (take k xs) = Inr amounts \<and>
    rmap input_of (take k xs) = Inr sel \<and> inputs = ins @ sel \<and> sum_in = tot + sum_list amounts \<and>
    (needed \<le> sum_in \<or> k = length xs) \<and> (k \<noteq> 0 \<longrightarrow> tot + sum_list (butlast amounts) < needed)"
  using assms
proof (induction xs arbitrary: tot ins)
  case (Cons t xs)
  show ?case
  proof (cases "tot < needed")
    case False
    with Cons.prems show ?thesis by (intro exI [of _ 0]) auto
  next
    case True
    with Cons.prems obtain a i where a: "rbind (py_get t ''amount'') as_dec = Inr a" and i: "input_of t = Inr i"
      and rest: "gather_loop needed xs (tot + a) (ins @ [i]) = Inr (sum_in, inputs)"
      by (auto simp: rbind_Inr_iff)
    from Cons.IH [OF rest] obtain k amounts sel where k: "k \<le> length xs"
      "rmap (\<lambda>t. rbind (py_get t ''amount'') as_dec) (take k xs) = Inr amounts" "rmap input_of (take k xs) = Inr sel"
      "inputs = (ins @ [i]) @ sel" "sum_in = tot + a + sum_list amounts" "needed \<le> sum_in \<or> k = length xs"
      "k \<noteq> 0 \<longrightarrow> tot + a + sum_list (butlast amounts) < needed" by blast
    have "length amounts = k" using k(1) rmap_length [OF k(2)] by simp
    then have "amounts = [] \<longleftrightarrow> k = 0" by auto
    with k a i True show ?thesis
      by (intro exI [of _ "Suc k"] exI [of _ "a # amounts"] exI [of _ "i # sel"]) auto
  qed
qed simp

lemma quantize8_bounds:
  assumes "0 \<le> q"
  shows "0 \<le> quantize8 q \<and> quantize8 q \<le> q \<and> q < quantize8 q + 1 / 10 ^ 8"
proof -
  have "0 \<le> q * 10 ^ 8" using assms by simp
  then have t: "rat_trunc (q * 10 ^ 8) = \<lfloor>q * 10 ^ 8\<rfloor>" by (simp add: rat_trunc_def)
  have "of_int \<lfloor>q * 10 ^ 8\<rfloor> \<le> q * 10 ^ 8" and "q * 10 ^ 8 < of_int \<lfloor>q * 10 ^ 8\<rfloor> + 1"
    and "0 \<le> \<lfloor>q * 10 ^ 8\<rfloor>" using \<open>0 \<le> q * 10 ^ 8\<close> by linarith+
  then show ?thesis unfolding quantize8_def t by (simp add: field_simps)
qed

section \<open>Properties\<close>

text \<open>\<open>gather_inputs\<close> returns unspent outputs of the (shuffled) wallet, each of them once, whose
  amounts add up to the returned total; the total covers the amount needed, and without the last
  of them it would not.\<close>
theorem gather_inputs_enough:
  assumes "gather_inputs E from_node amount_needed confirmations s = Some (Inr (total_in, inputs), t)"
  shows "total_in \<ge> amount_needed \<and> (\<exists>reply utxo w utxo' w' chosen amounts.
    fst (e_mc_api E from_node ''listunspent'' [PInt confirmations] (w_ext s)) = Inr reply \<and>
    py_items reply = Inr utxo \<and> e_shuffle E utxo w = (utxo', w') \<and>
    (\<exists>k. chosen = take k (rev utxo')) \<and>
    rmap input_of chosen = Inr inputs \<and> rmap (\<lambda>u. rbind (py_get u ''amount'') as_dec) chosen = Inr amounts \<and>
    total_in = sum_list amounts \<and> (chosen \<noteq> [] \<longrightarrow> sum_list (butlast amounts) < amount_needed))"
proof -
  from assms obtain reply utxo w utxo' w' where
    r: "fst (e_mc_api E from_node ''listunspent'' [PInt confirmations] (w_ext s)) = Inr reply" "py_items reply = Inr utxo"
      "e_shuffle E utxo w = (utxo', w')"
    and g: "gather_loop amount_needed (rev utxo') 0 [] = Inr (total_in, inputs)" and "\<not> total_in < amount_needed"
    by (fastforce simp: gather_inputs_def pbind_Inr_iff mc_call_run pext_run split: if_splits prod.splits)
  from gather_loop_spec [OF g] obtain k amounts sel where k: "k \<le> length (rev utxo')"
    "rmap (\<lambda>t. rbind (py_get t ''amount'') as_dec) (take k (rev utxo')) = Inr amounts"
    "rmap input_of (take k (rev utxo')) = Inr sel" "inputs = [] @ sel" "total_in = 0 + sum_list amounts"
    "k \<noteq> 0 \<longrightarrow> 0 + sum_list (butlast amounts) < amount_needed" by blast
  show ?thesis
    using r k \<open>\<not> total_in < amount_needed\<close>
    by (intro conjI exI [of _ reply] exI [of _ utxo] exI [of _ w] exI [of _ utxo'] exI [of _ w']
        exI [of _ "take k (rev utxo')"] exI [of _ amounts]) auto
qed

definition utxo_dict :: "string \<Rightarrow> rat \<Rightarrow> pyval" where
  "utxo_dict txid a = PDict [(''txid'', PStr txid), (''vout'', PInt 0), (''address'', PStr ''addr''), (''amount'', PDec a)]"

theorem gather_inputs_enough_witness:
  "\<exists>total_in ins t. gather_inputs sample_env sample_mc 3 1
      (sample_world 0 0 [Inr (PList [utxo_dict ''a'' 5, utxo_dict ''b'' 2, utxo_dict ''c'' 2])]) = Some (Inr (total_in, ins), t)
    \<and> total_in \<ge> 3"
proof -
  obtain total_in ins t where "gather_inputs sample_env sample_mc 3 1
      (sample_world 0 0 [Inr (PList [utxo_dict ''a'' 5, utxo_dict ''b'' 2, utxo_dict ''c'' 2])]) = Some (Inr (total_in, ins), t)"
    by (simp add: gather_inputs_def input_of_def utxo_dict_def sample_world_def ext_defs prog_simps)
  from gather_inputs_enough [OF this] this show ?thesis by blast
qed

text \<open>\<open>getnewaddress\<close> is documented to return a new address each time.\<close>

definition fresh_addresses :: "'w env \<Rightarrow> mc_node \<Rightarrow> bool" where
  "fresh_addresses E node \<longleftrightarrow> (\<forall>s a t b u. getnewaddress E node s = Some (Inr a, t) \<longrightarrow>
     getnewaddress E node t = Some (Inr b, u) \<longrightarrow> a \<noteq> b)"

text \<open>C9. \<open>make_change\<close> neither creates nor loses money: the change outputs add up to what the inputs
  leave after the payment and the fee; nothing is returned when nothing is left, no output is
  negative, and change worth more than twice the spent amount is split in two.\<close>
theorem make_change_conserves:
  assumes run: "make_change E from_node amount_in amount_out fee s = Some (Inr outputs, t)"
    and "0 \<le> amount_out + fee" and "fresh_addresses E from_node"
  shows "if amount_in \<le> amount_out + fee then outputs = []
     else sum_list (map snd outputs) = amount_in - amount_out - fee \<and> list_all (\<lambda>kv. 0 \<le> snd kv) outputs \<and>
       length outputs = (if amount_in - amount_out - fee > 2 * (amount_out + fee) then 2 else 1)"
proof -
  let ?change = "amount_in - (amount_out + fee)"
  show ?thesis
  proof (cases "?change > (amount_out + fee) * 2")
    case False
    with run show ?thesis by (auto simp: make_change_def Let_def pbind_Inr_iff split: if_splits)
  next
    case True
    moreover have "0 \<le> (amount_out + fee) * 2" using assms(2) by simp
    ultimately have pos: "0 < ?change" by (rule le_less_trans [rotated])
    with quantize8_bounds [of "?change / 2"]
    have half: "0 \<le> quantize8 (?change / 2)" "quantize8 (?change / 2) < ?change" by auto
    from run True half obtain a b u where "getnewaddress E from_node s = Some (Inr a, u)"
      and "getnewaddress E from_node u = Some (Inr b, t)"
      and outs: "outputs = dict_put b (?change - quantize8 (?change / 2)) [(a, quantize8 (?change / 2))]"
      by (auto simp: make_change_def Let_def pbind_Inr_iff split: if_splits)
    with assms(3) have "a \<noteq> b" unfolding fresh_addresses_def by blast
    then show ?thesis using outs half pos True by (auto simp: algebra_simps)
  qed
qed

definition counting_env :: "sample env" where
  "counting_env = sample_env\<lparr>e_mc_api := \<lambda>n m a w. (Inr (PStr (str_int \<lfloor>fst w\<rfloor>)), (fst w + 1, snd w))\<rparr>"

theorem make_change_conserves_witness:
  "\<exists>outputs t. make_change counting_env sample_mc 10 2 1 (sample_world 0 0 []) = Some (Inr outputs, t)
    \<and> sum_list (map snd outputs) = 7"
proof -
  obtain outputs t where run: "make_change counting_env sample_mc 10 2 1 (sample_world 0 0 []) = Some (Inr outputs, t)"
    by (simp add: make_change_def Let_def getnewaddress_def quantize8_def rat_trunc_def sample_world_def counting_env_def
        ext_defs prog_simps)
  moreover have "fresh_addresses counting_env sample_mc"
    by (auto simp: fresh_addresses_def getnewaddress_def counting_env_def pbind_run mc_call_run)
  ultimately show ?thesis using make_change_conserves [OF run] by auto
qed

text \<open>\<open>find_output\<close> returns the index of the first output with the wanted value; if there is none
  it raises.\<close>
theorem find_output_first:
  assumes reply: "fst (e_mc_api E node ''getrawtransaction'' [txid, PInt 1] (w_ext s)) = Inr txdata"
    and "py_get txdata ''vout'' = Inr (PList vouts)" and "rmap (\<lambda>v. py_get v ''value'') vouts = Inr values"
  shows "\<exists>t. find_output E node txid amount s = (if list_all (\<lambda>v. \<not> py_eq v amount) values
     then Some (Inl (PyErr RuntimeError (''find_output txid '' @ py_str txid @ '' : '' @ py_str amount @ '' not found'') []), t)
     else Some (Inr (int (length (takeWhile (\<lambda>v. \<not> py_eq v amount) values))), t))"
proof -
  have "find_value amount vs i = Inr (if list_all (\<lambda>v. \<not> py_eq v amount) xs then None
      else Some (i + int (length (takeWhile (\<lambda>v. \<not> py_eq v amount) xs))))"
    if "rmap (\<lambda>v. py_get v ''value'') vs = Inr xs" for vs xs i
    using that by (induction vs arbitrary: i xs) (auto simp: rbind_Inr_iff)
  from this [OF assms(3)] assms(1,2) show ?thesis
    by (auto simp: find_output_def pbind_run mc_call_run)
qed

theorem find_output_first_witness:
  "\<exists>t. find_output sample_env sample_mc (PStr ''tx'') (PDec 3) (sample_world 0 0
     [Inr (PDict [(''vout'', PList [PDict [(''value'', PDec 1)], PDict [(''value'', PDec 3)]])])]) = Some (Inr 1, t)"
  using find_output_first [of sample_env sample_mc "PStr ''tx''" "sample_world 0 0
     [Inr (PDict [(''vout'', PList [PDict [(''value'', PDec 1)], PDict [(''value'', PDec 3)]])])]"
     "PDict [(''vout'', PList [PDict [(''value'', PDec 1)], PDict [(''value'', PDec 3)]])]"
     "[PDict [(''value'', PDec 1)], PDict [(''value'', PDec 3)]]" "[PDec 1, PDec 3]" "PDec 3"]
  by (simp add: sample_world_def)

text \<open>\<open>get_spendable\<close> returns an unspent output worth more than the minimum together with the
  positive difference; when the wallet has none it raises an assertion.\<close>
theorem get_spendable_spec:
  assumes "fst (e_mc_api E node ''listunspent'' [] (w_ext s)) = Inr (PList us)"
    and "rmap (\<lambda>u. rbind (py_get u ''amount'') as_dec) us = Inr amounts"
  shows "case List.find (\<lambda>p. snd p > min_amount) (zip us amounts) of
       Some (u, a) \<Rightarrow> 0 < a - min_amount \<and> (\<exists>t. get_spendable E node min_amount s = Some (Inr (u, a - min_amount), t))
     | None \<Rightarrow> \<exists>e t. get_spendable E node min_amount s = Some (Inl e, t) \<and> err_kind e = AssertionError"
proof -
  have num: "as_num v = Inr a" if "as_dec v = Inr a" for v a
    using that by (cases v) (auto simp: as_num_def rerr_def)
  have "first_spendable min_amount vs = Inr (map_option (\<lambda>p. (fst p, snd p - min_amount)) (List.find (\<lambda>p. snd p > min_amount) (zip vs xs)))"
    if "rmap (\<lambda>u. rbind (py_get u ''amount'') as_dec) vs = Inr xs" for vs xs
    using that by (induction vs arbitrary: xs) (auto simp: rbind_Inr_iff num)
  note first = this [OF assms(2)]
  show ?thesis
  proof (cases "List.find (\<lambda>p. snd p > min_amount) (zip us amounts)")
    case None
    with first assms(1) show ?thesis
      by (auto simp: get_spendable_def pbind_run mc_call_run assert_equal_def rerr_def)
  next
    case (Some p)
    then have "snd p > min_amount" by (auto simp: find_Some_iff)
    with Some first assms(1) show ?thesis
      by (cases p) (auto simp: get_spendable_def pbind_run mc_call_run assert_equal_def)
  qed
qed

theorem get_spendable_spec_witness:
  "\<exists>t. get_spendable sample_env sample_mc 3 (sample_world 0 0 [Inr (PList [utxo_dict ''a'' 1, utxo_dict ''b'' 5])])
     = Some (Inr (utxo_dict ''b'' 5, 2), t)"
  using get_spendable_spec [of sample_env sample_mc "sample_world 0 0 [Inr (PList [utxo_dict ''a'' 1, utxo_dict ''b'' 5])]"
     "[utxo_dict ''a'' 1, utxo_dict ''b'' 5]" "[1, 5]" 3]
  by (simp add: sample_world_def) (simp add: utxo_dict_def)

lemma poll_operation_calls:
  assumes "poll_operation E node opid k s = Some (r, t)"
  shows "length (filter (\<lambda>ev. ev = McCall node ''z_getoperationresult'' [PList [opid]]) (w_calls t))
    \<le> length (filter (\<lambda>ev. ev = McCall node ''z_getoperationresult'' [PList [opid]]) (w_calls s)) + k"
  using assms
proof (induction k arbitrary: s)
  case (Suc k)
  let ?P = "\<lambda>ev. ev = McCall node ''z_getoperationresult'' [PList [opid]]"
  let ?u = "s\<lparr>w_calls := w_calls s @ [McCall node ''z_getoperationresult'' [PList [opid]]],
      w_ext := snd (e_mc_api E node ''z_getoperationresult'' [PList [opid]] (w_ext s))\<rparr>"
  obtain v where v: "py_sleep E 1 ?u = Some (Inr (), v)" "w_calls v = w_calls ?u @ [Slept 1]"
    by (simp add: py_sleep_def pact_run)
  from Suc.prems have "t = ?u \<or> poll_operation E node opid k v = Some (r, t)"
    using v(1) by (auto simp: pbind_run mc_call_run split: sum.splits if_splits)
  then show ?case
  proof
    assume "t = ?u"
    then show ?thesis by simp
  next
    assume "poll_operation E node opid k v = Some (r, t)"
    from Suc.IH [OF this] v(2) show ?thesis by simp
  qed
qed simp

text \<open>Waiting for an asynchronous operation asks for its result at most \<open>timeout - 1\<close> times, and
  when it returns the operation has the expected status.\<close>
theorem wait_operation_bounded:
  assumes "wait_and_assert_operationid_status_result E node opid in_status in_errormsg timeout s = Some (r, t)"
  shows "length (filter (\<lambda>ev. ev = McCall node ''z_getoperationresult'' [PList [opid]]) (w_calls t))
    \<le> length (filter (\<lambda>ev. ev = McCall node ''z_getoperationresult'' [PList [opid]]) (w_calls s)) + nat (timeout - 1) \<and>
    (\<forall>result. r = Inr result \<longrightarrow> (\<exists>status. py_get result ''status'' = Inr status \<and> py_eq (PStr in_status) status))"
proof -
  have "t = u" if "poll_operation E node opid (nat (timeout - 1)) s = Some (r1, u)" for r1 u
    using assms that by (auto simp: wait_and_assert_operationid_status_result_def pbind_run
        split: option.splits sum.splits if_splits)
  moreover obtain r1 u where poll: "poll_operation E node opid (nat (timeout - 1)) s = Some (r1, u)"
    using assms by (cases "poll_operation E node opid (nat (timeout - 1)) s")
      (auto simp: wait_and_assert_operationid_status_result_def pbind_run)
  ultimately have tu: "t = u" by blast
  have rest: "\<exists>status. py_get result ''status'' = Inr status \<and> py_eq (PStr in_status) status" if "r = Inr result" for result
    using assms that by (auto simp: wait_and_assert_operationid_status_result_def pbind_Inr_iff simp del: py_eq.simps
        split: option.splits if_splits)
  show ?thesis using poll_operation_calls [OF poll] tu rest by blast
qed

theorem wait_operation_bounded_witness:
  "\<exists>r t. wait_and_assert_operationid_status_result sample_env sample_mc (PStr ''op'') ''success'' PNone 2
      (sample_world 0 0 [Inr (PList [PDict [(''status'', PStr ''success'')]])]) = Some (Inr r, t)
    \<and> (\<exists>status. py_get r ''status'' = Inr status \<and> py_eq (PStr ''success'') status)"
proof -
  obtain r t where run: "wait_and_assert_operationid_status_result sample_env sample_mc (PStr ''op'') ''success'' PNone 2
      (sample_world 0 0 [Inr (PList [PDict [(''status'', PStr ''success'')]])]) = Some (Inr r, t)"
    by (simp add: wait_and_assert_operationid_status_result_def py_nth_def list_get_def assert_true_def assert_equal_def
        sample_world_def ext_defs prog_simps)
  from wait_operation_bounded [OF run] run show ?thesis by blast
qed

end
