(* ===== verification/Mc_Sidechain.thy ===== *)
theory Mc_Sidechain
  imports Mc_Wallet Bootstrap_Info
begin

text \<open>
  Sidechains seen from the mainchain (\<^verbatim>\<open>qa/test_framework/util.py\<close>,
  \<^verbatim>\<open>qa/SidechainTestFramework/scutil.py\<close>): the creation transaction and the block that confirms
  it, forward transfers, and the withdrawal epoch a certificate belongs to.
\<close>

section \<open>Creation and transfers\<close>

definition certificate_field_configs :: "string \<Rightarrow> int \<Rightarrow> bool \<Rightarrow> pyval list res" where
  "certificate_field_configs circuit_type sc_creation_version is_csw_enabled =
     (if circuit_type = KEY_ROTATION_CIRCUIT then
        if \<not> sc_creation_version \<ge> 2 then rerr AssertionError ''With key rotation circuit sc creation version should be >= 2'' []
        else if is_csw_enabled then rerr AssertionError ''With key rotation circuit csw must be disabled'' []
        else Inr (replicate 32 (PInt 255))
      else if is_csw_enabled then Inr [PInt 255, PInt 255]
      else Inr [])"

definition initialize_new_sidechain_in_mainchain ::
  "'w env \<Rightarrow> mc_node \<Rightarrow> int \<Rightarrow> pyval \<Rightarrow> pyval \<Rightarrow> pyval \<Rightarrow> pyval \<Rightarrow> pyval \<Rightarrow> pyval \<Rightarrow> int \<Rightarrow> int \<Rightarrow> bool \<Rightarrow> string \<Rightarrow> pyval option
    \<Rightarrow> ('w, pyval \<times> pyval \<times> pyval) prog" where
  "initialize_new_sidechain_in_mainchain E mainchain_node withdrawal_epoch_length public_key forward_transfer_amount
      vrf_public_key gen_sys_constant cert_vk csw_vk btr_data_length sc_creation_version is_csw_enabled circuit_type
      account_public_key =
     pbind (pbind (mc_call E mainchain_node ''getblockcount'' []) (\<lambda>r. plift (as_int r))) (\<lambda>number_of_blocks.
       let diff = 479 - number_of_blocks
       in pseq (if diff > 1 then pseq (mc_call E mainchain_node ''generate'' [PInt diff]) (pret ()) else pret ())
            (pbind (plift (case account_public_key of
                Some a \<Rightarrow> rbind (py_concat vrf_public_key public_key) (\<lambda>d. Inr (d, a))
              | None \<Rightarrow> Inr (vrf_public_key, public_key))) (\<lambda>(custom_creation_data, to_address).
              pbind (plift (certificate_field_configs circuit_type sc_creation_version is_csw_enabled)) (\<lambda>fe_configs.
                pbind (mc_call E mainchain_node ''sc_create'' [PDict
                   [(''version'', PInt sc_creation_version),
                    (''withdrawalEpochLength'', PInt withdrawal_epoch_length),
                    (''toaddress'', to_address),
                    (''amount'', forward_transfer_amount),
                    (''wCertVk'', cert_vk),
                    (''customData'', custom_creation_data),
                    (''constant'', gen_sys_constant),
                    (''wCeasedVk'', csw_vk),
                    (''vFieldElementCertificateFieldConfig'', PList fe_configs),
                    (''vBitVectorCertificateFieldConfig'', PList []),
                    (''forwardTransferScFee'', PInt 0),
                    (''mainchainBackwardTransferScFee'', PInt 0),
                    (''mainchainBackwardTransferRequestDataLength'', PInt btr_data_length)]]) (\<lambda>sc_create_res.
                  pbind (plift (py_get sc_create_res ''txid'')) (\<lambda>transaction_id.
                    pbind (plift (py_get sc_create_res ''scid'')) (\<lambda>sidechain_id.
                      pbind (pbind (mc_call E mainchain_node ''generate'' [PInt 1]) (\<lambda>r. plift (py_nth r 0))) (\<lambda>mc_block_hash.
                        pseq (mc_call E mainchain_node ''gettransaction'' [transaction_id])
                          (pseq (mc_call E mainchain_node ''getblock'' [mc_block_hash, PBool False])
                            (pbind (mc_call E mainchain_node ''getscgenesisinfo'' [sidechain_id]) (\<lambda>genesis_info.
                              pbind (mc_call E mainchain_node ''getblockcount'' []) (\<lambda>height.
                                pret (genesis_info, height, sidechain_id)))))))))))))"

definition forward_transfer_to_sidechain ::
  "'w env \<Rightarrow> pyval \<Rightarrow> mc_node \<Rightarrow> pyval \<Rightarrow> pyval \<Rightarrow> pyval \<Rightarrow> bool \<Rightarrow> ('w, pyval \<times> pyval) prog" where
  "forward_transfer_to_sidechain E sidechain_id mainchain_node public_key forward_transfer_amount mc_return_address generate_block =
     pbind (mc_call E mainchain_node ''sc_send'' [PList [PDict
        [(''toaddress'', public_key), (''amount'', forward_transfer_amount), (''scid'', sidechain_id),
         (''mcReturnAddress'', mc_return_address)]]]) (\<lambda>transaction_id.
       pseq (if generate_block then pseq (mc_call E mainchain_node ''generate'' [PInt 1]) (pret ()) else pret ())
         (pbind (mc_call E mainchain_node ''getscinfo'' [sidechain_id]) (\<lambda>info.
           pbind (mc_call E mainchain_node ''getblockcount'' []) (\<lambda>height. pret (info, height)))))"

section \<open>Withdrawal epochs\<close>

text \<open>\<^verbatim>\<open>node.getscinfo(scid)['items'][0]\<close>\<close>

definition sc_info_item :: "'w env \<Rightarrow> mc_node \<Rightarrow> pyval \<Rightarrow> ('w, pyval) prog" where
  "sc_info_item E node scid = pbind (mc_call E node ''getscinfo'' [scid]) (\<lambda>r.
     plift (rbind (py_get r ''items'') (\<lambda>items. py_nth items 0)))"

text \<open>The number of the last complete epoch and the height of its last block.\<close>

definition last_epoch :: "int \<Rightarrow> int \<Rightarrow> int \<Rightarrow> int res" where
  "last_epoch sc_creating_height current_height epochLen =
     rbind (py_floordiv (current_height - sc_creating_height + 1) epochLen) (\<lambda>q. Inr (q - 1))"

definition end_height :: "int \<Rightarrow> int \<Rightarrow> int \<Rightarrow> int" where
  "end_height sc_creating_height epoch_number epochLen = sc_creating_height - 1 + ((epoch_number + 1) * epochLen)"

definition cum_tree_hash :: "'w env \<Rightarrow> mc_node \<Rightarrow> pyval \<Rightarrow> ('w, pyval) prog" where
  "cum_tree_hash E node block = pbind (mc_call E node ''getblock'' [block]) (\<lambda>r. plift (py_get r ''scCumTreeHash''))"

text \<open>\<^verbatim>\<open>key in sc_info and sc_info[key] != ''\<close>\<close>

definition has_text :: "string \<Rightarrow> pyval \<Rightarrow> bool res" where
  "has_text key sc_info = rbind (py_in key sc_info) (\<lambda>b.
     if b then rbind (py_get sc_info key) (\<lambda>v. Inr (\<not> py_eq v (PStr []))) else Inr False)"

definition epoch_at_height :: "'w env \<Rightarrow> mc_node \<Rightarrow> pyval \<Rightarrow> int \<Rightarrow> ('w, int \<times> pyval) prog" where
  "epoch_at_height E node sc_info epochLen =
     pbind (plift (rbind (py_get sc_info ''createdAtBlockHeight'') as_int)) (\<lambda>sc_creating_height.
       pbind (pbind (mc_call E node ''getblockcount'' []) (\<lambda>r. plift (as_int r))) (\<lambda>current_height.
         pbind (plift (last_epoch sc_creating_height current_height epochLen)) (\<lambda>epoch_number.
           pbind (mc_call E node ''getblockhash'' [PInt (end_height sc_creating_height epoch_number epochLen)])
             (\<lambda>end_epoch_block_hash. pbind (cum_tree_hash E node end_epoch_block_hash) (\<lambda>h. pret (epoch_number, h))))))"

definition get_epoch_data :: "'w env \<Rightarrow> pyval \<Rightarrow> mc_node \<Rightarrow> int \<Rightarrow> bool \<Rightarrow> pyval \<Rightarrow> ('w, pyval \<times> pyval \<times> pyval) prog" where
  "get_epoch_data E scid node epochLen is_non_ceasing reference_height =
     pbind (sc_info_item E node scid) (\<lambda>sc_info.
       pbind (plift (py_get sc_info ''state'')) (\<lambda>state.
         if py_eq state (PStr ''UNCONFIRMED'') then pret (PInt 0, PStr [], PStr ''PHANTOM_PREV_CERT_HASH'')
         else if is_non_ceasing then
           pbind (plift (rbind (py_in ''unconfTopQualityCertificateEpoch'' sc_info) (\<lambda>b.
               if b then rbind (rbind (py_get sc_info ''unconfTopQualityCertificateEpoch'') as_int) (\<lambda>e. Inr (PInt (e + 1)))
               else py_get sc_info ''epoch''))) (\<lambda>epoch_number.
             pbind (if reference_height = PNone then mc_call E node ''getblockcount'' [] else pret reference_height) (\<lambda>height.
               pbind (cum_tree_hash E node (PStr (py_str height))) (\<lambda>epoch_cum_tree_hash.
                 pbind (plift (has_text ''unconfTopQualityCertificateDataHash'' sc_info)) (\<lambda>unconf.
                   pbind (if unconf then plift (py_get sc_info ''unconfTopQualityCertificateDataHash'')
                          else pbind (plift (has_text ''lastCertificateDataHash'' sc_info)) (\<lambda>last.
                            if last then plift (py_get sc_info ''lastCertificateDataHash'')
                            else pret (PStr ''PHANTOM_PREV_CERT_HASH''))) (\<lambda>last_cert_data_hash.
                     pret (epoch_number, epoch_cum_tree_hash, last_cert_data_hash))))))
         else
           pbind (epoch_at_height E node sc_info epochLen) (\<lambda>(epoch_number, epoch_cum_tree_hash).
             pbind (plift (has_text ''lastCertificateDataHash'' sc_info)) (\<lambda>last.
               pbind (if last then plift (py_get sc_info ''lastCertificateDataHash'')
                      else pret (PStr ''PHANTOM_PREV_CERT_HASH'')) (\<lambda>last_cert_data_hash.
                 pret (PInt epoch_number, epoch_cum_tree_hash, last_cert_data_hash))))))"

definition get_scinfo_data :: "'w env \<Rightarrow> pyval \<Rightarrow> mc_node \<Rightarrow> ('w, int \<times> pyval \<times> pyval \<times> pyval \<times> pyval) prog" where
  "get_scinfo_data E scid mc_node =
     pbind (sc_info_item E mc_node scid) (\<lambda>ret.
       pbind (plift (rbind (py_get ret ''createdAtBlockHeight'') as_int)) (\<lambda>sc_creating_height.
         pbind (plift (py_get ret ''version'')) (\<lambda>sc_version.
           pbind (plift (py_get ret ''constant'')) (\<lambda>sc_constant.
             pbind (plift (py_get ret ''customData'')) (\<lambda>sc_customData.
               pbind (plift (rbind (py_get ret ''withdrawalEpochLength'') as_int)) (\<lambda>epochLen.
                 pbind (pbind (mc_call E mc_node ''getblockcount'' []) (\<lambda>r. plift (as_int r))) (\<lambda>current_height.
                   pbind (plift (rbind (py_floordiv (current_height - sc_creating_height + 1) epochLen) (\<lambda>q. Inr (q - 1)))) (\<lambda>epoch_number.
                     pbind (mc_call E mc_node ''getblockhash'' [PInt (sc_creating_height - 1 + ((epoch_number + 1) * epochLen))]) (\<lambda>end_epoch_block_hash.
                       pbind (pbind (mc_call E mc_node ''getblock'' [end_epoch_block_hash]) (\<lambda>r. plift (py_get r ''scCumTreeHash''))) (\<lambda>epoch_cum_tree_hash.
                         pret (epoch_number, epoch_cum_tree_hash, sc_version, sc_constant, sc_customData)))))))))))"

section \<open>Properties\<close>

lemma last_epoch_bounds:
  assumes "0 < epochLen" and "last_epoch created current epochLen = Inr e"
  shows "end_height created e epochLen \<le> current \<and> current < end_height created e epochLen + epochLen"
proof -
  have e: "e = (current - created + 1) div epochLen - 1"
    using assms by (simp add: last_epoch_def py_floordiv_def)
  define q r where "q = (current - created + 1) div epochLen" and "r = (current - created + 1) mod epochLen"
  have "q * epochLen + r = current - created + 1" "0 \<le> r" "r < epochLen"
    using assms(1) by (simp_all add: q_def r_def)
  moreover have "end_height created e epochLen = created - 1 + q * epochLen"
    by (simp add: end_height_def e q_def)
  ultimately show ?thesis by simp
qed

text \<open>The epoch a certificate is made for is the last complete one: its last block is on the chain
  and the last block of the next epoch is not. In particular the block asked for by height
  always exists once the sidechain has been created, and its height grows by the epoch length
  from epoch to epoch.\<close>
theorem last_complete_epoch:
  assumes "0 < epochLen"
  shows "\<exists>e. last_epoch created current epochLen = Inr e \<and>
    end_height created e epochLen \<le> current \<and> current < end_height created (e + 1) epochLen \<and>
    end_height created (e + 1) epochLen = end_height created e epochLen + epochLen \<and>
    (created \<le> current \<longrightarrow> -1 \<le> e \<and> created - 1 \<le> end_height created e epochLen)"
proof -
  let ?e = "(current - created + 1) div epochLen - 1"
  have "last_epoch created current epochLen = Inr ?e"
    using assms by (simp add: last_epoch_def py_floordiv_def)
  moreover from last_epoch_bounds [OF assms this]
  have "end_height created ?e epochLen \<le> current" "current < end_height created (?e + 1) epochLen"
    "end_height created (?e + 1) epochLen = end_height created ?e epochLen + epochLen"
    by (auto simp: end_height_def algebra_simps)
  moreover have "0 \<le> ?e + 1" if "created \<le> current"
    using assms that by (simp add: pos_imp_zdiv_nonneg_iff)
  then have "created \<le> current \<Longrightarrow> -1 \<le> ?e \<and> created - 1 \<le> end_height created ?e epochLen"
    using assms by (simp add: end_height_def)
  ultimately show ?thesis by blast
qed

theorem last_complete_epoch_witness:
  "\<exists>e. last_epoch 480 525 10 = Inr e \<and> end_height 480 e 10 \<le> 525 \<and> (525::int) < end_height 480 (e + 1) 10"
  using last_complete_epoch [of 10 480 525] by auto


definition scinfo_reply :: "pyval res" where
  "scinfo_reply = Inr (PDict [(''items'', PList [PDict [(''createdAtBlockHeight'', PInt 480), (''version'', PInt 1),
     (''constant'', PStr ''c''), (''customData'', PStr ''d''), (''withdrawalEpochLength'', PInt 10),
     (''state'', PStr ''ALIVE''), (''lastCertificateDataHash'', PStr [])]])])"


end
