(* ===== verification/Json.thy ===== *)
theory Json
  imports Py_Strings
begin

text \<open>
  \<^verbatim>\<open>json.loads\<close>, the counterpart of \<open>json_dumps\<close>: the replies of the nodes and the output of the
  bootstrapping tools are read with it. Numbers with a fraction or an exponent are handed to \<open>mk\<close>
  (\<open>PFloat\<close>, or \<open>PDec\<close> where the caller asks for \<^verbatim>\<open>parse_float=Decimal\<close>). Characters beyond code
  point 255 and the constants \<^verbatim>\<open>NaN\<close> and \<^verbatim>\<open>Infinity\<close>, which the nodes do not send, are rejected. The
  parser carries fuel; the length of the text is always enough, since every step consumes a
  character.
\<close>

section \<open>The parser\<close>

definition is_json_ws :: "char \<Rightarrow> bool" where
  "is_json_ws c \<longleftrightarrow> c \<in> set [CHR '' '', CHR 0x09, CHR 0x0A, CHR 0x0D]"

definition skip_ws :: "string \<Rightarrow> string" where
  "skip_ws = dropWhile is_json_ws"

definition unescape1 :: "char \<Rightarrow> char option" where
  "unescape1 c = map_of [(CHR 0x22, CHR 0x22), (CHR 0x5C, CHR 0x5C), (CHR ''/'', CHR ''/''), (CHR ''b'', CHR 0x08),
     (CHR ''f'', CHR 0x0C), (CHR ''n'', CHR 0x0A), (CHR ''r'', CHR 0x0D), (CHR ''t'', CHR 0x09)] c"

definition hex4 :: "char \<Rightarrow> char \<Rightarrow> char \<Rightarrow> char \<Rightarrow> char option" where
  "hex4 a b c d = (case (digit_val a, digit_val b, digit_val c, digit_val d) of
     (Some 0, Some 0, Some h, Some l) \<Rightarrow> Some (char_of (16 * h + l)) | _ \<Rightarrow> None)"

text \<open>The rest of a string after its opening quote.\<close>

fun p_str :: "string \<Rightarrow> (string \<times> string) option" where
  "p_str [] = None"
| "p_str (c # cs) =
     (if c = CHR 0x22 then Some ([], cs)
      else if c = CHR 0x5C then (case cs of
          CHR ''u'' # h1 # h2 # h3 # h4 # r \<Rightarrow>
            (case hex4 h1 h2 h3 h4 of None \<Rightarrow> None | Some x \<Rightarrow> map_option (\<lambda>p. (x # fst p, snd p)) (p_str r))
        | e # r \<Rightarrow> (case unescape1 e of None \<Rightarrow> None | Some x \<Rightarrow> map_option (\<lambda>p. (x # fst p, snd p)) (p_str r))
        | [] \<Rightarrow> None)
      else if (of_char c :: nat) < 32 then None
      else map_option (\<lambda>p. (c # fst p, snd p)) (p_str cs))"

definition is_dec :: "char \<Rightarrow> bool" where
  "is_dec c \<longleftrightarrow> c \<in> set ''0123456789''"

text \<open>An integer part without leading zeros, an optional fraction, an optional exponent.\<close>

definition p_digits :: "string \<Rightarrow> (string \<times> string) option" where
  "p_digits cs = (let ds = takeWhile is_dec cs in if ds = [] then None else Some (ds, dropWhile is_dec cs))"

definition p_nat :: "string \<Rightarrow> (nat \<times> string) option" where
  "p_nat cs = (case p_digits cs of None \<Rightarrow> None
     | Some (ds, r) \<Rightarrow> if hd ds = CHR ''0'' \<and> ds \<noteq> ''0'' then Some (0, drop 1 cs)
                       else map_option (\<lambda>n. (n, r)) (read_digits 10 0 ds))"

definition p_frac :: "string \<Rightarrow> rat option \<times> string" where
  "p_frac cs = (case cs of
      c # r \<Rightarrow> (if c = CHR ''.'' then (case p_digits r of
          Some (ds, r') \<Rightarrow> (map_option (\<lambda>n. of_nat n / 10 ^ length ds) (read_digits 10 0 ds), r')
        | None \<Rightarrow> (None, cs)) else (None, cs))
    | [] \<Rightarrow> (None, cs))"

definition p_exp :: "string \<Rightarrow> rat option \<times> string" where
  "p_exp cs = (case cs of
      c # r \<Rightarrow> (if c = CHR ''e'' \<or> c = CHR ''E'' then
          (let (neg, r1) = (case r of d # r' \<Rightarrow> if d = CHR ''-'' then (True, r') else if d = CHR ''+'' then (False, r') else (False, r)
                            | [] \<Rightarrow> (False, r))
           in (case p_digits r1 of
              Some (ds, r') \<Rightarrow> (map_option (\<lambda>n. if neg then 1 / 10 ^ n else 10 ^ n) (read_digits 10 0 ds), r')
            | None \<Rightarrow> (None, cs)))
        else (None, cs))
    | [] \<Rightarrow> (None, cs))"

definition p_num :: "(rat \<Rightarrow> pyval) \<Rightarrow> string \<Rightarrow> (pyval \<times> string) option" where
  "p_num mk cs = (let (neg, cs1) = (case cs of c # r \<Rightarrow> if c = CHR ''-'' then (True, r) else (False, cs) | [] \<Rightarrow> (False, cs))
     in (case p_nat cs1 of None \<Rightarrow> None
        | Some (n, r1) \<Rightarrow>
            (case p_frac r1 of (f, r2) \<Rightarrow> (case p_exp r2 of (e, r3) \<Rightarrow>
              if f = None \<and> e = None then Some (PInt (if neg then - int n else int n), r3)
              else let q = (of_nat n + (case f of None \<Rightarrow> 0 | Some x \<Rightarrow> x)) * (case e of None \<Rightarrow> 1 | Some x \<Rightarrow> x)
                   in Some (mk (if neg then - q else q), r3)))))"

definition p_word :: "string \<Rightarrow> (pyval \<times> string) option" where
  "p_word cs = (if is_prefix ''null'' cs then Some (PNone, drop 4 cs)
     else if is_prefix ''true'' cs then Some (PBool True, drop 4 cs)
     else if is_prefix ''false'' cs then Some (PBool False, drop 5 cs)
     else None)"

text \<open>A later occurrence of a key overwrites the value and keeps the place of the first.\<close>

definition mk_dict :: "(string \<times> pyval) list \<Rightarrow> pyval" where
  "mk_dict kvs = PDict (foldl (\<lambda>d kv. dict_put (fst kv) (snd kv) d) [] kvs)"

fun p_val :: "(rat \<Rightarrow> pyval) \<Rightarrow> nat \<Rightarrow> string \<Rightarrow> (pyval \<times> string) option"
  and p_items :: "(rat \<Rightarrow> pyval) \<Rightarrow> nat \<Rightarrow> string \<Rightarrow> (pyval list \<times> string) option"
  and p_pairs :: "(rat \<Rightarrow> pyval) \<Rightarrow> nat \<Rightarrow> string \<Rightarrow> ((string \<times> pyval) list \<times> string) option"
where
  "p_val mk 0 cs = None"
| "p_val mk (Suc n) cs = (case skip_ws cs of
      [] \<Rightarrow> None
    | c # r \<Rightarrow>
       if c = CHR 0x22 then map_option (\<lambda>p. (PStr (fst p), snd p)) (p_str r)
       else if c = CHR ''['' then
         (if is_prefix '']'' (skip_ws r) then Some (PList [], tl (skip_ws r))
          else map_option (\<lambda>p. (PList (fst p), snd p)) (p_items mk n r))
       else if c = CHR ''{'' then
         (if is_prefix ''}'' (skip_ws r) then Some (PDict [], tl (skip_ws r))
          else map_option (\<lambda>p. (mk_dict (fst p), snd p)) (p_pairs mk n r))
       else (case p_word (c # r) of Some p \<Rightarrow> Some p | None \<Rightarrow> p_num mk (c # r)))"
| "p_items mk 0 cs = None"
| "p_items mk (Suc n) cs = (case p_val mk n cs of
      None \<Rightarrow> None
    | Some (v, r) \<Rightarrow>
       if is_prefix '','' (skip_ws r) then map_option (\<lambda>p. (v # fst p, snd p)) (p_items mk n (tl (skip_ws r)))
       else if is_prefix '']'' (skip_ws r) then Some ([v], tl (skip_ws r))
       else None)"
| "p_pairs mk 0 cs = None"
| "p_pairs mk (Suc n) cs = (case skip_ws cs of
      [] \<Rightarrow> None
    | c # r \<Rightarrow> if c \<noteq> CHR 0x22 then None else
       (case p_str r of
          None \<Rightarrow> None
        | Some (k, r1) \<Rightarrow> if \<not> is_prefix '':'' (skip_ws r1) then None else
           (case p_val mk n (tl (skip_ws r1)) of
              None \<Rightarrow> None
            | Some (v, r2) \<Rightarrow>
               if is_prefix '','' (skip_ws r2) then map_option (\<lambda>p. ((k, v) # fst p, snd p)) (p_pairs mk n (tl (skip_ws r2)))
               else if is_prefix ''}'' (skip_ws r2) then Some ([(k, v)], tl (skip_ws r2))
               else None)))"

declare p_str.simps(2) [simp del] p_val.simps(2) [simp del] p_items.simps(2) [simp del] p_pairs.simps(2) [simp del]

definition json_parse :: "(rat \<Rightarrow> pyval) \<Rightarrow> string \<Rightarrow> pyval res" where
  "json_parse mk s = (case p_val mk (Suc (length s)) s of
      None \<Rightarrow> rerr ValueError ''Expecting value'' []
    | Some (v, r) \<Rightarrow> if skip_ws r = [] then Inr v else rerr ValueError ''Extra data'' [])"

definition json_loads :: "string \<Rightarrow> pyval res" where
  "json_loads = json_parse PFloat"

section \<open>What json.dumps writes is read back\<close>

text \<open>The values that survive a round trip: no floats, decimals, bytes or tuples, and no key twice
  (a Python dictionary has none).\<close>

fun json_value :: "pyval \<Rightarrow> bool" where
  "json_value PNone = True"
| "json_value (PBool b) = True"
| "json_value (PInt i) = True"
| "json_value (PStr s) = True"
| "json_value (PList vs) = list_all json_value vs"
| "json_value (PDict d) = (distinct (map fst d) \<and> list_all (\<lambda>kv. json_value (snd kv)) d)"
| "json_value v = False"

lemma hex4_of_char: "hex4 (CHR ''0'') (CHR ''0'') (digit_char (of_char c div 16)) (digit_char (of_char c mod 16)) = Some c"
proof -
  have "of_char c div 16 < (16 :: nat)" by (rule less_mult_imp_div_less) simp
  then have "digit_val (digit_char (of_char c div 16)) = Some (of_char c div 16)"
    and "digit_val (digit_char (of_char c mod 16)) = Some (of_char c mod 16)"
    by (simp_all add: digit_val_char)
  moreover have "digit_val (CHR ''0'') = Some 0" by (simp add: digit_val_def)
  ultimately show ?thesis by (simp add: hex4_def)
qed

lemma p_str_json_char: "p_str (json_char c @ r) = map_option (\<lambda>p. (c # fst p, snd p)) (p_str r)"
proof -
  consider "c \<in> {CHR 0x22, CHR 0x5C, CHR 0x08, CHR 0x09, CHR 0x0A, CHR 0x0C, CHR 0x0D}"
    | "c \<notin> {CHR 0x22, CHR 0x5C, CHR 0x08, CHR 0x09, CHR 0x0A, CHR 0x0C, CHR 0x0D}" "32 \<le> (of_char c :: nat)" "(of_char c :: nat) < 127"
    | "c \<notin> {CHR 0x22, CHR 0x5C, CHR 0x08, CHR 0x09, CHR 0x0A, CHR 0x0C, CHR 0x0D}" "\<not> (32 \<le> (of_char c :: nat) \<and> (of_char c :: nat) < 127)"
    by blast
  then show ?thesis
  proof cases
    case 1
    then show ?thesis by (auto simp: json_char_def unescape1_def p_str.simps)
  next
    case 2
    then show ?thesis by (simp add: json_char_def Let_def p_str.simps)
  next
    case 3
    then have "json_char c = [CHR 0x5C, CHR ''u'', CHR ''0'', CHR ''0'', digit_char (of_char c div 16), digit_char (of_char c mod 16)]"
      by (simp add: json_char_def hex2_def Let_def)
    then show ?thesis by (simp add: hex4_of_char p_str.simps)
  qed
qed

lemma p_str_json_str: "p_str (concat (map json_char s) @ CHR 0x22 # r) = Some (s, r)"
proof (induction s)
  case (Cons c s)
  then show ?case by (simp add: p_str_json_char)
qed (simp add: p_str.simps)

text \<open>The text after a number must not continue it.\<close>

definition num_end :: "string \<Rightarrow> bool" where
  "num_end r \<longleftrightarrow> (case r of [] \<Rightarrow> True | c # _ \<Rightarrow> \<not> is_dec c \<and> c \<notin> {CHR ''.'', CHR ''e'', CHR ''E''})"

lemma is_dec_digit_char: "d < 10 \<Longrightarrow> is_dec (digit_char d)"
proof -
  have "list_all (\<lambda>d. is_dec (digit_char d)) [0..<10]" by code_simp
  then show "d < 10 \<Longrightarrow> is_dec (digit_char d)" by (simp add: list_all_iff)
qed

lemma nat_str_all_dec: "list_all is_dec (nat_str 10 n)"
proof (induction "10::nat" n rule: nat_str.induct)
  case (1 n)
  show ?case
  proof (cases "n < 10")
    case True
    then show ?thesis by (subst nat_str.simps) (simp add: is_dec_digit_char)
  next
    case False
    with 1 show ?thesis by (subst nat_str.simps) (simp add: is_dec_digit_char)
  qed
qed

lemma digit_char_0: "d < 10 \<Longrightarrow> digit_char d = CHR ''0'' \<longleftrightarrow> d = 0"
  using digit_val_char [of d] digit_val_char [of 0] by (force simp: digit_char_def digit_val_def)

lemma hd_nat_str: "n \<noteq> 0 \<Longrightarrow> hd (nat_str 10 n) \<noteq> CHR ''0''"
proof (induction "10::nat" n rule: nat_str.induct)
  case (1 n)
  show ?case
  proof (cases "n < 10")
    case True
    with 1 show ?thesis by (subst nat_str.simps) (simp add: digit_char_0)
  next
    case False
    then have "n div 10 \<noteq> 0" by simp
    with False 1 show ?thesis by (subst nat_str.simps) (simp add: hd_append)
  qed
qed

lemma p_nat_nat_str:
  assumes "num_end r"
  shows "p_nat (nat_str 10 n @ r) = Some (n, r)"
proof -
  have all: "\<And>x. x \<in> set (nat_str 10 n) \<Longrightarrow> is_dec x" using nat_str_all_dec [of n] by (simp add: list_all_iff)
  have "takeWhile is_dec (nat_str 10 n @ r) = nat_str 10 n" "dropWhile is_dec (nat_str 10 n @ r) = r"
    using all assms by (cases r; auto simp: takeWhile_append2 dropWhile_append2 num_end_def)+
  then have "p_digits (nat_str 10 n @ r) = Some (nat_str 10 n, r)" by (simp add: p_digits_def Let_def)
  moreover have "nat_str 10 n = ''0''" if "hd (nat_str 10 n) = CHR ''0''"
  proof -
    have "n = 0" using that hd_nat_str by blast
    then show ?thesis by (simp add: nat_str.simps digit_char_def)
  qed
  ultimately show ?thesis by (auto simp: p_nat_def read_digits_nat_str)
qed

lemma p_frac_exp_end: "num_end r \<Longrightarrow> p_frac r = (None, r) \<and> p_exp r = (None, r)"
  by (cases r) (auto simp: num_end_def p_frac_def p_exp_def)

lemma p_num_str_int:
  assumes "num_end r"
  shows "p_num mk (str_int i @ r) = Some (PInt i, r)"
proof (cases "i < 0")
  case True
  then show ?thesis
    using p_nat_nat_str [OF assms, of "nat (- i)"] p_frac_exp_end [OF assms] by (simp add: p_num_def str_int_def)
next
  case False
  obtain c cs where c: "nat_str 10 (nat i) = c # cs" by (cases "nat_str 10 (nat i)") auto
  with nat_str_plain [of 10 "nat i"] have "c \<noteq> CHR ''-''" by auto
  with False c p_nat_nat_str [OF assms, of "nat i"] p_frac_exp_end [OF assms] show ?thesis
    by (simp add: p_num_def str_int_def)
qed

lemma skip_space [simp]: "skip_ws (CHR '' '' # cs) = skip_ws cs"
  by (simp add: skip_ws_def is_json_ws_def)

lemma skip_ws_id: "cs \<noteq> [] \<Longrightarrow> \<not> is_json_ws (hd cs) \<Longrightarrow> skip_ws cs = cs"
  by (cases cs) (simp_all add: skip_ws_def)

lemma p_val_space: "p_val mk n (CHR '' '' # cs) = p_val mk n cs"
  by (cases n) (simp_all add: p_val.simps)

lemma p_items_space: "p_items mk n (CHR '' '' # cs) = p_items mk n cs"
  by (cases n) (simp_all add: p_items.simps p_val_space)

lemma p_pairs_space: "p_pairs mk n (CHR '' '' # cs) = p_pairs mk n cs"
  by (cases n) (simp_all add: p_pairs.simps)

text \<open>How the text of a value begins.\<close>

definition value_start :: "char \<Rightarrow> bool" where
  "value_start c \<longleftrightarrow> c \<in> set ([CHR 0x22] @ ''[{ntf-0123456789'')"

lemma str_int_start: "str_int i \<noteq> [] \<and> (hd (str_int i) = CHR ''-'' \<or> is_dec (hd (str_int i)))"
  using nat_str_all_dec [of "nat i"] by (cases "nat_str 10 (nat i)") (auto simp: str_int_def)

lemma json_dumps_start:
  assumes "json_value v" and "json_dumps v = Inr t"
  shows "t \<noteq> [] \<and> value_start (hd t)"
proof (cases v)
  case (PInt i)
  then show ?thesis using assms str_int_start [of i] by (auto simp: value_start_def is_dec_def)
qed (use assms in \<open>auto simp: value_start_def json_str_def rbind_Inr_iff split: if_splits\<close>)

lemma value_start_plain:
  assumes "value_start c"
  shows "\<not> is_json_ws c \<and> c \<noteq> CHR '']'' \<and> c \<noteq> CHR ''}''"
proof -
  have "list_all (\<lambda>c. \<not> is_json_ws c \<and> c \<noteq> CHR '']'' \<and> c \<noteq> CHR ''}'') ([CHR 0x22] @ ''[{ntf-0123456789'')" by code_simp
  then show ?thesis using assms unfolding value_start_def list_all_iff by blast
qed

lemma dict_put_new: "k \<notin> fst ` set d \<Longrightarrow> dict_put k v d = d @ [(k, v)]"
  by (induction d) auto

lemma mk_dict_distinct: "distinct (map fst kvs) \<Longrightarrow> mk_dict kvs = PDict kvs"
proof -
  have "foldl (\<lambda>d kv. dict_put (fst kv) (snd kv) d) d kvs = d @ kvs" if "distinct (map fst (d @ kvs))" for d
    using that by (induction kvs arbitrary: d) (auto simp: dict_put_new)
  from this [of "[]"] show "distinct (map fst kvs) \<Longrightarrow> mk_dict kvs = PDict kvs" by (simp add: mk_dict_def)
qed

text \<open>A value is read back from its text, whatever follows it: \<open>reads_back\<close> is the induction
  hypothesis for the elements of a list or dictionary.\<close>

definition reads_back :: "(rat \<Rightarrow> pyval) \<Rightarrow> pyval \<Rightarrow> string \<Rightarrow> bool" where
  "reads_back mk v t \<longleftrightarrow> (\<forall>r n. num_end r \<longrightarrow> length t \<le> n \<longrightarrow> p_val mk (Suc n) (t @ r) = Some (v, r))"

lemma p_items_join:
  assumes "list_all2 (reads_back mk) vs ts" and "vs \<noteq> []" and "length (py_join '', '' ts) + 2 \<le> n"
  shows "p_items mk n (py_join '', '' ts @ CHR '']'' # r) = Some (vs, r)"
  using assms
proof (induction vs ts arbitrary: n rule: list_all2_induct)
  case (Cons v vs t ts)
  from Cons.prems(2) obtain m where n: "n = Suc (Suc m)" by (cases n; cases "n - 1") auto
  show ?case
  proof (cases ts)
    case Nil
    with Cons.hyps(2) have "vs = []" by simp
    have "p_val mk (Suc m) (t @ CHR '']'' # r) = Some (v, CHR '']'' # r)"
      using Cons.hyps(1) Cons.prems(2) n Nil by (simp add: reads_back_def num_end_def is_dec_def)
    then show ?thesis using n Nil \<open>vs = []\<close> by (simp add: p_items.simps skip_ws_def is_json_ws_def)
  next
    case (Cons t' ts')
    let ?rest = "CHR '','' # CHR '' '' # py_join '', '' ts @ CHR '']'' # r"
    have joined: "py_join '', '' (t # ts) @ CHR '']'' # r = t @ ?rest" using Cons by simp
    have len: "length (py_join '', '' (t # ts)) = length t + 2 + length (py_join '', '' ts)" using Cons by simp
    have val: "p_val mk (Suc m) (t @ ?rest) = Some (v, ?rest)"
      using Cons.hyps(1) Cons.prems(2) n len by (simp add: reads_back_def num_end_def is_dec_def)
    have "p_items mk (Suc m) (py_join '', '' ts @ CHR '']'' # r) = Some (vs, r)"
    proof (rule Cons.IH)
      show "vs \<noteq> []" using Cons.hyps(2) \<open>ts = t' # ts'\<close> by auto
      show "length (py_join '', '' ts) + 2 \<le> Suc m" using Cons.prems(2) n len by simp
    qed
    then show ?thesis
      unfolding joined n by (subst p_items.simps) (simp add: val skip_ws_def is_json_ws_def p_items_space)
  qed
qed simp

definition pair_text :: "string \<Rightarrow> string \<Rightarrow> string" where
  "pair_text k t = json_str k @ '': '' @ t"

lemma p_pairs_one:
  assumes "reads_back mk v t" and "num_end r" and "length t \<le> m"
  shows "p_pairs mk (Suc (Suc m)) (pair_text k t @ r) =
    (if is_prefix '','' (skip_ws r) then map_option (\<lambda>p. ((k, v) # fst p, snd p)) (p_pairs mk (Suc m) (tl (skip_ws r)))
     else if is_prefix ''}'' (skip_ws r) then Some ([(k, v)], tl (skip_ws r)) else None)"
proof -
  have start: "skip_ws (pair_text k t @ r) = CHR 0x22 # concat (map json_char k) @ CHR 0x22 # CHR '':'' # CHR '' '' # t @ r"
    by (simp add: pair_text_def json_str_def skip_ws_def is_json_ws_def)
  have "p_val mk (Suc m) (CHR '' '' # t @ r) = Some (v, r)"
    using assms by (simp add: p_val_space reads_back_def)
  moreover have "skip_ws (CHR '':'' # CHR '' '' # t @ r) = CHR '':'' # CHR '' '' # t @ r"
    by (simp add: skip_ws_def is_json_ws_def)
  ultimately show ?thesis
    by (subst p_pairs.simps) (simp add: start p_str_json_str)
qed

lemma p_pairs_join:
  assumes "list_all2 (\<lambda>kv t. \<exists>w. t = pair_text (fst kv) w \<and> reads_back mk (snd kv) w) kvs ts" and "kvs \<noteq> []"
    and "length (py_join '', '' ts) + 2 \<le> n"
  shows "p_pairs mk n (py_join '', '' ts @ CHR ''}'' # r) = Some (kvs, r)"
  using assms
proof (induction kvs ts arbitrary: n rule: list_all2_induct)
  case (Cons kv kvs t ts)
  from Cons.prems(2) obtain m where n: "n = Suc (Suc m)" by (cases n; cases "n - 1") auto
  from Cons.hyps(1) obtain w where w: "t = pair_text (fst kv) w" "reads_back mk (snd kv) w" by blast
  then have wt: "length w \<le> length t" by (simp add: pair_text_def)
  show ?case
  proof (cases ts)
    case Nil
    with Cons.hyps(2) have "kvs = []" by simp
    with Nil w wt n Cons.prems(2) show ?thesis
      by (simp add: p_pairs_one num_end_def is_dec_def skip_ws_def is_json_ws_def)
  next
    case (Cons t' ts')
    let ?rest = "CHR '','' # CHR '' '' # py_join '', '' ts @ CHR ''}'' # r"
    have joined: "py_join '', '' (t # ts) @ CHR ''}'' # r = t @ ?rest" using Cons by simp
    have len: "length (py_join '', '' (t # ts)) = length t + 2 + length (py_join '', '' ts)" using Cons by simp
    have "p_pairs mk (Suc m) (py_join '', '' ts @ CHR ''}'' # r) = Some (kvs, r)"
    proof (rule Cons.IH)
      show "kvs \<noteq> []" using Cons.hyps(2) \<open>ts = t' # ts'\<close> by auto
      show "length (py_join '', '' ts) + 2 \<le> Suc m" using Cons.prems(2) n len by simp
    qed
    moreover have "length w \<le> m" using wt Cons.prems(2) n len by simp
    moreover have "num_end ?rest" by (simp add: num_end_def is_dec_def)
    ultimately show ?thesis
      unfolding joined unfolding n w(1) using p_pairs_one [OF w(2), of ?rest m "fst kv"]
      by (simp add: skip_ws_def is_json_ws_def p_pairs_space)
  qed
qed simp

lemma join_start: "ts \<noteq> [] \<Longrightarrow> hd ts \<noteq> [] \<Longrightarrow> py_join sep ts \<noteq> [] \<and> hd (py_join sep ts) = hd (hd ts)"
  by (cases "(sep, ts)" rule: py_join.cases) auto

lemma reads_back_list:
  assumes rb: "list_all2 (reads_back mk) vs ts" and start: "\<And>t. t \<in> set ts \<Longrightarrow> t \<noteq> [] \<and> value_start (hd t)"
  shows "reads_back mk (PList vs) (''['' @ py_join '', '' ts @ '']'')"
  unfolding reads_back_def
proof (intro allI impI)
  fix r n
  assume len: "length (''['' @ py_join '', '' ts @ '']'') \<le> n"
  have open_list: "skip_ws ((''['' @ py_join '', '' ts @ '']'') @ r) = CHR ''['' # py_join '', '' ts @ CHR '']'' # r"
    by (simp add: skip_ws_def is_json_ws_def)
  show "p_val mk (Suc n) ((''['' @ py_join '', '' ts @ '']'') @ r) = Some (PList vs, r)"
  proof (cases "vs = []")
    case True
    with rb show ?thesis by (simp add: p_val.simps open_list) (simp add: skip_ws_def is_json_ws_def)
  next
    case False
    with rb have "ts \<noteq> []" by auto
    with start [of "hd ts"] join_start [of ts "'', ''"] value_start_plain [of "hd (hd ts)"]
    have "\<not> is_prefix '']'' (skip_ws (py_join '', '' ts @ CHR '']'' # r))"
      by (cases "py_join '', '' ts") (auto simp: skip_ws_def)
    moreover have "p_items mk n (py_join '', '' ts @ CHR '']'' # r) = Some (vs, r)"
      using p_items_join [OF rb False] len by simp
    ultimately show ?thesis unfolding p_val.simps(2) open_list by simp
  qed
qed

lemma reads_back_dict:
  assumes rb: "list_all2 (\<lambda>kv t. \<exists>w. t = pair_text (fst kv) w \<and> reads_back mk (snd kv) w) d ts"
    and "distinct (map fst d)"
  shows "reads_back mk (PDict d) (''{'' @ py_join '', '' ts @ ''}'')"
  unfolding reads_back_def
proof (intro allI impI)
  fix r n
  assume len: "length (''{'' @ py_join '', '' ts @ ''}'') \<le> n"
  have open_dict: "skip_ws ((''{'' @ py_join '', '' ts @ ''}'') @ r) = CHR ''{'' # py_join '', '' ts @ CHR ''}'' # r"
    by (simp add: skip_ws_def is_json_ws_def)
  show "p_val mk (Suc n) ((''{'' @ py_join '', '' ts @ ''}'') @ r) = Some (PDict d, r)"
  proof (cases "d = []")
    case True
    with rb show ?thesis by (simp add: p_val.simps open_dict) (simp add: skip_ws_def is_json_ws_def)
  next
    case False
    with rb have "ts \<noteq> []" and "hd (hd ts) = CHR 0x22 \<and> hd ts \<noteq> []"
      by (cases d; cases ts; auto simp: pair_text_def json_str_def)+
    with join_start [of ts "'', ''"] have "\<not> is_prefix ''}'' (skip_ws (py_join '', '' ts @ CHR ''}'' # r))"
      by (cases "py_join '', '' ts") (auto simp: skip_ws_def is_json_ws_def)
    moreover have "p_pairs mk n (py_join '', '' ts @ CHR ''}'' # r) = Some (d, r)"
      using p_pairs_join [OF rb False] len by simp
    ultimately show ?thesis unfolding p_val.simps(2) open_dict using assms(2) by (simp add: mk_dict_distinct)
  qed
qed

lemma reads_back_int: "reads_back mk (PInt i) (str_int i)"
proof -
  obtain c cs where c: "str_int i = c # cs" using str_int_start [of i] by (cases "str_int i") auto
  have "c = CHR ''-'' \<or> is_dec c" using str_int_start [of i] c by simp
  then have "c \<notin> {CHR 0x22, CHR ''['', CHR ''{'', CHR ''n'', CHR ''t'', CHR ''f''}" "\<not> is_json_ws c"
    by (auto simp: is_dec_def is_json_ws_def)
  then show ?thesis
    using c p_num_str_int [of _ mk i] by (auto simp: reads_back_def p_val.simps skip_ws_def p_word_def)
qed

lemma json_reads_back: "json_value v \<Longrightarrow> json_dumps v = Inr t \<Longrightarrow> reads_back mk v t"
proof (induction v arbitrary: t rule: json_dumps.induct)
  case (3 i)
  then show ?case using reads_back_int [of mk i] by simp
next
  case (5 s)
  then show ?case
    by (auto simp: reads_back_def p_val.simps json_str_def skip_ws_def is_json_ws_def p_str_json_str)
next
  case (6 vs)
  then obtain ts where ts: "list_all2 (\<lambda>v t. json_dumps v = Inr t) vs ts" and t: "t = ''['' @ py_join '', '' ts @ '']''"
    by (auto simp: rbind_Inr_iff rmap_Inr_iff)
  have "list_all2 (reads_back mk) vs ts"
    using ts 6 by (auto simp: list_all2_conv_all_nth list_all_length)
  moreover have "t \<noteq> [] \<and> value_start (hd t)" if "t \<in> set ts" for t
  proof -
    from that ts obtain i where "i < length vs" "json_dumps (vs ! i) = Inr t"
      by (auto simp: in_set_conv_nth list_all2_conv_all_nth)
    with 6 show ?thesis using json_dumps_start [of "vs ! i" t] by (simp add: list_all_length)
  qed
  ultimately show ?case unfolding t by (rule reads_back_list)
next
  case (8 d)
  then obtain ts where ts: "list_all2 (\<lambda>kv t. rbind (json_dumps (snd kv)) (\<lambda>w. Inr (json_str (fst kv) @ '': '' @ w)) = Inr t) d ts"
    and t: "t = ''{'' @ py_join '', '' ts @ ''}''"
    by (auto simp: rbind_Inr_iff [of "rmap _ _"] rmap_Inr_iff)
  have "\<exists>w. ts ! i = pair_text (fst (d ! i)) w \<and> reads_back mk (snd (d ! i)) w" if "i < length d" for i
  proof -
    from ts that obtain w where w: "json_dumps (snd (d ! i)) = Inr w" "ts ! i = pair_text (fst (d ! i)) w"
      by (auto simp: list_all2_conv_all_nth rbind_Inr_iff pair_text_def)
    moreover have "json_value (snd (d ! i))" using "8.prems"(1) that by (simp add: list_all_length)
    ultimately show ?thesis using "8.IH" [OF nth_mem [OF that]] by blast
  qed
  then have "list_all2 (\<lambda>kv t. \<exists>w. t = pair_text (fst kv) w \<and> reads_back mk (snd kv) w) d ts"
    using list_all2_lengthD [OF ts] by (simp add: list_all2_conv_all_nth)
  then show ?case unfolding t by (rule reads_back_dict) (use 8 in simp)
qed (auto simp: reads_back_def p_val.simps skip_ws_def is_json_ws_def p_word_def split: if_splits)

lemma json_dumps_total: "json_value v \<Longrightarrow> \<exists>t. json_dumps v = Inr t"
proof (induction v rule: json_dumps.induct)
  case (6 vs)
  then have "\<exists>ts. rmap json_dumps vs = Inr ts"
    by (induction vs) (auto simp: rbind_Inr_iff)
  then show ?case by auto
next
  case (8 d)
  have "\<exists>ts. rmap (\<lambda>kv. rbind (json_dumps (snd kv)) (\<lambda>w. Inr (json_str (fst kv) @ '': '' @ w))) e = Inr ts"
    if "set e \<subseteq> set d" for e
    using that
  proof (induction e)
    case (Cons kv e)
    then have "\<exists>t. json_dumps (snd kv) = Inr t" using 8 by (auto simp: list_all_iff)
    with Cons show ?case by (auto simp: rbind_Inr_iff)
  qed simp
  from this [of d] show ?case by (auto simp: rbind_Inr_iff)
qed auto

section \<open>Property\<close>

text \<open>Encoding a JSON value and parsing the text gives the value back: every request body and every
  configuration value the framework writes with \<open>json.dumps\<close> is read as what was meant,
  including quotes, backslashes and control characters in strings.\<close>
lemma json_roundtrip:
  assumes "json_value v"
  shows "rbind (json_dumps v) json_loads = Inr v"
proof -
  from json_dumps_total [OF assms] obtain t where t: "json_dumps v = Inr t" by blast
  have "num_end []" by (simp add: num_end_def)
  with json_reads_back [OF assms t, of PFloat] have "p_val PFloat (Suc (length t)) (t @ []) = Some (v, [])"
    unfolding reads_back_def by blast
  then show ?thesis by (simp add: t json_loads_def json_parse_def skip_ws_def)
qed

end
