(* ===== verification/Bootstrap.thy ===== *)
theory Bootstrap
  imports Sc_Node Mc_Sidechain Json
begin

text \<open>
  Bootstrapping a network of sidechain nodes (\<^verbatim>\<open>qa/SidechainTestFramework/scutil.py\<close>): the external
  tools that generate keys and proofs, the creation of the sidechain in the mainchain, and the data
  directory with the configuration file of each node.

  Configuration objects are passed by value. The one update of an argument object in this part,
  \<^verbatim>\<open>sc_node_config.forger_options.allowed_forgers.append(...)\<close>, is returned as the new
  configuration; a caller who shares one options object between nodes is outside of the model.
\<close>

section \<open>Constants\<close>

definition DEFAULT_REST_API_TIMEOUT :: int where
  "DEFAULT_REST_API_TIMEOUT = 5"

definition DEFAULT_MAX_PACKET_SIZE :: int where
  "DEFAULT_MAX_PACKET_SIZE = 5 * 1024 * 1024 + 100"

definition DEFAULT_ACCOUNT_MODEL_MAX_PACKET_SIZE :: int where
  "DEFAULT_ACCOUNT_MODEL_MAX_PACKET_SIZE = 7 * 1024 * 1024 + 100"

definition UtxoModel :: string where
  "UtxoModel = ''utxo''"

definition AccountModel :: string where
  "AccountModel = ''account''"

definition DefaultBlockTimestampRewind :: rat where
  "DefaultBlockTimestampRewind = 720 * 120 / 2"

record log_info =
  logFileLevel :: string
  logConsoleLevel :: string

definition default_LogInfo :: log_info where
  "default_LogInfo = \<lparr>logFileLevel = ''all'', logConsoleLevel = ''error''\<rparr>"

section \<open>The external tools\<close>

text \<open>Run a tool and read its output as JSON; unreadable output raises the exception of the caller.\<close>

definition run_json_tool :: "'w env \<Rightarrow> string list \<Rightarrow> string \<Rightarrow> ('w, pyval) prog" where
  "run_json_tool E cmd failure = pbind (py_run E cmd) (\<lambda>r.
     ptry (plift (json_loads (fst (snd r)))) (\<lambda>e.
       if err_kind e = ValueError then praise PlainException failure [] else pthrow e))"

definition launch_bootstrap_tool :: "'w env \<Rightarrow> string \<Rightarrow> pyval \<Rightarrow> string \<Rightarrow> ('w, pyval) prog" where
  "launch_bootstrap_tool E command_name json_parameters model =
     (let bootstrapping_tool_path = (if model = ''account'' then EVM_BOOTSTRAPPING_TOOL E else UTXO_BOOTSTRAPPING_TOOL E)
      in pbind (plift (json_dumps json_parameters)) (\<lambda>json_param.
           run_json_tool E [''java'', ''-jar'', bootstrapping_tool_path, command_name, json_param]
             ''Bootstrap tool error occurred''))"

text \<open>\<^verbatim>\<open>os.getenv("SIDECHAIN_SDK", "..")\<close>\<close>

definition sdk_dir :: "'w env \<Rightarrow> string" where
  "sdk_dir E = (case e_getenv E ''SIDECHAIN_SDK'' of None \<Rightarrow> ''..'' | Some d \<Rightarrow> d)"

definition launch_db_tool :: "'w env \<Rightarrow> string \<Rightarrow> string \<Rightarrow> string \<Rightarrow> pyval \<Rightarrow> ('w, pyval) prog" where
  "launch_db_tool E dirName storageNames command_name json_parameters =
     (let storagesPath = dirName @ ''/blockchain''
      in pbind (plift (json_dumps json_parameters)) (\<lambda>json_param.
           run_json_tool E [''java'', ''-jar'',
               sdk_dir E @ ''/tools/dbtool/target/sidechains-sdk-dbtools-'' @ SNAPSHOT_VERSION_TAG @ ''.jar'',
               storagesPath, storageNames, command_name, json_param]
             ''DB tool error occurred''))"

definition generate_genesis_data :: "'w env \<Rightarrow> pyval \<Rightarrow> pyval \<Rightarrow> pyval \<Rightarrow> pyval \<Rightarrow> string \<Rightarrow> int \<Rightarrow> ('w, pyval) prog" where
  "generate_genesis_data E genesis_info genesis_secret vrf_secret block_timestamp_rewind model virtual_withdrawal_epoch_length =
     launch_bootstrap_tool E ''genesisinfo'' (PDict
       [(''model'', PStr model), (''secret'', genesis_secret), (''vrfSecret'', vrf_secret), (''info'', genesis_info),
        (''regtestBlockTimestampRewind'', block_timestamp_rewind),
        (''virtualWithdrawalEpochLength'', PInt virtual_withdrawal_epoch_length)]) model"

text \<open>
  The four key generators call the tool once per key, with the seeds \<^verbatim>\<open>seed_1\<close>, \<^verbatim>\<open>seed_2\<close>, ..., and
  then read the two parts of each key from the answers.
\<close>

definition key_seed :: "string \<Rightarrow> int \<Rightarrow> pyval" where
  "key_seed seed i = PDict [(''seed'', PStr (seed @ ''_'' @ str_int (i + 1)))]"

definition launch_key_tool :: "'w env \<Rightarrow> string \<Rightarrow> string \<Rightarrow> int \<Rightarrow> string \<Rightarrow> ('w, pyval list) prog" where
  "launch_key_tool E command_name seed number_of_keys model =
     pmap (\<lambda>i. launch_bootstrap_tool E command_name (key_seed seed i) model) (py_range number_of_keys)"

definition key_of :: "string \<Rightarrow> string \<Rightarrow> pyval \<Rightarrow> (pyval \<times> pyval) res" where
  "key_of secret_name public_name secret =
     rbind (py_get secret secret_name) (\<lambda>s. rbind (py_get secret public_name) (\<lambda>p. Inr (s, p)))"

definition mk_key_pair :: "pyval \<times> pyval \<Rightarrow> key_pair" where
  "mk_key_pair k = \<lparr>kp_secret = fst k, kp_publicKey = snd k\<rparr>"

definition generate_secrets :: "'w env \<Rightarrow> string \<Rightarrow> int \<Rightarrow> string \<Rightarrow> ('w, key_pair list) prog" where
  "generate_secrets E seed number_of_accounts model =
     pbind (launch_key_tool E ''generatekey'' seed number_of_accounts model) (\<lambda>secrets.
       plift (rmap (\<lambda>secret. rbind (key_of ''secret'' ''publicKey'' secret) (\<lambda>k. Inr (mk_key_pair k))) secrets))"

definition generate_vrf_secrets :: "'w env \<Rightarrow> string \<Rightarrow> int \<Rightarrow> string \<Rightarrow> ('w, key_pair list) prog" where
  "generate_vrf_secrets E seed number_of_vrf_keys model =
     pbind (launch_key_tool E ''generateVrfKey'' seed number_of_vrf_keys model) (\<lambda>secrets.
       plift (rmap (\<lambda>secret. rbind (key_of ''vrfSecret'' ''vrfPublicKey'' secret) (\<lambda>k. Inr (mk_key_pair k))) secrets))"

definition generate_account_proposition :: "'w env \<Rightarrow> string \<Rightarrow> int \<Rightarrow> string \<Rightarrow> ('w, account_key list) prog" where
  "generate_account_proposition E seed number_of_acc_props model =
     pbind (launch_key_tool E ''generateAccountKey'' seed number_of_acc_props model) (\<lambda>secrets.
       plift (rmap (\<lambda>secret. rbind (key_of ''accountSecret'' ''accountProposition'' secret) (\<lambda>k.
         Inr \<lparr>ak_secret = fst k, ak_proposition = snd k\<rparr>)) secrets))"

definition generate_cert_signer_secrets :: "'w env \<Rightarrow> string \<Rightarrow> int \<Rightarrow> string \<Rightarrow> ('w, key_pair list) prog" where
  "generate_cert_signer_secrets E seed number_of_schnorr_keys model =
     pbind (launch_key_tool E ''generateCertificateSignerKey'' seed number_of_schnorr_keys model) (\<lambda>secrets.
       plift (rmap (\<lambda>secret. rbind (key_of ''signerSecret'' ''signerPublicKey'' secret) (\<lambda>k. Inr (mk_key_pair k))) secrets))"

section \<open>Proof data\<close>

definition generate_certificate_proof_info ::
  "'w env \<Rightarrow> string \<Rightarrow> int \<Rightarrow> int \<Rightarrow> proof_keys_paths \<Rightarrow> bool \<Rightarrow> string \<Rightarrow> string \<Rightarrow> ('w, certificate_proof_info) prog" where
  "generate_certificate_proof_info E seed number_of_signer_keys threshold keys_paths is_csw_enabled circuit_type model =
     pbind (generate_cert_signer_secrets E seed number_of_signer_keys model) (\<lambda>signer_keys.
       let signer_secrets = map kp_secret signer_keys;
           public_signing_keys = map kp_publicKey signer_keys;
           json_parameters =
             [(''signersPublicKeys'', PList public_signing_keys), (''threshold'', PInt threshold),
              (''provingKeyPath'', PStr (pk_proving_key_path keys_paths)),
              (''verificationKeyPath'', PStr (pk_verification_key_path keys_paths)),
              (''isCSWEnabled'', PBool is_csw_enabled)]
       in pbind (if circuit_type = KEY_ROTATION_CIRCUIT
                 then generate_cert_signer_secrets E (''master'' @ seed) number_of_signer_keys model
                 else pret []) (\<lambda>master_keys.
            let master_secrets = map kp_secret master_keys;
                public_master_keys = map kp_publicKey master_keys;
                json_parameters = (if circuit_type = KEY_ROTATION_CIRCUIT
                  then dict_put ''mastersPublicKeys'' (PList public_master_keys) json_parameters else json_parameters)
            in pbind (if circuit_type = NO_KEY_ROTATION_CIRCUIT
                      then launch_bootstrap_tool E ''generateCertProofInfo'' (PDict json_parameters) model
                      else launch_bootstrap_tool E ''generateCertWithKeyRotationProofInfo'' (PDict json_parameters) model) (\<lambda>out.
                 plift (rbind (py_get out ''threshold'') (\<lambda>threshold.
                   rbind (py_get out ''verificationKey'') (\<lambda>verification_key.
                     rbind (py_get out ''genSysConstant'') (\<lambda>gen_sys_constant.
                       Inr \<lparr>cp_threshold = threshold, cp_genSysConstant = gen_sys_constant,
                         cp_verificationKey = verification_key, cp_schnorr_signers_secrets = signer_secrets,
                         cp_public_signing_keys = public_signing_keys, cp_schnorr_masters_secrets = master_secrets,
                         cp_public_master_keys = public_master_keys\<rparr>)))))))"

definition get_known_peers :: "'w env \<Rightarrow> int list \<Rightarrow> ('w, string) prog" where
  "get_known_peers E known_peers_indexes = pget (\<lambda>s.
     ''['' @ py_join '','' (map (\<lambda>index. [CHR 0x22] @ (''127.0.0.1:'' @ str_int (sc_p2p_port E s index)) @ [CHR 0x22]) known_peers_indexes)
     @ '']'')"

definition generate_csw_proof_info :: "'w env \<Rightarrow> int \<Rightarrow> proof_keys_paths \<Rightarrow> string \<Rightarrow> ('w, pyval) prog" where
  "generate_csw_proof_info E withdrawal_epoch_len keys_paths model =
     pbind (launch_bootstrap_tool E ''generateCswProofInfo'' (PDict
         [(''withdrawalEpochLen'', PInt withdrawal_epoch_len),
          (''provingKeyPath'', PStr (pk_proving_key_path keys_paths)),
          (''verificationKeyPath'', PStr (pk_verification_key_path keys_paths))]) model)
       (\<lambda>out. plift (py_get out ''verificationKey''))"

definition calculateApiKeyHash :: "'w env \<Rightarrow> string \<Rightarrow> string \<Rightarrow> ('w, pyval) prog" where
  "calculateApiKeyHash E auth_api_key model =
     pbind (launch_bootstrap_tool E ''encodeString'' (PDict [(''string'', PStr auth_api_key)]) model)
       (\<lambda>out. plift (py_get out ''encodedString''))"

text \<open>
  The files with the proving and verification keys. A circuit type that is neither of the two is not
  refused by the \<^verbatim>\<open>assert\<close> of a non-empty string, and the file names are then unbound.
\<close>

definition key_file_names :: "bool \<Rightarrow> string \<Rightarrow> (string \<times> string) res" where
  "key_file_names isCSWEnabled circuit_type =
     (if circuit_type = NO_KEY_ROTATION_CIRCUIT then
        if isCSWEnabled then Inr (''cert_marlin_snark_pk'', ''cert_marlin_snark_vk'')
        else Inr (''cert_marlin_snark_pk_csw_disabled'', ''cert_marlin_snark_vk_csw_disabled'')
      else if circuit_type = KEY_ROTATION_CIRCUIT then
        rbind (assert_false isCSWEnabled []) (\<lambda>_.
          Inr (''cert_marlin_snark_pk_with_key_rotation'', ''cert_marlin_snark_vk_with_key_rotation''))
      else rerr UnboundLocalError ''pk'' [])"

definition slashes :: "string \<Rightarrow> string" where
  "slashes p = py_replace [CHR 0x5C] ''/'' p"

definition cert_proof_keys_paths :: "string \<Rightarrow> int \<Rightarrow> bool \<Rightarrow> string \<Rightarrow> proof_keys_paths res" where
  "cert_proof_keys_paths dirname cert_threshold_sig_max_keys isCSWEnabled circuit_type =
     rbind (key_file_names isCSWEnabled circuit_type) (\<lambda>(pk, vk).
       Inr \<lparr>pk_proving_key_path = slashes (path_join dirname (pk @ str_int cert_threshold_sig_max_keys)),
            pk_verification_key_path = slashes (path_join dirname (vk @ str_int cert_threshold_sig_max_keys))\<rparr>)"

definition csw_proof_keys_paths :: "string \<Rightarrow> int \<Rightarrow> proof_keys_paths" where
  "csw_proof_keys_paths dirname withdrawal_epoch_length =
     \<lparr>pk_proving_key_path = slashes (path_join dirname (''csw_marlin_snark_pk_'' @ str_int withdrawal_epoch_length)),
      pk_verification_key_path = slashes (path_join dirname (''csw_marlin_snark_vk_'' @ str_int withdrawal_epoch_length))\<rparr>"

section \<open>The data directory of a node\<close>

text \<open>Concatenation of several operands with \<open>+\<close>, from the left.\<close>

fun py_concats :: "pyval \<Rightarrow> pyval list \<Rightarrow> pyval res" where
  "py_concats a [] = Inr a"
| "py_concats a (b # bs) = rbind (py_concat a b) (\<lambda>c. py_concats c bs)"

definition genesis_secrets_of :: "sc_bootstrap_info \<Rightarrow> sc_node_configuration \<Rightarrow> pyval list" where
  "genesis_secrets_of bootstrap_info sc_node_config =
     (case bi_genesis_vrf_account bootstrap_info of None \<Rightarrow> [] | Some a \<Rightarrow> [kp_secret a])
     @ (case bi_genesis_account bootstrap_info of None \<Rightarrow> [] | Some a \<Rightarrow> [kp_secret a])
     @ (case bi_genesis_evm_account bootstrap_info of None \<Rightarrow> [] | Some a \<Rightarrow> [ak_secret a])
     @ (case bi_genesis_account bootstrap_info of None \<Rightarrow> [] | Some a \<Rightarrow> nc_initial_private_keys sc_node_config)"

text \<open>The genesis forger joins the allowed forgers of a node that restricts them.\<close>

definition allow_genesis_forger :: "sc_bootstrap_info \<Rightarrow> sc_node_configuration \<Rightarrow> sc_node_configuration res" where
  "allow_genesis_forger bootstrap_info sc_node_config =
     (let opts = nc_forger_options sc_node_config in
      if \<not> fo_restrict_forgers opts then Inr sc_node_config
      else (case (bi_genesis_vrf_account bootstrap_info, bi_genesis_account bootstrap_info) of
          (Some vrf, Some account) \<Rightarrow>
            rbind (py_concats (PStr (''{ blockSignProposition = '' @ [CHR 0x22]))
                [kp_publicKey account, PStr ([CHR 0x22] @ '' NEW_LINE vrfPublicKey = '' @ [CHR 0x22]),
                 kp_publicKey vrf, PStr ([CHR 0x22] @ '' }'')]) (\<lambda>entry.
              Inr (sc_node_config\<lparr>nc_forger_options := opts\<lparr>fo_allowed_forgers := fo_allowed_forgers opts @ [py_str entry]\<rparr>\<rparr>))
        | _ \<Rightarrow> Inr sc_node_config))"

abbreviation true_false :: "bool \<Rightarrow> pyval" where
  "true_false b \<equiv> PStr (if b then ''true'' else ''false'')"

definition sc_config_dict ::
  "'w env \<Rightarrow> 'w world \<Rightarrow> string \<Rightarrow> int \<Rightarrow> string \<Rightarrow> sc_bootstrap_info \<Rightarrow> sc_node_configuration \<Rightarrow> log_info \<Rightarrow> int
    \<Rightarrow> pyval \<Rightarrow> pyval list \<Rightarrow> pyval list \<Rightarrow> (string \<times> pyval) list res" where
  "sc_config_dict E s dirname n model bootstrap_info sc_node_config log_info rest_api_timeout api_key_hash
      genesis_secrets signer_private_keys =
     (let websocket_config = nc_mc_connection_info sc_node_config;
          proof_info = bi_certificate_proof_info bootstrap_info;
          max_modifiers_spec_message_size =
            (if model = AccountModel then DEFAULT_ACCOUNT_MODEL_MAX_PACKET_SIZE else DEFAULT_MAX_PACKET_SIZE)
      in rbind (json_dumps (PList (nc_known_peers sc_node_config))) (\<lambda>known_peers.
         rbind (json_dumps (PStr (nc_storage_backup_interval sc_node_config))) (\<lambda>storage_backup_interval.
         rbind (json_dumps (PStr (nc_storage_backup_delay sc_node_config))) (\<lambda>storage_backup_delay.
         rbind (json_dumps (PBool (nc_allow_unprotected_txs sc_node_config))) (\<lambda>allow_unprotected_txs.
         rbind (json_dumps (PList genesis_secrets)) (\<lambda>genesis_secrets_json.
         rbind (json_dumps (PList (cp_public_signing_keys proof_info))) (\<lambda>signer_public_key.
         rbind (json_dumps (PList signer_private_keys)) (\<lambda>signer_private_key.
         rbind (json_dumps (PList (cp_public_master_keys proof_info))) (\<lambda>master_public_key.
         rbind (if nc_remote_keys_manager_enabled sc_node_config
                then (case nc_remote_keys_server_address sc_node_config of
                    None \<Rightarrow> rerr AttributeError ''remote_keys_server_address'' [] | Some a \<Rightarrow> Inr a)
                else Inr (PStr [])) (\<lambda>remote_server_address.
           Inr [(''NODE_NUMBER'', PInt n),
             (''DIRECTORY'', PStr dirname),
             (''LOG_FILE_LEVEL'', PStr (logFileLevel log_info)),
             (''LOG_CONSOLE_LEVEL'', PStr (logConsoleLevel log_info)),
             (''WALLET_SEED'', PStr (''sidechain_seed_'' @ str_int n)),
             (''API_ADDRESS'', PStr ''127.0.0.1''),
             (''API_PORT'', PStr (str_int (sc_rpc_port E s n))),
             (''API_KEY_HASH'', PStr (if \<not> py_eq api_key_hash (PStr [])
                then ''apiKeyHash = '' @ [CHR 0x22] @ py_str api_key_hash @ [CHR 0x22] else [CHR 0x0D])),
             (''API_TIMEOUT'', PStr (str_int rest_api_timeout @ ''s'')),
             (''BIND_PORT'', PStr (str_int (sc_p2p_port E s n))),
             (''MAX_INCOMING_CONNECTIONS'', PInt (nc_max_incoming_connections sc_node_config)),
             (''MAX_OUTGOING_CONNECTIONS'', PInt (nc_max_outgoing_connections sc_node_config)),
             (''GET_PEERS_INTERVAL'', PStr (nc_get_peers_interval sc_node_config)),
             (''DECLARED_ADDRESS'', PStr (case nc_declared_address sc_node_config of None \<Rightarrow> []
                | Some a \<Rightarrow> ''declaredAddress = '' @ [CHR 0x22] @ a @ [CHR 0x22])),
             (''KNOWN_PEERS'', PStr known_peers),
             (''STORAGE_BACKUP_INTERVAL'', PStr storage_backup_interval),
             (''STORAGE_BACKUP_DELAY'', PStr storage_backup_delay),
             (''ALLOW_UNPROTECTED_TXS'', PStr allow_unprotected_txs),
             (''OFFLINE_GENERATION'', PStr ''false''),
             (''GENESIS_SECRETS'', PStr genesis_secrets_json),
             (''MAX_TX_FEE'', PInt (nc_max_fee sc_node_config)),
             (''MEMPOOL_MAX_SIZE'', PInt (nc_mempool_max_size sc_node_config)),
             (''MEMPOOL_MIN_FEE_RATE'', PInt (nc_mempool_min_fee_rate sc_node_config)),
             (''SIDECHAIN_ID'', bi_sidechain_id bootstrap_info),
             (''GENESIS_DATA'', bi_sidechain_genesis_block_hex bootstrap_info),
             (''POW_DATA'', bi_pow_data bootstrap_info),
             (''BLOCK_HEIGHT'', bi_mainchain_block_height bootstrap_info),
             (''NETWORK'', bi_network bootstrap_info),
             (''NON_CEASING'', true_false (bi_is_non_ceasing bootstrap_info)),
             (''WITHDRAWAL_EPOCH_LENGTH'', PInt (bi_withdrawal_epoch_length bootstrap_info)),
             (''INITIAL_COMM_TREE_CUMULATIVE_HASH'', bi_initial_cumulative_comm_tree_hash bootstrap_info),
             (''WEBSOCKET_ADDRESS'', PStr (conn_address websocket_config)),
             (''CONNECTION_TIMEOUT'', PInt (conn_timeout websocket_config)),
             (''RECONNECTION_DELAY'', PInt (conn_reconnectionDelay websocket_config)),
             (''RECONNECTION_MAX_ATTEMPTS'', PInt (conn_reconnectionMaxAttempts websocket_config)),
             (''WEBSOCKET_SERVER_ENABLED'', true_false (nc_websocket_server_enabled sc_node_config)),
             (''WEBSOCKET_SERVER_PORT'', PInt (nc_websocket_server_port sc_node_config)),
             (''THRESHOLD'', cp_threshold proof_info),
             (''SUBMITTER_CERTIFICATE'', true_false (nc_cert_submitter_enabled sc_node_config)),
             (''CERTIFICATE_SIGNING'', true_false (nc_cert_signing_enabled sc_node_config)),
             (''SIGNER_PUBLIC_KEY'', PStr signer_public_key),
             (''SIGNER_PRIVATE_KEY'', PStr signer_private_key),
             (''MASTER_PUBLIC_KEY'', PStr master_public_key),
             (''MAX_PKS'', PInt (int (length (cp_public_signing_keys proof_info)))),
             (''CERT_PROVING_KEY_PATH'', PStr (pk_proving_key_path (bi_cert_keys_paths bootstrap_info))),
             (''CERT_VERIFICATION_KEY_PATH'', PStr (pk_verification_key_path (bi_cert_keys_paths bootstrap_info))),
             (''AUTOMATIC_FEE_COMPUTATION'', true_false (nc_automatic_fee_computation sc_node_config)),
             (''CERTIFICATE_FEE'', nc_certificate_fee sc_node_config),
             (''CSW_PROVING_KEY_PATH'', PStr (case bi_csw_keys_paths bootstrap_info of None \<Rightarrow> [] | Some p \<Rightarrow> pk_proving_key_path p)),
             (''CSW_VERIFICATION_KEY_PATH'', PStr (case bi_csw_keys_paths bootstrap_info of None \<Rightarrow> [] | Some p \<Rightarrow> pk_verification_key_path p)),
             (''RESTRICT_FORGERS'', true_false (fo_restrict_forgers (nc_forger_options sc_node_config))),
             (''ALLOWED_FORGERS_LIST'', PList (map PStr (fo_allowed_forgers (nc_forger_options sc_node_config)))),
             (''MAX_MODIFIERS_SPEC_MESSAGE_SIZE'', PInt max_modifiers_spec_message_size),
             (''CIRCUIT_TYPE'', PStr (bi_circuit_type bootstrap_info)),
             (''REMOTE_KEY_MANAGER_ENABLED'', true_false (nc_remote_keys_manager_enabled sc_node_config)),
             (''REMOTE_SERVER_ADDRESS'', remote_server_address),
             (''MAX_NONCE_GAP'', PInt (nc_max_nonce_gap sc_node_config)),
             (''MAX_ACCOUNT_SLOTS'', PInt (nc_max_account_slots sc_node_config)),
             (''MAX_MEMPOOL_SLOTS'', PInt (nc_max_mempool_slots sc_node_config)),
             (''MAX_NONEXEC_SLOTS'', PInt (nc_max_nonexec_pool_slots sc_node_config)),
             (''TX_LIFETIME'', PInt (nc_tx_lifetime sc_node_config)),
             (''HANDLING_TXS_ENABLED'', true_false (nc_handling_txs_enabled sc_node_config)),
             (''FORGER_REWARD_ADDRESS'', PStr (fo_forger_reward_address (nc_forger_options sc_node_config))),
             (''EVM_STATE_DUMP_ENABLED'', true_false (nc_evm_state_dump_enabled sc_node_config))]))))))))))"

definition finish_config :: "string \<Rightarrow> string" where
  "finish_config config = py_replace ''NEW_LINE'' [CHR 0x0A] (py_replace [CHR 0x27] [] config)"

definition node_url_entry :: "'w env \<Rightarrow> 'w world \<Rightarrow> int \<Rightarrow> pyval" where
  "node_url_entry E s n = PDict [(''name'', PStr (''node'' @ str_int n)),
     (''url'', PStr (''http://127.0.0.1:'' @ str_int (sc_rpc_port E s n)))]"

definition make_node_dir :: "'w env \<Rightarrow> string \<Rightarrow> ('w, unit) prog" where
  "make_node_dir E datadir = pbind (py_isdir E datadir) (\<lambda>b. if b then pret () else py_makedirs E datadir)"

definition template_file :: "'w env \<Rightarrow> int \<Rightarrow> ('w, string) prog" where
  "template_file E n =
     (let customFileName = get_resources_dir E @ ''/template_'' @ str_int (n + 1) @ ''.conf''
      in pbind (py_isfile E customFileName) (\<lambda>b.
           pret (if b then customFileName else get_resources_dir E @ ''/template.conf'')))"

definition write_node_config :: "'w env \<Rightarrow> string \<Rightarrow> int \<Rightarrow> string \<Rightarrow> ('w, pyval list) prog" where
  "write_node_config E datadir n config =
     pbind (pget (\<lambda>s. node_url_entry E s n)) (\<lambda>entry.
       pseq (py_write E (path_join datadir (''node'' @ str_int n @ ''.conf'')) config) (pret [entry]))"

definition initialize_sc_datadir ::
  "'w env \<Rightarrow> string \<Rightarrow> int \<Rightarrow> string \<Rightarrow> sc_bootstrap_info \<Rightarrow> sc_node_configuration \<Rightarrow> log_info \<Rightarrow> int
    \<Rightarrow> ('w, pyval list \<times> sc_node_configuration) prog" where
  "initialize_sc_datadir E dirname n model bootstrap_info sc_node_config log_info rest_api_timeout =
     (let datadir = path_join dirname (''sc_node'' @ str_int n)
      in pseq (make_node_dir E datadir) (pbind (template_file E n) (\<lambda>fileToOpen.
         pbind (pext (e_read E fileToOpen)) (\<lambda>tmpConfig.
         pbind (plift (rmap (list_get (cp_schnorr_signers_secrets (bi_certificate_proof_info bootstrap_info)))
             (nc_submitter_private_keys_indexes sc_node_config))) (\<lambda>signer_private_keys.
         pbind (if nc_api_key sc_node_config \<noteq> [] then calculateApiKeyHash E (nc_api_key sc_node_config) model
                else pret (PStr [])) (\<lambda>api_key_hash.
         pbind (plift (allow_genesis_forger bootstrap_info sc_node_config)) (\<lambda>sc_node_config.
         pbind (pget (\<lambda>s. sc_config_dict E s dirname n model bootstrap_info sc_node_config log_info rest_api_timeout api_key_hash
             (genesis_secrets_of bootstrap_info sc_node_config) signer_private_keys)) (\<lambda>values.
         pbind (plift (rbind values (\<lambda>d. pct_format d tmpConfig))) (\<lambda>config.
         pbind (write_node_config E datadir n (finish_config config)) (\<lambda>configsData.
           pret (configsData, sc_node_config)))))))))))"

definition default_config_dict ::
  "'w env \<Rightarrow> 'w world \<Rightarrow> string \<Rightarrow> int \<Rightarrow> proof_keys_paths \<Rightarrow> proof_keys_paths \<Rightarrow> (string \<times> pyval) list" where
  "default_config_dict E s dirname n cert_keys_paths csw_keys_paths =
     [(''NODE_NUMBER'', PInt n),
      (''DIRECTORY'', PStr dirname),
      (''WALLET_SEED'', PStr (''sidechain_seed_'' @ str_int n)),
      (''API_ADDRESS'', PStr ''127.0.0.1''),
      (''API_PORT'', PStr (str_int (sc_rpc_port E s n))),
      (''API_TIMEOUT'', PStr ''5s''),
      (''BIND_PORT'', PStr (str_int (sc_p2p_port E s n))),
      (''MAX_INCOMING_CONNECTIONS'', PInt 100),
      (''MAX_OUTGOING_CONNECTIONS'', PInt 100),
      (''KNOWN_PEERS'', PList []),
      (''STORAGE_BACKUP_INTERVAL'', PStr ''15m''),
      (''STORAGE_BACKUP_DELAY'', PStr ''5m''),
      (''ALLOW_UNPROTECTED_TXS'', PStr ''true''),
      (''GET_PEERS_INTERVAL'', PStr ''2m''),
      (''OFFLINE_GENERATION'', PStr ''false''),
      (''SUBMITTER_CERTIFICATE'', PStr ''false''),
      (''CERTIFICATE_SIGNING'', PStr ''false''),
      (''CERT_PROVING_KEY_PATH'', PStr (pk_proving_key_path cert_keys_paths)),
      (''CERT_VERIFICATION_KEY_PATH'', PStr (pk_verification_key_path cert_keys_paths)),
      (''CSW_PROVING_KEY_PATH'', PStr (pk_proving_key_path csw_keys_paths)),
      (''CSW_VERIFICATION_KEY_PATH'', PStr (pk_verification_key_path csw_keys_paths)),
      (''RESTRICT_FORGERS'', PStr ''false''),
      (''ALLOWED_FORGERS_LIST'', PList []),
      (''MAX_MODIFIERS_SPEC_MESSAGE_SIZE'', PInt DEFAULT_MAX_PACKET_SIZE),
      (''REMOTE_KEY_MANAGER_ENABLED'', PStr ''false''),
      (''REMOTE_SERVER_ADDRESS'', PStr [])]"

definition make_ps_keys_dir :: "'w env \<Rightarrow> ('w, string) prog" where
  "make_ps_keys_dir E = (let ps_keys_dir = sdk_dir E @ ''/qa/ps_keys''
     in pseq (make_node_dir E ps_keys_dir) (pret ps_keys_dir))"

definition initialize_default_sc_datadir :: "'w env \<Rightarrow> string \<Rightarrow> int \<Rightarrow> string \<Rightarrow> ('w, pyval list) prog" where
  "initialize_default_sc_datadir E dirname n api_key =
     (let datadir = path_join dirname (''sc_node'' @ str_int n)
      in pseq (make_node_dir E datadir) (pbind (make_ps_keys_dir E) (\<lambda>ps_keys_dir.
         pbind (plift (cert_proof_keys_paths ps_keys_dir 7 False NO_KEY_ROTATION_CIRCUIT)) (\<lambda>cert_keys_paths.
         let csw_keys_paths = csw_proof_keys_paths ps_keys_dir LARGE_WITHDRAWAL_EPOCH_LENGTH
         in pbind (pext (e_read E (get_resources_dir E @ ''/template_predefined_genesis.conf''))) (\<lambda>tmpConfig.
            pbind (pget (\<lambda>s. default_config_dict E s dirname n cert_keys_paths csw_keys_paths)) (\<lambda>d.
            pbind (plift (pct_format d tmpConfig)) (\<lambda>config. write_node_config E datadir n config)))))))"

definition initialize_default_sc_chain_clean :: "'w env \<Rightarrow> string \<Rightarrow> int \<Rightarrow> string \<Rightarrow> ('w, unit) prog" where
  "initialize_default_sc_chain_clean E test_dir num_nodes api_key =
     piter (\<lambda>i. pseq (initialize_default_sc_datadir E test_dir i api_key) (pret ())) (py_range num_nodes)"

definition get_websocket_configuration :: "int \<Rightarrow> mc_connection_info list \<Rightarrow> mc_connection_info res" where
  "get_websocket_configuration index array_of_MCConnectionInfo =
     (if index < int (length array_of_MCConnectionInfo) then list_get array_of_MCConnectionInfo index
      else Inr default_MCConnectionInfo)"

section \<open>The network\<close>

record run_options =
  op_tmpdir :: string
  op_logfilelevel :: string
  op_logconsolelevel :: string
  op_restapitimeout :: int

definition bootstrap_sidechain_node ::
  "'w env \<Rightarrow> string \<Rightarrow> int \<Rightarrow> sc_bootstrap_info \<Rightarrow> sc_node_configuration \<Rightarrow> string \<Rightarrow> log_info \<Rightarrow> int \<Rightarrow> ('w, unit) prog" where
  "bootstrap_sidechain_node E dirname n bootstrap_info sc_node_configuration model log_info rest_api_timeout =
     pseq (initialize_sc_datadir E dirname n model bootstrap_info sc_node_configuration log_info rest_api_timeout) (pret ())"

definition create_sidechain ::
  "'w env \<Rightarrow> sc_creation_info \<Rightarrow> pyval \<Rightarrow> proof_keys_paths \<Rightarrow> proof_keys_paths option \<Rightarrow> string \<Rightarrow> ('w, sc_bootstrap_info) prog" where
  "create_sidechain E sc_creation_info block_timestamp_rewind cert_keys_paths csw_keys_paths model =
     pbind (generate_secrets E ''seed'' 1 model) (\<lambda>accounts.
     pbind (generate_vrf_secrets E ''seed'' 1 model) (\<lambda>vrf_keys.
     pbind (plift (list_get accounts 0)) (\<lambda>genesis_account.
     pbind (plift (list_get vrf_keys 0)) (\<lambda>vrf_key.
     let withdrawal_epoch_length = (if ci_non_ceasing sc_creation_info then 0 else ci_withdrawal_epoch_length sc_creation_info);
         virtual_withdrawal_epoch_length = (if ci_non_ceasing sc_creation_info then ci_withdrawal_epoch_length sc_creation_info else 0)
     in pbind (generate_certificate_proof_info E ''seed'' (ci_cert_max_keys sc_creation_info)
                 (ci_cert_sig_threshold sc_creation_info) cert_keys_paths (ci_csw_enabled sc_creation_info)
                 (ci_circuit_type sc_creation_info) model) (\<lambda>certificate_proof_info.
        pbind (case csw_keys_paths of None \<Rightarrow> pret (PStr [])
               | Some p \<Rightarrow> generate_csw_proof_info E (ci_withdrawal_epoch_length sc_creation_info) p model) (\<lambda>csw_verification_key.
        pbind (if model = AccountModel
               then pbind (generate_account_proposition E ''seed'' 1 model) (\<lambda>evm_accounts.
                 pbind (plift (list_get evm_accounts 0)) (\<lambda>a. pret (Some a)))
               else pret None) (\<lambda>genesis_evm_account.
        pbind (initialize_new_sidechain_in_mainchain E (ci_mc_node sc_creation_info) withdrawal_epoch_length
                 (kp_publicKey genesis_account) (ci_forward_amount sc_creation_info) (kp_publicKey vrf_key)
                 (cp_genSysConstant certificate_proof_info) (cp_verificationKey certificate_proof_info) csw_verification_key
                 (ci_btr_data_length sc_creation_info) (ci_sc_creation_version sc_creation_info) (ci_csw_enabled sc_creation_info)
                 (ci_circuit_type sc_creation_info) (map_option ak_proposition genesis_evm_account))
          (\<lambda>(info, height, sidechain_id).
        pbind (generate_genesis_data E info (kp_secret genesis_account) (kp_secret vrf_key) block_timestamp_rewind model
                 virtual_withdrawal_epoch_length) (\<lambda>genesis_data.
          plift (rbind (py_get genesis_data ''scGenesisBlockHex'') (\<lambda>block_hex.
            rbind (py_get genesis_data ''powData'') (\<lambda>pow_data.
            rbind (py_get genesis_data ''mcNetwork'') (\<lambda>network.
            rbind (py_get genesis_data ''initialCumulativeCommTreeHash'') (\<lambda>comm_tree_hash.
              Inr \<lparr>bi_sidechain_id = sidechain_id, bi_genesis_account = Some genesis_account,
                bi_genesis_account_balance = ci_forward_amount sc_creation_info, bi_mainchain_block_height = height,
                bi_sidechain_genesis_block_hex = block_hex, bi_pow_data = pow_data, bi_network = network,
                bi_withdrawal_epoch_length = ci_withdrawal_epoch_length sc_creation_info,
                bi_genesis_vrf_account = Some vrf_key, bi_certificate_proof_info = certificate_proof_info,
                bi_initial_cumulative_comm_tree_hash = comm_tree_hash, bi_is_non_ceasing = ci_non_ceasing sc_creation_info,
                bi_cert_keys_paths = cert_keys_paths, bi_csw_keys_paths = csw_keys_paths,
                bi_genesis_evm_account = genesis_evm_account, bi_circuit_type = ci_circuit_type sc_creation_info\<rparr>))))))))))))))"

text \<open>What the nodes other than the first are told.\<close>

definition empty_account_info :: "sc_bootstrap_info \<Rightarrow> proof_keys_paths \<Rightarrow> proof_keys_paths option \<Rightarrow> sc_creation_info \<Rightarrow> sc_bootstrap_info" where
  "empty_account_info info cert_keys_paths csw_keys_paths sc_creation_info =
     info\<lparr>bi_genesis_account := None, bi_cert_keys_paths := cert_keys_paths, bi_csw_keys_paths := csw_keys_paths,
       bi_genesis_evm_account := None, bi_circuit_type := ci_circuit_type sc_creation_info\<rparr>"

definition bootstrap_ith :: "'w env \<Rightarrow> run_options \<Rightarrow> sc_node_configuration list \<Rightarrow> sc_bootstrap_info \<Rightarrow> sc_bootstrap_info \<Rightarrow> string
    \<Rightarrow> log_info \<Rightarrow> int \<Rightarrow> ('w, unit) prog" where
  "bootstrap_ith E options confs info info_empty_account model log_info i =
     pbind (plift (list_get confs i)) (\<lambda>sc_node_conf.
       bootstrap_sidechain_node E (op_tmpdir options) i (if i = 0 then info else info_empty_account) sc_node_conf model log_info
         (op_restapitimeout options))"

definition bootstrap_sidechain_nodes ::
  "'w env \<Rightarrow> run_options \<Rightarrow> sc_network_configuration \<Rightarrow> pyval \<Rightarrow> string \<Rightarrow> ('w, sc_bootstrap_info) prog" where
  "bootstrap_sidechain_nodes E options network block_timestamp_rewind model =
     (let log_info = \<lparr>logFileLevel = op_logfilelevel options, logConsoleLevel = op_logconsolelevel options\<rparr>;
          confs = net_sc_nodes_configuration network;
          creation = net_sc_creation_info network
      in pbind (make_ps_keys_dir E) (\<lambda>ps_keys_dir.
         pbind (plift (cert_proof_keys_paths ps_keys_dir (ci_cert_max_keys creation) (ci_csw_enabled creation) (ci_circuit_type creation)))
           (\<lambda>cert_keys_paths.
         let csw_keys_paths = (if ci_csw_enabled creation
               then Some (csw_proof_keys_paths ps_keys_dir (ci_withdrawal_epoch_length creation)) else None)
         in pbind (create_sidechain E creation block_timestamp_rewind cert_keys_paths csw_keys_paths model) (\<lambda>info.
            pseq (piter (bootstrap_ith E options confs info (empty_account_info info cert_keys_paths csw_keys_paths creation) model log_info)
                   (py_range (int (length confs))))
              (pret info)))))"

section \<open>Lemmas\<close>

lemma json_loads_error: "json_loads t = Inl e \<Longrightarrow> err_kind e = ValueError"
  by (auto simp: json_loads_def json_parse_def rerr_def split: option.splits prod.splits if_splits)

lemma json_value_dumps:
  assumes "json_value v"
  obtains t where "json_dumps v = Inr t" and "json_loads t = Inr v"
proof -
  obtain t where t: "json_dumps v = Inr t" using json_dumps_total [OF assms] by blast
  moreover have "json_loads t = Inr v"
    using json_roundtrip [OF assms] t by simp
  ultimately show ?thesis using that by blast
qed

definition tool_path :: "'w env \<Rightarrow> string \<Rightarrow> string" where
  "tool_path E model = (if model = ''account'' then EVM_BOOTSTRAPPING_TOOL E else UTXO_BOOTSTRAPPING_TOOL E)"

lemma run_json_tool_run:
  "run_json_tool E cmd failure s =
     Some (case fst (e_run E cmd (w_ext s)) of Inl e \<Rightarrow> Inl e
           | Inr x \<Rightarrow> (case json_loads (fst (snd x)) of Inl e \<Rightarrow> Inl (PyErr PlainException failure []) | Inr v \<Rightarrow> Inr v),
       s\<lparr>w_calls := w_calls s @ [RanCmd cmd], w_ext := snd (e_run E cmd (w_ext s))\<rparr>)"
  by (auto simp: run_json_tool_def py_run_def pbind_run ptry_run pact_run dest: json_loads_error split: sum.split)

lemma launch_tool_run:
  assumes "json_dumps params = Inr p" and "launch_bootstrap_tool E cmd params model s = Some (r, t)"
  shows "w_calls t = w_calls s @ [RanCmd [''java'', ''-jar'', tool_path E model, cmd, p]] \<and>
    r = (case fst (e_run E [''java'', ''-jar'', tool_path E model, cmd, p] (w_ext s)) of
           Inl e \<Rightarrow> Inl e
         | Inr x \<Rightarrow> (case json_loads (fst (snd x)) of
             Inl e \<Rightarrow> Inl (PyErr PlainException ''Bootstrap tool error occurred'' []) | Inr v \<Rightarrow> Inr v))"
  using assms(2) unfolding launch_bootstrap_tool_def tool_path_def [symmetric] Let_def
  by (auto simp: assms(1) pbind_run run_json_tool_run)

lemma key_seed_value [simp]: "json_value (key_seed seed i)"
  by (simp add: key_seed_def)

text \<open>The command that generates the key with a given index.\<close>

definition key_command :: "'w env \<Rightarrow> string \<Rightarrow> string \<Rightarrow> string \<Rightarrow> int \<Rightarrow> string list" where
  "key_command E model command_name seed i =
     [''java'', ''-jar'', tool_path E model, command_name, (case json_dumps (key_seed seed i) of Inr p \<Rightarrow> p | Inl e \<Rightarrow> [])]"

lemma key_command_inject: "key_command E model cmd seed i = key_command E model cmd seed j \<longleftrightarrow> i = j"
proof
  assume eq: "key_command E model cmd seed i = key_command E model cmd seed j"
  obtain p where p: "json_dumps (key_seed seed i) = Inr p" "json_loads p = Inr (key_seed seed i)"
    by (rule json_value_dumps [OF key_seed_value])
  obtain q where q: "json_dumps (key_seed seed j) = Inr q" "json_loads q = Inr (key_seed seed j)"
    by (rule json_value_dumps [OF key_seed_value])
  from eq p q have "key_seed seed i = key_seed seed j" by (simp add: key_command_def)
  then show "i = j" by (simp add: key_seed_def)
qed simp

lemma launch_keys_run:
  assumes "pmap (\<lambda>i. launch_bootstrap_tool E cmd (key_seed seed i) model) is s = Some (Inr vs, t)"
  shows "w_calls t = w_calls s @ map (\<lambda>i. RanCmd (key_command E model cmd seed i)) is \<and> length vs = length is"
  using assms
proof (induction "is" arbitrary: s vs)
  case (Cons i "is")
  from Cons.prems obtain v u ws where one: "launch_bootstrap_tool E cmd (key_seed seed i) model s = Some (Inr v, u)"
    and rest: "pmap (\<lambda>i. launch_bootstrap_tool E cmd (key_seed seed i) model) is u = Some (Inr ws, t)" and vs: "vs = v # ws"
    by (auto simp: pbind_Inr_iff)
  obtain p where p: "json_dumps (key_seed seed i) = Inr p" by (rule json_value_dumps [OF key_seed_value])
  have "w_calls u = w_calls s @ [RanCmd (key_command E model cmd seed i)]"
    using launch_tool_run [OF p one] p by (simp add: key_command_def)
  with Cons.IH [OF rest] vs show ?case by simp
qed simp

lemma replace_char_away: "py_replace [c] [] s = filter (\<lambda>x. x \<noteq> c) s"
  by (induction s) auto

lemma replace_prefix: "d \<notin> set q \<Longrightarrow> is_prefix q (py_replace p (d # ds) s) \<Longrightarrow> is_prefix q s"
proof (induction s arbitrary: q)
  case (Cons c cs)
  then show ?case by (cases q) (auto split: if_splits)
qed simp

lemma replace_removes: "p \<noteq> [] \<Longrightarrow> d \<notin> set p \<Longrightarrow> \<not> is_substr p (py_replace p [d] s)"
proof (induction p "[d]" s rule: py_replace.induct)
  case (2 p c cs)
  show ?case
  proof (cases "is_prefix p (c # cs)")
    case True
    with 2 show ?thesis by (cases p) auto
  next
    case False
    have "\<not> is_prefix p (c # py_replace p [d] cs)"
    proof
      assume pre: "is_prefix p (c # py_replace p [d] cs)"
      obtain x xs where p: "p = x # xs" using 2(3) by (cases p) auto
      have "is_prefix xs cs" by (rule replace_prefix [of d xs p "[]" cs]) (use pre p 2(4) in auto)
      with pre p False show False by simp
    qed
    with False 2 show ?thesis by simp
  qed
qed simp

lemma replace_set: "set (py_replace p q s) \<subseteq> set s \<union> set q"
  by (induction p q s rule: py_replace.induct) (auto dest: in_set_dropD)

lemma finish_config_clean: "CHR 0x27 \<notin> set (finish_config c) \<and> \<not> is_substr ''NEW_LINE'' (finish_config c)"
proof
  show "CHR 0x27 \<notin> set (finish_config c)"
    using replace_set [of "''NEW_LINE''" "[CHR 0x0A]" "py_replace [CHR 0x27] [] c"]
    by (auto simp: finish_config_def replace_char_away)
  show "\<not> is_substr ''NEW_LINE'' (finish_config c)"
    unfolding finish_config_def by (rule replace_removes) simp_all
qed

lemma tools_write_no_files [keep_intros]:
  "keeps files_and_group (launch_bootstrap_tool E cmd params model)"
  "keeps files_and_group (generate_cert_signer_secrets E seed n model)"
  by (auto simp: launch_bootstrap_tool_def run_json_tool_def generate_cert_signer_secrets_def launch_key_tool_def Let_def
      intro!: keep_intros)

lemma create_writes_no_files [keep_intros]:
  "keeps files_and_group (create_sidechain E info rewind cert_paths csw_paths model)"
  unfolding create_sidechain_def generate_secrets_def generate_vrf_secrets_def generate_account_proposition_def launch_key_tool_def
    generate_certificate_proof_info_def generate_csw_proof_info_def generate_genesis_data_def
    initialize_new_sidechain_in_mainchain_def Let_def
  by (intro keep_intros)

lemma dirs_write_no_files [keep_intros]:
  "keeps files_and_group (make_node_dir E d)" "keeps files_and_group (make_ps_keys_dir E)" "keeps files_and_group (template_file E n)"
  "keeps files_and_group (calculateApiKeyHash E key model)"
  unfolding make_node_dir_def make_ps_keys_dir_def template_file_def calculateApiKeyHash_def Let_def
  by (intro keep_intros)+

definition conf_path :: "string \<Rightarrow> int \<Rightarrow> string" where
  "conf_path dirname n = path_join (path_join dirname (''sc_node'' @ str_int n)) (''node'' @ str_int n @ ''.conf'')"

lemma datadir_run:
  assumes "initialize_sc_datadir E dirname n model info conf linfo timeout s = Some (Inr (entries, conf'), t)"
  shows "\<exists>c. written (w_calls t) = written (w_calls s) @ [(conf_path dirname n, finish_config c)] \<and>
    entries = [node_url_entry E s n] \<and> sc_parallel_test t = sc_parallel_test s"
proof -
  let ?d = "path_join dirname (''sc_node'' @ str_int n)"
  from assms obtain f a tmpl b x config h u where
    dir: "make_node_dir E ?d s = Some (Inr (), f)" and tfile: "template_file E n f = Some (Inr x, a)"
    and read: "pext (e_read E x) a = Some (Inr tmpl, b)" and
    key: "(if nc_api_key conf \<noteq> [] then calculateApiKeyHash E (nc_api_key conf) model else pret (PStr [])) b = Some (Inr h, u)"
    and out: "write_node_config E ?d n (finish_config config) u = Some (Inr entries, t)"
    by (auto simp: initialize_sc_datadir_def Let_def pbind_Inr_iff simp del: if_run)
  have keep: "keeps files_and_group (if nc_api_key conf \<noteq> [] then calculateApiKeyHash E (nc_api_key conf) model else pret (PStr []))"
    by (intro keep_intros)
  have "files_and_group u = files_and_group s"
    using keepsD [OF dirs_write_no_files(1) dir] keepsD [OF dirs_write_no_files(3) tfile] keepsD [OF files_and_group_calls(7) read]
      keepsD [OF keep key] by simp
  with out show ?thesis
    by (auto simp: write_node_config_def pbind_run py_write_def pact_run conf_path_def node_url_entry_def sc_rpc_port_def
        sc_start_port_modifier_def split: sum.splits)
qed

lemma bootstrap_range_run:
  assumes "piter (bootstrap_ith E options confs info info' model linfo) is s = Some (Inr (), t)"
  shows "\<exists>cs. length cs = length is \<and> written (w_calls t) = written (w_calls s)
    @ zip (map (conf_path (op_tmpdir options)) is) (map finish_config cs)"
  using assms
proof (induction "is" arbitrary: s)
  case (Cons i "is")
  from Cons.prems obtain u where one: "bootstrap_ith E options confs info info' model linfo i s = Some (Inr (), u)"
    and rest: "piter (bootstrap_ith E options confs info info' model linfo) is u = Some (Inr (), t)" by (auto simp: pbind_Inr_iff)
  from one obtain b conf e conf' where "initialize_sc_datadir E (op_tmpdir options) i model b conf linfo (op_restapitimeout options) s
      = Some (Inr (e, conf'), u)"
    by (fastforce simp: bootstrap_ith_def bootstrap_sidechain_node_def pbind_Inr_iff)
  from datadir_run [OF this] obtain c where
    "written (w_calls u) = written (w_calls s) @ [(conf_path (op_tmpdir options) i, finish_config c)]" by blast
  moreover from Cons.IH [OF rest] obtain cs where "length cs = length is" "written (w_calls t) = written (w_calls u)
    @ zip (map (conf_path (op_tmpdir options)) is) (map finish_config cs)" by blast
  ultimately show ?case by (intro exI [of _ "c # cs"]) simp
qed simp

text \<open>An environment whose tools print one fixed answer.\<close>

definition tool_answer :: pyval where
  "tool_answer = PDict [(''secret'', PStr ''s''), (''publicKey'', PStr ''p''), (''vrfSecret'', PStr ''v''), (''vrfPublicKey'', PStr ''w''),
     (''threshold'', PInt 5), (''verificationKey'', PStr ''k''), (''genSysConstant'', PStr ''c''), (''encodedString'', PStr ''h''),
     (''scGenesisBlockHex'', PStr ''b''), (''powData'', PStr ''d''), (''mcNetwork'', PStr ''regtest''),
     (''initialCumulativeCommTreeHash'', PStr ''i'')]"

definition tool_env :: "sample env" where
  "tool_env = sample_env\<lparr>e_run := \<lambda>c w. (Inr (0, (case json_dumps tool_answer of Inr t \<Rightarrow> t | Inl e \<Rightarrow> []), []), w)\<rparr>"

lemma tool_env_simps [simp]:
  "e_mc_api tool_env mn m a = next_response" "e_getenv tool_env v = None" "e_isdir tool_env p w = False" "e_isfile tool_env p w = True"
  "e_makedirs tool_env p w = (Inr (), w)" "e_read tool_env p w = (Inr [], w)" "e_write tool_env p c w = (Inr (), w)"
  by (simp_all add: tool_env_def)

lemma tool_answer_loads: "json_loads (case json_dumps tool_answer of Inr t \<Rightarrow> t | Inl e \<Rightarrow> []) = Inr tool_answer"
  using json_value_dumps [of tool_answer] by (auto simp: tool_answer_def)

lemma tool_env_launch:
  assumes "json_value params"
  shows "launch_bootstrap_tool tool_env cmd params model s = Some (Inr tool_answer, s\<lparr>w_calls := w_calls s
      @ [RanCmd [''java'', ''-jar'', tool_path tool_env model, cmd, (case json_dumps params of Inr t \<Rightarrow> t | Inl e \<Rightarrow> [])]]\<rparr>)"
proof -
  obtain p where p: "json_dumps params = Inr p" by (rule json_value_dumps [OF assms])
  show ?thesis
    unfolding launch_bootstrap_tool_def tool_path_def [symmetric] Let_def
    using tool_answer_loads by (simp add: pbind_run p run_json_tool_run tool_env_def)
qed

section \<open>Properties\<close>

text \<open>The bootstrapping tool receives the parameters it is launched with: one process is run, with
  the JSON text of the parameters as its last argument, which reads back as the parameters. The
  result is the JSON value the tool prints; output that is no JSON raises \<open>Exception\<close> and never
  the parser's \<open>ValueError\<close>.\<close>
theorem bootstrap_tool_parameters:
  assumes "json_value params" and "launch_bootstrap_tool E cmd params model s = Some (r, t)"
  shows "\<exists>p tool. json_loads p = Inr params \<and>
    tool = [''java'', ''-jar'', if model = ''account'' then EVM_BOOTSTRAPPING_TOOL E else UTXO_BOOTSTRAPPING_TOOL E, cmd, p] \<and>
    w_calls t = w_calls s @ [RanCmd tool] \<and>
    r = (case fst (e_run E tool (w_ext s)) of Inl e \<Rightarrow> Inl e
         | Inr x \<Rightarrow> (case json_loads (fst (snd x)) of
             Inl e \<Rightarrow> Inl (PyErr PlainException ''Bootstrap tool error occurred'' []) | Inr v \<Rightarrow> Inr v))"
proof -
  obtain p where p: "json_dumps params = Inr p" "json_loads p = Inr params" by (rule json_value_dumps [OF assms(1)])
  from launch_tool_run [OF p(1) assms(2)] p(2) show ?thesis
    by (intro exI [of _ p]) (simp add: tool_path_def)
qed

theorem bootstrap_tool_parameters_witness:
  "\<exists>p (t :: sample world). json_loads p = Inr (key_seed ''seed'' 0) \<and>
     launch_bootstrap_tool tool_env ''generatekey'' (key_seed ''seed'' 0) ''utxo'' (sample_world 0 0 []) = Some (Inr tool_answer, t) \<and>
     w_calls t = [RanCmd [''java'', ''-jar'', UTXO_BOOTSTRAPPING_TOOL tool_env, ''generatekey'', p]]"
proof -
  obtain t where run: "launch_bootstrap_tool tool_env ''generatekey'' (key_seed ''seed'' 0) ''utxo'' (sample_world 0 0 []) = Some (Inr tool_answer, t)"
    by (simp add: tool_env_launch)
  from bootstrap_tool_parameters [OF key_seed_value run] run show ?thesis by (auto simp: sample_world_def)
qed

text \<open>\<open>generate_secrets\<close> returns as many accounts as asked for, generated from pairwise different
  seeds: the tool is run once per account and no two of the commands are the same.\<close>
theorem generate_secrets_distinct_seeds:
  assumes "generate_secrets E seed number_of_accounts model s = Some (Inr accounts, t)"
  shows "length accounts = nat number_of_accounts \<and>
    (\<exists>cmds. w_calls t = w_calls s @ map RanCmd cmds \<and> length cmds = length accounts \<and> distinct cmds)"
proof -
  from assms obtain secrets where "launch_key_tool E ''generatekey'' seed number_of_accounts model s = Some (Inr secrets, t)"
    and "rmap (\<lambda>secret. rbind (key_of ''secret'' ''publicKey'' secret) (\<lambda>k. Inr (mk_key_pair k))) secrets = Inr accounts"
    by (auto simp: generate_secrets_def pbind_Inr_iff)
  with launch_keys_run [of E "''generatekey''" seed model "py_range number_of_accounts" s secrets t]
  have "w_calls t = w_calls s @ map RanCmd (map (key_command E model ''generatekey'' seed) (py_range number_of_accounts))"
    and "length accounts = length (py_range number_of_accounts)"
    by (simp_all add: launch_key_tool_def rmap_length o_def)
  moreover have "distinct (map (key_command E model ''generatekey'' seed) (py_range number_of_accounts))"
    by (auto simp: distinct_map inj_on_def key_command_inject py_range_def)
  ultimately show ?thesis
    by (intro conjI exI [of _ "map (key_command E model ''generatekey'' seed) (py_range number_of_accounts)"]) (simp_all add: py_range_def)
qed

theorem generate_secrets_distinct_seeds_witness:
  "\<exists>accounts (t :: sample world). generate_secrets tool_env ''seed'' 2 ''utxo'' (sample_world 0 0 []) = Some (Inr accounts, t) \<and>
     length accounts = 2 \<and> length (w_calls t) = 2"
proof -
  have r: "[0..1::int] = [0, 1]" by (simp add: upto.simps)
  obtain accounts t where run: "generate_secrets tool_env ''seed'' 2 ''utxo'' (sample_world 0 0 []) = Some (Inr accounts, t)"
    by (simp add: generate_secrets_def launch_key_tool_def py_range_def r pbind_run tool_env_launch key_of_def tool_answer_def)
  from generate_secrets_distinct_seeds [OF run] run show ?thesis by (auto simp: sample_world_def)
qed

text \<open>C11. Bootstrapping a network writes exactly one configuration file per node, in the node's own
  directory and in the order of the nodes, and no other file. The files keep none of the markers
  of the templates: no quote that Python's list printing adds and no \<^verbatim>\<open>NEW_LINE\<close> placeholder.\<close>
theorem bootstrap_config_files:
  assumes "bootstrap_sidechain_nodes E options network rewind model s = Some (Inr info, t)"
  shows "\<exists>contents. length contents = length (net_sc_nodes_configuration network) \<and>
    written (w_calls t) = written (w_calls s) @
      zip (map (conf_path (op_tmpdir options)) (py_range (int (length (net_sc_nodes_configuration network))))) contents \<and>
    list_all (\<lambda>c. CHR 0x27 \<notin> set c \<and> \<not> is_substr ''NEW_LINE'' c) contents"
proof -
  let ?k = "int (length (net_sc_nodes_configuration network))"
  from assms obtain d u csw cert v info' linfo where
    keys: "make_ps_keys_dir E s = Some (Inr d, u)" and
    create: "create_sidechain E (net_sc_creation_info network) rewind cert csw model u = Some (Inr info, v)" and
    iter: "piter (bootstrap_ith E options (net_sc_nodes_configuration network) info info' model linfo) (py_range ?k) v = Some (Inr (), t)"
    by (auto simp: bootstrap_sidechain_nodes_def Let_def pbind_Inr_iff)
  have "written (w_calls v) = written (w_calls s)"
    using keepsD [OF dirs_write_no_files(2) keys] keepsD [OF create_writes_no_files create] by simp
  with bootstrap_range_run [OF iter] obtain cs where "length cs = length (py_range ?k)"
    "written (w_calls t) = written (w_calls s) @ zip (map (conf_path (op_tmpdir options)) (py_range ?k)) (map finish_config cs)"
    by auto
  then show ?thesis
    by (intro exI [of _ "map finish_config cs"]) (auto simp: list_all_iff finish_config_clean py_range_def)
qed

theorem bootstrap_config_files_witness:
  "\<exists>info content (t :: sample world). bootstrap_sidechain_nodes tool_env
      \<lparr>op_tmpdir = ''/tmp'', op_logfilelevel = ''all'', op_logconsolelevel = ''error'', op_restapitimeout = 5\<rparr>
      \<lparr>net_sc_creation_info = \<lparr>ci_mc_node = sample_mc, ci_forward_amount = PInt 100, ci_withdrawal_epoch_length = 900,
         ci_btr_data_length = 0, ci_sc_creation_version = 1, ci_cert_max_keys = 0, ci_cert_sig_threshold = 0, ci_csw_enabled = False,
         ci_non_ceasing = False, ci_circuit_type = NO_KEY_ROTATION_CIRCUIT\<rparr>,
       net_sc_nodes_configuration = [default_node_args]\<rparr> (PInt 43200) ''utxo''
      (sample_world 0 0 [Inr (PInt 500), Inr (PDict [(''txid'', PStr ''x''), (''scid'', PStr ''y'')]), Inr (PList [PStr ''z'']), Inr PNone,
         Inr PNone, Inr (PStr ''g''), Inr (PInt 501)]) = Some (Inr info, t) \<and>
    written (w_calls t) = [(conf_path ''/tmp'' 0, content)]"
proof -
  let ?E = tool_env
  let ?o = "\<lparr>op_tmpdir = ''/tmp'', op_logfilelevel = ''all'', op_logconsolelevel = ''error'', op_restapitimeout = 5\<rparr>"
  let ?n = "\<lparr>net_sc_creation_info = \<lparr>ci_mc_node = sample_mc, ci_forward_amount = PInt 100, ci_withdrawal_epoch_length = 900,
         ci_btr_data_length = 0, ci_sc_creation_version = 1, ci_cert_max_keys = 0, ci_cert_sig_threshold = 0, ci_csw_enabled = False,
         ci_non_ceasing = False, ci_circuit_type = NO_KEY_ROTATION_CIRCUIT\<rparr>,
       net_sc_nodes_configuration = [default_node_args]\<rparr>"
  let ?s = "sample_world 0 0 [Inr (PInt 500), Inr (PDict [(''txid'', PStr ''x''), (''scid'', PStr ''y'')]), Inr (PList [PStr ''z'']), Inr PNone,
         Inr PNone, Inr (PStr ''g''), Inr (PInt 501)]"
  have r: "[0..0::int] = [0]" "[0..-1::int] = []" by (simp_all add: upto.simps)
  have c: "NO_KEY_ROTATION_CIRCUIT \<noteq> KEY_ROTATION_CIRCUIT" by (simp add: NO_KEY_ROTATION_CIRCUIT_def KEY_ROTATION_CIRCUIT_def)
  obtain info t where run: "bootstrap_sidechain_nodes ?E ?o ?n (PInt 43200) ''utxo'' ?s = Some (Inr info, t)"
    by (simp add: bootstrap_sidechain_nodes_def make_ps_keys_dir_def make_node_dir_def Let_def cert_proof_keys_paths_def key_file_names_def
        create_sidechain_def generate_secrets_def generate_vrf_secrets_def launch_key_tool_def py_range_def r tool_env_launch
        generate_certificate_proof_info_def generate_cert_signer_secrets_def c key_of_def AccountModel_def list_get_def py_nth_def mk_key_pair_def
        initialize_new_sidechain_in_mainchain_def certificate_field_configs_def mc_call_run pbind_run sample_world_def
        generate_genesis_data_def bootstrap_ith_def bootstrap_sidechain_node_def initialize_sc_datadir_def template_file_def
        calculateApiKeyHash_def default_node_args_def DEFAULT_API_KEY_def SCForgerConfiguration_def allow_genesis_forger_def write_node_config_def sc_config_dict_def
        py_isdir_def py_isfile_def py_makedirs_def py_write_def prog_simps pct_format.simps genesis_secrets_of_def tool_answer_def)
  from bootstrap_config_files [OF run] run show ?thesis
    by (auto simp: py_range_def r sample_world_def length_Suc_conv)
qed

end
