(* ===== verification/Secure_Enclave.thy ===== *)
theory Secure_Enclave
  imports Bootstrap
begin

text \<open>
  The stand-in for a secure enclave (\<^verbatim>\<open>qa/SidechainTestFramework/secure_enclave_http_api_server.py\<close>): a
  server that holds Schnorr key pairs, lists the public keys and signs messages for a node that does
  not know the secrets. The web framework around the two handlers is left out: a handler gets the
  headers and the body of a request and returns the answer or raises.
\<close>

section \<open>The server\<close>

record enclave_server =
  en_schnorr_secrets :: "pyval list"
  en_schnorr_public_keys :: "pyval list"
  en_host :: string
  en_port :: int

definition SecureEnclaveApiServer :: "pyval list option \<Rightarrow> pyval list option \<Rightarrow> string \<Rightarrow> int \<Rightarrow> enclave_server" where
  "SecureEnclaveApiServer schnorr_secrets schnorr_public_keys host port =
     \<lparr>en_schnorr_secrets = (case schnorr_secrets of None \<Rightarrow> [] | Some l \<Rightarrow> l),
      en_schnorr_public_keys = (case schnorr_public_keys of None \<Rightarrow> [] | Some l \<Rightarrow> l),
      en_host = host, en_port = port\<rparr>"

definition launch_signing_tool :: "'w env \<Rightarrow> pyval \<Rightarrow> ('w, pyval) prog" where
  "launch_signing_tool E json_parameters =
     pbind (plift (json_dumps json_parameters)) (\<lambda>json_param.
       run_json_tool E [''java'', ''-jar'', sdk_dir E @ ''/tools/signingtool/target/sidechains-sdk-signingtools-'' @ SNAPSHOT_VERSION_TAG @ ''.jar'',
         ''createSignature'', json_param] ''Signing tool error occurred'')"

section \<open>Signing\<close>

text \<open>\<^verbatim>\<open>l.index(v)\<close>\<close>

fun list_index :: "pyval list \<Rightarrow> pyval \<Rightarrow> int res" where
  "list_index [] v = rerr ValueError ''value is not in list'' [v]"
| "list_index (x # xs) v = (if py_eq x v then Inr 0 else rbind (list_index xs v) (\<lambda>i. Inr (i + 1)))"

definition header :: "(string \<times> string) list \<Rightarrow> string \<Rightarrow> string res" where
  "header headers name = (case map_of headers name of None \<Rightarrow> rerr KeyError name [] | Some v \<Rightarrow> Inr v)"

definition check_headers :: "(string \<times> string) list \<Rightarrow> unit res" where
  "check_headers headers = rbind (header headers ''User-Agent'') (\<lambda>agent.
     if is_substr ''akka-http'' agent then
       rbind (header headers ''Content-Type'') (\<lambda>t. rbind (assert_equal (PStr ''application/json'') (PStr t) []) (\<lambda>_.
         rbind (header headers ''Accept'') (\<lambda>a. assert_equal (PStr ''application/json'') (PStr a) [])))
     else Inr ())"

text \<open>A request without a secret names a public key, which is replaced by the secret that belongs to it.\<close>

definition with_private_key :: "enclave_server \<Rightarrow> pyval \<Rightarrow> pyval res" where
  "with_private_key self content = rbind (py_in ''privateKey'' content) (\<lambda>given.
     if given then Inr content
     else rbind (py_get content ''publicKey'') (\<lambda>pk.
          rbind (list_index (en_schnorr_public_keys self) pk) (\<lambda>index.
          rbind (list_get (en_schnorr_secrets self) index) (\<lambda>sk.
            case content of PDict d \<Rightarrow> Inr (PDict (filter (\<lambda>kv. fst kv \<noteq> ''publicKey'') (dict_put ''privateKey'' sk d)))
            | _ \<Rightarrow> rerr TypeError ''object does not support item assignment'' [content]))))"

definition sign_message :: "'w env \<Rightarrow> enclave_server \<Rightarrow> (string \<times> string) list \<Rightarrow> string \<Rightarrow> ('w, pyval) prog" where
  "sign_message E self headers data =
     pbind (plift (json_loads data)) (\<lambda>content.
     pseq (plift (check_headers headers)) (
     pbind (plift (with_private_key self content)) (\<lambda>content.
       launch_signing_tool E content)))"

definition list_keys :: "enclave_server \<Rightarrow> string res" where
  "list_keys self = json_dumps (PDict [(''keys'', PList (map (\<lambda>key. PDict [(''publicKey'', key), (''type'', PStr ''schnorr'')])
     (en_schnorr_public_keys self)))])"

section \<open>Properties\<close>

lemma list_index_first:
  assumes "list_index xs v = Inr i"
  shows "0 \<le> i \<and> nat i < length xs \<and> py_eq (xs ! nat i) v \<and> (\<forall>j < nat i. \<not> py_eq (xs ! j) v)"
  using assms
proof (induction xs arbitrary: i)
  case (Cons x xs)
  show ?case
  proof (cases "py_eq x v")
    case False
    with Cons.prems obtain k where k: "list_index xs v = Inr k" "i = k + 1" by (auto simp: rbind_Inr_iff)
    from Cons.IH [OF k(1)] k(2) have "nat i = Suc (nat k)" by linarith
    with Cons.IH [OF k(1)] k False show ?thesis by (auto simp: less_Suc_eq_0_disj)
  qed (use Cons.prems in auto)
qed (simp add: rerr_def)

lemma with_private_key_run:
  assumes "with_private_key self (PDict d) = Inr c" and "''privateKey'' \<notin> fst ` set d"
  shows "\<exists>i pk e. map_of d ''publicKey'' = Some pk \<and> i < length (en_schnorr_public_keys self) \<and> i < length (en_schnorr_secrets self) \<and>
    py_eq (en_schnorr_public_keys self ! i) pk \<and> (\<forall>j < i. \<not> py_eq (en_schnorr_public_keys self ! j) pk) \<and> c = PDict e \<and>
    map_of e = (map_of d)(''privateKey'' \<mapsto> en_schnorr_secrets self ! i, ''publicKey'' := None)"
proof -
  from assms obtain pk ix sk where pk: "map_of d ''publicKey'' = Some pk" and ix: "list_index (en_schnorr_public_keys self) pk = Inr ix"
    and sk: "list_get (en_schnorr_secrets self) ix = Inr sk"
    and c: "c = PDict (filter (\<lambda>kv. fst kv \<noteq> ''publicKey'') (dict_put ''privateKey'' sk d))"
    by (auto simp: with_private_key_def rbind_Inr_iff rerr_def split: option.splits)
  note i = list_index_first [OF ix]
  with sk have "nat ix < length (en_schnorr_secrets self)" "sk = en_schnorr_secrets self ! nat ix"
    by (auto simp: list_get_def Let_def rerr_def split: if_splits)
  with pk i c show ?thesis
    by (intro exI [of _ "nat ix"] exI [of _ pk] exI [of _ "filter (\<lambda>kv. fst kv \<noteq> ''publicKey'') (dict_put ''privateKey'' sk d)"])
      (simp add: map_of_filter_key)
qed

text \<open>C19. A node that asks the enclave to sign for a public key gets what the signing tool answers
  to the one request it is run for: the request of the node with the public key replaced by the
  secret at the position of the first occurrence of that key. The answer is the value that the
  tool's output denotes.\<close>
theorem enclave_signs_for_public_key:
  assumes "sign_message E self headers data s = Some (Inr r, t)" and "json_loads data = Inr (PDict d)" and "''privateKey'' \<notin> fst ` set d"
  shows "\<exists>i pk e j tool status out err. map_of d ''publicKey'' = Some pk \<and> i < length (en_schnorr_public_keys self) \<and> i < length (en_schnorr_secrets self) \<and>
    py_eq (en_schnorr_public_keys self ! i) pk \<and> (\<forall>k < i. \<not> py_eq (en_schnorr_public_keys self ! k) pk) \<and>
    w_calls t = w_calls s @ [RanCmd [''java'', ''-jar'', tool, ''createSignature'', j]] \<and> json_dumps (PDict e) = Inr j \<and>
    map_of e = (map_of d)(''privateKey'' \<mapsto> en_schnorr_secrets self ! i, ''publicKey'' := None) \<and>
    e_run E [''java'', ''-jar'', tool, ''createSignature'', j] (w_ext s) = (Inr (status, out, err), w_ext t) \<and> json_loads out = Inr r"
proof -
  let ?tool = "sdk_dir E @ ''/tools/signingtool/target/sidechains-sdk-signingtools-'' @ SNAPSHOT_VERSION_TAG @ ''.jar''"
  from assms(1,2) obtain c j where c: "with_private_key self (PDict d) = Inr c" and j: "json_dumps c = Inr j"
    and run: "run_json_tool E [''java'', ''-jar'', ?tool, ''createSignature'', j] ''Signing tool error occurred'' s = Some (Inr r, t)"
    by (auto simp: sign_message_def launch_signing_tool_def pbind_Inr_iff)
  obtain status out err where "w_calls t = w_calls s @ [RanCmd [''java'', ''-jar'', ?tool, ''createSignature'', j]]"
    "e_run E [''java'', ''-jar'', ?tool, ''createSignature'', j] (w_ext s) = (Inr (status, out, err), w_ext t)" "json_loads out = Inr r"
    using run by (cases "e_run E [''java'', ''-jar'', ?tool, ''createSignature'', j] (w_ext s)")
      (auto simp: run_json_tool_def pbind_Inr_iff ptry_Inr_iff py_run_def pact_run split: if_splits)
  with with_private_key_run [OF c assms(3)] j show ?thesis by blast
qed

theorem enclave_signs_for_public_key_witness:
  "\<exists>data r (t :: sample world). sign_message (sample_env\<lparr>e_run := \<lambda>c w. (Inr (0, ''null'', []), w)\<rparr>)
       (SecureEnclaveApiServer (Some [PStr ''s1'', PStr ''s2'']) (Some [PStr ''p1'', PStr ''p2'']) ''127.0.0.1'' 5000)
       [(''User-Agent'', ''curl'')] data (sample_world 0 0 []) = Some (Inr r, t) \<and>
     json_loads data = Inr (PDict [(''message'', PStr ''m''), (''publicKey'', PStr ''p2'')]) \<and> length (w_calls t) = 1"
proof -
  let ?d = "[(''message'', PStr ''m''), (''publicKey'', PStr ''p2'')]"
  let ?E = "sample_env\<lparr>e_run := \<lambda>c w. (Inr (0, ''null'', []), w)\<rparr>"
  let ?srv = "SecureEnclaveApiServer (Some [PStr ''s1'', PStr ''s2'']) (Some [PStr ''p1'', PStr ''p2'']) ''127.0.0.1'' 5000"
  have v: "json_value (PDict ?d)" by simp
  obtain doc where "json_dumps (PDict ?d) = Inr doc" using json_dumps_total [OF v] by blast
  with json_roundtrip [OF v] have doc: "json_loads doc = Inr (PDict ?d)" by simp
  have null: "json_loads ''null'' = Inr PNone"
    by (simp add: json_loads_def json_parse_def p_val.simps skip_ws_def is_json_ws_def p_word_def)
  have k: "with_private_key ?srv (PDict ?d) = Inr (PDict [(''message'', PStr ''m''), (''privateKey'', PStr ''s2'')])"
    by (simp add: with_private_key_def SecureEnclaveApiServer_def list_get_def)
  obtain r and t :: "sample world" where run: "sign_message ?E ?srv [(''User-Agent'', ''curl'')] doc (sample_world 0 0 []) = Some (Inr r, t)"
    by (simp add: sign_message_def doc k check_headers_def header_def launch_signing_tool_def run_json_tool_def null ext_defs prog_simps)
  from enclave_signs_for_public_key [OF run doc] have "length (w_calls t) = 1" by (auto simp: sample_world_def)
  with run doc show ?thesis by blast
qed

end
