(* ===== verification/Websocket.thy ===== *)
theory Websocket
  imports Bootstrap
begin

text \<open>
  The websocket clients of the tests (\<^verbatim>\<open>qa/SidechainTestFramework/websocket_client.py\<close> and
  \<^verbatim>\<open>account_websocket_client.py\<close>). The connection itself is a parameter: sending a text and receiving
  one, which is empty when nothing has arrived.
\<close>

record 'w ws_conn =
  ws_send :: "string \<Rightarrow> 'w \<Rightarrow> unit res \<times> 'w"
  ws_recv :: "'w \<Rightarrow> string res \<times> 'w"

section \<open>Requests\<close>

text \<open>The loop of both clients, with the number of attempts left; \<open>results\<close> is what was received last.\<close>

fun recv_loop :: "'w env \<Rightarrow> 'w ws_conn \<Rightarrow> string \<Rightarrow> nat \<Rightarrow> ('w, string) prog" where
  "recv_loop E ws results 0 = pret results"
| "recv_loop E ws results (Suc n) = pbind (pext (ws_recv ws)) (\<lambda>results.
     if length results = 0 then pseq (py_sleep E 1) (recv_loop E ws results n) else pret results)"

definition ws_timeout :: nat where
  "ws_timeout = 500"

definition sendMessage :: "'w env \<Rightarrow> 'w ws_conn \<Rightarrow> pyval \<Rightarrow> pyval \<Rightarrow> pyval \<Rightarrow> string \<Rightarrow> ('w, string) prog" where
  "sendMessage E ws msgType requestId requestType requestPayload =
     pseq (pext (ws_send ws (''{'' @ json_str ''msgType'' @ '':'' @ py_str msgType @ '', '' @ json_str ''requestId'' @ '':'' @ py_str requestId
       @ '', '' @ json_str ''requestType'' @ '':'' @ py_str requestType @ '', '' @ json_str ''requestPayload'' @ '':'' @ requestPayload @ '' }'')))
       (recv_loop E ws [] (ws_timeout - 1))"

definition ac_sendMessage :: "'w env \<Rightarrow> 'w ws_conn \<Rightarrow> pyval \<Rightarrow> pyval \<Rightarrow> pyval \<Rightarrow> ('w, string) prog" where
  "ac_sendMessage E ws ident request params =
     pbind (plift (json_dumps (PDict [(''jsonrpc'', PStr ''2.0''), (''id'', ident), (''method'', request), (''params'', params)]))) (\<lambda>wsRequest.
     pseq (pext (ws_send ws wsRequest)) (recv_loop E ws [] (ws_timeout - 1)))"

text \<open>Events carry no request id, every other answer the one of its request.\<close>

definition checkMessageStaticFields :: "pyval \<Rightarrow> pyval \<Rightarrow> pyval \<Rightarrow> pyval \<Rightarrow> unit res" where
  "checkMessageStaticFields response msgType requestId answerType =
     rbind (rbind (py_get response ''msgType'') (\<lambda>t. assert_equal t msgType [])) (\<lambda>_.
     rbind (rbind (py_get response ''answerType'') (\<lambda>t. assert_equal t answerType [])) (\<lambda>_.
       if py_eq msgType (PInt 0) then rbind (py_in ''requestId'' response) (\<lambda>b. assert_true (\<not> b) [])
       else rbind (py_get response ''requestId'') (\<lambda>i. assert_equal i requestId [])))"

section \<open>Properties\<close>

text \<open>The outside world after a number of empty answers: after each a second passes.\<close>

primrec after_empty :: "'w env \<Rightarrow> 'w ws_conn \<Rightarrow> nat \<Rightarrow> 'w \<Rightarrow> 'w" where
  "after_empty E ws 0 w = w"
| "after_empty E ws (Suc k) w = e_sleep E 1 (snd (ws_recv ws (after_empty E ws k w)))"

lemma after_empty_shift: "after_empty E ws k (e_sleep E 1 (snd (ws_recv ws w))) = after_empty E ws (Suc k) w"
  by (induction k) simp_all

lemma recv_loop_run:
  assumes "\<forall>w. \<exists>r w'. ws_recv ws w = (Inr r, w')" and "acc = []"
  shows "\<exists>r t k. recv_loop E ws acc n s = Some (Inr r, t) \<and> w_calls t = w_calls s @ replicate k (Slept 1) \<and> k \<le> n \<and>
    (\<forall>j < k. fst (ws_recv ws (after_empty E ws j (w_ext s))) = Inr []) \<and>
    (if k < n then r \<noteq> [] \<and> ws_recv ws (after_empty E ws k (w_ext s)) = (Inr r, w_ext t) else r = [] \<and> w_ext t = after_empty E ws n (w_ext s))"
  using assms(2)
proof (induction n arbitrary: s acc)
  case 0
  then show ?case by (intro exI [of _ "[]"] exI [of _ s] exI [of _ 0]) simp
next
  case (Suc n)
  obtain r w where r: "ws_recv ws (w_ext s) = (Inr r, w)" using assms(1) by blast
  let ?s = "s\<lparr>w_calls := w_calls s @ [Slept 1], w_ext := e_sleep E 1 w\<rparr>"
  show ?case
  proof (cases r)
    case Nil
    have shift: "after_empty E ws j (w_ext ?s) = after_empty E ws (Suc j) (w_ext s)" for j
      using after_empty_shift [of E ws j "w_ext s"] r by simp
    from Suc.IH [of "[]" ?s, unfolded shift] obtain q t k where IH: "recv_loop E ws [] n ?s = Some (Inr q, t)"
      "w_calls t = w_calls s @ Slept 1 # replicate k (Slept 1)" "k \<le> n"
      "\<forall>j < k. fst (ws_recv ws (after_empty E ws (Suc j) (w_ext s))) = Inr []"
      "if k < n then q \<noteq> [] \<and> ws_recv ws (after_empty E ws (Suc k) (w_ext s)) = (Inr q, w_ext t)
       else q = [] \<and> w_ext t = after_empty E ws (Suc n) (w_ext s)" by auto
    have "\<forall>j < Suc k. fst (ws_recv ws (after_empty E ws j (w_ext s))) = Inr []"
      using IH(4) r Nil by (auto simp: less_Suc_eq_0_disj)
    moreover have "recv_loop E ws acc (Suc n) s = Some (Inr q, t)"
      using IH(1) r Nil by (simp add: pbind_run pext_run py_sleep_def pact_run)
    ultimately show ?thesis using IH(2,3,5)
      by - (rule exI [of _ q], rule exI [of _ t], rule exI [of _ "Suc k"], simp del: recv_loop.simps after_empty.simps)
  next
    case (Cons c cs)
    with r show ?thesis
      by - (rule exI [of _ r], rule exI [of _ "s\<lparr>w_ext := w\<rparr>"], rule exI [of _ 0], simp add: pbind_run pext_run)
  qed
qed

text \<open>C28. As long as the connection works, sending a message returns the first text that is not empty: the message is sent once, the
  client receives again and again, at most 499 times (not 500), sleeping a second after every empty answer, and stops at
  the first other answer, which it returns; it returns the empty text exactly when all 499 were empty. No
  other receive or sleep happens: \<open>after_empty\<close> and the state at the end account for each of them.\<close>
theorem sendMessage_bounded:
  assumes "\<forall>w. \<exists>r w'. ws_recv ws w = (Inr r, w')" and "\<forall>m w. fst (ws_send ws m w) = Inr ()"
    and "w = snd (ws_send ws (''{'' @ json_str ''msgType'' @ '':'' @ py_str msgType @ '', '' @ json_str ''requestId'' @ '':'' @ py_str requestId
       @ '', '' @ json_str ''requestType'' @ '':'' @ py_str requestType @ '', '' @ json_str ''requestPayload'' @ '':'' @ payload @ '' }'') (w_ext s))"
  shows "\<exists>r t k. sendMessage E ws msgType requestId requestType payload s = Some (Inr r, t) \<and>
    w_calls t = w_calls s @ replicate k (Slept 1) \<and> k \<le> 499 \<and>
    (\<forall>j < k. fst (ws_recv ws (after_empty E ws j w)) = Inr []) \<and>
    (if k < 499 then r \<noteq> [] \<and> ws_recv ws (after_empty E ws k w) = (Inr r, w_ext t) else r = [] \<and> w_ext t = after_empty E ws 499 w)"
proof -
  let ?s = "s\<lparr>w_ext := w\<rparr>"
  have "w_ext ?s = w" "w_calls ?s = w_calls s" by simp_all
  note loop = recv_loop_run [OF assms(1) refl, of E 499 ?s, unfolded this]
  from loop obtain r t k where run: "recv_loop E ws [] 499 ?s = Some (Inr r, t)"
    "w_calls t = w_calls s @ replicate k (Slept 1)" "k \<le> 499" "\<forall>j < k. fst (ws_recv ws (after_empty E ws j w)) = Inr []"
    "if k < 499 then r \<noteq> [] \<and> ws_recv ws (after_empty E ws k w) = (Inr r, w_ext t) else r = [] \<and> w_ext t = after_empty E ws 499 w" by blast
  have "sendMessage E ws msgType requestId requestType payload s = Some (Inr r, t)"
    using run(1) assms(2,3) by (simp add: sendMessage_def ws_timeout_def pbind_run pext_run)
  with run show ?thesis by blast
qed

text \<open>A connection that answers with the third receive.\<close>

definition third_answers :: "sample ws_conn" where
  "third_answers = \<lparr>ws_send = \<lambda>m w. (Inr (), w), ws_recv = \<lambda>w. (Inr (if snd w = [] then ''ok'' else []), (fst w, tl (snd w)))\<rparr>"

theorem sendMessage_bounded_witness:
  "\<exists>t. sendMessage sample_env third_answers (PInt 1) (PInt 0) (PInt 5) ''{}'' (sample_world 0 0 [Inr PNone, Inr PNone]) = Some (Inr ''ok'', t) \<and>
    w_calls t = [Slept 1, Slept 1]"
proof -
  let ?w = "w_ext (sample_world 0 0 [Inr PNone, Inr PNone])"
  have recv: "fst (ws_recv third_answers (after_empty sample_env third_answers 0 ?w)) = Inr []"
    "fst (ws_recv third_answers (after_empty sample_env third_answers 1 ?w)) = Inr []"
    "fst (ws_recv third_answers (after_empty sample_env third_answers 2 ?w)) = Inr ''ok''"
    by (simp_all add: third_answers_def sample_world_def ext_defs numeral_2_eq_2)
  obtain r and t :: "sample world" and k where run:
    "sendMessage sample_env third_answers (PInt 1) (PInt 0) (PInt 5) ''{}'' (sample_world 0 0 [Inr PNone, Inr PNone]) = Some (Inr r, t)"
    "w_calls t = replicate k (Slept 1)" "k \<le> 499" and empty: "\<forall>j < k. fst (ws_recv third_answers (after_empty sample_env third_answers j ?w)) = Inr []"
    and last: "if k < 499 then r \<noteq> [] \<and> ws_recv third_answers (after_empty sample_env third_answers k ?w) = (Inr r, w_ext t)
      else r = [] \<and> w_ext t = after_empty sample_env third_answers 499 ?w"
    using sendMessage_bounded [of third_answers ?w "PInt 1" "PInt 0" "PInt 5" "''{}''" "sample_world 0 0 [Inr PNone, Inr PNone]" sample_env]
    by (auto simp: third_answers_def sample_world_def)
  have "\<not> 2 < k" using empty recv(3) by (metis list.distinct(1) sum.inject(2))
  then have "k < 499" by simp
  with last have answer: "fst (ws_recv third_answers (after_empty sample_env third_answers k ?w)) = Inr r" "r \<noteq> []" by auto
  have "k \<noteq> 0" "k \<noteq> 1" using answer recv(1,2) by (metis sum.inject(2))+
  with \<open>\<not> 2 < k\<close> have "k = 2" by linarith
  with run answer(1) recv(3) show ?thesis by (auto simp: numeral_2_eq_2)
qed

end
