(* ===== verification/Sc_Checks.thy ===== *)
theory Sc_Checks
  imports Mc_Sidechain Sc_Sync
begin

text \<open>
  The checks the tests make on sidechain blocks and wallets
  (\<^verbatim>\<open>qa/SidechainTestFramework/sc_forging_util.py\<close> and the last part of \<^verbatim>\<open>scutil.py\<close>), the transactions
  of the forging tests, and the tool that makes proofs for sidechains unknown to the framework
  (\<^verbatim>\<open>qa/test_framework/mc_test/mc_test.py\<close>). Amounts in Zen are numbers, amounts in satoshi are
  integers.
\<close>

section \<open>Blocks of the sidechain\<close>

text \<open>\<^verbatim>\<open>sc_node.block_findById(blockId=scblock_id)["result"]["block"]\<close> and the fields below it.\<close>

definition block_field :: "'w env \<Rightarrow> sc_node \<Rightarrow> pyval \<Rightarrow> string list \<Rightarrow> ('w, pyval) prog" where
  "block_field E sc_node scblock_id ks =
     pbind (sc_call_kw E sc_node ''block_findById'' [(''blockId'', scblock_id)]) (\<lambda>res.
       plift (py_path res (''result'' # ''block'' # ks)))"

definition check_scparent :: "'w env \<Rightarrow> pyval \<Rightarrow> pyval \<Rightarrow> sc_node \<Rightarrow> ('w, unit) prog" where
  "check_scparent E parent_scblock_id scblock_id sc_node =
     pbind (block_field E sc_node scblock_id [''header'', ''parentId'']) (\<lambda>parent.
       plift (assert_equal parent_scblock_id parent (''SC Block '' @ py_str scblock_id @ '' parent id is different.'')))"

text \<open>Is there an element whose field has the given value? The search stops at the first.\<close>

definition some_field_is :: "string \<Rightarrow> pyval \<Rightarrow> pyval \<Rightarrow> bool res" where
  "some_field_is key v vs = rbind (py_items vs) (\<lambda>items. rany (\<lambda>item. rbind (py_get item key) (\<lambda>h. Inr (py_eq h v))) items)"

definition check_mcheader_presence :: "'w env \<Rightarrow> pyval \<Rightarrow> pyval \<Rightarrow> sc_node \<Rightarrow> ('w, unit) prog" where
  "check_mcheader_presence E mcblock_hash scblock_id sc_node =
     pbind (block_field E sc_node scblock_id [''mainchainHeaders'']) (\<lambda>headers.
       pbind (plift (some_field_is ''hash'' mcblock_hash headers)) (\<lambda>found.
         if found then pret ()
         else plift (fail (''MC hash '' @ py_str mcblock_hash @ '' was not found in SC Block '' @ py_str scblock_id @ '' mainchain headers.''))))"

definition check_mcreferencedata_presence :: "'w env \<Rightarrow> pyval \<Rightarrow> pyval \<Rightarrow> sc_node \<Rightarrow> ('w, unit) prog" where
  "check_mcreferencedata_presence E mcblock_hash scblock_id sc_node =
     pbind (block_field E sc_node scblock_id [''mainchainBlockReferencesData'']) (\<lambda>refDataList.
       pbind (plift (some_field_is ''headerHash'' mcblock_hash refDataList)) (\<lambda>found.
         if found then pret ()
         else plift (fail (''MC hash '' @ py_str mcblock_hash @ '' was not found in SC Block '' @ py_str scblock_id @ '' mainchain reference data.''))))"

definition check_mcreference_presence :: "'w env \<Rightarrow> pyval \<Rightarrow> pyval \<Rightarrow> sc_node \<Rightarrow> ('w, unit) prog" where
  "check_mcreference_presence E mcblock_hash scblock_id sc_node =
     pseq (check_mcheader_presence E mcblock_hash scblock_id sc_node)
       (check_mcreferencedata_presence E mcblock_hash scblock_id sc_node)"

definition check_amount :: "'w env \<Rightarrow> string \<Rightarrow> string \<Rightarrow> pyval \<Rightarrow> pyval \<Rightarrow> sc_node \<Rightarrow> ('w, unit) prog" where
  "check_amount E field what amount scblock_id sc_node =
     pbind (block_field E sc_node scblock_id [field]) (\<lambda>items.
       pbind (plift (py_len items)) (\<lambda>n.
         plift (assert_equal amount (PInt n) (''SC Block '' @ py_str scblock_id @ what))))"

definition check_mcheaders_amount :: "'w env \<Rightarrow> pyval \<Rightarrow> pyval \<Rightarrow> sc_node \<Rightarrow> ('w, unit) prog" where
  "check_mcheaders_amount E = check_amount E ''mainchainHeaders'' '' mainchain headers amount is different''"

definition check_mcreferencedata_amount :: "'w env \<Rightarrow> pyval \<Rightarrow> pyval \<Rightarrow> sc_node \<Rightarrow> ('w, unit) prog" where
  "check_mcreferencedata_amount E = check_amount E ''mainchainBlockReferencesData'' '' mainchain ref data amount is different''"

definition check_ommers_amount :: "'w env \<Rightarrow> pyval \<Rightarrow> pyval \<Rightarrow> sc_node \<Rightarrow> ('w, unit) prog" where
  "check_ommers_amount E = check_amount E ''ommers'' '' ommers amount is different''"

definition check_ommers_cumulative_score :: "'w env \<Rightarrow> pyval \<Rightarrow> pyval \<Rightarrow> sc_node \<Rightarrow> ('w, unit) prog" where
  "check_ommers_cumulative_score E score scblock_id sc_node =
     pbind (block_field E sc_node scblock_id [''header'', ''ommersCumulativeScore'']) (\<lambda>actual_score.
       plift (assert_equal score actual_score (''SC Block '' @ py_str scblock_id @ '' ommers cumulative score is different'')))"

text \<open>
  The loop over the mainchain headers of an ommer decides at the first header: it returns when the
  hash is expected and fails otherwise. \<open>True\<close> means the check returned, \<open>False\<close> that the loop ended.
\<close>

fun first_header_expected :: "string \<Rightarrow> pyval \<Rightarrow> pyval list \<Rightarrow> pyval list \<Rightarrow> bool res" where
  "first_header_expected what block_id hashes [] = Inr False"
| "first_header_expected what block_id hashes (header # headers) = rbind (py_get header ''hash'') (\<lambda>h.
     if list_ex (py_eq h) hashes then Inr True
     else fail (''MC hash '' @ py_str h @ '' was not found in '' @ what @ '' '' @ py_str block_id @ '' mainchain headers.''))"

definition headers_checked :: "string \<Rightarrow> pyval \<Rightarrow> pyval list \<Rightarrow> pyval \<Rightarrow> bool res" where
  "headers_checked what block_id hashes ommer = rbind (py_get ommer ''mainchainHeaders'') (\<lambda>headers.
     if hashes = [] then Inr True
     else rbind (py_items headers) (first_header_expected what block_id hashes))"

definition has_header_id :: "pyval \<Rightarrow> pyval \<Rightarrow> bool res" where
  "has_header_id block_id ommer = rbind (py_path ommer [''header'', ''id'']) (\<lambda>i. Inr (py_eq i block_id))"

fun ommer_loop :: "pyval \<Rightarrow> pyval list \<Rightarrow> pyval list \<Rightarrow> bool res" where
  "ommer_loop ommer_scblock_id hashes [] = Inr False"
| "ommer_loop ommer_scblock_id hashes (ommer # ommers) = rbind (has_header_id ommer_scblock_id ommer) (\<lambda>found.
     if found then rbind (headers_checked ''Ommer'' ommer_scblock_id hashes ommer) (\<lambda>returned.
       if returned then Inr True else ommer_loop ommer_scblock_id hashes ommers)
     else ommer_loop ommer_scblock_id hashes ommers)"

definition ommer_missing :: "pyval \<Rightarrow> pyval \<Rightarrow> unit res" where
  "ommer_missing ommer_scblock_id scblock_id =
     fail (''Ommer id '' @ py_str ommer_scblock_id @ '' was not found in SC Block '' @ py_str scblock_id @ '' ommers.'')"

definition check_ommer :: "'w env \<Rightarrow> pyval \<Rightarrow> pyval list \<Rightarrow> pyval \<Rightarrow> sc_node \<Rightarrow> ('w, unit) prog" where
  "check_ommer E ommer_scblock_id ommer_mcheaders_hashes scblock_id sc_node =
     pbind (block_field E sc_node scblock_id [''ommers'']) (\<lambda>ommers.
       pbind (plift (rbind (py_items ommers) (ommer_loop ommer_scblock_id ommer_mcheaders_hashes))) (\<lambda>returned.
         if returned then pret () else plift (ommer_missing ommer_scblock_id scblock_id)))"

fun subommer_loop :: "pyval \<Rightarrow> pyval list \<Rightarrow> pyval list \<Rightarrow> bool res" where
  "subommer_loop subommer_scblock_id hashes [] = Inr False"
| "subommer_loop subommer_scblock_id hashes (subommer # subommers) = rbind (has_header_id subommer_scblock_id subommer) (\<lambda>found.
     if found then rbind (headers_checked ''Subommer'' subommer_scblock_id hashes subommer) (\<lambda>returned.
       if returned then Inr True else subommer_loop subommer_scblock_id hashes subommers)
     else subommer_loop subommer_scblock_id hashes subommers)"

text \<open>An ommer without the wanted subommer ends the check: the message of that failure has an
  unbalanced brace, so formatting it raises before \<open>fail\<close> is called.\<close>

fun ommers_subommer_loop :: "pyval \<Rightarrow> pyval \<Rightarrow> pyval list \<Rightarrow> pyval list \<Rightarrow> bool res" where
  "ommers_subommer_loop ommer_scblock_id subommer_scblock_id hashes [] = Inr False"
| "ommers_subommer_loop ommer_scblock_id subommer_scblock_id hashes (ommer # ommers) =
     rbind (has_header_id ommer_scblock_id ommer) (\<lambda>found.
       if found then rbind (rbind (py_get ommer ''ommers'') py_items) (\<lambda>subommers.
         rbind (subommer_loop subommer_scblock_id hashes subommers) (\<lambda>returned.
           if returned then Inr True
           else rerr ValueError (''expected '' @ [CHR 0x27] @ ''}'' @ [CHR 0x27] @ '' before end of string'') []))
       else ommers_subommer_loop ommer_scblock_id subommer_scblock_id hashes ommers)"

definition check_subommer :: "'w env \<Rightarrow> pyval \<Rightarrow> pyval \<Rightarrow> pyval list \<Rightarrow> pyval \<Rightarrow> sc_node \<Rightarrow> ('w, unit) prog" where
  "check_subommer E ommer_scblock_id subommer_scblock_id subommer_mcheader_hashes scblock_id sc_node =
     pbind (block_field E sc_node scblock_id [''ommers'']) (\<lambda>ommers.
       pbind (plift (rbind (py_items ommers) (ommers_subommer_loop ommer_scblock_id subommer_scblock_id subommer_mcheader_hashes))) (\<lambda>returned.
         if returned then pret () else plift (ommer_missing ommer_scblock_id scblock_id)))"

section \<open>Transactions of the forging tests\<close>

definition new_public_key :: "'w env \<Rightarrow> sc_node \<Rightarrow> string \<Rightarrow> ('w, pyval) prog" where
  "new_public_key E sc_node service = pbind (sc_call E sc_node service []) (\<lambda>r.
     plift (py_path r [''result'', ''proposition'', ''publicKey'']))"

definition mempool_size :: "'w env \<Rightarrow> mc_node \<Rightarrow> ('w, pyval) prog" where
  "mempool_size E mc_node = pbind (mc_call E mc_node ''getmempoolinfo'' []) (\<lambda>r. plift (py_get r ''size''))"

definition mc_make_forward_transfer :: "'w env \<Rightarrow> mc_node \<Rightarrow> sc_node \<Rightarrow> pyval \<Rightarrow> pyval \<Rightarrow> pyval \<Rightarrow> ('w, pyval) prog" where
  "mc_make_forward_transfer E mc_node sc_node sc_id ft_zen_amount mc_return_address =
     pbind (new_public_key E sc_node ''wallet_createPrivateKey25519'') (\<lambda>sc_address.
     pbind (mempool_size E mc_node) (\<lambda>mc_mempool_size.
     pbind (mc_call E mc_node ''sc_send'' [PList [PDict
        [(''toaddress'', sc_address), (''amount'', ft_zen_amount), (''scid'', sc_id), (''mcReturnAddress'', mc_return_address)]]])
       (\<lambda>mc_tx_id.
     pseq (plift (py_concat (PStr ''MC Tx with FT created: '') mc_tx_id)) (
     pbind (plift (as_int mc_mempool_size)) (\<lambda>n.
     pbind (mempool_size E mc_node) (\<lambda>new_size.
     pseq (plift (assert_equal (PInt (n + 1)) new_size ''Forward Transfer expected to be added to mempool.'')) (
     pbind (mc_call E mc_node ''generate'' [PInt 1]) (\<lambda>blocks.
     pbind (plift (py_nth blocks 0)) (\<lambda>mc_block_hash.
     pseq (plift (py_concat (PStr ''MC block with FT generated: '') mc_block_hash)) (pret mc_block_hash))))))))))"

text \<open>A request is posted as JSON; an answer without a result fails the test.\<close>

definition post_or_fail :: "'w env \<Rightarrow> sc_node \<Rightarrow> string \<Rightarrow> pyval \<Rightarrow> string \<Rightarrow> ('w, unit) prog" where
  "post_or_fail E sc_node service request failure =
     pbind (plift (json_dumps request)) (\<lambda>body.
     pbind (sc_call E sc_node service [PStr body]) (\<lambda>res.
     pbind (plift (py_in ''result'' res)) (\<lambda>ok.
     pbind (plift (json_dumps res)) (\<lambda>shown.
       if \<not> ok then plift (fail (failure @ shown)) else pret ()))))"

definition sc_create_forging_stake_mempool :: "'w env \<Rightarrow> sc_node \<Rightarrow> pyval \<Rightarrow> ('w, unit) prog" where
  "sc_create_forging_stake_mempool E sc_node stake_zen_amount =
     pbind (new_public_key E sc_node ''wallet_createPrivateKey25519'') (\<lambda>sc_address.
     pbind (new_public_key E sc_node ''wallet_createVrfSecret'') (\<lambda>sc_vrf_address.
     pbind (plift (py_times stake_zen_amount 100000000)) (\<lambda>satoshis.
       post_or_fail E sc_node ''transaction_makeForgerStake'' (PDict [(''outputs'', PList [PDict
          [(''publicKey'', sc_address), (''blockSignPublicKey'', sc_address), (''vrfPubKey'', sc_vrf_address), (''value'', satoshis)]])])
         ''Forger stake creation failed: '')))"

definition sc_make_withdrawal_request_mempool :: "'w env \<Rightarrow> mc_node \<Rightarrow> sc_node \<Rightarrow> pyval \<Rightarrow> ('w, unit) prog" where
  "sc_make_withdrawal_request_mempool E mc_node sc_node bt_zen_amount =
     pbind (mc_call E mc_node ''getnewaddress'' []) (\<lambda>mc_address.
     pbind (plift (py_times bt_zen_amount 100000000)) (\<lambda>satoshis.
       post_or_fail E sc_node ''transaction_withdrawCoins'' (PDict [(''outputs'', PList [PDict
          [(''mainchainAddress'', mc_address), (''value'', satoshis)]])])
         ''Withdraw coins failed: ''))"

section \<open>Checks on references and balances\<close>

text \<open>Every failure inside the \<^verbatim>\<open>try\<close> block, a missing field included, makes the check false.\<close>

definition check_mainchain_block_reference_info :: "pyval \<Rightarrow> pyval \<Rightarrow> bool" where
  "check_mainchain_block_reference_info mc_block_reference_info expected_mc_block =
     (case rbind (py_path mc_block_reference_info [''blockReferenceInfo'', ''parentHash'']) (\<lambda>parent_hash.
           rbind (py_path mc_block_reference_info [''blockReferenceInfo'', ''hash'']) (\<lambda>hash.
           rbind (py_path mc_block_reference_info [''blockReferenceInfo'', ''height'']) (\<lambda>height.
           rbind (py_get expected_mc_block ''hash'') (\<lambda>expected_hash.
           rbind (py_get expected_mc_block ''height'') (\<lambda>expected_height.
           rbind (assert_equal expected_hash hash []) (\<lambda>_.
           rbind (assert_equal expected_height height []) (\<lambda>_.
           rbind (py_get expected_mc_block ''previousblockhash'') (\<lambda>expected_parent.
             assert_equal expected_parent parent_hash [])))))))) of
        Inl e \<Rightarrow> False | Inr _ \<Rightarrow> True)"

definition is_mainchain_block_included_in_sc_block :: "pyval \<Rightarrow> pyval \<Rightarrow> bool res" where
  "is_mainchain_block_included_in_sc_block sc_block expected_mc_block =
     rbind (rbind (py_get sc_block ''mainchainHeaders'') py_items) (\<lambda>headers.
       rany (\<lambda>header. rbind (py_get expected_mc_block ''merkleroot'') (\<lambda>expected.
         rbind (py_get header ''hashMerkleRoot'') (\<lambda>actual. Inr (py_eq expected actual)))) headers)"

definition check_wallet_coins_balance :: "'w env \<Rightarrow> sc_node \<Rightarrow> pyval \<Rightarrow> ('w, unit) prog" where
  "check_wallet_coins_balance E sc_node expected_wallet_balance =
     pbind (sc_call E sc_node ''wallet_coinsBalance'' []) (\<lambda>response.
       pbind (plift (py_in ''result'' response)) (\<lambda>ok.
         if ok then plift (rbind (py_get response ''result'') (\<lambda>balance.
             rbind (py_times expected_wallet_balance 100000000) (\<lambda>expected.
               rbind (rbind (py_get balance ''balance'') py_int) (\<lambda>actual.
                 assert_equal expected (PInt actual) ''Unexpected coins balance''))))
         else praise RuntimeError (''Something went wrong, see '' @ py_str response) []))"

text \<open>The number and the value of the boxes of an account, of one type or of all.\<close>

definition box_matches :: "pyval \<Rightarrow> pyval option \<Rightarrow> pyval \<Rightarrow> bool res" where
  "box_matches pub_key box_class_name box = rbind (py_path box [''proposition'', ''publicKey'']) (\<lambda>k.
     if \<not> py_eq k pub_key then Inr False
     else (case box_class_name of None \<Rightarrow> Inr True
       | Some name \<Rightarrow> rbind (py_get box ''typeName'') (\<lambda>n. Inr (py_eq n name))))"

fun box_totals :: "pyval \<Rightarrow> pyval option \<Rightarrow> int \<times> int \<Rightarrow> pyval list \<Rightarrow> (int \<times> int) res" where
  "box_totals pub_key box_class_name acc [] = Inr acc"
| "box_totals pub_key box_class_name acc (box # boxes) = rbind (box_matches pub_key box_class_name box) (\<lambda>matches.
     if matches then rbind (rbind (py_get box ''value'') as_int) (\<lambda>box_value.
       rbind (rbind (py_get box ''id'') (\<lambda>i.
           assert_true (box_value > 0) (''Non positive value for box: '' @ py_str i @ '' with public key: '' @ py_str pub_key))) (\<lambda>_.
         box_totals pub_key box_class_name (fst acc + 1, snd acc + box_value) boxes))
     else box_totals pub_key box_class_name acc boxes)"

definition check_box_balance :: "'w env \<Rightarrow> sc_node \<Rightarrow> key_pair \<Rightarrow> pyval option \<Rightarrow> pyval \<Rightarrow> pyval \<Rightarrow> ('w, unit) prog" where
  "check_box_balance E sc_node account box_class_name expected_boxes_count expected_balance =
     pbind (sc_call E sc_node ''wallet_allBoxes'' []) (\<lambda>response.
       pbind (plift (rbind (py_in ''result'' response) (\<lambda>ok.
           if ok then rbind (py_get response ''result'') (py_in ''boxes'') else Inr False))) (\<lambda>has_boxes.
         if has_boxes then plift (rbind (rbind (py_path response [''result'', ''boxes'']) py_items) (\<lambda>boxes.
             rbind (box_totals (kp_publicKey account) box_class_name (0, 0) boxes) (\<lambda>(boxes_count, boxes_balance).
             rbind (assert_equal expected_boxes_count (PInt boxes_count) (''Unexpected number of boxes for public key ''
                 @ py_str (kp_publicKey account) @ ''. Expected '' @ py_str expected_boxes_count @ '' but found '' @ str_int boxes_count @ ''.'')) (\<lambda>_.
             rbind (py_times expected_balance 100000000) (\<lambda>expected.
               assert_equal expected (PInt boxes_balance) (''Unexpected sum of balances for public key ''
                 @ py_str (kp_publicKey account) @ ''. Expected '' @ py_str expected @ '' but found '' @ str_int boxes_balance @ ''.''))))))
         else praise RuntimeError (''Something went wrong, see '' @ py_str response) []))"

section \<open>Properties\<close>

definition box_amount :: "pyval \<Rightarrow> int res" where
  "box_amount box = rbind (py_get box ''value'') as_int"

lemma box_totals_run:
  assumes "box_totals pk cls acc boxes = Inr (n, b)"
  shows "\<exists>vs. list_all2 (\<lambda>box v. box_amount box = Inr v \<and> 0 < v) (filter (\<lambda>box. box_matches pk cls box = Inr True) boxes) vs \<and>
    n = fst acc + int (length vs) \<and> b = snd acc + sum_list vs"
  using assms
proof (induction boxes arbitrary: acc)
  case (Cons box boxes)
  from Cons.prems obtain m where m: "box_matches pk cls box = Inr m" by (auto simp: rbind_Inr_iff)
  show ?case
  proof (cases m)
    case True
    with Cons.prems m obtain v where v: "box_amount box = Inr v" "0 < v" and rest: "box_totals pk cls (fst acc + 1, snd acc + v) boxes = Inr (n, b)"
      by (auto simp: rbind_Inr_iff box_amount_def assert_true_def rerr_def split: if_splits)
    from Cons.IH [OF rest] obtain vs where "list_all2 (\<lambda>box v. box_amount box = Inr v \<and> 0 < v) (filter (\<lambda>box. box_matches pk cls box = Inr True) boxes) vs"
      "n = fst acc + 1 + int (length vs)" "b = snd acc + v + sum_list vs" by auto
    with m True v show ?thesis by (intro exI [of _ "v # vs"]) simp
  next
    case False
    with Cons m show ?thesis by simp
  qed
qed simp

text \<open>When the check of a box balance passes, the wallet holds exactly the expected number of boxes of
  the account and type, each of positive value, and their values add up to the expected balance in
  satoshi.\<close>
theorem check_box_balance_sound:
  assumes "check_box_balance E node account cls expected_count expected_balance s = Some (Inr (), t)"
  shows "\<exists>response boxes vs expected. fst (e_sc_api E node ''wallet_allBoxes'' [] [] (w_ext s)) = Inr response \<and>
    rbind (py_path response [''result'', ''boxes'']) py_items = Inr boxes \<and>
    list_all2 (\<lambda>box v. rbind (py_get box ''value'') as_int = Inr v \<and> 0 < v)
      (filter (\<lambda>box. box_matches (kp_publicKey account) cls box = Inr True) boxes) vs \<and>
    py_eq expected_count (PInt (int (length vs))) \<and> py_times expected_balance 100000000 = Inr expected \<and> py_eq expected (PInt (sum_list vs))"
proof -
  from assms obtain response boxes n b expected where r: "fst (e_sc_api E node ''wallet_allBoxes'' [] [] (w_ext s)) = Inr response"
    and bs: "rbind (py_path response [''result'', ''boxes'']) py_items = Inr boxes"
    and tot: "box_totals (kp_publicKey account) cls (0, 0) boxes = Inr (n, b)" and "py_eq expected_count (PInt n)"
    and "py_times expected_balance 100000000 = Inr expected" and "py_eq expected (PInt b)"
    by (auto simp: check_box_balance_def pbind_Inr_iff sc_call_run rbind_Inr_iff assert_equal_def rerr_def Let_def split: if_splits prod.splits)
  with box_totals_run [OF tot] show ?thesis by (auto simp: box_amount_def)
qed

theorem check_box_balance_sound_witness:
  "\<exists>(t :: sample world) vs. check_box_balance sample_env (sample_node ''a'') \<lparr>kp_secret = PNone, kp_publicKey = PStr ''k''\<rparr> None (PInt 1) (PInt 2)
     (sample_world 0 0 [Inr (PDict [(''result'', PDict [(''boxes'', PList [PDict [(''proposition'', PDict [(''publicKey'', PStr ''k'')]),
        (''value'', PInt 200000000), (''id'', PStr ''i'')]])])])]) = Some (Inr (), t) \<and> int (length vs) = 1 \<and> sum_list vs = (200000000 :: int)"
proof -
  let ?s = "sample_world 0 0 [Inr (PDict [(''result'', PDict [(''boxes'', PList [PDict [(''proposition'', PDict [(''publicKey'', PStr ''k'')]),
        (''value'', PInt 200000000), (''id'', PStr ''i'')]])])])]"
  obtain t :: "sample world" where run: "check_box_balance sample_env (sample_node ''a'') \<lparr>kp_secret = PNone, kp_publicKey = PStr ''k''\<rparr> None (PInt 1) (PInt 2)
     ?s = Some (Inr (), t)"
    by (simp add: check_box_balance_def sc_call_run prog_simps sample_world_def box_matches_def assert_true_def assert_equal_def)
  from check_box_balance_sound [OF run] run show ?thesis
    by (auto simp: sample_world_def)
qed

end
