(* ===== verification/Alien_Sidechain.thy ===== *)
theory Alien_Sidechain
  imports Sc_Checks
begin

text \<open>
  Sidechains whose certificates are made by the mainchain's own proof tool
  (\<^verbatim>\<open>qa/test_framework/mc_test/mc_test.py\<close>, \<^verbatim>\<open>create_alien_sidechain\<close> and
  \<^verbatim>\<open>create_certificate_for_alien_sc\<close> of \<^verbatim>\<open>scutil.py\<close>). The tool is an external program; its parameter,
  key and proof files are read as bytes, here as the characters with these codes.
\<close>

section \<open>The proof tool\<close>

record mc_test_utils =
  mt_datadir :: string
  mt_srcdir :: string
  mt_ps_type :: string

definition MCTestUtils :: "string \<Rightarrow> string \<Rightarrow> string \<Rightarrow> mc_test_utils res" where
  "MCTestUtils datadir srcdir ps_type =
     (if ps_type = ''darlin'' \<or> ps_type = ''cob_marlin''
      then Inr \<lparr>mt_datadir = datadir, mt_srcdir = srcdir, mt_ps_type = ps_type\<rparr>
      else rerr AssertionError [] [])"

text \<open>\<open>os.path.dirname\<close> of a path: what precedes the last slash.\<close>

definition path_dirname :: "string \<Rightarrow> string" where
  "path_dirname p = (let h = rev (dropWhile (\<lambda>c. c \<noteq> CHR ''/'') (rev p))
     in if list_all (\<lambda>c. c = CHR ''/'') h then h else rev (dropWhile (\<lambda>c. c = CHR ''/'') (rev h)))"

definition CertTestUtils :: "'w env \<Rightarrow> string \<Rightarrow> string option \<Rightarrow> string \<Rightarrow> ('w, mc_test_utils) prog" where
  "CertTestUtils E datadir srcdir ps_type =
     pbind (case srcdir of Some d \<Rightarrow> pret d
            | None \<Rightarrow> let zendPath = (case e_getenv E ''BITCOIND'' of None \<Rightarrow> ''N.A.'' | Some p \<Rightarrow> p)
                in pbind (py_isfile E zendPath) (\<lambda>b.
                     if b then pret (path_dirname zendPath) else praise PlainException (''no such file: '' @ zendPath) []))
       (\<lambda>d. plift (MCTestUtils datadir d ps_type))"

definition has_constant :: "pyval \<Rightarrow> bool" where
  "has_constant constant \<longleftrightarrow> \<not> py_eq constant PNone \<and> \<not> py_eq constant (PBool False)"

definition get_file_prefix :: "mc_test_utils \<Rightarrow> string \<Rightarrow> pyval \<Rightarrow> string" where
  "get_file_prefix self circ_type constant =
     mt_ps_type self @ ''_'' @ circ_type @ (if has_constant constant then ''_'' else ''_no_const_'')"

definition get_args :: "'w env \<Rightarrow> mc_test_utils \<Rightarrow> string \<Rightarrow> string \<Rightarrow> pyval \<Rightarrow> pyval \<Rightarrow> string \<Rightarrow> string \<Rightarrow> int \<Rightarrow> int \<Rightarrow> string option
    \<Rightarrow> string list" where
  "get_args E self op circuit_type constant keyrot ps_type params_dir num_constraints segment_size proof_path =
     [case e_getenv E ''ZENDOOMC'' of None \<Rightarrow> path_join (mt_srcdir self) ''zendoo/mcTest'' | Some p \<Rightarrow> p]
     @ [op, ''-c'', circuit_type, ''-p'', ps_type, ''-s'', str_int segment_size, ''-n'', str_int num_constraints]
     @ (if has_constant constant
        then [''-k'', if py_eq constant (PBool True) then ''CONSTANT_PLACEHOLDER'' else py_str constant] else [])
     @ (if py_eq keyrot (PBool True) then [''-r''] else [])
     @ [''--'', params_dir]
     @ (case proof_path of None \<Rightarrow> [] | Some p \<Rightarrow> [p])"

definition ensure_dir :: "'w env \<Rightarrow> string \<Rightarrow> ('w, string) prog" where
  "ensure_dir E target_dir = pbind (py_isdir E target_dir) (\<lambda>b.
     pseq (if b then pret () else py_makedirs E target_dir) (pret target_dir))"

definition get_params_dir :: "'w env \<Rightarrow> mc_test_utils \<Rightarrow> pyval \<Rightarrow> ('w, string) prog" where
  "get_params_dir E self tag = ensure_dir E (mt_datadir self @ ''/sc_'' @ py_str tag @ ''_params/'')"

definition get_proofs_dir :: "'w env \<Rightarrow> mc_test_utils \<Rightarrow> pyval \<Rightarrow> ('w, string) prog" where
  "get_proofs_dir E self tag = ensure_dir E (mt_datadir self @ ''/sc_'' @ py_str tag @ ''_proofs/'')"

definition assert_isfile :: "'w env \<Rightarrow> string \<Rightarrow> ('w, unit) prog" where
  "assert_isfile E p = pbind (py_isfile E p) (\<lambda>b. if b then pret () else praise AssertionError [] [])"

definition read_hex_file :: "'w env \<Rightarrow> string \<Rightarrow> ('w, pyval) prog" where
  "read_hex_file E p = pseq (assert_isfile E p) (pbind (pext (e_read E p)) (\<lambda>c. pret (PStr (hexlify (map of_char c)))))"

definition have_params :: "'w env \<Rightarrow> string \<Rightarrow> ('w, bool) prog" where
  "have_params E prefix = pbind (py_isfile E (prefix @ ''test_pk'')) (\<lambda>pk.
     if pk then py_isfile E (prefix @ ''test_vk'') else pret False)"

text \<open>Parameters that exist already are not read: the result is then \<open>None\<close>, not the key.\<close>

definition generate_params_in :: "'w env \<Rightarrow> mc_test_utils \<Rightarrow> pyval \<Rightarrow> string \<Rightarrow> pyval \<Rightarrow> pyval \<Rightarrow> string \<Rightarrow> int \<Rightarrow> int \<Rightarrow> ('w, pyval) prog" where
  "generate_params_in E self tag circuit_type constant keyrot file_prefix num_constraints segment_size =
     pbind (get_params_dir E self tag) (\<lambda>params_dir.
     pbind (have_params E (params_dir @ file_prefix)) (\<lambda>present.
       if present then pret PNone
       else pseq (py_check_call E (get_args E self ''generate'' circuit_type constant keyrot (mt_ps_type self) params_dir num_constraints segment_size None))
         (pseq (assert_isfile E (params_dir @ file_prefix @ ''test_pk''))
           (read_hex_file E (params_dir @ file_prefix @ ''test_vk'')))))"

definition cert_generate_params :: "'w env \<Rightarrow> mc_test_utils \<Rightarrow> pyval \<Rightarrow> pyval \<Rightarrow> ('w, pyval) prog" where
  "cert_generate_params E self tag keyrot =
     generate_params_in E self tag ''cert'' (PBool True) keyrot (get_file_prefix self ''cert'' (PBool True)) 1024 512"

definition csw_generate_params :: "'w env \<Rightarrow> mc_test_utils \<Rightarrow> pyval \<Rightarrow> pyval \<Rightarrow> ('w, pyval) prog" where
  "csw_generate_params E self tag keyrot =
     generate_params_in E self tag ''csw'' (PBool True) keyrot (get_file_prefix self ''csw'' (PBool True)) 1024 512"

text \<open>\<^verbatim>\<open>str(int(round(amount * COIN)))\<close>\<close>

definition satoshi_arg :: "pyval \<Rightarrow> string res" where
  "satoshi_arg amount = rbind (as_num amount) (\<lambda>q. Inr (str_int (py_round (q * 100000000))))"

definition payment_args :: "(pyval \<times> pyval) list \<Rightarrow> string list res" where
  "payment_args payments = rbind (rmap (\<lambda>(pk, amount). rbind (satoshi_arg amount) (\<lambda>a. Inr [py_str pk, a])) payments) (\<lambda>args.
     Inr (concat args))"

definition cert_create_test_proof ::
  "'w env \<Rightarrow> mc_test_utils \<Rightarrow> pyval \<Rightarrow> pyval \<Rightarrow> int \<Rightarrow> int \<Rightarrow> pyval \<Rightarrow> pyval \<Rightarrow> pyval \<Rightarrow> pyval \<Rightarrow> pyval \<Rightarrow> pyval list \<Rightarrow> pyval list
    \<Rightarrow> pyval list \<Rightarrow> pyval \<Rightarrow> ('w, pyval) prog" where
  "cert_create_test_proof E self tag scid epoch_number quality btr_fee ft_min_amount end_cum_comm_tree_root prev_cert_hash
      constant pks amounts custom_fields keyrot =
     (let file_prefix = get_file_prefix self ''cert'' constant
      in pbind (get_params_dir E self tag) (\<lambda>params_dir.
         pbind (have_params E (params_dir @ file_prefix)) (\<lambda>present.
         if \<not> present then pret PNone
         else pbind (get_proofs_dir E self tag) (\<lambda>proofs_dir.
           let proof_path = proofs_dir @ ''_epoch_'' @ str_int epoch_number @ ''_'' @ file_prefix @ ''_proof'';
               args = get_args E self ''create'' ''cert'' constant keyrot (mt_ps_type self) params_dir 1024 512 (Some proof_path);
               prev = (if prev_cert_hash = PNone then ''NO_PREV_CERT_HASH''
                       else if py_eq prev_cert_hash (PInt 0) then ''PHANTOM_PREV_CERT_HASH'' else py_str prev_cert_hash)
           in pbind (plift (satoshi_arg btr_fee)) (\<lambda>fee.
              pbind (plift (satoshi_arg ft_min_amount)) (\<lambda>min_amount.
              pbind (plift (payment_args (zip pks amounts))) (\<lambda>payments.
              pseq (py_check_call E (args
                  @ [py_str scid, py_str end_cum_comm_tree_root, prev, str_int epoch_number, str_int quality, fee, min_amount]
                  @ [str_int (int (length pks))] @ payments
                  @ [str_int (int (length custom_fields))] @ map py_str custom_fields))
                (read_hex_file E proof_path))))))))"

definition csw_create_test_proof ::
  "'w env \<Rightarrow> mc_test_utils \<Rightarrow> pyval \<Rightarrow> pyval \<Rightarrow> pyval \<Rightarrow> pyval \<Rightarrow> pyval \<Rightarrow> pyval \<Rightarrow> pyval \<Rightarrow> pyval \<Rightarrow> ('w, pyval) prog" where
  "csw_create_test_proof E self tag amount sc_id nullifier mc_pk_hash end_cum_comm_tree_root cert_data_hash constant =
     (let file_prefix = get_file_prefix self ''csw'' constant
      in pbind (get_params_dir E self tag) (\<lambda>params_dir.
         pbind (have_params E (params_dir @ file_prefix)) (\<lambda>present.
         if \<not> present then pret PNone
         else pbind (get_proofs_dir E self tag) (\<lambda>proofs_dir.
           let proof_path = proofs_dir @ ''_addr_'' @ py_str mc_pk_hash @ ''_'' @ file_prefix @ ''_proof'';
               args = get_args E self ''create'' ''csw'' constant PNone (mt_ps_type self) params_dir 1024 512 (Some proof_path);
               data_hash = (if cert_data_hash = PNone then ''NO_CERT_DATA_HASH'' else py_str cert_data_hash)
           in pbind (plift (satoshi_arg amount)) (\<lambda>satoshis.
              pseq (py_check_call E (args
                  @ [py_str sc_id, py_str end_cum_comm_tree_root, data_hash, satoshis, py_str nullifier, py_str mc_pk_hash]))
                (read_hex_file E proof_path))))))"

definition generate_random_field_element_hex :: "'w env \<Rightarrow> ('w, string) prog" where
  "generate_random_field_element_hex E = pext (\<lambda>w. case e_urandom E 31 w of (bs, w') \<Rightarrow> (Inr (hexlify bs @ ''00''), w'))"

definition generate_random_field_element_hex_list :: "'w env \<Rightarrow> int \<Rightarrow> ('w, string list) prog" where
  "generate_random_field_element_hex_list E n = pmap (\<lambda>i. generate_random_field_element_hex E) (py_range n)"

section \<open>Sidechains and certificates made with it\<close>

definition in_raw_mempool :: "'w env \<Rightarrow> mc_node \<Rightarrow> pyval \<Rightarrow> ('w, unit) prog" where
  "in_raw_mempool E mc_node txid = pbind (mc_call E mc_node ''getrawmempool'' []) (\<lambda>pool.
     pbind (plift (py_member txid pool)) (\<lambda>b. plift (assert_equal (PBool True) (PBool b) [])))"

definition or_assertion :: "('w, 'a) prog \<Rightarrow> ('w, 'a) prog" where
  "or_assertion m = ptry m (\<lambda>e. if exn_isinstance (err_kind e) PlainException then praise AssertionError [] [] else pthrow e)"

definition create_alien_sidechain :: "'w env \<Rightarrow> mc_test_utils \<Rightarrow> mc_node \<Rightarrow> int \<Rightarrow> int \<Rightarrow> pyval \<Rightarrow> pyval list \<Rightarrow> ('w, pyval) prog" where
  "create_alien_sidechain E mcTest mc_node scVersion epochLength customHexTag feCfgList =
     (let sc_tag = customHexTag; keyrot = PBool (scVersion = 2)
      in pbind (cert_generate_params E mcTest sc_tag keyrot) (\<lambda>vk.
         pbind (generate_random_field_element_hex E) (\<lambda>constant.
         pbind (or_assertion (mc_call E mc_node ''sc_create'' [PDict
            [(''version'', PInt scVersion), (''withdrawalEpochLength'', PInt epochLength), (''toaddress'', PStr ''dada''),
             (''amount'', PFloat (1 / 10)), (''wCertVk'', vk), (''constant'', PStr constant), (''customData'', sc_tag),
             (''wCeasedVk'', PStr []), (''vFieldElementCertificateFieldConfig'', PList feCfgList),
             (''vBitVectorCertificateFieldConfig'', PList [])]])) (\<lambda>ret.
         pbind (plift (py_get ret ''txid'')) (\<lambda>txid.
         pseq (in_raw_mempool E mc_node txid) (pret ret))))))"

definition send_raw_certificate :: "'w env \<Rightarrow> mc_node \<Rightarrow> pyval \<Rightarrow> pyval \<Rightarrow> pyval \<Rightarrow> ('w, pyval) prog" where
  "send_raw_certificate E mc_node inputs outputs params =
     pbind (mc_call E mc_node ''createrawcertificate'' [inputs, outputs, PList [], params]) (\<lambda>rawcert.
     pbind (mc_call E mc_node ''signrawtransaction'' [rawcert]) (\<lambda>signed_cert.
     pbind (plift (py_get signed_cert ''hex'')) (\<lambda>h. mc_call E mc_node ''sendrawtransaction'' [h])))"

definition create_certificate_for_alien_sc ::
  "'w env \<Rightarrow> mc_test_utils \<Rightarrow> pyval \<Rightarrow> mc_node \<Rightarrow> string list \<Rightarrow> pyval \<Rightarrow> ('w, pyval) prog" where
  "create_certificate_for_alien_sc E mcTest scid mc_node fePatternArray prev_cert_data_hash =
     pbind (get_scinfo_data E scid mc_node) (\<lambda>(epoch_number, epoch_cum_tree_hash, sc_version, constant, sc_tag).
     pbind (get_spendable E mc_node (1 / 10000)) (\<lambda>(utx, change).
     pbind (plift (py_get utx ''txid'')) (\<lambda>txid.
     pbind (plift (py_get utx ''vout'')) (\<lambda>vout.
     pbind (mc_call E mc_node ''getnewaddress'' []) (\<lambda>address.
     pbind (plift (rmap (\<lambda>pattern. rbind (as_int sc_version) (get_field_element_with_padding pattern)) fePatternArray)) (\<lambda>feList.
     pbind (plift (rbind (as_str scid) swap_bytes)) (\<lambda>scid_swapped.
     let prev_cert_hash = (if py_eq sc_version (PInt 2) \<and> py_eq prev_cert_data_hash PNone then PInt 0 else prev_cert_data_hash)
     in pbind (cert_create_test_proof E mcTest sc_tag (PStr scid_swapped) epoch_number 10 (PFloat 0) (PFloat 0) epoch_cum_tree_hash
                 prev_cert_hash constant [] [] (map PStr feList) (PBool False)) (\<lambda>scProof.
        pbind (or_assertion (send_raw_certificate E mc_node
            (PList [PDict [(''txid'', txid), (''vout'', vout)]]) (PDict [(py_str address, PDec change)])
            (PDict [(''scid'', scid), (''quality'', PInt 10), (''endEpochCumScTxCommTreeRoot'', epoch_cum_tree_hash),
               (''scProof'', scProof), (''withdrawalEpochNumber'', PInt epoch_number),
               (''vFieldElementCertificateField'', PList (map PStr fePatternArray)),
               (''vBitVectorCertificateField'', PList [])]))) (\<lambda>cert.
        pseq (in_raw_mempool E mc_node cert) (pret cert))))))))))"

end
