(* ===== verification/Auth_Proxy.thy ===== *)
theory Auth_Proxy
  imports Util_Codec Json Sample_Env
begin

text \<open>
  The proxies that turn a method call into an HTTP request: \<^verbatim>\<open>AuthServiceProxy\<close>
  (\<^verbatim>\<open>qa/test_framework/authproxy.py\<close>, JSON-RPC to a mainchain node) and \<^verbatim>\<open>SidechainAuthServiceProxy\<close>
  (\<^verbatim>\<open>qa/SidechainTestFramework/sidechainauthproxy.py\<close>, REST and Ethereum RPC to a sidechain node).

  The HTTP connection of the standard library is a parameter: sending a request, reading a response
  and closing the connection act on the state \<open>ps_conn\<close>. A proxy call is a function on the state
  \<open>proxy_state\<close>, which also holds the class variable that counts the calls and the list of the
  requests sent. The URL of a service is given in its parts. Lost connections are raised as
  \<open>ConnectionError\<close> with the name of the Python class as the message.
\<close>

section \<open>Connections and actions\<close>

type_synonym headers = "(string \<times> pyval) list"

record http_request =
  rq_method :: string
  rq_path :: string
  rq_body :: pyval
  rq_headers :: headers

record 'w proxy_state =
  ps_id_count :: int
  ps_sent :: "http_request list"
  ps_conn :: 'w

record 'w http =
  h_request :: "http_request \<Rightarrow> 'w \<Rightarrow> unit res \<times> 'w"
  h_getresponse :: "'w \<Rightarrow> (int \<times> string) option res \<times> 'w"
  h_close :: "'w \<Rightarrow> 'w"

type_synonym ('w, 'a) act = "'w proxy_state \<Rightarrow> 'a res \<times> 'w proxy_state"

definition aret :: "'a \<Rightarrow> ('w, 'a) act" where
  "aret x = (\<lambda>s. (Inr x, s))"

definition alift :: "'a res \<Rightarrow> ('w, 'a) act" where
  "alift r = (\<lambda>s. (r, s))"

definition abind :: "('w, 'a) act \<Rightarrow> ('a \<Rightarrow> ('w, 'b) act) \<Rightarrow> ('w, 'b) act" where
  "abind m f = (\<lambda>s. case m s of (Inl e, t) \<Rightarrow> (Inl e, t) | (Inr x, t) \<Rightarrow> f x t)"

definition atry :: "('w, 'a) act \<Rightarrow> (pyerr \<Rightarrow> ('w, 'a) act) \<Rightarrow> ('w, 'a) act" where
  "atry m h = (\<lambda>s. case m s of (Inl e, t) \<Rightarrow> h e t | (Inr x, t) \<Rightarrow> (Inr x, t))"

definition send_request :: "'w http \<Rightarrow> http_request \<Rightarrow> ('w, unit) act" where
  "send_request H rq = (\<lambda>s. case h_request H rq (ps_conn s) of
     (r, c) \<Rightarrow> (r, s\<lparr>ps_sent := ps_sent s @ [rq], ps_conn := c\<rparr>))"

definition read_response :: "'w http \<Rightarrow> ('w, (int \<times> string) option) act" where
  "read_response H = (\<lambda>s. case h_getresponse H (ps_conn s) of (r, c) \<Rightarrow> (r, s\<lparr>ps_conn := c\<rparr>))"

definition close_conn :: "'w http \<Rightarrow> ('w, unit) act" where
  "close_conn H = (\<lambda>s. (Inr (), s\<lparr>ps_conn := h_close H (ps_conn s)\<rparr>))"

definition count_call :: "('w, int) act" where
  "count_call = (\<lambda>s. (Inr (ps_id_count s + 1), s\<lparr>ps_id_count := ps_id_count s + 1\<rparr>))"

text \<open>
  The errors after which a request is repeated once. The two proxies differ in the status lines
  they accept as the sign of a closed connection.
\<close>

definition is_disconnect :: "string list \<Rightarrow> pyerr \<Rightarrow> bool" where
  "is_disconnect status_lines e \<longleftrightarrow> err_kind e = ConnectionError \<and>
     ((err_msg e = ''BadStatusLine'' \<and> list_ex (\<lambda>l. err_args e = [PStr l]) status_lines)
      \<or> err_msg e \<in> set [''BrokenPipeError'', ''ConnectionResetError'']
      \<or> (err_msg e = ''error'' \<and> err_args e \<in> set [[PInt 10053], [PInt 10054]]))"

definition request_with_retry :: "'w http \<Rightarrow> string list \<Rightarrow> ('w, pyval) act \<Rightarrow> http_request \<Rightarrow> ('w, pyval) act" where
  "request_with_retry H status_lines get_response rq =
     atry (abind (send_request H rq) (\<lambda>_. get_response))
       (\<lambda>e. if is_disconnect status_lines e
            then abind (close_conn H) (\<lambda>_. abind (send_request H rq) (\<lambda>_. get_response))
            else alift (Inl e))"

section \<open>JSON-RPC to the mainchain\<close>

record service_url =
  url_hostname :: string
  url_path :: string
  url_username :: "string option"
  url_password :: "string option"

record mc_proxy =
  mp_url :: service_url
  mp_service_name :: "string option"
  mp_auth_header :: pyval

text \<open>A URL without user or password fails when the two are joined.\<close>

definition AuthServiceProxy :: "service_url \<Rightarrow> string option \<Rightarrow> mc_proxy res" where
  "AuthServiceProxy url service_name = (case (url_username url, url_password url) of
      (Some user, Some passwd) \<Rightarrow> Inr \<lparr>mp_url = url, mp_service_name = service_name,
        mp_auth_header = PBytes (utf8 (''Basic '' @ b64encode (utf8 user @ utf8 '':'' @ utf8 passwd)))\<rparr>
    | _ \<Rightarrow> rerr TypeError ''unsupported operand'' [])"

text \<open>Python looks up an attribute that does not exist: the name of a service, dotted onto an
  earlier one.\<close>

definition attr_name :: "string option \<Rightarrow> string \<Rightarrow> string res" where
  "attr_name service_name name =
     (if is_prefix ''__'' name \<and> ends_with name ''__'' then rerr AttributeError [] []
      else Inr (case service_name of None \<Rightarrow> name | Some s \<Rightarrow> s @ ''.'' @ name))"

definition mc_getattr :: "mc_proxy \<Rightarrow> string \<Rightarrow> mc_proxy res" where
  "mc_getattr self name = rbind (attr_name (mp_service_name self) name) (\<lambda>n. AuthServiceProxy (mp_url self) (Some n))"

text \<open>\<^verbatim>\<open>json.dumps(..., default=EncodeDecimal)\<close>: decimals become floats.\<close>

fun encode_decimal :: "pyval \<Rightarrow> pyval" where
  "encode_decimal (PDec q) = PFloat q"
| "encode_decimal (PList vs) = PList (map encode_decimal vs)"
| "encode_decimal (PTuple vs) = PTuple (map encode_decimal vs)"
| "encode_decimal (PDict d) = PDict (map (\<lambda>kv. (fst kv, encode_decimal (snd kv))) d)"
| "encode_decimal v = v"

definition json_dumps_dec :: "pyval \<Rightarrow> string res" where
  "json_dumps_dec v = json_dumps (encode_decimal v)"

text \<open>The log line of a successful answer already needs its \<open>id\<close> and its \<open>result\<close>.\<close>

definition mc_get_response :: "'w http \<Rightarrow> ('w, pyval) act" where
  "mc_get_response H = abind (read_response H) (\<lambda>http_response. case http_response of
      None \<Rightarrow> alift (rerr JSONRPCException [] [PDict [(''code'', PInt (- 342)), (''message'', PStr ''missing HTTP response from server'')]])
    | Some (status, responsedata) \<Rightarrow> alift (rbind (json_parse PDec responsedata) (\<lambda>response.
        rbind (rbind (py_in ''error'' response) (\<lambda>b.
            if b then rbind (py_get response ''error'') (\<lambda>e. Inr (e = PNone)) else Inr False)) (\<lambda>no_error.
          if no_error then rbind (py_get response ''id'') (\<lambda>i. rbind (py_get response ''result'') (\<lambda>r.
            rbind (json_dumps_dec r) (\<lambda>shown. Inr response)))
          else Inr response))))"

definition mc_status_lines :: "string list" where
  "mc_status_lines = [[CHR 0x27, CHR 0x27], ''No status line received - the server has closed the connection'']"

definition mc_request :: "'w http \<Rightarrow> mc_proxy \<Rightarrow> string \<Rightarrow> string \<Rightarrow> pyval \<Rightarrow> ('w, pyval) act" where
  "mc_request H self method path postdata =
     request_with_retry H mc_status_lines (mc_get_response H)
       \<lparr>rq_method = method, rq_path = path, rq_body = postdata,
        rq_headers = [(''Host'', PStr (url_hostname (mp_url self))), (''User-Agent'', PStr ''AuthServiceProxy/0.1''),
          (''Authorization'', mp_auth_header self), (''Content-type'', PStr ''application/json'')]\<rparr>"

definition rpc_body :: "mc_proxy \<Rightarrow> pyval list \<Rightarrow> int \<Rightarrow> pyval" where
  "rpc_body self args n = PDict [(''version'', PStr ''1.1''),
     (''method'', case mp_service_name self of None \<Rightarrow> PNone | Some m \<Rightarrow> PStr m), (''params'', PTuple args), (''id'', PInt n)]"

definition rpc_result :: "pyval \<Rightarrow> pyval res" where
  "rpc_result response = rbind (py_get response ''error'') (\<lambda>e.
     if e \<noteq> PNone then rerr JSONRPCException [] [e]
     else rbind (py_in ''result'' response) (\<lambda>b.
       if \<not> b then rerr JSONRPCException [] [PDict [(''code'', PInt (- 343)), (''message'', PStr ''missing JSON-RPC result'')]]
       else py_get response ''result''))"

definition mc_proxy_call :: "'w http \<Rightarrow> mc_proxy \<Rightarrow> pyval list \<Rightarrow> ('w, pyval) act" where
  "mc_proxy_call H self args =
     abind count_call (\<lambda>n.
     abind (alift (json_dumps_dec (PTuple args))) (\<lambda>shown.
     abind (alift (json_dumps_dec (rpc_body self args n))) (\<lambda>postdata.
     abind (mc_request H self ''POST'' (url_path (mp_url self)) (PStr postdata)) (\<lambda>response.
       alift (rpc_result response)))))"

definition mc_batch :: "'w http \<Rightarrow> mc_proxy \<Rightarrow> pyval list \<Rightarrow> ('w, pyval) act" where
  "mc_batch H self rpc_call_list =
     abind (alift (json_dumps_dec (PList rpc_call_list))) (\<lambda>postdata.
       mc_request H self ''POST'' (url_path (mp_url self)) (PStr postdata))"

section \<open>REST and Ethereum RPC to a sidechain node\<close>

text \<open>\<open>sp_repr\<close> is the text Python prints for a proxy object; it stands for the user name in the
  header of a call that brings its own key to a proxy without one.\<close>

record sc_proxy =
  sp_hostname :: string
  sp_service_name :: "string option"
  sp_auth_api_key :: "string option"
  sp_repr :: string

definition basic_auth :: "string \<Rightarrow> string \<Rightarrow> string" where
  "basic_auth username password = ''Basic '' @ b64encode (utf8 (username @ '':'' @ password))"

definition sc_getattr :: "sc_proxy \<Rightarrow> string \<Rightarrow> sc_proxy res" where
  "sc_getattr self name = rbind (attr_name (sp_service_name self) name) (\<lambda>n. Inr (self\<lparr>sp_service_name := Some n\<rparr>))"

text \<open>
  The authorisation header. Without any key the attribute \<^verbatim>\<open>__auth_header\<close> does not exist, and the
  proxy makes a new proxy of that name; encoding it for the wire calls it while the request is
  being sent, which the connection refuses.
\<close>

definition sc_auth_header :: "sc_proxy \<Rightarrow> pyval option \<Rightarrow> pyval option" where
  "sc_auth_header self api_key = (case api_key of
      Some k \<Rightarrow> Some (PStr (basic_auth (case sp_auth_api_key self of None \<Rightarrow> sp_repr self | Some _ \<Rightarrow> ''user'') (py_str k)))
    | None \<Rightarrow> map_option (\<lambda>k. PBytes (utf8 (basic_auth ''user'' k))) (sp_auth_api_key self))"

definition sc_get_response :: "'w http \<Rightarrow> ('w, pyval) act" where
  "sc_get_response H = abind (read_response H) (\<lambda>http_response. case http_response of
      None \<Rightarrow> alift (rerr SCAPIException ''missing HTTP response from server'' [])
    | Some (status, responsedata) \<Rightarrow>
        if status \<noteq> 200 then alift (rerr SCAPIException responsedata []) else alift (json_parse PDec responsedata))"

definition sc_request :: "'w http \<Rightarrow> sc_proxy \<Rightarrow> string \<Rightarrow> string \<Rightarrow> pyval \<Rightarrow> pyval option \<Rightarrow> ('w, pyval) act" where
  "sc_request H self method path postdata api_key = (case sc_auth_header self api_key of
      None \<Rightarrow> abind count_call (\<lambda>_. alift (rerr ConnectionError ''CannotSendRequest'' []))
    | Some auth \<Rightarrow>
        request_with_retry H [[CHR 0x27, CHR 0x27]] (sc_get_response H)
          \<lparr>rq_method = method, rq_path = path, rq_body = postdata,
           rq_headers = [(''Host'', PStr (sp_hostname self)), (''User-Agent'', PStr ''SidechainAuthServiceProxy/0.1''),
             (''Content-type'', PStr ''application/json''), (''Authorization'', auth)]\<rparr>)"

text \<open>\<^verbatim>\<open>re.split(sep, s, maxsplit=1)[1]\<close>\<close>

fun after_first :: "string \<Rightarrow> string \<Rightarrow> string res" where
  "after_first sep [] = (if sep = [] then Inr [] else rerr IndexError ''list index out of range'' [])"
| "after_first sep (c # cs) = (if is_prefix sep (c # cs) then Inr (drop (length sep) (c # cs)) else after_first sep cs)"

definition method_and_path :: "string \<Rightarrow> (string \<times> string) res" where
  "method_and_path service_name =
     (if is_prefix ''get'' service_name then rbind (after_first ''get_'' service_name) (\<lambda>p. Inr (''GET'', p))
      else Inr (''POST'', service_name))"

definition route :: "string \<Rightarrow> pyval list \<Rightarrow> (string \<times> pyval list) res" where
  "route path args =
     (if is_substr ''rpc_'' path
      then rbind (create_json2_rpc_request (py_replace ''rpc_'' [] path) (PTuple args)) (\<lambda>body. Inr (''/ethv1'', [PStr body]))
      else Inr (''/'' @ py_replace ''_'' ''/'' path, args))"

definition post_data :: "pyval list \<Rightarrow> (string \<times> pyval) list \<Rightarrow> pyval res" where
  "post_data args kwargs =
     (if kwargs \<noteq> [] then rbind (json_dumps (PDict kwargs)) (\<lambda>t. Inr (PStr t))
      else Inr (case args of [] \<Rightarrow> PNone | a # _ \<Rightarrow> a))"

definition call_auth :: "pyval list \<Rightarrow> pyval option" where
  "call_auth args = (case args of a # k # _ \<Rightarrow> (if py_eq k PNone then None else Some k) | _ \<Rightarrow> None)"

definition sc_proxy_call :: "'w http \<Rightarrow> sc_proxy \<Rightarrow> pyval list \<Rightarrow> (string \<times> pyval) list \<Rightarrow> ('w, pyval) act" where
  "sc_proxy_call H self args kwargs = abind count_call (\<lambda>_.
     case sp_service_name self of
       None \<Rightarrow> alift (rerr TypeError ''expected string or bytes-like object'' [])
     | Some name \<Rightarrow>
         abind (alift (method_and_path name)) (\<lambda>(method, p).
         abind (alift (route p args)) (\<lambda>(path, args).
         abind (alift (post_data args kwargs)) (\<lambda>postdata.
           sc_request H self method path postdata (call_auth args)))))"

section \<open>What a proxy does to the connection\<close>

text \<open>
  The signs of a lost connection, one rule for each: a status line that the proxy knows to mean a
  closed connection, a broken pipe, a reset, and the two Windows error numbers.
\<close>

inductive lost_connection :: "string set \<Rightarrow> pyerr \<Rightarrow> bool" for status_lines where
  bad_status: "l \<in> status_lines \<Longrightarrow> lost_connection status_lines (PyErr ConnectionError ''BadStatusLine'' [PStr l])"
| broken_pipe: "lost_connection status_lines (PyErr ConnectionError ''BrokenPipeError'' a)"
| reset_by_peer: "lost_connection status_lines (PyErr ConnectionError ''ConnectionResetError'' a)"
| aborted: "lost_connection status_lines (PyErr ConnectionError ''error'' [PInt 10053])"
| reset_10054: "lost_connection status_lines (PyErr ConnectionError ''error'' [PInt 10054])"

text \<open>The connection itself, in state \<open>c\<close>, is lost while the request is sent or its response is read.\<close>

definition loses_connection :: "'w http \<Rightarrow> string set \<Rightarrow> http_request \<Rightarrow> 'w \<Rightarrow> bool" where
  "loses_connection H status_lines rq c \<longleftrightarrow> (case h_request H rq c of
      (Inl e, _) \<Rightarrow> lost_connection status_lines e
    | (Inr _, d) \<Rightarrow> (case h_getresponse H d of (Inl e, _) \<Rightarrow> lost_connection status_lines e | _ \<Rightarrow> False))"

lemma lost_connectionI:
  assumes "err_kind e = ConnectionError"
    and "(err_msg e = ''BadStatusLine'' \<and> (\<exists>l \<in> ls. err_args e = [PStr l])) \<or> err_msg e = ''BrokenPipeError'' \<or>
      err_msg e = ''ConnectionResetError'' \<or> (err_msg e = ''error'' \<and> (err_args e = [PInt 10053] \<or> err_args e = [PInt 10054]))"
  shows "lost_connection ls e"
  using assms(2)
proof (elim disjE conjE bexE)
qed (use assms(1) in \<open>cases e; simp add: lost_connection.intros\<close>)+

lemma is_disconnect_lost: "is_disconnect ls e \<longleftrightarrow> lost_connection (set ls) e"
proof
  assume "is_disconnect ls e"
  then show "lost_connection (set ls) e"
    unfolding is_disconnect_def list_ex_iff set_simps insert_iff empty_iff by (intro lost_connectionI) simp_all
next
  assume "lost_connection (set ls) e"
  then show "is_disconnect ls e" by cases (simp_all add: is_disconnect_def list_ex_iff)
qed

lemma lost_connection_kind: "lost_connection ls e \<Longrightarrow> err_kind e = ConnectionError"
  by (auto simp: lost_connection.simps)

text \<open>
  A reader of responses neither sends requests nor counts calls, and what the connection raises is
  the only connection error that it raises. A request with such a reader sends the same request
  once, or twice if the first attempt lost the connection.
\<close>

locale response_reader =
  fixes get_response :: "'w http \<Rightarrow> ('w, pyval) act"
  assumes reads_only: "get_response H s = (r, t) \<Longrightarrow> ps_sent t = ps_sent s \<and> ps_id_count t = ps_id_count s"
    and raises_conn: "h_getresponse H (ps_conn s) = (Inl e, c) \<Longrightarrow> fst (get_response H s) = Inl e"
    and raises_other: "h_getresponse H (ps_conn s) = (Inr a, c) \<Longrightarrow> fst (get_response H s) = Inl e \<Longrightarrow> err_kind e \<noteq> ConnectionError"
begin

lemma attempt:
  assumes "abind (send_request H rq) (\<lambda>_. get_response H) s = (r, t)"
  shows "ps_sent t = ps_sent s @ [rq] \<and> ps_id_count t = ps_id_count s"
  using assms by (auto simp: abind_def send_request_def split: prod.splits sum.splits dest: reads_only)

lemma attempt_lost:
  assumes "abind (send_request H rq) (\<lambda>_. get_response H) s = (r, t)"
  shows "loses_connection H (set ls) rq (ps_conn s) \<longleftrightarrow> (\<exists>e. r = Inl e \<and> is_disconnect ls e)"
proof (cases "h_request H rq (ps_conn s)")
  case (Pair q c)
  show ?thesis
  proof (cases q)
    case (Inl e)
    with Pair assms show ?thesis by (auto simp: loses_connection_def abind_def send_request_def is_disconnect_lost)
  next
    case (Inr x)
    let ?u = "s\<lparr>ps_sent := ps_sent s @ [rq], ps_conn := c\<rparr>"
    have r: "r = fst (get_response H ?u)" using Pair Inr assms by (auto simp: abind_def send_request_def split: prod.splits sum.splits)
    obtain a d where g: "h_getresponse H (ps_conn ?u) = (a, d)" by fastforce
    show ?thesis
    proof (cases a)
      case (Inl e)
      with raises_conn [OF g [unfolded Inl]] Pair Inr r g show ?thesis by (simp add: loses_connection_def is_disconnect_lost)
    next
      case (Inr b)
      with raises_other [OF g [unfolded Inr]] Pair \<open>q = Inr x\<close> r g show ?thesis
        by (auto simp: loses_connection_def is_disconnect_lost dest: lost_connection_kind)
    qed
  qed
qed

lemma retry:
  assumes "request_with_retry H ls (get_response H) rq s = (r, t)"
  shows "ps_sent t = ps_sent s @ (if loses_connection H (set ls) rq (ps_conn s) then [rq, rq] else [rq]) \<and> ps_id_count t = ps_id_count s"
proof -
  obtain q u where first: "abind (send_request H rq) (\<lambda>_. get_response H) s = (q, u)" by fastforce
  note one = attempt [OF first] and lost = attempt_lost [OF first, of ls]
  show ?thesis
  proof (cases "\<exists>e. q = Inl e \<and> is_disconnect ls e")
    case True
    let ?v = "u\<lparr>ps_conn := h_close H (ps_conn u)\<rparr>"
    from assms first True have "abind (send_request H rq) (\<lambda>_. get_response H) ?v = (r, t)"
      by (auto simp: request_with_retry_def atry_def abind_def close_conn_def)
    from attempt [OF this] one lost True show ?thesis by simp
  next
    case False
    then have "t = u" using assms first by (auto simp: request_with_retry_def atry_def alift_def split: sum.splits if_splits)
    with one lost False show ?thesis by simp
  qed
qed

end

lemma rbind_Inl_iff: "rbind m f = Inl e \<longleftrightarrow> m = Inl e \<or> (\<exists>x. m = Inr x \<and> f x = Inl e)"
  by (cases m) auto

lemma rmap_Inl: "rmap f xs = Inl e \<Longrightarrow> \<exists>x \<in> set xs. f x = Inl e"
  by (induction xs) (auto simp: rbind_Inl_iff)

lemma json_dumps_kind: "json_dumps v = Inl e \<Longrightarrow> err_kind e = TypeError"
  by (induction v rule: json_dumps.induct) (fastforce simp: rbind_Inl_iff rerr_def dest!: rmap_Inl)+

lemma py_get_kind: "py_get v k = Inl e \<Longrightarrow> err_kind e \<noteq> ConnectionError"
  by (cases v) (auto simp: rerr_def split: option.splits)

lemma py_in_kind: "py_in k v = Inl e \<Longrightarrow> err_kind e \<noteq> ConnectionError"
  by (cases v) (auto simp: rerr_def)

lemma json_parse_kind: "json_parse mk x = Inl e \<Longrightarrow> err_kind e \<noteq> ConnectionError"
  by (auto simp: json_parse_def rerr_def split: option.splits if_splits prod.splits)

lemma json_dumps_dec_kind: "json_dumps_dec v = Inl e \<Longrightarrow> err_kind e \<noteq> ConnectionError"
  by (auto simp: json_dumps_dec_def dest: json_dumps_kind)

lemmas answer_kinds = py_get_kind py_in_kind json_parse_kind json_dumps_dec_kind

interpretation mc_reader: response_reader mc_get_response
proof
  fix H :: "'a http" and s e a c
  assume "h_getresponse H (ps_conn s) = (Inr a, c)" "fst (mc_get_response H s) = Inl e"
  then show "err_kind e \<noteq> ConnectionError"
    by (auto simp: mc_get_response_def read_response_def abind_def alift_def rbind_Inl_iff rerr_def
        split: option.splits if_splits dest: answer_kinds)
qed (auto simp: mc_get_response_def read_response_def abind_def alift_def split: prod.splits sum.splits option.splits)

interpretation sc_reader: response_reader sc_get_response
proof
  fix H :: "'a http" and s e a c
  assume "h_getresponse H (ps_conn s) = (Inr a, c)" "fst (sc_get_response H s) = Inl e"
  then show "err_kind e \<noteq> ConnectionError"
    by (auto simp: sc_get_response_def read_response_def abind_def alift_def rerr_def
        split: option.splits if_splits dest: answer_kinds)
qed (auto simp: sc_get_response_def read_response_def abind_def alift_def split: prod.splits sum.splits option.splits if_splits)

lemma encode_decimal_json: "json_value v \<Longrightarrow> encode_decimal v = v"
proof (induction v rule: encode_decimal.induct)
  case (2 vs)
  then show ?case by (auto simp: list_all_iff intro: map_idI)
next
  case (4 d)
  then show ?case by (auto simp: list_all_iff intro!: map_idI)
qed auto

lemma dumps_tuple: "json_dumps (PTuple vs) = json_dumps (PList vs)"
  by simp

text \<open>The JSON-RPC request of a call: what the body says.\<close>

definition rpc_request :: "mc_proxy \<Rightarrow> pyval list \<Rightarrow> int \<Rightarrow> pyval" where
  "rpc_request self args n = PDict [(''version'', PStr ''1.1''),
     (''method'', case mp_service_name self of None \<Rightarrow> PNone | Some m \<Rightarrow> PStr m), (''params'', PList args), (''id'', PInt n)]"

lemma rpc_body_dumps:
  assumes "json_value (PList args)"
  shows "\<exists>b. json_dumps_dec (rpc_body self args n) = Inr b \<and> json_loads b = Inr (rpc_request self args n)"
proof -
  have v: "json_value (rpc_request self args n)" using assms by (auto simp: rpc_request_def split: option.split)
  have "encode_decimal (PTuple args) = PTuple args"
    using encode_decimal_json [OF assms] by simp
  then have "encode_decimal (rpc_body self args n) = rpc_body self args n"
    by (auto simp: rpc_body_def split: option.split)
  moreover have "json_dumps (rpc_body self args n) = json_dumps (rpc_request self args n)"
    by (simp add: rpc_body_def rpc_request_def)
  ultimately have "json_dumps_dec (rpc_body self args n) = json_dumps (rpc_request self args n)" by (simp add: json_dumps_dec_def)
  with json_roundtrip [OF v] show ?thesis by (auto simp: rbind_Inr_iff)
qed

lemma mc_proxy_call_run:
  assumes "mc_proxy_call H self args s = (r, t)" and "json_value (PList args)"
  shows "ps_id_count t = ps_id_count s + 1 \<and> (\<exists>rq b.
    ps_sent t = ps_sent s @ (if loses_connection H (set mc_status_lines) rq (ps_conn s) then [rq, rq] else [rq]) \<and>
    rq_method rq = ''POST'' \<and> rq_path rq = url_path (mp_url self) \<and> rq_body rq = PStr b \<and>
    json_loads b = Inr (rpc_request self args (ps_id_count s + 1)) \<and>
    map_of (rq_headers rq) ''Authorization'' = Some (mp_auth_header self))"
proof -
  let ?n = "ps_id_count s + 1"
  obtain b where b: "json_dumps_dec (rpc_body self args ?n) = Inr b" "json_loads b = Inr (rpc_request self args ?n)"
    using rpc_body_dumps [OF assms(2)] by blast
  obtain shown where sh: "json_dumps_dec (PTuple args) = Inr shown"
    using encode_decimal_json [OF assms(2)] json_dumps_total [OF assms(2)] by (auto simp: json_dumps_dec_def)
  let ?s = "s\<lparr>ps_id_count := ?n\<rparr>"
  obtain q u where q: "mc_request H self ''POST'' (url_path (mp_url self)) (PStr b) ?s = (q, u)" by fastforce
  then have "t = u" using assms(1) b(1) sh
    by (auto simp: mc_proxy_call_def abind_def count_call_def alift_def split: sum.splits)
  let ?rq = "\<lparr>rq_method = ''POST'', rq_path = url_path (mp_url self), rq_body = PStr b,
        rq_headers = [(''Host'', PStr (url_hostname (mp_url self))), (''User-Agent'', PStr ''AuthServiceProxy/0.1''),
          (''Authorization'', mp_auth_header self), (''Content-type'', PStr ''application/json'')]\<rparr>"
  from mc_reader.retry [OF q [unfolded mc_request_def]] b(2) \<open>t = u\<close> show ?thesis
    by (intro conjI exI [of _ ?rq] exI [of _ b]) simp_all
qed

section \<open>The nodes' interface over HTTP\<close>

text \<open>
  What \<open>mc_call\<close> and \<open>sc_call\<close> stand for: the attribute of the proxy with the name of the service,
  called with the arguments. \<open>urls\<close> and \<open>proxies\<close> give the URL of a mainchain node and the proxy of
  a sidechain node.
\<close>

definition proxy_mc_api :: "'w http \<Rightarrow> (mc_node \<Rightarrow> service_url) \<Rightarrow> mc_node \<Rightarrow> string \<Rightarrow> pyval list \<Rightarrow> ('w, pyval) act" where
  "proxy_mc_api H urls n m args =
     abind (alift (rbind (AuthServiceProxy (urls n) None) (\<lambda>p. mc_getattr p m))) (\<lambda>p. mc_proxy_call H p args)"

definition proxy_sc_api :: "'w http \<Rightarrow> (sc_node \<Rightarrow> sc_proxy) \<Rightarrow> sc_node \<Rightarrow> string \<Rightarrow> pyval list \<Rightarrow> (string \<times> pyval) list \<Rightarrow> ('w, pyval) act" where
  "proxy_sc_api H proxies n m args kwargs =
     abind (alift (sc_getattr (proxies n) m)) (\<lambda>p. sc_proxy_call H p args kwargs)"

definition plain_service :: "string \<Rightarrow> bool" where
  "plain_service m \<longleftrightarrow> \<not> is_prefix ''__'' m \<and> \<not> is_prefix ''get'' m \<and> \<not> is_substr ''rpc_'' m"

lemma py_eq_None: "py_eq v PNone \<longleftrightarrow> v = PNone"
  by (cases v) (auto split: option.splits)

lemma replace_char: "py_replace [c] [d] s = map (\<lambda>x. if x = c then d else x) s"
  by (induction s) auto

lemma sc_proxy_call_run:
  assumes call: "proxy_sc_api H proxies n m args [] s = (r, t)" and m: "plain_service m" and name: "sp_service_name (proxies n) = None"
    and auth: "sc_auth_header (proxies n) (call_auth args) = Some a"
  shows "\<exists>rq. ps_sent t = ps_sent s @ (if loses_connection H {[CHR 0x27, CHR 0x27]} rq (ps_conn s) then [rq, rq] else [rq]) \<and>
    rq_method rq = ''POST'' \<and> rq_path rq = ''/'' @ map (\<lambda>c. if c = CHR ''_'' then CHR ''/'' else c) m \<and>
    rq_body rq = (case args of [] \<Rightarrow> PNone | b # _ \<Rightarrow> b) \<and> map_of (rq_headers rq) ''Authorization'' = Some a"
proof -
  let ?p = "(proxies n)\<lparr>sp_service_name := Some m\<rparr>"
  let ?path = "''/'' @ map (\<lambda>c. if c = CHR ''_'' then CHR ''/'' else c) m"
  let ?b = "case args of [] \<Rightarrow> PNone | b # _ \<Rightarrow> b"
  let ?s = "s\<lparr>ps_id_count := ps_id_count s + 1\<rparr>"
  have hdr: "sc_auth_header ?p (call_auth args) = Some a" using auth by (auto simp: sc_auth_header_def split: option.splits)
  have "sc_request H ?p ''POST'' ?path ?b (call_auth args) ?s = (r, t)"
    using call m name
    by (simp add: proxy_sc_api_def sc_getattr_def attr_name_def plain_service_def sc_proxy_call_def abind_def alift_def count_call_def
        method_and_path_def route_def post_data_def replace_char)
  with hdr have "request_with_retry H [[CHR 0x27, CHR 0x27]] (sc_get_response H)
      \<lparr>rq_method = ''POST'', rq_path = ?path, rq_body = ?b,
       rq_headers = [(''Host'', PStr (sp_hostname ?p)), (''User-Agent'', PStr ''SidechainAuthServiceProxy/0.1''),
         (''Content-type'', PStr ''application/json''), (''Authorization'', a)]\<rparr> ?s = (r, t)"
    (is "request_with_retry _ _ _ ?rq _ = _") by (simp add: sc_request_def)
  from sc_reader.retry [OF this] show ?thesis by (intro exI [of _ ?rq] conjI) simp_all
qed

section \<open>Properties\<close>

text \<open>C14. A call on a mainchain node with JSON values as arguments is one JSON-RPC call over HTTP: one
  POST request, sent a second time exactly when the connection is lost in the first attempt (a
  closed, broken or reset connection: no other failure is retried), whose body reads back as the
  method, the arguments and the number of the call, and which carries the credentials of the node's
  URL.\<close>
theorem mc_call_over_http:
  assumes "e_mc_api E = proxy_mc_api H urls" and "mc_call E n m args s = Some (r, t)" and "json_value (PList args)"
    and "\<not> is_prefix ''__'' m" and "url_username (urls n) = Some user" and "url_password (urls n) = Some passwd"
  shows "\<exists>rq b. ps_sent (w_ext t) = ps_sent (w_ext s) @
      (if loses_connection H {[CHR 0x27, CHR 0x27], ''No status line received - the server has closed the connection''} rq
            (ps_conn (w_ext s)) then [rq, rq] else [rq]) \<and>
    rq_method rq = ''POST'' \<and> rq_path rq = url_path (urls n) \<and> rq_body rq = PStr b \<and>
    json_loads b = Inr (PDict [(''version'', PStr ''1.1''), (''method'', PStr m), (''params'', PList args),
      (''id'', PInt (ps_id_count (w_ext s) + 1))]) \<and>
    map_of (rq_headers rq) ''Authorization'' = Some (PBytes (utf8 (''Basic '' @ b64encode (utf8 user @ utf8 '':'' @ utf8 passwd))))"
proof -
  let ?h = "PBytes (utf8 (''Basic '' @ b64encode (utf8 user @ utf8 '':'' @ utf8 passwd)))"
  let ?p = "\<lparr>mp_url = urls n, mp_service_name = Some m, mp_auth_header = ?h\<rparr>"
  have "rbind (AuthServiceProxy (urls n) None) (\<lambda>p. mc_getattr p m) = Inr ?p"
    using assms(4-6) by (simp add: mc_getattr_def attr_name_def AuthServiceProxy_def)
  then have "mc_proxy_call H ?p args (w_ext s) = (r, w_ext t)"
    using assms(1,2) by (auto simp: mc_call_run proxy_mc_api_def abind_def alift_def)
  from mc_proxy_call_run [OF this assms(3)] show ?thesis by (simp add: rpc_request_def mc_status_lines_def)
qed

text \<open>A server that answers every request with the same text, and a connection that breaks on every
  request.\<close>

definition sample_http :: "string \<Rightarrow> unit http" where
  "sample_http answer = \<lparr>h_request = \<lambda>rq w. (Inr (), w), h_getresponse = \<lambda>w. (Inr (Some (200, answer)), w), h_close = \<lambda>w. w\<rparr>"

definition http_world :: "unit proxy_state world" where
  "http_world = \<lparr>sc_parallel_test = 0, mc_parallel_test = 0, is_jacoco_included = False, sidechainclient_processes = [],
     bitcoind_processes = [], t_nodes = None, t_sc_nodes = None, t_split = None,
     nodeModulesInstalled = False, sigHashesGenerated = False, w_calls = [], w_ext = \<lparr>ps_id_count = 0, ps_sent = [], ps_conn = ()\<rparr>\<rparr>"

definition broken_http :: "unit http" where
  "broken_http = (sample_http [])\<lparr>h_request := \<lambda>rq w. (Inl (PyErr ConnectionError ''BrokenPipeError'' []), w)\<rparr>"

theorem mc_call_over_http_witness:
  "\<exists>r t. mc_call (idle_env\<lparr>e_mc_api := proxy_mc_api broken_http
         (\<lambda>n. \<lparr>url_hostname = ''localhost'', url_path = ''/'', url_username = Some ''u'', url_password = Some ''p''\<rparr>)\<rparr>)
       sample_mc ''getblockcount'' [] http_world = Some (r, t) \<and> (\<exists>rq. ps_sent (w_ext t) = [rq, rq] \<and> rq_method rq = ''POST'')"
proof -
  let ?urls = "\<lambda>n. \<lparr>url_hostname = ''localhost'', url_path = ''/'', url_username = Some ''u'', url_password = Some ''p''\<rparr>"
  let ?E = "idle_env\<lparr>e_mc_api := proxy_mc_api broken_http ?urls\<rparr>"
  obtain r t where run: "mc_call ?E sample_mc ''getblockcount'' [] http_world = Some (r, t)" by (simp add: mc_call_run)
  have lost: "loses_connection broken_http ls rq c" for ls rq c
    by (simp add: loses_connection_def broken_http_def lost_connection.simps)
  have "\<exists>rq. ps_sent (w_ext t) = [rq, rq] \<and> rq_method rq = ''POST''"
    using mc_call_over_http [OF _ run, of broken_http ?urls "''u''" "''p''"] by (auto simp: lost http_world_def)
  with run show ?thesis by fastforce
qed

text \<open>C15. A call of a plain service of a sidechain node is one POST request, sent a second time exactly
  when the connection is lost in the first attempt (no other failure is retried): the underscores of the name become the slashes of the path, the first
  argument is the body as it is, and the header authorises the key of the call or else of the
  node.\<close>
theorem sc_call_over_http:
  assumes "e_sc_api E = proxy_sc_api H proxies" and "sc_call E n m args s = Some (r, t)" and "plain_service m"
    and "sp_service_name (proxies n) = None" and "sp_auth_api_key (proxies n) = Some key"
  shows "\<exists>rq. ps_sent (w_ext t) = ps_sent (w_ext s) @
      (if loses_connection H {[CHR 0x27, CHR 0x27]} rq (ps_conn (w_ext s)) then [rq, rq] else [rq]) \<and>
    rq_method rq = ''POST'' \<and> rq_path rq = ''/'' @ map (\<lambda>c. if c = CHR ''_'' then CHR ''/'' else c) m \<and>
    rq_body rq = (case args of [] \<Rightarrow> PNone | b # _ \<Rightarrow> b) \<and>
    map_of (rq_headers rq) ''Authorization'' = Some (
      if 2 \<le> length args \<and> args ! 1 \<noteq> PNone then PStr (''Basic '' @ b64encode (utf8 (''user:'' @ py_str (args ! 1))))
      else PBytes (utf8 (''Basic '' @ b64encode (utf8 (''user:'' @ key)))))"
proof -
  have run: "proxy_sc_api H proxies n m args [] (w_ext s) = (r, w_ext t)"
    using assms(1,2) by (auto simp: sc_call_run)
  have "sc_auth_header (proxies n) (call_auth args) = Some (
      if 2 \<le> length args \<and> args ! 1 \<noteq> PNone then PStr (''Basic '' @ b64encode (utf8 (''user:'' @ py_str (args ! 1))))
      else PBytes (utf8 (''Basic '' @ b64encode (utf8 (''user:'' @ key)))))"
    using assms(5) by (auto simp: sc_auth_header_def call_auth_def basic_auth_def py_eq_None split: list.split)
  from sc_proxy_call_run [OF run assms(3,4) this] show ?thesis .
qed

theorem sc_call_over_http_witness:
  "\<exists>r t. sc_call (idle_env\<lparr>e_sc_api := proxy_sc_api (sample_http [])
         (\<lambda>n. \<lparr>sp_hostname = ''127.0.0.1'', sp_service_name = None, sp_auth_api_key = Some ''TopSecret'', sp_repr = []\<rparr>)\<rparr>)
       (sample_node ''a'') ''wallet_coinsBalance'' [] http_world = Some (r, t) \<and>
     (\<exists>rq. ps_sent (w_ext t) = [rq] \<and> rq_path rq = ''/wallet/coinsBalance'')"
proof -
  let ?p = "\<lambda>n. \<lparr>sp_hostname = ''127.0.0.1'', sp_service_name = None, sp_auth_api_key = Some ''TopSecret'', sp_repr = []\<rparr>"
  let ?E = "idle_env\<lparr>e_sc_api := proxy_sc_api (sample_http []) ?p\<rparr>"
  obtain r t where run: "sc_call ?E (sample_node ''a'') ''wallet_coinsBalance'' [] http_world = Some (r, t)" by (simp add: sc_call_run)
  have kept: "\<not> loses_connection (sample_http a) ls rq c" for a ls rq c by (simp add: loses_connection_def sample_http_def)
  have "\<exists>rq. ps_sent (w_ext t) = [rq] \<and> rq_path rq = ''/wallet/coinsBalance''"
    using sc_call_over_http [OF _ run, of "sample_http []" ?p "''TopSecret''"] by (auto simp: plain_service_def kept http_world_def)
  with run show ?thesis by fastforce
qed

end
