(* ===== verification/Test_Framework.thy ===== *)
theory Test_Framework
  imports Bootstrap Mc_Node
begin

text \<open>
  The base classes of the tests: \<^verbatim>\<open>BitcoinTestFramework\<close> (\<^verbatim>\<open>qa/test_framework/test_framework.py\<close>) and
  \<^verbatim>\<open>SidechainTestFramework\<close> (\<^verbatim>\<open>qa/SidechainTestFramework/sc_test_framework.py\<close>). A test overrides some of
  the steps that \<^verbatim>\<open>main\<close> runs; the steps are therefore programs given to the model of \<^verbatim>\<open>main\<close>, with the
  default implementations as definitions of their own. The options are given as they are after
  parsing; the set-up of the loggers and of the search path is left out.
\<close>

section \<open>Steps and options\<close>

record 'w test_case =
  tc_setup_chain :: "('w, unit) prog"
  tc_setup_network :: "('w, unit) prog"
  tc_sc_setup_chain :: "('w, unit) prog"
  tc_sc_setup_network :: "('w, unit) prog"
  tc_run_test :: "('w, unit) prog"

record test_options = run_options +
  op_noshutdown :: bool
  op_nocleanup :: bool
  op_debugnode :: "string option"
  op_parallel :: int
  op_jacoco :: bool

definition check_json_precision :: "unit res" where
  "check_json_precision =
     (let n = 20000000 + 3 / 100000000
      in rbind (rbind (json_dumps (PFloat n)) json_loads) (\<lambda>v. rbind (as_num v) (\<lambda>q.
           if rat_trunc (q * 100000000) \<noteq> 2000000000000003 then rerr RuntimeError ''JSON encode/decode loses precision'' [] else Inr ())))"

definition self_nodes :: "('w, mc_node list) prog" where
  "self_nodes = pbind (pget t_nodes) (\<lambda>n. case n of None \<Rightarrow> praise AttributeError ''nodes'' [] | Some ns \<Rightarrow> pret ns)"

definition set_self_nodes :: "mc_node list \<Rightarrow> ('w, unit) prog" where
  "set_self_nodes ns = pmodify (\<lambda>s. s\<lparr>t_nodes := Some ns\<rparr>)"

text \<open>The nodes of the sidechain; an attribute set to \<open>None\<close> has no length.\<close>

definition self_sc_nodes :: "('w, sc_node list) prog" where
  "self_sc_nodes = pbind (pget t_sc_nodes) (\<lambda>n. case n of
      None \<Rightarrow> praise AttributeError ''sc_nodes'' []
    | Some None \<Rightarrow> praise TypeError ''object of type NoneType has no len()'' []
    | Some (Some ns) \<Rightarrow> pret ns)"

definition set_self_sc_nodes :: "sc_node list option \<Rightarrow> ('w, unit) prog" where
  "set_self_sc_nodes ns = pmodify (\<lambda>s. s\<lparr>t_sc_nodes := Some ns\<rparr>)"

definition py_rmtree :: "'w env \<Rightarrow> string \<Rightarrow> ('w, unit) prog" where
  "py_rmtree E p = pact (RemovedTree p) (e_rmtree E p)"

section \<open>The mainchain framework\<close>

definition btf_run_test :: "'w env \<Rightarrow> ('w, unit) prog" where
  "btf_run_test E = pbind self_nodes (\<lambda>nodes. piter (\<lambda>node.
     pseq (pbind (mc_call E node ''getblockcount'' []) (\<lambda>n. plift (assert_equal n (PInt 200) [])))
       (pbind (mc_call E node ''getbalance'' []) (\<lambda>b. plift (assert_equal b (PInt (25 * 10)) [])))) nodes)"

definition btf_setup_chain :: "'w env \<Rightarrow> string \<Rightarrow> ('w, unit) prog" where
  "btf_setup_chain E tmpdir = initialize_chain E tmpdir"

definition btf_setup_nodes :: "'w env \<Rightarrow> string \<Rightarrow> ('w, mc_node list) prog" where
  "btf_setup_nodes E tmpdir = start_nodes E 4 tmpdir None None None"

definition btf_sync_all :: "'w env \<Rightarrow> ('w, unit) prog" where
  "btf_sync_all E = pbind (pget t_split) (\<lambda>split. case split of
      None \<Rightarrow> praise AttributeError ''is_network_split'' []
    | Some split \<Rightarrow> pbind self_nodes (\<lambda>nodes.
        if split then
          pseq (sync_blocks E (take 2 nodes) 1) (pseq (sync_blocks E (drop 2 nodes) 1)
            (pseq (sync_mempools E (take 2 nodes) 1) (sync_mempools E (drop 2 nodes) 1)))
        else pseq (sync_blocks E nodes 1) (sync_mempools E nodes 1)))"

definition btf_setup_network :: "'w env \<Rightarrow> string \<Rightarrow> bool \<Rightarrow> ('w, unit) prog" where
  "btf_setup_network E tmpdir split =
     pbind (btf_setup_nodes E tmpdir) (\<lambda>nodes.
     pseq (set_self_nodes nodes) (
     pseq (if \<not> split then pseq (connect_nodes_bi E nodes 1 2)
             (pseq (sync_blocks E (take 2 (drop 1 nodes)) 1) (sync_mempools E (take 2 (drop 1 nodes)) 1))
           else pret ()) (
     pseq (connect_nodes_bi E nodes 0 1) (
     pseq (connect_nodes_bi E nodes 2 3) (
     pseq (pmodify (\<lambda>s. s\<lparr>t_split := Some split\<rparr>)) (btf_sync_all E))))))"

text \<open>Stopping the nodes empties the list of the test.\<close>

definition stop_self_nodes :: "'w env \<Rightarrow> ('w, unit) prog" where
  "stop_self_nodes E = pbind self_nodes (\<lambda>nodes.
     pseq (pbind (stop_nodes E nodes) set_self_nodes) (wait_bitcoinds E))"

definition assert_split :: "bool \<Rightarrow> ('w, unit) prog" where
  "assert_split b = pbind (pget t_split) (\<lambda>split. case split of
      None \<Rightarrow> praise AttributeError ''is_network_split'' []
    | Some v \<Rightarrow> if v = b then pret () else praise AssertionError [] [])"

definition split_network :: "'w env \<Rightarrow> string \<Rightarrow> ('w, unit) prog" where
  "split_network E tmpdir = pseq (assert_split False) (pseq (stop_self_nodes E) (btf_setup_network E tmpdir True))"

definition join_network :: "'w env \<Rightarrow> string \<Rightarrow> ('w, unit) prog" where
  "join_network E tmpdir = pseq (assert_split True) (pseq (stop_self_nodes E) (btf_setup_network E tmpdir False))"

text \<open>\<^verbatim>\<open>print("JSONRPC error: "+e.error['message'])\<close>\<close>

definition log_rpc_error :: "pyerr \<Rightarrow> unit res" where
  "log_rpc_error e = rbind (py_get (case err_args e of [] \<Rightarrow> PNone | d # _ \<Rightarrow> d) ''message'') (\<lambda>m.
     rbind (py_concat (PStr ''JSONRPC error: '') m) (\<lambda>_. Inr ()))"

text \<open>The handler of an assertion reads \<^verbatim>\<open>e.message\<close>, which exceptions do not have.\<close>

definition btf_handler :: "pyerr \<Rightarrow> ('w, unit) prog" where
  "btf_handler e =
     (if err_kind e = JSONRPCException then plift (log_rpc_error e)
      else if err_kind e = AssertionError then praise AttributeError ''message'' []
      else if exn_isinstance (err_kind e) PlainException then pret ()
      else pthrow e)"

definition attempt :: "('w, unit) prog \<Rightarrow> (pyerr \<Rightarrow> ('w, unit) prog) \<Rightarrow> ('w, bool) prog" where
  "attempt steps handler = ptry (pseq steps (pret True)) (\<lambda>e. pseq (handler e) (pret False))"

definition make_tmpdir :: "'w env \<Rightarrow> string \<Rightarrow> ('w, unit) prog" where
  "make_tmpdir E tmpdir = pbind (py_isdir E tmpdir) (\<lambda>b. if b then pret () else py_makedirs E tmpdir)"

definition sys_exit :: "bool \<Rightarrow> ('w, unit) prog" where
  "sys_exit success = praise SystemExit [] [PInt (if success then 0 else 1)]"

definition btf_main :: "'w env \<Rightarrow> test_options \<Rightarrow> 'w test_case \<Rightarrow> ('w, unit) prog" where
  "btf_main E options tc =
     pseq (plift check_json_precision) (
     pbind (attempt (pseq (make_tmpdir E (op_tmpdir options)) (pseq (tc_setup_chain tc) (pseq (tc_setup_network tc) (tc_run_test tc))))
              btf_handler) (\<lambda>success.
     pseq (if \<not> op_noshutdown options then stop_self_nodes E else pret ()) (
     pseq (if \<not> op_nocleanup options \<and> \<not> op_noshutdown options then py_rmtree E (op_tmpdir options) else pret ())
       (sys_exit success))))"

text \<open>\<^verbatim>\<open>ComparisonTestFramework\<close>\<close>

definition comparison_setup_network :: "'w env \<Rightarrow> string \<Rightarrow> int \<Rightarrow> string \<Rightarrow> string \<Rightarrow> ('w, unit) prog" where
  "comparison_setup_network E tmpdir num_nodes testbinary refbinary =
     pbind (start_nodes E num_nodes tmpdir (Some (replicate (nat num_nodes) (Some [''-debug'', ''-whitelist=127.0.0.1'']))) None
              (Some (Some testbinary # replicate (nat (num_nodes - 1)) (Some refbinary)))) set_self_nodes"

section \<open>The sidechain framework\<close>

definition set_parallel_test :: "int \<Rightarrow> ('w, unit) prog" where
  "set_parallel_test n = pseq (set_mc_parallel_test n) (set_sc_parallel_test n)"

definition stf_setup_chain :: "'w env \<Rightarrow> string \<Rightarrow> ('w, unit) prog" where
  "stf_setup_chain E tmpdir = initialize_chain_clean E tmpdir 1"

definition sync_nodes :: "'w env \<Rightarrow> mc_node list \<Rightarrow> ('w, unit) prog" where
  "sync_nodes E mc_nodes = pseq (sync_blocks E mc_nodes 1) (sync_mempools E mc_nodes 1)"

definition sync_all :: "'w env \<Rightarrow> ('w, unit) prog" where
  "sync_all E = pbind self_nodes (sync_nodes E)"

definition stf_setup_network :: "'w env \<Rightarrow> string \<Rightarrow> ('w, unit) prog" where
  "stf_setup_network E tmpdir = pbind (start_nodes E 1 tmpdir None None None) (\<lambda>nodes. pseq (set_self_nodes nodes) (sync_all E))"

definition ws_address :: "'w env \<Rightarrow> 'w world \<Rightarrow> mc_node \<Rightarrow> int \<Rightarrow> string" where
  "ws_address E s mc_node i = ''ws://'' @ mc_hostname mc_node @ '':'' @ str_int (websocket_port_by_mc_node_index E s i)"

definition sc_setup_chain :: "'w env \<Rightarrow> test_options \<Rightarrow> ('w, sc_bootstrap_info) prog" where
  "sc_setup_chain E options =
     pbind self_nodes (\<lambda>nodes.
     pbind (plift (list_get nodes 0)) (\<lambda>mc_node_1.
     pbind (pget (\<lambda>s. ws_address E s mc_node_1 0)) (\<lambda>address.
     pbind (plift (SCCreationInfo mc_node_1 (PInt 600) LARGE_WITHDRAWAL_EPOCH_LENGTH 0 1 7 5 False False NO_KEY_ROTATION_CIRCUIT)) (\<lambda>creation.
       bootstrap_sidechain_nodes E (run_options.truncate options)
         \<lparr>net_sc_creation_info = creation,
          net_sc_nodes_configuration = [SCNodeConfiguration None PNone
            (default_node_args\<lparr>nc_mc_connection_info := default_MCConnectionInfo\<lparr>conn_address := address\<rparr>\<rparr>)]\<rparr>
         (PFloat DefaultBlockTimestampRewind) UtxoModel))))"

definition sc_sync_nodes :: "'w env \<Rightarrow> sc_node list \<Rightarrow> ('w, unit) prog" where
  "sc_sync_nodes E sc_nodes = pseq (sync_sc_blocks E sc_nodes 25) (sync_sc_mempools E sc_nodes 25 False)"

definition sc_sync_all :: "'w env \<Rightarrow> bool \<Rightarrow> ('w, unit) prog" where
  "sc_sync_all E mempool_cardinality_only = pbind self_sc_nodes (\<lambda>nodes.
     pseq (sync_sc_blocks E nodes 25) (sync_sc_mempools E nodes 25 mempool_cardinality_only))"

definition sc_setup_network :: "'w env \<Rightarrow> string \<Rightarrow> ('w, unit) prog" where
  "sc_setup_network E tmpdir = pbind (start_sc_nodes E 1 tmpdir None None None False (Some DEFAULT_API_KEY)) (\<lambda>nodes.
     pseq (set_self_sc_nodes (Some nodes)) (sc_sync_all E False))"

definition sc_setup_nodes_with_extra_arg ::
  "'w env \<Rightarrow> string \<Rightarrow> int \<Rightarrow> string list list option \<Rightarrow> string \<Rightarrow> string \<Rightarrow> string option \<Rightarrow> string option \<Rightarrow> ('w, sc_node list) prog" where
  "sc_setup_nodes_with_extra_arg E tmpdir number_of_sidechain_nodes debug_extra_args extra_arg_tag extra_arg_val binary api_key =
     pbind (plift (rmap (\<lambda>i. rbind (case debug_extra_args of None \<Rightarrow> Inr [[]] | Some d \<Rightarrow> list_get d i) (\<lambda>dbg_arg.
         Inr (Some ([extra_arg_tag, extra_arg_val] @ dbg_arg)))) (py_range number_of_sidechain_nodes))) (\<lambda>extra_args.
       start_sc_nodes E number_of_sidechain_nodes tmpdir (Some extra_args) None
         (Some (replicate (nat number_of_sidechain_nodes) binary)) False api_key)"

text \<open>The debug option: the node with the given index gets the agent, the others an empty argument.\<close>

definition handle_debug_option :: "string option \<Rightarrow> int \<Rightarrow> string list list option res" where
  "handle_debug_option debugnode number_of_sidechain_nodes = (case debugnode of
      None \<Rightarrow> Inr None
    | Some d \<Rightarrow> rbind (py_int (PStr d)) (\<lambda>sc_node_index.
        if \<not> (0 \<le> sc_node_index \<and> sc_node_index < number_of_sidechain_nodes) then
          rerr RuntimeError ''could not handle --debugnode option. Index {} out of range [{}, {}]''
            [PInt sc_node_index, PInt 0, PInt (number_of_sidechain_nodes - 1)]
        else Inr (Some (map (\<lambda>i. if i = sc_node_index then [''-agentlib''] else [[]]) (py_range number_of_sidechain_nodes)))))"

definition stf_handler :: "pyerr \<Rightarrow> ('w, unit) prog" where
  "stf_handler e =
     (if err_kind e = JSONRPCException then plift (log_rpc_error e)
      else if exn_isinstance (err_kind e) PlainException then pret ()
      else pthrow e)"

definition test_steps :: "'w env \<Rightarrow> test_options \<Rightarrow> 'w test_case \<Rightarrow> ('w, unit) prog" where
  "test_steps E options tc =
     pseq (make_tmpdir E (op_tmpdir options)) (
     pseq (if op_parallel options > 0 then set_parallel_test (op_parallel options) else pret ()) (
     pseq (set_jacoco (op_jacoco options)) (
     pseq (tc_setup_chain tc) (
     pseq (tc_setup_network tc) (
     pseq (tc_sc_setup_chain tc) (
     pseq (tc_sc_setup_network tc) (tc_run_test tc)))))))"

definition stop_self_sc_nodes :: "'w env \<Rightarrow> ('w, unit) prog" where
  "stop_self_sc_nodes E = pbind (pget t_sc_nodes) (\<lambda>attr. if attr = None then pret ()
     else pbind self_sc_nodes (\<lambda>nodes. pbind (stop_sc_nodes E nodes) (\<lambda>rest. set_self_sc_nodes (Some rest))))"

definition shutdown :: "'w env \<Rightarrow> test_options \<Rightarrow> ('w, unit) prog" where
  "shutdown E options = (if \<not> op_noshutdown options then
     pseq (stop_self_sc_nodes E)
       (pbind (pget t_nodes) (\<lambda>attr. if attr = None then pret () else stop_self_nodes E))
     else pret ())"

text \<open>\<open>tc\<close> are the steps of the test, which may use the arguments for the debugger.\<close>

definition stf_main :: "'w env \<Rightarrow> test_options \<Rightarrow> int \<Rightarrow> (string list list option \<Rightarrow> 'w test_case) \<Rightarrow> ('w, unit) prog" where
  "stf_main E options number_of_sidechain_nodes tc =
     pseq (plift check_json_precision) (
     pbind (plift (handle_debug_option (op_debugnode options) number_of_sidechain_nodes)) (\<lambda>debug_extra_args.
     pbind (attempt (test_steps E options (tc debug_extra_args)) stf_handler) (\<lambda>success.
     pseq (shutdown E options) (
     pseq (if success \<and> \<not> op_nocleanup options \<and> \<not> op_noshutdown options then py_rmtree E (op_tmpdir options) else pret ())
       (sys_exit success)))))"

text \<open>\<^verbatim>\<open>SidechainComparisonTestFramework\<close>\<close>

definition sc_comparison_setup_chain :: "'w env \<Rightarrow> string \<Rightarrow> string list \<Rightarrow> ('w, unit) prog" where
  "sc_comparison_setup_chain E tmpdir jarspathlist = initialize_default_sc_chain_clean E tmpdir (int (length jarspathlist)) []"

definition sc_comparison_setup_network :: "'w env \<Rightarrow> string \<Rightarrow> string list \<Rightarrow> ('w, unit) prog" where
  "sc_comparison_setup_network E tmpdir jarspathlist =
     pbind (start_sc_nodes E (int (length jarspathlist)) tmpdir None None (Some (map Some jarspathlist)) False (Some DEFAULT_API_KEY))
       (\<lambda>nodes. set_self_sc_nodes (Some nodes))"

section \<open>Lemmas\<close>

lemma frac_digits_numeral: "frac_digits (numeral k) q = (if q = 0 then [] else
     digit_char (nat \<lfloor>q * 10\<rfloor>) # frac_digits (pred_numeral k) (q * 10 - of_int \<lfloor>q * 10\<rfloor>))"
  by (simp add: numeral_eq_Suc)

lemma precision_text: "float_repr (20000000 + 3 / 100000000) = ''20000000.00000003''"
proof -
  have z: "\<lfloor>3 / 10000000 :: rat\<rfloor> = 0" "\<lfloor>3 / 1000000 :: rat\<rfloor> = 0" "\<lfloor>3 / 100000 :: rat\<rfloor> = 0" "\<lfloor>3 / 10000 :: rat\<rfloor> = 0"
    "\<lfloor>3 / 1000 :: rat\<rfloor> = 0" "\<lfloor>3 / 100 :: rat\<rfloor> = 0" "\<lfloor>3 / 10 :: rat\<rfloor> = 0" by (simp_all add: floor_unique)
  have d: "digit_char 0 = CHR ''0''" "digit_char 3 = CHR ''3''" by (simp_all add: digit_char_def)
  have "frac_digits 17 (3 / 100000000) = ''00000003''" by (simp add: frac_digits_numeral z d del: frac_digits.simps)
  moreover have "str_int 20000000 = ''20000000''" by (simp add: str_int_def nat_str.simps digit_char_def)
  moreover have "\<lfloor>(2000000000000003 / 100000000 :: rat)\<rfloor> = 20000000" by (simp add: floor_unique)
  ultimately show ?thesis by (simp add: float_repr_def Let_def del: frac_digits.simps)
qed

lemma check_json_precision_ok [simp]: "check_json_precision = Inr ()"
proof -
  have "json_loads ''20000000.00000003'' = Inr (PFloat (20000000 + 3 / 100000000))"
    by (simp add: json_loads_def json_parse_def p_val.simps skip_ws_def is_json_ws_def p_num_def p_nat_def p_digits_def
        is_dec_def p_frac_def p_exp_def read_nat_def digit_val_def p_word_def)
  then have "rbind (json_dumps (PFloat (20000000 + 3 / 100000000))) json_loads = Inr (PFloat (20000000 + 3 / 100000000))"
    by (simp only: json_dumps.simps precision_text rbind_simps)
  then show ?thesis
    unfolding check_json_precision_def Let_def by (simp add: as_num_def rat_trunc_def)
qed

lemma stop_nodes_keep: "keeps bitcoind_processes (stop_nodes E nodes)" "keeps t_sc_nodes (stop_nodes E nodes)"
    "keeps sidechainclient_processes (stop_nodes E nodes)" "keeps (\<lambda>s. waits (w_calls s)) (stop_nodes E nodes)"
  unfolding stop_nodes_def mc_call_def by (intro keep_intros keeps_pact; simp)+

text \<open>What the stopping of the mainchain nodes of the test leaves in the trace.\<close>

definition mc_stop_events :: "'w world \<Rightarrow> event list" where
  "mc_stop_events s = (case t_nodes s of None \<Rightarrow> []
     | Some ns \<Rightarrow> map (\<lambda>n. McCall n ''stop'' []) ns @ map (\<lambda>e. Waited (snd e)) (bitcoind_processes s))"

lemma stop_self_nodes_run:
  assumes "stop_self_nodes E s = Some (Inr (), t)"
  shows "bitcoind_processes t = [] \<and> t_nodes t = Some [] \<and>
    waits (w_calls t) = waits (w_calls s) @ map snd (bitcoind_processes s) \<and> w_calls t = w_calls s @ mc_stop_events s"
proof -
  from assms obtain ns rest u where ns: "t_nodes s = Some ns" and stop: "stop_nodes E ns s = Some (Inr rest, u)"
    and wait: "wait_bitcoinds E (u\<lparr>t_nodes := Some rest\<rparr>) = Some (Inr (), t)"
    by (auto simp: stop_self_nodes_def self_nodes_def set_self_nodes_def pbind_Inr_iff split: option.splits)
  from stop have "rest = []" by (auto simp: stop_nodes_def pbind_Inr_iff)
  moreover have "keeps t_nodes (wait_bitcoinds E)"
    unfolding wait_bitcoinds_def py_wait_def by (intro keep_intros keeps_pact) (auto simp: keeps_def)
  moreover have "w_calls v = w_calls x @ map (\<lambda>n. McCall n ''stop'' []) ms"
    if "piter (\<lambda>node. pseq (mc_call E node ''stop'' []) (pret ())) ms x = Some (Inr (), v)" for ms x v
    using that by (induction ms arbitrary: x) (fastforce simp: pbind_Inr_iff mc_call_run)+
  then have "w_calls u = w_calls s @ map (\<lambda>n. McCall n ''stop'' []) ns" using stop by (auto simp: stop_nodes_def pbind_Inr_iff)
  moreover have "bitcoind_processes u = bitcoind_processes s" using stop_nodes_keep [THEN keepsD, OF stop] by simp
  ultimately show ?thesis
    using wait mc_procs.wait_all_waits [OF wait] mc_procs.wait_all [of E "u\<lparr>t_nodes := Some rest\<rparr>"]
      stop_nodes_keep(1,4) [THEN keepsD, OF stop] ns by (auto simp: mc_stop_events_def dest: keepsD)
qed

lemma attempt_run:
  assumes "steps s = Some (q, u)" and "\<And>e. q = Inl e \<Longrightarrow> handler e u = Some (Inr (), u)"
  shows "attempt steps handler s = Some (Inr (case q of Inl _ \<Rightarrow> False | Inr _ \<Rightarrow> True), u)"
  using assms by (auto simp: attempt_def ptry_run pbind_run split: sum.splits)

lemma sc_stop_keeps_nodes: "keeps t_nodes (stop_sc_nodes E nodes)" "keeps bitcoind_processes (stop_sc_nodes E nodes)"
  unfolding stop_sc_nodes_def stop_if_running_def stop_sc_node_def reap_sc_node_def py_wait_def sc_call_def
  by (intro keep_intros keeps_pact; auto simp: keeps_def)+

lemma stop_self_sc_nodes_run:
  assumes "stop_self_sc_nodes E s = Some (Inr (), t)"
  shows "t_nodes t = t_nodes s \<and> bitcoind_processes t = bitcoind_processes s \<and> (\<forall>ns. t_sc_nodes s = Some (Some ns) \<longrightarrow>
    sidechainclient_processes t = filter (\<lambda>e. fst e \<notin> {0..<int (length ns)}) (sidechainclient_processes s) \<and>
    w_calls t = w_calls s @ concat (map (stop_events ns (sidechainclient_processes s)) (py_range (int (length ns)))) \<and>
    waits (w_calls t) = waits (w_calls s) @ concat (map (pid_list (sidechainclient_processes s)) (py_range (int (length ns)))))"
proof (cases "t_sc_nodes s")
  case None
  with assms show ?thesis by (simp add: stop_self_sc_nodes_def pbind_run)
next
  case (Some a)
  with assms obtain ns rest u where a: "a = Some ns" and stop: "stop_sc_nodes E ns s = Some (Inr rest, u)" and t: "t = u\<lparr>t_sc_nodes := Some (Some rest)\<rparr>"
    by (auto simp: stop_self_sc_nodes_def self_sc_nodes_def set_self_sc_nodes_def pbind_Inr_iff split: option.splits)
  from stop have "piter (stop_if_running E ns) (py_range (int (length ns))) s = Some (Inr (), u)"
    by (auto simp: stop_sc_nodes_def pbind_Inr_iff)
  from stop_range_run [OF this] sc_stop_keeps_nodes [THEN keepsD, OF stop] Some a t show ?thesis
    by (simp add: py_range_def)
qed

lemma stop_self_nodes_keeps: "keeps sidechainclient_processes (stop_self_nodes E)"
  unfolding stop_self_nodes_def self_nodes_def set_self_nodes_def wait_bitcoinds_def py_wait_def
  by (intro keep_intros keeps_pact stop_nodes_keep) (auto simp: keeps_def)

lemma shutdown_run:
  assumes "shutdown E options u = Some (Inr (), v)" and "\<not> op_noshutdown options"
  shows "(t_nodes u \<noteq> None \<longrightarrow> bitcoind_processes v = []) \<and> (\<forall>ns. t_sc_nodes u = Some (Some ns) \<longrightarrow>
    sidechainclient_processes v = filter (\<lambda>e. fst e \<notin> {0..<int (length ns)}) (sidechainclient_processes u) \<and>
    w_calls v = w_calls u @ concat (map (stop_events ns (sidechainclient_processes u)) (py_range (int (length ns)))) @ mc_stop_events u \<and>
    waits (w_calls v) = waits (w_calls u) @ concat (map (pid_list (sidechainclient_processes u)) (py_range (int (length ns)))) @
      (if t_nodes u = None then [] else map snd (bitcoind_processes u)))"
proof -
  from assms obtain x where x: "stop_self_sc_nodes E u = Some (Inr (), x)"
    and rest: "(if t_nodes x = None then pret () else stop_self_nodes E) x = Some (Inr (), v)"
    by (auto simp: shutdown_def pbind_Inr_iff simp del: if_run)
  show ?thesis
  proof (cases "t_nodes x")
    case None
    with stop_self_sc_nodes_run [OF x] rest show ?thesis by (simp add: mc_stop_events_def py_range_def)
  next
    case (Some ns)
    with rest have "stop_self_nodes E x = Some (Inr (), v)" by simp
    with stop_self_sc_nodes_run [OF x] stop_self_nodes_run [OF this] keepsD [OF stop_self_nodes_keeps this] Some show ?thesis
      by (auto simp: mc_stop_events_def py_range_def)
  qed
qed

section \<open>Properties\<close>



text \<open>C13. In the mainchain framework a failed assertion of the test escapes from \<^verbatim>\<open>main\<close> as an
  \<open>AttributeError\<close> of its own handler: the nodes are not stopped, the directory is not removed and
  no exit code is set; the state is the one the test left behind.\<close>
theorem btf_main_assertion_escapes:
  assumes "pseq (make_tmpdir E (op_tmpdir options)) (pseq (tc_setup_chain tc) (pseq (tc_setup_network tc) (tc_run_test tc))) s
      = Some (Inl e, u)" and "err_kind e = AssertionError"
  shows "btf_main E options tc s = Some (Inl (PyErr AttributeError ''message'' []), u)"
  using assms by (simp add: btf_main_def pbind_run attempt_def ptry_run btf_handler_def)

theorem btf_main_assertion_escapes_witness:
  "\<exists>(t :: sample world). btf_main sample_env \<lparr>op_tmpdir = ''/tmp'', op_logfilelevel = [], op_logconsolelevel = [], op_restapitimeout = 5,
       op_noshutdown = False, op_nocleanup = False, op_debugnode = None, op_parallel = 0, op_jacoco = False\<rparr>
     \<lparr>tc_setup_chain = pret (), tc_setup_network = register_bitcoind 0 77, tc_sc_setup_chain = pret (),
       tc_sc_setup_network = pret (), tc_run_test = praise AssertionError ''broken'' []\<rparr> (sample_world 0 0 [])
     = Some (Inl (PyErr AttributeError ''message'' []), t) \<and> bitcoind_processes t = [(0, 77)]"
proof -
  let ?o = "\<lparr>op_tmpdir = ''/tmp'', op_logfilelevel = [], op_logconsolelevel = [], op_restapitimeout = 5,
       op_noshutdown = False, op_nocleanup = False, op_debugnode = None, op_parallel = 0, op_jacoco = False\<rparr>"
  let ?tc = "\<lparr>tc_setup_chain = pret (), tc_setup_network = register_bitcoind 0 77, tc_sc_setup_chain = pret (),
       tc_sc_setup_network = pret (), tc_run_test = praise AssertionError ''broken'' []\<rparr>"
  obtain e u where run: "pseq (make_tmpdir sample_env (op_tmpdir ?o)) (pseq (tc_setup_chain ?tc) (pseq (tc_setup_network ?tc) (tc_run_test ?tc)))
      (sample_world 0 0 []) = Some (Inl e, u)" and e: "err_kind e = AssertionError" and p: "bitcoind_processes u = [(0, 77)]"
    by (simp add: make_tmpdir_def register_bitcoind_def ext_defs prog_simps sample_world_def)
  from btf_main_assertion_escapes [OF run e] p show ?thesis by blast
qed

end
