(* ===== verification/Forging.thy ===== *)
theory Forging
  imports Polling Util_Codec
begin

text \<open>
  Forging sidechain blocks slot by slot (\<^verbatim>\<open>qa/SidechainTestFramework/scutil.py\<close>). Time is divided
  into consensus epochs of \<open>slots_in_epoch\<close> slots, numbered from 1. \<open>generate_next_block\<close> asks the
  node to forge in the slot after its best block and moves on while the node answers that no block
  could be created there (error code 0105), for at most one epoch. The theorems say which slots are
  tried, how often, and what the result is.
\<close>

section \<open>Operations\<close>

definition generate_forging_request :: "int \<Rightarrow> int \<Rightarrow> pyval \<Rightarrow> string res" where
  "generate_forging_request epoch slot forced_tx =
     json_dumps (PDict [(''epochNumber'', PInt epoch), (''slotNumber'', PInt slot), (''transactionsBytes'', forced_tx)])"

definition get_next_epoch_slot :: "int \<Rightarrow> int \<Rightarrow> int \<Rightarrow> bool \<Rightarrow> int \<times> int" where
  "get_next_epoch_slot epoch slot slots_in_epoch force_switch_to_next_epoch =
     (let next_slot = slot + 1; next_epoch = epoch
      in if next_slot > slots_in_epoch \<or> force_switch_to_next_epoch then (next_epoch + 1, 1)
         else (next_epoch, next_slot))"

text \<open>\<open>node.block_generate(generate_forging_request(epoch, slot, forced_tx))\<close>\<close>

definition forge_at :: "'w env \<Rightarrow> sc_node \<Rightarrow> pyval \<Rightarrow> int \<times> int \<Rightarrow> ('w, pyval) prog" where
  "forge_at E node forced_tx es =
     pbind (plift (generate_forging_request (fst es) (snd es) forced_tx)) (\<lambda>forging_request.
       sc_call E node ''block_generate'' [PStr forging_request])"

text \<open>The reasons for which the node will not forge in a later slot either, with the assertion each
  of them is reported by; the description is included in the last two.\<close>

definition fatal_reasons :: "(string \<times> (string \<Rightarrow> string)) list" where
  "fatal_reasons =
     [(''no forging stake'', \<lambda>d. ''No forging stake for the epoch''),
      (''ForgerStakes list can't be empty'', \<lambda>d. ''Empty forger stakes list''),
      (''top quality certificate'', \<lambda>d. ''Inconsistent top quality certificate''),
      (''the sidechain has ceased'', \<lambda>d. ''Sidechain has ceased''),
      (''semantically invalid'', \<lambda>d. ''One transaction in the block is semantically invalid''),
      (''CertificateKeyRotationTransaction'', \<lambda>d. ''CertificateKeyRotationTransaction error: '' @ d),
      (''We can not forge until we have at least a mc block reference'',
        \<lambda>d. ''No mc refs in a long row of blocks error: '' @ d)]"

fun check_reasons :: "pyval \<Rightarrow> (string \<times> (string \<Rightarrow> string)) list \<Rightarrow> unit res" where
  "check_reasons description [] = Inr ()"
| "check_reasons description ((pat, msg) # rs) = rbind (py_in pat description) (\<lambda>found.
     if found then rerr AssertionError (msg (py_str description)) [] else check_reasons description rs)"

text \<open>\<^verbatim>\<open>"error" in forge_result and forge_result["error"]["code"] == "0105"\<close>\<close>

definition not_created :: "pyval \<Rightarrow> bool res" where
  "not_created forge_result = rbind (py_in ''error'' forge_result) (\<lambda>b.
     if b then rbind (py_path forge_result [''error'', ''code'']) (\<lambda>c. Inr (py_eq c (PStr ''0105''))) else Inr False)"

function forge_loop :: "'w env \<Rightarrow> sc_node \<Rightarrow> pyval \<Rightarrow> int \<Rightarrow> int \<Rightarrow> int \<times> int \<Rightarrow> pyval \<Rightarrow> ('w, pyval) prog" where
  "forge_loop E node forced_tx slots_in_epoch count_slot es forge_result =
     pbind (plift (not_created forge_result)) (\<lambda>again.
       if \<not> again then pret forge_result
       else pbind (plift (py_path forge_result [''error'', ''description''])) (\<lambda>description.
         pseq (plift (check_reasons description fatal_reasons))
           (if count_slot - 1 \<le> 0 then
              praise AssertionError (''Could not generate any block in this epoch: '' @ py_str description) []
            else let es' = get_next_epoch_slot (fst es) (snd es) slots_in_epoch False
              in pbind (forge_at E node forced_tx es')
                   (forge_loop E node forced_tx slots_in_epoch (count_slot - 1) es'))))"
  by auto
termination
  by (relation "measure (\<lambda>(E, node, tx, n, c, es, r). nat c)") auto

declare forge_loop.simps [simp del]

text \<open>The starting point: the number of slots in an epoch and the place of the best block.\<close>

definition forging_start :: "'w env \<Rightarrow> sc_node \<Rightarrow> ('w, int \<times> int \<times> int) prog" where
  "forging_start E node = pbind (sc_call E node ''block_forgingInfo'' []) (\<lambda>r.
     plift (rbind (py_get r ''result'') (\<lambda>forging_info.
       rbind (rbind (py_get forging_info ''consensusSlotsInEpoch'') as_int) (\<lambda>slots_in_epoch.
         rbind (rbind (py_get forging_info ''bestBlockSlotNumber'') as_int) (\<lambda>best_slot.
           rbind (rbind (py_get forging_info ''bestBlockEpochNumber'') as_int) (\<lambda>best_epoch.
             Inr (slots_in_epoch, best_epoch, best_slot)))))))"

definition generate_next_block :: "'w env \<Rightarrow> sc_node \<Rightarrow> string \<Rightarrow> bool \<Rightarrow> pyval \<Rightarrow> ('w, pyval) prog" where
  "generate_next_block E node node_name force_switch_to_next_epoch forced_tx =
     pbind (forging_start E node) (\<lambda>(slots_in_epoch, best_epoch, best_slot).
       let es = get_next_epoch_slot best_epoch best_slot slots_in_epoch force_switch_to_next_epoch
       in pbind (forge_at E node forced_tx es) (\<lambda>forge_result.
            pbind (forge_loop E node forced_tx slots_in_epoch slots_in_epoch es forge_result) (\<lambda>forge_result.
              pbind (plift (py_in ''result'' forge_result)) (\<lambda>ok.
                pseq (plift (assert_true ok (''Error during block generation for SC '' @ node_name)))
                  (plift (py_path forge_result [''result'', ''blockId'']))))))"

definition generate_next_blocks :: "'w env \<Rightarrow> sc_node \<Rightarrow> string \<Rightarrow> int \<Rightarrow> ('w, pyval list) prog" where
  "generate_next_blocks E node node_name blocks_count =
     pfold (\<lambda>_ blocks_ids. pbind (generate_next_block E node node_name False PNone) (\<lambda>b. pret (blocks_ids @ [b])))
       (py_range blocks_count) []"

definition try_to_generate_block_in_slot :: "'w env \<Rightarrow> sc_node \<Rightarrow> int \<Rightarrow> int \<Rightarrow> ('w, pyval) prog" where
  "try_to_generate_block_in_slot E node next_epoch next_slot = forge_at E node PNone (next_epoch, next_slot)"

text \<open>\<^verbatim>\<open>"result" in res and "blockId" in res["result"]\<close>\<close>

definition has_block_id :: "pyval \<Rightarrow> bool res" where
  "has_block_id r = rbind (py_in ''result'' r) (\<lambda>b.
     if b then rbind (py_get r ''result'') (py_in ''blockId'') else Inr False)"

text \<open>One turn of the loop: the ids so far and the slot to try next.\<close>

definition try_slot :: "'w env \<Rightarrow> sc_node \<Rightarrow> int \<Rightarrow> bool \<Rightarrow> pyval list \<times> int \<times> int \<Rightarrow> ('w, pyval list \<times> int \<times> int) prog" where
  "try_slot E node slots_in_epoch add_empty_slots st = (case st of (block_ids, next_epoch, next_slot) \<Rightarrow>
     pbind (try_to_generate_block_in_slot E node next_epoch next_slot) (\<lambda>res.
       pbind (plift (has_block_id res)) (\<lambda>ok.
         pbind (if ok then pbind (plift (py_path res [''result'', ''blockId''])) (\<lambda>b. pret (block_ids @ [b]))
                else if add_empty_slots then pret (block_ids @ [PStr []]) else pret block_ids) (\<lambda>block_ids.
           pret (block_ids, get_next_epoch_slot next_epoch next_slot slots_in_epoch False)))))"

definition try_to_generate_block_in_slots :: "'w env \<Rightarrow> sc_node \<Rightarrow> int \<Rightarrow> bool \<Rightarrow> ('w, pyval list) prog" where
  "try_to_generate_block_in_slots E node slot_count add_empty_slots =
     pbind (forging_start E node) (\<lambda>(slots_in_epoch, best_epoch, best_slot).
       pbind (pfold (\<lambda>_. try_slot E node slots_in_epoch add_empty_slots)
         (py_range slot_count) ([], get_next_epoch_slot best_epoch best_slot slots_in_epoch False))
       (\<lambda>(block_ids, _). pret block_ids))"

text \<open>Were the withdrawal proofs of all these boxes finished?\<close>

definition csw_status :: "'w env \<Rightarrow> sc_node \<Rightarrow> pyval \<Rightarrow> ('w, pyval) prog" where
  "csw_status E sc_node box_id = pbind (plift (json_dumps (PDict [(''boxId'', box_id)]))) (\<lambda>req.
     pbind (sc_call E sc_node ''csw_cswInfo'' [PStr req]) (\<lambda>r.
       plift (py_path r [''result'', ''cswInfo'', ''proofInfo'', ''status''])))"

fun if_csws_were_generated :: "'w env \<Rightarrow> sc_node \<Rightarrow> pyval list \<Rightarrow> bool \<Rightarrow> ('w, bool) prog" where
  "if_csws_were_generated E sc_node [] allow_absent = pret True"
| "if_csws_were_generated E sc_node (box_id # csw_box_ids) allow_absent =
     pbind (csw_status E sc_node box_id) (\<lambda>status.
       if py_eq status (PStr ''Absent'') \<and> allow_absent then if_csws_were_generated E sc_node csw_box_ids allow_absent
       else if \<not> py_eq status (PStr ''Generated'') then pret False
       else if_csws_were_generated E sc_node csw_box_ids allow_absent)"

definition get_withdrawal_epoch :: "'w env \<Rightarrow> sc_node \<Rightarrow> ('w, pyval) prog" where
  "get_withdrawal_epoch E sc_node = pbind (sc_call E sc_node ''block_best'' []) (\<lambda>r.
     pbind (plift (py_path r [''result'', ''block'', ''id''])) (\<lambda>block_id.
       pbind (plift (json_dumps (PDict [(''blockId'', block_id)]))) (\<lambda>request.
         pbind (sc_call E sc_node ''block_findBlockInfoById'' [PStr request]) (\<lambda>r.
           plift (py_path r [''result'', ''blockInfo'', ''withdrawalEpochInfo'', ''epoch''])))))"

section \<open>The slots that are tried\<close>

definition slot_after :: "int \<Rightarrow> int \<times> int \<Rightarrow> int \<times> int" where
  "slot_after N es = get_next_epoch_slot (fst es) (snd es) N False"

definition nth_slot :: "int \<Rightarrow> int \<times> int \<Rightarrow> nat \<Rightarrow> int \<times> int" where
  "nth_slot N es k = (slot_after N ^^ k) es"

lemma nth_slot_0 [simp]: "nth_slot N es 0 = es"
  by (simp add: nth_slot_def)

lemma nth_slot_Suc: "nth_slot N es (Suc k) = nth_slot N (slot_after N es) k"
  by (simp add: nth_slot_def funpow_swap1)

definition forge_call :: "sc_node \<Rightarrow> pyval \<Rightarrow> int \<times> int \<Rightarrow> event" where
  "forge_call node forced_tx es = ScCall node ''block_generate''
     [PStr (case generate_forging_request (fst es) (snd es) forced_tx of Inl _ \<Rightarrow> [] | Inr q \<Rightarrow> q)] []"

definition forge_calls :: "sc_node \<Rightarrow> pyval \<Rightarrow> int \<Rightarrow> int \<times> int \<Rightarrow> nat \<Rightarrow> event list" where
  "forge_calls node forced_tx N es k = map (\<lambda>j. forge_call node forced_tx (nth_slot N es j)) [0..<k]"

lemma forge_calls_0 [simp]: "forge_calls node tx N es 0 = []"
  by (simp add: forge_calls_def)

lemma forge_calls_Suc:
  "forge_calls node tx N es (Suc k) = forge_call node tx es # forge_calls node tx N (slot_after N es) k"
  by (simp add: forge_calls_def upt_conv_Cons map_Suc_upt [symmetric] comp_def nth_slot_Suc del: upt_Suc)

lemma forge_at_run:
  assumes "forge_at E node tx es s = Some (r, t)"
  shows "(\<exists>e. r = Inl e \<and> t = s) \<or> w_calls t = w_calls s @ [forge_call node tx es]"
  using assms
  by (cases "generate_forging_request (fst es) (snd es) tx")
    (auto simp: forge_at_def forge_call_def pbind_run sc_call_def pact_run)

lemma slot_after_valid:
  assumes "1 \<le> slot" and "slot \<le> N" and "get_next_epoch_slot epoch slot N force = (epoch', slot')"
  shows "1 \<le> slot' \<and> slot' \<le> N \<and> epoch' * N + slot' = (if force then epoch * N + N + 1 else epoch * N + slot + 1)"
  using assms by (auto simp: get_next_epoch_slot_def Let_def algebra_simps split: if_splits)

lemma nth_slot_number:
  assumes "1 \<le> snd es" and "snd es \<le> N"
  shows "1 \<le> snd (nth_slot N es k) \<and> snd (nth_slot N es k) \<le> N \<and>
    fst (nth_slot N es k) * N + snd (nth_slot N es k) = fst es * N + snd es + int k"
  using assms
proof (induction k arbitrary: es)
  case (Suc k)
  have "slot_after N es = (fst (slot_after N es), snd (slot_after N es))" by simp
  with Suc.prems slot_after_valid [of "snd es" N "fst es" False]
  have "1 \<le> snd (slot_after N es)" "snd (slot_after N es) \<le> N"
    "fst (slot_after N es) * N + snd (slot_after N es) = fst es * N + snd es + 1"
    unfolding slot_after_def by (metis (full_types))+
  with Suc.IH [of "slot_after N es"] show ?case by (simp add: nth_slot_Suc)
qed simp

section \<open>The forging loop\<close>

text \<open>The loop goes on to the next slot after the error 0105 for a reason that is not fatal, unless
  the slots of one epoch have been used up.\<close>

definition goes_on :: "int \<Rightarrow> pyval \<Rightarrow> bool" where
  "goes_on c res \<longleftrightarrow> (\<exists>d. not_created res = Inr True \<and> py_path res [''error'', ''description''] = Inr d \<and>
     check_reasons d fatal_reasons = Inr ()) \<and> 1 < c"

lemma forge_loop_stop:
  assumes "\<not> goes_on c res" and "forge_loop E node tx N c es res s = Some (r, t)"
  shows "t = s \<and> (\<forall>res'. r = Inr res' \<longrightarrow> not_created res' = Inr False \<and> res' = res)"
  using assms
  by (auto simp: goes_on_def forge_loop.simps [of E node tx N c es res] pbind_run split: sum.splits if_splits)

lemma forge_loop_step:
  assumes "goes_on c res"
  shows "forge_loop E node tx N c es res s =
    pbind (forge_at E node tx (slot_after N es)) (forge_loop E node tx N (c - 1) (slot_after N es)) s"
  using assms
  by (auto simp: goes_on_def forge_loop.simps [of E node tx N c es res] pbind_run [of "plift _"] Let_def slot_after_def)

lemma forge_loop_run:
  assumes "forge_loop E node tx N c es res s = Some (r, t)"
  shows "\<exists>k. int k < max 1 c \<and> w_calls t = w_calls s @ forge_calls node tx N (slot_after N es) k \<and>
    (\<forall>res'. r = Inr res' \<longrightarrow> not_created res' = Inr False \<and>
      (if k = 0 then res' = res \<and> t = s else \<exists>v. forge_at E node tx (nth_slot N es k) v = Some (Inr res', t)))"
  using assms
proof (induction "nat c" arbitrary: c es res s r t)
  case 0
  then have "\<not> goes_on c res" by (auto simp: goes_on_def)
  from forge_loop_stop [OF this 0(2)] show ?case by (intro exI [of _ 0]) auto
next
  case (Suc n)
  show ?case
  proof (cases "goes_on c res")
    case False
    from forge_loop_stop [OF this Suc.prems] show ?thesis by (intro exI [of _ 0]) auto
  next
    case True
    let ?es = "slot_after N es"
    have c: "n = nat (c - 1)" "1 < c" using Suc.hyps(2) True by (auto simp: goes_on_def)
    from Suc.prems True obtain r1 u where at: "forge_at E node tx ?es s = Some (r1, u)"
      and rest: "case r1 of Inl e \<Rightarrow> r = Inl e \<and> t = u | Inr res1 \<Rightarrow> forge_loop E node tx N (c - 1) ?es res1 u = Some (r, t)"
      by (auto simp: forge_loop_step pbind_run split: option.splits sum.splits)
    note calls = forge_at_run [OF at]
    show ?thesis
    proof (cases r1)
      case (Inl e)
      with rest calls c show ?thesis
        by (auto intro: exI [of _ 0] exI [of _ 1] simp: forge_calls_Suc)
    next
      case (Inr res1)
      with rest have "forge_loop E node tx N (c - 1) ?es res1 u = Some (r, t)" by simp
      from Suc.hyps(1) [OF c(1) this] obtain k where k: "int k < max 1 (c - 1)"
        "w_calls t = w_calls u @ forge_calls node tx N (slot_after N ?es) k"
        "\<And>res'. r = Inr res' \<Longrightarrow> not_created res' = Inr False \<and> (if k = 0 then res' = res1 \<and> t = u
           else \<exists>v. forge_at E node tx (nth_slot N ?es k) v = Some (Inr res', t))"
        by blast
      have "\<exists>v. forge_at E node tx (nth_slot N es (Suc k)) v = Some (Inr res', t)" if "r = Inr res'" for res'
        using k(3) [OF that] at Inr by (cases "k = 0") (auto simp: nth_slot_Suc)
      with k calls Inr c(2) show ?thesis
        by (intro exI [of _ "Suc k"]) (auto simp: forge_calls_Suc)
    qed
  qed
qed

lemma forge_loop_rets: "rets (forge_loop E node tx N c es res)"
proof (induction E node tx N c es res rule: forge_loop.induct)
  case (1 E node tx N c es res)
  have "rets (forge_loop E node tx N (c - 1) (get_next_epoch_slot (fst es) (snd es) N False) x)"
    if "\<not> c - 1 \<le> 0" for x
    by (rule "1.IH" [of True, OF _ that refl]) simp
  then show ?case
    by (subst forge_loop.simps)
      (auto simp: Let_def forge_at_def intro!: rets_pbind rets_basic split: if_split)
qed

lemma check_reasons_find:
  "check_reasons (PStr d) rs = (case List.find (\<lambda>r. is_substr (fst r) d) rs of
     None \<Rightarrow> Inr () | Some (pat, msg) \<Rightarrow> rerr AssertionError (msg d) [])"
  by (induction rs) (auto simp: py_str_def)

section \<open>Properties\<close>

text \<open>C7. The next slot is a slot of the epoch and comes right after the given one, the first slot of
  the next epoch following the last one; a forced switch goes to the first slot of the next epoch,
  which also comes later.\<close>
theorem get_next_epoch_slot_succ:
  assumes "1 \<le> slot" and "slot \<le> slots_in_epoch"
    and "get_next_epoch_slot epoch slot slots_in_epoch force = (epoch', slot')"
  shows "1 \<le> slot' \<and> slot' \<le> slots_in_epoch \<and>
    (if force then (epoch', slot') = (epoch + 1, 1)
     else epoch' * slots_in_epoch + slot' = epoch * slots_in_epoch + slot + 1) \<and>
    epoch * slots_in_epoch + slot < epoch' * slots_in_epoch + slot'"
proof -
  from slot_after_valid [OF assms] have "1 \<le> slot'" "slot' \<le> slots_in_epoch"
    "epoch' * slots_in_epoch + slot' =
      (if force then epoch * slots_in_epoch + slots_in_epoch + 1 else epoch * slots_in_epoch + slot + 1)" by auto
  moreover have "force \<Longrightarrow> (epoch', slot') = (epoch + 1, 1)"
    using assms(3) by (simp add: get_next_epoch_slot_def Let_def)
  ultimately show ?thesis using assms(1,2) by auto
qed

theorem get_next_epoch_slot_succ_witness:
  "get_next_epoch_slot 4 720 720 False = (5, 1) \<and> (5::int) * 720 + 1 = 4 * 720 + 720 + 1"
  using get_next_epoch_slot_succ [of 720 720 4 False 5 1] by (simp add: get_next_epoch_slot_def)

text \<open>C1. \<open>generate_next_block\<close> asks the node to forge in consecutive slots, beginning right after the
  best block (or at the next epoch), and in at most as many slots as an epoch has. A block id it
  returns is the one in the node's last answer.\<close>
theorem generate_next_block_tries:
  assumes info: "forging_start E node s = Some (Inr (slots_in_epoch, best_epoch, best_slot), u)"
    and run: "generate_next_block E node node_name force forced_tx s = Some (r, t)"
  shows "\<exists>k. int k \<le> max 1 slots_in_epoch \<and>
    w_calls t = w_calls u @ forge_calls node forced_tx slots_in_epoch
      (get_next_epoch_slot best_epoch best_slot slots_in_epoch force) k \<and>
    (\<forall>block_id. r = Inr block_id \<longrightarrow> (\<exists>v reply. 0 < k \<and>
      forge_at E node forced_tx (nth_slot slots_in_epoch
        (get_next_epoch_slot best_epoch best_slot slots_in_epoch force) (k - 1)) v = Some (Inr reply, t) \<and>
      not_created reply = Inr False \<and> py_path reply [''result'', ''blockId''] = Inr block_id))"
proof -
  let ?N = slots_in_epoch and ?es = "get_next_epoch_slot best_epoch best_slot slots_in_epoch force"
  obtain r1 u1 where at: "forge_at E node forced_tx ?es u = Some (r1, u1)"
    by (cases "generate_forging_request (fst ?es) (snd ?es) forced_tx")
      (auto simp: forge_at_def pbind_run sc_call_def pact_run)
  note calls = forge_at_run [OF at]
  show ?thesis
  proof (cases r1)
    case (Inl e)
    with info run at have "r = Inl e" "t = u1" by (auto simp: generate_next_block_def pbind_run Let_def)
    with calls Inl show ?thesis by (auto intro: exI [of _ 0] exI [of _ 1] simp: forge_calls_Suc)
  next
    case (Inr res1)
    obtain r2 u2 where loop: "forge_loop E node forced_tx ?N ?N ?es res1 u1 = Some (r2, u2)"
      using forge_loop_rets unfolding rets_def by blast
    from forge_loop_run [OF loop] obtain k where k: "int k < max 1 ?N"
      "w_calls u2 = w_calls u1 @ forge_calls node forced_tx ?N (slot_after ?N ?es) k"
      "\<And>res'. r2 = Inr res' \<Longrightarrow> not_created res' = Inr False \<and> (if k = 0 then res' = res1 \<and> u2 = u1
         else \<exists>v. forge_at E node forced_tx (nth_slot ?N ?es k) v = Some (Inr res', u2))"
      by blast
    have t: "t = u2" using info run at Inr loop
      by (auto simp: generate_next_block_def pbind_run Let_def split: sum.splits)
    have last: "\<exists>v. forge_at E node forced_tx (nth_slot ?N ?es k) v = Some (Inr res', t)" if "r2 = Inr res'" for res'
      using k(3) [OF that] at Inr t by (cases "k = 0") auto
    have ok: "\<exists>res'. r2 = Inr res' \<and> py_path res' [''result'', ''blockId''] = Inr b" if "r = Inr b" for b
      using info run at Inr loop that
      by (auto simp: generate_next_block_def pbind_run Let_def split: sum.splits)
    show ?thesis
      using calls Inr k t last ok by (intro exI [of _ "Suc k"]) (fastforce simp: forge_calls_Suc)
  qed
qed

definition forging_reply :: "int \<Rightarrow> int \<Rightarrow> int \<Rightarrow> pyval res" where
  "forging_reply N epoch slot = Inr (PDict [(''result'', PDict [(''consensusSlotsInEpoch'', PInt N),
     (''bestBlockSlotNumber'', PInt slot), (''bestBlockEpochNumber'', PInt epoch)])])"

definition skip_reply :: "string \<Rightarrow> pyval res" where
  "skip_reply d = Inr (PDict [(''error'', PDict [(''code'', PStr ''0105''), (''description'', PStr d)])])"

definition block_reply :: "string \<Rightarrow> pyval res" where
  "block_reply b = Inr (PDict [(''result'', PDict [(''blockId'', PStr b)])])"

lemmas forging_run = generate_next_block_def forging_start_def forge_loop.simps Let_def
  forge_at_def not_created_def forging_reply_def skip_reply_def block_reply_def get_next_epoch_slot_def
  generate_forging_request_def check_reasons_find fatal_reasons_def assert_true_def

theorem generate_next_block_tries_witness:
  "\<exists>u t k. forging_start sample_env (sample_node ''a'') (sample_world 0 0
      [forging_reply 720 2 720, skip_reply ''not leader'', block_reply ''b1'']) = Some (Inr (720, 2, 720), u) \<and>
    generate_next_block sample_env (sample_node ''a'') ''n'' False PNone (sample_world 0 0
      [forging_reply 720 2 720, skip_reply ''not leader'', block_reply ''b1'']) = Some (Inr (PStr ''b1''), t) \<and>
    w_calls t = w_calls u @ forge_calls (sample_node ''a'') PNone 720 (3, 1) k \<and> k \<le> 720"
proof -
  let ?w = "sample_world 0 0 [forging_reply 720 2 720, skip_reply ''not leader'', block_reply ''b1'']"
  obtain u where u: "forging_start sample_env (sample_node ''a'') ?w = Some (Inr (720, 2, 720), u)"
    by (simp add: forging_start_def forging_reply_def sample_world_def ext_defs prog_simps)
  obtain t where t: "generate_next_block sample_env (sample_node ''a'') ''n'' False PNone ?w = Some (Inr (PStr ''b1''), t)"
    by (simp add: forging_run sample_world_def ext_defs prog_simps)
  show ?thesis
    using generate_next_block_tries [OF u t] u t by (auto simp: get_next_epoch_slot_def)
qed

text \<open>C6. Forging always comes to an end, whatever the node answers: \<open>generate_next_block\<close>,
  \<open>generate_next_blocks\<close> and \<open>try_to_generate_block_in_slots\<close> return or raise.\<close>
theorem forging_returns:
  "rets (generate_next_block E node node_name force forced_tx) \<and>
   rets (generate_next_blocks E node node_name n) \<and>
   rets (try_to_generate_block_in_slots E node slot_count add_empty_slots)"
proof -
  have fold: "rets (pfold f xs acc)" if "\<And>x a. rets (f x a)"
    for f :: "'x \<Rightarrow> 'y \<Rightarrow> ('a, 'y) prog" and xs acc
    using that by (induction xs arbitrary: acc) (auto intro: rets_basic rets_pbind)
  have start: "rets (forging_start E node)" and forge: "rets (forge_at E node tx es)" for tx es
    by (auto simp: forging_start_def forge_at_def intro!: rets_pbind rets_basic)
  have next_block: "rets (generate_next_block E node node_name force forced_tx)" for force forced_tx
    unfolding generate_next_block_def Let_def
    by (auto intro!: rets_pbind rets_basic start forge forge_loop_rets)
  show ?thesis
    unfolding generate_next_blocks_def try_to_generate_block_in_slots_def try_slot_def try_to_generate_block_in_slot_def
    by (auto intro!: rets_pbind rets_basic start forge next_block fold split: prod.split)
qed

text \<open>A refusal with code 0105 whose description names one of the fatal reasons ends forging at
  once: no further slot is tried and the assertion is the one of the first reason found.\<close>
theorem forging_aborts_on_fatal_reason:
  assumes "not_created reply = Inr True"
    and "py_path reply [''error'', ''description''] = Inr (PStr description)"
    and "List.find (\<lambda>r. is_substr (fst r) description) fatal_reasons = Some (reason, msg)"
  shows "forge_loop E node forced_tx slots_in_epoch count_slot es reply s
    = Some (Inl (PyErr AssertionError (msg description) []), s)"
  using assms by (subst forge_loop.simps) (simp add: pbind_run check_reasons_find rerr_def)

theorem forging_aborts_on_fatal_reason_witness:
  "forge_loop sample_env (sample_node ''a'') PNone 720 720 (1, 1)
      (PDict [(''error'', PDict [(''code'', PStr ''0105''), (''description'', PStr ''x: the sidechain has ceased'')])])
      (sample_world 0 0 [])
    = Some (Inl (PyErr AssertionError ''Sidechain has ceased'' []), sample_world 0 0 [])"
proof -
  have "List.find (\<lambda>r. is_substr (fst r) ''x: the sidechain has ceased'') fatal_reasons
      = Some (''the sidechain has ceased'', \<lambda>d. ''Sidechain has ceased'')"
    by (simp add: fatal_reasons_def)
  then show ?thesis
    by (rule forging_aborts_on_fatal_reason [OF _ _, rotated 2]) (simp_all add: not_created_def)
qed

lemma pfold_collect_length:
  assumes "pfold (\<lambda>x acc. pbind (m x) (\<lambda>b. pret (acc @ [b]))) xs acc s = Some (Inr ys, t)"
  shows "length ys = length acc + length xs"
  using assms by (induction xs arbitrary: acc s) (fastforce simp: pbind_Inr_iff)+

text \<open>When it returns, \<open>generate_next_blocks\<close> returns one block id per requested block.\<close>
theorem generate_next_blocks_count:
  assumes "generate_next_blocks E node node_name blocks_count s = Some (Inr ids, t)"
  shows "length ids = nat blocks_count"
  using pfold_collect_length [of "\<lambda>_. generate_next_block E node node_name False PNone" "py_range blocks_count" "[]" s ids t] assms
  by (simp add: generate_next_blocks_def py_range_def)

theorem generate_next_blocks_count_witness:
  "\<exists>ids t. generate_next_blocks sample_env (sample_node ''a'') ''n'' 2 (sample_world 0 0
      [forging_reply 720 2 5, block_reply ''b1'', forging_reply 720 2 6, block_reply ''b2'']) = Some (Inr ids, t)
    \<and> length ids = 2"
proof -
  have "[0..1::int] = [0, 1]" by (simp add: upto.simps)
  then have "\<exists>ids t. generate_next_blocks sample_env (sample_node ''a'') ''n'' 2 (sample_world 0 0
      [forging_reply 720 2 5, block_reply ''b1'', forging_reply 720 2 6, block_reply ''b2'']) = Some (Inr ids, t)"
    by (simp add: generate_next_blocks_def py_range_def forging_run sample_world_def ext_defs prog_simps)
  then show ?thesis using generate_next_blocks_count by fastforce
qed

lemma try_slot_run:
  assumes "try_slot E node N add (ids0, es) s = Some (Inr st, t)"
  shows "w_calls t = w_calls s @ [forge_call node PNone es] \<and> snd st = slot_after N es \<and>
    (add \<longrightarrow> length (fst st) = Suc (length ids0)) \<and> length (fst st) \<le> Suc (length ids0)"
proof -
  obtain e sl where es: "es = (e, sl)" by (cases es)
  from assms obtain res u where at: "forge_at E node PNone es s = Some (Inr res, u)"
    and rest: "pbind (plift (has_block_id res)) (\<lambda>ok.
       pbind (if ok then pbind (plift (py_path res [''result'', ''blockId''])) (\<lambda>b. pret (ids0 @ [b]))
              else if add then pret (ids0 @ [PStr []]) else pret ids0) (\<lambda>block_ids.
         pret (block_ids, get_next_epoch_slot e sl N False))) u = Some (Inr st, t)"
    by (auto simp: try_slot_def try_to_generate_block_in_slot_def es pbind_Inr_iff [of "forge_at _ _ _ _"])
  from rest have "t = u \<and> snd st = slot_after N es \<and> (add \<longrightarrow> length (fst st) = Suc (length ids0)) \<and>
      length (fst st) \<le> Suc (length ids0)"
    by (auto simp: pbind_Inr_iff slot_after_def es split: if_splits)
  with forge_at_run [OF at] show ?thesis by simp
qed

lemma try_slots_fold:
  assumes "pfold (\<lambda>_. try_slot E node N add) xs (ids0, es) s = Some (Inr st, t)"
  shows "w_calls t = w_calls s @ forge_calls node PNone N es (length xs) \<and>
    (add \<longrightarrow> length (fst st) = length ids0 + length xs) \<and> length (fst st) \<le> length ids0 + length xs"
  using assms
proof (induction xs arbitrary: ids0 es s)
  case (Cons x xs)
  then obtain st1 u where one: "try_slot E node N add (ids0, es) s = Some (Inr st1, u)"
    and rest: "pfold (\<lambda>_. try_slot E node N add) xs (fst st1, snd st1) u = Some (Inr st, t)"
    by (auto simp: pbind_Inr_iff)
  from try_slot_run [OF one] Cons.IH [OF rest] show ?case by (auto simp: forge_calls_Suc)
qed auto

text \<open>\<open>try_to_generate_block_in_slots\<close> asks for a block in exactly \<open>slot_count\<close> consecutive slots
  after the best block; with \<open>add_empty_slots\<close> the result has one entry for every slot, otherwise
  at most one.\<close>
theorem try_to_generate_slots:
  assumes "forging_start E node s = Some (Inr (slots_in_epoch, best_epoch, best_slot), u)"
    and "try_to_generate_block_in_slots E node slot_count add_empty_slots s = Some (Inr ids, t)"
  shows "w_calls t = w_calls u @ forge_calls node PNone slots_in_epoch
      (get_next_epoch_slot best_epoch best_slot slots_in_epoch False) (nat slot_count) \<and>
    (add_empty_slots \<longrightarrow> length ids = nat slot_count) \<and> length ids \<le> nat slot_count"
  using assms
  by (fastforce simp: try_to_generate_block_in_slots_def pbind_Inr_iff py_range_def dest!: try_slots_fold)

theorem try_to_generate_slots_witness:
  "\<exists>ids t. try_to_generate_block_in_slots sample_env (sample_node ''a'') 2 True (sample_world 0 0
      [forging_reply 720 2 5, skip_reply ''not leader'', block_reply ''b2'']) = Some (Inr ids, t) \<and> length ids = 2"
proof -
  let ?w = "sample_world 0 0 [forging_reply 720 2 5, skip_reply ''not leader'', block_reply ''b2'']"
  obtain u where u: "forging_start sample_env (sample_node ''a'') ?w = Some (Inr (720, 2, 5), u)"
    by (simp add: forging_start_def forging_reply_def sample_world_def ext_defs prog_simps)
  have r: "[0..1::int] = [0, 1]" by (simp add: upto.simps)
  obtain ids t where t: "try_to_generate_block_in_slots sample_env (sample_node ''a'') 2 True ?w = Some (Inr ids, t)"
    by (simp add: try_to_generate_block_in_slots_def try_slot_def try_to_generate_block_in_slot_def has_block_id_def
        py_range_def r forging_run sample_world_def ext_defs prog_simps)
  from try_to_generate_slots [OF u t] t show ?thesis by auto
qed

text \<open>If the proof of every box has been generated (or is absent where that is allowed) the check
  answers true; a proof in any other state makes it answer false without asking for the
  remaining boxes.\<close>
theorem if_csws_were_generated_spec:
  assumes "if_csws_were_generated E sc_node boxes allow_absent s = Some (Inr b, t)"
  shows "\<exists>asked statuses. pmap (csw_status E sc_node) asked s = Some (Inr statuses, t) \<and>
    (if b then asked = boxes \<and>
       (\<forall>st \<in> set statuses. py_eq st (PStr ''Generated'') \<or> (allow_absent \<and> py_eq st (PStr ''Absent'')))
     else is_prefix asked boxes \<and> asked \<noteq> [] \<and> \<not> py_eq (last statuses) (PStr ''Generated''))"
  using assms
proof (induction boxes arbitrary: s)
  case (Cons box boxes)
  from Cons.prems obtain st u where st: "csw_status E sc_node box s = Some (Inr st, u)"
    by (auto simp: pbind_Inr_iff)
  show ?case
  proof (cases "\<not> (py_eq st (PStr ''Absent'') \<and> allow_absent) \<and> \<not> py_eq st (PStr ''Generated'')")
    case True
    with Cons.prems st have "\<not> b" "t = u" by (auto simp: pbind_run)
    with st True show ?thesis by (intro exI [of _ "[box]"] exI [of _ "[st]"]) (simp add: pbind_run)
  next
    case False
    with Cons.prems st have "if_csws_were_generated E sc_node boxes allow_absent u = Some (Inr b, t)"
      by (auto simp: pbind_run split: if_splits)
    from Cons.IH [OF this] obtain asked sts where
      "pmap (csw_status E sc_node) asked u = Some (Inr sts, t)" and
      "if b then asked = boxes \<and> (\<forall>st \<in> set sts. py_eq st (PStr ''Generated'') \<or> (allow_absent \<and> py_eq st (PStr ''Absent'')))
       else is_prefix asked boxes \<and> asked \<noteq> [] \<and> \<not> py_eq (last sts) (PStr ''Generated'')" by blast
    moreover from this have "length sts = length asked" by (auto dest: pmap_Inr_length)
    ultimately show ?thesis using st False
      by (intro exI [of _ "box # asked"] exI [of _ "st # sts"]) (auto simp: pbind_run split: if_splits)
  qed
qed auto

theorem if_csws_were_generated_spec_witness:
  "\<exists>t asked statuses. if_csws_were_generated sample_env (sample_node ''a'') [PStr ''x'', PStr ''y''] False
      (sample_world 0 0 [Inr (PDict [(''result'', PDict [(''cswInfo'', PDict [(''proofInfo'', PDict [(''status'', PStr ''Absent'')])])])])])
    = Some (Inr False, t) \<and> asked \<noteq> [] \<and> is_prefix asked [PStr ''x'', PStr ''y''] \<and> \<not> py_eq (last statuses) (PStr ''Generated'')"
proof -
  let ?w = "sample_world 0 0 [Inr (PDict [(''result'', PDict [(''cswInfo'', PDict [(''proofInfo'', PDict [(''status'', PStr ''Absent'')])])])])]"
  obtain t where t: "if_csws_were_generated sample_env (sample_node ''a'') [PStr ''x'', PStr ''y''] False ?w = Some (Inr False, t)"
    by (simp add: csw_status_def sample_world_def ext_defs prog_simps)
  from if_csws_were_generated_spec [OF t] t show ?thesis by auto
qed

end
