(* ===== verification/Account_Setup.thy ===== *)
theory Account_Setup
  imports Test_Framework Sc_Checks Forging
begin

text \<open>
  \<^verbatim>\<open>AccountChainSetup\<close> (\<^verbatim>\<open>qa/SidechainTestFramework/account/ac_chain_setup.py\<close>), the base class of the tests
  of the account model. Its arguments and the attributes its steps compute are the record
  \<open>account_setup\<close>; a step returns the record it leaves behind. The nodes of the test are in the world,
  as for the other test classes. When forger options are given, the initial private keys are too.
\<close>

section \<open>State and options\<close>

record account_options = test_options +
  op_nonceasing :: bool
  op_certcircuittype :: string
  op_mcblockdelay :: int
  op_all_forks :: bool
  op_maxhistoryrewritinglength :: int

record account_setup =
  as_API_KEY :: string
  as_number_of_mc_nodes :: int
  as_number_of_sidechain_nodes :: int
  as_withdrawalEpochLength :: int
  as_forward_amount :: pyval
  as_block_timestamp_rewind :: pyval
  as_forger_options :: "sc_forger_configuration option"
  as_initial_private_keys :: "pyval list"
  as_circuittype_override :: "string option"
  as_remote_keys_manager_enabled :: bool
  as_remote_keys_server_addresses :: "string list"
  as_max_incoming_connections :: int
  as_connect_nodes :: bool
  as_allow_unprotected_txs :: bool
  as_max_nonce_gap :: int
  as_max_account_slots :: int
  as_max_mempool_slots :: int
  as_max_nonexec_pool_slots :: int
  as_tx_lifetime :: int
  as_websocket_server_ports :: "int option list"
  as_cert_max_keys :: int
  as_cert_sig_threshold :: int
  as_submitters_private_keys_indexes :: "int list list"
  as_debug_extra_args :: "string list list option"
  as_evm_address :: pyval
  as_sc_nodes_bootstrap_info :: "sc_bootstrap_info option"
  as_mc_return_address :: pyval
  as_block_id :: pyval
  as_ft_amount_in_zen :: pyval

text \<open>The constructor sets the nodes of the sidechain to \<^verbatim>\<open>None\<close> and checks the websocket ports, one per
  node; the other arguments are stored as they are and the computed attributes are empty.\<close>

definition AccountChainSetup :: "account_setup \<Rightarrow> ('w, account_setup) prog" where
  "AccountChainSetup args =
     pseq (set_self_sc_nodes None) (
       let ports = (if as_websocket_server_ports args = [] then replicate (nat (as_number_of_sidechain_nodes args)) None
                    else as_websocket_server_ports args)
       in if int (length ports) = as_number_of_sidechain_nodes args
          then pret (args\<lparr>as_websocket_server_ports := ports, as_evm_address := PNone, as_sc_nodes_bootstrap_info := None,
                 as_mc_return_address := PNone, as_block_id := PNone, as_ft_amount_in_zen := PNone\<rparr>)
          else praise AssertionError [] [])"

section \<open>Nodes and network\<close>

definition as_setup_nodes :: "'w env \<Rightarrow> account_options \<Rightarrow> account_setup \<Rightarrow> ('w, mc_node list) prog" where
  "as_setup_nodes E options self = start_nodes E (as_number_of_mc_nodes self) (op_tmpdir options) None None None"

text \<open>The arguments of the nodes are appended to the debugger's, in place when these exist.\<close>

definition node_params :: "account_options \<Rightarrow> string list" where
  "node_params options = [''-mc_block_delay_ref'', str_int (op_mcblockdelay options), ''-all_forks'', py_str (PBool (op_all_forks options)),
     ''-max_hist_rew_len'', str_int (op_maxhistoryrewritinglength options)]"

definition all_node_params :: "account_options \<Rightarrow> account_setup \<Rightarrow> string list list res" where
  "all_node_params options self =
     (let n = as_number_of_sidechain_nodes self;
          base = (case as_debug_extra_args self of None \<Rightarrow> replicate (nat n) [] | Some d \<Rightarrow> d)
      in rbind (rmap (\<lambda>index. rbind (list_get base index) (\<lambda>a. Inr (a @ node_params options))) (py_range n)) (\<lambda>params.
           Inr (params @ drop (nat n) base)))"

definition as_sc_setup_nodes :: "'w env \<Rightarrow> account_options \<Rightarrow> account_setup \<Rightarrow> ('w, sc_node list \<times> account_setup) prog" where
  "as_sc_setup_nodes E options self =
     pbind (plift (all_node_params options self)) (\<lambda>additional_params.
     pbind (start_sc_nodes E (as_number_of_sidechain_nodes self) (op_tmpdir options) (Some (map Some additional_params)) None
         (Some (replicate (nat (as_number_of_sidechain_nodes self)) (Some (EVM_APP_BINARY E)))) False (Some (as_API_KEY self))) (\<lambda>nodes.
       pret (nodes, self\<lparr>as_debug_extra_args := map_option (\<lambda>d. additional_params) (as_debug_extra_args self)\<rparr>)))"

text \<open>Three or more nodes are connected in a ring, two by a single connection.\<close>

definition ring_edges :: "int \<Rightarrow> (int \<times> int) list" where
  "ring_edges n = (if n > 2 then map (\<lambda>i. (i, i + 1)) (py_range (n - 1)) @ [(n - 1, 0)]
     else if n = 2 then [(0, 1)] else [])"

definition connect_edge :: "'w env \<Rightarrow> sc_node list \<Rightarrow> int \<times> int \<Rightarrow> ('w, unit) prog" where
  "connect_edge E nodes e = pbind (plift (list_get nodes (fst e))) (\<lambda>node. connect_sc_nodes E node (snd e) 25)"

definition as_sc_setup_network :: "'w env \<Rightarrow> account_options \<Rightarrow> account_setup \<Rightarrow> ('w, account_setup) prog" where
  "as_sc_setup_network E options self =
     pbind (as_sc_setup_nodes E options self) (\<lambda>(nodes, self).
     pseq (set_self_sc_nodes (Some nodes)) (
     pseq (if as_connect_nodes self \<and> as_number_of_sidechain_nodes self \<ge> 2
           then pseq (piter (connect_edge E nodes) (ring_edges (as_number_of_sidechain_nodes self))) (sync_all E)
           else pret ())
       (pret self)))"

section \<open>Bootstrapping\<close>

definition nth_or :: "'a list \<Rightarrow> int \<Rightarrow> 'b \<Rightarrow> ('a \<Rightarrow> 'b) \<Rightarrow> 'b" where
  "nth_or vs x d f = (if int (length vs) > x then f (vs ! nat x) else d)"

text \<open>The configuration of node \<open>x\<close>; only the first node submits certificates.\<close>

definition as_node_configuration :: "account_setup \<Rightarrow> string \<Rightarrow> int \<Rightarrow> sc_node_configuration res" where
  "as_node_configuration self address x =
     rbind (list_get (as_websocket_server_ports self) x) (\<lambda>port.
       let common = default_node_args\<lparr>nc_mc_connection_info := default_MCConnectionInfo\<lparr>conn_address := address\<rparr>,
             nc_api_key := as_API_KEY self,
             nc_remote_keys_manager_enabled := as_remote_keys_manager_enabled self,
             nc_allow_unprotected_txs := as_allow_unprotected_txs self,
             nc_max_incoming_connections := as_max_incoming_connections self,
             nc_max_nonce_gap := as_max_nonce_gap self,
             nc_max_account_slots := as_max_account_slots self,
             nc_max_mempool_slots := as_max_mempool_slots self,
             nc_max_nonexec_pool_slots := as_max_nonexec_pool_slots self,
             nc_tx_lifetime := as_tx_lifetime self,
             nc_websocket_server_enabled := (port \<noteq> None),
             nc_websocket_server_port := (case port of None \<Rightarrow> 0 | Some p \<Rightarrow> p),
             nc_cert_submitter_enabled := (x = 0)\<rparr>
       in Inr (SCNodeConfiguration (nth_or (as_submitters_private_keys_indexes self) x None Some)
            (nth_or (as_remote_keys_server_addresses self) x (PStr []) PStr)
            (case as_forger_options self of None \<Rightarrow> common
             | Some f \<Rightarrow> common\<lparr>nc_forger_options := f, nc_initial_private_keys := as_initial_private_keys self\<rparr>)))"

definition check_submitters :: "account_setup \<Rightarrow> unit res" where
  "check_submitters self =
     (if int (length (as_submitters_private_keys_indexes self)) > as_number_of_sidechain_nodes self then
        rerr ValueError ''Number of submitters_private_keys_indexes configs must be <= number_of_sidechain_nodes'' []
      else if list_ex (\<lambda>node_indexes. int (length node_indexes) > as_cert_max_keys self) (as_submitters_private_keys_indexes self) then
        rerr ValueError ''node_indexes must be <= cert_max_keys'' []
      else Inr ())"

definition as_circuit_type :: "account_options \<Rightarrow> account_setup \<Rightarrow> string" where
  "as_circuit_type options self = (case as_circuittype_override self of None \<Rightarrow> op_certcircuittype options | Some c \<Rightarrow> c)"

definition as_sc_setup_chain :: "'w env \<Rightarrow> account_options \<Rightarrow> account_setup \<Rightarrow> ('w, account_setup) prog" where
  "as_sc_setup_chain E options self =
     pbind self_nodes (\<lambda>nodes.
     pbind (plift (list_get nodes 0)) (\<lambda>mc_node.
     pseq (plift (check_submitters self)) (
     pbind (pget (\<lambda>s. ws_address E s mc_node 0)) (\<lambda>address.
     pbind (plift (rmap (as_node_configuration self address) (py_range (as_number_of_sidechain_nodes self)))) (\<lambda>sc_node_configuration.
     let circuit_type = as_circuit_type options self;
         sc_creation_version = (if circuit_type = KEY_ROTATION_CIRCUIT then SC_CREATION_VERSION_2 else 1)
     in pbind (plift (SCCreationInfo mc_node (as_forward_amount self) (as_withdrawalEpochLength self) 0 sc_creation_version
          (as_cert_max_keys self) (as_cert_sig_threshold self) False (op_nonceasing options) circuit_type)) (\<lambda>creation.
        pbind (bootstrap_sidechain_nodes E (run_options.truncate options)
            \<lparr>net_sc_creation_info = creation, net_sc_nodes_configuration = sc_node_configuration\<rparr>
            (as_block_timestamp_rewind self) AccountModel) (\<lambda>info.
          pret (self\<lparr>as_sc_nodes_bootstrap_info := Some info\<rparr>))))))))"

section \<open>Checks and funds before the test\<close>

definition as_bootstrap_info :: "account_setup \<Rightarrow> sc_bootstrap_info res" where
  "as_bootstrap_info self = (case as_sc_nodes_bootstrap_info self of
      None \<Rightarrow> rerr AttributeError ''mainchain_block_height'' [] | Some i \<Rightarrow> Inr i)"

definition first_sc_node :: "('w, sc_node) prog" where
  "first_sc_node = pbind self_sc_nodes (\<lambda>nodes. plift (list_get nodes 0))"

text \<open>The genesis block of the sidechain refers to the mainchain block it was created in.\<close>

definition check_genesis_reference :: "'w env \<Rightarrow> sc_node \<Rightarrow> mc_node \<Rightarrow> pyval \<Rightarrow> ('w, unit) prog" where
  "check_genesis_reference E sc_node mc_node height =
     pbind (mc_call E mc_node ''getblock'' [PStr (py_str height)]) (\<lambda>mc_block.
     pbind (plift (py_get mc_block ''hash'')) (\<lambda>hash.
     pbind (mc_call E mc_node ''getblock'' [hash, PBool False]) (\<lambda>mc_block_hex.
     pseq (plift (py_concat (PStr ''SC genesis mc block hex = '') mc_block_hex)) (
     pbind (sc_call E sc_node ''block_best'' []) (\<lambda>r.
     pbind (plift (py_get r ''result'')) (\<lambda>sc_best_block.
     pseq (plift (rbind (py_get sc_best_block ''height'') (\<lambda>h. assert_equal h (PInt 1) ''The best block has not the specified height.''))) (
     pseq (plift (rbind (py_get sc_best_block ''block'') (\<lambda>b. rbind (is_mainchain_block_included_in_sc_block b mc_block) (\<lambda>res.
         assert_true res ''The mainchain block is not included in SC node.'')))) (
     pbind (sc_call E sc_node ''mainchain_bestBlockReferenceInfo'' []) (\<lambda>r.
     pbind (plift (py_get r ''result'')) (\<lambda>info.
       plift (assert_true (check_mainchain_block_reference_info info mc_block)
         ''The mainchain block is not included inside SC block reference info.'')))))))))))"

definition new_evm_address :: "'w env \<Rightarrow> sc_node \<Rightarrow> ('w, pyval) prog" where
  "new_evm_address E sc_node = pbind (sc_call E sc_node ''wallet_createPrivateKeySecp256k1'' []) (\<lambda>r.
     plift (rbind (py_path r [''result'', ''proposition'', ''address'']) (py_concat (PStr ''0x''))))"

text \<open>The transfer goes to the address without its prefix; the block that carries it starts a new epoch.\<close>

definition fund_evm_address :: "'w env \<Rightarrow> account_setup \<Rightarrow> sc_node \<Rightarrow> mc_node \<Rightarrow> pyval \<Rightarrow> ('w, account_setup) prog" where
  "fund_evm_address E self sc_node mc_node ft_amount_in_zen =
     pbind (plift (as_bootstrap_info self)) (\<lambda>info.
     pbind (plift (as_str (as_evm_address self))) (\<lambda>evm_address.
     pseq (forward_transfer_to_sidechain E (bi_sidechain_id info) mc_node (PStr (drop 2 evm_address)) ft_amount_in_zen
         (as_mc_return_address self) True) (
     pbind (generate_next_block E sc_node ''first node'' True PNone) (\<lambda>block_id.
     pseq (sc_sync_all E False) (
     pbind (sc_call E sc_node ''block_best'' []) (\<lambda>r.
     pseq (plift (py_get r ''result''))
       (pret (self\<lparr>as_ft_amount_in_zen := ft_amount_in_zen, as_block_id := block_id\<rparr>))))))))"

definition sc_ac_setup :: "'w env \<Rightarrow> account_setup \<Rightarrow> bool \<Rightarrow> bool \<Rightarrow> pyval \<Rightarrow> ('w, account_setup) prog" where
  "sc_ac_setup E self wallet forwardTransfer ft_amount_in_zen =
     pbind first_sc_node (\<lambda>sc_node.
     pbind (pbind self_nodes (\<lambda>nodes. plift (list_get nodes 0))) (\<lambda>mc_node.
     pbind (mc_call E mc_node ''getnewaddress'' []) (\<lambda>mc_return_address.
     pbind (plift (as_bootstrap_info self)) (\<lambda>info.
     pseq (check_genesis_reference E sc_node mc_node (bi_mainchain_block_height info)) (
       let self = self\<lparr>as_mc_return_address := mc_return_address\<rparr>
       in if \<not> wallet then pret self
          else pbind (new_evm_address E sc_node) (\<lambda>evm_address.
            let self = self\<lparr>as_evm_address := evm_address\<rparr>
            in if forwardTransfer then fund_evm_address E self sc_node mc_node ft_amount_in_zen else pret self))))))"

section \<open>Properties\<close>

lemma py_range_set [simp]: "set (py_range n) = {0..<n}"
  by (auto simp: py_range_def)

lemma path_up:
  fixes R :: "(int \<times> int) set"
  assumes "\<forall>i \<in> {0..<n - 1}. (i, i + 1) \<in> R" and "0 \<le> b" and "b < n"
  shows "(0, b) \<in> R\<^sup>*"
  using assms(2,3)
proof (induction b rule: int_ge_induct)
  case (step i)
  then have "(0, i) \<in> R\<^sup>*" "(i, i + 1) \<in> R" using assms(1) by auto
  then show ?case by (rule rtrancl.rtrancl_into_rtrancl)
qed simp

lemma ring_edges_path:
  assumes "2 \<le> n" and "set (ring_edges n) \<subseteq> R" and "a \<in> {0..<n}" and "b \<in> {0..<n}"
  shows "(a, b) \<in> (R \<union> R\<inverse>)\<^sup>*"
proof -
  have "\<forall>i \<in> {0..<n - 1}. (i, i + 1) \<in> R"
  proof (cases "n = 2")
    case True
    then have "{0..<n - 1} = {0}" by auto
    with True assms(2) show ?thesis by (simp add: ring_edges_def)
  next
    case False
    with assms(1,2) show ?thesis by (auto simp: ring_edges_def)
  qed
  then have up: "(0, c) \<in> R\<^sup>*" if "c \<in> {0..<n}" for c using path_up [of n R c] that by auto
  have "(0, b) \<in> (R \<union> R\<inverse>)\<^sup>*" using up [OF assms(4)] by (meson in_rtrancl_UnI)
  moreover have "(a, 0) \<in> (R \<union> R\<inverse>)\<^sup>*" using up [OF assms(3)] by (meson in_rtrancl_UnI rtrancl_converseI)
  ultimately show ?thesis by (rule rtrancl_trans [rotated])
qed

lemma connect_keeps: "keeps t_sc_nodes (connect_sc_nodes E node j w)"
  unfolding connect_sc_nodes_def connect_sc_nodes_loop_def is_connected_def sc_connected_peers_def sc_call_def py_time_def py_sleep_def
  by (intro keep_intros keeps_pact keeps_pext) simp_all

lemma sync_all_keeps: "keeps t_sc_nodes (sync_all E)"
  unfolding sync_all_def sync_nodes_def self_nodes_def sync_blocks_def sync_mempools_def mc_counts_agree_def mc_mempools_agree_def raw_mempool_def
    mc_call_def py_sleep_def
  by (intro keep_intros keeps_pact keeps_pext; simp)

text \<open>Node \<open>i\<close> has established a connection to node \<open>j\<close>.\<close>

definition linked :: "'w env \<Rightarrow> sc_node list \<Rightarrow> (int \<times> int) set" where
  "linked E nodes = {(i, j). \<exists>node u v. list_get nodes i = Inr node \<and> connect_sc_nodes E node j 25 u = Some (Inr (), v)}"

text \<open>C18. The constructor accepts a setup only with one websocket entry per node, so that every node of
  the network has a configuration: only the first submits certificates, its signing keys are the ones
  given for it or all seven, and its websocket is enabled exactly when a port was given for it.\<close>
theorem account_configurations:
  assumes "AccountChainSetup args s = Some (Inr self, t)" and "0 \<le> x" and "x < as_number_of_sidechain_nodes self"
  shows "\<exists>c. as_node_configuration self address x = Inr c \<and> nc_api_key c = as_API_KEY args \<and>
    nc_cert_submitter_enabled c = (x = 0) \<and> conn_address (nc_mc_connection_info c) = address \<and>
    nc_submitter_private_keys_indexes c = (if x < int (length (as_submitters_private_keys_indexes args))
      then as_submitters_private_keys_indexes args ! nat x else [0..6]) \<and>
    (nc_websocket_server_enabled c \<longleftrightarrow> as_websocket_server_ports args \<noteq> [] \<and> as_websocket_server_ports args ! nat x \<noteq> None)"
proof -
  from assms(1) have self: "int (length (as_websocket_server_ports self)) = as_number_of_sidechain_nodes self"
    "as_websocket_server_ports self = (if as_websocket_server_ports args = [] then replicate (nat (as_number_of_sidechain_nodes args)) None
       else as_websocket_server_ports args)" "as_API_KEY self = as_API_KEY args" "as_number_of_sidechain_nodes self = as_number_of_sidechain_nodes args"
    "as_submitters_private_keys_indexes self = as_submitters_private_keys_indexes args"
    by (auto simp: AccountChainSetup_def Let_def pbind_Inr_iff set_self_sc_nodes_def split: if_splits)
  have get: "list_get (as_websocket_server_ports self) x = Inr (as_websocket_server_ports self ! nat x)"
    using assms(2,3) self(1) by (simp add: list_get_def Let_def)
  have en: "as_websocket_server_ports self ! nat x \<noteq> None \<longleftrightarrow> as_websocket_server_ports args \<noteq> [] \<and> as_websocket_server_ports args ! nat x \<noteq> None"
    using self assms(2,3) by auto
  show ?thesis
    using get en self(3,5) by (cases "as_forger_options self")
      (auto simp: as_node_configuration_def Let_def SCNodeConfiguration_def nth_or_def)
qed

text \<open>After the network of an account test is set up with connections, the nodes of the test are the
  started ones and any two of them are joined by a path of established connections.\<close>
theorem account_network_connected:
  assumes "as_sc_setup_network E options self s = Some (Inr self', t)" and "as_connect_nodes self"
    and "n = as_number_of_sidechain_nodes self" and "2 \<le> n"
  shows "\<exists>nodes. t_sc_nodes t = Some (Some nodes) \<and> (\<forall>a \<in> {0..<n}. \<forall>b \<in> {0..<n}.
    (a, b) \<in> (linked E nodes \<union> (linked E nodes)\<inverse>)\<^sup>*)"
proof -
  from assms(1) obtain nodes self1 u where start: "as_sc_setup_nodes E options self s = Some (Inr (nodes, self1), u)"
    and rest: "pseq (if as_connect_nodes self1 \<and> as_number_of_sidechain_nodes self1 \<ge> 2
           then pseq (piter (connect_edge E nodes) (ring_edges (as_number_of_sidechain_nodes self1))) (sync_all E)
           else pret ()) (pret self1) (u\<lparr>t_sc_nodes := Some (Some nodes)\<rparr>) = Some (Inr self', t)"
    by (auto simp: as_sc_setup_network_def pbind_Inr_iff set_self_sc_nodes_def simp del: if_run)
  from start have same: "as_connect_nodes self1 = as_connect_nodes self" "as_number_of_sidechain_nodes self1 = as_number_of_sidechain_nodes self"
    by (auto simp: as_sc_setup_nodes_def pbind_Inr_iff)
  let ?u = "u\<lparr>t_sc_nodes := Some (Some nodes)\<rparr>"
  from rest same assms(2-4) obtain v where edges: "piter (connect_edge E nodes) (ring_edges n) ?u = Some (Inr (), v)"
    and sync: "sync_all E v = Some (Inr (), t)" by (auto simp: pbind_Inr_iff)
  let ?R = "linked E nodes"
  have "set (ring_edges n) \<subseteq> ?R"
    using piter_each [OF edges] by (fastforce simp: linked_def connect_edge_def pbind_Inr_iff)
  with ring_edges_path [OF assms(4)] have "\<forall>a \<in> {0..<n}. \<forall>b \<in> {0..<n}. (a, b) \<in> (?R \<union> ?R\<inverse>)\<^sup>*" by blast
  moreover have "keeps t_sc_nodes (piter (connect_edge E nodes) (ring_edges n))"
    unfolding connect_edge_def by (intro keep_intros connect_keeps)
  from keepsD [OF this edges] keepsD [OF sync_all_keeps sync] have "t_sc_nodes t = Some (Some nodes)" by simp
  ultimately show ?thesis by blast
qed

text \<open>A setup of the default arguments, and a world in which its two nodes connect.\<close>

definition sample_setup :: "int \<Rightarrow> account_setup" where
  "sample_setup n = \<lparr>as_API_KEY = ''Horizen'', as_number_of_mc_nodes = 1, as_number_of_sidechain_nodes = n, as_withdrawalEpochLength = 900,
     as_forward_amount = PInt 100, as_block_timestamp_rewind = PInt 43200, as_forger_options = None, as_initial_private_keys = [],
     as_circuittype_override = None, as_remote_keys_manager_enabled = False, as_remote_keys_server_addresses = [], as_max_incoming_connections = 100,
     as_connect_nodes = True, as_allow_unprotected_txs = True, as_max_nonce_gap = 16, as_max_account_slots = 16, as_max_mempool_slots = 6144,
     as_max_nonexec_pool_slots = 1024, as_tx_lifetime = 10800, as_websocket_server_ports = [], as_cert_max_keys = 7, as_cert_sig_threshold = 5,
     as_submitters_private_keys_indexes = [], as_debug_extra_args = None, as_evm_address = PNone, as_sc_nodes_bootstrap_info = None,
     as_mc_return_address = PNone, as_block_id = PNone, as_ft_amount_in_zen = PNone\<rparr>"

definition sample_options :: account_options where
  "sample_options = \<lparr>op_tmpdir = ''/tmp'', op_logfilelevel = [], op_logconsolelevel = [], op_restapitimeout = 5,
     op_noshutdown = False, op_nocleanup = False, op_debugnode = None, op_parallel = 0, op_jacoco = False,
     op_nonceasing = False, op_certcircuittype = NO_KEY_ROTATION_CIRCUIT, op_mcblockdelay = 0, op_all_forks = False, op_maxhistoryrewritinglength = 100\<rparr>"

theorem account_configurations_witness:
  "\<exists>self (t :: sample world) c. AccountChainSetup (sample_setup 2) (sample_world 0 0 []) = Some (Inr self, t) \<and>
     as_node_configuration self ''ws://h:1'' 1 = Inr c \<and> \<not> nc_cert_submitter_enabled c"
proof -
  obtain self and t :: "sample world" where run: "AccountChainSetup (sample_setup 2) (sample_world 0 0 []) = Some (Inr self, t)"
    and n: "as_number_of_sidechain_nodes self = 2"
    by (simp add: AccountChainSetup_def sample_setup_def set_self_sc_nodes_def prog_simps)
  from account_configurations [OF run, of 1 "''ws://h:1''"] run n show ?thesis by auto
qed

definition network_world :: "sample world" where
  "network_world = (sample_world 1 0 [Inr PNone, peers_reply ''/127.0.0.1:8501'', Inr (PInt 1), Inr (PList [])])\<lparr>t_nodes := Some [sample_mc]\<rparr>"

lemma sample_nodes_start:
  "\<exists>nodes X. as_sc_setup_nodes sample_env sample_options (sample_setup 2) network_world = Some (Inr (nodes, sample_setup 2),
     network_world\<lparr>sidechainclient_processes := [(0, 77), (1, 77)], w_calls := X\<rparr>) \<and> length nodes = 2"
  by (simp add: as_sc_setup_nodes_def all_node_params_def sample_setup_def Let_def py_range_def upto.simps list_get_def
      start_sc_nodes_def start_sc_ith_def start_sc_node_def sc_bashcmd_def additional_params_def
      register_sc_def wait_for_sc_node_initialization_def wait_for_socket_def py_loop.simps socket_open_def network_world_def
      sample_world_def ext_defs prog_simps node_params_def del: split_ws.simps)

lemma sample_network_run:
  "\<exists>self' t. as_sc_setup_network sample_env sample_options (sample_setup 2) network_world = Some (Inr self', t)"
proof -
  obtain nodes X where start: "as_sc_setup_nodes sample_env sample_options (sample_setup 2) network_world = Some (Inr (nodes, sample_setup 2),
     network_world\<lparr>sidechainclient_processes := [(0, 77), (1, 77)], w_calls := X\<rparr>)" and n: "length nodes = 2"
    using sample_nodes_start by blast
  have port: "str_int 8501 = ''8501''" by (simp add: str_int_def nat_str.simps digit_char_def)
  let ?u = "network_world\<lparr>sidechainclient_processes := [(0, 77), (1, 77)], w_calls := X, t_sc_nodes := Some (Some nodes)\<rparr>"
  have "\<exists>v. connect_edge sample_env nodes (0, 1) ?u = Some (Inr (), v) \<and> w_ext v = (0, [Inr (PInt 1), Inr (PList [])]) \<and> t_nodes v = Some [sample_mc]"
    using n by (simp add: connect_edge_def list_get_def connect_sc_nodes_def connect_sc_nodes_loop_def py_loop.simps is_connected_def
        sc_connected_peers_def peers_reply_def Let_def port sc_p2p_port_def sc_start_port_modifier_def peer_has_address_def network_world_def
        sample_world_def ext_defs prog_simps)
  then obtain v where v: "connect_edge sample_env nodes (0, 1) ?u = Some (Inr (), v)" "w_ext v = (0, [Inr (PInt 1), Inr (PList [])])"
    "t_nodes v = Some [sample_mc]" by blast
  have "\<exists>t. sync_all sample_env v = Some (Inr (), t)"
    using v(2,3) by (simp add: sync_all_def self_nodes_def sync_nodes_def sync_blocks_def sync_mempools_def py_loop.simps mc_counts_agree_def
        mc_mempools_agree_def raw_mempool_def list_get_def ext_defs prog_simps)
  with start v(1) show ?thesis
    by (auto simp: as_sc_setup_network_def pbind_run set_self_sc_nodes_def sample_setup_def ring_edges_def)
qed

theorem account_network_connected_witness:
  "\<exists>self' (t :: sample world) nodes. as_sc_setup_network sample_env sample_options (sample_setup 2) network_world = Some (Inr self', t) \<and>
     t_sc_nodes t = Some (Some nodes) \<and> (1, 0) \<in> (linked sample_env nodes \<union> (linked sample_env nodes)\<inverse>)\<^sup>*"
proof -
  obtain self' and t :: "sample world" where run: "as_sc_setup_network sample_env sample_options (sample_setup 2) network_world = Some (Inr self', t)"
    using sample_network_run by blast
  from account_network_connected [OF run, of 2] run show ?thesis by (fastforce simp: sample_setup_def)
qed

end
