(* ===== verification/Http_Calls.thy ===== *)
theory Http_Calls
  imports Sc_Node Json
begin

text \<open>
  The wrappers of the node's REST interface (\<^verbatim>\<open>qa/httpCalls\<close>): one function per service. Each builds the
  JSON body of the request, posts it, with the API key as a second argument when one is given, and
  takes the part of the answer the caller is interested in.
\<close>

section \<open>Posting a request\<close>

text \<open>\<^verbatim>\<open>service(request, api_key)\<close> if a key is given, \<^verbatim>\<open>service(request)\<close> otherwise.\<close>

definition post_call :: "'w env \<Rightarrow> sc_node \<Rightarrow> string \<Rightarrow> pyval \<Rightarrow> string option \<Rightarrow> ('w, pyval) prog" where
  "post_call E node service request api_key =
     sc_call E node service (request # (case api_key of None \<Rightarrow> [] | Some k \<Rightarrow> [PStr k]))"

definition json_call :: "'w env \<Rightarrow> sc_node \<Rightarrow> string \<Rightarrow> pyval \<Rightarrow> string option \<Rightarrow> ('w, pyval) prog" where
  "json_call E node service j api_key = pbind (plift (json_dumps j)) (\<lambda>request. post_call E node service (PStr request) api_key)"

text \<open>A service without a body gets an empty dictionary only to make room for the key.\<close>

definition plain_call :: "'w env \<Rightarrow> sc_node \<Rightarrow> string \<Rightarrow> string option \<Rightarrow> ('w, pyval) prog" where
  "plain_call E node service api_key =
     (case api_key of None \<Rightarrow> sc_call E node service [] | Some k \<Rightarrow> sc_call E node service [PDict [], PStr k])"

definition at_path :: "('w, pyval) prog \<Rightarrow> string list \<Rightarrow> ('w, pyval) prog" where
  "at_path call ks = pbind call (\<lambda>response. plift (py_path response ks))"

text \<open>Some wrappers report an answer without a result themselves.\<close>

definition result_or_raise :: "('w, pyval) prog \<Rightarrow> ('w, pyval) prog" where
  "result_or_raise call = pbind call (\<lambda>response. pbind (plift (py_in ''result'' response)) (\<lambda>ok.
     if ok then plift (py_get response ''result'')
     else praise RuntimeError (''Something went wrong, see '' @ py_str response) []))"

section \<open>Blocks, peers, backups\<close>

definition getBlockIdForBackup :: "'w env \<Rightarrow> sc_node \<Rightarrow> ('w, pyval) prog" where
  "getBlockIdForBackup E sidechainNode =
     sc_call E sidechainNode ''backup_getSidechainBlockIdForBackup'' []"

definition http_block_best :: "'w env \<Rightarrow> sc_node \<Rightarrow> ('w, pyval) prog" where
  "http_block_best E sidechainNode =
     at_path (sc_call E sidechainNode ''block_best'' []) [''result'', ''block'']"

definition http_block_findById :: "'w env \<Rightarrow> sc_node \<Rightarrow> pyval \<Rightarrow> ('w, pyval) prog" where
  "http_block_findById E sidechainNode blockId =
     result_or_raise (json_call E sidechainNode ''block_findById'' (PDict [(''blockId'', blockId)]) None)"

definition http_block_forging_info :: "'w env \<Rightarrow> sc_node \<Rightarrow> ('w, pyval) prog" where
  "http_block_forging_info E sidechainNode =
     at_path (sc_call E sidechainNode ''block_forgingInfo'' []) [''result'']"

definition http_block_getFeePayments :: "'w env \<Rightarrow> sc_node \<Rightarrow> pyval \<Rightarrow> ('w, pyval) prog" where
  "http_block_getFeePayments E sidechainNode block_id =
     result_or_raise (json_call E sidechainNode ''block_getFeePayments'' (PDict [(''blockId'', block_id)]) None)"

definition stop :: "'w env \<Rightarrow> sc_node \<Rightarrow> ('w, pyval) prog" where
  "stop E sidechainNode =
     sc_call E sidechainNode ''node_stop'' []"

definition get_all_peers :: "'w env \<Rightarrow> sc_node \<Rightarrow> ('w, pyval) prog" where
  "get_all_peers E sidechainNode =
     sc_call E sidechainNode ''node_allPeers'' []"

definition get_connected_peers :: "'w env \<Rightarrow> sc_node \<Rightarrow> ('w, pyval) prog" where
  "get_connected_peers E sidechainNode =
     sc_call E sidechainNode ''node_connectedPeers'' []"

section \<open>The certificate submitter\<close>

definition http_get_certifiers_keys :: "'w env \<Rightarrow> sc_node \<Rightarrow> pyval \<Rightarrow> ('w, pyval) prog" where
  "http_get_certifiers_keys E sidechainNode withdrawal_epoch =
     at_path (json_call E sidechainNode ''submitter_getCertifiersKeys'' (PDict [(''withdrawalEpoch'', withdrawal_epoch)]) None) [''result'']"

definition http_get_key_rotation_message_to_sign_for_signing_key :: "'w env \<Rightarrow> sc_node \<Rightarrow> pyval \<Rightarrow> pyval \<Rightarrow> ('w, pyval) prog" where
  "http_get_key_rotation_message_to_sign_for_signing_key E sidechainNode pub_key_to_sign withdrawal_epoch =
     at_path (json_call E sidechainNode ''submitter_getKeyRotationMessageToSignForSigningKey'' (PDict [(''schnorrPublicKey'', pub_key_to_sign), (''withdrawalEpoch'', withdrawal_epoch)]) None) [''result'']"

definition http_get_key_rotation_message_to_sign_for_master_key :: "'w env \<Rightarrow> sc_node \<Rightarrow> pyval \<Rightarrow> pyval \<Rightarrow> ('w, pyval) prog" where
  "http_get_key_rotation_message_to_sign_for_master_key E sidechainNode pub_key_to_sign withdrawal_epoch =
     at_path (json_call E sidechainNode ''submitter_getKeyRotationMessageToSignForMasterKey'' (PDict [(''schnorrPublicKey'', pub_key_to_sign), (''withdrawalEpoch'', withdrawal_epoch)]) None) [''result'']"

definition http_get_key_rotation_proof :: "'w env \<Rightarrow> sc_node \<Rightarrow> pyval \<Rightarrow> pyval \<Rightarrow> pyval \<Rightarrow> ('w, pyval) prog" where
  "http_get_key_rotation_proof E sidechainNode withdrawal_epoch index_of_key key_type =
     json_call E sidechainNode ''submitter_getKeyRotationProof'' (PDict [(''withdrawalEpoch'', withdrawal_epoch), (''indexOfKey'', index_of_key), (''keyType'', key_type)]) None"

section \<open>Transactions\<close>

definition allTransactions :: "'w env \<Rightarrow> sc_node \<Rightarrow> bool \<Rightarrow> ('w, pyval) prog" where
  "allTransactions E sidechainNode format =
     result_or_raise (json_call E sidechainNode ''transaction_allTransactions'' (PDict [(''format'', PBool format)]) None)"

definition http_create_core_transaction :: "'w env \<Rightarrow> sc_node \<Rightarrow> pyval \<Rightarrow> pyval \<Rightarrow> pyval \<Rightarrow> pyval \<Rightarrow> string option \<Rightarrow> ('w, pyval) prog" where
  "http_create_core_transaction E sidechainNode inputs regularOutputs withdrawalRequestOutputs forgerOutputs api_key =
     at_path (json_call E sidechainNode ''transaction_createCoreTransaction'' (PDict [(''transactionInputs'', inputs), (''regularOutputs'', regularOutputs), (''withdrawalRequests'', withdrawalRequestOutputs), (''forgerOutputs'', forgerOutputs)]) api_key) [''result'']"

definition http_create_key_rotation_transaction :: "'w env \<Rightarrow> sc_node \<Rightarrow> pyval \<Rightarrow> pyval \<Rightarrow> pyval \<Rightarrow> pyval \<Rightarrow> pyval \<Rightarrow> pyval \<Rightarrow> bool \<Rightarrow> bool \<Rightarrow> string option \<Rightarrow> ('w, pyval) prog" where
  "http_create_key_rotation_transaction E sidechainNode key_type key_index new_key signing_key_signature master_key_signature new_key_signature format automatic_send api_key =
     json_call E sidechainNode ''transaction_createKeyRotationTransaction'' 
       (PDict [(''keyType'', key_type), (''keyIndex'', key_index), (''newKey'', new_key), (''signingKeySignature'', signing_key_signature), (''masterKeySignature'', master_key_signature), (''newKeySignature'', new_key_signature), (''format'', PBool format), (''automaticSend'', PBool automatic_send)]) api_key"

definition http_transaction_findById :: "'w env \<Rightarrow> sc_node \<Rightarrow> pyval \<Rightarrow> bool \<Rightarrow> ('w, pyval) prog" where
  "http_transaction_findById E sidechainNode txid format =
     result_or_raise (json_call E sidechainNode ''transaction_findById'' (PDict [(''transactionId'', txid), (''format'', PBool format)]) None)"

definition makeForgerStake :: "'w env \<Rightarrow> sc_node \<Rightarrow> pyval \<Rightarrow> pyval \<Rightarrow> pyval \<Rightarrow> pyval \<Rightarrow> pyval \<Rightarrow> string option \<Rightarrow> ('w, pyval) prog" where
  "makeForgerStake E sidechainNode address blockSignPublicKey vrfPublicKey amount fee api_key =
     json_call E sidechainNode ''transaction_makeForgerStake'' (PDict [(''outputs'', PList [PDict [(''publicKey'', address), (''blockSignPublicKey'', blockSignPublicKey),
        (''vrfPubKey'', vrfPublicKey), (''value'', amount)]]), (''fee'', fee)]) api_key"

definition createOpenStakeTransaction :: "'w env \<Rightarrow> sc_node \<Rightarrow> pyval \<Rightarrow> pyval \<Rightarrow> pyval \<Rightarrow> pyval \<Rightarrow> bool \<Rightarrow> bool \<Rightarrow> string option \<Rightarrow> ('w, pyval) prog" where
  "createOpenStakeTransaction E sidechainNode boxid address forger_index fee format automatic_send api_key =
     at_path (json_call E sidechainNode ''transaction_createOpenStakeTransaction'' 
       (PDict [(''transactionInput'', PDict [(''boxId'', boxid)]), (''regularOutputProposition'', address), (''forgerIndex'', forger_index), (''fee'', fee), (''format'', PBool format), (''automaticSend'', PBool automatic_send)]) api_key) [''result'']"

definition createOpenStakeTransactionSimplified :: "'w env \<Rightarrow> sc_node \<Rightarrow> pyval \<Rightarrow> pyval \<Rightarrow> pyval \<Rightarrow> bool \<Rightarrow> bool \<Rightarrow> string option \<Rightarrow> ('w, pyval) prog" where
  "createOpenStakeTransactionSimplified E sidechainNode forger_proposition forger_index fee format automatic_send api_key =
     at_path (json_call E sidechainNode ''transaction_createOpenStakeTransactionSimplified'' 
       (PDict [(''forgerProposition'', forger_proposition), (''forgerIndex'', forger_index), (''fee'', fee), (''format'', PBool format), (''automaticSend'', PBool automatic_send)]) api_key) [''result'']"

definition sendCoinsToAddress :: "'w env \<Rightarrow> sc_node \<Rightarrow> pyval \<Rightarrow> pyval \<Rightarrow> pyval \<Rightarrow> string option \<Rightarrow> ('w, pyval) prog" where
  "sendCoinsToAddress E sidechainNode address amount fee api_key =
     at_path (json_call E sidechainNode ''transaction_sendCoinsToAddress'' 
       (PDict [(''outputs'', PList [PDict [(''publicKey'', PStr (py_str address)), (''value'', amount)]]), (''fee'', fee)]) api_key) [''result'', ''transactionId'']"

definition sendCoinsToAddressDryRun :: "'w env \<Rightarrow> sc_node \<Rightarrow> pyval \<Rightarrow> pyval \<Rightarrow> pyval \<Rightarrow> string option \<Rightarrow> ('w, pyval) prog" where
  "sendCoinsToAddressDryRun E sidechainNode address amount fee api_key =
     at_path (json_call E sidechainNode ''transaction_sendCoinsToAddress'' 
       (PDict [(''outputs'', PList [PDict [(''publicKey'', PStr (py_str address)), (''value'', amount)]]), (''fee'', fee), (''format'', PBool False), (''automaticSend'', PBool False)]) api_key) [''result'']"

text \<open>The outputs of a payment to several addresses, in the order of the addresses. Lists of different
  lengths are answered with a text instead of a transaction id, and nothing is sent.\<close>

definition outputs_to :: "string \<Rightarrow> pyval list \<Rightarrow> pyval list \<Rightarrow> pyval" where
  "outputs_to key addresses amounts = PList (map (\<lambda>(a, v). PDict [(key, a), (''value'', v)]) (zip addresses amounts))"

definition lengths_differ :: pyval where
  "lengths_differ = PStr ''Addresses and amunts have differente lengths!''"

text \<open>The second of the two definitions of this function in the file replaces the first.\<close>

definition sendCointsToMultipleAddress :: "'w env \<Rightarrow> sc_node \<Rightarrow> pyval list \<Rightarrow> pyval list \<Rightarrow> pyval \<Rightarrow> ('w, pyval) prog" where
  "sendCointsToMultipleAddress E sidechainNode addresses amounts fee =
     (if length addresses \<noteq> length amounts then pret lengths_differ
      else pbind (json_call E sidechainNode ''transaction_sendCoinsToAddress''
             (PDict [(''outputs'', outputs_to ''publicKey'' addresses amounts), (''fee'', fee)]) None) (\<lambda>response.
        pbind (plift (rbind (py_in ''result'' response) (\<lambda>ok.
            if ok then rbind (py_get response ''result'') (py_in ''transactionId'') else Inr False))) (\<lambda>ok.
          if ok then plift (py_path response [''result'', ''transactionId''])
          else praise RuntimeError (''Something went wrong, see '' @ py_str response) [])))"

definition sendTransaction :: "'w env \<Rightarrow> sc_node \<Rightarrow> pyval \<Rightarrow> string option \<Rightarrow> ('w, pyval) prog" where
  "sendTransaction E sidechainNode tx_bytes api_key =
     json_call E sidechainNode ''transaction_sendTransaction'' (PDict [(''transactionBytes'', tx_bytes)]) api_key"

definition spendForgingStake :: "'w env \<Rightarrow> sc_node \<Rightarrow> pyval \<Rightarrow> pyval \<Rightarrow> pyval \<Rightarrow> pyval \<Rightarrow> pyval \<Rightarrow> pyval \<Rightarrow> string option \<Rightarrow> ('w, pyval) prog" where
  "spendForgingStake E sidechainNode inputBoxId valueRegular valueForging publicKey blockSignPublicKey vrfPubKey api_key =
     pseq (json_call E sidechainNode ''transaction_spendForgingStake'' 
       (PDict [(''transactionInputs'', PList [PDict [(''boxId'', inputBoxId)]]), (''regularOutputs'', PList [PDict [(''publicKey'', publicKey), (''value'', valueRegular)]]), (''forgerOutputs'', PList [PDict [(''publicKey'', publicKey), (''blockSignPublicKey'', blockSignPublicKey), (''vrfPubKey'', vrfPubKey), (''value'', valueForging)]])]) api_key) (pret PNone)"

definition withdrawCoins :: "'w env \<Rightarrow> sc_node \<Rightarrow> pyval \<Rightarrow> pyval \<Rightarrow> pyval \<Rightarrow> string option \<Rightarrow> ('w, pyval) prog" where
  "withdrawCoins E sidechainNode mc_address amount fee api_key =
     json_call E sidechainNode ''transaction_withdrawCoins'' 
       (PDict [(''outputs'', PList [PDict [(''mainchainAddress'', mc_address), (''value'', amount)]]), (''fee'', fee)]) api_key"

definition withdrawMultiCoins :: "'w env \<Rightarrow> sc_node \<Rightarrow> pyval list \<Rightarrow> pyval list \<Rightarrow> pyval \<Rightarrow> string option \<Rightarrow> ('w, pyval) prog" where
  "withdrawMultiCoins E sidechainNode mc_addresses amounts fee api_key =
     (if length mc_addresses \<noteq> length amounts then pret lengths_differ
      else json_call E sidechainNode ''transaction_withdrawCoins''
             (PDict [(''outputs'', outputs_to ''mainchainAddress'' mc_addresses amounts), (''fee'', fee)]) api_key)"

section \<open>The wallet\<close>

definition http_wallet_allBoxes :: "'w env \<Rightarrow> sc_node \<Rightarrow> pyval option \<Rightarrow> string option \<Rightarrow> ('w, pyval) prog" where
  "http_wallet_allBoxes E sidechainNode typeName api_key =
     at_path (case typeName of
        None \<Rightarrow> post_call E sidechainNode ''wallet_allBoxes'' (PDict []) api_key
      | Some n \<Rightarrow> json_call E sidechainNode ''wallet_allBoxes'' (PDict [(''boxTypeClass'', n)]) api_key) [''result'', ''boxes'']"

definition http_wallet_allBoxesOfType :: "'w env \<Rightarrow> sc_node \<Rightarrow> pyval \<Rightarrow> string option \<Rightarrow> ('w, pyval) prog" where
  "http_wallet_allBoxesOfType E sidechainNode box_type api_key =
     at_path (json_call E sidechainNode ''wallet_allBoxes'' (PDict [(''boxTypeClass'', box_type)]) api_key) [''result'', ''boxes'']"

definition http_wallet_allPublicKeys :: "'w env \<Rightarrow> sc_node \<Rightarrow> string option \<Rightarrow> ('w, pyval) prog" where
  "http_wallet_allPublicKeys E sidechainNode api_key =
     at_path (plain_call E sidechainNode ''wallet_allPublicKeys'' api_key) [''result'', ''propositions'']"

definition http_wallet_balance :: "'w env \<Rightarrow> sc_node \<Rightarrow> string option \<Rightarrow> ('w, pyval) prog" where
  "http_wallet_balance E sidechainNode api_key =
     at_path (plain_call E sidechainNode ''wallet_coinsBalance'' api_key) [''result'', ''balance'']"

definition http_wallet_createPrivateKey25519 :: "'w env \<Rightarrow> sc_node \<Rightarrow> string option \<Rightarrow> ('w, pyval) prog" where
  "http_wallet_createPrivateKey25519 E sidechainNode api_key =
     at_path (plain_call E sidechainNode ''wallet_createPrivateKey25519'' api_key) [''result'', ''proposition'', ''publicKey'']"

definition http_wallet_createPrivateKeySec256k1 :: "'w env \<Rightarrow> sc_node \<Rightarrow> string option \<Rightarrow> ('w, pyval) prog" where
  "http_wallet_createPrivateKeySec256k1 E sidechainNode api_key =
     at_path (plain_call E sidechainNode ''wallet_createPrivateKeySecp256k1'' api_key) [''result'', ''proposition'', ''address'']"

definition http_wallet_createVrfSecret :: "'w env \<Rightarrow> sc_node \<Rightarrow> string option \<Rightarrow> ('w, pyval) prog" where
  "http_wallet_createVrfSecret E sidechainNode api_key =
     at_path (plain_call E sidechainNode ''wallet_createVrfSecret'' api_key) [''result'', ''proposition'', ''publicKey'']"

definition http_wallet_dumpSecrets :: "'w env \<Rightarrow> sc_node \<Rightarrow> pyval \<Rightarrow> string option \<Rightarrow> ('w, pyval) prog" where
  "http_wallet_dumpSecrets E sidechainNode file_path api_key =
     at_path (json_call E sidechainNode ''wallet_dumpSecrets'' (PDict [(''path'', file_path)]) api_key) [''result'', ''status'']"

definition http_wallet_exportSecret :: "'w env \<Rightarrow> sc_node \<Rightarrow> pyval \<Rightarrow> string option \<Rightarrow> ('w, pyval) prog" where
  "http_wallet_exportSecret E sidechainNode public_key api_key =
     at_path (json_call E sidechainNode ''wallet_exportSecret'' (PDict [(''publickey'', public_key)]) api_key) [''result'', ''privKey'']"

definition http_wallet_importSecret :: "'w env \<Rightarrow> sc_node \<Rightarrow> pyval \<Rightarrow> string option \<Rightarrow> ('w, pyval) prog" where
  "http_wallet_importSecret E sidechainNode secret api_key =
     at_path (json_call E sidechainNode ''wallet_importSecret'' (PDict [(''privKey'', secret)]) api_key) [''result'', ''proposition'']"

definition http_wallet_importSecrets :: "'w env \<Rightarrow> sc_node \<Rightarrow> pyval \<Rightarrow> string option \<Rightarrow> ('w, pyval) prog" where
  "http_wallet_importSecrets E sidechainNode file_path api_key =
     at_path (json_call E sidechainNode ''wallet_importSecrets'' (PDict [(''path'', file_path)]) api_key) [''result'']"

end
