(* ===== verification/Test_Steps.thy ===== *)
theory Test_Steps
  imports Account_Setup Http_Calls
begin

text \<open>
  The vocabulary of the functional tests (the scripts directly under \<^verbatim>\<open>qa\<close>): access to the nodes of the
  running test, fields of answers, set-up steps that the scripts share, and the facts about them that
  the theories of the single tests use. A test overrides some steps of its base class; each such method
  is a definition of the theory of the test. Log output is left out, but the requests made only to fill
  a log message are kept, because they can fail.
\<close>

section \<open>Nodes and answers\<close>

text \<open>\<^verbatim>\<open>self.nodes[i]\<close> and \<^verbatim>\<open>self.sc_nodes[i]\<close>\<close>

definition mc_nth :: "int \<Rightarrow> ('w, mc_node) prog" where
  "mc_nth i = pbind self_nodes (\<lambda>ns. plift (list_get ns i))"

definition sc_nth :: "int \<Rightarrow> ('w, sc_node) prog" where
  "sc_nth i = pbind self_sc_nodes (\<lambda>ns. plift (list_get ns i))"

definition sc_field :: "'w env \<Rightarrow> sc_node \<Rightarrow> string \<Rightarrow> pyval list \<Rightarrow> string list \<Rightarrow> ('w, pyval) prog" where
  "sc_field E node service args ks = pbind (sc_call E node service args) (\<lambda>r. plift (py_path r ks))"

definition mc_field :: "'w env \<Rightarrow> mc_node \<Rightarrow> string \<Rightarrow> pyval list \<Rightarrow> string list \<Rightarrow> ('w, pyval) prog" where
  "mc_field E node method args ks = pbind (mc_call E node method args) (\<lambda>r. plift (py_path r ks))"

text \<open>The address of a new key of the wallet.\<close>

definition new_address :: "'w env \<Rightarrow> sc_node \<Rightarrow> ('w, pyval) prog" where
  "new_address E node = sc_field E node ''wallet_createPrivateKeySecp256k1'' [] [''result'', ''proposition'', ''address'']"

text \<open>\<^verbatim>\<open>mc_node.generate(n)[i]\<close>, \<^verbatim>\<open>generate_next_blocks(node, name, 1)[0]\<close>\<close>

definition mc_generate :: "'w env \<Rightarrow> mc_node \<Rightarrow> int \<Rightarrow> int \<Rightarrow> ('w, pyval) prog" where
  "mc_generate E node n i = pbind (mc_call E node ''generate'' [PInt n]) (\<lambda>r. plift (py_nth r i))"

definition generate_one :: "'w env \<Rightarrow> sc_node \<Rightarrow> string \<Rightarrow> ('w, pyval) prog" where
  "generate_one E node name = pbind (generate_next_blocks E node name 1) (\<lambda>ids. plift (list_get ids 0))"

text \<open>\<^verbatim>\<open>assert_equal\<close> and \<^verbatim>\<open>assert_true\<close> as statements.\<close>

abbreviation check_eq :: "pyval \<Rightarrow> pyval \<Rightarrow> string \<Rightarrow> ('w, unit) prog" where
  "check_eq a b msg \<equiv> plift (assert_equal a b msg)"

abbreviation check_that :: "bool \<Rightarrow> string \<Rightarrow> ('w, unit) prog" where
  "check_that b msg \<equiv> plift (assert_true b msg)"

text \<open>A \<^verbatim>\<open>try\<close> statement whose \<^verbatim>\<open>else\<close> branch fails: the body has to raise an exception of the given class,
  which the handler sees. The classes that \<^verbatim>\<open>except Exception\<close> does not catch pass through.\<close>

definition expect_failure :: "exn_kind \<Rightarrow> ('w, 'a) prog \<Rightarrow> (pyerr \<Rightarrow> ('w, unit) prog) \<Rightarrow> string \<Rightarrow> ('w, unit) prog" where
  "expect_failure kind body handler msg =
     pbind (ptry (pseq body (pret None)) (\<lambda>e. if exn_isinstance (err_kind e) kind then pret (Some e) else pthrow e))
       (\<lambda>r. case r of None \<Rightarrow> plift (fail msg) | Some e \<Rightarrow> handler e)"

section \<open>Shared set-up steps\<close>

text \<open>\<^verbatim>\<open>setup_network\<close> of the base class around the nodes that \<^verbatim>\<open>setup_nodes\<close> of the test starts, and the same for
  the sidechain.\<close>

definition setup_network_of :: "'w env \<Rightarrow> ('w, mc_node list) prog \<Rightarrow> ('w, unit) prog" where
  "setup_network_of E setup_nodes = pbind setup_nodes (\<lambda>nodes. pseq (set_self_nodes nodes) (sync_all E))"

definition sc_setup_network_of :: "'w env \<Rightarrow> ('w, sc_node list) prog \<Rightarrow> ('w, unit) prog" where
  "sc_setup_network_of E sc_setup_nodes = pbind sc_setup_nodes (\<lambda>nodes. pseq (set_self_sc_nodes (Some nodes)) (sc_sync_all E False))"

text \<open>A creation request with the default values of everything but the amount and the epoch length.\<close>

definition plain_creation :: "mc_node \<Rightarrow> int \<Rightarrow> int \<Rightarrow> sc_creation_info res" where
  "plain_creation mc_node amount epoch_length =
     SCCreationInfo mc_node (PInt amount) epoch_length 0 1 7 5 False False NO_KEY_ROTATION_CIRCUIT"

text \<open>The configuration of a node connected to the websocket of a mainchain node.\<close>

definition connected_to :: "string \<Rightarrow> sc_node_configuration" where
  "connected_to address = default_node_args\<lparr>nc_mc_connection_info := default_MCConnectionInfo\<lparr>conn_address := address\<rparr>\<rparr>"

text \<open>A forward transfer to an address of the sidechain, returned to a new address of the mainchain wallet.\<close>

definition forward_to :: "'w env \<Rightarrow> account_setup \<Rightarrow> mc_node \<Rightarrow> pyval \<Rightarrow> pyval \<Rightarrow> bool \<Rightarrow> ('w, unit) prog" where
  "forward_to E self mc_node address amount generate_block =
     pbind (plift (as_bootstrap_info self)) (\<lambda>info.
     pbind (mc_call E mc_node ''getnewaddress'' []) (\<lambda>mc_return_address.
     pseq (forward_transfer_to_sidechain E (bi_sidechain_id info) mc_node address amount mc_return_address generate_block) (pret ())))"

text \<open>Forging one block per consensus epoch up to a fork.\<close>

definition reach_epoch :: "'w env \<Rightarrow> sc_node \<Rightarrow> int \<Rightarrow> ('w, unit) prog" where
  "reach_epoch E node epoch =
     pbind (sc_field E node ''block_forgingInfo'' [] [''result'', ''bestBlockEpochNumber'']) (\<lambda>v.
     pbind (plift (as_int v)) (\<lambda>current_best_epoch.
       if epoch > current_best_epoch then
         piter (\<lambda>_. pseq (generate_next_block E node ''first node'' True PNone) (sc_sync_all E False)) (py_range (epoch - current_best_epoch))
       else pret ()))"

text \<open>Addresses of native contracts.\<close>

definition FORGER_STAKE_SMART_CONTRACT_ADDRESS :: string where
  "FORGER_STAKE_SMART_CONTRACT_ADDRESS = ''0000000000000000000022222222222222222222''"

definition WITHDRAWAL_REQ_SMART_CONTRACT_ADDRESS :: string where
  "WITHDRAWAL_REQ_SMART_CONTRACT_ADDRESS = ''0000000000000000000011111111111111111111''"

definition CERTIFICATE_KEY_ROTATION_SMART_CONTRACT_ADDRESS :: string where
  "CERTIFICATE_KEY_ROTATION_SMART_CONTRACT_ADDRESS = ''0000000000000000000044444444444444444444''"

definition MC_ADDR_OWNERSHIP_SMART_CONTRACT_ADDRESS :: string where
  "MC_ADDR_OWNERSHIP_SMART_CONTRACT_ADDRESS = ''0000000000000000000088888888888888888888''"

definition PROXY_SMART_CONTRACT_ADDRESS :: string where
  "PROXY_SMART_CONTRACT_ADDRESS = ''00000000000000000000AAAAAAAAAAAAAAAAAAAA''"

definition FORGER_STAKE_V2_SMART_CONTRACT_ADDRESS :: string where
  "FORGER_STAKE_V2_SMART_CONTRACT_ADDRESS = ''0000000000000000000022222222222222222333''"

definition FORGER_POOL_RECIPIENT_ADDRESS :: string where
  "FORGER_POOL_RECIPIENT_ADDRESS = ''0000000000000000000033333333333333333333''"

text \<open>The consensus epochs of the forks.\<close>

definition ZENDAO_FORK_EPOCH :: int where "ZENDAO_FORK_EPOCH = 7"
definition INTEROPERABILITY_FORK_EPOCH :: int where "INTEROPERABILITY_FORK_EPOCH = 50"
definition VERSION_1_2_FORK_EPOCH :: int where "VERSION_1_2_FORK_EPOCH = 60"
definition VERSION_1_3_FORK_EPOCH :: int where "VERSION_1_3_FORK_EPOCH = 70"
definition VERSION_1_4_FORK_EPOCH :: int where "VERSION_1_4_FORK_EPOCH = 80"

section \<open>Facts about the shared steps\<close>

lemma mc_nth_Inr: "mc_nth i s = Some (Inr n, t) \<longleftrightarrow> t = s \<and> (\<exists>ns. t_nodes s = Some ns \<and> list_get ns i = Inr n)"
  by (auto simp: mc_nth_def self_nodes_def pbind_run split: option.splits)

lemma sc_nth_Inr: "sc_nth i s = Some (Inr n, t) \<longleftrightarrow> t = s \<and> (\<exists>ns. t_sc_nodes s = Some (Some ns) \<and> list_get ns i = Inr n)"
  by (auto simp: sc_nth_def self_sc_nodes_def pbind_run split: option.splits)

lemma sc_field_Inr: "sc_field E n m a ks s = Some (Inr v, t) \<longleftrightarrow> (\<exists>r. sc_call E n m a s = Some (Inr r, t) \<and> py_path r ks = Inr v)"
  by (auto simp: sc_field_def pbind_Inr_iff)

lemma fail_not_Inr [simp]: "fail msg \<noteq> Inr x"
  by (simp add: fail_def rerr_def)

lemma py_eq_PInt [simp]: "py_eq (PInt a) (PInt b) \<longleftrightarrow> a = b"
  by simp

lemma py_eq_str: "py_eq v (PStr h) \<longleftrightarrow> v = PStr h"
  by (cases v) auto

lemma as_str_Inr: "as_str v = Inr h \<longleftrightarrow> v = PStr h"
  by (cases v) (auto simp: rerr_def)

lemma expect_failure_Inr:
  assumes "expect_failure kind body handler msg s = Some (Inr (), t)"
  shows "\<exists>e u. body s = Some (Inl e, u) \<and> exn_isinstance (err_kind e) kind \<and> handler e u = Some (Inr (), t)"
  using assms by (auto simp: expect_failure_def pbind_Inr_iff pbind_Inl_iff ptry_Inr_iff split: option.splits if_splits)

lemma generate_one_Inr:
  assumes "generate_one E node name s = Some (Inr b, t)"
  shows "generate_next_block E node name False PNone s = Some (Inr b, t)"
  using assms by (auto simp: generate_one_def generate_next_blocks_def pbind_Inr_iff py_range_def list_get_def)

section \<open>Parts of the world that requests leave alone\<close>

text \<open>A part of the world that depends neither on the external state nor on the trace is left alone by every
  function that only talks to the nodes: waiting, connecting, forging. The tests use this for the list
  of nodes and for the processes they do not touch.\<close>

locale call_frame =
  fixes part :: "'w world \<Rightarrow> 'b"
  assumes part_calls: "part (s\<lparr>w_calls := cs\<rparr>) = part s"
    and part_ext: "part (s\<lparr>w_ext := w\<rparr>) = part s"
begin

lemma act: "keeps part (pact ev g)" "keeps part (pext g)"
  by (simp_all add: keeps_pact keeps_pext part_calls part_ext)

lemma basic:
  "keeps part (sc_call E n m args)" "keeps part (mc_call E mn m args)" "keeps part (sc_call_kw E n m kw)" "keeps part (py_time E)"
  "keeps part (py_sleep E d)" "keeps part (py_run E cmd)" "keeps part (py_wait E p)" "keeps part (py_write E f c)"
  "keeps part self_sc_nodes" "keeps part self_nodes" "keeps part (sc_nth i)" "keeps part (mc_nth i)" "keeps part (sc_field E n m args ks)"
  unfolding sc_call_def mc_call_def sc_call_kw_def py_time_def py_sleep_def py_run_def py_wait_def py_write_def self_sc_nodes_def self_nodes_def
    sc_nth_def mc_nth_def sc_field_def
  by (intro keep_intros act)+

lemma popen: "keeps part (py_popen E cmd)"
proof -
  have "keeps part (plog ev)" for ev by (simp add: keeps_def part_calls)
  then show ?thesis unfolding py_popen_def by (intro keep_intros act)
qed

lemma sync:
  "keeps part (sync_sc_blocks E ns w)" "keeps part (sync_sc_mempools E ns w b)" "keeps part (sc_sync_all E b)"
  "keeps part (connect_sc_nodes E n j w)" "keeps part (wait_for_sc_node_initialization E ns)"
  unfolding sc_sync_all_def sync_sc_blocks_def sync_sc_blocks_loop_def sc_heights_agree_def current_height_def sync_sc_mempools_def
    sync_sc_mempools_loop_def mempools_match_def reference_pool_def mempool_of_def connect_sc_nodes_def connect_sc_nodes_loop_def
    is_connected_def sc_connected_peers_def wait_for_sc_node_initialization_def wait_for_socket_def socket_open_def
  by (intro keep_intros act basic)+

lemma forge_loop: "keeps part (forge_loop E n tx k c es r)"
proof (induction E n tx k c es r rule: forge_loop.induct)
  case (1 E n tx k c es r)
  show ?case
    by (subst forge_loop.simps, unfold Let_def forge_at_def, intro keep_intros basic) (rule 1, assumption+, rule refl)
qed

lemma forge: "keeps part (generate_next_block E n nm force tx)" "keeps part (generate_next_blocks E n nm k)"
  unfolding generate_next_blocks_def generate_next_block_def forging_start_def forge_at_def
  by (intro keep_intros basic forge_loop)+

end

section \<open>Replaying answers\<close>

text \<open>For the examples: a test with the given nodes whose requests are answered from a list. \<open>plays ns m w r w'\<close>
  says that the program \<open>m\<close> has the result \<open>r\<close> and takes the clock and the remaining answers from \<open>w\<close> to
  \<open>w'\<close>, whatever was recorded before.\<close>

definition replay_world :: "mc_node list \<Rightarrow> sc_node list \<Rightarrow> event list \<Rightarrow> sample \<Rightarrow> sample world" where
  "replay_world mcs scs c w = (sample_world 0 0 [])\<lparr>t_nodes := Some mcs, t_sc_nodes := Some (Some scs), w_calls := c, w_ext := w\<rparr>"

definition plays :: "mc_node list \<Rightarrow> sc_node list \<Rightarrow> (sample, 'a) prog \<Rightarrow> sample \<Rightarrow> 'a res \<Rightarrow> sample \<Rightarrow> bool" where
  "plays mcs scs m w r w' \<longleftrightarrow> (\<forall>c. \<exists>c'. m (replay_world mcs scs c w) = Some (r, replay_world mcs scs c' w'))"

lemma playsD: "plays mcs scs m w r w' \<Longrightarrow> \<exists>c'. m (replay_world mcs scs c w) = Some (r, replay_world mcs scs c' w')"
  by (simp add: plays_def)

named_theorems play_intros \<open>replaying a program step by step\<close>

lemma plays_pret [play_intros]: "plays mcs scs (pret x) w (Inr x) w"
  by (simp add: plays_def) blast

lemma plays_plift [play_intros]: "r = Inr x \<Longrightarrow> plays mcs scs (plift r) w (Inr x) w"
  by (simp add: plays_def) blast

lemma plays_pbind [play_intros]:
  assumes m: "plays mcs scs m w (Inr x) w'" and f: "plays mcs scs (f x) w' r w''"
  shows "plays mcs scs (pbind m f) w r w''"
  unfolding plays_def
proof
  fix c
  from playsD [OF m] obtain c1 where "m (replay_world mcs scs c w) = Some (Inr x, replay_world mcs scs c1 w')" by blast
  then show "\<exists>c'. pbind m f (replay_world mcs scs c w) = Some (r, replay_world mcs scs c' w'')"
    using playsD [OF f] by (simp add: pbind_run)
qed

lemma plays_ptry_Inl:
  assumes m: "plays mcs scs m w (Inl e) w'" and h: "plays mcs scs (h e) w' r w''"
  shows "plays mcs scs (ptry m h) w r w''"
  unfolding plays_def
proof
  fix c
  from playsD [OF m] obtain c1 where "m (replay_world mcs scs c w) = Some (Inl e, replay_world mcs scs c1 w')" by blast
  then show "\<exists>c'. ptry m h (replay_world mcs scs c w) = Some (r, replay_world mcs scs c' w'')"
    using playsD [OF h] by (simp add: ptry_run)
qed

lemma plays_pbind_Inl: "plays mcs scs m w (Inl e) w' \<Longrightarrow> plays mcs scs (pbind m f) w (Inl e) w'"
  unfolding plays_def by (elim all_forward exE) (auto simp: pbind_run)

lemma plays_ptry [play_intros]: "plays mcs scs m w (Inr x) w' \<Longrightarrow> plays mcs scs (ptry m h) w (Inr x) w'"
  unfolding plays_def by (elim all_forward exE) (auto simp: ptry_run)

lemma plays_let [play_intros]: "plays mcs scs (f v) w r w' \<Longrightarrow> plays mcs scs (let x = v in f x) w r w'"
  by simp

lemma plays_if:
  "b \<Longrightarrow> plays mcs scs m w r w' \<Longrightarrow> plays mcs scs (if b then m else n) w r w'"
  "\<not> b \<Longrightarrow> plays mcs scs n w r w' \<Longrightarrow> plays mcs scs (if b then m else n) w r w'"
  by simp_all

lemma plays_calls [play_intros]:
  "plays mcs scs (sc_call sample_env n m args) (t, r # rs) r (t, rs)"
  "plays mcs scs (sc_call_kw sample_env n m kw) (t, r # rs) r (t, rs)"
  "plays mcs scs (mc_call sample_env mn m args) (t, r # rs) r (t, rs)"
  "plays mcs scs (py_time sample_env) (t, rs) (Inr t) (t, rs)"
  "plays mcs scs (py_sleep sample_env d) (t, rs) (Inr ()) (t + d, rs)"
  by (auto simp: plays_def replay_world_def ext_defs pact_run pext_run)

lemma plays_self [play_intros]:
  "plays mcs scs self_sc_nodes w (Inr scs) w" "plays mcs scs self_nodes w (Inr mcs) w"
  by (auto simp: plays_def replay_world_def sample_world_def self_sc_nodes_def self_nodes_def pbind_run)

lemma plays_nth [play_intros]:
  "list_get scs i = Inr n \<Longrightarrow> plays mcs scs (sc_nth i) w (Inr n) w" "list_get mcs i = Inr m \<Longrightarrow> plays mcs scs (mc_nth i) w (Inr m) w"
  by (auto simp: plays_def sc_nth_def mc_nth_def replay_world_def sample_world_def self_sc_nodes_def self_nodes_def pbind_run)

lemma plays_field [play_intros]:
  "py_path v ks = Inr x \<Longrightarrow> plays mcs scs (sc_field sample_env n m args ks) (t, Inr v # rs) (Inr x) (t, rs)"
  "py_path v ks = Inr x \<Longrightarrow> plays mcs scs (mc_field sample_env mn m args ks) (t, Inr v # rs) (Inr x) (t, rs)"
  by (auto simp: plays_def sc_field_def mc_field_def replay_world_def ext_defs pact_run pbind_run)

lemma plays_json_call [play_intros]:
  "json_value j \<Longrightarrow> plays mcs scs (json_call sample_env n m j key) (t, r # rs) r (t, rs)"
  unfolding plays_def using json_dumps_total [of j]
  by (auto simp: json_call_def post_call_def replay_world_def ext_defs pact_run pbind_run split: option.splits)

text \<open>Two nodes that agree on the height and have the same empty mempool; a node that forges the next slot.\<close>

definition sync_replies :: "int \<Rightarrow> pyval res list" where
  "sync_replies h = [height_reply h, height_reply h, Inr (PDict [(''result'', PDict [(''transactions'', PList [])])]),
     Inr (PDict [(''result'', PDict [(''transactions'', PList [])])])]"

lemma plays_sync:
  assumes "scs = [sample_node a, sample_node b]"
  shows "plays mcs scs (sc_sync_all sample_env False) (t, sync_replies h @ rs) (Inr ()) (t, rs)"
proof -
  have "plays mcs scs (sync_sc_blocks sample_env scs 25) (t, sync_replies h @ rs) (Inr ()) (t, drop 2 (sync_replies h) @ rs)"
    unfolding sync_sc_blocks_def sync_sc_blocks_loop_def
    by (simp add: plays_def assms sync_replies_def py_loop.simps sample_run replay_world_def sc_heights_agree_def current_height_def height_reply_def
        all_equal_first_def list_get_def)
  moreover have "plays mcs scs (sync_sc_mempools sample_env scs 25 False) (t, drop 2 (sync_replies h) @ rs) (Inr ()) (t, rs)"
    unfolding sync_sc_mempools_def sync_sc_mempools_loop_def
    by (simp add: plays_def assms sync_replies_def py_loop.simps sample_run replay_world_def mempools_match_def reference_pool_def mempool_of_def
        list_get_def upto.simps Let_def)
  ultimately show ?thesis unfolding sc_sync_all_def by (blast intro: play_intros)
qed

lemma plays_forge:
  "plays mcs scs (generate_next_block sample_env (sample_node a) name False PNone) (t, forging_reply 720 2 5 # block_reply b # rs) (Inr (PStr b)) (t, rs)"
  by (simp add: plays_def replay_world_def forging_run sample_run)

lemma plays_result_or_raise [play_intros]:
  assumes "plays mcs scs m w (Inr (PDict [(''result'', v)])) w'"
  shows "plays mcs scs (result_or_raise m) w (Inr v) w'"
  unfolding result_or_raise_def by (rule plays_pbind [OF assms]) (auto simp: plays_def pbind_run)

end
