(* ===== verification/Sync_Status.thy ===== *)
theory Sync_Status
  imports Test_Steps
begin

text \<open>
  The test \<^verbatim>\<open>qa/sc_evm_sync_status.py\<close>: a node that is far behind its peer has to report through
  \<^verbatim>\<open>eth_syncing\<close> that it is synchronising. The loop that watches the node keeps the local variable
  \<^verbatim>\<open>sync_status\<close>; it is an instance of \<open>py_loop_with\<close>.
\<close>

section \<open>The network of the test\<close>

definition ss_setup_nodes :: "'w env \<Rightarrow> string \<Rightarrow> ('w, mc_node list) prog" where
  "ss_setup_nodes E tmpdir = start_nodes E 1 tmpdir
     (Some [Some [''-debug=sc'', ''-debug=ws'', ''-logtimemicros=1'', ''-scproofqueuesize=0'']]) None None"

text \<open>The first of the two nodes is connected to the mainchain node, neither submits certificates.\<close>

definition first_connected_network :: "'w env \<Rightarrow> run_options \<Rightarrow> int \<Rightarrow> pyval \<Rightarrow> ('w, sc_bootstrap_info) prog" where
  "first_connected_network E options epoch_length rewind =
     pbind (mc_nth 0) (\<lambda>mc_node.
     pbind (pget (\<lambda>s. ws_address E s mc_node 0)) (\<lambda>address.
     pbind (plift (plain_creation mc_node 600 epoch_length)) (\<lambda>creation.
       bootstrap_sidechain_nodes E options
         \<lparr>net_sc_creation_info = creation,
          net_sc_nodes_configuration =
            [SCNodeConfiguration None PNone ((connected_to address)\<lparr>nc_cert_submitter_enabled := False\<rparr>),
             SCNodeConfiguration None PNone (default_node_args\<lparr>nc_cert_submitter_enabled := False\<rparr>)]\<rparr>
         rewind AccountModel)))"

definition ss_sc_setup_chain :: "'w env \<Rightarrow> run_options \<Rightarrow> ('w, sc_bootstrap_info) prog" where
  "ss_sc_setup_chain E options = first_connected_network E options 900 (PInt (720 * 12 * 5 * 5))"

definition two_evm_nodes :: "'w env \<Rightarrow> string \<Rightarrow> ('w, sc_node list) prog" where
  "two_evm_nodes E tmpdir = start_sc_nodes E 2 tmpdir None None (Some (replicate 2 (Some (EVM_APP_BINARY E)))) False (Some DEFAULT_API_KEY)"

section \<open>Watching the synchronisation\<close>

text \<open>\<^verbatim>\<open>isinstance(res, dict) and "currentBlock" in res\<close>, and the checks on such an answer.\<close>

definition is_syncing :: "pyval \<Rightarrow> bool" where
  "is_syncing res = (case res of PDict d \<Rightarrow> ''currentBlock'' \<in> fst ` set d | _ \<Rightarrow> False)"

definition hex_at :: "string \<Rightarrow> pyval \<Rightarrow> int res" where
  "hex_at key res = rbind (py_get res key) py_int16"

definition check_syncing_answer :: "int \<Rightarrow> pyval \<Rightarrow> unit res" where
  "check_syncing_answer starting_block_height res =
     rbind (hex_at ''startingBlock'' res) (\<lambda>decimal_starting_block.
     rbind (hex_at ''currentBlock'' res) (\<lambda>decimal_current_block.
     rbind (hex_at ''highestBlock'' res) (\<lambda>decimal_highest_block.
     rbind (assert_equal (PInt starting_block_height) (PInt decimal_starting_block) ''unexpected value for startingBlock'') (\<lambda>_.
     rbind (assert_true (decimal_current_block > 0) ''unexpected value for currentBlock'') (\<lambda>_.
     rbind (assert_true (decimal_current_block \<ge> decimal_starting_block) ''startingBlock > currentBlock'') (\<lambda>_.
     rbind (assert_true (decimal_highest_block > 0) ''unexpected value for highestBlock'') (\<lambda>_.
     rbind (assert_true (decimal_highest_block - decimal_current_block > 0) ''currentBlock >= highestBlock'') (\<lambda>_.
       assert_true (decimal_highest_block - decimal_starting_block > 0) ''startingBlock >= highestBlock''))))))))"

text \<open>What a round requests before it decides; only the first answer is used, the others are logged.\<close>

definition eth_syncing :: "'w env \<Rightarrow> ('w, pyval) prog" where
  "eth_syncing E = pbind (sc_nth 1) (\<lambda>n1. sc_field E n1 ''rpc_eth_syncing'' [] [''result''])"

definition logged_state :: "'w env \<Rightarrow> ('w, unit) prog" where
  "logged_state E =
     pseq (pbind (sc_nth 1) (\<lambda>n1. sc_field E n1 ''block_best'' [] [''result'', ''height''])) (
     pseq (pbind (sc_nth 1) (\<lambda>n1. sc_field E n1 ''node_connectedPeers'' [] [''result'', ''peers''])) (
     pseq (pbind (sc_nth 0) (\<lambda>n0. sc_field E n0 ''node_connectedPeers'' [] [''result'', ''peers''])) (pret ())))"

definition stop_first_node :: "'w env \<Rightarrow> ('w, unit) prog" where
  "stop_first_node E = pbind self_sc_nodes (\<lambda>nodes. pseq (disconnect_sc_nodes_bi E nodes 0 1)
     (pbind (plift (list_get nodes 0)) (\<lambda>n0. stop_sc_node E n0 0)))"

text \<open>The end of a round: the timeout, the heights of all nodes, and the planned stop of the first node.
  The result tells whether the loop is left, with the value of \<^verbatim>\<open>sync_status\<close>.\<close>

definition round_end :: "'w env \<Rightarrow> bool \<Rightarrow> rat \<Rightarrow> rat \<Rightarrow> bool \<Rightarrow> ('w, bool \<times> bool) prog" where
  "round_end E execute_stop wait_for start sync_status =
     pbind (py_time E) (\<lambda>now.
     if now - start \<ge> wait_for then plift (fail ''Syncing blocks timeout'')
     else pbind (pbind self_sc_nodes (pmap (best_height E))) (\<lambda>counts.
          pbind (plift (all_equal_first counts)) (\<lambda>equal.
          if equal then pret (True, sync_status)
          else pbind (if execute_stop then pbind (py_time E) (\<lambda>now. pret (now - start \<ge> 15)) else pret False) (\<lambda>stop_now.
               if stop_now then pseq (stop_first_node E) (pret (True, sync_status))
               else pseq (py_sleep E 1) (pret (False, sync_status))))))"

definition sync_round :: "'w env \<Rightarrow> int \<Rightarrow> bool \<Rightarrow> rat \<Rightarrow> rat \<Rightarrow> bool \<Rightarrow> ('w, bool \<times> bool) prog" where
  "sync_round E starting_block_height execute_stop wait_for start sync_status =
     pbind (eth_syncing E) (\<lambda>res.
     pseq (logged_state E) (
       if is_syncing res then pseq (plift (check_syncing_answer starting_block_height res)) (round_end E execute_stop wait_for start True)
       else if sync_status then pret (True, False)
       else round_end E execute_stop wait_for start sync_status))"

definition ss_sync_sc_blocks :: "'w env \<Rightarrow> int \<Rightarrow> bool \<Rightarrow> rat \<Rightarrow> ('w, unit) prog" where
  "ss_sync_sc_blocks E starting_block_height execute_stop wait_for =
     pbind (py_time E) (\<lambda>start.
     pbind (py_loop_with (sync_round E starting_block_height execute_stop wait_for start) False) (\<lambda>sync_status.
       if \<not> sync_status then plift (fail ''SC node 1 was in sync but has not detected that it is in sync'') else pret ()))"

text \<open>\<^verbatim>\<open>type(is_sync) is bool and bool(is_sync)\<close>\<close>

definition check_sync_status :: "'w env \<Rightarrow> int \<Rightarrow> bool \<Rightarrow> ('w, unit) prog" where
  "check_sync_status E starting_block_height execute_stop =
     pseq (ss_sync_sc_blocks E starting_block_height execute_stop 200) (
     pseq (py_sleep E 30) (
     pbind (eth_syncing E) (\<lambda>is_sync.
       if is_sync = PBool True then plift (fail ''SC node 1 still consider itself syncing'') else pret ())))"

section \<open>Steps of the test\<close>

definition run_sc_node :: "'w env \<Rightarrow> string \<Rightarrow> int \<Rightarrow> ('w, unit) prog" where
  "run_sc_node E tmpdir sc_node_idx =
     pseq (start_sc_node E sc_node_idx tmpdir None None (Some (EVM_APP_BINARY E)) False None) (
     pseq (pbind self_sc_nodes (wait_for_sc_node_initialization E)) (py_sleep E 3))"

definition restart_sc_node :: "'w env \<Rightarrow> string \<Rightarrow> int \<Rightarrow> ('w, unit) prog" where
  "restart_sc_node E tmpdir sc_node_idx =
     pbind (sc_nth sc_node_idx) (\<lambda>node.
     pseq (stop_sc_node E node sc_node_idx) (pseq (py_sleep E 2) (run_sc_node E tmpdir sc_node_idx)))"

text \<open>The blocks are forged in chunks, each after a new mainchain block.\<close>

definition forge_chunk :: "'w env \<Rightarrow> sc_node \<Rightarrow> int \<Rightarrow> ('w, pyval list) prog" where
  "forge_chunk E node n = pbind (mc_nth 0) (\<lambda>mc. pseq (mc_call E mc ''generate'' [PInt 1]) (generate_next_blocks E node ''first node'' n))"

definition forge_in_chunks :: "'w env \<Rightarrow> sc_node \<Rightarrow> int \<Rightarrow> ('w, unit) prog" where
  "forge_in_chunks E node num_blocks =
     (let chunk_size = 90; chunks = num_blocks div chunk_size; remainder = num_blocks - chunks * chunk_size
      in pseq (piter (\<lambda>_. pseq (forge_chunk E node chunk_size) (pret ())) (py_range chunks))
           (if remainder > 0 then pseq (forge_chunk E node remainder) (pret ()) else pret ()))"

text \<open>The test: the second node falls behind while it is stopped, while it is disconnected, and while
  its peer is stopped in the middle of the synchronisation.\<close>

definition ss_after_restart :: "'w env \<Rightarrow> string \<Rightarrow> sc_node \<Rightarrow> sc_node \<Rightarrow> ('w, unit) prog" where
  "ss_after_restart E tmpdir sc_node0 sc_node1 =
     pseq (stop_sc_node E sc_node1 1) (
     pseq (forge_in_chunks E sc_node0 1500) (
     pseq (run_sc_node E tmpdir 1) (
     pbind (best_height E sc_node1) (\<lambda>sc_node_1_height.
     pseq (py_sleep E 5) (
     pseq (pbind (sc_nth 0) (\<lambda>n0. connect_sc_nodes E n0 1 25))
       (check_sync_status E (sc_node_1_height + 1) False))))))"

definition ss_after_reconnection :: "'w env \<Rightarrow> sc_node \<Rightarrow> sc_node \<Rightarrow> ('w, unit) prog" where
  "ss_after_reconnection E sc_node0 sc_node1 =
     pseq (pbind self_sc_nodes (\<lambda>nodes. disconnect_sc_nodes_bi E nodes 0 1)) (
     pbind (best_height E sc_node1) (\<lambda>sc_node_1_height.
     pseq (forge_in_chunks E sc_node0 1500) (
     pbind (best_height E sc_node1) (\<lambda>h.
     pseq (check_eq (PInt sc_node_1_height) (PInt h) ''nodes are wrongly connected'') (
     pseq (py_sleep E 5) (
     pseq (pbind (sc_nth 0) (\<lambda>n0. connect_sc_nodes E n0 1 25))
       (check_sync_status E (sc_node_1_height + 1) False)))))))"

definition ss_after_stop_of_peer :: "'w env \<Rightarrow> string \<Rightarrow> sc_node \<Rightarrow> sc_node \<Rightarrow> ('w, unit) prog" where
  "ss_after_stop_of_peer E tmpdir sc_node0 sc_node1 =
     pseq (pbind self_sc_nodes (\<lambda>nodes. disconnect_sc_nodes_bi E nodes 0 1)) (
     pseq (stop_sc_node E sc_node1 1) (
     pseq (forge_in_chunks E sc_node0 3000) (
     pseq (run_sc_node E tmpdir 1) (
     pbind (best_height E sc_node1) (\<lambda>sc_node_1_height.
     pseq (py_sleep E 5) (
     pseq (pbind (sc_nth 0) (\<lambda>n0. connect_sc_nodes E n0 1 25)) (
     pseq (py_sleep E 5) (
     pseq (check_sync_status E (sc_node_1_height + 1) True) (
     pbind (best_height E sc_node1) (\<lambda>sc_node_1_height.
     pseq (run_sc_node E tmpdir 0) (
     pseq (py_sleep E 5) (
     pseq (pbind (sc_nth 1) (\<lambda>n1. connect_sc_nodes E n1 0 25))
       (check_sync_status E (sc_node_1_height + 1) False)))))))))))))"

definition ss_run_test :: "'w env \<Rightarrow> string \<Rightarrow> ('w, unit) prog" where
  "ss_run_test E tmpdir =
     pbind (sc_nth 0) (\<lambda>sc_node0.
     pbind (sc_nth 1) (\<lambda>sc_node1.
     pseq (sync_all E) (
     pseq (ss_after_restart E tmpdir sc_node0 sc_node1) (
     pseq (ss_after_reconnection E sc_node0 sc_node1)
       (ss_after_stop_of_peer E tmpdir sc_node0 sc_node1)))))"

definition ss_test :: "'w env \<Rightarrow> test_options \<Rightarrow> 'w test_case" where
  "ss_test E options =
     \<lparr>tc_setup_chain = initialize_chain_clean E (op_tmpdir options) 1,
      tc_setup_network = setup_network_of E (ss_setup_nodes E (op_tmpdir options)),
      tc_sc_setup_chain = pseq (ss_sc_setup_chain E (run_options.truncate options)) (pret ()),
      tc_sc_setup_network = sc_setup_network_of E (two_evm_nodes E (op_tmpdir options)),
      tc_run_test = ss_run_test E (op_tmpdir options)\<rparr>"

section \<open>Properties\<close>

lemma round_end_True:
  assumes "round_end E halt w start st u = Some (Inr (b, st'), t)"
  shows "st' = st"
  using assms by (auto simp: round_end_def pbind_Inr_iff split: if_splits)

lemma check_syncing_answer_Inr:
  assumes "check_syncing_answer h res = Inr ()"
  shows "\<exists>c b. hex_at ''startingBlock'' res = Inr h \<and> hex_at ''currentBlock'' res = Inr c \<and>
    hex_at ''highestBlock'' res = Inr b \<and> 0 < c \<and> h \<le> c \<and> c < b"
  using assms by (auto simp: check_syncing_answer_def rbind_Inr_iff)

text \<open>The wait of the test passes only while the node still reports that it is synchronising: in the
  last round the answer of \<^verbatim>\<open>eth_syncing\<close> has the expected starting block, and its current block is at least
  that and below the highest one.\<close>
theorem sync_passes_only_while_syncing:
  assumes "ss_sync_sc_blocks E h halt wait_for s = Some (Inr (), t)"
  shows "\<exists>u res v start c b. eth_syncing E u = Some (Inr res, v) \<and> hex_at ''startingBlock'' res = Inr h \<and>
    hex_at ''currentBlock'' res = Inr c \<and> hex_at ''highestBlock'' res = Inr b \<and> 0 < c \<and> h \<le> c \<and> c < b \<and>
    pseq (logged_state E) (round_end E halt wait_for start True) v = Some (Inr (True, True), t)"
proof -
  from assms obtain start u where "py_loop_with (sync_round E h halt wait_for start) False u = Some (Inr True, t)"
    by (auto simp: ss_sync_sc_blocks_def pbind_Inr_iff split: if_splits)
  then obtain st u where "sync_round E h halt wait_for start st u = Some (Inr (True, True), t)"
    by (blast dest: py_loop_with_success)
  then obtain res v w where v: "eth_syncing E u = Some (Inr res, v)" "logged_state E v = Some (Inr (), w)"
    and rest: "(if is_syncing res then pseq (plift (check_syncing_answer h res)) (round_end E halt wait_for start True)
       else if st then pret (True, False) else round_end E halt wait_for start st) w = Some (Inr (True, True), t)"
    by (auto simp: sync_round_def pbind_Inr_iff simp del: if_run)
  then have "is_syncing res" using round_end_True [of E halt wait_for start st w True True t] by (auto split: if_splits)
  with rest have "check_syncing_answer h res = Inr ()" "round_end E halt wait_for start True w = Some (Inr (True, True), t)"
    by (auto simp: pbind_Inr_iff)
  with v check_syncing_answer_Inr show ?thesis by (fastforce simp: pbind_Inr_iff)
qed

text \<open>The end of a synchronisation that the test has observed is reported as a failure: when the node
  was seen synchronising and then answers that it no longer is, the variable is reset before the loop
  is left, and the check after the loop claims that the synchronisation was never detected.\<close>
theorem observed_sync_end_fails:
  assumes "py_time E s = Some (Inr start, s0)"
    and "(loop_step (sync_round E h halt wait_for start))\<^sup>*\<^sup>* (False, s0) (True, s1)"
    and "eth_syncing E s1 = Some (Inr res, s2)" and "\<not> is_syncing res" and "logged_state E s2 = Some (Inr (), t)"
  shows "ss_sync_sc_blocks E h halt wait_for s
    = Some (Inl (PyErr AssertionError ''SC node 1 was in sync but has not detected that it is in sync'' []), t)"
proof -
  have "sync_round E h halt wait_for start True s1 = Some (Inr (True, False), t)"
    using assms(3-5) by (simp add: sync_round_def pbind_run)
  with py_loop_with_steps [OF assms(2)]
  have "py_loop_with (sync_round E h halt wait_for start) False s0 = Some (Inr False, t)" by (simp add: py_loop_with_break)
  with assms(1) show ?thesis by (simp add: ss_sync_sc_blocks_def pbind_run fail_def rerr_def)
qed

lemma node_runs [runs_intros]: "runs clk (sc_nth i)" "runs clk self_sc_nodes"
  unfolding sc_nth_def self_sc_nodes_def by (intro runs_intros)+

lemma round_start_runs:
  assumes "steady_clock E clk"
  shows "runs clk (eth_syncing E)" "runs clk (logged_state E)" "runs clk (pbind self_sc_nodes (pmap (best_height E)))"
  unfolding eth_syncing_def logged_state_def sc_field_def best_height_def
  by (intro runs_intros; fact assms)+

lemma disconnect_rets: "rets (disconnect_sc_nodes E n k)"
  unfolding disconnect_sc_nodes_def by (intro rets_pbind rets_basic)

lemma stop_first_node_rets: "rets (stop_first_node E)"
  unfolding stop_first_node_def disconnect_sc_nodes_bi_def stop_sc_node_def reap_sc_node_def self_sc_nodes_def py_wait_def
  by (intro rets_pbind rets_basic disconnect_rets) (auto simp: rets_def pact_run pbind_run split: option.split)

text \<open>A round of the wait always comes to an end; when the loop goes on, a second has passed and the time
  was not up.\<close>

lemma round_end_run:
  assumes clk: "steady_clock E clk"
  shows "\<exists>r t. round_end E halt w start st s = Some (r, t) \<and>
    (\<forall>y. r = Inr (False, y) \<longrightarrow> clk (w_ext s) < start + w \<and> clk (w_ext s) + 1 \<le> clk (w_ext t))"
proof -
  define now u where "now = fst (e_time E (w_ext s))" and "u = s\<lparr>w_ext := snd (e_time E (w_ext s))\<rparr>"
  have time: "py_time E s = Some (Inr now, u)" "clk (w_ext s) \<le> now" "now \<le> clk (w_ext u)"
    using clk by (simp_all add: py_time_def pext_run now_def u_def steady_clock_def split: prod.split)
  obtain rc v where counts: "pbind self_sc_nodes (pmap (best_height E)) u = Some (rc, v)" "clk (w_ext u) \<le> clk (w_ext v)"
    using round_start_runs(3) [OF clk] unfolding runs_def by blast
  have tick: "\<exists>b z. (if halt then pbind (py_time E) (\<lambda>now. pret (now - start \<ge> 15)) else pret False) v = Some (Inr b, z) \<and> clk (w_ext v) \<le> clk (w_ext z)"
  proof -
    have "clk (w_ext v) \<le> clk (snd (e_time E (w_ext v)))" using clk unfolding steady_clock_def by (meson order_trans)
    then show ?thesis by (cases halt) (auto simp: py_time_def pext_run pbind_run split: prod.splits)
  qed
  then obtain b z where z: "(if halt then pbind (py_time E) (\<lambda>now. pret (now - start \<ge> 15)) else pret False) v = Some (Inr b, z)"
    "clk (w_ext v) \<le> clk (w_ext z)" by blast
  obtain rs zs where stopped: "stop_first_node E z = Some (rs, zs)" using stop_first_node_rets unfolding rets_def by blast
  obtain zz where slept: "py_sleep E 1 z = Some (Inr (), zz)" "clk (w_ext z) + 1 \<le> clk (w_ext zz)"
    using clk by (simp add: py_sleep_def pact_run steady_clock_def)
  show ?thesis
  proof (cases "now - start \<ge> w")
    case True
    with time show ?thesis by (simp add: round_end_def pbind_run fail_def rerr_def)
  next
    case False
    have bound: "clk (w_ext s) < start + w" "clk (w_ext s) + 1 \<le> clk (w_ext zz)" using False time counts z slept by linarith+
    show ?thesis
    proof (cases "\<exists>cs. rc = Inr cs \<and> all_equal_first cs = Inr False")
      case True
      then obtain cs where cs: "rc = Inr cs" "all_equal_first cs = Inr False" by blast
      have "round_end E halt w start st s = (if b then pseq (stop_first_node E) (pret (True, st)) else pseq (py_sleep E 1) (pret (False, st))) z"
        using False time(1) counts(1) z(1) cs by (simp add: round_end_def pbind_run)
      with stopped slept bound show ?thesis by (cases b; cases rs) (auto simp: pbind_run)
    next
      case no: False
      have "\<exists>r. round_end E halt w start st s = Some (r, v) \<and> (\<forall>y. r \<noteq> Inr (False, y))"
      proof (cases rc)
        case (Inl e)
        with False time(1) counts(1) show ?thesis by (simp add: round_end_def pbind_run)
      next
        case (Inr cs)
        with False time(1) counts(1) no show ?thesis by (cases "all_equal_first cs") (auto simp: round_end_def pbind_run)
      qed
      then show ?thesis by blast
    qed
  qed
qed

text \<open>The wait of the test always ends, whatever the two nodes answer, provided that the clock advances
  while the test sleeps.\<close>
theorem sync_wait_returns:
  assumes "steady_clock E clk"
  shows "rets (ss_sync_sc_blocks E h halt wait_for)"
proof -
  have "\<exists>r t. sync_round E h halt wait_for start x s = Some (r, t) \<and> (\<forall>y. r = Inr (False, y) \<longrightarrow>
    nat \<lceil>start + wait_for - clk (w_ext t)\<rceil> < nat \<lceil>start + wait_for - clk (w_ext s)\<rceil>)" for start x s
  proof -
    obtain r1 s1 where 1: "eth_syncing E s = Some (r1, s1)" "clk (w_ext s) \<le> clk (w_ext s1)"
      using round_start_runs(1) [OF assms] unfolding runs_def by blast
    obtain r2 s2 where 2: "logged_state E s1 = Some (r2, s2)" "clk (w_ext s1) \<le> clk (w_ext s2)"
      using round_start_runs(2) [OF assms] unfolding runs_def by blast
    have less: "nat \<lceil>start + wait_for - clk (w_ext t)\<rceil> < nat \<lceil>start + wait_for - clk (w_ext s)\<rceil>"
      if "clk (w_ext s2) < start + wait_for" "clk (w_ext s2) + 1 \<le> clk (w_ext t)" for t
      using that 1(2) 2(2) by linarith
    have ends: "\<exists>r t. round_end E halt wait_for start st s2 = Some (r, t) \<and> (\<forall>y. r = Inr (False, y) \<longrightarrow>
      nat \<lceil>start + wait_for - clk (w_ext t)\<rceil> < nat \<lceil>start + wait_for - clk (w_ext s)\<rceil>)" for st
      using round_end_run [OF assms] less by blast
    consider e where "r1 = Inl e" | e res where "r1 = Inr res" "r2 = Inl e" | res where "r1 = Inr res" "r2 = Inr ()" by (cases r1; cases r2) auto
    then show ?thesis
    proof cases
      case (3 res)
      with 1(1) 2(1) ends [of True] ends [of False] show ?thesis
        by (cases "check_syncing_answer h res") (simp_all add: sync_round_def pbind_run)
    qed (use 1(1) 2(1) in \<open>simp_all add: sync_round_def pbind_run\<close>)
  qed
  then have "rets (py_loop_with (sync_round E h halt wait_for start) False)" for start
    by (intro py_loop_with_rets [where m = "\<lambda>s. nat \<lceil>start + wait_for - clk (w_ext s)\<rceil>"])
  then show ?thesis unfolding ss_sync_sc_blocks_def by (auto intro!: rets_pbind rets_basic)
qed

theorem sync_wait_returns_witness: "rets (ss_sync_sc_blocks sample_env 3 True 200)"
  using sync_wait_returns [OF sample_steady_clock] by blast

text \<open>Forging a large number of blocks is a sequence of chunks that add up to that number: before every
  chunk a mainchain block is mined, and no chunk has more than 90 blocks (the node stops forging after
  100 blocks without a reference to the mainchain).\<close>
theorem forge_in_chunks_sizes:
  assumes "0 \<le> n"
  shows "\<exists>sizes. forge_in_chunks E node n = piter (\<lambda>k. pseq (forge_chunk E node k) (pret ())) sizes \<and>
    sum_list sizes = n \<and> (\<forall>k \<in> set sizes. 0 < k \<and> k \<le> 90)"
proof -
  let ?last = "if n mod 90 > 0 then [n mod 90] else []"
  have app: "piter f (xs @ ys) = pseq (piter f xs) (piter f ys)" for f :: "int \<Rightarrow> ('a, unit) prog" and xs ys
    by (induction xs) (simp_all only: append.simps piter.simps pbind_pret pbind_assoc)
  have const: "piter (\<lambda>_. p) xs = piter f (replicate (length xs) k)" if "p = f k" for p :: "('a, unit) prog" and f k and xs :: "int list"
    using that by (induction xs) simp_all
  have rem: "n - n div 90 * 90 = n mod 90" by (simp add: minus_div_mult_eq_mod)
  let ?sizes = "replicate (nat (n div 90)) 90 @ ?last"
  have "forge_in_chunks E node n = piter (\<lambda>k. pseq (forge_chunk E node k) (pret ())) ?sizes"
    unfolding forge_in_chunks_def Let_def rem app by (subst const [of _ "\<lambda>k. pseq (forge_chunk E node k) (pret ())" 90]) (simp_all add: py_range_def)
  moreover have "sum_list ?sizes = n"
  proof -
    have "sum_list ?last = n mod 90" using pos_mod_sign [of 90 n] by (cases "n mod 90 = 0") auto
    moreover have "sum_list (replicate (nat (n div 90)) 90) = n div 90 * 90"
      using assms by (simp add: sum_list_replicate pos_imp_zdiv_nonneg_iff)
    ultimately show ?thesis unfolding sum_list_append by (simp only: div_mult_mod_eq)
  qed
  moreover have "\<forall>k \<in> set ?sizes. 0 < k \<and> k \<le> 90" by (auto dest: in_set_replicate [THEN iffD1] simp: less_imp_le)
  ultimately show ?thesis by blast
qed

theorem forge_in_chunks_sizes_witness:
  "\<exists>sizes. forge_in_chunks sample_env (sample_node ''a'') 1500
      = piter (\<lambda>k. pseq (forge_chunk sample_env (sample_node ''a'') k) (pret ())) sizes \<and> sum_list sizes = 1500"
  using forge_in_chunks_sizes [of 1500 sample_env "sample_node ''a''"] by auto

text \<open>Two nodes and the answers of one round: the state of the synchronisation, the logged values, the heights.\<close>

definition sync_world :: "pyval res list \<Rightarrow> sample world" where
  "sync_world rs = (sample_world 0 0 rs)\<lparr>t_sc_nodes := Some (Some [sample_node ''a'', sample_node ''b''])\<rparr>"

definition syncing_reply :: "pyval res" where
  "syncing_reply = Inr (PDict [(''result'', PDict [(''startingBlock'', PStr ''0x3''), (''currentBlock'', PStr ''0x10''), (''highestBlock'', PStr ''0x20'')])])"

definition round_replies :: "pyval res \<Rightarrow> int \<Rightarrow> int \<Rightarrow> pyval res list" where
  "round_replies r h0 h1 = [r, height_reply h1, peers_reply ''p'', peers_reply ''p'', height_reply h0, height_reply h1]"

lemmas sync_run = ss_sync_sc_blocks_def sync_round_def round_end_def eth_syncing_def logged_state_def sc_nth_def self_sc_nodes_def sc_field_def
  sync_world_def round_replies_def syncing_reply_def height_reply_def peers_reply_def best_height_def sample_run list_get_def all_equal_first_def
  is_syncing_def

lemma sample_syncing_answer:
  "check_syncing_answer 3 (PDict [(''startingBlock'', PStr ''0x3''), (''currentBlock'', PStr ''0x10''), (''highestBlock'', PStr ''0x20'')]) = Inr ()"
  by code_simp

theorem sync_passes_only_while_syncing_witness:
  "\<exists>t u res v c. ss_sync_sc_blocks sample_env 3 False 200 (sync_world (round_replies syncing_reply 32 32)) = Some (Inr (), t) \<and>
    eth_syncing sample_env u = Some (Inr res, v) \<and> hex_at ''currentBlock'' res = Inr c \<and> 3 \<le> c"
proof -
  obtain t where run: "ss_sync_sc_blocks sample_env 3 False 200 (sync_world (round_replies syncing_reply 32 32)) = Some (Inr (), t)"
    by (simp add: sync_run sample_syncing_answer py_loop_with.simps)
  with sync_passes_only_while_syncing [OF run] show ?thesis by blast
qed

theorem observed_sync_end_fails_witness:
  "\<exists>t. ss_sync_sc_blocks sample_env 3 False 200 (sync_world (round_replies syncing_reply 32 16 @ round_replies (Inr (PDict [(''result'', PBool False)])) 32 32))
    = Some (Inl (PyErr AssertionError ''SC node 1 was in sync but has not detected that it is in sync'' []), t)"
proof -
  let ?s = "sync_world (round_replies syncing_reply 32 16 @ round_replies (Inr (PDict [(''result'', PBool False)])) 32 32)"
  obtain s0 s1 where start: "py_time sample_env ?s = Some (Inr 0, s0)"
    and step: "sync_round sample_env 3 False 200 0 False s0 = Some (Inr (False, True), s1)"
    and s1: "w_ext s1 = (1, round_replies (Inr (PDict [(''result'', PBool False)])) 32 32)" "t_sc_nodes s1 = t_sc_nodes ?s"
    by (simp add: sync_run sample_syncing_answer)
  obtain s2 t where "eth_syncing sample_env s1 = Some (Inr (PBool False), s2)" "logged_state sample_env s2 = Some (Inr (), t)"
    using s1 by (simp add: sync_run)
  moreover have "\<not> is_syncing (PBool False)" by (simp add: is_syncing_def)
  moreover have "(loop_step (sync_round sample_env 3 False 200 0))\<^sup>*\<^sup>* (False, s0) (True, s1)"
    using step by (intro r_into_rtranclp) (simp add: loop_step_def)
  ultimately show ?thesis using observed_sync_end_fails [OF start] by blast
qed

end
