(* ===== verification/Storage_Recovery.thy ===== *)
theory Storage_Recovery
  imports Sync_Status
begin

text \<open>
  The test \<^verbatim>\<open>qa/sc_evm_storage_recovery.py\<close>: the storages of a stopped node are rolled back with the
  database tool, and the node has to recover after a restart. The attribute \<^verbatim>\<open>self.blocks\<close> of the test, the
  ids of the blocks forged so far, is passed from step to step.
\<close>

section \<open>The database tool\<close>

definition db_tool :: "'w env \<Rightarrow> sc_node \<Rightarrow> string \<Rightarrow> (string \<times> pyval) list \<Rightarrow> string \<Rightarrow> ('w, pyval) prog" where
  "db_tool E node command params field = pbind (launch_db_tool E (sc_dataDir node) [] command (PDict params)) (\<lambda>ret. plift (py_get ret field))"

definition check_storage_version :: "'w env \<Rightarrow> sc_node \<Rightarrow> pyval \<Rightarrow> string \<Rightarrow> ('w, unit) prog" where
  "check_storage_version E node expectedVersion name =
     pbind (db_tool E node ''lastVersionID'' [(''storage'', PStr name)] ''version'') (\<lambda>version. check_eq version expectedVersion [])"

definition checkStoragesVersion :: "'w env \<Rightarrow> sc_node \<Rightarrow> string list \<Rightarrow> pyval \<Rightarrow> ('w, unit) prog" where
  "checkStoragesVersion E node storages_list expectedVersion = piter (check_storage_version E node expectedVersion) storages_list"

text \<open>The storage goes back to the last of the versions that the tool lists.\<close>

definition rollback_storage :: "'w env \<Rightarrow> sc_node \<Rightarrow> int \<Rightarrow> string \<Rightarrow> ('w, unit) prog" where
  "rollback_storage E node numberOfVersionsToRollback name =
     pbind (db_tool E node ''versionsList'' [(''storage'', PStr name), (''numberOfVersionToRetrieve'', PInt numberOfVersionsToRollback)]
         ''versionsList'') (\<lambda>versionsList.
     pbind (plift (py_nth versionsList (-1))) (\<lambda>rollbackVersion.
     pbind (db_tool E node ''rollback'' [(''storage'', PStr name), (''versionToRollback'', rollbackVersion)] ''versionCurrent'') (\<lambda>current.
       check_eq current rollbackVersion [])))"

definition rollbackStorages :: "'w env \<Rightarrow> sc_node \<Rightarrow> string list \<Rightarrow> int \<Rightarrow> ('w, unit) prog" where
  "rollbackStorages E node storages_list numberOfVersionsToRollback = piter (rollback_storage E node numberOfVersionsToRollback) storages_list"

section \<open>Steps of the test\<close>

definition sr_sc_setup_chain :: "'w env \<Rightarrow> run_options \<Rightarrow> ('w, sc_bootstrap_info) prog" where
  "sr_sc_setup_chain E options = first_connected_network E options 10 (PInt (720 * 12 * 5))"

definition startAndSyncScNode2 :: "'w env \<Rightarrow> string \<Rightarrow> ('w, unit) prog" where
  "startAndSyncScNode2 E tmpdir =
     pseq (start_sc_node E 1 tmpdir None None (Some (EVM_APP_BINARY E)) False None) (
     pseq (pbind self_sc_nodes (wait_for_sc_node_initialization E)) (
     pseq (py_sleep E 2) (
     pseq (pbind (sc_nth 0) (\<lambda>n0. connect_sc_nodes E n0 1 25))
       (sc_sync_all E False))))"

definition same_best_block :: "'w env \<Rightarrow> sc_node \<Rightarrow> sc_node \<Rightarrow> ('w, unit) prog" where
  "same_best_block E n0 n1 =
     pbind (sc_field E n0 ''block_best'' [] [''result'']) (\<lambda>b0.
     pbind (sc_field E n1 ''block_best'' [] [''result'']) (\<lambda>b1. check_eq b0 b1 []))"

definition forgeBlockAndCheckSync :: "'w env \<Rightarrow> string \<Rightarrow> pyval list \<Rightarrow> ('w, pyval list) prog" where
  "forgeBlockAndCheckSync E tmpdir blocks =
     pbind (sc_nth 0) (\<lambda>n0.
     pbind (generate_next_blocks E n0 ''first node'' 1) (\<lambda>new.
     let blocks = blocks @ new
     in pseq (py_sleep E 2) (
        pseq (startAndSyncScNode2 E tmpdir) (
        pbind (sc_nth 0) (\<lambda>n0.
        pbind (sc_nth 1) (\<lambda>n1.
        pseq (same_best_block E n0 n1) (
        pseq (stop_sc_node E n1 1) (
        pseq (py_sleep E 1) (
        pbind (plift (list_get blocks (-1))) (\<lambda>chainTipId.
        pseq (checkStoragesVersion E n1 [''state''] chainTipId) (pret blocks)))))))))))"

text \<open>The states of the second node before any storage is rolled back.\<close>

definition sr_first_sync :: "'w env \<Rightarrow> string \<Rightarrow> sc_node \<Rightarrow> sc_node \<Rightarrow> ('w, pyval list) prog" where
  "sr_first_sync E tmpdir sc_node1 sc_node2 =
     pseq (stop_sc_node E sc_node2 1) (
     pbind (sc_field E sc_node1 ''block_best'' [] [''result'', ''block'', ''id'']) (\<lambda>genesis.
     pbind (generate_next_blocks E sc_node1 ''first node'' 5) (\<lambda>blocks.
     pseq (pbind (mc_nth 0) (\<lambda>mc. mc_call E mc ''generate'' [PInt 1])) (
     pseq (checkStoragesVersion E sc_node2 [''state''] (PStr (py_str genesis))) (
     pbind (sc_field E sc_node1 ''node_storageVersions'' [] [''result'', ''listOfVersions'']) (\<lambda>versions.
     pbind (plift (py_get versions ''AccountStateMetadataStorage'')) (\<lambda>version.
     pbind (plift (list_get blocks (-1))) (\<lambda>tip.
     pseq (check_eq version tip []) (
     pseq (startAndSyncScNode2 E tmpdir) (
     pseq (same_best_block E sc_node1 sc_node2) (
     pseq (stop_sc_node E sc_node2 1) (pret blocks))))))))))))"

text \<open>The crashes that the node recovers from: the storages to roll back with the number of versions.\<close>

definition recoverable_crashes :: "(string \<times> int) list list" where
  "recoverable_crashes = [[(''history'', 2)], [(''history'', 3)], [(''history'', 3), (''state'', 2)], [(''history'', 4), (''state'', 2)]]"

definition crash :: "'w env \<Rightarrow> sc_node \<Rightarrow> (string \<times> int) list \<Rightarrow> ('w, unit) prog" where
  "crash E node rollbacks = piter (\<lambda>r. rollbackStorages E node [fst r] (snd r)) rollbacks"

definition sr_recover :: "'w env \<Rightarrow> string \<Rightarrow> sc_node \<Rightarrow> pyval list \<Rightarrow> ('w, pyval list) prog" where
  "sr_recover E tmpdir sc_node2 blocks =
     pfold (\<lambda>rollbacks blocks. pseq (crash E sc_node2 rollbacks) (forgeBlockAndCheckSync E tmpdir blocks)) recoverable_crashes blocks"

text \<open>Forging up to the end of the consensus epoch, in chunks after which the nodes synchronise.\<close>

definition sr_reach_epoch_end :: "'w env \<Rightarrow> sc_node \<Rightarrow> pyval list \<Rightarrow> ('w, pyval list) prog" where
  "sr_reach_epoch_end E sc_node1 blocks =
     (let h = int (length blocks) + 1; num_blocks = 720 + 2 - h; chunk_size = 90;
          chunks = num_blocks div chunk_size; remainder = num_blocks - chunks * chunk_size;
          step = (\<lambda>n blocks. pbind (forge_chunk E sc_node1 n) (\<lambda>new. pseq (sc_sync_all E False) (pret (blocks @ new))))
      in pbind (pfold (\<lambda>_. step chunk_size) (py_range chunks) blocks) (\<lambda>blocks.
           if remainder > 0 then step remainder blocks else pret blocks))"

text \<open>The crash that the node does not recover from.\<close>

definition sr_negative :: "'w env \<Rightarrow> string \<Rightarrow> sc_node \<Rightarrow> pyval list \<Rightarrow> ('w, unit) prog" where
  "sr_negative E tmpdir sc_node2 blocks =
     pseq (crash E sc_node2 [(''history'', 7), (''state'', 13)])
       (expect_failure PlainException (forgeBlockAndCheckSync E tmpdir blocks) (\<lambda>e. stop_sc_node E sc_node2 1) ''Exception should have been thrown'')"

definition sr_run_test :: "'w env \<Rightarrow> string \<Rightarrow> ('w, unit) prog" where
  "sr_run_test E tmpdir =
     pbind (sc_nth 0) (\<lambda>sc_node1.
     pbind (sc_nth 1) (\<lambda>sc_node2.
     pseq (sync_all E) (
     pbind (sr_first_sync E tmpdir sc_node1 sc_node2) (\<lambda>blocks.
     pbind (sr_recover E tmpdir sc_node2 blocks) (\<lambda>blocks.
     pseq (startAndSyncScNode2 E tmpdir) (
     pbind (sr_reach_epoch_end E sc_node1 blocks) (\<lambda>blocks.
     pseq (same_best_block E sc_node1 sc_node2) (
     pseq (stop_sc_node E sc_node2 1)
       (sr_negative E tmpdir sc_node2 blocks)))))))))"

definition sr_test :: "'w env \<Rightarrow> test_options \<Rightarrow> 'w test_case" where
  "sr_test E options =
     \<lparr>tc_setup_chain = initialize_chain_clean E (op_tmpdir options) 1,
      tc_setup_network = setup_network_of E (ss_setup_nodes E (op_tmpdir options)),
      tc_sc_setup_chain = pseq (sr_sc_setup_chain E (run_options.truncate options)) (pret ()),
      tc_sc_setup_network = sc_setup_network_of E (two_evm_nodes E (op_tmpdir options)),
      tc_run_test = sr_run_test E (op_tmpdir options)\<rparr>"

section \<open>Properties\<close>

text \<open>The test restarts and stops only its second node: the other processes and the list of nodes are left
  alone by every step.\<close>

abbreviation other_processes :: "'w world \<Rightarrow> sc_node list option option \<times> (int \<times> int) list" where
  "other_processes s \<equiv> (t_sc_nodes s, tab_del 1 (sidechainclient_processes s))"

lemma tab_del_put: "tab_del k (tab_put k v d) = tab_del k d"
  by (induction k v d rule: tab_put.induct) (auto simp: tab_del_def)

lemma tab_del_twice [simp]: "tab_del k (tab_del k d) = tab_del k d"
  by (simp add: tab_del_def)

interpretation others: call_frame other_processes
  by unfold_locales simp_all

lemma register_keeps: "keeps other_processes (register_sc 1 p)"
  by (simp add: register_sc_def keeps_def tab_del_put)

lemma start_keeps: "keeps other_processes (start_sc_node E 1 d a h b out key)"
  unfolding start_sc_node_def Let_def by (intro keep_intros others.basic others.popen register_keeps)

lemma check_versions_keep:
  "keeps other_processes (checkStoragesVersion E n names v)" "keeps sidechainclient_processes (checkStoragesVersion E n names v)"
  unfolding checkStoragesVersion_def check_storage_version_def db_tool_def launch_db_tool_def run_json_tool_def Let_def
  by (intro keep_intros others.basic; auto simp: py_run_def intro: keeps_pact)+

lemma restart_keeps: "keeps other_processes (startAndSyncScNode2 E tmpdir)"
  unfolding startAndSyncScNode2_def by (intro keep_intros others.basic others.sync start_keeps)

lemma same_best_block_keeps: "keeps other_processes (same_best_block E n0 n1)"
  unfolding same_best_block_def by (intro keep_intros others.basic)

lemma stop_sc_node_Inr:
  assumes "stop_sc_node E n i s = Some (Inr (), t)"
  shows "sidechainclient_processes t = tab_del i (sidechainclient_processes s) \<and> t_sc_nodes t = t_sc_nodes s"
proof -
  from assms obtain r u where "sc_call E n ''node_stop'' [] s = Some (Inr r, u)" "reap_sc_node E i u = Some (Inr (), t)"
    by (auto simp: stop_sc_node_def pbind_Inr_iff)
  then show ?thesis
    by (auto simp: sc_call_run reap_sc_node_def pbind_run py_wait_def pact_run map_of_eq_None_iff tab_del_id split: option.splits)
qed

text \<open>What the parts of a recovery step leave in the trace.\<close>

interpretation procs: call_frame sidechainclient_processes
  by unfold_locales simp_all

lemma self_sc_nodes_Inr: "self_sc_nodes s = Some (Inr ns, t) \<longleftrightarrow> t = s \<and> t_sc_nodes s = Some (Some ns)"
  by (auto simp: self_sc_nodes_def pbind_run split: option.splits)

lemma start_sc_node_Inr:
  assumes "start_sc_node E i d a h b False key s = Some (Inr n, t)"
  shows "\<exists>cmd p. w_calls t = w_calls s @ [Spawned cmd p] \<and> sidechainclient_processes t = tab_put i p (sidechainclient_processes s)"
  using assms by (auto simp: start_sc_node_def Let_def pbind_Inr_iff py_popen_def pext_run register_sc_def)

lemma restart_Inr:
  assumes "startAndSyncScNode2 E tmpdir s = Some (Inr (), t)"
  shows "\<exists>ns n0 cmd p u1 u2 u3 u4. t_sc_nodes s = Some (Some ns) \<and> list_get ns 0 = Inr n0 \<and> w_calls u1 = w_calls s @ [Spawned cmd p] \<and>
    wait_for_sc_node_initialization E ns u1 = Some (Inr (), u2) \<and> w_calls u3 = w_calls u2 @ [Slept 2] \<and>
    connect_sc_nodes E n0 1 25 u3 = Some (Inr (), u4) \<and> sc_sync_all E False u4 = Some (Inr (), t) \<and>
    sidechainclient_processes t = tab_put 1 p (sidechainclient_processes s)"
proof -
  from assms obtain n u1 ns u2 u3 ns' n0 u4
    where start: "start_sc_node E 1 tmpdir None None (Some (EVM_APP_BINARY E)) False None s = Some (Inr n, u1)"
      and nodes: "t_sc_nodes u1 = Some (Some ns)" and wait: "wait_for_sc_node_initialization E ns u1 = Some (Inr (), u2)"
      and slept: "py_sleep E 2 u2 = Some (Inr (), u3)" and n0: "t_sc_nodes u3 = Some (Some ns')" "list_get ns' 0 = Inr n0"
      and connect: "connect_sc_nodes E n0 1 25 u3 = Some (Inr (), u4)" and sync: "sc_sync_all E False u4 = Some (Inr (), t)"
    by (auto simp: startAndSyncScNode2_def pbind_Inr_iff sc_nth_Inr self_sc_nodes_Inr)
  obtain cmd p where "w_calls u1 = w_calls s @ [Spawned cmd p]" "sidechainclient_processes u1 = tab_put 1 p (sidechainclient_processes s)"
    using start_sc_node_Inr [OF start] by blast
  moreover have "w_calls u3 = w_calls u2 @ [Slept 2]" using slept by (auto simp: py_sleep_def pact_run)
  moreover have "sidechainclient_processes t = sidechainclient_processes u1"
    using keepsD [OF procs.sync(5) wait] keepsD [OF procs.basic(5) slept] keepsD [OF procs.sync(4) connect] keepsD [OF procs.sync(3) sync] by simp
  moreover have "t_sc_nodes u1 = t_sc_nodes s" using keepsD [OF start_keeps start] by simp
  moreover have "t_sc_nodes u3 = t_sc_nodes u1" using keepsD [OF others.sync(5) wait] keepsD [OF others.basic(5) slept] by simp
  moreover from calculation nodes n0 have "t_sc_nodes s = Some (Some ns)" "ns' = ns" by (metis option.inject)+
  ultimately show ?thesis using wait n0(2) connect sync by metis
qed

lemma same_best_block_Inr:
  assumes "same_best_block E n0 n1 s = Some (Inr (), t)"
  shows "\<exists>a0 a1 w b0 b1. e_sc_api E n0 ''block_best'' [] [] (w_ext s) = (Inr a0, w) \<and> e_sc_api E n1 ''block_best'' [] [] w = (Inr a1, w_ext t) \<and>
    py_get a0 ''result'' = Inr b0 \<and> py_get a1 ''result'' = Inr b1 \<and> py_eq b0 b1 \<and>
    w_calls t = w_calls s @ [ScCall n0 ''block_best'' [] [], ScCall n1 ''block_best'' [] []]"
  using assms by (cases "e_sc_api E n0 ''block_best'' [] [] (w_ext s)")
    (auto simp: same_best_block_def sc_field_Inr sc_call_run pbind_Inr_iff rbind_Inr_iff prod_eq_iff)

lemma stop_sc_node_trace:
  assumes "stop_sc_node E n i s = Some (Inr (), t)" and "map_of (sidechainclient_processes s) i = Some p"
  shows "w_calls t = w_calls s @ [ScCall n ''node_stop'' [] [], Waited p]"
  using assms by (auto simp: stop_sc_node_def reap_sc_node_def pbind_Inr_iff sc_call_run py_wait_def pact_run)

definition version_request :: "'w env \<Rightarrow> sc_node \<Rightarrow> string \<Rightarrow> string list" where
  "version_request E node body = [''java'', ''-jar'', sdk_dir E @ ''/tools/dbtool/target/sidechains-sdk-dbtools-'' @ SNAPSHOT_VERSION_TAG @ ''.jar'',
     sc_dataDir node @ ''/blockchain'', [], ''lastVersionID'', body]"

lemma check_state_version_Inr:
  assumes "checkStoragesVersion E node [''state''] tip s = Some (Inr (), t)"
  shows "\<exists>body status out err r version. json_dumps (PDict [(''storage'', PStr ''state'')]) = Inr body \<and>
    w_calls t = w_calls s @ [RanCmd (version_request E node body)] \<and>
    e_run E (version_request E node body) (w_ext s) = (Inr (status, out, err), w_ext t) \<and> json_loads out = Inr r \<and>
    py_get r ''version'' = Inr version \<and> py_eq version tip"
proof -
  from assms obtain body r version where body: "json_dumps (PDict [(''storage'', PStr ''state'')]) = Inr body"
    and run: "run_json_tool E (version_request E node body) ''DB tool error occurred'' s = Some (Inr r, t)"
    and version: "py_get r ''version'' = Inr version" "py_eq version tip"
    by (auto simp: checkStoragesVersion_def check_storage_version_def db_tool_def launch_db_tool_def version_request_def pbind_Inr_iff
        assert_equal_def rerr_def simp del: json_dumps.simps split: if_splits)
  from run have "\<exists>status out err. w_calls t = w_calls s @ [RanCmd (version_request E node body)] \<and>
      e_run E (version_request E node body) (w_ext s) = (Inr (status, out, err), w_ext t) \<and> json_loads out = Inr r"
    by (cases "e_run E (version_request E node body) (w_ext s)")
      (auto simp: run_json_tool_def pbind_Inr_iff ptry_Inr_iff py_run_def pact_run split: if_splits)
  with body version show ?thesis by blast
qed

text \<open>The phases of a recovery step between the state \<open>s\<close> after the forging and the states \<open>v\<close> and \<open>t\<close>: the restart of the second node with
  process \<open>p\<close>, the agreement of two nodes on the best block, and the answer of the tool that leads to the last state.\<close>

definition restarted :: "'w env \<Rightarrow> sc_node list \<Rightarrow> sc_node \<Rightarrow> int \<Rightarrow> 'w world \<Rightarrow> 'w world \<Rightarrow> bool" where
  "restarted E ns n0 p s v \<longleftrightarrow> (\<exists>cmd u1 u2 u3 u4. w_calls u1 = w_calls s @ [Slept 2, Spawned cmd p] \<and>
     wait_for_sc_node_initialization E ns u1 = Some (Inr (), u2) \<and> w_calls u3 = w_calls u2 @ [Slept 2] \<and>
     connect_sc_nodes E n0 1 25 u3 = Some (Inr (), u4) \<and> sc_sync_all E False u4 = Some (Inr (), v))"

definition agree_on_best :: "'w env \<Rightarrow> sc_node \<Rightarrow> sc_node \<Rightarrow> 'w \<Rightarrow> bool" where
  "agree_on_best E n0 n1 w \<longleftrightarrow> (\<exists>a0 a1 w' w'' b0 b1. e_sc_api E n0 ''block_best'' [] [] w = (Inr a0, w') \<and>
     e_sc_api E n1 ''block_best'' [] [] w' = (Inr a1, w'') \<and> py_get a0 ''result'' = Inr b0 \<and> py_get a1 ''result'' = Inr b1 \<and> py_eq b0 b1)"

definition tool_reports :: "'w env \<Rightarrow> string list \<Rightarrow> pyval \<Rightarrow> 'w \<Rightarrow> bool" where
  "tool_reports E cmd b w \<longleftrightarrow> (\<exists>w' status out err r version. e_run E cmd w' = (Inr (status, out, err), w) \<and> json_loads out = Inr r \<and>
     py_get r ''version'' = Inr version \<and> py_eq version b)"

text \<open>C30. A recovery step of the test, from the outside. The first node forges one more block \<open>b\<close>. Then a process is started for the second
  node; all nodes are waited for, the first node connects to it and all nodes synchronise (\<open>restarted\<close>). After that, and
  in this order, both nodes report the same best block, the second node is asked to stop, the end of exactly the process
  that was started is awaited, and the database tool is run on its data directory for the state storage: the last version
  that the tool reports then is \<open>b\<close>. Only the second process has left the table.\<close>
theorem recovered_node_state:
  assumes "forgeBlockAndCheckSync E tmpdir blocks s = Some (Inr blocks', t)"
  shows "\<exists>ns n0 n1 b s1 p v body. t_sc_nodes s = Some (Some ns) \<and> list_get ns 0 = Inr n0 \<and> list_get ns 1 = Inr n1 \<and>
    generate_next_blocks E n0 ''first node'' 1 s = Some (Inr [b], s1) \<and> blocks' = blocks @ [b] \<and>
    restarted E ns n0 p s1 v \<and> agree_on_best E n0 n1 (w_ext v) \<and> json_loads body = Inr (PDict [(''storage'', PStr ''state'')]) \<and>
    w_calls t = w_calls v @ [ScCall n0 ''block_best'' [] [], ScCall n1 ''block_best'' [] [], ScCall n1 ''node_stop'' [] [], Waited p, Slept 1,
      RanCmd (version_request E n1 body)] \<and>
    tool_reports E (version_request E n1 body) b (w_ext t) \<and>
    sidechainclient_processes t = tab_del 1 (sidechainclient_processes s) \<and> t_sc_nodes t = t_sc_nodes s"
proof -
  from assms obtain n0 m0 new n1 s1 s2 v s5 s6 s7 tip ns ms
    where start: "t_sc_nodes s = Some (Some ns)" "list_get ns 0 = Inr n0" "t_sc_nodes v = Some (Some ms)" "list_get ms 0 = Inr m0" "list_get ms 1 = Inr n1"
    and 1: "generate_next_blocks E n0 ''first node'' 1 s = Some (Inr new, s1)" "py_sleep E 2 s1 = Some (Inr (), s2)"
      "startAndSyncScNode2 E tmpdir s2 = Some (Inr (), v)" "same_best_block E m0 n1 v = Some (Inr (), s5)"
    and 2: "stop_sc_node E n1 1 s5 = Some (Inr (), s6)" "py_sleep E 1 s6 = Some (Inr (), s7)" "list_get (blocks @ new) (-1) = Inr tip"
    and 3: "checkStoragesVersion E n1 [''state''] tip s7 = Some (Inr (), t)" and b': "blocks' = blocks @ new"
    by (auto simp: forgeBlockAndCheckSync_def pbind_Inr_iff sc_nth_Inr Let_def)
  have "length new = 1" using 1(1) by (auto simp: generate_next_blocks_def py_range_def pbind_Inr_iff)
  then obtain b where b: "new = [b]" by (auto simp: length_Suc_conv)
  with 2(3) have tip: "tip = b" by (simp add: list_get_def nth_append)
  have s2: "w_calls s2 = w_calls s1 @ [Slept 2]" and s7: "w_calls s7 = w_calls s6 @ [Slept 1]" "sidechainclient_processes s7 = sidechainclient_processes s6"
    using 1(2) 2(2) by (auto simp: py_sleep_def pact_run)
  note frame = keepsD [OF others.forge(2) 1(1)] keepsD [OF others.basic(5) 1(2)] keepsD [OF restart_keeps 1(3)]
    keepsD [OF same_best_block_keeps 1(4)] keepsD [OF others.basic(5) 2(2)] keepsD [OF check_versions_keep(1) 3]
  have nodes: "t_sc_nodes s2 = t_sc_nodes s" "t_sc_nodes v = t_sc_nodes s" using frame by simp_all
  obtain cmd p u1 u2 u3 u4 where restart: "w_calls u1 = w_calls s2 @ [Spawned cmd p]" "wait_for_sc_node_initialization E ns u1 = Some (Inr (), u2)"
      "w_calls u3 = w_calls u2 @ [Slept 2]" "connect_sc_nodes E n0 1 25 u3 = Some (Inr (), u4)" "sc_sync_all E False u4 = Some (Inr (), v)"
      "sidechainclient_processes v = tab_put 1 p (sidechainclient_processes s2)"
    using restart_Inr [OF 1(3)] start(1,2) nodes by auto
  have best: "agree_on_best E n0 n1 (w_ext v)" "w_calls s5 = w_calls v @ [ScCall n0 ''block_best'' [] [], ScCall n1 ''block_best'' [] []]"
    using same_best_block_Inr [OF 1(4)] start nodes unfolding agree_on_best_def by auto
  have "sidechainclient_processes s5 = sidechainclient_processes v" using 1(4) unfolding same_best_block_def
    by (rule keepsD [rotated]) (intro keep_intros procs.basic)
  with restart(6) have "map_of (sidechainclient_processes s5) 1 = Some p" by simp
  note stopped = stop_sc_node_trace [OF 2(1) this]
  obtain body where tool: "json_dumps (PDict [(''storage'', PStr ''state'')]) = Inr body"
      "w_calls t = w_calls s7 @ [RanCmd (version_request E n1 body)]" "tool_reports E (version_request E n1 body) b (w_ext t)"
    using check_state_version_Inr [OF 3] tip unfolding tool_reports_def by blast
  have body: "json_loads body = Inr (PDict [(''storage'', PStr ''state'')])"
    using json_roundtrip [of "PDict [(''storage'', PStr ''state'')]"] tool(1) by simp
  have "w_calls u1 = w_calls s1 @ [Slept 2, Spawned cmd p]" using restart(1) s2 by simp
  with restart(2-5) have again: "restarted E ns n0 p s1 v" unfolding restarted_def by blast
  have trace: "w_calls t = w_calls v @ [ScCall n0 ''block_best'' [] [], ScCall n1 ''block_best'' [] [], ScCall n1 ''node_stop'' [] [], Waited p, Slept 1,
      RanCmd (version_request E n1 body)]" using s7(1) stopped best(2) tool(2) by simp
  have "sidechainclient_processes t = tab_del 1 (sidechainclient_processes s5)"
    using keepsD [OF check_versions_keep(2) 3] stop_sc_node_Inr [OF 2(1)] s7(2) by simp
  then have left: "sidechainclient_processes t = tab_del 1 (sidechainclient_processes s)" "t_sc_nodes t = t_sc_nodes s"
    using frame stop_sc_node_Inr [OF 2(1)] by simp_all
  have "list_get ns 1 = Inr n1" using start nodes by simp
  with start(1,2) 1(1) b b' again best(1) body trace tool(3) left show ?thesis by blast
qed

text \<open>Two nodes that agree, and a tool that reports the version of the new block.\<close>

definition version_answer :: pyval where
  "version_answer = PDict [(''version'', PStr ''b6'')]"

definition recovery_env :: "sample env" where
  "recovery_env = sample_env\<lparr>e_run := \<lambda>c w. (Inr (0, (case json_dumps version_answer of Inr t \<Rightarrow> t | Inl e \<Rightarrow> []), []), w)\<rparr>"

lemma recovery_env_simps [simp]:
  "e_sc_api recovery_env n m a k = next_response" "e_time recovery_env w = (fst w, w)" "e_sleep recovery_env d w = (fst w + d, snd w)"
  "e_popen recovery_env cmd w = (Inr 77, w)" "e_connect_ex recovery_env h i w = (0, w)" "e_wait recovery_env i w = w" "e_pid recovery_env = 4242"
  by (simp_all add: recovery_env_def)

definition recovery_replies :: "pyval res list" where
  "recovery_replies = [forging_reply 720 2 5, block_reply ''b6'', Inr PNone, peers_reply ''/127.0.0.1:8501'', height_reply 6, height_reply 6,
     Inr (PDict [(''result'', PDict [(''transactions'', PList [])])]), Inr (PDict [(''result'', PDict [(''transactions'', PList [])])]),
     height_reply 6, height_reply 6, Inr PNone]"

definition recovery_world :: "pyval res list \<Rightarrow> sample world" where
  "recovery_world rs = (sample_world 1 0 rs)\<lparr>t_sc_nodes := Some (Some [sample_node ''a'', sample_node ''b''])\<rparr>"

lemma version_tool: "run_json_tool recovery_env cmd f s = Some (Inr version_answer, s\<lparr>w_calls := w_calls s @ [RanCmd cmd]\<rparr>)"
proof -
  have "json_value version_answer" by (simp add: version_answer_def)
  from json_roundtrip [OF this] obtain t where "json_dumps version_answer = Inr t" "json_loads t = Inr version_answer"
    by (auto simp: rbind_Inr_iff)
  then show ?thesis by (simp add: run_json_tool_def py_run_def pact_run pbind_run ptry_run recovery_env_def)
qed

theorem recovered_node_state_witness:
  "\<exists>b t. forgeBlockAndCheckSync recovery_env ''/tmp'' [PStr ''b5''] (recovery_world recovery_replies) = Some (Inr [PStr ''b5'', b], t) \<and>
    sidechainclient_processes t = [] \<and> t_sc_nodes t = t_sc_nodes (recovery_world [])"
proof -
  let ?s = "recovery_world recovery_replies"
  have port: "str_int 8501 = ''8501''" by (simp add: str_int_def nat_str.simps digit_char_def)
  define st where "st = (\<lambda>c k clock procs. (recovery_world [])\<lparr>w_calls := c, w_ext := (clock, drop k recovery_replies), sidechainclient_processes := procs\<rparr>)"
  note st_simps = st_def recovery_world_def recovery_replies_def sample_run
  have nth: "sc_nth 0 (st c k w ps) = Some (Inr (sample_node ''a''), st c k w ps)" "sc_nth 1 (st c k w ps) = Some (Inr (sample_node ''b''), st c k w ps)"
    "self_sc_nodes (st c k w ps) = Some (Inr [sample_node ''a'', sample_node ''b''], st c k w ps)" for c k w ps
    by (simp_all add: sc_nth_def self_sc_nodes_def list_get_def pbind_run st_def recovery_world_def)
  obtain c1 where 1: "generate_next_blocks recovery_env (sample_node ''a'') ''first node'' 1 ?s = Some (Inr [PStr ''b6''], st c1 2 0 [])"
    by (simp add: generate_next_blocks_def py_range_def forging_run st_simps)
  obtain c2 where 2: "py_sleep recovery_env 2 (st c1 2 0 []) = Some (Inr (), st c2 2 2 [])"
    by (simp add: py_sleep_def pact_run st_simps)
  obtain c3a n where s3a: "start_sc_node recovery_env 1 ''/tmp'' None None (Some (EVM_APP_BINARY recovery_env)) False None (st c2 2 2 []) = Some (Inr n, st c3a 2 2 [(1, 77)])"
    unfolding start_sc_node_def Let_def sc_bashcmd_def additional_params_def
    by (simp add: st_simps register_sc_def del: split_ws.simps append.simps)
  have s3b: "wait_for_sc_node_initialization recovery_env [sample_node ''a'', sample_node ''b''] (st c3a 2 2 [(1, 77)]) = Some (Inr (), st c3a 2 2 [(1, 77)])"
    unfolding wait_for_sc_node_initialization_def wait_for_socket_def socket_open_def
    by (simp add: py_loop.simps py_range_def upto.simps st_simps)
  obtain c3c where s3c: "py_sleep recovery_env 2 (st c3a 2 2 [(1, 77)]) = Some (Inr (), st c3c 2 4 [(1, 77)])"
    by (simp add: py_sleep_def pact_run st_simps)
  obtain c3d where s3d: "connect_sc_nodes recovery_env (sample_node ''a'') 1 25 (st c3c 2 4 [(1, 77)]) = Some (Inr (), st c3d 4 4 [(1, 77)])"
    unfolding connect_sc_nodes_def connect_sc_nodes_loop_def
    by (simp add: py_loop.simps st_simps Let_def port sc_p2p_port_def sc_start_port_modifier_def peer_has_address_def is_connected_def
        sc_connected_peers_def peers_reply_def)
  obtain c3e where s3e: "sync_sc_blocks recovery_env [sample_node ''a'', sample_node ''b''] 25 (st c3d 4 4 [(1, 77)]) = Some (Inr (), st c3e 6 4 [(1, 77)])"
    unfolding sync_sc_blocks_def sync_sc_blocks_loop_def
    by (simp add: py_loop.simps st_simps sc_heights_agree_def current_height_def height_reply_def all_equal_first_def list_get_def)
  obtain c3 where 3: "sync_sc_mempools recovery_env [sample_node ''a'', sample_node ''b''] 25 False (st c3e 6 4 [(1, 77)]) = Some (Inr (), st c3 8 4 [(1, 77)])"
    unfolding sync_sc_mempools_def sync_sc_mempools_loop_def
    by (simp add: py_loop.simps st_simps Let_def mempools_match_def reference_pool_def mempool_of_def list_get_def upto.simps)
  obtain c4 where 4: "same_best_block recovery_env (sample_node ''a'') (sample_node ''b'') (st c3 8 4 [(1, 77)]) = Some (Inr (), st c4 10 4 [(1, 77)])"
    by (simp add: same_best_block_def sc_field_def height_reply_def st_simps)
  obtain c5 where 5: "stop_sc_node recovery_env (sample_node ''b'') 1 (st c4 10 4 [(1, 77)]) = Some (Inr (), st c5 11 4 [])"
    by (simp add: stop_sc_node_def reap_sc_node_def tab_del_def st_simps)
  obtain c6 where 6: "py_sleep recovery_env 1 (st c5 11 4 []) = Some (Inr (), st c6 11 5 [])"
    by (simp add: py_sleep_def pact_run st_simps)
  obtain c7 where 7: "checkStoragesVersion recovery_env (sample_node ''b'') [''state''] (PStr ''b6'') (st c6 11 5 []) = Some (Inr (), st c7 11 5 [])"
    by (simp add: checkStoragesVersion_def check_storage_version_def db_tool_def launch_db_tool_def version_tool version_answer_def pbind_run st_def recovery_world_def sample_world_def)
  have "sc_nth 0 ?s = Some (Inr (sample_node ''a''), ?s)"
    by (simp add: sc_nth_def self_sc_nodes_def list_get_def pbind_run recovery_world_def)
  then have run: "forgeBlockAndCheckSync recovery_env ''/tmp'' [PStr ''b5''] ?s = Some (Inr [PStr ''b5'', PStr ''b6''], st c7 11 5 [])"
    using 1 2 s3a s3b s3c s3d s3e 3 4 5 6 7 nth
    by (simp add: forgeBlockAndCheckSync_def startAndSyncScNode2_def sc_sync_all_def pbind_run Let_def list_get_def)
  with recovered_node_state [OF run] show ?thesis by (auto simp: recovery_world_def sample_world_def tab_del_def)
qed

end
