(* ===== verification/Py_Float.thy ===== *)
theory Py_Float
  imports Py_Strings "HOL-Library.Log_Nat"
begin

text \<open>
  The rounding of Python's floats, which are binary numbers with a significand of 53 bits. A float is the rational
  number it stands for, and every operation rounds its exact result with \<open>fl\<close>, to the nearest float, a tie to the
  even one; the quotient of two integers is rounded in the same way. The range of the exponent is not limited: the
  amounts of the tests are far from both ends of it. The lemmas say when rounding changes nothing, how far it can
  go, and when the floor of a rounded quotient is the quotient of integers.
\<close>

section \<open>Rounding\<close>

definition float_exponent :: "rat \<Rightarrow> int" where
  "float_exponent x = (case quotient_of \<bar>x\<bar> of (a, b) \<Rightarrow>
     let e = bitlen a - bitlen b in if 2 powi e \<le> \<bar>x\<bar> then e else e - 1)"

definition fl :: "rat \<Rightarrow> rat" where
  "fl x = (if x = 0 then 0 else let u = 2 powi (float_exponent x - 52) in of_int (py_round (x / u)) * u)"

text \<open>The remainder of a float by an integer, which is a float without rounding when both are positive.\<close>

definition float_rem :: "rat \<Rightarrow> int \<Rightarrow> rat" where
  "float_rem x n = x - of_int n * of_int \<lfloor>x / of_int n\<rfloor>"

text \<open>A number of Python: an integer, a float, or a \<^verbatim>\<open>Decimal\<close>, which is exact for the amounts of the tests.\<close>

datatype pynum = NInt int | NFlt rat | NDec rat

section \<open>The exponent\<close>

lemma pow2_powi: "(2::rat) ^ nat k = 2 powi k" if "0 \<le> k"
  using that by (simp add: power_int_def)

lemma bitlen_powi:
  assumes "0 < a"
  shows "2 powi (bitlen a - 1) \<le> (of_int a :: rat)" "(of_int a :: rat) < 2 powi bitlen a"
proof -
  have "1 \<le> bitlen a" using assms bitlen_eq_zero_iff [of a] bitlen_nonneg [of a] by linarith
  then have "2 powi (bitlen a - 1) = (of_int (2 ^ nat (bitlen a - 1)) :: rat)" "2 powi bitlen a = (of_int (2 ^ nat (bitlen a)) :: rat)"
    by (simp_all add: pow2_powi)
  with bitlen_bounds [OF assms] show "2 powi (bitlen a - 1) \<le> (of_int a :: rat)" "(of_int a :: rat) < 2 powi bitlen a"
    by (simp_all only: of_int_le_iff of_int_less_iff)
qed

lemma float_exponent:
  assumes "x \<noteq> 0"
  shows "2 powi float_exponent x \<le> \<bar>x\<bar>" "\<bar>x\<bar> < 2 powi (float_exponent x + 1)"
proof -
  obtain a b where q: "quotient_of \<bar>x\<bar> = (a, b)" by fastforce
  have b: "0 < b" using quotient_of_denom_pos [OF q] .
  have x: "\<bar>x\<bar> = of_int a / of_int b" using quotient_of_div [OF q] .
  then have a: "0 < a" using assms b by (metis abs_less_iff of_int_0_less_iff zero_less_abs_iff zero_less_divide_iff less_le_not_le of_int_less_0_iff)
  let ?e = "bitlen a - bitlen b"
  have "2 powi (bitlen a - 1) / 2 powi bitlen b < \<bar>x\<bar>"
    unfolding x using bitlen_powi [OF a] bitlen_powi [OF b] b by (intro frac_less2) auto
  then have low: "2 powi (?e - 1) < \<bar>x\<bar>" by (simp add: power_int_diff)
  have "\<bar>x\<bar> < 2 powi bitlen a / 2 powi (bitlen b - 1)"
    unfolding x using bitlen_powi [OF a] bitlen_powi [OF b] a by (intro frac_less) auto
  then have high: "\<bar>x\<bar> < 2 powi (?e + 1)" by (simp add: power_int_diff power_int_add)
  show "2 powi float_exponent x \<le> \<bar>x\<bar>" "\<bar>x\<bar> < 2 powi (float_exponent x + 1)"
    using low high by (auto simp: float_exponent_def q Let_def)
qed

section \<open>What rounding does\<close>

lemma fl_zero [simp]: "fl 0 = 0"
  by (simp add: fl_def)

lemma fl_error: "\<bar>fl x - x\<bar> \<le> \<bar>x\<bar> / 2 ^ 53"
proof (cases "x = 0")
  case False
  define u :: rat where "u = 2 powi (float_exponent x - 52)"
  have u: "0 < u" by (simp add: u_def)
  have "u * 2 ^ 52 = 2 powi float_exponent x" by (simp add: u_def power_int_diff)
  with float_exponent(1) [OF False] have ux: "u * 2 ^ 52 \<le> \<bar>x\<bar>" by simp
  have "fl x - x = (of_int (py_round (x / u)) - x / u) * u"
    using u False by (simp add: fl_def u_def Let_def left_diff_distrib)
  then have "\<bar>fl x - x\<bar> = \<bar>of_int (py_round (x / u)) - x / u\<bar> * u" using u by (simp add: abs_mult)
  also have "\<dots> \<le> 1 / 2 * u" using py_round_near [of "x / u"] u by (intro mult_right_mono) auto
  also have "\<dots> \<le> \<bar>x\<bar> / 2 ^ 53" using ux by simp
  finally show ?thesis .
qed simp

lemma fl_bound: "\<bar>fl x - x\<bar> \<le> \<bar>x\<bar> / 9007199254740992"
  using fl_error [of x] by simp

text \<open>Two roundings of a number below \<open>2 ^ 51\<close> stay within a half.\<close>

lemma two_errors: "\<bar>b - k\<bar> < 1 / 2"
  if "\<bar>a - k\<bar> \<le> k / 9007199254740992" "\<bar>b - a\<bar> \<le> \<bar>a\<bar> / 9007199254740992" "0 \<le> k" "k + 1 \<le> 2251799813685248" for a b k :: rat
  using that by linarith

lemma fl_doubled: "fl x \<le> fl y" if "0 \<le> x" "2 * x \<le> y"
  using fl_bound [of x] fl_bound [of y] that by linarith

lemma fl_int:
  assumes "\<bar>i\<bar> < 2 ^ 53"
  shows "fl (of_int i) = of_int i"
proof (cases "i = 0")
  case False
  define e where "e = float_exponent (of_int i)"
  have "2 powi e \<le> \<bar>of_int i :: rat\<bar>" using float_exponent(1) [of "of_int i"] False by (simp add: e_def)
  also have "\<dots> < of_int (2 ^ 53)" using assms by (simp only: of_int_less_iff flip: of_int_abs)
  also have "\<dots> = 2 powi 53" by simp
  finally have "e < 53" by (rule power_int_le_imp_less_exp [rotated]) simp_all
  then have "0 \<le> 52 - e" by simp
  then have "(of_int i / 2 powi (e - 52) :: rat) = of_int (i * 2 ^ nat (52 - e))"
    by (simp add: pow2_powi power_int_diff)
  then have "py_round (of_int i / 2 powi (e - 52)) = i * 2 ^ nat (52 - e)" by (simp only: py_round_int)
  then have "fl (of_int i) = of_int (i * 2 ^ nat (52 - e)) * 2 powi (e - 52)"
    using False by (simp add: fl_def Let_def flip: e_def)
  also have "\<dots> = of_int i" using \<open>0 \<le> 52 - e\<close> by (simp add: pow2_powi power_int_diff)
  finally show ?thesis .
qed simp

lemma fl_pos: "0 < fl x" if "0 < x"
proof -
  have "\<bar>x\<bar> / 2 ^ 53 < x" using that by (simp add: divide_less_eq)
  then show ?thesis using fl_error [of x] by linarith
qed

text \<open>The floor of a rounded quotient: below \<open>2 ^ 53\<close> the rounding cannot reach the next integer.\<close>

lemma strictly_between:
  fixes y :: rat
  assumes "0 < n" "\<not> n dvd a" "\<bar>y - of_int a / of_int n\<bar> < 1 / of_int n"
  shows "of_int (a div n) < y" "y < of_int (a div n) + 1"
proof -
  define q r where "q = a div n" and "r = a mod n"
  have r: "1 \<le> r" "r \<le> n - 1"
    using assms(1,2) pos_mod_bound [of n a] pos_mod_sign [of n a] unfolding r_def dvd_eq_mod_eq_0 by linarith+
  have "of_int a / of_int n = (of_int q + of_int r / of_int n :: rat)"
    using assms(1) mult_div_mod_eq [of n a] by (simp add: q_def r_def field_simps flip: of_int_mult of_int_add)
  moreover have "1 / of_int n \<le> (of_int r / of_int n :: rat)" "of_int r / of_int n \<le> (1 - 1 / of_int n :: rat)"
    using r assms(1) by (simp_all add: field_simps flip: of_int_add)
  ultimately show "of_int (a div n) < y" "y < of_int (a div n) + 1" using assms(3) by (auto simp: abs_less_iff q_def)
qed

lemma floor_near:
  fixes y :: rat
  assumes "0 < n" "\<bar>y - of_int a / of_int n\<bar> < 1 / of_int n" "n dvd a \<Longrightarrow> y = of_int a / of_int n"
  shows "\<lfloor>y\<rfloor> = a div n"
proof (cases "n dvd a")
  case True
  then show ?thesis using assms by (simp add: floor_divide_of_int_eq)
next
  case False
  then show ?thesis using strictly_between [OF assms(1) False assms(2)] by linarith
qed

lemma floor_fl_quotient:
  assumes "0 \<le> a" "a < 2 ^ 53" "0 < n"
  shows "\<lfloor>fl (of_int a / of_int n)\<rfloor> = a div n"
proof (rule floor_near [OF assms(3)])
  have "\<bar>of_int a / of_int n\<bar> / 2 ^ 53 < (1 / of_int n :: rat)"
  proof -
    have "(of_int a :: rat) < of_int (2 ^ 53)" using assms(2) by (simp only: of_int_less_iff)
    then show ?thesis using assms(1,3) by (simp add: divide_strict_right_mono divide_less_eq)
  qed
  with fl_error show "\<bar>fl (of_int a / of_int n) - of_int a / of_int n\<bar> < 1 / of_int n" by (rule le_less_trans)
  show "fl (of_int a / of_int n) = of_int a / of_int n" if "n dvd a"
  proof -
    from that obtain k where k: "a = n * k" by blast
    have "\<bar>k\<bar> \<le> \<bar>a\<bar>" unfolding k using assms(3) by (simp add: abs_mult mult_le_cancel_right1)
    with fl_int [of k] assms show ?thesis by (simp add: k)
  qed
qed

lemma float_rem_int: "float_rem (of_int a) n = of_int (a mod n)"
  by (simp add: float_rem_def floor_divide_of_int_eq flip: of_int_mult of_int_diff minus_mult_div_eq_mod)

end
