(* ===== verification/Account_Utils.thy ===== *)
theory Account_Utils
  imports Forging Mc_Node Py_Float
begin

text \<open>
  Helpers of the account model (\<^verbatim>\<open>qa/SidechainTestFramework/account\<close>): amounts in Zen, zennies and wei,
  fees of forged transactions, transactions between externally owned accounts, and the requests of
  the forger stakes (\<^verbatim>\<open>utils.py\<close>, \<^verbatim>\<open>ac_utils.py\<close>, \<^verbatim>\<open>ac_make_raw_tx.py\<close>, \<^verbatim>\<open>ac_smart_contract_compile.py\<close>,
  \<^verbatim>\<open>mk_contract_address.py\<close>).

  The packages \<^verbatim>\<open>eth_utils\<close>, \<^verbatim>\<open>eth_abi\<close> and \<^verbatim>\<open>rlp\<close> are parameters, the fields of \<open>eth_lib\<close>. Amounts in Zen
  are integers, floats or decimals (\<open>pynum\<close>); what is computed with floats is rounded as in \<open>Py_Float\<close>.
\<close>

section \<open>Parameters\<close>

record eth_lib =
  to_checksum_address :: "string \<Rightarrow> string res"
  checksum_of_bytes :: "nat list \<Rightarrow> string res"
  add_0x_prefix :: "string \<Rightarrow> string"
  hexstr_to_bytes :: "string \<Rightarrow> nat list res"
  keccak :: "nat list \<Rightarrow> nat list"
  rlp_encode :: "nat list \<Rightarrow> int \<Rightarrow> nat list res"
  abi_encode :: "string list \<Rightarrow> pyval list \<Rightarrow> nat list res"
  abi_decode :: "string list \<Rightarrow> nat list \<Rightarrow> pyval list res"

section \<open>Amounts and constants\<close>

definition COIN :: int where
  "COIN = 100000000"

definition ZENNY_TO_WEI_MULTIPLIER :: int where
  "ZENNY_TO_WEI_MULTIPLIER = 10 ^ 10"

fun convertZenToZennies :: "pynum \<Rightarrow> int" where
  "convertZenToZennies (NInt valueInZen) = valueInZen * COIN"
| "convertZenToZennies (NFlt valueInZen) = py_round (fl (valueInZen * of_int COIN))"
| "convertZenToZennies (NDec valueInZen) = py_round (valueInZen * of_int COIN)"

text \<open>Zennies and wei are always integers; the product of integers is exact, their quotient is a float.\<close>

definition convertZenniesToWei :: "int \<Rightarrow> int" where
  "convertZenniesToWei valueInZennies = ZENNY_TO_WEI_MULTIPLIER * valueInZennies"

definition convertZenToWei :: "pynum \<Rightarrow> int" where
  "convertZenToWei valueInZen = convertZenniesToWei (convertZenToZennies valueInZen)"

definition convertZenniesToZen :: "int \<Rightarrow> rat" where
  "convertZenniesToZen valueInZennies = fl (of_int valueInZennies / of_int COIN)"

definition convertWeiToZen :: "int \<Rightarrow> pynum" where
  "convertWeiToZen valueInWei =
     (let valueInZen = fl (fl (of_int valueInWei / of_int ZENNY_TO_WEI_MULTIPLIER) / of_int COIN)
      in if valueInZen < fl (1 / of_int COIN) then NInt 0 else NFlt valueInZen)"

section \<open>Fees\<close>

definition rpc_result_of :: "'w env \<Rightarrow> sc_node \<Rightarrow> string \<Rightarrow> string \<Rightarrow> pyval list \<Rightarrow> string \<Rightarrow> ('w, pyval) prog" where
  "rpc_result_of E sc_node service cmd args missing =
     pbind (sc_call E sc_node service args) (\<lambda>resp.
     pbind (plift (py_in ''result'' resp)) (\<lambda>ok.
       if \<not> ok then pbind (plift (json_dumps resp)) (\<lambda>t. praise PlainException (''Rpc '' @ cmd @ '' cmd failed:'') [PStr t])
       else pbind (plift (py_get resp ''result'')) (\<lambda>r.
         if r = PNone then praise PlainException missing (take 1 args) else pret r)))"

definition hex_field :: "string \<Rightarrow> pyval \<Rightarrow> int res" where
  "hex_field key json = rbind (py_get json key) py_int16"

definition computeForgedTxFee :: "'w env \<Rightarrow> eth_lib \<Rightarrow> sc_node \<Rightarrow> string \<Rightarrow> ('w, int \<times> int \<times> int) prog" where
  "computeForgedTxFee E L sc_node tx_hash =
     (let tx_hash = add_0x_prefix L tx_hash
      in pbind (rpc_result_of E sc_node ''rpc_eth_getTransactionReceipt'' ''eth_getTransactionReceipt'' [PStr tx_hash]
             ''Unexpected error: Receipt not found for transaction '') (\<lambda>receiptJson.
         pbind (plift (hex_field ''gasUsed'' receiptJson)) (\<lambda>gasUsed.
         pbind (plift (hex_field ''effectiveGasPrice'' receiptJson)) (\<lambda>effectiveGasPrice.
         pbind (plift (py_get receiptJson ''blockHash'')) (\<lambda>block_hash.
         pbind (rpc_result_of E sc_node ''rpc_eth_getBlockByHash'' ''eth_getBlockByHash'' [block_hash, PBool False]
             ''Unexpected error: block not found '') (\<lambda>blockJson.
         pbind (plift (hex_field ''baseFeePerGas'' blockJson)) (\<lambda>baseFeePerGas.
           let forgerTipPerGas = effectiveGasPrice - baseFeePerGas;
               totalTxFee = effectiveGasPrice * gasUsed;
               forgersPoolFee = baseFeePerGas * gasUsed;
               forgerTip = forgerTipPerGas * gasUsed
           in pret (totalTxFee, forgersPoolFee, forgerTip))))))))"

section \<open>The JavaScript tools\<close>

text \<open>A tool is run in a directory, which precedes the command in the list of actions.\<close>

definition get_cwd :: "'w env \<Rightarrow> string res" where
  "get_cwd E = (case e_getenv E ''SIDECHAIN_SDK'' of
      None \<Rightarrow> rerr TypeError ''unsupported operand'' []
    | Some d \<Rightarrow> Inr (d @ ''/qa/SidechainTestFramework/account/smart_contract_resources''))"

definition run_in_cwd :: "'w env \<Rightarrow> string list \<Rightarrow> ('w, int \<times> string \<times> string) prog" where
  "run_in_cwd E cmd = pbind (plift (get_cwd E)) (\<lambda>cwd. py_run E (cwd # cmd))"

definition check_run_in_cwd :: "'w env \<Rightarrow> string list \<Rightarrow> ('w, unit) prog" where
  "check_run_in_cwd E cmd = pbind (run_in_cwd E cmd) (\<lambda>r.
     if fst r = 0 then pret () else praise CalledProcessError ''non-zero exit status'' [PInt (fst r)])"

definition install_npm_packages :: "'w env \<Rightarrow> ('w, unit) prog" where
  "install_npm_packages E = pbind (pget nodeModulesInstalled) (\<lambda>installed.
     if installed then pret ()
     else pseq (check_run_in_cwd E [''yarn'', ''install'', ''--quiet'', ''--non-interactive'', ''--frozen-lockfile''])
       (pmodify (\<lambda>s. s\<lparr>nodeModulesInstalled := True\<rparr>)))"

definition compile_smart_contracts :: "'w env \<Rightarrow> ('w, unit) prog" where
  "compile_smart_contracts E = pbind (pget sigHashesGenerated) (\<lambda>generated.
     if generated then pret ()
     else pseq (check_run_in_cwd E [''npx'', ''hardhat'', ''compile''])
       (pseq (check_run_in_cwd E [''npx'', ''hardhat'', ''sighashes''])
         (pmodify (\<lambda>s. s\<lparr>sigHashesGenerated := True\<rparr>))))"

definition prepare_resources :: "'w env \<Rightarrow> ('w, unit) prog" where
  "prepare_resources E = pseq (install_npm_packages E) (compile_smart_contracts E)"

text \<open>Raw transactions: the second word of the tool's output.\<close>

definition raw_tx_output :: "'w env \<Rightarrow> string list \<Rightarrow> ('w, string) prog" where
  "raw_tx_output E cmd = pbind (run_in_cwd E cmd) (\<lambda>(returncode, out, errors).
     if returncode \<noteq> 0 then praise RuntimeError (''Something went wrong: '' @ errors) []
     else pbind (plift (list_get (py_split (CHR '' '') out) 1)) (\<lambda>word.
       pret (dropWhile is_blank (rev (dropWhile is_blank (rev word))))))"

definition legacy :: "'w env \<Rightarrow> string \<Rightarrow> int option \<Rightarrow> int \<Rightarrow> int \<Rightarrow> int \<Rightarrow> string option \<Rightarrow> ('w, string) prog" where
  "legacy E to value gas_limit gas_price nonce data =
     pseq (install_npm_packages E) (raw_tx_output E ([''npx'', ''hardhat'', ''legacytx'', ''--to'', to]
       @ [''--value'', case value of Some v \<Rightarrow> str_int v | None \<Rightarrow> ''0x0'']
       @ [''--gas-limit'', str_int gas_limit, ''--gas-price'', str_int gas_price, ''--nonce'', str_int nonce]
       @ [''--data'', case data of Some d \<Rightarrow> d | None \<Rightarrow> ''0x'']))"

definition eip1559 :: "'w env \<Rightarrow> string \<Rightarrow> int option \<Rightarrow> int \<Rightarrow> int \<Rightarrow> int \<Rightarrow> int \<Rightarrow> int \<Rightarrow> string option \<Rightarrow> ('w, string) prog" where
  "eip1559 E to value gas_limit max_fee_per_gas max_priority_fee_per_gas chain_id nonce data =
     pseq (install_npm_packages E) (raw_tx_output E ([''npx'', ''hardhat'', ''eip1559tx'', ''--to'', to]
       @ [''--value'', case value of Some v \<Rightarrow> str_int v | None \<Rightarrow> ''0x0'']
       @ [''--gas-limit'', str_int gas_limit, ''--max-fee-per-gas'', str_int max_fee_per_gas,
          ''--max-priority-fee-per-gas'', str_int max_priority_fee_per_gas, ''--nonce'', str_int nonce,
          ''--chain-id'', str_int chain_id]
       @ [''--data'', case data of Some d \<Rightarrow> d | None \<Rightarrow> ''0x'']))"

section \<open>Addresses, nonces, payloads\<close>

definition mk_contract_address :: "eth_lib \<Rightarrow> string \<Rightarrow> int \<Rightarrow> string res" where
  "mk_contract_address L sender nonce =
     rbind (hexstr_to_bytes L sender) (\<lambda>sender_bytes.
     rbind (rlp_encode L sender_bytes nonce) (\<lambda>raw.
       checksum_of_bytes L (drop 12 (keccak L raw))))"

text \<open>\<^verbatim>\<open>int((sigV - 35) / 2)\<close>: a true division, truncated.\<close>

definition getChainIdFromSignatureV :: "int \<Rightarrow> int" where
  "getChainIdFromSignatureV sigV = rat_trunc (of_int (sigV - 35) / 2)"

definition format_evm :: "eth_lib \<Rightarrow> string \<Rightarrow> string res" where
  "format_evm L add = to_checksum_address L add"

definition format_eoa :: "string \<Rightarrow> string" where
  "format_eoa add = (if is_prefix ''0x'' add then py_lower (drop 2 add) else py_lower add)"

definition ensure_nonce :: "'w env \<Rightarrow> eth_lib \<Rightarrow> sc_node \<Rightarrow> string \<Rightarrow> int option \<Rightarrow> pyval \<Rightarrow> ('w, int) prog" where
  "ensure_nonce E L node address nonce tag = (case nonce of
      Some n \<Rightarrow> pret n
    | None \<Rightarrow> pbind (plift (format_evm L address)) (\<lambda>a.
        pbind (sc_call E node ''rpc_eth_getTransactionCount'' [PStr a, tag]) (\<lambda>r.
          plift (rbind (py_get r ''result'') py_int16))))"

definition ensure_chain_id :: "'w env \<Rightarrow> sc_node \<Rightarrow> ('w, pyval) prog" where
  "ensure_chain_id E node = pbind (sc_call E node ''rpc_eth_chainId'' []) (\<lambda>r. plift (py_get r ''result''))"

datatype CallMethod = RPC_LEGACY | RPC_EIP155 | RPC_EIP1559

definition make_static_call_payload :: "eth_lib \<Rightarrow> string \<Rightarrow> string \<Rightarrow> int \<Rightarrow> int \<Rightarrow> int \<Rightarrow> int \<Rightarrow> string \<Rightarrow> pyval res" where
  "make_static_call_payload L from_addr to_addr nonce gas_limit gas_price value data =
     rbind (format_evm L from_addr) (\<lambda>f. rbind (format_evm L to_addr) (\<lambda>t.
       Inr (PDict [(''from'', PStr f), (''to'', PStr t), (''nonce'', PInt nonce), (''gasLimit'', PInt gas_limit),
         (''gasPrice'', PInt gas_price), (''value'', PInt value), (''data'', PStr data)])))"

definition with_to_and_input :: "(string \<times> pyval) list \<Rightarrow> string option \<Rightarrow> string option \<Rightarrow> pyval" where
  "with_to_and_input r to data =
     (let r = (case to of None \<Rightarrow> r | Some t \<Rightarrow> dict_put ''to'' (PStr t) r)
      in PDict (case data of None \<Rightarrow> r | Some d \<Rightarrow> dict_put ''input'' (PStr d) r))"

definition make_legacy_sign_payload :: "string \<Rightarrow> string option \<Rightarrow> int \<Rightarrow> int \<Rightarrow> int \<Rightarrow> string option \<Rightarrow> int \<Rightarrow> pyval" where
  "make_legacy_sign_payload from_addr to nonce gas value data gas_price = with_to_and_input
     [(''type'', PInt 0), (''nonce'', PInt nonce), (''gas'', PInt gas), (''value'', PInt value), (''from'', PStr from_addr),
      (''gasPrice'', PInt gas_price)] to data"

definition make_eip155_sign_payload :: "string \<Rightarrow> string option \<Rightarrow> int \<Rightarrow> int \<Rightarrow> int \<Rightarrow> string option \<Rightarrow> int \<Rightarrow> pyval \<Rightarrow> pyval" where
  "make_eip155_sign_payload from_addr to nonce gas value data gas_price chain_id = with_to_and_input
     [(''type'', PInt 0), (''nonce'', PInt nonce), (''gas'', PInt gas), (''value'', PInt value), (''from'', PStr from_addr),
      (''gasPrice'', PInt gas_price), (''chainId'', chain_id)] to data"

definition make_eip1559_sign_payload ::
  "string \<Rightarrow> string option \<Rightarrow> int \<Rightarrow> int \<Rightarrow> int \<Rightarrow> string option \<Rightarrow> int \<Rightarrow> int \<Rightarrow> pyval \<Rightarrow> pyval" where
  "make_eip1559_sign_payload from_addr to nonce gas value data max_priority_fee_per_gas max_fee_per_gas chain_id = with_to_and_input
     [(''type'', PInt 2), (''nonce'', PInt nonce), (''gas'', PInt gas), (''value'', PInt value), (''from'', PStr from_addr),
      (''maxPriorityFeePerGas'', PInt max_priority_fee_per_gas), (''maxFeePerGas'', PInt max_fee_per_gas), (''chainId'', chain_id)] to data"

section \<open>Transactions\<close>

text \<open>Sign a payload and send the raw transaction; anything without a result is an error.\<close>

definition sign_and_send_raw :: "'w env \<Rightarrow> sc_node \<Rightarrow> pyval \<Rightarrow> ('w, pyval) prog" where
  "sign_and_send_raw E node payload =
     pbind (sc_call E node ''rpc_eth_signTransaction'' [payload]) (\<lambda>response.
     pbind (plift (py_in ''result'' response)) (\<lambda>signed.
       if \<not> signed then praise RuntimeError (''Something went wrong, see '' @ py_str response) []
       else pbind (plift (py_get response ''result'')) (\<lambda>raw.
         pbind (sc_call E node ''rpc_eth_sendRawTransaction'' [raw]) (\<lambda>response.
         pbind (plift (py_in ''result'' response)) (\<lambda>sent.
           if sent then plift (py_get response ''result'')
           else praise RuntimeError (''Something went wrong, see '' @ py_str response) [])))))"

text \<open>\<^verbatim>\<open>response['result'] is not None and len(response['result']) > 0\<close>\<close>

definition has_data :: "pyval \<Rightarrow> bool res" where
  "has_data r = (if r = PNone then Inr False else rbind (py_len r) (\<lambda>n. Inr (n > 0)))"

definition static_call_result :: "pyval \<Rightarrow> ('w, pyval) prog" where
  "static_call_result response = pbind (plift (py_in ''result'' response)) (\<lambda>ok.
     if ok then pbind (plift (py_get response ''result'')) (\<lambda>r. pbind (plift (has_data r)) (\<lambda>b. pret (if b then r else PNone)))
     else praise RuntimeError ''No result in static call, thus error'' [])"

definition eoa_payload :: "CallMethod \<Rightarrow> string \<Rightarrow> string \<Rightarrow> int \<Rightarrow> int \<Rightarrow> string \<Rightarrow> int \<Rightarrow> int \<Rightarrow> int \<Rightarrow> int \<Rightarrow> pyval \<Rightarrow> pyval" where
  "eoa_payload call_method from_addr to_addr gas value data gas_price max_priority_fee_per_gas max_fee_per_gas nonce chain_id =
     (case call_method of
        RPC_LEGACY \<Rightarrow> make_legacy_sign_payload from_addr (Some to_addr) nonce gas value (Some data) gas_price
      | RPC_EIP155 \<Rightarrow> make_eip155_sign_payload from_addr (Some to_addr) nonce gas value (Some data) gas_price chain_id
      | RPC_EIP1559 \<Rightarrow> make_eip1559_sign_payload from_addr (Some to_addr) nonce gas value (Some data)
          max_priority_fee_per_gas max_fee_per_gas chain_id)"

definition eoa_transaction ::
  "'w env \<Rightarrow> eth_lib \<Rightarrow> sc_node \<Rightarrow> CallMethod \<Rightarrow> bool \<Rightarrow> string \<Rightarrow> string \<Rightarrow> int \<Rightarrow> int \<Rightarrow> int \<Rightarrow> int \<Rightarrow> int \<Rightarrow> string \<Rightarrow> int option \<Rightarrow> pyval
    \<Rightarrow> ('w, pyval) prog" where
  "eoa_transaction E L node call_method static_call from_addr to_addr value gas gas_price max_priority_fee_per_gas
      max_fee_per_gas data nonce tag =
     pbind (ensure_nonce E L node from_addr nonce tag) (\<lambda>nonce.
     pbind (ensure_chain_id E node) (\<lambda>chain_id.
     pbind (plift (format_evm L from_addr)) (\<lambda>from_addr.
     pbind (plift (format_evm L to_addr)) (\<lambda>to_addr.
       if static_call then
         pbind (plift (make_static_call_payload L from_addr to_addr nonce gas gas_price value data)) (\<lambda>payload.
           pbind (sc_call E node ''rpc_eth_call'' [payload, tag]) static_call_result)
       else sign_and_send_raw E node (eoa_payload call_method from_addr to_addr gas value data gas_price max_priority_fee_per_gas
         max_fee_per_gas nonce chain_id)))))"

text \<open>A static transfer uses the given block tag, a real one the default.\<close>

definition eoa_transfer :: "'w env \<Rightarrow> eth_lib \<Rightarrow> sc_node \<Rightarrow> string \<Rightarrow> string \<Rightarrow> int \<Rightarrow> CallMethod \<Rightarrow> bool \<Rightarrow> pyval \<Rightarrow> ('w, pyval) prog" where
  "eoa_transfer E L node sender receiver amount call_method static_call tag =
     eoa_transaction E L node (if static_call then RPC_LEGACY else call_method) static_call sender receiver amount 21000 875000000 1 875000000 ''0x'' None
       (if static_call then tag else PStr ''latest'')"

definition generate_block_and_get_tx_receipt :: "'w env \<Rightarrow> sc_node \<Rightarrow> pyval \<Rightarrow> bool \<Rightarrow> ('w, pyval) prog" where
  "generate_block_and_get_tx_receipt E node tx_hash return_status =
     pseq (generate_next_block E node ''first node'' False PNone) (
     pbind (sc_call E node ''rpc_eth_getTransactionReceipt'' [tx_hash]) (\<lambda>tx_receipt.
       if return_status then pbind (plift (rbind (py_path tx_receipt [''result'', ''status'']) py_int0)) (\<lambda>n. pret (PInt n))
       else pret tx_receipt))"

definition random_byte_string :: "'w env \<Rightarrow> int \<Rightarrow> ('w, string) prog" where
  "random_byte_string E len = pbind (pmap (\<lambda>i. pext (\<lambda>w. case e_randint E 0 255 w of (n, w') \<Rightarrow> (Inr (nat n), w'))) (py_range len))
     (\<lambda>bs. pret (''0x'' @ hexlify bs))"

definition estimate_gas :: "'w env \<Rightarrow> sc_node \<Rightarrow> pyval \<Rightarrow> pyval \<Rightarrow> string \<Rightarrow> pyval \<Rightarrow> pyval \<Rightarrow> pyval \<Rightarrow> ('w, pyval) prog" where
  "estimate_gas E node from_address to_address data value gasPrice nonce =
     sc_call E node ''rpc_eth_estimateGas'' [PDict [(''from'', from_address), (''to'', to_address), (''data'', PStr data),
       (''value'', value), (''gasPrice'', gasPrice), (''nonce'', nonce)]]"

definition rpc_get_balance :: "'w env \<Rightarrow> eth_lib \<Rightarrow> sc_node \<Rightarrow> string \<Rightarrow> ('w, int) prog" where
  "rpc_get_balance E L sc_node address = pbind (plift (format_evm L address)) (\<lambda>a.
     pbind (sc_call E sc_node ''rpc_eth_getBalance'' [PStr a, PStr ''latest'']) (\<lambda>r. plift (rbind (py_get r ''result'') py_int16)))"

section \<open>Forger stakes and proxy calls\<close>

definition post_json :: "'w env \<Rightarrow> sc_node \<Rightarrow> string \<Rightarrow> pyval \<Rightarrow> ('w, pyval) prog" where
  "post_json E sc_node service j = pbind (plift (json_dumps j)) (\<lambda>t. sc_call E sc_node service [PStr t])"

definition ac_makeForgerStake :: "'w env \<Rightarrow> sc_node \<Rightarrow> pyval \<Rightarrow> pyval \<Rightarrow> pyval \<Rightarrow> pyval \<Rightarrow> pyval \<Rightarrow> ('w, pyval) prog" where
  "ac_makeForgerStake E sc_node owner_address blockSignPubKey vrf_public_key amount nonce =
     post_json E sc_node ''transaction_makeForgerStake'' (PDict [(''forgerStakeInfo'', PDict
       [(''ownerAddress'', owner_address), (''blockSignPublicKey'', blockSignPubKey), (''vrfPubKey'', vrf_public_key), (''value'', amount)]),
       (''nonce'', nonce)])"

definition ac_registerForger :: "'w env \<Rightarrow> sc_node \<Rightarrow> pyval \<Rightarrow> pyval \<Rightarrow> pyval \<Rightarrow> pyval \<Rightarrow> pyval \<Rightarrow> pyval \<Rightarrow> ('w, pyval) prog" where
  "ac_registerForger E sc_node block_sign_pub_key vrf_public_key staked_amount reward_address reward_share nonce =
     post_json E sc_node ''transaction_registerForger'' (PDict
       [(''blockSignPubKey'', block_sign_pub_key), (''vrfPubKey'', vrf_public_key), (''stakedAmount'', staked_amount),
        (''rewardShare'', reward_share), (''rewardAddress'', reward_address), (''nonce'', nonce)])"

definition ac_updateForger :: "'w env \<Rightarrow> sc_node \<Rightarrow> pyval \<Rightarrow> pyval \<Rightarrow> pyval \<Rightarrow> pyval \<Rightarrow> pyval \<Rightarrow> ('w, pyval) prog" where
  "ac_updateForger E sc_node block_sign_pub_key vrf_public_key reward_address reward_share nonce =
     post_json E sc_node ''transaction_updateForger'' (PDict
       [(''blockSignPubKey'', block_sign_pub_key), (''vrfPubKey'', vrf_public_key), (''rewardShare'', reward_share),
        (''rewardAddress'', reward_address), (''nonce'', nonce)])"

definition ac_pagedForgersStakesByForger :: "'w env \<Rightarrow> sc_node \<Rightarrow> pyval \<Rightarrow> pyval \<Rightarrow> int \<Rightarrow> int \<Rightarrow> ('w, pyval) prog" where
  "ac_pagedForgersStakesByForger E sc_node block_sign_pub_key vrf_public_key start_pos count =
     post_json E sc_node ''transaction_pagedForgersStakesByForger'' (PDict
       [(''blockSignPubKey'', block_sign_pub_key), (''vrfPubKey'', vrf_public_key), (''startPos'', PInt start_pos), (''size'', PInt count)])"

definition ac_pagedForgersStakesByDelegator :: "'w env \<Rightarrow> sc_node \<Rightarrow> pyval \<Rightarrow> int \<Rightarrow> int \<Rightarrow> ('w, pyval) prog" where
  "ac_pagedForgersStakesByDelegator E sc_node delegator_address start_pos count =
     post_json E sc_node ''transaction_pagedForgersStakesByDelegator'' (PDict
       [(''delegatorAddress'', delegator_address), (''startPos'', PInt start_pos), (''size'', PInt count)])"

definition ac_invokeProxy :: "'w env \<Rightarrow> sc_node \<Rightarrow> pyval \<Rightarrow> pyval \<Rightarrow> pyval \<Rightarrow> bool \<Rightarrow> ('w, pyval) prog" where
  "ac_invokeProxy E sc_node contract_address data nonce static =
     post_json E sc_node (if static then ''transaction_invokeProxyStaticCall'' else ''transaction_invokeProxyCall'')
       (PDict [(''invokeInfo'', PDict [(''contractAddress'', contract_address), (''dataStr'', data)]), (''nonce'', nonce)])"

section \<open>Properties\<close>

text \<open>A number closer than a half to an integer is rounded to it.\<close>

lemma py_round_close: "py_round q = k" if "\<bar>q - of_int k\<bar> < 1 / 2"
proof -
  have "\<bar>of_int (py_round q) - of_int k :: rat\<bar> < 1"
    using that py_round_near [of q] by linarith
  then show ?thesis by linarith
qed

lemma zennies_of_float:
  assumes "0 \<le> k" "k < 2 ^ 51"
  shows "convertZenToZennies (NFlt (fl (of_int k / of_int COIN))) = k"
proof -
  let ?C = "of_int COIN :: rat" and ?k = "of_int k :: rat"
  define y where "y = fl (?k / ?C)"
  have C: "0 < ?C" by (simp add: COIN_def)
  have "of_int (k + 1) \<le> (of_int (2 ^ 51) :: rat)" using assms by (simp only: of_int_le_iff)
  then have k: "0 \<le> ?k" "?k + 1 \<le> 2 ^ 51" using assms by simp_all
  have "\<bar>y * ?C - ?k\<bar> = \<bar>y - ?k / ?C\<bar> * ?C" using C by (simp add: abs_mult_pos left_diff_distrib)
  also have "\<dots> \<le> (\<bar>?k / ?C\<bar> / 9007199254740992) * ?C" using C fl_bound [of "?k / ?C"] by (intro mult_right_mono) (simp_all add: y_def)
  also have "\<dots> = ?k / 9007199254740992" using C k by simp
  finally have "\<bar>fl (y * ?C) - ?k\<bar> < 1 / 2" by (rule two_errors [OF _ fl_bound]) (use k in simp_all)
  then show ?thesis by (simp add: y_def py_round_close)
qed

text \<open>C27. Whole amounts of zennies below \<open>2 ^ 51\<close>, which is more than all coins that can exist, survive the conversion
  from a float in Zen to zennies and wei and back, although the float is not exact; zero comes back as
  the integer. An amount in whole Zen is exact without a limit, and a decimal is converted to the nearest number of
  zennies.\<close>
theorem zen_wei_conversion:
  assumes "0 \<le> k" and "k < 2 ^ 51"
  shows "(let zen = convertZenniesToZen k
    in convertZenToZennies (NFlt zen) = k \<and> convertZenToWei (NFlt zen) = k * 10 ^ 10 \<and>
       convertWeiToZen (convertZenToWei (NFlt zen)) = (if k = 0 then NInt 0 else NFlt zen)) \<and>
    convertZenToWei (NInt z) = z * 10 ^ 18 \<and> \<bar>of_int (convertZenToZennies (NDec d)) - d * of_int COIN\<bar> \<le> 1 / 2"
proof -
  let ?C = "of_int COIN :: rat"
  have zennies: "convertZenToZennies (NFlt (convertZenniesToZen k)) = k"
    using zennies_of_float [OF assms] by (simp add: convertZenniesToZen_def)
  then have wei: "convertZenToWei (NFlt (convertZenniesToZen k)) = k * 10 ^ 10"
    by (simp add: convertZenToWei_def convertZenniesToWei_def ZENNY_TO_WEI_MULTIPLIER_def)
  have "fl (of_int (k * 10 ^ 10) / of_int ZENNY_TO_WEI_MULTIPLIER) = of_int k"
    using assms fl_int [of k] by (simp add: ZENNY_TO_WEI_MULTIPLIER_def)
  then have come_back: "convertWeiToZen (k * 10 ^ 10) =
      (if convertZenniesToZen k < fl (1 / ?C) then NInt 0 else NFlt (convertZenniesToZen k))"
    by (simp add: convertWeiToZen_def convertZenniesToZen_def Let_def)
  have "0 < fl (1 / ?C)" by (rule fl_pos) (simp add: COIN_def)
  moreover have "fl (1 / ?C) \<le> convertZenniesToZen k" if "2 \<le> k"
  proof -
    have "2 \<le> (of_int k :: rat)" using that by simp
    then have "2 * (1 / ?C) \<le> of_int k / ?C" unfolding COIN_def by simp
    then show ?thesis unfolding convertZenniesToZen_def by (intro fl_doubled) (simp_all add: COIN_def)
  qed
  moreover have "k = 0 \<or> k = 1 \<or> 2 \<le> k" using assms(1) by linarith
  ultimately have "convertWeiToZen (k * 10 ^ 10) = (if k = 0 then NInt 0 else NFlt (convertZenniesToZen k))"
    unfolding come_back by (auto simp: convertZenniesToZen_def)
  moreover have "convertZenToWei (NInt z) = z * 10 ^ 18"
    by (simp add: convertZenToWei_def convertZenniesToWei_def ZENNY_TO_WEI_MULTIPLIER_def COIN_def)
  ultimately show ?thesis
    using zennies wei py_round_near [of "d * ?C"] by (simp del: convertZenToZennies.simps(1,2))
qed

theorem zen_wei_conversion_witness:
  "convertZenToWei (NFlt (convertZenniesToZen 2200001)) = 22000010000000000"
  using zen_wei_conversion [of 2200001 0 0] by (simp add: Let_def)

end
