(* ===== verification/Smart_Contract.thy ===== *)
theory Smart_Contract
  imports Account_Utils Json
begin

text \<open>
  Smart contracts of the account model: the class \<^verbatim>\<open>SmartContract\<close> with its functions
  (\<^verbatim>\<open>account/ac_use_smart_contract.py\<close>), the functions of \<^verbatim>\<open>account/ac_utils.py\<close> that use it, and the proxy
  contract of the tests (\<^verbatim>\<open>account/simple_proxy_contract.py\<close>).

  A contract is read from the metadata the compiler leaves under \<^verbatim>\<open>artifacts/contracts\<close>. \<open>walk\<close> is the
  listing of that directory as \<^verbatim>\<open>os.walk\<close> gives it, directory by directory. Type names and function
  names in the metadata are strings. The encoding of arguments is the parameter \<open>abi_encode\<close>.
\<close>

section \<open>Functions of a contract\<close>

record contract_function =
  cf_name :: string
  cf_inputs :: "string list"
  cf_outputs :: "string list"
  cf_sigHash :: pyval
  cf_isConstructor :: bool

definition cf_encode :: "eth_lib \<Rightarrow> contract_function \<Rightarrow> pyval list \<Rightarrow> pyval res" where
  "cf_encode L self inputs =
     (if \<not> cf_isConstructor self
      then rbind (abi_encode L (cf_inputs self) inputs) (\<lambda>b. py_concat (cf_sigHash self) (PStr (hexlify b)))
      else rbind (abi_encode L (cf_inputs self) inputs) (\<lambda>b. Inr (PStr (hexlify b))))"

definition cf_decode :: "eth_lib \<Rightarrow> contract_function \<Rightarrow> nat list \<Rightarrow> pyval res" where
  "cf_decode L self output = rbind (abi_decode L (cf_outputs self) output) (\<lambda>vs. Inr (PTuple vs))"

definition cf_str :: "contract_function \<Rightarrow> string" where
  "cf_str self = py_str (cf_sigHash self) @ '' :: '' @ cf_name self @ ''('' @ py_join '','' (cf_inputs self) @ '') -> (''
     @ py_join '','' (cf_outputs self) @ '')''"

section \<open>Reading a contract\<close>

record smart_contract =
  sm_Name :: pyval
  sm_Source :: pyval
  sm_Abi :: pyval
  sm_Bytecode :: pyval
  sm_Sighashes :: pyval
  sm_Functions :: "(string \<times> contract_function) list"

lemma rbind_cong [fundef_cong]:
  assumes "r = r'" and "\<And>x. r' = Inr x \<Longrightarrow> f x = g x"
  shows "rbind r f = rbind r' g"
  using assms by (cases r') simp_all

lemma size_py_get: "py_get v k = Inr w \<Longrightarrow> size w < size v"
proof (induction v k rule: py_get.induct)
  case (1 d k)
  then have "(k, w) \<in> set d" by (auto simp: rerr_def dest: map_of_SomeD split: option.splits)
  then have "size w \<le> size_list (size_prod (\<lambda>x. 0) size) d" by (rule size_list_estimation') simp
  then show ?case by simp
qed (simp_all add: rerr_def)

lemma size_py_items: "py_items v = Inr vs \<Longrightarrow> x \<in> set vs \<Longrightarrow> size x \<le> size v"
proof (induction v rule: py_items.induct)
  case (1 ws)
  then have "size x \<le> size_list size ws" by (auto intro: size_list_estimation')
  then show ?case by simp
next
  case (2 ws)
  then have "size x \<le> size_list size ws" by (auto intro: size_list_estimation')
  then show ?case by simp
qed (auto simp: rerr_def)

text \<open>The name of a type: that of a tuple lists the names of its components.\<close>

function get_input_type :: "pyval \<Rightarrow> string res" where
  "get_input_type inp = rbind (py_get inp ''type'') (\<lambda>t.
     if py_eq t (PStr ''tuple'') then
       rbind (py_get inp ''components'') (\<lambda>components. rbind (py_items components) (\<lambda>comps.
         rbind (rmap get_input_type comps) (\<lambda>type. Inr (''('' @ py_join '','' type @ '')''))))
     else as_str t)"
  by pat_completeness auto
termination
proof (relation "measure size", goal_cases)
  case (2 inp t components comps c)
  then show ?case using size_py_get [of inp "''components''" components] size_py_items [of components comps c] by simp
qed simp

declare get_input_type.simps [simp del]

definition get_input_def :: "pyval \<Rightarrow> pyval res" where
  "get_input_def inp = rbind (py_get inp ''type'') (\<lambda>t.
     if py_eq t (PStr ''tuple'') then
       rbind (py_get inp ''components'') (\<lambda>components. rbind (py_items components) (\<lambda>comps.
         rbind (rmap (\<lambda>comp. rbind (get_input_type comp) (\<lambda>type.
             rbind (py_get comp ''name'') (\<lambda>name. rbind (as_str name) (\<lambda>name. Inr (name, PStr type))))) comps) (\<lambda>entries.
           Inr (PDict (foldl (\<lambda>d (name, type). dict_put name type d) [] entries)))))
     else py_get inp ''type'')"

definition split_path :: "string \<Rightarrow> string" where
  "split_path contr = last (py_split (CHR 0x5C) (last (py_split (CHR ''/'') (remove_suffix contr ''.sol''))))"

text \<open>The path of the metadata: exactly one file has the name of the contract.\<close>

definition is_contract_data :: "string \<Rightarrow> string \<Rightarrow> bool" where
  "is_contract_data contr file_name \<longleftrightarrow>
     ends_with file_name ''.json'' \<and> \<not> ends_with file_name ''.dbg.json'' \<and> remove_suffix file_name ''.json'' = contr"

definition find_contract_data_path :: "'w env \<Rightarrow> (string \<Rightarrow> (string \<times> string list) list) \<Rightarrow> string \<Rightarrow> string res" where
  "find_contract_data_path E walk contr =
     rbind (get_cwd E) (\<lambda>cwd.
       let sol_files = concat (map (\<lambda>(dir, names). map (path_join dir) (filter (is_contract_data contr) names))
             (walk (cwd @ ''/artifacts/contracts'')))
       in if length sol_files < 1 then
            rerr RuntimeError ''Contract not found - check if a contract (not solidity file) with the name exists'' [PStr contr]
          else if length sol_files > 1 then
            rerr RuntimeError ''Contract name is not unique, please change the names of the contracts so they are unique'' []
          else Inr (sol_files ! 0))"

definition load_contract :: "'w env \<Rightarrow> string \<Rightarrow> ('w, smart_contract) prog" where
  "load_contract E json_file = pbind (pext (e_read E json_file)) (\<lambda>content.
     plift (rbind (json_loads content) (\<lambda>metadata.
       rbind (py_get metadata ''contractName'') (\<lambda>name.
       rbind (py_get metadata ''sourceName'') (\<lambda>source.
       rbind (py_get metadata ''abi'') (\<lambda>abi.
       rbind (py_get metadata ''bytecode'') (\<lambda>bytecode.
       rbind (py_get metadata ''sighashes'') (\<lambda>sig_hashes.
         Inr \<lparr>sm_Name = name, sm_Source = source, sm_Abi = abi, sm_Bytecode = bytecode, sm_Sighashes = sig_hashes,
              sm_Functions = []\<rparr>))))))))"

definition types_of :: "pyval \<Rightarrow> string \<Rightarrow> string list res" where
  "types_of obj key = rbind (rbind (py_get obj key) py_items) (rmap get_input_type)"

text \<open>One entry of the ABI: a function is stored under its signature, the constructor under its name,
  events and errors are skipped.\<close>

definition add_abi_entry :: "pyval \<Rightarrow> (string \<times> contract_function) list \<Rightarrow> pyval \<Rightarrow> (string \<times> contract_function) list res" where
  "add_abi_entry sighashes functions obj =
     rbind (py_get obj ''type'') (\<lambda>kind.
       if py_eq kind (PStr ''function'') then
         rbind (types_of obj ''inputs'') (\<lambda>input_types.
         rbind (types_of obj ''outputs'') (\<lambda>output_types.
         rbind (rbind (py_get obj ''name'') as_str) (\<lambda>name.
           let input_tuple = ''('' @ py_join '','' input_types @ '')''
           in rbind (py_get sighashes (name @ input_tuple)) (\<lambda>sig_hash.
              Inr (dict_put (name @ input_tuple) \<lparr>cf_name = name, cf_inputs = input_types, cf_outputs = output_types,
                cf_sigHash = sig_hash, cf_isConstructor = False\<rparr> functions)))))
       else if py_eq kind (PStr ''constructor'') then
         rbind (types_of obj ''inputs'') (\<lambda>input_types.
           Inr (dict_put ''constructor'' \<lparr>cf_name = ''constructor'', cf_inputs = input_types, cf_outputs = [],
             cf_sigHash = PStr [], cf_isConstructor = True\<rparr> functions))
       else Inr functions)"

fun read_abi :: "pyval \<Rightarrow> (string \<times> contract_function) list \<Rightarrow> pyval list \<Rightarrow> (string \<times> contract_function) list res" where
  "read_abi sighashes functions [] = Inr functions"
| "read_abi sighashes functions (obj # objs) =
     rbind (add_abi_entry sighashes functions obj) (\<lambda>functions. read_abi sighashes functions objs)"

definition SmartContract :: "'w env \<Rightarrow> (string \<Rightarrow> (string \<times> string list) list) \<Rightarrow> string \<Rightarrow> ('w, smart_contract) prog" where
  "SmartContract E walk contract_path =
     pseq (prepare_resources E) (
     pbind (plift (find_contract_data_path E walk (split_path (remove_suffix contract_path ''.sol'')))) (\<lambda>json_file.
     pbind (load_contract E json_file) (\<lambda>self.
     pbind (plift (rbind (py_items (sm_Abi self)) (read_abi (sm_Sighashes self) []))) (\<lambda>functions.
       pret (self\<lparr>sm_Functions := functions\<rparr>)))))"

definition contract_str :: "smart_contract \<Rightarrow> string res" where
  "contract_str self =
     (if sm_Functions self = [] then as_str (sm_Name self)
      else rbind (as_str (sm_Name self)) (\<lambda>name. Inr (name @ '':'' @ [CHR 0x0A, CHR 0x09]
        @ py_join [CHR 0x0A, CHR 0x09] (map (cf_str \<circ> snd) (sm_Functions self)))))"

section \<open>Encoding and payloads\<close>

definition get_function :: "smart_contract \<Rightarrow> string \<Rightarrow> contract_function res" where
  "get_function self function_name = (case map_of (sm_Functions self) function_name of
      None \<Rightarrow> rerr RuntimeError ''Function {} does not exist on contract {}'' [PStr function_name, sm_Name self]
    | Some f \<Rightarrow> Inr f)"

definition raw_encode_call :: "eth_lib \<Rightarrow> smart_contract \<Rightarrow> string \<Rightarrow> pyval list \<Rightarrow> pyval res" where
  "raw_encode_call L self function_name args = rbind (get_function self function_name) (\<lambda>f. cf_encode L f args)"

definition raw_decode_call_result :: "eth_lib \<Rightarrow> smart_contract \<Rightarrow> string \<Rightarrow> nat list \<Rightarrow> pyval res" where
  "raw_decode_call_result L self function_name data = rbind (get_function self function_name) (\<lambda>f. cf_decode L f data)"

text \<open>The optional recipient comes last in every payload of this class.\<close>

definition with_to :: "eth_lib \<Rightarrow> string option \<Rightarrow> (string \<times> pyval) list \<Rightarrow> pyval res" where
  "with_to L to r = (case to of None \<Rightarrow> Inr (PDict r)
     | Some t \<Rightarrow> rbind (format_evm L t) (\<lambda>t. Inr (PDict (dict_put ''to'' (PStr t) r))))"

record tx_terms =
  gt_nonce :: int
  gt_gas :: pyval
  gt_gasPrice :: int
  gt_maxFeePerGas :: int
  gt_maxPriorityFeePerGas :: int
  gt_value :: int

definition sm_make_legacy_sign_payload :: "eth_lib \<Rightarrow> string \<Rightarrow> string option \<Rightarrow> tx_terms \<Rightarrow> pyval \<Rightarrow> pyval res" where
  "sm_make_legacy_sign_payload L from_addr to g data = rbind (format_evm L from_addr) (\<lambda>f. with_to L to
     [(''nonce'', PInt (gt_nonce g)), (''gas'', gt_gas g), (''value'', PInt (gt_value g)), (''input'', data), (''from'', PStr f),
      (''gasPrice'', PInt (gt_gasPrice g))])"

definition sm_make_eip155_sign_payload :: "eth_lib \<Rightarrow> string \<Rightarrow> string option \<Rightarrow> tx_terms \<Rightarrow> pyval \<Rightarrow> pyval \<Rightarrow> pyval res" where
  "sm_make_eip155_sign_payload L from_addr to g data chain_id = rbind (format_evm L from_addr) (\<lambda>f. with_to L to
     [(''nonce'', PInt (gt_nonce g)), (''gas'', gt_gas g), (''value'', PInt (gt_value g)), (''input'', data), (''from'', PStr f),
      (''gasPrice'', PInt (gt_gasPrice g)), (''chainId'', chain_id)])"

definition sm_make_eip1559_sign_payload :: "eth_lib \<Rightarrow> string \<Rightarrow> string option \<Rightarrow> tx_terms \<Rightarrow> pyval \<Rightarrow> pyval \<Rightarrow> pyval res" where
  "sm_make_eip1559_sign_payload L from_addr to g data chain_id = rbind (format_evm L from_addr) (\<lambda>f. with_to L to
     [(''nonce'', PInt (gt_nonce g)), (''gas'', gt_gas g), (''value'', PInt (gt_value g)), (''input'', data), (''from'', PStr f),
      (''maxPriorityFeePerGas'', PInt (gt_maxPriorityFeePerGas g)), (''maxFeePerGas'', PInt (gt_maxFeePerGas g)), (''chainId'', chain_id)])"

definition sign_payload :: "eth_lib \<Rightarrow> CallMethod \<Rightarrow> string \<Rightarrow> string option \<Rightarrow> tx_terms \<Rightarrow> pyval \<Rightarrow> pyval \<Rightarrow> pyval res" where
  "sign_payload L call_method from_addr to g data chain_id = (case call_method of
      RPC_LEGACY \<Rightarrow> sm_make_legacy_sign_payload L from_addr to g data
    | RPC_EIP155 \<Rightarrow> sm_make_eip155_sign_payload L from_addr to g data chain_id
    | RPC_EIP1559 \<Rightarrow> sm_make_eip1559_sign_payload L from_addr to g data chain_id)"

section \<open>Transactions and calls\<close>

text \<open>The nonce of \<open>g\<close> is replaced by the one in use; \<open>nonce\<close> is the caller's, if any.\<close>

definition call_function ::
  "'w env \<Rightarrow> eth_lib \<Rightarrow> smart_contract \<Rightarrow> sc_node \<Rightarrow> string \<Rightarrow> pyval list \<Rightarrow> CallMethod \<Rightarrow> string \<Rightarrow> string \<Rightarrow> int option \<Rightarrow> tx_terms \<Rightarrow> pyval
    \<Rightarrow> ('w, pyval) prog" where
  "call_function E L self node functionName args call_method fromAddress toAddress nonce g tag =
     pbind (plift (raw_encode_call L self functionName args)) (\<lambda>data.
     pbind (ensure_nonce E L node fromAddress nonce tag) (\<lambda>nonce.
     pbind (ensure_chain_id E node) (\<lambda>chain_id.
     pbind (plift (format_evm L fromAddress)) (\<lambda>f.
     pbind (plift (format_evm L toAddress)) (\<lambda>t.
     pbind (plift (sign_payload L call_method f (Some t) (g\<lparr>gt_nonce := nonce\<rparr>) data chain_id)) (\<lambda>payload.
       sign_and_send_raw E node payload))))))"

definition starts_with :: "pyval \<Rightarrow> string \<Rightarrow> bool res" where
  "starts_with v p = (case v of PStr s \<Rightarrow> Inr (is_prefix p s) | _ \<Rightarrow> rerr AttributeError ''startswith'' [v])"

text \<open>A reverted call: the error data holds the selector of \<^verbatim>\<open>Error(string)\<close> and the encoded reason.\<close>

definition revert_error :: "eth_lib \<Rightarrow> string \<Rightarrow> pyval res" where
  "revert_error L data =
     (if length data < 68 then rerr EvmExecutionError ''Execution reverted without a reason.'' []
      else rbind (hex_str_to_bytes (drop 2 data)) (\<lambda>bs.
        rbind (abi_decode L [''string''] (drop 4 bs)) (\<lambda>vs. rbind (list_get vs 0) (\<lambda>reason.
          rerr EvmExecutionError ''Execution reverted. Reason: '' [reason]))))"

definition static_call_error :: "eth_lib \<Rightarrow> pyval \<Rightarrow> pyval res" where
  "static_call_error L response =
     rbind (rbind (py_path response [''error'', ''message'']) (\<lambda>m. starts_with m ''execution reverted'')) (\<lambda>reverted.
       if \<not> reverted then rerr RuntimeError (''Something went wrong, see '' @ py_str response) []
       else rbind (py_path response [''error'', ''data'']) (\<lambda>data. rbind (starts_with data ''0x08c379a0'') (\<lambda>has_reason.
         if has_reason then rbind (as_str data) (revert_error L)
         else rerr RuntimeError (''Something went wrong, see '' @ py_str response) [])))"

text \<open>The block tag of a request and of the nonce: a block hash is resolved to its number for the
  nonce.\<close>

definition eip1898_tags :: "'w env \<Rightarrow> sc_node \<Rightarrow> pyval \<Rightarrow> bool \<Rightarrow> bool \<Rightarrow> ('w, pyval \<times> pyval) prog" where
  "eip1898_tags E node tag eip1898 isBlockHash =
     (if eip1898 \<and> isBlockHash then
        pbind (sc_call E node ''rpc_eth_getBlockByHash'' [tag, PBool False]) (\<lambda>r.
        pbind (plift (py_path r [''result'', ''number''])) (\<lambda>number. pret (PDict [(''blockHash'', tag)], number)))
      else if eip1898 then pret (PDict [(''blockNumber'', tag)], tag)
      else pret (tag, tag))"

definition put_if :: "string \<Rightarrow> pyval option \<Rightarrow> (string \<times> pyval) list \<Rightarrow> (string \<times> pyval) list" where
  "put_if key v r = (case v of None \<Rightarrow> r | Some x \<Rightarrow> dict_put key x r)"

definition static_call ::
  "'w env \<Rightarrow> eth_lib \<Rightarrow> smart_contract \<Rightarrow> sc_node \<Rightarrow> string \<Rightarrow> pyval list \<Rightarrow> string \<Rightarrow> int option \<Rightarrow> string \<Rightarrow> pyval option \<Rightarrow> pyval option
    \<Rightarrow> int \<Rightarrow> pyval \<Rightarrow> bool \<Rightarrow> bool \<Rightarrow> ('w, pyval) prog" where
  "static_call E L self node functionName args fromAddress nonce toAddress gasLimit gasPrice value tag eip1898 isBlockHash =
     pbind (eip1898_tags E node tag eip1898 isBlockHash) (\<lambda>(rpc_tag, tag).
     pbind (plift (format_evm L fromAddress)) (\<lambda>f.
     pbind (plift (format_evm L toAddress)) (\<lambda>t.
     pbind (ensure_nonce E L node fromAddress nonce tag) (\<lambda>n.
     pbind (plift (raw_encode_call L self functionName args)) (\<lambda>data.
     let request = put_if ''gasPrice'' gasPrice (put_if ''gas'' gasLimit
           [(''from'', PStr f), (''to'', PStr t), (''nonce'', PInt n), (''value'', PInt value), (''data'', data)])
     in pbind (sc_call E node ''rpc_eth_call'' [PDict request, rpc_tag]) (\<lambda>response.
        pbind (plift (py_in ''result'' response)) (\<lambda>ok.
          if ok then pbind (plift (py_get response ''result'')) (\<lambda>r.
            pbind (plift (has_data r)) (\<lambda>b.
              if b then plift (rbind (as_str r) (\<lambda>h. rbind (hex_str_to_bytes (format_eoa h)) (raw_decode_call_result L self functionName)))
              else pret PNone))
          else plift (static_call_error L response))))))))"

text \<open>What a deployment sends: the code, followed by the arguments of the constructor if there is one.\<close>

definition constructor_data :: "eth_lib \<Rightarrow> smart_contract \<Rightarrow> pyval list \<Rightarrow> pyval res" where
  "constructor_data L self args = (case map_of (sm_Functions self) ''constructor'' of
      None \<Rightarrow> Inr (sm_Bytecode self)
    | Some f \<Rightarrow> rbind (cf_encode L f args) (\<lambda>e. py_concat (sm_Bytecode self) e))"

definition sm_estimate_gas ::
  "'w env \<Rightarrow> eth_lib \<Rightarrow> smart_contract \<Rightarrow> sc_node \<Rightarrow> string \<Rightarrow> pyval list \<Rightarrow> string \<Rightarrow> string option \<Rightarrow> pyval option \<Rightarrow> pyval option \<Rightarrow> int
    \<Rightarrow> int option \<Rightarrow> pyval \<Rightarrow> ('w, int option) prog" where
  "sm_estimate_gas E L self node functionName args fromAddress toAddress gasLimit gasPrice value nonce tag =
     pbind (plift (format_evm L fromAddress)) (\<lambda>f.
     pbind (ensure_nonce E L node fromAddress nonce tag) (\<lambda>n.
     pbind (plift (if functionName = ''constructor'' then constructor_data L self args else raw_encode_call L self functionName args)) (\<lambda>data.
     pbind (plift (case toAddress of None \<Rightarrow> Inr None | Some t \<Rightarrow> rbind (format_evm L t) (\<lambda>t. Inr (Some (PStr t))))) (\<lambda>t.
     let request = put_if ''gasPrice'' gasPrice (put_if ''gasLimit'' gasLimit (put_if ''to'' t
           [(''from'', PStr f), (''nonce'', PInt n), (''value'', PInt value), (''data'', data)]))
     in pbind (sc_call E node ''rpc_eth_estimateGas'' [PDict request]) (\<lambda>response.
        pbind (plift (py_in ''result'' response)) (\<lambda>ok.
          if ok then pbind (plift (py_get response ''result'')) (\<lambda>r.
            pbind (plift (has_data r)) (\<lambda>b.
              if b then pbind (plift (py_int16 r)) (\<lambda>i. pret (Some i)) else pret None))
          else praise EvmExecutionError (''Could not estimate gas: '' @ py_str response) []))))))"

definition deploy_data :: "eth_lib \<Rightarrow> smart_contract \<Rightarrow> pyval list \<Rightarrow> pyval res" where
  "deploy_data L self args = (case map_of (sm_Functions self) ''constructor'' of
      None \<Rightarrow> Inr (sm_Bytecode self)
    | Some f \<Rightarrow> if length args \<noteq> length (cf_inputs f)
        then rerr RuntimeError ''Constructor missing arguments: {} were provided, but {} are necessary!''
               [PInt (int (length args)), PInt (int (length (cf_inputs f)))]
        else rbind (cf_encode L f args) (\<lambda>e. py_concat (sm_Bytecode self) e))"

definition deploy ::
  "'w env \<Rightarrow> eth_lib \<Rightarrow> smart_contract \<Rightarrow> sc_node \<Rightarrow> pyval list \<Rightarrow> CallMethod \<Rightarrow> string \<Rightarrow> int option \<Rightarrow> tx_terms \<Rightarrow> pyval \<Rightarrow> ('w, pyval \<times> string) prog" where
  "deploy E L self node args call_method fromAddress nonce g tag =
     pbind (plift (format_evm L fromAddress)) (\<lambda>f.
     pbind (ensure_nonce E L node f nonce tag) (\<lambda>nonce.
     pbind (ensure_chain_id E node) (\<lambda>chain_id.
     pbind (plift (deploy_data L self args)) (\<lambda>data.
     pbind (plift (sign_payload L call_method fromAddress None (g\<lparr>gt_nonce := nonce\<rparr>) data chain_id)) (\<lambda>payload.
     pbind (sign_and_send_raw E node payload) (\<lambda>tx_hash.
     pbind (plift (rbind (format_evm L fromAddress) (\<lambda>f. rbind (mk_contract_address L f nonce) (to_checksum_address L)))) (\<lambda>address.
       pret (tx_hash, address))))))))"

definition get_balance :: "'w env \<Rightarrow> eth_lib \<Rightarrow> smart_contract \<Rightarrow> sc_node \<Rightarrow> string \<Rightarrow> string \<Rightarrow> string option \<Rightarrow> ('w, pyval) prog" where
  "get_balance E L self node fromAddress contractAddress otherAddress =
     static_call E L self node ''balanceOf(address)'' [PStr (case otherAddress of None \<Rightarrow> fromAddress | Some a \<Rightarrow> a)] fromAddress None
       contractAddress None (Some (PInt 900000000)) 0 (PStr ''latest'') False False"

section \<open>The functions of ac_utils.py\<close>

text \<open>The default terms of a transaction; the nonce is filled in later.\<close>

definition default_terms :: "pyval \<Rightarrow> int \<Rightarrow> tx_terms" where
  "default_terms gasLimit value = \<lparr>gt_nonce = 0, gt_gas = gasLimit, gt_gasPrice = 765630000, gt_maxFeePerGas = 765630000,
     gt_maxPriorityFeePerGas = 10, gt_value = value\<rparr>"

definition opt_int :: "int option \<Rightarrow> pyval" where
  "opt_int v = (case v of None \<Rightarrow> PNone | Some i \<Rightarrow> PInt i)"

definition contract_function_static_call ::
  "'w env \<Rightarrow> eth_lib \<Rightarrow> sc_node \<Rightarrow> smart_contract \<Rightarrow> string \<Rightarrow> string \<Rightarrow> string \<Rightarrow> pyval list \<Rightarrow> int \<Rightarrow> pyval \<Rightarrow> bool \<Rightarrow> bool \<Rightarrow> ('w, pyval) prog" where
  "contract_function_static_call E L node smart_contract_type smart_contract_address from_address method args value tag eip1898 isBlockHash =
     static_call E L smart_contract_type node method args from_address None smart_contract_address None None value tag eip1898 isBlockHash"

definition contract_function_call ::
  "'w env \<Rightarrow> eth_lib \<Rightarrow> sc_node \<Rightarrow> smart_contract \<Rightarrow> string \<Rightarrow> string \<Rightarrow> string \<Rightarrow> pyval list \<Rightarrow> int \<Rightarrow> pyval option \<Rightarrow> pyval \<Rightarrow> ('w, pyval) prog" where
  "contract_function_call E L node smart_contract_type smart_contract_address from_address method args value overrideGas tag =
     pbind (sm_estimate_gas E L smart_contract_type node method args from_address (Some smart_contract_address) None None value None tag) (\<lambda>estimated_gas.
       call_function E L smart_contract_type node method args RPC_LEGACY from_address smart_contract_address None
         (default_terms (case overrideGas of None \<Rightarrow> opt_int estimated_gas | Some g \<Rightarrow> g) value) tag)"

definition deploy_smart_contract ::
  "'w env \<Rightarrow> eth_lib \<Rightarrow> sc_node \<Rightarrow> smart_contract \<Rightarrow> string \<Rightarrow> pyval list \<Rightarrow> CallMethod \<Rightarrow> bool \<Rightarrow> ('w, string) prog" where
  "deploy_smart_contract E L node contract from_address args call_method next_block =
     pbind (sm_estimate_gas E L contract node ''constructor'' args from_address None None None 0 None (PStr ''latest'')) (\<lambda>estimated_gas.
     pbind (deploy E L contract node args call_method from_address None (default_terms (opt_int estimated_gas) 0) (PStr ''latest'')) (\<lambda>(tx_hash, address).
       if next_block then
         pseq (generate_next_block E node ''first node'' False PNone) (
         pbind (sc_call E node ''rpc_eth_getTransactionReceipt'' [tx_hash]) (\<lambda>tx_receipt.
         pbind (plift (py_path tx_receipt [''result'', ''contractAddress''])) (\<lambda>deployed.
         pseq (plift (assert_equal deployed (PStr (py_lower address)) [])) (pret address))))
       else pret address))"

section \<open>The proxy contract\<close>

record simple_proxy =
  px_sc_node :: sc_node
  px_contract :: smart_contract
  px_contract_address :: string

definition call_sig :: string where
  "call_sig = ''doCall(address,uint256,bytes)''"

definition static_call_sig :: string where
  "static_call_sig = ''doStaticCall(address,bytes)''"

definition SimpleProxyContract ::
  "'w env \<Rightarrow> eth_lib \<Rightarrow> (string \<Rightarrow> (string \<times> string list) list) \<Rightarrow> sc_node \<Rightarrow> string \<Rightarrow> bool \<Rightarrow> ('w, simple_proxy) prog" where
  "SimpleProxyContract E L walk sc_node evm_address use_shanghai =
     pbind (SmartContract E walk (if use_shanghai then ''SimpleProxyShanghai'' else ''SimpleProxy'')) (\<lambda>contract.
     pbind (deploy_smart_contract E L sc_node contract evm_address [PNone, PStr [], PBool True] RPC_LEGACY True) (\<lambda>contract_address.
       pret \<lparr>px_sc_node = sc_node, px_contract = contract, px_contract_address = contract_address\<rparr>))"

definition data_bytes :: "pyval \<Rightarrow> pyval res" where
  "data_bytes data = (case data of
      PStr s \<Rightarrow> rbind (hex_str_to_bytes s) (\<lambda>b. Inr (PBytes b))
    | PBytes b \<Rightarrow> Inr (PBytes b)
    | _ \<Rightarrow> rerr PlainException ''Only valid data types are byte arrays or string'' [])"

definition proxy_request :: "eth_lib \<Rightarrow> simple_proxy \<Rightarrow> string \<Rightarrow> pyval \<Rightarrow> string \<Rightarrow> pyval list \<Rightarrow> pyval \<Rightarrow> pyval res" where
  "proxy_request L self from_address nonce method args data =
     rbind (data_bytes data) (\<lambda>b. rbind (raw_encode_call L (px_contract self) method (args @ [b])) (\<lambda>data_input.
       Inr (PDict [(''to'', PStr (px_contract_address self)), (''from'', PStr (add_0x_prefix L from_address)), (''nonce'', nonce),
         (''input'', data_input)])))"

definition proxy_call :: "'w env \<Rightarrow> eth_lib \<Rightarrow> simple_proxy \<Rightarrow> string \<Rightarrow> pyval \<Rightarrow> string \<Rightarrow> pyval list \<Rightarrow> pyval \<Rightarrow> ('w, pyval) prog" where
  "proxy_call E L self from_address nonce method args data =
     pbind (plift (proxy_request L self from_address nonce method args data)) (\<lambda>request.
     pbind (sc_call E (px_sc_node self) ''rpc_eth_call'' [request, PStr ''latest'']) (\<lambda>result.
     pbind (plift (py_in ''result'' result)) (\<lambda>ok.
       if ok then plift (rbind (rbind (py_get result ''result'') as_str) (\<lambda>h. rbind (hex_str_to_bytes (format_eoa h)) (\<lambda>b.
           rbind (raw_decode_call_result L (px_contract self) method b) (\<lambda>raw_res. py_nth raw_res 0))))
       else praise RuntimeError (''Something went wrong, see '' @ py_str result) [])))"

definition proxy_trace :: "'w env \<Rightarrow> eth_lib \<Rightarrow> simple_proxy \<Rightarrow> string \<Rightarrow> pyval \<Rightarrow> string \<Rightarrow> pyval list \<Rightarrow> pyval \<Rightarrow> ('w, pyval) prog" where
  "proxy_trace E L self from_address nonce method args data =
     pbind (plift (proxy_request L self from_address nonce method args data)) (\<lambda>request.
       sc_call E (px_sc_node self) ''rpc_debug_traceCall'' [request, PStr ''latest'', PDict [(''tracer'', PStr ''callTracer'')]])"

definition do_call :: "'w env \<Rightarrow> eth_lib \<Rightarrow> simple_proxy \<Rightarrow> string \<Rightarrow> pyval \<Rightarrow> pyval \<Rightarrow> pyval \<Rightarrow> pyval \<Rightarrow> ('w, pyval) prog" where
  "do_call E L self from_address nonce target_addr value data =
     proxy_call E L self from_address nonce call_sig [target_addr, value] data"

definition do_call_trace :: "'w env \<Rightarrow> eth_lib \<Rightarrow> simple_proxy \<Rightarrow> string \<Rightarrow> pyval \<Rightarrow> pyval \<Rightarrow> pyval \<Rightarrow> pyval \<Rightarrow> ('w, pyval) prog" where
  "do_call_trace E L self from_address nonce target_addr value data =
     proxy_trace E L self from_address nonce call_sig [target_addr, value] data"

definition do_static_call :: "'w env \<Rightarrow> eth_lib \<Rightarrow> simple_proxy \<Rightarrow> string \<Rightarrow> pyval \<Rightarrow> pyval \<Rightarrow> pyval \<Rightarrow> ('w, pyval) prog" where
  "do_static_call E L self from_address nonce target_addr data =
     proxy_call E L self from_address nonce static_call_sig [target_addr] data"

definition do_static_call_trace :: "'w env \<Rightarrow> eth_lib \<Rightarrow> simple_proxy \<Rightarrow> string \<Rightarrow> pyval \<Rightarrow> pyval \<Rightarrow> pyval \<Rightarrow> ('w, pyval) prog" where
  "do_static_call_trace E L self from_address nonce target_addr data =
     proxy_trace E L self from_address nonce static_call_sig [target_addr] data"

definition call_transaction :: "'w env \<Rightarrow> eth_lib \<Rightarrow> simple_proxy \<Rightarrow> string \<Rightarrow> int option \<Rightarrow> pyval \<Rightarrow> pyval \<Rightarrow> pyval \<Rightarrow> int \<Rightarrow> ('w, pyval) prog" where
  "call_transaction E L self from_add nonce target_addr value data gas_limit =
     pbind (plift (data_bytes data)) (\<lambda>b.
       call_function E L (px_contract self) (px_sc_node self) call_sig [target_addr, value, b] RPC_LEGACY from_add
         (format_eoa (px_contract_address self)) nonce (default_terms (PInt gas_limit) 0) (PStr ''latest''))"

definition px_estimate_gas :: "'w env \<Rightarrow> eth_lib \<Rightarrow> simple_proxy \<Rightarrow> string \<Rightarrow> pyval \<Rightarrow> pyval \<Rightarrow> pyval \<Rightarrow> pyval \<Rightarrow> int \<Rightarrow> ('w, pyval) prog" where
  "px_estimate_gas E L self from_add nonce target_addr value data gas_limit =
     pbind (plift (data_bytes data)) (\<lambda>b.
     pbind (plift (raw_encode_call L (px_contract self) call_sig [target_addr, value, b])) (\<lambda>data_input.
       sc_call E (px_sc_node self) ''rpc_eth_estimateGas'' [PDict [(''from'', PStr (add_0x_prefix L from_add)),
         (''to'', PStr (px_contract_address self)), (''data'', data_input), (''nonce'', nonce), (''gas'', PStr (py_hex gas_limit))]]))"

section \<open>The table of functions\<close>

text \<open>
  Every function is stored under its signature with the selector the compiler gave for that
  signature, the constructor under its name without one; no key occurs twice.
\<close>

definition wf_function :: "pyval \<Rightarrow> string \<Rightarrow> contract_function \<Rightarrow> bool" where
  "wf_function sighashes k f \<longleftrightarrow>
     (if cf_isConstructor f then k = ''constructor'' \<and> cf_sigHash f = PStr []
      else k = cf_name f @ ''('' @ py_join '','' (cf_inputs f) @ '')'' \<and> py_get sighashes k = Inr (cf_sigHash f))"

definition wf_functions :: "pyval \<Rightarrow> (string \<times> contract_function) list \<Rightarrow> bool" where
  "wf_functions sighashes fs \<longleftrightarrow> distinct (map fst fs) \<and> list_all (\<lambda>(k, f). wf_function sighashes k f) fs"

lemma wf_dict_put: "wf_functions h fs \<Longrightarrow> wf_function h k f \<Longrightarrow> wf_functions h (dict_put k f fs)"
  using set_dict_put [of k f fs] by (auto simp: wf_functions_def list_all_iff distinct_dict_put)

lemma add_abi_entry_wf:
  assumes "add_abi_entry h fs obj = Inr gs" and "wf_functions h fs"
  shows "wf_functions h gs"
  using assms
  by (auto simp: add_abi_entry_def rbind_Inr_iff Let_def wf_function_def intro!: wf_dict_put split: if_splits)

lemma read_abi_wf: "read_abi h fs objs = Inr gs \<Longrightarrow> wf_functions h fs \<Longrightarrow> wf_functions h gs"
  by (induction objs arbitrary: fs) (auto simp: rbind_Inr_iff intro: add_abi_entry_wf)

lemma SmartContract_run:
  assumes "SmartContract E walk path s = Some (Inr c, t)"
  shows "wf_functions (sm_Sighashes c) (sm_Functions c)"
  using assms read_abi_wf [of _ "[]"]
  by (auto simp: SmartContract_def pbind_Inr_iff rbind_Inr_iff wf_functions_def)

text \<open>The data of a contract call is the selector that the compiler computed for exactly the
  signature that was asked for, followed by the ABI encoding of the arguments for the input types of
  that signature.\<close>
theorem contract_call_data:
  assumes "SmartContract E walk path s = Some (Inr c, t)"
    and "raw_encode_call L c k args = Inr d" and "k \<noteq> ''constructor''"
  shows "\<exists>f sel b. map_of (sm_Functions c) k = Some f \<and> k = cf_name f @ ''('' @ py_join '','' (cf_inputs f) @ '')'' \<and>
    py_get (sm_Sighashes c) k = Inr (PStr sel) \<and> abi_encode L (cf_inputs f) args = Inr b \<and> d = PStr (sel @ hexlify b)"
proof -
  from assms(2) obtain f where f: "map_of (sm_Functions c) k = Some f" and d: "cf_encode L f args = Inr d"
    by (auto simp: raw_encode_call_def rbind_Inr_iff get_function_def rerr_def split: option.splits)
  from SmartContract_run [OF assms(1)] map_of_SomeD [OF f] have "wf_function (sm_Sighashes c) k f"
    by (auto simp: wf_functions_def list_all_iff)
  with assms(3) have k: "\<not> cf_isConstructor f" "k = cf_name f @ ''('' @ py_join '','' (cf_inputs f) @ '')''"
    "py_get (sm_Sighashes c) k = Inr (cf_sigHash f)"
    by (auto simp: wf_function_def split: if_splits)
  from d k(1) obtain b where b: "abi_encode L (cf_inputs f) args = Inr b" "py_concat (cf_sigHash f) (PStr (hexlify b)) = Inr d"
    by (auto simp: cf_encode_def rbind_Inr_iff)
  then obtain sel where "cf_sigHash f = PStr sel" "d = PStr (sel @ hexlify b)"
    by (cases "cf_sigHash f") (auto simp: rerr_def)
  with f k b show ?thesis by auto
qed

text \<open>A contract with one function, and stand-ins for the Ethereum libraries.\<close>

definition sample_metadata :: pyval where
  "sample_metadata = PDict [(''contractName'', PStr ''C''), (''sourceName'', PStr ''C.sol''),
     (''abi'', PList [PDict [(''type'', PStr ''function''), (''name'', PStr ''f''), (''inputs'', PList []), (''outputs'', PList [])]]),
     (''bytecode'', PStr ''00''), (''sighashes'', PDict [(''f()'', PStr ''ab'')])]"

definition contract_env :: "sample env" where
  "contract_env = sample_env\<lparr>e_getenv := \<lambda>v. Some ''/sdk'', e_read := \<lambda>p w. (json_dumps sample_metadata, w)\<rparr>"

definition sample_walk :: "string \<Rightarrow> (string \<times> string list) list" where
  "sample_walk base = [(base, [''C.json'', ''C.dbg.json''])]"

definition sample_lib :: eth_lib where
  "sample_lib = \<lparr>to_checksum_address = Inr, checksum_of_bytes = \<lambda>b. Inr (''0x'' @ hexlify b), add_0x_prefix = \<lambda>s. ''0x'' @ s,
     hexstr_to_bytes = \<lambda>s. Inr (map of_char s), keccak = \<lambda>b. take 32 (b @ replicate 32 0), rlp_encode = \<lambda>b n. Inr (b @ [nat n]),
     abi_encode = \<lambda>ts vs. Inr [1, 2], abi_decode = \<lambda>ts bs. Inr []\<rparr>"

lemma sample_contract_run:
  "\<exists>c (t :: sample world). SmartContract contract_env sample_walk ''C.sol'' (sample_world 0 0 []) = Some (Inr c, t) \<and>
     sm_Functions c = [(''f()'', \<lparr>cf_name = ''f'', cf_inputs = [], cf_outputs = [], cf_sigHash = PStr ''ab'', cf_isConstructor = False\<rparr>)]"
proof -
  have v: "json_value sample_metadata" by (simp add: sample_metadata_def)
  obtain doc where doc: "json_dumps sample_metadata = Inr doc" using json_dumps_total [OF v] by blast
  with json_roundtrip [OF v] have "json_loads doc = Inr sample_metadata" by simp
  with doc show ?thesis
    by (simp add: SmartContract_def contract_env_def prepare_resources_def install_npm_packages_def compile_smart_contracts_def
        check_run_in_cwd_def run_in_cwd_def get_cwd_def ext_defs prog_simps sample_world_def find_contract_data_path_def sample_walk_def
        is_contract_data_def ends_with_def remove_suffix_def split_path_def load_contract_def add_abi_entry_def types_of_def sample_metadata_def)
qed

theorem contract_call_data_witness:
  "\<exists>c (t :: sample world). SmartContract contract_env sample_walk ''C.sol'' (sample_world 0 0 []) = Some (Inr c, t) \<and>
     raw_encode_call sample_lib c ''f()'' [] = Inr (PStr ''ab0102'')"
proof -
  obtain c and t :: "sample world" where run: "SmartContract contract_env sample_walk ''C.sol'' (sample_world 0 0 []) = Some (Inr c, t)"
    and fs: "sm_Functions c = [(''f()'', \<lparr>cf_name = ''f'', cf_inputs = [], cf_outputs = [], cf_sigHash = PStr ''ab'', cf_isConstructor = False\<rparr>)]"
    using sample_contract_run by blast
  have d: "raw_encode_call sample_lib c ''f()'' [] = Inr (PStr ''ab0102'')"
    by (simp add: raw_encode_call_def get_function_def fs cf_encode_def sample_lib_def hexlify_def hex2_def digit_char_def)
  from contract_call_data [OF run d] run d show ?thesis by auto
qed

section \<open>Transactions that reach the node\<close>

lemma sign_and_send_raw_run:
  assumes "sign_and_send_raw E node p s = Some (Inr h, t)"
  shows "\<exists>signed raw x reply. w_calls t = w_calls s @ [ScCall node ''rpc_eth_signTransaction'' [p] [],
      ScCall node ''rpc_eth_sendRawTransaction'' [raw] []] \<and>
    e_sc_api E node ''rpc_eth_signTransaction'' [p] [] (w_ext s) = (Inr signed, x) \<and> py_get signed ''result'' = Inr raw \<and>
    e_sc_api E node ''rpc_eth_sendRawTransaction'' [raw] [] x = (Inr reply, w_ext t) \<and> py_get reply ''result'' = Inr h"
  using assms by (cases "e_sc_api E node ''rpc_eth_signTransaction'' [p] [] (w_ext s)")
    (auto simp: sign_and_send_raw_def pbind_Inr_iff sc_call_run prod_eq_iff split: if_splits)

lemma ensure_nonce_run:
  assumes "ensure_nonce E L node a nonce tag s = Some (Inr n, t)"
  shows "(\<forall>m. nonce = Some m \<longrightarrow> n = m) \<and> (\<exists>pre. w_calls t = w_calls s @ pre)"
  using assms by (auto simp: ensure_nonce_def pbind_Inr_iff sc_call_run split: option.splits)

lemma ensure_chain_id_run:
  assumes "ensure_chain_id E node s = Some (Inr c, t)"
  shows "w_calls t = w_calls s @ [ScCall node ''rpc_eth_chainId'' [] []] \<and>
    w_ext t = snd (e_sc_api E node ''rpc_eth_chainId'' [] [] (w_ext s))"
  using assms by (auto simp: ensure_chain_id_def pbind_Inr_iff sc_call_run)

text \<open>
  A maker of payloads puts the nonce and the data into every payload. Whatever is signed and sent with
  it then has the nonce the program computed. Both families of payloads, those of accounts and those
  of contracts, are such makers.
\<close>

locale payload_maker =
  fixes make :: "int \<Rightarrow> pyval \<Rightarrow> pyval res" and data :: pyval
  assumes payload_nonce: "make n c = Inr p \<Longrightarrow> py_get p ''nonce'' = Inr (PInt n)"
    and payload_input: "make n c = Inr p \<Longrightarrow> py_get p ''input'' = Inr data"
begin

lemma signed:
  assumes "pbind (plift (make n c)) (sign_and_send_raw E node) s = Some (Inr h, t)"
  shows "\<exists>p signed raw x reply. make n c = Inr p \<and> py_get p ''nonce'' = Inr (PInt n) \<and> py_get p ''input'' = Inr data \<and>
    w_calls t = w_calls s @ [ScCall node ''rpc_eth_signTransaction'' [p] [], ScCall node ''rpc_eth_sendRawTransaction'' [raw] []] \<and>
    e_sc_api E node ''rpc_eth_signTransaction'' [p] [] (w_ext s) = (Inr signed, x) \<and> py_get signed ''result'' = Inr raw \<and>
    e_sc_api E node ''rpc_eth_sendRawTransaction'' [raw] [] x = (Inr reply, w_ext t) \<and> py_get reply ''result'' = Inr h"
proof -
  from assms obtain p where p: "make n c = Inr p" and run: "sign_and_send_raw E node p s = Some (Inr h, t)"
    by (auto simp: pbind_Inr_iff)
  from sign_and_send_raw_run [OF run] payload_nonce [OF p] payload_input [OF p] p show ?thesis by blast
qed

end

lemmas eoa_payload_defs = eoa_payload_def make_legacy_sign_payload_def make_eip155_sign_payload_def make_eip1559_sign_payload_def
  with_to_and_input_def

lemmas sm_payload_defs = sign_payload_def sm_make_legacy_sign_payload_def sm_make_eip155_sign_payload_def sm_make_eip1559_sign_payload_def
  with_to_def

interpretation eoa: payload_maker "\<lambda>n c. Inr (eoa_payload m f a gas v d gp mp mf n c)" "PStr d" for m f a gas v d gp mp mf
  by unfold_locales (cases m; auto simp: eoa_payload_defs)+

lemma with_to_get: "with_to L to r = Inr p \<Longrightarrow> k \<noteq> ''to'' \<Longrightarrow> py_get p k = py_get (PDict r) k"
  by (auto simp: with_to_def rbind_Inr_iff split: option.splits)

lemma sign_payload_fields:
  assumes "sign_payload L m f to g d c = Inr p"
  shows "py_get p ''nonce'' = Inr (PInt (gt_nonce g)) \<and> py_get p ''input'' = Inr d"
proof -
  have "\<exists>r. with_to L to ((''nonce'', PInt (gt_nonce g)) # (''gas'', gt_gas g) # (''value'', PInt (gt_value g)) # (''input'', d) # r) = Inr p"
    using assms by (cases m) (auto simp: sign_payload_def sm_make_legacy_sign_payload_def sm_make_eip155_sign_payload_def
        sm_make_eip1559_sign_payload_def rbind_Inr_iff)
  then obtain r where "with_to L to ((''nonce'', PInt (gt_nonce g)) # (''gas'', gt_gas g) # (''value'', PInt (gt_value g)) # (''input'', d) # r) = Inr p"
    by blast
  from with_to_get [OF this] show ?thesis by simp
qed

interpretation contract: payload_maker "\<lambda>n c. sign_payload L m f to (g\<lparr>gt_nonce := n\<rparr>) d c" d for L m f to g d
  by unfold_locales (auto dest: sign_payload_fields)

text \<open>C17. A transaction between accounts ends with the same three requests: the chain id, one signature,
  one submission of exactly what the signature request answered, whose answer is the hash returned.
  The signed payload carries the checksummed addresses, the value, the gas, the data and the nonce
  the caller gave, its type tells EIP-1559 from legacy, and only protected transactions carry the
  chain id.\<close>
theorem eoa_transaction_signed:
  assumes "eoa_transaction E L node m False from_addr to_addr value gas gas_price max_priority max_fee data nonce tag s = Some (Inr h, t)"
  shows "\<exists>p signed raw reply f a pre x y z. w_calls t = w_calls s @ pre @ [ScCall node ''rpc_eth_chainId'' [] [],
      ScCall node ''rpc_eth_signTransaction'' [p] [], ScCall node ''rpc_eth_sendRawTransaction'' [raw] []] \<and>
    snd (e_sc_api E node ''rpc_eth_chainId'' [] [] x) = y \<and>
    e_sc_api E node ''rpc_eth_signTransaction'' [p] [] y = (Inr signed, z) \<and> py_get signed ''result'' = Inr raw \<and>
    e_sc_api E node ''rpc_eth_sendRawTransaction'' [raw] [] z = (Inr reply, w_ext t) \<and> py_get reply ''result'' = Inr h \<and>
    to_checksum_address L from_addr = Inr f \<and> to_checksum_address L to_addr = Inr a \<and>
    py_get p ''from'' = Inr (PStr f) \<and> py_get p ''to'' = Inr (PStr a) \<and> py_get p ''value'' = Inr (PInt value) \<and>
    py_get p ''gas'' = Inr (PInt gas) \<and> py_get p ''input'' = Inr (PStr data) \<and>
    py_get p ''type'' = Inr (PInt (if m = RPC_EIP1559 then 2 else 0)) \<and>
    (\<forall>n. nonce = Some n \<longrightarrow> py_get p ''nonce'' = Inr (PInt n)) \<and>
    py_in ''chainId'' p = Inr (m \<noteq> RPC_LEGACY)"
proof -
  from assms obtain n c f a u v where n: "ensure_nonce E L node from_addr nonce tag s = Some (Inr n, u)"
    and c: "ensure_chain_id E node u = Some (Inr c, v)" and f: "to_checksum_address L from_addr = Inr f"
    and a: "to_checksum_address L to_addr = Inr a"
    and sent: "pbind (plift (Inr (eoa_payload m f a gas value data gas_price max_priority max_fee n c))) (sign_and_send_raw E node) v
      = Some (Inr h, t)"
    unfolding eoa_transaction_def eoa_payload_def format_evm_def by (auto simp: pbind_Inr_iff simp del: if_run)
  let ?p = "eoa_payload m f a gas value data gas_price max_priority max_fee n c"
  from ensure_nonce_run [OF n] obtain pre where pre: "w_calls u = w_calls s @ pre" and m: "\<forall>m. nonce = Some m \<longrightarrow> n = m" by blast
  from eoa.signed [OF sent] obtain signed raw x reply where raw: "py_get ?p ''nonce'' = Inr (PInt n)" "py_get ?p ''input'' = Inr (PStr data)"
    "w_calls t = w_calls v @ [ScCall node ''rpc_eth_signTransaction'' [?p] [], ScCall node ''rpc_eth_sendRawTransaction'' [raw] []]"
    "e_sc_api E node ''rpc_eth_signTransaction'' [?p] [] (w_ext v) = (Inr signed, x)" "py_get signed ''result'' = Inr raw"
    "e_sc_api E node ''rpc_eth_sendRawTransaction'' [raw] [] x = (Inr reply, w_ext t)" "py_get reply ''result'' = Inr h" by auto
  have "py_get ?p ''from'' = Inr (PStr f)" "py_get ?p ''to'' = Inr (PStr a)" "py_get ?p ''value'' = Inr (PInt value)"
    "py_get ?p ''gas'' = Inr (PInt gas)" "py_get ?p ''type'' = Inr (PInt (if m = RPC_EIP1559 then 2 else 0))"
    "py_in ''chainId'' ?p = Inr (m \<noteq> RPC_LEGACY)" by (cases m; simp add: eoa_payload_defs)+
  with raw pre m f a ensure_chain_id_run [OF c] show ?thesis
    by - (rule exI [of _ ?p], rule exI [of _ signed], rule exI [of _ raw], rule exI [of _ reply], rule exI [of _ f], rule exI [of _ a],
        rule exI [of _ pre], rule exI [of _ "w_ext u"], rule exI [of _ "w_ext v"], rule exI [of _ x], auto)
qed

text \<open>In a contract that is read from its ABI, the entry of the constructor is one: a function is stored
  under its signature, which ends in a parenthesis.\<close>

lemma read_abi_constructor:
  assumes "read_abi sighashes fs objs = Inr r"
    and "\<forall>cf. map_of fs ''constructor'' = Some cf \<longrightarrow> cf_isConstructor cf"
  shows "\<forall>cf. map_of r ''constructor'' = Some cf \<longrightarrow> cf_isConstructor cf"
  using assms
proof (induction objs arbitrary: fs)
  case (Cons obj objs)
  then obtain gs where gs: "add_abi_entry sighashes fs obj = Inr gs" "read_abi sighashes gs objs = Inr r" by (auto simp: rbind_Inr_iff)
  have "''constructor'' \<noteq> name @ ''('' @ xs @ '')''" for name xs :: string
    using arg_cong [of "''constructor''" "name @ ''('' @ xs @ '')''" last] by auto
  with gs(1) Cons.prems(2) have "\<forall>cf. map_of gs ''constructor'' = Some cf \<longrightarrow> cf_isConstructor cf"
    by (auto simp: add_abi_entry_def rbind_Inr_iff Let_def split: if_splits)
  with Cons.IH gs show ?case by blast
qed simp

lemma deploy_data_written_out:
  assumes "deploy_data L self args = Inr d" and "read_abi sighashes [] objs = Inr (sm_Functions self)"
  shows "case map_of (sm_Functions self) ''constructor'' of None \<Rightarrow> d = sm_Bytecode self
    | Some cf \<Rightarrow> length args = length (cf_inputs cf) \<and> (\<exists>code bs. sm_Bytecode self = PStr code \<and>
        abi_encode L (cf_inputs cf) args = Inr bs \<and> d = PStr (code @ hexlify bs))"
proof -
  have "\<forall>cf. map_of (sm_Functions self) ''constructor'' = Some cf \<longrightarrow> cf_isConstructor cf"
    using read_abi_constructor [OF assms(2)] by simp
  then show ?thesis using assms(1)
    by (cases "sm_Bytecode self") (auto simp: deploy_data_def cf_encode_def rbind_Inr_iff rerr_def split: option.splits if_splits)
qed


definition ok_reply :: "string \<Rightarrow> pyval res" where
  "ok_reply v = Inr (PDict [(''result'', PStr v)])"

theorem eoa_transaction_signed_witness:
  "\<exists>h (t :: sample world). eoa_transaction sample_env sample_lib (sample_node ''a'') RPC_EIP1559 False ''0xa'' ''0xb'' 7 21000 1 2 3 ''0x'' (Some 5)
      (PStr ''latest'') (sample_world 0 0 [ok_reply ''0x1'', ok_reply ''0xraw'', ok_reply ''0xhash'']) = Some (Inr h, t) \<and>
    (\<exists>p. ScCall (sample_node ''a'') ''rpc_eth_signTransaction'' [p] [] \<in> set (w_calls t) \<and> py_get p ''nonce'' = Inr (PInt 5))"
proof -
  obtain h and t :: "sample world" where run: "eoa_transaction sample_env sample_lib (sample_node ''a'') RPC_EIP1559 False ''0xa'' ''0xb'' 7 21000 1 2 3 ''0x''
      (Some 5) (PStr ''latest'') (sample_world 0 0 [ok_reply ''0x1'', ok_reply ''0xraw'', ok_reply ''0xhash'']) = Some (Inr h, t)"
    by (simp add: eoa_transaction_def ensure_nonce_def ensure_chain_id_def format_evm_def sample_lib_def sign_and_send_raw_def ok_reply_def
        ext_defs prog_simps sample_world_def)
  from eoa_transaction_signed [OF run] run show ?thesis by auto
qed

definition sample_contract :: smart_contract where
  "sample_contract = \<lparr>sm_Name = PStr ''C'', sm_Source = PNone, sm_Abi = PList [], sm_Bytecode = PStr ''6000'', sm_Sighashes = PDict [],
     sm_Functions = [(''constructor'', \<lparr>cf_name = ''constructor'', cf_inputs = [''uint256''], cf_outputs = [],
       cf_sigHash = PStr [], cf_isConstructor = True\<rparr>)]\<rparr>"

lemma sample_contract_abi:
  "read_abi (PDict []) [] [PDict [(''type'', PStr ''constructor''), (''inputs'', PList [PDict [(''type'', PStr ''uint256'')]])]]
    = Inr (sm_Functions sample_contract)"
  by (simp add: add_abi_entry_def types_of_def get_input_type.simps sample_contract_def)


end
