(* ===== verification/Abi_Results.thy ===== *)
theory Abi_Results
  imports Test_Steps Smart_Contract "HOL-Library.List_Lexorder" "HOL-Library.Char_ord"
begin

text \<open>
  Reading what the native contracts return: the functions of the tests that take an ABI encoded result
  apart (\<^verbatim>\<open>qa/sc_evm_forger.py\<close>, \<^verbatim>\<open>qa/sc_evm_forger_v2.py\<close>, \<^verbatim>\<open>qa/sc_evm_forger_v2_register.py\<close>,
  \<^verbatim>\<open>qa/sc_evm_native_forger_v2.py\<close>, \<^verbatim>\<open>qa/sc_evm_forger_stakes_pager.py\<close>, \<^verbatim>\<open>qa/sc_evm_mc_addr_ownership.py\<close>).
  The package \<^verbatim>\<open>eth_abi\<close> stays a parameter; \<open>static_abi\<close> is what the tests rely on: it decodes a sequence of
  32 byte words, or a tuple of such words, to the values that the ABI encodes as these words. Under it
  every reader returns exactly the values that the contract encoded.
\<close>

section \<open>Parameters\<close>

record eth_tools =
  et_lib :: eth_lib
  remove_0x_prefix :: "string \<Rightarrow> string"
  encode_hex :: "nat list \<Rightarrow> string"
  function_selector :: "string \<Rightarrow> nat list"
  event_topic :: "string \<Rightarrow> nat list"
  b58decode_check :: "string \<Rightarrow> nat list res"

abbreviation decode :: "eth_tools \<Rightarrow> string list \<Rightarrow> nat list \<Rightarrow> pyval list res" where
  "decode T \<equiv> abi_decode (et_lib T)"

definition decode_one :: "eth_tools \<Rightarrow> string \<Rightarrow> nat list \<Rightarrow> pyval res" where
  "decode_one T type bs = rbind (decode T [type] bs) (\<lambda>vs. list_get vs 0)"

section \<open>Values\<close>

text \<open>\<^verbatim>\<open>s[a:b]\<close> for positions that count from the start, \<^verbatim>\<open>s.zfill(n)\<close>, and the UTF-8 decoding of ASCII bytes
  (the addresses of the mainchain); longer sequences raise.\<close>

definition py_slice :: "'a list \<Rightarrow> nat \<Rightarrow> nat \<Rightarrow> 'a list" where
  "py_slice s a b = take (b - a) (drop a s)"

definition zfill :: "string \<Rightarrow> nat \<Rightarrow> string" where
  "zfill s n = (case s of
      [] \<Rightarrow> replicate n (CHR ''0'')
    | c # cs \<Rightarrow> if c = CHR ''+'' \<or> c = CHR ''-'' then c # replicate (n - length s) (CHR ''0'') @ cs else py_rjust s n (CHR ''0''))"

definition decode_utf8 :: "nat list \<Rightarrow> string res" where
  "decode_utf8 bs = (if list_all (\<lambda>b. b < 128) bs then Inr (map char_of bs) else rerr ValueError ''can't decode byte'' [PBytes bs])"

fun as_bytes :: "pyval \<Rightarrow> nat list res" where
  "as_bytes (PBytes b) = Inr b"
| "as_bytes v = rerr TypeError ''a bytes-like object is required'' [v]"

definition bytes_at :: "pyval \<Rightarrow> int \<Rightarrow> nat list res" where
  "bytes_at v i = rbind (py_nth v i) as_bytes"

definition unpack_error :: "'a res" where
  "unpack_error = rerr ValueError ''wrong number of values to unpack'' []"

section \<open>Pages of forger stakes, as text\<close>

text \<open>An entry of the list, with the structure of the answer of the REST interface.\<close>

definition stake_entry :: "string \<Rightarrow> string \<Rightarrow> string \<Rightarrow> string \<Rightarrow> pyval \<Rightarrow> pyval" where
  "stake_entry stake_id block_sign_pub_key vrf_key owner amount =
     PDict [(''stakeId'', PStr stake_id),
       (''forgerStakeData'', PDict [
          (''forgerPublicKeys'', PDict [
             (''blockSignPublicKey'', PDict [(''publicKey'', PStr block_sign_pub_key)]),
             (''vrfPublicKey'', PDict [(''publicKey'', PStr vrf_key)])]),
          (''ownerPublicKey'', PDict [(''address'', PStr owner)]),
          (''stakedAmount'', amount)])]"

definition read_stake :: "eth_tools \<Rightarrow> string \<Rightarrow> pyval res" where
  "read_stake T chunk =
     rbind (hex_str_to_bytes chunk) (\<lambda>bs.
     rbind (decode T [''bytes32'', ''uint256'', ''address'', ''bytes32'', ''bytes32'', ''bytes1''] bs) (\<lambda>vs.
       case vs of
         [stake_id_bytes, amount, address, block_sign_pub_key_bytes, vrf32_bytes, vrf1_bytes] \<Rightarrow>
           rbind (as_bytes stake_id_bytes) (\<lambda>stake_id.
           rbind (as_bytes block_sign_pub_key_bytes) (\<lambda>block_sign_pub_key.
           rbind (as_bytes vrf32_bytes) (\<lambda>vrf32.
           rbind (as_bytes vrf1_bytes) (\<lambda>vrf1.
           rbind (as_str address) (\<lambda>addr.
             Inr (stake_entry (hexlify stake_id) (hexlify block_sign_pub_key) (hexlify (vrf32 @ vrf1)) (remove_0x_prefix T addr) amount))))))
       | _ \<Rightarrow> unpack_error))"

text \<open>The loop over the entries; two characters per byte.\<close>

primrec read_stakes :: "eth_tools \<Rightarrow> string \<Rightarrow> nat \<Rightarrow> nat \<Rightarrow> pyval list res" where
  "read_stakes T v end_offset 0 = Inr []"
| "read_stakes T v end_offset (Suc n) =
     (let start_offset = end_offset; end_offset = end_offset + 2 * 6 * 32
      in rbind (read_stake T (py_slice v start_offset end_offset)) (\<lambda>entry.
         rbind (read_stakes T v end_offset n) (\<lambda>rest. Inr (entry # rest))))"

definition get_paged_stakes_from_abi :: "eth_tools \<Rightarrow> string \<Rightarrow> (pyval \<times> pyval list) res" where
  "get_paged_stakes_from_abi T abi_return_value =
     rbind (rbind (hex_str_to_bytes (py_slice abi_return_value 0 (2 * 32))) (decode_one T ''int32'')) (\<lambda>next_pos.
     rbind (rbind (hex_str_to_bytes (py_slice abi_return_value (2 * 32) (2 * 64))) (decode_one T ''int32'')) (\<lambda>dynamic_data_start_offset.
     rbind (assert_equal dynamic_data_start_offset (PInt 64) []) (\<lambda>_.
     rbind (rbind (rbind (hex_str_to_bytes (py_slice abi_return_value (2 * 64) (2 * 96))) (decode_one T ''uint32'')) as_int) (\<lambda>list_size.
     rbind (read_stakes T abi_return_value (2 * 96) (nat list_size)) (\<lambda>list_result.
       Inr (next_pos, list_result))))))"

definition padded_32_hex :: "eth_tools \<Rightarrow> string \<Rightarrow> string" where
  "padded_32_hex T s = zfill (remove_0x_prefix T s) 64"

definition get_paged_forging_stakes_via_eth_call ::
  "'w env \<Rightarrow> eth_tools \<Rightarrow> sc_node \<Rightarrow> string \<Rightarrow> int \<Rightarrow> int \<Rightarrow> ('w, pyval \<times> pyval list) prog" where
  "get_paged_forging_stakes_via_eth_call E T sc_node from_address start_pos page_size =
     (let abi_str = function_selector T ''getPagedForgersStakes(int32,int32)'';
          start_pos = padded_32_hex T (py_hex start_pos);
          size_padded_str = padded_32_hex T (py_hex page_size)
      in pbind (plift (format_evm (et_lib T) from_address)) (\<lambda>from.
         pbind (plift (format_evm (et_lib T) FORGER_STAKE_SMART_CONTRACT_ADDRESS)) (\<lambda>to.
         pbind (sc_call E sc_node ''rpc_eth_call'' [PDict [(''from'', PStr from), (''to'', PStr to), (''gasLimit'', PInt 2300000),
             (''gasPrice'', PInt 950000000), (''value'', PInt 0), (''data'', PStr (encode_hex T abi_str @ start_pos @ size_padded_str))],
             PStr ''latest'']) (\<lambda>response.
         pbind (plift (py_in ''error'' response)) (\<lambda>failed.
           if failed then praise RuntimeError (''Something went wrong, see '' @ py_str response) []
           else plift (rbind (rbind (py_get response ''result'') as_str) (\<lambda>r. get_paged_stakes_from_abi T (remove_0x_prefix T r))))))))"

section \<open>Arrays, as bytes\<close>

text \<open>The length of an array and its elements of a fixed size.\<close>

definition array_chunks :: "nat \<Rightarrow> nat \<Rightarrow> nat list \<Rightarrow> nat list list" where
  "array_chunks elem_size n res = map (\<lambda>i. py_slice res (i * elem_size) (i * elem_size + elem_size)) [0..<n]"

definition array_length :: "nat list \<Rightarrow> int res" where
  "array_length res = py_int16 (PStr (bytes_to_hex_str (take 32 res)))"

definition decode_list_of_forger_stakes :: "eth_tools \<Rightarrow> nat list \<Rightarrow> int \<Rightarrow> pyval list res" where
  "decode_list_of_forger_stakes T result exp_num_of_stakes =
     (let res = drop 32 result
      in rbind (array_length res) (\<lambda>num_of_stakes.
         rbind (assert_equal (PInt exp_num_of_stakes) (PInt num_of_stakes) ''wrong number of forger stakes'') (\<lambda>_.
           rmap (\<lambda>p. rbind (decode T [''(bytes32,uint256,address,bytes32,bytes32,bytes1)''] p) (\<lambda>vs. Inr (PTuple vs)))
             (array_chunks 192 (nat num_of_stakes) (drop 32 res)))))"

text \<open>\<^verbatim>\<open>decode_paged_list_of_forger_stakes\<close> of \<^verbatim>\<open>sc_evm_forger_v2.py\<close>\<close>

definition decode_paged_list_of_owned_stakes :: "eth_tools \<Rightarrow> nat list \<Rightarrow> int \<Rightarrow> (pyval \<times> pyval list) res" where
  "decode_paged_list_of_owned_stakes T result exp_num_of_stakes =
     rbind (decode_one T ''int32'' (take 32 result)) (\<lambda>next_pos.
     rbind (decode_list_of_forger_stakes T (drop 32 result) exp_num_of_stakes) (\<lambda>list_of_stakes. Inr (next_pos, list_of_stakes)))"

text \<open>The shape that the three readers of \<^verbatim>\<open>sc_evm_native_forger_v2.py\<close> share (lines 982-998, 1052-1067 and 1070-1089, each with its
  own copy of this loop): the next position, an offset that is
  skipped, and an array whose elements \<open>f\<close> reads.\<close>

definition decode_page :: "eth_tools \<Rightarrow> nat \<Rightarrow> (nat list \<Rightarrow> 'a res) \<Rightarrow> nat list \<Rightarrow> (pyval \<times> 'a list) res" where
  "decode_page T elem_size f result =
     rbind (decode_one T ''int32'' (take 32 result)) (\<lambda>next_pos.
     let res = drop 32 (drop 32 result)
     in rbind (array_length res) (\<lambda>n.
        rbind (rmap f (array_chunks elem_size (nat n) (drop 32 res))) (\<lambda>elems. Inr (next_pos, elems))))"

definition decode_forger_info :: "eth_tools \<Rightarrow> nat list \<Rightarrow> pyval res" where
  "decode_forger_info T result =
     rbind (decode_one T ''(bytes32,bytes32,bytes1,uint32,address)'' result) (\<lambda>raw_stake.
     rbind (bytes_at raw_stake 0) (\<lambda>b0. rbind (bytes_at raw_stake 1) (\<lambda>b1. rbind (bytes_at raw_stake 2) (\<lambda>b2.
     rbind (py_nth raw_stake 3) (\<lambda>share. rbind (py_nth raw_stake 4) (\<lambda>reward.
       Inr (PTuple [PStr (bytes_to_hex_str b0), PStr (bytes_to_hex_str b1 @ bytes_to_hex_str b2), share, reward])))))))"

definition decode_paged_list_of_forgers :: "eth_tools \<Rightarrow> nat list \<Rightarrow> (pyval \<times> pyval list) res" where
  "decode_paged_list_of_forgers T result = decode_page T 160 (decode_forger_info T) result"

definition decode_delegator_stake :: "eth_tools \<Rightarrow> nat list \<Rightarrow> pyval res" where
  "decode_delegator_stake T p =
     rbind (decode_one T ''(bytes32,bytes32,bytes1,uint256)'' p) (\<lambda>raw_stake.
     rbind (bytes_at raw_stake 0) (\<lambda>b0. rbind (bytes_at raw_stake 1) (\<lambda>b1. rbind (bytes_at raw_stake 2) (\<lambda>b2.
     rbind (py_nth raw_stake 3) (\<lambda>amount.
       Inr (PTuple [PStr (bytes_to_hex_str b0), PStr (bytes_to_hex_str b1 @ bytes_to_hex_str b2), amount]))))))"

definition decode_paged_list_of_delegator_stakes :: "eth_tools \<Rightarrow> nat list \<Rightarrow> (pyval \<times> pyval list) res" where
  "decode_paged_list_of_delegator_stakes T result = decode_page T 128 (decode_delegator_stake T) result"

text \<open>\<^verbatim>\<open>dict(list_of_stakes)\<close>: the pairs of address and amount as a dictionary, where the last pair of an
  address wins.\<close>

definition pair_item :: "pyval \<Rightarrow> (string \<times> pyval) res" where
  "pair_item v = rbind (py_items v) (\<lambda>vs. case vs of [k, a] \<Rightarrow> rbind (as_str k) (\<lambda>k. Inr (k, a)) | _ \<Rightarrow> unpack_error)"

definition decode_paged_list_of_forger_stakes :: "eth_tools \<Rightarrow> nat list \<Rightarrow> (pyval \<times> (string \<times> pyval) list) res" where
  "decode_paged_list_of_forger_stakes T result =
     rbind (decode_page T 64 (decode_one T ''(address,uint256)'') result) (\<lambda>(next_pos, list_of_stakes).
     rbind (rmap pair_item list_of_stakes) (\<lambda>pairs. Inr (next_pos, fold (\<lambda>(k, v). dict_put k v) pairs [])))"

text \<open>\<^verbatim>\<open>check_list_of_stakes\<close>: the stakes of the node against the decoded ones.\<close>

definition check_stake :: "pyval \<Rightarrow> pyval \<Rightarrow> unit res" where
  "check_stake expected decoded =
     rbind (py_nth decoded 0) (\<lambda>stake.
     rbind (py_get expected ''stakeId'') (\<lambda>e. rbind (bytes_at stake 0) (\<lambda>b.
     rbind (assert_equal e (PStr (bytes_to_hex_str b)) ''wrong stakeId'') (\<lambda>_.
     rbind (py_path expected [''forgerStakeData'', ''stakedAmount'']) (\<lambda>e. rbind (py_nth stake 1) (\<lambda>a.
     rbind (assert_equal e a ''wrong ownerPublicKey'') (\<lambda>_.
     rbind (py_path expected [''forgerStakeData'', ''ownerPublicKey'', ''address'']) (\<lambda>e. rbind (rbind (py_nth stake 2) as_str) (\<lambda>o_addr.
     rbind (assert_equal e (PStr (drop 2 o_addr)) ''wrong ownerPublicKey'') (\<lambda>_.
     rbind (py_path expected [''forgerStakeData'', ''forgerPublicKeys'', ''blockSignPublicKey'', ''publicKey'']) (\<lambda>e. rbind (bytes_at stake 3) (\<lambda>b.
     rbind (assert_equal e (PStr (bytes_to_hex_str b)) ''wrong blockSignPublicKey'') (\<lambda>_.
     rbind (py_path expected [''forgerStakeData'', ''forgerPublicKeys'', ''vrfPublicKey'', ''publicKey'']) (\<lambda>e.
     rbind (bytes_at stake 4) (\<lambda>b4. rbind (bytes_at stake 5) (\<lambda>b5.
       assert_equal e (PStr (bytes_to_hex_str b4 @ bytes_to_hex_str b5)) ''wrong vrfPublicKey''))))))))))))))))"

definition check_list_of_stakes :: "pyval \<Rightarrow> pyval list \<Rightarrow> unit res" where
  "check_list_of_stakes exp_stake_own_1 list_of_stakes =
     rbind (rmap (\<lambda>i. rbind (py_nth exp_stake_own_1 (int i)) (\<lambda>e. check_stake e (list_of_stakes ! i))) [0..<length list_of_stakes]) (\<lambda>_. Inr ())"

section \<open>Owners of mainchain addresses\<close>

text \<open>The first address of the groupings that has a balance.\<close>

primrec first_funded :: "pyval list \<Rightarrow> (pyval \<times> pyval) option res" where
  "first_funded [] = Inr None"
| "first_funded (r # rs) =
     rbind (py_nth r 0) (\<lambda>addr. rbind (py_nth r 1) (\<lambda>val. rbind (as_num val) (\<lambda>n.
       if n > 0 then Inr (Some (addr, val)) else first_funded rs)))"

primrec get_address_with_balance :: "pyval list \<Rightarrow> (pyval \<times> pyval) res" where
  "get_address_with_balance [] = Inr (PNone, PInt 0)"
| "get_address_with_balance (g # gs) =
     rbind (py_items g) (\<lambda>rs. rbind (first_funded rs) (\<lambda>r.
       case r of Some av \<Rightarrow> Inr av | None \<Rightarrow> get_address_with_balance gs))"

text \<open>The associations of a result, grouped by the sidechain address in the order of their first occurrence.\<close>

definition add_association :: "string \<Rightarrow> string \<Rightarrow> (string \<times> string list) list \<Rightarrow> (string \<times> string list) list" where
  "add_association sc_address mc_addr d =
     (case map_of d sc_address of
        Some mc_addr_list \<Rightarrow> dict_put sc_address (mc_addr_list @ [mc_addr]) d
      | None \<Rightarrow> dict_put sc_address [mc_addr] (dict_put sc_address [] d))"

definition read_association :: "eth_tools \<Rightarrow> nat list \<Rightarrow> (string \<times> string) res" where
  "read_association T chunk =
     rbind (decode T [''address'', ''bytes3'', ''bytes32''] chunk) (\<lambda>vs.
       case vs of
         [address_pref, mca3, mca32] \<Rightarrow>
           rbind (rbind (as_str address_pref) (to_checksum_address (et_lib T))) (\<lambda>sc_address.
           rbind (as_bytes mca3) (\<lambda>b3. rbind (as_bytes mca32) (\<lambda>b32. rbind (decode_utf8 (b3 @ b32)) (\<lambda>mc_addr. Inr (sc_address, mc_addr)))))
       | _ \<Rightarrow> unpack_error)"

primrec read_associations :: "eth_tools \<Rightarrow> nat list \<Rightarrow> nat \<Rightarrow> nat \<Rightarrow> (string \<times> string list) list \<Rightarrow> (string \<times> string list) list res" where
  "read_associations T bs end_offset 0 d = Inr d"
| "read_associations T bs end_offset (Suc n) d =
     (let start_offset = end_offset; end_offset = start_offset + 96
      in rbind (read_association T (py_slice bs start_offset end_offset)) (\<lambda>(sc_address, mc_addr).
           read_associations T bs end_offset n (add_association sc_address mc_addr d)))"

definition extract_sc_associations_list :: "eth_tools \<Rightarrow> nat list \<Rightarrow> (string \<times> string list) list res" where
  "extract_sc_associations_list T bs =
     rbind (rbind (decode_one T ''uint32'' (py_slice bs 0 32)) as_int) (\<lambda>start_data_offset.
     rbind (assert_equal (PInt start_data_offset) (PInt 32) []) (\<lambda>_.
     let start = nat start_data_offset; end_offset = start + 32
     in rbind (rbind (decode_one T ''uint32'' (py_slice bs start end_offset)) as_int) (\<lambda>list_size.
          read_associations T bs end_offset (nat list_size) [])))"

definition associations_text :: "(string \<times> string list) list \<Rightarrow> string res" where
  "associations_text d = json_dumps (PDict (map (\<lambda>(k, ms). (k, PList (map PStr ms))) d))"

definition check_get_key_ownership :: "eth_tools \<Rightarrow> string \<Rightarrow> (string \<times> string list) list \<Rightarrow> unit res" where
  "check_get_key_ownership T abi_return_value exp_dict =
     rbind (hex_str_to_bytes abi_return_value) (\<lambda>bs.
     rbind (extract_sc_associations_list T bs) (\<lambda>sc_associations_dict.
     rbind (associations_text sc_associations_dict) (\<lambda>res.
     rbind (associations_text (sort_key fst exp_dict)) (\<lambda>exp. assert_equal (PStr res) (PStr exp) []))))"

section \<open>What the contracts encode\<close>

text \<open>The static values of the ABI that the tests decode, their types, the 32 byte words they are encoded
  in, and the Python values they stand for.\<close>

datatype abi_value =
    AUint nat nat
  | AInt32 int
  | AFixed nat "nat list"
  | AAddr "nat list"

fun abi_wf :: "abi_value \<Rightarrow> bool" where
  "abi_wf (AUint w v) = ((w = 32 \<or> w = 256) \<and> v < 2 ^ w)"
| "abi_wf (AInt32 i) = (- (2 ^ 31) \<le> i \<and> i < 2 ^ 31)"
| "abi_wf (AFixed n bs) = (n \<in> {1, 3, 20, 32} \<and> length bs = n \<and> list_all (\<lambda>b. b < 256) bs)"
| "abi_wf (AAddr bs) = (length bs = 20 \<and> list_all (\<lambda>b. b < 256) bs)"

fun abi_type :: "abi_value \<Rightarrow> string" where
  "abi_type (AUint w v) = ''uint'' @ nat_str 10 w"
| "abi_type (AInt32 i) = ''int32''"
| "abi_type (AFixed n bs) = ''bytes'' @ nat_str 10 n"
| "abi_type (AAddr bs) = ''address''"

primrec be_bytes :: "nat \<Rightarrow> nat \<Rightarrow> nat list" where
  "be_bytes 0 v = []"
| "be_bytes (Suc n) v = be_bytes n (v div 256) @ [v mod 256]"

fun abi_word :: "abi_value \<Rightarrow> nat list" where
  "abi_word (AUint w v) = be_bytes 32 v"
| "abi_word (AInt32 i) = be_bytes 32 (nat (i mod 2 ^ 256))"
| "abi_word (AFixed n bs) = bs @ replicate (32 - n) 0"
| "abi_word (AAddr bs) = replicate 12 0 @ bs"

fun abi_py :: "abi_value \<Rightarrow> pyval" where
  "abi_py (AUint w v) = PInt (int v)"
| "abi_py (AInt32 i) = PInt i"
| "abi_py (AFixed n bs) = PBytes bs"
| "abi_py (AAddr bs) = PStr (''0x'' @ hexlify bs)"

definition abi_words :: "abi_value list \<Rightarrow> nat list" where
  "abi_words vs = concat (map abi_word vs)"

definition tuple_type :: "string list \<Rightarrow> string" where
  "tuple_type ts = ''('' @ py_join '','' ts @ '')''"

text \<open>What \<^verbatim>\<open>eth_abi.decode\<close> does with such words, and what \<^verbatim>\<open>remove_0x_prefix\<close> and \<^verbatim>\<open>encode_hex\<close> do.\<close>

definition static_abi :: "eth_tools \<Rightarrow> bool" where
  "static_abi T \<longleftrightarrow> (\<forall>vs. list_all abi_wf vs \<longrightarrow>
     decode T (map abi_type vs) (abi_words vs) = Inr (map abi_py vs) \<and>
     decode T [tuple_type (map abi_type vs)] (abi_words vs) = Inr [PTuple (map abi_py vs)]) \<and>
   (\<forall>s. remove_0x_prefix T s = (if is_prefix ''0x'' s \<or> is_prefix ''0X'' s then drop 2 s else s)) \<and>
   (\<forall>bs. encode_hex T bs = ''0x'' @ hexlify bs)"

lemma static_decode:
  assumes "static_abi T" and "list_all abi_wf vs" and "ts = map abi_type vs" and "bs = abi_words vs"
  shows "decode T ts bs = Inr (map abi_py vs)"
  using assms by (simp add: static_abi_def)

lemma static_decode_one:
  assumes "static_abi T" and "abi_wf v" and "t = abi_type v" and "bs = abi_word v"
  shows "decode_one T t bs = Inr (abi_py v)"
  using static_decode [OF assms(1), of "[v]" "[t]" bs] assms by (simp add: abi_words_def decode_one_def list_get_def)

lemma static_decode_tuple:
  assumes "static_abi T" and "list_all abi_wf vs" and "t = tuple_type (map abi_type vs)" and "bs = abi_words vs"
  shows "decode_one T t bs = Inr (PTuple (map abi_py vs))" "decode T [t] bs = Inr [PTuple (map abi_py vs)]"
  using assms by (simp_all add: static_abi_def decode_one_def list_get_def)

lemma length_be_bytes [simp]: "length (be_bytes n v) = n"
  by (induction n arbitrary: v) auto

lemma be_bytes_less: "b \<in> set (be_bytes n v) \<Longrightarrow> b < 256"
  by (induction n arbitrary: v) auto

lemma length_abi_word [simp]: "abi_wf v \<Longrightarrow> length (abi_word v) = 32"
  by (cases v) auto

lemma abi_word_bytes: "abi_wf v \<Longrightarrow> list_all (\<lambda>b. b < 256) (abi_word v)"
  by (cases v) (auto simp: list_all_iff dest: be_bytes_less)

lemma length_abi_words: "list_all abi_wf vs \<Longrightarrow> length (abi_words vs) = 32 * length vs"
  by (induction vs) (auto simp: abi_words_def)

lemma abi_words_bytes: "list_all abi_wf vs \<Longrightarrow> list_all (\<lambda>b. b < 256) (abi_words vs)"
  by (induction vs) (auto simp: abi_words_def abi_word_bytes)

section \<open>Reading back what was encoded\<close>

lemma read_digits_hex2: "b < 256 \<Longrightarrow> read_digits 16 acc (hex2 b) = Some (acc * 256 + b)"
  by (simp add: hex2_def digit_val_char less_mult_imp_div_less)

lemma read_digits_be_bytes: "read_digits 16 acc (hexlify (be_bytes k n)) = Some (acc * 256 ^ k + n mod 256 ^ k)"
proof (induction k arbitrary: n)
  case (Suc k)
  have "n mod 256 ^ Suc k = (n div 256 mod 256 ^ k) * 256 + n mod 256"
    by (simp add: mod_mult2_eq mult.commute)
  then show ?case by (simp add: hexlify_def read_digits_append read_digits_hex2 Suc [unfolded hexlify_def] algebra_simps)
qed (simp add: hexlify_def)

lemma array_length_word:
  assumes "n < 2 ^ 256"
  shows "array_length (be_bytes 32 n @ rest) = Inr (int n)"
proof -
  obtain b bs where b: "be_bytes 32 n = b # bs" "b < 256"
    using be_bytes_less [of "hd (be_bytes 32 n)" 32 n] by (cases "be_bytes 32 n") (auto dest: arg_cong [where f = length])
  have "hexlify (be_bytes 32 n) \<noteq> []" using b(1) by (simp add: hexlify_def hex2_def)
  then have "read_nat 16 (hexlify (be_bytes 32 n)) = Some n"
    using assms by (simp add: read_nat_def read_digits_be_bytes)
  moreover have "digit_char (b div 16) \<noteq> CHR ''-'' \<and> digit_char (b div 16) \<noteq> CHR ''+''" "digit_char (b mod 16) \<noteq> CHR ''x'' \<and> digit_char (b mod 16) \<noteq> CHR ''X''"
    using b(2) digit_char_plain [of "b div 16"] digit_char_plain [of "b mod 16"] by (auto simp: less_mult_imp_div_less)
  ultimately have "read_hex (hexlify (be_bytes 32 n)) = Some (int n)"
    using b(1) by (simp add: read_hex_def hexlify_def hex2_def)
  then show ?thesis by (simp add: array_length_def bytes_to_hex_str_def)
qed

lemma array_chunks_Suc: "length x = k \<Longrightarrow> array_chunks k (Suc n) (x @ r) = x # array_chunks k n r"
  by (simp add: array_chunks_def upt_conv_Cons map_Suc_upt [symmetric] py_slice_def o_def del: upt_Suc)

lemma array_chunks_concat:
  assumes "\<forall>x \<in> set xs. length x = k"
  shows "array_chunks k (length xs) (concat xs) = xs"
  using assms by (induction xs) (simp add: array_chunks_def, simp add: array_chunks_Suc)

text \<open>A page: the next position, the offset of the array, its length, and its elements.\<close>

definition encoded_page :: "int \<Rightarrow> abi_value list list \<Rightarrow> nat list" where
  "encoded_page next elems = abi_words [AInt32 next, AInt32 64, AUint 32 (length elems)] @ concat (map abi_words elems)"

lemma encoded_page_parts:
  assumes "abi_wf (AInt32 next)" and "length elems < 2 ^ 32"
  shows "take 32 (encoded_page next elems) = abi_word (AInt32 next)"
    "py_slice (encoded_page next elems) 32 64 = abi_word (AInt32 64)"
    "py_slice (encoded_page next elems) 64 96 = abi_word (AUint 32 (length elems))"
    "drop 96 (encoded_page next elems) = concat (map abi_words elems)"
    "array_length (drop 64 (encoded_page next elems)) = Inr (int (length elems))"
proof -
  have "(length elems :: nat) < 2 ^ 256" using assms(2) by simp
  then show "array_length (drop 64 (encoded_page next elems)) = Inr (int (length elems))"
    using array_length_word [of "length elems" "concat (map abi_words elems)"] by (simp add: encoded_page_def abi_words_def)
qed (simp_all add: encoded_page_def abi_words_def py_slice_def)

text \<open>The readers of \<^verbatim>\<open>sc_evm_native_forger_v2.py\<close>: an element reader that reads every encoded element back
  reads the page back.\<close>

lemma decode_page_encoded:
  assumes "static_abi T" and "abi_wf (AInt32 next)" and "length xs < 2 ^ 32"
    and "\<forall>x \<in> set xs. length (abi_words (vals x)) = k \<and> f (abi_words (vals x)) = Inr (g x)"
  shows "decode_page T k f (encoded_page next (map vals xs)) = Inr (PInt next, map g xs)"
proof -
  let ?page = "encoded_page next (map vals xs)"
  have "length (map vals xs) < 2 ^ 32" using assms(3) by simp
  note parts = encoded_page_parts [OF assms(2) this]
  have "decode_one T ''int32'' (take 32 ?page) = Inr (PInt next)"
    using static_decode_one [OF assms(1,2), of "''int32''"] parts(1) by simp
  moreover have "drop 32 (drop 32 ?page) = drop 64 ?page" "drop 32 (drop 64 ?page) = drop 96 ?page"
    by simp_all
  moreover have "array_chunks k (length xs) (concat (map abi_words (map vals xs))) = map abi_words (map vals xs)"
    using array_chunks_concat [of "map abi_words (map vals xs)" k] assms(4) by simp
  moreover have "rmap f (map abi_words (map vals xs)) = Inr (map g xs)"
    using assms(4) by (induction xs) auto
  ultimately show ?thesis using parts(4,5) by (simp add: decode_page_def)
qed

text \<open>The values of a forger, of a stake of a delegator, and of a pair of owner and amount.\<close>

fun forger_values :: "nat list \<times> nat list \<times> nat list \<times> nat \<times> nat list \<Rightarrow> abi_value list" where
  "forger_values (sign, vrf32, vrf1, share, reward) = [AFixed 32 sign, AFixed 32 vrf32, AFixed 1 vrf1, AUint 32 share, AAddr reward]"

fun forger_tuple :: "nat list \<times> nat list \<times> nat list \<times> nat \<times> nat list \<Rightarrow> pyval" where
  "forger_tuple (sign, vrf32, vrf1, share, reward) = PTuple [PStr (hexlify sign), PStr (hexlify (vrf32 @ vrf1)), PInt (int share), PStr (''0x'' @ hexlify reward)]"

fun delegator_values :: "nat list \<times> nat list \<times> nat list \<times> nat \<Rightarrow> abi_value list" where
  "delegator_values (sign, vrf32, vrf1, amount) = [AFixed 32 sign, AFixed 32 vrf32, AFixed 1 vrf1, AUint 256 amount]"

fun delegator_tuple :: "nat list \<times> nat list \<times> nat list \<times> nat \<Rightarrow> pyval" where
  "delegator_tuple (sign, vrf32, vrf1, amount) = PTuple [PStr (hexlify sign), PStr (hexlify (vrf32 @ vrf1)), PInt (int amount)]"

fun owner_values :: "nat list \<times> nat \<Rightarrow> abi_value list" where
  "owner_values (owner, amount) = [AAddr owner, AUint 256 amount]"

lemma hexlify_append: "hexlify (a @ b) = hexlify a @ hexlify b"
  by (simp add: hexlify_def)

lemma type_names: "nat_str 10 32 = ''32''" "nat_str 10 256 = ''256''" "nat_str 10 (Suc 0) = ''1''" "nat_str 10 3 = ''3''" "nat_str 10 20 = ''20''"
  by (simp_all add: nat_str.simps digit_char_def)

lemma decode_forger_info_encoded:
  assumes "static_abi T" and "list_all abi_wf (forger_values f)"
  shows "decode_forger_info T (abi_words (forger_values f)) = Inr (forger_tuple f)"
proof (cases f)
  case (fields sign vrf32 vrf1 share reward)
  have "''(bytes32,bytes32,bytes1,uint32,address)'' = tuple_type (map abi_type (forger_values f))"
    by (simp add: fields tuple_type_def type_names)
  from static_decode_tuple(1) [OF assms this refl] show ?thesis
    by (simp add: decode_forger_info_def fields bytes_at_def py_nth_def list_get_def bytes_to_hex_str_def hexlify_append)
qed

lemma decode_delegator_stake_encoded:
  assumes "static_abi T" and "list_all abi_wf (delegator_values d)"
  shows "decode_delegator_stake T (abi_words (delegator_values d)) = Inr (delegator_tuple d)"
proof (cases d)
  case (fields sign vrf32 vrf1 amount)
  have "''(bytes32,bytes32,bytes1,uint256)'' = tuple_type (map abi_type (delegator_values d))"
    by (simp add: fields tuple_type_def type_names)
  from static_decode_tuple(1) [OF assms this refl] show ?thesis
    by (simp add: decode_delegator_stake_def fields bytes_at_def py_nth_def list_get_def bytes_to_hex_str_def hexlify_append)
qed

lemma map_of_fold_put: "map_of (fold (\<lambda>(k, v). dict_put k v) ps d) = map_of d ++ map_of (rev ps)"
  by (induction ps arbitrary: d) (auto simp: fun_eq_iff map_add_def split: option.splits)

text \<open>C37. The pages of forgers and of stakes that the second version of the native contract returns are read
  back exactly: the next position and, for every element, its keys, share, amount and address.\<close>
theorem forger_pages_roundtrip:
  assumes "static_abi T" and "abi_wf (AInt32 next)" and "length fs < 2 ^ 32" and "\<forall>f \<in> set fs. list_all abi_wf (forger_values f)"
    and "length ds < 2 ^ 32" and "\<forall>d \<in> set ds. list_all abi_wf (delegator_values d)"
    and "length os < 2 ^ 32" and "\<forall>p \<in> set os. list_all abi_wf (owner_values p)"
  shows "decode_paged_list_of_forgers T (encoded_page next (map forger_values fs)) = Inr (PInt next, map forger_tuple fs) \<and>
    decode_paged_list_of_delegator_stakes T (encoded_page next (map delegator_values ds)) = Inr (PInt next, map delegator_tuple ds) \<and>
    (\<exists>d. decode_paged_list_of_forger_stakes T (encoded_page next (map owner_values os)) = Inr (PInt next, d) \<and>
       map_of d = map_of (rev (map (\<lambda>(a, v). (''0x'' @ hexlify a, PInt (int v))) os)))"
proof (intro conjI)
  have len: "length (abi_words (forger_values f)) = 160" if "list_all abi_wf (forger_values f)" for f
    using length_abi_words [OF that] by (cases f) simp
  show "decode_paged_list_of_forgers T (encoded_page next (map forger_values fs)) = Inr (PInt next, map forger_tuple fs)"
    unfolding decode_paged_list_of_forgers_def
    using assms(1-4) len decode_forger_info_encoded by (intro decode_page_encoded) auto
  have len: "length (abi_words (delegator_values d)) = 128" if "list_all abi_wf (delegator_values d)" for d
    using length_abi_words [OF that] by (cases d) simp
  show "decode_paged_list_of_delegator_stakes T (encoded_page next (map delegator_values ds)) = Inr (PInt next, map delegator_tuple ds)"
    unfolding decode_paged_list_of_delegator_stakes_def
    using assms(1,2,5,6) len decode_delegator_stake_encoded by (intro decode_page_encoded) auto
  have len: "length (abi_words (owner_values p)) = 64" if "list_all abi_wf (owner_values p)" for p
    using length_abi_words [OF that] by (cases p) simp
  have pair: "decode_one T ''(address,uint256)'' (abi_words (owner_values p)) = Inr (PTuple (map abi_py (owner_values p)))"
    if "list_all abi_wf (owner_values p)" for p
    by (rule static_decode_tuple(1) [OF assms(1) that _ refl]) (cases p, simp add: tuple_type_def type_names)
  have "decode_page T 64 (decode_one T ''(address,uint256)'') (encoded_page next (map owner_values os))
    = Inr (PInt next, map (\<lambda>p. PTuple (map abi_py (owner_values p))) os)"
    using assms(1,2,7,8) len pair by (intro decode_page_encoded) auto
  moreover have "rmap pair_item (map (\<lambda>p. PTuple (map abi_py (owner_values p))) os) = Inr (map (\<lambda>(a, v). (''0x'' @ hexlify a, PInt (int v))) os)"
    by (induction os) (auto simp: pair_item_def)
  ultimately show "\<exists>d. decode_paged_list_of_forger_stakes T (encoded_page next (map owner_values os)) = Inr (PInt next, d) \<and>
       map_of d = map_of (rev (map (\<lambda>(a, v). (''0x'' @ hexlify a, PInt (int v))) os))"
    by (simp add: decode_paged_list_of_forger_stakes_def map_of_fold_put)
qed

text \<open>The first version of the contract: stakes with an id and an owner, read from the text of the answer and
  from the bytes of a call.\<close>

type_synonym stake = "nat list \<times> nat \<times> nat list \<times> nat list \<times> nat list \<times> nat list"

fun stake_values :: "stake \<Rightarrow> abi_value list" where
  "stake_values (sid, amount, owner, sign, vrf32, vrf1) = [AFixed 32 sid, AUint 256 amount, AAddr owner, AFixed 32 sign, AFixed 32 vrf32, AFixed 1 vrf1]"

fun stake_json :: "stake \<Rightarrow> pyval" where
  "stake_json (sid, amount, owner, sign, vrf32, vrf1) =
     stake_entry (hexlify sid) (hexlify sign) (hexlify (vrf32 @ vrf1)) (hexlify owner) (PInt (int amount))"

definition stake_tuple :: "stake \<Rightarrow> pyval" where
  "stake_tuple s = PTuple [PTuple (map abi_py (stake_values s))]"

lemma length_stake: "list_all abi_wf (stake_values s) \<Longrightarrow> length (abi_words (stake_values s)) = 192"
  using length_abi_words [of "stake_values s"] by (cases s) simp

lemma hex_word: "list_all abi_wf vs \<Longrightarrow> hex_str_to_bytes (hexlify (abi_words vs)) = Inr (abi_words vs)"
  by (simp add: hex_str_to_bytes_def unhexlify_hexlify abi_words_bytes)

lemma read_stake_encoded:
  assumes "static_abi T" and "list_all abi_wf (stake_values s)"
  shows "read_stake T (hexlify (abi_words (stake_values s))) = Inr (stake_json s)"
proof (cases s)
  case (fields sid amount owner sign vrf32 vrf1)
  have "[''bytes32'', ''uint256'', ''address'', ''bytes32'', ''bytes32'', ''bytes1''] = map abi_type (stake_values s)"
    by (simp add: fields type_names)
  from static_decode [OF assms this refl] have "decode T [''bytes32'', ''uint256'', ''address'', ''bytes32'', ''bytes32'', ''bytes1'']
    (abi_words (stake_values s)) = Inr [PBytes sid, PInt (int amount), PStr (''0x'' @ hexlify owner), PBytes sign, PBytes vrf32, PBytes vrf1]"
    by (simp add: fields)
  moreover have "remove_0x_prefix T (''0x'' @ hexlify owner) = hexlify owner" using assms(1) by (simp add: static_abi_def)
  ultimately show ?thesis using hex_word [OF assms(2)] by (simp add: read_stake_def fields)
qed

lemma read_stakes_encoded:
  assumes "static_abi T" and "\<forall>s \<in> set ss. list_all abi_wf (stake_values s)"
  shows "read_stakes T (pre @ hexlify (concat (map (\<lambda>s. abi_words (stake_values s)) ss))) (length pre) (length ss) = Inr (map stake_json ss)"
  using assms(2)
proof (induction ss arbitrary: pre)
  case (Cons s ss)
  let ?w = "hexlify (abi_words (stake_values s))" and ?rest = "hexlify (concat (map (\<lambda>s. abi_words (stake_values s)) ss))"
  have w: "length ?w = 2 * 6 * 32" using Cons.prems length_stake [of s] by simp
  have "py_slice (pre @ ?w @ ?rest) (length pre) (length pre + 2 * 6 * 32) = ?w" using w by (simp add: py_slice_def)
  moreover have "read_stakes T (pre @ ?w @ ?rest) (length pre + 2 * 6 * 32) (length ss) = Inr (map stake_json ss)"
    using Cons.IH [of "pre @ ?w"] Cons.prems w by simp
  ultimately show ?case using read_stake_encoded [OF assms(1)] Cons.prems by (simp add: hexlify_append Let_def)
qed simp

lemma hexlify_slice: "py_slice (hexlify bs) (2 * a) (2 * b) = hexlify (py_slice bs a b)"
proof -
  have d: "drop (2 * a) (hexlify bs) = hexlify (drop a bs)" for a bs
    by (induction bs arbitrary: a) (auto simp: hexlify_def hex2_def drop_Cons split: nat.splits)
  have "take (2 * n) (hexlify bs) = hexlify (take n bs)" for n bs
    by (induction bs arbitrary: n) (auto simp: hexlify_def hex2_def take_Cons split: nat.splits)
  from this [of "b - a" "drop a bs"] show ?thesis by (simp add: py_slice_def d diff_mult_distrib2)
qed

lemma stake_page_text:
  assumes "static_abi T" and "abi_wf (AInt32 next)" and "length ss < 2 ^ 32" and "\<forall>s \<in> set ss. list_all abi_wf (stake_values s)"
  shows "get_paged_stakes_from_abi T (hexlify (encoded_page next (map stake_values ss))) = Inr (PInt next, map stake_json ss)"
proof -
  let ?page = "encoded_page next (map stake_values ss)"
  have len: "length (map stake_values ss) < 2 ^ 32" using assms(3) by simp
  note parts = encoded_page_parts [OF assms(2) len]
  have wf: "abi_wf (AInt32 64)" "abi_wf (AUint 32 (length (map stake_values ss)))" using len by simp_all
  have word: "hex_str_to_bytes (hexlify (abi_word v)) = Inr (abi_word v)" if "abi_wf v" for v
    using hex_word [of "[v]"] that by (simp add: abi_words_def)
  have first: "rbind (hex_str_to_bytes (py_slice (hexlify ?page) 0 (2 * 32))) (decode_one T ''int32'') = Inr (PInt next)"
    using hexlify_slice [of ?page 0 32] word [OF assms(2)] static_decode_one [OF assms(1,2), of "''int32''"] parts(1) by (simp add: py_slice_def)
  have offset: "rbind (hex_str_to_bytes (py_slice (hexlify ?page) (2 * 32) (2 * 64))) (decode_one T ''int32'') = Inr (PInt 64)"
    using hexlify_slice [of ?page 32 64] word [OF wf(1)] static_decode_one [OF assms(1) wf(1), of "''int32''"] parts(2) by simp
  have size: "rbind (hex_str_to_bytes (py_slice (hexlify ?page) (2 * 64) (2 * 96))) (decode_one T ''uint32'') = Inr (PInt (int (length ss)))"
    using hexlify_slice [of ?page 64 96] word [OF wf(2)] static_decode_one [OF assms(1) wf(2), of "''uint32''"] parts(3) by (simp add: type_names)
  have "hexlify ?page = hexlify (take 96 ?page) @ hexlify (concat (map (\<lambda>s. abi_words (stake_values s)) ss))"
    using parts(4) by (simp add: hexlify_append [symmetric] o_def append_eq_conv_conj) (metis append_take_drop_id)
  moreover have "length (take 96 ?page) = 96" using assms(2) wf by (simp add: encoded_page_def abi_words_def)
  ultimately have "read_stakes T (hexlify ?page) (2 * 96) (length ss) = Inr (map stake_json ss)"
    using read_stakes_encoded [OF assms(1,4), of "hexlify (take 96 ?page)"] by simp
  with first offset size show ?thesis unfolding get_paged_stakes_from_abi_def by (simp add: assert_equal_def)
qed

lemma stake_page_bytes:
  assumes "static_abi T" and "abi_wf (AInt32 next)" and "length ss < 2 ^ 32" and "\<forall>s \<in> set ss. list_all abi_wf (stake_values s)"
  shows "decode_paged_list_of_owned_stakes T (encoded_page next (map stake_values ss)) (int (length ss)) = Inr (PInt next, map stake_tuple ss)"
proof -
  have "length (map stake_values ss) < 2 ^ 32" using assms(3) by simp
  note parts = encoded_page_parts [OF assms(2) this]
  have tuple: "rbind (decode T [''(bytes32,uint256,address,bytes32,bytes32,bytes1)''] (abi_words (stake_values s))) (\<lambda>vs. Inr (PTuple vs)) = Inr (stake_tuple s)"
    if "list_all abi_wf (stake_values s)" for s
  proof -
    have "''(bytes32,uint256,address,bytes32,bytes32,bytes1)'' = tuple_type (map abi_type (stake_values s))"
      by (cases s) (simp add: tuple_type_def type_names)
    from static_decode_tuple(2) [OF assms(1) that this refl] show ?thesis by (simp add: stake_tuple_def)
  qed
  have "rmap (\<lambda>p. rbind (decode T [''(bytes32,uint256,address,bytes32,bytes32,bytes1)''] p) (\<lambda>vs. Inr (PTuple vs)))
      (map (\<lambda>s. abi_words (stake_values s)) ss) = Inr (map stake_tuple ss)"
    using assms(4) tuple by (induction ss) auto
  moreover have "array_chunks 192 (length ss) (concat (map (\<lambda>s. abi_words (stake_values s)) ss)) = map (\<lambda>s. abi_words (stake_values s)) ss"
    using array_chunks_concat [of "map (\<lambda>s. abi_words (stake_values s)) ss" 192] assms(4) length_stake by simp
  moreover have "decode_one T ''int32'' (take 32 (encoded_page next (map stake_values ss))) = Inr (PInt next)"
    using static_decode_one [OF assms(1,2), of "''int32''"] parts(1) by simp
  ultimately show ?thesis
    using parts(4,5) by (simp add: decode_paged_list_of_owned_stakes_def decode_list_of_forger_stakes_def o_def assert_equal_def)
qed

lemma check_stake_same: "check_stake (stake_json s) (stake_tuple s) = Inr ()"
  by (cases s) (simp add: check_stake_def stake_entry_def stake_tuple_def bytes_at_def py_nth_def list_get_def bytes_to_hex_str_def
      hexlify_append assert_equal_def)

text \<open>C38. A page of stakes that the first version of the native contract returns is read back exactly, from the
  text of an \<^verbatim>\<open>eth_call\<close> as well as from the bytes of a call through another contract, and the comparison of
  the tests accepts what the two readers return for the same page.\<close>
theorem stake_page_roundtrip:
  assumes "static_abi T" and "abi_wf (AInt32 next)" and "length ss < 2 ^ 32" and "\<forall>s \<in> set ss. list_all abi_wf (stake_values s)"
  shows "get_paged_stakes_from_abi T (hexlify (encoded_page next (map stake_values ss))) = Inr (PInt next, map stake_json ss) \<and>
    decode_paged_list_of_owned_stakes T (encoded_page next (map stake_values ss)) (int (length ss)) = Inr (PInt next, map stake_tuple ss) \<and>
    check_list_of_stakes (PList (map stake_json ss)) (map stake_tuple ss) = Inr ()"
proof -
  have "rmap (\<lambda>i. rbind (py_nth (PList (map stake_json ss)) (int i)) (\<lambda>e. check_stake e (map stake_tuple ss ! i))) [0..<length ss]
    = rmap (\<lambda>i. Inr ()) [0..<length ss]"
    by (rule rmap_cong) (auto simp: py_nth_def list_get_def check_stake_same)
  then show ?thesis using stake_page_text [OF assms] stake_page_bytes [OF assms] by (simp add: check_list_of_stakes_def)
qed

section \<open>Associations\<close>

text \<open>The reference: the addresses in the order of their first occurrence, each with all that belongs to it.\<close>

definition grouped :: "(string \<times> string) list \<Rightarrow> (string \<times> string list) list" where
  "grouped ps = map (\<lambda>k. (k, map snd (filter (\<lambda>p. fst p = k) ps))) (rev (remdups (rev (map fst ps))))"

lemma dict_put_map: "k \<in> set ks \<Longrightarrow> distinct ks \<Longrightarrow> dict_put k v (map (\<lambda>x. (x, f x)) ks) = map (\<lambda>x. (x, (f(k := v)) x)) ks"
proof (induction ks)
  case (Cons a ks)
  then have "map (\<lambda>x. (x, (f(k := v)) x)) ks = map (\<lambda>x. (x, f x)) ks" if "a = k" using that by auto
  with Cons show ?case by auto
qed simp

lemma grouped_snoc: "grouped (ps @ [(k, m)]) = add_association k m (grouped ps)"
proof (cases "k \<in> fst ` set ps")
  case True
  then have "map_of (grouped ps) k = Some (map snd (filter (\<lambda>p. fst p = k) ps))" by (simp add: grouped_def map_of_map_restrict)
  with True show ?thesis
    by (simp add: add_association_def grouped_def dict_put_map)
next
  case False
  then have "map_of (grouped ps) k = None" by (simp add: grouped_def map_of_eq_None_iff image_image)
  moreover have "dict_put k [m] (grouped ps) = grouped ps @ [(k, [m])]" using False by (intro dict_put_new) (force simp: grouped_def)
  moreover have "dict_put k [m] (dict_put k [] d) = dict_put k [m] d" for d :: "(string \<times> string list) list"
    by (induction k "[m]" d rule: dict_put.induct) auto
  ultimately have "add_association k m (grouped ps) = grouped ps @ [(k, [m])]"
    by (simp add: add_association_def)
  moreover have "map snd (filter (\<lambda>p. fst p = k) (ps @ [(k, m)])) = [m]" using False by (force simp: filter_empty_conv)
  moreover have "map (\<lambda>x. (x, map snd (filter (\<lambda>p. fst p = x) (ps @ [(k, m)])))) (rev (remdups (rev (map fst ps)))) = grouped ps"
    using False by (auto simp: grouped_def)
  moreover have "rev (remdups (rev (map fst (ps @ [(k, m)])))) = rev (remdups (rev (map fst ps))) @ [k]" using False by simp
  ultimately show ?thesis by (simp add: grouped_def [of "ps @ [(k, m)]"] del: filter_append)
qed

fun association_values :: "nat list \<times> string \<Rightarrow> abi_value list" where
  "association_values (a, m) = [AAddr a, AFixed 3 (map of_char (take 3 m)), AFixed 32 (map of_char (drop 3 m))]"

definition encoded_associations :: "(nat list \<times> string) list \<Rightarrow> nat list" where
  "encoded_associations as = abi_words [AUint 32 32, AUint 32 (length as)] @ concat (map (\<lambda>p. abi_words (association_values p)) as)"

definition plain_address :: "string \<Rightarrow> bool" where
  "plain_address m \<longleftrightarrow> length m = 35 \<and> list_all (\<lambda>c. of_char c < (128 :: nat)) m"

lemma association_wf: "plain_address m \<Longrightarrow> abi_wf (AAddr a) \<Longrightarrow> list_all abi_wf (association_values (a, m))"
  by (auto simp: plain_address_def list_all_iff dest!: in_set_takeD in_set_dropD)

lemma decode_plain_address:
  assumes "plain_address m"
  shows "decode_utf8 (map of_char (take 3 m) @ map of_char (drop 3 m)) = Inr m"
proof -
  have "map of_char (take 3 m) @ map of_char (drop 3 m) = (map of_char m :: nat list)" by (metis append_take_drop_id map_append)
  moreover have "decode_utf8 (map of_char m) = Inr m" using assms by (simp add: decode_utf8_def plain_address_def list.pred_map o_def)
  ultimately show ?thesis by (simp only:)
qed

lemma read_association_encoded:
  assumes "static_abi T" and "plain_address m" and "abi_wf (AAddr a)" and "to_checksum_address (et_lib T) (''0x'' @ hexlify a) = Inr (ck a)"
  shows "read_association T (abi_words (association_values (a, m))) = Inr (ck a, m)"
proof -
  have "[''address'', ''bytes3'', ''bytes32''] = map abi_type (association_values (a, m))" by (simp add: type_names)
  from static_decode [OF assms(1) association_wf [OF assms(2,3)] this refl]
  have "decode T [''address'', ''bytes3'', ''bytes32''] (abi_words (association_values (a, m)))
    = Inr [PStr (''0x'' @ hexlify a), PBytes (map of_char (take 3 m)), PBytes (map of_char (drop 3 m))]" by simp
  then show ?thesis using assms(4) decode_plain_address [OF assms(2)] by (simp add: read_association_def)
qed

lemma read_associations_encoded:
  assumes "static_abi T"
    and "\<forall>(a, m) \<in> set as. plain_address m \<and> abi_wf (AAddr a) \<and> to_checksum_address (et_lib T) (''0x'' @ hexlify a) = Inr (ck a)"
  shows "read_associations T (pre @ concat (map (\<lambda>p. abi_words (association_values p)) as)) (length pre) (length as) (grouped ps)
    = Inr (grouped (ps @ map (\<lambda>(a, m). (ck a, m)) as))"
  using assms(2)
proof (induction as arbitrary: pre ps)
  case (Cons p as)
  obtain a m where p: "p = (a, m)" by fastforce
  let ?w = "abi_words (association_values (a, m))" and ?rest = "concat (map (\<lambda>p. abi_words (association_values p)) as)"
  have w: "length ?w = 96" "read_association T ?w = Inr (ck a, m)"
    using Cons.prems p association_wf [of m a] length_abi_words [of "association_values (a, m)"] read_association_encoded [OF assms(1), of m a ck]
    by auto
  have "py_slice (pre @ ?w @ ?rest) (length pre) (length pre + 96) = ?w" using w(1) by (simp add: py_slice_def)
  moreover have "read_associations T (pre @ ?w @ ?rest) (length pre + 96) (length as) (grouped (ps @ [(ck a, m)]))
    = Inr (grouped ((ps @ [(ck a, m)]) @ map (\<lambda>(a, m). (ck a, m)) as))"
    using Cons.IH [of "pre @ ?w" "ps @ [(ck a, m)]"] Cons.prems w(1) by simp
  ultimately show ?case using w(2) p by (simp add: Let_def grouped_snoc [symmetric])
qed simp

text \<open>C39. The list of associations that the contract returns becomes the dictionary of the reference: every
  sidechain address once, in the order of first occurrence, with all of its mainchain addresses in order.\<close>
theorem associations_grouped:
  assumes "static_abi T" and "length as < 2 ^ 32"
    and "\<forall>(a, m) \<in> set as. plain_address m \<and> abi_wf (AAddr a) \<and> to_checksum_address (et_lib T) (''0x'' @ hexlify a) = Inr (ck a)"
  shows "extract_sc_associations_list T (encoded_associations as) = Inr (grouped (map (\<lambda>(a, m). (ck a, m)) as))"
proof -
  let ?bs = "encoded_associations as"
  have wf: "abi_wf (AUint 32 32)" "abi_wf (AUint 32 (length as))" using assms(2) by simp_all
  have "py_slice ?bs 0 32 = abi_word (AUint 32 32)" "py_slice ?bs 32 64 = abi_word (AUint 32 (length as))"
    by (simp_all add: encoded_associations_def abi_words_def py_slice_def)
  then have "decode_one T ''uint32'' (py_slice ?bs 0 32) = Inr (PInt 32)" "decode_one T ''uint32'' (py_slice ?bs 32 64) = Inr (PInt (int (length as)))"
    using static_decode_one [OF assms(1) wf(1), of "''uint32''"] static_decode_one [OF assms(1) wf(2), of "''uint32''"] by (simp_all add: type_names)
  moreover have "read_associations T ?bs 64 (length as) [] = Inr (grouped (map (\<lambda>(a, m). (ck a, m)) as))"
    using read_associations_encoded [OF assms(1,3), of "abi_words [AUint 32 32, AUint 32 (length as)]" "[]"]
    by (simp add: encoded_associations_def grouped_def abi_words_def)
  ultimately show ?thesis by (simp add: extract_sc_associations_list_def assert_equal_def)
qed

section \<open>Arguments of a call\<close>

lemma read_digits_zeros: "read_digits 16 0 (replicate n (CHR ''0'') @ s) = read_digits 16 0 s"
  by (induction n) (simp_all add: digit_val_def)

lemma length_nat_str: "n < 16 ^ Suc k \<Longrightarrow> length (nat_str 16 n) \<le> Suc k"
proof (induction k arbitrary: n)
  case (Suc k)
  then have "n div 16 < 16 ^ Suc k" by (simp add: less_mult_imp_div_less mult.commute)
  with Suc.IH show ?case by (simp add: nat_str.simps [of 16 n])
qed (simp add: nat_str.simps)

text \<open>A position or size that is not negative is passed as 64 hexadecimal digits with its value. A negative
  one is not: the text contains a sign, so that the node is sent data that is not hexadecimal.\<close>
theorem padded_argument:
  assumes "static_abi T"
  shows "(0 \<le> i \<and> i < 2 ^ 256 \<longrightarrow> length (padded_32_hex T (py_hex i)) = 64 \<and> read_nat 16 (padded_32_hex T (py_hex i)) = Some (nat i)) \<and>
    (i < 0 \<longrightarrow> unhexlify (padded_32_hex T (py_hex i) @ rest) = None)"
proof -
  have strip: "remove_0x_prefix T (CHR ''0'' # CHR ''x'' # s) = s" "remove_0x_prefix T (CHR ''-'' # s) = CHR ''-'' # s" for s
    using assms by (simp_all add: static_abi_def)
  have "length (padded_32_hex T (py_hex i)) = 64 \<and> read_nat 16 (padded_32_hex T (py_hex i)) = Some (nat i)" if i: "0 \<le> i" "i < 2 ^ 256"
  proof -
    obtain c cs where c: "nat_str 16 (nat i) = c # cs" "c \<noteq> CHR ''+'' \<and> c \<noteq> CHR ''-''"
      using nat_str_plain [of 16 "nat i"] by (cases "nat_str 16 (nat i)") auto
    then have pad: "padded_32_hex T (py_hex i) = replicate (64 - length (nat_str 16 (nat i))) (CHR ''0'') @ nat_str 16 (nat i)"
      using i by (simp add: padded_32_hex_def py_hex_def strip zfill_def py_rjust_def)
    have "nat i < 16 ^ Suc 63" using i by simp
    then have "length (nat_str 16 (nat i)) \<le> 64" using length_nat_str [of "nat i" 63] by simp
    then show ?thesis using read_nat_nat_str [of 16 "nat i"] by (simp add: pad read_nat_def read_digits_zeros)
  qed
  moreover have "unhexlify (padded_32_hex T (py_hex i) @ rest) = None" if "i < 0"
    using that by (cases "64 - length (py_hex i)") (auto simp: padded_32_hex_def py_hex_def strip zfill_def digit_val_def)
  ultimately show ?thesis by blast
qed

section \<open>A decoder for the examples\<close>

definition be_val :: "nat list \<Rightarrow> nat" where
  "be_val bs = foldl (\<lambda>a b. a * 256 + b) 0 bs"

definition word_py :: "string \<Rightarrow> nat list \<Rightarrow> pyval" where
  "word_py t w =
     (if t = ''address'' then PStr (''0x'' @ hexlify (drop 12 w))
      else if t = ''int32'' then PInt (if be_val w < 2 ^ 255 then int (be_val w) else int (be_val w) - 2 ^ 256)
      else if t = ''bytes1'' then PBytes (take 1 w)
      else if t = ''bytes3'' then PBytes (take 3 w)
      else if t = ''bytes20'' then PBytes (take 20 w)
      else if t = ''bytes32'' then PBytes w
      else PInt (int (be_val w)))"

definition words_py :: "string list \<Rightarrow> nat list \<Rightarrow> pyval list" where
  "words_py ts bs = map2 word_py ts (array_chunks 32 (length ts) bs)"

definition tuple_types :: "string \<Rightarrow> string list" where
  "tuple_types t = (if t = ''()'' then [] else py_split (CHR '','') (butlast (tl t)))"

definition word_decode :: "string list \<Rightarrow> nat list \<Rightarrow> pyval list res" where
  "word_decode ts bs = (case ts of
      [t] \<Rightarrow> if is_prefix ''('' t then Inr [PTuple (words_py (tuple_types t) bs)] else Inr (words_py ts bs)
    | _ \<Rightarrow> Inr (words_py ts bs))"

definition sample_tools :: eth_tools where
  "sample_tools = \<lparr>et_lib = sample_lib\<lparr>abi_decode := word_decode\<rparr>,
     remove_0x_prefix = \<lambda>s. if is_prefix ''0x'' s \<or> is_prefix ''0X'' s then drop 2 s else s,
     encode_hex = \<lambda>bs. ''0x'' @ hexlify bs, function_selector = \<lambda>s. map of_char (take 4 s),
     event_topic = \<lambda>s. map of_char (take 32 (s @ replicate 32 (CHR ''_''))), b58decode_check = \<lambda>s. Inr (0 # 0 # map of_char s)\<rparr>"

lemma be_val_snoc: "be_val (bs @ [b]) = be_val bs * 256 + b"
  by (simp add: be_val_def)

lemma be_val_be_bytes: "be_val (be_bytes k n) = n mod 256 ^ k"
proof (induction k arbitrary: n)
  case (Suc k)
  have "n mod 256 ^ Suc k = (n div 256 mod 256 ^ k) * 256 + n mod 256" by (simp add: mod_mult2_eq mult.commute)
  with Suc show ?case by (simp add: be_val_snoc)
qed (simp add: be_val_def)

lemma word_py_abi: "abi_wf v \<Longrightarrow> word_py (abi_type v) (abi_word v) = abi_py v"
proof (cases v)
  case (AInt32 i)
  moreover assume "abi_wf v"
  moreover have "i mod 2 ^ 256 = i + 2 ^ 256" if "- (2 ^ 31) \<le> i" "i < 0"
    using that mod_pos_pos_trivial [of "i + 2 ^ 256" "2 ^ 256"] by simp
  ultimately show ?thesis by (cases "i < 0") (auto simp: word_py_def be_val_be_bytes)
qed (auto simp: word_py_def be_val_be_bytes type_names)

lemma words_py_abi: "list_all abi_wf vs \<Longrightarrow> words_py (map abi_type vs) (abi_words vs) = map abi_py vs"
proof (induction vs)
  case (Cons v vs)
  then show ?case by (simp add: words_py_def abi_words_def array_chunks_Suc word_py_abi)
qed (simp add: words_py_def)

lemma py_split_word: "d \<notin> set w \<Longrightarrow> py_split d w = [w]"
  by (induction w) auto

lemma py_split_cons: "d \<notin> set w \<Longrightarrow> py_split d (w @ d # r) = w # py_split d r"
  by (induction w) auto

lemma py_split_join: "ts \<noteq> [] \<Longrightarrow> \<forall>t \<in> set ts. d \<notin> set t \<Longrightarrow> py_split d (py_join [d] ts) = ts"
  by (induction "[d]" ts rule: py_join.induct) (auto simp: py_split_word py_split_cons)

lemma abi_type_plain: "abi_wf v \<Longrightarrow> CHR '','' \<notin> set (abi_type v) \<and> hd (abi_type v) \<noteq> CHR ''('' \<and> abi_type v \<noteq> []"
  by (cases v) (auto simp: type_names)

lemma tuple_types_abi:
  assumes "list_all abi_wf vs"
  shows "tuple_types (tuple_type (map abi_type vs)) = map abi_type vs"
proof (cases vs)
  case (Cons v ws)
  have "\<forall>t \<in> set (map abi_type vs). CHR '','' \<notin> set t" using assms abi_type_plain by (auto simp: list_all_iff)
  moreover obtain c cs where "abi_type v = c # cs" using assms Cons abi_type_plain [of v] by (cases "abi_type v") auto
  then have "py_join '','' (map abi_type vs) \<noteq> []" by (cases ws) (simp_all add: Cons)
  ultimately show ?thesis
    using Cons py_split_join [of "map abi_type vs" "CHR '',''"] by (auto simp: tuple_types_def tuple_type_def butlast_append)
qed (simp add: tuple_types_def tuple_type_def)

lemma sample_tools_abi: "static_abi sample_tools"
proof -
  have "word_decode (map abi_type vs) (abi_words vs) = Inr (map abi_py vs)" if "list_all abi_wf vs" for vs
  proof -
    have "\<not> is_prefix ''('' (abi_type v)" if "abi_wf v" for v using abi_type_plain [OF that] by (cases "abi_type v") auto
    then show ?thesis using words_py_abi [OF that] that by (auto simp: word_decode_def split: list.splits simp del: is_prefix.simps)
  qed
  moreover have "word_decode [tuple_type (map abi_type vs)] (abi_words vs) = Inr [PTuple (map abi_py vs)]" if "list_all abi_wf vs" for vs
  proof -
    have "is_prefix ''('' (tuple_type (map abi_type vs))" by (simp add: tuple_type_def)
    then show ?thesis using words_py_abi [OF that] tuple_types_abi [OF that] by (simp add: word_decode_def)
  qed
  ultimately show ?thesis by (simp add: static_abi_def sample_tools_def)
qed

text \<open>One element of every kind.\<close>

abbreviation ones :: "nat \<Rightarrow> nat list" where
  "ones n \<equiv> replicate n 1"

theorem forger_pages_roundtrip_witness:
  "decode_paged_list_of_forgers sample_tools (encoded_page (-1) (map forger_values [(ones 32, ones 32, [7], 15, ones 20)]))
     = Inr (PInt (-1), [forger_tuple (ones 32, ones 32, [7], 15, ones 20)])"
proof -
  have "\<forall>f \<in> set [(ones 32, ones 32, [7], 15, ones 20)]. list_all abi_wf (forger_values f)" by (simp add: list_all_iff)
  then show ?thesis
    using forger_pages_roundtrip [OF sample_tools_abi, of "-1" "[(ones 32, ones 32, [7], 15, ones 20)]" "[]" "[]"] by simp
qed

theorem stake_page_roundtrip_witness:
  "get_paged_stakes_from_abi sample_tools (hexlify (encoded_page 3 (map stake_values [(ones 32, 10 ^ 18, ones 20, ones 32, ones 32, [7])])))
     = Inr (PInt 3, [stake_json (ones 32, 10 ^ 18, ones 20, ones 32, ones 32, [7])])"
proof -
  have "\<forall>s \<in> set [(ones 32, 10 ^ 18, ones 20, ones 32, ones 32, [7])]. list_all abi_wf (stake_values s)" by (simp add: list_all_iff)
  then show ?thesis
    using stake_page_roundtrip [OF sample_tools_abi, of 3 "[(ones 32, 10 ^ 18, ones 20, ones 32, ones 32, [7])]"] by simp
qed

definition sample_mc_address :: string where
  "sample_mc_address = replicate 35 (CHR ''z'')"

theorem associations_grouped_witness:
  "extract_sc_associations_list sample_tools (encoded_associations [(ones 20, sample_mc_address), (ones 20, sample_mc_address)])
     = Inr [(''0x'' @ hexlify (ones 20), [sample_mc_address, sample_mc_address])]"
proof -
  have "plain_address sample_mc_address" by (simp add: plain_address_def sample_mc_address_def list_all_iff)
  moreover have "to_checksum_address (et_lib sample_tools) s = Inr s" for s by (simp add: sample_tools_def sample_lib_def)
  ultimately show ?thesis
    using associations_grouped [OF sample_tools_abi, of "[(ones 20, sample_mc_address), (ones 20, sample_mc_address)]" "\<lambda>a. ''0x'' @ hexlify a"]
    by (simp add: grouped_def list_all_iff)
qed

theorem padded_argument_witness:
  "length (padded_32_hex sample_tools (py_hex 17)) = 64 \<and> read_nat 16 (padded_32_hex sample_tools (py_hex 17)) = Some 17 \<and>
    unhexlify (padded_32_hex sample_tools (py_hex (-2))) = None"
  using padded_argument [OF sample_tools_abi, of 17 "[]"] padded_argument [OF sample_tools_abi, of "-2" "[]"] by simp

end
