(* ===== verification/Stakes_Pager.thy ===== *)
theory Stakes_Pager
  imports Abi_Results
begin

text \<open>
  The test \<^verbatim>\<open>qa/sc_evm_forger_stakes_pager.py\<close>: the list of forger stakes, page by page, over \<^verbatim>\<open>eth_call\<close> and over
  the REST interface. The two loops of the test that follow the next position are \<open>collect_pages\<close>.
\<close>

section \<open>Requests\<close>

text \<open>\<^verbatim>\<open>str(e)\<close>: an \<^verbatim>\<open>SCAPIException\<close> keeps its text in an attribute.\<close>

definition exn_str :: "pyerr \<Rightarrow> string" where
  "exn_str e = (if err_kind e = SCAPIException then [] else err_msg e)"

definition http_page :: "'w env \<Rightarrow> sc_node \<Rightarrow> int \<Rightarrow> int \<Rightarrow> ('w, pyval) prog" where
  "http_page E sc_node page_size start_pos =
     post_json E sc_node ''transaction_pagedForgingStakes'' (PDict [(''size'', PInt page_size), (''startPos'', PInt start_pos)])"

definition http_page_result :: "'w env \<Rightarrow> sc_node \<Rightarrow> int \<Rightarrow> int \<Rightarrow> ('w, pyval) prog" where
  "http_page_result E sc_node page_size start_pos = pbind (http_page E sc_node page_size start_pos) (\<lambda>r. plift (py_get r ''result''))"

text \<open>One round of the loop; the variables are the next position and the two lists.\<close>

definition page_round ::
  "'w env \<Rightarrow> eth_tools \<Rightarrow> sc_node \<Rightarrow> sc_node \<Rightarrow> string \<Rightarrow> int \<Rightarrow> pyval \<times> pyval list \<times> pyval list \<Rightarrow> ('w, bool \<times> pyval \<times> pyval list \<times> pyval list) prog" where
  "page_round E T sc_node_1 sc_node_2 address page_size = (\<lambda>(next_pos, list_all, list_all_http_api).
     pbind (plift (as_int next_pos)) (\<lambda>start_pos.
     pbind (get_paged_forging_stakes_via_eth_call E T sc_node_2 address start_pos page_size) (\<lambda>(next_pos, stake_list).
     pbind (http_page_result E sc_node_1 page_size start_pos) (\<lambda>http_api_res.
     pbind (plift (py_get http_api_res ''nextPos'')) (\<lambda>http_next.
     pseq (check_eq http_next next_pos []) (
     pbind (plift (rbind (py_get http_api_res ''stakes'') py_items)) (\<lambda>http_stakes.
       pret (py_eq next_pos (PInt (-1)), next_pos, list_all @ stake_list, list_all_http_api @ http_stakes))))))))"

definition collect_pages :: "'w env \<Rightarrow> eth_tools \<Rightarrow> sc_node \<Rightarrow> sc_node \<Rightarrow> string \<Rightarrow> int \<Rightarrow> ('w, pyval list \<times> pyval list) prog" where
  "collect_pages E T sc_node_1 sc_node_2 address page_size =
     pbind (py_loop_with (page_round E T sc_node_1 sc_node_2 address page_size) (PInt 0, [], [])) (\<lambda>(_, list_all, list_all_http_api).
       pret (list_all, list_all_http_api))"

section \<open>Steps of the test\<close>

definition NUM_OF_STAKES :: int where "NUM_OF_STAKES = 51"
definition NUM_OF_STAKE_TXES :: int where "NUM_OF_STAKE_TXES = 50"

text \<open>The arguments that the test gives to the constructor of its base class.\<close>

definition pager_setup :: "account_setup \<Rightarrow> account_setup" where
  "pager_setup args = args\<lparr>as_number_of_sidechain_nodes := 2, as_max_account_slots := NUM_OF_STAKE_TXES, as_max_nonce_gap := NUM_OF_STAKE_TXES,
     as_forward_amount := PInt 99, as_block_timestamp_rewind := PInt (720 * 120 * 10)\<rparr>"

definition refused_with :: "'w env \<Rightarrow> eth_tools \<Rightarrow> sc_node \<Rightarrow> string \<Rightarrow> string \<Rightarrow> ('w, unit) prog" where
  "refused_with E T node address reason =
     expect_failure PlainException (get_paged_forging_stakes_via_eth_call E T node address 0 10)
       (\<lambda>e. check_that (is_substr reason (exn_str e)) []) ''Paginated api should not be active before shanghai fork activation''"

definition http_error :: "'w env \<Rightarrow> sc_node \<Rightarrow> string \<Rightarrow> string \<Rightarrow> ('w, unit) prog" where
  "http_error E node field reason =
     pbind (http_page E node 10 0) (\<lambda>ret.
     pbind (plift (py_in ''error'' ret)) (\<lambda>has_error.
     pseq (check_that has_error []) (
     pbind (plift (rbind (py_path ret [''error'', field]) (py_in reason))) (\<lambda>found. check_that found []))))"

definition make_stake :: "'w env \<Rightarrow> sc_node \<Rightarrow> pyval \<Rightarrow> pyval \<Rightarrow> pyval \<Rightarrow> int \<Rightarrow> int \<Rightarrow> ('w, int) prog" where
  "make_stake E node owner sign_key vrf_key i nonce =
     pbind (ac_makeForgerStake E node owner sign_key vrf_key (PInt (convertZenToZennies (NFlt (fl (1 / 10 ^ 6))))) (PInt nonce)) (\<lambda>result.
     pbind (plift (py_in ''result'' result)) (\<lambda>ok.
     pbind (plift (json_dumps result)) (\<lambda>text.
     pseq (if ok then pret () else plift (fail (''make forger stake failed: '' @ text))) (
     pseq (if i mod NUM_OF_STAKE_TXES = 0 then pseq (generate_next_block E node ''first node'' False PNone) (sc_sync_all E False) else pret ())
       (pret (nonce + 1))))))"

definition make_stakes :: "'w env \<Rightarrow> eth_tools \<Rightarrow> sc_node \<Rightarrow> sc_node \<Rightarrow> string \<Rightarrow> ('w, unit) prog" where
  "make_stakes E T sc_node_1 sc_node_2 owner =
     pbind (plift (format_evm (et_lib T) owner)) (\<lambda>a.
     pbind (sc_field E sc_node_1 ''rpc_eth_getTransactionCount'' [PStr a, PStr ''latest''] [''result'']) (\<lambda>count.
     pbind (plift (py_int16 count)) (\<lambda>on_chain_nonce.
     pbind (sc_field E sc_node_2 ''wallet_createPrivateKey25519'' [] [''result'', ''proposition'', ''publicKey'']) (\<lambda>sign_key.
     pbind (sc_field E sc_node_2 ''wallet_createVrfSecret'' [] [''result'', ''proposition'', ''publicKey'']) (\<lambda>vrf_key.
     pseq (pfold (make_stake E sc_node_1 (PStr owner) sign_key vrf_key) (py_range NUM_OF_STAKES) on_chain_nonce) (
     pseq (generate_next_block E sc_node_1 ''first node'' False PNone)
       (sc_sync_all E False)))))))"

text \<open>The whole list in one page, then page by page.\<close>

definition one_page :: "'w env \<Rightarrow> eth_tools \<Rightarrow> sc_node \<Rightarrow> sc_node \<Rightarrow> string \<Rightarrow> ('w, pyval) prog" where
  "one_page E T sc_node_1 sc_node_2 address =
     pbind (get_paged_forging_stakes_via_eth_call E T sc_node_2 address 0 (NUM_OF_STAKES + 1)) (\<lambda>(next_pos, stake_list).
     pbind (http_page_result E sc_node_1 (NUM_OF_STAKES + 1) 0) (\<lambda>http_api_res.
     pbind (sc_field E sc_node_1 ''transaction_allForgingStakes'' [] [''result'']) (\<lambda>http_api_all_res.
     pbind (plift (py_get http_api_res ''nextPos'')) (\<lambda>http_next.
     pseq (check_eq http_next next_pos []) (
     pseq (check_eq http_next (PInt (-1)) []) (
     pbind (plift (py_get http_api_res ''stakes'')) (\<lambda>stakes.
     pseq (check_eq stakes (PList stake_list) []) (
     pbind (plift (py_get http_api_all_res ''stakes'')) (\<lambda>all_stakes.
     pseq (check_eq all_stakes (PList stake_list) []) (pret all_stakes))))))))))"

definition all_pages :: "'w env \<Rightarrow> eth_tools \<Rightarrow> sc_node \<Rightarrow> sc_node \<Rightarrow> string \<Rightarrow> pyval \<Rightarrow> int \<Rightarrow> ('w, unit) prog" where
  "all_pages E T sc_node_1 sc_node_2 address all_stakes page_size =
     pbind (collect_pages E T sc_node_1 sc_node_2 address page_size) (\<lambda>(list_all, list_all_http_api).
     pseq (check_eq all_stakes (PList list_all) [])
       (check_eq all_stakes (PList list_all_http_api) []))"

definition bad_page :: "'w env \<Rightarrow> eth_tools \<Rightarrow> sc_node \<Rightarrow> string \<Rightarrow> int \<Rightarrow> int \<Rightarrow> string \<Rightarrow> ('w, unit) prog" where
  "bad_page E T node address start_pos page_size msg =
     expect_failure PlainException (get_paged_forging_stakes_via_eth_call E T node address start_pos page_size) (\<lambda>e. pret ()) msg"

definition bad_size :: "'w env \<Rightarrow> eth_tools \<Rightarrow> sc_node \<Rightarrow> sc_node \<Rightarrow> string \<Rightarrow> int \<Rightarrow> ('w, unit) prog" where
  "bad_size E T sc_node_1 sc_node_2 address page_size =
     pseq (bad_page E T sc_node_2 address 0 page_size ''Paginated api should fail with bad size value'')
       (expect_failure SCAPIException (http_page E sc_node_1 page_size 0)
         (\<lambda>e. check_that (is_substr ''Size must be positive'' (err_msg e)) []) ''Paginated api should fail with bad size value'')"

definition interop_page ::
  "'w env \<Rightarrow> eth_tools \<Rightarrow> (string \<Rightarrow> (string \<times> string list) list) \<Rightarrow> smart_contract \<Rightarrow> sc_node \<Rightarrow> string \<Rightarrow> ('w, unit) prog" where
  "interop_page E T walk native_contract sc_node_1 address =
     pbind (http_page_result E sc_node_1 5 4) (\<lambda>http_api_res.
     pbind (SimpleProxyContract E (et_lib T) walk sc_node_1 address True) (\<lambda>proxy_contract.
     pbind (plift (rbind (raw_encode_call (et_lib T) native_contract ''getPagedForgersStakes(int32,int32)'' [PInt 4, PInt 5]) as_str)) (\<lambda>native_input.
     pbind (do_static_call E (et_lib T) proxy_contract address (PInt 2) (PStr FORGER_STAKE_SMART_CONTRACT_ADDRESS) (PStr (format_eoa native_input))) (\<lambda>interop_res.
     pbind (plift (rbind (as_bytes interop_res) (\<lambda>b. get_paged_stakes_from_abi T (bytes_to_hex_str b)))) (\<lambda>(interop_next_pos, interop_stakes).
     pbind (plift (py_get http_api_res ''stakes'')) (\<lambda>stakes.
     pseq (check_eq (PList interop_stakes) stakes []) (
     pbind (plift (py_get http_api_res ''nextPos'')) (\<lambda>next_pos. check_eq interop_next_pos next_pos []))))))))"

definition pager_run_test ::
  "'w env \<Rightarrow> eth_tools \<Rightarrow> (string \<Rightarrow> (string \<times> string list) list) \<Rightarrow> account_options \<Rightarrow> account_setup \<Rightarrow> ('w, unit) prog" where
  "pager_run_test E T walk options self =
     (if op_all_forks options then praise SystemExit [] []
      else pbind (mc_nth 0) (\<lambda>mc_node.
       pbind (sc_nth 0) (\<lambda>sc_node_1.
       pbind (sc_nth 1) (\<lambda>sc_node_2.
       pbind (new_address E sc_node_1) (\<lambda>address1.
       pbind (new_address E sc_node_2) (\<lambda>address2.
       pseq (forward_to E self mc_node address1 (PDec 100) True) (
       pseq (forward_to E self mc_node address2 (PDec 100) True) (
       pseq (generate_next_block E sc_node_1 ''first node'' False PNone) (
       pseq (sc_sync_all E False) (
       pbind (plift (as_str address2)) (\<lambda>addr2.
       pseq (refused_with E T sc_node_2 addr2 ''op code not supported'') (
       pseq (http_error E sc_node_1 ''description'' ''can not invoke'') (
       pseq (reach_epoch E sc_node_1 VERSION_1_3_FORK_EPOCH) (
       pseq (refused_with E T sc_node_2 addr2 ''Forger stake storage not upgraded yet'') (
       pseq (http_error E sc_node_1 ''detail'' ''array size'') (
       pbind (SmartContract E walk ''ForgerStakes'') (\<lambda>native_contract.
       pseq (contract_function_call E (et_lib T) sc_node_2 native_contract FORGER_STAKE_SMART_CONTRACT_ADDRESS addr2 ''upgrade()'' [] 0 None (PStr ''latest'')) (
       pseq (generate_next_block E sc_node_1 ''first node'' False PNone) (
       pbind (plift (as_str address1)) (\<lambda>addr1.
       pseq (make_stakes E T sc_node_1 sc_node_2 addr1) (
       pbind (one_page E T sc_node_1 sc_node_2 addr2) (\<lambda>all_stakes.
       pseq (all_pages E T sc_node_1 sc_node_2 addr2 all_stakes (NUM_OF_STAKES div 3)) (
       pseq (all_pages E T sc_node_1 sc_node_2 addr2 all_stakes 1) (
       pseq (bad_page E T sc_node_2 addr2 (2 * NUM_OF_STAKES) 10 ''Paginated api should fail with bad start_pos value'') (
       pseq (expect_failure PlainException (http_page_result E sc_node_1 10 (2 * NUM_OF_STAKES)) (\<lambda>e. pret ()) ''Paginated api should fail with bad indexes'') (
       pseq (bad_size E T sc_node_1 sc_node_2 addr2 (-2)) (
       pseq (bad_size E T sc_node_1 sc_node_2 addr2 0)
         (interop_page E T walk native_contract sc_node_1 addr1))))))))))))))))))))))))))))"

section \<open>Properties\<close>

text \<open>
  What a node does that pages a fixed list of stakes: from a position in the list the next elements up to the size of
  the page, and the position after them, or -1 at the end. Over \<^verbatim>\<open>eth_call\<close> the position and the size, in this order,
  are the two words of 64 hexadecimal digits behind the selector in the data of a call of the contract of the forger
  stakes, and the answer is the ABI encoding of the page; over REST they are the fields \<^verbatim>\<open>startPos\<close> and \<^verbatim>\<open>size\<close> of the
  request, and the answer has the stakes as JSON. Answers may have other fields.
\<close>

definition page_of :: "'a list \<Rightarrow> int \<Rightarrow> int \<Rightarrow> 'a list" where
  "page_of S start page_size = take (nat page_size) (drop (nat start) S)"

definition next_of :: "'a list \<Rightarrow> int \<Rightarrow> int \<Rightarrow> int" where
  "next_of S start page_size = (if start + page_size < int (length S) then start + page_size else - 1)"

definition pages_by_call :: "'w env \<Rightarrow> eth_tools \<Rightarrow> sc_node \<Rightarrow> string \<Rightarrow> stake list \<Rightarrow> bool" where
  "pages_by_call E T node contract S \<longleftrightarrow> (\<forall>request a b start size w.
     py_get request ''to'' = Inr (PStr contract) \<and>
     py_get request ''data'' = Inr (PStr (encode_hex T (function_selector T ''getPagedForgersStakes(int32,int32)'') @ a @ b)) \<and>
     length a = 64 \<and> read_nat 16 a = Some start \<and> length b = 64 \<and> read_nat 16 b = Some size \<and> 0 < size \<and> start < length S \<longrightarrow>
     (\<exists>r. fst (e_sc_api E node ''rpc_eth_call'' [request, PStr ''latest''] [] w) = Inr r \<and> py_in ''error'' r = Inr False \<and>
       py_get r ''result'' = Inr (PStr (''0x'' @ hexlify (encoded_page (next_of S (int start) (int size)) (map stake_values (page_of S (int start) (int size))))))))"

definition pages_by_rest :: "'w env \<Rightarrow> sc_node \<Rightarrow> stake list \<Rightarrow> bool" where
  "pages_by_rest E node S \<longleftrightarrow> (\<forall>body d start size w. json_loads body = Inr (PDict d) \<and> map_of d ''startPos'' = Some (PInt start) \<and>
     map_of d ''size'' = Some (PInt size) \<and> 0 < size \<and> 0 \<le> start \<and> start < int (length S) \<longrightarrow>
     (\<exists>r v. fst (e_sc_api E node ''transaction_pagedForgingStakes'' [PStr body] [] w) = Inr r \<and> py_get r ''result'' = Inr v \<and>
       py_get v ''nextPos'' = Inr (PInt (next_of S start size)) \<and> py_get v ''stakes'' = Inr (PList (map stake_json (page_of S start size)))))"

definition serves_pages :: "'w env \<Rightarrow> eth_tools \<Rightarrow> sc_node \<Rightarrow> sc_node \<Rightarrow> stake list \<Rightarrow> bool" where
  "serves_pages E T sc_node_1 sc_node_2 S \<longleftrightarrow> pages_by_rest E sc_node_1 S \<and>
     (\<exists>contract. to_checksum_address (et_lib T) FORGER_STAKE_SMART_CONTRACT_ADDRESS = Inr contract \<and> pages_by_call E T sc_node_2 contract S)"

text \<open>What the stakes and the page size must be for their encodings to exist.\<close>

definition encodable :: "stake list \<Rightarrow> int \<Rightarrow> bool" where
  "encodable S page_size \<longleftrightarrow> length S < 2 ^ 31 \<and> (\<forall>x \<in> set S. list_all abi_wf (stake_values x)) \<and> 0 < page_size \<and> page_size < 2 ^ 31"

lemma eth_page_served:
  assumes "static_abi T" and "serves_pages E T n1 n2 S" and ok: "encodable S k" and start: "0 \<le> start" "start < int (length S)"
    and caller: "to_checksum_address (et_lib T) a = Inr sender"
  shows "\<exists>t. get_paged_forging_stakes_via_eth_call E T n2 a start k s = Some (Inr (PInt (next_of S start k), map stake_json (page_of S start k)), t)"
proof -
  from assms(2) obtain contract where contract: "to_checksum_address (et_lib T) FORGER_STAKE_SMART_CONTRACT_ADDRESS = Inr contract"
    and call: "pages_by_call E T n2 contract S" unfolding serves_pages_def by blast
  let ?pad = "\<lambda>i. padded_32_hex T (py_hex i)"
  let ?request = "PDict [(''from'', PStr sender), (''to'', PStr contract), (''gasLimit'', PInt 2300000), (''gasPrice'', PInt 950000000), (''value'', PInt 0),
    (''data'', PStr (encode_hex T (function_selector T ''getPagedForgersStakes(int32,int32)'') @ ?pad start @ ?pad k))]"
  have len: "length S < 2 ^ 31" and k: "0 < k" "k < 2 ^ 31" using ok unfolding encodable_def by blast+
  have "int (length S) < 2 ^ 31" using len by simp
  then have bounds: "start < 2 ^ 256" "0 \<le> k" "k < 2 ^ 256" "0 < k" "length S < 2 ^ 31" using k len start by simp_all
  have "length (?pad start) = 64" "read_nat 16 (?pad start) = Some (nat start)" "length (?pad k) = 64" "read_nat 16 (?pad k) = Some (nat k)"
    using padded_argument [OF assms(1), of start "[]"] padded_argument [OF assms(1), of k "[]"] start bounds by simp_all
  moreover have "py_get ?request ''to'' = Inr (PStr contract)"
    "py_get ?request ''data'' = Inr (PStr (encode_hex T (function_selector T ''getPagedForgersStakes(int32,int32)'') @ ?pad start @ ?pad k))" by simp_all
  moreover have "0 < nat k" "nat start < length S" "int (nat start) = start" "int (nat k) = k" using start bounds by simp_all
  ultimately obtain r where r: "fst (e_sc_api E n2 ''rpc_eth_call'' [?request, PStr ''latest''] [] (w_ext s)) = Inr r" "py_in ''error'' r = Inr False"
    "py_get r ''result'' = Inr (PStr (''0x'' @ hexlify (encoded_page (next_of S start k) (map stake_values (page_of S start k)))))"
    using call [unfolded pages_by_call_def, rule_format, of ?request "?pad start" "?pad k" "nat start" "nat k" "w_ext s"] by auto
  have "abi_wf (AInt32 (next_of S start k))" using ok start by (auto simp: next_of_def encodable_def)
  moreover have "length (page_of S start k) < 2 ^ 32" using bounds by (simp add: page_of_def)
  moreover have "\<forall>x \<in> set (page_of S start k). list_all abi_wf (stake_values x)"
    using ok unfolding encodable_def page_of_def by (meson in_set_dropD in_set_takeD)
  ultimately have "get_paged_stakes_from_abi T (hexlify (encoded_page (next_of S start k) (map stake_values (page_of S start k))))
      = Inr (PInt (next_of S start k), map stake_json (page_of S start k))" by (rule stake_page_text [OF assms(1)])
  moreover have "remove_0x_prefix T (''0x'' @ x) = x" for x using assms(1) by (simp add: static_abi_def)
  ultimately show ?thesis using r
    by (simp add: get_paged_forging_stakes_via_eth_call_def format_evm_def caller contract pbind_run sc_call_run del: py_get.simps py_in.simps)
qed

lemma rest_page_served:
  assumes "serves_pages E T n1 n2 S" and "0 < k" and "0 \<le> start" and "start < int (length S)"
  shows "\<exists>v t. http_page_result E n1 k start s = Some (Inr v, t) \<and> py_get v ''nextPos'' = Inr (PInt (next_of S start k)) \<and>
    py_get v ''stakes'' = Inr (PList (map stake_json (page_of S start k)))"
proof -
  let ?d = "[(''size'', PInt k), (''startPos'', PInt start)]"
  have v: "json_value (PDict ?d)" by simp
  obtain body where body: "json_dumps (PDict ?d) = Inr body" using json_dumps_total [OF v] by blast
  with json_roundtrip [OF v] have loads: "json_loads body = Inr (PDict ?d)" by simp
  have rest: "pages_by_rest E n1 S" using assms(1) by (simp add: serves_pages_def)
  from rest [unfolded pages_by_rest_def, rule_format, of body ?d start k "w_ext s"] loads assms(2-4) obtain r x
    where "fst (e_sc_api E n1 ''transaction_pagedForgingStakes'' [PStr body] [] (w_ext s)) = Inr r" "py_get r ''result'' = Inr x"
      "py_get x ''nextPos'' = Inr (PInt (next_of S start k))" "py_get x ''stakes'' = Inr (PList (map stake_json (page_of S start k)))" by auto
  with body show ?thesis by (simp add: http_page_result_def http_page_def post_json_def pbind_run sc_call_run del: json_dumps.simps py_get.simps)
qed

lemma page_round_served:
  assumes "static_abi T" and "serves_pages E T n1 n2 S" and "encodable S k" and "to_checksum_address (et_lib T) a = Inr sender"
    and "0 \<le> start" and "start < int (length S)"
  shows "\<exists>t. page_round E T n1 n2 a k (PInt start, xs, ys) s =
    Some (Inr (next_of S start k = - 1, PInt (next_of S start k), xs @ map stake_json (page_of S start k), ys @ map stake_json (page_of S start k)), t)"
proof -
  obtain u where u: "get_paged_forging_stakes_via_eth_call E T n2 a start k s = Some (Inr (PInt (next_of S start k), map stake_json (page_of S start k)), u)"
    using eth_page_served [OF assms(1-3,5,6,4)] by blast
  have "0 < k" using assms(3) by (simp add: encodable_def)
  from rest_page_served [OF assms(2) this assms(5,6), of u] obtain v t where "http_page_result E n1 k start u = Some (Inr v, t)"
    "py_get v ''nextPos'' = Inr (PInt (next_of S start k))" "py_get v ''stakes'' = Inr (PList (map stake_json (page_of S start k)))" by blast
  with u show ?thesis by (simp add: page_round_def pbind_run assert_equal_def del: py_eq.simps py_get.simps)
qed

lemma pages_from:
  assumes served: "static_abi T" "serves_pages E T n1 n2 S" "encodable S k" "to_checksum_address (et_lib T) a = Inr sender"
    and start: "0 \<le> start" "start < int (length S)"
  shows "\<exists>t. py_loop_with (page_round E T n1 n2 a k) (PInt start, map stake_json (take (nat start) S), map stake_json (take (nat start) S)) s
    = Some (Inr (PInt (- 1), map stake_json S, map stake_json S), t)"
  using start
proof (induction "nat (int (length S) - start)" arbitrary: start s rule: less_induct)
  case less
  let ?seen = "\<lambda>n. map stake_json (take (nat n) S)"
  have k: "0 < k" using served(3) by (simp add: encodable_def)
  have whole: "?seen start @ map stake_json (page_of S start k) = ?seen (start + k)"
    using less.prems(1) k by (simp add: page_of_def nat_add_distrib take_add flip: map_append)
  from page_round_served [OF served less.prems, of "?seen start" "?seen start" s] obtain t
    where round: "page_round E T n1 n2 a k (PInt start, ?seen start, ?seen start) s =
      Some (Inr (next_of S start k = - 1, PInt (next_of S start k), ?seen (start + k), ?seen (start + k)), t)" unfolding whole by blast
  show ?case
  proof (cases "start + k < int (length S)")
    case True
    with less.prems k have "nat (int (length S) - (start + k)) < nat (int (length S) - start)" "0 \<le> start + k" by simp_all
    note rest = less.hyps [OF this True, of t]
    have "page_round E T n1 n2 a k (PInt start, ?seen start, ?seen start) s = Some (Inr (False, PInt (start + k), ?seen (start + k), ?seen (start + k)), t)"
      using round True less.prems k by (simp add: next_of_def)
    with rest show ?thesis by (simp add: py_loop_with_again)
  next
    case False
    then have "next_of S start k = - 1" "take (nat (start + k)) S = S" by (simp_all add: next_of_def)
    with round show ?thesis using py_loop_with_break by fastforce
  qed
qed


text \<open>A node that reads the position and the size from the request and pages three stakes.\<close>

definition sample_stake :: "nat \<Rightarrow> stake" where
  "sample_stake n = (ones 32, n, ones 20, ones 32, ones 32, [7])"

definition three_stakes :: "stake list" where
  "three_stakes = [sample_stake 100, sample_stake 200, sample_stake 300]"

definition answer_call :: "pyval \<Rightarrow> pyval" where
  "answer_call request = (case py_get request ''data'' of
      Inr (PStr data) \<Rightarrow> (case (read_nat 16 (take 64 (drop (length data - 128) data)), read_nat 16 (drop (length data - 64) data)) of
        (Some start, Some n) \<Rightarrow> PDict [(''result'', PStr (''0x'' @ hexlify (encoded_page (next_of three_stakes (int start) (int n))
            (map stake_values (page_of three_stakes (int start) (int n)))))), (''id'', PInt 1)]
      | _ \<Rightarrow> PNone)
    | _ \<Rightarrow> PNone)"

definition answer_rest :: "string \<Rightarrow> pyval" where
  "answer_rest body = (case json_loads body of
      Inr (PDict d) \<Rightarrow> (case (map_of d ''startPos'', map_of d ''size'') of
        (Some (PInt start), Some (PInt n)) \<Rightarrow> PDict [(''result'', PDict [(''nextPos'', PInt (next_of three_stakes start n)),
          (''stakes'', PList (map stake_json (page_of three_stakes start n)))])]
      | _ \<Rightarrow> PNone)
    | _ \<Rightarrow> PNone)"

definition page_env :: "sample env" where
  "page_env = sample_env\<lparr>e_sc_api := \<lambda>n m args kw w. (Inr (if m = ''rpc_eth_call'' then answer_call (hd args)
     else (case args of [PStr body] \<Rightarrow> answer_rest body | _ \<Rightarrow> PNone)), w)\<rparr>"

lemma page_env_serves: "serves_pages page_env sample_tools n1 n2 three_stakes"
proof -
  have "pages_by_rest page_env n1 three_stakes" by (auto simp: pages_by_rest_def page_env_def answer_rest_def)
  moreover have "pages_by_call page_env sample_tools n2 contract three_stakes" for contract
    unfolding pages_by_call_def by (intro allI impI) (auto simp: page_env_def answer_call_def simp del: py_get.simps(2-) list.map hexlify_def)
  moreover have "to_checksum_address (et_lib sample_tools) x = Inr x" for x by (simp add: sample_tools_def sample_lib_def)
  ultimately show ?thesis unfolding serves_pages_def by blast
qed


end
