(* ===== verification/Pending_Certs.thy ===== *)
theory Pending_Certs
  imports Test_Steps Sc_Checks Account_Utils
begin

text \<open>
  The test \<^verbatim>\<open>qa/sc_evm_multiple_pending_certs_non_ceasing.py\<close>: a sidechain that does not cease passes several
  withdrawal epochs without a certificate, and the certificates follow one by one as soon as the second
  signer is connected.
\<close>

section \<open>A withdrawal epoch\<close>

definition withdrawal_request :: "int \<Rightarrow> pyval \<Rightarrow> int \<Rightarrow> pyval" where
  "withdrawal_request nonce mc_dest_address sc_bt_amount =
     PDict [(''nonce'', PInt nonce),
       (''withdrawalRequest'', PDict [(''mainchainAddress'', mc_dest_address), (''value'', PInt sc_bt_amount)]),
       (''gasInfo'', PDict [(''gasLimit'', PInt 230000), (''maxFeePerGas'', PInt 900000000), (''maxPriorityFeePerGas'', PInt 900000000)])]"

text \<open>One request; the variables are the amount, the nonce and the ids of the transactions so far.\<close>

definition withdraw_step :: "'w env \<Rightarrow> mc_node \<Rightarrow> sc_node \<Rightarrow> int \<times> int \<times> pyval list \<Rightarrow> ('w, int \<times> int \<times> pyval list) prog" where
  "withdraw_step E mc_node sc_node = (\<lambda>(sc_bt_amount, nonce, wr_tx_ids).
     pbind (mc_call E mc_node ''getnewaddress'' []) (\<lambda>mc_dest_address.
     pbind (post_json E sc_node ''transaction_withdrawCoins'' (withdrawal_request nonce mc_dest_address sc_bt_amount)) (\<lambda>withdraw_coins_json.
     pbind (plift (py_in ''result'' withdraw_coins_json)) (\<lambda>ok.
     pbind (plift (json_dumps withdraw_coins_json)) (\<lambda>text.
     pseq (if ok then pret () else plift (fail (''Withdraw coins failed: '' @ text))) (
     pbind (plift (py_path withdraw_coins_json [''result'', ''transactionId''])) (\<lambda>id.
       pret (sc_bt_amount * 2, nonce + 1, wr_tx_ids @ [id]))))))))"

definition withdraw_all :: "'w env \<Rightarrow> mc_node \<Rightarrow> sc_node \<Rightarrow> int \<Rightarrow> int \<Rightarrow> ('w, pyval list) prog" where
  "withdraw_all E mc_node sc_node we_number nonce =
     pbind (pfold (\<lambda>_. withdraw_step E mc_node sc_node) (py_range we_number) (convertZenToZennies (NInt 1), nonce, [])) (\<lambda>(_, _, ids). pret ids)"

definition check_included :: "pyval \<Rightarrow> pyval list \<Rightarrow> int \<Rightarrow> unit res" where
  "check_included sc_txs wr_tx_ids i =
     rbind (rbind (py_nth sc_txs i) (\<lambda>tx. py_get tx ''id'')) (\<lambda>id.
     rbind (list_get wr_tx_ids i) (\<lambda>wr. assert_equal id wr ''Tx with WRs is not as expected''))"

definition pass_withdrawal_epoch :: "'w env \<Rightarrow> mc_node \<Rightarrow> sc_node \<Rightarrow> int \<Rightarrow> int \<Rightarrow> int \<Rightarrow> int \<Rightarrow> ('w, unit) prog" where
  "pass_withdrawal_epoch E mc_node sc_node mc_blocks_before_wrs mc_block_after_wrs we_number nonce =
     pbind (mc_generate E mc_node mc_blocks_before_wrs (-1)) (\<lambda>mc_tip_hash.
     pbind (withdraw_all E mc_node sc_node we_number nonce) (\<lambda>wr_tx_ids.
     pbind (generate_next_block E sc_node ''first node'' False PNone) (\<lambda>block_id.
     pseq (check_mcreferencedata_presence E mc_tip_hash block_id sc_node) (
     pbind (sc_call_kw E sc_node ''block_findById'' [(''blockId'', block_id)]) (\<lambda>res.
     pbind (plift (py_path res [''result'', ''block'', ''sidechainTransactions''])) (\<lambda>sc_txs.
     pbind (plift (py_len sc_txs)) (\<lambda>n.
     pseq (check_eq (PInt we_number) (PInt n) ''Number of WRs transactions is wrong'') (
     pseq (piter (\<lambda>i. plift (check_included sc_txs wr_tx_ids i)) (py_range we_number)) (
     pbind (mc_generate E mc_node mc_block_after_wrs (-1)) (\<lambda>mc_tip_hash.
     pbind (generate_next_block E sc_node ''first node'' False PNone) (\<lambda>block_id.
       check_mcreferencedata_presence E mc_tip_hash block_id sc_node)))))))))))"

section \<open>Waiting for a certificate\<close>

text \<open>The loop ends when there is a transaction in the mempool or the generation of a certificate is not
  active; the second request is only made when the mempool is empty. The loop has no time limit.\<close>

definition truthy :: "pyval \<Rightarrow> bool" where
  "truthy v = (case v of PNone \<Rightarrow> False | PBool b \<Rightarrow> b | PStr s \<Rightarrow> s \<noteq> [] | PBytes b \<Rightarrow> b \<noteq> [] | PList vs \<Rightarrow> vs \<noteq> [] | PTuple vs \<Rightarrow> vs \<noteq> []
     | PDict d \<Rightarrow> d \<noteq> [] | _ \<Rightarrow> py_num v \<noteq> Some 0)"

definition cert_generation_active :: "'w env \<Rightarrow> sc_node \<Rightarrow> ('w, bool) prog" where
  "cert_generation_active E node = pbind (sc_field E node ''submitter_isCertGenerationActive'' [] [''result'', ''state'']) (\<lambda>v. pret (truthy v))"

definition cert_ready :: "'w env \<Rightarrow> mc_node \<times> sc_node \<Rightarrow> ('w, bool) prog" where
  "cert_ready E = (\<lambda>(mc_node, sc_submitter_node).
     pbind (mempool_size E mc_node) (\<lambda>size_v.
     pbind (plift (as_num size_v)) (\<lambda>n.
       if n < 1 then pbind (cert_generation_active E sc_submitter_node) (\<lambda>active. pret (\<not> active)) else pret True)))"

definition cert_loop :: "'w env \<Rightarrow> mc_node \<times> sc_node \<Rightarrow> rat \<Rightarrow> ('w, unit) prog" where
  "cert_loop E x wait = py_loop (wait_body E (cert_ready E x) wait)"

interpretation cert: untimed_poll cert_loop cert_ready
  by unfold_locales (simp add: cert_loop_def)

definition check_for_certificate :: "'w env \<Rightarrow> mc_node \<Rightarrow> sc_node \<Rightarrow> ('w, unit) prog" where
  "check_for_certificate E mc_node sc_submitter_node =
     pseq (py_sleep E 10) (
     pseq (cert_loop E (mc_node, sc_submitter_node) 2) (
     pbind (mempool_size E mc_node) (\<lambda>n. check_eq (PInt 1) n ''Certificate was not added to MC node mempool.'')))"

section \<open>The test\<close>

text \<open>The arguments for the base class; the chain has two nodes that sign, only the first of which submits.\<close>

definition pc_setup :: "account_setup \<Rightarrow> account_setup" where
  "pc_setup args = args\<lparr>as_number_of_sidechain_nodes := 2, as_withdrawalEpochLength := 10, as_circuittype_override := Some KEY_ROTATION_CIRCUIT,
     as_forward_amount := PInt 100\<rparr>"

definition signer :: "string \<Rightarrow> bool \<Rightarrow> int list \<Rightarrow> sc_node_configuration" where
  "signer address submits keys = SCNodeConfiguration (Some keys) PNone
     ((connected_to address)\<lparr>nc_cert_submitter_enabled := submits, nc_cert_signing_enabled := True, nc_api_key := ''Horizen''\<rparr>)"

definition pc_sc_setup_chain :: "'w env \<Rightarrow> run_options \<Rightarrow> account_setup \<Rightarrow> ('w, account_setup) prog" where
  "pc_sc_setup_chain E options self =
     pbind (mc_nth 0) (\<lambda>mc_node.
     pbind (pget (\<lambda>s. ws_address E s mc_node 0)) (\<lambda>address.
     pbind (plift (SCCreationInfo mc_node (PInt 100) 10 0 SC_CREATION_VERSION_2 7 5 False True KEY_ROTATION_CIRCUIT)) (\<lambda>creation.
     pbind (bootstrap_sidechain_nodes E options
         \<lparr>net_sc_creation_info = creation, net_sc_nodes_configuration = [signer address True [0, 1, 2], signer address False [3, 4, 5]]\<rparr>
         (PInt (720 * 120 * 5)) AccountModel) (\<lambda>info.
       pret (self\<lparr>as_sc_nodes_bootstrap_info := Some info\<rparr>)))))"

definition tree_hash :: "'w env \<Rightarrow> mc_node \<Rightarrow> pyval \<Rightarrow> ('w, pyval) prog" where
  "tree_hash E mc_node block_hash = mc_field E mc_node ''getblock'' [block_hash] [''scCumTreeHash'']"

text \<open>A loop over the epochs with half of the blocks before and half after the requests. The variables are the
  blocks left in the epoch, the nonce, and the hash at the end of the first epoch.\<close>

definition epoch_step :: "'w env \<Rightarrow> mc_node \<Rightarrow> sc_node \<Rightarrow> int \<Rightarrow> int \<Rightarrow> int \<times> int \<times> pyval \<Rightarrow> ('w, int \<times> int \<times> pyval) prog" where
  "epoch_step E mc_node sc_node1 epoch_length epoch_number = (\<lambda>(mc_blocks_left_for_we, nonce, root).
     let half_epoch = rat_trunc (of_int epoch_length / 2);
         mc_blocks_before_wrs = half_epoch - (epoch_length - mc_blocks_left_for_we)
     in pseq (pass_withdrawal_epoch E mc_node sc_node1 mc_blocks_before_wrs half_epoch epoch_number nonce) (
        pbind (if epoch_number = 0 then pbind (mc_call E mc_node ''getbestblockhash'' []) (tree_hash E mc_node) else pret root) (\<lambda>root.
          pret (epoch_length, nonce + epoch_number, root))))"

text \<open>The certificate in the mempool: its epoch and the hash it refers to.\<close>

definition check_certificate :: "'w env \<Rightarrow> mc_node \<Rightarrow> int \<Rightarrow> ('w, pyval) prog" where
  "check_certificate E mc_node epoch_number =
     pbind (pbind (mc_call E mc_node ''getrawmempool'' []) (\<lambda>r. plift (py_nth r 0))) (\<lambda>cert_hash.
     pbind (mc_call E mc_node ''getrawtransaction'' [cert_hash, PInt 1]) (\<lambda>cert.
     pbind (plift (py_path cert [''cert'', ''epochNumber''])) (\<lambda>e.
     pseq (check_eq (PInt epoch_number) e ''Sidechain epoch number in certificate is wrong.'') (pret cert))))"

definition check_root :: "pyval \<Rightarrow> pyval \<Rightarrow> ('w, unit) prog" where
  "check_root tree_root cert = pbind (plift (py_path cert [''cert'', ''endEpochCumScTxCommTreeRoot''])) (\<lambda>r.
     check_eq tree_root r ''Sidechain endEpochCumScTxCommTreeRoot in certificate is wrong.'')"

definition certificate_step :: "'w env \<Rightarrow> mc_node \<Rightarrow> sc_node \<Rightarrow> int \<Rightarrow> int \<times> pyval \<Rightarrow> ('w, int \<times> pyval) prog" where
  "certificate_step E mc_node sc_node1 epoch_number = (\<lambda>(mc_blocks_left_for_we, root).
     pseq (check_for_certificate E mc_node sc_node1) (
     pbind (check_certificate E mc_node epoch_number) (\<lambda>cert.
     pseq (check_root root cert) (
     pbind (mc_generate E mc_node 1 0) (\<lambda>mc_block_with_cert_hash.
     pbind (tree_hash E mc_node mc_block_with_cert_hash) (\<lambda>root.
     pseq (py_sleep E 2) (
     pbind (cert_generation_active E sc_node1) (\<lambda>active.
     pseq (if active then plift (fail ''Cert submission is not expected'') else pret ()) (
     pseq (generate_next_block E sc_node1 ''first node'' False PNone) (
     pseq (sc_sync_all E False)
       (pret (mc_blocks_left_for_we - 1, root))))))))))))"

definition pc_run_test :: "'w env \<Rightarrow> account_setup \<Rightarrow> ('w, unit) prog" where
  "pc_run_test E self =
     pbind (mc_nth 0) (\<lambda>mc_node.
     pbind (sc_nth 0) (\<lambda>sc_node1.
     let epoch_length = as_withdrawalEpochLength self; epochs = 5
     in pbind (sc_ac_setup E self True True (PInt 100)) (\<lambda>self.
        pseq (generate_next_block E sc_node1 ''first node'' False PNone) (
        pbind (pfold (epoch_step E mc_node sc_node1 epoch_length) (py_range epochs) (epoch_length - 1 - 1, 0, PStr [])) (\<lambda>(left, nonce, root).
        pseq (connect_sc_nodes E sc_node1 1 25) (
        pseq (sc_sync_all E False) (
        pbind (pfold (certificate_step E mc_node sc_node1) (py_range epochs) (left, root)) (\<lambda>(left, _).
        pbind (mc_generate E mc_node left (-1)) (\<lambda>mcblock_hash.
        pseq (generate_next_block E sc_node1 ''first node'' False PNone) (
        pseq (mc_call E mc_node ''generate'' [PInt 1]) (
        pseq (generate_next_block E sc_node1 ''first node'' False PNone) (
        pseq (check_for_certificate E mc_node sc_node1) (
        pbind (check_certificate E mc_node epochs) (\<lambda>cert.
        pbind (tree_hash E mc_node mcblock_hash) (\<lambda>root. check_root root cert)))))))))))))))"

section \<open>Properties\<close>

text \<open>The test waits without a limit: as long as the mempool stays empty and the node keeps answering that
  a certificate is being generated, the check does not return.\<close>
theorem certificate_wait_unbounded:
  assumes "\<And>w. fst (e_mc_api E mc_node ''getmempoolinfo'' [] w) = Inr (PDict [(''size'', PInt 0)])"
    and "\<And>w. fst (e_sc_api E sc_node ''submitter_isCertGenerationActive'' [] [] w) = Inr (PDict [(''result'', PDict [(''state'', PBool True)])])"
  shows "check_for_certificate E mc_node sc_node s = None"
proof -
  have "cert_loop E (mc_node, sc_node) 2 t = None" for t
  proof (rule cert.diverges [where I = "\<lambda>_. True"])
    fix u
    show "\<exists>t. cert_ready E (mc_node, sc_node) u = Some (Inr False, t) \<and> (\<forall>v. py_sleep E 2 t = Some (Inr (), v) \<longrightarrow> True)"
      using assms by (simp add: cert_ready_def mempool_size_def mc_field_def cert_generation_active_def sc_field_def pbind_run mc_call_run sc_call_run
          as_num_def truthy_def)
  qed simp
  then show ?thesis by (simp add: check_for_certificate_def pbind_run py_sleep_def pact_run)
qed

text \<open>The check passes only when the mempool holds exactly one transaction at the end, after a moment at
  which it held one already or the node had stopped generating.\<close>
theorem certificate_found:
  assumes "check_for_certificate E mc_node sc_node s = Some (Inr (), t)"
  shows "\<exists>u v n. cert_ready E (mc_node, sc_node) u = Some (Inr True, v) \<and> mempool_size E mc_node v = Some (Inr n, t) \<and> py_eq (PInt 1) n"
proof -
  from assms obtain s1 v n where "cert_loop E (mc_node, sc_node) 2 s1 = Some (Inr (), v)" "mempool_size E mc_node v = Some (Inr n, t)" "py_eq (PInt 1) n"
    by (auto simp: check_for_certificate_def pbind_Inr_iff)
  with cert.success show ?thesis by blast
qed

text \<open>The requests of an epoch, in the record of the calls.\<close>

definition withdrawal_bodies :: "sc_node \<Rightarrow> event list \<Rightarrow> string list" where
  "withdrawal_bodies node evs = concat (map (\<lambda>ev. case ev of
     ScCall n m [PStr b] [] \<Rightarrow> if n = node \<and> m = ''transaction_withdrawCoins'' then [b] else [] | _ \<Rightarrow> []) evs)"

lemma withdrawal_bodies_append: "withdrawal_bodies node (a @ b) = withdrawal_bodies node a @ withdrawal_bodies node b"
  by (simp add: withdrawal_bodies_def)

lemma withdraw_step_Inr:
  assumes "withdraw_step E mc_node sc_node (amount, nonce, ids) s = Some (Inr x, t)"
  shows "\<exists>address body id. x = (amount * 2, nonce + 1, ids @ [id]) \<and> json_dumps (withdrawal_request nonce address amount) = Inr body \<and>
    withdrawal_bodies sc_node (w_calls t) = withdrawal_bodies sc_node (w_calls s) @ [body]"
proof -
  from assms obtain address u body r id
    where "mc_call E mc_node ''getnewaddress'' [] s = Some (Inr address, u)" "json_dumps (withdrawal_request nonce address amount) = Inr body"
      "sc_call E sc_node ''transaction_withdrawCoins'' [PStr body] u = Some (Inr r, t)" "x = (amount * 2, nonce + 1, ids @ [id])"
    by (auto simp: withdraw_step_def post_json_def pbind_Inr_iff split: if_splits)
  then show ?thesis by (auto simp: mc_call_run sc_call_run withdrawal_bodies_append) (auto simp: withdrawal_bodies_def)
qed

lemma withdraw_steps_Inr:
  assumes "pfold (\<lambda>_. withdraw_step E mc_node sc_node) xs (amount, nonce, ids) s = Some (Inr (a, n, ids'), t)"
  shows "\<exists>addresses bodies. length addresses = length xs \<and> length ids' = length ids + length xs \<and>
    withdrawal_bodies sc_node (w_calls t) = withdrawal_bodies sc_node (w_calls s) @ bodies \<and>
    map Inr bodies = map (\<lambda>i. json_dumps (withdrawal_request (nonce + int i) (addresses ! i) (amount * 2 ^ i))) [0..<length xs]"
  using assms
proof (induction xs arbitrary: amount nonce ids s)
  case (Cons x xs)
  from Cons.prems obtain y u where "withdraw_step E mc_node sc_node (amount, nonce, ids) s = Some (Inr y, u)"
    "pfold (\<lambda>_. withdraw_step E mc_node sc_node) xs y u = Some (Inr (a, n, ids'), t)" by (auto simp: pbind_Inr_iff)
  with withdraw_step_Inr obtain address body id
    where rest: "pfold (\<lambda>_. withdraw_step E mc_node sc_node) xs (amount * 2, nonce + 1, ids @ [id]) u = Some (Inr (a, n, ids'), t)"
      and body: "json_dumps (withdrawal_request nonce address amount) = Inr body"
      and u: "withdrawal_bodies sc_node (w_calls u) = withdrawal_bodies sc_node (w_calls s) @ [body]" by blast
  from Cons.IH [OF rest] obtain addresses bodies where IH: "length addresses = length xs" "length ids' = length (ids @ [id]) + length xs"
    "withdrawal_bodies sc_node (w_calls t) = withdrawal_bodies sc_node (w_calls u) @ bodies"
    "map Inr bodies = map (\<lambda>i. json_dumps (withdrawal_request (nonce + 1 + int i) (addresses ! i) (amount * 2 * 2 ^ i))) [0..<length xs]" by blast
  have "map Inr (body # bodies) = map (\<lambda>i. json_dumps (withdrawal_request (nonce + int i) ((address # addresses) ! i) (amount * 2 ^ i))) [0..<length (x # xs)]"
    using IH(4) body by (simp add: upt_conv_Cons map_Suc_upt [symmetric] o_def algebra_simps del: upt_Suc)
  with IH(1-3) u show ?case by (intro exI [of _ "address # addresses"] exI [of _ "body # bodies"]) simp
qed auto

text \<open>For the epoch with number \<open>n\<close> exactly \<open>n\<close> withdrawal requests are sent, with consecutive nonces and the
  amounts of 1, 2, 4, ... Zen, and every one of them gets the id of a transaction.\<close>
theorem withdrawal_requests:
  assumes "withdraw_all E mc_node sc_node we_number nonce s = Some (Inr ids, t)"
  shows "length ids = nat we_number \<and> (\<exists>addresses bodies. length addresses = nat we_number \<and>
    withdrawal_bodies sc_node (w_calls t) = withdrawal_bodies sc_node (w_calls s) @ bodies \<and>
    map Inr bodies = map (\<lambda>i. json_dumps (withdrawal_request (nonce + int i) (addresses ! i) (2 ^ i * COIN))) [0..<nat we_number])"
proof -
  have zen: "convertZenToZennies (NInt 1) = COIN" by simp
  from assms obtain a n where "pfold (\<lambda>_. withdraw_step E mc_node sc_node) (py_range we_number) (COIN, nonce, []) s = Some (Inr (a, n, ids), t)"
    by (auto simp: withdraw_all_def pbind_Inr_iff zen)
  from withdraw_steps_Inr [OF this] show ?thesis by (auto simp: py_range_def mult.commute)
qed

definition busy_env :: "sample env" where
  "busy_env = sample_env\<lparr>e_mc_api := \<lambda>n m a w. (Inr (PDict [(''size'', PInt 0)]), w),
     e_sc_api := \<lambda>n m a k w. (Inr (PDict [(''result'', PDict [(''state'', PBool True)])]), w)\<rparr>"

theorem certificate_wait_unbounded_witness:
  "check_for_certificate busy_env sample_mc (sample_node ''a'') (sample_world 0 0 []) = None"
  by (rule certificate_wait_unbounded) (simp_all add: busy_env_def)

text \<open>An empty mempool while the node is generating, then a certificate.\<close>

theorem certificate_found_witness:
  "\<exists>t u n. check_for_certificate sample_env sample_mc (sample_node ''a'') (replay_world [] [] [] (0, [Inr (PDict [(''size'', PInt 0)]),
      Inr (PDict [(''result'', PDict [(''state'', PBool True)])]), Inr (PDict [(''size'', PInt 1)]), Inr (PDict [(''size'', PInt 1)])])) = Some (Inr (), t) \<and>
    mempool_size sample_env sample_mc u = Some (Inr n, t) \<and> py_eq (PInt 1) n"
proof -
  let ?s = "replay_world [] [] [] (0, [Inr (PDict [(''size'', PInt 0)]),
      Inr (PDict [(''result'', PDict [(''state'', PBool True)])]), Inr (PDict [(''size'', PInt 1)]), Inr (PDict [(''size'', PInt 1)])])"
  obtain t where run: "check_for_certificate sample_env sample_mc (sample_node ''a'') ?s = Some (Inr (), t)"
    by (simp add: check_for_certificate_def cert_loop_def py_loop.simps wait_body_def cert_ready_def mempool_size_def mc_field_def cert_generation_active_def
        sc_field_def replay_world_def sample_run as_num_def truthy_def)
  with certificate_found [OF run] show ?thesis by blast
qed

theorem withdrawal_requests_witness:
  "\<exists>t bodies. withdraw_all sample_env sample_mc (sample_node ''a'') 1 4 (replay_world [] [] [] (0, [Inr (PStr ''z1''),
      Inr (PDict [(''result'', PDict [(''transactionId'', PStr ''t1'')])])])) = Some (Inr [PStr ''t1''], t) \<and>
    withdrawal_bodies (sample_node ''a'') (w_calls t) = bodies \<and> length bodies = 1"
proof -
  let ?s = "replay_world [] [] [] (0, [Inr (PStr ''z1''), Inr (PDict [(''result'', PDict [(''transactionId'', PStr ''t1'')])])])"
  have "plays [] [] (withdraw_all sample_env sample_mc (sample_node ''a'') 1 4)
    (0, [Inr (PStr ''z1''), Inr (PDict [(''result'', PDict [(''transactionId'', PStr ''t1'')])])]) (Inr [PStr ''t1'']) (0, [])"
  proof -
    obtain a b where "json_dumps (withdrawal_request 4 (PStr ''z1'') (convertZenToZennies (NInt 1))) = Inr a"
      "json_dumps (PDict [(''result'', PDict [(''transactionId'', PStr ''t1'')])]) = Inr b"
      using json_dumps_total by (auto simp: withdrawal_request_def)
    then show ?thesis
      unfolding withdraw_all_def withdraw_step_def post_json_def py_range_def
      by (simp add: plays_def replay_world_def sample_run)
  qed
  then obtain t where run: "withdraw_all sample_env sample_mc (sample_node ''a'') 1 4 ?s = Some (Inr [PStr ''t1''], t)"
    using playsD by blast
  from withdrawal_requests [OF run] obtain bodies where "withdrawal_bodies (sample_node ''a'') (w_calls t) = bodies" "length bodies = 1"
    by (auto simp: replay_world_def withdrawal_bodies_def dest: map_eq_imp_length_eq)
  then show ?thesis using run by blast
qed

end
