(* ===== verification/Account_Http.thy ===== *)
theory Account_Http
  imports Http_Calls Sample_Env
begin

text \<open>
  The wrappers of the REST interface of account-based nodes
  (\<^verbatim>\<open>qa/SidechainTestFramework/account/httpCalls\<close>): transactions of the three kinds, signed by the node or
  returned as bytes, ownership of mainchain addresses, withdrawals. Unlike most of the wrappers of the
  UTXO model they check that the answer has a result and raise otherwise.
\<close>

section \<open>Reading an answer\<close>

definition answer_field :: "string \<Rightarrow> pyval \<Rightarrow> pyval res" where
  "answer_field key response =
     rbind (rbind (py_in ''result'' response) (\<lambda>ok.
         if ok then rbind (py_get response ''result'') (py_in key) else Inr False)) (\<lambda>found.
       if found then py_path response [''result'', key]
       else rerr RuntimeError (''Something went wrong, see '' @ py_str response) [])"

definition field_or_raise :: "string \<Rightarrow> pyval \<Rightarrow> ('w, pyval) prog" where
  "field_or_raise key response = plift (answer_field key response)"

text \<open>The parts that several requests share.\<close>

definition gas_info :: "pyval \<Rightarrow> pyval \<Rightarrow> pyval \<Rightarrow> pyval" where
  "gas_info gas_limit max_fee_per_gas max_priority_fee_per_gas =
     PDict [(''gasLimit'', gas_limit), (''maxFeePerGas'', max_fee_per_gas), (''maxPriorityFeePerGas'', max_priority_fee_per_gas)]"

record tx_params =
  tx_from :: pyval
  tx_to :: pyval
  tx_nonce :: pyval
  tx_gasLimit :: pyval
  tx_gasPrice :: pyval
  tx_maxPriorityFeePerGas :: pyval
  tx_maxFeePerGas :: pyval
  tx_value :: pyval
  tx_data :: pyval
  tx_signature_v :: pyval
  tx_signature_r :: pyval
  tx_signature_s :: pyval

definition signature_fields :: "tx_params \<Rightarrow> (string \<times> pyval) list" where
  "signature_fields p = [(''value'', tx_value p), (''data'', tx_data p), (''signature_v'', tx_signature_v p),
     (''signature_r'', tx_signature_r p), (''signature_s'', tx_signature_s p)]"

definition legacy_fields :: "tx_params \<Rightarrow> (string \<times> pyval) list" where
  "legacy_fields p = [(''from'', tx_from p), (''to'', tx_to p), (''nonce'', tx_nonce p), (''gasLimit'', tx_gasLimit p),
     (''gasPrice'', tx_gasPrice p)] @ signature_fields p"

definition eip1559_fields :: "tx_params \<Rightarrow> (string \<times> pyval) list" where
  "eip1559_fields p = [(''from'', tx_from p), (''to'', tx_to p), (''nonce'', tx_nonce p), (''gasLimit'', tx_gasLimit p),
     (''maxPriorityFeePerGas'', tx_maxPriorityFeePerGas p), (''maxFeePerGas'', tx_maxFeePerGas p)] @ signature_fields p"

section \<open>Transactions\<close>

definition createEIP1559Transaction :: "'w env \<Rightarrow> sc_node \<Rightarrow> tx_params \<Rightarrow> string option \<Rightarrow> ('w, pyval) prog" where
  "createEIP1559Transaction E sidechainNode p api_key =
     pbind (json_call E sidechainNode ''transaction_createEIP1559Transaction'' (PDict (eip1559_fields p)) api_key)
       (field_or_raise ''transactionId'')"

definition createLegacyEIP155Transaction :: "'w env \<Rightarrow> sc_node \<Rightarrow> tx_params \<Rightarrow> string option \<Rightarrow> ('w, pyval) prog" where
  "createLegacyEIP155Transaction E sidechainNode p api_key =
     pbind (json_call E sidechainNode ''transaction_createLegacyEIP155Transaction'' (PDict (legacy_fields p)) api_key)
       (field_or_raise ''transactionId'')"

text \<open>With \<open>output_raw_bytes\<close> the bytes are taken without a check.\<close>

definition createLegacyTransaction :: "'w env \<Rightarrow> sc_node \<Rightarrow> tx_params \<Rightarrow> string option \<Rightarrow> bool \<Rightarrow> ('w, pyval) prog" where
  "createLegacyTransaction E sidechainNode p api_key output_raw_bytes =
     pbind (json_call E sidechainNode ''transaction_createLegacyTransaction''
         (PDict (legacy_fields p @ [(''outputRawBytes'', PBool output_raw_bytes)])) api_key) (\<lambda>response.
       pbind (plift (py_in ''result'' response)) (\<lambda>ok.
         if ok \<and> output_raw_bytes then plift (py_path response [''result'', ''transactionBytes''])
         else field_or_raise ''transactionId'' response))"

definition createRawEIP1559Transaction :: "'w env \<Rightarrow> sc_node \<Rightarrow> tx_params \<Rightarrow> string option \<Rightarrow> ('w, pyval) prog" where
  "createRawEIP1559Transaction E sidechainNode p api_key =
     pbind (json_call E sidechainNode ''transaction_createEIP1559Transaction'' (PDict (eip1559_fields p @ [(''outputRawBytes'', PBool True)])) api_key)
       (field_or_raise ''transactionBytes'')"

definition createRawLegacyEIP155Transaction :: "'w env \<Rightarrow> sc_node \<Rightarrow> tx_params \<Rightarrow> string option \<Rightarrow> ('w, pyval) prog" where
  "createRawLegacyEIP155Transaction E sidechainNode p api_key =
     pbind (json_call E sidechainNode ''transaction_createLegacyEIP155Transaction'' (PDict (legacy_fields p @ [(''outputRawBytes'', PBool True)])) api_key)
       (field_or_raise ''transactionBytes'')"

definition createRawLegacyTransaction :: "'w env \<Rightarrow> sc_node \<Rightarrow> tx_params \<Rightarrow> string option \<Rightarrow> ('w, pyval) prog" where
  "createRawLegacyTransaction E sidechainNode p api_key =
     pbind (json_call E sidechainNode ''transaction_createLegacyTransaction'' (PDict (legacy_fields p @ [(''outputRawBytes'', PBool True)])) api_key)
       (field_or_raise ''transactionBytes'')"

definition decodeTransaction :: "'w env \<Rightarrow> sc_node \<Rightarrow> pyval \<Rightarrow> string option \<Rightarrow> ('w, pyval) prog" where
  "decodeTransaction E sidechainNode payload api_key =
     pbind (json_call E sidechainNode ''transaction_decodeTransactionBytes'' (PDict [(''transactionBytes'', payload)]) api_key)
       (field_or_raise ''transaction'')"

definition ac_sendTransaction :: "'w env \<Rightarrow> sc_node \<Rightarrow> pyval \<Rightarrow> string option \<Rightarrow> ('w, pyval) prog" where
  "ac_sendTransaction E sidechainNode payload api_key =
     pbind (json_call E sidechainNode ''transaction_sendTransaction'' (PDict [(''transactionBytes'', payload)]) api_key)
       (field_or_raise ''transactionId'')"

definition signTransaction :: "'w env \<Rightarrow> sc_node \<Rightarrow> pyval \<Rightarrow> pyval \<Rightarrow> string option \<Rightarrow> ('w, pyval) prog" where
  "signTransaction E sidechainNode fromAddress payload api_key =
     pbind (json_call E sidechainNode ''transaction_signTransaction'' (PDict [(''from'', fromAddress), (''transactionBytes'', payload)]) api_key)
       (field_or_raise ''transactionBytes'')"

section \<open>Ownership of mainchain addresses, forger list, key rotation\<close>

definition getKeyOwnerScAddresses :: "'w env \<Rightarrow> sc_node \<Rightarrow> string option \<Rightarrow> ('w, pyval) prog" where
  "getKeyOwnerScAddresses E sidechainNode api_key =
     result_or_raise (json_call E sidechainNode ''transaction_getKeysOwnerScAddresses'' (PDict []) api_key)"

definition getKeysOwnership :: "'w env \<Rightarrow> sc_node \<Rightarrow> pyval \<Rightarrow> string option \<Rightarrow> ('w, pyval) prog" where
  "getKeysOwnership E sidechainNode sc_address api_key =
     result_or_raise (json_call E sidechainNode ''transaction_getKeysOwnership'' (PDict [(''scAddressOpt'', sc_address)]) api_key)"

definition removeKeysOwnership :: "'w env \<Rightarrow> sc_node \<Rightarrow> pyval \<Rightarrow> pyval \<Rightarrow> pyval \<Rightarrow> pyval \<Rightarrow> pyval \<Rightarrow> pyval \<Rightarrow> string option \<Rightarrow> ('w, pyval) prog" where
  "removeKeysOwnership E sidechainNode sc_address mc_addr nonce gas_limit max_priority_fee_per_gas max_fee_per_gas api_key =
     result_or_raise (json_call E sidechainNode ''transaction_removeKeysOwnership'' (PDict [(''ownershipInfo'', PDict [(''scAddress'', sc_address), (''mcTransparentAddress'', mc_addr)]),
         (''nonce'', nonce), (''gasInfo'', gas_info gas_limit max_fee_per_gas max_priority_fee_per_gas)]) api_key)"

definition sendKeysOwnership :: "'w env \<Rightarrow> sc_node \<Rightarrow> pyval \<Rightarrow> pyval \<Rightarrow> pyval \<Rightarrow> pyval \<Rightarrow> pyval \<Rightarrow> pyval \<Rightarrow> pyval \<Rightarrow> string option \<Rightarrow> ('w, pyval) prog" where
  "sendKeysOwnership E sidechainNode sc_address mc_addr mc_signature nonce gas_limit max_priority_fee_per_gas max_fee_per_gas api_key =
     result_or_raise (json_call E sidechainNode ''transaction_sendKeysOwnership'' (PDict [(''ownershipInfo'', PDict [(''scAddress'', sc_address), (''mcTransparentAddress'', mc_addr), (''mcSignature'', mc_signature)]),
         (''nonce'', nonce), (''gasInfo'', gas_info gas_limit max_fee_per_gas max_priority_fee_per_gas)]) api_key)"

definition sendMultisigKeysOwnership :: "'w env \<Rightarrow> sc_node \<Rightarrow> pyval \<Rightarrow> pyval \<Rightarrow> pyval \<Rightarrow> pyval \<Rightarrow> pyval \<Rightarrow> pyval \<Rightarrow> pyval \<Rightarrow> pyval \<Rightarrow> string option \<Rightarrow> ('w, pyval) prog" where
  "sendMultisigKeysOwnership E sidechainNode sc_address mc_addr mc_signatures redeemScript nonce gas_limit max_priority_fee_per_gas max_fee_per_gas api_key =
     result_or_raise (json_call E sidechainNode ''transaction_sendMultisigKeysOwnership'' (PDict [(''ownershipInfo'', PDict [(''scAddress'', sc_address), (''mcMultisigAddress'', mc_addr), (''mcSignatures'', mc_signatures), (''redeemScript'', redeemScript)]),
         (''nonce'', nonce), (''gasInfo'', gas_info gas_limit max_fee_per_gas max_priority_fee_per_gas)]) api_key)"

definition open_forger_list :: "'w env \<Rightarrow> sc_node \<Rightarrow> pyval \<Rightarrow> bool \<Rightarrow> string option \<Rightarrow> ('w, pyval) prog" where
  "open_forger_list E sidechainNode forgerIndex api_error_expected api_key =
     (let call = json_call E sidechainNode ''transaction_openForgerList'' (PDict [(''forgerIndex'', forgerIndex)]) api_key
      in if api_error_expected then call else result_or_raise call)"

definition http_create_key_rotation_transaction_evm :: "'w env \<Rightarrow> sc_node \<Rightarrow> pyval \<Rightarrow> pyval \<Rightarrow> pyval \<Rightarrow> pyval \<Rightarrow> pyval \<Rightarrow> pyval \<Rightarrow> pyval \<Rightarrow> pyval \<Rightarrow> pyval \<Rightarrow> pyval \<Rightarrow> string option \<Rightarrow> ('w, pyval) prog" where
  "http_create_key_rotation_transaction_evm E sidechainNode key_type key_index new_key signing_key_signature master_key_signature new_key_signature nonce gas_limit max_fee_per_gas max_priority_fee_per_gas api_key =
     json_call E sidechainNode ''transaction_createKeyRotationTransaction'' (PDict ([(''keyType'', key_type), (''keyIndex'', key_index),
         (''newKey'', new_key), (''signingKeySignature'', signing_key_signature), (''masterKeySignature'', master_key_signature),
         (''newKeySignature'', new_key_signature), (''nonce'', nonce)]
       @ (if gas_limit = PNone then [] else [(''gasInfo'', gas_info gas_limit max_fee_per_gas max_priority_fee_per_gas)]))) api_key"

section \<open>Withdrawals and balances\<close>

definition all_withdrawal_requests :: "'w env \<Rightarrow> sc_node \<Rightarrow> pyval \<Rightarrow> ('w, pyval) prog" where
  "all_withdrawal_requests E sidechainNode epoch_number =
     pbind (result_or_raise (json_call E sidechainNode ''transaction_allWithdrawalRequests'' (PDict [(''epochNum'', epoch_number)]) None))
       (\<lambda>r. plift (py_get r ''listOfWR''))"

text \<open>The whole answer is returned here.\<close>

definition withdrawcoins :: "'w env \<Rightarrow> sc_node \<Rightarrow> pyval \<Rightarrow> pyval \<Rightarrow> pyval \<Rightarrow> pyval \<Rightarrow> pyval \<Rightarrow> pyval \<Rightarrow> string option \<Rightarrow> ('w, pyval) prog" where
  "withdrawcoins E sidechainNode destMCAddress amount_in_zennies nonce gas_limit max_fee_per_gas max_priority_fee_per_gas api_key =
     pbind (json_call E sidechainNode ''transaction_withdrawCoins'' (PDict [(''nonce'', nonce), (''withdrawalRequest'', PDict
         [(''mainchainAddress'', PStr (py_str destMCAddress)), (''value'', amount_in_zennies)]), (''gasInfo'', gas_info gas_limit max_fee_per_gas max_priority_fee_per_gas)]) api_key) (\<lambda>response.
       pbind (plift (py_in ''result'' response)) (\<lambda>ok.
         if ok then pret response else praise RuntimeError (''Something went wrong, see '' @ py_str response) []))"

definition ac_wallet_balance :: "'w env \<Rightarrow> sc_node \<Rightarrow> pyval \<Rightarrow> string option \<Rightarrow> ('w, pyval) prog" where
  "ac_wallet_balance E sidechainNode evm_address api_key =
     pbind (json_call E sidechainNode ''wallet_getBalance'' (PDict [(''address'', PStr (py_str evm_address))]) api_key)
       (field_or_raise ''balance'')"

section \<open>What a wrapper sends and returns\<close>

lemma json_call_run:
  assumes "json_value j" and "json_call E node service j key s = Some (r, t)"
  shows "\<exists>body. json_loads body = Inr j \<and>
    w_calls t = w_calls s @ [ScCall node service (PStr body # (case key of None \<Rightarrow> [] | Some k \<Rightarrow> [PStr k])) []] \<and>
    r = fst (e_sc_api E node service (PStr body # (case key of None \<Rightarrow> [] | Some k \<Rightarrow> [PStr k])) [] (w_ext s))"
proof -
  from json_dumps_total [OF assms(1)] obtain body where b: "json_dumps j = Inr body" by blast
  with json_roundtrip [OF assms(1)] have "json_loads body = Inr j" by simp
  with assms(2) b show ?thesis by (auto simp: json_call_def post_call_def pbind_run sc_call_run)
qed

text \<open>
  The contract of the wrappers that return one field of the answer: one request, whose body is a
  dictionary made from the arguments, and the named field of its answer.
\<close>

locale rest_request =
  fixes wrapper :: "'w env \<Rightarrow> sc_node \<Rightarrow> 'a \<Rightarrow> string option \<Rightarrow> ('w, pyval) prog" and service :: string
    and fields_of :: "'a \<Rightarrow> (string \<times> pyval) list" and field :: string
  assumes one_request: "wrapper E node p key = pbind (json_call E node service (PDict (fields_of p)) key) (field_or_raise field)"
begin

lemma request:
  assumes "wrapper E node p key s = Some (r, t)" and "json_value (PDict (fields_of p))"
  shows "\<exists>body. json_loads body = Inr (PDict (fields_of p)) \<and>
    w_calls t = w_calls s @ [ScCall node service (PStr body # (case key of None \<Rightarrow> [] | Some k \<Rightarrow> [PStr k])) []] \<and>
    r = rbind (fst (e_sc_api E node service (PStr body # (case key of None \<Rightarrow> [] | Some k \<Rightarrow> [PStr k])) [] (w_ext s))) (answer_field field)"
proof -
  obtain q u where call: "json_call E node service (PDict (fields_of p)) key s = Some (q, u)"
    using assms(1) by (cases "json_call E node service (PDict (fields_of p)) key s") (auto simp: one_request pbind_run)
  with assms(1) have "t = u" "r = rbind q (answer_field field)"
    by (auto simp: one_request pbind_run field_or_raise_def split: sum.splits)
  with json_call_run [OF assms(2) call] show ?thesis by auto
qed

end

interpretation eip1559_tx: rest_request createEIP1559Transaction "''transaction_createEIP1559Transaction''" eip1559_fields "''transactionId''"
  by unfold_locales (simp add: createEIP1559Transaction_def)

interpretation eip155_tx: rest_request createLegacyEIP155Transaction "''transaction_createLegacyEIP155Transaction''" legacy_fields "''transactionId''"
  by unfold_locales (simp add: createLegacyEIP155Transaction_def)

interpretation raw_eip1559_tx: rest_request createRawEIP1559Transaction "''transaction_createEIP1559Transaction''"
    "\<lambda>p. eip1559_fields p @ [(''outputRawBytes'', PBool True)]" "''transactionBytes''"
  by unfold_locales (simp add: createRawEIP1559Transaction_def)

interpretation send_tx: rest_request ac_sendTransaction "''transaction_sendTransaction''" "\<lambda>p. [(''transactionBytes'', p)]" "''transactionId''"
  by unfold_locales (simp add: ac_sendTransaction_def)

lemma answer_field_spec:
  "answer_field key (PDict a) = (case map_of a ''result'' of
      None \<Rightarrow> rerr RuntimeError (''Something went wrong, see '' @ py_str (PDict a)) []
    | Some (PDict d) \<Rightarrow> (case map_of d key of
          None \<Rightarrow> rerr RuntimeError (''Something went wrong, see '' @ py_str (PDict a)) [] | Some v \<Rightarrow> Inr v)
    | Some w \<Rightarrow> answer_field key (PDict a))"
  by (auto simp: answer_field_def rerr_def map_of_eq_None_iff image_iff split: option.splits pyval.splits dest: map_of_SomeD)
     (force dest: map_of_SomeD)+

section \<open>Properties\<close>

text \<open>Creating an EIP-1559 transaction over the REST interface makes exactly one request, with the
  API key if one was given; its body reads back as the parameters. The id in the answer is returned,
  and an answer without a result or without an id raises a \<open>RuntimeError\<close> that shows it.\<close>
theorem createEIP1559Transaction_request:
  assumes "createEIP1559Transaction E node p key s = Some (r, t)" and "json_value (PDict (eip1559_fields p))"
  shows "\<exists>body call_args answer. call_args = PStr body # (case key of None \<Rightarrow> [] | Some k \<Rightarrow> [PStr k]) \<and>
    json_loads body = Inr (PDict (eip1559_fields p)) \<and>
    w_calls t = w_calls s @ [ScCall node ''transaction_createEIP1559Transaction'' call_args []] \<and>
    answer = fst (e_sc_api E node ''transaction_createEIP1559Transaction'' call_args [] (w_ext s)) \<and>
    (\<forall>a d. answer = Inr (PDict a) \<longrightarrow> map_of a ''result'' = Some (PDict d) \<longrightarrow>
       r = (case map_of d ''transactionId'' of Some v \<Rightarrow> Inr v
            | None \<Rightarrow> rerr RuntimeError (''Something went wrong, see '' @ py_str (PDict a)) [])) \<and>
    (\<forall>a. answer = Inr (PDict a) \<longrightarrow> map_of a ''result'' = None \<longrightarrow>
       r = rerr RuntimeError (''Something went wrong, see '' @ py_str (PDict a)) []) \<and>
    (\<forall>e. answer = Inl e \<longrightarrow> r = Inl e)"
  using eip1559_tx.request [OF assms] by (auto simp: answer_field_spec)

theorem createEIP1559Transaction_request_witness:
  "\<exists>r (t :: sample world). createEIP1559Transaction sample_env (sample_node ''a'') \<lparr>tx_from = PStr ''0xa'', tx_to = PStr ''0xb'', tx_nonce = PNone,
       tx_gasLimit = PInt 230000, tx_gasPrice = PNone, tx_maxPriorityFeePerGas = PInt 1, tx_maxFeePerGas = PInt 2, tx_value = PInt 3,
       tx_data = PStr [], tx_signature_v = PNone, tx_signature_r = PNone, tx_signature_s = PNone\<rparr> None
     (sample_world 0 0 [Inr (PDict [(''error'', PStr ''no funds'')])]) = Some (r, t) \<and> length (w_calls t) = 1"
proof -
  let ?p = "\<lparr>tx_from = PStr ''0xa'', tx_to = PStr ''0xb'', tx_nonce = PNone,
       tx_gasLimit = PInt 230000, tx_gasPrice = PNone, tx_maxPriorityFeePerGas = PInt 1, tx_maxFeePerGas = PInt 2, tx_value = PInt 3,
       tx_data = PStr [], tx_signature_v = PNone, tx_signature_r = PNone, tx_signature_s = PNone\<rparr>"
  let ?s = "sample_world 0 0 [Inr (PDict [(''error'', PStr ''no funds'')])]"
  have v: "json_value (PDict (eip1559_fields ?p))" by (simp add: eip1559_fields_def signature_fields_def)
  obtain b where "json_dumps (PDict (eip1559_fields ?p)) = Inr b" using json_dumps_total [OF v] by blast
  then obtain r and t :: "sample world" where run: "createEIP1559Transaction sample_env (sample_node ''a'') ?p None ?s = Some (r, t)"
    by (simp add: createEIP1559Transaction_def json_call_def post_call_def sc_call_run pbind_run sample_world_def field_or_raise_def)
  from createEIP1559Transaction_request [OF run v] run show ?thesis by (auto simp: sample_world_def)
qed

end
