(* ===== verification/Delegator_Rewards.thy ===== *)
theory Delegator_Rewards
  imports Pending_Certs Account_Http Smart_Contract
begin

text \<open>
  The test \<^verbatim>\<open>qa/sc_evm_forger_and_delegator_rewards.py\<close>: seven forgers share the fees of an epoch and the pool of
  rewards from the mainchain, some of them with a delegator. The amounts that the test expects are the pure
  function \<open>expected_payments\<close>; the properties show that it distributes everything, without a rest.
\<close>

section \<open>The distribution\<close>

text \<open>The rest of the division of the fees goes to the first blocks, one each; \<^verbatim>\<open>None\<close> when the rest is out of
  range.\<close>

definition calculate_remainders :: "int \<Rightarrow> (int \<times> int \<times> int \<times> int \<times> int \<times> int \<times> int \<times> int) option" where
  "calculate_remainders r =
     (if r \<le> 2 then Some (r, 0, 0, 0, 0, 0, 0, 0)
      else if r \<le> 5 then Some (2, r - 2, 0, 0, 0, 0, 0, 0)
      else if r \<le> 7 then Some (2, 3, r - 5, 0, 0, 0, 0, 0)
      else if r \<le> 9 then Some (2, 3, 2, r - 7, 0, 0, 0, 0)
      else if r \<le> 11 then Some (2, 3, 2, 2, r - 9, 0, 0, 0)
      else if r \<le> 13 then Some (2, 3, 2, 2, 2, r - 11, 0, 0)
      else if r = 14 then Some (2, 3, 2, 2, 2, 2, 1, 0)
      else if r = 15 then Some (2, 3, 2, 2, 2, 2, 1, 1)
      else None)"

record reward =
  rw_mc :: int
  rw_fee :: int

definition rw_total :: "reward \<Rightarrow> int" where
  "rw_total r = rw_mc r + rw_fee r"

text \<open>The reward of a forger of \<open>blocks\<close> blocks.\<close>

definition forger_reward :: "int \<Rightarrow> int \<Rightarrow> int \<Rightarrow> int \<Rightarrow> reward" where
  "forger_reward per_block_mc_reward per_block_fee blocks extra =
     \<lparr>rw_mc = per_block_mc_reward * blocks, rw_fee = per_block_fee * blocks + extra\<rparr>"

definition per_block_mc_reward :: int where
  "per_block_mc_reward = convertZenniesToWei 2500000000 div 16"

record forger_rewards =
  fr_1_before :: reward
  fr_1_after :: reward
  fr_2 :: reward
  fr_3 :: reward
  fr_4 :: reward
  fr_5 :: reward
  fr_6 :: reward
  fr_7 :: reward

definition compute_rewards :: "int \<Rightarrow> int \<Rightarrow> int \<Rightarrow> forger_rewards res" where
  "compute_rewards total_block_fee total_node_1_tips total_node_2_tips =
     (let per_block_fee = total_block_fee div 16; r = forger_reward per_block_mc_reward per_block_fee
      in case calculate_remainders (total_block_fee mod 16) of
           None \<Rightarrow> rerr TypeError ''cannot unpack non-iterable NoneType object'' []
         | Some (r1b, r1a, r2, r3, r4, r5, r6, r7) \<Rightarrow>
             Inr \<lparr>fr_1_before = r 2 r1b, fr_1_after = r 3 (total_node_1_tips + r1a), fr_2 = r 3 (total_node_2_tips + r2),
               fr_3 = r 2 r3, fr_4 = r 2 r4, fr_5 = r 2 r5, fr_6 = r 1 r6, fr_7 = r 1 r7\<rparr>)"

text \<open>What an address is paid: the whole, the part from the mainchain, the part from the fees.\<close>

record payment =
  py_address :: string
  py_value :: int
  py_from_mc :: int
  py_from_fees :: int

definition payment_by :: "string \<Rightarrow> ((reward \<Rightarrow> int) \<Rightarrow> int) \<Rightarrow> payment" where
  "payment_by address f = \<lparr>py_address = address, py_value = f rw_total, py_from_mc = f rw_mc, py_from_fees = f rw_fee\<rparr>"

definition half_up :: "int \<Rightarrow> int" where
  "half_up x = x div 2 + x mod 2"

definition reward_address :: "string \<Rightarrow> string" where
  "reward_address s = ''000000000000000000001234123412341234'' @ s"

definition delegator_address :: "string \<Rightarrow> string" where
  "delegator_address s = ''000000000000000000005678567856785678'' @ s"

definition expected_payments :: "forger_rewards \<Rightarrow> payment list" where
  "expected_payments fr =
     [payment_by (reward_address ''1111'') (\<lambda>p. p (fr_1_before fr) + p (fr_1_after fr) div 2 + p (fr_2 fr) div 2 + p (fr_1_after fr) mod 2 + p (fr_2 fr) mod 2),
      payment_by (reward_address ''3333'') (\<lambda>p. half_up (p (fr_3 fr))),
      payment_by (reward_address ''4444'') (\<lambda>p. half_up (p (fr_4 fr))),
      payment_by (reward_address ''5555'') (\<lambda>p. p (fr_5 fr)),
      payment_by (reward_address ''7777'') (\<lambda>p. p (fr_7 fr)),
      payment_by (delegator_address ''1111'') (\<lambda>p. p (fr_1_after fr) div 2),
      payment_by (delegator_address ''2222'') (\<lambda>p. p (fr_2 fr) div 2),
      \<lparr>py_address = delegator_address ''3333'', py_value = rw_total (fr_3 fr) div 2 + rw_total (fr_4 fr) div 2,
       py_from_mc = (rw_mc (fr_3 fr) + rw_mc (fr_4 fr)) div 2, py_from_fees = (rw_fee (fr_3 fr) + rw_fee (fr_4 fr)) div 2\<rparr>,
      payment_by (delegator_address ''5555'') (\<lambda>p. p (fr_6 fr))]"

text \<open>The comparison with the answer of the node: the first payment to the address.\<close>

definition check_payment :: "pyval list \<Rightarrow> payment \<Rightarrow> unit res" where
  "check_payment api_fee_payments p =
     rbind (rmap (\<lambda>f. rbind (py_path f [''address'', ''address'']) (\<lambda>a. Inr (if py_eq a (PStr (py_address p)) then [f] else []))) api_fee_payments) (\<lambda>found.
     rbind (list_get (concat found) 0) (\<lambda>f.
     rbind (py_get f ''value'') (\<lambda>v. rbind (assert_equal (PInt (py_value p)) v []) (\<lambda>_.
     rbind (py_get f ''valueFromMainchain'') (\<lambda>v. rbind (assert_equal (PInt (py_from_mc p)) v []) (\<lambda>_.
     rbind (py_get f ''valueFromFees'') (\<lambda>v. assert_equal (PInt (py_from_fees p)) v [])))))))"

section \<open>Steps of the test\<close>

definition activate_stake_v2 ::
  "'w env \<Rightarrow> eth_lib \<Rightarrow> (string \<Rightarrow> (string \<times> string list) list) \<Rightarrow> string \<Rightarrow> sc_node \<Rightarrow> ('w, int \<times> int) prog" where
  "activate_stake_v2 E L walk evm_address_sc_node_1 sc_node_1 =
     pbind (SmartContract E walk ''ForgerStakesV2'') (\<lambda>contract.
     pbind (pbind (contract_function_call E L sc_node_1 contract FORGER_STAKE_V2_SMART_CONTRACT_ADDRESS evm_address_sc_node_1 ''activate()'' [] 0 None (PStr ''latest''))
         (\<lambda>v. plift (as_str v))) (\<lambda>tx_hash.
     pseq (generate_next_block E sc_node_1 ''first node'' False PNone) (
     pbind (computeForgedTxFee E L sc_node_1 tx_hash) (\<lambda>(_, forgersPoolFee, forgerTip).
     pseq (sc_sync_all E False) (
     pseq (generate_next_block E sc_node_1 ''first node'' False PNone) (
     pbind (sc_field E sc_node_1 ''rpc_eth_getTransactionReceipt'' [PStr tx_hash] [''result'']) (\<lambda>tx_receipt.
     pbind (plift (py_get tx_receipt ''status'')) (\<lambda>status.
     pseq (check_eq (PStr ''0x1'') status ''Transaction failed'') (
     pbind (plift (rbind (py_get tx_receipt ''gasUsed'') py_int16)) (\<lambda>used.
     pseq (check_eq (PInt (21000 + 4 * 16)) (PInt used) ''wrong used gas'')
       (pret (forgersPoolFee, forgerTip))))))))))))"

definition create_forger_stake ::
  "'w env \<Rightarrow> eth_lib \<Rightarrow> account_setup \<Rightarrow> mc_node \<Rightarrow> sc_node \<Rightarrow> int \<Rightarrow> int \<Rightarrow> ('w, pyval \<times> pyval \<times> pyval) prog" where
  "create_forger_stake E L self mc_node sc_node ft_amount_in_zen forger_stake_amount =
     (let ft_amount_in_wei = convertZenniesToWei (convertZenToZennies (NInt ft_amount_in_zen))
      in pbind (new_address E sc_node) (\<lambda>address.
         pbind (new_public_key E sc_node ''wallet_createPrivateKey25519'') (\<lambda>block_sign_pub_key.
         pbind (new_public_key E sc_node ''wallet_createVrfSecret'') (\<lambda>vrf_pub_key.
         pbind (plift (as_bootstrap_info self)) (\<lambda>info.
         pbind (mc_call E mc_node ''getnewaddress'' []) (\<lambda>mc_return_address.
         pseq (forward_transfer_to_sidechain E (bi_sidechain_id info) mc_node address (PInt ft_amount_in_zen) mc_return_address False) (
         pseq (sync_all E) (
         pbind (mempool_size E mc_node) (\<lambda>n.
         pseq (check_eq (PInt 1) n ''Forward Transfer expected to be added to mempool.'') (
         pbind (mc_generate E mc_node 1 0) (\<lambda>mcblock_hash1.
         pbind (sc_nth 0) (\<lambda>node0.
         pbind (generate_next_block E node0 ''first node'' False PNone) (\<lambda>scblock_id1.
         pseq (check_mcreference_presence E mcblock_hash1 scblock_id1 node0) (
         pseq (sc_sync_all E False) (
         pbind (ac_wallet_balance E sc_node address None) (\<lambda>initial_balance_2.
         pseq (check_eq (PInt ft_amount_in_wei) initial_balance_2 []) (
         pbind (ac_makeForgerStake E sc_node address block_sign_pub_key vrf_pub_key (PInt (convertZenToZennies (NInt forger_stake_amount))) PNone) (\<lambda>res.
         pbind (plift (py_in ''result'' res)) (\<lambda>ok.
         pbind (plift (json_dumps res)) (\<lambda>text.
         pseq (if ok then pret () else plift (fail (''make forger stake failed: '' @ text))) (
         pseq (sc_sync_all E False) (
         pbind (plift (rbind (py_path res [''result'', ''transactionId'']) as_str)) (\<lambda>tx_hash_0.
         pseq (generate_next_block E node0 ''first node'' False PNone) (
         pseq (sc_sync_all E False) (
         pbind (computeForgedTxFee E L node0 tx_hash_0) (\<lambda>(transactionFee_0, _, _).
         pbind (sc_field E sc_node ''wallet_getTotalBalance'' [] [''result'', ''balance'']) (\<lambda>balance.
         pseq (check_eq (PInt (ft_amount_in_wei - (convertZenToWei (NInt forger_stake_amount) + transactionFee_0))) balance [])
           (pret (address, block_sign_pub_key, vrf_pub_key)))))))))))))))))))))))))))))"

text \<open>\<^verbatim>\<open>advance_to_epoch\<close>: forging, each time into the next epoch, until the best block is in the wanted epoch. The
  loop follows what the node reports, without a limit.\<close>

definition best_epoch :: "'w env \<Rightarrow> sc_node \<Rightarrow> ('w, rat) prog" where
  "best_epoch E sc_node = pbind (sc_field E sc_node ''block_forgingInfo'' [] [''result'', ''bestBlockEpochNumber'']) (\<lambda>v. plift (as_num v))"

definition epoch_round :: "'w env \<Rightarrow> sc_node \<Rightarrow> int \<Rightarrow> rat \<Rightarrow> ('w, bool \<times> rat) prog" where
  "epoch_round E sc_node epoch_number current_epoch =
     (if current_epoch < of_int epoch_number then
        pseq (generate_next_block E sc_node ''first node'' True PNone) (
        pseq (sc_sync_all E False) (
        pbind (best_epoch E sc_node) (\<lambda>current_epoch. pret (False, current_epoch))))
      else pret (True, current_epoch))"

definition advance_to_epoch :: "'w env \<Rightarrow> int \<Rightarrow> ('w, unit) prog" where
  "advance_to_epoch E epoch_number =
     pbind (sc_nth 0) (\<lambda>sc_node.
     pbind (best_epoch E sc_node) (\<lambda>current_epoch.
     pseq (plift (assert_false (current_epoch > of_int epoch_number) ''unexpected epoch number'')) (
     pseq (py_loop_with (epoch_round E sc_node epoch_number) current_epoch) (pret ()))))"

definition rewarded :: "string \<Rightarrow> string \<Rightarrow> bool \<Rightarrow> sc_node_configuration" where
  "rewarded address suffix submits = SCNodeConfiguration None PNone
     ((connected_to address)\<lparr>nc_forger_options := SCForgerConfiguration False [] (reward_address suffix), nc_api_key := ''Horizen'', nc_cert_submitter_enabled := submits\<rparr>)"

definition dr_sc_setup_chain :: "'w env \<Rightarrow> run_options \<Rightarrow> account_setup \<Rightarrow> ('w, account_setup) prog" where
  "dr_sc_setup_chain E options self =
     pbind (mc_nth 0) (\<lambda>mc_node.
     pbind (pget (\<lambda>s. ws_address E s mc_node 0)) (\<lambda>address.
     pbind (plift (plain_creation mc_node 3 20)) (\<lambda>creation.
     pbind (bootstrap_sidechain_nodes E options
         \<lparr>net_sc_creation_info = creation, net_sc_nodes_configuration = [rewarded address ''1111'' True, rewarded address ''1111'' False, rewarded address ''3333'' False,
            rewarded address ''4444'' False, rewarded address ''5555'' False, rewarded address ''6666'' False, rewarded address ''7777'' False]\<rparr>
         (PInt (720 * 12 * 100)) AccountModel) (\<lambda>info.
       pret (self\<lparr>as_sc_nodes_bootstrap_info := Some info\<rparr>)))))"

section \<open>The test\<close>

definition dr_setup :: "account_setup \<Rightarrow> account_setup" where
  "dr_setup args = args\<lparr>as_number_of_sidechain_nodes := 7, as_withdrawalEpochLength := 20, as_forward_amount := PInt 50,
     as_block_timestamp_rewind := PInt (720 * 12 * 100)\<rparr>"

definition all_stakes :: "'w env \<Rightarrow> sc_node \<Rightarrow> ('w, pyval) prog" where
  "all_stakes E node = sc_field E node ''transaction_allForgingStakes'' [] [''result'', ''stakes'']"

text \<open>The forgers 2 to 7; the result are the keys of all seven.\<close>

definition create_forgers :: "'w env \<Rightarrow> eth_lib \<Rightarrow> account_setup \<Rightarrow> mc_node \<Rightarrow> sc_node \<Rightarrow> sc_node list \<Rightarrow> ('w, (pyval \<times> pyval) list) prog" where
  "create_forgers E L self mc_node sc_node_1 others =
     pbind (all_stakes E sc_node_1) (\<lambda>forger_stake_list.
     pbind (plift (rbind (py_nth forger_stake_list 0) (\<lambda>f. py_path f [''forgerStakeData'', ''forgerPublicKeys'', ''blockSignPublicKey'', ''publicKey'']))) (\<lambda>sign1.
     pbind (plift (rbind (py_nth forger_stake_list 0) (\<lambda>f. py_path f [''forgerStakeData'', ''forgerPublicKeys'', ''vrfPublicKey'', ''publicKey'']))) (\<lambda>vrf1.
     pbind (pmap (\<lambda>n. create_forger_stake E L self mc_node n 13 11) others) (\<lambda>created.
     pseq (sc_sync_all E False) (
     pbind (all_stakes E sc_node_1) (\<lambda>stakeList.
     pbind (plift (py_len stakeList)) (\<lambda>n.
     pseq (check_eq (PInt 7) (PInt n) [])
       (pret ((sign1, vrf1) # map (\<lambda>(_, sign, vrf). (sign, vrf)) created)))))))))"

definition upgrade_stakes :: "'w env \<Rightarrow> eth_lib \<Rightarrow> (string \<Rightarrow> (string \<times> string list) list) \<Rightarrow> sc_node \<Rightarrow> string \<Rightarrow> ('w, unit) prog" where
  "upgrade_stakes E L walk sc_node_1 address =
     pseq (generate_next_block E sc_node_1 ''first'' True PNone) (
     pseq (generate_next_block E sc_node_1 ''first'' True PNone) (
     pbind (SmartContract E walk ''ForgerStakes'') (\<lambda>contract.
     pseq (contract_function_call E L sc_node_1 contract FORGER_STAKE_SMART_CONTRACT_ADDRESS address ''upgrade()'' [] 0 None (PStr ''latest'')) (
     pseq (generate_next_block E sc_node_1 ''first node'' True PNone)
       (sc_sync_all E False)))))"

definition forge_names :: "string list" where
  "forge_names = [''second'', ''third'', ''fourth'', ''fifth'', ''sixth'', ''seventh'']"

definition forge_with_each :: "'w env \<Rightarrow> sc_node list \<Rightarrow> ('w, unit) prog" where
  "forge_with_each E others = piter (\<lambda>(n, name). pseq (generate_next_block E n name False PNone) (pret ())) (zip others forge_names)"

definition first_distribution :: "'w env \<Rightarrow> account_setup \<Rightarrow> mc_node \<Rightarrow> sc_node \<Rightarrow> ('w, unit) prog" where
  "first_distribution E self mc_node sc_node_1 =
     pseq (forward_to E self mc_node (PStr (format_eoa FORGER_POOL_RECIPIENT_ADDRESS)) (PInt 1000) False) (
     pseq (mc_call E mc_node ''generate'' [PInt (as_withdrawalEpochLength self - 7)]) (
     pseq (sync_all E) (
     pseq (sc_sync_all E False) (
     pbind (generate_next_block E sc_node_1 ''first node'' False PNone) (\<lambda>sc_last_we_block_id.
     pseq (sc_sync_all E False) (
     pbind (pbind (http_block_getFeePayments E sc_node_1 sc_last_we_block_id) (\<lambda>r. plift (rbind (py_get r ''feePayments'') py_len))) (\<lambda>n.
       check_eq (PInt 7) (PInt n) [])))))))"

definition cert_round :: "'w env \<Rightarrow> mc_node \<Rightarrow> sc_node \<Rightarrow> ('w, bool) prog" where
  "cert_round E mc_node sc_node =
     pbind (cert_ready E (mc_node, sc_node)) (\<lambda>ready.
       if ready then pret True
       else pseq (cert_generation_active E sc_node) (pseq (py_sleep E 2) (pret False)))"

text \<open>Two blocks start the submission, then the test waits for the certificate.\<close>

definition await_certificate :: "'w env \<Rightarrow> mc_node \<Rightarrow> sc_node \<Rightarrow> ('w, unit) prog" where
  "await_certificate E mc_node sc_node_1 =
     pseq (generate_next_block E sc_node_1 ''first node'' False PNone) (
     pseq (generate_next_block E sc_node_1 ''first node'' False PNone) (
     pseq (py_sleep E 10) (
     pseq (py_loop (cert_round E mc_node sc_node_1)) (
     pbind (mempool_size E mc_node) (\<lambda>n.
       check_eq (PInt 1) n ''Certificates was not added to MC node mempool.'')))))"

definition submit_certificate :: "'w env \<Rightarrow> mc_node \<Rightarrow> sc_node \<Rightarrow> ('w, unit) prog" where
  "submit_certificate E mc_node sc_node_1 =
     pseq (await_certificate E mc_node sc_node_1) (
     pseq (mc_call E mc_node ''generate'' [PInt 1]) (
     pseq (sync_all E)
       (sc_sync_all E False)))"

text \<open>The update of a forger with its delegator and share; forger 5 is left alone.\<close>

definition updates :: "(nat \<times> string \<times> int) list" where
  "updates = [(0, delegator_address ''1111'', 500), (1, delegator_address ''2222'', 500), (2, delegator_address ''3333'', 500),
     (3, delegator_address ''3333'', 500), (5, delegator_address ''5555'', 1000), (6, reward_address ''7777'', 500)]"

definition update_forger :: "'w env \<Rightarrow> sc_node list \<Rightarrow> (pyval \<times> pyval) list \<Rightarrow> nat \<times> string \<times> int \<Rightarrow> ('w, string) prog" where
  "update_forger E nodes keys = (\<lambda>(i, address, share).
     pbind (ac_updateForger E (nodes ! i) (fst (keys ! i)) (snd (keys ! i)) (PStr address) (PInt share) PNone) (\<lambda>r.
       plift (rbind (py_path r [''result'', ''transactionId'']) as_str)))"

text \<open>The blocks of the second distribution; the result are the fees of the transactions and the tips of the
  first and the second node.\<close>

definition second_epoch ::
  "'w env \<Rightarrow> eth_lib \<Rightarrow> (string \<Rightarrow> (string \<times> string list) list) \<Rightarrow> account_setup \<Rightarrow> mc_node \<Rightarrow> sc_node list \<Rightarrow> (pyval \<times> pyval) list \<Rightarrow> string \<Rightarrow> ('w, int \<times> int \<times> int) prog" where
  "second_epoch E L walk self mc_node nodes keys address =
     (let sc_node_1 = nodes ! 0; sc_node_2 = nodes ! 1
      in pseq (generate_next_block E sc_node_1 ''first'' True PNone) (
         pseq (forward_to E self mc_node (PStr (format_eoa FORGER_POOL_RECIPIENT_ADDRESS)) (PInt 100) False) (
         pbind (activate_stake_v2 E L walk address sc_node_1) (\<lambda>(forger_pool_fee_1, node_1_tip_1).
         pbind (pmap (update_forger E nodes keys) updates) (\<lambda>update_txs.
         pseq (sc_sync_all E False) (
         pseq (generate_next_block E sc_node_2 ''second'' False PNone) (
         pbind (pmap (computeForgedTxFee E L sc_node_1) update_txs) (\<lambda>fees.
         pseq (piter (\<lambda>(i, name, k). pseq (generate_next_blocks E (nodes ! i) name k) (pret ()))
             [(1, ''second'', 1), (2, ''third'', 2), (3, ''fourth'', 2), (4, ''fifth'', 2), (5, ''sixth'', 1), (6, ''seventh'', 1)]) (
         pseq (mc_call E mc_node ''generate'' [PInt (as_withdrawalEpochLength self - 1)])
           (pret (forger_pool_fee_1 + sum_list (map (\<lambda>(_, pool, _). pool) fees), node_1_tip_1, sum_list (map (\<lambda>(_, _, tip). tip) fees))))))))))))"

definition second_distribution :: "'w env \<Rightarrow> sc_node \<Rightarrow> sc_node \<Rightarrow> int \<times> int \<times> int \<Rightarrow> ('w, unit) prog" where
  "second_distribution E sc_node_1 sc_node_2 = (\<lambda>(total_block_fee, tips_1, tips_2).
     pbind (plift (compute_rewards total_block_fee tips_1 tips_2)) (\<lambda>fr.
     pbind (generate_next_block E sc_node_2 ''second'' False PNone) (\<lambda>sc_last_we_block_id.
     pbind (pbind (http_block_getFeePayments E sc_node_1 sc_last_we_block_id) (\<lambda>r. plift (rbind (py_get r ''feePayments'') py_items))) (\<lambda>api_fee_payments.
     pseq (check_eq (PInt 9) (PInt (int (length api_fee_payments))) []) (
     pseq (piter (\<lambda>p. plift (check_payment api_fee_payments p)) (expected_payments fr))
       (sc_sync_all E False))))))"

definition dr_run_test ::
  "'w env \<Rightarrow> eth_lib \<Rightarrow> (string \<Rightarrow> (string \<times> string list) list) \<Rightarrow> account_options \<Rightarrow> account_setup \<Rightarrow> ('w, unit) prog" where
  "dr_run_test E L walk options self =
     (if op_all_forks options then praise SystemExit [] []
      else pbind (mc_nth 0) (\<lambda>mc_node.
       pbind (pmap sc_nth [0, 1, 2, 3, 4, 5, 6]) (\<lambda>nodes.
       let sc_node_1 = nodes ! 0
       in pseq (connect_sc_nodes E sc_node_1 1 25) (
          pseq (sc_sync_all E False) (
          pseq (advance_to_epoch E 67) (
          pseq (sync_all E) (
          pseq (sc_sync_all E False) (
          pbind (new_address E sc_node_1) (\<lambda>evm_address_sc_node_1.
          pseq (forward_to E self mc_node evm_address_sc_node_1 (PInt 1000) False) (
          pseq (mc_call E mc_node ''generate'' [PInt 1]) (
          pseq (sync_all E) (
          pseq (generate_next_block E sc_node_1 ''first'' True PNone) (
          pseq (sc_sync_all E False) (
          pbind (create_forgers E L self mc_node sc_node_1 (drop 1 nodes)) (\<lambda>keys.
          pbind (plift (as_str evm_address_sc_node_1)) (\<lambda>address.
          pseq (upgrade_stakes E L walk sc_node_1 address) (
          pseq (forge_with_each E (drop 1 nodes)) (
          pseq (advance_to_epoch E 79) (
          pseq (first_distribution E self mc_node sc_node_1) (
          pseq (submit_certificate E mc_node sc_node_1) (
          pbind (second_epoch E L walk self mc_node nodes keys address)
            (second_distribution E sc_node_1 (nodes ! 1)))))))))))))))))))))))"

section \<open>The shares of the remainder\<close>

text \<open>The comment of the source lists the forgers of the sixteen blocks of the epoch in order; forger 0 stands for the
  blocks of forger 1 before it had a delegator. A forger gets one unit of the rest for each of its blocks among the
  first \<open>r\<close>.\<close>

definition block_order :: "nat list" where
  "block_order = [0, 0, 1, 1, 1, 2, 2, 3, 3, 4, 4, 5, 5, 6, 7, 2]"

definition units_of :: "nat \<Rightarrow> nat \<Rightarrow> int" where
  "units_of r forger = int (count_list (take r block_order) forger)"

definition shares_of :: "nat \<Rightarrow> int \<times> int \<times> int \<times> int \<times> int \<times> int \<times> int \<times> int" where
  "shares_of r = (units_of r 0, units_of r 1, units_of r 2, units_of r 3, units_of r 4, units_of r 5, units_of r 6, units_of r 7)"

lemma below_sixteen:
  "n < 16 \<longleftrightarrow> n \<in> {0, 1, 2, 3, 4, 5, 6, 7, 8, 9, 10, 11, 12, 13, 14, 15 :: nat}"
  by (simp only: insert_iff empty_iff) presburger

lemma calculate_remainders_shares:
  assumes "n < 16" shows "calculate_remainders (int n) = Some (shares_of n)"
  using assms unfolding below_sixteen
  by (auto simp: calculate_remainders_def shares_of_def units_of_def block_order_def numeral_eq_Suc)

lemma remainder_cases:
  obtains n where "n < 16" "fee mod 16 = int n" "calculate_remainders (fee mod 16) = Some (shares_of n)"
proof
  show "nat (fee mod 16) < 16" "fee mod 16 = int (nat (fee mod 16))" by auto
  then show "calculate_remainders (fee mod 16) = Some (shares_of (nat (fee mod 16)))"
    using calculate_remainders_shares by metis
qed

lemma sum_units:
  assumes "n < 16" shows "units_of n 0 + units_of n 1 + units_of n 2 + units_of n 3 + units_of n 4 + units_of n 5 + units_of n 6 + units_of n 7 = int n"
  using assms unfolding below_sixteen by (auto simp: units_of_def block_order_def numeral_eq_Suc)

text \<open>Forger 4 gets a unit only when forger 3 has its full, even share.\<close>

lemma units_3_4: "even (units_of n 3) \<or> even (units_of n 4)" if "n < 16"
  using that unfolding below_sixteen by (auto simp: units_of_def block_order_def numeral_eq_Suc)

text \<open>The description at the head of the test gives forger 1 two units before the fork and two after it, and forger 2
  two: no rest is distributed like that, since forger 2 gets a unit only when forger 1 has its third one after the fork.\<close>
theorem described_remainders_never:
  "calculate_remainders r \<noteq> Some (2, 2, 2, a, b, c, d, e)"
  by (simp add: calculate_remainders_def)

text \<open>C32. A rest of the fees below sixteen is given to the forgers exactly as the comment on the order of the blocks
  inside the function says: one unit for each block among the first ones. A rest of sixteen or more has no distribution. The
  description at the head of the test names other remainders, two units each for forger 1 before and after the fork and for
  forger 2, which no rest gives.\<close>
theorem calculate_remainders_by_block:
  "calculate_remainders (int n) = (if n < 16 then Some (shares_of n) else None)"
  using calculate_remainders_shares [of n] by (simp add: calculate_remainders_def)

section \<open>Everything is distributed\<close>

lemma mc_reward_value: "per_block_mc_reward = 1562500000000000000"
  unfolding per_block_mc_reward_def by code_simp

lemma half_up_rest: "half_up x = x - x div 2" for x :: int
  unfolding half_up_def using mult_div_mod_eq [of 2 x] by linarith

lemma compute_rewards_ok:
  assumes "n < 16" "fee mod 16 = int n" "calculate_remainders (fee mod 16) = Some (shares_of n)"
  shows "compute_rewards fee t1 t2 =
     (let r = forger_reward per_block_mc_reward (fee div 16)
      in Inr \<lparr>fr_1_before = r 2 (units_of n 0), fr_1_after = r 3 (t1 + units_of n 1), fr_2 = r 3 (t2 + units_of n 2),
           fr_3 = r 2 (units_of n 3), fr_4 = r 2 (units_of n 4), fr_5 = r 2 (units_of n 5), fr_6 = r 1 (units_of n 6), fr_7 = r 1 (units_of n 7)\<rparr>)"
  using assms(3) by (simp add: compute_rewards_def shares_of_def Let_def)

lemmas payment_defs = expected_payments_def payment_by_def rw_total_def forger_reward_def

lemma payments_sum:
  "sum_list (map py_value (expected_payments fr)) =
     rw_total (fr_1_before fr) + rw_total (fr_1_after fr) + rw_total (fr_2 fr) + rw_total (fr_3 fr) + rw_total (fr_4 fr) +
     rw_total (fr_5 fr) + rw_total (fr_6 fr) + rw_total (fr_7 fr)"
  using mult_div_mod_eq [of 2 "rw_total (fr_1_after fr)"] mult_div_mod_eq [of 2 "rw_total (fr_2 fr)"]
  by (simp add: expected_payments_def payment_by_def half_up_rest)

lemma rewards_sum:
  assumes "compute_rewards fee t1 t2 = Inr fr"
  shows "rw_total (fr_1_before fr) + rw_total (fr_1_after fr) + rw_total (fr_2 fr) + rw_total (fr_3 fr) + rw_total (fr_4 fr) +
     rw_total (fr_5 fr) + rw_total (fr_6 fr) + rw_total (fr_7 fr) = fee + t1 + t2 + 16 * per_block_mc_reward"
proof -
  obtain n where n: "n < 16" "fee mod 16 = int n" "calculate_remainders (fee mod 16) = Some (shares_of n)"
    by (rule remainder_cases)
  have "fee = 16 * (fee div 16) + int n" using n(2) mult_div_mod_eq [of 16 fee] by simp
  then show ?thesis
    using assms sum_units [OF n(1)] unfolding compute_rewards_ok [OF n]
    by (auto simp: Let_def rw_total_def forger_reward_def)
qed

text \<open>C31. The expected payments of an epoch, for every sum of fees and every tips, add up to the fees, the tips and sixteen
  times the reward of a block from the mainchain: the halving between forgers and delegators and the sharing of the
  rest lose and invent nothing.\<close>
theorem payments_conserve:
  "\<exists>fr. compute_rewards fee t1 t2 = Inr fr \<and>
     sum_list (map py_value (expected_payments fr)) = fee + t1 + t2 + 16 * per_block_mc_reward"
proof -
  obtain n where n: "n < 16" "fee mod 16 = int n" "calculate_remainders (fee mod 16) = Some (shares_of n)"
    by (rule remainder_cases)
  then obtain fr where "compute_rewards fee t1 t2 = Inr fr" by (simp add: compute_rewards_ok Let_def)
  then show ?thesis using rewards_sum by (simp add: payments_sum)
qed

lemma even_mc_split:
  assumes "even (rw_mc r)"
  shows "rw_total r div 2 = rw_mc r div 2 + rw_fee r div 2" "rw_total r mod 2 = rw_mc r mod 2 + rw_fee r mod 2"
    "half_up (rw_total r) = half_up (rw_mc r) + half_up (rw_fee r)"
  using assms by (auto simp: rw_total_def half_up_def elim!: evenE)

lemma even_sum_div: "(a + b) div 2 = a div 2 + b div 2" if "even a \<or> even b" for a b :: int
  using that by (auto elim!: evenE)

text \<open>In every expected payment the parts from the mainchain and from the fees add up to the value, although each
  of the three numbers is halved and rounded by itself.\<close>
theorem payment_parts:
  assumes "compute_rewards fee t1 t2 = Inr fr" and "p \<in> set (expected_payments fr)"
  shows "py_value p = py_from_mc p + py_from_fees p"
proof -
  obtain n where n: "n < 16" "fee mod 16 = int n" "calculate_remainders (fee mod 16) = Some (shares_of n)"
    by (rule remainder_cases)
  have fr: "even (rw_mc (fr_1_after fr))" "even (rw_mc (fr_2 fr))" "even (rw_mc (fr_3 fr))" "even (rw_mc (fr_4 fr))"
      "even (rw_fee (fr_3 fr)) \<or> even (rw_fee (fr_4 fr))"
    using assms(1) units_3_4 [OF n(1)] unfolding compute_rewards_ok [OF n]
    by (auto simp: Let_def forger_reward_def mc_reward_value)
  show ?thesis
    using assms(2) by (auto simp: expected_payments_def payment_by_def even_mc_split fr even_sum_div
      rw_total_def [of "fr_1_before fr"] rw_total_def [of "fr_5 fr"] rw_total_def [of "fr_6 fr"] rw_total_def [of "fr_7 fr"])
qed

theorem payment_parts_witness:
  "\<forall>p \<in> set (expected_payments \<lparr>fr_1_before = \<lparr>rw_mc = 3125000000000000000, rw_fee = 14\<rparr>, fr_1_after = \<lparr>rw_mc = 4687500000000000000, rw_fee = 26\<rparr>,
      fr_2 = \<lparr>rw_mc = 4687500000000000000, rw_fee = 26\<rparr>, fr_3 = \<lparr>rw_mc = 3125000000000000000, rw_fee = 13\<rparr>, fr_4 = \<lparr>rw_mc = 3125000000000000000, rw_fee = 12\<rparr>,
      fr_5 = \<lparr>rw_mc = 3125000000000000000, rw_fee = 12\<rparr>, fr_6 = \<lparr>rw_mc = 1562500000000000000, rw_fee = 6\<rparr>, fr_7 = \<lparr>rw_mc = 1562500000000000000, rw_fee = 6\<rparr>\<rparr>).
     py_value p = py_from_mc p + py_from_fees p"
proof
  fix p
  assume "p \<in> set (expected_payments \<lparr>fr_1_before = \<lparr>rw_mc = 3125000000000000000, rw_fee = 14\<rparr>, fr_1_after = \<lparr>rw_mc = 4687500000000000000, rw_fee = 26\<rparr>,
      fr_2 = \<lparr>rw_mc = 4687500000000000000, rw_fee = 26\<rparr>, fr_3 = \<lparr>rw_mc = 3125000000000000000, rw_fee = 13\<rparr>, fr_4 = \<lparr>rw_mc = 3125000000000000000, rw_fee = 12\<rparr>,
      fr_5 = \<lparr>rw_mc = 3125000000000000000, rw_fee = 12\<rparr>, fr_6 = \<lparr>rw_mc = 1562500000000000000, rw_fee = 6\<rparr>, fr_7 = \<lparr>rw_mc = 1562500000000000000, rw_fee = 6\<rparr>\<rparr>)"
  then show "py_value p = py_from_mc p + py_from_fees p"
    by (intro payment_parts [of 104 5 6])
      (simp_all add: compute_rewards_def calculate_remainders_def forger_reward_def mc_reward_value)
qed

end
