(* ===== verification/Eoa_Transfers.thy ===== *)
theory Eoa_Transfers
  imports Test_Steps Account_Http Smart_Contract
begin

text \<open>
  The test \<^verbatim>\<open>qa/sc_evm_eoa2eoa.py\<close>: transfers between externally owned accounts. \<open>makeEoa2Eoa\<close> sends one
  transfer, forges a block and compares the balances of both accounts before and after; its result is the
  triple of the code (whether it worked, a message, the transaction).
\<close>

section \<open>One transfer\<close>

definition transfer_params :: "pyval \<Rightarrow> pyval \<Rightarrow> int \<Rightarrow> pyval \<Rightarrow> tx_params" where
  "transfer_params from_addr to_addr amount_in_wei nonce =
     \<lparr>tx_from = from_addr, tx_to = to_addr, tx_nonce = nonce, tx_gasLimit = PInt 21000, tx_gasPrice = PInt 1000000000,
      tx_maxPriorityFeePerGas = PNone, tx_maxFeePerGas = PNone, tx_value = PInt amount_in_wei, tx_data = PStr [],
      tx_signature_v = PNone, tx_signature_r = PNone, tx_signature_s = PNone\<rparr>"

definition send_transfer :: "'w env \<Rightarrow> sc_node \<Rightarrow> pyval \<Rightarrow> pyval \<Rightarrow> int \<Rightarrow> pyval \<Rightarrow> bool \<Rightarrow> ('w, pyval) prog" where
  "send_transfer E from_sc_node from_addr to_addr amount_in_wei nonce isEIP155 =
     (if isEIP155 then createLegacyEIP155Transaction E from_sc_node (transfer_params from_addr to_addr amount_in_wei nonce) None
      else createLegacyTransaction E from_sc_node (transfer_params from_addr to_addr amount_in_wei nonce) None False)"

text \<open>The sum of a balance and a number, where the balance has to be an integer, and \<^verbatim>\<open>int(v[2:], 16)\<close>.\<close>

definition balance_plus :: "pyval \<Rightarrow> int \<Rightarrow> pyval res" where
  "balance_plus v d = rbind (as_int v) (\<lambda>i. Inr (PInt (i + d)))"

definition hex_tail :: "pyval \<Rightarrow> int res" where
  "hex_tail v = rbind (as_str v) (\<lambda>s. py_int16 (PStr (drop 2 s)))"

definition receipt_fee :: "pyval \<Rightarrow> int res" where
  "receipt_fee receipt =
     rbind (rbind (py_path receipt [''result'', ''gasUsed'']) hex_tail) (\<lambda>gas.
     rbind (rbind (py_path receipt [''result'', ''effectiveGasPrice'']) hex_tail) (\<lambda>price. Inr (gas * price)))"

text \<open>The comparison of the balances: after a failed receipt only the fee is gone; a transfer to the sender's
  own address costs the fee only.\<close>

definition check_failed :: "pyval \<Rightarrow> pyval \<Rightarrow> pyval \<Rightarrow> pyval \<Rightarrow> int \<Rightarrow> unit res" where
  "check_failed initial_from initial_to final_from final_to gasUsed =
     rbind (assert_equal initial_to final_to []) (\<lambda>_.
     rbind (balance_plus initial_from (- gasUsed)) (\<lambda>v. assert_equal v final_from []))"

definition check_moved :: "bool \<Rightarrow> int \<Rightarrow> pyval \<Rightarrow> pyval \<Rightarrow> pyval \<Rightarrow> pyval \<Rightarrow> int \<Rightarrow> unit res" where
  "check_moved different amount_in_wei initial_from initial_to final_from final_to gasUsed =
     rbind (balance_plus initial_to (if different then amount_in_wei else - gasUsed)) (\<lambda>to.
     rbind (balance_plus initial_from (if different then - amount_in_wei - gasUsed else - gasUsed)) (\<lambda>from.
     rbind (assert_true (py_eq to final_to) []) (\<lambda>_. assert_true (py_eq from final_from) [])))"

definition check_balances :: "bool \<Rightarrow> int \<Rightarrow> pyval \<Rightarrow> pyval \<Rightarrow> pyval \<Rightarrow> pyval \<Rightarrow> pyval \<Rightarrow> pyval \<Rightarrow> (bool \<times> string \<times> pyval) res" where
  "check_balances different amount_in_wei receipt tx_hash initial_from initial_to final_from final_to =
     rbind (rbind (py_path receipt [''result'', ''status'']) py_int16) (\<lambda>status.
     rbind (receipt_fee receipt) (\<lambda>gasUsed.
       if status = 0 then rbind (check_failed initial_from initial_to final_from final_to gasUsed) (\<lambda>_.
         Inr (False, ''receipt status FAILED'', tx_hash))
       else if status = 1 then rbind (check_moved different amount_in_wei initial_from initial_to final_from final_to gasUsed) (\<lambda>_.
         Inr (True, ''OK'', tx_hash))
       else Inr (True, ''OK'', tx_hash)))"

text \<open>What follows a transfer that the node accepted.\<close>

definition settle_transfer ::
  "'w env \<Rightarrow> eth_lib \<Rightarrow> sc_node \<Rightarrow> sc_node \<Rightarrow> pyval \<Rightarrow> pyval \<Rightarrow> int \<Rightarrow> bool \<Rightarrow> pyval \<Rightarrow> pyval \<Rightarrow> pyval \<Rightarrow> ('w, bool \<times> string \<times> pyval) prog" where
  "settle_transfer E L from_sc_node to_sc_node from_addr to_addr amount_in_wei print_json_results initial_from initial_to tx_hash =
     pseq (sc_sync_all E False) (
     pbind (allTransactions E from_sc_node False) (\<lambda>response.
     pbind (plift (rbind (py_get response ''transactionIds'') (py_member tx_hash))) (\<lambda>found.
     pseq (check_that found []) (
     pseq (if print_json_results then pseq (allTransactions E from_sc_node True) (pret ()) else pret ()) (
     pseq (generate_next_block E from_sc_node ''first node'' False PNone) (
     pseq (sc_sync_all E False) (
     pbind (ac_wallet_balance E from_sc_node from_addr None) (\<lambda>final_from.
     pbind (ac_wallet_balance E to_sc_node to_addr None) (\<lambda>final_to.
     pbind (plift (as_str tx_hash)) (\<lambda>h.
     pbind (sc_call E from_sc_node ''rpc_eth_getTransactionReceipt'' [PStr (add_0x_prefix L h)]) (\<lambda>receipt.
       plift (check_balances (\<not> py_eq from_addr to_addr) amount_in_wei receipt tx_hash initial_from initial_to final_from final_to))))))))))))"

definition makeEoa2Eoa ::
  "'w env \<Rightarrow> eth_lib \<Rightarrow> sc_node \<Rightarrow> sc_node \<Rightarrow> pyval \<Rightarrow> pyval \<Rightarrow> pynum \<Rightarrow> pyval \<Rightarrow> bool \<Rightarrow> bool \<Rightarrow> ('w, bool \<times> string \<times> pyval) prog" where
  "makeEoa2Eoa E L from_sc_node to_sc_node from_addr to_addr amount_in_zen nonce isEIP155 print_json_results =
     pbind (ac_wallet_balance E from_sc_node from_addr None) (\<lambda>initial_from.
     pbind (ac_wallet_balance E to_sc_node to_addr None) (\<lambda>initial_to.
     let amount_in_wei = convertZenToWei amount_in_zen
     in pbind (ptry (pbind (send_transfer E from_sc_node from_addr to_addr amount_in_wei nonce isEIP155) (\<lambda>h. pret (Inr h)))
                (\<lambda>err. if err_kind err = RuntimeError then pret (Inl (''send failed: '' @ err_msg err)) else pthrow err)) (\<lambda>sent.
          case sent of
            Inl msg \<Rightarrow> pret (False, msg, PNone)
          | Inr tx_hash \<Rightarrow> settle_transfer E L from_sc_node to_sc_node from_addr to_addr amount_in_wei print_json_results initial_from initial_to tx_hash)))"

section \<open>The test\<close>

text \<open>\<^verbatim>\<open>str.upper\<close> on the letters that addresses have.\<close>

definition py_upper :: "string \<Rightarrow> string" where
  "py_upper s = map (\<lambda>c. case map_of (zip ''abcdefghijklmnopqrstuvwxyz'' ''ABCDEFGHIJKLMNOPQRSTUVWXYZ'') c of
     None \<Rightarrow> c | Some u \<Rightarrow> u) s"

text \<open>A transfer that has to work and one that must not.\<close>

definition transfer_works ::
  "'w env \<Rightarrow> eth_lib \<Rightarrow> sc_node \<Rightarrow> sc_node \<Rightarrow> pyval \<Rightarrow> pyval \<Rightarrow> pynum \<Rightarrow> bool \<Rightarrow> ('w, pyval) prog" where
  "transfer_works E L n m from_addr to_addr amount isEIP155 =
     pbind (makeEoa2Eoa E L n m from_addr to_addr amount PNone isEIP155 False) (\<lambda>(ret, msg, tx). pseq (check_that ret msg) (pret tx))"

definition transfer_refused ::
  "'w env \<Rightarrow> eth_lib \<Rightarrow> sc_node \<Rightarrow> sc_node \<Rightarrow> pyval \<Rightarrow> pyval \<Rightarrow> pynum \<Rightarrow> pyval \<Rightarrow> string \<Rightarrow> ('w, unit) prog" where
  "transfer_refused E L n m from_addr to_addr amount nonce msg =
     pbind (makeEoa2Eoa E L n m from_addr to_addr amount nonce False False) (\<lambda>(ret, _, _). if ret then plift (fail msg) else pret ())"

text \<open>\<^verbatim>\<open>try: ...; fail(...) except Exception\<close>: the failure is raised inside of the statement that catches it.\<close>

definition swallowed_failure :: "('w, 'a) prog \<Rightarrow> string \<Rightarrow> ('w, unit) prog" where
  "swallowed_failure body msg =
     ptry (pseq body (plift (fail msg))) (\<lambda>e. if exn_isinstance (err_kind e) PlainException then pret () else pthrow e)"

definition eoa_positive_cases :: "'w env \<Rightarrow> eth_lib \<Rightarrow> sc_node \<Rightarrow> sc_node \<Rightarrow> string \<Rightarrow> pyval \<Rightarrow> ('w, unit) prog" where
  "eoa_positive_cases E L sc_node_1 sc_node_2 addr1 addr2 =
     (let a1 = PStr addr1; up = PStr (py_upper addr1)
      in pseq (transfer_works E L sc_node_1 sc_node_2 a1 addr2 (NDec 11) False) (
         pseq (transfer_works E L sc_node_1 sc_node_2 up addr2 (NDec 11) False) (
         pbind (new_address E sc_node_1) (\<lambda>addr1_b.
         pseq (transfer_works E L sc_node_1 sc_node_2 a1 addr1_b (NDec 22) False) (
         pseq (transfer_works E L sc_node_1 sc_node_1 a1 a1 (NDec 33) False) (
         pseq (transfer_works E L sc_node_1 sc_node_2 a1 addr2 (NDec (1 / 10 ^ 8)) False) (
         pseq (transfer_works E L sc_node_1 sc_node_2 a1 addr2 (NDec 0) False) (
         pseq (transfer_works E L sc_node_1 sc_node_2 a1 (PStr ''63FaC9201494f0bd17B9892B9fae4d52fe3BD377'') (NDec 1) False) (
         pbind (transfer_works E L sc_node_1 sc_node_2 a1 addr2 (NDec 15) True) (\<lambda>txHash.
         pbind (plift (as_str txHash)) (\<lambda>h.
         pbind (sc_field E sc_node_1 ''rpc_eth_getTransactionByHash'' [PStr (add_0x_prefix L h)] [''result'']) (\<lambda>txJsonResult.
         pbind (plift (py_in ''chainId'' txJsonResult)) (\<lambda>has_chain.
         pseq (check_that has_chain []) (
         pseq (transfer_works E L sc_node_1 sc_node_2 up addr2 (NDec 15) True) (pret ())))))))))))))))"

definition eoa_negative_cases :: "'w env \<Rightarrow> eth_lib \<Rightarrow> sc_node \<Rightarrow> sc_node \<Rightarrow> pyval \<Rightarrow> pyval \<Rightarrow> ('w, unit) prog" where
  "eoa_negative_cases E L sc_node_1 sc_node_2 a1 addr2 =
     pbind (pbind (ac_wallet_balance E sc_node_1 a1 None) (\<lambda>b. plift (as_int b))) (\<lambda>balance.
     pseq (transfer_refused E L sc_node_1 sc_node_2 a1 addr2 (convertWeiToZen balance) PNone
         ''EOA2EOA of the whole balance should not work due to gas consummation'') (
     pbind (new_address E sc_node_2) (\<lambda>not_owned_address.
     pseq (transfer_refused E L sc_node_1 sc_node_2 not_owned_address addr2 (NDec 1) PNone ''EOA2EOA with not owned from address should not work'') (
     pseq (swallowed_failure (makeEoa2Eoa E L sc_node_1 sc_node_2 a1 addr2 (NDec (- 1 / 10)) PNone False False)
         ''EOA2EOA with invalid format from address should not work'') (
     pseq (transfer_refused E L sc_node_1 sc_node_2 a1 addr2 (NDec 33) (PInt 0) ''EOA2EOA with bad nonce should not work'') (
     pseq (transfer_refused E L sc_node_1 sc_node_2 a1 addr2 (NDec 5678) PNone ''EOA2EOA with too big an amount should not work'') (
     pseq (transfer_refused E L sc_node_1 sc_node_2 a1 (PStr FORGER_STAKE_SMART_CONTRACT_ADDRESS) (NDec 1) PNone
         ''EOA2EOA to native smart contract should not work'')
       (transfer_refused E L sc_node_1 sc_node_2 a1 (PStr WITHDRAWAL_REQ_SMART_CONTRACT_ADDRESS) (NDec 1) PNone
         ''EOA2EOA to native smart contract should not work''))))))))"

text \<open>\<open>strip\<close> is \<^verbatim>\<open>remove_0x_prefix\<close>.\<close>

definition eoa_run_test :: "'w env \<Rightarrow> eth_lib \<Rightarrow> (string \<Rightarrow> string) \<Rightarrow> account_setup \<Rightarrow> ('w, unit) prog" where
  "eoa_run_test E L strip self =
     pbind (sc_ac_setup E self True True (PDec 500)) (\<lambda>self.
     pbind (sc_nth 0) (\<lambda>sc_node_1.
     pbind (sc_nth 1) (\<lambda>sc_node_2.
     pbind (plift (rbind (as_str (as_evm_address self)) (\<lambda>a. Inr (strip a)))) (\<lambda>addr1.
     pbind (new_address E sc_node_2) (\<lambda>addr2.
     pseq (eoa_positive_cases E L sc_node_1 sc_node_2 addr1 addr2)
       (eoa_negative_cases E L sc_node_1 sc_node_2 (PStr addr1) addr2))))))"

section \<open>Properties\<close>

text \<open>The reference accounting of a transfer. The balances that the nodes reported before and after are
  \<open>from0\<close>, \<open>to0\<close>, \<open>from1\<close> and \<open>to1\<close>; \<open>is_int\<close> says that a reported value is a given number.\<close>

abbreviation is_int :: "pyval \<Rightarrow> int \<Rightarrow> bool" where
  "is_int v i \<equiv> py_eq (PInt i) v"

definition accounted :: "bool \<Rightarrow> int \<Rightarrow> int \<Rightarrow> int \<Rightarrow> pyval \<Rightarrow> pyval \<Rightarrow> pyval \<Rightarrow> pyval \<Rightarrow> bool" where
  "accounted different status amount fee from0 to0 from1 to1 \<longleftrightarrow>
     (status = 0 \<longrightarrow> py_eq to0 to1 \<and> (\<exists>f. as_int from0 = Inr f \<and> is_int from1 (f - fee))) \<and>
     (status = 1 \<longrightarrow> (\<exists>f t. as_int from0 = Inr f \<and> as_int to0 = Inr t \<and>
       (if different then is_int to1 (t + amount) \<and> is_int from1 (f - amount - fee) else is_int to1 (t - fee) \<and> is_int from1 (f - fee))))"

lemma balance_plus_Inr: "balance_plus v d = Inr w \<longleftrightarrow> (\<exists>i. as_int v = Inr i \<and> w = PInt (i + d))"
  by (auto simp: balance_plus_def rbind_Inr_iff)

lemma check_moved_Inr: "check_moved different amount f0 t0 f1 t1 fee = Inr () \<longleftrightarrow> accounted different 1 amount fee f0 t0 f1 t1"
  by (auto simp: check_moved_def rbind_Inr_iff balance_plus_Inr accounted_def add_diff_eq simp del: py_eq.simps)

lemma check_failed_Inr: "check_failed f0 t0 f1 t1 fee = Inr () \<longleftrightarrow> accounted different 0 amount fee f0 t0 f1 t1"
  by (auto simp: check_failed_def rbind_Inr_iff balance_plus_Inr accounted_def simp del: py_eq.simps)

text \<open>The fee that a receipt states: the gas used times the price, both hexadecimal texts with a prefix of two characters.\<close>

definition states_fee :: "pyval \<Rightarrow> int \<Rightarrow> bool" where
  "states_fee receipt fee \<longleftrightarrow> (\<exists>g p gas price. py_path receipt [''result'', ''gasUsed''] = Inr (PStr g) \<and> read_hex (drop 2 g) = Some gas \<and>
     py_path receipt [''result'', ''effectiveGasPrice''] = Inr (PStr p) \<and> read_hex (drop 2 p) = Some price \<and> fee = gas * price)"

lemma py_int16_Inr: "py_int16 v = Inr i \<longleftrightarrow> (\<exists>x. v = PStr x \<and> read_hex x = Some i)"
  by (cases v) (auto simp: rerr_def split: option.splits)

lemma hex_tail_Inr: "hex_tail v = Inr i \<longleftrightarrow> (\<exists>x. v = PStr x \<and> read_hex (drop 2 x) = Some i)"
  by (cases v) (auto simp: hex_tail_def rbind_Inr_iff py_int16_Inr rerr_def split: option.splits)

lemma receipt_fee_states: "receipt_fee receipt = Inr fee \<Longrightarrow> states_fee receipt fee"
  by (auto simp: receipt_fee_def rbind_Inr_iff hex_tail_Inr states_fee_def simp del: py_path.simps)

lemma check_balances_Inr:
  assumes "check_balances different amount receipt tx from0 to0 from1 to1 = Inr (ok, msg, tx')"
  shows "\<exists>v status fee. py_path receipt [''result'', ''status''] = Inr (PStr v) \<and> read_hex v = Some status \<and> states_fee receipt fee \<and>
    (ok \<longleftrightarrow> status \<noteq> 0) \<and> tx' = tx \<and> accounted different status amount fee from0 to0 from1 to1"
proof -
  let ?verdict = "\<lambda>status fee. if status = 0 then rbind (check_failed from0 to0 from1 to1 fee) (\<lambda>_. Inr (False, ''receipt status FAILED'', tx))
       else if status = 1 then rbind (check_moved different amount from0 to0 from1 to1 fee) (\<lambda>_. Inr (True, ''OK'', tx))
       else Inr (True, ''OK'', tx)"
  from assms obtain v status fee where *: "py_path receipt [''result'', ''status''] = Inr v" "py_int16 v = Inr status" "receipt_fee receipt = Inr fee"
    "?verdict status fee = Inr (ok, msg, tx')"
    unfolding check_balances_def by (elim rbind_Inr_iff [THEN iffD1, elim_format] exE conjE)
  then have "(ok \<longleftrightarrow> status \<noteq> 0) \<and> tx' = tx \<and> accounted different status amount fee from0 to0 from1 to1"
    by (cases "status = 0"; cases "status = 1")
      (auto simp: rbind_Inr_iff check_moved_Inr check_failed_Inr [of _ _ _ _ _ different amount] accounted_def)
  with * receipt_fee_states [OF *(3)] show ?thesis by (auto simp: py_int16_Inr simp del: py_path.simps)
qed

text \<open>A receipt with any other status passes without a look at the balances.\<close>
theorem unknown_status_accepted:
  assumes "rbind (py_path receipt [''result'', ''status'']) py_int16 = Inr status" and "status \<noteq> 0" and "status \<noteq> 1"
    and "receipt_fee receipt = Inr fee"
  shows "check_balances different amount receipt tx from0 to0 from1 to1 = Inr (True, ''OK'', tx)"
  using assms by (simp add: check_balances_def)

lemma settle_transfer_Inr:
  assumes "settle_transfer E L n m from_addr to_addr amount prt from0 to0 tx s = Some (Inr (ok, msg, tx'), t)"
  shows "\<exists>from1 to1 s1 s2 s3 h receipt. ac_wallet_balance E n from_addr None s1 = Some (Inr from1, s2) \<and>
    ac_wallet_balance E m to_addr None s2 = Some (Inr to1, s3) \<and> tx = PStr h \<and>
    sc_call E n ''rpc_eth_getTransactionReceipt'' [PStr (add_0x_prefix L h)] s3 = Some (Inr receipt, t) \<and>
    check_balances (\<not> py_eq from_addr to_addr) amount receipt tx from0 to0 from1 to1 = Inr (ok, msg, tx')"
  using assms unfolding settle_transfer_def by (auto simp: pbind_Inr_iff as_str_Inr simp del: if_run) blast

text \<open>C29. The verdict on a transfer. Without a transaction the request itself was refused. Otherwise the
  receipt, the last answer, names a status and a fee, the product of the gas used and its price. A
  status 0 is reported as a failure, and only the fee has left the sender; a status 1 is reported as
  done, and the amount has moved and the fee has left the sender (only the fee, when both addresses
  are the same). Any other status is also reported as done, and then nothing is known of the
  balances.\<close>
theorem transfer_accounting:
  assumes "makeEoa2Eoa E L n m from_addr to_addr amount nonce eip155 prt s = Some (Inr (ok, msg, tx), t)"
  shows "\<exists>from0 to0 s1 s2. ac_wallet_balance E n from_addr None s = Some (Inr from0, s1) \<and> ac_wallet_balance E m to_addr None s1 = Some (Inr to0, s2) \<and>
    ((\<exists>e. send_transfer E n from_addr to_addr (convertZenToWei amount) nonce eip155 s2 = Some (Inl e, t) \<and> err_kind e = RuntimeError \<and>
        \<not> ok \<and> msg = ''send failed: '' @ err_msg e \<and> tx = PNone) \<or>
     (\<exists>h s3 s4 s5 s6 from1 to1 receipt v status fee. tx = PStr h \<and> send_transfer E n from_addr to_addr (convertZenToWei amount) nonce eip155 s2 = Some (Inr tx, s3) \<and>
        ac_wallet_balance E n from_addr None s4 = Some (Inr from1, s5) \<and> ac_wallet_balance E m to_addr None s5 = Some (Inr to1, s6) \<and>
        sc_call E n ''rpc_eth_getTransactionReceipt'' [PStr (add_0x_prefix L h)] s6 = Some (Inr receipt, t) \<and>
        py_path receipt [''result'', ''status''] = Inr (PStr v) \<and> read_hex v = Some status \<and> states_fee receipt fee \<and> (ok \<longleftrightarrow> status \<noteq> 0) \<and>
        accounted (\<not> py_eq from_addr to_addr) status (convertZenToWei amount) fee from0 to0 from1 to1))"
proof -
  let ?send = "send_transfer E n from_addr to_addr (convertZenToWei amount) nonce eip155"
  from assms obtain from0 to0 s1 s2 sent s3
    where 1: "ac_wallet_balance E n from_addr None s = Some (Inr from0, s1)" "ac_wallet_balance E m to_addr None s1 = Some (Inr to0, s2)"
    and 2: "ptry (pbind ?send (\<lambda>h. pret (Inr h))) (\<lambda>err. if err_kind err = RuntimeError then pret (Inl (''send failed: '' @ err_msg err)) else pthrow err) s2 = Some (Inr sent, s3)"
    and 3: "(case sent of Inl msg \<Rightarrow> pret (False, msg, PNone)
       | Inr tx \<Rightarrow> settle_transfer E L n m from_addr to_addr (convertZenToWei amount) prt from0 to0 tx) s3 = Some (Inr (ok, msg, tx), t)"
    by (auto simp: makeEoa2Eoa_def pbind_Inr_iff Let_def)
  show ?thesis
  proof (cases sent)
    case (Inl failure)
    with 2 3 have "\<exists>e. ?send s2 = Some (Inl e, t) \<and> err_kind e = RuntimeError \<and> \<not> ok \<and> msg = ''send failed: '' @ err_msg e \<and> tx = PNone"
      by (auto simp: ptry_Inr_iff pbind_Inr_iff pbind_Inl_iff split: if_splits)
    with 1 show ?thesis by blast
  next
    case (Inr h)
    with 2 have sent: "?send s2 = Some (Inr h, s3)" by (auto simp: ptry_Inr_iff pbind_Inr_iff pbind_Inl_iff split: if_splits)
    from 3 Inr have "settle_transfer E L n m from_addr to_addr (convertZenToWei amount) prt from0 to0 h s3 = Some (Inr (ok, msg, tx), t)" by simp
    from settle_transfer_Inr [OF this] obtain from1 to1 s4 s5 s6 id receipt
      where 4: "ac_wallet_balance E n from_addr None s4 = Some (Inr from1, s5)" "ac_wallet_balance E m to_addr None s5 = Some (Inr to1, s6)" "h = PStr id"
        "sc_call E n ''rpc_eth_getTransactionReceipt'' [PStr (add_0x_prefix L id)] s6 = Some (Inr receipt, t)"
        "check_balances (\<not> py_eq from_addr to_addr) (convertZenToWei amount) receipt h from0 to0 from1 to1 = Inr (ok, msg, tx)"
      by blast
    from check_balances_Inr [OF 4(5)] 1 sent 4(1-4) show ?thesis by blast
  qed
qed

text \<open>The negative case for a negative amount cannot fail: whatever the request does, including a
  transfer that works, the failure is raised inside of the statement that swallows it.\<close>
theorem negative_amount_unchecked:
  assumes "makeEoa2Eoa E L n m a b (NDec (- 1 / 10)) PNone False False s = Some (r, t)"
    and "\<And>e. r = Inl e \<Longrightarrow> exn_isinstance (err_kind e) PlainException"
  shows "swallowed_failure (makeEoa2Eoa E L n m a b (NDec (- 1 / 10)) PNone False False) msg s = Some (Inr (), t)"
  using assms by (cases r) (auto simp: swallowed_failure_def ptry_run pbind_run fail_def rerr_def exn_isinstance_def)

section \<open>A transfer of 11 zen\<close>

definition balance_reply :: "int \<Rightarrow> pyval res" where
  "balance_reply b = Inr (PDict [(''result'', PDict [(''balance'', PInt b)])])"

definition receipt_reply :: "string \<Rightarrow> pyval res" where
  "receipt_reply status = Inr (PDict [(''result'', PDict [(''status'', PStr status), (''gasUsed'', PStr ''0x10''), (''effectiveGasPrice'', PStr ''0x3'')])])"

definition transfer_replies :: "pyval res list" where
  "transfer_replies = [balance_reply 20000000000000000000, balance_reply 5, Inr (PDict [(''result'', PDict [(''transactionId'', PStr ''t1'')])])] @ sync_replies 3 @
     [Inr (PDict [(''result'', PDict [(''transactionIds'', PList [PStr ''t1''])])]), forging_reply 720 2 5, block_reply ''b4''] @ sync_replies 4 @
     [balance_reply 8999999999999999952, balance_reply 11000000000000000005, receipt_reply ''0x1'']"

lemma plays_balance [play_intros]: "plays mcs scs (ac_wallet_balance sample_env n a None) (t, balance_reply b # rs) (Inr (PInt b)) (t, rs)"
  unfolding ac_wallet_balance_def balance_reply_def field_or_raise_def by (rule play_intros | simp add: answer_field_def)+

lemma transfer_amount: "convertZenToWei (NDec 11) = 11000000000000000000"
  by code_simp

lemma transfer_run:
  "plays [] [sample_node ''a'', sample_node ''b''] (makeEoa2Eoa sample_env sample_lib (sample_node ''a'') (sample_node ''b'') (PStr ''aa'') (PStr ''bb'') (NDec 11) PNone False False)
     (0, transfer_replies) (Inr (True, ''OK'', PStr ''t1'')) (0, [])"
proof -
  have send: "plays mcs scs (send_transfer sample_env (sample_node ''a'') (PStr ''aa'') (PStr ''bb'') w PNone False)
     (0, Inr (PDict [(''result'', PDict [(''transactionId'', PStr ''t1'')])]) # rs) (Inr (PStr ''t1'')) (0, rs)" for mcs scs rs w
    unfolding send_transfer_def createLegacyTransaction_def if_False field_or_raise_def
    by (rule play_intros | simp add: legacy_fields_def signature_fields_def transfer_params_def answer_field_def)+
  have listed: "plays mcs scs (allTransactions sample_env n f) (0, Inr (PDict [(''result'', PDict [(''transactionIds'', PList [PStr ''t1''])])]) # rs)
     (Inr (PDict [(''transactionIds'', PList [PStr ''t1''])])) (0, rs)" for mcs scs rs n f
    unfolding allTransactions_def by (rule play_intros | simp)+
  have balances: "check_balances True 11000000000000000000
     (PDict [(''result'', PDict [(''status'', PStr ''0x1''), (''gasUsed'', PStr ''0x10''), (''effectiveGasPrice'', PStr ''0x3'')])]) (PStr ''t1'')
     (PInt 20000000000000000000) (PInt 5) (PInt 8999999999999999952) (PInt 11000000000000000005) = Inr (True, ''OK'', PStr ''t1'')"
    by code_simp
  show ?thesis
    unfolding makeEoa2Eoa_def settle_transfer_def Let_def transfer_amount transfer_replies_def append.simps append_assoc receipt_reply_def if_False
    by (rule play_intros send listed plays_sync plays_forge refl | simp add: balances)+
qed

theorem transfer_accounting_witness:
  "\<exists>t s4 s5 s6 to0 from0 from1 to1 receipt status fee. makeEoa2Eoa sample_env sample_lib (sample_node ''a'') (sample_node ''b'') (PStr ''aa'') (PStr ''bb'') (NDec 11) PNone False False
      (replay_world [] [sample_node ''a'', sample_node ''b''] [] (0, transfer_replies)) = Some (Inr (True, ''OK'', PStr ''t1''), t) \<and>
    ac_wallet_balance sample_env (sample_node ''a'') (PStr ''aa'') None s4 = Some (Inr from1, s5) \<and>
    ac_wallet_balance sample_env (sample_node ''b'') (PStr ''bb'') None s5 = Some (Inr to1, s6) \<and>
    sc_call sample_env (sample_node ''a'') ''rpc_eth_getTransactionReceipt'' [PStr ''0xt1''] s6 = Some (Inr receipt, t) \<and>
    states_fee receipt fee \<and> status \<noteq> 0 \<and> accounted True status (convertZenToWei (NDec 11)) fee from0 to0 from1 to1"
proof -
  obtain t where run: "makeEoa2Eoa sample_env sample_lib (sample_node ''a'') (sample_node ''b'') (PStr ''aa'') (PStr ''bb'') (NDec 11) PNone False False
    (replay_world [] [sample_node ''a'', sample_node ''b''] [] (0, transfer_replies)) = Some (Inr (True, ''OK'', PStr ''t1''), t)"
    using playsD [OF transfer_run] by blast
  have "add_0x_prefix sample_lib ''t1'' = ''0xt1''" "\<not> py_eq (PStr ''aa'') (PStr ''bb'')" by (simp_all add: sample_lib_def)
  with transfer_accounting [OF run] obtain s4 s5 s6 from0 to0 from1 to1 receipt status fee
    where "ac_wallet_balance sample_env (sample_node ''a'') (PStr ''aa'') None s4 = Some (Inr from1, s5)"
      "ac_wallet_balance sample_env (sample_node ''b'') (PStr ''bb'') None s5 = Some (Inr to1, s6)"
      "sc_call sample_env (sample_node ''a'') ''rpc_eth_getTransactionReceipt'' [PStr ''0xt1''] s6 = Some (Inr receipt, t)"
      "states_fee receipt fee" "status \<noteq> 0" "accounted True status (convertZenToWei (NDec 11)) fee from0 to0 from1 to1"
    by auto
  with run show ?thesis by blast
qed

theorem negative_amount_unchecked_witness:
  "\<exists>t. swallowed_failure (makeEoa2Eoa sample_env sample_lib (sample_node ''a'') (sample_node ''b'') (PStr ''aa'') (PStr ''bb'') (NDec (- 1 / 10)) PNone False False) ''m''
    (replay_world [] [] [] (0, [])) = Some (Inr (), t)"
proof -
  obtain t where "makeEoa2Eoa sample_env sample_lib (sample_node ''a'') (sample_node ''b'') (PStr ''aa'') (PStr ''bb'') (NDec (- 1 / 10)) PNone False False
    (replay_world [] [] [] (0, [])) = Some (rerr ConnectionError ''no response'' [], t)"
    using json_dumps_total [of "PDict [(''address'', PStr (py_str (PStr ''aa'')))]"]
    by (auto simp: makeEoa2Eoa_def ac_wallet_balance_def json_call_def post_call_def pbind_run replay_world_def ext_defs pact_run rerr_def)
  from negative_amount_unchecked [OF this] show ?thesis by (auto simp: exn_isinstance_def rerr_def)
qed

end
