(* ===== verification/Fee_Payments.thy ===== *)
theory Fee_Payments
  imports Delegator_Rewards Eoa_Transfers
begin

text \<open>
  The tests on the distribution of fees: \<^verbatim>\<open>qa/mc_sc_forging_fee_payments.py\<close> (UTXO model),
  \<^verbatim>\<open>qa/sc_evm_forging_fee_payments.py\<close>, \<^verbatim>\<open>qa/sc_evm_fee_payments_rpc.py\<close> and
  \<^verbatim>\<open>qa/sc_evm_forging_fee_payments_rollback.py\<close>. Each test keeps the fees of the blocks it forges in a list and computes
  from it what every forger has to get; \<open>forger_fees\<close> is this computation. The properties say what it is and that
  it distributes all fees.
\<close>

section \<open>The distribution\<close>

text \<open>\<^verbatim>\<open>BlockFeeInfo\<close> of the account tests: the part of the fees that goes to the pool and the part that the forger
  of the block gets.\<close>

record block_fee_info =
  bf_node :: int
  bf_baseFee :: int
  bf_forgerTips :: int

definition BlockFeeInfo :: "int \<Rightarrow> int \<Rightarrow> int \<Rightarrow> block_fee_info" where
  "BlockFeeInfo node baseFee forgerTips = \<lparr>bf_node = node, bf_baseFee = baseFee, bf_forgerTips = forgerTips\<rparr>"

text \<open>In the UTXO test thirty percent of a fee, rounded up, go to the pool, and seventy percent, rounded down, to the
  forger. Both parts are computed with floats.\<close>

definition utxo_block_fee :: "int \<Rightarrow> int \<Rightarrow> block_fee_info" where
  "utxo_block_fee node fee = BlockFeeInfo node \<lceil>fl (fl (of_int fee) * fl (3 / 10))\<rceil> \<lfloor>fl (fl (of_int fee) * fl (7 / 10))\<rfloor>"

text \<open>The pool is a float: the sum starts with \<^verbatim>\<open>0.0\<close>.\<close>

definition pool_fee :: "block_fee_info list \<Rightarrow> rat" where
  "pool_fee infos = foldl (\<lambda>pool b. fl (pool + fl (of_int (bf_baseFee b)))) 0 infos"

definition total_fee :: "block_fee_info list \<Rightarrow> int" where
  "total_fee infos = sum_list (map (\<lambda>b. bf_baseFee b + bf_forgerTips b) infos)"

text \<open>The dictionary of the fees by forger: one block after the other adds the tips of the block, an equal share
  of the pool, and one unit of the rest as long as it lasts.\<close>

definition plus_at :: "int \<Rightarrow> int \<Rightarrow> (int \<times> int) list \<Rightarrow> (int \<times> int) list" where
  "plus_at k v d = (case map_of d k of Some old \<Rightarrow> tab_put k (old + v) d | None \<Rightarrow> tab_put k v d)"

definition block_step :: "rat \<Rightarrow> int \<Rightarrow> nat \<times> block_fee_info \<Rightarrow> (int \<times> int) list \<Rightarrow> (int \<times> int) list" where
  "block_step pool n = (\<lambda>(idx, b) d.
     let d = plus_at (bf_node b) (bf_forgerTips b) d; d = plus_at (bf_node b) \<lfloor>fl (pool / of_int n)\<rfloor> d
     in if of_nat idx < float_rem pool n then plus_at (bf_node b) 1 d else d)"

definition forger_fees :: "block_fee_info list \<Rightarrow> (int \<times> int) list" where
  "forger_fees infos = fold (block_step (pool_fee infos) (int (length infos))) (zip [0..<length infos] infos) []"

definition fee_of :: "(int \<times> int) list \<Rightarrow> int \<Rightarrow> int res" where
  "fee_of d node = (case map_of d node of Some v \<Rightarrow> Inr v | None \<Rightarrow> rerr KeyError [] [PInt node])"

text \<open>The comparison of the dictionary with the payments that a node reports: the payments follow the numbers of the
  forgers.\<close>

definition check_reported :: "(int \<times> int) list \<Rightarrow> pyval \<Rightarrow> unit res" where
  "check_reported fees api_fee_payments =
     rbind (rmap (\<lambda>i. rbind (fee_of fees i) (\<lambda>v.
       rbind (rbind (py_nth api_fee_payments (i - 1)) (\<lambda>p. py_get p ''value'')) (\<lambda>w.
         assert_equal (PInt v) w (''Different fee value found for payment '' @ str_int i)))) (map (\<lambda>i. i + 1) (py_range (int (length fees))))) (\<lambda>_. Inr ())"

section \<open>Shared requests\<close>

definition fee_payments :: "'w env \<Rightarrow> sc_node \<Rightarrow> pyval \<Rightarrow> ('w, pyval) prog" where
  "fee_payments E node block_id = pbind (http_block_getFeePayments E node block_id) (\<lambda>r. plift (py_get r ''feePayments''))"

definition no_payments :: "'w env \<Rightarrow> sc_node \<Rightarrow> pyval \<Rightarrow> ('w, unit) prog" where
  "no_payments E node block_id =
     pbind (pbind (fee_payments E node block_id) (\<lambda>p. plift (py_len p))) (\<lambda>n.
       check_eq (PInt 0) (PInt n) ''No fee payments expected to be found for the block in the middle of WE'')"

text \<open>Both nodes see the same payments, and these are the expected ones.\<close>

definition same_payments :: "'w env \<Rightarrow> sc_node \<Rightarrow> sc_node \<Rightarrow> pyval \<Rightarrow> (int \<times> int) list \<Rightarrow> ('w, unit) prog" where
  "same_payments E sc_node1 sc_node2 block_id fees =
     pbind (fee_payments E sc_node1 block_id) (\<lambda>p1.
     pbind (fee_payments E sc_node2 block_id) (\<lambda>p2.
     pseq (check_eq p1 p2 ''SC nodes have different view on the fee payments'')
       (plift (check_reported fees p1))))"

section \<open>The test of the UTXO model\<close>

definition ff_sc_setup_chain :: "'w env \<Rightarrow> run_options \<Rightarrow> ('w, sc_bootstrap_info) prog" where
  "ff_sc_setup_chain E options =
     pbind (mc_nth 0) (\<lambda>mc_node_1.
     pbind (pget (\<lambda>s. ws_address E s mc_node_1 0)) (\<lambda>address.
     pbind (plift (plain_creation mc_node_1 500 5)) (\<lambda>creation.
       bootstrap_sidechain_nodes E options
         \<lparr>net_sc_creation_info = creation, net_sc_nodes_configuration = replicate 2 (SCNodeConfiguration None PNone (connected_to address))\<rparr>
         (PInt (720 * 120 * 5)) UtxoModel)))"

definition ff_setup_nodes :: "'w env \<Rightarrow> string \<Rightarrow> ('w, mc_node list) prog" where
  "ff_setup_nodes E tmpdir = start_nodes E 1 tmpdir None None None"

definition ff_setup_network :: "'w env \<Rightarrow> string \<Rightarrow> ('w, unit) prog" where
  "ff_setup_network E tmpdir = pbind (ff_setup_nodes E tmpdir) set_self_nodes"

definition ff_sc_setup_nodes :: "'w env \<Rightarrow> string \<Rightarrow> ('w, sc_node list) prog" where
  "ff_sc_setup_nodes E tmpdir = start_sc_nodes E 2 tmpdir None None None False (Some DEFAULT_API_KEY)"

definition coins :: "'w env \<Rightarrow> sc_node \<Rightarrow> ('w, int) prog" where
  "coins E node = pbind (sc_field E node ''wallet_coinsBalance'' [] [''result'', ''balance'']) (\<lambda>v. plift (py_int v))"

text \<open>The second node gets coins by a forward transfer and makes a forger stake of most of them.\<close>

definition ff_forward :: "'w env \<Rightarrow> pyval \<Rightarrow> mc_node \<Rightarrow> sc_node \<Rightarrow> sc_node \<Rightarrow> ('w, key_pair) prog" where
  "ff_forward E sidechain_id mc_node sc_node1 sc_node2 =
     pbind (new_public_key E sc_node2 ''wallet_createPrivateKey25519'') (\<lambda>sc_node2_address.
     pbind (mc_call E mc_node ''getnewaddress'' []) (\<lambda>mc_return_address.
     pseq (mc_call E mc_node ''sc_send'' [PList [PDict [(''toaddress'', sc_node2_address), (''amount'', PInt 500), (''scid'', sidechain_id),
         (''mcReturnAddress'', mc_return_address)]]]) (
     pbind (mempool_size E mc_node) (\<lambda>n.
     pseq (check_eq (PInt 1) n ''Forward Transfer expected to be added to mempool.'') (
     pbind (mc_generate E mc_node 1 0) (\<lambda>mcblock_hash1.
     pbind (generate_next_block E sc_node1 ''first node'' False PNone) (\<lambda>scblock_id1.
     pseq (check_mcreference_presence E mcblock_hash1 scblock_id1 sc_node1) (
     pseq (sc_sync_all E False) (
     let account = \<lparr>kp_secret = PStr [], kp_publicKey = sc_node2_address\<rparr>
     in pseq (check_wallet_coins_balance E sc_node2 (PInt 500)) (
        pseq (check_box_balance E sc_node2 account (Some (PStr ''ZenBox'')) (PInt 1) (PInt 500))
          (pret account)))))))))))"

definition ff_stake :: "'w env \<Rightarrow> sc_node \<Rightarrow> sc_node \<Rightarrow> key_pair \<Rightarrow> ('w, unit) prog" where
  "ff_stake E sc_node1 sc_node2 account =
     pbind (new_public_key E sc_node2 ''wallet_createPrivateKey25519'') (\<lambda>sc_node2_rewards_address.
     pbind (new_public_key E sc_node2 ''wallet_createVrfSecret'') (\<lambda>sc_node2_vrf_address.
     pseq (post_or_fail E sc_node2 ''transaction_makeForgerStake''
         (PDict [(''outputs'', PList [PDict [(''publicKey'', kp_publicKey account), (''blockSignPublicKey'', sc_node2_rewards_address),
            (''vrfPubKey'', sc_node2_vrf_address), (''value'', PInt (499 * 100000000))]]), (''fee'', PInt 1000)])
         ''make forger stake failed: '') (
     pseq (sc_sync_all E False) (
     pseq (generate_next_block E sc_node1 ''first node'' False PNone) (
     pseq (sc_sync_all E False)
       (check_box_balance E sc_node2 account (Some (PStr ''ForgerBox'')) (PInt 1) (PInt 499)))))))"

text \<open>The blocks of the test with their fees, the genesis block first.\<close>

definition ff_block_fees :: "block_fee_info list" where
  "ff_block_fees = map (\<lambda>(node, fee). utxo_block_fee node fee) [(1, 0), (1, 0), (1, 1000), (1, 0), (2, 201), (2, 0)]"

definition ff_check_payments :: "'w env \<Rightarrow> sc_node \<Rightarrow> sc_node \<Rightarrow> int \<Rightarrow> int \<Rightarrow> pyval \<Rightarrow> pyval \<Rightarrow> ('w, unit) prog" where
  "ff_check_payments E sc_node1 sc_node2 before_1 before_2 sc_middle_we_block_id sc_last_we_block_id =
     (let fees = forger_fees ff_block_fees
      in pbind (coins E sc_node1) (\<lambda>after_1.
         pbind (coins E sc_node2) (\<lambda>after_2.
         pbind (plift (fee_of fees 1)) (\<lambda>node_1_fees.
         pbind (plift (fee_of fees 2)) (\<lambda>node_2_fees.
         pseq (check_eq (PInt after_1) (PInt (before_1 + node_1_fees)) ''Wrong fee payment amount for SC node 1'') (
         pseq (check_eq (PInt after_2) (PInt (before_2 + node_2_fees)) ''Wrong fee payment amount for SC node 2'') (
         pseq (no_payments E sc_node1 sc_middle_we_block_id) (
         pseq (no_payments E sc_node2 sc_middle_we_block_id)
           (same_payments E sc_node1 sc_node2 sc_last_we_block_id fees)))))))))"

definition ff_run_test :: "'w env \<Rightarrow> sc_bootstrap_info \<Rightarrow> ('w, unit) prog" where
  "ff_run_test E info =
     pbind (mc_nth 0) (\<lambda>mc_node.
     pbind (sc_nth 0) (\<lambda>sc_node1.
     pbind (sc_nth 1) (\<lambda>sc_node2.
     pseq (connect_sc_nodes E sc_node1 1 25) (
     pseq (sc_sync_all E False) (
     pbind (ff_forward E (bi_sidechain_id info) mc_node sc_node1 sc_node2) (\<lambda>account.
     pseq (ff_stake E sc_node1 sc_node2 account) (
     pseq (generate_next_block E sc_node1 ''first node'' True PNone) (
     pseq (sc_sync_all E False) (
     pseq (post_or_fail E sc_node2 ''transaction_sendCoinsToAddress''
         (PDict [(''outputs'', PList [PDict [(''publicKey'', kp_publicKey account), (''value'', PInt 100000)]]), (''fee'', PInt 201)])
         ''send coins tx failed: '') (
     pbind (generate_next_block E sc_node2 ''second node'' True PNone) (\<lambda>sc_middle_we_block_id.
     pseq (sc_sync_all E False) (
     pseq (mc_call E mc_node ''generate'' [PInt 3]) (
     pbind (coins E sc_node1) (\<lambda>before_1.
     pbind (coins E sc_node2) (\<lambda>before_2.
     pbind (generate_next_block E sc_node2 ''second node'' False PNone) (\<lambda>sc_last_we_block_id.
     pseq (sc_sync_all E False)
       (ff_check_payments E sc_node1 sc_node2 before_1 before_2 sc_middle_we_block_id sc_last_we_block_id)))))))))))))))))"

section \<open>The tests of the account model\<close>

definition total_balance :: "'w env \<Rightarrow> sc_node \<Rightarrow> ('w, pyval) prog" where
  "total_balance E node = sc_field E node ''wallet_getTotalBalance'' [] [''result'', ''balance'']"

definition pool_balance :: "'w env \<Rightarrow> eth_lib \<Rightarrow> ('w, int) prog" where
  "pool_balance E L =
     pbind (sc_nth 0) (\<lambda>node.
     pbind (plift (format_evm L FORGER_POOL_RECIPIENT_ADDRESS)) (\<lambda>a.
     pbind (sc_field E node ''rpc_eth_getBalance'' [PStr a, PStr ''latest''] [''result'']) (\<lambda>v. plift (py_int16 v))))"

definition forward_in_mempool :: "'w env \<Rightarrow> account_setup \<Rightarrow> mc_node \<Rightarrow> pyval \<Rightarrow> pyval \<Rightarrow> ('w, unit) prog" where
  "forward_in_mempool E self mc_node address amount =
     pseq (forward_to E self mc_node address amount False) (
     pseq (sync_all E) (
     pbind (mempool_size E mc_node) (\<lambda>n. check_eq (PInt 1) n ''Forward Transfer expected to be added to mempool.'')))"

text \<open>A forger stake of the second node; the result is the id of the transaction.\<close>

definition stake_tx :: "'w env \<Rightarrow> sc_node \<Rightarrow> pyval \<Rightarrow> pynum \<Rightarrow> ('w, string) prog" where
  "stake_tx E sc_node_2 address stake_amount =
     pbind (new_public_key E sc_node_2 ''wallet_createPrivateKey25519'') (\<lambda>sign_key.
     pbind (new_public_key E sc_node_2 ''wallet_createVrfSecret'') (\<lambda>vrf_key.
     pbind (ac_makeForgerStake E sc_node_2 address sign_key vrf_key (PInt (convertZenToZennies stake_amount)) PNone) (\<lambda>res.
     pbind (plift (py_in ''result'' res)) (\<lambda>ok.
     pbind (plift (json_dumps res)) (\<lambda>text.
     pseq (if ok then pret () else plift (fail (''make forger stake failed: '' @ text))) (
     pseq (sc_sync_all E False)
       (plift (rbind (py_path res [''result'', ''transactionId'']) as_str))))))))"

text \<open>The second node is funded and makes a stake. The result are its address, what is left there, the fees of the
  stake and the list of stakes; \<open>same\<close> compares two values, in the order of the script.\<close>

definition fp_prepare ::
  "'w env \<Rightarrow> eth_lib \<Rightarrow> account_setup \<Rightarrow> mc_node \<Rightarrow> sc_node \<Rightarrow> sc_node \<Rightarrow> (pyval \<Rightarrow> pyval \<Rightarrow> ('w, unit) prog) \<Rightarrow> rat \<Rightarrow> pynum \<Rightarrow> ('w, pyval \<times> int \<times> int \<times> int \<times> pyval) prog" where
  "fp_prepare E L self mc_node sc_node_1 sc_node_2 same ft_amount stake_amount =
     (let ft_amount_in_wei = convertZenToWei (NFlt ft_amount); stake_amount_in_wei = convertZenToWei stake_amount
      in pbind (new_address E sc_node_2) (\<lambda>address.
         pseq (forward_in_mempool E self mc_node address (PFloat ft_amount)) (
         pbind (mc_generate E mc_node 1 0) (\<lambda>mcblock_hash1.
         pbind (generate_next_block E sc_node_1 ''first node'' False PNone) (\<lambda>scblock_id1.
         pseq (check_mcreference_presence E mcblock_hash1 scblock_id1 sc_node_1) (
         pseq (sc_sync_all E False) (
         pbind (ac_wallet_balance E sc_node_2 address None) (\<lambda>initial_balance_2.
         pseq (check_eq (PInt ft_amount_in_wei) initial_balance_2 []) (
         pseq (ac_wallet_balance E sc_node_2 address None) (
         pseq (sc_call E sc_node_2 ''wallet_getTotalBalance'' []) (
         pbind (stake_tx E sc_node_2 address stake_amount) (\<lambda>tx_hash_0.
         pseq (generate_next_block E sc_node_1 ''first node'' False PNone) (
         pbind (computeForgedTxFee E L sc_node_1 tx_hash_0) (\<lambda>(transactionFee_0, forgersPoolFee, forgerTip).
         pseq (sc_call E sc_node_2 ''wallet_getTotalBalance'' []) (
         pbind (total_balance E sc_node_2) (\<lambda>balance.
         let left = ft_amount_in_wei - (stake_amount_in_wei + transactionFee_0)
         in pseq (same (PInt left) balance) (
            pbind (all_stakes E sc_node_1) (\<lambda>stakeList.
            pbind (plift (py_len stakeList)) (\<lambda>n.
            pseq (same (PInt 2) (PInt n))
              (pret (address, left, forgersPoolFee, forgerTip, stakeList)))))))))))))))))))))"

text \<open>The two transfers of the second node, one forged by the first and one by the second node; \<open>between\<close> follows the
  block of the first, \<open>synced\<close> tells whether the nodes synchronise before the block of the second. The result
  are the costs and fees of both transfers, the answer of \<open>between\<close>, and the id of the last block.\<close>

definition capped_tx :: "pyval \<Rightarrow> pyval \<Rightarrow> int \<Rightarrow> int \<Rightarrow> tx_params" where
  "capped_tx from_addr to_addr amount baseFeePerGas = (transfer_params from_addr to_addr amount PNone)
     \<lparr>tx_gasLimit := PInt 123400, tx_gasPrice := PNone, tx_maxPriorityFeePerGas := PInt 56700, tx_maxFeePerGas := PInt (baseFeePerGas + 56690)\<rparr>"

definition base_fee_of :: "'w env \<Rightarrow> eth_lib \<Rightarrow> sc_node \<Rightarrow> pyval \<Rightarrow> ('w, int) prog" where
  "base_fee_of E L node block_id =
     pbind (plift (as_str block_id)) (\<lambda>b.
     pbind (sc_field E node ''rpc_eth_getBlockByHash'' [PStr (add_0x_prefix L b), PBool False] [''result'']) (\<lambda>blockJson.
       if blockJson = PNone then praise PlainException (''Unexpected error: block not found '' @ b) []
       else plift (rbind (py_get blockJson ''baseFeePerGas'') py_int16)))"

definition fp_transfers ::
  "'w env \<Rightarrow> eth_lib \<Rightarrow> sc_node \<Rightarrow> sc_node \<Rightarrow> pyval \<Rightarrow> ('w, pyval) prog \<Rightarrow> bool \<Rightarrow> ('w, (int \<times> int \<times> int) \<times> (int \<times> int \<times> int) \<times> pyval \<times> pyval) prog" where
  "fp_transfers E L sc_node_1 sc_node_2 address between synced =
     (let amount_1 = convertZenToWei (NFlt (fl (22 / 1000))); amount_2 = convertZenToWei (NFlt (fl (1 / 1000)))
      in pseq (generate_next_block E sc_node_1 ''first node'' True PNone) (
         pseq (sc_sync_all E False) (
         pbind (pbind (generate_account_proposition E ''seed3'' 1 AccountModel) (\<lambda>ks. plift (list_get ks 0))) (\<lambda>recipient_keys.
         let recipient = ak_proposition recipient_keys
         in pbind (createLegacyTransaction E sc_node_2 (transfer_params address recipient amount_1 PNone) None False) (\<lambda>tx_hash_1.
            pseq (sc_sync_all E False) (
            pbind (generate_next_block E sc_node_1 ''first node'' False PNone) (\<lambda>middle.
            pbind between (\<lambda>seen.
            pseq (sc_sync_all E False) (
            pbind (pbind (plift (as_str tx_hash_1)) (computeForgedTxFee E L sc_node_1)) (\<lambda>(fee_1, pool_1, tip_1).
            pbind (base_fee_of E L sc_node_2 middle) (\<lambda>baseFeePerGas.
            pbind (createEIP1559Transaction E sc_node_2 (capped_tx address recipient amount_2 baseFeePerGas) None) (\<lambda>tx_hash_2.
            pseq (if synced then sc_sync_all E False else pret ()) (
            pbind (generate_next_block E sc_node_2 ''second node'' True PNone) (\<lambda>middle.
            pseq (sc_sync_all E False) (
            pbind (pbind (plift (as_str tx_hash_2)) (computeForgedTxFee E L sc_node_1)) (\<lambda>(fee_2, pool_2, tip_2).
            pseq (sc_sync_all E False)
              (pret ((amount_1 + fee_1, pool_1, tip_1), (amount_2 + fee_2, pool_2, tip_2), seen, middle))))))))))))))))))"

text \<open>The fees of the blocks: \<open>before\<close> blocks of the first node, then those of the steps above.\<close>

definition ac_block_fees :: "nat \<Rightarrow> int \<times> int \<Rightarrow> int \<times> int \<Rightarrow> int \<times> int \<Rightarrow> block_fee_info list" where
  "ac_block_fees before stake first second =
     replicate before (BlockFeeInfo 1 0 0) @ [BlockFeeInfo 1 0 0, BlockFeeInfo 1 (fst stake) (snd stake), BlockFeeInfo 1 0 0,
       BlockFeeInfo 1 (fst first) (snd first), BlockFeeInfo 2 (fst second) (snd second), BlockFeeInfo 2 0 0]"

subsection \<open>Payments over the RPC interface\<close>

definition fr_setup :: "account_setup \<Rightarrow> account_setup" where
  "fr_setup args = args\<lparr>as_number_of_sidechain_nodes := 2, as_withdrawalEpochLength := 20, as_forward_amount := PInt 1,
     as_block_timestamp_rewind := PInt (720 * 120 * 5)\<rparr>"

definition rpc_payments :: "'w env \<Rightarrow> sc_node \<Rightarrow> pyval \<Rightarrow> ('w, pyval) prog" where
  "rpc_payments E node block = sc_field E node ''rpc_zen_getFeePayments'' [block] [''result'', ''payments'']"

definition rpc_no_payments :: "'w env \<Rightarrow> sc_node \<Rightarrow> pyval \<Rightarrow> ('w, unit) prog" where
  "rpc_no_payments E node block = pbind (pbind (rpc_payments E node block) (\<lambda>p. plift (py_len p))) (\<lambda>n. check_eq (PInt 0) (PInt n) [])"

text \<open>The two payments of a block, with their addresses and hexadecimal values.\<close>

definition two_payments :: "pyval \<Rightarrow> (pyval \<times> pyval) res" where
  "two_payments v = rbind (py_items v) (\<lambda>ps. case ps of [a, b] \<Rightarrow> Inr (a, b) | _ \<Rightarrow> rerr ValueError ''wrong number of values to unpack'' [])"

definition field_eq :: "bool \<Rightarrow> string \<Rightarrow> pyval \<Rightarrow> pyval \<Rightarrow> ('w, unit) prog" where
  "field_eq expected_first field expected payment = pbind (plift (py_get payment field)) (\<lambda>v.
     if expected_first then check_eq expected v [] else check_eq v expected [])"

definition check_rpc_payments :: "'w env \<Rightarrow> sc_node \<Rightarrow> bool \<Rightarrow> pyval \<Rightarrow> pyval \<Rightarrow> pyval \<Rightarrow> pyval \<Rightarrow> pyval \<Rightarrow> ('w, unit) prog" where
  "check_rpc_payments E node expected_first block address_1 address_2 fee_1 fee_2 =
     pbind (pbind (rpc_payments E node block) (\<lambda>p. plift (two_payments p))) (\<lambda>(forger_data_1, forger_data_2).
     pseq (field_eq True ''address'' address_1 forger_data_1) (
     pseq (field_eq True ''address'' address_2 forger_data_2) (
     pseq (field_eq expected_first ''value'' fee_1 forger_data_1)
       (field_eq expected_first ''value'' fee_2 forger_data_2))))"

definition owner_address :: "eth_lib \<Rightarrow> pyval \<Rightarrow> int \<Rightarrow> pyval res" where
  "owner_address L stakeList i =
     rbind (rbind (rbind (py_nth stakeList i) (\<lambda>s. py_path s [''forgerStakeData'', ''ownerPublicKey'', ''address''])) as_str) (\<lambda>a.
       Inr (PStr (add_0x_prefix L a)))"

definition check_tag_refused :: "'w env \<Rightarrow> sc_node \<Rightarrow> ('w, unit) prog" where
  "check_tag_refused E node =
     pbind (sc_call E node ''rpc_zen_getFeePayments'' [PStr ''latest'']) (\<lambda>result.
     pbind (plift (py_in ''error'' result)) (\<lambda>failed.
     pseq (check_that failed ''rpc_zen_getFeePayments should fail when using tag parameter'') (
     pbind (plift (rbind (py_path result [''error'', ''message'']) (py_in ''Invalid block input parameter''))) (\<lambda>found.
       check_that found ''Wrong error''))))"

definition fr_check :: "'w env \<Rightarrow> eth_lib \<Rightarrow> sc_node \<Rightarrow> pyval \<Rightarrow> pyval \<Rightarrow> pyval \<Rightarrow> pyval \<Rightarrow> (int \<times> int) list \<Rightarrow> ('w, unit) prog" where
  "fr_check E L sc_node_1 stakeList middle_id middle_height last_id fees =
     pbind (plift (as_str middle_id)) (\<lambda>m.
     pseq (rpc_no_payments E sc_node_1 (PStr (add_0x_prefix L m))) (
     pseq (rpc_no_payments E sc_node_1 middle_height) (
     pbind (plift (owner_address L stakeList 0)) (\<lambda>address_1.
     pbind (plift (owner_address L stakeList 1)) (\<lambda>address_2.
     pbind (plift (fee_of fees 1)) (\<lambda>fee_1.
     pbind (plift (fee_of fees 2)) (\<lambda>fee_2.
     pbind (plift (as_str last_id)) (\<lambda>l.
     pseq (check_rpc_payments E sc_node_1 False (PStr (add_0x_prefix L l)) address_1 address_2 (PStr (py_hex fee_1)) (PStr (py_hex fee_2))) (
     pbind (sc_field E sc_node_1 ''block_best'' [] [''result'', ''height'']) (\<lambda>last_height.
     pseq (check_rpc_payments E sc_node_1 True last_height address_1 address_2 (PStr (py_hex fee_1)) (PStr (py_hex fee_2)))
       (check_tag_refused E sc_node_1)))))))))))"

definition fr_run_test :: "'w env \<Rightarrow> eth_lib \<Rightarrow> account_setup \<Rightarrow> ('w, unit) prog" where
  "fr_run_test E L self =
     pbind (mc_nth 0) (\<lambda>mc_node.
     pbind (sc_nth 0) (\<lambda>sc_node_1.
     pbind (sc_nth 1) (\<lambda>sc_node_2.
     pbind (fp_prepare E L self mc_node sc_node_1 sc_node_2 (\<lambda>expected v. check_eq v expected []) 2 (NFlt (fl (15 / 1000)))) (\<lambda>(address, left, stake_pool, stake_tip, stakeList).
     pbind (fp_transfers E L sc_node_1 sc_node_2 address (sc_field E sc_node_1 ''block_best'' [] [''result'', ''height'']) False)
       (\<lambda>((cost_1, pool_1, tip_1), (cost_2, pool_2, tip_2), middle_height, middle_id).
     pseq (mc_call E mc_node ''generate'' [PInt (as_withdrawalEpochLength self - 2)]) (
     pbind (total_balance E sc_node_2) (\<lambda>balance.
     pseq (check_eq balance (PInt (left - cost_1 - cost_2)) []) (
     pbind (generate_next_block E sc_node_2 ''second node'' False PNone) (\<lambda>last_id.
     pseq (sc_sync_all E False)
       (fr_check E L sc_node_1 stakeList middle_id middle_height last_id
         (forger_fees (ac_block_fees 1 (stake_pool, stake_tip) (pool_1, tip_1) (pool_2, tip_2)))))))))))))"

subsection \<open>Payments with a reward address and the pool of the mainchain\<close>

definition FORGER_REWARD_ADDRESS :: string where
  "FORGER_REWARD_ADDRESS = ''0000000000000000000012341234123412341234''"

definition fp_setup :: "account_setup \<Rightarrow> account_setup" where
  "fp_setup args = args\<lparr>as_number_of_sidechain_nodes := 2, as_withdrawalEpochLength := 20, as_forward_amount := PInt 3,
     as_block_timestamp_rewind := PInt (720 * 12 * 100)\<rparr>"

definition fp_sc_setup_chain :: "'w env \<Rightarrow> run_options \<Rightarrow> account_setup \<Rightarrow> ('w, account_setup) prog" where
  "fp_sc_setup_chain E options self =
     pbind (mc_nth 0) (\<lambda>mc_node.
     pbind (pget (\<lambda>s. ws_address E s mc_node 0)) (\<lambda>address.
     pbind (plift (plain_creation mc_node 3 20)) (\<lambda>creation.
     pbind (bootstrap_sidechain_nodes E options
         \<lparr>net_sc_creation_info = creation, net_sc_nodes_configuration =
            [SCNodeConfiguration None PNone ((connected_to address)\<lparr>nc_api_key := ''Horizen'', nc_cert_submitter_enabled := True\<rparr>),
             SCNodeConfiguration None PNone ((connected_to address)\<lparr>nc_forger_options := SCForgerConfiguration False [] FORGER_REWARD_ADDRESS,
               nc_api_key := ''Horizen'', nc_cert_submitter_enabled := False\<rparr>)]\<rparr>
         (PInt (720 * 12 * 100)) AccountModel) (\<lambda>info.
       pret (self\<lparr>as_sc_nodes_bootstrap_info := Some info\<rparr>)))))"

text \<open>The balances after the first distribution; the second node sends its rewards to another address. The result
  are the new balance of the first node, and the sum of both for the second.\<close>

definition check_paid :: "'w env \<Rightarrow> sc_node \<Rightarrow> sc_node \<Rightarrow> int \<Rightarrow> int \<Rightarrow> int \<Rightarrow> int \<Rightarrow> pyval \<Rightarrow> pyval \<Rightarrow> ('w, int \<times> int) prog" where
  "check_paid E sc_node_1 sc_node_2 before_1 before_2 node_1_fees node_2_fees after_1 after_2 =
     pseq (check_eq (PInt (before_1 + node_1_fees)) after_1 ''Wrong fee payment amount for SC node 1'') (
     pbind (ac_wallet_balance E sc_node_2 (PStr FORGER_REWARD_ADDRESS) None) (\<lambda>reward_v.
     pbind (plift (as_int after_1)) (\<lambda>a1.
     pbind (plift (as_int after_2)) (\<lambda>a2.
     pbind (plift (as_int reward_v)) (\<lambda>reward_address_balance.
     pseq (check_eq (PInt (before_2 + node_2_fees)) (PInt (a2 + reward_address_balance)) ''Wrong fee payment amount for SC node 2'')
       (pret (a1, a2 + reward_address_balance)))))))"

definition int_balance :: "'w env \<Rightarrow> sc_node \<Rightarrow> ('w, int) prog" where
  "int_balance E node = pbind (total_balance E node) (\<lambda>v. plift (as_int v))"

definition fp_first_payments ::
  "'w env \<Rightarrow> sc_node \<Rightarrow> sc_node \<Rightarrow> pyval \<Rightarrow> pyval \<Rightarrow> int \<Rightarrow> int \<Rightarrow> block_fee_info list \<Rightarrow> ('w, int \<times> int) prog" where
  "fp_first_payments E sc_node_1 sc_node_2 middle_id last_id before_1 before_2 infos =
     (let fees = forger_fees infos
      in pbind (total_balance E sc_node_1) (\<lambda>after_1.
         pbind (total_balance E sc_node_2) (\<lambda>after_2.
         pbind (plift (fee_of fees 1)) (\<lambda>node_1_fees.
         pbind (plift (fee_of fees 2)) (\<lambda>node_2_fees.
         pseq (check_eq (PInt (node_1_fees + node_2_fees)) (PInt (total_fee infos)) []) (
         pbind (check_paid E sc_node_1 sc_node_2 before_1 before_2 node_1_fees node_2_fees after_1 after_2) (\<lambda>after.
         pseq (no_payments E sc_node_1 middle_id) (
         pseq (no_payments E sc_node_2 middle_id) (
         pseq (same_payments E sc_node_1 sc_node_2 last_id fees) (pret after))))))))))"

text \<open>The second distribution is from the pool, up to a limit, over twenty-five blocks.\<close>

definition distribution_cap :: int where
  "distribution_cap = convertZenniesToWei 2500000000"

text \<open>The first of the payments to an address, or to another one; the two interfaces write addresses differently.\<close>

definition paid_to :: "string list \<Rightarrow> bool \<Rightarrow> string \<Rightarrow> pyval \<Rightarrow> pyval res" where
  "paid_to path here address payments =
     rbind (py_items payments) (\<lambda>ps.
     rbind (rmap (\<lambda>f. rbind (py_path f path) (\<lambda>a. Inr (if py_eq a (PStr address) = here then [f] else []))) ps) (\<lambda>found.
     rbind (list_get (concat found) 0) (\<lambda>f. py_get f ''value'')))"

definition check_rpc_pool_payment :: "pyval \<Rightarrow> int \<Rightarrow> unit res" where
  "check_rpc_pool_payment payments i =
     rbind (py_nth payments i) (\<lambda>p.
     rbind (py_get p ''value'') (\<lambda>v. rbind (py_get p ''valueFromMainchain'') (\<lambda>m. assert_equal v m [])))"

definition check_rpc_no_fees :: "pyval \<Rightarrow> int \<Rightarrow> unit res" where
  "check_rpc_no_fees payments i =
     rbind (py_nth payments i) (\<lambda>p. rbind (py_get p ''valueFromFees'') (\<lambda>v. assert_equal (PStr ''0x0'') v []))"

definition check_pool_payments :: "'w env \<Rightarrow> eth_lib \<Rightarrow> sc_node \<Rightarrow> sc_node \<Rightarrow> pyval \<Rightarrow> int \<Rightarrow> int \<Rightarrow> ('w, unit) prog" where
  "check_pool_payments E L sc_node_1 sc_node_2 last_block_id node_1_fees node_2_fees =
     pbind (fee_payments E sc_node_1 last_block_id) (\<lambda>api.
     pbind (plift (paid_to [''address'', ''address''] False FORGER_REWARD_ADDRESS api)) (\<lambda>v1.
     pseq (check_eq (PInt node_1_fees) v1 []) (
     pbind (plift (paid_to [''address'', ''address''] True FORGER_REWARD_ADDRESS api)) (\<lambda>v2.
     pseq (check_eq (PInt node_2_fees) v2 []) (
     pbind (plift (as_str last_block_id)) (\<lambda>b.
     pbind (rpc_payments E sc_node_1 (PStr (add_0x_prefix L b))) (\<lambda>rpc_1.
     pbind (rpc_payments E sc_node_2 (PStr (add_0x_prefix L b))) (\<lambda>rpc_2.
     pseq (check_eq rpc_1 rpc_2 []) (
     pseq (plift (check_rpc_pool_payment rpc_1 0)) (
     pseq (plift (check_rpc_pool_payment rpc_1 1)) (
     pseq (plift (check_rpc_no_fees rpc_1 0)) (
     pseq (plift (check_rpc_no_fees rpc_1 1)) (
     pbind (plift (rbind (paid_to [''address''] False (''0x'' @ FORGER_REWARD_ADDRESS) rpc_1) py_int16)) (\<lambda>h1.
     pseq (check_eq (PInt node_1_fees) (PInt h1) []) (
     pbind (plift (rbind (paid_to [''address''] True (''0x'' @ FORGER_REWARD_ADDRESS) rpc_1) py_int16)) (\<lambda>h2.
       check_eq (PInt node_2_fees) (PInt h2) []))))))))))))))))"

definition fp_second_payments ::
  "'w env \<Rightarrow> eth_lib \<Rightarrow> account_setup \<Rightarrow> mc_node \<Rightarrow> sc_node \<Rightarrow> sc_node \<Rightarrow> int \<Rightarrow> int \<Rightarrow> ('w, unit) prog" where
  "fp_second_payments E L self mc_node sc_node_1 sc_node_2 before_1 before_2 =
     pseq (advance_to_epoch E VERSION_1_4_FORK_EPOCH) (
     pseq (generate_next_blocks E sc_node_1 ''first node'' 1) (
     pseq (generate_next_blocks E sc_node_2 ''second node'' 2) (
     pseq (mc_call E mc_node ''generate'' [PInt (as_withdrawalEpochLength self)]) (
     pseq (sc_sync_all E False) (
     pbind (generate_next_block E sc_node_2 ''second node'' False PNone) (\<lambda>last_block_id.
     pseq (sc_sync_all E False) (
     let per_block_fee = distribution_cap div 25; ft_pool_remaining = convertZenToWei (NInt 100) - distribution_cap;
         node_1_fees = per_block_fee * 22; node_2_fees = per_block_fee * 3
     in pbind (total_balance E sc_node_1) (\<lambda>after_1.
        pbind (total_balance E sc_node_2) (\<lambda>after_2.
        pseq (check_paid E sc_node_1 sc_node_2 before_1 before_2 node_1_fees node_2_fees after_1 after_2) (
        pbind (pool_balance E L) (\<lambda>forger_pool_balance.
        pseq (check_eq (PInt ft_pool_remaining) (PInt forger_pool_balance) [])
          (check_pool_payments E L sc_node_1 sc_node_2 last_block_id node_1_fees node_2_fees))))))))))))"

text \<open>After the upgrade of the stakes, one page with one stake has a known length.\<close>

definition fp_page_length ::
  "'w env \<Rightarrow> eth_lib \<Rightarrow> (string \<Rightarrow> (string \<times> string list) list) \<Rightarrow> (string \<Rightarrow> string) \<Rightarrow> string \<Rightarrow> sc_node \<Rightarrow> sc_node \<Rightarrow> pyval \<Rightarrow> ('w, unit) prog" where
  "fp_page_length E L walk strip selector sc_node_1 sc_node_2 address =
     pbind (SmartContract E walk ''ForgerStakes'') (\<lambda>native_contract.
     pbind (plift (as_str address)) (\<lambda>a.
     pseq (contract_function_call E L sc_node_2 native_contract FORGER_STAKE_SMART_CONTRACT_ADDRESS a ''upgrade()'' [] 0 None (PStr ''latest'')) (
     pseq (generate_next_block E sc_node_1 ''first node'' False PNone) (
     pbind (plift (format_evm L a)) (\<lambda>from.
     pbind (plift (format_evm L FORGER_STAKE_SMART_CONTRACT_ADDRESS)) (\<lambda>to.
     pbind (sc_field E sc_node_1 ''rpc_eth_call'' [PDict [(''from'', PStr from), (''to'', PStr to), (''nonce'', PInt 3), (''gasLimit'', PInt 2300000),
         (''gasPrice'', PInt 850000000), (''value'', PInt 0),
         (''data'', PStr (selector @ replicate 64 (CHR ''0'') @ replicate 62 (CHR ''0'') @ ''01''))], PStr ''latest''] [''result'']) (\<lambda>result.
     pbind (plift (as_str result)) (\<lambda>r.
       check_eq (PInt (2 * (32 + 32 + 32 + 1 * (6 * 32)))) (PInt (int (length (strip r)))) []))))))))"

text \<open>\<open>strip\<close> is \<^verbatim>\<open>remove_0x_prefix\<close>, and \<open>selector\<close> the encoded selector of \<^verbatim>\<open>getPagedForgersStakes(int32,int32)\<close>, which
  \<^verbatim>\<open>eth_utils\<close> computes.\<close>

definition fp_run_test ::
  "'w env \<Rightarrow> eth_lib \<Rightarrow> (string \<Rightarrow> (string \<times> string list) list) \<Rightarrow> (string \<Rightarrow> string) \<Rightarrow> string \<Rightarrow> account_options \<Rightarrow> account_setup \<Rightarrow> ('w, unit) prog" where
  "fp_run_test E L walk strip selector options self =
     (if op_all_forks options then praise SystemExit [] []
      else pbind (mc_nth 0) (\<lambda>mc_node.
       pbind (sc_nth 0) (\<lambda>sc_node_1.
       pbind (sc_nth 1) (\<lambda>sc_node_2.
       pseq (advance_to_epoch E 35) (
       pseq (connect_sc_nodes E sc_node_1 1 25) (
       pseq (sc_sync_all E False) (
       pbind (fp_prepare E L self mc_node sc_node_1 sc_node_2 (\<lambda>a b. check_eq a b []) 12 (NInt 11)) (\<lambda>(address, left, stake_pool, stake_tip, _).
       pbind (fp_transfers E L sc_node_1 sc_node_2 address (pret PNone) True) (\<lambda>((cost_1, pool_1, tip_1), (cost_2, pool_2, tip_2), _, middle_id).
       pseq (forward_to E self mc_node (PStr (format_eoa FORGER_POOL_RECIPIENT_ADDRESS)) (PInt 100) False) (
       pseq (mc_call E mc_node ''generate'' [PInt (as_withdrawalEpochLength self - 2)]) (
       pbind (total_balance E sc_node_2) (\<lambda>balance.
       pseq (check_eq (PInt (left - cost_1 - cost_2)) balance []) (
       pbind (int_balance E sc_node_1) (\<lambda>before_1.
       pbind (int_balance E sc_node_2) (\<lambda>before_2.
       pbind (generate_next_block E sc_node_2 ''second node'' False PNone) (\<lambda>last_id.
       pseq (sc_sync_all E False) (
       pbind (pool_balance E L) (\<lambda>forger_pool_balance.
       pseq (check_eq (PInt forger_pool_balance) (PInt (convertZenToWei (NInt 100))) []) (
       pbind (fp_first_payments E sc_node_1 sc_node_2 middle_id last_id before_1 before_2
           (ac_block_fees 35 (stake_pool, stake_tip) (pool_1, tip_1) (pool_2, tip_2))) (\<lambda>(after_1, after_2).
       pseq (await_certificate E mc_node sc_node_1) (
       pseq (fp_second_payments E L self mc_node sc_node_1 sc_node_2 after_1 after_2)
         (fp_page_length E L walk strip selector sc_node_1 sc_node_2 address))))))))))))))))))))))"

subsection \<open>Payments after a fork of the mainchain\<close>

text \<open>What both nodes get: the fees are shared by all blocks, 59 of the first node before the fork of the
  consensus included, with the rest to the first node; the pool only by the blocks after it.\<close>

definition rollback_fees :: "int \<Rightarrow> int \<Rightarrow> int \<Rightarrow> int \<Rightarrow> int \<Rightarrow> int \<times> int" where
  "rollback_fees pool node_1_extra_fees ft_pool node_1_block_count node_2_block_count =
     (let blocks = node_1_block_count + node_2_block_count + 59;
          pool_average_fee = \<lfloor>fl (of_int pool / of_int blocks)\<rfloor>; pool_rem = pool mod blocks;
          node_1_pool_fee = (node_1_block_count + 59) * pool_average_fee + pool_rem;
          node_2_pool_fee = node_2_block_count * pool_average_fee;
          ft_average_fee = \<lfloor>fl (of_int ft_pool / of_int (node_1_block_count + node_2_block_count))\<rfloor>
      in (ft_average_fee * node_1_block_count + node_1_pool_fee + node_1_extra_fees, ft_average_fee * node_2_block_count + node_2_pool_fee))"

definition check_rollback_payments :: "'w env \<Rightarrow> sc_node \<Rightarrow> sc_node \<Rightarrow> int \<Rightarrow> int \<Rightarrow> int \<times> int \<Rightarrow> pyval \<Rightarrow> ('w, unit) prog" where
  "check_rollback_payments E sc_node_1 sc_node_2 before_1 before_2 fees block_id =
     pbind (total_balance E sc_node_1) (\<lambda>after_1.
     pbind (total_balance E sc_node_2) (\<lambda>after_2.
     pseq (check_eq (PInt (before_1 + fst fees)) after_1 ''Wrong fee payment amount for SC node 1'') (
     pseq (check_eq (PInt (before_2 + snd fees)) after_2 ''Wrong fee payment amount for SC node 2'') (
     pbind (fee_payments E sc_node_1 block_id) (\<lambda>api.
     pbind (plift (rbind (py_nth api 0) (\<lambda>p. py_get p ''value''))) (\<lambda>v1.
     pseq (check_eq (PInt (fst fees)) v1 []) (
     pbind (plift (rbind (py_nth api 1) (\<lambda>p. py_get p ''value''))) (\<lambda>v2.
       check_eq (PInt (snd fees)) v2 []))))))))"

definition pool_is :: "'w env \<Rightarrow> eth_lib \<Rightarrow> int \<Rightarrow> ('w, unit) prog" where
  "pool_is E L amount = pbind (pool_balance E L) (\<lambda>b. check_eq (PInt amount) (PInt b) [])"

text \<open>The stake of the second node; the result are its fees.\<close>

definition rb_stake :: "'w env \<Rightarrow> eth_lib \<Rightarrow> account_setup \<Rightarrow> mc_node \<Rightarrow> sc_node \<Rightarrow> sc_node \<Rightarrow> ('w, int \<times> int) prog" where
  "rb_stake E L self mc_node sc_node_1 sc_node_2 =
     pbind (new_address E sc_node_2) (\<lambda>address.
     pseq (forward_in_mempool E self mc_node address (PFloat 2)) (
     pseq (mc_call E mc_node ''generate'' [PInt 1]) (
     pseq (generate_next_block E sc_node_1 ''first node'' False PNone) (
     pseq (sc_sync_all E False) (
     pbind (ac_wallet_balance E sc_node_2 address None) (\<lambda>initial_balance_2.
     pseq (check_eq (PInt (convertZenToWei (NFlt 2))) initial_balance_2 []) (
     pbind (stake_tx E sc_node_2 address (NInt 1)) (\<lambda>tx_hash_0.
     pseq (generate_next_block E sc_node_1 ''first node'' False PNone) (
     pbind (computeForgedTxFee E L sc_node_1 tx_hash_0) (\<lambda>(transactionFee_0, forgersPoolFee, forgerTip).
     pseq (sc_call E sc_node_2 ''wallet_getTotalBalance'' []) (
     pbind (total_balance E sc_node_2) (\<lambda>balance.
     pseq (check_eq (PInt (convertZenToWei (NFlt 2) - (convertZenToWei (NInt 1) + transactionFee_0))) balance []) (
     pbind (all_stakes E sc_node_1) (\<lambda>stakeList.
     pbind (plift (py_len stakeList)) (\<lambda>n.
     pseq (check_eq (PInt 2) (PInt n) [])
       (pret (forgersPoolFee, forgerTip)))))))))))))))))"

definition rb_run_test :: "'w env \<Rightarrow> eth_lib \<Rightarrow> account_options \<Rightarrow> account_setup \<Rightarrow> ('w, unit) prog" where
  "rb_run_test E L options self =
     (if op_all_forks options then praise SystemExit [] []
      else pbind (mc_nth 0) (\<lambda>mc_node.
       pbind (sc_nth 0) (\<lambda>sc_node_1.
       pbind (sc_nth 1) (\<lambda>sc_node_2.
       pseq (advance_to_epoch E 60) (
       pseq (connect_sc_nodes E sc_node_1 1 25) (
       pseq (sc_sync_all E False) (
       pbind (rb_stake E L self mc_node sc_node_1 sc_node_2) (\<lambda>(forgersPoolFee, forgerTip).
       pseq (generate_next_block E sc_node_1 ''first node'' True PNone) (
       pseq (sc_sync_all E False) (
       pseq (generate_next_block E sc_node_2 ''second node'' True PNone) (
       pseq (sc_sync_all E False) (
       pseq (mc_call E mc_node ''generate'' [PInt (as_withdrawalEpochLength self - 4)]) (
       pseq (generate_next_block E sc_node_2 ''second node'' False PNone) (
       pseq (sc_sync_all E False) (
       pseq (forward_to E self mc_node (PStr (format_eoa FORGER_POOL_RECIPIENT_ADDRESS)) (PFloat (1 / 2)) False) (
       pbind (mc_generate E mc_node 1 0) (\<lambda>mc_block_with_ft.
       pseq (generate_next_block E sc_node_2 ''second node'' False PNone) (
       pseq (sc_sync_all E False) (
       pseq (pool_is E L (convertZenToWei (NFlt (1 / 2)))) (
       pbind (mc_generate E mc_node 1 0) (\<lambda>mc_block_last_of_the_epoch.
       pbind (int_balance E sc_node_1) (\<lambda>before_1.
       pbind (int_balance E sc_node_2) (\<lambda>before_2.
       pbind (generate_next_block E sc_node_2 ''second node'' False PNone) (\<lambda>last_id.
       pseq (sc_sync_all E False) (
       pseq (pool_is E L 0) (
       pseq (check_rollback_payments E sc_node_1 sc_node_2 before_1 before_2 (rollback_fees forgersPoolFee forgerTip (convertZenToWei (NFlt (1 / 2))) 4 4) last_id) (
       pseq (mc_call E mc_node ''invalidateblock'' [mc_block_with_ft]) (
       pseq (mc_call E mc_node ''invalidateblock'' [mc_block_last_of_the_epoch]) (
       pseq (py_sleep E 5) (
       pseq (forward_to E self mc_node (PStr (format_eoa FORGER_POOL_RECIPIENT_ADDRESS)) (PInt 1) False) (
       pseq (mc_call E mc_node ''generate'' [PInt 3]) (
       pseq (sync_all E) (
       pseq (generate_next_block E sc_node_1 ''first node'' False PNone) (
       pbind (generate_next_block E sc_node_1 ''first node'' False PNone) (\<lambda>last_id.
       pseq (sc_sync_all E False) (
       pseq (pool_is E L 0)
         (check_rollback_payments E sc_node_1 sc_node_2 before_1 before_2
           (rollback_fees forgersPoolFee forgerTip (convertZenToWei (NFlt (1 / 2)) + convertZenToWei (NInt 1)) 6 2) last_id)))))))))))))))))))))))))))))))))))))"

section \<open>Properties\<close>

text \<open>What one block adds to the fees of its forger.\<close>

definition block_share :: "int \<Rightarrow> int \<Rightarrow> nat \<times> block_fee_info \<Rightarrow> int" where
  "block_share pool n = (\<lambda>(i, b). bf_forgerTips b + pool div n + (if int i < pool mod n then 1 else 0))"

abbreviation sum_values :: "(int \<times> int) list \<Rightarrow> int" where
  "sum_values d \<equiv> sum_list (map snd d)"

lemma sum_tab_put: "sum_values (tab_put k v d) = sum_values d - (case map_of d k of Some old \<Rightarrow> old | None \<Rightarrow> 0) + v"
  by (induction k v d rule: tab_put.induct) auto

lemma sum_plus_at: "sum_values (plus_at k v d) = sum_values d + v"
  by (simp add: plus_at_def sum_tab_put split: option.split)

lemma map_of_plus_at: "map_of (plus_at k v d) = (map_of d)(k \<mapsto> (case map_of d k of Some old \<Rightarrow> old | None \<Rightarrow> 0) + v)"
  by (auto simp: plus_at_def map_of_tab_put split: option.split)

text \<open>The pools that a float holds exactly.\<close>

definition exact_pool :: "block_fee_info list \<Rightarrow> bool" where
  "exact_pool infos \<longleftrightarrow> list_all (\<lambda>b. 0 \<le> bf_baseFee b) infos \<and> sum_list (map bf_baseFee infos) < 2 ^ 53"

lemma pool_sum_exact:
  assumes "list_all (\<lambda>b. 0 \<le> bf_baseFee b) infos" "0 \<le> p" "p + sum_list (map bf_baseFee infos) < 2 ^ 53"
  shows "foldl (\<lambda>pool b. fl (pool + fl (of_int (bf_baseFee b)))) (of_int p) infos = of_int (p + sum_list (map bf_baseFee infos))"
  using assms
proof (induction infos arbitrary: p)
  case (Cons b infos)
  have "0 \<le> sum_list (map bf_baseFee infos)" using Cons.prems(1) by (intro sum_list_nonneg) (auto simp: list_all_iff)
  then have "\<bar>bf_baseFee b\<bar> < 2 ^ 53" "\<bar>p + bf_baseFee b\<bar> < 2 ^ 53" using Cons.prems by simp_all
  note fl_int [OF this(1)] fl_int [OF this(2)]
  then show ?case using Cons.IH [of "p + bf_baseFee b"] Cons.prems by (simp add: add.assoc)
qed simp

lemma pool_fee_exact: "pool_fee infos = of_int (sum_list (map bf_baseFee infos))" if "exact_pool infos"
  using that pool_sum_exact [of infos 0] by (simp add: pool_fee_def exact_pool_def)

lemma block_step_exact:
  assumes "0 \<le> pool" "pool < 2 ^ 53" "0 < n"
  shows "block_step (of_int pool) n (i, b) d =
    (let d = plus_at (bf_node b) (bf_forgerTips b) d; d = plus_at (bf_node b) (pool div n) d
     in if int i < pool mod n then plus_at (bf_node b) 1 d else d)"
proof -
  have "(of_nat i < (of_int (pool mod n) :: rat)) = (int i < pool mod n)" by (metis of_int_less_iff of_int_of_nat_eq)
  then show ?thesis by (simp add: block_step_def floor_fl_quotient [OF assms] float_rem_int)
qed

lemma sum_block_step:
  "0 \<le> pool \<Longrightarrow> pool < 2 ^ 53 \<Longrightarrow> 0 < n \<Longrightarrow> sum_values (block_step (of_int pool) n x d) = sum_values d + block_share pool n x"
  by (cases x) (simp add: block_step_exact block_share_def Let_def sum_plus_at)

lemma map_of_block_step:
  "0 \<le> pool \<Longrightarrow> pool < 2 ^ 53 \<Longrightarrow> 0 < n \<Longrightarrow>
   map_of (block_step (of_int pool) n x d) = (map_of d)(bf_node (snd x) \<mapsto> (case map_of d (bf_node (snd x)) of Some old \<Rightarrow> old | None \<Rightarrow> 0) + block_share pool n x)"
  by (cases x) (auto simp: block_step_exact block_share_def Let_def map_of_plus_at split: option.split)

lemma sum_blocks: "0 \<le> pool \<Longrightarrow> pool < 2 ^ 53 \<Longrightarrow> 0 < n \<Longrightarrow> sum_values (fold (block_step (of_int pool) n) xs d) = sum_values d + sum_list (map (block_share pool n) xs)"
  by (induction xs arbitrary: d) (simp_all add: sum_block_step)

lemma no_blocks: "k \<notin> bf_node ` snd ` set xs \<Longrightarrow> filter (\<lambda>x. bf_node (snd x) = k) xs = []"
  by (auto simp: filter_empty_conv)

lemma map_of_blocks:
  "0 \<le> pool \<Longrightarrow> pool < 2 ^ 53 \<Longrightarrow> 0 < n \<Longrightarrow> map_of (fold (block_step (of_int pool) n) xs d) k =
     (if k \<in> bf_node ` snd ` set xs
      then Some ((case map_of d k of Some old \<Rightarrow> old | None \<Rightarrow> 0) + sum_list (map (block_share pool n) (filter (\<lambda>x. bf_node (snd x) = k) xs)))
      else map_of d k)"
  by (induction xs arbitrary: d) (auto simp: map_of_block_step no_blocks)

text \<open>The units of the rest are all given out.\<close>

lemma sum_units_of_rest: "sum_list (map (\<lambda>i. if int i < r then 1 else 0 :: int) [0..<n]) = max 0 (min r (int n))"
  by (induction n) auto

lemma sum_zip: "length is = length bs \<Longrightarrow>
    sum_list (map (\<lambda>(i, b). f b + c + g i) (zip is bs)) = sum_list (map f bs) + int (length bs) * c + sum_list (map g is)" for c :: int
  by (induction "is" bs rule: list_induct2) (simp_all add: algebra_simps)

lemma sum_shares:
  assumes "infos \<noteq> []"
  shows "sum_list (map (block_share pool (int (length infos))) (zip [0..<length infos] infos)) = pool + sum_list (map bf_forgerTips infos)"
proof -
  let ?n = "int (length infos)"
  have "0 < ?n" using assms by simp
  then have "0 \<le> pool mod ?n" "pool mod ?n \<le> ?n" by (simp_all add: order_less_imp_le)
  then have "sum_list (map (\<lambda>i. if int i < pool mod ?n then 1 else 0 :: int) [0..<length infos]) = pool mod ?n"
    unfolding sum_units_of_rest by simp
  then show ?thesis
    unfolding block_share_def by (simp add: sum_zip)
qed

lemma exact_pool_bounds:
  assumes "exact_pool infos"
  shows "0 \<le> sum_list (map bf_baseFee infos)" "sum_list (map bf_baseFee infos) < 2 ^ 53"
  using assms by (auto simp: exact_pool_def list_all_iff intro!: sum_list_nonneg)

text \<open>C33. As long as the pool is below \<open>2 ^ 53\<close>, the fees that a test expects for the forgers of its blocks add up to all
  fees of the blocks: the equal shares of the pool lose no unit. A larger pool is rounded: of a single fee of
  \<open>2 ^ 53 + 1\<close> one unit is lost.\<close>
theorem fees_conserved:
  assumes "exact_pool infos"
  shows "sum_list (map snd (forger_fees infos)) = total_fee infos \<and>
    sum_list (map snd (forger_fees [BlockFeeInfo node (2 ^ 53 + 1) 0])) = 2 ^ 53"
proof
  show "sum_values (forger_fees infos) = total_fee infos"
  proof (cases "infos = []")
    case False
    then show ?thesis
      using exact_pool_bounds [OF assms]
      by (simp add: forger_fees_def pool_fee_exact [OF assms] sum_blocks sum_shares total_fee_def sum_list_addf)
  qed (simp add: forger_fees_def total_fee_def)
  have "fl 9007199254740993 = 9007199254740992" "fl 9007199254740992 = 9007199254740992" "float_rem 9007199254740992 1 = 0"
    by code_simp+
  then show "sum_values (forger_fees [BlockFeeInfo node (2 ^ 53 + 1) 0]) = 2 ^ 53"
    by (simp add: forger_fees_def pool_fee_def BlockFeeInfo_def block_step_def plus_at_def Let_def)
qed

theorem fees_conserved_witness:
  "sum_list (map snd (forger_fees [BlockFeeInfo 1 100 7, BlockFeeInfo 2 35 0, BlockFeeInfo 1 0 0])) = 142"
  using fees_conserved [of "[BlockFeeInfo 1 100 7, BlockFeeInfo 2 35 0, BlockFeeInfo 1 0 0]" 1]
  by (simp add: exact_pool_def BlockFeeInfo_def total_fee_def)

text \<open>C34. A forger is expected to get exactly the tips of its blocks, and for each of them the equal share of the
  pool, with one unit more when the block is among the first ones of the rest; a node without a block gets
  no entry. The pool is below \<open>2 ^ 53\<close>.\<close>
theorem forger_fee_of_node:
  assumes "exact_pool infos"
  shows "map_of (forger_fees infos) node =
    (let pool = sum_list (map bf_baseFee infos); n = int (length infos)
     in if node \<in> bf_node ` set infos
        then Some (\<Sum>(i, b) \<leftarrow> filter (\<lambda>x. bf_node (snd x) = node) (zip [0..<length infos] infos).
          bf_forgerTips b + pool div n + (if int i < pool mod n then 1 else 0))
        else None)"
proof (cases "infos = []")
  case False
  have "snd ` set (zip [0..<length infos] infos) = set infos"
    using set_map [of snd "zip [0..<length infos] infos"] by simp
  then show ?thesis
    using False exact_pool_bounds [OF assms]
    unfolding forger_fees_def pool_fee_exact [OF assms] by (simp add: map_of_blocks block_share_def Let_def)
qed (simp add: forger_fees_def)

theorem forger_fee_of_node_witness:
  "map_of (forger_fees [BlockFeeInfo 1 100 7, BlockFeeInfo 2 34 0, BlockFeeInfo 1 0 0]) 1 = Some 96"
  using forger_fee_of_node [of "[BlockFeeInfo 1 100 7, BlockFeeInfo 2 34 0, BlockFeeInfo 1 0 0]" 1]
  by (simp add: exact_pool_def BlockFeeInfo_def Let_def)

subsection \<open>The parts of a fee in the UTXO test\<close>

lemma float_parts: "fl (3 / 10) = 5404319552844595 / 18014398509481984" "fl (7 / 10) = 3152519739159347 / 4503599627370496"
  by code_simp+

lemma part_near: "\<bar>y - 3 * f / 10\<bar> < 1 / 10" "\<bar>z - 7 * f / 10\<bar> < 1 / 10"
  if "0 \<le> f" "f < 562949953421312" "y = fl (f * fl (3 / 10))" "z = fl (f * fl (7 / 10))"
  using that fl_bound [of "f * fl (3 / 10)"] fl_bound [of "f * fl (7 / 10)"] unfolding float_parts by linarith+

text \<open>In the UTXO test the two parts of a fee below \<open>2 ^ 49\<close> add up to the fee when it is no multiple of ten, and to the
  fee up to one unit otherwise. They need not add up: seventy percent of 90, computed with floats, are 62.
  The fees of the test, 1000 and 201, are split without a loss.\<close>
theorem utxo_fee_split:
  assumes "0 \<le> fee" and "fee < 2 ^ 49"
  shows "(let b = utxo_block_fee node fee; parts = bf_baseFee b + bf_forgerTips b
     in (\<not> 10 dvd fee \<longrightarrow> parts = fee) \<and> \<bar>parts - fee\<bar> \<le> 1) \<and>
    bf_baseFee (utxo_block_fee node 90) + bf_forgerTips (utxo_block_fee node 90) = 89 \<and>
    total_fee ff_block_fees = 1201"
proof -
  define y z where "y = fl (of_int fee * fl (3 / 10))" and "z = fl (of_int fee * fl (7 / 10))"
  have "(of_int fee :: rat) < of_int (2 ^ 49)" using assms(2) by (simp only: of_int_less_iff)
  then have near: "\<bar>y - of_int (3 * fee) / of_int 10\<bar> < 1 / of_int 10" "\<bar>z - of_int (7 * fee) / of_int 10\<bar> < 1 / of_int 10"
    using part_near [of "of_int fee" y z] assms(1) by (simp_all add: y_def z_def)
  have "fl (of_int fee) = of_int fee" using assms by (intro fl_int) simp
  then have parts: "bf_baseFee (utxo_block_fee node fee) = \<lceil>y\<rceil>" "bf_forgerTips (utxo_block_fee node fee) = \<lfloor>z\<rfloor>"
    by (simp_all add: utxo_block_fee_def BlockFeeInfo_def y_def z_def)
  have "\<lceil>y\<rceil> + \<lfloor>z\<rfloor> = fee" if "\<not> 10 dvd fee"
  proof -
    have no: "\<not> 10 dvd 3 * fee" "\<not> 10 dvd 7 * fee" using that by presburger+
    have "\<lceil>y\<rceil> = 3 * fee div 10 + 1" "\<lfloor>z\<rfloor> = 7 * fee div 10"
      using strictly_between [OF _ no(1) near(1)] strictly_between [OF _ no(2) near(2)] by (simp_all add: ceiling_eq_iff floor_eq_iff)
    moreover have "7 * fee div 10 = - (3 * fee div 10) - 1 + fee"
    proof -
      have "7 * fee div 10 = (- (3 * fee) + fee * 10) div 10" by simp
      also have "\<dots> = fee + - (3 * fee) div 10" by (rule div_mult_self1) simp
      finally show ?thesis using no(1) by (simp add: zdiv_zminus1_eq_if dvd_eq_mod_eq_0)
    qed
    ultimately show ?thesis by simp
  qed
  moreover have "\<bar>\<lceil>y\<rceil> + \<lfloor>z\<rfloor> - fee\<bar> \<le> 1" if "10 dvd fee"
  proof -
    from that obtain k where "fee = 10 * k" by blast
    with near have "\<bar>y - of_int (3 * k)\<bar> < 1 / 10" "\<bar>z - of_int (7 * k)\<bar> < 1 / 10" by simp_all
    then have "3 * k \<le> \<lceil>y\<rceil>" "\<lceil>y\<rceil> \<le> 3 * k + 1" "7 * k - 1 \<le> \<lfloor>z\<rfloor>" "\<lfloor>z\<rfloor> \<le> 7 * k" by linarith+
    then show ?thesis using \<open>fee = 10 * k\<close> by simp
  qed
  moreover have "\<lceil>fl (fl 90 * fl (3 / 10))\<rceil> = 27" "\<lfloor>fl (fl 90 * fl (7 / 10))\<rfloor> = 62" by code_simp+
  then have "bf_baseFee (utxo_block_fee node 90) + bf_forgerTips (utxo_block_fee node 90) = 89"
    by (simp add: utxo_block_fee_def BlockFeeInfo_def)
  moreover have "total_fee ff_block_fees = 1201" by code_simp
  ultimately show ?thesis by (cases "10 dvd fee") (simp_all add: Let_def parts)
qed

theorem utxo_fee_split_witness: "bf_baseFee (utxo_block_fee 1 12345) + bf_forgerTips (utxo_block_fee 1 12345) = 12345"
  using utxo_fee_split [of 12345 1] by (simp add: Let_def)

subsection \<open>The fork of the mainchain\<close>

text \<open>Before and after the fork of the mainchain the two expected payments add up to the fees, below \<open>2 ^ 53\<close>, the tip and
  the pool of the mainchain: nothing of the pool is lost in the two cases of the test.\<close>
theorem rollback_fees_sum:
  assumes "0 \<le> pool" and "pool < 2 ^ 53"
  shows "(let (fees_1, fees_2) = rollback_fees pool tip (convertZenToWei (NFlt (1 / 2))) 4 4
       in fees_1 + fees_2 = pool + tip + 5 * 10 ^ 17) \<and>
    (let (fees_1, fees_2) = rollback_fees pool tip (convertZenToWei (NFlt (1 / 2)) + convertZenToWei (NInt 1)) 6 2
       in fees_1 + fees_2 = pool + tip + 15 * 10 ^ 17)"
proof -
  have pool: "67 * (pool div 67) + pool mod 67 = pool" by (rule mult_div_mod_eq)
  have share: "\<lfloor>fl (of_int pool / 67)\<rfloor> = pool div 67" using floor_fl_quotient [OF assms, of 67] by simp
  have half: "convertZenToWei (NFlt (1 / 2)) = 500000000000000000" "convertZenToWei (NInt 1) = 1000000000000000000" by code_simp+
  have "\<lfloor>fl (500000000000000000 / 8)\<rfloor> = 62500000000000000" "\<lfloor>fl (1500000000000000000 / 8)\<rfloor> = 187500000000000000" by code_simp+
  then show ?thesis
    using pool share unfolding rollback_fees_def Let_def half by (simp add: algebra_simps)
qed

theorem rollback_fees_sum_witness:
  "fst (rollback_fees 100 7 (convertZenToWei (NFlt (1 / 2))) 4 4) + snd (rollback_fees 100 7 (convertZenToWei (NFlt (1 / 2))) 4 4) = 500000000000000107"
  using rollback_fees_sum [of 100 7] by (simp add: split_beta Let_def)

end
