(* ===== verification/Forging_Tests.thy ===== *)
theory Forging_Tests
  imports Test_Steps Sc_Checks Account_Utils "HOL-Library.Multiset"
begin

text \<open>
  The tests on what a forger puts into a block (\<^verbatim>\<open>qa/mc_sc_forging1.py\<close> to \<^verbatim>\<open>mc_sc_forging5.py\<close>, those of them with a
  delay of the mainchain references, and \<^verbatim>\<open>mc_sc_evm_forging*.py\<close>, which run the same steps with the account model): headers
  and data of mainchain blocks, and the blocks of an abandoned branch as ommers.
\<close>

section \<open>Networks\<close>

definition fg_setup_network :: "'w env \<Rightarrow> string \<Rightarrow> int \<Rightarrow> (int \<times> int) list \<Rightarrow> ('w, unit) prog" where
  "fg_setup_network E tmpdir number_of_mc_nodes edges =
     pbind (start_nodes E number_of_mc_nodes tmpdir None None None) (\<lambda>nodes.
     pseq (set_self_nodes nodes) (
     pseq (piter (\<lambda>(a, b). connect_nodes_bi E nodes a b) edges)
       (sync_all E)))"

definition fg_sc_setup_chain :: "'w env \<Rightarrow> run_options \<Rightarrow> sc_node_configuration list \<Rightarrow> pyval \<Rightarrow> string \<Rightarrow> ('w, sc_bootstrap_info) prog" where
  "fg_sc_setup_chain E options others rewind model =
     pbind (mc_nth 0) (\<lambda>mc_node_1.
     pbind (pget (\<lambda>s. ws_address E s mc_node_1 0)) (\<lambda>address.
     pbind (plift (plain_creation mc_node_1 600 LARGE_WITHDRAWAL_EPOCH_LENGTH)) (\<lambda>creation.
       bootstrap_sidechain_nodes E options
         \<lparr>net_sc_creation_info = creation, net_sc_nodes_configuration = SCNodeConfiguration None PNone (connected_to address) # others\<rparr>
         rewind model)))"

text \<open>The second node of test 2 is connected to nothing.\<close>

definition fg2_sc_setup_chain :: "'w env \<Rightarrow> run_options \<Rightarrow> ('w, sc_bootstrap_info) prog" where
  "fg2_sc_setup_chain E options =
     fg_sc_setup_chain E options [SCNodeConfiguration None PNone (default_node_args\<lparr>nc_cert_submitter_enabled := False\<rparr>)]
       (PFloat DefaultBlockTimestampRewind) UtxoModel"

definition fg_sc_setup_nodes :: "'w env \<Rightarrow> string \<Rightarrow> int \<Rightarrow> ('w, sc_node list) prog" where
  "fg_sc_setup_nodes E tmpdir n = start_sc_nodes E n tmpdir None None None False (Some DEFAULT_API_KEY)"

definition fg_delay_sc_setup_nodes :: "'w env \<Rightarrow> string \<Rightarrow> ('w, sc_node list) prog" where
  "fg_delay_sc_setup_nodes E tmpdir = start_sc_nodes E 1 tmpdir (Some [Some [''-mc_block_delay_ref'', ''1'']]) None None False (Some DEFAULT_API_KEY)"

definition fg_evm_sc_setup_nodes :: "'w env \<Rightarrow> string \<Rightarrow> ('w, sc_node list) prog" where
  "fg_evm_sc_setup_nodes E tmpdir =
     start_sc_nodes E 1 tmpdir (Some [Some [''-mc_block_delay_ref'', ''1'']]) None (Some [Some (EVM_APP_BINARY E)]) False (Some DEFAULT_API_KEY)"

section \<open>Checks of a block\<close>

text \<open>A list of checks of one block, in order.\<close>

definition block_checks :: "(pyval \<Rightarrow> sc_node \<Rightarrow> ('w, unit) prog) list \<Rightarrow> pyval \<Rightarrow> sc_node \<Rightarrow> ('w, unit) prog" where
  "block_checks checks scblock_id sc_node = piter (\<lambda>c. c scblock_id sc_node) checks"

definition forge_checked :: "'w env \<Rightarrow> sc_node \<Rightarrow> (pyval \<Rightarrow> sc_node \<Rightarrow> ('w, unit) prog) list \<Rightarrow> ('w, pyval) prog" where
  "forge_checked E sc_node checks =
     pbind (generate_one E sc_node ''first node'') (\<lambda>scblock_id. pseq (block_checks checks scblock_id sc_node) (pret scblock_id))"

definition no_mainchain_data :: "'w env \<Rightarrow> (pyval \<Rightarrow> sc_node \<Rightarrow> ('w, unit) prog) list" where
  "no_mainchain_data E = [check_mcheaders_amount E (PInt 0), check_mcreferencedata_amount E (PInt 0), check_ommers_amount E (PInt 0)]"

definition best_is :: "'w env \<Rightarrow> mc_node \<Rightarrow> pyval \<Rightarrow> ('w, unit) prog" where
  "best_is E mc_node hash = pbind (mc_call E mc_node ''getbestblockhash'' []) (\<lambda>best. check_eq hash best [])"

definition mc_generate_all :: "'w env \<Rightarrow> mc_node \<Rightarrow> int \<Rightarrow> ('w, pyval list) prog" where
  "mc_generate_all E mc_node n = pbind (mc_call E mc_node ''generate'' [PInt n]) (\<lambda>r. plift (py_items r))"

definition with_nodes :: "(mc_node list \<Rightarrow> ('w, unit) prog) \<Rightarrow> ('w, unit) prog" where
  "with_nodes f = pbind self_nodes f"

text \<open>The end of test 1: the automatic forging is off and can be switched on.\<close>

definition forging_enabled :: "'w env \<Rightarrow> sc_node \<Rightarrow> bool \<Rightarrow> string \<Rightarrow> ('w, unit) prog" where
  "forging_enabled E sc_node expected msg =
     pbind (sc_field E sc_node ''block_forgingInfo'' [] [''result'', ''forgingEnabled'']) (\<lambda>v. check_eq (PBool expected) v msg)"

definition start_auto_forging :: "'w env \<Rightarrow> sc_node \<Rightarrow> ('w, unit) prog" where
  "start_auto_forging E sc_node =
     pseq (forging_enabled E sc_node False ''Automatic forging expected to be disabled.'') (
     pbind (pbind (sc_call E sc_node ''block_startForging'' []) (\<lambda>r. plift (py_in ''result'' r))) (\<lambda>ok.
     pseq (if ok then pret () else plift (fail ''Was not able to start auto forging.''))
       (forging_enabled E sc_node True ''Automatic forging expected to be enabled.'')))"

text \<open>Three mainchain nodes, synchronised and then separated.\<close>

definition separate_nodes :: "'w env \<Rightarrow> ('w, unit) prog" where
  "separate_nodes E =
     pseq (sync_all E) (
     pseq (with_nodes (\<lambda>ns. disconnect_nodes_bi E ns 0 1))
       (with_nodes (\<lambda>ns. disconnect_nodes_bi E ns 0 2)))"

definition join_second :: "'w env \<Rightarrow> mc_node \<Rightarrow> mc_node \<Rightarrow> ('w, unit) prog" where
  "join_second E mc_node1 mc_node2 = pseq (with_nodes (\<lambda>ns. connect_nodes_bi E ns 0 1)) (sync_nodes E [mc_node1, mc_node2])"

definition meet_third :: "'w env \<Rightarrow> mc_node \<Rightarrow> mc_node \<Rightarrow> ('w, unit) prog" where
  "meet_third E mc_node1 mc_node3 =
     pseq (with_nodes (\<lambda>ns. connect_nodes_bi E ns 0 2)) (
     pseq (sync_nodes E [mc_node1, mc_node3])
       (with_nodes (\<lambda>ns. disconnect_nodes_bi E ns 0 2)))"

section \<open>Test 1: a branch with ommers, then one with ommers of ommers\<close>

definition fg1_branches :: "'w env \<Rightarrow> mc_node \<Rightarrow> mc_node \<Rightarrow> sc_node \<Rightarrow> ('w, pyval \<times> pyval \<times> pyval \<times> pyval \<times> pyval \<times> pyval) prog" where
  "fg1_branches E mc_node1 mc_node2 sc_node1 =
     pbind (forge_checked E sc_node1 (no_mainchain_data E)) (\<lambda>id0.
     pbind (mc_generate E mc_node1 1 0) (\<lambda>h1.
     pbind (forge_checked E sc_node1 [check_scparent E id0, check_mcheaders_amount E (PInt 1), check_mcreferencedata_amount E (PInt 1),
         check_mcreference_presence E h1, check_ommers_amount E (PInt 0)]) (\<lambda>id1.
     pbind (mc_generate E mc_node2 1 0) (\<lambda>f1.
     pbind (mc_generate E mc_node2 1 0) (\<lambda>f2.
     pseq (join_second E mc_node1 mc_node2) (
     pseq (best_is E mc_node1 f2) (
     pbind (forge_checked E sc_node1 [check_scparent E id0, check_mcheaders_amount E (PInt 2), check_mcreferencedata_amount E (PInt 0),
         check_mcheader_presence E f1, check_mcheader_presence E f2, check_ommers_amount E (PInt 1),
         check_ommers_cumulative_score E (PInt 1), check_ommer E id1 [h1]]) (\<lambda>id2.
     pbind (mc_generate E mc_node1 1 0) (\<lambda>h3.
     pbind (mc_generate E mc_node1 1 0) (\<lambda>h4.
     pbind (forge_checked E sc_node1 [check_scparent E id2, check_mcheaders_amount E (PInt 2), check_mcreferencedata_amount E (PInt 4),
         check_mcheader_presence E h3, check_mcheader_presence E h4, check_mcreferencedata_presence E f1, check_mcreferencedata_presence E f2,
         check_mcreferencedata_presence E h3, check_mcreferencedata_presence E h4, check_ommers_amount E (PInt 0)]) (\<lambda>id3.
     pbind (forge_checked E sc_node1 (check_scparent E id3 # no_mainchain_data E)) (\<lambda>id4.
       pret (h1, id0, id1, id2, id3, id4)))))))))))))"

text \<open>The last branch. In the test with a delay the newest mainchain blocks are not referenced yet: \<open>headers\<close> and \<open>data\<close> cut
  the list of hashes down to those expected.\<close>

definition fg1_last_branch ::
  "'w env \<Rightarrow> mc_node \<Rightarrow> mc_node \<Rightarrow> sc_node \<Rightarrow> int \<Rightarrow> (pyval list \<Rightarrow> pyval list) \<Rightarrow> (pyval list \<Rightarrow> pyval list) \<Rightarrow> pyval \<Rightarrow> pyval list \<Rightarrow> pyval \<Rightarrow> pyval \<Rightarrow> pyval \<Rightarrow> ('w, unit) prog" where
  "fg1_last_branch E mc_node1 mc_node3 sc_node1 n headers refs parent ommers ommer subommer h1 =
     pbind (mc_generate_all E mc_node3 n) (\<lambda>hashes.
     pbind (plift (list_get hashes (-1))) (\<lambda>tip.
     pseq (with_nodes (\<lambda>ns. connect_nodes_bi E ns 0 2)) (
     pseq (sync_all E) (
     pseq (best_is E mc_node1 tip) (
     pbind (forge_checked E sc_node1 ([check_scparent E parent, check_mcheaders_amount E (PInt 5), check_mcreferencedata_amount E (PInt 0)] @
         map (check_mcheader_presence E) (headers hashes) @ [check_ommers_amount E (PInt 3), check_ommers_cumulative_score E (PInt 4)] @
         map (\<lambda>o_id. check_ommer E o_id []) ommers @ [check_subommer E ommer subommer [h1]])) (\<lambda>branch_id.
     pseq (forge_checked E sc_node1 ([check_scparent E branch_id, check_mcheaders_amount E (PInt 0), check_mcreferencedata_amount E (PInt 5),
         check_ommers_amount E (PInt 0)] @ map (check_mcreferencedata_presence E) (refs hashes)))
       (start_auto_forging E sc_node1)))))))"

definition fg1_run_test :: "'w env \<Rightarrow> ('w, unit) prog" where
  "fg1_run_test E =
     pseq (separate_nodes E) (
     pbind (mc_nth 0) (\<lambda>mc_node1.
     pbind (mc_nth 1) (\<lambda>mc_node2.
     pbind (mc_nth 2) (\<lambda>mc_node3.
     pbind (sc_nth 0) (\<lambda>sc_node1.
     pbind (fg1_branches E mc_node1 mc_node2 sc_node1) (\<lambda>(h1, id0, id1, id2, id3, id4).
       fg1_last_branch E mc_node1 mc_node3 sc_node1 5 (\<lambda>hs. hs) (\<lambda>hs. hs) id0 [id2, id3, id4] id2 id1 h1))))))"

text \<open>With a delay of one block the references follow one mainchain block later.\<close>

definition fg1_delay_branches :: "'w env \<Rightarrow> mc_node \<Rightarrow> mc_node \<Rightarrow> sc_node \<Rightarrow> ('w, pyval \<times> pyval \<times> pyval \<times> pyval \<times> pyval \<times> pyval) prog" where
  "fg1_delay_branches E mc_node1 mc_node2 sc_node1 =
     pseq (mc_call E mc_node1 ''getbestblockhash'' []) (
     pbind (forge_checked E sc_node1 (no_mainchain_data E)) (\<lambda>id0.
     pbind (mc_generate E mc_node1 1 0) (\<lambda>h1.
     pbind (forge_checked E sc_node1 [check_scparent E id0, check_mcheaders_amount E (PInt 0), check_mcreferencedata_amount E (PInt 0)]) (\<lambda>id1.
     pseq (mc_generate E mc_node1 1 0) (
     pbind (forge_checked E sc_node1 [check_mcheaders_amount E (PInt 1), check_mcreferencedata_amount E (PInt 1), check_mcreference_presence E h1]) (\<lambda>id2.
     pseq (check_ommers_amount E (PInt 0) id1 sc_node1) (
     pbind (mc_generate E mc_node2 1 0) (\<lambda>f1.
     pbind (mc_generate E mc_node2 1 0) (\<lambda>f2.
     pbind (mc_generate E mc_node2 1 0) (\<lambda>f3.
     pseq (join_second E mc_node1 mc_node2) (
     pseq (best_is E mc_node1 f3) (
     pbind (forge_checked E sc_node1 [check_scparent E id1, check_mcheaders_amount E (PInt 2), check_mcreferencedata_amount E (PInt 0),
         check_mcheader_presence E f1, check_mcheader_presence E f2, check_ommers_amount E (PInt 1),
         check_ommers_cumulative_score E (PInt 1), check_ommer E id2 [h1]]) (\<lambda>id3.
     pbind (mc_generate E mc_node1 1 0) (\<lambda>h3.
     pseq (mc_generate E mc_node1 1 0) (
     pbind (forge_checked E sc_node1 [check_scparent E id3, check_mcheaders_amount E (PInt 2), check_mcreferencedata_amount E (PInt 4),
         check_mcheader_presence E f3, check_mcheader_presence E h3, check_mcreferencedata_presence E f1, check_mcreferencedata_presence E f2,
         check_mcreferencedata_presence E f3, check_mcreferencedata_presence E h3, check_ommers_amount E (PInt 0)]) (\<lambda>id4.
     pbind (forge_checked E sc_node1 (check_scparent E id4 # no_mainchain_data E)) (\<lambda>id5.
       pret (h1, id1, id2, id3, id4, id5))))))))))))))))))"

definition fg1_delay_run_test :: "'w env \<Rightarrow> ('w, unit) prog" where
  "fg1_delay_run_test E =
     pseq (separate_nodes E) (
     pbind (mc_nth 0) (\<lambda>mc_node1.
     pbind (mc_nth 1) (\<lambda>mc_node2.
     pbind (mc_nth 2) (\<lambda>mc_node3.
     pbind (sc_nth 0) (\<lambda>sc_node1.
     pbind (fg1_delay_branches E mc_node1 mc_node2 sc_node1) (\<lambda>(h1, id1, id2, id3, id4, id5).
       fg1_last_branch E mc_node1 mc_node3 sc_node1 6 butlast (take 5) id1 [id3, id4, id5] id3 id2 h1))))))"

section \<open>Test 2: an ommer with a mainchain block of both branches\<close>

definition fg2_run_test :: "'w env \<Rightarrow> ('w, unit) prog" where
  "fg2_run_test E =
     pbind (mc_nth 0) (\<lambda>mc_node1.
     pbind (mc_nth 1) (\<lambda>mc_node2.
     pbind (sc_nth 0) (\<lambda>sc_node1.
     pbind (sc_nth 1) (\<lambda>sc_node2.
     pseq (sync_all E) (
     pbind (sc_field E sc_node1 ''block_best'' [] [''result'']) (\<lambda>genesis.
     pbind (forge_checked E sc_node1 (no_mainchain_data E)) (\<lambda>id0.
     pbind (mc_generate E mc_node1 1 0) (\<lambda>h1.
     pseq (sync_all E) (
     pseq (with_nodes (\<lambda>ns. disconnect_nodes_bi E ns 0 1)) (
     pbind (mc_generate E mc_node1 1 0) (\<lambda>h2.
     pbind (forge_checked E sc_node1 [check_scparent E id0, check_mcheaders_amount E (PInt 2), check_mcreferencedata_amount E (PInt 2),
         check_mcreference_presence E h1, check_mcreference_presence E h2, check_ommers_amount E (PInt 0)]) (\<lambda>id1.
     pbind (mc_generate E mc_node2 1 0) (\<lambda>f1.
     pbind (mc_generate E mc_node2 1 0) (\<lambda>f2.
     pseq (with_nodes (\<lambda>ns. connect_nodes_bi E ns 0 1)) (
     pseq (sync_all E) (
     pseq (best_is E mc_node1 f2) (
     pseq (forge_checked E sc_node1 [check_scparent E id0, check_mcheaders_amount E (PInt 3), check_mcreferencedata_amount E (PInt 0),
         check_mcheader_presence E h1, check_mcheader_presence E f1, check_mcheader_presence E f2, check_ommers_amount E (PInt 1),
         check_ommers_cumulative_score E (PInt 1), check_ommer E id1 [h1, h2]]) (
     pbind (sc_field E sc_node2 ''block_best'' [] [''result'']) (\<lambda>best2.
     pseq (check_eq genesis best2 []) (
     pseq (connect_sc_nodes E sc_node1 1 25) (
     pseq (sc_sync_all E False) (
     pbind (sc_field E sc_node1 ''block_best'' [] [''result'']) (\<lambda>b1.
     pbind (sc_field E sc_node2 ''block_best'' [] [''result'']) (\<lambda>b2. check_eq b1 b2 []))))))))))))))))))))))))"

section \<open>Test 3: the first branch wins again\<close>

text \<open>The checks of the two blocks after a change of the branch, which the test with a delay shares.\<close>

definition fg3_fork_checks :: "'w env \<Rightarrow> pyval \<Rightarrow> pyval \<Rightarrow> pyval \<Rightarrow> pyval \<Rightarrow> pyval \<Rightarrow> (pyval \<Rightarrow> sc_node \<Rightarrow> ('w, unit) prog) list" where
  "fg3_fork_checks E id0 id1 h1 f1 f2 =
     [check_scparent E id0, check_mcheaders_amount E (PInt 2), check_mcreferencedata_amount E (PInt 0), check_mcheader_presence E f1,
      check_mcheader_presence E f2, check_ommers_amount E (PInt 1), check_ommers_cumulative_score E (PInt 1), check_ommer E id1 [h1]]"

definition fg3_last_checks :: "'w env \<Rightarrow> pyval \<Rightarrow> pyval \<Rightarrow> pyval \<Rightarrow> pyval list \<Rightarrow> pyval list \<Rightarrow> pyval \<Rightarrow> (pyval \<Rightarrow> sc_node \<Rightarrow> ('w, unit) prog) list" where
  "fg3_last_checks E id0 id1 id2 hashes forks h1 =
     [check_scparent E id0, check_mcheaders_amount E (PInt 3), check_mcreferencedata_amount E (PInt 0)] @ map (check_mcheader_presence E) hashes @
     [check_ommers_cumulative_score E (PInt 2), check_ommers_amount E (PInt 1), check_ommer E id2 forks, check_subommer E id2 id1 [h1]]"

definition fg3_run_test :: "'w env \<Rightarrow> ('w, unit) prog" where
  "fg3_run_test E =
     pseq (separate_nodes E) (
     pbind (mc_nth 0) (\<lambda>mc_node1.
     pbind (mc_nth 1) (\<lambda>mc_node2.
     pbind (mc_nth 2) (\<lambda>mc_node3.
     pbind (sc_nth 0) (\<lambda>sc_node1.
     pbind (forge_checked E sc_node1 (no_mainchain_data E)) (\<lambda>id0.
     pbind (mc_generate E mc_node1 1 0) (\<lambda>h1.
     pseq (meet_third E mc_node1 mc_node3) (
     pbind (forge_checked E sc_node1 [check_scparent E id0, check_mcheaders_amount E (PInt 1), check_mcreferencedata_amount E (PInt 1),
         check_mcreference_presence E h1, check_ommers_amount E (PInt 0)]) (\<lambda>id1.
     pbind (mc_generate E mc_node2 1 0) (\<lambda>f1.
     pbind (mc_generate E mc_node2 1 0) (\<lambda>f2.
     pseq (join_second E mc_node1 mc_node2) (
     pseq (best_is E mc_node1 f2) (
     pbind (forge_checked E sc_node1 (fg3_fork_checks E id0 id1 h1 f1 f2)) (\<lambda>id2.
     pbind (mc_generate E mc_node3 1 0) (\<lambda>h2.
     pbind (mc_generate E mc_node3 1 0) (\<lambda>h3.
     pseq (meet_third E mc_node1 mc_node3) (
     pseq (best_is E mc_node1 h3) (
     pseq (forge_checked E sc_node1 (fg3_last_checks E id0 id1 id2 [h1, h2, h3] [f1, f2] h1)) (pret ())))))))))))))))))))"

definition fg3_delay_run_test :: "'w env \<Rightarrow> ('w, unit) prog" where
  "fg3_delay_run_test E =
     pseq (separate_nodes E) (
     pbind (mc_nth 0) (\<lambda>mc_node1.
     pbind (mc_nth 1) (\<lambda>mc_node2.
     pbind (mc_nth 2) (\<lambda>mc_node3.
     pbind (sc_nth 0) (\<lambda>sc_node1.
     pbind (forge_checked E sc_node1 (no_mainchain_data E)) (\<lambda>id0.
     pbind (mc_generate E mc_node1 1 0) (\<lambda>h1.
     pbind (mc_generate E mc_node1 1 0) (\<lambda>h2.
     pseq (meet_third E mc_node1 mc_node3) (
     pbind (forge_checked E sc_node1 [check_scparent E id0, check_mcheaders_amount E (PInt 1), check_mcheader_presence E h1,
         check_mcreferencedata_amount E (PInt 1), check_mcreferencedata_presence E h1, check_ommers_amount E (PInt 0)]) (\<lambda>id1.
     pbind (mc_generate E mc_node2 1 0) (\<lambda>f1.
     pbind (mc_generate E mc_node2 1 0) (\<lambda>f2.
     pbind (mc_generate E mc_node2 1 0) (\<lambda>f3.
     pseq (join_second E mc_node1 mc_node2) (
     pseq (best_is E mc_node1 f3) (
     pbind (forge_checked E sc_node1 (fg3_fork_checks E id0 id1 h1 f1 f2)) (\<lambda>id2.
     pbind (mc_generate E mc_node3 1 0) (\<lambda>h3.
     pbind (mc_generate E mc_node3 1 0) (\<lambda>h4.
     pseq (meet_third E mc_node1 mc_node3) (
     pseq (best_is E mc_node1 h4) (
     pseq (forge_checked E sc_node1 (fg3_last_checks E id0 id1 id2 [h1, h2, h3] [f1, f2] h1)) (pret ())))))))))))))))))))))"

section \<open>Test 4: more mainchain blocks than one block can reference\<close>

text \<open>\<^verbatim>\<open>hashes[a:b]\<close>\<close>

definition hash_slice :: "pyval list \<Rightarrow> int \<Rightarrow> int \<Rightarrow> pyval list" where
  "hash_slice hashes a b = take (nat b - nat a) (drop (nat a) hashes)"

definition fg4_block :: "'w env \<Rightarrow> sc_node \<Rightarrow> pyval list \<Rightarrow> pyval list \<Rightarrow> int \<Rightarrow> int \<Rightarrow> int \<Rightarrow> int \<Rightarrow> ('w, unit) prog" where
  "fg4_block E sc_node hashes scblock_ids amount i a b =
     pbind (plift (list_get scblock_ids i)) (\<lambda>scblock_id.
       block_checks (check_mcheaders_amount E (PInt amount) # map (check_mcheader_presence E) (hash_slice hashes a b) @
         check_mcreferencedata_amount E (PInt amount) # map (check_mcreferencedata_presence E) (hash_slice hashes a b)) scblock_id sc_node)"

text \<open>Four full blocks and one with the rest; \<open>per_block\<close> is what one block can reference.\<close>

definition fg4_blocks :: "'w env \<Rightarrow> sc_node \<Rightarrow> pyval list \<Rightarrow> pyval list \<Rightarrow> int \<Rightarrow> int \<Rightarrow> ('w, unit) prog" where
  "fg4_blocks E sc_node hashes scblock_ids per_block rest =
     pseq (piter (\<lambda>i. fg4_block E sc_node hashes scblock_ids per_block i (i * per_block) ((i + 1) * per_block)) (py_range 4))
       (fg4_block E sc_node hashes scblock_ids rest 4 (per_block * 4) 200)"

definition fg4_run_test :: "'w env \<Rightarrow> ('w, unit) prog" where
  "fg4_run_test E =
     pseq (sync_all E) (
     pbind (mc_nth 0) (\<lambda>mc_node.
     pbind (sc_nth 0) (\<lambda>sc_node.
     pbind (mc_generate_all E mc_node 200) (\<lambda>mcblock_hashes.
     pbind (generate_next_blocks E sc_node ''first node'' 5) (\<lambda>scblock_ids.
       fg4_blocks E sc_node mcblock_hashes scblock_ids 49 4)))))"

definition inclusion_per_block :: int where
  "inclusion_per_block = 48"

definition fg4_delay_run_test :: "'w env \<Rightarrow> ('w, unit) prog" where
  "fg4_delay_run_test E =
     pseq (sync_all E) (
     pbind (mc_nth 0) (\<lambda>mc_node.
     pbind (sc_nth 0) (\<lambda>sc_node.
     pbind (mc_generate E mc_node 1 0) (\<lambda>mcblock_id0.
     pseq (forge_checked E sc_node [check_mcheaders_amount E (PInt 0), check_mcreferencedata_amount E (PInt 0)]) (
     pbind (mc_generate_all E mc_node 200) (\<lambda>mcblock_hashes.
     pbind (generate_next_blocks E sc_node ''first node'' 5) (\<lambda>scblock_ids.
       fg4_blocks E sc_node (mcblock_id0 # take 199 mcblock_hashes) scblock_ids inclusion_per_block 8)))))))"

section \<open>Test 5: transactions of an abandoned block\<close>

definition one_zen_box :: "'w env \<Rightarrow> sc_node \<Rightarrow> int \<Rightarrow> ('w, pyval) prog" where
  "one_zen_box E sc_node amount =
     pbind (http_wallet_allBoxesOfType E sc_node (PStr ''ZenBox'') None) (\<lambda>boxes.
     pbind (plift (py_len boxes)) (\<lambda>n.
     pseq (check_eq (PInt 1) (PInt n) ''Sidechain node expect to have 1 ZenBox - ForwardTransfer'') (
     pbind (plift (rbind (py_nth boxes 0) (\<lambda>b. py_get b ''value''))) (\<lambda>v.
     pseq (check_eq (PInt amount) v ''Sidechain node expect to have different ForwardTransfer amount'') (pret boxes)))))"

definition mempool_is :: "'w env \<Rightarrow> sc_node \<Rightarrow> pyval \<Rightarrow> ('w, unit) prog" where
  "mempool_is E sc_node tx_id =
     pbind (pbind (allTransactions E sc_node False) (\<lambda>r. plift (py_get r ''transactionIds''))) (\<lambda>ids.
     pbind (plift (py_len ids)) (\<lambda>n.
     pseq (check_eq (PInt 1) (PInt n) ''Different mempool size found'') (
     pbind (plift (py_member tx_id ids)) (\<lambda>found. check_that found []))))"

definition fg5_run_test :: "'w env \<Rightarrow> sc_bootstrap_info \<Rightarrow> ('w, unit) prog" where
  "fg5_run_test E info =
     (let amount = 10 * COIN
      in pbind (mc_nth 0) (\<lambda>mc_node1.
         pbind (mc_nth 1) (\<lambda>mc_node2.
         pbind (sc_nth 0) (\<lambda>sc_node.
         pseq (sync_all E) (
         pbind (mc_call E mc_node1 ''getnewaddress'' []) (\<lambda>mc_return_address.
         pbind (new_public_key E sc_node ''wallet_createPrivateKey25519'') (\<lambda>sc_address_1.
         pseq (forward_transfer_to_sidechain E (bi_sidechain_id info) mc_node1 sc_address_1 (PInt 10) mc_return_address False) (
         pseq (mc_call E mc_node1 ''generate'' [PInt 1]) (
         pbind (generate_next_block E sc_node ''first node'' False PNone) (\<lambda>id0.
         pbind (one_zen_box E sc_node amount) (\<lambda>zen_boxes_1.
         pseq (sync_all E) (
         pseq (with_nodes (\<lambda>ns. disconnect_nodes_bi E ns 0 1)) (
         pbind (mc_generate E mc_node1 1 0) (\<lambda>h1.
         pbind (new_public_key E sc_node ''wallet_createPrivateKey25519'') (\<lambda>sc_address_2.
         pbind (sendCoinsToAddress E sc_node sc_address_2 (PInt amount) (PInt 0) None) (\<lambda>tx1_id.
         pbind (generate_next_block E sc_node ''first node'' False PNone) (\<lambda>id1.
         pbind (one_zen_box E sc_node amount) (\<lambda>zen_boxes_2.
         pseq (plift (assert_not_equal zen_boxes_1 zen_boxes_2 ''Box was not spent'')) (
         pbind (new_public_key E sc_node ''wallet_createPrivateKey25519'') (\<lambda>sc_address_3.
         pbind (sendCoinsToAddress E sc_node sc_address_3 (PInt amount) (PInt 0) None) (\<lambda>tx2_id.
         pseq (mempool_is E sc_node tx2_id) (
         pbind (mc_generate E mc_node2 1 0) (\<lambda>f1.
         pbind (mc_generate E mc_node2 1 0) (\<lambda>f2.
         pseq (with_nodes (\<lambda>ns. connect_nodes_bi E ns 0 1)) (
         pseq (sync_all E) (
         pseq (best_is E mc_node1 f2) (
         pbind (generate_next_block E sc_node ''first node'' False PNone) (\<lambda>id2.
         pseq (block_checks [check_scparent E id0, check_mcheaders_amount E (PInt 2), check_mcreferencedata_amount E (PInt 0),
             check_mcheader_presence E f1, check_mcheader_presence E f2, check_ommers_amount E (PInt 1),
             check_ommers_cumulative_score E (PInt 1), check_ommer E id1 [h1]] id2 sc_node) (
         pbind (block_field E sc_node id2 []) (\<lambda>scblock_2.
         pbind (plift (rbind (py_get scblock_2 ''sidechainTransactions'') py_len)) (\<lambda>n.
         pseq (check_eq (PInt 0) (PInt n) ''No txs expected in a block with ommers'')
           (mempool_is E sc_node tx1_id))))))))))))))))))))))))))))))))"

section \<open>The same tests with the account model\<close>

text \<open>The scripts \<^verbatim>\<open>mc_sc_evm_forging*_with_mc_block_delay.py\<close> differ from those above in their set-up only.\<close>

definition fg_evm_sc_setup_chain :: "'w env \<Rightarrow> run_options \<Rightarrow> ('w, sc_bootstrap_info) prog" where
  "fg_evm_sc_setup_chain E options = fg_sc_setup_chain E options [] (PFloat DefaultBlockTimestampRewind) AccountModel"

definition fg1_evm_run_test :: "'w env \<Rightarrow> ('w, unit) prog" where
  "fg1_evm_run_test E = fg1_delay_run_test E"

definition fg3_evm_run_test :: "'w env \<Rightarrow> ('w, unit) prog" where
  "fg3_evm_run_test E = fg3_delay_run_test E"

definition fg4_evm_run_test :: "'w env \<Rightarrow> ('w, unit) prog" where
  "fg4_evm_run_test E = fg4_delay_run_test E"

section \<open>Properties\<close>

subsection \<open>Every mainchain block is in its sidechain block\<close>

text \<open>A node that always answers with the same block for an id.\<close>

abbreviation serves_blocks :: "'w env \<Rightarrow> sc_node \<Rightarrow> (pyval \<Rightarrow> pyval) \<Rightarrow> bool" where
  "serves_blocks E node blk \<equiv> \<forall>b_id w. fst (e_sc_api E node ''block_findById'' [] [(''blockId'', b_id)] w) = Inr (blk b_id)"

text \<open>The texts in a field of the elements of a list.\<close>

definition texts_of :: "string \<Rightarrow> pyval list \<Rightarrow> string list" where
  "texts_of key items = map (\<lambda>i. case py_get i key of Inr (PStr t) \<Rightarrow> t | _ \<Rightarrow> []) items"

definition block_items :: "(pyval \<Rightarrow> pyval) \<Rightarrow> pyval \<Rightarrow> string \<Rightarrow> pyval res" where
  "block_items blk b_id field = py_path (blk b_id) [''result'', ''block'', field]"

lemma block_field_serves:
  assumes "serves_blocks E node blk"
  shows "\<exists>t. block_field E node b_id [field] s = Some (block_items blk b_id field, t)"
  using assms by (auto simp: block_field_def sc_call_kw_def pact_run pbind_run block_items_def split: sum.split prod.split)

lemma block_field_served:
  assumes "serves_blocks E node blk" and "block_field E node b_id [field] s = Some (Inr v, t)"
  shows "block_items blk b_id field = Inr v"
  using block_field_serves [OF assms(1), of b_id field s] assms(2) by auto

lemma some_field_is_text:
  assumes "some_field_is key (PStr h) v = Inr True" and "py_items v = Inr items"
  shows "h \<in> set (texts_of key items)"
proof -
  from assms obtain i where "i \<in> set items" "rbind (py_get i key) (\<lambda>x. Inr (py_eq x (PStr h))) = Inr True"
    unfolding some_field_is_def by (auto dest: rany_True_iff)
  then show ?thesis
    unfolding texts_of_def by (force simp: rbind_Inr_iff py_eq_str image_iff)
qed

lemma presence_text:
  assumes "serves_blocks E node blk" and "block_items blk b_id field = Inr v" and "py_items v = Inr items"
    and "check b_id node s = Some (Inr (), t)"
    and "(field = ''mainchainHeaders'' \<and> key = ''hash'' \<and> check = check_mcheader_presence E (PStr h)) \<or>
      (field = ''mainchainBlockReferencesData'' \<and> key = ''headerHash'' \<and> check = check_mcreferencedata_presence E (PStr h))"
  shows "h \<in> set (texts_of key items)"
  using assms(5)
proof (elim disjE conjE)
  assume c: "field = ''mainchainHeaders''" "key = ''hash''" "check = check_mcheader_presence E (PStr h)"
  from assms(4) obtain w u where "block_field E node b_id [''mainchainHeaders''] s = Some (Inr w, u)" "some_field_is ''hash'' (PStr h) w = Inr True"
    unfolding c check_mcheader_presence_def by (auto simp: pbind_Inr_iff split: if_splits)
  moreover from this have "w = v" using block_field_served [OF assms(1)] assms(2) c by fastforce
  ultimately show ?thesis using some_field_is_text [OF _ assms(3)] c by auto
next
  assume c: "field = ''mainchainBlockReferencesData''" "key = ''headerHash''" "check = check_mcreferencedata_presence E (PStr h)"
  from assms(4) obtain w u where "block_field E node b_id [''mainchainBlockReferencesData''] s = Some (Inr w, u)"
      "some_field_is ''headerHash'' (PStr h) w = Inr True"
    unfolding c check_mcreferencedata_presence_def by (auto simp: pbind_Inr_iff split: if_splits)
  moreover from this have "w = v" using block_field_served [OF assms(1)] assms(2) c by fastforce
  ultimately show ?thesis using some_field_is_text [OF _ assms(3)] c by auto
qed

lemma amount_items:
  assumes "serves_blocks E node blk" and "check_amount E field what (PInt n) b_id node s = Some (Inr (), t)"
  shows "\<exists>v. block_items blk b_id field = Inr v \<and> py_len v = Inr n"
proof -
  from assms(2) obtain v u k where "block_field E node b_id [field] s = Some (Inr v, u)" "py_len v = Inr k" "k = n"
    by (auto simp: check_amount_def pbind_Inr_iff)
  then show ?thesis using block_field_served [OF assms(1)] by blast
qed

text \<open>As many different texts as there are elements, all of them present: these are all texts.\<close>

lemma all_texts:
  assumes "distinct hs" and "set hs \<subseteq> set (texts_of key items)" and "length items = length hs"
  shows "mset (texts_of key items) = mset hs"
proof -
  have len: "length (texts_of key items) = length hs" using assms(3) by (simp add: texts_of_def)
  then have "card (set (texts_of key items)) \<le> card (set hs)"
    using assms(1) card_length [of "texts_of key items"] by (simp add: distinct_card)
  then have eq: "set hs = set (texts_of key items)" using assms(2) by (meson card_seteq finite_set)
  then have "distinct (texts_of key items)"
    using len assms(1) by (metis card_distinct distinct_card)
  then show ?thesis using assms(1) eq by (metis set_eq_iff_mset_eq_distinct)
qed

definition holds_exactly :: "(pyval \<Rightarrow> pyval) \<Rightarrow> pyval \<Rightarrow> string \<Rightarrow> string \<Rightarrow> string list \<Rightarrow> bool" where
  "holds_exactly blk b_id field key hs \<longleftrightarrow>
     (\<exists>v items. block_items blk b_id field = Inr v \<and> py_items v = Inr items \<and> mset (texts_of key items) = mset hs)"

lemma py_len_items: "py_items v = Inr items \<Longrightarrow> py_len v = Inr (int (length items))"
  by (cases v) (auto simp: rerr_def)

text \<open>The check of an amount together with the checks of the presence of that many different hashes.\<close>

lemma checked_exactly:
  assumes blocks: "serves_blocks E node blk"
    and amount: "check_amount E field what (PInt n) b_id node s = Some (Inr (), t)"
    and present: "\<And>h. h \<in> set hs \<Longrightarrow> \<exists>u v. check h b_id node u = Some (Inr (), v)"
    and kind: "(field = ''mainchainHeaders'' \<and> key = ''hash'' \<and> check = (\<lambda>h. check_mcheader_presence E (PStr h))) \<or>
      (field = ''mainchainBlockReferencesData'' \<and> key = ''headerHash'' \<and> check = (\<lambda>h. check_mcreferencedata_presence E (PStr h)))"
    and hs: "distinct hs" "n = int (length hs)" "hs \<noteq> []"
  shows "holds_exactly blk b_id field key hs"
proof -
  from amount_items [OF blocks amount] obtain v where v: "block_items blk b_id field = Inr v" "py_len v = Inr n" by blast
  obtain h u w where h: "h \<in> set hs" "check h b_id node u = Some (Inr (), w)" using hs(3) present by (metis list.set_intros(1) neq_Nil_conv)
  have "\<exists>x y. block_field E node b_id [field] u = Some (Inr x, y) \<and> some_field_is key (PStr h) x = Inr True"
    using kind h(2) by (auto simp: check_mcheader_presence_def check_mcreferencedata_presence_def pbind_Inr_iff split: if_splits)
  then have "some_field_is key (PStr h) v = Inr True" using block_field_served [OF blocks] v(1) by fastforce
  then obtain items where items: "py_items v = Inr items" by (auto simp: some_field_is_def rbind_Inr_iff)
  have "set hs \<subseteq> set (texts_of key items)"
    using present presence_text [OF blocks v(1) items] kind by blast
  moreover have "length items = length hs" using v(2) py_len_items [OF items] hs(2) by simp
  ultimately show ?thesis unfolding holds_exactly_def using v(1) items all_texts hs(1) by blast
qed

lemma block_checks_each:
  assumes "block_checks cs b_id node s = Some (Inr (), t)" and "c \<in> set cs"
  shows "\<exists>u v. c b_id node u = Some (Inr (), v)"
  using piter_each [of "\<lambda>c. c b_id node" cs s t c] assms by (simp add: block_checks_def)

lemma fg4_block_exact:
  assumes "serves_blocks E node blk" and "fg4_block E node (map PStr hs) ids n i a b s = Some (Inr (), t)"
    and "distinct hs" and "0 \<le> a" and "n = b - a" and "0 < n" and "b \<le> int (length hs)"
  shows "\<exists>b_id. list_get ids i = Inr b_id \<and> holds_exactly blk b_id ''mainchainHeaders'' ''hash'' (take (nat n) (drop (nat a) hs)) \<and>
    holds_exactly blk b_id ''mainchainBlockReferencesData'' ''headerHash'' (take (nat n) (drop (nat a) hs))"
proof -
  let ?hs = "take (nat n) (drop (nat a) hs)"
  have slice: "hash_slice (map PStr hs) a b = map PStr ?hs"
    using assms(4,5,6) by (simp add: hash_slice_def take_map drop_map nat_diff_distrib)
  from assms(2) obtain b_id u where id: "list_get ids i = Inr b_id" and
    run: "block_checks (check_mcheaders_amount E (PInt n) # map (check_mcheader_presence E) (map PStr ?hs) @
      check_mcreferencedata_amount E (PInt n) # map (check_mcreferencedata_presence E) (map PStr ?hs)) b_id node u = Some (Inr (), t)"
    by (auto simp: fg4_block_def pbind_Inr_iff slice)
  note each = block_checks_each [OF run]
  have hs: "distinct ?hs" "n = int (length ?hs)" "?hs \<noteq> []"
    using assms(3-7) by (auto simp: distinct_take distinct_drop nat_le_iff)
  have "holds_exactly blk b_id ''mainchainHeaders'' ''hash'' ?hs"
  proof -
    from each [of "check_mcheaders_amount E (PInt n)"] obtain x y where "check_mcheaders_amount E (PInt n) b_id node x = Some (Inr (), y)" by auto
    then show ?thesis unfolding check_mcheaders_amount_def
      by (rule checked_exactly [OF assms(1) _ _ _ hs, where check = "\<lambda>h. check_mcheader_presence E (PStr h)"]) (auto intro: each)
  qed
  moreover have "holds_exactly blk b_id ''mainchainBlockReferencesData'' ''headerHash'' ?hs"
  proof -
    from each [of "check_mcreferencedata_amount E (PInt n)"] obtain x y where "check_mcreferencedata_amount E (PInt n) b_id node x = Some (Inr (), y)" by auto
    then show ?thesis unfolding check_mcreferencedata_amount_def
      by (rule checked_exactly [OF assms(1) _ _ _ hs, where check = "\<lambda>h. check_mcreferencedata_presence E (PStr h)"]) (auto intro: each)
  qed
  ultimately show ?thesis using id by blast
qed

text \<open>C35. When the checks of test 4 pass, the five sidechain blocks contain exactly the two hundred mainchain blocks, in
  order: the headers and the reference data of each of the first four blocks are those of the next mainchain blocks,
  \<open>per_block\<close> of them, and the fifth has the rest. Nothing is missing, repeated or added.\<close>
theorem mainchain_blocks_partitioned:
  assumes "serves_blocks E node blk" and "fg4_blocks E node (map PStr hs) ids per_block rest s = Some (Inr (), t)"
    and "distinct hs" and "length hs = 200" and "0 < per_block" and "0 < rest" and "rest \<le> per_block" and "4 * per_block + rest = 200"
    and "i < 5"
  shows "\<exists>b_id. list_get ids (int i) = Inr b_id \<and>
    holds_exactly blk b_id ''mainchainHeaders'' ''hash'' (take (nat per_block) (drop (i * nat per_block) hs)) \<and>
    holds_exactly blk b_id ''mainchainBlockReferencesData'' ''headerHash'' (take (nat per_block) (drop (i * nat per_block) hs))"
proof (cases "i < 4")
  case True
  from assms(2) obtain u where "piter (\<lambda>i. fg4_block E node (map PStr hs) ids per_block i (i * per_block) ((i + 1) * per_block)) (py_range 4) s = Some (Inr (), u)"
    by (auto simp: fg4_blocks_def pbind_Inr_iff)
  moreover have "int i \<in> set (py_range 4)" using True by (simp add: py_range_def)
  ultimately obtain x y where "fg4_block E node (map PStr hs) ids per_block (int i) (int i * per_block) ((int i + 1) * per_block) x = Some (Inr (), y)"
    by (meson piter_each)
  moreover have "(int i + 1) * per_block \<le> 200"
  proof -
    have "(int i + 1) * per_block \<le> 4 * per_block" using True assms(5) by (intro mult_right_mono) auto
    then show ?thesis using assms(6,8) by linarith
  qed
  ultimately show ?thesis
    using fg4_block_exact [OF assms(1) _ assms(3), of ids per_block "int i" "int i * per_block" "(int i + 1) * per_block"] assms(4,5)
    by (auto simp: algebra_simps nat_mult_distrib)
next
  case False
  then have i: "i = 4" using assms(9) by simp
  from assms(2) obtain u where "fg4_block E node (map PStr hs) ids rest 4 (per_block * 4) 200 u = Some (Inr (), t)"
    by (auto simp: fg4_blocks_def pbind_Inr_iff)
  then have "\<exists>b_id. list_get ids 4 = Inr b_id \<and> holds_exactly blk b_id ''mainchainHeaders'' ''hash'' (take (nat rest) (drop (nat (per_block * 4)) hs)) \<and>
      holds_exactly blk b_id ''mainchainBlockReferencesData'' ''headerHash'' (take (nat rest) (drop (nat (per_block * 4)) hs))"
    using assms by (intro fg4_block_exact) auto
  moreover have "drop (4 * nat per_block) hs = drop (nat (per_block * 4)) hs"
    using assms(5) by (simp add: nat_mult_distrib mult.commute)
  ultimately show ?thesis using i assms by auto
qed

subsection \<open>Blocks that pass\<close>

text \<open>A node whose blocks list the slices passes the checks; this gives the witness.\<close>

lemma piter_passes:
  assumes "\<And>x s. x \<in> set xs \<Longrightarrow> \<exists>t. f x s = Some (Inr (), t)"
  shows "\<exists>t. piter f xs s = Some (Inr (), t)"
  using assms
proof (induction xs arbitrary: s)
  case (Cons x xs)
  from Cons.prems obtain u where "f x s = Some (Inr (), u)" by fastforce
  moreover obtain t where "piter f xs u = Some (Inr (), t)" using Cons.IH [of u] Cons.prems by auto
  ultimately show ?case by (simp add: pbind_run)
qed simp

definition listed :: "string \<Rightarrow> string list \<Rightarrow> pyval" where
  "listed key hs = PList (map (\<lambda>h. PDict [(key, PStr h)]) hs)"

lemma listed_field: "h \<in> set hs \<Longrightarrow> some_field_is key (PStr h) (listed key hs) = Inr True"
  by (induction hs) (auto simp: some_field_is_def listed_def)

lemma listed_size [simp]: "py_len (listed key hs) = Inr (int (length hs))"
  by (simp add: listed_def)

lemma checks_pass:
  assumes "serves_blocks E node blk" and "block_items blk b_id ''mainchainHeaders'' = Inr (listed ''hash'' hs)"
    and "block_items blk b_id ''mainchainBlockReferencesData'' = Inr (listed ''headerHash'' hs)"
  shows "\<exists>t. check_mcheaders_amount E (PInt (int (length hs))) b_id node s = Some (Inr (), t)"
    "\<exists>t. check_mcreferencedata_amount E (PInt (int (length hs))) b_id node s = Some (Inr (), t)"
    "h \<in> set hs \<Longrightarrow> \<exists>t. check_mcheader_presence E (PStr h) b_id node s = Some (Inr (), t)"
    "h \<in> set hs \<Longrightarrow> \<exists>t. check_mcreferencedata_presence E (PStr h) b_id node s = Some (Inr (), t)"
  using block_field_serves [OF assms(1), of b_id "''mainchainHeaders''" s] block_field_serves [OF assms(1), of b_id "''mainchainBlockReferencesData''" s]
    assms(2,3)
  by (auto simp: check_mcheaders_amount_def check_mcreferencedata_amount_def check_amount_def check_mcheader_presence_def
      check_mcreferencedata_presence_def pbind_run listed_field assert_equal_def)

lemma fg4_block_passes:
  assumes "serves_blocks E node blk" and "list_get ids i = Inr b_id" and "hash_slice (map PStr hs) a b = map PStr xs" and "n = int (length xs)"
    and "block_items blk b_id ''mainchainHeaders'' = Inr (listed ''hash'' xs)"
    and "block_items blk b_id ''mainchainBlockReferencesData'' = Inr (listed ''headerHash'' xs)"
  shows "\<exists>t. fg4_block E node (map PStr hs) ids n i a b s = Some (Inr (), t)"
proof -
  note pass = checks_pass [OF assms(1,5,6)]
  have "\<exists>t. block_checks (check_mcheaders_amount E (PInt n) # map (check_mcheader_presence E) (map PStr xs) @
      check_mcreferencedata_amount E (PInt n) # map (check_mcreferencedata_presence E) (map PStr xs)) b_id node s = Some (Inr (), t)"
    unfolding block_checks_def by (rule piter_passes) (auto simp: assms(4) intro: pass)
  then show ?thesis by (simp add: fg4_block_def assms(2,3) pbind_run)
qed

text \<open>Two hundred different hashes, and five blocks with their slices.\<close>

definition many_hashes :: "string list" where
  "many_hashes = map (\<lambda>j. replicate j (CHR ''h'')) [0..<200]"

definition slice_block :: "pyval \<Rightarrow> pyval" where
  "slice_block b_id = (case b_id of PStr t \<Rightarrow>
     let xs = take 49 (drop (49 * length t) many_hashes)
     in PDict [(''result'', PDict [(''block'', PDict [(''mainchainHeaders'', listed ''hash'' xs), (''mainchainBlockReferencesData'', listed ''headerHash'' xs)])])])"

definition slice_ids :: "pyval list" where
  "slice_ids = map (\<lambda>i. PStr (replicate i (CHR ''b''))) [0..<5]"

definition slice_env :: "sample env" where
  "slice_env = sample_env\<lparr>e_sc_api := \<lambda>n m a kw w. (Inr (slice_block (the (map_of kw ''blockId''))), w)\<rparr>"

lemma many_hashes: "distinct many_hashes" "length many_hashes = 200"
  by (auto simp: many_hashes_def distinct_map inj_on_def)

lemma slice_blocks: "serves_blocks slice_env (sample_node []) slice_block"
  by (simp add: slice_env_def)

lemma slice_items:
  assumes "i < 5"
  shows "block_items slice_block (slice_ids ! i) ''mainchainHeaders'' = Inr (listed ''hash'' (take 49 (drop (49 * i) many_hashes)))"
    "block_items slice_block (slice_ids ! i) ''mainchainBlockReferencesData'' = Inr (listed ''headerHash'' (take 49 (drop (49 * i) many_hashes)))"
  using assms by (simp_all add: block_items_def slice_block_def slice_ids_def Let_def)

lemma slice_test_passes: "\<exists>t. fg4_blocks slice_env (sample_node []) (map PStr many_hashes) slice_ids 49 4 (sample_world 1 0 []) = Some (Inr (), t)"
proof -
  have block: "\<exists>t. fg4_block slice_env (sample_node []) (map PStr many_hashes) slice_ids n (int i) (int (i * 49)) (int (i * 49) + n) s = Some (Inr (), t)"
    if "i < 5" "n = int (length (take 49 (drop (49 * i) many_hashes)))" for i n s
  proof (rule fg4_block_passes [OF slice_blocks _ _ that(2) slice_items [OF that(1)]])
    show "list_get slice_ids (int i) = Inr (slice_ids ! i)" using that(1) by (simp add: list_get_def slice_ids_def)
    show "hash_slice (map PStr many_hashes) (int (i * 49)) (int (i * 49) + n) = map PStr (take 49 (drop (49 * i) many_hashes))"
    proof -
      have "nat (int (i * 49) + n) - nat (int (i * 49)) = min (length (drop (49 * i) many_hashes)) 49" unfolding that(2) by simp
      moreover have "nat (int (i * 49)) = 49 * i" by simp
      moreover have "take (min (length ys) 49) ys = take 49 ys" for ys :: "string list" by (simp add: min_def)
      ultimately show ?thesis by (simp only: hash_slice_def take_map drop_map)
    qed
  qed
  have "\<exists>t. piter (\<lambda>i. fg4_block slice_env (sample_node []) (map PStr many_hashes) slice_ids 49 i (i * 49) ((i + 1) * 49)) (py_range 4) (sample_world 1 0 []) = Some (Inr (), t)"
  proof (rule piter_passes)
    fix j s
    assume "j \<in> set (py_range 4)"
    then have "0 \<le> j" "j < 4" by (auto simp: py_range_def)
    then obtain i where "i < 4" "j = int i" using nonneg_int_cases [of j] by force
    then show "\<exists>t. fg4_block slice_env (sample_node []) (map PStr many_hashes) slice_ids 49 j (j * 49) ((j + 1) * 49) s = Some (Inr (), t)"
      using block [of i 49 s] by (simp add: many_hashes algebra_simps)
  qed
  then show ?thesis
    using block [of 4 4] by (auto simp: fg4_blocks_def pbind_run many_hashes)
qed

theorem mainchain_blocks_partitioned_witness:
  "\<exists>b_id. list_get slice_ids 3 = Inr b_id \<and> holds_exactly slice_block b_id ''mainchainHeaders'' ''hash'' (take 49 (drop 147 many_hashes))"
  using slice_test_passes mainchain_blocks_partitioned [OF slice_blocks, of many_hashes slice_ids 49 4 "sample_world 1 0 []" _ 3] many_hashes by auto

subsection \<open>Ommers\<close>

text \<open>The check of an ommer stops at its first mainchain header: when that one is expected, the check passes, whatever
  other headers the ommer has, and although expected ones may be missing.\<close>
theorem ommer_check_first_header_only:
  assumes "block_field E sc_node b_id [''ommers''] s = Some (Inr (PList (ommer # ommers)), t)"
    and "py_path ommer [''header'', ''id''] = Inr (PStr o_id)" and "py_get ommer ''mainchainHeaders'' = Inr (PList (header # headers))"
    and "py_get header ''hash'' = Inr (PStr h)" and "PStr h \<in> set hashes"
  shows "check_ommer E (PStr o_id) hashes b_id sc_node s = Some (Inr (), t)"
proof -
  have "ommer_loop (PStr o_id) hashes (ommer # ommers) = Inr True"
    using assms(2-5) by (auto simp: has_header_id_def headers_checked_def list_ex_iff)
  then show ?thesis using assms(1) by (simp add: check_ommer_def pbind_run)
qed

text \<open>An ommer with an unknown header and without the second of the two expected ones.\<close>

definition odd_ommer :: pyval where
  "odd_ommer = PDict [(''header'', PDict [(''id'', PStr ''ommer'')]), (''mainchainHeaders'', PList [PDict [(''hash'', PStr ''h1'')], PDict [(''hash'', PStr ''unknown'')]])]"

theorem ommer_check_first_header_only_witness:
  "fst (the (check_ommer (sample_env\<lparr>e_sc_api := \<lambda>n m a kw w. (Inr (PDict [(''result'', PDict [(''block'', PDict [(''ommers'', PList [odd_ommer])])])]), w)\<rparr>)
     (PStr ''ommer'') [PStr ''h1'', PStr ''h2''] (PStr ''block'') (sample_node []) (sample_world 1 0 []))) = Inr ()"
proof -
  let ?E = "sample_env\<lparr>e_sc_api := \<lambda>n m a kw w. (Inr (PDict [(''result'', PDict [(''block'', PDict [(''ommers'', PList [odd_ommer])])])]), w)\<rparr>"
  obtain t where "block_field ?E (sample_node []) (PStr ''block'') [''ommers''] (sample_world 1 0 []) = Some (Inr (PList [odd_ommer]), t)"
    by (auto simp: block_field_def sc_call_kw_def pact_run pbind_run)
  from ommer_check_first_header_only [OF this, of "''ommer''" "PDict [(''hash'', PStr ''h1'')]" "[PDict [(''hash'', PStr ''unknown'')]]" "''h1''"
      "[PStr ''h1'', PStr ''h2'']"]
  show ?thesis by (simp add: odd_ommer_def)
qed

end
