(* ===== verification/Event_Logs.thy ===== *)
theory Event_Logs
  imports Abi_Results
begin

text \<open>
  Checks of the events in a receipt (\<^verbatim>\<open>check_..._event\<close> of \<^verbatim>\<open>qa/sc_evm_backward_transfer.py\<close>,
  \<^verbatim>\<open>sc_evm_cert_key_rotation.py\<close>, \<^verbatim>\<open>sc_evm_closed_forger.py\<close>, \<^verbatim>\<open>sc_evm_forger.py\<close>, \<^verbatim>\<open>sc_evm_forger_v2.py\<close>,
  \<^verbatim>\<open>sc_evm_forger_v2_register.py\<close>, \<^verbatim>\<open>sc_evm_native_forger_v2.py\<close>, \<^verbatim>\<open>sc_evm_mc_addr_ownership.py\<close>) and of the receipts
  themselves. An event has a list of topics, the first of which is the hash of its signature, and data;
  \<open>event_of\<close> is the event that a contract emits for given values, and the properties say for which values a
  check accepts it.
\<close>

section \<open>Parts of an event\<close>

definition topic :: "pyval \<Rightarrow> int \<Rightarrow> pyval res" where
  "topic event i = rbind (py_get event ''topics'') (\<lambda>ts. py_nth ts i)"

text \<open>The number of topics and the signature; \<open>same_id\<close> takes the texts as they are, \<open>bare_id\<close> without a prefix.\<close>

definition bare_id :: "eth_tools \<Rightarrow> pyval \<Rightarrow> pyval res" where
  "bare_id T v = rbind (as_str v) (\<lambda>s. Inr (PStr (remove_0x_prefix T s)))"

definition check_topics :: "(pyval \<Rightarrow> pyval res) \<Rightarrow> eth_tools \<Rightarrow> string \<Rightarrow> int \<Rightarrow> string \<Rightarrow> pyval \<Rightarrow> unit res" where
  "check_topics view T sig count msg event =
     rbind (rbind (py_get event ''topics'') py_len) (\<lambda>n.
     rbind (assert_equal (PInt count) (PInt n) msg) (\<lambda>_.
     rbind (rbind (topic event 0) view) (\<lambda>event_id.
     rbind (view (PStr (encode_hex T (event_topic T sig)))) (\<lambda>event_signature.
       assert_equal event_signature event_id ''Wrong event signature in topics''))))"

definition word_of :: "pyval \<Rightarrow> nat list res" where
  "word_of v = rbind (as_str v) (\<lambda>s. hex_str_to_bytes (drop 2 s))"

definition topic_value :: "eth_tools \<Rightarrow> string \<Rightarrow> pyval \<Rightarrow> int \<Rightarrow> pyval res" where
  "topic_value T type event i = rbind (rbind (topic event i) word_of) (decode_one T type)"

definition topic_address :: "eth_tools \<Rightarrow> pyval \<Rightarrow> int \<Rightarrow> string res" where
  "topic_address T event i = rbind (rbind (topic_value T ''address'' event i) as_str) (\<lambda>a. Inr (drop 2 a))"

definition topic_bytes :: "eth_tools \<Rightarrow> string \<Rightarrow> pyval \<Rightarrow> int \<Rightarrow> nat list res" where
  "topic_bytes T type event i = rbind (topic_value T type event i) as_bytes"

definition event_data :: "eth_tools \<Rightarrow> string list \<Rightarrow> pyval \<Rightarrow> pyval list res" where
  "event_data T types event = rbind (rbind (py_get event ''data'') word_of) (decode T types)"

section \<open>Withdrawals and certificate keys\<close>

definition check_withdrawal_event :: "eth_tools \<Rightarrow> pyval \<Rightarrow> string \<Rightarrow> string \<Rightarrow> int \<Rightarrow> int \<Rightarrow> unit res" where
  "check_withdrawal_event T event source_addr dest_addr amount exp_epoch =
     rbind (check_topics Inr T ''AddWithdrawalRequest(address,bytes20,uint256,uint32)'' 3 ''Wrong number of topics in event'' event) (\<lambda>_.
     rbind (topic_address T event 1) (\<lambda>from_addr.
     rbind (assert_equal (PStr source_addr) (PStr from_addr) ''Wrong from address in topics'') (\<lambda>_.
     rbind (topic_bytes T ''bytes20'' event 2) (\<lambda>mcDestAddr.
     rbind (b58decode_check T dest_addr) (\<lambda>dest.
     rbind (assert_equal (PStr (drop 4 (hexlify dest))) (PStr (drop 2 (encode_hex T mcDestAddr))) ''Wrong destination address in topics'') (\<lambda>_.
     rbind (event_data T [''uint256'', ''uint32''] event) (\<lambda>vs.
       case vs of
         [wr_amount, epoch] \<Rightarrow>
           rbind (assert_equal (PInt (convertZenniesToWei amount)) wr_amount ''Wrong amount in event'') (\<lambda>_.
             assert_equal (PInt exp_epoch) epoch ''Wrong epoch in event'')
       | _ \<Rightarrow> unpack_error)))))))"

definition check_key_rotation_event :: "eth_tools \<Rightarrow> pyval \<Rightarrow> int \<Rightarrow> int \<Rightarrow> string \<Rightarrow> int \<Rightarrow> unit res" where
  "check_key_rotation_event T event key_type key_index key_value epoch =
     rbind (check_topics Inr T ''SubmitKeyRotation(uint32,uint32,bytes32,bytes1,uint32)'' 3 ''Wrong number of topics in event'' event) (\<lambda>_.
     rbind (topic_value T ''uint32'' event 1) (\<lambda>key_type_actual.
     rbind (assert_equal (PInt key_type) key_type_actual ''Wrong key type in topics'') (\<lambda>_.
     rbind (topic_value T ''uint32'' event 2) (\<lambda>key_index_actual.
     rbind (assert_equal (PInt key_index) key_index_actual ''Wrong key index in topics'') (\<lambda>_.
     rbind (event_data T [''bytes32'', ''bytes1'', ''uint32''] event) (\<lambda>vs.
       case vs of
         [key_value_part1, key_value_part2, epoch_actual] \<Rightarrow>
           rbind (as_bytes key_value_part1) (\<lambda>b1. rbind (as_bytes key_value_part2) (\<lambda>b2.
           rbind (assert_equal (PStr key_value) (PStr (hexlify (b1 @ b2))) ''Wrong key value in event'') (\<lambda>_.
             assert_equal (PInt epoch) epoch_actual ''Wrong epoch in event'')))
       | _ \<Rightarrow> unpack_error))))))"

section \<open>Forger stakes\<close>

definition check_open_forger_list_event :: "eth_tools \<Rightarrow> pyval \<Rightarrow> int \<Rightarrow> unit res" where
  "check_open_forger_list_event T event forgerIndex =
     rbind (check_topics (bare_id T) T ''OpenForgerList(uint32,address,bytes32)'' 2 ''Wrong number of topics in event'' event) (\<lambda>_.
     rbind (topic_value T ''uint32'' event 1) (\<lambda>index.
     rbind (assert_equal index (PInt forgerIndex) ''Wrong from address in topics'') (\<lambda>_.
     rbind (event_data T [''address'', ''bytes32''] event) (\<lambda>vs. case vs of [addr, pkey] \<Rightarrow> Inr () | _ \<Rightarrow> unpack_error))))"

definition check_make_forger_stake_event :: "eth_tools \<Rightarrow> pyval \<Rightarrow> string \<Rightarrow> string \<Rightarrow> pynum \<Rightarrow> pyval res" where
  "check_make_forger_stake_event T event source_addr owner amount =
     rbind (check_topics (bare_id T) T ''DelegateForgerStake(address,address,bytes32,uint256)'' 3 ''Wrong number of topics in event'' event) (\<lambda>_.
     rbind (topic_address T event 1) (\<lambda>from_addr.
     rbind (assert_equal (PStr (py_lower source_addr)) (PStr (py_lower from_addr)) ''Wrong from address in topics'') (\<lambda>_.
     rbind (topic_address T event 2) (\<lambda>owner_addr.
     rbind (assert_equal (PStr owner) (PStr owner_addr) ''Wrong owner address in topics'') (\<lambda>_.
     rbind (event_data T [''bytes32'', ''uint256''] event) (\<lambda>vs.
       case vs of
         [stake_id, v] \<Rightarrow> rbind (assert_equal (PInt (convertZenToWei amount)) v ''Wrong amount in event'') (\<lambda>_. Inr stake_id)
       | _ \<Rightarrow> unpack_error))))))"

text \<open>\<^verbatim>\<open>to_hex\<close> of bytes is \<^verbatim>\<open>encode_hex\<close>.\<close>

definition check_spend_forger_stake_event :: "eth_tools \<Rightarrow> pyval \<Rightarrow> string \<Rightarrow> string \<Rightarrow> unit res" where
  "check_spend_forger_stake_event T event owner stake_id =
     rbind (check_topics (bare_id T) T ''WithdrawForgerStake(address,bytes32)'' 2 ''Wrong number of topics in event'' event) (\<lambda>_.
     rbind (topic_address T event 1) (\<lambda>owner_addr.
     rbind (assert_equal (PStr owner) (PStr owner_addr) ''Wrong owner address in topics'') (\<lambda>_.
     rbind (event_data T [''bytes32''] event) (\<lambda>vs.
       case vs of
         [stake] \<Rightarrow> rbind (as_bytes stake) (\<lambda>b. assert_equal (PStr stake_id) (PStr (drop 2 (encode_hex T b))) ''Wrong stake id in data'')
       | _ \<Rightarrow> unpack_error))))"

definition check_upgrade_event :: "eth_tools \<Rightarrow> pyval \<Rightarrow> int \<Rightarrow> int \<Rightarrow> unit res" where
  "check_upgrade_event T event old new =
     rbind (check_topics (bare_id T) T ''StakeUpgrade(uint32,uint32)'' 1 ''Wrong number of topics in event'' event) (\<lambda>_.
     rbind (event_data T [''uint32'', ''uint32''] event) (\<lambda>vs.
       case vs of
         [old_version, new_version] \<Rightarrow>
           rbind (assert_equal (PInt old) old_version ''Wrong old version in event'') (\<lambda>_.
             assert_equal (PInt new) new_version ''Wrong new version in event'')
       | _ \<Rightarrow> unpack_error))"

text \<open>The topics of the second version: the sender and the two parts of the key \<open>vrf\<close> (as text).\<close>

definition check_forger_topics :: "eth_tools \<Rightarrow> string \<Rightarrow> string \<Rightarrow> pyval \<Rightarrow> string \<Rightarrow> string \<Rightarrow> unit res" where
  "check_forger_topics T sig msg event sender vrf =
     rbind (check_topics (bare_id T) T sig 4 msg event) (\<lambda>_.
     rbind (topic_address T event 1) (\<lambda>from_addr.
     rbind (assert_equal (PStr (py_lower sender)) (PStr (py_lower from_addr)) ''Wrong from address in topics'') (\<lambda>_.
     rbind (topic_bytes T ''bytes32'' event 2) (\<lambda>vrf1.
     rbind (topic_bytes T ''bytes1'' event 3) (\<lambda>vrf2.
       assert_equal (PStr vrf) (PStr (bytes_to_hex_str vrf1 @ bytes_to_hex_str vrf2)) ''wrong vrfPublicKey'')))))"

definition check_stake_data :: "eth_tools \<Rightarrow> pyval \<Rightarrow> string \<Rightarrow> int \<Rightarrow> unit res" where
  "check_stake_data T event block_sign_pub_key staked_amount =
     rbind (event_data T [''bytes32'', ''uint256''] event) (\<lambda>vs.
       case vs of
         [sign_pub_key, v] \<Rightarrow> rbind (as_bytes sign_pub_key) (\<lambda>b.
           rbind (assert_equal (PStr block_sign_pub_key) (PStr (bytes_to_hex_str b)) ''Wrong sign_pub_key in event'') (\<lambda>_.
             assert_equal (PInt staked_amount) v ''Wrong amount in event''))
       | _ \<Rightarrow> unpack_error)"

definition check_delegate_event :: "eth_tools \<Rightarrow> pyval \<Rightarrow> string \<Rightarrow> nat list \<Rightarrow> string \<Rightarrow> int \<Rightarrow> unit res" where
  "check_delegate_event T event sender vrf_pub_key block_sign_pub_key staked_amount =
     rbind (check_forger_topics T ''DelegateForgerStake(address,bytes32,bytes32,bytes1,uint256)'' ''Wrong number of topics in delegate_event''
         event sender (bytes_to_hex_str vrf_pub_key)) (\<lambda>_. check_stake_data T event block_sign_pub_key staked_amount)"

definition check_withdraw_event :: "eth_tools \<Rightarrow> pyval \<Rightarrow> string \<Rightarrow> nat list \<Rightarrow> string \<Rightarrow> int \<Rightarrow> unit res" where
  "check_withdraw_event T event sender vrf_pub_key block_sign_pub_key staked_amount =
     rbind (check_forger_topics T ''WithdrawForgerStake(address,bytes32,bytes32,bytes1,uint256)'' ''Wrong number of topics in withdraw_event''
         event sender (bytes_to_hex_str vrf_pub_key)) (\<lambda>_. check_stake_data T event block_sign_pub_key staked_amount)"

text \<open>In the next two checks the argument \<open>reward_address\<close> is compared with itself.\<close>

definition check_register_event :: "eth_tools \<Rightarrow> pyval \<Rightarrow> string \<Rightarrow> string \<Rightarrow> string \<Rightarrow> int \<Rightarrow> int \<Rightarrow> pyval \<Rightarrow> unit res" where
  "check_register_event T event sender vrf_pub_key block_sign_pub_key staked_amount rewards_share reward_address =
     rbind (check_forger_topics T ''RegisterForger(address,bytes32,bytes32,bytes1,uint256,uint32,address)'' ''Wrong number of topics in register_event''
         event sender vrf_pub_key) (\<lambda>_.
     rbind (event_data T [''bytes32'', ''uint256'', ''uint32'', ''address''] event) (\<lambda>vs.
       case vs of
         [pubKey25519, v, share, reward_contract_address] \<Rightarrow>
           rbind (as_bytes pubKey25519) (\<lambda>b.
           rbind (assert_equal (PStr block_sign_pub_key) (PStr (bytes_to_hex_str b)) ''Wrong from address in topics'') (\<lambda>_.
           rbind (assert_equal (PInt staked_amount) v ''Wrong amount in event'') (\<lambda>_.
           rbind (assert_equal (PInt rewards_share) share ''Wrong rewards_share in event'') (\<lambda>_.
             assert_equal reward_address reward_address ''Wrong reward_address in event''))))
       | _ \<Rightarrow> unpack_error))"

definition check_update_event :: "eth_tools \<Rightarrow> pyval \<Rightarrow> string \<Rightarrow> string \<Rightarrow> string \<Rightarrow> int \<Rightarrow> pyval \<Rightarrow> unit res" where
  "check_update_event T event sender vrf_pub_key block_sign_pub_key rewards_share reward_address =
     rbind (check_forger_topics T ''UpdateForger(address,bytes32,bytes32,bytes1,uint32,address)'' ''Wrong number of topics in update forger event''
         event sender vrf_pub_key) (\<lambda>_.
     rbind (event_data T [''bytes32'', ''uint32'', ''address''] event) (\<lambda>vs.
       case vs of
         [pubKey25519, share, reward_contract_address] \<Rightarrow>
           rbind (as_bytes pubKey25519) (\<lambda>b.
           rbind (assert_equal (PStr block_sign_pub_key) (PStr (bytes_to_hex_str b)) ''Wrong from address in topics'') (\<lambda>_.
           rbind (assert_equal (PInt rewards_share) share ''Wrong rewards_share in event'') (\<lambda>_.
             assert_equal reward_address reward_address ''Wrong reward_address in event'')))
       | _ \<Rightarrow> unpack_error))"

section \<open>Owners of mainchain addresses\<close>

definition check_add_ownership_event :: "eth_tools \<Rightarrow> pyval \<Rightarrow> string \<Rightarrow> string \<Rightarrow> string \<Rightarrow> unit res" where
  "check_add_ownership_event T event sc_addr mc_addr op =
     rbind (if op = ''add'' then Inr ''AddMcAddrOwnership(address,bytes3,bytes32)''
            else if op = ''remove'' then Inr ''RemoveMcAddrOwnership(address,bytes3,bytes32)''
            else rbind (assert_false (''Invalid op = '' @ op \<noteq> []) []) (\<lambda>_. Inr [])) (\<lambda>sig.
     rbind (check_topics (bare_id T) T sig 2 ''Wrong number of topics in event'' event) (\<lambda>_.
     rbind (topic_address T event 1) (\<lambda>evt_sc_addr.
     rbind (assert_equal (PStr sc_addr) (PStr evt_sc_addr) ''Wrong sc_addr address in topics'') (\<lambda>_.
     rbind (event_data T [''bytes3'', ''bytes32''] event) (\<lambda>vs.
       case vs of
         [mca3, mca32] \<Rightarrow> rbind (as_bytes mca3) (\<lambda>b3. rbind (as_bytes mca32) (\<lambda>b32.
           rbind (decode_utf8 (b3 @ b32)) (\<lambda>evt_mc_addr. assert_equal (PStr mc_addr) (PStr evt_mc_addr) ''Wrong mc_addr string in topics'')))
       | _ \<Rightarrow> unpack_error)))))"

definition check_receipt :: "'w env \<Rightarrow> eth_tools \<Rightarrow> sc_node \<Rightarrow> string \<Rightarrow> int \<Rightarrow> string option \<Rightarrow> string option \<Rightarrow> string \<Rightarrow> ('w, unit) prog" where
  "check_receipt E T sc_node tx_hash expected_receipt_status sc_addr mc_addr evt_op =
     pbind (sc_call E sc_node ''rpc_eth_getTransactionReceipt'' [PStr (add_0x_prefix (et_lib T) tx_hash)]) (\<lambda>receipt.
     pbind (plift (rbind (py_in ''result'' receipt) (\<lambda>ok. if ok then rbind (py_get receipt ''result'') (\<lambda>r. Inr (r \<noteq> PNone)) else Inr False))) (\<lambda>found.
       if \<not> found then pbind (plift (json_dumps receipt)) (\<lambda>t. praise PlainException ''Rpc eth_getTransactionReceipt cmd failed:'' [PStr t])
       else pbind (plift (rbind (py_path receipt [''result'', ''status'']) py_int16)) (\<lambda>status.
         pseq (check_eq (PInt expected_receipt_status) (PInt status) []) (
           if expected_receipt_status = 1 then
             (case (sc_addr, mc_addr) of
                (Some sc, Some mc) \<Rightarrow>
                  pbind (plift (py_path receipt [''result'', ''logs''])) (\<lambda>logs. pbind (plift (py_len logs)) (\<lambda>n.
                  pseq (check_eq (PInt 1) (PInt n) ''Wrong number of events in receipt'')
                    (plift (rbind (py_nth logs 0) (\<lambda>event. check_add_ownership_event T event sc mc evt_op)))))
              | _ \<Rightarrow> pret ())
           else pbind (plift (rbind (py_path receipt [''result'', ''logs'']) py_len)) (\<lambda>n. check_eq (PInt 0) (PInt n) ''No events should be in receipt'')))))"

definition forge_and_check_receipt ::
  "'w env \<Rightarrow> eth_tools \<Rightarrow> sc_node \<Rightarrow> string \<Rightarrow> int \<Rightarrow> string option \<Rightarrow> string option \<Rightarrow> string \<Rightarrow> ('w, unit) prog" where
  "forge_and_check_receipt E T sc_node tx_hash expected_receipt_status sc_addr mc_addr evt_op =
     pseq (generate_next_block E sc_node ''first node'' False PNone) (
     pseq (sc_sync_all E False)
       (check_receipt E T sc_node tx_hash expected_receipt_status sc_addr mc_addr evt_op))"

section \<open>Keys of a wallet\<close>

definition wallet_key :: "pyval \<Rightarrow> pyval list res" where
  "wallet_key p = rbind (py_in ''publicKey'' p) (\<lambda>has_key.
     if has_key then rbind (py_get p ''publicKey'') (\<lambda>k. Inr [k])
     else rbind (py_in ''address'' p) (\<lambda>has_address. if has_address then rbind (py_get p ''address'') (\<lambda>a. Inr [a]) else Inr []))"

definition get_sc_wallet_pubkeys :: "'w env \<Rightarrow> sc_node \<Rightarrow> ('w, pyval list) prog" where
  "get_sc_wallet_pubkeys E sc_node =
     pbind (sc_field E sc_node ''wallet_allPublicKeys'' [] [''result'', ''propositions'']) (\<lambda>wallet_propositions.
       plift (rbind (py_items wallet_propositions) (\<lambda>ps. rbind (rmap wallet_key ps) (\<lambda>kss. Inr (concat kss)))))"

definition print_current_epoch_and_slot :: "'w env \<Rightarrow> sc_node \<Rightarrow> ('w, unit) prog" where
  "print_current_epoch_and_slot E sc_node =
     pbind (sc_field E sc_node ''block_forgingInfo'' [] [''result'']) (\<lambda>ret.
     pbind (plift (py_get ret ''bestBlockEpochNumber'')) (\<lambda>_. pbind (plift (py_get ret ''bestBlockSlotNumber'')) (\<lambda>_. pret ())))"

section \<open>The events that the checks accept\<close>

definition event_word :: "abi_value \<Rightarrow> pyval" where
  "event_word v = PStr (''0x'' @ hexlify (abi_word v))"

definition event_of :: "eth_tools \<Rightarrow> string \<Rightarrow> abi_value list \<Rightarrow> abi_value list \<Rightarrow> pyval" where
  "event_of T sig indexed others =
     PDict [(''topics'', PList (PStr (encode_hex T (event_topic T sig)) # map event_word indexed)),
       (''data'', PStr (''0x'' @ hexlify (abi_words others)))]"

lemma word_of_abi: "list_all abi_wf vs \<Longrightarrow> word_of (PStr (''0x'' @ hexlify (abi_words vs))) = Inr (abi_words vs)"
  by (simp add: word_of_def hex_word)

text \<open>The topics \<open>ts\<close> are \<open>count\<close> many and the first one is the hash of the signature.\<close>

definition names_event :: "eth_tools \<Rightarrow> string \<Rightarrow> nat \<Rightarrow> pyval list \<Rightarrow> bool" where
  "names_event T sig count ts \<longleftrightarrow> length ts = count \<and> (\<exists>t. ts ! 0 = PStr t \<and> remove_0x_prefix T t = hexlify (event_topic T sig))"

lemma check_topics_iff:
  assumes "static_abi T" and "py_get event ''topics'' = Inr (PList ts)" and "0 < count"
  shows "check_topics (bare_id T) T sig (int count) msg event = Inr () \<longleftrightarrow> names_event T sig count ts"
proof -
  have "remove_0x_prefix T (encode_hex T x) = hexlify x" for x using assms(1) by (simp add: static_abi_def)
  then show ?thesis using assms(2,3)
    by (auto simp: check_topics_def topic_def py_nth_def list_get_def bare_id_def names_event_def rbind_Inr_iff as_str_Inr)
qed

lemma check_topics_event:
  assumes "count = 1 + int (length indexed)"
  shows "check_topics Inr T sig count msg (event_of T sig indexed others) = Inr ()"
    "check_topics (bare_id T) T sig count msg (event_of T sig indexed others) = Inr ()"
  using assms by (simp_all add: check_topics_def event_of_def topic_def py_nth_def list_get_def bare_id_def assert_equal_def)

lemma topic_word:
  assumes "static_abi T" and "py_get event ''topics'' = Inr (PList (t # map event_word indexed))"
    and "i < length indexed" and "abi_wf (indexed ! i)" and "type = abi_type (indexed ! i)" and "j = 1 + int i"
  shows "topic_value T type event j = Inr (abi_py (indexed ! i))"
proof -
  have "topic event j = Inr (PStr (''0x'' @ hexlify (abi_word (indexed ! i))))"
    using assms(2,3,6) by (simp add: topic_def event_word_def py_nth_def list_get_def nat_add_distrib)
  moreover have "word_of (PStr (''0x'' @ hexlify (abi_word (indexed ! i)))) = Inr (abi_word (indexed ! i))"
    using word_of_abi [of "[indexed ! i]"] assms(4) by (simp add: abi_words_def)
  ultimately show ?thesis using static_decode_one [OF assms(1,4,5) refl] by (simp add: topic_value_def)
qed

lemma topic_event:
  assumes "static_abi T" and "i < length indexed" and "abi_wf (indexed ! i)" and "type = abi_type (indexed ! i)" and "j = 1 + int i"
  shows "topic_value T type (event_of T sig indexed others) j = Inr (abi_py (indexed ! i))"
  by (rule topic_word [OF assms(1) _ assms(2-5)]) (simp add: event_of_def)

lemma data_words:
  assumes "static_abi T" and "list_all abi_wf others" and "types = map abi_type others"
    and "py_get event ''data'' = Inr (PStr (''0x'' @ hexlify (abi_words others)))"
  shows "event_data T types event = Inr (map abi_py others)"
  using word_of_abi [OF assms(2)] static_decode [OF assms(1,2,3) refl] assms(4) by (simp add: event_data_def)

lemma data_event:
  assumes "static_abi T" and "list_all abi_wf others" and "types = map abi_type others"
  shows "event_data T types (event_of T sig indexed others) = Inr (map abi_py others)"
  by (rule data_words [OF assms]) (simp add: event_of_def)

lemma lower_hexlify: "list_all (\<lambda>b. b < 256) bs \<Longrightarrow> py_lower (hexlify bs) = hexlify bs"
  using unhexlify_hexlify hexlify_unhexlify by metis

lemma hexlify_inject: "list_all (\<lambda>b. b < 256) a \<Longrightarrow> list_all (\<lambda>b. b < 256) b \<Longrightarrow> hexlify a = hexlify b \<longleftrightarrow> a = b"
  using unhexlify_hexlify by (metis option.inject)

text \<open>The topics and the data of the events of the second version.\<close>

lemma forger_topics_iff:
  assumes "static_abi T" and "list_all abi_wf [AAddr from, AFixed 32 vrf32, AFixed 1 vrf1]"
    and topics: "py_get event ''topics'' = Inr (PList ts)" and "tl ts = map event_word [AAddr from, AFixed 32 vrf32, AFixed 1 vrf1]"
  shows "check_forger_topics T sig msg event sender vrf = Inr () \<longleftrightarrow>
    names_event T sig 4 ts \<and> py_lower sender = hexlify from \<and> vrf = hexlify (vrf32 @ vrf1)"
proof -
  let ?i = "[AAddr from, AFixed 32 vrf32, AFixed 1 vrf1]"
  obtain t where ts: "ts = t # map event_word ?i" using assms(4) by (cases ts) auto
  note word = topic_word [OF assms(1) topics [unfolded ts]]
  have "topic_value T ''address'' event 1 = Inr (PStr (''0x'' @ hexlify from))" "topic_value T ''bytes32'' event 2 = Inr (PBytes vrf32)"
    "topic_value T ''bytes1'' event 3 = Inr (PBytes vrf1)"
    using assms(2) word [of 0 "''address''"] word [of 1 "''bytes32''"] word [of 2 "''bytes1''"] by (simp_all add: type_names)
  moreover have "py_lower (hexlify from) = hexlify from" using assms(2) lower_hexlify by simp
  ultimately show ?thesis
    using check_topics_iff [OF assms(1) topics, of 4 sig msg]
    by (simp add: check_forger_topics_def topic_address_def topic_bytes_def rbind_Inr_iff bytes_to_hex_str_def hexlify_append)
qed

lemma forger_topics_event:
  assumes "static_abi T" and "list_all abi_wf [AAddr from, AFixed 32 vrf32, AFixed 1 vrf1]"
  shows "check_forger_topics T sig msg (event_of T sig [AAddr from, AFixed 32 vrf32, AFixed 1 vrf1] others) sender vrf = Inr () \<longleftrightarrow>
    py_lower sender = hexlify from \<and> vrf = hexlify (vrf32 @ vrf1)"
proof -
  let ?ts = "PStr (encode_hex T (event_topic T sig)) # map event_word [AAddr from, AFixed 32 vrf32, AFixed 1 vrf1]"
  have "names_event T sig 4 ?ts" using assms(1) by (simp add: names_event_def static_abi_def)
  then show ?thesis using forger_topics_iff [OF assms, of "event_of T sig [AAddr from, AFixed 32 vrf32, AFixed 1 vrf1] others" ?ts] by (simp add: event_of_def)
qed

lemma forger_topics_named:
  assumes "static_abi T" and "py_get event ''topics'' = Inr (PList ts)" and "check_forger_topics T sig msg event sender vrf = Inr ()"
  shows "names_event T sig 4 ts"
  using assms(3) check_topics_iff [OF assms(1,2), of 4 sig msg] by (simp add: check_forger_topics_def rbind_Inr_iff)

lemma stake_data_iff:
  assumes "static_abi T" and "list_all abi_wf [AFixed 32 sign, AUint 256 amount]"
    and "py_get event ''data'' = Inr (PStr (''0x'' @ hexlify (abi_words [AFixed 32 sign, AUint 256 amount])))"
  shows "check_stake_data T event key n = Inr () \<longleftrightarrow> key = hexlify sign \<and> n = int amount"
  using data_words [OF assms(1,2) _ assms(3), of "[''bytes32'', ''uint256'']"]
  by (auto simp: check_stake_data_def type_names rbind_Inr_iff bytes_to_hex_str_def)

lemma stake_event_named:
  assumes "static_abi T" and "py_get event ''topics'' = Inr (PList ts)"
    and "rbind (check_forger_topics T sig msg event sender vrf) (\<lambda>_. check_stake_data T event key n) = Inr ()"
  shows "names_event T sig 4 ts"
  using forger_topics_named [OF assms(1,2)] assms(3) unfolding rbind_Inr_iff by auto

lemma stake_event_iff:
  assumes "static_abi T" and "list_all abi_wf [AAddr from, AFixed 32 vrf32, AFixed 1 vrf1]" and "list_all abi_wf [AFixed 32 sign, AUint 256 amount]"
    and "py_get event ''topics'' = Inr (PList ts)" and "tl ts = map event_word [AAddr from, AFixed 32 vrf32, AFixed 1 vrf1]"
    and "py_get event ''data'' = Inr (PStr (''0x'' @ hexlify (abi_words [AFixed 32 sign, AUint 256 amount])))"
  shows "rbind (check_forger_topics T sig msg event sender vrf) (\<lambda>_. check_stake_data T event key n) = Inr () \<longleftrightarrow>
    names_event T sig 4 ts \<and> py_lower sender = hexlify from \<and> vrf = hexlify (vrf32 @ vrf1) \<and> key = hexlify sign \<and> n = int amount"
  using forger_topics_iff [OF assms(1,2,4,5), of sig msg sender vrf] stake_data_iff [OF assms(1,3,6), of key n] unfolding rbind_Inr_iff by auto

abbreviation v2_event :: "eth_tools \<Rightarrow> string \<Rightarrow> nat list \<Rightarrow> nat list \<Rightarrow> nat list \<Rightarrow> abi_value list \<Rightarrow> pyval" where
  "v2_event T sig from vrf32 vrf1 others \<equiv> event_of T sig [AAddr from, AFixed 32 vrf32, AFixed 1 vrf1] others"

text \<open>C40. The checks of delegations and withdrawals, on any event with a list of topics. What they accept has four topics, the
  first of which is the hash of the signature of that event, with or without the prefix, so that no event is accepted as
  a delegation and as a withdrawal when the two hashes differ. Where the other topics are the words of a sender and of a VRF key and the data those of
  a signing key and an amount, they accept it exactly when in addition these are the expected sender (whatever its case), keys and
  amount.\<close>
theorem stake_events_exact:
  assumes "static_abi T" and "list_all abi_wf [AAddr from, AFixed 32 vrf32, AFixed 1 vrf1]" and "list_all abi_wf [AFixed 32 sign, AUint 256 amount]"
    and "py_get event ''topics'' = Inr (PList ts)"
  shows "(check_delegate_event T event sender vrf key n = Inr () \<longrightarrow> names_event T ''DelegateForgerStake(address,bytes32,bytes32,bytes1,uint256)'' 4 ts) \<and>
    (check_withdraw_event T event sender vrf key n = Inr () \<longrightarrow> names_event T ''WithdrawForgerStake(address,bytes32,bytes32,bytes1,uint256)'' 4 ts) \<and>
    (hexlify (event_topic T ''DelegateForgerStake(address,bytes32,bytes32,bytes1,uint256)'')
        \<noteq> hexlify (event_topic T ''WithdrawForgerStake(address,bytes32,bytes32,bytes1,uint256)'') \<longrightarrow>
      \<not> (check_delegate_event T event sender vrf key n = Inr () \<and> check_withdraw_event T event sender' vrf' key' n' = Inr ())) \<and>
    (tl ts = map event_word [AAddr from, AFixed 32 vrf32, AFixed 1 vrf1] \<and>
      py_get event ''data'' = Inr (PStr (''0x'' @ hexlify (abi_words [AFixed 32 sign, AUint 256 amount]))) \<longrightarrow>
      (check_delegate_event T event sender vrf key n = Inr () \<longleftrightarrow>
        names_event T ''DelegateForgerStake(address,bytes32,bytes32,bytes1,uint256)'' 4 ts \<and>
        py_lower sender = hexlify from \<and> hexlify vrf = hexlify (vrf32 @ vrf1) \<and> key = hexlify sign \<and> n = int amount) \<and>
      (check_withdraw_event T event sender vrf key n = Inr () \<longleftrightarrow>
        names_event T ''WithdrawForgerStake(address,bytes32,bytes32,bytes1,uint256)'' 4 ts \<and>
        py_lower sender = hexlify from \<and> hexlify vrf = hexlify (vrf32 @ vrf1) \<and> key = hexlify sign \<and> n = int amount))"
proof -
  let ?del = "''DelegateForgerStake(address,bytes32,bytes32,bytes1,uint256)''" and ?wd = "''WithdrawForgerStake(address,bytes32,bytes32,bytes1,uint256)''"
  note defs = check_delegate_event_def check_withdraw_event_def
  have named: "check_delegate_event T event a b c d = Inr () \<Longrightarrow> names_event T ?del 4 ts"
    "check_withdraw_event T event a b c d = Inr () \<Longrightarrow> names_event T ?wd 4 ts" for a b c d
    unfolding defs using stake_event_named [OF assms(1,4)] by blast+
  note exact = stake_event_iff [OF assms]
  have "names_event T ?del 4 ts \<Longrightarrow> names_event T ?wd 4 ts \<Longrightarrow> hexlify (event_topic T ?del) = hexlify (event_topic T ?wd)"
    unfolding names_event_def by fastforce
  moreover note exact [of ?del "''Wrong number of topics in delegate_event''" sender "hexlify vrf" key n]
    exact [of ?wd "''Wrong number of topics in withdraw_event''" sender "hexlify vrf" key n]
  ultimately show ?thesis using named unfolding defs bytes_to_hex_str_def by blast
qed

text \<open>The checks of registrations and updates of a forger accept exactly the events with the expected sender,
  keys, amount and share. The address that receives the rewards is not checked: the event may carry any
  address, because the code compares the expected address with itself.\<close>
theorem reward_address_unchecked:
  assumes "static_abi T" and "list_all abi_wf [AAddr from, AFixed 32 vrf32, AFixed 1 vrf1]"
    and "list_all abi_wf [AFixed 32 sign, AUint 256 amount, AUint 32 share, AAddr reward]"
  shows "(check_register_event T (v2_event T ''RegisterForger(address,bytes32,bytes32,bytes1,uint256,uint32,address)'' from vrf32 vrf1
        [AFixed 32 sign, AUint 256 amount, AUint 32 share, AAddr reward]) sender vrf key n sh (PStr expected_reward) = Inr () \<longleftrightarrow>
      py_lower sender = hexlify from \<and> vrf = hexlify (vrf32 @ vrf1) \<and> key = hexlify sign \<and> n = int amount \<and> sh = int share) \<and>
    (check_update_event T (v2_event T ''UpdateForger(address,bytes32,bytes32,bytes1,uint32,address)'' from vrf32 vrf1
        [AFixed 32 sign, AUint 32 share, AAddr reward]) sender vrf key sh (PStr expected_reward) = Inr () \<longleftrightarrow>
      py_lower sender = hexlify from \<and> vrf = hexlify (vrf32 @ vrf1) \<and> key = hexlify sign \<and> sh = int share)"
proof -
  have data: "list_all abi_wf [AFixed 32 sign, AUint 32 share, AAddr reward]" using assms(3) by simp
  show ?thesis
    unfolding check_register_event_def check_update_event_def rbind_Inr_iff
    using forger_topics_event [OF assms(1,2)] data_event [OF assms(1,3), of "[''bytes32'', ''uint256'', ''uint32'', ''address'']"]
      data_event [OF assms(1) data, of "[''bytes32'', ''uint32'', ''address'']"]
    by (auto simp: bytes_to_hex_str_def type_names rbind_Inr_iff)
qed

text \<open>The checks of withdrawal requests, of rotations of certificate keys and of added and removed owners of
  mainchain addresses accept exactly the events with the expected values.\<close>
theorem request_events_exact:
  assumes "static_abi T" and "list_all abi_wf [AAddr from, AFixed 20 dest]" and "list_all abi_wf [AUint 256 wei, AUint 32 ep]"
    and "list_all abi_wf [AUint 32 ty, AUint 32 ix]" and "list_all abi_wf [AFixed 32 k1, AFixed 1 k2, AUint 32 ep]"
    and "abi_wf (AAddr a)" and "plain_address m"
  shows "(check_withdrawal_event T (event_of T ''AddWithdrawalRequest(address,bytes20,uint256,uint32)'' [AAddr from, AFixed 20 dest] [AUint 256 wei, AUint 32 ep])
        source_addr dest_addr zennies epoch = Inr () \<longleftrightarrow>
      source_addr = hexlify from \<and> (\<exists>d. b58decode_check T dest_addr = Inr d \<and> drop 4 (hexlify d) = hexlify dest) \<and>
      convertZenniesToWei zennies = int wei \<and> epoch = int ep) \<and>
    (check_key_rotation_event T (event_of T ''SubmitKeyRotation(uint32,uint32,bytes32,bytes1,uint32)'' [AUint 32 ty, AUint 32 ix] [AFixed 32 k1, AFixed 1 k2, AUint 32 ep])
        key_type key_index key_value epoch = Inr () \<longleftrightarrow>
      key_type = int ty \<and> key_index = int ix \<and> key_value = hexlify (k1 @ k2) \<and> epoch = int ep) \<and>
    (check_add_ownership_event T (event_of T (if added then ''AddMcAddrOwnership(address,bytes3,bytes32)'' else ''RemoveMcAddrOwnership(address,bytes3,bytes32)'')
        [AAddr a] [AFixed 3 (map of_char (take 3 m)), AFixed 32 (map of_char (drop 3 m))]) sc_addr mc_addr (if added then ''add'' else ''remove'') = Inr () \<longleftrightarrow>
      sc_addr = hexlify a \<and> mc_addr = m)"
proof (intro conjI)
  have enc: "encode_hex T bs = ''0x'' @ hexlify bs" for bs using assms(1) by (simp add: static_abi_def)
  let ?i = "[AAddr from, AFixed 20 dest]" and ?s = "''AddWithdrawalRequest(address,bytes20,uint256,uint32)''"
  note t = topic_event [OF assms(1), of 0 ?i "''address''" 1 ?s] topic_event [OF assms(1), of 1 ?i "''bytes20''" 2 ?s]
    check_topics_event(1) [of 3 ?i T ?s] data_event [OF assms(1,3), of "[''uint256'', ''uint32'']" ?s ?i]
  show "check_withdrawal_event T (event_of T ?s ?i [AUint 256 wei, AUint 32 ep]) source_addr dest_addr zennies epoch = Inr () \<longleftrightarrow>
      source_addr = hexlify from \<and> (\<exists>d. b58decode_check T dest_addr = Inr d \<and> drop 4 (hexlify d) = hexlify dest) \<and>
      convertZenniesToWei zennies = int wei \<and> epoch = int ep"
    unfolding check_withdrawal_event_def using t assms(2)
    by (auto simp: rbind_Inr_iff topic_address_def topic_bytes_def type_names enc)
  let ?i = "[AUint 32 ty, AUint 32 ix]" and ?s = "''SubmitKeyRotation(uint32,uint32,bytes32,bytes1,uint32)''"
  note t = topic_event [OF assms(1), of 0 ?i "''uint32''" 1 ?s] topic_event [OF assms(1), of 1 ?i "''uint32''" 2 ?s]
    check_topics_event(1) [of 3 ?i T ?s] data_event [OF assms(1,5), of "[''bytes32'', ''bytes1'', ''uint32'']" ?s ?i]
  show "check_key_rotation_event T (event_of T ?s ?i [AFixed 32 k1, AFixed 1 k2, AUint 32 ep]) key_type key_index key_value epoch = Inr () \<longleftrightarrow>
      key_type = int ty \<and> key_index = int ix \<and> key_value = hexlify (k1 @ k2) \<and> epoch = int ep"
    unfolding check_key_rotation_event_def using t assms(4) by (auto simp: rbind_Inr_iff type_names)
  let ?s = "if added then ''AddMcAddrOwnership(address,bytes3,bytes32)'' else ''RemoveMcAddrOwnership(address,bytes3,bytes32)''"
  let ?d = "[AFixed 3 (map of_char (take 3 m)), AFixed 32 (map of_char (drop 3 m))]"
  have wf: "list_all abi_wf ?d" using association_wf [OF assms(7,6)] by simp
  have plain: "decode_utf8 (map of_char (take 3 m) @ map of_char (drop 3 m)) = Inr m" by (rule decode_plain_address [OF assms(7)])
  note t = topic_event [OF assms(1), of 0 "[AAddr a]" "''address''" 1 ?s] check_topics_event(2) [of 2 "[AAddr a]" T ?s]
    data_event [OF assms(1) wf, of "[''bytes3'', ''bytes32'']" ?s "[AAddr a]"]
  show "check_add_ownership_event T (event_of T ?s [AAddr a] ?d) sc_addr mc_addr (if added then ''add'' else ''remove'') = Inr () \<longleftrightarrow>
      sc_addr = hexlify a \<and> mc_addr = m"
    unfolding check_add_ownership_event_def using t assms(6) plain
    by (cases added) (auto simp: rbind_Inr_iff topic_address_def type_names)
qed

text \<open>A delegation as a contract emits it is accepted as such and is refused as a withdrawal.\<close>

theorem stake_events_exact_witness:
  "check_delegate_event sample_tools (v2_event sample_tools ''DelegateForgerStake(address,bytes32,bytes32,bytes1,uint256)'' (ones 20) (ones 32) [7]
      [AFixed 32 (ones 32), AUint 256 5]) (hexlify (ones 20)) (ones 32 @ [7]) (hexlify (ones 32)) 5 = Inr () \<and>
    check_withdraw_event sample_tools (v2_event sample_tools ''DelegateForgerStake(address,bytes32,bytes32,bytes1,uint256)'' (ones 20) (ones 32) [7]
      [AFixed 32 (ones 32), AUint 256 5]) (hexlify (ones 20)) (ones 32 @ [7]) (hexlify (ones 32)) 5 \<noteq> Inr ()"
proof -
  let ?sig = "''DelegateForgerStake(address,bytes32,bytes32,bytes1,uint256)''"
  let ?ts = "PStr (encode_hex sample_tools (event_topic sample_tools ?sig)) # map event_word [AAddr (ones 20), AFixed 32 (ones 32), AFixed 1 [7]]"
  let ?e = "v2_event sample_tools ?sig (ones 20) (ones 32) [7] [AFixed 32 (ones 32), AUint 256 5]"
  have parts: "py_get ?e ''topics'' = Inr (PList ?ts)" "py_get ?e ''data'' = Inr (PStr (''0x'' @ hexlify (abi_words [AFixed 32 (ones 32), AUint 256 5])))"
    by (simp_all add: event_of_def)
  have lower: "py_lower (hexlify (ones 20)) = hexlify (ones 20)" by (rule lower_hexlify) (simp add: list_all_iff)
  have names: "names_event sample_tools ?sig 4 ?ts" using sample_tools_abi by (simp add: names_event_def static_abi_def)
  have differ: "hexlify (event_topic sample_tools ?sig) \<noteq> hexlify (event_topic sample_tools ''WithdrawForgerStake(address,bytes32,bytes32,bytes1,uint256)'')"
    unfolding sample_tools_def by code_simp
  have wf: "list_all abi_wf [AAddr (ones 20), AFixed 32 (ones 32), AFixed 1 [7]]" "list_all abi_wf [AFixed 32 (ones 32), AUint 256 5]"
    by (simp_all add: list_all_iff)
  note holds = stake_events_exact [OF sample_tools_abi wf parts(1), of "hexlify (ones 20)" "ones 32 @ [7]" "hexlify (ones 32)" 5
    "hexlify (ones 20)" "ones 32 @ [7]" "hexlify (ones 32)" 5]
  have "check_delegate_event sample_tools ?e (hexlify (ones 20)) (ones 32 @ [7]) (hexlify (ones 32)) 5 = Inr ()"
    using holds parts(2) lower names by simp
  with holds differ show ?thesis by blast
qed

theorem reward_address_unchecked_witness:
  "check_register_event sample_tools (v2_event sample_tools ''RegisterForger(address,bytes32,bytes32,bytes1,uint256,uint32,address)'' (ones 20) (ones 32) [7]
      [AFixed 32 (ones 32), AUint 256 5, AUint 32 9, AAddr (ones 20)]) (hexlify (ones 20)) (hexlify (ones 32 @ [7])) (hexlify (ones 32)) 5 9 (PStr ''0xother'') = Inr ()"
proof -
  have "py_lower (hexlify (ones 20)) = hexlify (ones 20)" by (rule lower_hexlify) (simp add: list_all_iff)
  then show ?thesis
    using reward_address_unchecked [OF sample_tools_abi, of "ones 20" "ones 32" "[7]" "ones 32" 5 9 "ones 20" "hexlify (ones 20)" "hexlify (ones 32 @ [7])"
      "hexlify (ones 32)" 5 9 "''0xother''"] by (simp add: list_all_iff)
qed

theorem request_events_exact_witness:
  "check_key_rotation_event sample_tools (event_of sample_tools ''SubmitKeyRotation(uint32,uint32,bytes32,bytes1,uint32)'' [AUint 32 1, AUint 32 0]
      [AFixed 32 (ones 32), AFixed 1 [7], AUint 32 4]) 1 0 (hexlify (ones 32 @ [7])) 4 = Inr ()"
  using request_events_exact [OF sample_tools_abi, of "ones 20" "ones 20" 5 4 1 0 "ones 32" "[7]" "ones 20" sample_mc_address]
  by (simp add: list_all_iff plain_address_def sample_mc_address_def)

end
