(* ===== verification/Key_Rotation.thy ===== *)
theory Key_Rotation
  imports Secure_Enclave Event_Logs Pending_Certs Account_Http
begin

text \<open>
  The tests of the rotation of certificate signing keys in the account model (\<^verbatim>\<open>qa/sc_evm_cert_key_rotation.py\<close>
  and \<^verbatim>\<open>sc_evm_cert_key_rotation_across_epoch.py\<close>), and the steps that they share with the tests of the UTXO
  model. The signatures of a rotation come from the enclave server of \<open>Secure_Enclave\<close>. How a request
  reaches that server (\<^verbatim>\<open>requests.post\<close> and the web framework) is the parameter \<open>enclave\<close>, which gives the text of
  the response for a server, an address and the text of a request.
\<close>

section \<open>Signatures\<close>

type_synonym 'w post = "string \<Rightarrow> string \<Rightarrow> ('w, string) prog"
type_synonym 'w enclave = "enclave_server \<Rightarrow> 'w post"

definition secure_enclave_create_signature :: "'w post \<Rightarrow> string \<Rightarrow> pyval \<Rightarrow> pyval \<Rightarrow> pyval \<Rightarrow> ('w, pyval) prog" where
  "secure_enclave_create_signature post remote_address message_to_sign public_key key =
     pbind (if \<not> py_eq public_key (PStr []) then pret (''publicKey'', public_key)
            else if \<not> py_eq key (PStr []) then pret (''privateKey'', key)
            else praise PlainException ''Either public key or private key should be provided to call createSignature'' []) (\<lambda>who.
     pbind (plift (json_dumps (PDict [(''message'', message_to_sign), (''type'', PStr ''schnorr''), who]))) (\<lambda>body.
     pbind (post (remote_address @ ''/api/v1/createSignature'') body) (\<lambda>text. plift (json_loads text))))"

text \<open>The two kinds of calls: one argument is given by name, the other has its default value.\<close>

datatype signer_of = By_public pyval | By_secret pyval

fun enclave_signature :: "'w post \<Rightarrow> string \<Rightarrow> pyval \<Rightarrow> signer_of \<Rightarrow> ('w, pyval) prog" where
  "enclave_signature post address message (By_public pk) =
     at_path (secure_enclave_create_signature post address message pk (PStr [])) [''signature'']"
| "enclave_signature post address message (By_secret sk) =
     at_path (secure_enclave_create_signature post address message (PStr []) sk) [''signature'']"

text \<open>The three signatures of a rotation: of the old master key, of the old signing key, of the new key.\<close>

record signatures =
  sg_master :: pyval
  sg_signing :: pyval
  sg_new :: pyval

definition signed_by :: "'w post \<Rightarrow> string \<Rightarrow> pyval \<Rightarrow> signer_of res \<Rightarrow> ('w, pyval) prog" where
  "signed_by post address message who = pbind (plift who) (enclave_signature post address message)"

definition rotation_signatures :: "'w post \<Rightarrow> string \<Rightarrow> pyval \<Rightarrow> signer_of res \<Rightarrow> signer_of res \<Rightarrow> signer_of res \<Rightarrow> ('w, signatures) prog" where
  "rotation_signatures post address message master signing new =
     pbind (signed_by post address message master) (\<lambda>master_signature.
     pbind (signed_by post address message signing) (\<lambda>signing_signature.
     pbind (signed_by post address message new) (\<lambda>new_key_signature.
       pret \<lparr>sg_master = master_signature, sg_signing = signing_signature, sg_new = new_key_signature\<rparr>)))"

abbreviation secret_of :: "key_pair \<Rightarrow> signer_of res" where
  "secret_of k \<equiv> Inr (By_secret (kp_secret k))"

text \<open>The message that authorises a new key: key type 0 is a signing key, 1 a master key.\<close>

definition message_to_sign :: "'w env \<Rightarrow> sc_node \<Rightarrow> int \<Rightarrow> pyval \<Rightarrow> pyval \<Rightarrow> ('w, pyval) prog" where
  "message_to_sign E sc_node key_type new_key epoch =
     at_path (if key_type = 0 then http_get_key_rotation_message_to_sign_for_signing_key E sc_node new_key epoch
              else http_get_key_rotation_message_to_sign_for_master_key E sc_node new_key epoch) [''keyRotationMessageToSign'']"

definition sign_rotation ::
  "'w env \<Rightarrow> 'w post \<Rightarrow> string \<Rightarrow> sc_node \<Rightarrow> int \<Rightarrow> pyval \<Rightarrow> signer_of res \<Rightarrow> signer_of res \<Rightarrow> key_pair \<Rightarrow> ('w, signatures) prog" where
  "sign_rotation E post address sc_node key_type epoch master signing new_key =
     pbind (message_to_sign E sc_node key_type (kp_publicKey new_key) epoch) (\<lambda>message.
       rotation_signatures post address message master signing (secret_of new_key))"

section \<open>Keys of a test\<close>

definition new_key :: "'w env \<Rightarrow> string \<Rightarrow> string \<Rightarrow> ('w, key_pair) prog" where
  "new_key E model seed = pbind (generate_cert_signer_secrets E seed 1 model) (\<lambda>ks. plift (list_get ks 0))"

text \<open>The lists of the bootstrap information are extended in place: the enclave gets the genesis master keys
  followed by every key of the test.\<close>

record rotation_keys =
  rk_signing_secrets :: "pyval list"
  rk_public_signing :: "pyval list"
  rk_master_secrets :: "pyval list"
  rk_public_master :: "pyval list"
  rk_signing_1 :: key_pair
  rk_signing_2 :: key_pair
  rk_master_3 :: key_pair
  rk_signing_4 :: key_pair
  rk_new_signing :: "key_pair list"
  rk_new_master :: "key_pair list"

definition append_key :: "key_pair \<Rightarrow> pyval list \<times> pyval list \<Rightarrow> pyval list \<times> pyval list" where
  "append_key k = (\<lambda>(secrets, publics). (secrets @ [kp_secret k], publics @ [kp_publicKey k]))"

definition more_keys ::
  "'w env \<Rightarrow> string \<Rightarrow> int \<Rightarrow> (key_pair list \<times> key_pair list) \<times> (pyval list \<times> pyval list)
     \<Rightarrow> ('w, (key_pair list \<times> key_pair list) \<times> (pyval list \<times> pyval list)) prog" where
  "more_keys E model i = (\<lambda>((new_signing_keys, new_master_keys), held).
     pbind (new_key E model (''random_seed5'' @ str_int i)) (\<lambda>new_s_key.
     pbind (new_key E model (''random_seed6'' @ str_int i)) (\<lambda>new_m_key.
       pret ((new_signing_keys @ [new_s_key], new_master_keys @ [new_m_key]), append_key new_m_key (append_key new_s_key held)))))"

definition keys_of_test :: "'w env \<Rightarrow> string \<Rightarrow> int \<Rightarrow> sc_bootstrap_info \<Rightarrow> ('w, rotation_keys) prog" where
  "keys_of_test E model cert_max_keys info =
     (let proof_info = bi_certificate_proof_info info
      in pbind (new_key E model ''random_seed'') (\<lambda>k1.
         pbind (new_key E model ''random_seed2'') (\<lambda>k2.
         pbind (new_key E model ''random_seed3'') (\<lambda>k3.
         pbind (new_key E model ''random_seed4'') (\<lambda>k4.
         pbind (pfold (more_keys E model) (py_range cert_max_keys)
             (([], []), fold append_key [k1, k2, k3, k4] (cp_schnorr_masters_secrets proof_info, cp_public_master_keys proof_info))) (\<lambda>((ss, ms), (secrets, publics)).
           pret \<lparr>rk_signing_secrets = cp_schnorr_signers_secrets proof_info, rk_public_signing = cp_public_signing_keys proof_info,
             rk_master_secrets = secrets, rk_public_master = publics, rk_signing_1 = k1, rk_signing_2 = k2, rk_master_3 = k3, rk_signing_4 = k4,
             rk_new_signing = ss, rk_new_master = ms\<rparr>))))))"

text \<open>The signers of the key with a given position that the genesis keys provide.\<close>

definition genesis_master :: "rotation_keys \<Rightarrow> int \<Rightarrow> signer_of res" where
  "genesis_master K i = rbind (list_get (rk_public_master K) i) (\<lambda>pk. Inr (By_public pk))"

definition genesis_signing :: "rotation_keys \<Rightarrow> int \<Rightarrow> signer_of res" where
  "genesis_signing K i = rbind (list_get (rk_signing_secrets K) i) (\<lambda>sk. Inr (By_secret sk))"

section \<open>What a node reports\<close>

definition no_rotation_proofs :: "'w env \<Rightarrow> sc_node \<Rightarrow> int \<Rightarrow> pyval \<Rightarrow> ('w, unit) prog" where
  "no_rotation_proofs E sc_node cert_max_keys epoch = piter (\<lambda>i.
     pbind (at_path (http_get_key_rotation_proof E sc_node epoch (PInt i) (PInt 0)) [''result'']) (\<lambda>signer_key_rotation_proof.
     pbind (at_path (http_get_key_rotation_proof E sc_node epoch (PInt i) (PInt 1)) [''result'']) (\<lambda>master_key_rotation_proof.
     pseq (check_eq signer_key_rotation_proof (PDict []) [])
       (check_eq master_key_rotation_proof (PDict []) [])))) (py_range cert_max_keys)"

definition proof_field :: "pyval \<Rightarrow> string list \<Rightarrow> pyval \<Rightarrow> ('w, unit) prog" where
  "proof_field prf ks expected = pbind (plift (py_path prf ks)) (\<lambda>v. check_eq v expected [])"

definition rotation_proof :: "'w env \<Rightarrow> sc_node \<Rightarrow> pyval \<Rightarrow> int \<Rightarrow> int \<Rightarrow> ('w, pyval) prog" where
  "rotation_proof E sc_node epoch i key_type =
     at_path (http_get_key_rotation_proof E sc_node epoch (PInt i) (PInt key_type)) [''result'', ''keyRotationProof'']"

definition check_rotation_proof :: "'w env \<Rightarrow> sc_node \<Rightarrow> pyval \<Rightarrow> signatures \<Rightarrow> pyval \<Rightarrow> ('w, unit) prog" where
  "check_rotation_proof E sc_node epoch sg new_pub =
     pbind (rotation_proof E sc_node epoch 0 0) (\<lambda>prf.
     pseq (proof_field prf [''index''] (PInt 0)) (
     pseq (proof_field prf [''keyType'', ''value''] (PStr ''SigningKeyRotationProofType'')) (
     pseq (proof_field prf [''masterKeySignature'', ''signature''] (sg_master sg)) (
     pseq (proof_field prf [''signingKeySignature'', ''signature''] (sg_signing sg))
       (proof_field prf [''newKey'', ''publicKey''] new_pub)))))"

definition check_new_proof :: "'w env \<Rightarrow> sc_node \<Rightarrow> pyval \<Rightarrow> int \<Rightarrow> int \<Rightarrow> string \<Rightarrow> key_pair list \<Rightarrow> ('w, unit) prog" where
  "check_new_proof E sc_node epoch i key_type type_name new_keys =
     pbind (rotation_proof E sc_node epoch i key_type) (\<lambda>prf.
     pseq (proof_field prf [''index''] (PInt i)) (
     pseq (proof_field prf [''keyType'', ''value''] (PStr type_name)) (
     pbind (plift (py_path prf [''newKey'', ''publicKey''])) (\<lambda>v.
     pbind (plift (list_get new_keys i)) (\<lambda>k. check_eq v (kp_publicKey k) [])))))"

definition check_all_proofs :: "'w env \<Rightarrow> sc_node \<Rightarrow> int \<Rightarrow> pyval \<Rightarrow> rotation_keys \<Rightarrow> ('w, unit) prog" where
  "check_all_proofs E sc_node cert_max_keys epoch K = piter (\<lambda>i.
     pseq (check_new_proof E sc_node epoch i 0 ''SigningKeyRotationProofType'' (rk_new_signing K))
       (check_new_proof E sc_node epoch i 1 ''MasterKeyRotationProofType'' (rk_new_master K))) (py_range cert_max_keys)"

definition check_key_counts :: "pyval \<Rightarrow> int \<Rightarrow> ('w, unit) prog" where
  "check_key_counts certifiers cert_max_keys =
     pbind (plift (rbind (py_get certifiers ''signingKeys'') py_len)) (\<lambda>n.
     pseq (check_eq (PInt n) (PInt cert_max_keys) []) (
     pbind (plift (rbind (py_get certifiers ''masterKeys'') py_len)) (\<lambda>m. check_eq (PInt m) (PInt cert_max_keys) [])))"

definition reported_key :: "pyval \<Rightarrow> string \<Rightarrow> int \<Rightarrow> pyval res" where
  "reported_key certifiers kind i = rbind (rbind (py_get certifiers kind) (\<lambda>ks. py_nth ks i)) (\<lambda>k. py_get k ''publicKey'')"

definition check_reported_key :: "pyval \<Rightarrow> string \<Rightarrow> pyval list \<Rightarrow> int \<Rightarrow> ('w, unit) prog" where
  "check_reported_key certifiers kind expected i =
     pbind (plift (reported_key certifiers kind i)) (\<lambda>v. pbind (plift (list_get expected i)) (\<lambda>e. check_eq v e []))"

text \<open>The loop over the reported signing keys that compares the keys at every position.\<close>

definition check_certifiers :: "pyval \<Rightarrow> pyval list \<Rightarrow> pyval list \<Rightarrow> ('w, unit) prog" where
  "check_certifiers certifiers signing master =
     pbind (plift (rbind (py_get certifiers ''signingKeys'') py_len)) (\<lambda>n.
       piter (\<lambda>i. pseq (check_reported_key certifiers ''signingKeys'' signing i)
         (check_reported_key certifiers ''masterKeys'' master i)) (py_range n))"

section \<open>Withdrawal epochs and certificates\<close>

definition close_epoch :: "'w env \<Rightarrow> mc_node \<Rightarrow> sc_node \<Rightarrow> int \<Rightarrow> ('w, unit) prog" where
  "close_epoch E mc_node sc_node epoch_mc_blocks_left =
     pbind (mc_generate E mc_node epoch_mc_blocks_left 0) (\<lambda>end_mcblock_hash.
     pbind (generate_next_block E sc_node ''first node'' False PNone) (\<lambda>sc_block_id.
       check_mcreferencedata_presence E end_mcblock_hash sc_block_id sc_node))"

definition open_epoch :: "'w env \<Rightarrow> mc_node \<Rightarrow> sc_node \<Rightarrow> ('w, unit) prog" where
  "open_epoch E mc_node sc_node =
     pseq (mc_call E mc_node ''generate'' [PInt 1]) (pseq (generate_next_blocks E sc_node ''first node'' 1) (pret ()))"

text \<open>Waiting for the certificate; every round ends with a request that keeps the connection alive.\<close>

definition certificate_round :: "'w env \<Rightarrow> mc_node \<Rightarrow> sc_node \<Rightarrow> ('w, bool) prog" where
  "certificate_round E mc_node sc_node =
     pbind (mempool_size E mc_node) (\<lambda>n.
     pbind (if py_eq n (PInt 0) then cert_generation_active E sc_node else pret False) (\<lambda>waiting.
       if waiting then pseq (py_sleep E 2) (pseq (sc_call E sc_node ''block_best'' []) (pret False)) else pret True))"

definition await_certificate :: "'w env \<Rightarrow> mc_node \<Rightarrow> sc_node \<Rightarrow> ('w, unit) prog" where
  "await_certificate E mc_node sc_node =
     pseq (py_sleep E 10) (
     pseq (py_loop (certificate_round E mc_node sc_node)) (
     pbind (mempool_size E mc_node) (\<lambda>n. check_eq (PInt 1) n ''Certificate was not added to Mc node mempool.'')))"

definition check_pooled_certificate :: "'w env \<Rightarrow> mc_node \<Rightarrow> pyval \<Rightarrow> int \<Rightarrow> ('w, unit) prog" where
  "check_pooled_certificate E mc_node keys_root_hash cert_max_keys =
     pbind (pbind (mc_call E mc_node ''getrawmempool'' []) (\<lambda>r. plift (py_nth r 0))) (\<lambda>cert_hash.
     pbind (mc_field E mc_node ''getrawtransaction'' [cert_hash, PInt 1] [''cert'']) (\<lambda>cert.
     pbind (plift (rbind (py_get cert ''vFieldElementCertificateField'') (\<lambda>fs. py_nth fs 0))) (\<lambda>f.
     pseq (check_eq keys_root_hash f ''Certificate Keys Root Hash incorrect'') (
     pbind (plift (py_get cert ''quality'')) (\<lambda>q. check_eq (PInt cert_max_keys) q ''Certificate quality is wrong.'')))))"

definition include_certificate :: "'w env \<Rightarrow> mc_node \<Rightarrow> sc_node \<Rightarrow> ('w, pyval) prog" where
  "include_certificate E mc_node sc_node =
     pbind (mc_generate E mc_node 1 0) (\<lambda>mcblock_hash.
     pbind (generate_one E sc_node ''first node'') (\<lambda>scblock_id.
     pseq (check_mcreference_presence E mcblock_hash scblock_id sc_node) (pret mcblock_hash)))"

section \<open>Rotations in the account model\<close>

definition rotate_evm :: "'w env \<Rightarrow> sc_node \<Rightarrow> int \<Rightarrow> int \<Rightarrow> pyval \<Rightarrow> signatures \<Rightarrow> pyval \<Rightarrow> pyval \<Rightarrow> ('w, pyval) prog" where
  "rotate_evm E sc_node key_type key_index new_pub sg nonce gas_limit =
     http_create_key_rotation_transaction_evm E sc_node (PInt key_type) (PInt key_index) new_pub (sg_signing sg) (sg_master sg) (sg_new sg)
       nonce gas_limit (PInt 900000000) (PInt 900000000) None"

definition check_no_error :: "pyval \<Rightarrow> ('w, unit) prog" where
  "check_no_error response = pbind (plift (py_in ''error'' response)) (\<lambda>b. plift (assert_false b []))"

definition receipt_of :: "'w env \<Rightarrow> sc_node \<Rightarrow> pyval \<Rightarrow> ('w, pyval) prog" where
  "receipt_of E sc_node response =
     pbind (plift (rbind (py_path response [''result'', ''transactionId'']) as_str)) (\<lambda>id.
       sc_call E sc_node ''rpc_eth_getTransactionReceipt'' [PStr (''0x'' @ id)])"

definition hex_field :: "pyval \<Rightarrow> string list \<Rightarrow> int res" where
  "hex_field v ks = rbind (py_path v ks) py_int16"

definition check_status :: "pyval \<Rightarrow> int \<Rightarrow> ('w, unit) prog" where
  "check_status receipt expected =
     pbind (plift (hex_field receipt [''result'', ''status''])) (\<lambda>status. check_eq (PInt expected) (PInt status) ''Wrong tx status in receipt'')"

definition mined_receipt :: "'w env \<Rightarrow> sc_node \<Rightarrow> int \<Rightarrow> pyval \<Rightarrow> ('w, pyval) prog" where
  "mined_receipt E sc_node expected response =
     pseq (generate_next_blocks E sc_node ''first node'' 1) (
     pbind (receipt_of E sc_node response) (\<lambda>receipt.
     pseq (check_status receipt expected) (pret receipt)))"

text \<open>A transaction that enters a block and fails there, and one that the node refuses at once.\<close>

definition rotation_reverted :: "'w env \<Rightarrow> sc_node \<Rightarrow> int \<Rightarrow> pyval \<Rightarrow> signatures \<Rightarrow> ('w, unit) prog" where
  "rotation_reverted E sc_node key_index new_pub sg =
     pbind (rotate_evm E sc_node 0 key_index new_pub sg PNone PNone) (\<lambda>response.
     pseq (mined_receipt E sc_node 0 response) (pret ()))"

definition error_says :: "pyval \<Rightarrow> string \<Rightarrow> string \<Rightarrow> ('w, unit) prog" where
  "error_says response field reason =
     pbind (plift (rbind (py_path response [''error'', field]) (py_in reason))) (\<lambda>found. check_that found [])"

definition rotation_refused :: "'w env \<Rightarrow> sc_node \<Rightarrow> int \<Rightarrow> int \<Rightarrow> pyval \<Rightarrow> signatures \<Rightarrow> string \<Rightarrow> ('w, unit) prog" where
  "rotation_refused E sc_node key_type key_index new_pub sg reason =
     pbind (rotate_evm E sc_node key_type key_index new_pub sg PNone PNone) (\<lambda>response. error_says response ''description'' reason)"

definition evm_negative_cases :: "'w env \<Rightarrow> sc_node \<Rightarrow> pyval \<Rightarrow> signatures \<Rightarrow> ('w, unit) prog" where
  "evm_negative_cases E sc_node pk sg =
     pseq (rotation_reverted E sc_node 0 pk (sg\<lparr>sg_signing := sg_master sg\<rparr>)) (
     pseq (rotation_reverted E sc_node 0 pk (sg\<lparr>sg_master := sg_signing sg\<rparr>)) (
     pseq (rotation_reverted E sc_node 2 pk sg) (
     pseq (rotation_refused E sc_node 0 100 pk sg ''key index out of range'') (
     pseq (rotation_refused E sc_node 3 0 pk sg ''key type enumeration value invalid'')
       (rotation_refused E sc_node 0 0 pk (sg\<lparr>sg_new := sg_master sg\<rparr>) ''self signature is invalid'')))))"

definition check_rotation_log :: "eth_tools \<Rightarrow> pyval \<Rightarrow> int \<Rightarrow> int \<Rightarrow> pyval \<Rightarrow> int \<Rightarrow> ('w, unit) prog" where
  "check_rotation_log T receipt key_type key_index new_pub epoch =
     pbind (plift (rbind (py_path receipt [''result'', ''logs'']) (\<lambda>l. py_nth l 0))) (\<lambda>event.
     pbind (plift (as_str new_pub)) (\<lambda>key.
       plift (check_key_rotation_event T event key_type key_index key epoch)))"

text \<open>A change of the master key with a limit on the gas: too low, then enough.\<close>

definition gas_limited :: "'w env \<Rightarrow> sc_node \<Rightarrow> pyval \<Rightarrow> signatures \<Rightarrow> int \<Rightarrow> int \<Rightarrow> (int \<Rightarrow> bool) \<Rightarrow> string \<Rightarrow> ('w, pyval) prog" where
  "gas_limited E sc_node pk sg gas_limit expected ok msg =
     pbind (rotate_evm E sc_node 1 0 pk sg PNone (PInt gas_limit)) (\<lambda>response.
     pseq (check_no_error response) (
     pbind (mined_receipt E sc_node expected response) (\<lambda>receipt.
     pbind (plift (hex_field receipt [''result'', ''gasUsed''])) (\<lambda>used.
     pseq (check_that (ok used) msg) (pret receipt)))))"

section \<open>The epochs of the account test\<close>

definition EVM_APP_SLOT_TIME :: int where "EVM_APP_SLOT_TIME = 12"

text \<open>The arguments for the base class.\<close>

definition remote_keys_address :: "int \<Rightarrow> string" where
  "remote_keys_address port = ''http://127.0.0.1:'' @ str_int port"

definition kr_setup :: "account_setup \<Rightarrow> account_setup" where
  "kr_setup args = args\<lparr>as_block_timestamp_rewind := PInt (1500 * EVM_APP_SLOT_TIME * INTEROPERABILITY_FORK_EPOCH), as_withdrawalEpochLength := 10,
     as_circuittype_override := Some KEY_ROTATION_CIRCUIT, as_remote_keys_manager_enabled := True,
     as_remote_keys_server_addresses := [remote_keys_address 5000], as_cert_max_keys := 7, as_cert_sig_threshold := 5,
     as_submitters_private_keys_indexes := [py_range 7]\<rparr>"

definition start_enclave :: "'w enclave \<Rightarrow> pyval list \<Rightarrow> pyval list \<Rightarrow> int \<Rightarrow> 'w post" where
  "start_enclave enclave secrets publics port = enclave (SecureEnclaveApiServer (Some secrets) (Some publics) ''127.0.0.1'' port)"

definition sync_forge_sync :: "'w env \<Rightarrow> sc_node \<Rightarrow> ('w, unit) prog" where
  "sync_forge_sync E sc_node = pseq (sc_sync_all E False) (pseq (generate_next_blocks E sc_node ''first node'' 1) (sc_sync_all E False))"

text \<open>An epoch has ten mainchain blocks; eight are left after the first two. The signing key 0 is changed and changed again, the latter first with the signatures of the first change.\<close>

definition kr_first_change :: "'w env \<Rightarrow> eth_tools \<Rightarrow> 'w post \<Rightarrow> sc_node \<Rightarrow> rotation_keys \<Rightarrow> pyval \<Rightarrow> ('w, signatures) prog" where
  "kr_first_change E T post sc_node K epoch =
     (let pk = kp_publicKey (rk_signing_1 K)
      in pbind (sign_rotation E post (remote_keys_address 5000) sc_node 0 epoch (genesis_master K 0) (genesis_signing K 0) (rk_signing_1 K)) (\<lambda>sg.
         pseq (evm_negative_cases E sc_node pk sg) (
         pbind (rotate_evm E sc_node 0 0 pk sg PNone PNone) (\<lambda>response.
         pseq (check_no_error response) (
         pbind (mined_receipt E sc_node 1 response) (\<lambda>receipt.
         pseq (check_rotation_log T receipt 0 0 pk 0) (
         pseq (sc_sync_all E False) (
         pseq (check_rotation_proof E sc_node (PInt 0) sg pk) (pret sg)))))))))"

definition kr_second_change :: "'w env \<Rightarrow> 'w post \<Rightarrow> sc_node \<Rightarrow> rotation_keys \<Rightarrow> pyval \<Rightarrow> signatures \<Rightarrow> ('w, unit) prog" where
  "kr_second_change E post sc_node K epoch sg =
     (let pk = kp_publicKey (rk_signing_2 K)
      in pbind (sign_rotation E post (remote_keys_address 5000) sc_node 0 epoch (genesis_master K 0) (genesis_signing K 0) (rk_signing_2 K)) (\<lambda>sg2.
         pseq (rotation_reverted E sc_node 0 pk (sg\<lparr>sg_new := sg_new sg2\<rparr>)) (
         pbind (rotate_evm E sc_node 0 0 pk sg2 PNone PNone) (\<lambda>response.
         pseq (check_no_error response) (
         pseq (sync_forge_sync E sc_node)
           (check_rotation_proof E sc_node (PInt 0) sg2 pk))))))"

definition kr_master_change :: "'w env \<Rightarrow> eth_tools \<Rightarrow> 'w post \<Rightarrow> sc_node \<Rightarrow> rotation_keys \<Rightarrow> pyval \<Rightarrow> ('w, unit) prog" where
  "kr_master_change E T post sc_node K epoch =
     (let pk = kp_publicKey (rk_master_3 K)
      in pbind (sign_rotation E post (remote_keys_address 5000) sc_node 1 epoch (genesis_master K 0) (genesis_signing K 0) (rk_master_3 K)) (\<lambda>sg3.
         pseq (gas_limited E sc_node pk sg3 100000 0 (\<lambda>used. used = 100000) ''Gas limit not used'') (
         pseq (sc_sync_all E False) (
         pbind (gas_limited E sc_node pk sg3 299999 1 (\<lambda>used. used \<le> 299999) ''Gas limit exceeded'') (\<lambda>receipt.
         pseq (check_rotation_log T receipt 1 0 pk 0)
           (sc_sync_all E False))))))"

definition certifiers_of :: "'w env \<Rightarrow> sc_node \<Rightarrow> pyval \<Rightarrow> ('w, pyval \<times> pyval) prog" where
  "certifiers_of E sc_node epoch =
     pbind (http_get_certifiers_keys E sc_node epoch) (\<lambda>r.
     pbind (plift (py_get r ''keysRootHash'')) (\<lambda>keys_hash.
     pbind (plift (py_get r ''certifiersKeys'')) (\<lambda>certifiers. pret (keys_hash, certifiers))))"

definition kr_epoch_0 :: "'w env \<Rightarrow> eth_tools \<Rightarrow> 'w post \<Rightarrow> mc_node \<Rightarrow> sc_node \<Rightarrow> rotation_keys \<Rightarrow> ('w, pyval) prog" where
  "kr_epoch_0 E T post mc_node sc_node K =
     pbind (all_withdrawal_requests E sc_node (PInt 0)) (\<lambda>list_of_wr.
     pbind (plift (py_len list_of_wr)) (\<lambda>n.
     pseq (check_eq (PInt 0) (PInt n) []) (
     pseq (sync_forge_sync E sc_node) (
     pseq (generate_next_blocks E sc_node ''first node'' 1) (
     pseq (sc_sync_all E False) (
     pbind (certifiers_of E sc_node (PInt (-1))) (\<lambda>(_, certifiers).
     pseq (check_key_counts certifiers 7) (
     pseq (no_rotation_proofs E sc_node 7 (PInt 0)) (
     pbind (get_withdrawal_epoch E sc_node) (\<lambda>epoch.
     pbind (kr_first_change E T post sc_node K epoch) (\<lambda>sg.
     pseq (kr_second_change E post sc_node K epoch sg) (
     pseq (kr_master_change E T post sc_node K epoch) (
     pseq (close_epoch E mc_node sc_node 8) (
     pbind (certifiers_of E sc_node (PInt 0)) (\<lambda>(keys_hash, certifiers).
     pseq (check_reported_key certifiers ''signingKeys'' [kp_publicKey (rk_signing_2 K)] 0) (
     pseq (check_reported_key certifiers ''masterKeys'' [kp_publicKey (rk_master_3 K)] 0)
       (pret keys_hash)))))))))))))))))"

text \<open>The start of every later epoch: the certificate of the previous one, with the hash of its keys.\<close>

definition kr_certificate :: "'w env \<Rightarrow> mc_node \<Rightarrow> sc_node \<Rightarrow> pyval \<Rightarrow> ('w, unit) prog" where
  "kr_certificate E mc_node sc_node keys_hash =
     pseq (open_epoch E mc_node sc_node) (
     pseq (await_certificate E mc_node sc_node)
       (check_pooled_certificate E mc_node keys_hash 7))"

definition kr_epoch_1 :: "'w env \<Rightarrow> 'w post \<Rightarrow> mc_node \<Rightarrow> sc_node \<Rightarrow> rotation_keys \<Rightarrow> pyval \<Rightarrow> ('w, pyval) prog" where
  "kr_epoch_1 E post mc_node sc_node K keys_hash =
     pseq (kr_certificate E mc_node sc_node keys_hash) (
     pseq (include_certificate E mc_node sc_node) (
     pseq (no_rotation_proofs E sc_node 7 (PInt 1)) (
     pbind (get_withdrawal_epoch E sc_node) (\<lambda>epoch.
     pbind (sign_rotation E post (remote_keys_address 5000) sc_node 0 epoch (secret_of (rk_master_3 K)) (secret_of (rk_signing_2 K)) (rk_signing_4 K)) (\<lambda>sg.
     pbind (rotate_evm E sc_node 0 0 (kp_publicKey (rk_signing_4 K)) sg PNone PNone) (\<lambda>response.
     pseq (check_no_error response) (
     pseq (sync_forge_sync E sc_node) (
     pseq (close_epoch E mc_node sc_node 8) (
     pbind (certifiers_of E sc_node (PInt 1)) (\<lambda>(keys_hash, certifiers).
     pseq (check_reported_key certifiers ''signingKeys'' [kp_publicKey (rk_signing_4 K)] 0)
       (pret keys_hash)))))))))))"

text \<open>The change of all keys. For the keys at position 0 the current ones are those of the previous epochs. The
  transactions are sent by \<open>send\<close>, which is not the same in the two models.\<close>

definition current_master :: "rotation_keys \<Rightarrow> int \<Rightarrow> signer_of res" where
  "current_master K i = (if i = 0 then secret_of (rk_master_3 K) else rbind (list_get (rk_master_secrets K) i) (\<lambda>sk. Inr (By_secret sk)))"

definition current_signing :: "rotation_keys \<Rightarrow> int \<Rightarrow> signer_of res" where
  "current_signing K i = (if i = 0 then secret_of (rk_signing_4 K) else rbind (list_get (rk_signing_secrets K) i) (\<lambda>sk. Inr (By_secret sk)))"

definition rotate_both ::
  "'w env \<Rightarrow> 'w post \<Rightarrow> string \<Rightarrow> (int \<Rightarrow> int \<Rightarrow> pyval \<Rightarrow> signatures \<Rightarrow> ('w, unit) prog) \<Rightarrow> sc_node \<Rightarrow> rotation_keys \<Rightarrow> pyval \<Rightarrow> int \<Rightarrow> ('w, unit) prog" where
  "rotate_both E post address send sc_node K epoch i =
     pbind (plift (list_get (rk_new_signing K) i)) (\<lambda>new_s.
     pbind (message_to_sign E sc_node 0 (kp_publicKey new_s) epoch) (\<lambda>s_message.
     pbind (plift (list_get (rk_new_master K) i)) (\<lambda>new_m.
     pbind (message_to_sign E sc_node 1 (kp_publicKey new_m) epoch) (\<lambda>m_message.
     pbind (signed_by post address s_message (current_master K i)) (\<lambda>sm.
     pbind (signed_by post address s_message (current_signing K i)) (\<lambda>ss.
     pbind (signed_by post address m_message (current_master K i)) (\<lambda>mm.
     pbind (signed_by post address m_message (current_signing K i)) (\<lambda>ms.
     pbind (signed_by post address s_message (secret_of new_s)) (\<lambda>sn.
     pbind (signed_by post address m_message (secret_of new_m)) (\<lambda>mn.
     pseq (send 0 i (kp_publicKey new_s) \<lparr>sg_master = sm, sg_signing = ss, sg_new = sn\<rparr>)
       (send 1 i (kp_publicKey new_m) \<lparr>sg_master = mm, sg_signing = ms, sg_new = mn\<rparr>)))))))))))"

definition send_evm :: "'w env \<Rightarrow> sc_node \<Rightarrow> int \<Rightarrow> int \<Rightarrow> pyval \<Rightarrow> signatures \<Rightarrow> ('w, unit) prog" where
  "send_evm E sc_node key_type i new_pub sg =
     pbind (rotate_evm E sc_node key_type i new_pub sg PNone PNone) (\<lambda>response.
     pseq (check_no_error response) (
     pseq (generate_next_blocks E sc_node ''first node'' 1) (pret ())))"

definition new_publics :: "key_pair list \<Rightarrow> pyval list" where
  "new_publics = map kp_publicKey"

text \<open>The keys after the change are asked for twice, once for their hash.\<close>

definition kr_epoch_2 :: "'w env \<Rightarrow> 'w post \<Rightarrow> mc_node \<Rightarrow> sc_node \<Rightarrow> rotation_keys \<Rightarrow> pyval \<Rightarrow> ('w, pyval) prog" where
  "kr_epoch_2 E post mc_node sc_node K keys_hash =
     pseq (kr_certificate E mc_node sc_node keys_hash) (
     pseq (include_certificate E mc_node sc_node) (
     pseq (no_rotation_proofs E sc_node 7 (PInt 2)) (
     pbind (get_withdrawal_epoch E sc_node) (\<lambda>epoch.
     pseq (piter (rotate_both E post (remote_keys_address 5000) (send_evm E sc_node) sc_node K epoch) (py_range 7)) (
     pseq (generate_next_blocks E sc_node ''first node'' 1) (
     pseq (check_all_proofs E sc_node 7 (PInt 2) K) (
     pseq (close_epoch E mc_node sc_node 8) (
     pbind (at_path (http_get_certifiers_keys E sc_node (PInt 3)) [''certifiersKeys'']) (\<lambda>certifiers.
     pseq (check_certifiers certifiers (new_publics (rk_new_signing K)) (new_publics (rk_new_master K)))
       (at_path (http_get_certifiers_keys E sc_node (PInt 3)) [''keysRootHash'']))))))))))"

definition kr_epoch_3 :: "'w env \<Rightarrow> mc_node \<Rightarrow> sc_node \<Rightarrow> pyval \<Rightarrow> ('w, unit) prog" where
  "kr_epoch_3 E mc_node sc_node keys_hash =
     pseq (kr_certificate E mc_node sc_node keys_hash) (
     pseq (include_certificate E mc_node sc_node) (
     pseq (mc_call E mc_node ''generate'' [PInt 8]) (
     pseq (generate_next_block E sc_node ''first node'' False PNone) (pret ()))))"

section \<open>A rotation from another contract\<close>

definition submitKeyRotation_sig :: string where
  "submitKeyRotation_sig = ''submitKeyRotation(uint32,uint32,bytes32,bytes1,bytes32,bytes32,bytes32,bytes32,bytes32,bytes32)''"

text \<open>The first 32 bytes and the rest.\<close>

definition halves :: "pyval \<Rightarrow> pyval list res" where
  "halves v = rbind (rbind (as_str v) hex_str_to_bytes) (\<lambda>b. Inr [PBytes (take 32 b), PBytes (drop 32 b)])"

definition rotation_input :: "eth_lib \<Rightarrow> smart_contract \<Rightarrow> pyval \<Rightarrow> signatures \<Rightarrow> string res" where
  "rotation_input L native_contract new_pub sg =
     rbind (halves new_pub) (\<lambda>k.
     rbind (halves (sg_signing sg)) (\<lambda>s.
     rbind (halves (sg_master sg)) (\<lambda>m.
     rbind (halves (sg_new sg)) (\<lambda>n.
     rbind (rbind (raw_encode_call L native_contract submitKeyRotation_sig ([PInt 0, PInt 0] @ k @ s @ m @ n)) as_str) (\<lambda>call.
       Inr (format_eoa call))))))"

definition lower_field :: "pyval \<Rightarrow> string \<Rightarrow> string res" where
  "lower_field v k = rbind (rbind (py_get v k) as_str) (\<lambda>t. Inr (py_lower t))"

definition check_positive :: "pyval \<Rightarrow> string \<Rightarrow> ('w, unit) prog" where
  "check_positive v k = pbind (plift (hex_field v [k])) (\<lambda>n. check_that (n > 0) [])"

text \<open>The trace of a call through the proxy: one call of the native contract with the given input, and none from it.\<close>

definition check_call_trace :: "simple_proxy \<Rightarrow> string \<Rightarrow> string \<Rightarrow> pyval \<Rightarrow> ('w, pyval) prog" where
  "check_call_trace proxy native_contract_address native_input trace_response =
     pseq (check_no_error trace_response) (
     pbind (plift (py_in ''result'' trace_response)) (\<lambda>b.
     pseq (check_that b []) (
     pbind (plift (py_get trace_response ''result'')) (\<lambda>trace_result.
     pbind (plift (lower_field trace_result ''to'')) (\<lambda>to.
     pseq (check_eq (PStr (py_lower (px_contract_address proxy))) (PStr to) []) (
     pbind (plift (py_get trace_result ''calls'')) (\<lambda>calls.
     pbind (plift (py_len calls)) (\<lambda>n.
     pseq (check_eq (PInt 1) (PInt n) []) (
     pbind (plift (py_nth calls 0)) (\<lambda>native_call.
     pbind (plift (py_get native_call ''type'')) (\<lambda>ty.
     pseq (check_eq (PStr ''CALL'') ty []) (
     pbind (plift (lower_field native_call ''from'')) (\<lambda>from.
     pseq (check_eq (PStr (py_lower (px_contract_address proxy))) (PStr from) []) (
     pbind (plift (py_get native_call ''to'')) (\<lambda>to.
     pseq (check_eq (PStr (''0x'' @ native_contract_address)) to []) (
     pseq (check_positive native_call ''gas'') (
     pseq (check_positive native_call ''gasUsed'') (
     pbind (plift (py_get native_call ''input'')) (\<lambda>inp.
     pseq (check_eq (PStr (''0x'' @ native_input)) inp []) (
     pbind (plift (py_in ''calls'' native_call)) (\<lambda>nested.
     pseq (plift (assert_false nested []))
       (pret trace_result))))))))))))))))))))))"

text \<open>Without all forks the call is refused until the fork of the interoperability.\<close>

definition before_interop_fork :: "'w env \<Rightarrow> eth_lib \<Rightarrow> sc_node \<Rightarrow> simple_proxy \<Rightarrow> string \<Rightarrow> string \<Rightarrow> ('w, unit) prog" where
  "before_interop_fork E L sc_node proxy address native_input =
     pseq (expect_failure RuntimeError
        (do_call E L proxy address (PInt 1) (PStr CERTIFICATE_KEY_ROTATION_SMART_CONTRACT_ADDRESS) (PInt 0) (PStr native_input))
        (\<lambda>err. check_that (is_substr ''reverted'' (err_msg err)) []) ''Interoperability call should fail before fork point'')
       (reach_epoch E sc_node INTEROPERABILITY_FORK_EPOCH)"

definition gas_of :: "pyval \<Rightarrow> ('w, int) prog" where
  "gas_of v = plift (hex_field v [''gasUsed''])"

definition interop_call :: "'w env \<Rightarrow> eth_tools \<Rightarrow> sc_node \<Rightarrow> simple_proxy \<Rightarrow> string \<Rightarrow> string \<Rightarrow> pyval \<Rightarrow> pyval \<Rightarrow> ('w, unit) prog" where
  "interop_call E T sc_node proxy address native_input new_pub epoch =
     (let L = et_lib T; native = CERTIFICATE_KEY_ROTATION_SMART_CONTRACT_ADDRESS
      in pbind (px_estimate_gas E L proxy address (PInt 1) (PStr native) (PInt 0) (PStr native_input) 20000000) (\<lambda>exp_gas.
         pbind (do_call_trace E L proxy address (PInt 1) (PStr native) (PInt 0) (PStr native_input)) (\<lambda>trace_response.
         pbind (check_call_trace proxy native native_input trace_response) (\<lambda>trace_result.
         pbind (call_transaction E L proxy address (Some 1) (PStr native) (PInt 0) (PStr native_input) 20000000) (\<lambda>tx_hash.
         pseq (generate_next_blocks E sc_node ''first node'' 1) (
         pseq (sc_sync_all E False) (
         pbind (sc_call E sc_node ''rpc_eth_getTransactionReceipt'' [tx_hash]) (\<lambda>receipt.
         pseq (check_status receipt 1) (
         pbind (plift (as_int epoch)) (\<lambda>e.
         pseq (check_rotation_log T receipt 0 0 new_pub e) (
         pbind (plift (hex_field receipt [''result'', ''gasUsed''])) (\<lambda>gas_used.
         pbind (plift (hex_field exp_gas [''result''])) (\<lambda>estimated_gas.
         pseq (check_that (estimated_gas \<ge> gas_used) ''Wrong estimated gas'') (
         pbind (gas_of trace_result) (\<lambda>gas_used_tracer.
         pseq (check_eq (PInt gas_used) (PInt gas_used_tracer) ''Wrong gas'') (
         pbind (sc_call E sc_node ''rpc_debug_traceTransaction'' [tx_hash, PDict [(''tracer'', PStr ''callTracer'')]]) (\<lambda>trace_response.
         pbind (check_call_trace proxy native native_input trace_response) (\<lambda>trace_result.
         pbind (gas_of trace_result) (\<lambda>gas_used_tracer.
           check_eq (PInt gas_used) (PInt gas_used_tracer) ''Wrong gas'')))))))))))))))))))"

definition kr_interop ::
  "'w env \<Rightarrow> eth_tools \<Rightarrow> (string \<Rightarrow> (string \<times> string list) list) \<Rightarrow> account_options \<Rightarrow> account_setup \<Rightarrow> 'w post \<Rightarrow> mc_node \<Rightarrow> sc_node \<Rightarrow> rotation_keys
     \<Rightarrow> ('w, unit) prog" where
  "kr_interop E T walk options self post mc_node sc_node K =
     pseq (py_sleep E 1) (
     pbind (new_address E sc_node) (\<lambda>evm_address_interop.
     pseq (forward_to E self mc_node evm_address_interop (PInt 50) True) (
     pseq (generate_next_block E sc_node ''first node'' False PNone) (
     pbind (plift (as_str evm_address_interop)) (\<lambda>address.
     pbind (SimpleProxyContract E (et_lib T) walk sc_node address (op_all_forks options)) (\<lambda>proxy.
     pbind (SmartContract E walk ''CertKeyRotation'') (\<lambda>native_contract.
     pbind (new_key E AccountModel ''random_seed_interop'') (\<lambda>k.
     pbind (get_withdrawal_epoch E sc_node) (\<lambda>epoch.
     pbind (sign_rotation E post (remote_keys_address 5000) sc_node 0 epoch
         (rbind (list_get (rk_new_master K) 0) secret_of) (rbind (list_get (rk_new_signing K) 0) secret_of) k) (\<lambda>sg.
     pbind (plift (rotation_input (et_lib T) native_contract (kp_publicKey k) sg)) (\<lambda>native_input.
     pseq (if op_all_forks options then pret () else before_interop_fork E (et_lib T) sc_node proxy address native_input)
       (interop_call E T sc_node proxy address native_input (kp_publicKey k) epoch))))))))))))"

definition kr_run_test ::
  "'w env \<Rightarrow> eth_tools \<Rightarrow> (string \<Rightarrow> (string \<times> string list) list) \<Rightarrow> 'w enclave \<Rightarrow> account_options \<Rightarrow> account_setup \<Rightarrow> ('w, unit) prog" where
  "kr_run_test E T walk enclave options self =
     pseq (py_sleep E (1 / 10)) (
     pbind (sc_ac_setup E self True True (PInt 10)) (\<lambda>self.
     pbind (mc_nth 0) (\<lambda>mc_node.
     pbind (sc_nth 0) (\<lambda>sc_node.
     pbind (plift (as_bootstrap_info self)) (\<lambda>info.
     pbind (keys_of_test E AccountModel 7 info) (\<lambda>K.
       let post = start_enclave enclave (rk_master_secrets K) (rk_public_master K) 5000
       in pbind (kr_epoch_0 E T post mc_node sc_node K) (\<lambda>keys_hash.
          pbind (kr_epoch_1 E post mc_node sc_node K keys_hash) (\<lambda>keys_hash.
          pbind (kr_epoch_2 E post mc_node sc_node K keys_hash) (\<lambda>keys_hash.
          pseq (kr_epoch_3 E mc_node sc_node keys_hash) (
          pseq (kr_certificate E mc_node sc_node keys_hash)
            (kr_interop E T walk options self post mc_node sc_node K)))))))))))"

section \<open>The account test across epochs\<close>

definition ae_setup :: "account_setup \<Rightarrow> account_setup" where
  "ae_setup args = args\<lparr>as_withdrawalEpochLength := 10, as_circuittype_override := Some KEY_ROTATION_CIRCUIT\<rparr>"

text \<open>The keys are generated when they are needed; the enclave holds only the genesis keys.\<close>

definition ae_sign ::
  "'w env \<Rightarrow> 'w post \<Rightarrow> string \<Rightarrow> sc_node \<Rightarrow> certificate_proof_info \<Rightarrow> pyval \<Rightarrow> int \<Rightarrow> key_pair \<Rightarrow> ('w, signatures) prog" where
  "ae_sign E post address sc_node proof_info epoch i k =
     sign_rotation E post address sc_node 0 epoch (rbind (list_get (cp_public_master_keys proof_info) i) (\<lambda>pk. Inr (By_public pk)))
       (rbind (list_get (cp_schnorr_signers_secrets proof_info) i) (\<lambda>sk. Inr (By_secret sk))) k"

definition ae_new_change ::
  "'w env \<Rightarrow> 'w post \<Rightarrow> sc_node \<Rightarrow> certificate_proof_info \<Rightarrow> string \<Rightarrow> int \<Rightarrow> ('w, key_pair \<times> signatures \<times> pyval) prog" where
  "ae_new_change E post sc_node proof_info seed nonce =
     pbind (new_key E AccountModel seed) (\<lambda>k.
     pbind (get_withdrawal_epoch E sc_node) (\<lambda>epoch.
     pbind (ae_sign E post (remote_keys_address 5001) sc_node proof_info epoch 0 k) (\<lambda>sg.
     pbind (rotate_evm E sc_node 0 0 (kp_publicKey k) sg (PInt nonce) PNone) (\<lambda>response.
       pret (k, sg, response)))))"

definition ae_mined_change :: "'w env \<Rightarrow> 'w post \<Rightarrow> sc_node \<Rightarrow> certificate_proof_info \<Rightarrow> string \<Rightarrow> int \<Rightarrow> ('w, key_pair) prog" where
  "ae_mined_change E post sc_node proof_info seed nonce =
     pbind (ae_new_change E post sc_node proof_info seed nonce) (\<lambda>(k, sg, response).
     pseq (mined_receipt E sc_node 1 response) (
     pseq (sc_sync_all E False) (
     pseq (check_rotation_proof E sc_node (PInt 0) sg (kp_publicKey k)) (pret k))))"

definition tx_count :: "pyval \<Rightarrow> int res" where
  "tx_count block = rbind (py_get block ''sidechainTransactions'') py_len"

definition ae_run_test :: "'w env \<Rightarrow> 'w enclave \<Rightarrow> account_setup \<Rightarrow> ('w, unit) prog" where
  "ae_run_test E enclave self =
     pseq (py_sleep E (1 / 10)) (
     pbind (sc_ac_setup E self True True (PInt 10)) (\<lambda>self.
     pbind (mc_nth 0) (\<lambda>mc_node.
     pbind (sc_nth 0) (\<lambda>sc_node.
     pbind (plift (as_bootstrap_info self)) (\<lambda>info.
       let proof_info = bi_certificate_proof_info info;
           post = start_enclave enclave (cp_schnorr_masters_secrets proof_info) (cp_public_master_keys proof_info) 5001
       in pseq (generate_next_blocks E sc_node ''first node'' 1) (
          pseq (sc_sync_all E False) (
          pbind (at_path (http_get_certifiers_keys E sc_node (PInt 0)) [''certifiersKeys'']) (\<lambda>certifiers.
          pseq (check_key_counts certifiers 7) (
          pseq (no_rotation_proofs E sc_node 7 (PInt 0)) (
          pseq (ae_mined_change E post sc_node proof_info ''random_seed'' 0) (
          pbind (ae_mined_change E post sc_node proof_info ''random_seed2'' 1) (\<lambda>k2.
          pseq (mc_call E mc_node ''generate'' [PInt (as_withdrawalEpochLength self - 3)]) (
          pseq (generate_next_block E sc_node ''first node'' False PNone) (
          pbind (ae_new_change E post sc_node proof_info ''random_seed3'' 2) (\<lambda>(_, _, response).
          pseq (mc_call E mc_node ''generate'' [PInt 1]) (
          pbind (generate_next_block E sc_node ''first node'' False PNone) (\<lambda>block_id.
          pbind (at_path (http_block_findById E sc_node block_id) [''block'']) (\<lambda>block.
          pbind (plift (tx_count block)) (\<lambda>n.
          pseq (check_eq (PInt 0) (PInt n) ''There should be no SC TXs in a block'') (
          pbind (certifiers_of E sc_node (PInt 0)) (\<lambda>(keys_hash, certifiers).
          pseq (check_reported_key certifiers ''signingKeys'' [kp_publicKey k2] 0) (
          pseq (mc_call E mc_node ''generate'' [PInt 1]) (
          pseq (generate_next_block E sc_node ''first node'' False PNone) (
          pbind (receipt_of E sc_node response) (\<lambda>receipt.
          pseq (check_status receipt 0) (
          pseq (await_certificate E mc_node sc_node) (
          pseq (check_pooled_certificate E mc_node keys_hash 7) (
          pseq (include_certificate E mc_node sc_node) (
          pbind (http_block_best E sc_node) (\<lambda>block.
          pbind (plift (tx_count block)) (\<lambda>m.
          pseq (check_that (m = 0) [])
            (no_rotation_proofs E sc_node 7 (PInt 1)))))))))))))))))))))))))))))))))"

section \<open>Properties: signatures\<close>

text \<open>The server of \<open>Secure_Enclave\<close> behind a connection that works: the path of the request selects the handler, and
  the answer of the handler is sent as text.\<close>

definition served_by :: "'w env \<Rightarrow> (string \<times> string) list \<Rightarrow> 'w enclave" where
  "served_by E headers server url body =
     (if url = ''http://'' @ en_host server @ '':'' @ str_int (en_port server) @ ''/api/v1/createSignature''
      then pbind (sign_message E server headers body) (\<lambda>r. plift (json_dumps r))
      else praise ConnectionError url [])"

definition signing_request :: "pyval \<Rightarrow> pyval \<Rightarrow> pyval" where
  "signing_request message sk = PDict [(''message'', message), (''type'', PStr ''schnorr''), (''privateKey'', sk)]"

definition signing_tool :: "'w env \<Rightarrow> string \<Rightarrow> string list" where
  "signing_tool E request = [''java'', ''-jar'', sdk_dir E @ ''/tools/signingtool/target/sidechains-sdk-signingtools-'' @ SNAPSHOT_VERSION_TAG @ ''.jar'',
     ''createSignature'', request]"

text \<open>
  What the tests rely on (\<^verbatim>\<open>createSignature\<close> of the signing tool): for a text message that it can read and a
  text that it can parse as a Schnorr secret, it prints a signature of the message under the secret.
  Other inputs, for which it prints an error, are left open. Signing is not deterministic:
  \<open>is_signature m k v\<close> says that \<open>v\<close> is one of the signatures of \<open>m\<close> under \<open>k\<close>. The empty text is no secret.
\<close>

definition signs_with :: "'w env \<Rightarrow> (string \<Rightarrow> bool) \<Rightarrow> (string \<Rightarrow> bool) \<Rightarrow> (string \<Rightarrow> string \<Rightarrow> string \<Rightarrow> bool) \<Rightarrow> bool" where
  "signs_with E readable schnorr_secret is_signature \<longleftrightarrow> \<not> schnorr_secret [] \<and>
     (\<forall>m sk request w. readable m \<and> schnorr_secret sk \<and> json_dumps (signing_request (PStr m) (PStr sk)) = Inr request \<longrightarrow>
       (\<exists>status out err w' v. e_run E (signing_tool E request) w = (Inr (status, out, err), w') \<and>
         json_loads out = Inr (PDict [(''signature'', PStr v)]) \<and> is_signature m sk v))"

text \<open>Keys are strings that are not empty. The secret that belongs to a signer at a server:\<close>

fun is_key :: "pyval \<Rightarrow> bool" where
  "is_key (PStr s) = (s \<noteq> [])"
| "is_key v = False"

lemma is_keyE: "is_key v \<Longrightarrow> (\<And>s. v = PStr s \<Longrightarrow> s \<noteq> [] \<Longrightarrow> P) \<Longrightarrow> P"
  by (cases v) auto

lemma is_key_json: "is_key v \<Longrightarrow> json_value v"
  by (auto elim: is_keyE)

fun secret_for :: "enclave_server \<Rightarrow> signer_of \<Rightarrow> pyval res" where
  "secret_for server (By_secret sk) = (if is_key sk then Inr sk else rerr ValueError [] [])"
| "secret_for server (By_public pk) = (if is_key pk
     then rbind (list_index (en_schnorr_public_keys server) pk) (list_get (en_schnorr_secrets server)) else rerr ValueError [] [])"

lemma signing_tool_run:
  assumes "signs_with E readable schnorr_secret is_signature" and "readable m" and "schnorr_secret sk"
  shows "\<exists>request v u. json_dumps (signing_request (PStr m) (PStr sk)) = Inr request \<and>
    launch_signing_tool E (signing_request (PStr m) (PStr sk)) s = Some (Inr (PDict [(''signature'', PStr v)]), u) \<and>
    is_signature m sk v \<and> w_calls u = w_calls s @ [RanCmd (signing_tool E request)]"
proof -
  obtain request where request: "json_dumps (signing_request (PStr m) (PStr sk)) = Inr request"
    using json_dumps_total [of "signing_request (PStr m) (PStr sk)"] by (auto simp: signing_request_def)
  with assms obtain status out err w' v where "e_run E (signing_tool E request) (w_ext s) = (Inr (status, out, err), w')"
    "json_loads out = Inr (PDict [(''signature'', PStr v)])" "is_signature m sk v" unfolding signs_with_def by blast
  with request show ?thesis
    by (simp add: launch_signing_tool_def run_json_tool_def py_run_def pact_run pbind_run ptry_run signing_tool_def)
qed

definition address_of :: "enclave_server \<Rightarrow> string" where
  "address_of server = ''http://'' @ en_host server @ '':'' @ str_int (en_port server)"

text \<open>A call of the test reaches the tool as a request with the secret, whichever way the key was named.\<close>

lemma with_private_key_request:
  assumes "secret_for server who = Inr sk"
  shows "with_private_key server (PDict [(''message'', message), (''type'', PStr ''schnorr''),
      (case who of By_public pk \<Rightarrow> (''publicKey'', pk) | By_secret k \<Rightarrow> (''privateKey'', k))]) = Inr (signing_request message sk)"
  using assms by (cases who) (auto simp: with_private_key_def signing_request_def rbind_Inr_iff rerr_def split: if_splits)

lemma enclave_signature_body:
  assumes "secret_for server who = Inr sk"
  shows "enclave_signature post address message who =
    at_path (pbind (plift (json_dumps (PDict [(''message'', message), (''type'', PStr ''schnorr''),
        (case who of By_public pk \<Rightarrow> (''publicKey'', pk) | By_secret k \<Rightarrow> (''privateKey'', k))]))) (\<lambda>body.
      pbind (post (address @ ''/api/v1/createSignature'') body) (\<lambda>text. plift (json_loads text)))) [''signature'']"
  using assms by (cases who) (auto simp: secure_enclave_create_signature_def rerr_def simp del: json_dumps.simps elim!: is_keyE split: if_splits)

lemma enclave_signature_run:
  assumes tool: "signs_with E readable schnorr_secret is_signature" and headers: "check_headers headers = Inr ()"
    and sk: "secret_for server who = Inr (PStr sk)" and ok: "readable m" "schnorr_secret sk"
  shows "\<exists>request v u. json_dumps (signing_request (PStr m) (PStr sk)) = Inr request \<and>
    enclave_signature (served_by E headers server) (address_of server) (PStr m) who s = Some (Inr (PStr v), u) \<and>
    is_signature m sk v \<and> w_calls u = w_calls s @ [RanCmd (signing_tool E request)]"
proof -
  let ?content = "PDict [(''message'', PStr m), (''type'', PStr ''schnorr''),
      (case who of By_public pk \<Rightarrow> (''publicKey'', pk) | By_secret k \<Rightarrow> (''privateKey'', k))]"
  have c: "json_value ?content" using sk by (cases who) (auto simp: rerr_def is_key_json split: if_splits)
  obtain body where body: "json_dumps ?content = Inr body" using json_dumps_total [OF c] by blast
  with json_roundtrip [OF c] have loads: "json_loads body = Inr ?content" by simp
  obtain request v u where run: "json_dumps (signing_request (PStr m) (PStr sk)) = Inr request"
    "launch_signing_tool E (signing_request (PStr m) (PStr sk)) s = Some (Inr (PDict [(''signature'', PStr v)]), u)"
    "is_signature m sk v" "w_calls u = w_calls s @ [RanCmd (signing_tool E request)]"
    using signing_tool_run [OF tool ok] by blast
  have r: "json_value (PDict [(''signature'', PStr v)])" by simp
  obtain out where out: "json_dumps (PDict [(''signature'', PStr v)]) = Inr out" using json_dumps_total [OF r] by blast
  with json_roundtrip [OF r] have back_out: "json_loads out = Inr (PDict [(''signature'', PStr v)])" by simp
  show ?thesis
    using run
    by (simp add: enclave_signature_body [OF sk] body served_by_def address_of_def at_path_def sign_message_def loads headers
        with_private_key_request [OF sk] out back_out pbind_run del: json_dumps.simps)
qed

lemma list_index_first_at:
  "i < length xs \<Longrightarrow> xs ! i = PStr x \<Longrightarrow> \<forall>j < i. xs ! j \<noteq> PStr x \<Longrightarrow> list_index xs (PStr x) = Inr (int i)"
proof (induction xs arbitrary: i)
  case (Cons a xs)
  show ?case
  proof (cases i)
    case (Suc j)
    with Cons have "list_index xs (PStr x) = Inr (int j)" by fastforce
    moreover have "a \<noteq> PStr x" using Cons.prems(3) Suc by auto
    ultimately show ?thesis using Suc by (simp add: py_eq_str)
  qed (use Cons.prems in simp)
qed simp

text \<open>C20. A change of the key at any position is authorised by the right keys. When the enclave serves the keys of the
  test and the tool can read the message and the three secrets, the three signatures come from exactly three runs of
  the signing tool over the same message, in this order: with the secret that the enclave holds for the genesis
  master key of that position, with the genesis signing secret of that position, with the secret of the new key.
  Each is a signature of the message under its own key and is put into its own field.\<close>
theorem rotation_signed_by_three_keys:
  assumes "signs_with E readable schnorr_secret is_signature" and "check_headers headers = Inr ()" and "readable m"
    and "server = SecureEnclaveApiServer (Some (rk_master_secrets K)) (Some (rk_public_master K)) ''127.0.0.1'' port"
    and "i < length (rk_public_master K)" and "i < length (rk_master_secrets K)" and "i < length (rk_signing_secrets K)"
    and "rk_public_master K ! i = PStr pk" and "pk \<noteq> []" and "\<forall>j < i. rk_public_master K ! j \<noteq> PStr pk"
    and "rk_master_secrets K ! i = PStr mk" and "rk_signing_secrets K ! i = PStr sk" and "kp_secret new = PStr nk"
    and "schnorr_secret mk" and "schnorr_secret sk" and "schnorr_secret nk"
  shows "\<exists>requests v1 v2 v3 t. map Inr requests = map (\<lambda>k. json_dumps (signing_request (PStr m) (PStr k))) [mk, sk, nk] \<and>
    rotation_signatures (served_by E headers server) (remote_keys_address port) (PStr m) (genesis_master K (int i)) (genesis_signing K (int i))
        (secret_of new) s
      = Some (Inr \<lparr>sg_master = PStr v1, sg_signing = PStr v2, sg_new = PStr v3\<rparr>, t) \<and>
    is_signature m mk v1 \<and> is_signature m sk v2 \<and> is_signature m nk v3 \<and>
    w_calls t = w_calls s @ map (RanCmd \<circ> signing_tool E) requests"
proof -
  have address: "address_of server = remote_keys_address port"
    using assms(4) by (simp add: address_of_def remote_keys_address_def SecureEnclaveApiServer_def)
  have ne: "mk \<noteq> []" "sk \<noteq> []" "nk \<noteq> []" using assms(1,14-16) by (auto simp: signs_with_def)
  have keys: "secret_for server (By_public (PStr pk)) = Inr (PStr mk)" "secret_for server (By_secret (PStr sk)) = Inr (PStr sk)"
    "secret_for server (By_secret (PStr nk)) = Inr (PStr nk)"
    using ne assms(4,6,9,11) list_index_first_at [OF assms(5,8,10)] by (simp_all add: SecureEnclaveApiServer_def list_get_def)
  have who: "genesis_master K (int i) = Inr (By_public (PStr pk))" "genesis_signing K (int i) = Inr (By_secret (PStr sk))"
    using assms(5,7,8,12) by (simp_all add: genesis_master_def genesis_signing_def list_get_def)
  note run = enclave_signature_run [OF assms(1,2) _ assms(3), of server, unfolded address]
  obtain j1 v1 u1 where 1: "json_dumps (signing_request (PStr m) (PStr mk)) = Inr j1" "is_signature m mk v1" "w_calls u1 = w_calls s @ [RanCmd (signing_tool E j1)]"
    "enclave_signature (served_by E headers server) (remote_keys_address port) (PStr m) (By_public (PStr pk)) s = Some (Inr (PStr v1), u1)"
    using run [OF keys(1) assms(14)] by blast
  obtain j2 v2 u2 where 2: "json_dumps (signing_request (PStr m) (PStr sk)) = Inr j2" "is_signature m sk v2" "w_calls u2 = w_calls u1 @ [RanCmd (signing_tool E j2)]"
    "enclave_signature (served_by E headers server) (remote_keys_address port) (PStr m) (By_secret (PStr sk)) u1 = Some (Inr (PStr v2), u2)"
    using run [OF keys(2) assms(15)] by blast
  obtain j3 v3 u3 where 3: "json_dumps (signing_request (PStr m) (PStr nk)) = Inr j3" "is_signature m nk v3" "w_calls u3 = w_calls u2 @ [RanCmd (signing_tool E j3)]"
    "enclave_signature (served_by E headers server) (remote_keys_address port) (PStr m) (By_secret (PStr nk)) u2 = Some (Inr (PStr v3), u3)"
    using run [OF keys(3) assms(16)] by blast
  show ?thesis using 1 2 3
    by - (rule exI [of _ "[j1, j2, j3]"], rule exI [of _ v1], rule exI [of _ v2], rule exI [of _ v3], rule exI [of _ u3],
        simp add: rotation_signatures_def signed_by_def who assms(13) pbind_run del: enclave_signature.simps)
qed

text \<open>A tool that signs by putting the message and the secret side by side.\<close>

definition toy_signature :: "pyval \<Rightarrow> pyval \<Rightarrow> pyval" where
  "toy_signature message sk = PStr (py_str message @ ''/'' @ py_str sk)"

definition toy_output :: "string \<Rightarrow> string res" where
  "toy_output request = rbind (json_loads request) (\<lambda>v. rbind (py_get v ''message'') (\<lambda>m. rbind (py_get v ''privateKey'') (\<lambda>k.
     json_dumps (PDict [(''signature'', toy_signature m k)]))))"

definition toy_env :: "sample env" where
  "toy_env = sample_env\<lparr>e_run := \<lambda>cmd w. (Inr (0, (case toy_output (last cmd) of Inr out \<Rightarrow> out | Inl _ \<Rightarrow> []), []), w)\<rparr>"

lemma toy_output_run:
  assumes "json_dumps (signing_request (PStr m) (PStr sk)) = Inr request"
  shows "\<exists>out. toy_output request = Inr out \<and> json_loads out = Inr (PDict [(''signature'', PStr (m @ ''/'' @ sk))])"
proof -
  have "json_value (signing_request (PStr m) (PStr sk))" by (simp add: signing_request_def)
  from json_roundtrip [OF this] assms have loads: "json_loads request = Inr (signing_request (PStr m) (PStr sk))" by simp
  have v: "json_value (PDict [(''signature'', PStr (m @ ''/'' @ sk))])" by simp
  obtain out where out: "json_dumps (PDict [(''signature'', PStr (m @ ''/'' @ sk))]) = Inr out" using json_dumps_total [OF v] by blast
  have "toy_output request = Inr out" using loads out by (simp add: toy_output_def signing_request_def toy_signature_def py_str_def del: json_dumps.simps)
  moreover have "json_loads out = Inr (PDict [(''signature'', PStr (m @ ''/'' @ sk))])" using json_roundtrip [OF v] out by simp
  ultimately show ?thesis by blast
qed

lemma toy_signs: "signs_with toy_env (\<lambda>m. True) (\<lambda>k. k \<noteq> []) (\<lambda>m k v. v = m @ ''/'' @ k)"
  unfolding signs_with_def by (auto simp: toy_env_def signing_tool_def dest!: toy_output_run)

text \<open>Keys of a test with one position, and seven positions with the same keys.\<close>

definition one_position :: rotation_keys where
  "one_position = (let k = \<lparr>kp_secret = PStr ''nk'', kp_publicKey = PStr ''NK''\<rparr>
     in \<lparr>rk_signing_secrets = [PStr ''s0'', PStr ''sk''], rk_public_signing = [PStr ''S0'', PStr ''SK''], rk_master_secrets = [PStr ''m0'', PStr ''mk''],
       rk_public_master = [PStr ''M0'', PStr ''MK''], rk_signing_1 = k, rk_signing_2 = k, rk_master_3 = k, rk_signing_4 = k,
       rk_new_signing = [k, k], rk_new_master = [k, k]\<rparr>)"

theorem rotation_signed_by_three_keys_witness:
  "\<exists>t. rotation_signatures (served_by toy_env [(''User-Agent'', ''python-requests'')]
      (SecureEnclaveApiServer (Some (rk_master_secrets one_position)) (Some (rk_public_master one_position)) ''127.0.0.1'' 5000))
      (remote_keys_address 5000) (PStr ''m'') (genesis_master one_position (int 1)) (genesis_signing one_position (int 1))
      (secret_of (rk_signing_1 one_position)) (sample_world 0 0 [])
    = Some (Inr \<lparr>sg_master = PStr ''m/mk'', sg_signing = PStr ''m/sk'', sg_new = PStr ''m/nk''\<rparr>, t) \<and> length (w_calls t) = 3"
proof -
  have h: "check_headers [(''User-Agent'', ''python-requests'')] = Inr ()" by (simp add: check_headers_def header_def)
  have K: "rk_public_master one_position ! 1 = PStr ''MK''" "rk_master_secrets one_position ! 1 = PStr ''mk''"
    "rk_signing_secrets one_position ! 1 = PStr ''sk''" "kp_secret (rk_signing_1 one_position) = PStr ''nk''"
    "1 < length (rk_public_master one_position)" "1 < length (rk_master_secrets one_position)" "1 < length (rk_signing_secrets one_position)"
    "\<forall>j < 1. rk_public_master one_position ! j \<noteq> PStr ''MK''"
    by (simp_all add: one_position_def Let_def)
  obtain requests t where r: "map Inr requests = map (\<lambda>k. json_dumps (signing_request (PStr ''m'') (PStr k))) [''mk'', ''sk'', ''nk'']"
    and run: "rotation_signatures (served_by toy_env [(''User-Agent'', ''python-requests'')]
      (SecureEnclaveApiServer (Some (rk_master_secrets one_position)) (Some (rk_public_master one_position)) ''127.0.0.1'' 5000))
      (remote_keys_address 5000) (PStr ''m'') (genesis_master one_position (int 1)) (genesis_signing one_position (int 1))
      (secret_of (rk_signing_1 one_position)) (sample_world 0 0 [])
    = Some (Inr \<lparr>sg_master = PStr ''m/mk'', sg_signing = PStr ''m/sk'', sg_new = PStr ''m/nk''\<rparr>, t)"
    and calls: "w_calls t = w_calls (sample_world 0 0 [] :: sample world) @ map (RanCmd \<circ> signing_tool toy_env) requests"
    using rotation_signed_by_three_keys [OF toy_signs h TrueI refl K(5-7,1) _ K(8,2-4), where m = "''m''" and port = 5000 and s = "sample_world 0 0 []"] by (auto simp del: list.map)
  from map_eq_imp_length_eq [OF r] have "length requests = 3" by simp
  with run calls show ?thesis by (auto simp: sample_world_def)
qed

section \<open>Properties: the change of all keys\<close>

text \<open>The rotations that a node was asked for.\<close>

definition rotation_bodies :: "sc_node \<Rightarrow> 'w world \<Rightarrow> string list" where
  "rotation_bodies node s = concat (map (\<lambda>ev. case ev of
     ScCall n m [PStr b] [] \<Rightarrow> if n = node \<and> m = ''transaction_createKeyRotationTransaction'' then [b] else [] | _ \<Rightarrow> []) (w_calls s))"

lemma keeps_bodies:
  "m \<noteq> ''transaction_createKeyRotationTransaction'' \<Longrightarrow> keeps (rotation_bodies node) (sc_call E n m args)"
  "keeps (rotation_bodies node) (py_run E cmd)" "keeps (rotation_bodies node) (py_sleep E d)" "keeps (rotation_bodies node) (py_time E)"
  by (auto simp: keeps_def ext_defs pact_run pext_run rotation_bodies_def split: list.splits pyval.splits)

lemma keeps_bodies_json_call:
  "m \<noteq> ''transaction_createKeyRotationTransaction'' \<Longrightarrow> keeps (rotation_bodies node) (json_call E n m j key)"
  unfolding json_call_def post_call_def by (intro keep_intros keeps_bodies)

lemma keeps_bodies_forge_loop: "keeps (rotation_bodies node) (forge_loop E n tx k c es r)"
proof (induction E n tx k c es r rule: forge_loop.induct)
  case (1 E n tx k c es r)
  show ?case
    by (subst forge_loop.simps, unfold Let_def forge_at_def, intro keep_intros keeps_bodies) (simp, rule 1, assumption+, rule refl)
qed

lemma keeps_bodies_forge:
  "keeps (rotation_bodies node) (generate_next_block E n nm force tx)" "keeps (rotation_bodies node) (generate_next_blocks E n nm k)"
  unfolding generate_next_blocks_def generate_next_block_def forging_start_def forge_at_def
  by (intro keep_intros keeps_bodies keeps_bodies_forge_loop; simp)+

lemma keeps_bodies_served: "keeps (rotation_bodies node) (served_by E headers server url body)"
  unfolding served_by_def sign_message_def launch_signing_tool_def run_json_tool_def by (intro keep_intros keeps_bodies)

lemma keeps_bodies_message: "keeps (rotation_bodies node) (message_to_sign E n kt pk epoch)"
  unfolding message_to_sign_def at_path_def http_get_key_rotation_message_to_sign_for_signing_key_def
    http_get_key_rotation_message_to_sign_for_master_key_def
  by (intro keep_intros keeps_bodies_json_call; simp)

text \<open>
  What a rotation has to be authorised by, said of the answers of the enclave and of the node: \<open>enclave_gave\<close>
  holds for a signature that the enclave answered to a request with the message and the secret, \<open>message_for\<close>
  for a message that the node answered for a new key of the given kind. The keys in force at a position are
  those of the previous epochs at position 0, and the genesis keys at the others.
\<close>

definition enclave_gave :: "'w post \<Rightarrow> string \<Rightarrow> pyval \<Rightarrow> pyval \<Rightarrow> pyval \<Rightarrow> bool" where
  "enclave_gave post address message sk v \<longleftrightarrow> (\<exists>s t body answer r. json_dumps (signing_request message sk) = Inr body \<and>
     post (address @ ''/api/v1/createSignature'') body s = Some (Inr answer, t) \<and> json_loads answer = Inr r \<and> py_get r ''signature'' = Inr v)"

definition message_for :: "'w env \<Rightarrow> sc_node \<Rightarrow> string \<Rightarrow> key_pair \<Rightarrow> pyval \<Rightarrow> pyval \<Rightarrow> bool" where
  "message_for E node service k epoch message \<longleftrightarrow> (\<exists>w body r.
     json_dumps (PDict [(''schnorrPublicKey'', kp_publicKey k), (''withdrawalEpoch'', epoch)]) = Inr body \<and>
     fst (e_sc_api E node service [PStr body] [] w) = Inr r \<and> py_path r [''result'', ''keyRotationMessageToSign''] = Inr message)"

definition authorised ::
  "'w env \<Rightarrow> 'w post \<Rightarrow> string \<Rightarrow> sc_node \<Rightarrow> rotation_keys \<Rightarrow> pyval \<Rightarrow> string \<Rightarrow> nat \<Rightarrow> key_pair \<Rightarrow> signatures \<Rightarrow> bool" where
  "authorised E post address node K epoch service i k sg \<longleftrightarrow> (\<exists>message. message_for E node service k epoch message \<and>
     enclave_gave post address message (if i = 0 then kp_secret (rk_master_3 K) else rk_master_secrets K ! i) (sg_master sg) \<and>
     enclave_gave post address message (if i = 0 then kp_secret (rk_signing_4 K) else rk_signing_secrets K ! i) (sg_signing sg) \<and>
     enclave_gave post address message (kp_secret k) (sg_new sg))"

lemma list_get_nat: "list_get xs (int i) = Inr x \<Longrightarrow> i < length xs \<and> x = xs ! i"
  by (auto simp: list_get_def Let_def rerr_def split: if_splits)

lemma signed_by_gave:
  assumes "signed_by post address message who s = Some (Inr v, t)" and "who = Inr (By_secret sk)"
  shows "enclave_gave post address message sk v"
  using assms by (auto simp: signed_by_def secure_enclave_create_signature_def at_path_def pbind_Inr_iff rbind_Inr_iff enclave_gave_def signing_request_def
      simp del: json_dumps.simps split: if_splits) blast?

lemma signed_in_force:
  assumes "signed_by post address message (current_master K (int i)) s = Some (Inr v, t)"
  shows "enclave_gave post address message (if i = 0 then kp_secret (rk_master_3 K) else rk_master_secrets K ! i) v"
proof -
  from assms obtain sk where who: "current_master K (int i) = Inr (By_secret sk)"
    by (auto simp: signed_by_def pbind_Inr_iff current_master_def rbind_Inr_iff split: if_splits)
  then have "sk = (if i = 0 then kp_secret (rk_master_3 K) else rk_master_secrets K ! i)"
    by (auto simp: current_master_def rbind_Inr_iff dest: list_get_nat split: if_splits)
  with signed_by_gave [OF assms who] show ?thesis by simp
qed

lemma signed_in_force_signing:
  assumes "signed_by post address message (current_signing K (int i)) s = Some (Inr v, t)"
  shows "enclave_gave post address message (if i = 0 then kp_secret (rk_signing_4 K) else rk_signing_secrets K ! i) v"
proof -
  from assms obtain sk where who: "current_signing K (int i) = Inr (By_secret sk)"
    by (auto simp: signed_by_def pbind_Inr_iff current_signing_def rbind_Inr_iff split: if_splits)
  then have "sk = (if i = 0 then kp_secret (rk_signing_4 K) else rk_signing_secrets K ! i)"
    by (auto simp: current_signing_def rbind_Inr_iff dest: list_get_nat split: if_splits)
  with signed_by_gave [OF assms who] show ?thesis by simp
qed

lemma message_to_sign_for:
  assumes "message_to_sign E node kt (kp_publicKey k) epoch s = Some (Inr message, t)"
  shows "message_for E node (if kt = 0 then ''submitter_getKeyRotationMessageToSignForSigningKey''
    else ''submitter_getKeyRotationMessageToSignForMasterKey'') k epoch message"
  using assms
  by (auto simp: message_to_sign_def http_get_key_rotation_message_to_sign_for_signing_key_def at_path_def json_call_def post_call_def
      http_get_key_rotation_message_to_sign_for_master_key_def pbind_Inr_iff sc_call_run message_for_def rbind_Inr_iff
      simp del: json_dumps.simps split: if_splits)

lemma keeps_bodies_signed:
  assumes "\<And>u b. keeps (rotation_bodies node) (post u b)"
  shows "keeps (rotation_bodies node) (signed_by post address message who)"
proof -
  have "keeps (rotation_bodies node) (secure_enclave_create_signature post address message pk sk)" for pk sk
    unfolding secure_enclave_create_signature_def by (intro keep_intros assms)
  then have "keeps (rotation_bodies node) (enclave_signature post address message w)" for w
    by (cases w) (auto simp: at_path_def intro!: keep_intros)
  then show ?thesis unfolding signed_by_def by (intro keep_intros)
qed

text \<open>The two requests for one position.\<close>

definition rotation_pair :: "(int \<Rightarrow> int \<Rightarrow> pyval \<Rightarrow> signatures \<Rightarrow> pyval) \<Rightarrow> sc_node \<Rightarrow> 'w env \<Rightarrow> 'w post \<Rightarrow> string \<Rightarrow> rotation_keys \<Rightarrow> pyval \<Rightarrow> nat \<Rightarrow> string \<Rightarrow> string \<Rightarrow> bool" where
  "rotation_pair request node E post address K epoch i b1 b2 \<longleftrightarrow> (\<exists>sgs sgm. i < length (rk_new_signing K) \<and> i < length (rk_new_master K) \<and>
    authorised E post address node K epoch ''submitter_getKeyRotationMessageToSignForSigningKey'' i (rk_new_signing K ! i) sgs \<and>
    authorised E post address node K epoch ''submitter_getKeyRotationMessageToSignForMasterKey'' i (rk_new_master K ! i) sgm \<and>
    json_dumps (request 0 (int i) (kp_publicKey (rk_new_signing K ! i)) sgs) = Inr b1 \<and>
    json_dumps (request 1 (int i) (kp_publicKey (rk_new_master K ! i)) sgm) = Inr b2)"

text \<open>What the loop over the keys needs from the operation that sends a rotation: one request, with the given values.\<close>

locale rotation_sender =
  fixes send :: "int \<Rightarrow> int \<Rightarrow> pyval \<Rightarrow> signatures \<Rightarrow> ('w, unit) prog"
    and request :: "int \<Rightarrow> int \<Rightarrow> pyval \<Rightarrow> signatures \<Rightarrow> pyval"
    and node :: sc_node
  assumes sends: "send key_type i pk sg s = Some (Inr (), t) \<Longrightarrow>
    \<exists>body. json_dumps (request key_type i pk sg) = Inr body \<and> rotation_bodies node t = rotation_bodies node s @ [body]"
begin

lemma both:
  assumes run: "rotate_both E post address send node K epoch (int i) s = Some (Inr (), t)" and quiet: "\<And>u b. keeps (rotation_bodies node) (post u b)"
  shows "\<exists>b1 b2. rotation_pair request node E post address K epoch i b1 b2 \<and> rotation_bodies node t = rotation_bodies node s @ [b1, b2]"
proof -
  note kept = keepsD [OF keeps_bodies_signed [OF quiet]] keepsD [OF keeps_bodies_message]
  from run obtain ks km m1 m2 s1 s2 s3 s4 s5 s6 s7 s8 s9 sm ss mm ms sn mn
    where keys: "list_get (rk_new_signing K) (int i) = Inr ks" "list_get (rk_new_master K) (int i) = Inr km"
      and msgs: "message_to_sign E node 0 (kp_publicKey ks) epoch s = Some (Inr m1, s1)" "message_to_sign E node 1 (kp_publicKey km) epoch s1 = Some (Inr m2, s2)"
      and sigs: "signed_by post address m1 (current_master K (int i)) s2 = Some (Inr sm, s3)" "signed_by post address m1 (current_signing K (int i)) s3 = Some (Inr ss, s4)"
        "signed_by post address m2 (current_master K (int i)) s4 = Some (Inr mm, s5)" "signed_by post address m2 (current_signing K (int i)) s5 = Some (Inr ms, s6)"
        "signed_by post address m1 (secret_of ks) s6 = Some (Inr sn, s7)" "signed_by post address m2 (secret_of km) s7 = Some (Inr mn, s8)"
      and sent: "send 0 (int i) (kp_publicKey ks) \<lparr>sg_master = sm, sg_signing = ss, sg_new = sn\<rparr> s8 = Some (Inr (), s9)"
        "send 1 (int i) (kp_publicKey km) \<lparr>sg_master = mm, sg_signing = ms, sg_new = mn\<rparr> s9 = Some (Inr (), t)"
    by (auto simp: rotate_both_def pbind_Inr_iff)
  have "rotation_bodies node s8 = rotation_bodies node s" using msgs sigs by (simp add: kept)
  moreover have "authorised E post address node K epoch ''submitter_getKeyRotationMessageToSignForSigningKey'' i ks \<lparr>sg_master = sm, sg_signing = ss, sg_new = sn\<rparr>"
    "authorised E post address node K epoch ''submitter_getKeyRotationMessageToSignForMasterKey'' i km \<lparr>sg_master = mm, sg_signing = ms, sg_new = mn\<rparr>"
    unfolding authorised_def
    using message_to_sign_for [OF msgs(1)] message_to_sign_for [OF msgs(2)] signed_in_force [OF sigs(1)] signed_in_force [OF sigs(3)]
      signed_in_force_signing [OF sigs(2)] signed_in_force_signing [OF sigs(4)] signed_by_gave [OF sigs(5) refl] signed_by_gave [OF sigs(6) refl]
    by auto
  ultimately show ?thesis using list_get_nat [OF keys(1)] list_get_nat [OF keys(2)] sends [OF sent(1)] sends [OF sent(2)]
    unfolding rotation_pair_def by fastforce
qed

lemma all_pairs:
  assumes run: "piter (rotate_both E post address send node K epoch) (map int ps) s = Some (Inr (), t)" and quiet: "\<And>u b. keeps (rotation_bodies node) (post u b)"
  shows "\<exists>bs. length bs = length ps \<and> rotation_bodies node t = rotation_bodies node s @ concat (map (\<lambda>(b1, b2). [b1, b2]) bs) \<and>
    (\<forall>j < length ps. rotation_pair request node E post address K epoch (ps ! j) (fst (bs ! j)) (snd (bs ! j)))"
  using run
proof (induction ps arbitrary: s)
  case (Cons i ps)
  then obtain u where one: "rotate_both E post address send node K epoch (int i) s = Some (Inr (), u)"
    and rest: "piter (rotate_both E post address send node K epoch) (map int ps) u = Some (Inr (), t)" by (auto simp: pbind_Inr_iff)
  obtain b1 b2 where b: "rotation_pair request node E post address K epoch i b1 b2" "rotation_bodies node u = rotation_bodies node s @ [b1, b2]"
    using both [OF one quiet] by blast
  from Cons.IH [OF rest] obtain bs where "length bs = length ps" "rotation_bodies node t = rotation_bodies node u @ concat (map (\<lambda>(b1, b2). [b1, b2]) bs)"
    "\<forall>j < length ps. rotation_pair request node E post address K epoch (ps ! j) (fst (bs ! j)) (snd (bs ! j))" by blast
  with b show ?case by (intro exI [of _ "(b1, b2) # bs"]) (auto simp: less_Suc_eq_0_disj)
qed simp

end

text \<open>The request of the account model, without a limit on the gas.\<close>

definition evm_rotation :: "int \<Rightarrow> int \<Rightarrow> pyval \<Rightarrow> signatures \<Rightarrow> pyval" where
  "evm_rotation key_type i pk sg = PDict [(''keyType'', PInt key_type), (''keyIndex'', PInt i), (''newKey'', pk), (''signingKeySignature'', sg_signing sg),
     (''masterKeySignature'', sg_master sg), (''newKeySignature'', sg_new sg), (''nonce'', PNone)]"

lemma bodies_json_call:
  assumes "json_call E node ''transaction_createKeyRotationTransaction'' j None s = Some (r, t)" and "r = Inr v"
  shows "\<exists>body. json_dumps j = Inr body \<and> rotation_bodies node t = rotation_bodies node s @ [body]"
  using assms by (auto simp: json_call_def post_call_def pbind_Inr_iff sc_call_run rotation_bodies_def)

interpretation evm_sender: rotation_sender "send_evm E node" evm_rotation node
proof
  fix key_type i pk sg and s t :: "'a world"
  assume "send_evm E node key_type i pk sg s = Some (Inr (), t)"
  then obtain r u v where sent: "rotate_evm E node key_type i pk sg PNone PNone s = Some (Inr r, u)"
    and "generate_next_blocks E node ''first node'' 1 u = Some (Inr v, t)"
    by (auto simp: send_evm_def check_no_error_def pbind_Inr_iff)
  with keepsD [OF keeps_bodies_forge(2)] have "rotation_bodies node t = rotation_bodies node u" by blast
  with bodies_json_call [OF sent [unfolded rotate_evm_def http_create_key_rotation_transaction_evm_def] refl]
  show "\<exists>body. json_dumps (evm_rotation key_type i pk sg) = Inr body \<and> rotation_bodies node t = rotation_bodies node s @ [body]"
    by (simp add: evm_rotation_def)
qed

lemma py_range_7: "py_range 7 = map int [0 ..< 7]"
  by (simp add: py_range_def upt_rec upto.simps)

text \<open>C21. The change of all keys asks for every key exactly once: after the loop over the positions 0 to 6 the node has got fourteen
  rotations more, for each position first the signing key (type 0) and then the master key (type 1), with the new key of
  that position and with the signatures that the enclave answered for the secret of the master key in force, of the
  signing key in force and of the new key, over the message that the node answered for that new key and its kind, and no
  other rotation. In force are the third and fourth key of the test at position 0 and the genesis secrets of that
  position elsewhere.\<close>
theorem all_keys_rotated:
  assumes "piter (rotate_both E (served_by E headers server) address (send_evm E node) node K epoch) (py_range 7) s = Some (Inr (), t)"
  shows "\<exists>bs. length bs = 7 \<and> rotation_bodies node t = rotation_bodies node s @ concat (map (\<lambda>(b1, b2). [b1, b2]) bs) \<and>
    (\<forall>i < 7. rotation_pair evm_rotation node E (served_by E headers server) address K epoch i (fst (bs ! i)) (snd (bs ! i)))"
  using evm_sender.all_pairs [OF assms [unfolded py_range_7] keeps_bodies_served] by simp

text \<open>For the example: programs with the same result in every state, and a node that answers every request of the loop.\<close>

definition yields :: "('w, 'a) prog \<Rightarrow> 'a \<Rightarrow> bool" where
  "yields m x \<longleftrightarrow> (\<forall>s. \<exists>t. m s = Some (Inr x, t))"

lemma yields_pbind: "yields m x \<Longrightarrow> yields (f x) y \<Longrightarrow> yields (pbind m f) y"
  unfolding yields_def pbind_run by (metis (no_types, lifting) option.simps(5) prod.simps(2) sum.simps(6))

lemma yields_piter: "(\<And>x. x \<in> set xs \<Longrightarrow> yields (f x) ()) \<Longrightarrow> yields (piter f xs) ()"
proof (induction xs)
  case (Cons x xs)
  then have "yields (f x) ()" "yields (piter f xs) ()" by simp_all
  then show ?case by (simp add: yields_pbind)
qed (simp add: yields_def)

lemma yields_plift: "yields (plift (Inr x)) x" "yields (pret x) x"
  by (simp_all add: yields_def)

definition rotating_env :: "sample env" where
  "rotating_env = toy_env\<lparr>e_sc_api := \<lambda>n m args kw w. (
     if m = ''block_forgingInfo'' then forging_reply 720 2 5
     else if m = ''block_generate'' then block_reply ''b''
     else Inr (PDict [(''result'', PDict [(''keyRotationMessageToSign'', PStr ''m'')])]), w)\<rparr>"

lemma rotating_signs: "signs_with rotating_env (\<lambda>m. True) (\<lambda>k. k \<noteq> []) (\<lambda>m k v. v = m @ ''/'' @ k)"
  using toy_signs unfolding signs_with_def by (simp add: rotating_env_def signing_tool_def sdk_dir_def)

lemma rotating_forge: "\<exists>t. generate_next_blocks rotating_env node ''first node'' 1 s = Some (Inr [PStr ''b''], t)"
  by (simp add: generate_next_blocks_def py_range_def rotating_env_def forging_run pbind_run sc_call_run)

lemma rotating_message: "\<exists>t. message_to_sign rotating_env node key_type (PStr pk) (PInt epoch) s = Some (Inr (PStr ''m''), t)"
proof -
  obtain request where "json_dumps (PDict [(''schnorrPublicKey'', PStr pk), (''withdrawalEpoch'', PInt epoch)]) = Inr request"
    using json_dumps_total [of "PDict [(''schnorrPublicKey'', PStr pk), (''withdrawalEpoch'', PInt epoch)]"] by auto
  then show ?thesis
    by (simp add: message_to_sign_def http_get_key_rotation_message_to_sign_for_signing_key_def http_get_key_rotation_message_to_sign_for_master_key_def
        at_path_def json_call_def post_call_def pbind_run sc_call_run rotating_env_def del: json_dumps.simps)
qed

abbreviation toy_headers :: "(string \<times> string) list" where
  "toy_headers \<equiv> [(''User-Agent'', ''python-requests'')]"

lemma toy_headers_ok: "check_headers toy_headers = Inr ()"
  by (simp add: check_headers_def header_def)

lemma rotating_signature:
  assumes "k \<noteq> []"
  shows "\<exists>t. signed_by (served_by rotating_env toy_headers server) (address_of server) (PStr ''m'') (Inr (By_secret (PStr k))) s
    = Some (Inr (toy_signature (PStr ''m'') (PStr k)), t)"
  using enclave_signature_run [OF rotating_signs toy_headers_ok, of server "By_secret (PStr k)" k "''m''" s] assms
  by (auto simp: signed_by_def pbind_run toy_signature_def py_str_def simp del: enclave_signature.simps)

lemma rotating_send: "\<exists>t. send_evm rotating_env node key_type i (PStr pk) \<lparr>sg_master = toy_signature m1 k1, sg_signing = toy_signature m2 k2,
    sg_new = toy_signature m3 k3\<rparr> s = Some (Inr (), t)" (is "\<exists>t. send_evm _ _ _ _ _ ?sg _ = _")
proof -
  obtain request where "json_dumps (evm_rotation key_type i (PStr pk) ?sg) = Inr request"
    using json_dumps_total [of "evm_rotation key_type i (PStr pk) ?sg"] by (auto simp: evm_rotation_def toy_signature_def)
  then have "\<exists>u. rotate_evm rotating_env node key_type i (PStr pk) ?sg PNone PNone s = Some (Inr (PDict [(''result'', PDict [(''keyRotationMessageToSign'', PStr ''m'')])]), u)"
    by (simp add: rotate_evm_def http_create_key_rotation_transaction_evm_def evm_rotation_def json_call_def post_call_def pbind_run sc_call_run rotating_env_def
        del: json_dumps.simps)
  then obtain u where "rotate_evm rotating_env node key_type i (PStr pk) ?sg PNone PNone s = Some (Inr (PDict [(''result'', PDict [(''keyRotationMessageToSign'', PStr ''m'')])]), u)" ..
  with rotating_forge [of node u] show ?thesis by (auto simp: send_evm_def check_no_error_def assert_false_def assert_true_def pbind_run)
qed

definition toy_keys :: rotation_keys where
  "toy_keys = (let k = \<lparr>kp_secret = PStr ''sk'', kp_publicKey = PStr ''pk''\<rparr>
     in \<lparr>rk_signing_secrets = replicate 7 (PStr ''sk''), rk_public_signing = replicate 7 (PStr ''pk''), rk_master_secrets = replicate 7 (PStr ''sk''),
       rk_public_master = replicate 7 (PStr ''pk''), rk_signing_1 = k, rk_signing_2 = k, rk_master_3 = k, rk_signing_4 = k,
       rk_new_signing = replicate 7 k, rk_new_master = replicate 7 k\<rparr>)"

lemma rotating_both:
  assumes "0 \<le> i" and "i < 7"
  shows "yields (rotate_both rotating_env (served_by rotating_env toy_headers server) (address_of server) (send_evm rotating_env node) node toy_keys (PInt 2) i) ()"
proof -
  have keys: "list_get (rk_new_signing toy_keys) i = Inr \<lparr>kp_secret = PStr ''sk'', kp_publicKey = PStr ''pk''\<rparr>"
    "list_get (rk_new_master toy_keys) i = Inr \<lparr>kp_secret = PStr ''sk'', kp_publicKey = PStr ''pk''\<rparr>"
    "current_master toy_keys i = Inr (By_secret (PStr ''sk''))" "current_signing toy_keys i = Inr (By_secret (PStr ''sk''))"
    using assms by (auto simp: toy_keys_def Let_def current_master_def current_signing_def list_get_def)
  have steps: "yields (message_to_sign rotating_env node key_type (PStr ''pk'') (PInt 2)) (PStr ''m'')"
    "yields (signed_by (served_by rotating_env toy_headers server) (address_of server) (PStr ''m'') (Inr (By_secret (PStr ''sk'')))) (toy_signature (PStr ''m'') (PStr ''sk''))"
    "yields (send_evm rotating_env node key_type i (PStr ''pk'') \<lparr>sg_master = toy_signature m1 k1, sg_signing = toy_signature m2 k2, sg_new = toy_signature m3 k3\<rparr>) ()"
    for key_type m1 k1 m2 k2 m3 k3
    using rotating_message rotating_signature [of "''sk''" server] rotating_send unfolding yields_def by simp_all
  show ?thesis unfolding rotate_both_def keys by (rule yields_pbind yields_plift steps | simp only: key_pair.simps)+
qed

theorem all_keys_rotated_witness:
  "\<exists>t bs. piter (rotate_both rotating_env (served_by rotating_env toy_headers (SecureEnclaveApiServer None None ''127.0.0.1'' 5000)) (remote_keys_address 5000)
      (send_evm rotating_env (sample_node ''a'')) (sample_node ''a'') toy_keys (PInt 2)) (py_range 7) (sample_world 0 0 []) = Some (Inr (), t) \<and>
    rotation_bodies (sample_node ''a'') t = concat (map (\<lambda>(b1, b2). [b1, b2]) bs) \<and> length bs = 7"
proof -
  let ?server = "SecureEnclaveApiServer None None ''127.0.0.1'' 5000"
  have address: "address_of ?server = remote_keys_address 5000" by (simp add: address_of_def remote_keys_address_def SecureEnclaveApiServer_def)
  have "yields (piter (rotate_both rotating_env (served_by rotating_env toy_headers ?server) (remote_keys_address 5000)
      (send_evm rotating_env (sample_node ''a'')) (sample_node ''a'') toy_keys (PInt 2)) (py_range 7)) ()"
    by (rule yields_piter) (use rotating_both [of _ ?server] address in \<open>auto simp: py_range_def\<close>)
  then obtain t where run: "piter (rotate_both rotating_env (served_by rotating_env toy_headers ?server) (remote_keys_address 5000)
      (send_evm rotating_env (sample_node ''a'')) (sample_node ''a'') toy_keys (PInt 2)) (py_range 7) (sample_world 0 0 []) = Some (Inr (), t)"
    unfolding yields_def by blast
  have "rotation_bodies (sample_node ''a'') (sample_world 0 0 []) = []" by (simp add: rotation_bodies_def sample_world_def)
  with all_keys_rotated [OF run] run show ?thesis by auto
qed

section \<open>Properties: keys\<close>

definition held_keys :: "key_pair list \<Rightarrow> key_pair list \<Rightarrow> key_pair list" where
  "held_keys ss ms = concat (map (\<lambda>(a, b). [a, b]) (zip ss ms))"

lemma append_keys: "fold append_key ks (secrets, publics) = (secrets @ map kp_secret ks, publics @ map kp_publicKey ks)"
  by (induction ks arbitrary: secrets publics) (auto simp: append_key_def)

lemma more_keys_Inr:
  assumes "more_keys E model i ((ss, ms), (secrets, publics)) s = Some (Inr x, t)"
  shows "\<exists>a b. x = ((ss @ [a], ms @ [b]), (secrets @ [kp_secret a, kp_secret b], publics @ [kp_publicKey a, kp_publicKey b]))"
  using assms by (auto simp: more_keys_def append_key_def pbind_Inr_iff)

lemma more_keys_all:
  assumes "pfold (more_keys E model) xs ((ss, ms), (secrets, publics)) s = Some (Inr ((ss', ms'), (secrets', publics')), t)"
  shows "\<exists>as bs. length as = length xs \<and> length bs = length xs \<and> ss' = ss @ as \<and> ms' = ms @ bs \<and>
    secrets' = secrets @ map kp_secret (held_keys as bs) \<and> publics' = publics @ map kp_publicKey (held_keys as bs)"
  using assms
proof (induction xs arbitrary: ss ms secrets publics s)
  case (Cons i xs)
  from Cons.prems obtain x u where "more_keys E model i ((ss, ms), (secrets, publics)) s = Some (Inr x, u)"
    "pfold (more_keys E model) xs x u = Some (Inr ((ss', ms'), (secrets', publics')), t)" by (auto simp: pbind_Inr_iff)
  with more_keys_Inr obtain a b where "pfold (more_keys E model) xs ((ss @ [a], ms @ [b]),
      (secrets @ [kp_secret a, kp_secret b], publics @ [kp_publicKey a, kp_publicKey b])) u = Some (Inr ((ss', ms'), (secrets', publics')), t)" by blast
  from Cons.IH [OF this] obtain as bs where "length as = length xs" "length bs = length xs" "ss' = (ss @ [a]) @ as" "ms' = (ms @ [b]) @ bs"
    "secrets' = (secrets @ [kp_secret a, kp_secret b]) @ map kp_secret (held_keys as bs)"
    "publics' = (publics @ [kp_publicKey a, kp_publicKey b]) @ map kp_publicKey (held_keys as bs)" by blast
  then show ?case by (intro exI [of _ "a # as"] exI [of _ "b # bs"]) (simp add: held_keys_def)
qed (simp add: held_keys_def)

text \<open>The enclave can sign for every key of the test: the secrets and the public keys it gets are the genesis master keys, then the four
  single keys, then for each position the new signing and the new master key, in the same order in both lists, so
  that a public key and its secret stand at the same position.\<close>
theorem enclave_holds_keys:
  assumes "keys_of_test E model cert_max_keys info s = Some (Inr K, t)"
  shows "length (rk_new_signing K) = nat cert_max_keys \<and> length (rk_new_master K) = nat cert_max_keys \<and>
    rk_master_secrets K = cp_schnorr_masters_secrets (bi_certificate_proof_info info)
      @ map kp_secret ([rk_signing_1 K, rk_signing_2 K, rk_master_3 K, rk_signing_4 K] @ held_keys (rk_new_signing K) (rk_new_master K)) \<and>
    rk_public_master K = cp_public_master_keys (bi_certificate_proof_info info)
      @ map kp_publicKey ([rk_signing_1 K, rk_signing_2 K, rk_master_3 K, rk_signing_4 K] @ held_keys (rk_new_signing K) (rk_new_master K))"
proof -
  let ?info = "bi_certificate_proof_info info"
  from assms obtain k1 k2 k3 k4 u ss ms secrets publics
    where run: "pfold (more_keys E model) (py_range cert_max_keys) (([], []), fold append_key [k1, k2, k3, k4]
        (cp_schnorr_masters_secrets ?info, cp_public_master_keys ?info)) u = Some (Inr ((ss, ms), (secrets, publics)), t)"
      and K: "rk_signing_1 K = k1" "rk_signing_2 K = k2" "rk_master_3 K = k3" "rk_signing_4 K = k4" "rk_new_signing K = ss" "rk_new_master K = ms"
        "rk_master_secrets K = secrets" "rk_public_master K = publics"
    by (auto simp: keys_of_test_def Let_def pbind_Inr_iff simp del: fold.simps)
  from more_keys_all [OF run [unfolded append_keys]] K show ?thesis by (auto simp: py_range_def)
qed

definition toy_info :: sc_bootstrap_info where
  "toy_info = \<lparr>bi_sidechain_id = PStr ''s'', bi_genesis_account = None, bi_genesis_account_balance = PInt 100, bi_mainchain_block_height = PInt 500,
     bi_sidechain_genesis_block_hex = PNone, bi_pow_data = PNone, bi_network = PNone, bi_withdrawal_epoch_length = 10, bi_genesis_vrf_account = None,
     bi_certificate_proof_info = \<lparr>cp_threshold = PInt 5, cp_genSysConstant = PNone, cp_verificationKey = PNone,
       cp_schnorr_signers_secrets = [PStr ''s0''], cp_public_signing_keys = [PStr ''S0''],
       cp_schnorr_masters_secrets = [PStr ''m0''], cp_public_master_keys = [PStr ''M0'']\<rparr>,
     bi_initial_cumulative_comm_tree_hash = PNone, bi_is_non_ceasing = True, bi_cert_keys_paths = \<lparr>pk_proving_key_path = [], pk_verification_key_path = []\<rparr>,
     bi_csw_keys_paths = None, bi_genesis_evm_account = None, bi_circuit_type = KEY_ROTATION_CIRCUIT\<rparr>"

definition signer_answer :: pyval where
  "signer_answer = PDict [(''signerSecret'', PStr ''s1''), (''signerPublicKey'', PStr ''S1'')]"

definition key_env :: "sample env" where
  "key_env = sample_env\<lparr>e_run := \<lambda>c w. (Inr (0, (case json_dumps signer_answer of Inr t \<Rightarrow> t | Inl e \<Rightarrow> []), []), w)\<rparr>"

lemma key_env_new_key: "yields (new_key key_env model seed) \<lparr>kp_secret = PStr ''s1'', kp_publicKey = PStr ''S1''\<rparr>"
proof -
  have v: "json_value signer_answer" by (simp add: signer_answer_def)
  obtain out where out: "json_dumps signer_answer = Inr out" using json_dumps_total [OF v] by blast
  with json_roundtrip [OF v] have loads: "json_loads out = Inr signer_answer" by simp
  obtain p where p: "json_dumps (key_seed seed 0) = Inr p" using json_dumps_total [of "key_seed seed 0"] by (auto simp: key_seed_def)
  show ?thesis
    unfolding yields_def new_key_def generate_cert_signer_secrets_def launch_key_tool_def launch_bootstrap_tool_def Let_def
    by (simp add: py_range_def pbind_run p run_json_tool_def py_run_def pact_run ptry_run key_env_def out loads del: json_dumps.simps)
      (simp add: signer_answer_def key_of_def mk_key_pair_def list_get_def)
qed

theorem enclave_holds_keys_witness:
  "\<exists>K t. keys_of_test key_env ''account'' 1 toy_info (sample_world 0 0 []) = Some (Inr K, t) \<and>
    length (rk_master_secrets K) = 7 \<and> length (rk_public_master K) = 7 \<and> hd (rk_master_secrets K) = PStr ''m0''"
proof -
  let ?k = "\<lparr>kp_secret = PStr ''s1'', kp_publicKey = PStr ''S1''\<rparr>"
  have more: "yields (pfold (more_keys key_env ''account'') [0] (([], []), held)) (([?k], [?k]), append_key ?k (append_key ?k held))" for held
    unfolding more_keys_def by (simp, (rule yields_pbind key_env_new_key yields_plift | simp only: pfold.simps)+)
  have "\<exists>K. yields (keys_of_test key_env ''account'' 1 toy_info) K"
    unfolding keys_of_test_def Let_def py_range_def append_keys
    by (simp del: pfold.simps, (rule exI yields_pbind key_env_new_key more yields_plift | simp only: prod.case append_key_def)+)
  then obtain K t where run: "keys_of_test key_env ''account'' 1 toy_info (sample_world 0 0 []) = Some (Inr K, t)" unfolding yields_def by blast
  from enclave_holds_keys [OF run] obtain a b where "rk_new_signing K = [a]" "rk_new_master K = [b]" by (auto simp: length_Suc_conv)
  with enclave_holds_keys [OF run] run show ?thesis by (auto simp: toy_info_def held_keys_def)
qed

text \<open>What a comparison of the certifiers' keys shows: the reported keys, all of them, are the expected ones. It looks only at
  the positions of the reported signing keys.\<close>

definition key_matches :: "pyval \<Rightarrow> string \<Rightarrow> pyval list \<Rightarrow> int \<Rightarrow> bool" where
  "key_matches certifiers kind expected i \<longleftrightarrow> (\<exists>v e. reported_key certifiers kind i = Inr v \<and> list_get expected i = Inr e \<and> py_eq v e)"

lemma check_reported_key_Inr: "check_reported_key c kind expected i s = Some (Inr (), t) \<longleftrightarrow> t = s \<and> key_matches c kind expected i"
  by (auto simp: check_reported_key_def key_matches_def pbind_Inr_iff assert_equal_def rerr_def split: if_splits)

lemma piter_pure:
  assumes "\<And>x s t. f x s = Some (Inr (), t) \<longleftrightarrow> t = s \<and> P x"
  shows "piter f xs s = Some (Inr (), t) \<longleftrightarrow> t = s \<and> (\<forall>x \<in> set xs. P x)"
  by (induction xs arbitrary: s) (auto simp: pbind_Inr_iff assms)

lemma ball_py_range: "(\<forall>i \<in> set (py_range (int n)). P i) \<longleftrightarrow> (\<forall>i < n. P (int i))"
  unfolding py_range_def by (auto, metis int_nat_eq nat_less_iff)

text \<open>A comparison of the certifiers' keys succeeds exactly when at every position of the reported signing keys the reported signing key
  and the reported master key are the expected ones.\<close>
theorem certifiers_compared:
  assumes "py_get certifiers ''signingKeys'' = Inr (PList ks)"
  shows "check_certifiers certifiers signing master s = Some (Inr (), t) \<longleftrightarrow> t = s \<and> (\<forall>i < length ks.
    key_matches certifiers ''signingKeys'' signing (int i) \<and> key_matches certifiers ''masterKeys'' master (int i))"
proof -
  have both: "pseq (check_reported_key certifiers ''signingKeys'' signing i) (check_reported_key certifiers ''masterKeys'' master i) s = Some (Inr (), t) \<longleftrightarrow>
    t = s \<and> key_matches certifiers ''signingKeys'' signing i \<and> key_matches certifiers ''masterKeys'' master i" for i s t
    by (auto simp: pbind_Inr_iff check_reported_key_Inr)
  have "check_certifiers certifiers signing master s =
    piter (\<lambda>i. pseq (check_reported_key certifiers ''signingKeys'' signing i) (check_reported_key certifiers ''masterKeys'' master i)) (py_range (int (length ks))) s"
    by (simp add: check_certifiers_def assms pbind_run)
  then show ?thesis by (simp only: piter_pure [OF both] ball_py_range)
qed

theorem certifiers_compared_witness:
  "check_certifiers (PDict [(''signingKeys'', PList [PDict [(''publicKey'', PStr ''p'')]]), (''masterKeys'', PList [PDict [(''publicKey'', PStr ''q'')]])])
    [PStr ''p''] [PStr ''q''] (sample_world 0 0 []) = Some (Inr (), sample_world 0 0 [])"
  by (subst certifiers_compared [of _ "[PDict [(''publicKey'', PStr ''p'')]]"]) (simp_all add: key_matches_def reported_key_def py_nth_def list_get_def)

text \<open>A node that reports no keys passes every comparison.\<close>
theorem no_certifiers_accepted: "check_certifiers (PDict [(''signingKeys'', PList [])]) signing master s = Some (Inr (), s)"
  by (simp add: check_certifiers_def py_range_def pbind_run)

end
