(* ===== verification/Key_Rotation_Nodes.thy ===== *)
theory Key_Rotation_Nodes
  imports Key_Rotation
begin

text \<open>
  The test \<^verbatim>\<open>qa/sc_evm_cert_key_rotation_multiple_nodes.py\<close>: the rotation of certificate signing keys with three nodes, each
  with an enclave of its own that holds a part of the keys. The signatures of the test come from the enclave
  of the first node.
\<close>

section \<open>Set-up and keys\<close>

definition first_node_first_key_idx :: int where "first_node_first_key_idx = 0"
definition second_node_first_key_idx :: int where "second_node_first_key_idx = 3"
definition third_node_first_key_idx :: int where "third_node_first_key_idx = 6"

text \<open>\<^verbatim>\<open>range(a, b)\<close>\<close>

definition py_range_from :: "int \<Rightarrow> int \<Rightarrow> int list" where
  "py_range_from a b = [a..b - 1]"

definition mn_setup :: "account_setup \<Rightarrow> account_setup" where
  "mn_setup args = args\<lparr>as_number_of_sidechain_nodes := 3, as_withdrawalEpochLength := 10, as_circuittype_override := Some KEY_ROTATION_CIRCUIT,
     as_remote_keys_manager_enabled := True, as_remote_keys_server_addresses := map (\<lambda>x. remote_keys_address (5100 + x)) (py_range 3),
     as_cert_max_keys := 7, as_cert_sig_threshold := 5,
     as_submitters_private_keys_indexes := [py_range_from first_node_first_key_idx second_node_first_key_idx,
       py_range_from second_node_first_key_idx third_node_first_key_idx, py_range_from third_node_first_key_idx 7]\<rparr>"

text \<open>The slices of the key lists for the three nodes, \<^verbatim>\<open>l[:3]\<close>, \<^verbatim>\<open>l[3:6]\<close> and \<^verbatim>\<open>l[6:]\<close>.\<close>

definition mn_slices :: "'a list \<Rightarrow> 'a list \<times> 'a list \<times> 'a list" where
  "mn_slices l = (take (nat second_node_first_key_idx) l,
     take (nat (third_node_first_key_idx - second_node_first_key_idx)) (drop (nat second_node_first_key_idx) l), drop (nat third_node_first_key_idx) l)"

type_synonym holding = "pyval list \<times> pyval list"

definition mn_store :: "int \<Rightarrow> key_pair \<Rightarrow> key_pair \<Rightarrow> holding \<times> holding \<times> holding \<Rightarrow> holding \<times> holding \<times> holding" where
  "mn_store i new_s_key new_m_key = (\<lambda>(first, second, third).
     if i < second_node_first_key_idx then (append_key new_m_key (append_key new_s_key first), second, third)
     else if i < third_node_first_key_idx then (first, append_key new_m_key (append_key new_s_key second), third)
     else (first, second, append_key new_m_key (append_key new_s_key third)))"

definition mn_more_keys ::
  "'w env \<Rightarrow> int \<Rightarrow> (key_pair list \<times> key_pair list) \<times> (holding \<times> holding \<times> holding)
     \<Rightarrow> ('w, (key_pair list \<times> key_pair list) \<times> (holding \<times> holding \<times> holding)) prog" where
  "mn_more_keys E i = (\<lambda>((new_signing_keys, new_master_keys), held).
     pbind (new_key E AccountModel (''random_seed5'' @ str_int i)) (\<lambda>new_s_key.
     pbind (new_key E AccountModel (''random_seed6'' @ str_int i)) (\<lambda>new_m_key.
       pret ((new_signing_keys @ [new_s_key], new_master_keys @ [new_m_key]), mn_store i new_s_key new_m_key held))))"

text \<open>The keys of the test. The lists of the bootstrap information stay as they are; the signing secrets and public
  keys of the first node are the ones that the test signs with.\<close>

definition mn_keys :: "'w env \<Rightarrow> certificate_proof_info \<Rightarrow> ('w, rotation_keys \<times> (holding \<times> holding \<times> holding)) prog" where
  "mn_keys E proof_info =
     (let (sec1, sec2, sec3) = mn_slices (cp_schnorr_masters_secrets proof_info);
          (pub1, pub2, pub3) = mn_slices (cp_public_master_keys proof_info)
      in pbind (new_key E AccountModel ''random_seed'') (\<lambda>k1.
         pbind (new_key E AccountModel ''random_seed2'') (\<lambda>k2.
         pbind (new_key E AccountModel ''random_seed3'') (\<lambda>k3.
         pbind (new_key E AccountModel ''random_seed4'') (\<lambda>k4.
         pbind (pfold (mn_more_keys E) (py_range 7)
             (([], []), (fold append_key [k1, k2, k3, k4] (sec1, pub1), (sec2, pub2), (sec3, pub3)))) (\<lambda>((ss, ms), held).
           pret (\<lparr>rk_signing_secrets = cp_schnorr_signers_secrets proof_info, rk_public_signing = cp_public_signing_keys proof_info,
             rk_master_secrets = cp_schnorr_masters_secrets proof_info, rk_public_master = snd (fst held),
             rk_signing_1 = k1, rk_signing_2 = k2, rk_master_3 = k3, rk_signing_4 = k4, rk_new_signing = ss, rk_new_master = ms\<rparr>, held)))))))"

section \<open>Steps on all nodes\<close>

definition on_all_nodes :: "(sc_node \<Rightarrow> ('w, unit) prog) \<Rightarrow> ('w, unit) prog" where
  "on_all_nodes f = pbind self_sc_nodes (piter f)"

definition from_all_nodes :: "(sc_node \<Rightarrow> ('w, pyval) prog) \<Rightarrow> ('w, pyval list) prog" where
  "from_all_nodes f = pbind self_sc_nodes (pmap f)"

text \<open>The hashes of the keys that the nodes report for an epoch, with a check of each report.\<close>

definition mn_roots :: "'w env \<Rightarrow> pyval \<Rightarrow> (pyval \<Rightarrow> ('w, unit) prog) \<Rightarrow> ('w, pyval list) prog" where
  "mn_roots E epoch check = from_all_nodes (\<lambda>sc_node.
     pbind (certifiers_of E sc_node epoch) (\<lambda>(keys_hash, certifiers). pseq (check certifiers) (pret keys_hash)))"

text \<open>The keys are not looked at when only the hashes are asked for.\<close>

definition mn_plain_roots :: "'w env \<Rightarrow> pyval \<Rightarrow> ('w, pyval list) prog" where
  "mn_plain_roots E epoch = from_all_nodes (\<lambda>sc_node. at_path (http_get_certifiers_keys E sc_node epoch) [''keysRootHash''])"

definition mn_check_certificate :: "'w env \<Rightarrow> mc_node \<Rightarrow> pyval list \<Rightarrow> ('w, unit) prog" where
  "mn_check_certificate E mc_node hashes =
     pbind (pbind (mc_call E mc_node ''getrawmempool'' []) (\<lambda>r. plift (py_nth r 0))) (\<lambda>cert_hash.
     pbind (mc_field E mc_node ''getrawtransaction'' [cert_hash, PInt 1] [''cert'']) (\<lambda>cert.
     pseq (piter (\<lambda>key_root_hash.
        pbind (plift (rbind (py_get cert ''vFieldElementCertificateField'') (\<lambda>fs. py_nth fs 0))) (\<lambda>f.
          check_eq key_root_hash f ''Certificate Keys Root Hash incorrect'')) hashes) (
     pbind (plift (py_get cert ''quality'')) (\<lambda>q. check_eq (PInt 7) q ''Certificate quality is wrong.''))))"

definition mn_certificate :: "'w env \<Rightarrow> mc_node \<Rightarrow> sc_node \<Rightarrow> pyval list \<Rightarrow> ('w, unit) prog" where
  "mn_certificate E mc_node sc_node_1 hashes =
     pseq (open_epoch E mc_node sc_node_1) (
     pseq (sc_sync_all E False) (
     pseq (await_certificate E mc_node sc_node_1)
       (mn_check_certificate E mc_node hashes)))"

text \<open>The block with the certificate; the nodes are synchronised before its references are checked.\<close>

definition mn_include :: "'w env \<Rightarrow> mc_node \<Rightarrow> sc_node \<Rightarrow> ('w, unit) prog" where
  "mn_include E mc_node sc_node_1 =
     pbind (mc_generate E mc_node 1 0) (\<lambda>mcblock_hash.
     pbind (generate_one E sc_node_1 ''first node'') (\<lambda>scblock_id.
     pseq (sc_sync_all E False)
       (check_mcreference_presence E mcblock_hash scblock_id sc_node_1)))"

definition mn_close :: "'w env \<Rightarrow> mc_node \<Rightarrow> sc_node \<Rightarrow> ('w, unit) prog" where
  "mn_close E mc_node sc_node_1 =
     pbind (mc_generate E mc_node 8 0) (\<lambda>end_mcblock_hash.
     pbind (generate_next_block E sc_node_1 ''first node'' False PNone) (\<lambda>sc_block_id.
     pseq (sc_sync_all E False)
       (check_mcreferencedata_presence E end_mcblock_hash sc_block_id sc_node_1)))"

definition mn_no_proofs :: "'w env \<Rightarrow> pyval \<Rightarrow> ('w, unit) prog" where
  "mn_no_proofs E epoch = on_all_nodes (\<lambda>sc_node. no_rotation_proofs E sc_node 7 epoch)"

section \<open>The epochs\<close>

definition mn_address :: string where "mn_address = remote_keys_address 5100"

text \<open>A change that succeeds: a transaction that is accepted, with its event.\<close>

definition mn_logged_change :: "'w env \<Rightarrow> eth_tools \<Rightarrow> sc_node \<Rightarrow> int \<Rightarrow> pyval \<Rightarrow> signatures \<Rightarrow> pyval \<Rightarrow> ('w, unit) prog" where
  "mn_logged_change E T sc_node_1 key_type pk sg epoch =
     pbind (rotate_evm E sc_node_1 key_type 0 pk sg PNone PNone) (\<lambda>response.
     pseq (check_no_error response) (
     pbind (mined_receipt E sc_node_1 1 response) (\<lambda>receipt.
     pbind (plift (as_int epoch)) (\<lambda>e.
     pseq (check_rotation_log T receipt key_type 0 pk e)
       (sc_sync_all E False)))))"

definition mn_epoch_0 :: "'w env \<Rightarrow> mc_node \<Rightarrow> sc_node \<Rightarrow> ('w, pyval list) prog" where
  "mn_epoch_0 E mc_node sc_node_1 =
     pbind (all_withdrawal_requests E sc_node_1 (PInt 0)) (\<lambda>list_of_wr.
     pbind (plift (py_len list_of_wr)) (\<lambda>n.
     pseq (check_eq (PInt 0) (PInt n) []) (
     pseq (sync_forge_sync E sc_node_1) (
     pseq (generate_next_blocks E sc_node_1 ''first node'' 1) (
     pseq (sc_sync_all E False) (
     pbind (mn_roots E (PInt (-1)) (\<lambda>certifiers. check_key_counts certifiers 7)) (\<lambda>hashes.
     pseq (mn_no_proofs E (PInt 0)) (
     pseq (mn_close E mc_node sc_node_1)
       (pret hashes)))))))))"

definition mn_epoch_1 :: "'w env \<Rightarrow> eth_tools \<Rightarrow> 'w post \<Rightarrow> mc_node \<Rightarrow> sc_node \<Rightarrow> rotation_keys \<Rightarrow> pyval list \<Rightarrow> ('w, pyval list) prog" where
  "mn_epoch_1 E T post mc_node sc_node_1 K hashes =
     (let sign = (\<lambda>epoch key_type k. sign_rotation E post mn_address sc_node_1 key_type epoch (genesis_master K 0) (genesis_signing K 0) k);
          pk1 = kp_publicKey (rk_signing_1 K); pk2 = kp_publicKey (rk_signing_2 K); pk3 = kp_publicKey (rk_master_3 K)
      in pseq (mn_certificate E mc_node sc_node_1 hashes) (
         pseq (mn_include E mc_node sc_node_1) (
         pbind (get_withdrawal_epoch E sc_node_1) (\<lambda>epoch.
         pbind (sign epoch 0 (rk_signing_1 K)) (\<lambda>sg.
         pseq (mn_logged_change E T sc_node_1 0 pk1 sg epoch) (
         pseq (on_all_nodes (\<lambda>sc_node. check_rotation_proof E sc_node epoch sg pk1)) (
         pbind (sign epoch 0 (rk_signing_2 K)) (\<lambda>sg2.
         pseq (rotation_reverted E sc_node_1 0 pk2 (sg\<lparr>sg_new := sg_new sg2\<rparr>)) (
         pbind (rotate_evm E sc_node_1 0 0 pk2 sg2 PNone PNone) (\<lambda>response.
         pseq (check_no_error response) (
         pseq (sync_forge_sync E sc_node_1) (
         pseq (on_all_nodes (\<lambda>sc_node. check_rotation_proof E sc_node epoch sg2 pk2)) (
         pbind (sign epoch 1 (rk_master_3 K)) (\<lambda>sg3.
         pseq (mn_logged_change E T sc_node_1 1 pk3 sg3 epoch) (
         pseq (mn_close E mc_node sc_node_1)
           (mn_roots E epoch (\<lambda>certifiers.
              pseq (check_reported_key certifiers ''signingKeys'' [pk2] 0)
                (check_reported_key certifiers ''masterKeys'' [pk3] 0))))))))))))))))))"

text \<open>An epoch without a change; its number is returned with the hashes.\<close>

definition mn_quiet_epoch :: "'w env \<Rightarrow> mc_node \<Rightarrow> sc_node \<Rightarrow> pyval list \<Rightarrow> ('w, pyval \<times> pyval list) prog" where
  "mn_quiet_epoch E mc_node sc_node_1 hashes =
     pseq (mn_certificate E mc_node sc_node_1 hashes) (
     pseq (mn_include E mc_node sc_node_1) (
     pbind (get_withdrawal_epoch E sc_node_1) (\<lambda>epoch.
     pseq (mn_no_proofs E epoch) (
     pseq (mn_close E mc_node sc_node_1) (
     pbind (mn_plain_roots E epoch) (\<lambda>hashes. pret (epoch, hashes)))))))"

text \<open>In epoch 4 the proofs are still asked for with the number of the previous epoch.\<close>

definition mn_epoch_4 ::
  "'w env \<Rightarrow> 'w post \<Rightarrow> mc_node \<Rightarrow> sc_node \<Rightarrow> rotation_keys \<Rightarrow> pyval \<Rightarrow> pyval list \<Rightarrow> ('w, pyval list) prog" where
  "mn_epoch_4 E post mc_node sc_node_1 K epoch hashes =
     pseq (mn_certificate E mc_node sc_node_1 hashes) (
     pseq (mn_include E mc_node sc_node_1) (
     pseq (mn_no_proofs E epoch) (
     pbind (get_withdrawal_epoch E sc_node_1) (\<lambda>epoch.
     pbind (sign_rotation E post mn_address sc_node_1 0 epoch (secret_of (rk_master_3 K)) (secret_of (rk_signing_2 K)) (rk_signing_4 K)) (\<lambda>sg.
     pbind (rotate_evm E sc_node_1 0 0 (kp_publicKey (rk_signing_4 K)) sg PNone PNone) (\<lambda>response.
     pseq (check_no_error response) (
     pseq (sync_forge_sync E sc_node_1) (
     pseq (close_epoch E mc_node sc_node_1 8)
       (from_all_nodes (\<lambda>sc_node.
          pbind (http_get_certifiers_keys E sc_node epoch) (\<lambda>keys.
          pbind (plift (py_get keys ''certifiersKeys'')) (\<lambda>certifiers.
          pseq (check_reported_key certifiers ''signingKeys'' [kp_publicKey (rk_signing_4 K)] 0)
            (plift (py_get keys ''keysRootHash''))))))))))))))"

definition mn_epoch_5 :: "'w env \<Rightarrow> 'w post \<Rightarrow> mc_node \<Rightarrow> sc_node \<Rightarrow> rotation_keys \<Rightarrow> pyval list \<Rightarrow> ('w, pyval list) prog" where
  "mn_epoch_5 E post mc_node sc_node_1 K hashes =
     pseq (mn_certificate E mc_node sc_node_1 hashes) (
     pseq (include_certificate E mc_node sc_node_1) (
     pbind (get_withdrawal_epoch E sc_node_1) (\<lambda>epoch.
     pseq (mn_no_proofs E epoch) (
     pseq (piter (rotate_both E post mn_address (send_evm E sc_node_1) sc_node_1 K epoch) (py_range 7)) (
     pseq (generate_next_blocks E sc_node_1 ''first node'' 1) (
     pseq (sc_sync_all E False) (
     pseq (on_all_nodes (\<lambda>sc_node. check_all_proofs E sc_node 7 epoch K)) (
     pseq (close_epoch E mc_node sc_node_1 8) (
     pbind (at_path (http_get_certifiers_keys E sc_node_1 epoch) [''certifiersKeys'']) (\<lambda>certifiers.
     pseq (check_certifiers certifiers (new_publics (rk_new_signing K)) (new_publics (rk_new_master K)))
       (mn_plain_roots E epoch)))))))))))"

definition mn_epoch_6 :: "'w env \<Rightarrow> mc_node \<Rightarrow> sc_node \<Rightarrow> pyval list \<Rightarrow> ('w, unit) prog" where
  "mn_epoch_6 E mc_node sc_node_1 hashes =
     pseq (mn_certificate E mc_node sc_node_1 hashes) (
     pseq (include_certificate E mc_node sc_node_1) (
     pseq (mc_call E mc_node ''generate'' [PInt 8]) (
     pseq (generate_next_block E sc_node_1 ''first node'' False PNone)
       (sc_sync_all E False))))"

definition mn_enclave :: "'w enclave \<Rightarrow> holding \<Rightarrow> int \<Rightarrow> 'w post" where
  "mn_enclave enclave held x = start_enclave enclave (fst held) (snd held) (5100 + x)"

definition mn_run_test :: "'w env \<Rightarrow> eth_tools \<Rightarrow> 'w enclave \<Rightarrow> account_setup \<Rightarrow> ('w, unit) prog" where
  "mn_run_test E T enclave self =
     pseq (py_sleep E (1 / 10)) (
     pbind (sc_ac_setup E self True True (PInt 10)) (\<lambda>self.
     pbind (mc_nth 0) (\<lambda>mc_node.
     pbind (sc_nth 0) (\<lambda>sc_node_1.
     pbind (plift (as_bootstrap_info self)) (\<lambda>info.
     pbind (mn_keys E (bi_certificate_proof_info info)) (\<lambda>(K, held).
       let post = mn_enclave enclave (fst held) 0
       in pbind (mn_epoch_0 E mc_node sc_node_1) (\<lambda>hashes.
          pbind (mn_epoch_1 E T post mc_node sc_node_1 K hashes) (\<lambda>hashes.
          pbind (mn_quiet_epoch E mc_node sc_node_1 hashes) (\<lambda>(_, hashes).
          pbind (mn_quiet_epoch E mc_node sc_node_1 hashes) (\<lambda>(epoch, hashes).
          pbind (mn_epoch_4 E post mc_node sc_node_1 K epoch hashes) (\<lambda>hashes.
          pbind (mn_epoch_5 E post mc_node sc_node_1 K hashes) (\<lambda>hashes.
          pseq (mn_epoch_6 E mc_node sc_node_1 hashes)
            (mn_certificate E mc_node sc_node_1 hashes)))))))))))))"

section \<open>Properties\<close>

lemma mn_more_keys_Inr:
  assumes "mn_more_keys E i ((ss, ms), held) s = Some (Inr x, t)"
  shows "\<exists>a b. x = ((ss @ [a], ms @ [b]), mn_store i a b held)"
  using assms by (auto simp: mn_more_keys_def pbind_Inr_iff)

text \<open>The keys that an enclave gets for a list of positions.\<close>

definition keys_at :: "rotation_keys \<Rightarrow> int list \<Rightarrow> key_pair list" where
  "keys_at K positions = concat (map (\<lambda>i. [rk_new_signing K ! nat i, rk_new_master K ! nat i]) positions)"

lemma mn_more_keys_all:
  assumes "pfold (mn_more_keys E) xs ((ss, ms), held) s = Some (Inr ((ss', ms'), held'), t)"
  shows "\<exists>as bs. length as = length xs \<and> length bs = length xs \<and> ss' = ss @ as \<and> ms' = ms @ bs \<and>
    held' = fold (\<lambda>(i, a, b). mn_store i a b) (zip xs (zip as bs)) held"
  using assms
proof (induction xs arbitrary: ss ms held s)
  case (Cons i xs)
  from Cons.prems obtain x u where "mn_more_keys E i ((ss, ms), held) s = Some (Inr x, u)"
    "pfold (mn_more_keys E) xs x u = Some (Inr ((ss', ms'), held'), t)" by (auto simp: pbind_Inr_iff)
  with mn_more_keys_Inr obtain a b where "pfold (mn_more_keys E) xs ((ss @ [a], ms @ [b]), mn_store i a b held) u = Some (Inr ((ss', ms'), held'), t)" by blast
  from Cons.IH [OF this] obtain as bs where "length as = length xs" "length bs = length xs" "ss' = ss @ a # as" "ms' = ms @ b # bs"
    "held' = fold (\<lambda>(i, a, b). mn_store i a b) (zip xs (zip as bs)) (mn_store i a b held)" by auto
  then show ?case by (intro exI [of _ "a # as"] exI [of _ "b # bs"]) simp
qed simp

lemma seven: "length l = 7 \<Longrightarrow> l = [l ! 0, l ! 1, l ! 2, l ! 3, l ! 4, l ! 5, l ! 6]"
  by (auto simp: list_eq_iff_nth_eq less_Suc_eq numeral_eq_Suc)

lemma mn_slices_seven:
  assumes "length l = 7"
  shows "mn_slices l = ([l ! 0, l ! 1, l ! 2], [l ! 3, l ! 4, l ! 5], [l ! 6])"
  by (subst (1) seven [OF assms]) (simp add: mn_slices_def second_node_first_key_idx_def third_node_first_key_idx_def)

text \<open>C22. Every node can have its own keys signed. With seven genesis master keys, the enclave of each node gets, in this order, the genesis
  master keys at exactly the positions that the node is configured to sign for, the first one also the four single keys of
  the test, and then for each of these positions the new signing and the new master key; the lists of secrets and of
  public keys have the same order. Together the positions of the three nodes are 0 to 6, each once.\<close>
theorem node_enclaves_hold_keys:
  assumes "mn_keys E proof_info s = Some (Inr (K, held), t)"
    and "positions = as_submitters_private_keys_indexes (mn_setup args)"
    and "cp_schnorr_masters_secrets proof_info = secrets" and "length secrets = 7"
    and "cp_public_master_keys proof_info = publics" and "length publics = 7"
  shows "concat positions = [0..6] \<and> held =
    ((map (\<lambda>i. secrets ! nat i) (positions ! 0)
        @ map kp_secret ([rk_signing_1 K, rk_signing_2 K, rk_master_3 K, rk_signing_4 K] @ keys_at K (positions ! 0)),
      map (\<lambda>i. publics ! nat i) (positions ! 0)
        @ map kp_publicKey ([rk_signing_1 K, rk_signing_2 K, rk_master_3 K, rk_signing_4 K] @ keys_at K (positions ! 0))),
     (map (\<lambda>i. secrets ! nat i) (positions ! 1) @ map kp_secret (keys_at K (positions ! 1)),
      map (\<lambda>i. publics ! nat i) (positions ! 1) @ map kp_publicKey (keys_at K (positions ! 1))),
     (map (\<lambda>i. secrets ! nat i) (positions ! 2) @ map kp_secret (keys_at K (positions ! 2)),
      map (\<lambda>i. publics ! nat i) (positions ! 2) @ map kp_publicKey (keys_at K (positions ! 2))))"
proof -
  have range7: "py_range 7 = [0, 1, 2, 3, 4, 5, 6]" "[0..2::int] = [0, 1, 2]" "[3..5::int] = [3, 4, 5]" "[6..6::int] = [6]" "[0..6::int] = [0, 1, 2, 3, 4, 5, 6]"
    by (simp_all add: py_range_def upto.simps)
  have pos: "positions = [[0, 1, 2], [3, 4, 5], [6]]" using assms(2) range7
    by (simp add: mn_setup_def py_range_from_def first_node_first_key_idx_def second_node_first_key_idx_def third_node_first_key_idx_def)
  obtain sec1 sec2 sec3 where sec: "mn_slices (cp_schnorr_masters_secrets proof_info) = (sec1, sec2, sec3)" by (metis prod_cases3)
  obtain pub1 pub2 pub3 where pub: "mn_slices (cp_public_master_keys proof_info) = (pub1, pub2, pub3)" by (metis prod_cases3)
  have slices: "sec1 = [secrets ! 0, secrets ! 1, secrets ! 2]" "sec2 = [secrets ! 3, secrets ! 4, secrets ! 5]" "sec3 = [secrets ! 6]"
    "pub1 = [publics ! 0, publics ! 1, publics ! 2]" "pub2 = [publics ! 3, publics ! 4, publics ! 5]" "pub3 = [publics ! 6]"
    using mn_slices_seven [OF assms(4)] mn_slices_seven [OF assms(6)] sec pub assms(3,5) by simp_all
  from assms(1) obtain k1 k2 k3 k4 u ss ms
    where run: "pfold (mn_more_keys E) (py_range 7) (([], []), (fold append_key [k1, k2, k3, k4] (sec1, pub1), (sec2, pub2), (sec3, pub3))) u
        = Some (Inr ((ss, ms), held), t)"
      and K: "rk_signing_1 K = k1" "rk_signing_2 K = k2" "rk_master_3 K = k3" "rk_signing_4 K = k4" "rk_new_signing K = ss" "rk_new_master K = ms"
    by (auto simp: mn_keys_def sec pub pbind_Inr_iff simp del: fold.simps)
  from mn_more_keys_all [OF run] have len: "length ss = 7" "length ms = 7" and
    held: "held = fold (\<lambda>(i, a, b). mn_store i a b) (zip [0, 1, 2, 3, 4, 5, 6] (zip ss ms)) (fold append_key [k1, k2, k3, k4] (sec1, pub1), (sec2, pub2), (sec3, pub3))"
    unfolding range7 by auto
  obtain a0 a1 a2 a3 a4 a5 a6 b0 b1 b2 b3 b4 b5 b6 where "ss = [a0, a1, a2, a3, a4, a5, a6]" "ms = [b0, b1, b2, b3, b4, b5, b6]"
    using seven [OF len(1)] seven [OF len(2)] by blast
  with held K pos slices range7 show ?thesis
    by (simp add: append_keys mn_store_def append_key_def keys_at_def second_node_first_key_idx_def third_node_first_key_idx_def)
qed

lemma yields_pfold:
  assumes "\<And>x acc. \<exists>acc'. yields (f x acc) acc'"
  shows "\<exists>r. yields (pfold f xs acc) r"
proof (induction xs arbitrary: acc)
  case (Cons x xs)
  from assms obtain acc' where "yields (f x acc) acc'" by blast
  with Cons.IH [of acc'] show ?case by (auto intro: yields_pbind)
qed (auto intro: yields_plift)

definition seven_masters :: certificate_proof_info where
  "seven_masters = (bi_certificate_proof_info toy_info)\<lparr>
     cp_schnorr_masters_secrets := map (\<lambda>i. PStr (''m'' @ str_int i)) (py_range 7),
     cp_public_master_keys := map (\<lambda>i. PStr (''M'' @ str_int i)) (py_range 7)\<rparr>"

theorem node_enclaves_hold_keys_witness:
  "\<exists>K t. mn_keys key_env seven_masters (sample_world 0 0 []) = Some (Inr K, t) \<and>
    length (fst (fst (snd K))) = 13 \<and> length (snd (fst (snd (snd K)))) = 9 \<and> length (fst (snd (snd (snd K)))) = 3 \<and>
    hd (fst (fst (snd (snd K)))) = PStr ''m3'' \<and> hd (snd (snd (snd (snd K)))) = PStr ''M6''"
proof -
  let ?k = "\<lparr>kp_secret = PStr ''s1'', kp_publicKey = PStr ''S1''\<rparr>"
  let ?secrets = "cp_schnorr_masters_secrets seven_masters" and ?publics = "cp_public_master_keys seven_masters"
  have step: "\<exists>acc'. yields (mn_more_keys key_env i acc) acc'" for i acc
    unfolding mn_more_keys_def unfolding split_beta by (rule exI, (rule yields_pbind key_env_new_key yields_plift)+)
  have "\<exists>K. yields (mn_keys key_env seven_masters) K"
  proof -
    let ?held = "(fold append_key [?k, ?k, ?k, ?k] (fst (mn_slices ?secrets), fst (mn_slices ?publics)),
      (fst (snd (mn_slices ?secrets)), fst (snd (mn_slices ?publics))), (snd (snd (mn_slices ?secrets)), snd (snd (mn_slices ?publics))))"
    obtain ss ms held where more: "yields (pfold (mn_more_keys key_env) (py_range 7) (([], []), ?held)) ((ss, ms), held)"
      using yields_pfold [of "mn_more_keys key_env", OF step] by (metis surj_pair)
    show ?thesis
      unfolding mn_keys_def Let_def split_beta
      by (rule exI, (rule yields_pbind key_env_new_key more yields_plift | simp only: fst_conv snd_conv)+)
  qed
  then obtain K t where run: "mn_keys key_env seven_masters (sample_world 0 0 []) = Some (Inr K, t)" unfolding yields_def by blast
  obtain K1 held where K: "K = (K1, held)" by (cases K)
  have len: "length ?secrets = 7" "length ?publics = 7" by (simp_all add: seven_masters_def py_range_def)
  have at: "?secrets ! 3 = PStr ''m3''" "?publics ! 6 = PStr ''M6''"
    by (simp_all add: seven_masters_def py_range_def upto.simps str_int_def nat_str.simps digit_char_def)
  from node_enclaves_hold_keys [OF run [unfolded K] refl refl len(1) refl len(2), of "sample_setup 3"] run K at show ?thesis
    by (auto simp: mn_setup_def keys_at_def py_range_from_def upto.simps
        first_node_first_key_idx_def second_node_first_key_idx_def third_node_first_key_idx_def)
qed

end
