(* ===== verification/Key_Rotation_Utxo.thy ===== *)
theory Key_Rotation_Utxo
  imports Key_Rotation
begin

text \<open>
  The tests of the rotation of certificate signing keys in the UTXO model (\<^verbatim>\<open>qa/sc_cert_key_rotation.py\<close> and
  \<^verbatim>\<open>sc_cert_key_rotation_across_epoch.py\<close>), and those on a circuit without rotation for both models
  (\<^verbatim>\<open>sc_cert_key_rotation_old_circuit.py\<close>, \<^verbatim>\<open>sc_evm_cert_key_rotation_old_circuit.py\<close>). A transaction that the node does not accept is answered with an
  error or raises; nothing of it reaches a block.
\<close>

section \<open>Set-up\<close>

definition ku_setup_nodes :: "'w env \<Rightarrow> string \<Rightarrow> ('w, mc_node list) prog" where
  "ku_setup_nodes E tmpdir =
     start_nodes E 1 tmpdir (Some [Some [''-debug=sc'', ''-debug=ws'', ''-logtimemicros=1'', ''-scproofqueuesize=0'']]) None None"

definition ku_chain :: "'w env \<Rightarrow> run_options \<Rightarrow> (sc_node_configuration \<Rightarrow> sc_node_configuration) \<Rightarrow> ('w, sc_bootstrap_info) prog" where
  "ku_chain E options configure =
     pbind (mc_nth 0) (\<lambda>mc_node.
     pbind (pget (\<lambda>s. ws_address E s mc_node 0)) (\<lambda>address.
     pbind (plift (SCCreationInfo mc_node (PInt 100) 10 0 SC_CREATION_VERSION_2 7 5 False False KEY_ROTATION_CIRCUIT)) (\<lambda>creation.
       bootstrap_sidechain_nodes E options
         \<lparr>net_sc_creation_info = creation, net_sc_nodes_configuration = [configure (connected_to address)]\<rparr> (PInt (720 * 120 * 10)) UtxoModel)))"

definition ku_sc_setup_chain :: "'w env \<Rightarrow> run_options \<Rightarrow> ('w, sc_bootstrap_info) prog" where
  "ku_sc_setup_chain E options = ku_chain E options (\<lambda>c.
     SCNodeConfiguration None (PStr (remote_keys_address 5002)) (c\<lparr>nc_remote_keys_manager_enabled := True\<rparr>))"

definition kua_sc_setup_chain :: "'w env \<Rightarrow> run_options \<Rightarrow> ('w, sc_bootstrap_info) prog" where
  "kua_sc_setup_chain E options = ku_chain E options (SCNodeConfiguration None PNone)"

definition ku_sc_setup_nodes :: "'w env \<Rightarrow> string \<Rightarrow> ('w, sc_node list) prog" where
  "ku_sc_setup_nodes E tmpdir = start_sc_nodes E 1 tmpdir None None None False (Some DEFAULT_API_KEY)"

definition ku_forward :: "'w env \<Rightarrow> sc_bootstrap_info \<Rightarrow> mc_node \<Rightarrow> pyval \<Rightarrow> bool \<Rightarrow> ('w, unit) prog" where
  "ku_forward E info mc_node address generate_block =
     pbind (mc_call E mc_node ''getnewaddress'' []) (\<lambda>mc_return_address.
     pseq (forward_transfer_to_sidechain E (bi_sidechain_id info) mc_node address (bi_genesis_account_balance info) mc_return_address generate_block) (pret ()))"

section \<open>Rotations\<close>

definition rotate_utxo :: "'w env \<Rightarrow> sc_node \<Rightarrow> int \<Rightarrow> int \<Rightarrow> pyval \<Rightarrow> signatures \<Rightarrow> bool \<Rightarrow> ('w, pyval) prog" where
  "rotate_utxo E sc_node key_type key_index new_pub sg send =
     http_create_key_rotation_transaction E sc_node (PInt key_type) (PInt key_index) new_pub (sg_signing sg) (sg_master sg) (sg_new sg) send send None"

definition utxo_refused :: "'w env \<Rightarrow> sc_node \<Rightarrow> int \<Rightarrow> int \<Rightarrow> pyval \<Rightarrow> signatures \<Rightarrow> string \<Rightarrow> ('w, unit) prog" where
  "utxo_refused E sc_node key_type key_index pk sg reason =
     pbind (rotate_utxo E sc_node key_type key_index pk sg True) (\<lambda>response.
     pbind (plift (py_in ''error'' response)) (\<lambda>b.
     pseq (check_that b []) (error_says response ''detail'' reason)))"

text \<open>A bare \<^verbatim>\<open>except\<close>: whatever the body raises is an expected failure.\<close>

definition must_raise :: "('w, 'a) prog \<Rightarrow> ('w, unit) prog" where
  "must_raise body = pbind (ptry (pseq body (pret False)) (\<lambda>_. pret True)) (\<lambda>raised.
     if raised then pret () else plift (fail ''Exception expected''))"

definition utxo_must_raise :: "'w env \<Rightarrow> sc_node \<Rightarrow> pyval \<Rightarrow> signatures \<Rightarrow> ('w, unit) prog" where
  "utxo_must_raise E sc_node pk sg = must_raise (at_path (rotate_utxo E sc_node 0 0 pk sg True) [''result'', ''transactionId''])"

definition SIGNING_INVALID :: string where
  "SIGNING_INVALID = ''Signing key signature in CertificateKeyRotationTransaction is not valid''"

text \<open>Signatures of a message that is not the one of this change: for a master key, or for the next epoch.\<close>

definition utxo_wrong_message :: "'w env \<Rightarrow> 'w post \<Rightarrow> sc_node \<Rightarrow> rotation_keys \<Rightarrow> int \<Rightarrow> pyval \<Rightarrow> ('w, unit) prog" where
  "utxo_wrong_message E post sc_node K message_type epoch =
     pbind (sign_rotation E post (remote_keys_address 5002) sc_node message_type epoch (genesis_master K 0) (genesis_signing K 0) (rk_signing_1 K)) (\<lambda>wrong.
       utxo_refused E sc_node 0 0 (kp_publicKey (rk_signing_1 K)) wrong SIGNING_INVALID)"

definition utxo_negative_cases :: "'w env \<Rightarrow> 'w post \<Rightarrow> sc_node \<Rightarrow> rotation_keys \<Rightarrow> signatures \<Rightarrow> pyval \<Rightarrow> ('w, unit) prog" where
  "utxo_negative_cases E post sc_node K sg epoch =
     (let pk = kp_publicKey (rk_signing_1 K)
      in pseq (utxo_refused E sc_node 0 0 pk (sg\<lparr>sg_signing := sg_master sg\<rparr>) SIGNING_INVALID) (
         pseq (utxo_refused E sc_node 0 0 pk (sg\<lparr>sg_master := sg_signing sg\<rparr>) ''Master key signature in CertificateKeyRotationTransaction is not valid'') (
         pseq (utxo_refused E sc_node 0 0 pk (sg\<lparr>sg_new := sg_master sg\<rparr>) ''New key signature in CertificateKeyRotationTransaction is not valid'') (
         pseq (utxo_refused E sc_node 0 100 pk sg ''Key index in CertificateKeyRotationTransaction is out of range'') (
         pseq (utxo_refused E sc_node 356 0 pk sg ''Key type enumeration value should be valid!'') (
         pseq (utxo_refused E sc_node 0 2 pk sg SIGNING_INVALID) (
         pseq (utxo_wrong_message E post sc_node K 1 epoch) (
         pbind (plift (as_int epoch)) (\<lambda>e. utxo_wrong_message E post sc_node K 0 (PInt (e + 1)))))))))))"

section \<open>The test\<close>

definition ku_fund :: "'w env \<Rightarrow> sc_bootstrap_info \<Rightarrow> mc_node \<Rightarrow> sc_node \<Rightarrow> ('w, unit) prog" where
  "ku_fund E info mc_node sc_node =
     pbind (http_wallet_createPrivateKey25519 E sc_node None) (\<lambda>sc_address_1.
     pseq (ku_forward E info mc_node sc_address_1 True) (
     pseq (sync_forge_sync E sc_node) (
     pseq (sendCointsToMultipleAddress E sc_node (replicate 20 sc_address_1) (replicate 20 (PInt 1000)) (PInt 0))
       (sync_forge_sync E sc_node))))"

definition ku_changes_0 :: "'w env \<Rightarrow> 'w post \<Rightarrow> sc_node \<Rightarrow> rotation_keys \<Rightarrow> pyval \<Rightarrow> ('w, unit) prog" where
  "ku_changes_0 E post sc_node K epoch =
     (let sign = (\<lambda>key_type k. sign_rotation E post (remote_keys_address 5002) sc_node key_type epoch (genesis_master K 0) (genesis_signing K 0) k);
          pk1 = kp_publicKey (rk_signing_1 K); pk2 = kp_publicKey (rk_signing_2 K); pk3 = kp_publicKey (rk_master_3 K)
      in pbind (sign 0 (rk_signing_1 K)) (\<lambda>sg.
         pseq (utxo_negative_cases E post sc_node K sg epoch) (
         pseq (rotate_utxo E sc_node 0 0 pk1 sg True) (
         pseq (utxo_must_raise E sc_node pk1 sg) (
         pseq (sync_forge_sync E sc_node) (
         pseq (check_rotation_proof E sc_node (PInt 0) sg pk1) (
         pbind (sign 0 (rk_signing_2 K)) (\<lambda>sg2.
         pseq (utxo_must_raise E sc_node pk2 (sg\<lparr>sg_new := sg_new sg2\<rparr>)) (
         pseq (rotate_utxo E sc_node 0 0 pk2 sg2 True) (
         pseq (sync_forge_sync E sc_node) (
         pseq (check_rotation_proof E sc_node (PInt 0) sg2 pk2) (
         pbind (sign 1 (rk_master_3 K)) (\<lambda>sg3.
         pseq (rotate_utxo E sc_node 1 0 pk3 sg3 True)
           (sync_forge_sync E sc_node))))))))))))))"

text \<open>The end of an epoch; the hash of the block and the block of the sidechain are asked for and not used.\<close>

definition ku_close :: "'w env \<Rightarrow> mc_node \<Rightarrow> sc_node \<Rightarrow> ('w, unit) prog \<Rightarrow> ('w, unit) prog" where
  "ku_close E mc_node sc_node before_block =
     pbind (mc_generate E mc_node 8 0) (\<lambda>end_hash.
     pseq (mc_field E mc_node ''getblock'' [end_hash] [''scCumTreeHash'']) (
     pseq before_block (
     pbind (generate_next_block E sc_node ''first node'' False PNone) (\<lambda>sc_block_id.
     pseq (http_block_findById E sc_node sc_block_id)
       (check_mcreferencedata_presence E end_hash sc_block_id sc_node)))))"

definition certifiers_at :: "'w env \<Rightarrow> sc_node \<Rightarrow> int \<Rightarrow> ('w, pyval) prog" where
  "certifiers_at E sc_node epoch = at_path (http_get_certifiers_keys E sc_node (PInt epoch)) [''certifiersKeys'']"

text \<open>In the first epoch the keys of the genesis are in force until its last block.\<close>

definition ku_epoch_0 :: "'w env \<Rightarrow> 'w post \<Rightarrow> mc_node \<Rightarrow> sc_node \<Rightarrow> rotation_keys \<Rightarrow> ('w, unit) prog" where
  "ku_epoch_0 E post mc_node sc_node K =
     pbind (certifiers_at E sc_node (-1)) (\<lambda>certifiers.
     pseq (check_key_counts certifiers 7) (
     pseq (no_rotation_proofs E sc_node 7 (PInt 0)) (
     pbind (get_withdrawal_epoch E sc_node) (\<lambda>epoch.
     pseq (ku_changes_0 E post sc_node K epoch) (
     pseq (ku_close E mc_node sc_node
        (pbind (certifiers_at E sc_node (-1)) (\<lambda>c. check_certifiers c (rk_public_signing K) (rk_public_master K)))) (
     pbind (certifiers_at E sc_node 0) (\<lambda>c.
       check_certifiers c (kp_publicKey (rk_signing_2 K) # tl (rk_public_signing K))
         (kp_publicKey (rk_master_3 K) # tl (rk_public_master K)))))))))"

definition get_certificate_info :: "'w env \<Rightarrow> pyval \<Rightarrow> ('w, pyval \<times> pyval) prog" where
  "get_certificate_info E block_hash =
     pbind (mc_nth 0) (\<lambda>mc_node.
     pbind (mc_field E mc_node ''getblock'' [block_hash, PInt 2] [''cert'']) (\<lambda>certs.
     pbind (plift (py_nth certs 0)) (\<lambda>cert.
     pbind (plift (rbind (py_path cert [''cert'', ''vFieldElementCertificateField'']) (\<lambda>fs. py_nth fs 0))) (\<lambda>cert_custom_field.
     pbind (plift (py_path cert [''cert'', ''quality''])) (\<lambda>cert_quality.
       pret (cert_custom_field, cert_quality))))))"

definition check_block_certificate :: "'w env \<Rightarrow> pyval \<Rightarrow> pyval \<Rightarrow> ('w, unit) prog" where
  "check_block_certificate E block_hash keys =
     pbind (get_certificate_info E block_hash) (\<lambda>(custom_field, quality).
     pseq (check_eq quality (PInt 7) []) (
     pbind (plift (py_get keys ''keysRootHash'')) (\<lambda>keys_hash. check_eq custom_field keys_hash [])))"

text \<open>The first mainchain block of an epoch, the certificate, and the block with it.\<close>

definition ku_certificate :: "'w env \<Rightarrow> mc_node \<Rightarrow> sc_node \<Rightarrow> ('w, pyval) prog" where
  "ku_certificate E mc_node sc_node =
     pseq (mc_generate E mc_node 1 0) (
     pseq (generate_one E sc_node ''first node'') (
     pseq (await_certificate E mc_node sc_node)
       (include_certificate E mc_node sc_node)))"

definition first_key_is :: "pyval \<Rightarrow> string \<Rightarrow> key_pair \<Rightarrow> ('w, unit) prog" where
  "first_key_is keys kind k = pbind (plift (py_get keys ''certifiersKeys'')) (\<lambda>c. check_reported_key c kind [kp_publicKey k] 0)"

definition ku_epoch_1 :: "'w env \<Rightarrow> 'w post \<Rightarrow> mc_node \<Rightarrow> sc_node \<Rightarrow> rotation_keys \<Rightarrow> ('w, unit) prog" where
  "ku_epoch_1 E post mc_node sc_node K =
     pbind (ku_certificate E mc_node sc_node) (\<lambda>cert_block.
     pseq (no_rotation_proofs E sc_node 7 (PInt 1)) (
     pbind (http_get_certifiers_keys E sc_node (PInt 0)) (\<lambda>keys.
     pseq (first_key_is keys ''signingKeys'' (rk_signing_2 K)) (
     pseq (first_key_is keys ''masterKeys'' (rk_master_3 K)) (
     pseq (check_block_certificate E cert_block keys) (
     pbind (get_withdrawal_epoch E sc_node) (\<lambda>epoch.
     pbind (sign_rotation E post (remote_keys_address 5002) sc_node 0 epoch (secret_of (rk_master_3 K)) (secret_of (rk_signing_2 K)) (rk_signing_4 K)) (\<lambda>sg.
     pseq (rotate_utxo E sc_node 0 0 (kp_publicKey (rk_signing_4 K)) sg True) (
     pseq (sync_forge_sync E sc_node)
       (ku_close E mc_node sc_node (pret ())))))))))))"

definition send_utxo :: "'w env \<Rightarrow> sc_node \<Rightarrow> int \<Rightarrow> int \<Rightarrow> pyval \<Rightarrow> signatures \<Rightarrow> ('w, unit) prog" where
  "send_utxo E sc_node key_type i new_pub sg = pseq (rotate_utxo E sc_node key_type i new_pub sg True) (pret ())"

definition ku_epoch_2 :: "'w env \<Rightarrow> 'w post \<Rightarrow> mc_node \<Rightarrow> sc_node \<Rightarrow> rotation_keys \<Rightarrow> ('w, unit) prog" where
  "ku_epoch_2 E post mc_node sc_node K =
     pbind (ku_certificate E mc_node sc_node) (\<lambda>cert_block.
     pseq (no_rotation_proofs E sc_node 7 (PInt 2)) (
     pbind (http_get_certifiers_keys E sc_node (PInt 1)) (\<lambda>keys.
     pseq (first_key_is keys ''signingKeys'' (rk_signing_4 K)) (
     pseq (check_block_certificate E cert_block keys) (
     pbind (get_withdrawal_epoch E sc_node) (\<lambda>epoch.
     pseq (piter (rotate_both E post (remote_keys_address 5002) (send_utxo E sc_node) sc_node K epoch) (py_range 7)) (
     pseq (generate_next_blocks E sc_node ''first node'' 1) (
     pseq (check_all_proofs E sc_node 7 (PInt 2) K)
       (ku_close E mc_node sc_node (pret ()))))))))))"

definition ku_epoch_3 :: "'w env \<Rightarrow> mc_node \<Rightarrow> sc_node \<Rightarrow> rotation_keys \<Rightarrow> ('w, pyval) prog" where
  "ku_epoch_3 E mc_node sc_node K =
     pbind (ku_certificate E mc_node sc_node) (\<lambda>cert_block.
     pbind (http_get_certifiers_keys E sc_node (PInt 2)) (\<lambda>keys.
     pbind (plift (py_get keys ''certifiersKeys'')) (\<lambda>c.
     pseq (check_certifiers c (new_publics (rk_new_signing K)) (new_publics (rk_new_master K))) (
     pseq (check_block_certificate E cert_block keys) (
     pseq (mc_call E mc_node ''generate'' [PInt 8]) (
     pseq (generate_next_block E sc_node ''first node'' False PNone) (pret keys)))))))"

definition ku_epoch_4 :: "'w env \<Rightarrow> mc_node \<Rightarrow> sc_node \<Rightarrow> pyval \<Rightarrow> ('w, unit) prog" where
  "ku_epoch_4 E mc_node sc_node keys =
     pseq (open_epoch E mc_node sc_node) (
     pseq (await_certificate E mc_node sc_node) (
     pbind (include_certificate E mc_node sc_node) (\<lambda>cert_block. check_block_certificate E cert_block keys)))"

definition ku_run_test :: "'w env \<Rightarrow> 'w enclave \<Rightarrow> sc_bootstrap_info \<Rightarrow> ('w, unit) prog" where
  "ku_run_test E enclave info =
     pseq (py_sleep E (1 / 10)) (
     pseq (sync_all E) (
     pbind (mc_nth 0) (\<lambda>mc_node.
     pbind (sc_nth 0) (\<lambda>sc_node.
     pbind (keys_of_test E UtxoModel 7 info) (\<lambda>K.
       let post = start_enclave enclave (rk_master_secrets K) (rk_public_master K) 5002
       in pseq (ku_fund E info mc_node sc_node) (
          pseq (ku_epoch_0 E post mc_node sc_node K) (
          pseq (ku_epoch_1 E post mc_node sc_node K) (
          pseq (ku_epoch_2 E post mc_node sc_node K) (
          pbind (ku_epoch_3 E mc_node sc_node K)
            (ku_epoch_4 E mc_node sc_node))))))))))"

section \<open>The test across epochs\<close>

definition kua_fund :: "'w env \<Rightarrow> sc_bootstrap_info \<Rightarrow> mc_node \<Rightarrow> sc_node \<Rightarrow> ('w, unit) prog" where
  "kua_fund E info mc_node sc_node =
     pbind (http_wallet_createPrivateKey25519 E sc_node None) (\<lambda>sc_address_1.
     pseq (ku_forward E info mc_node sc_address_1 False) (
     pseq (py_sleep E 1) (
     pseq (ku_forward E info mc_node sc_address_1 True)
       (sync_forge_sync E sc_node))))"

definition kua_sign :: "'w env \<Rightarrow> 'w post \<Rightarrow> sc_node \<Rightarrow> certificate_proof_info \<Rightarrow> pyval \<Rightarrow> int \<Rightarrow> key_pair \<Rightarrow> ('w, signatures) prog" where
  "kua_sign E post sc_node proof_info epoch i k = ae_sign E post (remote_keys_address 5003) sc_node proof_info epoch i k"

definition kua_change :: "'w env \<Rightarrow> 'w post \<Rightarrow> sc_node \<Rightarrow> certificate_proof_info \<Rightarrow> pyval \<Rightarrow> key_pair \<Rightarrow> ('w, unit) prog" where
  "kua_change E post sc_node proof_info epoch k =
     pbind (kua_sign E post sc_node proof_info epoch 0 k) (\<lambda>sg.
     pseq (rotate_utxo E sc_node 0 0 (kp_publicKey k) sg True) (
     pseq (sync_forge_sync E sc_node)
       (check_rotation_proof E sc_node (PInt 0) sg (kp_publicKey k))))"

text \<open>A change that is sent by hand; the transaction and its id.\<close>

definition kua_late_change ::
  "'w env \<Rightarrow> 'w post \<Rightarrow> sc_node \<Rightarrow> certificate_proof_info \<Rightarrow> pyval \<Rightarrow> string \<Rightarrow> int \<Rightarrow> ('w, pyval \<times> pyval) prog" where
  "kua_late_change E post sc_node proof_info epoch seed i =
     pbind (new_key E UtxoModel seed) (\<lambda>k.
     pbind (kua_sign E post sc_node proof_info epoch i k) (\<lambda>sg.
     pbind (at_path (rotate_utxo E sc_node 0 i (kp_publicKey k) sg False) [''result'', ''transactionBytes'']) (\<lambda>txhex.
     pbind (at_path (sendTransaction E sc_node txhex None) [''result'', ''transactionId'']) (\<lambda>txid.
       pret (txhex, txid)))))"

definition best_has_no_txs :: "'w env \<Rightarrow> sc_node \<Rightarrow> ('w, pyval) prog" where
  "best_has_no_txs E sc_node =
     pbind (http_block_best E sc_node) (\<lambda>block_json.
     pbind (plift (tx_count block_json)) (\<lambda>n. pseq (check_eq (PInt n) (PInt 0) []) (pret block_json)))"

definition in_pool :: "pyval \<Rightarrow> pyval \<Rightarrow> ('w, unit) prog" where
  "in_pool ids txid = pbind (plift (py_items ids)) (\<lambda>l. check_that (list_ex (py_eq txid) l) [])"

definition check_still_pooled :: "'w env \<Rightarrow> sc_node \<Rightarrow> pyval \<Rightarrow> pyval \<Rightarrow> ('w, unit) prog" where
  "check_still_pooled E sc_node t3 t4 =
     pbind (at_path (allTransactions E sc_node False) [''transactionIds'']) (\<lambda>mempool_tx_ids.
     pbind (plift (py_len mempool_tx_ids)) (\<lambda>n.
     pseq (check_eq (PInt 2) (PInt n) ''Different mempool size found'') (
     pseq (in_pool mempool_tx_ids t3)
       (in_pool mempool_tx_ids t4))))"

definition force_refused :: "'w env \<Rightarrow> sc_node \<Rightarrow> pyval \<Rightarrow> ('w, unit) prog" where
  "force_refused E sc_node txhex =
     must_raise (pbind (generate_next_block E sc_node ''first node'' True (PList [txhex])) (\<lambda>b. plift (py_nth b 0)))"

text \<open>The second check of an empty block looks at the block that was checked before.\<close>

definition kua_next_epoch :: "'w env \<Rightarrow> mc_node \<Rightarrow> sc_node \<Rightarrow> pyval \<Rightarrow> pyval \<Rightarrow> pyval \<Rightarrow> pyval \<Rightarrow> ('w, unit) prog" where
  "kua_next_epoch E mc_node sc_node block_json t3 t4 new_public_key_2 =
     pseq (generate_next_blocks E sc_node ''first node'' 1) (
     pbind (plift (tx_count block_json)) (\<lambda>n.
     pseq (check_eq (PInt n) (PInt 0) []) (
     pseq (mc_call E mc_node ''generate'' [PInt 1]) (
     pseq (force_refused E sc_node t3) (
     pseq (force_refused E sc_node t4) (
     pseq (generate_next_blocks E sc_node ''first node'' 1) (
     pseq (best_has_no_txs E sc_node) (
     pbind (at_path (allTransactions E sc_node True) [''transactions'']) (\<lambda>mempool.
     pbind (plift (py_len mempool)) (\<lambda>m.
     pseq (check_eq (PInt m) (PInt 0) []) (
     pseq (await_certificate E mc_node sc_node) (
     pseq (include_certificate E mc_node sc_node) (
     pbind (http_block_best E sc_node) (\<lambda>best.
     pbind (plift (tx_count best)) (\<lambda>k.
     pseq (check_that (k = 0) []) (
     pseq (no_rotation_proofs E sc_node 7 (PInt 1)) (
     pbind (certifiers_at E sc_node 0) (\<lambda>c.
       check_reported_key c ''signingKeys'' [new_public_key_2] 0))))))))))))))))))"

definition kua_run_test :: "'w env \<Rightarrow> 'w enclave \<Rightarrow> sc_bootstrap_info \<Rightarrow> ('w, unit) prog" where
  "kua_run_test E enclave info =
     (let proof_info = bi_certificate_proof_info info;
          post = start_enclave enclave (cp_schnorr_masters_secrets proof_info) (cp_public_master_keys proof_info) 5003
      in pseq (py_sleep E (1 / 10)) (
         pseq (sync_all E) (
         pbind (mc_nth 0) (\<lambda>mc_node.
         pbind (sc_nth 0) (\<lambda>sc_node.
         pseq (kua_fund E info mc_node sc_node) (
         pbind (certifiers_at E sc_node (-1)) (\<lambda>certifiers.
         pseq (check_key_counts certifiers 7) (
         pseq (no_rotation_proofs E sc_node 7 (PInt 0)) (
         pbind (new_key E UtxoModel ''random_seed'') (\<lambda>k1.
         pbind (get_withdrawal_epoch E sc_node) (\<lambda>epoch.
         pseq (kua_change E post sc_node proof_info epoch k1) (
         pbind (new_key E UtxoModel ''random_seed2'') (\<lambda>k2.
         pseq (kua_change E post sc_node proof_info epoch k2) (
         pseq (mc_call E mc_node ''generate'' [PInt 7]) (
         pseq (generate_next_block E sc_node ''first node'' False PNone) (
         pbind (kua_late_change E post sc_node proof_info epoch ''random_seed3'' 0) (\<lambda>(t3, id3).
         pbind (kua_late_change E post sc_node proof_info epoch ''random_seed4'' 1) (\<lambda>(t4, id4).
         pseq (mc_call E mc_node ''generate'' [PInt 1]) (
         pseq (generate_next_block E sc_node ''first node'' False PNone) (
         pbind (best_has_no_txs E sc_node) (\<lambda>block_json.
         pseq (check_still_pooled E sc_node id3 id4)
           (kua_next_epoch E mc_node sc_node block_json t3 t4 (kp_publicKey k2)))))))))))))))))))))))"

section \<open>A circuit without rotation\<close>

definition oc_sc_setup_chain :: "'w env \<Rightarrow> run_options \<Rightarrow> ('w, sc_bootstrap_info) prog" where
  "oc_sc_setup_chain E options =
     pbind (mc_nth 0) (\<lambda>mc_node.
     pbind (pget (\<lambda>s. ws_address E s mc_node 0)) (\<lambda>address.
     pbind (plift (SCCreationInfo mc_node (PInt 100) 10 0 1 7 5 False False NO_KEY_ROTATION_CIRCUIT)) (\<lambda>creation.
       bootstrap_sidechain_nodes E options
         \<lparr>net_sc_creation_info = creation, net_sc_nodes_configuration = [SCNodeConfiguration None PNone (connected_to address)]\<rparr>
         (PInt (720 * 120 * 10)) UtxoModel)))"

text \<open>The \<^verbatim>\<open>assert\<close> statement of the language, and an answer that has to be an error with a given description.\<close>

definition error_is :: "pyval \<Rightarrow> string \<Rightarrow> ('w, unit) prog" where
  "error_is response expected =
     pbind (plift (py_in ''error'' response)) (\<lambda>b.
     pseq (if b then pret () else praise AssertionError [] []) (
     pbind (plift (py_path response [''error'', ''description''])) (\<lambda>d. check_eq d (PStr expected) [])))"

definition no_rotation_circuit :: "'w env \<Rightarrow> sc_node \<Rightarrow> int \<Rightarrow> (signatures \<Rightarrow> ('w, pyval) prog) \<Rightarrow> ('w, unit) prog" where
  "no_rotation_circuit E sc_node epoch send_rotation =
     pbind (certifiers_at E sc_node epoch) (\<lambda>certifiers.
     pbind (plift (rbind (py_get certifiers ''signingKeys'') py_len)) (\<lambda>n.
     pseq (check_eq (PInt n) (PInt 7) []) (
     pbind (plift (rbind (py_get certifiers ''masterKeys'') py_len)) (\<lambda>m.
     pseq (check_eq (PInt m) (PInt 0) []) (
     pbind (http_get_key_rotation_proof E sc_node (PInt 0) (PInt 0) (PInt 0)) (\<lambda>response.
     pseq (error_is response ''The current circuit doesn't support key rotation proofs!'') (
     pbind (send_rotation \<lparr>sg_master = PStr ''0'', sg_signing = PStr ''0'', sg_new = PStr ''0''\<rparr>) (\<lambda>response.
       error_is response ''The current circuit doesn't support key rotation transaction!''))))))))"

definition oc_run_test :: "'w env \<Rightarrow> sc_bootstrap_info \<Rightarrow> ('w, unit) prog" where
  "oc_run_test E info =
     pseq (py_sleep E (1 / 10)) (
     pseq (sync_all E) (
     pbind (mc_nth 0) (\<lambda>mc_node.
     pbind (sc_nth 0) (\<lambda>sc_node.
     pbind (http_wallet_createPrivateKey25519 E sc_node None) (\<lambda>sc_address_1.
     pseq (ku_forward E info mc_node sc_address_1 True) (
     pseq (sync_forge_sync E sc_node)
       (no_rotation_circuit E sc_node (-1) (\<lambda>sg. rotate_utxo E sc_node 0 0 (PStr ''0'') sg True))))))))"

definition oc_evm_setup :: "account_setup \<Rightarrow> account_setup" where
  "oc_evm_setup args = args\<lparr>as_withdrawalEpochLength := 10, as_circuittype_override := Some NO_KEY_ROTATION_CIRCUIT\<rparr>"

definition oc_evm_run_test :: "'w env \<Rightarrow> account_setup \<Rightarrow> ('w, unit) prog" where
  "oc_evm_run_test E self =
     pseq (py_sleep E (1 / 10)) (
     pseq (sync_all E) (
     pbind (sc_nth 0) (\<lambda>sc_node.
     pseq (sc_ac_setup E self True True (PInt 10)) (
     pseq (generate_next_blocks E sc_node ''first node'' 1) (
     pseq (sc_sync_all E False)
       (no_rotation_circuit E sc_node 0 (\<lambda>sg. rotate_evm E sc_node 0 0 (PStr ''0'') sg PNone PNone)))))))"

section \<open>Properties\<close>

text \<open>The request of the UTXO model.\<close>

definition utxo_rotation :: "int \<Rightarrow> int \<Rightarrow> pyval \<Rightarrow> signatures \<Rightarrow> pyval" where
  "utxo_rotation key_type i pk sg = PDict [(''keyType'', PInt key_type), (''keyIndex'', PInt i), (''newKey'', pk), (''signingKeySignature'', sg_signing sg),
     (''masterKeySignature'', sg_master sg), (''newKeySignature'', sg_new sg), (''format'', PBool True), (''automaticSend'', PBool True)]"

interpretation utxo_sender: rotation_sender "send_utxo E node" utxo_rotation node
proof
  fix key_type i pk sg and s t :: "'a world"
  assume "send_utxo E node key_type i pk sg s = Some (Inr (), t)"
  then obtain r where sent: "rotate_utxo E node key_type i pk sg True s = Some (Inr r, t)" by (auto simp: send_utxo_def pbind_Inr_iff)
  from bodies_json_call [OF sent [unfolded rotate_utxo_def http_create_key_rotation_transaction_def] refl]
  show "\<exists>body. json_dumps (utxo_rotation key_type i pk sg) = Inr body \<and> rotation_bodies node t = rotation_bodies node s @ [body]"
    by (simp add: utxo_rotation_def)
qed

text \<open>In the UTXO model the change of all keys also asks for each of the fourteen keys exactly once.\<close>
theorem utxo_all_keys_rotated:
  assumes "piter (rotate_both E (served_by E headers server) address (send_utxo E node) node K epoch) (py_range 7) s = Some (Inr (), t)"
  shows "\<exists>bs. length bs = 7 \<and> rotation_bodies node t = rotation_bodies node s @ concat (map (\<lambda>(b1, b2). [b1, b2]) bs) \<and>
    (\<forall>i < 7. rotation_pair utxo_rotation node E (served_by E headers server) address K epoch i (fst (bs ! i)) (snd (bs ! i)))"
  using utxo_sender.all_pairs [OF assms [unfolded py_range_7] keeps_bodies_served] by simp

text \<open>The check at the start of the next epoch looks at the block of the previous check, so it holds whatever the new
  block contains.\<close>
theorem stale_block_checked:
  assumes "best_has_no_txs E sc_node s = Some (Inr block_json, t)"
  shows "pbind (plift (tx_count block_json)) (\<lambda>n. check_eq (PInt n) (PInt 0) []) u = Some (Inr (), u)"
proof -
  from assms obtain n where "tx_count block_json = Inr n" "py_eq (PInt n) (PInt 0)"
    by (auto simp: best_has_no_txs_def pbind_Inr_iff assert_equal_def rerr_def split: if_splits)
  then show ?thesis by (simp add: pbind_run assert_equal_def)
qed

end
