(* ===== verification/Ceased_Withdrawals.thy ===== *)
theory Ceased_Withdrawals
  imports Key_Rotation_Utxo Eoa_Transfers
begin

text \<open>
  The tests of ceased sidechains: \<^verbatim>\<open>qa/sc_ceased.py\<close>, the withdrawals from a ceased sidechain (CSW)
  \<^verbatim>\<open>sc_csw_ceased_at_epoch_1.py\<close>, \<^verbatim>\<open>sc_csw_ceased_at_epoch_1_with_large_epoch_length.py\<close>, \<^verbatim>\<open>sc_csw_ceased_at_epoch_2.py\<close>,
  \<^verbatim>\<open>sc_csw_ceased_at_epoch_3.py\<close>, \<^verbatim>\<open>sc_csw_in_fee_payment.py\<close>, and \<^verbatim>\<open>sc_csw_disabled.py\<close>. Coins that are sent to the sidechain
  become boxes; when the chain has ceased, a proof is generated for every box of a list and a mainchain transaction
  redeems it. Amounts in answers are integers.
\<close>

section \<open>Set-up\<close>

definition cw_setup_nodes :: "'w env \<Rightarrow> string \<Rightarrow> ('w, mc_node list) prog" where
  "cw_setup_nodes E tmpdir =
     start_nodes E 1 tmpdir (Some [Some [''-debug=sc'', ''-debug=ws'', ''-logtimemicros=1'', ''-scproofqueuesize=0'']]) None None"

definition cw_sc_setup_chain :: "'w env \<Rightarrow> run_options \<Rightarrow> bool \<Rightarrow> int \<Rightarrow> bool \<Rightarrow> ('w, pyval) prog" where
  "cw_sc_setup_chain E options submits epoch_length csw_enabled =
     pbind (mc_nth 0) (\<lambda>mc_node.
     pbind (pget (\<lambda>s. ws_address E s mc_node 0)) (\<lambda>address.
     pbind (plift (SCCreationInfo mc_node (PInt 1000) epoch_length 0 1 7 5 csw_enabled False NO_KEY_ROTATION_CIRCUIT)) (\<lambda>creation.
     pbind (bootstrap_sidechain_nodes E options
         \<lparr>net_sc_creation_info = creation, net_sc_nodes_configuration = [SCNodeConfiguration None PNone
            ((connected_to address)\<lparr>nc_cert_submitter_enabled := submits, nc_cert_signing_enabled := submits\<rparr>)]\<rparr>
         (PFloat DefaultBlockTimestampRewind) UtxoModel) (\<lambda>info.
       pret (bi_sidechain_id info)))))"

definition cw1_sc_setup_chain :: "'w env \<Rightarrow> run_options \<Rightarrow> ('w, pyval) prog" where
  "cw1_sc_setup_chain E options = cw_sc_setup_chain E options False 10 True"

definition cwl_sc_setup_chain :: "'w env \<Rightarrow> run_options \<Rightarrow> ('w, pyval) prog" where
  "cwl_sc_setup_chain E options = cw_sc_setup_chain E options False LARGE_WITHDRAWAL_EPOCH_LENGTH True"

definition cw2_sc_setup_chain :: "'w env \<Rightarrow> run_options \<Rightarrow> ('w, pyval) prog" where
  "cw2_sc_setup_chain E options = cw_sc_setup_chain E options True 10 True"

definition cwd_sc_setup_chain :: "'w env \<Rightarrow> run_options \<Rightarrow> ('w, pyval) prog" where
  "cwd_sc_setup_chain E options = cw_sc_setup_chain E options True 10 False"

definition cw_sc_setup_nodes :: "'w env \<Rightarrow> string \<Rightarrow> ('w, sc_node list) prog" where
  "cw_sc_setup_nodes E tmpdir = start_sc_nodes E 1 tmpdir None None None False (Some DEFAULT_API_KEY)"

section \<open>The creation of the sidechain\<close>

definition csw_state :: "'w env \<Rightarrow> sc_node \<Rightarrow> ('w, bool) prog" where
  "csw_state E sc_node = pbind (sc_field E sc_node ''csw_isCSWEnabled'' [] [''result'', ''cswEnabled'']) (\<lambda>v. pret (truthy v))"

definition check_csw_enabled :: "'w env \<Rightarrow> sc_node \<Rightarrow> ('w, unit) prog" where
  "check_csw_enabled E sc_node = pbind (csw_state E sc_node) (\<lambda>b. check_that b ''Ceased Sidechain Withdrawal expected to be enabled.'')"

text \<open>The transaction that created the sidechain is the second one of the last mainchain block. Its configuration of the
  certificate fields and the presence of the verification key depend on whether withdrawals are enabled.\<close>

definition check_creation :: "'w env \<Rightarrow> mc_node \<Rightarrow> sc_node \<Rightarrow> pyval \<Rightarrow> bool \<Rightarrow> ('w, unit) prog" where
  "check_creation E mc_node sc_node expected_config csw_enabled =
     pbind (mc_call E mc_node ''getblockcount'' []) (\<lambda>mc_block_height.
     pbind (mc_field E mc_node ''getblock'' [PStr (py_str mc_block_height)] [''tx'']) (\<lambda>txs.
     pbind (plift (py_nth txs 1)) (\<lambda>mc_sc_creation_tx_id.
     pbind (mc_call E mc_node ''getrawtransaction'' [mc_sc_creation_tx_id, PInt 1]) (\<lambda>mc_sc_creation_tx.
     pbind (plift (rbind (py_get mc_sc_creation_tx ''vsc_ccout'') (\<lambda>l. py_nth l 0))) (\<lambda>vsc_ccout.
     pbind (plift (py_get vsc_ccout ''vFieldElementCertificateFieldConfig'')) (\<lambda>config.
     pseq (check_that (py_eq config expected_config)
        (''Custom Field Elements Configuration in MC are wrong. Expected: '' @ py_str expected_config @ '', actual: '' @ py_str config)) (
     pbind (plift (py_in ''wCeasedVk'' vsc_ccout)) (\<lambda>has_key.
     pseq (if csw_enabled then check_that has_key ''CSW verification key should be present''
           else plift (assert_false has_key ''CSW verification key should not be present'')) (
     pbind (plift (py_get mc_sc_creation_tx ''blockhash'')) (\<lambda>mc_block_hash.
     pbind (sc_field E sc_node ''block_best'' [] [''result'', ''block'', ''id'']) (\<lambda>sc_block_id.
       check_mcreference_presence E mc_block_hash sc_block_id sc_node)))))))))))"

definition csw_enabled_config :: pyval where "csw_enabled_config = PList [PInt 255, PInt 255]"
definition csw_disabled_config :: pyval where "csw_disabled_config = PList []"

section \<open>Boxes\<close>

definition new_key25519 :: "'w env \<Rightarrow> sc_node \<Rightarrow> ('w, pyval) prog" where
  "new_key25519 E sc_node = new_public_key E sc_node ''wallet_createPrivateKey25519''"

definition transfer :: "'w env \<Rightarrow> pyval \<Rightarrow> mc_node \<Rightarrow> sc_node \<Rightarrow> int \<Rightarrow> bool \<Rightarrow> ('w, unit) prog" where
  "transfer E sidechain_id mc_node sc_node amount generate_block =
     pbind (new_key25519 E sc_node) (\<lambda>sc_address.
     pbind (mc_call E mc_node ''getnewaddress'' []) (\<lambda>mc_return_address.
     pseq (forward_transfer_to_sidechain E sidechain_id mc_node sc_address (PInt amount) mc_return_address generate_block) (pret ())))"

definition zen_boxes :: "'w env \<Rightarrow> sc_node \<Rightarrow> pyval list option \<Rightarrow> ('w, pyval) prog" where
  "zen_boxes E sc_node exclude = at_path (post_json E sc_node ''wallet_allBoxes''
     (PDict ((''boxTypeClass'', PStr ''ZenBox'') # (case exclude of None \<Rightarrow> [] | Some ids \<Rightarrow> [(''excludeBoxIds'', PList ids)])))) [''result'', ''boxes'']"

definition first_box :: "'w env \<Rightarrow> sc_node \<Rightarrow> pyval list \<Rightarrow> ('w, pyval) prog" where
  "first_box E sc_node exclude = pbind (zen_boxes E sc_node (Some exclude)) (\<lambda>boxes. plift (py_nth boxes 0))"

definition id_of :: "pyval \<Rightarrow> ('w, pyval) prog" where
  "id_of box = plift (py_get box ''id'')"

text \<open>A box is spent to a new address of the same wallet.\<close>

definition spend_box :: "'w env \<Rightarrow> sc_node \<Rightarrow> pyval \<Rightarrow> ('w, unit) prog" where
  "spend_box E sc_node box =
     pbind (new_key25519 E sc_node) (\<lambda>utxo_address.
     pbind (id_of box) (\<lambda>id.
     pbind (plift (py_get box ''value'')) (\<lambda>v.
     pbind (at_path (post_json E sc_node ''transaction_createCoreTransaction'' (PDict
        [(''transactionInputs'', PList [PDict [(''boxId'', id)]]), (''regularOutputs'', PList [PDict [(''publicKey'', utxo_address), (''value'', v)]]),
         (''withdrawalRequests'', PList []), (''forgerOutputs'', PList [])])) [''result'']) (\<lambda>raw_tx_res.
     pseq (at_path (post_json E sc_node ''transaction_sendTransaction'' raw_tx_res) [''result'']) (pret ())))))"

definition check_one_tx :: "'w env \<Rightarrow> sc_node \<Rightarrow> ('w, unit) prog" where
  "check_one_tx E sc_node =
     pbind (pbind (sc_field E sc_node ''transaction_allTransactions'' [] [''result'', ''transactions'']) (\<lambda>l. plift (py_len l))) (\<lambda>n.
       check_eq (PInt 1) (PInt n) ''FT spending Tx expected to be in the SC node mempool.'')"

text \<open>The boxes of a test: those of forward transfers and those that the test made by spending one.\<close>

record boxes =
  bx_ft :: "pyval list"
  bx_utxo :: "pyval list"

definition two_transfers :: "'w env \<Rightarrow> pyval \<Rightarrow> mc_node \<Rightarrow> sc_node \<Rightarrow> ('w, boxes) prog" where
  "two_transfers E sidechain_id mc_node sc_node =
     pseq (transfer E sidechain_id mc_node sc_node 10 False) (
     pseq (py_sleep E 1) (
     pseq (transfer E sidechain_id mc_node sc_node 20 True) (
     pseq (generate_one E sc_node ''first node'') (
     pbind (zen_boxes E sc_node None) (\<lambda>zen_boxes.
     pbind (plift (py_nth zen_boxes 0)) (\<lambda>ft_box_1.
     pbind (plift (py_nth zen_boxes 1)) (\<lambda>ft_box_2.
     pseq (spend_box E sc_node ft_box_1) (
     pseq (check_one_tx E sc_node) (
     pseq (generate_one E sc_node ''first node'') (
     pbind (id_of ft_box_2) (\<lambda>id_2.
     pbind (first_box E sc_node [id_2]) (\<lambda>utxo_box_1.
       pret \<lparr>bx_ft = [ft_box_1, ft_box_2], bx_utxo = [utxo_box_1]\<rparr>))))))))))))"

text \<open>The ids of the boxes that are not spent: the second box of each pair of transfers and the box from the spent first.\<close>

fun unspent :: "pyval list \<Rightarrow> pyval list \<Rightarrow> pyval list" where
  "unspent (_ # ft # fts) (utxo # utxos) = ft # utxo # unspent fts utxos"
| "unspent _ _ = []"

definition unspent_ids :: "boxes \<Rightarrow> ('w, pyval list) prog" where
  "unspent_ids b = pmap id_of (unspent (bx_ft b) (bx_utxo b))"

text \<open>One more transfer, which is spent, and another one.\<close>

definition spent_transfer :: "'w env \<Rightarrow> pyval \<Rightarrow> mc_node \<Rightarrow> sc_node \<Rightarrow> int \<Rightarrow> boxes \<Rightarrow> ('w, pyval) prog" where
  "spent_transfer E sidechain_id mc_node sc_node amount b =
     pseq (transfer E sidechain_id mc_node sc_node amount True) (
     pseq (generate_one E sc_node ''first node'') (
     pbind (unspent_ids b) (\<lambda>known.
     pbind (first_box E sc_node known) (\<lambda>ft_box.
     pseq (spend_box E sc_node ft_box) (
     pseq (generate_one E sc_node ''first node'') (pret ft_box))))))"

definition transfer_pair :: "'w env \<Rightarrow> pyval \<Rightarrow> mc_node \<Rightarrow> sc_node \<Rightarrow> int \<Rightarrow> int \<Rightarrow> boxes \<Rightarrow> ('w, boxes) prog" where
  "transfer_pair E sidechain_id mc_node sc_node first_amount second_amount b =
     pbind (spent_transfer E sidechain_id mc_node sc_node first_amount b) (\<lambda>ft_box.
     pbind (unspent_ids b) (\<lambda>known.
     pbind (first_box E sc_node known) (\<lambda>utxo_box.
     pseq (transfer E sidechain_id mc_node sc_node second_amount True) (
     pseq (generate_one E sc_node ''first node'') (
     pbind (id_of utxo_box) (\<lambda>utxo_id.
     pbind (first_box E sc_node (known @ [utxo_id])) (\<lambda>ft_box_2.
       pret \<lparr>bx_ft = bx_ft b @ [ft_box, ft_box_2], bx_utxo = bx_utxo b @ [utxo_box]\<rparr>)))))))"

section \<open>Epochs\<close>

definition cw_end_epoch :: "'w env \<Rightarrow> mc_node \<Rightarrow> sc_node \<Rightarrow> int \<Rightarrow> int \<Rightarrow> ('w, pyval) prog" where
  "cw_end_epoch E mc_node sc_node epoch blocks =
     pbind (mc_generate E mc_node blocks (-1)) (\<lambda>end_hash.
     pseq (plift (py_concat (PStr (''End mc block hash in withdrawal epoch '' @ str_int epoch @ '' = '')) end_hash)) (
     pbind (mc_field E mc_node ''getblock'' [end_hash] [''scCumTreeHash'']) (\<lambda>root_hash.
     pseq (plift (py_concat (PStr (''End cum sc tx cum comm tree root hash in withdrawal epoch '' @ str_int epoch @ '' = '')) root_hash))
       (pret end_hash))))"

definition cw_close_epoch :: "'w env \<Rightarrow> mc_node \<Rightarrow> sc_node \<Rightarrow> int \<Rightarrow> int \<Rightarrow> ('w, pyval) prog" where
  "cw_close_epoch E mc_node sc_node epoch blocks =
     pbind (cw_end_epoch E mc_node sc_node epoch blocks) (\<lambda>end_hash.
     pbind (generate_next_block E sc_node ''first node'' False PNone) (\<lambda>sc_block_id.
     pseq (check_mcreferencedata_presence E end_hash sc_block_id sc_node) (pret sc_block_id)))"

text \<open>The first two mainchain blocks of an epoch, the second with the certificate of the previous one.\<close>

definition cw_certificate :: "'w env \<Rightarrow> mc_node \<Rightarrow> sc_node \<Rightarrow> ('w, unit) prog" where
  "cw_certificate E mc_node sc_node =
     pseq (include_certificate E mc_node sc_node) (
     pseq (await_certificate E mc_node sc_node) (
     pseq (include_certificate E mc_node sc_node) (pret ())))"

definition disable_submission :: "'w env \<Rightarrow> sc_node \<Rightarrow> ('w, unit) prog" where
  "disable_submission E sc_node =
     pseq (sc_call E sc_node ''submitter_disableCertificateSubmitter'' []) (
     pseq (sc_call E sc_node ''submitter_disableCertificateSigner'' []) (pret ()))"

definition check_state :: "'w env \<Rightarrow> pyval \<Rightarrow> mc_node \<Rightarrow> string \<Rightarrow> string \<Rightarrow> ('w, unit) prog" where
  "check_state E sidechain_id mc_node state msg =
     pbind (pbind (sc_info_item E mc_node sidechain_id) (\<lambda>i. plift (py_get i ''state''))) (\<lambda>v. check_eq (PStr state) v msg)"

definition has_ceased :: "'w env \<Rightarrow> sc_node \<Rightarrow> ('w, pyval) prog" where
  "has_ceased E sc_node = sc_field E sc_node ''csw_hasCeased'' [] [''result'', ''state'']"

definition check_ceased :: "'w env \<Rightarrow> pyval \<Rightarrow> mc_node \<Rightarrow> sc_node \<Rightarrow> ('w, unit) prog" where
  "check_ceased E sidechain_id mc_node sc_node =
     pseq (check_state E sidechain_id mc_node ''CEASED'' ''Sidechain expected to be ceased.'') (
     pbind (has_ceased E sc_node) (\<lambda>v. check_that (truthy v) ''Sidechain expected to be ceased.''))"

section \<open>Withdrawals\<close>

text \<open>The boxes that the wallet still has and those that it has spent.\<close>

definition in_wallet :: "pyval \<Rightarrow> pyval \<Rightarrow> bool res" where
  "in_wallet all_zen_boxes box_id = rbind (py_items all_zen_boxes) (rany (\<lambda>box. rbind (py_get box ''id'') (\<lambda>i. Inr (py_eq i box_id))))"

definition check_wallet :: "'w env \<Rightarrow> sc_node \<Rightarrow> pyval list \<Rightarrow> pyval list \<Rightarrow> ('w, unit) prog" where
  "check_wallet E sc_node closed_box_ids opened_box_ids =
     pbind (zen_boxes E sc_node None) (\<lambda>all_zen_boxes.
     pseq (piter (\<lambda>id. pbind (plift (in_wallet all_zen_boxes id)) (\<lambda>found.
        pbind (plift (py_concat (PStr ''Closed box not found in the wallet: '') id)) (\<lambda>m. check_that found (py_str m)))) closed_box_ids)
       (piter (\<lambda>id. pbind (plift (in_wallet all_zen_boxes id)) (\<lambda>found.
        pbind (plift (py_concat (PStr ''Opened box appeared in the wallet: '') id)) (\<lambda>m. plift (assert_false found (py_str m))))) opened_box_ids))"

text \<open>The first boxes of the pairs of transfers are spent; the second ones and the boxes from the spent ones are not.\<close>

fun evens :: "'a list \<Rightarrow> 'a list" where
  "evens (x # _ # xs) = x # evens xs"
| "evens [x] = [x]"
| "evens [] = []"

definition odds :: "'a list \<Rightarrow> 'a list" where
  "odds xs = evens (drop 1 xs)"

definition check_wallet_boxes :: "'w env \<Rightarrow> sc_node \<Rightarrow> boxes \<Rightarrow> ('w, unit) prog" where
  "check_wallet_boxes E sc_node b =
     pbind (pmap id_of (odds (bx_ft b) @ bx_utxo b)) (\<lambda>closed_box_ids.
     pbind (pmap id_of (evens (bx_ft b))) (\<lambda>opened_box_ids.
       check_wallet E sc_node closed_box_ids opened_box_ids))"

definition listed :: "pyval \<Rightarrow> pyval \<Rightarrow> bool res" where
  "listed l v = rbind (py_items l) (\<lambda>vs. Inr (list_ex (py_eq v) vs))"

definition check_csw_ids :: "pyval \<Rightarrow> pyval list \<Rightarrow> ('w, unit) prog" where
  "check_csw_ids actual_csw_box_ids csw_boxes =
     pbind (plift (py_len actual_csw_box_ids)) (\<lambda>n.
     pseq (check_eq (PInt (int (length csw_boxes))) (PInt n) ''Different CSW box ids found.'')
       (piter (\<lambda>box. pbind (id_of box) (\<lambda>id. pbind (plift (listed actual_csw_box_ids id)) (\<lambda>found.
          pbind (plift (py_concat (PStr ''CSW box id not found: '') id)) (\<lambda>m. check_that found (py_str m))))) csw_boxes))"

definition box_request :: "pyval \<Rightarrow> pyval" where
  "box_request box_id = PDict [(''boxId'', box_id)]"

definition csw_info_of :: "'w env \<Rightarrow> sc_node \<Rightarrow> pyval \<Rightarrow> ('w, pyval) prog" where
  "csw_info_of E sc_node box_id = at_path (post_json E sc_node ''csw_cswInfo'' (box_request box_id)) [''result'', ''cswInfo'']"

definition nullifier_of :: "'w env \<Rightarrow> sc_node \<Rightarrow> pyval \<Rightarrow> ('w, pyval) prog" where
  "nullifier_of E sc_node box_id = at_path (post_json E sc_node ''csw_nullifier'' (box_request box_id)) [''result'', ''nullifier'']"

definition nullifier_present :: "'w env \<Rightarrow> mc_node \<Rightarrow> pyval \<Rightarrow> pyval \<Rightarrow> ('w, pyval) prog" where
  "nullifier_present E mc_node sidechain_id nullifier = mc_field E mc_node ''checkcswnullifier'' [sidechain_id, nullifier] [''data'']"

definition field_is :: "pyval \<Rightarrow> string \<Rightarrow> pyval \<Rightarrow> string \<Rightarrow> ('w, unit) prog" where
  "field_is v k expected msg = pbind (plift (py_get v k)) (\<lambda>x. check_eq expected x msg)"

definition field_absent :: "pyval \<Rightarrow> string \<Rightarrow> string \<Rightarrow> ('w, unit) prog" where
  "field_absent v k msg = pbind (plift (py_in k v)) (\<lambda>b. plift (assert_false b msg))"

text \<open>\<open>type_check\<close> is the check of the type of a withdrawal, \<open>active_cert\<close> says whether there is an active certificate.\<close>

definition check_csw_info :: "'w env \<Rightarrow> pyval \<Rightarrow> mc_node \<Rightarrow> sc_node \<Rightarrow> pyval \<Rightarrow> (pyval \<Rightarrow> pyval \<Rightarrow> ('w, unit) prog) \<Rightarrow> bool \<Rightarrow> pyval \<Rightarrow> ('w, unit) prog" where
  "check_csw_info E sidechain_id mc_node sc_node tree type_check active_cert box =
     pbind (id_of box) (\<lambda>id.
     pbind (nullifier_of E sc_node id) (\<lambda>nullifier.
     pbind (nullifier_present E mc_node sidechain_id nullifier) (\<lambda>is_present.
     pseq (check_eq (PStr ''false'') is_present ''Nullifier must not be present in the MC.'') (
     pbind (csw_info_of E sc_node id) (\<lambda>csw_info.
     pseq (type_check box csw_info) (
     pbind (plift (py_get box ''value'')) (\<lambda>v.
     pseq (field_is csw_info ''amount'' v ''Amount is different.'') (
     pseq (field_is csw_info ''scId'' sidechain_id ''Sidechain id is different.'') (
     pseq (field_is csw_info ''nullifier'' nullifier ''Nullifier is different.'') (
     pseq (if active_cert then pbind (plift (py_in ''activeCertData'' csw_info)) (\<lambda>b. check_that b ''ActiveCertData must exist.'')
           else field_absent csw_info ''activeCertData'' ''ActiveCertData must not exist.'') (
     pseq (field_is csw_info ''ceasingCumScTxCommTree'' tree ''CeasingCumScTxCommTree is different.'') (
     pbind (plift (py_get csw_info ''proofInfo'')) (\<lambda>proof_info.
     pseq (field_absent proof_info ''scProof'' ''scProof must not exist.'') (
     pseq (field_absent proof_info ''receiverAddress'' ''receiverAddress must not exist.'')
       (field_is proof_info ''status'' (PStr ''Absent'') ''Proof must be absent.'')))))))))))))))"

definition is_ft_csw :: "pyval \<Rightarrow> pyval \<Rightarrow> ('w, unit) prog" where
  "is_ft_csw box csw_info = field_is csw_info ''cswType'' (PStr ''ForwardTransferCswData'') ''Type is different.''"

definition csw_type_by_box :: "pyval list \<Rightarrow> pyval list \<Rightarrow> pyval \<Rightarrow> pyval \<Rightarrow> ('w, unit) prog" where
  "csw_type_by_box utxo_csw_boxes ft_csw_boxes box csw_info =
     (if list_ex (py_eq box) utxo_csw_boxes then field_is csw_info ''cswType'' (PStr ''UtxoCswData'') ''Type is different.''
      else if list_ex (py_eq box) ft_csw_boxes then is_ft_csw box csw_info
      else plift (fail ''Error in test flow.''))"

definition check_csws :: "'w env \<Rightarrow> pyval \<Rightarrow> mc_node \<Rightarrow> sc_node \<Rightarrow> (pyval \<Rightarrow> pyval \<Rightarrow> ('w, unit) prog) \<Rightarrow> bool \<Rightarrow> pyval list \<Rightarrow> ('w, unit) prog" where
  "check_csws E sidechain_id mc_node sc_node type_check active_cert csw_boxes =
     pbind (sc_field E sc_node ''csw_cswBoxIds'' [] [''result'', ''cswBoxIds'']) (\<lambda>actual_csw_box_ids.
     pseq (check_csw_ids actual_csw_box_ids csw_boxes) (
     pbind (mc_field E mc_node ''getceasingcumsccommtreehash'' [sidechain_id] [''ceasingCumScTxCommTree'']) (\<lambda>tree.
       piter (check_csw_info E sidechain_id mc_node sc_node tree type_check active_cert) csw_boxes)))"

subsection \<open>Proofs\<close>

definition start_proof :: "'w env \<Rightarrow> mc_node \<Rightarrow> sc_node \<Rightarrow> pyval \<Rightarrow> ('w, unit) prog" where
  "start_proof E mc_node sc_node box_id =
     pbind (mc_call E mc_node ''getnewaddress'' []) (\<lambda>receiver_address.
     pbind (at_path (post_json E sc_node ''csw_generateCswProof'' (PDict [(''boxId'', box_id), (''receiverAddress'', receiver_address)])) [''result'', ''state'']) (\<lambda>state.
       check_eq (PStr ''ProofGenerationStarted'') state ''Different proof generation state found''))"

text \<open>The wait has a limit on its rounds; absent proofs do not keep it waiting.\<close>

primrec wait_proofs :: "'w env \<Rightarrow> sc_node \<Rightarrow> pyval list \<Rightarrow> nat \<Rightarrow> ('w, unit) prog" where
  "wait_proofs E sc_node csw_box_ids 0 = pseq (if_csws_were_generated E sc_node csw_box_ids True) (pret ())"
| "wait_proofs E sc_node csw_box_ids (Suc attempts) =
     pbind (if_csws_were_generated E sc_node csw_box_ids True) (\<lambda>generated.
       if generated then pret () else pseq (py_sleep E 10) (wait_proofs E sc_node csw_box_ids attempts))"

definition check_proofs :: "'w env \<Rightarrow> sc_node \<Rightarrow> pyval list \<Rightarrow> nat \<Rightarrow> ('w, unit) prog" where
  "check_proofs E sc_node csw_box_ids attempts =
     pseq (wait_proofs E sc_node csw_box_ids attempts) (
     pbind (if_csws_were_generated E sc_node csw_box_ids False) (\<lambda>ok. check_that ok ''Some CSW proof was not generated.''))"

subsection \<open>Transactions\<close>

text \<open>\<^verbatim>\<open>str(Decimal(n) / 100000000)\<close> for an integer of at most 28 digits: the exact quotient without trailing zeros behind
  the point, in scientific notation below \<open>10 ^ -6\<close>.\<close>

fun strip_zeros :: "int \<Rightarrow> nat \<Rightarrow> int \<times> nat" where
  "strip_zeros c 0 = (c, 0)"
| "strip_zeros c (Suc k) = (if c mod 10 = 0 then strip_zeros (c div 10) k else (c, Suc k))"

definition dec_digits :: "string \<Rightarrow> nat \<Rightarrow> string" where
  "dec_digits digits k =
     (let adjusted = int (length digits) - 1 - int k
      in if k = 0 then digits
         else if adjusted \<ge> -6 then
           (let padded = replicate (k + 1 - length digits) (CHR ''0'') @ digits; n = length padded - k in take n padded @ ''.'' @ drop n padded)
         else take 1 digits @ (if length digits = 1 then [] else ''.'' @ drop 1 digits) @ ''E'' @ str_int adjusted)"

definition zen_str :: "int \<Rightarrow> string" where
  "zen_str n = (let (c, k) = strip_zeros (abs n) 8 in (if n < 0 then ''-'' else []) @ dec_digits (str_int c) k)"

definition csw_inputs :: "pyval \<Rightarrow> bool \<Rightarrow> (string \<times> pyval) res" where
  "csw_inputs csw_info active_cert =
     rbind (rbind (py_get csw_info ''amount'') as_int) (\<lambda>n.
     rbind (py_path csw_info [''proofInfo'', ''receiverAddress'']) (\<lambda>sender.
     rbind (py_get csw_info ''scId'') (\<lambda>scId.
     rbind (py_get csw_info ''nullifier'') (\<lambda>nullifier.
     rbind (if active_cert then py_get csw_info ''activeCertData'' else Inr (PStr [])) (\<lambda>cert.
     rbind (py_get csw_info ''ceasingCumScTxCommTree'') (\<lambda>tree.
     rbind (py_path csw_info [''proofInfo'', ''scProof'']) (\<lambda>sc_proof.
       Inr (zen_str n, PList [PDict [(''amount'', PStr (zen_str n)), (''senderAddress'', sender), (''scId'', scId), (''nullifier'', nullifier),
         (''activeCertData'', cert), (''ceasingCumScTxCommTree'', tree), (''scProof'', sc_proof)]]))))))))"

definition submit_raw :: "'w env \<Rightarrow> mc_node \<Rightarrow> pyval \<Rightarrow> ('w, unit) prog" where
  "submit_raw E mc_node hex =
     pbind (mc_field E mc_node ''signrawtransaction'' [hex, PNone, PNone, PStr ''NONE''] [''hex'']) (\<lambda>signed.
     pbind (mc_call E mc_node ''sendrawtransaction'' [signed]) (\<lambda>finalRawtx.
     pbind (mc_call E mc_node ''getrawmempool'' []) (\<lambda>pool.
     pbind (plift (listed pool finalRawtx)) (\<lambda>found. check_that found []))))"

definition raw_csw :: "'w env \<Rightarrow> mc_node \<Rightarrow> sc_node \<Rightarrow> pyval \<Rightarrow> bool \<Rightarrow> pyval \<Rightarrow> ('w, pyval) prog" where
  "raw_csw E mc_node sc_node mc_out_addr active_cert box_id =
     pbind (csw_info_of E sc_node box_id) (\<lambda>csw_info.
     pbind (plift (csw_inputs csw_info active_cert)) (\<lambda>(amount, sc_csws).
     pseq (py_sleep E 1)
       (mc_call E mc_node ''createrawtransaction'' [PList [], PDict [(py_str mc_out_addr, PStr amount)], sc_csws])))"

definition send_csw :: "'w env \<Rightarrow> mc_node \<Rightarrow> sc_node \<Rightarrow> pyval \<Rightarrow> bool \<Rightarrow> pyval \<Rightarrow> ('w, unit) prog" where
  "send_csw E mc_node sc_node mc_out_addr active_cert box_id =
     pbind (raw_csw E mc_node sc_node mc_out_addr active_cert box_id) (\<lambda>rawtx.
     pbind (mc_field E mc_node ''fundrawtransaction'' [rawtx] [''hex'']) (submit_raw E mc_node))"

text \<open>The mempool of the mainchain takes five withdrawals: a block is generated after each fifth.\<close>

definition send_step :: "'w env \<Rightarrow> mc_node \<Rightarrow> sc_node \<Rightarrow> pyval \<Rightarrow> bool \<Rightarrow> pyval \<Rightarrow> int \<Rightarrow> ('w, int) prog" where
  "send_step E mc_node sc_node mc_out_addr active_cert box_id csw_txs =
     pseq (send_csw E mc_node sc_node mc_out_addr active_cert box_id) (
     pseq (if (csw_txs + 1) mod 5 = 0 then pseq (mc_call E mc_node ''generate'' [PInt 1]) (pret ()) else pret ())
       (pret (csw_txs + 1)))"

definition send_all :: "'w env \<Rightarrow> mc_node \<Rightarrow> sc_node \<Rightarrow> pyval \<Rightarrow> bool \<Rightarrow> pyval list \<Rightarrow> ('w, unit) prog" where
  "send_all E mc_node sc_node mc_out_addr active_cert csw_box_ids =
     pseq (pfold (send_step E mc_node sc_node mc_out_addr active_cert) csw_box_ids 0) (
     pseq (mc_call E mc_node ''generate'' [PInt 1]) (pret ()))"

definition check_redeemed :: "'w env \<Rightarrow> pyval \<Rightarrow> mc_node \<Rightarrow> sc_node \<Rightarrow> pyval \<Rightarrow> ('w, unit) prog" where
  "check_redeemed E sidechain_id mc_node sc_node box_id =
     pbind (nullifier_of E sc_node box_id) (\<lambda>nullifier.
     pbind (nullifier_present E mc_node sidechain_id nullifier) (\<lambda>is_present.
     pbind (plift (rbind (py_concat (PStr ''Nullifier for box id = '') box_id) (\<lambda>m. py_concat m (PStr '' must be present in the MC.'')))) (\<lambda>m.
       check_eq (PStr ''true'') is_present (py_str m))))"

definition withdraw_boxes :: "'w env \<Rightarrow> pyval \<Rightarrow> mc_node \<Rightarrow> sc_node \<Rightarrow> bool \<Rightarrow> nat \<Rightarrow> pyval list \<Rightarrow> ('w, unit) prog" where
  "withdraw_boxes E sidechain_id mc_node sc_node active_cert attempts csw_boxes =
     pbind (pmap id_of csw_boxes) (\<lambda>csw_box_ids.
     pseq (check_that (csw_box_ids \<noteq> []) ''csw box ids expected to be defined.'') (
     pseq (piter (start_proof E mc_node sc_node) csw_box_ids) (
     pseq (check_proofs E sc_node csw_box_ids attempts) (
     pbind (mc_call E mc_node ''getnewaddress'' []) (\<lambda>mc_out_addr.
     pseq (send_all E mc_node sc_node mc_out_addr active_cert csw_box_ids)
       (piter (check_redeemed E sidechain_id mc_node sc_node) csw_box_ids))))))"

section \<open>The tests\<close>

definition cw_start :: "'w env \<Rightarrow> (mc_node \<Rightarrow> sc_node \<Rightarrow> ('w, 'a) prog) \<Rightarrow> ('w, 'a) prog" where
  "cw_start E test =
     pseq (py_sleep E (1 / 10)) (
     pseq (sync_all E) (
     pbind (mc_nth 0) (\<lambda>mc_node.
     pbind (sc_nth 0) (\<lambda>sc_node. test mc_node sc_node))))"

definition cw_first_epoch :: "'w env \<Rightarrow> pyval \<Rightarrow> mc_node \<Rightarrow> sc_node \<Rightarrow> ('w, boxes) prog" where
  "cw_first_epoch E sidechain_id mc_node sc_node =
     pbind (two_transfers E sidechain_id mc_node sc_node) (\<lambda>b.
     pseq (cw_close_epoch E mc_node sc_node 0 8) (pret b))"

definition cw_last_checks :: "'w env \<Rightarrow> pyval \<Rightarrow> mc_node \<Rightarrow> sc_node \<Rightarrow> boxes \<Rightarrow> nat \<Rightarrow> ('w, unit) prog" where
  "cw_last_checks E sidechain_id mc_node sc_node b attempts =
     pseq (check_ceased E sidechain_id mc_node sc_node) (
     pseq (check_wallet_boxes E sc_node b) (
     pseq (check_csw_enabled E sc_node) (
     pseq (check_csws E sidechain_id mc_node sc_node is_ft_csw False (bx_ft b))
       (withdraw_boxes E sidechain_id mc_node sc_node False attempts (bx_ft b)))))"

definition cw1_run_test :: "'w env \<Rightarrow> pyval \<Rightarrow> ('w, unit) prog" where
  "cw1_run_test E sidechain_id = cw_start E (\<lambda>mc_node sc_node.
     pseq (check_csw_enabled E sc_node) (
     pseq (check_creation E mc_node sc_node csw_enabled_config True) (
     pbind (cw_first_epoch E sidechain_id mc_node sc_node) (\<lambda>b.
     pbind (transfer_pair E sidechain_id mc_node sc_node 15 17 b) (\<lambda>b.
       cw_last_checks E sidechain_id mc_node sc_node b 100)))))"

text \<open>An epoch of 900 blocks. In the check of \<^verbatim>\<open>has_ceased\<close> the arguments are exchanged: the message is the condition.\<close>

definition finish_window :: "'w env \<Rightarrow> mc_node \<Rightarrow> sc_node \<Rightarrow> int \<Rightarrow> int \<Rightarrow> ('w, unit) prog" where
  "finish_window E mc_node sc_node epoch_length epoch_mc_blocks_left =
     (let left = rat_trunc (of_int epoch_length / 5) - epoch_length + epoch_mc_blocks_left
      in if left > 0 then
           pseq (mc_call E mc_node ''generate'' [PInt (left - 1)]) (
           pseq (generate_next_blocks E sc_node ''first node'' (rat_trunc (of_int left / 10))) (
           pseq (mc_call E mc_node ''generate'' [PInt 1]) (
           pseq (generate_next_block E sc_node ''first node'' False PNone) (pret ()))))
         else pret ())"

definition cwl_check_ceased :: "'w env \<Rightarrow> pyval \<Rightarrow> mc_node \<Rightarrow> sc_node \<Rightarrow> ('w, unit) prog" where
  "cwl_check_ceased E sidechain_id mc_node sc_node =
     pseq (check_state E sidechain_id mc_node ''CEASED'' ''Sidechain expected to be ceased.'') (
     pbind (has_ceased E sc_node) (\<lambda>v. check_that (truthy (PStr ''Sidechain expected to be ceased.'')) (py_str v)))"

definition cwl_first_epoch :: "'w env \<Rightarrow> pyval \<Rightarrow> mc_node \<Rightarrow> sc_node \<Rightarrow> int \<Rightarrow> ('w, boxes) prog" where
  "cwl_first_epoch E sidechain_id mc_node sc_node epoch_length =
     pbind (two_transfers E sidechain_id mc_node sc_node) (\<lambda>b.
     let left = epoch_length - 1 - 1
     in pbind (cw_end_epoch E mc_node sc_node 0 left) (\<lambda>end_hash.
        pseq (generate_next_blocks E sc_node ''first node'' (max 1 (rat_trunc (of_int left / 10)))) (
        pbind (sc_field E sc_node ''mainchain_bestBlockReferenceInfo'' [] [''result'', ''blockReferenceInfo'', ''hash'']) (\<lambda>h.
        pseq (check_eq end_hash h []) (pret b)))))"

definition cwl_run_test :: "'w env \<Rightarrow> pyval \<Rightarrow> ('w, unit) prog" where
  "cwl_run_test E sidechain_id = cw_start E (\<lambda>mc_node sc_node.
     pbind (cwl_first_epoch E sidechain_id mc_node sc_node LARGE_WITHDRAWAL_EPOCH_LENGTH) (\<lambda>b.
     pbind (transfer_pair E sidechain_id mc_node sc_node 15 17 b) (\<lambda>b.
     pseq (finish_window E mc_node sc_node LARGE_WITHDRAWAL_EPOCH_LENGTH (LARGE_WITHDRAWAL_EPOCH_LENGTH - 1 - 1)) (
     pseq (cwl_check_ceased E sidechain_id mc_node sc_node) (
     pseq (check_wallet_boxes E sc_node b) (
     pseq (check_csws E sidechain_id mc_node sc_node is_ft_csw False (bx_ft b))
       (withdraw_boxes E sidechain_id mc_node sc_node False 200 (bx_ft b))))))))"

definition cw2_run_test :: "'w env \<Rightarrow> pyval \<Rightarrow> ('w, unit) prog" where
  "cw2_run_test E sidechain_id = cw_start E (\<lambda>mc_node sc_node.
     pseq (check_csw_enabled E sc_node) (
     pseq (check_creation E mc_node sc_node csw_enabled_config True) (
     pbind (cw_first_epoch E sidechain_id mc_node sc_node) (\<lambda>b.
     pseq (cw_certificate E mc_node sc_node) (
     pbind (transfer_pair E sidechain_id mc_node sc_node 15 17 b) (\<lambda>b.
     pseq (disable_submission E sc_node) (
     pseq (cw_close_epoch E mc_node sc_node 1 6) (
     pbind (transfer_pair E sidechain_id mc_node sc_node 22 27 b) (\<lambda>b.
       cw_last_checks E sidechain_id mc_node sc_node b 150)))))))))"

text \<open>With an active certificate the boxes of the first epoch are withdrawn as outputs, with the box of the creation.\<close>

definition cw3_withdraw :: "'w env \<Rightarrow> pyval \<Rightarrow> mc_node \<Rightarrow> sc_node \<Rightarrow> boxes \<Rightarrow> pyval \<Rightarrow> ('w, unit) prog" where
  "cw3_withdraw E sidechain_id mc_node sc_node b sc_cr_utxo =
     (let utxo_csw_boxes = [sc_cr_utxo, bx_utxo b ! 0, bx_ft b ! 1];
          ft_csw_boxes = drop 2 (bx_ft b)
      in pseq (check_csws E sidechain_id mc_node sc_node (csw_type_by_box utxo_csw_boxes ft_csw_boxes) True (utxo_csw_boxes @ ft_csw_boxes)) (
         pseq (mc_call E mc_node ''generate'' [PInt 3])
           (withdraw_boxes E sidechain_id mc_node sc_node True 200 (utxo_csw_boxes @ ft_csw_boxes))))"

definition cw3_run_test :: "'w env \<Rightarrow> pyval \<Rightarrow> ('w, unit) prog" where
  "cw3_run_test E sidechain_id = cw_start E (\<lambda>mc_node sc_node.
     pseq (check_csw_enabled E sc_node) (
     pseq (check_creation E mc_node sc_node csw_enabled_config True) (
     pbind (cw_first_epoch E sidechain_id mc_node sc_node) (\<lambda>b.
     pseq (cw_certificate E mc_node sc_node) (
     pbind (transfer_pair E sidechain_id mc_node sc_node 15 17 b) (\<lambda>b.
     pseq (cw_close_epoch E mc_node sc_node 1 6) (
     pseq (cw_certificate E mc_node sc_node) (
     pbind (transfer_pair E sidechain_id mc_node sc_node 22 27 b) (\<lambda>b.
     pseq (disable_submission E sc_node) (
     pseq (cw_close_epoch E mc_node sc_node 2 6) (
     pbind (transfer_pair E sidechain_id mc_node sc_node 7 8 b) (\<lambda>b.
     pseq (check_ceased E sidechain_id mc_node sc_node) (
     pbind (pbind (at_path (post_json E sc_node ''wallet_allBoxes'' (PDict [(''boxTypeClass'', PStr ''ForgerBox'')])) [''result'', ''boxes'']) (\<lambda>l. plift (py_nth l 0))) (\<lambda>sc_cr_utxo.
     pseq (check_wallet_boxes E sc_node b) (
     pseq (check_csw_enabled E sc_node)
       (cw3_withdraw E sidechain_id mc_node sc_node b sc_cr_utxo))))))))))))))))"

subsection \<open>The box of a fee payment\<close>

definition cf_send :: "'w env \<Rightarrow> sc_node \<Rightarrow> int \<Rightarrow> ('w, unit) prog" where
  "cf_send E sc_node amount =
     pbind (new_key25519 E sc_node) (\<lambda>sc_address.
     pseq (sendCoinsToAddress E sc_node sc_address (PInt amount) (PInt 5) None) (
     pseq (generate_one E sc_node ''first node'') (pret ())))"

definition has_box :: "pyval \<Rightarrow> pyval \<Rightarrow> bool res" where
  "has_box all_boxes box_id = rbind (py_items all_boxes) (\<lambda>l. rbind (rmap (\<lambda>box. py_get box ''id'') l) (\<lambda>ids. Inr (list_ex (\<lambda>i. py_eq i box_id) ids)))"

definition cf_fee_box :: "'w env \<Rightarrow> sc_node \<Rightarrow> pyval \<Rightarrow> ('w, pyval) prog" where
  "cf_fee_box E sc_node sc_block_id =
     pbind (http_block_findById E sc_node sc_block_id) (\<lambda>block.
     pbind (plift (py_path block [''block'', ''header'', ''feePaymentsHash''])) (\<lambda>h.
     pseq (plift (assert_false (py_eq h (PStr (replicate 64 (CHR ''0'')))) [])) (
     pbind (http_block_getFeePayments E sc_node sc_block_id) (\<lambda>fee_payments.
     pbind (plift (py_get fee_payments ''feePayments'')) (\<lambda>l.
     pbind (plift (py_len l)) (\<lambda>n.
     pseq (check_eq (PInt n) (PInt 1) []) (
     pbind (plift (rbind (py_nth l 0) (\<lambda>p. py_get p ''id''))) (\<lambda>fee_payment_box_id.
     pbind (http_wallet_allBoxes E sc_node None None) (\<lambda>all_boxes.
     pbind (plift (has_box all_boxes fee_payment_box_id)) (\<lambda>found.
     pseq (check_that found []) (pret fee_payment_box_id)))))))))))"

definition cf_withdraw :: "'w env \<Rightarrow> pyval \<Rightarrow> mc_node \<Rightarrow> sc_node \<Rightarrow> pyval \<Rightarrow> ('w, unit) prog" where
  "cf_withdraw E sidechain_id mc_node sc_node box_id =
     pbind (pbind (sc_field E sc_node ''csw_cswBoxIds'' [] [''result'', ''cswBoxIds'']) (\<lambda>ids. plift (listed ids box_id))) (\<lambda>found.
     pseq (check_that found []) (
     pseq (start_proof E mc_node sc_node box_id) (
     pseq (check_proofs E sc_node [box_id] 200) (
     pbind (mc_call E mc_node ''getnewaddress'' []) (\<lambda>mc_out_addr.
     pbind (raw_csw E mc_node sc_node mc_out_addr True box_id) (\<lambda>rawtx.
     pseq (submit_raw E mc_node rawtx) (
     pseq (mc_call E mc_node ''generate'' [PInt 1])
       (check_redeemed E sidechain_id mc_node sc_node box_id))))))))"

definition cf_run_test :: "'w env \<Rightarrow> pyval \<Rightarrow> ('w, unit) prog" where
  "cf_run_test E sidechain_id = cw_start E (\<lambda>mc_node sc_node.
     pseq (check_csw_enabled E sc_node) (
     pseq (check_creation E mc_node sc_node csw_enabled_config True) (
     pseq (transfer E sidechain_id mc_node sc_node 100 True) (
     pseq (py_sleep E 1) (
     pseq (generate_one E sc_node ''first node'') (
     pseq (cf_send E sc_node 20) (
     pseq (cf_send E sc_node 30) (
     pbind (cw_close_epoch E mc_node sc_node 0 8) (\<lambda>sc_block_id.
     pbind (cf_fee_box E sc_node sc_block_id) (\<lambda>fee_payment_box_id.
     pseq (cw_certificate E mc_node sc_node) (
     pseq (cw_close_epoch E mc_node sc_node 1 8) (
     pseq (cw_certificate E mc_node sc_node) (
     pseq (disable_submission E sc_node) (
     pseq (cw_close_epoch E mc_node sc_node 2 8) (
     pseq (mc_call E mc_node ''generate'' [PInt 2]) (
     pseq (generate_one E sc_node ''first node'') (
     pseq (py_sleep E 3) (
     pseq (check_ceased E sidechain_id mc_node sc_node) (
     pseq (check_csw_enabled E sc_node)
       (cf_withdraw E sidechain_id mc_node sc_node fee_payment_box_id))))))))))))))))))))"

subsection \<open>Withdrawals that are disabled\<close>

definition CSW_DISABLED_ERROR_CODE :: string where "CSW_DISABLED_ERROR_CODE = ''0707''"

definition cd_check_certificate :: "'w env \<Rightarrow> mc_node \<Rightarrow> sc_node \<Rightarrow> ('w, unit) prog" where
  "cd_check_certificate E mc_node sc_node =
     pbind (mc_call E mc_node ''getblockcount'' []) (\<lambda>mc_block_height.
     pbind (mc_call E mc_node ''getblock'' [PStr (py_str mc_block_height)]) (\<lambda>mc_block.
     pbind (plift (rbind (py_get mc_block ''cert'') (\<lambda>l. py_nth l 0))) (\<lambda>cert_hash.
     pbind (mc_call E mc_node ''getrawtransaction'' [cert_hash, PInt 1]) (\<lambda>mc_certificate_tx.
     pbind (plift (rbind (py_path mc_certificate_tx [''cert'', ''vFieldElementCertificateField'']) py_len)) (\<lambda>n.
     pseq (check_that (n = 0) ''Custom Field Elements list in certificate should be empty'') (
     pbind (sc_field E sc_node ''block_best'' [] [''result'', ''block'']) (\<lambda>sc_block.
     pbind (plift (py_get mc_certificate_tx ''blockhash'')) (\<lambda>mc_block_hash.
     pbind (id_of sc_block) (\<lambda>sc_block_id.
     pseq (check_mcreference_presence E mc_block_hash sc_block_id sc_node) (
     pbind (plift (rbind (py_get sc_block ''mainchainBlockReferencesData'') (\<lambda>l. rbind (py_nth l 0) (\<lambda>d. py_get d ''topQualityCertificate'')))) (\<lambda>sc_certificate.
     pbind (plift (rbind (py_get sc_certificate ''fieldElementCertificateFields'') py_len)) (\<lambda>m.
     pseq (check_that (m = 0) ''Custom Field Elements list should be empty'') (
     pbind (plift (py_get sc_certificate ''hash'')) (\<lambda>h.
       check_that (py_eq cert_hash h) ''Certificate in SC should be the same that in MC''))))))))))))))"

definition cd_restart :: "'w env \<Rightarrow> string \<Rightarrow> sc_node \<Rightarrow> ('w, unit) prog" where
  "cd_restart E tmpdir sc_node =
     pseq (stop_sc_node E sc_node 0) (
     pseq (py_sleep E 5) (
     pseq (start_sc_node E 0 tmpdir None None None False None) (
     pseq (pbind self_sc_nodes (wait_for_sc_node_initialization E))
       (py_sleep E 2))))"

definition cd_refused :: "'w env \<Rightarrow> sc_node \<Rightarrow> string \<times> string \<Rightarrow> ('w, unit) prog" where
  "cd_refused E sc_node = (\<lambda>(service, name).
     pbind (sc_field E sc_node service [] [''error'', ''code'']) (\<lambda>error_code.
       check_eq (PStr CSW_DISABLED_ERROR_CODE) error_code (''Expected CSW disabled error code for '' @ name @ ''()'')))"

definition cd_check_api :: "'w env \<Rightarrow> sc_node \<Rightarrow> ('w, unit) prog" where
  "cd_check_api E sc_node =
     pbind (csw_state E sc_node) (\<lambda>b.
     pseq (plift (assert_false b ''Ceased Sidechain Withdrawal expected to be disabled.''))
       (piter (cd_refused E sc_node) [(''csw_cswBoxIds'', ''cswBoxIds''), (''csw_cswInfo'', ''cswInfo''), (''csw_nullifier'', ''nullifier''),
          (''csw_generateCswProof'', ''generateCswProof'')]))"

definition cd_run_test :: "'w env \<Rightarrow> string \<Rightarrow> pyval \<Rightarrow> ('w, unit) prog" where
  "cd_run_test E tmpdir sidechain_id = cw_start E (\<lambda>mc_node sc_node.
     pseq (check_creation E mc_node sc_node csw_disabled_config False) (
     pbind (cw_first_epoch E sidechain_id mc_node sc_node) (\<lambda>b.
     pseq (cw_certificate E mc_node sc_node) (
     pseq (cd_check_certificate E mc_node sc_node) (
     pbind (transfer_pair E sidechain_id mc_node sc_node 15 17 b) (\<lambda>b.
     pseq (cw_close_epoch E mc_node sc_node 1 6) (
     pseq (cw_certificate E mc_node sc_node) (
     pbind (transfer_pair E sidechain_id mc_node sc_node 22 27 b) (\<lambda>b.
     pseq (disable_submission E sc_node) (
     pseq (cw_close_epoch E mc_node sc_node 2 6) (
     pseq (cd_restart E tmpdir sc_node) (
     pseq (spent_transfer E sidechain_id mc_node sc_node 7 b) (
     pseq (transfer E sidechain_id mc_node sc_node 8 True) (
     pseq (generate_one E sc_node ''first node'') (
     pseq (check_ceased E sidechain_id mc_node sc_node)
       (cd_check_api E sc_node))))))))))))))))"

subsection \<open>Blocks of a ceased sidechain\<close>

definition ce_setup_nodes :: "'w env \<Rightarrow> string \<Rightarrow> ('w, mc_node list) prog" where
  "ce_setup_nodes E tmpdir = start_nodes E 1 tmpdir (Some [Some [''-debug=sc'', ''-logtimemicros=1'']]) None None"

definition ce_sc_setup_chain :: "'w env \<Rightarrow> run_options \<Rightarrow> ('w, sc_bootstrap_info) prog" where
  "ce_sc_setup_chain E options =
     pbind (mc_nth 0) (\<lambda>mc_node.
     pbind (pget (\<lambda>s. ws_address E s mc_node 0)) (\<lambda>address.
     pbind (plift (plain_creation mc_node 100 10)) (\<lambda>creation.
       bootstrap_sidechain_nodes E options
         \<lparr>net_sc_creation_info = creation,
          net_sc_nodes_configuration = [SCNodeConfiguration None PNone ((connected_to address)\<lparr>nc_cert_submitter_enabled := False\<rparr>)]\<rparr>
         (PInt (720 * 120 * 5)) UtxoModel)))"

definition ce_run_test :: "'w env \<Rightarrow> pyval \<Rightarrow> ('w, unit) prog" where
  "ce_run_test E sidechain_id =
     pbind (mc_nth 0) (\<lambda>mc_node.
     pbind (sc_nth 0) (\<lambda>sc_node.
     pseq (mc_call E mc_node ''generate'' [PInt (10 - 1)]) (
     pseq (generate_next_block E sc_node ''first node'' False PNone) (
     let window = rat_trunc (of_int 10 / 5)
     in pbind (pbind (mc_call E mc_node ''generate'' [PInt (window - 1)]) (\<lambda>l. plift (py_len l))) (\<lambda>n.
        pseq (check_eq (PInt 1) (PInt (window - n)) ''1 MC block till the end of the withdrawal epoch expected.'') (
        pseq (check_state E sidechain_id mc_node ''ALIVE'' ''Sidechain expected to be alive.'') (
        pseq (generate_next_block E sc_node ''first node'' False PNone) (
        pbind (mc_generate E mc_node 1 0) (\<lambda>mcblock_hash.
        pseq (check_state E sidechain_id mc_node ''CEASED'' ''Sidechain expected to be ceased.'') (
        pbind (generate_next_block E sc_node ''first node'' False PNone) (\<lambda>sc_block_id.
        pseq (check_mcreference_presence E mcblock_hash sc_block_id sc_node) (
        pbind (has_ceased E sc_node) (\<lambda>v.
        pseq (check_that (truthy v) ''Sidechain expected to be ceased.'')
          (swallowed_failure (generate_next_block E sc_node ''first node'' False PNone)
             ''Node wrongly verified block at the end of the submission window for epoch with no certs.''))))))))))))))"

section \<open>Properties\<close>

subsection \<open>The mempool of the mainchain\<close>

text \<open>The transactions that were sent since the last block, and the largest such number at any moment.\<close>

definition pool_step :: "mc_node \<Rightarrow> event \<Rightarrow> nat \<times> nat \<Rightarrow> nat \<times> nat" where
  "pool_step node ev = (\<lambda>(n, peak). case ev of
      McCall m k _ \<Rightarrow> if m = node \<and> k = ''sendrawtransaction'' then (n + 1, max peak (n + 1)) else if m = node \<and> k = ''generate'' then (0, peak) else (n, peak)
    | _ \<Rightarrow> (n, peak))"

definition pool_of :: "mc_node \<Rightarrow> 'w world \<Rightarrow> nat \<times> nat" where
  "pool_of node s = fold (pool_step node) (w_calls s) (0, 0)"

abbreviation "unconfirmed node s \<equiv> fst (pool_of node s)"
abbreviation "pool_peak node s \<equiv> snd (pool_of node s)"

text \<open>A program that adds at most \<open>a\<close> transactions to the mempool, whether it returns or raises.\<close>

definition adds :: "mc_node \<Rightarrow> nat \<Rightarrow> ('w, 'a) prog \<Rightarrow> bool" where
  "adds node a m \<longleftrightarrow> (\<forall>s r t. m s = Some (r, t) \<longrightarrow>
     unconfirmed node t \<le> unconfirmed node s + a \<and> pool_peak node t \<le> max (pool_peak node s) (unconfirmed node s + a))"

lemma addsD: "adds node a m \<Longrightarrow> m s = Some (r, t) \<Longrightarrow>
    unconfirmed node t \<le> unconfirmed node s + a \<and> pool_peak node t \<le> max (pool_peak node s) (unconfirmed node s + a)"
  unfolding adds_def by blast

lemma adds_pbind:
  assumes m: "adds node a m" and f: "\<And>x. adds node b (f x)" and c: "c = a + b"
  shows "adds node c (pbind m f)"
  unfolding adds_def
proof (intro allI impI)
  fix s r t assume run: "pbind m f s = Some (r, t)"
  show "unconfirmed node t \<le> unconfirmed node s + c \<and> pool_peak node t \<le> max (pool_peak node s) (unconfirmed node s + c)"
  proof (cases "m s")
    case None
    with run show ?thesis by (simp add: pbind_run)
  next
    case (Some p)
    obtain r' u where p: "p = (r', u)" by (cases p)
    note mid = addsD [OF m Some [unfolded p]]
    show ?thesis
    proof (cases r')
      case (Inl e)
      with run Some p have "t = u" by (simp add: pbind_run)
      with mid c show ?thesis by auto
    next
      case (Inr x)
      with run Some p have "f x u = Some (r, t)" by (simp add: pbind_run)
      from addsD [OF f this] mid c show ?thesis by (auto simp: max_def split: if_splits)
    qed
  qed
qed

lemma keeps_adds: "keeps (pool_of node) m \<Longrightarrow> adds node 0 m"
  unfolding adds_def by (auto dest: keepsD)

lemma pool_of_basic:
  "keeps (pool_of node) (sc_call E n m args)" "keeps (pool_of node) (py_sleep E d)"
  "m \<noteq> ''sendrawtransaction'' \<Longrightarrow> m \<noteq> ''generate'' \<Longrightarrow> keeps (pool_of node) (mc_call E mn m args)"
  by (auto simp: keeps_def ext_defs pact_run pool_of_def pool_step_def split: prod.splits)

lemma pool_of_send: "adds node 1 (mc_call E node ''sendrawtransaction'' args)"
  by (auto simp: adds_def mc_call_run pool_of_def pool_step_def split: prod.splits)

lemma pool_of_generate:
  "mc_call E node ''generate'' args s = Some (r, t) \<Longrightarrow> unconfirmed node t = 0 \<and> pool_peak node t = pool_peak node s"
  by (auto simp: mc_call_run pool_of_def pool_step_def split: prod.splits)

lemma raw_csw_pool: "keeps (pool_of node) (raw_csw E mc_node sc_node mc_out_addr active_cert box_id)"
  unfolding raw_csw_def csw_info_of_def at_path_def post_json_def by (intro keep_intros pool_of_basic; simp)

lemma submit_raw_adds: "adds node 1 (submit_raw E node hex)"
proof -
  have rest: "adds node 0 (pbind (mc_call E node ''getrawmempool'' []) (\<lambda>pool. pbind (plift (listed pool tx)) (\<lambda>found. check_that found [])))" for tx
    by (intro keeps_adds keep_intros pool_of_basic) simp_all
  have sign: "adds node 0 (mc_field E node ''signrawtransaction'' [hex, PNone, PNone, PStr ''NONE''] [''hex''])"
    unfolding mc_field_def by (intro keeps_adds keep_intros pool_of_basic) simp_all
  show ?thesis unfolding submit_raw_def by (intro adds_pbind [OF sign, where b = 1] adds_pbind [OF pool_of_send, where b = 0] rest) simp_all
qed

lemma send_csw_adds: "adds node 1 (send_csw E node sc_node mc_out_addr active_cert box_id)"
proof -
  have "adds node 0 (mc_field E node ''fundrawtransaction'' [tx] [''hex''])" for tx
    unfolding mc_field_def by (intro keeps_adds keep_intros pool_of_basic) simp_all
  then show ?thesis unfolding send_csw_def
    by (intro adds_pbind [OF keeps_adds [OF raw_csw_pool], where b = 1] adds_pbind [where a = 0 and b = 1] submit_raw_adds) simp_all
qed

text \<open>The counter of the loop bounds the transactions that wait for a block.\<close>

lemma batch_cases:
  assumes "pseq A (pseq (if b then pseq G (pret ()) else pret ()) (pret d)) s = Some (r, t)"
  obtains (failed) e where "A s = Some (Inl e, t)" "r = Inl e"
    | (block) x u q where b "A s = Some (Inr x, u)" "G u = Some (q, t)" "\<And>c. r = Inr c \<Longrightarrow> c = d"
    | (rest) x where "\<not> b" "A s = Some (Inr x, t)" "r = Inr d"
proof -
  obtain r' u where A: "A s = Some (r', u)" using assms by (cases "A s") (auto simp: pbind_run)
  show thesis
  proof (cases r')
    case (Inl e)
    with A assms have "t = u" "r = Inl e" by (simp_all add: pbind_run)
    with A Inl failed show thesis by blast
  next
    case (Inr x)
    show thesis
    proof (cases b)
      case True
      obtain q v where G: "G u = Some (q, v)" using assms A Inr True by (cases "G u") (auto simp: pbind_run)
      with assms A Inr True have "t = v" "\<And>c. r = Inr c \<Longrightarrow> c = d" by (cases q; simp add: pbind_run)+
      with True A Inr G block show thesis by blast
    next
      case False
      with assms A Inr have "t = u" "r = Inr d" by (simp_all add: pbind_run)
      with False A Inr rest show thesis by blast
    qed
  qed
qed

lemma send_step_pool:
  assumes run: "send_step E node sc_node mc_out_addr active_cert box_id c s = Some (r, t)" and before: "int (unconfirmed node s) \<le> c mod 5"
  shows "pool_peak node t \<le> max (pool_peak node s) 5 \<and> (\<forall>c'. r = Inr c' \<longrightarrow> c' = c + 1 \<and> int (unconfirmed node t) \<le> c' mod 5)"
proof -
  have mid: "int (unconfirmed node u) \<le> c mod 5 + 1 \<and> pool_peak node u \<le> max (pool_peak node s) 5"
    if "send_csw E node sc_node mc_out_addr active_cert box_id s = Some (r', u)" for r' u
  proof -
    have "c mod 5 < 5" by simp
    with addsD [OF send_csw_adds that] before show ?thesis by linarith
  qed
  from run [unfolded send_step_def] show ?thesis
  proof (cases rule: batch_cases)
    case (failed e)
    with mid show ?thesis by auto
  next
    case (block x u q)
    with mid [OF block(2)] pool_of_generate [OF block(3)] show ?thesis by auto
  next
    case (rest x)
    then have "c mod 5 + 1 = (c + 1) mod 5" by presburger
    with mid [OF rest(2)] rest(3) show ?thesis by auto
  qed
qed

lemma send_steps_pool:
  assumes "pfold (send_step E node sc_node mc_out_addr active_cert) ids c s = Some (r, t)" and "int (unconfirmed node s) \<le> c mod 5"
  shows "pool_peak node t \<le> max (pool_peak node s) 5"
  using assms
proof (induction ids arbitrary: c s)
  case (Cons i ids)
  obtain r' u where step: "send_step E node sc_node mc_out_addr active_cert i c s = Some (r', u)" using Cons.prems(1)
    by (cases "send_step E node sc_node mc_out_addr active_cert i c s") (auto simp: pbind_run)
  note first = send_step_pool [OF step Cons.prems(2)]
  show ?case
  proof (cases r')
    case (Inr c')
    with Cons.prems(1) step have "pfold (send_step E node sc_node mc_out_addr active_cert) ids c' u = Some (r, t)" by (simp add: pbind_run)
    with Cons.IH first Inr have "pool_peak node t \<le> max (pool_peak node u) 5" by blast
    with first show ?thesis by (auto simp: max_def split: if_splits)
  qed (use Cons.prems(1) step first in \<open>auto simp: pbind_run\<close>)
qed auto

text \<open>C23. The withdrawals respect the limit of the mainchain: as long as they start with an empty mempool, there are never more than five of
  them in it at once, whether the sending succeeds or raises, and none is left there at the end of a successful run.\<close>
theorem csw_pool_limit:
  assumes "send_all E mc_node sc_node mc_out_addr active_cert csw_box_ids s = Some (r, t)" and "unconfirmed mc_node s = 0"
  shows "pool_peak mc_node t \<le> max (pool_peak mc_node s) 5 \<and> (\<forall>x. r = Inr x \<longrightarrow> unconfirmed mc_node t = 0)"
proof -
  obtain r' u where steps: "pfold (send_step E mc_node sc_node mc_out_addr active_cert) csw_box_ids 0 s = Some (r', u)" using assms(1)
    by (cases "pfold (send_step E mc_node sc_node mc_out_addr active_cert) csw_box_ids 0 s") (auto simp: send_all_def pbind_run)
  from send_steps_pool [OF this] assms(2) have peak: "pool_peak mc_node u \<le> max (pool_peak mc_node s) 5" by simp
  show ?thesis
  proof (cases r')
    case (Inl e)
    with assms(1) steps peak show ?thesis by (auto simp: send_all_def pbind_run)
  next
    case (Inr c)
    with assms(1) steps obtain q where "mc_call E mc_node ''generate'' [PInt 1] u = Some (q, t)"
      by (auto simp: send_all_def pbind_run split: option.splits prod.splits sum.splits)
    from pool_of_generate [OF this] peak show ?thesis by simp
  qed
qed

subsection \<open>Amounts\<close>

definition raw_calls :: "mc_node \<Rightarrow> 'w world \<Rightarrow> pyval list list" where
  "raw_calls node s = concat (map (\<lambda>ev. case ev of McCall m k args \<Rightarrow> if m = node \<and> k = ''createrawtransaction'' then [args] else [] | _ \<Rightarrow> []) (w_calls s))"

lemma raw_calls_basic:
  "keeps (raw_calls node) (sc_call E n m args)" "keeps (raw_calls node) (py_sleep E d)"
  "m \<noteq> ''createrawtransaction'' \<Longrightarrow> keeps (raw_calls node) (mc_call E mn m args)"
  by (auto simp: keeps_def ext_defs pact_run raw_calls_def)

lemma csw_info_of_raw: "keeps (raw_calls node) (csw_info_of E sc_node box_id)"
  unfolding csw_info_of_def at_path_def post_json_def by (intro keep_intros raw_calls_basic)

lemma submit_raw_raw: "keeps (raw_calls node) (submit_raw E mc_node hex)"
  unfolding submit_raw_def mc_field_def by (intro keep_intros raw_calls_basic; simp)

text \<open>The number that a decimal text denotes: digits with an optional point, an optional exponent, an optional sign.\<close>

definition fixed_value :: "string \<Rightarrow> rat option" where
  "fixed_value x = (case break_at (CHR ''.'') x of
      None \<Rightarrow> map_option of_nat (read_nat 10 x)
    | Some (ds, fs) \<Rightarrow> map_option (\<lambda>n. of_nat n / 10 ^ length fs) (read_nat 10 (ds @ fs)))"

definition unsigned_value :: "string \<Rightarrow> rat option" where
  "unsigned_value x = (case break_at (CHR ''E'') x of
      None \<Rightarrow> fixed_value x
    | Some (m, es) \<Rightarrow> (case (fixed_value m, read_dec es) of
        (Some q, Some e) \<Rightarrow> Some (if e < 0 then q / 10 ^ nat (- e) else q * 10 ^ nat e)
      | _ \<Rightarrow> None))"

definition decimal_value :: "string \<Rightarrow> rat option" where
  "decimal_value x = (if is_prefix ''-'' x then map_option uminus (unsigned_value (drop 1 x)) else unsigned_value x)"

lemma break_at_none: "d \<notin> set xs \<Longrightarrow> break_at d xs = None"
  by (induction xs) auto

lemma break_at_first: "d \<notin> set xs \<Longrightarrow> break_at d (xs @ d # ys) = Some (xs, ys)"
  by (induction xs) auto

lemma nat_str_no: "\<not> is_dec d \<Longrightarrow> d \<notin> set (nat_str 10 n)"
  using nat_str_all_dec [of n] by (auto simp: list_all_iff)

lemma not_dec: "\<not> is_dec (CHR ''.'')" "\<not> is_dec (CHR ''E'')" "\<not> is_dec (CHR ''-'')"
  by (simp_all add: is_dec_def)

lemma read_padded: "read_nat 10 (replicate z (CHR ''0'') @ nat_str 10 c) = Some c"
proof -
  have "read_digits 10 0 (replicate z (CHR ''0'') @ xs) = read_digits 10 0 xs" for xs
    by (induction z) (simp_all add: digit_val_def)
  then show ?thesis by (simp add: read_nat_def read_digits_nat_str)
qed

lemma fixed_value_point:
  assumes "read_nat 10 (ds @ fs) = Some n" and "CHR ''.'' \<notin> set ds"
  shows "fixed_value (ds @ ''.'' @ fs) = Some (of_nat n / 10 ^ length fs)"
  using assms by (simp add: fixed_value_def break_at_first)

lemma dec_digits_point:
  fixes c k :: nat
  assumes "0 < k"
  defines "padded \<equiv> replicate (k + 1 - length (nat_str 10 c)) (CHR ''0'') @ nat_str 10 c"
  shows "unsigned_value (take (length padded - k) padded @ ''.'' @ drop (length padded - k) padded) = Some (of_nat c / 10 ^ k)"
proof -
  let ?n = "length padded - k"
  have no: "CHR ''.'' \<notin> set padded" "CHR ''E'' \<notin> set padded" using nat_str_no not_dec by (auto simp: padded_def)
  have "k < length padded" by (simp add: padded_def)
  then have "length (drop ?n padded) = k" by simp
  moreover have "CHR ''.'' \<notin> set (take ?n padded)" using no(1) by (meson in_set_takeD)
  moreover have "read_nat 10 (take ?n padded @ drop ?n padded) = Some c"
    unfolding append_take_drop_id unfolding padded_def by (rule read_padded)
  ultimately have "fixed_value (take ?n padded @ ''.'' @ drop ?n padded) = Some (of_nat c / 10 ^ k)"
    using fixed_value_point by metis
  moreover have "CHR ''E'' \<notin> set (take ?n padded @ ''.'' @ drop ?n padded)"
    using no(2) by (auto dest: in_set_takeD in_set_dropD)
  ultimately show ?thesis by (simp add: unsigned_value_def break_at_none)
qed

lemma dec_digits_scientific:
  assumes "e = int (length (nat_str 10 c)) - 1 - int k" and "e < 0"
  shows "unsigned_value (take 1 (nat_str 10 c) @ (if length (nat_str 10 c) = 1 then [] else ''.'' @ drop 1 (nat_str 10 c)) @ ''E'' @ str_int e)
    = Some (of_nat c / 10 ^ k)"
proof -
  obtain d ds where ds: "nat_str 10 c = d # ds" by (cases "nat_str 10 c") auto
  let ?m = "d # (if ds = [] then [] else ''.'' @ ds)"
  have no: "CHR ''.'' \<noteq> d" "CHR ''.'' \<notin> set ds" "CHR ''E'' \<notin> set ?m" using nat_str_no [of _ c] not_dec unfolding ds by auto
  have c: "read_nat 10 (d # ds) = Some c" unfolding ds [symmetric] by (simp add: read_nat_nat_str)
  have "fixed_value ?m = Some (of_nat c / 10 ^ length ds)"
  proof (cases "ds = []")
    case True
    with c no show ?thesis by (simp add: fixed_value_def)
  next
    case False
    then show ?thesis using fixed_value_point [of "[d]" ds c] c no by simp
  qed
  moreover have "nat (- e) + length ds = k" using assms unfolding ds by auto
  ultimately have "unsigned_value (?m @ CHR ''E'' # str_int e) = Some (of_nat c / 10 ^ k)"
    using assms(2) no(3) by (auto simp: unsigned_value_def break_at_first read_dec_str_int power_add [symmetric] add.commute)
  then show ?thesis by (cases "ds = []") (simp_all add: ds)
qed

lemma dec_digits_value: "unsigned_value (dec_digits (nat_str 10 c) k) = Some (of_nat c / 10 ^ k)"
proof -
  consider "k = 0" | "0 < k" "int (length (nat_str 10 c)) - 1 - int k \<ge> -6" | "0 < k" "int (length (nat_str 10 c)) - 1 - int k < -6" by linarith
  then show ?thesis
  proof cases
    case 1
    then show ?thesis using nat_str_no [OF not_dec(1)] nat_str_no [OF not_dec(2)]
      by (simp add: dec_digits_def unsigned_value_def fixed_value_def break_at_none read_nat_nat_str)
  next
    case 2
    with dec_digits_point [OF 2(1)] show ?thesis by (simp add: dec_digits_def Let_def)
  next
    case 3
    with dec_digits_scientific [OF refl] show ?thesis by (simp add: dec_digits_def Let_def)
  qed
qed

text \<open>The digits of an amount and their scale.\<close>

lemma strip_zeros_value: "strip_zeros n k = (c, j) \<Longrightarrow> j \<le> k \<and> n = c * 10 ^ (k - j) \<and> (j = 0 \<or> c mod 10 \<noteq> 0)"
proof (induction n k rule: strip_zeros.induct)
  case (2 n k)
  show ?case
  proof (cases "n mod 10 = 0")
    case True
    with 2 have IH: "j \<le> k" "n div 10 = c * 10 ^ (k - j)" "j = 0 \<or> c mod 10 \<noteq> 0" by simp_all
    from True have "n = 10 * (n div 10)" by auto
    with IH show ?thesis by (simp add: Suc_diff_le)
  qed (use 2 in auto)
qed auto

lemma strip_zeros_nonneg: "0 \<le> n \<Longrightarrow> strip_zeros n k = (c, j) \<Longrightarrow> 0 \<le> c"
  by (induction n k rule: strip_zeros.induct) (auto split: if_splits)

lemma dec_digits_plain: "\<not> is_prefix ''-'' (dec_digits (nat_str 10 c) k)"
proof -
  obtain d ds where ds: "nat_str 10 c = d # ds" by (cases "nat_str 10 c") auto
  have "d \<noteq> CHR ''-''" using nat_str_no [OF not_dec(3), of c] unfolding ds by auto
  moreover have "0 < length (replicate z x @ d # ds) - k" if "z = k + 1 - length (d # ds)" for z and x :: char using that by simp
  ultimately show ?thesis
    by (cases "k + 1 - length (d # ds)") (auto simp: dec_digits_def Let_def ds take_Cons split: nat.splits)
qed

text \<open>The text of an amount in the smallest unit denotes the amount in coins.\<close>
lemma zen_str_value: "decimal_value (zen_str n) = Some (of_int n / 10 ^ 8)"
proof -
  obtain c j where cj: "strip_zeros \<bar>n\<bar> 8 = (c, j)" by fastforce
  note v = strip_zeros_value [OF cj]
  have c: "0 \<le> c" using strip_zeros_nonneg [OF _ cj] by simp
  then have "str_int c = nat_str 10 (nat c)" by (simp add: str_int_def)
  then have shown: "zen_str n = (if n < 0 then ''-'' else []) @ dec_digits (nat_str 10 (nat c)) j" by (simp add: zen_str_def cj)
  have "(of_int \<bar>n\<bar> :: rat) = of_int c * 10 ^ (8 - j)" using v by (metis of_int_mult of_int_numeral of_int_power)
  moreover have "(10 :: rat) ^ 8 = 10 ^ (8 - j) * 10 ^ j" using v by (simp flip: power_add)
  ultimately have "(of_int c :: rat) / 10 ^ j = of_int \<bar>n\<bar> / 10 ^ 8" by (metis mult_divide_mult_cancel_right power_not_zero zero_neq_numeral mult.commute)
  with c have "unsigned_value (dec_digits (nat_str 10 (nat c)) j) = Some (of_int \<bar>n\<bar> / 10 ^ 8)" by (simp add: dec_digits_value)
  then show ?thesis using dec_digits_plain [of "nat c" j] unfolding shown decimal_value_def by auto
qed

text \<open>
  A transaction that redeems a box: the node was asked for that box, the withdrawal carries the identifier
  of the sidechain, the nullifier, the receiver and the proof of its answer, and both the amount redeemed and the
  amount paid to the address denote, in coins, the amount that the answer states in the smallest unit.
\<close>

definition redeems :: "'w env \<Rightarrow> sc_node \<Rightarrow> pyval \<Rightarrow> pyval \<Rightarrow> pyval list \<Rightarrow> bool" where
  "redeems E sc_node mc_out_addr box_id args \<longleftrightarrow> (\<exists>w body answer info v n amount csw.
     json_dumps (PDict [(''boxId'', box_id)]) = Inr body \<and> fst (e_sc_api E sc_node ''csw_cswInfo'' [PStr body] [] w) = Inr answer \<and>
     py_path answer [''result'', ''cswInfo''] = Inr info \<and> py_get info ''amount'' = Inr v \<and> as_int v = Inr n \<and>
     decimal_value amount = Some (of_int n / 10 ^ 8) \<and>
     args = [PList [], PDict [(py_str mc_out_addr, PStr amount)], PList [csw]] \<and> py_get csw ''amount'' = Inr (PStr amount) \<and>
     py_get csw ''nullifier'' = py_get info ''nullifier'' \<and> py_get csw ''scId'' = py_get info ''scId'' \<and>
     py_get csw ''senderAddress'' = py_path info [''proofInfo'', ''receiverAddress''] \<and> py_get csw ''scProof'' = py_path info [''proofInfo'', ''scProof''])"

lemma csw_inputs_Inr:
  assumes "csw_inputs csw_info active_cert = Inr (amount, sc_csws)"
  shows "\<exists>v n csw. py_get csw_info ''amount'' = Inr v \<and> as_int v = Inr n \<and> decimal_value amount = Some (of_int n / 10 ^ 8) \<and>
    sc_csws = PList [csw] \<and> py_get csw ''amount'' = Inr (PStr amount) \<and>
    py_get csw ''nullifier'' = py_get csw_info ''nullifier'' \<and> py_get csw ''scId'' = py_get csw_info ''scId'' \<and>
    py_get csw ''senderAddress'' = py_path csw_info [''proofInfo'', ''receiverAddress''] \<and>
    py_get csw ''scProof'' = py_path csw_info [''proofInfo'', ''scProof'']"
  using assms by (auto simp: csw_inputs_def rbind_Inr_iff zen_str_value simp del: py_path.simps)

lemma raw_csw_raw:
  assumes "raw_csw E node sc_node mc_out_addr active_cert box_id s = Some (Inr rawtx, t)"
  shows "\<exists>args. raw_calls node t = raw_calls node s @ [args] \<and> redeems E sc_node mc_out_addr box_id args"
proof -
  from assms obtain csw_info u amount sc_csws v
    where run: "csw_info_of E sc_node box_id s = Some (Inr csw_info, u)" "csw_inputs csw_info active_cert = Inr (amount, sc_csws)"
      "py_sleep E 1 u = Some (Inr (), v)" "mc_call E node ''createrawtransaction'' [PList [], PDict [(py_str mc_out_addr, PStr amount)], sc_csws] v = Some (Inr rawtx, t)"
    by (auto simp: raw_csw_def pbind_Inr_iff)
  from run(4) have args: "raw_calls node t = raw_calls node v @ [[PList [], PDict [(py_str mc_out_addr, PStr amount)], sc_csws]]"
    by (auto simp: mc_call_run raw_calls_def)
  from run(1) obtain body answer where "json_dumps (PDict [(''boxId'', box_id)]) = Inr body"
    "fst (e_sc_api E sc_node ''csw_cswInfo'' [PStr body] [] (w_ext s)) = Inr answer" "py_path answer [''result'', ''cswInfo''] = Inr csw_info"
    by (auto simp: csw_info_of_def at_path_def post_json_def box_request_def pbind_Inr_iff sc_call_run simp del: json_dumps.simps py_path.simps)
  with csw_inputs_Inr [OF run(2)] have "redeems E sc_node mc_out_addr box_id [PList [], PDict [(py_str mc_out_addr, PStr amount)], sc_csws]"
    unfolding redeems_def by blast
  with args keepsD [OF csw_info_of_raw run(1)] keepsD [OF raw_calls_basic(2) run(3)] show ?thesis by auto
qed

lemma send_csw_raw:
  assumes "send_csw E node sc_node mc_out_addr active_cert box_id s = Some (Inr x, t)"
  shows "\<exists>args. raw_calls node t = raw_calls node s @ [args] \<and> redeems E sc_node mc_out_addr box_id args"
proof -
  from assms obtain rawtx u hex v
    where run: "raw_csw E node sc_node mc_out_addr active_cert box_id s = Some (Inr rawtx, u)" "mc_field E node ''fundrawtransaction'' [rawtx] [''hex''] u = Some (Inr hex, v)"
      "submit_raw E node hex v = Some (Inr x, t)"
    by (auto simp: send_csw_def pbind_Inr_iff)
  have fund: "keeps (raw_calls node) (mc_field E node ''fundrawtransaction'' [rawtx] [''hex''])"
    unfolding mc_field_def by (intro keep_intros raw_calls_basic) simp
  from raw_csw_raw [OF run(1)] keepsD [OF fund run(2)] keepsD [OF submit_raw_raw run(3)] show ?thesis by simp
qed

lemma send_step_raw:
  assumes "send_step E node sc_node mc_out_addr active_cert box_id c s = Some (Inr c', t)"
  shows "\<exists>args. raw_calls node t = raw_calls node s @ [args] \<and> redeems E sc_node mc_out_addr box_id args"
  using assms [unfolded send_step_def]
proof (cases rule: batch_cases)
  case (block x u q)
  have "raw_calls node t = raw_calls node u" by (rule keepsD [OF raw_calls_basic(3) block(3)]) simp
  with send_csw_raw [OF block(2)] show ?thesis by simp
next
  case (rest x)
  with send_csw_raw show ?thesis by blast
qed simp

lemma send_steps_raw:
  assumes "pfold (send_step E node sc_node mc_out_addr active_cert) ids c s = Some (Inr c', t)"
  shows "\<exists>calls. raw_calls node t = raw_calls node s @ calls \<and> list_all2 (redeems E sc_node mc_out_addr) ids calls"
  using assms
proof (induction ids arbitrary: c s)
  case (Cons i ids)
  from Cons.prems obtain d u where step: "send_step E node sc_node mc_out_addr active_cert i c s = Some (Inr d, u)"
    "pfold (send_step E node sc_node mc_out_addr active_cert) ids d u = Some (Inr c', t)" by (auto simp: pbind_Inr_iff)
  from send_step_raw [OF step(1)] obtain args where "raw_calls node u = raw_calls node s @ [args]" "redeems E sc_node mc_out_addr i args" by blast
  moreover from Cons.IH [OF step(2)] obtain calls where "raw_calls node t = raw_calls node u @ calls"
    "list_all2 (redeems E sc_node mc_out_addr) ids calls" by blast
  ultimately show ?case by (intro exI [of _ "args # calls"]) simp
qed simp

text \<open>C24. Sending the withdrawals creates one transaction for every box, in the order of the boxes. The transaction of a box
  redeems that box: it carries the nullifier, the sidechain, the receiver and the proof that the node answers for its id, and
  it pays to the address exactly the amount that it redeems, a decimal text that denotes the node's amount divided by
  100000000.\<close>
theorem csw_amounts_redeemed:
  assumes "send_all E mc_node sc_node mc_out_addr active_cert csw_box_ids s = Some (Inr (), t)"
  shows "\<exists>calls. raw_calls mc_node t = raw_calls mc_node s @ calls \<and> list_all2 (redeems E sc_node mc_out_addr) csw_box_ids calls"
proof -
  from assms obtain c u r where run: "pfold (send_step E mc_node sc_node mc_out_addr active_cert) csw_box_ids 0 s = Some (Inr c, u)"
    "mc_call E mc_node ''generate'' [PInt 1] u = Some (Inr r, t)"
    by (auto simp: send_all_def pbind_Inr_iff)
  have "raw_calls mc_node t = raw_calls mc_node u" by (rule keepsD [OF raw_calls_basic(3) run(2)]) simp
  with send_steps_raw [OF run(1)] show ?thesis by simp
qed

subsection \<open>Proofs, boxes and states\<close>

lemma rets_if: "rets m \<Longrightarrow> rets n \<Longrightarrow> rets (if b then m else n)"
  by simp

text \<open>The wait for the proofs always returns, and the check after it passes only when the node reports every proof as generated.\<close>
theorem proofs_wait_returns: "rets (check_proofs E sc_node csw_box_ids attempts)"
proof -
  have gen: "rets (if_csws_were_generated E sc_node ids b)" for ids b
    by (induction ids) (simp_all only: if_csws_were_generated.simps csw_status_def, (intro rets_pbind rets_basic rets_if | assumption)+)
  have "rets (wait_proofs E sc_node csw_box_ids attempts)"
    by (induction attempts) (simp_all only: wait_proofs.simps, (intro rets_pbind gen rets_basic rets_if | assumption)+)
  then show ?thesis unfolding check_proofs_def by (intro rets_pbind gen rets_basic)
qed

text \<open>The check with the exchanged arguments passes whatever the node reports of itself.\<close>
theorem ceased_state_unchecked:
  "cwl_check_ceased E sidechain_id mc_node sc_node s = Some (Inr (), t) \<longleftrightarrow>
    (\<exists>u v. check_state E sidechain_id mc_node ''CEASED'' ''Sidechain expected to be ceased.'' s = Some (Inr (), u) \<and> has_ceased E sc_node u = Some (Inr v, t))"
  by (auto simp: cwl_check_ceased_def pbind_Inr_iff truthy_def assert_true_def)

text \<open>The boxes that a test leaves out when it looks for a new one are exactly those that must be in the wallet at the end.\<close>
lemma unspent_closed: "length fts = 2 * length utxos \<Longrightarrow> set (unspent fts utxos) = set (odds fts @ utxos)"
proof (induction fts utxos rule: unspent.induct)
  case (1 a ft fts utxo utxos)
  then show ?case by (cases fts) (auto simp: odds_def)
qed (auto simp: odds_def)

lemma py_eq_PStr: "py_eq (PStr a) v \<longleftrightarrow> v = PStr a"
  by (cases v) auto

lemma py_items_len: "py_items v = Inr vs \<Longrightarrow> py_len v = Inr (int (length vs))"
  by (cases v) (auto simp: rerr_def)

text \<open>The list of withdrawals that a node offers is checked exactly: when the ids of the expected boxes are distinct, the node offers each of them
  once and nothing else.\<close>
theorem csw_ids_exact:
  assumes pass: "check_csw_ids actual csw_boxes s = Some (Inr (), t)"
    and ids: "map (\<lambda>box. py_get box ''id'') csw_boxes = map (\<lambda>i. Inr (PStr i)) ids" and "distinct ids" and "ids \<noteq> []"
  shows "\<exists>vs. py_items actual = Inr vs \<and> distinct vs \<and> set vs = PStr ` set ids"
proof -
  from pass obtain n u where n: "py_len actual = Inr n" "n = int (length csw_boxes)"
    and loop: "piter (\<lambda>box. pbind (id_of box) (\<lambda>id. pbind (plift (listed actual id)) (\<lambda>found.
          pbind (plift (py_concat (PStr ''CSW box id not found: '') id)) (\<lambda>m. check_that found (py_str m))))) csw_boxes u = Some (Inr (), t)"
    by (auto simp: check_csw_ids_def pbind_Inr_iff)
  have found: "\<exists>vs. py_items actual = Inr vs \<and> PStr i \<in> set vs" if "i \<in> set ids" for i
  proof -
    from that ids obtain box where box: "box \<in> set csw_boxes" "py_get box ''id'' = Inr (PStr i)" by (metis (mono_tags, lifting) image_iff list.set_map)
    from piter_each [OF loop box(1)] box(2) have "listed actual (PStr i) = Inr True"
      by (auto simp: id_of_def pbind_Inr_iff assert_true_def rerr_def split: if_splits)
    then show ?thesis by (auto simp: listed_def rbind_Inr_iff list_ex_iff py_eq_PStr simp del: py_eq.simps)
  qed
  from found [of "hd ids"] \<open>ids \<noteq> []\<close> obtain vs where vs: "py_items actual = Inr vs" by auto
  with found have sub: "PStr ` set ids \<subseteq> set vs" by auto
  have "length vs = length csw_boxes" using py_items_len [OF vs] n by simp
  also have "\<dots> = length ids" using ids by (metis length_map)
  also have "\<dots> = card (PStr ` set ids)" using \<open>distinct ids\<close> by (simp add: card_image inj_on_def distinct_card)
  finally have len: "length vs = card (PStr ` set ids)" .
  have "PStr ` set ids = set vs"
    by (rule card_seteq [OF finite_set sub]) (use len card_length [of vs] in simp)
  with len vs show ?thesis by (metis card_distinct)
qed

subsection \<open>Examples\<close>

text \<open>A node with a withdrawal of 10 Zen for every box, and a mainchain node that accepts everything.\<close>

definition sample_csw :: pyval where
  "sample_csw = PDict [(''amount'', PInt 1000000000), (''scId'', PStr ''sc''), (''nullifier'', PStr ''n''), (''activeCertData'', PStr ''c''), (''ceasingCumScTxCommTree'', PStr ''t''),
     (''proofInfo'', PDict [(''receiverAddress'', PStr ''r''), (''scProof'', PStr ''p'')])]"

definition csw_env :: "sample env" where
  "csw_env = sample_env\<lparr>e_sc_api := \<lambda>n m a k w. (Inr (PDict [(''result'', PDict [(''cswInfo'', sample_csw)])]), w),
     e_mc_api := \<lambda>n m a w. (Inr (if m = ''getrawmempool'' then PList [PStr ''tx''] else if m = ''sendrawtransaction'' then PStr ''tx'' else PDict [(''hex'', PStr ''h'')]), w)\<rparr>"

lemma csw_env_calls:
  "yields (mc_call csw_env node ''createrawtransaction'' args) (PDict [(''hex'', PStr ''h'')])" "yields (mc_call csw_env node ''generate'' args) (PDict [(''hex'', PStr ''h'')])"
  "yields (mc_field csw_env node ''fundrawtransaction'' args [''hex'']) (PStr ''h'')" "yields (mc_field csw_env node ''signrawtransaction'' args [''hex'']) (PStr ''h'')"
  "yields (mc_call csw_env node ''sendrawtransaction'' args) (PStr ''tx'')" "yields (mc_call csw_env node ''getrawmempool'' args) (PList [PStr ''tx''])"
  "yields (py_sleep csw_env d) ()"
  by (simp_all add: yields_def csw_env_def mc_call_run mc_field_def pbind_run py_sleep_def pact_run)

lemma csw_env_info: "yields (csw_info_of csw_env sc_node (PStr b)) sample_csw"
proof -
  obtain body where "json_dumps (box_request (PStr b)) = Inr body" using json_dumps_total by (auto simp: box_request_def)
  then show ?thesis by (simp add: yields_def csw_info_of_def at_path_def post_json_def pbind_run sc_call_run csw_env_def)
qed

lemma csw_env_send: "yields (send_csw csw_env node sc_node (PStr a) True (PStr b)) ()"
proof -
  obtain p where "csw_inputs sample_csw True = Inr p" by (simp add: csw_inputs_def sample_csw_def)
  then have inputs: "yields (plift (csw_inputs sample_csw True)) p" by (simp add: yields_plift)
  have found: "yields (plift (listed (PList [PStr ''tx'']) (PStr ''tx''))) True" by (simp add: listed_def yields_plift)
  have passed: "yields (check_that True []) ()" by (simp add: assert_true_def yields_plift)
  show ?thesis
    unfolding send_csw_def raw_csw_def submit_raw_def split_beta
    by (rule yields_pbind csw_env_info inputs csw_env_calls found passed)+
qed

lemma csw_env_send_all: "yields (send_all csw_env node sc_node (PStr a) True (map PStr bs)) ()"
proof -
  have block: "yields (if x then pseq (mc_call csw_env node ''generate'' [PInt 1]) (pret ()) else pret ()) ()" for x
    by (cases x) (auto intro: yields_pbind csw_env_calls yields_plift)
  have step: "yields (send_step csw_env node sc_node (PStr a) True (PStr b) c) (c + 1)" for b c
    unfolding send_step_def by (rule yields_pbind csw_env_send block yields_plift)+
  have "\<exists>d. yields (pfold (send_step csw_env node sc_node (PStr a) True) (map PStr bs) c) d" for c
  proof (induction bs arbitrary: c)
    case (Cons b bs)
    then obtain d where "yields (pfold (send_step csw_env node sc_node (PStr a) True) (map PStr bs) (c + 1)) d" by blast
    then show ?case by (auto intro: yields_pbind [OF step])
  qed (auto intro: yields_plift)
  then obtain d where steps: "yields (pfold (send_step csw_env node sc_node (PStr a) True) (map PStr bs) 0) d" by blast
  show ?thesis unfolding send_all_def by (rule yields_pbind steps csw_env_calls yields_plift)+
qed

lemma csw_env_run: "\<exists>t. send_all csw_env sample_mc (sample_node ''a'') (PStr ''z'') True (map PStr bs) s = Some (Inr (), t)"
  using csw_env_send_all unfolding yields_def by blast

theorem csw_pool_limit_witness:
  "\<exists>t. send_all csw_env sample_mc (sample_node ''a'') (PStr ''z'') True (map PStr (replicate 7 ''b'')) (sample_world 0 0 []) = Some (Inr (), t) \<and>
    pool_peak sample_mc t \<le> 5 \<and> unconfirmed sample_mc t = 0"
proof -
  obtain t where run: "send_all csw_env sample_mc (sample_node ''a'') (PStr ''z'') True (map PStr (replicate 7 ''b'')) (sample_world 0 0 []) = Some (Inr (), t)"
    using csw_env_run by blast
  have "pool_of sample_mc (sample_world 0 0 []) = (0, 0)" by (simp add: pool_of_def sample_world_def)
  with csw_pool_limit [OF run] run show ?thesis by auto
qed

theorem csw_amounts_redeemed_witness:
  "\<exists>t. send_all csw_env sample_mc (sample_node ''a'') (PStr ''z'') True (map PStr [''b'', ''c'']) (sample_world 0 0 []) = Some (Inr (), t) \<and>
    length (raw_calls sample_mc t) = 2"
proof -
  obtain t where run: "send_all csw_env sample_mc (sample_node ''a'') (PStr ''z'') True (map PStr [''b'', ''c'']) (sample_world 0 0 []) = Some (Inr (), t)"
    using csw_env_run by blast
  have "raw_calls sample_mc (sample_world 0 0 []) = []" by (simp add: raw_calls_def sample_world_def)
  with csw_amounts_redeemed [OF run] run show ?thesis by (auto dest: list_all2_lengthD)
qed

text \<open>Amounts as the mainchain gets them.\<close>

lemma zen_str_examples: "zen_str 1000000000 = ''10''" "zen_str 1250000000 = ''12.5''" "zen_str 0 = ''0''" "zen_str 120 = ''0.0000012''" "zen_str 12 = ''1.2E-7''"
  by code_simp+

end
