(* ===== verification/Cert_Submitters.thy ===== *)
theory Cert_Submitters
  imports Key_Rotation_Utxo
begin

text \<open>
  The tests of the submission of certificates when the signing keys or the submitters are spread over several
  nodes: \<^verbatim>\<open>qa/sc_cert_submission_decentralization.py\<close>, \<^verbatim>\<open>sc_cert_submitter_after_sync_1.py\<close>, \<^verbatim>\<open>sc_cert_submitter_after_sync_2.py\<close>,
  \<^verbatim>\<open>sc_cert_submitter_secure_enclave.py\<close>, \<^verbatim>\<open>sc_multiple_cert_submitters.py\<close>, \<^verbatim>\<open>sc_evm_multiple_cert_submitters.py\<close> and
  \<^verbatim>\<open>sc_multiple_certs.py\<close>. They share one loop that waits for certificates, which differs in the number of certificates,
  the nodes asked and the requests of a round.
\<close>

section \<open>Waiting for certificates\<close>

text \<open>\<^verbatim>\<open>a or b\<close> on the states of the nodes: a node is asked only when the ones before are not active.\<close>

primrec any_active :: "'w env \<Rightarrow> sc_node list \<Rightarrow> ('w, bool) prog" where
  "any_active E [] = pret False"
| "any_active E (n # ns) = pbind (cert_generation_active E n) (\<lambda>active. if active then pret True else any_active E ns)"

text \<open>The two conditions on the size of the mempool, \<^verbatim>\<open>size == 0\<close> and \<^verbatim>\<open>size < n\<close>.\<close>

definition pool_empty :: "pyval \<Rightarrow> bool res" where
  "pool_empty size_v = Inr (py_eq size_v (PInt 0))"

definition pool_below :: "int \<Rightarrow> pyval \<Rightarrow> bool res" where
  "pool_below n size_v = rbind (as_num size_v) (\<lambda>k. Inr (k < of_int n))"

definition ask_states :: "'w env \<Rightarrow> sc_node list \<Rightarrow> ('w, unit) prog" where
  "ask_states E = piter (\<lambda>n. pseq (cert_generation_active E n) (pret ()))"

definition ping_nodes :: "'w env \<Rightarrow> sc_node list \<Rightarrow> ('w, unit) prog" where
  "ping_nodes E = piter (\<lambda>n. pseq (sc_call E n ''block_best'' []) (pret ()))"

definition still_waiting :: "'w env \<Rightarrow> mc_node \<Rightarrow> (pyval \<Rightarrow> bool res) \<Rightarrow> sc_node list \<Rightarrow> ('w, bool) prog" where
  "still_waiting E mc_node missing submitters =
     pbind (mempool_size E mc_node) (\<lambda>size_v.
     pbind (plift (missing size_v)) (\<lambda>m. if m then any_active E submitters else pret False))"

text \<open>A round: the states of the nodes in \<open>shown\<close> are asked for the log, the nodes in \<open>pinged\<close> to keep the connection.\<close>

definition submission_round ::
  "'w env \<Rightarrow> mc_node \<Rightarrow> (pyval \<Rightarrow> bool res) \<Rightarrow> sc_node list \<Rightarrow> sc_node list \<Rightarrow> sc_node list \<Rightarrow> ('w, bool) prog" where
  "submission_round E mc_node missing submitters shown pinged =
     pbind (still_waiting E mc_node missing submitters) (\<lambda>waiting.
       if waiting then pseq (ask_states E shown) (pseq (py_sleep E 2) (pseq (ping_nodes E pinged) (pret False))) else pret True)"

definition check_pool :: "'w env \<Rightarrow> mc_node \<Rightarrow> int \<Rightarrow> string \<Rightarrow> ('w, unit) prog" where
  "check_pool E mc_node n msg = pbind (mempool_size E mc_node) (\<lambda>size_v. check_eq (PInt n) size_v msg)"

definition await_certs ::
  "'w env \<Rightarrow> rat \<Rightarrow> mc_node \<Rightarrow> (pyval \<Rightarrow> bool res) \<Rightarrow> sc_node list \<Rightarrow> sc_node list \<Rightarrow> sc_node list \<Rightarrow> int \<Rightarrow> string \<Rightarrow> ('w, unit) prog" where
  "await_certs E delay mc_node missing submitters shown pinged n msg =
     pseq (py_sleep E delay) (
     pseq (py_loop (submission_round E mc_node missing submitters shown pinged))
       (check_pool E mc_node n msg))"

section \<open>Set-up\<close>

definition cs_setup_nodes :: "'w env \<Rightarrow> string \<Rightarrow> ('w, mc_node list) prog" where
  "cs_setup_nodes E tmpdir = start_nodes E 1 tmpdir (Some [Some [''-debug=sc'', ''-logtimemicros=1'', ''-scproofqueuesize=0'']]) None None"

definition cert_node :: "string \<Rightarrow> bool \<Rightarrow> bool \<Rightarrow> int list \<Rightarrow> sc_node_configuration" where
  "cert_node address submits signs keys = SCNodeConfiguration (Some keys) PNone
     ((connected_to address)\<lparr>nc_cert_submitter_enabled := submits, nc_cert_signing_enabled := signs\<rparr>)"

text \<open>The version and the circuit follow the options of the run.\<close>

definition creation_version :: "account_options \<Rightarrow> int" where
  "creation_version options = (if op_certcircuittype options = KEY_ROTATION_CIRCUIT then SC_CREATION_VERSION_2 else 1)"

definition cs_chain :: "'w env \<Rightarrow> account_options \<Rightarrow> (mc_node \<Rightarrow> sc_creation_info res) \<Rightarrow> (string \<Rightarrow> sc_node_configuration list) \<Rightarrow> pyval
    \<Rightarrow> ('w, sc_bootstrap_info) prog" where
  "cs_chain E options creation_of nodes_of rewind =
     pbind (mc_nth 0) (\<lambda>mc_node.
     pbind (pget (\<lambda>s. ws_address E s mc_node 0)) (\<lambda>address.
     pbind (plift (creation_of mc_node)) (\<lambda>creation.
       bootstrap_sidechain_nodes E (run_options.truncate options)
         \<lparr>net_sc_creation_info = creation, net_sc_nodes_configuration = nodes_of address\<rparr> rewind UtxoModel)))"

definition optional_circuit :: "account_options \<Rightarrow> int \<Rightarrow> int \<Rightarrow> mc_node \<Rightarrow> sc_creation_info res" where
  "optional_circuit options amount epoch_length mc_node =
     SCCreationInfo mc_node (PInt amount) epoch_length 0 (creation_version options) 7 5 False (op_nonceasing options) (op_certcircuittype options)"

definition cs_sc_setup_nodes :: "'w env \<Rightarrow> string \<Rightarrow> int \<Rightarrow> ('w, sc_node list) prog" where
  "cs_sc_setup_nodes E tmpdir n = start_sc_nodes E n tmpdir None None None False (Some DEFAULT_API_KEY)"

section \<open>Signers on four nodes\<close>

definition de_node :: "string \<Rightarrow> bool \<Rightarrow> bool \<Rightarrow> int list \<Rightarrow> sc_node_configuration" where
  "de_node address submits signs keys = (cert_node address submits signs keys)\<lparr>nc_get_peers_interval := ''60m''\<rparr>"

definition de_nodes :: "string \<Rightarrow> sc_node_configuration list" where
  "de_nodes address = [de_node address True True [0, 1], de_node address False True [2, 3],
     de_node address False False [0, 1, 2, 3, 4, 5, 6], de_node address False True [4, 5, 6]]"

definition de_sc_setup_chain :: "'w env \<Rightarrow> account_options \<Rightarrow> ('w, sc_bootstrap_info) prog" where
  "de_sc_setup_chain E options = cs_chain E options (optional_circuit options 1000 10) de_nodes (PInt (720 * 120 * 5))"

definition check_peers :: "'w env \<Rightarrow> (sc_node \<times> int \<times> string) list \<Rightarrow> ('w, unit) prog" where
  "check_peers E = piter (\<lambda>(node, expected, msg).
     pbind (sc_connected_peers E node) (\<lambda>peers.
     pbind (plift (py_len peers)) (\<lambda>n. check_eq (PInt expected) (PInt n) msg)))"

text \<open>What a node reports of its submitter or signer.\<close>

definition reported_enabled :: "'w env \<Rightarrow> sc_node \<Rightarrow> string \<Rightarrow> ('w, pyval) prog" where
  "reported_enabled E node service = sc_field E node service [] [''result'', ''enabled'']"

definition check_enabled :: "'w env \<Rightarrow> (sc_node \<times> string \<times> bool \<times> string) list \<Rightarrow> ('w, unit) prog" where
  "check_enabled E = piter (\<lambda>(node, service, expected, msg).
     pbind (reported_enabled E node service) (\<lambda>v. plift (if expected then assert_true (truthy v) msg else assert_false (truthy v) msg)))"

definition IS_SUBMITTER :: string where "IS_SUBMITTER = ''submitter_isCertificateSubmitterEnabled''"
definition IS_SIGNER :: string where "IS_SIGNER = ''submitter_isCertificateSignerEnabled''"

definition de_check_api :: "'w env \<Rightarrow> sc_node \<Rightarrow> sc_node \<Rightarrow> sc_node \<Rightarrow> sc_node \<Rightarrow> ('w, unit) prog" where
  "de_check_api E n1 n2 n3 n4 = check_enabled E
     [(n1, IS_SUBMITTER, True, ''Node 1 submitter expected to be enabled.''), (n1, IS_SIGNER, True, ''Node 1 cert signer expected to be enabled.''),
      (n2, IS_SUBMITTER, False, ''Node 2 submitter expected to be disabled.''), (n2, IS_SIGNER, True, ''Node 2 cert signer expected to be enabled.''),
      (n3, IS_SUBMITTER, False, ''Node 3 submitter expected to be disabled.''), (n3, IS_SIGNER, False, ''Node 3 cert signer expected to be disabled.''),
      (n4, IS_SUBMITTER, False, ''Node 4 submitter expected to be disabled.''), (n4, IS_SIGNER, True, ''Node 4 cert signer expected to be enabled.'')]"

text \<open>The end of a withdrawal epoch and the first block of the next; \<open>on_end\<close> looks at the last block of the epoch.\<close>

definition de_switch_epoch :: "'w env \<Rightarrow> mc_node \<Rightarrow> sc_node \<Rightarrow> int \<Rightarrow> (pyval \<Rightarrow> ('w, unit) prog) \<Rightarrow> ('w, unit) prog" where
  "de_switch_epoch E mc_node sc_node1 blocks on_end =
     pbind (mc_generate E mc_node blocks (blocks - 1)) (\<lambda>end_hash.
     pseq (on_end end_hash) (
     pbind (generate_next_block E sc_node1 ''first node'' False PNone) (\<lambda>scblock_id.
     pseq (check_mcreferencedata_presence E end_hash scblock_id sc_node1) (
     pbind (mc_generate E mc_node 1 0) (\<lambda>next_hash.
     pbind (generate_one E sc_node1 ''first node'') (\<lambda>scblock_id.
       check_mcreference_presence E next_hash scblock_id sc_node1))))))"

definition de_first_end :: "'w env \<Rightarrow> mc_node \<Rightarrow> pyval \<Rightarrow> ('w, unit) prog" where
  "de_first_end E mc_node end_hash =
     pseq (plift (py_concat (PStr ''End mc block hash in withdrawal epoch 0 = '') end_hash)) (
     pbind (mc_field E mc_node ''getblock'' [end_hash] [''scCumTreeHash'']) (\<lambda>root_hash.
     pseq (plift (py_concat (PStr ''End cum sc tx commtree root hash in withdrawal epoch 0 = '') root_hash)) (pret ())))"

definition de_second_end :: "pyval \<Rightarrow> ('w, unit) prog" where
  "de_second_end end_hash = pseq (plift (py_concat (PStr ''End mc block hash in withdrawal epoch 1 = '') end_hash)) (pret ())"

definition de_check_block :: "'w env \<Rightarrow> mc_node \<Rightarrow> pyval \<Rightarrow> string \<Rightarrow> string \<Rightarrow> ('w, unit) prog" where
  "de_check_block E mc_node block_hash field msg =
     pbind (pbind (mc_field E mc_node ''getblock'' [block_hash] [field]) (\<lambda>l. plift (py_len l))) (\<lambda>n. check_eq (PInt 1) (PInt n) msg)"

text \<open>The certificate goes into a mainchain block and from there into the sidechain, where all seven keys count.\<close>

definition de_include :: "'w env \<Rightarrow> mc_node \<Rightarrow> sc_node \<Rightarrow> bool \<Rightarrow> ('w, unit) prog" where
  "de_include E mc_node sc_node1 count_transactions =
     pbind (pbind (mc_call E mc_node ''getrawmempool'' []) (\<lambda>r. plift (py_nth r 0))) (\<lambda>cert_hash.
     pbind (mc_generate E mc_node 1 0) (\<lambda>mcblock_hash.
     pseq (check_pool E mc_node 0 ''Certificate expected to be removed from MC node mempool.'') (
     pseq (if count_transactions then de_check_block E mc_node mcblock_hash ''tx'' ''MC block expected to contain 1 transaction.'' else pret ()) (
     pseq (de_check_block E mc_node mcblock_hash ''cert'' ''MC block expected to contain 1 Certificate.'') (
     pbind (pbind (mc_field E mc_node ''getblock'' [mcblock_hash] [''cert'']) (\<lambda>l. plift (py_nth l 0))) (\<lambda>included.
     pseq (check_eq cert_hash included ''MC block expected to contain certificate.'') (
     pseq (mc_call E mc_node ''getblock'' [mcblock_hash, PBool False]) (
     pbind (generate_one E sc_node1 ''first node'') (\<lambda>scblock_id.
     pseq (check_mcreference_presence E mcblock_hash scblock_id sc_node1) (
     pbind (sc_field E sc_node1 ''block_best'' [] [''result'', ''block'', ''mainchainBlockReferencesData'']) (\<lambda>refs.
     pbind (plift (rbind (py_nth refs 0) (\<lambda>mbrefdata. py_path mbrefdata [''topQualityCertificate'', ''quality'']))) (\<lambda>quality.
       check_eq (PInt 7) quality ''Certificate quality is wrong.''))))))))))))"

definition de_wait :: "'w env \<Rightarrow> rat \<Rightarrow> mc_node \<Rightarrow> sc_node \<Rightarrow> int \<Rightarrow> string \<Rightarrow> ('w, unit) prog" where
  "de_wait E delay mc_node sc_node1 n msg = await_certs E delay mc_node pool_empty [sc_node1] [] [] n msg"

definition de_connect :: "'w env \<Rightarrow> sc_node \<Rightarrow> sc_node \<Rightarrow> sc_node \<Rightarrow> sc_node \<Rightarrow> ('w, unit) prog" where
  "de_connect E n1 n2 n3 n4 =
     pseq (connect_sc_nodes E n1 1 25) (
     pseq (connect_sc_nodes E n3 1 25) (
     pseq (connect_sc_nodes E n4 2 25) (
     pseq (sc_sync_all E False) (
     check_peers E [(n1, 1, ''Sc Node 1 expect to have only 1 connection.''), (n2, 2, ''Sc Node 2 expect to have 2 connections.''),
       (n3, 2, ''Sc Node 3 expect to have 2 connections.''), (n4, 1, ''Sc Node 4 expect to have only 1 connection.'')]))))"

definition de_disconnect :: "'w env \<Rightarrow> sc_node \<Rightarrow> sc_node \<Rightarrow> sc_node \<Rightarrow> sc_node \<Rightarrow> ('w, unit) prog" where
  "de_disconnect E n1 n2 n3 n4 =
     pbind self_sc_nodes (\<lambda>nodes.
     pseq (disconnect_sc_nodes_bi E nodes 2 3) (
     check_peers E [(n1, 1, ''Sc Node 1 expect to have only 1 connection.''), (n2, 2, ''Sc Node 2 expect to only 2 connection.''),
       (n3, 1, ''Sc Node 3 expect to only 1 connection.''), (n4, 0, ''Sc Node 4 expect to have no connections.'')]))"

definition de_run_test :: "'w env \<Rightarrow> ('w, unit) prog" where
  "de_run_test E =
     pbind (mc_nth 0) (\<lambda>mc_node.
     pbind (sc_nth 0) (\<lambda>n1.
     pbind (sc_nth 1) (\<lambda>n2.
     pbind (sc_nth 2) (\<lambda>n3.
     pbind (sc_nth 3) (\<lambda>n4.
     pseq (de_connect E n1 n2 n3 n4) (
     pseq (de_check_api E n1 n2 n3 n4) (
     pseq (de_switch_epoch E mc_node n1 9 (de_first_end E mc_node)) (
     pseq (de_wait E 15 mc_node n1 1 ''Certificate was not added to Mc node mempool.'') (
     pseq (de_include E mc_node n1 True) (
     pseq (de_disconnect E n1 n2 n3 n4) (
     pseq (de_switch_epoch E mc_node n1 8 de_second_end) (
     pseq (de_wait E 15 mc_node n1 0 ''Certificate was added to Mc node mempool.'') (
     pseq (connect_sc_nodes E n3 3 25) (
     pseq (sc_sync_all E False) (
     pseq (de_wait E 20 mc_node n1 1 ''Certificate was not added to Mc node mmepool.'')
       (de_include E mc_node n1 False))))))))))))))))"

section \<open>Submission after a synchronisation\<close>

text \<open>The first test forges 2000 blocks that belong to one withdrawal epoch.\<close>

definition NUM_BLOCKS :: int where "NUM_BLOCKS = 2000"

definition as1_nodes :: "string \<Rightarrow> sc_node_configuration list" where
  "as1_nodes address = [cert_node address False True [0, 1, 2], cert_node address True True [3, 4, 5]]"

definition as1_sc_setup_chain :: "'w env \<Rightarrow> account_options \<Rightarrow> ('w, sc_bootstrap_info) prog" where
  "as1_sc_setup_chain E options = cs_chain E options (optional_circuit options 1000 10) as1_nodes (PInt (720 * 120 * 10))"

definition long_history_nodes :: "'w env \<Rightarrow> string \<Rightarrow> string list list option \<Rightarrow> int \<Rightarrow> ('w, sc_node list) prog" where
  "long_history_nodes E tmpdir debug_extra_args blocks =
     sc_setup_nodes_with_extra_arg E tmpdir 2 debug_extra_args ''-max_hist_rew_len'' (str_int (blocks + 1)) (Some (SIMPLE_APP_BINARY E)) (Some DEFAULT_API_KEY)"

definition as1_sc_setup_nodes :: "'w env \<Rightarrow> string \<Rightarrow> string list list option \<Rightarrow> ('w, sc_node list) prog" where
  "as1_sc_setup_nodes E tmpdir debug_extra_args = long_history_nodes E tmpdir debug_extra_args NUM_BLOCKS"

definition forge_many :: "'w env \<Rightarrow> sc_node \<Rightarrow> string \<Rightarrow> int \<Rightarrow> ('w, unit) prog" where
  "forge_many E node name n = piter (\<lambda>_. pseq (generate_next_block E node name False PNone) (pret ())) (py_range n)"

definition sync_all_blocks :: "'w env \<Rightarrow> rat \<Rightarrow> ('w, unit) prog" where
  "sync_all_blocks E wait_for = pbind self_sc_nodes (\<lambda>nodes. sync_sc_blocks E nodes wait_for)"

text \<open>The blocks up to the last one of the epoch are generated together; the number that is left is the
  number asked for less the number of hashes in the answer.\<close>

definition near_end :: "'w env \<Rightarrow> mc_node \<Rightarrow> int \<Rightarrow> ('w, int) prog" where
  "near_end E mc_node mc_blocks_left_for_we =
     pbind (mc_call E mc_node ''generate'' [PInt (mc_blocks_left_for_we - 1)]) (\<lambda>mc_block_hashes.
     pbind (plift (py_len mc_block_hashes)) (\<lambda>n. pret (mc_blocks_left_for_we - n)))"

text \<open>From the last but one block of an epoch into the next: two blocks of the sidechain start the submission.\<close>

definition pass_end :: "'w env \<Rightarrow> mc_node \<Rightarrow> sc_node \<Rightarrow> int \<Rightarrow> string \<Rightarrow> ('w, unit) prog" where
  "pass_end E mc_node sc_node epoch_length name =
     pbind (near_end E mc_node (epoch_length - 1)) (\<lambda>mc_blocks_left_for_we.
     pseq (generate_next_block E sc_node ''first node'' False PNone) (
     pseq (sc_sync_all E False) (
     pseq (mc_call E mc_node ''generate'' [PInt (mc_blocks_left_for_we + 1)]) (
     pseq (forge_many E sc_node name 2)
       (sc_sync_all E False)))))"

definition submitter_wait :: "'w env \<Rightarrow> rat \<Rightarrow> mc_node \<Rightarrow> sc_node \<Rightarrow> ('w, unit) prog" where
  "submitter_wait E delay mc_node submitter =
     await_certs E delay mc_node (pool_below 1) [submitter] [submitter] [] 1 ''Certificates was not added to MC node mempool.''"

definition as1_run_test :: "'w env \<Rightarrow> ('w, unit) prog" where
  "as1_run_test E =
     pbind (mc_nth 0) (\<lambda>mc_node.
     pbind (sc_nth 0) (\<lambda>sc_node1.
     pbind (sc_nth 1) (\<lambda>sc_node2.
     pseq (forge_many E sc_node1 ''first node'' NUM_BLOCKS) (
     pseq (connect_sc_nodes E sc_node1 1 25) (
     pseq (sync_all_blocks E 300) (
     pseq (pass_end E mc_node sc_node1 10 ''second node'')
       (submitter_wait E 10 mc_node sc_node2)))))))"

text \<open>The second test passes ten withdrawal epochs before the second node is connected.\<close>

definition as2_nodes :: "string \<Rightarrow> sc_node_configuration list" where
  "as2_nodes address = [cert_node address True True [0, 1, 2, 3, 4], cert_node address True True [4, 5, 6]]"

definition as2_sc_setup_chain :: "'w env \<Rightarrow> account_options \<Rightarrow> ('w, sc_bootstrap_info) prog" where
  "as2_sc_setup_chain E options = cs_chain E options (optional_circuit options 100 100) as2_nodes (PInt (720 * 120 * 10))"

definition as2_sc_setup_nodes :: "'w env \<Rightarrow> string \<Rightarrow> string list list option \<Rightarrow> ('w, sc_node list) prog" where
  "as2_sc_setup_nodes E tmpdir debug_extra_args = long_history_nodes E tmpdir debug_extra_args 3000"

definition do_cert_cycle :: "'w env \<Rightarrow> mc_node \<Rightarrow> sc_node \<Rightarrow> sc_node \<Rightarrow> int \<Rightarrow> int \<Rightarrow> ('w, unit) prog" where
  "do_cert_cycle E mc_node sc_forger_node sc_submitter_node mc_blocks_in_epoch_left additional_sc_blocks =
     pseq (piter (\<lambda>_. pseq (mc_call E mc_node ''generate'' [PInt 1]) (
        pseq (generate_next_block E sc_forger_node ''node'' False PNone) (pret ()))) (py_range (mc_blocks_in_epoch_left - 1))) (
     pseq (forge_many E sc_forger_node ''node'' additional_sc_blocks) (
     pseq (mc_call E mc_node ''generate'' [PInt 2]) (
     pseq (forge_many E sc_forger_node ''second node'' 2)
       (submitter_wait E 10 mc_node sc_submitter_node))))"

definition as2_run_test :: "'w env \<Rightarrow> ('w, unit) prog" where
  "as2_run_test E =
     pbind (mc_nth 0) (\<lambda>mc_node.
     pbind (sc_nth 0) (\<lambda>sc_node1.
     pbind (sc_nth 1) (\<lambda>sc_node2.
     pseq (piter (\<lambda>_. do_cert_cycle E mc_node sc_node1 sc_node1 (100 - 1) 300) (py_range 10)) (
     pseq (connect_sc_nodes E sc_node1 1 25) (
     pseq (py_sleep E 20) (
     pbind (reported_enabled E sc_node2 IS_SUBMITTER) (\<lambda>v.
     pseq (check_eq (PBool True) v []) (
     pbind (reported_enabled E sc_node2 IS_SUBMITTER) (\<lambda>v.
     pseq (check_eq (PBool True) v []) (
     pseq (sync_all_blocks E 1500) (
     pseq (sc_call E sc_node1 ''submitter_disableCertificateSubmitter'' []) (
     pseq (do_cert_cycle E mc_node sc_node1 sc_node2 (100 - 1) 5)
       (py_sleep E 20)))))))))))))"

section \<open>Keys in a secure enclave\<close>

text \<open>The node holds the keys 0 to 2, the enclave all from 4 on. \<open>serving\<close> is the environment in which the server
  runs beside the nodes.\<close>

definition MAX_NUMBER_OF_KEYS :: int where "MAX_NUMBER_OF_KEYS = 47"

definition se_port :: "account_options \<Rightarrow> int" where "se_port options = 5000 + op_parallel options"

definition se_nodes :: "account_options \<Rightarrow> string \<Rightarrow> sc_node_configuration list" where
  "se_nodes options address = [SCNodeConfiguration (Some [0, 1, 2]) (PStr (remote_keys_address (se_port options)))
     ((connected_to address)\<lparr>nc_cert_submitter_enabled := True, nc_cert_signing_enabled := True, nc_remote_keys_manager_enabled := True\<rparr>)]"

definition se_sc_setup_chain :: "'w env \<Rightarrow> account_options \<Rightarrow> ('w, sc_bootstrap_info) prog" where
  "se_sc_setup_chain E options = cs_chain E options
     (\<lambda>mc_node. SCCreationInfo mc_node (PInt 100) 10 0 1 MAX_NUMBER_OF_KEYS 5 True False NO_KEY_ROTATION_CIRCUIT) (se_nodes options) (PInt (720 * 120 * 10))"

definition se_server :: "account_options \<Rightarrow> certificate_proof_info \<Rightarrow> enclave_server" where
  "se_server options proof_info = SecureEnclaveApiServer (Some (drop 4 (cp_schnorr_signers_secrets proof_info)))
     (Some (drop 4 (cp_public_signing_keys proof_info))) ''127.0.0.1'' (se_port options)"

definition se_check_quality :: "'w env \<Rightarrow> mc_node \<Rightarrow> ('w, unit) prog" where
  "se_check_quality E mc_node =
     pbind (pbind (mc_call E mc_node ''getrawmempool'' []) (\<lambda>r. plift (py_nth r 0))) (\<lambda>cert_hash.
     pbind (mc_field E mc_node ''getrawtransaction'' [cert_hash, PInt 1] [''cert'', ''quality'']) (\<lambda>quality.
       check_eq (PInt (MAX_NUMBER_OF_KEYS - 1)) quality ''Certificate has wrong quality''))"

definition se_run_test :: "(enclave_server \<Rightarrow> 'w env) \<Rightarrow> account_options \<Rightarrow> sc_bootstrap_info \<Rightarrow> ('w, unit) prog" where
  "se_run_test serving options info =
     (let E = serving (se_server options (bi_certificate_proof_info info))
      in pbind (mc_nth 0) (\<lambda>mc_node.
         pbind (sc_nth 0) (\<lambda>sc_node1.
         pseq (pass_end E mc_node sc_node1 10 ''first node'') (
         pseq (submitter_wait E 20 mc_node sc_node1)
           (se_check_quality E mc_node)))))"

section \<open>Two submitters\<close>

definition both_submit :: "string \<Rightarrow> sc_node_configuration" where
  "both_submit address = SCNodeConfiguration None PNone
     ((connected_to address)\<lparr>nc_cert_submitter_enabled := True, nc_cert_signing_enabled := True\<rparr>)"

definition ms_sc_setup_chain :: "'w env \<Rightarrow> account_options \<Rightarrow> ('w, sc_bootstrap_info) prog" where
  "ms_sc_setup_chain E options = cs_chain E options (\<lambda>mc_node. plain_creation mc_node 100 10)
     (\<lambda>address. [both_submit address, both_submit address]) (PFloat DefaultBlockTimestampRewind)"

definition ms_setup_nodes :: "'w env \<Rightarrow> string \<Rightarrow> ('w, mc_node list) prog" where
  "ms_setup_nodes E tmpdir = start_nodes E 1 tmpdir None None None"

text \<open>The end of the epoch and the first block of the next one.\<close>

definition ms_switch_epoch :: "'w env \<Rightarrow> mc_node \<Rightarrow> sc_node \<Rightarrow> ('w, unit) prog" where
  "ms_switch_epoch E mc_node sc_node =
     pbind (mc_generate E mc_node 8 7) (\<lambda>end_hash.
     pbind (generate_next_block E sc_node ''first node'' False PNone) (\<lambda>scblock_id.
     pseq (check_mcreferencedata_presence E end_hash scblock_id sc_node) (
     pbind (mc_generate E mc_node 1 0) (\<lambda>next_hash.
     pbind (generate_one E sc_node ''first node'') (\<lambda>scblock_id.
       check_mcreference_presence E next_hash scblock_id sc_node)))))"

text \<open>Both nodes have stopped.\<close>

definition none_active :: "'w env \<Rightarrow> sc_node list \<Rightarrow> ('w, bool) prog" where
  "none_active E nodes = pbind (any_active E nodes) (\<lambda>active. pret (\<not> active))"

definition wait_stopped :: "'w env \<Rightarrow> sc_node list \<Rightarrow> rat \<Rightarrow> ('w, unit) prog" where
  "wait_stopped E nodes wait = py_loop (wait_body E (none_active E nodes) wait)"

interpretation stopped: untimed_poll wait_stopped none_active
  by unfold_locales (simp add: wait_stopped_def)

text \<open>In the logs of the two nodes one reports that its submission was not needed, the other that it succeeded.\<close>

definition debug_log :: "'w env \<Rightarrow> string \<Rightarrow> int \<Rightarrow> ('w, string) prog" where
  "debug_log E tmpdir i = pext (e_read E (tmpdir @ ''/sc_node'' @ str_int i @ ''/log/debugLog.txt''))"

definition SUBMISSION_SUCCESSFUL :: string where
  "SUBMISSION_SUCCESSFUL = ''Backward transfer certificate response had been received''"

definition one_submitted :: "string \<Rightarrow> string \<Rightarrow> string \<Rightarrow> bool" where
  "one_submitted not_needed log0 log1 \<longleftrightarrow>
     (is_substr not_needed log0 \<and> is_substr SUBMISSION_SUCCESSFUL log1) \<or> (is_substr not_needed log1 \<and> is_substr SUBMISSION_SUCCESSFUL log0)"

definition check_logs :: "'w env \<Rightarrow> string \<Rightarrow> string \<Rightarrow> ('w, unit) prog" where
  "check_logs E tmpdir not_needed =
     pbind (debug_log E tmpdir 0) (\<lambda>log0. pbind (debug_log E tmpdir 1) (\<lambda>log1. check_that (one_submitted not_needed log0 log1) []))"

definition ms_submit_once :: "'w env \<Rightarrow> string \<Rightarrow> mc_node \<Rightarrow> sc_node \<Rightarrow> sc_node \<Rightarrow> sc_node list \<Rightarrow> string \<Rightarrow> ('w, unit) prog" where
  "ms_submit_once E tmpdir mc_node n1 n2 pinged not_needed =
     pseq (await_certs E 10 mc_node (pool_below 1) [n1, n2] [n1, n2] pinged 1 ''Certificate was not added to Mc node mempool.'') (
     pseq (wait_stopped E [n1, n2] 2)
       (check_logs E tmpdir not_needed))"

definition ms_run_test :: "'w env \<Rightarrow> string \<Rightarrow> ('w, unit) prog" where
  "ms_run_test E tmpdir =
     pseq (py_sleep E (1 / 10)) (
     pbind (mc_nth 0) (\<lambda>mc_node.
     pbind (sc_nth 0) (\<lambda>sc_node1.
     pbind (sc_nth 1) (\<lambda>sc_node2.
     pseq (check_enabled E [(sc_node1, IS_SUBMITTER, True, ''sc node1 should be submitter''), (sc_node2, IS_SUBMITTER, True, ''sc node2 should be submitter'')]) (
     pseq (connect_sc_nodes E sc_node1 1 25) (
     pbind (mc_generate E mc_node 1 0) (\<lambda>mcblock_hash1.
     pbind (generate_one E sc_node1 ''first node'') (\<lambda>scblock_id1.
     pseq (check_mcreferencedata_presence E mcblock_hash1 scblock_id1 sc_node1) (
     pseq (ms_switch_epoch E mc_node sc_node1)
       (ms_submit_once E tmpdir mc_node sc_node1 sc_node2 [] ''Submission not needed. Certificate of equal or higher quality already present in epoch 0''))))))))))"

text \<open>The same for a sidechain of the account model that does not cease. \<open>strip\<close> is \<^verbatim>\<open>remove_0x_prefix\<close>.\<close>

definition ems_setup :: "account_setup \<Rightarrow> account_setup" where
  "ems_setup args = args\<lparr>as_withdrawalEpochLength := 10, as_number_of_sidechain_nodes := 2, as_forward_amount := PInt 100\<rparr>"

definition ems_sc_setup_chain :: "'w env \<Rightarrow> run_options \<Rightarrow> account_setup \<Rightarrow> ('w, account_setup) prog" where
  "ems_sc_setup_chain E options self =
     pbind (mc_nth 0) (\<lambda>mc_node.
     pbind (pget (\<lambda>s. ws_address E s mc_node 0)) (\<lambda>address.
     pbind (plift (SCCreationInfo mc_node (PInt 100) 10 0 SC_CREATION_VERSION_2 7 5 False True KEY_ROTATION_CIRCUIT)) (\<lambda>creation.
     pbind (bootstrap_sidechain_nodes E options
         \<lparr>net_sc_creation_info = creation, net_sc_nodes_configuration = [signer address True [0, 1, 2], signer address True [3, 4, 5]]\<rparr>
         (as_block_timestamp_rewind self) AccountModel) (\<lambda>info.
       pret (self\<lparr>as_sc_nodes_bootstrap_info := Some info\<rparr>)))))"

definition ems_run_test :: "'w env \<Rightarrow> (string \<Rightarrow> string) \<Rightarrow> string \<Rightarrow> account_setup \<Rightarrow> ('w, unit) prog" where
  "ems_run_test E strip tmpdir self =
     pseq (py_sleep E (1 / 10)) (
       let ft_amount_in_wei = convertZenniesToWei (convertZenToZennies (NInt 10))
       in pbind (sc_ac_setup E self True True (PInt 10)) (\<lambda>self.
          pbind (mc_nth 0) (\<lambda>mc_node.
          pbind (sc_nth 0) (\<lambda>sc_node.
          pbind (sc_nth 1) (\<lambda>sc_node2.
          pseq (connect_sc_nodes E sc_node 1 25) (
          pseq (reported_enabled E sc_node IS_SUBMITTER) (
          pseq (reported_enabled E sc_node2 IS_SUBMITTER) (
          pbind (plift (rbind (as_str (as_evm_address self)) (\<lambda>a. Inr (strip a)))) (\<lambda>hex_evm_addr.
          pbind (ac_wallet_balance E sc_node (PStr hex_evm_addr) None) (\<lambda>new_balance.
          pseq (check_eq new_balance (PInt ft_amount_in_wei) ''wrong balance'') (
          pseq (ms_switch_epoch E mc_node sc_node)
            (ms_submit_once E tmpdir mc_node sc_node sc_node2 [sc_node] ''Submission not needed. Certificate already present in epoch 0''))))))))))))"

section \<open>Two certificates for one epoch\<close>

definition mq_creation :: "account_options \<Rightarrow> mc_node \<Rightarrow> sc_creation_info res" where
  "mq_creation options mc_node = SCCreationInfo mc_node (PInt 100) 15 0 (creation_version options) 7 5 False False (op_certcircuittype options)"

definition mq_nodes :: "string \<Rightarrow> sc_node_configuration list" where
  "mq_nodes address = [cert_node address True True (py_range 7), cert_node address True True (py_range 6)]"

definition mq_sc_setup_chain :: "'w env \<Rightarrow> account_options \<Rightarrow> ('w, sc_bootstrap_info) prog" where
  "mq_sc_setup_chain E options = cs_chain E options (mq_creation options) mq_nodes (PInt (720 * 120 * 5))"

definition forge_next :: "'w env \<Rightarrow> sc_node \<Rightarrow> string \<Rightarrow> bool \<Rightarrow> ('w, unit) prog" where
  "forge_next E node name force = pseq (generate_next_block E node name force PNone) (pret ())"

text \<open>The second node gets a forging stake.\<close>

definition mq_prepare :: "'w env \<Rightarrow> sc_bootstrap_info \<Rightarrow> mc_node \<Rightarrow> sc_node \<Rightarrow> sc_node \<Rightarrow> ('w, unit) prog" where
  "mq_prepare E info mc_node n1 n2 =
     pbind (mc_call E mc_node ''getnewaddress'' []) (\<lambda>mc_return_address.
     pbind (mc_make_forward_transfer E mc_node n2 (bi_sidechain_id info) (PInt (100 + 20)) mc_return_address) (\<lambda>mc_block_hash_with_ft.
     pbind (generate_next_block E n1 ''first node'' False PNone) (\<lambda>sc_block_id1.
     pseq (check_mcreference_presence E mc_block_hash_with_ft sc_block_id1 n1) (
     pseq (sc_sync_all E False) (
     pseq (sc_create_forging_stake_mempool E n2 (PInt 100)) (
     pseq (sc_sync_all E False) (
     pseq (forge_next E n1 ''first node'' False) (
     pseq (forge_next E n1 ''first node'' True) (
     pseq (sc_sync_all E False) (
     pseq (forge_next E n2 ''second node'' True)
       (sc_sync_all E False)))))))))))"

text \<open>Separated from each other, both nodes pass the end of the epoch, the second one with a withdrawal of its own.\<close>

definition mq_fork :: "'w env \<Rightarrow> mc_node \<Rightarrow> sc_node \<Rightarrow> sc_node \<Rightarrow> ('w, unit) prog" where
  "mq_fork E mc_node n1 n2 =
     pbind (near_end E mc_node (15 - 1 - 1)) (\<lambda>mc_blocks_left_for_we.
     pseq (forge_next E n1 ''first node'' False) (
     pseq (sc_sync_all E False) (
     pbind self_sc_nodes (\<lambda>nodes.
     pseq (disconnect_sc_nodes_bi E nodes 0 1) (
     pseq (sc_make_withdrawal_request_mempool E mc_node n2 (PInt 20)) (
     pseq (forge_next E n2 ''second node'' False) (
     pseq (mc_call E mc_node ''generate'' [PInt (mc_blocks_left_for_we + 1)]) (
     pseq (forge_many E n2 ''second node'' 2) (
     pseq (py_sleep E 16)
       (forge_many E n1 ''first node'' 2))))))))))"

definition mq_certificates :: "'w env \<Rightarrow> mc_node \<Rightarrow> sc_node \<Rightarrow> sc_node \<Rightarrow> ('w, unit) prog" where
  "mq_certificates E mc_node n1 n2 =
     pseq (await_certs E 10 mc_node (pool_below 2) [n1, n2] [n1, n2] [n1, n2] 2 ''Certificates was not added to MC node mempool.'') (
     pseq (forge_next E n1 ''first node'' False) (
     pseq (py_sleep E 2) (
     pbind (cert_generation_active E n1) (\<lambda>active.
     pseq (plift (assert_false active ''Expected certificate generation will be skipped.'')) (
     pbind (mc_generate E mc_node 1 0) (\<lambda>mc_block_hash_with_certs.
     pbind (mc_call E mc_node ''getblock'' [mc_block_hash_with_certs, PBool False]) (\<lambda>hex.
     pseq (plift (py_concat (PStr ''MC block with 2 Certificates: '') hex)) (
     pseq (check_pool E mc_node 0 ''Certificate expected to be removed from MC node mempool.'') (
     pbind (pbind (mc_field E mc_node ''getblock'' [mc_block_hash_with_certs] [''cert'']) (\<lambda>l. plift (py_len l))) (\<lambda>n.
       check_eq (PInt 2) (PInt n) ''MC block expected to contain 2 certs.''))))))))))"

text \<open>The block of the second node is refused; only classes below \<^verbatim>\<open>Exception\<close> count as a refusal.\<close>

definition must_be_refused :: "('w, unit) prog \<Rightarrow> string \<Rightarrow> ('w, unit) prog" where
  "must_be_refused body msg =
     pbind (ptry (pseq body (pret False)) (\<lambda>e. if exn_isinstance (err_kind e) PlainException then pret True else pthrow e)) (\<lambda>error_occur.
       check_that error_occur msg)"

definition mq_window_end :: "'w env \<Rightarrow> mc_node \<Rightarrow> sc_node \<Rightarrow> sc_node \<Rightarrow> ('w, unit) prog" where
  "mq_window_end E mc_node n1 n2 =
     pseq (forge_next E n1 ''first node'' False) (
     pseq (forge_next E n2 ''second node'' False) (
     pseq (mc_generate E mc_node 1 0) (
     pseq (forge_next E n1 ''first node'' False) (
     pseq (must_be_refused (forge_next E n2 ''second node'' False) ''Node 2 wrongly verified top quality cert as a valid one.'')
       (forge_next E n1 ''first node'' False)))))"

definition mq_rejoin :: "'w env \<Rightarrow> sc_node \<Rightarrow> sc_node \<Rightarrow> ('w, unit) prog" where
  "mq_rejoin E n1 n2 =
     pseq (connect_sc_nodes E n1 1 25) (
     pseq (sync_all_blocks E 25) (
     pbind (sc_call E n1 ''block_best'' []) (\<lambda>b1.
     pbind (sc_call E n2 ''block_best'' []) (\<lambda>b2. check_eq b1 b2 ''SC nodes are not synced as expected.''))))"

definition mq_run_test :: "'w env \<Rightarrow> sc_bootstrap_info \<Rightarrow> ('w, unit) prog" where
  "mq_run_test E info =
     pbind (mc_nth 0) (\<lambda>mc_node.
     pbind (sc_nth 0) (\<lambda>n1.
     pbind (sc_nth 1) (\<lambda>n2.
     pseq (connect_sc_nodes E n1 1 25) (
     pseq (mq_prepare E info mc_node n1 n2) (
     pseq (mq_fork E mc_node n1 n2) (
     pseq (mq_certificates E mc_node n1 n2) (
     pseq (mq_window_end E mc_node n1 n2)
       (mq_rejoin E n1 n2))))))))"

section \<open>Properties\<close>

subsection \<open>Keys and thresholds\<close>

text \<open>The keys that the given nodes sign with.\<close>

definition signing_keys :: "sc_node_configuration list \<Rightarrow> int list" where
  "signing_keys nodes = concat (map nc_submitter_private_keys_indexes (filter nc_cert_signing_enabled nodes))"

lemma cert_node_fields [simp]:
  "nc_submitter_private_keys_indexes (cert_node address submits signs keys) = keys"
  "nc_cert_signing_enabled (cert_node address submits signs keys) = signs"
  "nc_cert_submitter_enabled (cert_node address submits signs keys) = submits"
  by (simp_all add: cert_node_def SCNodeConfiguration_def)

lemma de_node_fields [simp]:
  "nc_submitter_private_keys_indexes (de_node address submits signs keys) = keys"
  "nc_cert_signing_enabled (de_node address submits signs keys) = signs"
  "nc_cert_submitter_enabled (de_node address submits signs keys) = submits"
  by (simp_all add: de_node_def)

lemma optional_circuit_Inr:
  "optional_circuit options amount epoch_length mc_node = Inr c \<Longrightarrow> ci_cert_sig_threshold c = 5 \<and> ci_cert_max_keys c = 7"
  by (auto simp: optional_circuit_def SCCreationInfo_def rerr_def split: if_splits)

text \<open>A chain that does not cease is refused without the circuit with rotation; every other choice of the options is accepted.\<close>
theorem optional_circuit_accepted:
  "(\<exists>c. optional_circuit options amount epoch_length mc_node = Inr c) \<longleftrightarrow>
    \<not> (op_nonceasing options \<and> op_certcircuittype options \<noteq> KEY_ROTATION_CIRCUIT)"
  by (auto simp: optional_circuit_def SCCreationInfo_def creation_version_def SC_CREATION_VERSION_2_def rerr_def)

text \<open>The signing nodes of the decentralisation test hold every key of the chain exactly once, only the first node
  submits, and it can do so only with the fourth node: without it the keys are fewer than the threshold.\<close>
theorem decentralized_signers:
  assumes "optional_circuit options 1000 10 mc_node = Inr c"
  shows "signing_keys (de_nodes address) = [0..ci_cert_max_keys c - 1] \<and>
    int (length (signing_keys (butlast (de_nodes address)))) < ci_cert_sig_threshold c \<and>
    map nc_cert_submitter_enabled (de_nodes address) = [True, False, False, False]"
  using optional_circuit_Inr [OF assms] by (simp add: de_nodes_def signing_keys_def upto.simps)

text \<open>After the first synchronisation test neither node reaches the threshold alone, but both do together. In the second the
  node that has to submit at the end has three keys of its own, fewer than the threshold: the other node still signs.\<close>
theorem synchronised_signers:
  assumes "optional_circuit options amount epoch_length mc_node = Inr c"
  shows "\<forall>n \<in> set (as1_nodes address). int (length (signing_keys [n])) < ci_cert_sig_threshold c"
    and "ci_cert_sig_threshold c \<le> int (card (set (signing_keys (as1_nodes address))))"
    and "int (length (signing_keys [as2_nodes address ! 1])) < ci_cert_sig_threshold c"
    and "ci_cert_sig_threshold c \<le> int (length (signing_keys [as2_nodes address ! 0]))"
  using optional_circuit_Inr [OF assms] by (simp_all add: as1_nodes_def as2_nodes_def signing_keys_def)

text \<open>Both submitters of \<^verbatim>\<open>sc_multiple_cert_submitters.py\<close> have all seven keys, the default of the configuration.\<close>
theorem submitters_have_all_keys: "signing_keys [both_submit address] = [0..6]"
  by (simp add: both_submit_def signing_keys_def SCNodeConfiguration_def)

text \<open>The quality that is expected with the enclave is the number of keys that the node and the enclave hold, which is above
  the threshold; the node alone is below it.\<close>
theorem enclave_quality:
  assumes "length (cp_schnorr_signers_secrets proof_info) = nat MAX_NUMBER_OF_KEYS"
    and "SCCreationInfo mc_node (PInt 100) 10 0 1 MAX_NUMBER_OF_KEYS 5 True False NO_KEY_ROTATION_CIRCUIT = Inr c"
  shows "int (length (signing_keys (se_nodes options address)) + length (en_schnorr_secrets (se_server options proof_info))) = MAX_NUMBER_OF_KEYS - 1"
    and "int (length (signing_keys (se_nodes options address))) < ci_cert_sig_threshold c" and "ci_cert_sig_threshold c \<le> MAX_NUMBER_OF_KEYS - 1"
  using assms by (auto simp: se_nodes_def signing_keys_def SCNodeConfiguration_def se_server_def SecureEnclaveApiServer_def MAX_NUMBER_OF_KEYS_def SCCreationInfo_def)

subsection \<open>The wait\<close>

text \<open>The wait passes only when the mempool has the expected size at the end, after a moment at which enough certificates were there
  or no submitter was active.\<close>
theorem submission_observed:
  assumes "await_certs E delay mc_node missing submitters shown pinged n msg s = Some (Inr (), t)"
  shows "\<exists>u v size_v. still_waiting E mc_node missing submitters u = Some (Inr False, v) \<and> mempool_size E mc_node v = Some (Inr size_v, t) \<and> py_eq (PInt n) size_v"
proof -
  from assms obtain s1 v size_v where loop: "py_loop (submission_round E mc_node missing submitters shown pinged) s1 = Some (Inr (), v)"
    and last: "mempool_size E mc_node v = Some (Inr size_v, t)" "py_eq (PInt n) size_v"
    by (auto simp: await_certs_def check_pool_def pbind_Inr_iff assert_equal_def rerr_def split: if_splits)
  from py_loop_success [OF loop] obtain u where "submission_round E mc_node missing submitters shown pinged u = Some (Inr True, v)" by blast
  then have "still_waiting E mc_node missing submitters u = Some (Inr False, v)" by (auto simp: submission_round_def pbind_Inr_iff split: if_splits)
  with last show ?thesis by blast
qed

text \<open>A loop whose rounds take time and that does not go on after a given time returns.\<close>

lemma py_loop_rets_by:
  fixes T :: rat
  assumes body: "runs clk body"
    and slow: "\<And>s t. body s = Some (Inr False, t) \<Longrightarrow> clk (w_ext s) + 1 \<le> clk (w_ext t)"
    and stop: "\<And>s t. T \<le> clk (w_ext s) \<Longrightarrow> body s \<noteq> Some (Inr False, t)"
  shows "rets (py_loop body)"
proof -
  have "\<exists>r t. py_loop body s = Some (r, t)" for s
  proof (induction "nat \<lceil>T - clk (w_ext s)\<rceil>" arbitrary: s rule: less_induct)
    case less
    obtain r t where run: "body s = Some (r, t)" using body unfolding runs_def by blast
    consider e where "r = Inl e" | "r = Inr True" | "r = Inr False" by (cases r) auto
    then show ?case
    proof cases
      case 3
      with run slow have "clk (w_ext s) + 1 \<le> clk (w_ext t)" by blast
      moreover from 3 run stop have "clk (w_ext s) < T" by (metis not_less)
      ultimately have "nat \<lceil>T - clk (w_ext t)\<rceil> < nat \<lceil>T - clk (w_ext s)\<rceil>" by linarith
      with less run 3 show ?thesis by (simp add: py_loop_again)
    qed (use run in \<open>blast intro: py_loop_break py_loop_raise\<close>)+
  qed
  then show ?thesis by (simp add: rets_def)
qed

lemma runs_py_sleep: "steady_clock E clk \<Longrightarrow> 0 \<le> d \<Longrightarrow> runs clk (py_sleep E d)"
  unfolding runs_def py_sleep_def pact_run steady_clock_def by (fastforce intro: order_trans [rotated])

lemma runs_still_waiting:
  assumes "steady_clock E clk"
  shows "runs clk (any_active E ns)" "runs clk (ask_states E ns)" "runs clk (ping_nodes E ns)" "runs clk (mempool_size E mc_node)"
    "runs clk (still_waiting E mc_node missing ns)"
proof -
  have active: "runs clk (cert_generation_active E n)" for n
    unfolding cert_generation_active_def sc_field_def using assms by (intro runs_intros)
  show any: "runs clk (any_active E ns)" by (induction ns) (simp_all only: any_active.simps, (intro runs_intros active, assumption?)+)
  show "runs clk (ask_states E ns)" "runs clk (ping_nodes E ns)"
    unfolding ask_states_def ping_nodes_def using assms by (auto intro!: runs_intros active)
  show pool: "runs clk (mempool_size E mc_node)" unfolding mempool_size_def using assms by (intro runs_intros)
  show "runs clk (still_waiting E mc_node missing ns)" unfolding still_waiting_def by (intro runs_intros pool any)
qed

lemma runsD: "runs clk m \<Longrightarrow> m s = Some (r, t) \<Longrightarrow> clk (w_ext s) \<le> clk (w_ext t)"
  unfolding runs_def by (metis Pair_inject option.inject)

lemma submission_round_slow:
  assumes clock: "steady_clock E clk" and round: "submission_round E mc_node missing submitters shown pinged s = Some (Inr False, t)"
  shows "clk (w_ext s) + 1 \<le> clk (w_ext t)"
proof -
  from round obtain u v w where "still_waiting E mc_node missing submitters s = Some (Inr True, u)" "ask_states E shown u = Some (Inr (), v)"
    "py_sleep E 2 v = Some (Inr (), w)" "ping_nodes E pinged w = Some (Inr (), t)"
    by (auto simp: submission_round_def pbind_Inr_iff split: if_splits)
  with runs_still_waiting [OF clock] have "clk (w_ext s) \<le> clk (w_ext u)" "clk (w_ext u) \<le> clk (w_ext v)" "clk (w_ext w) \<le> clk (w_ext t)"
    by (blast intro: runsD)+
  moreover have "clk (w_ext v) + 2 \<le> clk (w_ext w)"
    using \<open>py_sleep E 2 v = _\<close> clock by (auto simp: py_sleep_def pact_run steady_clock_def)
  ultimately show ?thesis by linarith
qed

lemma enough_certificates:
  assumes "fst (e_mc_api E mc_node ''getmempoolinfo'' [] (w_ext s)) = Inr r" and "py_get r ''size'' = Inr (PInt k)" and "n \<le> k"
  shows "submission_round E mc_node (pool_below n) submitters shown pinged s \<noteq> Some (Inr False, t)"
  using assms by (auto simp: submission_round_def still_waiting_def mempool_size_def pool_below_def as_num_def pbind_Inr_iff mc_call_run split: if_splits)

text \<open>With enough certificates from some time on, the wait is left, with or without an error.\<close>
theorem submission_wait_returns:
  assumes clock: "steady_clock E clk"
    and there: "\<And>w. T \<le> clk w \<Longrightarrow> \<exists>r k. n \<le> k \<and> fst (e_mc_api E mc_node ''getmempoolinfo'' [] w) = Inr r \<and> py_get r ''size'' = Inr (PInt k)"
  shows "\<exists>r t. await_certs E delay mc_node (pool_below n) submitters shown pinged n msg s = Some (r, t)"
proof -
  let ?round = "submission_round E mc_node (pool_below n) submitters shown pinged"
  have "rets (py_loop ?round)"
  proof (rule py_loop_rets_by)
    show "runs clk ?round" unfolding submission_round_def using runs_still_waiting [OF clock] runs_py_sleep [OF clock]
      by (intro runs_intros) auto
    show "clk (w_ext s) + 1 \<le> clk (w_ext t)" if "?round s = Some (Inr False, t)" for s t
      using submission_round_slow [OF clock that] .
    show "?round s \<noteq> Some (Inr False, t)" if "T \<le> clk (w_ext s)" for s t
      using there [OF that] enough_certificates by blast
  qed
  then have "rets (await_certs E delay mc_node (pool_below n) submitters shown pinged n msg)"
    unfolding await_certs_def check_pool_def by (intro rets_pbind rets_basic runs_rets [OF runs_still_waiting(4) [OF clock]])
  then show ?thesis by (simp add: rets_def)
qed

text \<open>Programs that never raise and during which the clock does not go back.\<close>

definition succeeds :: "('w \<Rightarrow> rat) \<Rightarrow> ('w, 'a) prog \<Rightarrow> bool" where
  "succeeds clk m \<longleftrightarrow> (\<forall>s. \<exists>x t. m s = Some (Inr x, t) \<and> clk (w_ext s) \<le> clk (w_ext t))"

lemma succeedsE: "succeeds clk m \<Longrightarrow> (\<And>x t. m s = Some (Inr x, t) \<Longrightarrow> clk (w_ext s) \<le> clk (w_ext t) \<Longrightarrow> P) \<Longrightarrow> P"
  unfolding succeeds_def by blast

lemma succeeds_pret: "succeeds clk (pret x)"
  by (simp add: succeeds_def)

lemma succeeds_pbind:
  assumes "succeeds clk m" and "\<And>x. succeeds clk (f x)"
  shows "succeeds clk (pbind m f)"
proof -
  have "\<exists>y t. pbind m f s = Some (Inr y, t) \<and> clk (w_ext s) \<le> clk (w_ext t)" for s
  proof (rule succeedsE [OF assms(1), of s])
    fix x t assume m: "m s = Some (Inr x, t)" "clk (w_ext s) \<le> clk (w_ext t)"
    show ?thesis
    proof (rule succeedsE [OF assms(2), of x t])
      fix y u assume "f x t = Some (Inr y, u)" "clk (w_ext t) \<le> clk (w_ext u)"
      with m show ?thesis by (auto simp: pbind_run)
    qed
  qed
  then show ?thesis by (simp add: succeeds_def)
qed

lemma succeeds_if: "(b \<Longrightarrow> succeeds clk m) \<Longrightarrow> (\<not> b \<Longrightarrow> succeeds clk n) \<Longrightarrow> succeeds clk (if b then m else n)"
  by simp

lemma succeeds_piter: "(\<And>x. x \<in> set xs \<Longrightarrow> succeeds clk (f x)) \<Longrightarrow> succeeds clk (piter f xs)"
  by (induction xs) (auto intro: succeeds_pret succeeds_pbind)

lemma succeeds_py_sleep: "steady_clock E clk \<Longrightarrow> 0 \<le> d \<Longrightarrow> succeeds clk (py_sleep E d)"
  using runs_py_sleep [of E clk d] by (auto simp: succeeds_def runs_def py_sleep_def pact_run)

lemmas succeeds_intros = succeeds_pret succeeds_pbind succeeds_if succeeds_piter

lemma py_loop_succeeds_by:
  fixes T :: rat
  assumes body: "succeeds clk body"
    and slow: "\<And>s t. body s = Some (Inr False, t) \<Longrightarrow> clk (w_ext s) + 1 \<le> clk (w_ext t)"
    and stop: "\<And>s t. T \<le> clk (w_ext s) \<Longrightarrow> body s \<noteq> Some (Inr False, t)"
    and late: "\<And>s t. body s = Some (Inr True, t) \<Longrightarrow> T \<le> clk (w_ext t)"
  shows "\<exists>t. py_loop body s = Some (Inr (), t) \<and> T \<le> clk (w_ext t)"
proof (induction "nat \<lceil>T - clk (w_ext s)\<rceil>" arbitrary: s rule: less_induct)
  case less
  obtain b t where run: "body s = Some (Inr b, t)" using body unfolding succeeds_def by blast
  show ?case
  proof (cases b)
    case True
    with run have "body s = Some (Inr True, t)" by simp
    from late [OF this] py_loop_break [of body s t, OF this] show ?thesis by simp
  next
    case False
    with run have again: "body s = Some (Inr False, t)" by simp
    note slow [OF this]
    moreover from again stop have "clk (w_ext s) < T" by (metis not_less)
    ultimately have "nat \<lceil>T - clk (w_ext t)\<rceil> < nat \<lceil>T - clk (w_ext s)\<rceil>" by linarith
    with less py_loop_again [of body s t, OF again] show ?thesis by simp
  qed
qed

text \<open>
  What the nodes do while certificates are produced: the mainchain node always reports an integer size of its
  mempool, fewer than \<open>n\<close> transactions before the time \<open>T\<close> and \<open>n\<close> from then on; the sidechain nodes that are
  asked for the state of their submitter report one, and one submitter, \<open>x\<close>, is active until \<open>T\<close>; the nodes that are
  pinged answer. The answers may have any other fields.
\<close>

definition certificates_at ::
  "'w env \<Rightarrow> ('w \<Rightarrow> rat) \<Rightarrow> rat \<Rightarrow> mc_node \<Rightarrow> int \<Rightarrow> sc_node \<Rightarrow> sc_node list \<Rightarrow> sc_node list \<Rightarrow> bool" where
  "certificates_at E clk T mc_node n x asked pinged \<longleftrightarrow>
     (\<forall>w. \<exists>r k. fst (e_mc_api E mc_node ''getmempoolinfo'' [] w) = Inr r \<and> py_get r ''size'' = Inr (PInt k) \<and> (if clk w < T then k < n else k = n)) \<and>
     (\<forall>m \<in> set asked. \<forall>w. \<exists>r v. fst (e_sc_api E m ''submitter_isCertGenerationActive'' [] [] w) = Inr r \<and> py_path r [''result'', ''state''] = Inr v \<and>
       (m = x \<and> clk w < T \<longrightarrow> v = PBool True)) \<and>
     (\<forall>m \<in> set pinged. \<forall>w. \<exists>r. fst (e_sc_api E m ''block_best'' [] [] w) = Inr r)"

lemma succeeds_sc_call:
  assumes "steady_clock E clk" and "\<And>w. \<exists>r. fst (e_sc_api E m service args [] w) = Inr r"
  shows "succeeds clk (sc_call E m service args)"
  unfolding succeeds_def
proof
  fix s :: "'a world"
  obtain r where "fst (e_sc_api E m service args [] (w_ext s)) = Inr r" using assms(2) by blast
  with assms(1) show "\<exists>x t. sc_call E m service args s = Some (Inr x, t) \<and> clk (w_ext s) \<le> clk (w_ext t)"
    by (simp add: sc_call_run steady_clock_def)
qed

lemma succeeds_submission_round:
  assumes clock: "steady_clock E clk" and nodes: "certificates_at E clk T mc_node n x (submitters @ shown) pinged"
  shows "succeeds clk (submission_round E mc_node (pool_below n) submitters shown pinged)"
proof -
  have active: "succeeds clk (cert_generation_active E m)" if "m \<in> set submitters \<union> set shown" for m
    unfolding succeeds_def
  proof
    fix s :: "'a world"
    obtain r v where "fst (e_sc_api E m ''submitter_isCertGenerationActive'' [] [] (w_ext s)) = Inr r" "py_path r [''result'', ''state''] = Inr v"
      using nodes \<open>m \<in> _\<close> unfolding certificates_at_def set_append by blast
    with clock show "\<exists>b t. cert_generation_active E m s = Some (Inr b, t) \<and> clk (w_ext s) \<le> clk (w_ext t)"
      by (simp add: cert_generation_active_def sc_field_def sc_call_run pbind_run steady_clock_def del: py_path.simps)
  qed
  then have any: "succeeds clk (any_active E submitters)"
    by (induction submitters) (auto intro!: succeeds_intros)
  have ask: "succeeds clk (ask_states E shown)" unfolding ask_states_def using active by (auto intro!: succeeds_intros)
  have ping: "succeeds clk (ping_nodes E pinged)"
    unfolding ping_nodes_def using nodes clock by (auto simp: certificates_at_def intro!: succeeds_intros succeeds_sc_call)
  have wait: "succeeds clk (still_waiting E mc_node (pool_below n) submitters)"
    unfolding succeeds_def
  proof
    fix s :: "'a world"
    obtain r k where r: "fst (e_mc_api E mc_node ''getmempoolinfo'' [] (w_ext s)) = Inr r" "py_get r ''size'' = Inr (PInt k)"
      using nodes unfolding certificates_at_def by blast
    let ?t = "s\<lparr>w_calls := w_calls s @ [McCall mc_node ''getmempoolinfo'' []], w_ext := snd (e_mc_api E mc_node ''getmempoolinfo'' [] (w_ext s))\<rparr>"
    obtain b u where "any_active E submitters ?t = Some (Inr b, u)" "clk (w_ext ?t) \<le> clk (w_ext u)" by (rule succeedsE [OF any])
    moreover have "clk (w_ext s) \<le> clk (w_ext ?t)" using clock by (simp add: steady_clock_def)
    ultimately show "\<exists>b t. still_waiting E mc_node (pool_below n) submitters s = Some (Inr b, t) \<and> clk (w_ext s) \<le> clk (w_ext t)"
      using r by (auto simp: still_waiting_def mempool_size_def pool_below_def as_num_def mc_call_run pbind_run)
  qed
  show ?thesis unfolding submission_round_def
    by (intro succeeds_intros wait ask ping succeeds_py_sleep [OF clock]) simp
qed

lemma any_active_late:
  assumes clock: "steady_clock E clk" and nodes: "certificates_at E clk T mc_node n x asked pinged" and x: "x \<in> set asked" "x \<in> set ns"
    and none: "any_active E ns s = Some (Inr False, t)"
  shows "T \<le> clk (w_ext t)"
  using x(2) none
proof (induction ns arbitrary: s)
  case (Cons m ns)
  then obtain u where m: "cert_generation_active E m s = Some (Inr False, u)" "any_active E ns u = Some (Inr False, t)"
    by (auto simp: pbind_Inr_iff split: if_splits)
  show ?case
  proof (cases "m = x")
    case True
    obtain r v where "fst (e_sc_api E x ''submitter_isCertGenerationActive'' [] [] (w_ext s)) = Inr r" "py_path r [''result'', ''state''] = Inr v"
      "clk (w_ext s) < T \<longrightarrow> v = PBool True" using nodes x(1) unfolding certificates_at_def by blast
    with m(1) True have "\<not> clk (w_ext s) < T"
      by (auto simp: cert_generation_active_def sc_field_def sc_call_run pbind_run truthy_def simp del: py_path.simps)
    moreover have "clk (w_ext s) \<le> clk (w_ext t)" using runsD [OF runs_still_waiting(1) [OF clock] Cons.prems(2)] .
    ultimately show ?thesis by simp
  qed (use Cons m in auto)
qed simp

lemma submission_round_late:
  assumes clock: "steady_clock E clk" and nodes: "certificates_at E clk T mc_node n x (submitters @ shown) pinged" and "x \<in> set submitters"
    and "submission_round E mc_node (pool_below n) submitters shown pinged s = Some (Inr True, t)"
  shows "T \<le> clk (w_ext t)"
proof -
  let ?u = "s\<lparr>w_calls := w_calls s @ [McCall mc_node ''getmempoolinfo'' []], w_ext := snd (e_mc_api E mc_node ''getmempoolinfo'' [] (w_ext s))\<rparr>"
  obtain r k where r: "fst (e_mc_api E mc_node ''getmempoolinfo'' [] (w_ext s)) = Inr r" "py_get r ''size'' = Inr (PInt k)"
    "if clk (w_ext s) < T then k < n else k = n" using nodes unfolding certificates_at_def by blast
  from assms(4) have "still_waiting E mc_node (pool_below n) submitters s = Some (Inr False, t)"
    by (auto simp: submission_round_def pbind_Inr_iff split: if_splits)
  with r have "(k < n \<and> any_active E submitters ?u = Some (Inr False, t)) \<or> (n \<le> k \<and> t = ?u)"
    by (auto simp: still_waiting_def mempool_size_def pool_below_def as_num_def mc_call_run pbind_run split: if_splits)
  then show ?thesis
  proof
    assume "k < n \<and> any_active E submitters ?u = Some (Inr False, t)"
    with any_active_late [OF clock nodes] assms(3) show ?thesis by auto
  next
    assume "n \<le> k \<and> t = ?u"
    moreover from this r(3) have "T \<le> clk (w_ext s)" by (simp split: if_splits)
    moreover have "clk (w_ext s) \<le> clk (w_ext ?u)" using clock by (simp add: steady_clock_def)
    ultimately show ?thesis by simp
  qed
qed

text \<open>C26. The wait for certificates ends when they come: if the mempool of the mainchain node has fewer than the expected number of
  transactions until a time \<open>T\<close> and exactly that number from then on, a submitter is active until \<open>T\<close>, and no request
  fails, the wait and the check after it return without an error, not before \<open>T\<close>, however late \<open>T\<close> is.\<close>
theorem submission_wait_ends:
  assumes clock: "steady_clock E clk" and nodes: "certificates_at E clk T mc_node n x (submitters @ shown) pinged" and x: "x \<in> set submitters"
  shows "\<exists>t. await_certs E delay mc_node (pool_below n) submitters shown pinged n msg s = Some (Inr (), t) \<and> T \<le> clk (w_ext t)"
proof -
  let ?round = "submission_round E mc_node (pool_below n) submitters shown pinged"
  obtain u where slept: "py_sleep E delay s = Some (Inr (), u)" by (simp add: py_sleep_def pact_run)
  have stop: "?round a \<noteq> Some (Inr False, b)" if late: "T \<le> clk (w_ext a)" for a b
  proof -
    obtain r k where "fst (e_mc_api E mc_node ''getmempoolinfo'' [] (w_ext a)) = Inr r" "py_get r ''size'' = Inr (PInt k)"
      "if clk (w_ext a) < T then k < n else k = n" using nodes unfolding certificates_at_def by blast
    with late enough_certificates show ?thesis by fastforce
  qed
  obtain v where loop: "py_loop ?round u = Some (Inr (), v)" and late: "T \<le> clk (w_ext v)"
  proof (rule exE [OF py_loop_succeeds_by [OF succeeds_submission_round [OF clock nodes]]])
    show "clk (w_ext a) + 1 \<le> clk (w_ext b)" if "?round a = Some (Inr False, b)" for a b by (rule submission_round_slow [OF clock that])
    show "?round a \<noteq> Some (Inr False, b)" if "T \<le> clk (w_ext a)" for a b by (rule stop [OF that])
    show "T \<le> clk (w_ext b)" if "?round a = Some (Inr True, b)" for a b by (rule submission_round_late [OF clock nodes x that])
  qed blast
  obtain r where "fst (e_mc_api E mc_node ''getmempoolinfo'' [] (w_ext v)) = Inr r" "py_get r ''size'' = Inr (PInt n)"
    using nodes late unfolding certificates_at_def by (metis not_less)
  moreover have "clk (w_ext v) \<le> clk (snd (e_mc_api E mc_node ''getmempoolinfo'' [] (w_ext v)))" using clock by (simp add: steady_clock_def)
  ultimately show ?thesis using slept loop late
    by (simp add: await_certs_def check_pool_def mempool_size_def mc_call_run assert_equal_def pbind_run)
qed

text \<open>A submitter that is active for half a minute, and then a certificate, reported with other fields of the mempool.\<close>

definition arriving_env :: "sample env" where
  "arriving_env = sample_env\<lparr>e_mc_api := \<lambda>n m a w. (Inr (PDict [(''size'', PInt (if 30 \<le> fst w then 1 else 0)), (''bytes'', PInt 9), (''usage'', PInt 9)]), w),
     e_sc_api := \<lambda>n m a k w. (Inr (PDict [(''result'', PDict [(''state'', PBool (fst w < 30))])]), w)\<rparr>"

theorem submission_wait_ends_witness:
  "\<exists>t. await_certs arriving_env 10 sample_mc (pool_below 1) [sample_node ''a''] [sample_node ''a''] [sample_node ''b''] 1 ''missing'' (sample_world 0 0 [])
    = Some (Inr (), t) \<and> 30 \<le> fst (w_ext t)"
proof (rule submission_wait_ends)
  show "steady_clock arriving_env fst" using sample_steady_clock by (simp add: steady_clock_def arriving_env_def)
  show "certificates_at arriving_env fst 30 sample_mc 1 (sample_node ''a'') ([sample_node ''a''] @ [sample_node ''a'']) [sample_node ''b'']"
    by (simp add: certificates_at_def arriving_env_def)
qed simp

subsection \<open>Refusals and logs\<close>

lemma must_be_refused_Inr:
  "must_be_refused body msg s = Some (Inr (), t) \<longleftrightarrow> (\<exists>e. body s = Some (Inl e, t) \<and> exn_isinstance (err_kind e) PlainException)"
  by (auto simp: must_be_refused_def pbind_Inr_iff pbind_Inl_iff ptry_Inr_iff assert_true_def rerr_def split: if_splits)

text \<open>The check of the logs passes also when both nodes report that their submission succeeded.\<close>
theorem both_submissions_accepted:
  assumes "is_substr not_needed logged" and "is_substr SUBMISSION_SUCCESSFUL logged"
  shows "one_submitted not_needed logged logged"
  using assms by (simp add: one_submitted_def)

subsection \<open>Mainchain blocks of a cycle\<close>

definition mc_blocks_asked :: "mc_node \<Rightarrow> 'w world \<Rightarrow> int" where
  "mc_blocks_asked node s = sum_list (map (\<lambda>ev. case ev of McCall n m [PInt k] \<Rightarrow> if n = node \<and> m = ''generate'' then k else 0 | _ \<Rightarrow> 0) (w_calls s))"

lemma mc_blocks_asked_basic:
  "keeps (mc_blocks_asked node) (sc_call E n m args)" "keeps (mc_blocks_asked node) (py_sleep E d)" "keeps (mc_blocks_asked node) (py_time E)"
  "m \<noteq> ''generate'' \<Longrightarrow> keeps (mc_blocks_asked node) (mc_call E mn m args)"
  by (auto simp: keeps_def ext_defs pact_run pext_run mc_blocks_asked_def split: list.splits pyval.splits)

lemma mc_blocks_asked_generate:
  "mc_call E node ''generate'' [PInt k] s = Some (r, t) \<Longrightarrow> mc_blocks_asked node t = mc_blocks_asked node s + k"
  by (auto simp: mc_call_run mc_blocks_asked_def)

lemma mc_blocks_asked_forge_loop: "keeps (mc_blocks_asked node) (forge_loop E n tx k c es r)"
proof (induction E n tx k c es r rule: forge_loop.induct)
  case (1 E n tx k c es r)
  show ?case
    by (subst forge_loop.simps, unfold Let_def forge_at_def, intro keep_intros mc_blocks_asked_basic) (rule 1, assumption+, rule refl)
qed

lemma mc_blocks_asked_forge:
  "keeps (mc_blocks_asked node) (generate_next_block E n nm force tx)" "keeps (mc_blocks_asked node) (forge_many E n nm k)"
  unfolding forge_many_def generate_next_block_def forging_start_def forge_at_def
  by (intro keep_intros mc_blocks_asked_basic mc_blocks_asked_forge_loop)+

lemma mc_blocks_asked_active: "keeps (mc_blocks_asked node) (any_active E ns)"
proof (induction ns)
  case (Cons n ns)
  then show ?case unfolding any_active.simps cert_generation_active_def sc_field_def by (intro keep_intros mc_blocks_asked_basic)
qed (simp only: any_active.simps keeps_basic)

lemma mc_blocks_asked_await: "keeps (mc_blocks_asked node) (await_certs E delay mc_node missing submitters shown pinged n msg)"
  unfolding await_certs_def submission_round_def still_waiting_def check_pool_def mempool_size_def ask_states_def ping_nodes_def
    cert_generation_active_def sc_field_def
  by (intro keep_intros mc_blocks_asked_basic mc_blocks_asked_active; simp)

lemma mc_blocks_asked_rounds:
  assumes "\<And>x s t. x \<in> set xs \<Longrightarrow> f x s = Some (Inr (), t) \<Longrightarrow> mc_blocks_asked node t = mc_blocks_asked node s + k"
    and "piter f xs s = Some (Inr (), t)"
  shows "mc_blocks_asked node t = mc_blocks_asked node s + int (length xs) * k"
  using assms
proof (induction xs arbitrary: s)
  case (Cons x xs)
  from Cons.prems(2) obtain u where "f x s = Some (Inr (), u)" "piter f xs u = Some (Inr (), t)" by (auto simp: pbind_Inr_iff)
  moreover from this(2) have "mc_blocks_asked node t = mc_blocks_asked node u + int (length xs) * k"
    using Cons.IH Cons.prems(1) by (meson list.set_intros(2))
  ultimately show ?case using Cons.prems(1) [of x s u] by (simp add: algebra_simps)
qed simp

lemma cycle_blocks:
  assumes "do_cert_cycle E mc_node forger submitter left additional s = Some (Inr (), t)" and "1 \<le> left"
  shows "mc_blocks_asked mc_node t = mc_blocks_asked mc_node s + left + 1"
proof -
  let ?step = "\<lambda>_::int. pseq (mc_call E mc_node ''generate'' [PInt 1]) (pseq (generate_next_block E forger ''node'' False PNone) (pret ()))"
  from assms(1) obtain u v w r x where run: "piter ?step (py_range (left - 1)) s = Some (Inr (), u)" "forge_many E forger ''node'' additional u = Some (Inr (), v)"
    "mc_call E mc_node ''generate'' [PInt 2] v = Some (Inr r, w)" "forge_many E forger ''second node'' 2 w = Some (Inr (), x)"
    "submitter_wait E 10 mc_node submitter x = Some (Inr (), t)"
    by (auto simp: do_cert_cycle_def pbind_Inr_iff)
  have "mc_blocks_asked mc_node b = mc_blocks_asked mc_node a + 1" if "?step i a = Some (Inr (), b)" for i a b
    using that by (auto simp: pbind_Inr_iff dest!: mc_blocks_asked_generate keepsD [OF mc_blocks_asked_forge(1) [of mc_node]])
  from mc_blocks_asked_rounds [OF this run(1)] have "mc_blocks_asked mc_node u = mc_blocks_asked mc_node s + (left - 1)"
    using assms(2) by (simp add: py_range_def)
  moreover note keepsD [OF mc_blocks_asked_forge(2) run(2)] mc_blocks_asked_generate [OF run(3)] keepsD [OF mc_blocks_asked_forge(2) run(4)]
    keepsD [OF mc_blocks_asked_await run(5) [unfolded submitter_wait_def]]
  ultimately show ?thesis by simp
qed

text \<open>Every cycle of the second synchronisation test asks the mainchain for exactly one withdrawal epoch of blocks, so after the
  genesis block each cycle ends one block into the next epoch, as the first one began.\<close>
theorem cycles_fill_epochs:
  assumes "piter (\<lambda>_. do_cert_cycle E mc_node forger submitter (epoch_length - 1) additional) (py_range cycles) s = Some (Inr (), t)"
    and "2 \<le> epoch_length" and "0 \<le> cycles"
  shows "mc_blocks_asked mc_node t = mc_blocks_asked mc_node s + cycles * epoch_length"
proof -
  have "mc_blocks_asked mc_node b = mc_blocks_asked mc_node a + epoch_length"
    if "do_cert_cycle E mc_node forger submitter (epoch_length - 1) additional a = Some (Inr (), b)" for a b
    using cycle_blocks [OF that] assms(2) by simp
  from mc_blocks_asked_rounds [OF this assms(1)] show ?thesis using assms(3) by (simp add: py_range_def)
qed

end
