(* ===== verification/Backward_Transfers.thy ===== *)
theory Backward_Transfers
  imports Ceased_Withdrawals Cert_Submitters
begin

text \<open>
  The tests of backward transfers in the UTXO model: \<^verbatim>\<open>qa/sc_backward_transfer.py\<close>,
  \<^verbatim>\<open>sc_backward_transfer_with_mc_block_delay.py\<close>, \<^verbatim>\<open>sc_bwt_minimum_value.py\<close>, and the two tests of the limit on the
  withdrawals of an epoch, \<^verbatim>\<open>sc_bt_limit.py\<close> and \<^verbatim>\<open>sc_bt_limit_across_fork.py\<close>. Withdrawals that are requested in an epoch
  are outputs of its certificate, in the mempool and the blocks of the mainchain and in the block of the sidechain.
\<close>

section \<open>Set-up\<close>

definition bt_setup_nodes :: "'w env \<Rightarrow> string \<Rightarrow> ('w, mc_node list) prog" where
  "bt_setup_nodes E tmpdir =
     start_nodes E 1 tmpdir (Some [Some [''-debug=sc'', ''-debug=ws'', ''-logtimemicros=1'', ''-scproofqueuesize=0'']]) None None"

text \<open>The node has all ten keys of the signers.\<close>

definition bt_chain :: "'w env \<Rightarrow> account_options \<Rightarrow> int \<Rightarrow> ('w, sc_bootstrap_info) prog" where
  "bt_chain E options epoch_length = cs_chain E options
     (\<lambda>mc_node. SCCreationInfo mc_node (PInt 1000) epoch_length 0 (creation_version options) 10 6 False (op_nonceasing options) (op_certcircuittype options))
     (\<lambda>address. [SCNodeConfiguration (Some (py_range 10)) PNone (connected_to address)]) (PFloat DefaultBlockTimestampRewind)"

definition bt_sc_setup_chain :: "'w env \<Rightarrow> account_options \<Rightarrow> ('w, sc_bootstrap_info) prog" where
  "bt_sc_setup_chain E options = bt_chain E options 10"

definition bt_sc_setup_nodes :: "'w env \<Rightarrow> string \<Rightarrow> ('w, sc_node list) prog" where
  "bt_sc_setup_nodes E tmpdir = start_sc_nodes E 1 tmpdir None None None False (Some DEFAULT_API_KEY)"

definition bd_sc_setup_chain :: "'w env \<Rightarrow> account_options \<Rightarrow> ('w, sc_bootstrap_info) prog" where
  "bd_sc_setup_chain E options = bt_chain E options 20"

definition bd_sc_setup_nodes :: "'w env \<Rightarrow> string \<Rightarrow> ('w, sc_node list) prog" where
  "bd_sc_setup_nodes E tmpdir =
     start_sc_nodes E 1 tmpdir (Some [Some [''-mc_block_delay_ref'', ''1'']]) None None False (Some DEFAULT_API_KEY)"

definition mv_setup_nodes :: "'w env \<Rightarrow> string \<Rightarrow> ('w, mc_node list) prog" where
  "mv_setup_nodes E tmpdir = start_nodes E 1 tmpdir (Some [Some [''-debug=sc'', ''-logtimemicros=1'', ''-scproofqueuesize=0'']]) None None"

definition mv_sc_setup_chain :: "'w env \<Rightarrow> account_options \<Rightarrow> ('w, sc_bootstrap_info) prog" where
  "mv_sc_setup_chain E options = cs_chain E options (optional_circuit options 100 10)
     (\<lambda>address. [SCNodeConfiguration None PNone ((connected_to address)\<lparr>nc_max_fee := 100 * COIN\<rparr>)]) (PFloat DefaultBlockTimestampRewind)"

definition bl_sc_setup_chain :: "'w env \<Rightarrow> account_options \<Rightarrow> ('w, pyval) prog" where
  "bl_sc_setup_chain E options = pbind (cs_chain E options (optional_circuit options 1000 11)
     (\<lambda>address. [SCNodeConfiguration None PNone
        ((connected_to address)\<lparr>nc_cert_submitter_enabled := True, nc_cert_signing_enabled := True\<rparr>)]) (PInt (720 * 120 * 5)))
     (\<lambda>info. pret (bi_sidechain_id info))"

section \<open>The first blocks\<close>

text \<open>\<^verbatim>\<open>check_box_balance\<close> on the genesis account, which every bootstrapped sidechain has.\<close>

definition genesis_box :: "'w env \<Rightarrow> sc_bootstrap_info \<Rightarrow> sc_node \<Rightarrow> ('w, unit) prog" where
  "genesis_box E info sc_node = (case bi_genesis_account info of
      None \<Rightarrow> praise AttributeError ''NoneType object has no attribute publicKey'' []
    | Some account \<Rightarrow> check_box_balance E sc_node account (Some (PStr ''ForgerBox'')) (PInt 1) (bi_genesis_account_balance info))"

definition bt_genesis :: "'w env \<Rightarrow> sc_bootstrap_info \<Rightarrow> mc_node \<Rightarrow> sc_node \<Rightarrow> ('w, unit) prog" where
  "bt_genesis E info mc_node sc_node =
     pbind (mc_call E mc_node ''getbestblockhash'' []) (\<lambda>mcblock_hash0.
     pbind (sc_field E sc_node ''block_best'' [] [''result'', ''block'', ''id'']) (\<lambda>scblock_id0.
     pseq (check_mcreference_presence E mcblock_hash0 scblock_id0 sc_node) (
     pbind (mc_field E mc_node ''getblock'' [mcblock_hash0] [''height'']) (\<lambda>sc_creation_mc_block_height.
     pseq (check_eq sc_creation_mc_block_height (bi_mainchain_block_height info)
        ''Genesis info expected to have the same genesis mc block height as in MC node.'') (
     pseq (check_wallet_coins_balance E sc_node (bi_genesis_account_balance info))
       (genesis_box E info sc_node))))))"

definition FT_AMOUNT :: int where "FT_AMOUNT = 10"

text \<open>The forward transfer and the \<open>blocks\<close> mainchain blocks after it; the first one has to be referenced.\<close>

definition bt_forward :: "'w env \<Rightarrow> sc_bootstrap_info \<Rightarrow> mc_node \<Rightarrow> sc_node \<Rightarrow> int \<Rightarrow> ('w, pyval) prog" where
  "bt_forward E info mc_node sc_node blocks =
     pbind (new_key25519 E sc_node) (\<lambda>sc_address.
     pbind (mc_call E mc_node ''getnewaddress'' []) (\<lambda>mc_return_address.
     pseq (mc_call E mc_node ''sc_send'' [PList [PDict [(''toaddress'', sc_address), (''amount'', PInt FT_AMOUNT),
        (''scid'', bi_sidechain_id info), (''mcReturnAddress'', mc_return_address)]]]) (
     pseq (check_pool E mc_node 1 ''Forward Transfer expected to be added to mempool.'') (
     pbind (mc_generate E mc_node blocks 0) (\<lambda>mcblock_hash1.
     pbind (generate_one E sc_node ''first node'') (\<lambda>scblock_id1.
     pseq (check_mcreference_presence E mcblock_hash1 scblock_id1 sc_node) (
     pbind (plift (as_int (bi_genesis_account_balance info))) (\<lambda>balance.
     pseq (check_wallet_coins_balance E sc_node (PInt (balance + FT_AMOUNT))) (
     pseq (check_box_balance E sc_node \<lparr>kp_secret = PStr [], kp_publicKey = sc_address\<rparr> (Some (PStr ''ZenBox'')) (PInt 1) (PInt FT_AMOUNT))
       (pret sc_address))))))))))"

definition bt_start :: "'w env \<Rightarrow> sc_bootstrap_info \<Rightarrow> int \<Rightarrow> (mc_node \<Rightarrow> sc_node \<Rightarrow> pyval \<Rightarrow> ('w, unit) prog) \<Rightarrow> ('w, unit) prog" where
  "bt_start E info blocks test = cw_start E (\<lambda>mc_node sc_node.
     pseq (bt_genesis E info mc_node sc_node) (
     pbind (bt_forward E info mc_node sc_node blocks) (test mc_node sc_node)))"

section \<open>The end of an epoch\<close>

definition bt_end :: "'w env \<Rightarrow> mc_node \<Rightarrow> int \<Rightarrow> int \<Rightarrow> int \<Rightarrow> ('w, pyval \<times> pyval) prog" where
  "bt_end E mc_node epoch blocks i =
     pbind (mc_generate E mc_node blocks i) (\<lambda>end_hash.
     pseq (plift (py_concat (PStr (''End mc block hash in withdrawal epoch '' @ str_int epoch @ '' = '')) end_hash)) (
     pbind (mc_field E mc_node ''getblock'' [end_hash] [''scCumTreeHash'']) (\<lambda>tree_root.
     pseq (plift (py_concat (PStr (''End cum sc tx commtree root hash in withdrawal epoch '' @ str_int epoch @ '' = '')) tree_root))
       (pret (end_hash, tree_root)))))"

definition forge_with_data :: "'w env \<Rightarrow> sc_node \<Rightarrow> pyval \<Rightarrow> ('w, unit) prog" where
  "forge_with_data E sc_node mc_hash =
     pbind (generate_next_block E sc_node ''first node'' False PNone) (\<lambda>scblock_id.
       check_mcreferencedata_presence E mc_hash scblock_id sc_node)"

definition forge_with_reference :: "'w env \<Rightarrow> sc_node \<Rightarrow> pyval \<Rightarrow> ('w, unit) prog" where
  "forge_with_reference E sc_node mc_hash =
     pbind (generate_one E sc_node ''first node'') (\<lambda>scblock_id. check_mcreference_presence E mc_hash scblock_id sc_node)"

text \<open>The last eight blocks of the epoch and the first one of the next; the result is the commitment of the epoch.\<close>

definition bt_switch_epoch :: "'w env \<Rightarrow> mc_node \<Rightarrow> sc_node \<Rightarrow> int \<Rightarrow> ('w, pyval) prog" where
  "bt_switch_epoch E mc_node sc_node epoch =
     pbind (bt_end E mc_node epoch 8 7) (\<lambda>(end_hash, tree_root).
     pseq (forge_with_data E sc_node end_hash) (
     pbind (mc_generate E mc_node 1 0) (\<lambda>next_hash.
     pseq (forge_with_reference E sc_node next_hash) (pret tree_root))))"

text \<open>With a delay of one block, a mainchain block is referenced when there is another one after it.\<close>

definition bd_switch_epoch :: "'w env \<Rightarrow> mc_node \<Rightarrow> sc_node \<Rightarrow> int \<Rightarrow> int \<Rightarrow> ('w, unit) prog \<Rightarrow> ('w, pyval) prog" where
  "bd_switch_epoch E mc_node sc_node epoch blocks before =
     pbind (bt_end E mc_node epoch blocks (-1)) (\<lambda>(end_hash, tree_root).
     pseq before (
     pbind (mc_generate E mc_node 1 0) (\<lambda>next_hash.
     pseq (forge_with_data E sc_node end_hash) (
     pseq (mc_generate E mc_node 1 0) (
     pseq (forge_with_reference E sc_node next_hash) (pret tree_root))))))"

section \<open>Certificates\<close>

definition bt_wait :: "'w env \<Rightarrow> rat \<Rightarrow> mc_node \<Rightarrow> sc_node \<Rightarrow> ('w, unit) prog" where
  "bt_wait E delay mc_node sc_node = await_certs E delay mc_node pool_empty [sc_node] [] [sc_node] 1 ''Certificate was not added to Mc node mempool.''"

definition generation_skipped :: "'w env \<Rightarrow> sc_node \<Rightarrow> ('w, unit) prog" where
  "generation_skipped E sc_node =
     pseq (py_sleep E 2) (
     pbind (cert_generation_active E sc_node) (\<lambda>active. plift (assert_false active ''Expected certificate generation will be skipped.'')))"

definition bt_submission :: "'w env \<Rightarrow> rat \<Rightarrow> mc_node \<Rightarrow> sc_node \<Rightarrow> ('w, unit) prog" where
  "bt_submission E delay mc_node sc_node =
     pseq (bt_wait E delay mc_node sc_node) (
     pseq (generate_one E sc_node ''first node'')
       (generation_skipped E sc_node))"

text \<open>The certificate in the mempool: the sidechain, the epoch and its commitment, and the sum of the withdrawals when
  \<open>bts\<close> is given.\<close>

definition bt_pooled :: "'w env \<Rightarrow> sc_bootstrap_info \<Rightarrow> mc_node \<Rightarrow> int \<Rightarrow> pyval \<Rightarrow> int option \<Rightarrow> ('w, pyval \<times> pyval) prog" where
  "bt_pooled E info mc_node epoch tree_root bts =
     pbind (pbind (mc_call E mc_node ''getrawmempool'' []) (\<lambda>r. plift (py_nth r 0))) (\<lambda>cert_hash.
     pseq (plift (py_concat (PStr (''Withdrawal epoch '' @ str_int epoch @ '' certificate hash = '')) cert_hash)) (
     pbind (mc_call E mc_node ''getrawtransaction'' [cert_hash, PInt 1]) (\<lambda>cert.
     pbind (mc_call E mc_node ''getrawtransaction'' [cert_hash]) (\<lambda>cert_hex.
     pseq (plift (py_concat (PStr (''Withdrawal epoch '' @ str_int epoch @ '' certificate hex = '')) cert_hex)) (
     pbind (plift (py_path cert [''cert'', ''scid''])) (\<lambda>scid.
     pseq (check_eq (bi_sidechain_id info) scid ''Sidechain Id in certificate is wrong.'') (
     pbind (plift (py_path cert [''cert'', ''epochNumber''])) (\<lambda>number.
     pseq (check_eq (PInt epoch) number ''Sidechain epoch number in certificate is wrong.'') (
     pbind (plift (py_path cert [''cert'', ''endEpochCumScTxCommTreeRoot''])) (\<lambda>cert_root.
     pseq (check_eq tree_root cert_root ''Sidechain endEpochCumScTxCommTreeRoot in certificate is wrong.'') (
     pseq (case bts of None \<Rightarrow> pret ()
           | Some amount \<Rightarrow> pbind (plift (py_path cert [''cert'', ''totalAmount''])) (\<lambda>v.
               check_eq (PInt amount) v ''Sidechain total amount in certificate is wrong.''))
       (pret (cert_hash, cert)))))))))))))"

text \<open>The mainchain block with the certificate.\<close>

definition bt_mined :: "'w env \<Rightarrow> mc_node \<Rightarrow> pyval \<Rightarrow> ('w, pyval) prog" where
  "bt_mined E mc_node cert_hash =
     pbind (mc_generate E mc_node 1 0) (\<lambda>mcblock_hash.
     pseq (check_pool E mc_node 0 ''Certificate expected to be removed from MC node mempool.'') (
     pseq (de_check_block E mc_node mcblock_hash ''tx'' ''MC block expected to contain 1 transaction.'') (
     pseq (de_check_block E mc_node mcblock_hash ''cert'' ''MC block expected to contain 1 Certificate.'') (
     pbind (pbind (mc_field E mc_node ''getblock'' [mcblock_hash] [''cert'']) (\<lambda>l. plift (py_nth l 0))) (\<lambda>included.
     pseq (check_eq cert_hash included ''MC block expected to contain certificate.'') (
     pseq (mc_call E mc_node ''getblock'' [mcblock_hash, PBool False]) (pret mcblock_hash)))))))"

definition vout_value :: "pyval \<Rightarrow> int \<Rightarrow> pyval res" where
  "vout_value cert i = rbind (py_get cert ''vout'') (\<lambda>l. rbind (py_nth l i) (\<lambda>v. py_get v ''value''))"

definition vout_address :: "pyval \<Rightarrow> int \<Rightarrow> pyval res" where
  "vout_address cert i = rbind (py_get cert ''vout'') (\<lambda>l. rbind (py_nth l i) (\<lambda>v.
     rbind (py_path v [''scriptPubKey'', ''addresses'']) (\<lambda>addresses. py_nth addresses 0)))"

definition check_vout_value :: "pyval \<Rightarrow> int \<Rightarrow> int \<Rightarrow> string \<Rightarrow> ('w, unit) prog" where
  "check_vout_value cert i amount name = pbind (plift (vout_value cert i)) (\<lambda>v. check_eq (PInt amount) v (name @ '' BT amount is wrong.''))"

definition check_vout_address :: "pyval \<Rightarrow> int \<Rightarrow> pyval \<Rightarrow> string \<Rightarrow> ('w, unit) prog" where
  "check_vout_address cert i address name =
     pbind (plift (vout_address cert i)) (\<lambda>v. check_eq address v (name @ '' BT standard address is wrong.''))"

text \<open>The certificate in the last sidechain block.\<close>

definition bt_outputs :: "pyval \<Rightarrow> pyval res" where
  "bt_outputs sc_cert = py_get sc_cert ''backwardTransferOutputs''"

definition check_sc_cert :: "sc_bootstrap_info \<Rightarrow> int \<Rightarrow> pyval \<Rightarrow> int \<Rightarrow> pyval \<Rightarrow> ('w, unit) prog" where
  "check_sc_cert info epoch tree_root outputs sc_cert =
     pseq (field_is sc_cert ''sidechainId'' (bi_sidechain_id info) ''Sidechain Id in certificate is wrong.'') (
     pseq (field_is sc_cert ''epochNumber'' (PInt epoch) ''Sidechain epoch number in certificate is wrong.'') (
     pseq (field_is sc_cert ''endCumulativeScTxCommitmentTreeRoot'' tree_root ''Sidechain endEpochCumScTxCommTreeRoot in certificate is wrong.'') (
     pbind (plift (rbind (bt_outputs sc_cert) py_len)) (\<lambda>n.
       check_eq (PInt outputs) (PInt n) ''Backward transfer amount in certificate is wrong.''))))"

definition output_field :: "pyval \<Rightarrow> int \<Rightarrow> string \<Rightarrow> pyval res" where
  "output_field sc_cert i k = rbind (bt_outputs sc_cert) (\<lambda>l. rbind (py_nth l i) (\<lambda>v. py_get v k))"

definition check_output :: "pyval \<Rightarrow> int \<Rightarrow> pyval \<Rightarrow> int \<Rightarrow> string \<Rightarrow> ('w, unit) prog" where
  "check_output sc_cert i address amount name =
     pbind (plift (output_field sc_cert i ''address'')) (\<lambda>a.
     pseq (check_eq address a (name @ '' BT address is wrong.'')) (
     pbind (plift (output_field sc_cert i ''amount'')) (\<lambda>v. check_eq (PInt amount) v (name @ '' BT amount is wrong.''))))"

text \<open>\<open>transfers\<close> are the positions, addresses, amounts and names of the outputs to check.\<close>

definition check_synced :: "sc_bootstrap_info \<Rightarrow> int \<Rightarrow> pyval \<Rightarrow> int \<Rightarrow> (int \<times> pyval \<times> int \<times> string) list \<Rightarrow> pyval \<Rightarrow> pyval \<Rightarrow> ('w, unit) prog" where
  "check_synced info epoch tree_root outputs transfers cert_hash sc_cert =
     pseq (check_sc_cert info epoch tree_root outputs sc_cert) (
     pseq (piter (\<lambda>(i, address, amount, name). check_output sc_cert i address amount name) transfers)
       (field_is sc_cert ''hash'' cert_hash ''Certificate hash is different to the one in MC.''))"

definition bt_synced :: "'w env \<Rightarrow> sc_bootstrap_info \<Rightarrow> sc_node \<Rightarrow> int \<Rightarrow> pyval \<Rightarrow> int \<Rightarrow> (int \<times> pyval \<times> int \<times> string) list \<Rightarrow> pyval
    \<Rightarrow> ('w, unit) prog" where
  "bt_synced E info sc_node epoch tree_root outputs transfers cert_hash =
     pbind (sc_field E sc_node ''block_best'' [] [''result'', ''block'', ''mainchainBlockReferencesData'']) (\<lambda>refs.
     pbind (plift (py_nth refs 0)) (\<lambda>mbrefdata.
     pbind (plift (py_get mbrefdata ''topQualityCertificate'')) (\<lambda>sc_cert.
     pbind (plift (rbind (py_get mbrefdata ''lowerCertificateLeaves'') py_len)) (\<lambda>lower.
     pseq (check_eq (PInt lower) (PInt 0) [])
       (check_synced info epoch tree_root outputs transfers cert_hash sc_cert)))))"

section \<open>Two withdrawals\<close>

definition bt_request :: "pyval \<Rightarrow> int \<Rightarrow> pyval" where
  "bt_request address amount = PDict [(''outputs'', PList [PDict [(''mainchainAddress'', address), (''value'', PInt amount)]])]"

definition withdraw :: "'w env \<Rightarrow> sc_node \<Rightarrow> pyval \<Rightarrow> int \<Rightarrow> ('w, unit) prog" where
  "withdraw E sc_node address amount =
     post_or_fail E sc_node ''transaction_withdrawCoins'' (bt_request address amount) ''Withdraw coins failed: ''"

definition BT_AMOUNT1 :: int where "BT_AMOUNT1 = FT_AMOUNT - 3"
definition BT_AMOUNT2 :: int where "BT_AMOUNT2 = FT_AMOUNT - BT_AMOUNT1"

text \<open>The second request is sent once more, and what the node answers to that is not looked at.\<close>

definition two_withdrawals :: "'w env \<Rightarrow> mc_node \<Rightarrow> sc_node \<Rightarrow> ('w, pyval \<times> pyval) prog" where
  "two_withdrawals E mc_node sc_node =
     pbind (mc_call E mc_node ''getnewaddress'' []) (\<lambda>mc_address1.
     pseq (withdraw E sc_node mc_address1 (BT_AMOUNT1 * 100000000)) (
     pseq (generate_next_blocks E sc_node ''first node'' 1) (
     pbind (mc_call E mc_node ''getnewaddress'' []) (\<lambda>mc_address2.
     pseq (withdraw E sc_node mc_address2 (BT_AMOUNT2 * 100000000)) (
     pseq (post_json E sc_node ''transaction_withdrawCoins'' (bt_request mc_address2 (BT_AMOUNT2 * 100000000))) (
     pseq (generate_next_blocks E sc_node ''first node'' 1)
       (pret (mc_address1, mc_address2))))))))"

definition check_two_vouts :: "pyval \<Rightarrow> pyval \<Rightarrow> pyval \<Rightarrow> ('w, unit) prog" where
  "check_two_vouts cert mc_address1 mc_address2 =
     pseq (check_vout_value cert 1 BT_AMOUNT1 ''First'') (
     pseq (check_vout_value cert 2 BT_AMOUNT2 ''Second'') (
     pseq (check_vout_address cert 1 mc_address1 ''First'')
       (check_vout_address cert 2 mc_address2 ''Second'')))"

definition two_transfers_to :: "pyval \<Rightarrow> pyval \<Rightarrow> (int \<times> pyval \<times> int \<times> string) list" where
  "two_transfers_to mc_address1 mc_address2 =
     [(0, mc_address1, BT_AMOUNT1 * 100000000, ''First''), (1, mc_address2, BT_AMOUNT2 * 100000000, ''Second'')]"

definition bt_run_test :: "'w env \<Rightarrow> sc_bootstrap_info \<Rightarrow> ('w, unit) prog" where
  "bt_run_test E info = bt_start E info 1 (\<lambda>mc_node sc_node _.
     pbind (bt_switch_epoch E mc_node sc_node 0) (\<lambda>root0.
     pseq (bt_submission E 10 mc_node sc_node) (
     pbind (bt_pooled E info mc_node 0 root0 (Some 0)) (\<lambda>(hash0, _).
     pbind (bt_mined E mc_node hash0) (\<lambda>block0.
     pseq (forge_with_reference E sc_node block0) (
     pseq (generation_skipped E sc_node) (
     pseq (bt_synced E info sc_node 0 root0 0 [] hash0) (
     pbind (two_withdrawals E mc_node sc_node) (\<lambda>(mc_address1, mc_address2).
     pbind (bt_switch_epoch E mc_node sc_node 1) (\<lambda>root1.
     pseq (bt_submission E 10 mc_node sc_node) (
     pbind (bt_pooled E info mc_node 1 root1 (Some (BT_AMOUNT1 + BT_AMOUNT2))) (\<lambda>(hash1, cert1).
     pbind (bt_mined E mc_node hash1) (\<lambda>block1.
     pseq (check_two_vouts cert1 mc_address1 mc_address2) (
     pseq (forge_with_reference E sc_node block1) (
     pseq (generation_skipped E sc_node)
       (bt_synced E info sc_node 1 root1 2 (two_transfers_to mc_address1 mc_address2) hash1))))))))))))))))"

text \<open>With the delay, one more mainchain block follows the one with the certificate. The blocks that are left of the
  epoch are counted.\<close>

definition bd_run_test :: "'w env \<Rightarrow> sc_bootstrap_info \<Rightarrow> ('w, unit) prog" where
  "bd_run_test E info = bt_start E info 2 (\<lambda>mc_node sc_node _.
     pbind (bd_switch_epoch E mc_node sc_node 0 (20 - 1 - 2) (pret ())) (\<lambda>root0.
     pseq (bt_submission E 20 mc_node sc_node) (
     pbind (bt_pooled E info mc_node 0 root0 (Some 0)) (\<lambda>(hash0, _).
     pbind (bt_mined E mc_node hash0) (\<lambda>block0.
     pseq (generate_one E sc_node ''first node'') (
     pseq (mc_generate E mc_node 1 0) (
     pseq (forge_with_reference E sc_node block0) (
     pseq (generation_skipped E sc_node) (
     pseq (bt_synced E info sc_node 0 root0 0 [] hash0) (
     pbind (two_withdrawals E mc_node sc_node) (\<lambda>(mc_address1, mc_address2).
     pbind (bd_switch_epoch E mc_node sc_node 1 (20 - 1 - 1 - 1 - 1)
        (pseq (generate_next_block E sc_node ''first node'' False PNone) (pret ()))) (\<lambda>root1.
     pseq (bt_submission E 10 mc_node sc_node) (
     pbind (bt_pooled E info mc_node 1 root1 (Some (BT_AMOUNT1 + BT_AMOUNT2))) (\<lambda>(hash1, cert1).
     pbind (bt_mined E mc_node hash1) (\<lambda>block1.
     pseq (check_two_vouts cert1 mc_address1 mc_address2) (
     pseq (generate_one E sc_node ''first node'') (
     pseq (generation_skipped E sc_node) (
     pseq (mc_generate E mc_node 1 0) (
     pseq (forge_with_reference E sc_node block1)
       (bt_synced E info sc_node 1 root1 2 (two_transfers_to mc_address1 mc_address2) hash1))))))))))))))))))))"

section \<open>The smallest withdrawal\<close>

text \<open>A request that has to be answered with an error, and one that has to have a result.\<close>

definition post_refused :: "'w env \<Rightarrow> sc_node \<Rightarrow> string \<Rightarrow> pyval \<Rightarrow> (string \<Rightarrow> string) \<Rightarrow> ('w, unit) prog" where
  "post_refused E sc_node service request failure =
     pbind (post_json E sc_node service request) (\<lambda>res.
     pbind (plift (py_in ''result'' res)) (\<lambda>b.
     pbind (plift (json_dumps res)) (\<lambda>shown. if b then plift (fail (failure shown)) else pret ())))"

definition result_or_fail :: "pyval \<Rightarrow> string \<Rightarrow> ('w, unit) prog" where
  "result_or_fail res failure =
     pbind (plift (py_in ''result'' res)) (\<lambda>b.
     pbind (plift (json_dumps res)) (\<lambda>shown. if \<not> b then plift (fail (failure @ shown)) else pret ()))"

definition DUST :: int where "DUST = 53"
definition MIN_AMOUNT :: int where "MIN_AMOUNT = 54"

definition withdrawals_to :: "pyval \<Rightarrow> int \<Rightarrow> pyval" where
  "withdrawals_to address amount = PList [PDict [(''mainchainAddress'', address), (''value'', PInt amount)]]"

text \<open>\<^verbatim>\<open>withdrawCoins\<close>\<close>

definition mv_first :: "'w env \<Rightarrow> mc_node \<Rightarrow> sc_node \<Rightarrow> ('w, pyval \<times> pyval) prog" where
  "mv_first E mc_node sc_node =
     pbind (mc_call E mc_node ''getnewaddress'' []) (\<lambda>mc_address1.
     pseq (post_refused E sc_node ''transaction_withdrawCoins'' (bt_request mc_address1 DUST)
        (\<lambda>_. ''It shouldn't be possible to send less than dust threshold coins(54 satoshi)'')) (
     pbind (post_json E sc_node ''transaction_withdrawCoins'' (bt_request mc_address1 MIN_AMOUNT)) (\<lambda>withdrawCoinsJson.
     pseq (result_or_fail withdrawCoinsJson ''Withdraw coins failed: '') (
     pseq (generate_next_blocks E sc_node ''first node'' 1)
       (pret (mc_address1, withdrawCoinsJson))))))"

text \<open>\<^verbatim>\<open>createCoreTransactionSimplified\<close>\<close>

definition simplified_request :: "pyval \<Rightarrow> int \<Rightarrow> pyval" where
  "simplified_request address amount = PDict [(''regularOutputs'', PList []), (''withdrawalRequests'', withdrawals_to address amount),
     (''forgerOutputs'', PList []), (''fee'', PInt 5)]"

definition send_core :: "'w env \<Rightarrow> sc_node \<Rightarrow> pyval \<Rightarrow> string \<Rightarrow> ('w, unit) prog" where
  "send_core E sc_node coreTransactionJson failure =
     pbind (plift (py_get coreTransactionJson ''result'')) (\<lambda>tx.
     pbind (post_json E sc_node ''transaction_sendTransaction'' tx) (\<lambda>transactionJson. result_or_fail transactionJson failure))"

definition mv_second :: "'w env \<Rightarrow> mc_node \<Rightarrow> sc_node \<Rightarrow> ('w, pyval) prog" where
  "mv_second E mc_node sc_node =
     pbind (mc_call E mc_node ''getnewaddress'' []) (\<lambda>mc_address2.
     pseq (post_refused E sc_node ''transaction_createCoreTransactionSimplified'' (simplified_request mc_address2 DUST)
        (\<lambda>shown. ''Coins withdraw should have failed: '' @ shown)) (
     pbind (post_json E sc_node ''transaction_createCoreTransactionSimplified'' (simplified_request mc_address2 MIN_AMOUNT)) (\<lambda>coreTransactionJson.
     pseq (result_or_fail coreTransactionJson ''Coins withdraw failed: '') (
     pseq (send_core E sc_node coreTransactionJson ''Withdraw coins failed: '') (
     pseq (generate_next_blocks E sc_node ''first node'' 1)
       (pret mc_address2))))))"

text \<open>\<^verbatim>\<open>createCoreTransaction\<close> on a box of the wallet. The answer that is tested after the second request is the one of
  the first kind of withdrawal.\<close>

definition core_request :: "pyval \<Rightarrow> int \<Rightarrow> pyval \<Rightarrow> pyval \<Rightarrow> int \<Rightarrow> pyval" where
  "core_request box_id box_value sc_address address amount = PDict [(''transactionInputs'', PList [PDict [(''boxId'', box_id)]]),
     (''regularOutputs'', PList [PDict [(''publicKey'', sc_address), (''value'', PInt (box_value - 100))]]),
     (''withdrawalRequests'', withdrawals_to address amount), (''forgerOutputs'', PList [])]"

definition mv_third :: "'w env \<Rightarrow> mc_node \<Rightarrow> sc_node \<Rightarrow> pyval \<Rightarrow> pyval \<Rightarrow> ('w, pyval) prog" where
  "mv_third E mc_node sc_node sc_address withdrawCoinsJson =
     pbind (mc_call E mc_node ''getnewaddress'' []) (\<lambda>mc_address3.
     pbind (pbind (sc_field E sc_node ''wallet_allBoxes'' [] [''result'', ''boxes'']) (\<lambda>l. plift (py_nth l 0))) (\<lambda>forger_box.
     pbind (id_of forger_box) (\<lambda>box_id.
     pbind (plift (rbind (py_get forger_box ''value'') as_int)) (\<lambda>box_value.
     pseq (post_refused E sc_node ''transaction_createCoreTransaction'' (core_request box_id box_value sc_address mc_address3 DUST)
        (\<lambda>shown. ''Coins withdraw should have failed: '' @ shown)) (
     pbind (post_json E sc_node ''transaction_createCoreTransaction'' (core_request box_id box_value sc_address mc_address3 MIN_AMOUNT)) (\<lambda>coreTransactionJson.
     pseq (result_or_fail withdrawCoinsJson ''Coins withdraw failed: '') (
     pseq (send_core E sc_node coreTransactionJson ''Coins withdraw failed: '') (
     pseq (generate_next_blocks E sc_node ''first node'' 1)
       (pret mc_address3)))))))))"

text \<open>The last of the three entries looks at the second output again.\<close>

definition mv_transfers :: "pyval \<Rightarrow> pyval \<Rightarrow> (int \<times> pyval \<times> int \<times> string) list" where
  "mv_transfers mc_address1 mc_address2 =
     [(0, mc_address1, MIN_AMOUNT, ''First''), (1, mc_address2, MIN_AMOUNT, ''Second''), (1, mc_address2, MIN_AMOUNT, ''Second'')]"

definition mv_run_test :: "'w env \<Rightarrow> sc_bootstrap_info \<Rightarrow> ('w, unit) prog" where
  "mv_run_test E info = bt_start E info 1 (\<lambda>mc_node sc_node sc_address.
     pbind (mv_first E mc_node sc_node) (\<lambda>(mc_address1, withdrawCoinsJson).
     pbind (mv_second E mc_node sc_node) (\<lambda>mc_address2.
     pbind (mv_third E mc_node sc_node sc_address withdrawCoinsJson) (\<lambda>mc_address3.
     pbind (bt_switch_epoch E mc_node sc_node 1) (\<lambda>tree_root.
     pseq (bt_submission E 10 mc_node sc_node) (
     pbind (bt_pooled E info mc_node 0 tree_root None) (\<lambda>(cert_hash, cert).
     pbind (bt_mined E mc_node cert_hash) (\<lambda>cert_block.
     pseq (check_vout_address cert 1 mc_address1 ''First'') (
     pseq (check_vout_address cert 2 mc_address2 ''Second'') (
     pseq (check_vout_address cert 3 mc_address3 ''Third'') (
     pseq (forge_with_reference E sc_node cert_block) (
     pseq (generation_skipped E sc_node)
       (bt_synced E info sc_node 0 tree_root 3 (mv_transfers mc_address1 mc_address2) cert_hash)))))))))))))"

section \<open>The limit on withdrawals\<close>

definition MAX_WBS_PER_EPOCH :: int where "MAX_WBS_PER_EPOCH = 3999"
definition BL_EPOCH_LENGTH :: int where "BL_EPOCH_LENGTH = 11"

definition check_consensus_epoch :: "'w env \<Rightarrow> sc_node \<Rightarrow> int \<Rightarrow> ('w, unit) prog" where
  "check_consensus_epoch E sc_node epoch =
     pbind (at_path (http_block_forging_info E sc_node) [''bestBlockEpochNumber'']) (\<lambda>v. check_eq v (PInt epoch) [])"

text \<open>A transaction with \<open>k\<close> withdrawals: slices of two lists of 999 entries.\<close>

definition bl_withdraw :: "'w env \<Rightarrow> sc_node \<Rightarrow> pyval \<Rightarrow> int \<Rightarrow> int \<Rightarrow> ('w, pyval) prog" where
  "bl_withdraw E sc_node bt_address amount k =
     withdrawMultiCoins E sc_node (take (nat k) (replicate 999 bt_address)) (take (nat k) (replicate 999 (PInt amount))) (PInt 0) None"

definition bl_withdraw_id :: "'w env \<Rightarrow> sc_node \<Rightarrow> pyval \<Rightarrow> int \<Rightarrow> ('w, pyval) prog" where
  "bl_withdraw_id E sc_node bt_address k = at_path (bl_withdraw E sc_node bt_address 10000 k) [''result'', ''transactionId'']"

definition block_txs :: "'w env \<Rightarrow> sc_node \<Rightarrow> pyval \<Rightarrow> ('w, pyval) prog" where
  "block_txs E sc_node sc_block_id = at_path (http_block_findById E sc_node sc_block_id) [''block'', ''sidechainTransactions'']"

definition check_tx_count :: "'w env \<Rightarrow> sc_node \<Rightarrow> int \<Rightarrow> pyval \<Rightarrow> ('w, unit) prog" where
  "check_tx_count E sc_node n sc_block_id =
     pbind (pbind (block_txs E sc_node sc_block_id) (\<lambda>l. plift (py_len l))) (\<lambda>k. check_eq (PInt k) (PInt n) [])"

definition first_tx_id :: "'w env \<Rightarrow> sc_node \<Rightarrow> pyval \<Rightarrow> ('w, pyval) prog" where
  "first_tx_id E sc_node sc_block_id =
     pbind (block_txs E sc_node sc_block_id) (\<lambda>l. plift (rbind (py_nth l 0) (\<lambda>tx. py_get tx ''id'')))"

definition bl_next :: "'w env \<Rightarrow> sc_node \<Rightarrow> ('w, pyval) prog" where
  "bl_next E sc_node = generate_next_block E sc_node ''first node'' False PNone"

definition bl_end :: "'w env \<Rightarrow> mc_node \<Rightarrow> int \<Rightarrow> int \<Rightarrow> int \<Rightarrow> ('w, pyval) prog" where
  "bl_end E mc_node epoch blocks i =
     pbind (mc_generate E mc_node blocks i) (\<lambda>end_hash.
     pseq (plift (py_concat (PStr (''End mc block hash in withdrawal epoch '' @ str_int epoch @ '' = '')) end_hash)) (
     pbind (mc_field E mc_node ''getblock'' [end_hash] [''scCumTreeHash'']) (\<lambda>tree_root.
     pseq (plift (py_concat (PStr (''End cum sc tx cum comm tree root hash in withdrawal epoch '' @ str_int epoch @ '' = '')) tree_root))
       (pret end_hash))))"

definition bl_close :: "'w env \<Rightarrow> mc_node \<Rightarrow> sc_node \<Rightarrow> int \<Rightarrow> int \<Rightarrow> int \<Rightarrow> ('w, unit) prog" where
  "bl_close E mc_node sc_node epoch blocks i =
     pbind (bl_end E mc_node epoch blocks i) (\<lambda>end_hash.
     pbind (bl_next E sc_node) (\<lambda>sc_block_id.
     pseq (http_block_findById E sc_node sc_block_id)
       (check_mcreferencedata_presence E end_hash sc_block_id sc_node)))"

definition bl_forward :: "'w env \<Rightarrow> pyval \<Rightarrow> mc_node \<Rightarrow> sc_node \<Rightarrow> int \<Rightarrow> ('w, pyval) prog" where
  "bl_forward E sidechain_id mc_node sc_node amount =
     pseq (check_consensus_epoch E sc_node 1) (
     pbind (new_key25519 E sc_node) (\<lambda>sc_address_1.
     pbind (mc_call E mc_node ''getnewaddress'' []) (\<lambda>mc_return_address_1.
     pseq (forward_transfer_to_sidechain E sidechain_id mc_node sc_address_1 (PInt amount) mc_return_address_1 True) (
     pseq (py_sleep E 1) (
     pseq (generate_one E sc_node ''first node'') (pret sc_address_1))))))"

text \<open>Before the fork there is no limit. The commitment is read from the first of the nine blocks that end the epoch.\<close>

definition bl_epoch_0 :: "'w env \<Rightarrow> pyval \<Rightarrow> mc_node \<Rightarrow> sc_node \<Rightarrow> ('w, unit) prog" where
  "bl_epoch_0 E sidechain_id mc_node sc_node =
     pbind (bl_forward E sidechain_id mc_node sc_node 1000) (\<lambda>sc_address_1.
     pseq (sendCointsToMultipleAddress E sc_node (replicate 10 sc_address_1) (replicate 10 (PFloat 1000000000)) (PInt 0)) (
     pseq (generate_one E sc_node ''first node'') (
     pbind (mc_call E mc_node ''getnewaddress'' []) (\<lambda>bt_address.
     pseq (bl_withdraw E sc_node bt_address 10000 999) (
     pbind (generate_one E sc_node ''first node'') (\<lambda>sc_block_id.
     pseq (check_tx_count E sc_node 1 sc_block_id)
       (bl_close E mc_node sc_node 0 (BL_EPOCH_LENGTH - 1 - 1) 0)))))))"

definition bl_open_1 :: "'w env \<Rightarrow> mc_node \<Rightarrow> sc_node \<Rightarrow> ('w, unit) prog" where
  "bl_open_1 E mc_node sc_node =
     pseq (mc_generate E mc_node 1 0) (
     pseq (generate_one E sc_node ''first node'') (
     pseq (bt_wait E 10 mc_node sc_node) (
     pseq (mc_generate E mc_node 1 0) (
     pseq (generate_next_block E sc_node ''first node'' True PNone)
       (check_consensus_epoch E sc_node 3)))))"

text \<open>Every mainchain block opens a share of the limit. \<open>wbs_mined\<close> are the withdrawals that were requested.\<close>

definition wbs_mined :: int where "wbs_mined = 999 + 98 + 80 + 80 + 999 + 999"
definition remaining_wbs :: int where "remaining_wbs = MAX_WBS_PER_EPOCH - wbs_mined"

definition bl_fill :: "'w env \<Rightarrow> mc_node \<Rightarrow> sc_node \<Rightarrow> pyval \<Rightarrow> ('w, unit) prog" where
  "bl_fill E mc_node sc_node bt_address =
     (let withdraw_some = bl_withdraw E sc_node bt_address 10000
      in pseq (withdraw_some 999) (
         pbind (generate_one E sc_node ''first node'') (\<lambda>sc_block_id.
         pbind (block_txs E sc_node sc_block_id) (\<lambda>txs.
         pseq (check_eq txs (PList []) []) (
         pseq (mc_generate E mc_node 1 0) (
         pseq (pbind (generate_one E sc_node ''first node'') (check_tx_count E sc_node 1)) (
         pseq (withdraw_some 98) (
         pseq (pbind (generate_one E sc_node ''first node'') (check_tx_count E sc_node 1)) (
         pseq (withdraw_some 80) (
         pseq (withdraw_some 80) (
         pseq (pbind (generate_one E sc_node ''first node'') (check_tx_count E sc_node 1)) (
         pseq (withdraw_some 999) (
         pseq (withdraw_some 999) (
         pseq (mc_call E mc_node ''generate'' [PInt (BL_EPOCH_LENGTH - 1 - 1 - 1 - 2)])
           (pbind (bl_next E sc_node) (check_tx_count E sc_node 3))))))))))))))))"

definition bl_last :: "'w env \<Rightarrow> mc_node \<Rightarrow> sc_node \<Rightarrow> pyval \<Rightarrow> ('w, pyval) prog" where
  "bl_last E mc_node sc_node bt_address =
     pbind (bl_withdraw_id E sc_node bt_address remaining_wbs) (\<lambda>wbs_left_txid.
     pseq (mc_generate E mc_node 1 0) (
     pbind (pbind (bl_next E sc_node) (first_tx_id E sc_node)) (\<lambda>tx_id.
     pseq (check_eq tx_id wbs_left_txid []) (
     pbind (bl_withdraw_id E sc_node bt_address 999) (\<lambda>not_included_tx_id.
     pseq (bl_close E mc_node sc_node 0 1 0) (pret not_included_tx_id))))))"

definition bl_slots :: "'w env \<Rightarrow> mc_node \<Rightarrow> sc_node \<Rightarrow> pyval \<Rightarrow> ('w, pyval) prog" where
  "bl_slots E mc_node sc_node bt_address = pseq (bl_fill E mc_node sc_node bt_address) (bl_last E mc_node sc_node bt_address)"

definition bl_epoch_1 :: "'w env \<Rightarrow> mc_node \<Rightarrow> sc_node \<Rightarrow> ('w, pyval \<times> pyval) prog" where
  "bl_epoch_1 E mc_node sc_node =
     pseq (bl_open_1 E mc_node sc_node) (
     pbind (mc_call E mc_node ''getnewaddress'' []) (\<lambda>bt_address.
     pbind (bl_slots E mc_node sc_node bt_address) (\<lambda>not_included_tx_id. pret (bt_address, not_included_tx_id))))"

definition bl_epoch_2 :: "'w env \<Rightarrow> mc_node \<Rightarrow> sc_node \<Rightarrow> pyval \<Rightarrow> pyval \<Rightarrow> ('w, unit) prog" where
  "bl_epoch_2 E mc_node sc_node bt_address not_included_tx_id =
     pbind (mc_generate E mc_node 1 0) (\<lambda>first_hash.
     pbind (generate_one E sc_node ''first node'') (\<lambda>sc_block_id.
     pseq (check_tx_count E sc_node 0 sc_block_id) (
     pseq (check_mcreference_presence E first_hash sc_block_id sc_node) (
     pseq (bt_wait E 10 mc_node sc_node) (
     pbind (mc_generate E mc_node 1 0) (\<lambda>second_hash.
     pbind (bl_withdraw_id E sc_node bt_address 300) (\<lambda>wbs_txid.
     pbind (generate_one E sc_node ''first node'') (\<lambda>sc_block_id.
     pseq (check_mcreference_presence E second_hash sc_block_id sc_node) (
     pseq (check_tx_count E sc_node 1 sc_block_id) (
     pbind (first_tx_id E sc_node sc_block_id) (\<lambda>tx_id.
     pseq (check_eq tx_id wbs_txid []) (
     pseq (mc_call E mc_node ''generate'' [PInt 3]) (
     pbind (pbind (bl_next E sc_node) (first_tx_id E sc_node)) (\<lambda>tx_id.
     pseq (check_eq not_included_tx_id tx_id []) (
     pbind (bl_end E mc_node 1 (BL_EPOCH_LENGTH - 1 - 1 - 3) (-1)) (\<lambda>end_hash.
     pbind (bl_next E sc_node) (\<lambda>sc_block_id.
     pseq (check_tx_count E sc_node 0 sc_block_id)
       (check_mcreferencedata_presence E end_hash sc_block_id sc_node))))))))))))))))))"

definition bl_epoch_3 :: "'w env \<Rightarrow> mc_node \<Rightarrow> sc_node \<Rightarrow> ('w, unit) prog" where
  "bl_epoch_3 E mc_node sc_node =
     pseq (include_certificate E mc_node sc_node) (
     pbind (mc_call E mc_node ''getnewaddress'' []) (\<lambda>mc_addr.
     pseq (mc_call E mc_node ''sendtoaddress'' [mc_addr, PInt 10])
       (bt_wait E 10 mc_node sc_node)))"

definition bl_run_test :: "'w env \<Rightarrow> pyval \<Rightarrow> ('w, unit) prog" where
  "bl_run_test E sidechain_id = cw_start E (\<lambda>mc_node sc_node.
     pseq (bl_epoch_0 E sidechain_id mc_node sc_node) (
     pbind (bl_epoch_1 E mc_node sc_node) (\<lambda>(bt_address, not_included_tx_id).
     pseq (bl_epoch_2 E mc_node sc_node bt_address not_included_tx_id)
       (bl_epoch_3 E mc_node sc_node))))"

definition bf_run_test :: "'w env \<Rightarrow> pyval \<Rightarrow> ('w, unit) prog" where
  "bf_run_test E sidechain_id = cw_start E (\<lambda>mc_node sc_node.
     pseq (bl_forward E sidechain_id mc_node sc_node 100) (
     pbind (mc_call E mc_node ''getnewaddress'' []) (\<lambda>bt_address.
     pseq (bl_withdraw E sc_node bt_address 54 999) (
     pseq (check_consensus_epoch E sc_node 2) (
     pbind (generate_next_block E sc_node ''first node'' True PNone) (\<lambda>sc_block_id.
     pseq (check_consensus_epoch E sc_node 3) (
     pseq (check_tx_count E sc_node 0 sc_block_id) (
     pseq (mc_call E mc_node ''generate'' [PInt 1])
       (pbind (bl_next E sc_node) (check_tx_count E sc_node 1))))))))))"

section \<open>Properties\<close>

subsection \<open>What a run adds to an observation\<close>

text \<open>A program that, whenever it returns, adds \<open>d\<close> to an observation of the world: the requests of a kind that were
  made, or the blocks that were asked for.\<close>

definition accrues :: "('w world \<Rightarrow> 'm) \<Rightarrow> ('m \<Rightarrow> 'm \<Rightarrow> 'm) \<Rightarrow> 'm \<Rightarrow> ('w, 'a) prog \<Rightarrow> bool" where
  "accrues obs cat d m \<longleftrightarrow> (\<forall>s r t. m s = Some (Inr r, t) \<longrightarrow> obs t = cat (obs s) d)"

lemma accruesD: "accrues obs cat d m \<Longrightarrow> m s = Some (Inr r, t) \<Longrightarrow> obs t = cat (obs s) d"
  unfolding accrues_def by blast

locale accumulator =
  fixes obs :: "'w world \<Rightarrow> 'm" and cat :: "'m \<Rightarrow> 'm \<Rightarrow> 'm" and none :: 'm
  assumes assoc: "cat (cat a b) c = cat a (cat b c)"
    and unit_left: "cat none a = a" and unit_right: "cat a none = a"
begin

lemma kept: "keeps obs m \<Longrightarrow> accrues obs cat none m"
  unfolding accrues_def by (auto dest: keepsD simp: unit_right)

lemma bind: "accrues obs cat a m \<Longrightarrow> (\<And>x. accrues obs cat b (f x)) \<Longrightarrow> accrues obs cat (cat a b) (pbind m f)"
  unfolding accrues_def by (fastforce simp: pbind_Inr_iff assoc)

lemmas units = assoc unit_left unit_right

end

text \<open>The observations of the tests: only requests for blocks and for withdrawals count, \<open>gen\<close> and \<open>wd\<close> is what they add.\<close>

locale test_trace = accumulator obs cat none
  for obs :: "'w world \<Rightarrow> 'm" and cat :: "'m \<Rightarrow> 'm \<Rightarrow> 'm" and none :: 'm +
  fixes E :: "'w env" and mc_node :: mc_node and sc_node :: sc_node and bt_address :: pyval
    and gen :: "int \<Rightarrow> 'm" and wd :: "int \<Rightarrow> 'm"
  assumes sc: "m \<noteq> ''transaction_withdrawCoins'' \<Longrightarrow> keeps obs (sc_call E n m args)" and kw: "m \<noteq> ''transaction_withdrawCoins'' \<Longrightarrow> keeps obs (sc_call_kw E n m kws)"
    and slept: "keeps obs (py_sleep E d)" and mc: "m \<noteq> ''generate'' \<Longrightarrow> keeps obs (mc_call E mn m args)"
    and generated: "accrues obs cat (gen k) (mc_call E mc_node ''generate'' [PInt k])"
    and withdrawn: "accrues obs cat (wd k) (bl_withdraw E sc_node bt_address 10000 k)"
begin

lemma forge_loop: "E' = E \<Longrightarrow> keeps obs (forge_loop E' n tx k c es r)"
proof (induction E' n tx k c es r rule: forge_loop.induct)
  case (1 E' n tx k c es r)
  then have step: "keeps obs (sc_call E' n ''block_generate'' args)" for args by (simp add: sc)
  show ?case
    by (subst forge_loop.simps, unfold Let_def forge_at_def, intro keep_intros step) (rule 1, assumption+, rule refl, rule 1)
qed

lemmas forge_loop_kept = forge_loop [OF refl]

lemma forge: "keeps obs (generate_next_block E n nm force tx)" "keeps obs (generate_one E n nm)" "keeps obs (bl_next E n)"
  unfolding generate_one_def bl_next_def generate_next_blocks_def generate_next_block_def forging_start_def forge_at_def
  by (intro keep_intros sc forge_loop_kept; simp)+

lemma found: "keeps obs (http_block_findById E n b)"
  unfolding http_block_findById_def result_or_raise_def json_call_def post_call_def by (intro keep_intros sc; simp)

lemma present: "keeps obs (check_mcreferencedata_presence E h b n)" "keeps obs (check_mcreference_presence E h b n)"
  unfolding check_mcreference_presence_def check_mcheader_presence_def check_mcreferencedata_presence_def block_field_def
  by (intro keep_intros kw; simp)+

lemma counted: "keeps obs (block_txs E n b)" "keeps obs (check_tx_count E n k b)" "keeps obs (first_tx_id E n b)"
  unfolding check_tx_count_def first_tx_id_def block_txs_def at_path_def by (intro keep_intros found)+

lemma waited: "keeps obs (bt_wait E delay mn n)"
  unfolding bt_wait_def await_certs_def submission_round_def still_waiting_def check_pool_def mempool_size_def ask_states_def ping_nodes_def
    any_active.simps cert_generation_active_def sc_field_def
  by (intro keep_intros sc mc slept; simp)

text \<open>Every step of the tests of the limit, with what it adds.\<close>

lemmas plain = kept [OF forge(1)] kept [OF forge(2)] kept [OF forge(3)] kept [OF found] kept [OF present(1)] kept [OF present(2)]
  kept [OF counted(1)] kept [OF counted(2)] kept [OF counted(3)] kept [OF waited] kept [OF keeps_basic(1)] kept [OF keeps_basic(2)]

lemma generated_nth: "accrues obs cat (gen k) (mc_generate E mc_node k i)"
  using bind [OF generated kept [OF keeps_basic(2)]] unfolding mc_generate_def by (simp add: units)

lemma withdrawn_id: "accrues obs cat (wd k) (bl_withdraw_id E sc_node bt_address k)"
  using bind [OF withdrawn kept [OF keeps_basic(2)]] unfolding bl_withdraw_id_def at_path_def by (simp add: units)

lemma ended: "accrues obs cat (gen blocks) (bl_end E mc_node epoch blocks i)"
proof -
  have "keeps obs (mc_field E mc_node ''getblock'' [h] ks)" for h ks unfolding mc_field_def by (intro keep_intros mc) simp
  then have "accrues obs cat (cat (gen blocks) (cat none (cat none (cat none none)))) (bl_end E mc_node epoch blocks i)"
    unfolding bl_end_def by (intro bind generated_nth kept keep_intros)
  then show ?thesis by (simp add: units)
qed

lemmas steps = bind generated_nth generated withdrawn_id withdrawn ended plain

lemma closed: "accrues obs cat (gen blocks) (bl_close E mc_node sc_node epoch blocks i)"
proof -
  have "accrues obs cat (cat (gen blocks) (cat none (cat none none))) (bl_close E mc_node sc_node epoch blocks i)"
    unfolding bl_close_def by (intro steps)
  then show ?thesis by (simp add: units)
qed

lemma opened: "accrues obs cat (cat (gen 1) (gen 1)) (bl_open_1 E mc_node sc_node)"
proof -
  have "keeps obs (check_consensus_epoch E sc_node e)" for e
    unfolding check_consensus_epoch_def http_block_forging_info_def at_path_def by (intro keep_intros sc) simp
  note epoch = kept [OF this]
  have "accrues obs cat (cat (gen 1) (cat none (cat none (cat (gen 1) (cat none none))))) (bl_open_1 E mc_node sc_node)"
    unfolding bl_open_1_def by (intro steps epoch)
  then show ?thesis by (simp add: units)
qed

lemma slots_filled:
  "accrues obs cat (cat (wd 999) (cat (gen 1) (cat (wd 98) (cat (wd 80) (cat (wd 80) (cat (wd 999) (cat (wd 999) (gen 6)))))))) (bl_fill E mc_node sc_node bt_address)"
proof -
  have "accrues obs cat (cat (wd 999) (cat none (cat none (cat none (cat (gen 1) (cat (cat none none) (cat (wd 98) (cat (cat none none) (cat (wd 80)
      (cat (wd 80) (cat (cat none none) (cat (wd 999) (cat (wd 999) (cat (gen (BL_EPOCH_LENGTH - 1 - 1 - 1 - 2)) (cat none none)))))))))))))))
      (bl_fill E mc_node sc_node bt_address)"
    unfolding bl_fill_def Let_def by (intro steps)
  then show ?thesis by (simp add: units BL_EPOCH_LENGTH_def)
qed

lemma slots_exhausted: "accrues obs cat (cat (wd remaining_wbs) (cat (gen 1) (cat (wd 999) (gen 1)))) (bl_last E mc_node sc_node bt_address)"
proof -
  have "accrues obs cat (cat (wd remaining_wbs) (cat (gen 1) (cat (cat none none) (cat none (cat (wd 999) (cat (gen 1) none)))))) (bl_last E mc_node sc_node bt_address)"
    unfolding bl_last_def by (intro steps closed)
  then show ?thesis by (simp add: units)
qed

lemma second_epoch: "accrues obs cat (cat (gen 1) (cat (gen 1) (cat (wd 300) (cat (gen 3) (gen 6))))) (bl_epoch_2 E mc_node sc_node bt_address tx)"
proof -
  have "accrues obs cat (cat (gen 1) (cat none (cat none (cat none (cat none (cat (gen 1) (cat (wd 300) (cat none (cat none (cat none (cat none (cat none
      (cat (gen 3) (cat (cat none none) (cat none (cat (gen (BL_EPOCH_LENGTH - 1 - 1 - 3)) (cat none (cat none none)))))))))))))))))) (bl_epoch_2 E mc_node sc_node bt_address tx)"
    unfolding bl_epoch_2_def by (intro steps)
  then show ?thesis by (simp add: units BL_EPOCH_LENGTH_def)
qed

lemma slots_run: "accrues obs cat (cat (wd 999) (cat (gen 1) (cat (wd 98) (cat (wd 80) (cat (wd 80) (cat (wd 999) (cat (wd 999) (cat (gen 6)
    (cat (wd remaining_wbs) (cat (gen 1) (cat (wd 999) (gen 1)))))))))))) (bl_slots E mc_node sc_node bt_address)"
  using bind [OF slots_filled slots_exhausted] unfolding bl_slots_def by (simp add: units)

end

subsection \<open>Blocks and requests\<close>

text \<open>The arguments of the withdrawal requests that a node got, and those of a request for \<open>n\<close> withdrawals.\<close>

definition withdrawals :: "sc_node \<Rightarrow> 'w world \<Rightarrow> pyval list list" where
  "withdrawals node s = concat (map (\<lambda>ev. case ev of ScCall n m args _ \<Rightarrow> if n = node \<and> m = ''transaction_withdrawCoins'' then [args] else [] | _ \<Rightarrow> []) (w_calls s))"

definition wb_body :: "pyval \<Rightarrow> int \<Rightarrow> nat \<Rightarrow> pyval" where
  "wb_body bt_address amount n = PDict [(''outputs'', PList (replicate n (PDict [(''mainchainAddress'', bt_address), (''value'', PInt amount)]))), (''fee'', PInt 0)]"

definition wb_request :: "pyval \<Rightarrow> nat \<Rightarrow> pyval list" where
  "wb_request bt_address n = (case json_dumps (wb_body bt_address 10000 n) of Inr t \<Rightarrow> [PStr t] | Inl _ \<Rightarrow> [])"

lemma bl_withdraw_body:
  "bl_withdraw E sc_node bt_address amount k = json_call E sc_node ''transaction_withdrawCoins'' (wb_body bt_address amount (min (nat k) 999)) None"
proof -
  have "zip (replicate n a) (replicate n b) = replicate n (a, b)" for n and a b :: pyval by (induction n) auto
  then show ?thesis by (simp add: bl_withdraw_def withdrawMultiCoins_def wb_body_def outputs_to_def min.commute)
qed

lemma withdrawals_basic:
  "m \<noteq> ''transaction_withdrawCoins'' \<Longrightarrow> keeps (withdrawals node) (sc_call E n m args)"
  "m \<noteq> ''transaction_withdrawCoins'' \<Longrightarrow> keeps (withdrawals node) (sc_call_kw E n m kws)" "keeps (withdrawals node) (py_sleep E d)"
  "keeps (withdrawals node) (mc_call E mn mm args)"
  by (auto simp: keeps_def ext_defs pact_run withdrawals_def)

lemma withdrawals_request:
  "accrues (withdrawals sc_node) (@) [wb_request bt_address (min (nat k) 999)] (bl_withdraw E sc_node bt_address 10000 k)"
  by (auto simp: accrues_def bl_withdraw_body json_call_def post_call_def pbind_Inr_iff wb_request_def sc_call_run withdrawals_def)

lemma mc_blocks_asked_kw: "keeps (mc_blocks_asked node) (sc_call_kw E n m kws)"
  by (auto simp: keeps_def ext_defs pact_run mc_blocks_asked_def)

lemma mc_blocks_asked_withdraw: "keeps (mc_blocks_asked node) (bl_withdraw E sc_node bt_address amount k)"
  unfolding bl_withdraw_body json_call_def post_call_def by (intro keep_intros mc_blocks_asked_basic)

interpretation asked: test_trace "mc_blocks_asked mc_node" "(+)" 0 E mc_node sc_node bt_address "\<lambda>k. k" "\<lambda>k. 0"
  for E :: "'w env" and mc_node sc_node bt_address
  by unfold_locales (auto simp: accrues_def dest: mc_blocks_asked_generate keepsD [OF mc_blocks_asked_withdraw]
      intro: mc_blocks_asked_basic mc_blocks_asked_kw)

interpretation requests: test_trace "withdrawals sc_node" "(@)" "[]" E mc_node sc_node bt_address "\<lambda>k. []" "\<lambda>k. [wb_request bt_address (min (nat k) 999)]"
  for E :: "'w env" and mc_node sc_node bt_address
proof unfold_locales
  show "accrues (withdrawals sc_node) (@) [] (mc_call E mc_node ''generate'' [PInt k])" for k
    using keepsD [OF withdrawals_basic(4)] by (auto simp: accrues_def)
qed (auto intro: withdrawals_basic withdrawals_request)

text \<open>C25. In the first epoch with the limit, a successful run of the test asks the node for exactly as many withdrawals as the limit
  allows, in transactions of at most 999, before the last transaction, which exceeds it; and the mainchain blocks that it asks for are
  exactly those of one withdrawal epoch.\<close>
theorem bt_limit_exhausted:
  assumes "bl_epoch_1 E mc_node sc_node s = Some (Inr (bt_address, tx_id), t)"
  shows "\<exists>ns. withdrawals sc_node t = withdrawals sc_node s @ map (wb_request bt_address) (ns @ [999]) \<and>
    int (sum_list ns) = MAX_WBS_PER_EPOCH \<and> (\<forall>n \<in> set ns. n \<le> 999) \<and> mc_blocks_asked mc_node t = mc_blocks_asked mc_node s + BL_EPOCH_LENGTH"
proof -
  from assms obtain u v where run: "bl_open_1 E mc_node sc_node s = Some (Inr (), u)" "mc_call E mc_node ''getnewaddress'' [] u = Some (Inr bt_address, v)"
      "bl_slots E mc_node sc_node bt_address v = Some (Inr tx_id, t)"
    by (auto simp: bl_epoch_1_def pbind_Inr_iff)
  have left: "remaining_wbs = 744" by (simp add: remaining_wbs_def MAX_WBS_PER_EPOCH_def wbs_mined_def)
  have "keeps (mc_blocks_asked mc_node) (mc_call E mc_node ''getnewaddress'' [])" by (rule mc_blocks_asked_basic) simp
  from keepsD [OF this run(2)] accruesD [OF asked.opened run(1)] accruesD [OF asked.slots_run run(3)]
  have "mc_blocks_asked mc_node t = mc_blocks_asked mc_node s + 11" by simp
  moreover from keepsD [OF withdrawals_basic(4) run(2)] accruesD [OF requests.opened run(1)] accruesD [OF requests.slots_run run(3)]
  have "withdrawals sc_node t = withdrawals sc_node s @ map (wb_request bt_address) ([999, 98, 80, 80, 999, 999, 744] @ [999])" by (simp add: left)
  ultimately show ?thesis
    by (intro exI [of _ "[999, 98, 80, 80, 999, 999, 744]"]) (simp add: MAX_WBS_PER_EPOCH_def BL_EPOCH_LENGTH_def)
qed

text \<open>The second epoch with the limit is one epoch of mainchain blocks, too.\<close>
theorem second_epoch_filled:
  assumes "bl_epoch_2 E mc_node sc_node bt_address tx_id s = Some (Inr (), t)"
  shows "mc_blocks_asked mc_node t = mc_blocks_asked mc_node s + BL_EPOCH_LENGTH"
  using accruesD [OF asked.second_epoch assms] by (simp add: BL_EPOCH_LENGTH_def)

subsection \<open>Outputs of a certificate\<close>

lemma check_eq_Inr: "check_eq a b msg s = Some (Inr (), t) \<longleftrightarrow> py_eq a b \<and> t = s"
  by (auto simp: assert_equal_def rerr_def Let_def)

lemma check_output_Inr:
  "check_output sc_cert i address amount name s = Some (Inr (), t) \<longleftrightarrow>
     t = s \<and> (\<exists>a v. output_field sc_cert i ''address'' = Inr a \<and> output_field sc_cert i ''amount'' = Inr v \<and> py_eq address a \<and> py_eq (PInt amount) v)"
  by (auto simp: check_output_def pbind_Inr_iff check_eq_Inr simp del: plift_run) (auto simp: check_eq_Inr)

text \<open>When the check of the certificate with two withdrawals passes, the certificate has two outputs, which go to the two addresses in
  their order, with the amounts that were requested, and their sum is the forward transfer.\<close>
theorem synced_transfers_exact:
  fixes s :: "'w world"
  assumes "check_synced info epoch tree_root 2 (two_transfers_to a1 a2) cert_hash sc_cert s = Some (Inr (), t)"
  shows "\<exists>outs v1 v2. bt_outputs sc_cert = Inr outs \<and> py_len outs = Inr 2 \<and>
    (\<exists>b1. output_field sc_cert 0 ''address'' = Inr b1 \<and> py_eq a1 b1) \<and> output_field sc_cert 0 ''amount'' = Inr v1 \<and> py_eq (PInt 700000000) v1 \<and>
    (\<exists>b2. output_field sc_cert 1 ''address'' = Inr b2 \<and> py_eq a2 b2) \<and> output_field sc_cert 1 ''amount'' = Inr v2 \<and> py_eq (PInt 300000000) v2"
proof -
  from assms obtain outs where outs: "bt_outputs sc_cert = Inr outs" "py_len outs = Inr 2"
    by (auto simp: check_synced_def check_sc_cert_def field_is_def pbind_Inr_iff rbind_Inr_iff assert_equal_def rerr_def Let_def split: if_splits)
  from assms have "\<exists>(u :: 'w world) v w. check_output sc_cert 0 a1 700000000 ''First'' u = Some (Inr (), v) \<and> check_output sc_cert 1 a2 300000000 ''Second'' v = Some (Inr (), w)"
    by (auto simp: check_synced_def two_transfers_to_def BT_AMOUNT1_def BT_AMOUNT2_def FT_AMOUNT_def pbind_Inr_iff simp del: plift_run)
  with outs show ?thesis by (auto simp: check_output_Inr)
qed

text \<open>The test of the smallest withdrawal never looks at the third output: whatever it is, the outcome of the check is the same.\<close>
theorem third_output_unchecked:
  "(check_synced info epoch tree_root 3 (mv_transfers a1 a2) cert_hash (PDict (d @ [(''backwardTransferOutputs'', PList [x, y, z])])) :: ('w, unit) prog) =
   check_synced info epoch tree_root 3 (mv_transfers a1 a2) cert_hash (PDict (d @ [(''backwardTransferOutputs'', PList [x, y, z'])]))"
proof -
  let ?c = "\<lambda>z. PDict (d @ [(''backwardTransferOutputs'', PList [x, y, z])])"
  have "py_get (?c z) k = py_get (?c z') k" if "k \<noteq> ''backwardTransferOutputs''" for k using that by (simp add: map_add_def split: option.splits)
  then have other: "field_is (?c z) k = (field_is (?c z') k :: _ \<Rightarrow> _ \<Rightarrow> ('w, unit) prog)" if "k \<noteq> ''backwardTransferOutputs''" for k
    using that by (intro ext) (simp add: field_is_def del: py_get.simps)
  have outs: "bt_outputs (?c z) = bt_outputs (?c z') \<or> (bt_outputs (?c z) = Inr (PList [x, y, z]) \<and> bt_outputs (?c z') = Inr (PList [x, y, z']))"
    by (simp add: bt_outputs_def map_add_def split: option.splits)
  then have "output_field (?c z) i k = output_field (?c z') i k" if "i = 0 \<or> i = 1" for i k
    using that by (auto simp: output_field_def py_nth_def list_get_def)
  then have "check_output (?c z) i = (check_output (?c z') i :: _ \<Rightarrow> _ \<Rightarrow> _ \<Rightarrow> ('w, unit) prog)" if "i = 0 \<or> i = 1" for i using that by (intro ext) (simp add: check_output_def)
  moreover have "rbind (bt_outputs (?c z)) py_len = rbind (bt_outputs (?c z')) py_len" using outs by auto
  ultimately show ?thesis by (simp add: check_synced_def check_sc_cert_def other mv_transfers_def)
qed

subsection \<open>Example\<close>

text \<open>A run of the epoch with the limit: the answers of the nodes in their order.\<close>

definition wd_reply :: "string \<Rightarrow> pyval res" where
  "wd_reply tx = Inr (PDict [(''result'', PDict [(''transactionId'', PStr tx)])])"

definition txs_reply :: "string list \<Rightarrow> pyval res" where
  "txs_reply txs = Inr (PDict [(''result'', PDict [(''block'', PDict [(''sidechainTransactions'', PList (map (\<lambda>x. PDict [(''id'', PStr x)]) txs)),
     (''mainchainBlockReferencesData'', PList [PDict [(''headerHash'', PStr ''h'')]])])])])"

definition hashes_reply :: "pyval res" where "hashes_reply = Inr (PList [PStr ''h''])"
definition pooled_reply :: "pyval res" where "pooled_reply = Inr (PDict [(''size'', PInt 1)])"

abbreviation forged :: "pyval res list" where "forged \<equiv> [forging_reply 720 2 5, block_reply ''b'']"

lemma plays_forged [play_intros]:
  "plays mcs scs (generate_next_block sample_env (sample_node a) name force PNone) (t, forging_reply 720 2 5 # block_reply b # rs) (Inr (PStr b)) (t, rs)"
  "plays mcs scs (generate_one sample_env (sample_node a) name) (t, forging_reply 720 2 5 # block_reply b # rs) (Inr (PStr b)) (t, rs)"
  "plays mcs scs (bl_next sample_env (sample_node a)) (t, forging_reply 720 2 5 # block_reply b # rs) (Inr (PStr b)) (t, rs)"
  by (simp_all add: plays_def replay_world_def generate_one_def generate_next_blocks_def bl_next_def py_range_def list_get_def forging_run sample_run pbind_run)

lemma plays_generated [play_intros]: "plays mcs scs (mc_generate sample_env mn k 0) (t, hashes_reply # rs) (Inr (PStr ''h'')) (t, rs)"
  unfolding mc_generate_def hashes_reply_def by (rule play_intros | simp add: py_nth_def list_get_def)+

lemma plays_txs [play_intros]:
  "n = int (length txs) \<Longrightarrow> plays mcs scs (check_tx_count sample_env (sample_node a) n (PStr b)) (t, txs_reply txs # rs) (Inr ()) (t, rs)"
  "plays mcs scs (first_tx_id sample_env (sample_node a) (PStr b)) (t, txs_reply (x # txs) # rs) (Inr (PStr x)) (t, rs)"
  "plays mcs scs (block_txs sample_env (sample_node a) (PStr b)) (t, txs_reply [] # rs) (Inr (PList [])) (t, rs)"
  unfolding check_tx_count_def first_tx_id_def block_txs_def at_path_def http_block_findById_def txs_reply_def
  by (rule play_intros refl | simp add: py_nth_def list_get_def assert_equal_def)+

lemma plays_withdraw [play_intros]:
  "plays mcs scs (bl_withdraw sample_env (sample_node a) (PStr z) amount k) (t, wd_reply x # rs) (wd_reply x) (t, rs)"
  unfolding bl_withdraw_body wb_body_def by (rule play_intros) (simp add: list_all_iff)

lemma plays_withdraw_id [play_intros]:
  "plays mcs scs (bl_withdraw_id sample_env (sample_node a) (PStr z) k) (t, wd_reply x # rs) (Inr (PStr x)) (t, rs)"
  unfolding bl_withdraw_id_def at_path_def
  by (rule plays_pbind [OF plays_withdraw [of _ _ _ _ _ _ _ x, unfolded wd_reply_def], folded wd_reply_def]) (rule play_intros, simp)

lemma plays_wait: "plays mcs scs (bt_wait sample_env 10 mn (sample_node a)) (t, pooled_reply # pooled_reply # rs) (Inr ()) (t + 10, rs)"
proof -
  have "\<exists>c'. py_loop (submission_round sample_env mn pool_empty [sample_node a] [] [sample_node a]) (replay_world mcs scs c (t, pooled_reply # rs)) =
      Some (Inr (), replay_world mcs scs c' (t, rs))" for c t rs
    by (subst py_loop.simps) (simp add: submission_round_def still_waiting_def mempool_size_def pool_empty_def pooled_reply_def replay_world_def
        sample_run pbind_run mc_call_run)
  then have "plays mcs scs (py_loop (submission_round sample_env mn pool_empty [sample_node a] [] [sample_node a])) (t, pooled_reply # rs) (Inr ()) (t, rs)" for t rs
    unfolding plays_def by blast
  moreover have "plays mcs scs (check_pool sample_env mn 1 msg) (t, pooled_reply # rs) (Inr ()) (t, rs)" for msg t rs
    unfolding check_pool_def mempool_size_def pooled_reply_def by (rule play_intros | simp add: assert_equal_def)+
  ultimately show ?thesis unfolding bt_wait_def await_certs_def by (blast intro: play_intros)
qed

definition bl_open_replies :: "pyval res list" where
  "bl_open_replies = [hashes_reply] @ forged @ [pooled_reply, pooled_reply, hashes_reply] @ forged @ [forging_reply 720 3 5]"

definition bl_fill_replies :: "pyval res list" where
  "bl_fill_replies = [wd_reply ''w''] @ forged @ [txs_reply [], hashes_reply] @ forged @ [txs_reply [''w''], wd_reply ''w''] @ forged @
     [txs_reply [''w''], wd_reply ''w'', wd_reply ''w''] @ forged @ [txs_reply [''w''], wd_reply ''w'', wd_reply ''w'', hashes_reply] @ forged @
     [txs_reply [''w'', ''w'', ''w'']]"

definition bl_last_replies :: "pyval res list" where
  "bl_last_replies = [wd_reply ''x'', hashes_reply] @ forged @ [txs_reply [''x''], wd_reply ''y'', hashes_reply,
     Inr (PDict [(''scCumTreeHash'', PStr ''r'')])] @ forged @ [txs_reply [], txs_reply []]"

lemma plays_open: "plays mcs scs (bl_open_1 sample_env mn (sample_node a)) (t, bl_open_replies @ rs) (Inr ()) (t + 10, rs)"
proof -
  have epoch: "plays mcs scs (check_consensus_epoch sample_env (sample_node a) 3) (t, forging_reply 720 3 5 # rs) (Inr ()) (t, rs)" for t rs
    unfolding check_consensus_epoch_def http_block_forging_info_def at_path_def forging_reply_def by (rule play_intros | simp add: assert_equal_def)+
  show ?thesis unfolding bl_open_1_def bl_open_replies_def append.simps append_assoc by (rule play_intros plays_wait epoch)+
qed

lemma plays_fill: "plays mcs scs (bl_fill sample_env mn (sample_node a) (PStr z)) (t, bl_fill_replies @ rs) (Inr ()) (t, rs)"
proof -
  have wd: "plays mcs scs (bl_withdraw sample_env (sample_node a) (PStr z) amount k) (t, wd_reply x # rs) (Inr (PDict [(''result'', PDict [(''transactionId'', PStr x)])])) (t, rs)"
    for amount k x t rs using plays_withdraw by (metis wd_reply_def)
  have gen: "plays mcs scs (mc_call sample_env mn ''generate'' args) (t, hashes_reply # rs) (Inr (PList [PStr ''h''])) (t, rs)" for args t rs
    unfolding hashes_reply_def by (rule play_intros)
  show ?thesis unfolding bl_fill_def Let_def bl_fill_replies_def append.simps append_assoc
    by (rule wd gen plays_pbind plays_forged plays_generated plays_txs | rule plays_plift, simp add: assert_equal_def | simp)+
qed

lemma plays_last: "plays mcs scs (bl_last sample_env mn (sample_node a) (PStr z)) (t, bl_last_replies @ rs) (Inr (PStr ''y'')) (t, rs)"
proof -
  have refs: "plays mcs scs (check_mcreferencedata_presence sample_env (PStr ''h'') (PStr b) (sample_node a)) (t, txs_reply txs # rs) (Inr ()) (t, rs)" for b txs t rs
    unfolding check_mcreferencedata_presence_def block_field_def txs_reply_def by (rule play_intros | simp add: some_field_is_def)+
  have found: "\<exists>v. plays mcs scs (http_block_findById sample_env (sample_node a) (PStr b)) (t, txs_reply txs # rs) (Inr v) (t, rs)" for b txs t rs
    unfolding http_block_findById_def txs_reply_def by (intro exI) (rule play_intros | simp)+
  have "plays mcs scs (bl_end sample_env mn 0 1 0) (t, hashes_reply # Inr (PDict [(''scCumTreeHash'', PStr ''r'')]) # rs) (Inr (PStr ''h'')) (t, rs)" for t rs
    unfolding bl_end_def by (rule plays_pbind plays_generated plays_pret | rule plays_plift plays_field, simp)+
  then have closed: "plays mcs scs (bl_close sample_env mn (sample_node a) 0 1 0)
      (t, hashes_reply # Inr (PDict [(''scCumTreeHash'', PStr ''r'')]) # forged @ txs_reply [] # txs_reply [] # rs) (Inr ()) (t, rs)" for t rs
    unfolding bl_close_def append.simps using found [of "''b''" t "[]" "txs_reply [] # rs"] by (elim exE) (rule plays_pbind plays_forged refs | assumption)+
  show ?thesis unfolding bl_last_def bl_last_replies_def append_assoc append.simps
    by (rule plays_pbind plays_withdraw_id plays_forged plays_generated plays_txs plays_pret closed [unfolded append.simps] | rule plays_plift, simp add: assert_equal_def | simp)+
qed

lemma plays_epoch_1:
  "plays mcs scs (bl_epoch_1 sample_env mn (sample_node a)) (t, bl_open_replies @ Inr (PStr ''z'') # bl_fill_replies @ bl_last_replies) (Inr (PStr ''z'', PStr ''y'')) (t + 10, [])"
proof -
  have last: "plays mcs scs (bl_last sample_env mn (sample_node a) (PStr ''z'')) (t, bl_last_replies) (Inr (PStr ''y'')) (t, [])" for t
    using plays_last [of mcs scs mn a "''z''" t "[]"] by simp
  show ?thesis unfolding bl_epoch_1_def bl_slots_def by (rule plays_pbind plays_open plays_fill last plays_calls plays_pret)+
qed

theorem bt_limit_exhausted_witness:
  "\<exists>s t. bl_epoch_1 sample_env sample_mc (sample_node ''a'') s = Some (Inr (PStr ''z'', PStr ''y''), t) \<and>
    length (withdrawals (sample_node ''a'') s) < length (withdrawals (sample_node ''a'') t) \<and> mc_blocks_asked sample_mc t = mc_blocks_asked sample_mc s + 11"
proof -
  let ?s = "replay_world [] [] [] (0, bl_open_replies @ Inr (PStr ''z'') # bl_fill_replies @ bl_last_replies)"
  obtain c where run: "bl_epoch_1 sample_env sample_mc (sample_node ''a'') ?s = Some (Inr (PStr ''z'', PStr ''y''), replay_world [] [] c (0 + 10, []))"
    using playsD [OF plays_epoch_1] by blast
  from bt_limit_exhausted [OF run] obtain ns where "withdrawals (sample_node ''a'') (replay_world [] [] c (0 + 10, [])) =
      withdrawals (sample_node ''a'') ?s @ map (wb_request (PStr ''z'')) (ns @ [999])"
    "mc_blocks_asked sample_mc (replay_world [] [] c (0 + 10, [])) = mc_blocks_asked sample_mc ?s + BL_EPOCH_LENGTH" by blast
  then show ?thesis using run by (intro exI [of _ ?s] exI [of _ "replay_world [] [] c (0 + 10, [])"]) (simp add: BL_EPOCH_LENGTH_def)
qed

end
