(* ===== verification/Spec2Isabelle.thy ===== *)
theory Spec2Isabelle
  imports Secure_Enclave Websocket Alien_Sidechain Auth_Proxy
    Storage_Recovery Stakes_Pager Fee_Payments Forging_Tests Key_Rotation_Nodes Backward_Transfers
begin

text \<open>
  \<^bold>\<open>Verification of the Python test framework of the Horizen Sidechains SDK.\<close>

  The framework under \<^verbatim>\<open>src/qa\<close> starts networks of mainchain nodes (\<^verbatim>\<open>zend\<close>) and sidechain nodes (Java
  applications built on the SDK), bootstraps sidechains with external tools, drives the nodes over HTTP,
  and checks what they answer. The functional tests are scripts on top of it. This development models
  the framework, function by function, and proves what the tests rely on; on top of it, it models functional
  tests and proves what it means that they pass.

  \<^bold>\<open>How programs are modelled.\<close>
  Python values are the datatype \<open>pyval\<close>; a function that may raise returns \<open>'a res\<close>, with the class,
  message and arguments of the exception on the left. A function with effects is a \<open>prog\<close>: it maps the
  world to a result and the next world, or to \<open>None\<close> when it never returns. The \<open>world\<close> holds the global
  variables of the framework, the attributes of the running test, the trace \<open>w_calls\<close> of all external
  actions in their order, and the state of everything outside. What is outside is a parameter, the
  record \<open>env\<close> with one field per operation (node APIs, clock, files, processes, sockets, random
  numbers); theorems hold for every environment unless they state what they need of it.
  Loops \<^verbatim>\<open>while True\<close> are \<open>py_loop\<close>, a partial function in the option type; termination is proved from an
  assumption on the clock (\<open>steady_clock\<close>: sleeping advances it), never assumed. Loops over lists and
  ranges are structural recursions, so there is no fuel except in two places: the JSON reader gets the
  length of its input, which bounds its depth, and the websocket client counts the attempts its source
  allows. Integers are unbounded, as in Python; the port arithmetic is bounded by explicit theorems.

  \<^bold>\<open>Theories, from the bottom.\<close>
  \<^item> \<open>Py_Prelude\<close>, \<open>Py_Effects\<close>, \<open>Py_Strings\<close>, \<open>Json\<close>: values, exceptions, dictionaries; programs and the
    calculus \<open>keeps\<close> (what a program leaves alone); texts, numbers, bytes; \<^verbatim>\<open>json.dumps\<close> and
    \<^verbatim>\<open>json.loads\<close> with the theorem that what is written is read back. \<open>Sample_Env\<close> is a concrete
    environment for the witnesses. \<open>Py_Float\<close>: the rounding of binary floats, with the bounds under which it changes
    nothing.
  \<^item> \<open>Polling\<close>: the loops that wait for a condition. The locales \<open>timed_poll\<close> and \<open>untimed_poll\<close> state the
    contract of such a loop; every waiting function of both frameworks is an interpretation.
  \<^item> \<open>Ports\<close> (port functions of \<^verbatim>\<open>scutil.py\<close> and \<^verbatim>\<open>util.py\<close>): nodes of up to ten parallel groups never
    share a port; mainchain groups clash from the eleventh, sidechain groups from the sixteenth. \<open>Processes\<close>: the locale of the two process tables.
  \<^item> \<open>Util_Codec\<close>, \<open>Mc_Node\<close>, \<open>Mc_Wallet\<close>, \<open>Mc_Sidechain\<close> (\<^verbatim>\<open>test_framework/util.py\<close>): encodings and
    assertions; life cycle, connections and agreement of mainchain nodes; coins and change;
    sidechains seen from the mainchain.
  \<^item> \<open>Sc_Sync\<close>, \<open>Sc_Node\<close>, \<open>Forging\<close>, \<open>Sc_Checks\<close> (\<^verbatim>\<open>SidechainTestFramework/scutil.py\<close>,
    \<^verbatim>\<open>sc_forging_util.py\<close>): agreement and connections of sidechain nodes, their processes and command
    lines, forging of blocks, checks on blocks and balances.
  \<^item> \<open>Bootstrap_Info\<close>, \<open>Bootstrap\<close> (\<^verbatim>\<open>sc_boostrap_info.py\<close>, \<^verbatim>\<open>scutil.py\<close>): the configuration objects,
    keys and genesis data, and the configuration file of every node.
  \<^item> \<open>Test_Framework\<close> (\<^verbatim>\<open>test_framework.py\<close>, \<^verbatim>\<open>sc_test_framework.py\<close>): the steps of a test, shutdown and
    exit code after success and failure.
  \<^item> \<open>Auth_Proxy\<close> (\<^verbatim>\<open>authproxy.py\<close>, \<^verbatim>\<open>sidechainauthproxy.py\<close>): the refinement of node calls to HTTP
    requests; the locale \<open>response_reader\<close> carries the retry argument for both proxies.
  \<^item> \<open>Http_Calls\<close>, \<open>Account_Http\<close> (\<^verbatim>\<open>httpCalls\<close>, \<^verbatim>\<open>account/httpCalls\<close>): one definition per REST wrapper; the
    locale \<open>rest_request\<close> is their contract.
  \<^item> \<open>Account_Utils\<close>, \<open>Smart_Contract\<close>, \<open>Account_Setup\<close> (\<^verbatim>\<open>SidechainTestFramework/account\<close>): amounts and
    transactions of the account model, contracts (locale \<open>payload_maker\<close> for everything that is
    signed), and the base class of the account tests.
  \<^item> \<open>Alien_Sidechain\<close> (\<^verbatim>\<open>mc_test.py\<close>), \<open>Secure_Enclave\<close>, \<open>Websocket\<close>: the proof tool, the signing server and
    the websocket clients.

  \<^item> \<open>Test_Steps\<close>: what the functional tests share, the locale \<open>call_frame\<close> for the parts of the world that
    requests leave alone, and the relation \<open>plays\<close> that runs a program against a script of answers, for the
    witnesses.
  \<^item> \<open>Sync_Status\<close>, \<open>Storage_Recovery\<close>, \<open>Eoa_Transfers\<close>, \<open>Stakes_Pager\<close>, \<open>Pending_Certs\<close>, \<open>Delegator_Rewards\<close>: one
    functional test each (\<^verbatim>\<open>sc_evm_sync_status.py\<close>, \<^verbatim>\<open>sc_evm_storage_recovery.py\<close>, \<^verbatim>\<open>sc_evm_eoa2eoa.py\<close>,
    \<^verbatim>\<open>sc_evm_forger_stakes_pager.py\<close>, \<^verbatim>\<open>sc_evm_multiple_pending_certs_non_ceasing.py\<close>,
    \<^verbatim>\<open>sc_evm_forger_and_delegator_rewards.py\<close>), every method of the script as a definition.
  \<^item> \<open>Fee_Payments\<close> (\<^verbatim>\<open>mc_sc_forging_fee_payments.py\<close>, \<^verbatim>\<open>sc_evm_forging_fee_payments.py\<close>,
    \<^verbatim>\<open>sc_evm_forging_fee_payments_rollback.py\<close>, \<^verbatim>\<open>sc_evm_fee_payments_rpc.py\<close>): the distribution of fees to forgers, computed
    with floats as in the scripts. \<open>Forging_Tests\<close> (\<^verbatim>\<open>mc_sc_forging1.py\<close> to \<^verbatim>\<open>mc_sc_forging5.py\<close>, their variants with a delay
    and with the account model): mainchain references and ommers of forged blocks.
  \<^item> \<open>Key_Rotation\<close>, \<open>Key_Rotation_Utxo\<close>, \<open>Key_Rotation_Nodes\<close> (the scripts \<^verbatim>\<open>sc_cert_key_rotation*.py\<close> and
    \<^verbatim>\<open>sc_evm_cert_key_rotation*.py\<close>): the rotation of certificate signing keys with signatures from the enclave. The locale
    \<open>rotation_sender\<close> is what the loop over all keys needs of the operation that sends a rotation; it is
    interpreted for both models.
  \<^item> \<open>Cert_Submitters\<close> (\<^verbatim>\<open>sc_cert_submission_decentralization.py\<close>, \<^verbatim>\<open>sc_cert_submitter_*.py\<close>, \<^verbatim>\<open>sc_multiple_cert*.py\<close>,
    \<^verbatim>\<open>sc_evm_multiple_cert_submitters.py\<close>): signing keys and submitters on several nodes, and the one loop with which these
    tests wait for certificates. \<open>Ceased_Withdrawals\<close> (\<^verbatim>\<open>sc_ceased.py\<close>, \<^verbatim>\<open>sc_csw_*.py\<close>): sidechains that cease and the
    withdrawal of their boxes. \<open>Backward_Transfers\<close> (\<^verbatim>\<open>sc_backward_transfer*.py\<close>, \<^verbatim>\<open>sc_bwt_minimum_value.py\<close>, \<^verbatim>\<open>sc_bt_limit*.py\<close>):
    withdrawals to the mainchain and their limit. The locale \<open>accumulator\<close> and its extension \<open>test_trace\<close> compute what a run
    adds to an observation; they are interpreted for the blocks asked for and for the withdrawals requested.
  \<^item> \<open>Abi_Results\<close>, \<open>Event_Logs\<close>: the functions of the tests for native contracts that decode results and check
    events, against a reference encoder. The hypothesis \<open>static_abi\<close> says what the decoder \<^verbatim>\<open>eth_abi\<close> does with
    static types; it is shown to hold for a concrete decoder.

  \<^bold>\<open>What the theorems show.\<close>
  Forging tries the slots one after the other, each once, and stops at the first success or fatal
  reason; it always returns. Waiting functions with a timeout return when the clock runs, and what they
  waited for then holds; the mainchain versions have no timeout and can wait forever. Nodes that are
  started are registered, stopping them asks and waits for exactly the registered ones, and none is left; the sidechain framework shuts down after
  every failure whose report succeeds, the mainchain framework does not. Bootstrapping writes one configuration file
  per node and hands the tools exactly the parameters given. Coins are conserved when change is made.
  Transactions and deployments sign what was asked for, with the nonce that was determined, and a
  deployment reports the address that belongs to that nonce. A node call is one HTTP request, or two
  equal ones exactly when the connection was lost. A test that passes has observed what it claims: balances that add up after a
  transfer with status 0 or 1 (any other status passes unchecked), a node that was stopped, recovered, and has the same best block and storage version,
  every page of a list as the node numbers it; the readers of
  contract results return what was encoded, and the rewards that are expected distribute everything. A key is
  rotated with signatures of exactly the keys in force and of the new key, each from one run of the signing tool, every
  key once, and the enclave of each node holds the keys of that node. The checks of stake events accept exactly the events of their
  kind with the expected values. The wait for certificates ends when they come, and
  the keys of the signing nodes reach the threshold exactly where a test expects a certificate. Withdrawals from a ceased sidechain
  are sent in batches that the mainchain accepts, one for every box, each for the amount of the box. The test of the limit on withdrawals
  requests exactly as many as an epoch allows, within the mainchain blocks of one epoch. Some checks are shown to be empty: a failure that its
  own handler swallows, an address compared with itself, a comparison over a list that may be empty.

  \<^bold>\<open>What is not modelled.\<close>
  The other functional tests (scripts under \<^verbatim>\<open>src/qa\<close>), the option parser and the loggers, the web
  server around the enclave's handlers, \<^verbatim>\<open>get_coinbase_address\<close> (its result depends on the order of a Python
  set) and \<^verbatim>\<open>initialize_sc_chain_clean\<close> (its call has the wrong arguments). The Scala and Java sources are the
  other side of the environment. Amounts and shares of fees are rounded as binary floats are; elsewhere
  floats are exact numbers; the range of the exponent of floats and the 28 digits of the context of \<^verbatim>\<open>Decimal\<close> are not
  modelled, the amounts of the tests being far inside both. Strings are sequences of code points up to 255. Third-party packages (\<^verbatim>\<open>eth_utils\<close>, \<^verbatim>\<open>eth_abi\<close>, \<^verbatim>\<open>rlp\<close>, the websocket
  library) are parameters.

  \<^bold>\<open>How it can be extended.\<close>
  The other functional tests use the same calls; the closest are those of native contracts, whose decoding and checking
  functions are already here, and those of backward transfers.
\<close>

end
